(* ===== verification/Prelude.thy ===== *)
theory Prelude
  imports Complex_Main "HOL-Library.Word"
begin

text \<open>
  Shared ground of the development: the fact collections, the model's basic types, the part
  of Go's \<^verbatim>\<open>strings\<close> and \<^verbatim>\<open>sort\<close> packages the program calls, the error/transaction type, and
  generic lemmas on lists and maps.

  A Go string is a \<^typ>\<open>string\<close> (a list of bytes). The texts the program handles (symbols,
  sides, decimal numbers, identifiers) are ASCII; white space and letter case are the ASCII
  ones, and bytes above 127 are left alone. A \<^verbatim>\<open>time.Time\<close> is the \<^typ>\<open>int\<close> number of nanoseconds
  since Go's zero time, so \<^verbatim>\<open>IsZero\<close> is equality with 0, and a \<^verbatim>\<open>time.Duration\<close> is an \<^typ>\<open>int\<close>
  number of nanoseconds. A \<^verbatim>\<open>uint64\<close> is a \<open>64 word\<close>, so its additions wrap.
\<close>

named_theorems dec_simps \<open>values of the decimal operations\<close>
named_theorems book_intros \<open>introduction rules of the order book invariant\<close>
named_theorems ledger_simps \<open>effect of the ledger operations on the tables\<close>

type_synonym time = int
type_synonym duration = int
type_synonym uint64 = "64 word"
type_synonym uint32 = "32 word"

section \<open>Go's strings package\<close>

definition is_space :: "char \<Rightarrow> bool" where
  "is_space c \<longleftrightarrow> c \<in> set [CHR 0x09, CHR 0x0A, CHR 0x0B, CHR 0x0C, CHR 0x0D, CHR '' '']"

definition trim_space :: "string \<Rightarrow> string" where
  "trim_space s = rev (dropWhile is_space (rev (dropWhile is_space s)))"

definition trim_right :: "char \<Rightarrow> string \<Rightarrow> string" where
  "trim_right c s = rev (dropWhile (\<lambda>x. x = c) (rev s))"

definition trim_left :: "char \<Rightarrow> string \<Rightarrow> string" where
  "trim_left c s = dropWhile (\<lambda>x. x = c) s"

definition lower_char :: "char \<Rightarrow> char" where
  "lower_char c =
     (let n = of_char c :: int in if 65 \<le> n \<and> n \<le> 90 then char_of (n + 32) else c)"

definition upper_char :: "char \<Rightarrow> char" where
  "upper_char c =
     (let n = of_char c :: int in if 97 \<le> n \<and> n \<le> 122 then char_of (n - 32) else c)"

definition to_lower :: "string \<Rightarrow> string" where
  "to_lower s = map lower_char s"

definition to_upper :: "string \<Rightarrow> string" where
  "to_upper s = map upper_char s"

definition equal_fold :: "string \<Rightarrow> string \<Rightarrow> bool" where
  "equal_fold s t \<longleftrightarrow> to_lower s = to_lower t"

definition has_prefix :: "string \<Rightarrow> string \<Rightarrow> bool" where
  "has_prefix s p \<longleftrightarrow> take (length p) s = p"

definition str_contains :: "string \<Rightarrow> string \<Rightarrow> bool" where
  "str_contains s t = list_ex (\<lambda>i. has_prefix (drop i s) t) [0..<Suc (length s)]"

lemma trim_space_empty [simp]: "trim_space [] = []"
  by (simp add: trim_space_def)

lemma trim_space_id:
  assumes "\<And>c. c \<in> set s \<Longrightarrow> \<not> is_space c"
  shows "trim_space s = s"
proof -
  have d: "dropWhile is_space t = t" if "\<And>c. c \<in> set t \<Longrightarrow> \<not> is_space c" for t
    using that by (cases t) auto
  show ?thesis
    using assms d [of s] d [of "rev s"] by (simp add: trim_space_def)
qed

lemma dropWhile_rev_idem:
  "dropWhile P (rev (dropWhile P (rev (dropWhile P xs)))) = rev (dropWhile P (rev (dropWhile P xs)))"
proof (cases "dropWhile P (rev (dropWhile P xs)) = []")
  case True
  then show ?thesis by (simp only: True rev.simps dropWhile.simps)
next
  case False
  obtain n where n: "dropWhile P (rev (dropWhile P xs)) = drop n (rev (dropWhile P xs))" using dropWhile_eq_drop by blast
  have "rev (drop n (rev (dropWhile P xs))) = take (length (dropWhile P xs) - n) (dropWhile P xs)" by (simp add: rev_drop)
  then show ?thesis using False n hd_dropWhile [of P xs]
    by (cases "dropWhile P xs"; cases "length (dropWhile P xs) - n") auto
qed

lemma trim_space_idem [simp]: "trim_space (trim_space s) = trim_space s"
  by (simp add: trim_space_def dropWhile_rev_idem)

text \<open>Upper case keeps spaces, so a normalised key is not changed by normalising it again.\<close>

lemma is_space_code: "is_space c \<longleftrightarrow> (of_char c :: int) \<in> {9, 10, 11, 12, 13, 32}"
proof -
  have "c = x \<longleftrightarrow> (of_char c :: int) = of_char x" for x by simp
  note eqs = this [of "CHR 0x09"] this [of "CHR 0x0A"] this [of "CHR 0x0B"] this [of "CHR 0x0C"] this [of "CHR 0x0D"]
    this [of "CHR '' ''"]
  show ?thesis unfolding is_space_def set_simps insert_iff eqs by (simp add: of_char_def)
qed

lemma upper_char_cases:
  obtains "(97 :: int) \<le> of_char c" "of_char c \<le> (122 :: int)" "(of_char (upper_char c) :: int) = of_char c - 32"
  | "upper_char c = c" "\<not> ((97 :: int) \<le> of_char c \<and> (of_char c :: int) \<le> 122)"
  by (cases "(97 :: int) \<le> of_char c \<and> (of_char c :: int) \<le> 122") (auto simp: upper_char_def Let_def)

lemma upper_char_space: "is_space (upper_char c) = is_space c"
  by (cases c rule: upper_char_cases) (auto simp: is_space_code)

lemma upper_char_idem: "upper_char (upper_char c) = upper_char c"
  by (cases c rule: upper_char_cases) (simp_all add: upper_char_def [of "upper_char c"])

lemma trim_space_upper: "trim_space (to_upper s) = to_upper (trim_space s)"
  by (simp add: trim_space_def to_upper_def dropWhile_map rev_map o_def upper_char_space)

lemma to_upper_idem: "to_upper (to_upper s) = to_upper s"
  by (simp add: to_upper_def upper_char_idem)

lemma trim_right_snoc:
  "trim_right c (s @ [x]) = (if x = c then trim_right c s else s @ [x])"
  by (simp add: trim_right_def)

lemma trim_right_empty [simp]: "trim_right c [] = []"
  by (simp add: trim_right_def)

lemma trim_right_replicate [simp]: "trim_right c (s @ replicate n c) = trim_right c s"
  by (induction n arbitrary: s)
    (auto simp: replicate_append_same [symmetric] trim_right_snoc simp flip: append_assoc)

lemma trim_right_decomp:
  "\<exists>n. s = trim_right c s @ replicate n c"
proof (induction s rule: rev_induct)
  case Nil
  then show ?case by simp
next
  case (snoc x s)
  then obtain n where n: "s = trim_right c s @ replicate n c" by blast
  show ?case
  proof (cases "x = c")
    case True
    then have "s @ [x] = trim_right c (s @ [x]) @ replicate (Suc n) c"
      using n by (simp add: trim_right_snoc replicate_append_same [symmetric] flip: append_assoc)
    then show ?thesis by blast
  next
    case False
    then show ?thesis by (intro exI [of _ 0]) (simp add: trim_right_snoc)
  qed
qed

section \<open>Go's sort.Search\<close>

text \<open>
  The binary search of the standard library, with its midpoint and its two updates; what it
  returns for a predicate that is not monotone is whatever the search ends on.
\<close>

function search_between :: "(nat \<Rightarrow> bool) \<Rightarrow> nat \<Rightarrow> nat \<Rightarrow> nat" where
  "search_between f i j =
     (if i < j then let h = (i + j) div 2 in
        if f h then search_between f i h else search_between f (h + 1) j
      else i)"
  by pat_completeness auto
termination
  by (relation "measure (\<lambda>(f, i, j). j - i)") auto

declare search_between.simps [simp del]

lemma search_between_stop [simp]: "\<not> i < j \<Longrightarrow> search_between f i j = i"
  by (subst search_between.simps) simp

definition sort_search :: "nat \<Rightarrow> (nat \<Rightarrow> bool) \<Rightarrow> nat" where
  "sort_search n f = search_between f 0 n"

lemma search_between_bounds:
  "i \<le> j \<Longrightarrow> i \<le> search_between f i j \<and> search_between f i j \<le> j"
proof (induction f i j rule: search_between.induct)
  case (1 f i j)
  show ?case
  proof (cases "i < j")
    case True
    then have "i \<le> (i + j) div 2" "(i + j) div 2 < j" by auto
    then show ?thesis
      using 1 True by (subst (1 2) search_between.simps) (auto simp: Let_def)
  next
    case False
    then show ?thesis using 1 by simp
  qed
qed

lemma sort_search_le: "sort_search n f \<le> n"
  using search_between_bounds [of 0 n f] by (simp add: sort_search_def)

text \<open>For a monotone predicate the search ends on the border between false and true.\<close>

lemma search_between_border:
  assumes "i \<le> j"
    and "\<And>x y. \<lbrakk>x \<le> y; y < n; f x\<rbrakk> \<Longrightarrow> f y"
    and "j \<le> n" and "\<And>x. x < i \<Longrightarrow> \<not> f x" and "\<And>x. \<lbrakk>j \<le> x; x < n\<rbrakk> \<Longrightarrow> f x"
  shows "(\<forall>x < search_between f i j. \<not> f x) \<and>
    (\<forall>x. search_between f i j \<le> x \<and> x < n \<longrightarrow> f x)"
  using assms
proof (induction f i j rule: search_between.induct)
  case (1 f i j)
  show ?case
  proof (cases "i < j")
    case True
    let ?h = "(i + j) div 2"
    have h: "i \<le> ?h" "?h < j" using True by auto
    show ?thesis
    proof (cases "f ?h")
      case True
      have "(\<forall>x < search_between f i ?h. \<not> f x) \<and>
        (\<forall>x. search_between f i ?h \<le> x \<and> x < n \<longrightarrow> f x)"
        using "1.prems" h True
        by (intro "1.IH" (1) [OF \<open>i < j\<close> refl True]) (auto intro: "1.prems" (2))
      then show ?thesis
        using \<open>i < j\<close> True by (simp add: search_between.simps [of f i j] Let_def)
    next
      case False
      have "\<not> f x" if "x < ?h + 1" for x
        using "1.prems" (2) [of x ?h] False that h "1.prems" (3) by force
      then have "(\<forall>x < search_between f (?h + 1) j. \<not> f x) \<and>
        (\<forall>x. search_between f (?h + 1) j \<le> x \<and> x < n \<longrightarrow> f x)"
        using "1.prems" h False
        by (intro "1.IH" (2) [OF \<open>i < j\<close> refl False]) auto
      then show ?thesis
        using \<open>i < j\<close> False by (simp add: search_between.simps [of f i j] Let_def)
    qed
  next
    case False
    then show ?thesis using "1.prems" by auto
  qed
qed

lemma sort_search_border:
  assumes "\<And>x y. \<lbrakk>x \<le> y; y < n; f x\<rbrakk> \<Longrightarrow> f y"
  shows "x < sort_search n f \<Longrightarrow> \<not> f x"
    and "\<lbrakk>sort_search n f \<le> x; x < n\<rbrakk> \<Longrightarrow> f x"
  using search_between_border [of 0 n n f] assms by (auto simp: sort_search_def)

text \<open>Inserting at an index, as \<^verbatim>\<open>append\<close> followed by \<^verbatim>\<open>copy\<close> and an assignment does.\<close>

definition insert_at :: "nat \<Rightarrow> 'a \<Rightarrow> 'a list \<Rightarrow> 'a list" where
  "insert_at i x xs = take i xs @ x # drop i xs"

definition remove_at :: "nat \<Rightarrow> 'a list \<Rightarrow> 'a list" where
  "remove_at i xs = take i xs @ drop (Suc i) xs"

lemma set_insert_at [simp]: "set (insert_at i x xs) = insert x (set xs)"
proof -
  have "set (take i xs) \<union> set (drop i xs) = set xs"
    by (metis append_take_drop_id set_append)
  then show ?thesis by (auto simp: insert_at_def)
qed

lemma length_insert_at [simp]: "length (insert_at i x xs) = Suc (length xs)"
  by (simp add: insert_at_def)

lemma distinct_insert_at:
  "x \<notin> set xs \<Longrightarrow> distinct xs \<Longrightarrow> distinct (insert_at i x xs)"
proof -
  assume a: "x \<notin> set xs" "distinct xs"
  then have "distinct (take i xs @ drop i xs)" by simp
  then show ?thesis
    using a unfolding insert_at_def distinct_append
    by (auto dest: in_set_takeD in_set_dropD)
qed

lemma sorted_wrt_insert_at:
  assumes "sorted_wrt P xs"
    and "\<And>y. y \<in> set (take i xs) \<Longrightarrow> P y x" and "\<And>y. y \<in> set (drop i xs) \<Longrightarrow> P x y"
  shows "sorted_wrt P (insert_at i x xs)"
proof -
  have "sorted_wrt P (take i xs @ drop i xs)" using assms by simp
  then show ?thesis
    using assms(2,3) unfolding insert_at_def sorted_wrt_append by auto
qed

lemma remove_at_0 [simp]: "remove_at 0 (x # xs) = xs"
  by (simp add: remove_at_def)

lemma length_remove_at: "i < length xs \<Longrightarrow> length (remove_at i xs) = length xs - 1"
  by (simp add: remove_at_def)

lemma set_remove_at_subset: "set (remove_at i xs) \<subseteq> set xs"
  by (auto simp: remove_at_def dest: in_set_takeD in_set_dropD)

lemma remove_at_split:
  "i < length xs \<Longrightarrow> xs = take i xs @ xs ! i # drop (Suc i) xs"
  by (rule id_take_nth_drop)

lemma sorted_wrt_remove_at: "sorted_wrt P xs \<Longrightarrow> sorted_wrt P (remove_at i xs)"
proof (cases "i < length xs")
  case True
  assume "sorted_wrt P xs"
  then have "sorted_wrt P (take i xs @ xs ! i # drop (Suc i) xs)"
    using remove_at_split [OF True] by simp
  then show ?thesis by (auto simp: remove_at_def sorted_wrt_append)
next
  case False
  assume "sorted_wrt P xs"
  then show ?thesis using False by (simp add: remove_at_def)
qed

section \<open>Errors and transactions\<close>

text \<open>
  A fallible operation on a state: an error, or a result with the next state. A transaction
  that fails leaves the state as it was, as the database rolls it back.
\<close>

type_synonym ('s, 'e, 'a) tx = "'s \<Rightarrow> 'e + ('a \<times> 's)"

definition tx_return :: "'a \<Rightarrow> ('s, 'e, 'a) tx" where
  "tx_return x s = Inr (x, s)"

definition tx_fail :: "'e \<Rightarrow> ('s, 'e, 'a) tx" where
  "tx_fail e s = Inl e"

definition tx_bind :: "('s, 'e, 'a) tx \<Rightarrow> ('a \<Rightarrow> ('s, 'e, 'b) tx) \<Rightarrow> ('s, 'e, 'b) tx" where
  "tx_bind m f s = (case m s of Inl e \<Rightarrow> Inl e | Inr (x, s') \<Rightarrow> f x s')"

definition tx_get :: "('s \<Rightarrow> 'a) \<Rightarrow> ('s, 'e, 'a) tx" where
  "tx_get f s = Inr (f s, s)"

definition tx_modify :: "('s \<Rightarrow> 's) \<Rightarrow> ('s, 'e, unit) tx" where
  "tx_modify f s = Inr ((), f s)"

fun tx_each :: "('a \<Rightarrow> ('s, 'e, unit) tx) \<Rightarrow> 'a list \<Rightarrow> ('s, 'e, unit) tx" where
  "tx_each f [] = tx_return ()"
| "tx_each f (x # xs) = tx_bind (f x) (\<lambda>_. tx_each f xs)"

definition run_tx :: "('s, 'e, 'a) tx \<Rightarrow> 's \<Rightarrow> ('e + 'a) \<times> 's" where
  "run_tx m s = (case m s of Inl e \<Rightarrow> (Inl e, s) | Inr (x, s') \<Rightarrow> (Inr x, s'))"

lemma tx_bind_Inr_iff:
  "tx_bind m f s = Inr r \<longleftrightarrow> (\<exists>x s'. m s = Inr (x, s') \<and> f x s' = Inr r)"
  by (auto simp: tx_bind_def split: sum.splits)

lemma tx_return_Inr_iff [simp]: "tx_return x s = Inr r \<longleftrightarrow> r = (x, s)"
  by (auto simp: tx_return_def)

lemma tx_fail_Inr_iff [simp]: "tx_fail e s \<noteq> Inr r"
  by (auto simp: tx_fail_def)

lemma tx_get_Inr_iff [simp]: "tx_get f s = Inr r \<longleftrightarrow> r = (f s, s)"
  by (auto simp: tx_get_def)

lemma tx_modify_Inr_iff [simp]: "tx_modify f s = Inr r \<longleftrightarrow> r = ((), f s)"
  by (auto simp: tx_modify_def)

lemmas tx_Inr_iffs = tx_bind_Inr_iff

lemma run_tx_error_state: "fst (run_tx m s) = Inl e \<Longrightarrow> snd (run_tx m s) = s"
  by (auto simp: run_tx_def split: sum.splits)

text \<open>A predicate every element's operation keeps is kept by the loop.\<close>

lemma tx_each_invariant:
  assumes "tx_each f xs s = Inr (u, s')"
    and "\<And>x s u s'. \<lbrakk>x \<in> set xs; f x s = Inr (u, s'); P s\<rbrakk> \<Longrightarrow> P s'"
    and "P s"
  shows "P s'"
  using assms
proof (induction xs arbitrary: s)
  case Nil
  then show ?case by simp
next
  case (Cons x xs)
  then obtain v s1 where 1: "f x s = Inr (v, s1)" and 2: "tx_each f xs s1 = Inr (u, s')"
    by (auto simp: tx_bind_Inr_iff)
  have "P s1" using Cons.prems(2) [OF _ 1] Cons.prems(3) by simp
  then show ?case using Cons.IH [OF 2] Cons.prems(2) by auto
qed

end
