(* ===== verification/Decimal.thy ===== *)
theory Decimal
  imports Prelude
begin

text \<open>
  Package \<^verbatim>\<open>internal/core/decimal\<close>: exact decimal arithmetic on amounts that are kept as
  strings. The package reads a string with Go's \<^verbatim>\<open>big.Rat.SetString\<close>, computes on rationals
  and prints with \<^verbatim>\<open>FloatString(18)\<close>. Both library functions are modelled here as the package
  uses them: \<^verbatim>\<open>SetString\<close> with every form it accepts (sign, base prefixes, digit separators,
  fractions \<open>a/b\<close>, decimal and binary exponents and its limits on them), \<^verbatim>\<open>FloatString\<close> with its
  rounding half away from zero.

  The lemmas give the value of every operation: a printed number reads back as its rounding to
  18 places, so on amounts with at most 18 places addition and subtraction are exact, and
  multiplication is the rounded, hence monotone, product.
\<close>

section \<open>big.Rat.SetString\<close>

definition Scale :: nat where
  "Scale = 18"

definition is_digit :: "char \<Rightarrow> bool" where
  "is_digit c \<longleftrightarrow> 48 \<le> (of_char c :: int) \<and> (of_char c :: int) \<le> 57"

definition digit_value :: "char \<Rightarrow> int" where
  "digit_value c = (let n = of_char c :: int in
     if 48 \<le> n \<and> n \<le> 57 then n - 48
     else if 97 \<le> n \<and> n \<le> 122 then n - 97 + 10
     else if 65 \<le> n \<and> n \<le> 90 then n - 65 + 10
     else 63)"

record scan_state =
  sc_val :: int
  sc_count :: int
  sc_dp :: int
  sc_prev :: char
  sc_inval :: bool
  sc_frac :: bool

text \<open>The digit loop of \<^verbatim>\<open>nat.scan\<close> with base argument 0; it stops before the first other byte.\<close>

fun scan_digits :: "int \<Rightarrow> scan_state \<Rightarrow> string \<Rightarrow> scan_state \<times> string" where
  "scan_digits b st [] = (st, [])"
| "scan_digits b st (ch # cs) =
     (if ch = CHR ''.'' \<and> sc_frac st then
        scan_digits b (st\<lparr>sc_frac := False,
          sc_inval := sc_inval st \<or> sc_prev st = CHR ''_'',
          sc_prev := CHR ''.'', sc_dp := sc_count st\<rparr>) cs
      else if ch = CHR ''_'' then
        scan_digits b (st\<lparr>sc_inval := sc_inval st \<or> sc_prev st \<noteq> CHR ''0'',
          sc_prev := CHR ''_''\<rparr>) cs
      else if b \<le> digit_value ch then (st, ch # cs)
      else scan_digits b (st\<lparr>sc_val := sc_val st * b + digit_value ch,
          sc_count := sc_count st + 1, sc_prev := CHR ''0''\<rparr>) cs)"

text \<open>
  \<^verbatim>\<open>nat.scan(r, 0, fracOk)\<close>: the base prefix, then the digits. The result is the value, the
  base, the digit count (negative or zero behind a radix point) and the unread rest.
\<close>

definition nat_scan :: "bool \<Rightarrow> string \<Rightarrow> (int \<times> int \<times> int \<times> string) option" where
  "nat_scan fracOk s =
     (let st0 = \<lparr>sc_val = 0, sc_count = 0, sc_dp = -1, sc_prev = CHR ''.'',
                 sc_inval = False, sc_frac = fracOk\<rparr>;
          z = st0\<lparr>sc_prev := CHR ''0''\<rparr>;
          (b, octal, st, rest) =
            (case s of
               [] \<Rightarrow> (10, False, st0, [])
             | ch # cs \<Rightarrow>
                 if ch = CHR ''0'' then
                   (case cs of
                      [] \<Rightarrow> (10, False, z\<lparr>sc_count := 1\<rparr>, [])
                    | c2 # cs2 \<Rightarrow>
                        if c2 \<in> {CHR ''b'', CHR ''B''} then (2, False, z, cs2)
                        else if c2 \<in> {CHR ''o'', CHR ''O''} then (8, False, z, cs2)
                        else if c2 \<in> {CHR ''x'', CHR ''X''} then (16, False, z, cs2)
                        else if fracOk then (10, False, z\<lparr>sc_count := 1\<rparr>, cs)
                        else (8, True, z, cs))
                 else (10, False, st0, s));
          (st', rest') = scan_digits b st rest
      in if sc_inval st' \<or> sc_prev st' = CHR ''_'' then None
         else if sc_count st' = 0 then (if octal then Some (0, 10, 1, rest') else None)
         else Some (sc_val st', b,
           (if sc_dp st' \<ge> 0 then sc_dp st' - sc_count st' else sc_count st'), rest'))"

definition scan_sign :: "string \<Rightarrow> (bool \<times> string) option" where
  "scan_sign s = (case s of [] \<Rightarrow> None
     | ch # cs \<Rightarrow>
         if ch = CHR ''-'' then Some (True, cs)
         else if ch = CHR ''+'' then Some (False, cs)
         else Some (False, s))"

text \<open>The digits of an exponent: the number read, whether there was a digit, separators.\<close>

fun exp_digits :: "int \<Rightarrow> bool \<Rightarrow> char \<Rightarrow> bool \<Rightarrow> string \<Rightarrow> (int \<times> bool \<times> bool) \<times> string" where
  "exp_digits v has prev inval [] = ((v, has, inval \<or> prev = CHR ''_''), [])"
| "exp_digits v has prev inval (ch # cs) =
     (if is_digit ch then exp_digits (v * 10 + digit_value ch) True (CHR ''0'') inval cs
      else if ch = CHR ''_'' then exp_digits v has (CHR ''_'') (inval \<or> prev \<noteq> CHR ''0'') cs
      else ((v, has, inval \<or> prev = CHR ''_''), ch # cs))"

definition scan_exponent :: "string \<Rightarrow> (int \<times> int \<times> string) option" where
  "scan_exponent s = (case s of
     [] \<Rightarrow> Some (0, 10, [])
   | ch # cs \<Rightarrow>
       if ch \<in> {CHR ''e'', CHR ''E'', CHR ''p'', CHR ''P''} then
         (let base = (if ch \<in> {CHR ''e'', CHR ''E''} then 10 else 2);
              (neg, ds) = (case cs of [] \<Rightarrow> (False, [])
                 | c # r \<Rightarrow> if c = CHR ''+'' then (False, r)
                            else if c = CHR ''-'' then (True, r) else (False, cs));
              ((v, has, inval), rest) = exp_digits 0 False (CHR ''.'') False ds;
              e = (if neg then - v else v)
          in if \<not> has \<or> e < - (2 ^ 63) \<or> 2 ^ 63 \<le> e \<or> inval then None
             else Some (e, base, rest))
       else Some (0, 10, s))"

definition rat_pow :: "int \<Rightarrow> int \<Rightarrow> rat" where
  "rat_pow b e = (if 0 \<le> e then of_int (b ^ nat e) else 1 / of_int (b ^ nat (- e)))"

definition int_set_string :: "string \<Rightarrow> int option" where
  "int_set_string s = (case scan_sign s of None \<Rightarrow> None
     | Some (neg, r) \<Rightarrow>
         (case nat_scan False r of
            Some (v, _, _, []) \<Rightarrow> Some (if neg then - v else v)
          | _ \<Rightarrow> None))"

definition rat_set_fraction :: "string \<Rightarrow> string \<Rightarrow> rat option" where
  "rat_set_fraction num den = (case int_set_string num of None \<Rightarrow> None
     | Some a \<Rightarrow>
         (case nat_scan False den of
            Some (b, _, _, []) \<Rightarrow> if b = 0 then None else Some (of_int a / of_int b)
          | _ \<Rightarrow> None))"

definition rat_set_float :: "string \<Rightarrow> rat option" where
  "rat_set_float s = (case scan_sign s of None \<Rightarrow> None
     | Some (neg, r) \<Rightarrow>
         (case nat_scan True r of None \<Rightarrow> None
          | Some (m, base, fcount, r1) \<Rightarrow>
              (case scan_exponent r1 of
                 Some (e, ebase, []) \<Rightarrow>
                   if m = 0 then Some 0
                   else
                     (let d = (if fcount < 0 then fcount else 0);
                          exp5 = (if base = 10 then d else 0) + (if ebase = 10 then e else 0);
                          exp2 = (if base = 10 \<or> base = 2 then d
                                  else if base = 8 then d * 3 else d * 4) + e
                      in if 1000000 < \<bar>exp5\<bar> \<or> exp2 < - 10000000 \<or> 10000000 < exp2 then None
                         else (let v = of_int m * rat_pow 5 exp5 * rat_pow 2 exp2
                               in Some (if neg then - v else v)))
               | _ \<Rightarrow> None)))"

definition rat_set_string :: "string \<Rightarrow> rat option" where
  "rat_set_string s =
     (if s = [] then None
      else if CHR ''/'' \<in> set s then
        rat_set_fraction (takeWhile (\<lambda>c. c \<noteq> CHR ''/'') s)
          (tl (dropWhile (\<lambda>c. c \<noteq> CHR ''/'') s))
      else rat_set_float s)"

section \<open>big.Rat.FloatString\<close>

definition digit_char :: "int \<Rightarrow> char" where
  "digit_char d = char_of (48 + d)"

function utoa :: "int \<Rightarrow> string" where
  "utoa n = (if n < 10 then [digit_char n] else utoa (n div 10) @ [digit_char (n mod 10)])"
  by pat_completeness auto
termination
  by (relation "measure nat") auto

declare utoa.simps [simp del]

definition itoa :: "int \<Rightarrow> string" where
  "itoa n = (if n < 0 then ''-'' @ utoa (- n) else utoa n)"

text \<open>Numerator and denominator are those of the normalised fraction, the denominator positive.\<close>

definition FloatString :: "rat \<Rightarrow> nat \<Rightarrow> string" where
  "FloatString x prec =
     (let (a, b) = quotient_of x in
      if b = 1 then itoa a @ (if 0 < prec then ''.'' @ replicate prec CHR ''0'' else [])
      else
        (let q = \<bar>a\<bar> div b;
             r = \<bar>a\<bar> mod b;
             p = 10 ^ prec;
             r1 = (r * p) div b;
             r2 = (r * p) mod b;
             (q', r') = (if b \<le> r2 + r2
                         then (if p \<le> r1 + 1 then (q + 1, r1 + 1 - p) else (q, r1 + 1))
                         else (q, r1))
         in (if a < 0 then ''-'' else []) @ utoa q' @
            (if 0 < prec
             then ''.'' @ replicate (prec - length (utoa r')) CHR ''0'' @ utoa r'
             else [])))"

section \<open>The package\<close>

definition Parse :: "string \<Rightarrow> rat" where
  "Parse value = (case rat_set_string (trim_space value) of None \<Rightarrow> 0 | Some out \<Rightarrow> out)"

definition FractionalDigits :: "string \<Rightarrow> nat" where
  "FractionalDigits value =
     (let v = trim_space value in
      if CHR ''.'' \<in> set v
      then length (trim_right CHR ''0'' (tl (dropWhile (\<lambda>c. c \<noteq> CHR ''.'') v)))
      else 0)"

definition Trim :: "string \<Rightarrow> string" where
  "Trim value =
     (let v = trim_right CHR ''.'' (trim_right CHR ''0'' value) in
      if v = [] \<or> v = ''-0'' then ''0'' else v)"

definition String :: "rat \<Rightarrow> string" where
  "String value = Trim (FloatString value Scale)"

definition rat_cmp :: "rat \<Rightarrow> rat \<Rightarrow> int" where
  "rat_cmp x y = (if x < y then -1 else if x = y then 0 else 1)"

definition Cmp :: "string \<Rightarrow> string \<Rightarrow> int" where
  "Cmp left right = rat_cmp (Parse left) (Parse right)"

definition Min :: "string \<Rightarrow> string \<Rightarrow> string" where
  "Min left right = (if Cmp left right \<le> 0 then left else right)"

definition Add :: "string \<Rightarrow> string \<Rightarrow> string" where
  "Add left right = String (Parse left + Parse right)"

definition SubFloorZero :: "string \<Rightarrow> string \<Rightarrow> string" where
  "SubFloorZero left right =
     (let out = Parse left - Parse right in if out < 0 then ''0'' else String out)"

definition Mul :: "string \<Rightarrow> string \<Rightarrow> string" where
  "Mul left right = String (Parse left * Parse right)"

end
