(* ===== verification/DecimalText.thy ===== *)
theory DecimalText
  imports Decimal
begin

text \<open>
  What the decimal package prints and what it reads back. \<^verbatim>\<open>String\<close> prints the number of
  10^-18 units nearest to the rational; reading the text with \<^verbatim>\<open>SetString\<close> gives exactly that
  multiple of 10^-18. The theory goes from digits, over the digit loop of the scanner and the
  long division of the printer, to that round trip.
\<close>

definition round18 :: "rat \<Rightarrow> rat" where
  "round18 x = sgn x * of_int \<lfloor>\<bar>x\<bar> * 10 ^ 18 + 1 / 2\<rfloor> / 10 ^ 18"

definition digits_value :: "int \<Rightarrow> string \<Rightarrow> int" where
  "digits_value = foldl (\<lambda>v c. v * 10 + digit_value c)"

definition dec_text :: "bool \<Rightarrow> string \<Rightarrow> string \<Rightarrow> string" where
  "dec_text neg ip fp = (if neg then ''-'' else []) @ ip @ (if fp = [] then [] else CHR ''.'' # fp)"

definition pad18 :: "int \<Rightarrow> string" where
  "pad18 r = replicate (18 - length (utoa r)) CHR ''0'' @ utoa r"

definition units :: "rat \<Rightarrow> int" where
  "units x = \<lfloor>\<bar>x\<bar> * 10 ^ 18 + 1 / 2\<rfloor>"

lemma of_char_digit_char:
  assumes "0 \<le> d" "d < 10"
  shows "(of_char (digit_char d) :: int) = 48 + d"
proof -
  have "(of_char (char_of (48 + d)) :: int) = (48 + d) mod 256"
    by (rule of_char_of)
  with assms show ?thesis by (simp add: digit_char_def)
qed

lemma digit_char_props:
  assumes "0 \<le> d" "d < 10"
  shows "is_digit (digit_char d)" and "digit_value (digit_char d) = d"
  using of_char_digit_char [OF assms] assms by (auto simp: is_digit_def digit_value_def Let_def)

lemma is_digit_value: "is_digit c \<Longrightarrow> 0 \<le> digit_value c \<and> digit_value c < 10"
  by (auto simp: is_digit_def digit_value_def Let_def)

lemma is_digit_not [simp]:
  "is_digit c \<Longrightarrow> c \<noteq> CHR ''.''" "is_digit c \<Longrightarrow> c \<noteq> CHR ''_''"
  "is_digit c \<Longrightarrow> c \<noteq> CHR ''/''" "is_digit c \<Longrightarrow> c \<noteq> CHR ''-''" "is_digit c \<Longrightarrow> c \<noteq> CHR ''+''"
  by (auto simp: is_digit_def)

lemma not_is_digit [simp]:
  "\<not> is_digit CHR ''.''" "\<not> is_digit CHR ''_''" "\<not> is_digit CHR ''/''"
  "\<not> is_digit CHR ''-''" "\<not> is_digit CHR ''+''" "\<not> is_digit CHR '' ''"
  by (auto simp: is_digit_def)

lemma is_digit_not_space: "is_digit c \<Longrightarrow> \<not> is_space c"
  by (auto simp: is_digit_def is_space_def)

lemma digit_char_0 [simp]: "digit_char 0 = CHR ''0''"
  by (simp add: digit_char_def char_of_def)

lemma digit_value_0 [simp]: "digit_value CHR ''0'' = 0"
  by (simp add: digit_value_def)

lemma is_digit_0 [simp]: "is_digit CHR ''0''"
  by (simp add: is_digit_def)

lemma digit_char_neq_0: "0 < d \<Longrightarrow> d < 10 \<Longrightarrow> digit_char d \<noteq> CHR ''0''"
  using of_char_digit_char [of d] by fastforce

lemma digits_value_append:
  "digits_value v (xs @ ys) = digits_value (digits_value v xs) ys"
  by (simp add: digits_value_def)

lemma digits_value_acc:
  "digits_value v xs = v * 10 ^ length xs + digits_value 0 xs"
proof (induction xs rule: rev_induct)
  case Nil
  then show ?case by (simp add: digits_value_def)
next
  case (snoc x xs)
  then show ?case by (simp add: digits_value_append) (simp add: digits_value_def algebra_simps)
qed

lemma digits_value_replicate_0 [simp]: "digits_value 0 (replicate n CHR ''0'') = 0"
  by (induction n) (auto simp: digits_value_def digit_value_def)

lemma utoa_ne [simp]: "utoa n \<noteq> []"
  by (subst utoa.simps) simp

lemma utoa_props:
  "0 \<le> n \<Longrightarrow> list_all is_digit (utoa n) \<and> digits_value 0 (utoa n) = n \<and>
     (hd (utoa n) = CHR ''0'' \<longrightarrow> n = 0)"
proof (induction n rule: utoa.induct)
  case (1 n)
  show ?case
  proof (cases "n < 10")
    case True
    then show ?thesis using "1.prems" digit_char_neq_0 [of n] digit_char_props [of n]
      by (subst (1 2 3) utoa.simps) (auto simp: digits_value_def)
  next
    case False
    have ih: "list_all is_digit (utoa (n div 10)) \<and> digits_value 0 (utoa (n div 10)) = n div 10 \<and>
        (hd (utoa (n div 10)) = CHR ''0'' \<longrightarrow> n div 10 = 0)"
      using "1.IH" False "1.prems" by simp
    have "utoa n = utoa (n div 10) @ [digit_char (n mod 10)]"
      using False by (subst utoa.simps) simp
    then show ?thesis using ih False digit_char_props [of "n mod 10"]
      by (auto simp: digits_value_append) (auto simp: digits_value_def)
  qed
qed

lemma utoa_0 [simp]: "utoa 0 = ''0''"
  by (simp add: utoa.simps)

lemma length_utoa: "0 \<le> n \<Longrightarrow> n < 10 ^ k \<Longrightarrow> 0 < k \<Longrightarrow> length (utoa n) \<le> k"
proof (induction k arbitrary: n)
  case 0
  then show ?case by simp
next
  case (Suc k)
  show ?case
  proof (cases "n < 10")
    case True
    then show ?thesis by (subst utoa.simps) simp
  next
    case False
    then have "0 < k" using Suc.prems by (cases k) auto
    moreover have "n div 10 < 10 ^ k"
      using Suc.prems by (simp add: div_less_iff_less_mult mult.commute)
    ultimately have "length (utoa (n div 10)) \<le> k" using Suc by simp
    then show ?thesis using False by (subst utoa.simps) simp
  qed
qed

lemma pad18_props:
  assumes "0 \<le> r" "r < 10 ^ 18"
  shows "list_all is_digit (pad18 r)" "length (pad18 r) = 18" "digits_value 0 (pad18 r) = r"
proof -
  have l: "length (utoa r) \<le> 18" using length_utoa [of r 18] assms by simp
  have z: "is_digit CHR ''0''" by (simp add: is_digit_def)
  show "list_all is_digit (pad18 r)"
    using utoa_props [of r] assms z by (auto simp: pad18_def list_all_iff)
  show "length (pad18 r) = 18" using l by (simp add: pad18_def)
  show "digits_value 0 (pad18 r) = r"
    using utoa_props [of r] assms by (simp add: pad18_def digits_value_append)
qed


lemma scan_digits_digits:
  assumes "list_all is_digit ds"
  shows "scan_digits 10 st (ds @ rest) =
    scan_digits 10 (st\<lparr>sc_val := digits_value (sc_val st) ds, sc_count := sc_count st + int (length ds),
      sc_prev := (if ds = [] then sc_prev st else CHR ''0'')\<rparr>) rest"
  using assms
proof (induction ds arbitrary: st)
  case Nil
  then show ?case by (simp add: digits_value_def)
next
  case (Cons d ds)
  then have d: "is_digit d" "digit_value d < 10" using is_digit_value [of d] by auto
  show ?case
    using Cons d by (simp add: digits_value_def algebra_simps)
qed

lemma scan_digits_all:
  "list_all is_digit ds \<Longrightarrow> scan_digits 10 st ds =
    (st\<lparr>sc_val := digits_value (sc_val st) ds, sc_count := sc_count st + int (length ds),
      sc_prev := (if ds = [] then sc_prev st else CHR ''0'')\<rparr>, [])"
  using scan_digits_digits [of ds st "[]"] by simp

lemma nat_scan_dec:
  assumes ip: "list_all is_digit ip" "ip \<noteq> []" "hd ip = CHR ''0'' \<longrightarrow> tl ip = []"
    and fp: "list_all is_digit fp"
  shows "nat_scan True (ip @ (if fp = [] then [] else CHR ''.'' # fp)) =
    Some (digits_value 0 (ip @ fp), 10,
      (if fp = [] then int (length ip) else - int (length fp)), [])"
proof -
  let ?t = "if fp = [] then [] else CHR ''.'' # fp"
  let ?st = "\<lparr>sc_val = 0, sc_count = 0, sc_dp = -1, sc_prev = CHR ''.'',
                 sc_inval = False, sc_frac = True\<rparr>"
  obtain c cs where c: "ip = c # cs" using ip by (cases ip) auto
  have scan: "scan_digits 10 ?st (ip @ ?t) =
    (\<lparr>sc_val = digits_value 0 (ip @ fp), sc_count = int (length ip) + int (length fp),
      sc_dp = (if fp = [] then - 1 else int (length ip)), sc_prev = CHR ''0'',
      sc_inval = False, sc_frac = (fp = [])\<rparr>, [])"
  proof (cases "fp = []")
    case True
    then show ?thesis using ip scan_digits_digits [of ip ?st "[]"] by simp
  next
    case False
    then show ?thesis
      using ip fp by (simp add: scan_digits_digits [of ip] scan_digits_all digits_value_append)
  qed
  show ?thesis
  proof (cases "c = CHR ''0''")
    case True
    then have cs: "cs = []" using ip c by simp
    have "scan_digits 10 (?st\<lparr>sc_prev := CHR ''0'', sc_count := 1\<rparr>) ?t = scan_digits 10 ?st (ip @ ?t)"
      using True cs c by (simp add: digit_value_def)
    then show ?thesis
      using scan True cs c unfolding nat_scan_def
      by (auto simp: Let_def)
  next
    case False
    then show ?thesis using scan c unfolding nat_scan_def by (auto simp: Let_def)
  qed
qed

lemma rat_set_string_dec:
  assumes ip: "list_all is_digit ip" "ip \<noteq> []" "hd ip = CHR ''0'' \<longrightarrow> tl ip = []"
    and fp: "list_all is_digit fp" "length fp \<le> 18"
  shows "rat_set_string (dec_text neg ip fp) =
    Some ((if neg then - 1 else 1) * of_int (digits_value 0 (ip @ fp)) / 10 ^ length fp)"
proof -
  let ?t = "if fp = [] then [] else CHR ''.'' # fp"
  obtain c cs where c: "ip = c # cs" "is_digit c" using ip by (cases ip) auto
  have sl: "CHR ''/'' \<notin> set (dec_text neg ip fp)"
    using ip(1) fp(1) by (auto simp: dec_text_def list_all_iff split: if_splits)
  have sign: "scan_sign (dec_text neg ip fp) = Some (neg, ip @ ?t)"
    using c by (auto simp: scan_sign_def dec_text_def)
  have pw: "rat_pow 5 (- int n) * rat_pow 2 (- int n) = 1 / 10 ^ n" for n
    by (auto simp: rat_pow_def power_mult_distrib [symmetric] simp flip: of_int_power of_int_mult)
  show ?thesis
    using nat_scan_dec [OF ip fp(1)] sl sign c fp(2) pw [of "length fp"]
    unfolding rat_set_string_def rat_set_float_def
    by (auto simp: scan_exponent_def Let_def dec_text_def rat_pow_def)
qed

lemma units_nonneg [simp]: "0 \<le> units x"
  by (simp add: units_def)

lemma units_frac:
  assumes "0 < b"
  shows "units (of_int a / of_int b) =
    \<bar>a\<bar> div b * 10 ^ 18 + \<bar>a\<bar> mod b * 10 ^ 18 div b +
    (if b \<le> 2 * (\<bar>a\<bar> mod b * 10 ^ 18 mod b) then 1 else 0)"
proof -
  let ?q = "\<bar>a\<bar> div b" and ?r = "\<bar>a\<bar> mod b"
  let ?r1 = "?r * 10 ^ 18 div b" and ?r2 = "?r * 10 ^ 18 mod b"
  have b: "(0::rat) < of_int b" using assms by simp
  have split: "A * S = (Q * S + R1) * b + R2" if "A = Q * b + R" "R * S = R1 * b + R2"
    for A S Q R R1 R2 :: int
    using that by (simp add: distrib_right distrib_left ac_simps)
  have "\<bar>a\<bar> * 10 ^ 18 = (?q * 10 ^ 18 + ?r1) * b + ?r2"
    by (rule split [of _ _ ?r]) (simp_all only: div_mult_mod_eq)
  then have "(of_int (\<bar>a\<bar> * 10 ^ 18) :: rat) = of_int ((?q * 10 ^ 18 + ?r1) * b + ?r2)" by metis
  then have "(of_int \<bar>a\<bar> * 10 ^ 18 :: rat) = of_int (?q * 10 ^ 18 + ?r1) * of_int b + of_int ?r2"
    by (simp only: of_int_mult of_int_add of_int_power of_int_numeral)
  moreover have "A / B * S = M + R2 / B" if "A * S = M * B + R2" "0 < B" for A S M B R2 :: rat
    using that by (simp add: field_simps)
  ultimately have "of_int \<bar>a\<bar> / of_int b * 10 ^ 18 = of_int (?q * 10 ^ 18 + ?r1) + (of_int ?r2 / of_int b :: rat)"
    using b by blast
  moreover have "\<bar>of_int a / of_int b :: rat\<bar> = of_int \<bar>a\<bar> / of_int b" using b by (simp add: abs_divide)
  ultimately have e: "\<bar>of_int a / of_int b :: rat\<bar> * 10 ^ 18 + 1 / 2 =
      of_int (?q * 10 ^ 18 + ?r1) + (of_int ?r2 / of_int b + 1 / 2)" by (simp only: add.assoc)
  have r2: "0 \<le> ?r2" "?r2 < b" using assms by auto
  have half: "\<lfloor>t / B + 1 / 2\<rfloor> = (if B \<le> 2 * t then 1 else 0)" if "0 \<le> t" "t < B" for t B :: rat
    using that by (auto simp: floor_eq_iff field_simps)
  have "(0 :: rat) \<le> of_int ?r2" "(of_int ?r2 :: rat) < of_int b" using r2 by (simp_all only: of_int_0_le_iff of_int_less_iff)
  moreover have "(of_int b :: rat) \<le> 2 * of_int ?r2 \<longleftrightarrow> b \<le> 2 * ?r2"
    by (metis of_int_le_iff of_int_mult of_int_numeral)
  ultimately have f: "\<lfloor>of_int ?r2 / of_int b + 1 / 2 :: rat\<rfloor> = (if b \<le> 2 * ?r2 then 1 else 0)"
    using half by simp
  show ?thesis
    unfolding units_def e by (simp only: int_add_floor [symmetric] f)
qed

lemma FloatString_frac:
  assumes "quotient_of x = (a, b)" "b \<noteq> 1" "0 < prec"
  defines "q \<equiv> \<bar>a\<bar> div b" and "r1 \<equiv> \<bar>a\<bar> mod b * 10 ^ prec div b" and "r2 \<equiv> \<bar>a\<bar> mod b * 10 ^ prec mod b"
  defines "r' \<equiv> (if b \<le> r2 + r2 then if 10 ^ prec \<le> r1 + 1 then r1 + 1 - 10 ^ prec else r1 + 1 else r1)"
  shows "FloatString x prec = (if a < 0 then ''-'' else []) @
    utoa (if b \<le> r2 + r2 then if 10 ^ prec \<le> r1 + 1 then q + 1 else q else q) @
    ''.'' @ replicate (prec - length (utoa r')) CHR ''0'' @ utoa r'"
  using assms(1-3) unfolding FloatString_def q_def r1_def r2_def r'_def
  by (simp add: Let_def)

lemma round_carry:
  fixes n S q r1 r2 b :: int
  assumes "n = q * S + r1 + (if b \<le> 2 * r2 then 1 else 0)" "0 \<le> r1" "r1 < S"
  shows "n div S = (if b \<le> r2 + r2 then if S \<le> r1 + 1 then q + 1 else q else q)"
    and "n mod S = (if b \<le> r2 + r2 then if S \<le> r1 + 1 then r1 + 1 - S else r1 + 1 else r1)"
proof -
  define Q R where "Q = (if b \<le> r2 + r2 then if S \<le> r1 + 1 then q + 1 else q else q)"
    and "R = (if b \<le> r2 + r2 then if S \<le> r1 + 1 then r1 + 1 - S else r1 + 1 else r1)"
  have "n = R + Q * S" "0 \<le> R" "R < S"
    using assms unfolding Q_def R_def by (auto simp: distrib_right)
  then show "n div S = (if b \<le> r2 + r2 then if S \<le> r1 + 1 then q + 1 else q else q)"
    and "n mod S = (if b \<le> r2 + r2 then if S \<le> r1 + 1 then r1 + 1 - S else r1 + 1 else r1)"
    unfolding Q_def [symmetric] R_def [symmetric] by auto
qed

lemma FloatString_units:
  "FloatString x 18 = dec_text (x < 0) (utoa (units x div 10 ^ 18)) (pad18 (units x mod 10 ^ 18))"
proof -
  obtain a b where ab: "quotient_of x = (a, b)" by fastforce
  then have b: "0 < b" and x: "x = of_int a / of_int b"
    using quotient_of_denom_pos quotient_of_div by auto
  have neg: "x < 0 \<longleftrightarrow> a < 0" using b unfolding x by (simp add: divide_less_0_iff)
  have pad_ne: "pad18 r \<noteq> []" for r by (simp add: pad18_def)
  have dec_pad: "dec_text s ip (pad18 r) = (if s then ''-'' else []) @ ip @
      ''.'' @ replicate (18 - length (utoa r)) CHR ''0'' @ utoa r" for s ip r
    by (simp add: dec_text_def pad18_def)
  show ?thesis
  proof (cases "b = 1")
    case True
    have u: "units x = \<bar>a\<bar> * 10 ^ 18" unfolding x units_frac [OF b] using True by simp
    have "pad18 0 = replicate 18 CHR ''0''"
      by (simp add: pad18_def) (simp add: numeral_eq_Suc)
    then show ?thesis
      using ab True neg u by (auto simp: FloatString_def itoa_def dec_text_def)
  next
    case False
    let ?q = "\<bar>a\<bar> div b" and ?r = "\<bar>a\<bar> mod b"
    let ?r1 = "?r * 10 ^ 18 div b" and ?r2 = "?r * 10 ^ 18 mod b"
    have r1: "0 \<le> ?r1" "?r1 < 10 ^ 18"
    proof -
      show "0 \<le> ?r1" using b by (simp add: pos_imp_zdiv_nonneg_iff)
      have "?r * 10 ^ 18 < 10 ^ 18 * b" using b by simp
      moreover have "?r1 * b \<le> ?r * 10 ^ 18" using b by (metis div_mult_mod_eq le_add_same_cancel1 pos_mod_sign)
      ultimately have "?r1 * b < 10 ^ 18 * b" by (rule le_less_trans [rotated])
      then show "?r1 < 10 ^ 18" using b by (simp only: mult_less_cancel_right)
    qed
    have q: "0 \<le> ?q" using b by (simp add: pos_imp_zdiv_nonneg_iff)
    define n where "n = units x"
    have n: "n = ?q * 10 ^ 18 + ?r1 + (if b \<le> 2 * ?r2 then 1 else 0)"
      unfolding n_def x by (rule units_frac [OF b])
    have "n div 10 ^ 18 = (if b \<le> ?r2 + ?r2 then if 10 ^ 18 \<le> ?r1 + 1 then ?q + 1 else ?q else ?q)"
      "n mod 10 ^ 18 = (if b \<le> ?r2 + ?r2 then if 10 ^ 18 \<le> ?r1 + 1 then ?r1 + 1 - 10 ^ 18 else ?r1 + 1 else ?r1)"
      by (rule round_carry [OF n r1])+
    then show ?thesis
      unfolding FloatString_frac [OF ab False zero_less_numeral] n_def [symmetric] dec_pad
      by (simp only: neg)
  qed
qed

lemma trim_right_last: "xs \<noteq> [] \<Longrightarrow> last xs \<noteq> c \<Longrightarrow> trim_right c xs = xs"
  by (metis append_butlast_last_id trim_right_snoc)

lemma trim_right_last_neq: "trim_right c xs \<noteq> [] \<Longrightarrow> last (trim_right c xs) \<noteq> c"
  by (induction xs rule: rev_induct) (auto simp: trim_right_snoc)

lemma trim_right_dec_text:
  assumes "fp \<noteq> []" "list_all is_digit ip" "ip \<noteq> []" "list_all is_digit fp"
  shows "trim_right CHR ''.'' (trim_right CHR ''0'' (dec_text neg ip fp)) =
    dec_text neg ip (trim_right CHR ''0'' fp)"
proof -
  define fq where "fq = trim_right CHR ''0'' fp"
  obtain k where k: "fp = fq @ replicate k CHR ''0''"
    using trim_right_decomp [of fp] unfolding fq_def by blast
  let ?pre = "(if neg then ''-'' else []) @ ip"
  have "dec_text neg ip fp = (?pre @ CHR ''.'' # fq) @ replicate k CHR ''0''"
    using assms(1) k by (simp add: dec_text_def)
  then have t: "trim_right CHR ''0'' (dec_text neg ip fp) = trim_right CHR ''0'' (?pre @ CHR ''.'' # fq)"
    by (simp only: trim_right_replicate)
  have last_pre: "is_digit (last ?pre)" using assms(2,3) by (auto simp: list_all_iff)
  then have last_pre: "?pre \<noteq> []" "last ?pre \<noteq> CHR ''.''" using assms(3) by auto
  show ?thesis
  proof (cases "fq = []")
    case True
    have "trim_right CHR ''0'' (?pre @ CHR ''.'' # fq) = ?pre @ [CHR ''.'']"
      using True trim_right_snoc [of "CHR ''0''" ?pre "CHR ''.''"] by simp
    moreover have "trim_right CHR ''.'' (?pre @ [CHR ''.'']) = ?pre"
      using trim_right_snoc [of "CHR ''.''" ?pre "CHR ''.''"] trim_right_last [OF last_pre] by simp
    ultimately show ?thesis using t True fq_def by (simp add: dec_text_def)
  next
    case False
    have l0: "last fq \<noteq> CHR ''0''" using trim_right_last_neq False unfolding fq_def by metis
    have "last fq \<in> set fp" using k False by simp
    then have "is_digit (last fq)" using assms(4) by (simp add: list_all_iff)
    then have ld: "last fq \<noteq> CHR ''.''" by auto
    have l: "last (?pre @ CHR ''.'' # fq) = last fq" using False by simp
    have "trim_right CHR ''0'' (?pre @ CHR ''.'' # fq) = ?pre @ CHR ''.'' # fq"
      by (rule trim_right_last) (use l l0 in auto)
    moreover have "trim_right CHR ''.'' (?pre @ CHR ''.'' # fq) = ?pre @ CHR ''.'' # fq"
      by (rule trim_right_last) (use l ld in auto)
    ultimately show ?thesis using t False fq_def by (simp add: dec_text_def)
  qed
qed

lemma units_round18: "round18 x = sgn x * of_int (units x) / 10 ^ 18"
  by (simp add: round18_def units_def)

text \<open>The printed form of a number, and what reading it back gives.\<close>

lemma String_text:
  fixes x defines "n \<equiv> units x"
  shows "String x = (if x < 0 \<and> n = 0 then ''0''
    else dec_text (x < 0) (utoa (n div 10 ^ 18)) (trim_right CHR ''0'' (pad18 (n mod 10 ^ 18))))"
proof -
  let ?ip = "utoa (n div 10 ^ 18)" and ?fp = "pad18 (n mod 10 ^ 18)"
  have n0: "0 \<le> n" by (simp add: n_def)
  have fp: "list_all is_digit ?fp" "length ?fp = 18" "digits_value 0 ?fp = n mod 10 ^ 18"
    using pad18_props [of "n mod 10 ^ 18"] by auto
  have ip: "list_all is_digit ?ip" "digits_value 0 ?ip = n div 10 ^ 18"
    using utoa_props [of "n div 10 ^ 18"] n0 by (auto simp: pos_imp_zdiv_nonneg_iff)
  have v: "trim_right CHR ''.'' (trim_right CHR ''0'' (FloatString x Scale)) =
      dec_text (x < 0) ?ip (trim_right CHR ''0'' ?fp)"
    using FloatString_units [of x] trim_right_dec_text [of ?fp ?ip "x < 0"] fp ip
    unfolding n_def Scale_def by fastforce
  have ne: "dec_text neg ?ip fq \<noteq> []" for neg fq by (simp add: dec_text_def)
  have m0: "dec_text neg ?ip (trim_right CHR ''0'' ?fp) = ''-0'' \<longleftrightarrow> neg \<and> n = 0" for neg
  proof
    assume a: "dec_text neg ?ip (trim_right CHR ''0'' ?fp) = ''-0''"
    obtain c cs where c: "?ip = c # cs" "is_digit c" using ip(1) by (cases ?ip) auto
    have neg: neg using a c by (auto simp: dec_text_def split: if_splits)
    then have t: "trim_right CHR ''0'' ?fp = []" "?ip = ''0''"
      using a c by (auto simp: dec_text_def split: if_splits)
    obtain k where "?fp = trim_right CHR ''0'' ?fp @ replicate k CHR ''0''"
      using trim_right_decomp by blast
    then have "n mod 10 ^ 18 = 0" using fp(3) t by (metis append_Nil digits_value_replicate_0)
    moreover have "n div 10 ^ 18 = 0" using ip(2) t by (simp add: digits_value_def)
    ultimately have "n = 0" by (metis add.right_neutral div_mult_mod_eq mult_zero_left)
    then show "neg \<and> n = 0" using neg by simp
  next
    assume "neg \<and> n = 0"
    moreover have "trim_right CHR ''0'' (pad18 0) = []"
      by (simp add: pad18_def) (simp add: numeral_eq_Suc trim_right_def)
    ultimately show "dec_text neg ?ip (trim_right CHR ''0'' ?fp) = ''-0''" by (simp add: dec_text_def)
  qed
  show ?thesis
    using v ne m0 [of "x < 0"] by (simp add: String_def Trim_def Let_def)
qed

lemma rat_set_string_String: "rat_set_string (String x) = Some (round18 x)"
proof -
  define n where "n = units x"
  let ?ip = "utoa (n div 10 ^ 18)" and ?fp = "pad18 (n mod 10 ^ 18)"
  let ?fq = "trim_right CHR ''0'' ?fp"
  have n0: "0 \<le> n" by (simp add: n_def)
  have fp: "list_all is_digit ?fp" "length ?fp = 18" "digits_value 0 ?fp = n mod 10 ^ 18"
    using pad18_props [of "n mod 10 ^ 18"] by auto
  have ip: "list_all is_digit ?ip" "digits_value 0 ?ip = n div 10 ^ 18" "hd ?ip = CHR ''0'' \<longrightarrow> n div 10 ^ 18 = 0"
    using utoa_props [of "n div 10 ^ 18"] n0 by (auto simp: pos_imp_zdiv_nonneg_iff)
  then have hd0: "hd ?ip = CHR ''0'' \<longrightarrow> tl ?ip = []" by auto
  obtain k where k: "?fp = ?fq @ replicate k CHR ''0''"
    using trim_right_decomp by blast
  have fq: "list_all is_digit ?fq" "length ?fq \<le> 18"
    using fp(1,2) k by (metis list_all_append, metis le_add1 length_append)
  have len: "length ?fq + k = 18" using fp(2) k by (metis length_append length_replicate)
  have "digits_value 0 (?ip @ ?fp) = n div 10 ^ 18 * 10 ^ 18 + n mod 10 ^ 18"
    using ip fp by (simp add: digits_value_append digits_value_acc [of "_ div _" ])
  then have whole: "digits_value 0 (?ip @ ?fp) = n" by simp
  have "digits_value 0 (?ip @ ?fp) = digits_value 0 ((?ip @ ?fq) @ replicate k CHR ''0'')"
    using k by (metis append.assoc)
  also have "\<dots> = digits_value 0 (?ip @ ?fq) * 10 ^ k"
    by (subst digits_value_append, subst digits_value_acc) simp
  finally have m: "n = digits_value 0 (?ip @ ?fq) * 10 ^ k" using whole by simp
  have r: "rat_set_string (dec_text neg ?ip ?fq) = Some ((if neg then - 1 else 1) * of_int n / 10 ^ 18)" for neg
  proof -
    have p: "(10 :: rat) ^ 18 = 10 ^ length ?fq * 10 ^ k" by (simp only: power_add [symmetric] len)
    have "(of_int n :: rat) = of_int (digits_value 0 (?ip @ ?fq)) * 10 ^ k" by (subst m) simp
    then have "(of_int n :: rat) / 10 ^ 18 = of_int (digits_value 0 (?ip @ ?fq)) / 10 ^ length ?fq"
      unfolding p by simp
    then show ?thesis
      using rat_set_string_dec [OF ip(1) _ hd0 fq, of neg] by simp
  qed
  have zero: "units 0 = 0" by (simp add: units_def floor_eq_iff)
  show ?thesis
  proof (cases "x < 0 \<and> n = 0")
    case True
    have "rat_set_string ''0'' = Some 0"
      using rat_set_string_dec [of "''0''" "[]" False] by (simp add: dec_text_def digits_value_def)
    then show ?thesis
      using True String_text [of x] unfolding n_def by (simp add: units_round18)
  next
    case False
    then have "String x = dec_text (x < 0) ?ip ?fq" using String_text [of x] unfolding n_def by auto
    then show ?thesis
      using r [of "x < 0"] zero unfolding n_def by (auto simp: units_round18 sgn_if)
  qed
qed

section \<open>Reading back what was printed\<close>

lemma dec_text_no_space:
  assumes "list_all is_digit ip" "list_all is_digit fp" "c \<in> set (dec_text neg ip fp)"
  shows "\<not> is_space c"
  using assms is_digit_not_space by (auto simp: dec_text_def list_all_iff is_space_def split: if_splits)

lemma String_no_space: "c \<in> set (String x) \<Longrightarrow> \<not> is_space c"
proof -
  have "list_all is_digit (trim_right CHR ''0'' (pad18 (units x mod 10 ^ 18)))"
    using pad18_props [of "units x mod 10 ^ 18"] trim_right_decomp [of "pad18 (units x mod 10 ^ 18)" "CHR ''0''"]
    by (metis list_all_append pos_mod_bound pos_mod_sign zero_less_numeral zero_less_power)
  moreover have "list_all is_digit (utoa (units x div 10 ^ 18))"
    using utoa_props [of "units x div 10 ^ 18"] by (simp add: pos_imp_zdiv_nonneg_iff)
  moreover have "\<not> is_space CHR ''0''" by (simp add: is_space_def)
  ultimately show "c \<in> set (String x) \<Longrightarrow> \<not> is_space c"
    using dec_text_no_space String_text [of x] by (auto split: if_splits)
qed

lemma Parse_String [dec_simps]: "Parse (String x) = round18 x"
  using trim_space_id [of "String x"] String_no_space
  by (simp add: Parse_def rat_set_string_String)

end
