(* ===== verification/DecimalArith.thy ===== *)
theory DecimalArith
  imports DecimalText
begin

text \<open>
  The values of the decimal operations. An amount is a string whose value is a multiple of
  10^-18; every operation returns one. On amounts, addition and the floored subtraction are
  exact, the product is the rounded one, and comparison is the order of the values. The
  interface the order book and the ledger use these operations through is stated as the
  locale \<open>fill_arith\<close>, interpreted here on the package's own functions.
\<close>

section \<open>Rounding to 18 places\<close>

definition is_dec18 :: "rat \<Rightarrow> bool" where
  "is_dec18 x \<longleftrightarrow> of_int \<lfloor>x * 10 ^ 18\<rfloor> = x * 10 ^ 18"

definition amount :: "string \<Rightarrow> bool" where
  "amount s \<longleftrightarrow> is_dec18 (Parse s)"

lemma is_dec18_iff: "is_dec18 x \<longleftrightarrow> (\<exists>n. x = of_int n / 10 ^ 18)"
proof
  assume a: "is_dec18 x"
  have "x = x * 10 ^ 18 / 10 ^ 18" by simp
  also have "\<dots> = of_int \<lfloor>x * 10 ^ 18\<rfloor> / 10 ^ 18" using a unfolding is_dec18_def by (simp only:)
  finally show "\<exists>n. x = of_int n / 10 ^ 18" by blast
next
  assume "\<exists>n. x = of_int n / 10 ^ 18"
  then obtain n where "x * 10 ^ 18 = of_int n" by auto
  then show "is_dec18 x" unfolding is_dec18_def by (simp only: floor_of_int)
qed

lemma is_dec18_0 [simp]: "is_dec18 0"
  by (simp add: is_dec18_def)

lemma is_dec18_uminus: "is_dec18 x \<Longrightarrow> is_dec18 (- x)"
  unfolding is_dec18_iff by (metis minus_divide_left of_int_minus)

lemma is_dec18_add: "is_dec18 x \<Longrightarrow> is_dec18 y \<Longrightarrow> is_dec18 (x + y)"
  unfolding is_dec18_iff by (metis add_divide_distrib of_int_add)

lemma is_dec18_diff: "is_dec18 x \<Longrightarrow> is_dec18 y \<Longrightarrow> is_dec18 (x - y)"
  unfolding is_dec18_iff by (metis diff_divide_distrib of_int_diff)

lemma round18_is_dec18 [simp]: "is_dec18 (round18 x)"
proof -
  have "\<exists>n. sgn x * of_int k / 10 ^ 18 = (of_int n :: rat) / 10 ^ 18" for k
    by (cases x "0 :: rat" rule: linorder_cases) (auto intro: exI [of _ "- k"] exI [of _ 0] exI [of _ k])
  then show ?thesis unfolding is_dec18_iff round18_def by blast
qed

lemma round18_0 [simp]: "round18 0 = 0"
  by (simp add: round18_def)

lemma round18_uminus: "round18 (- x) = - round18 x"
  by (simp add: round18_def)

lemma round18_nonneg: "0 \<le> x \<Longrightarrow> round18 x = of_int \<lfloor>x * 10 ^ 18 + 1 / 2\<rfloor> / 10 ^ 18"
  by (cases "x = 0") (auto simp: round18_def floor_eq_iff)

lemma round18_ge_0: "0 \<le> x \<Longrightarrow> 0 \<le> round18 x"
  by (simp add: round18_nonneg)

lemma round18_exact:
  assumes "is_dec18 x"
  shows "round18 x = x"
proof -
  have pos: "round18 y = y" if y: "0 \<le> y" "is_dec18 y" for y
  proof -
    obtain n where n: "y = of_int n / 10 ^ 18" using y(2) unfolding is_dec18_iff by blast
    then have "y * 10 ^ 18 = of_int n" by simp
    then have "\<lfloor>y * 10 ^ 18 + 1 / 2\<rfloor> = n" by (simp add: floor_eq_iff)
    then show ?thesis using round18_nonneg [OF y(1)] n by (simp only:)
  qed
  show ?thesis
    using pos [of x] pos [of "- x"] assms is_dec18_uminus [OF assms] round18_uminus [of x]
    by (cases "0 \<le> x") auto
qed

lemma round18_mono: "x \<le> y \<Longrightarrow> round18 x \<le> round18 y"
proof -
  have pos: "round18 a \<le> round18 b" if "0 \<le> a" "a \<le> b" for a b
    using that by (simp add: round18_nonneg divide_right_mono floor_mono)
  assume xy: "x \<le> y"
  consider "0 \<le> x" | "x < 0" "0 \<le> y" | "y < 0" using xy by linarith
  then show ?thesis
  proof cases
    case 1 then show ?thesis using pos xy by simp
  next
    case 2
    then show ?thesis using round18_ge_0 [of y] round18_ge_0 [of "- x"] round18_uminus [of x] by simp
  next
    case 3
    then show ?thesis using pos [of "- y" "- x"] xy by (simp add: round18_uminus)
  qed
qed

lemma round18_error: "\<bar>round18 x - x\<bar> \<le> 1 / (2 * 10 ^ 18)"
proof -
  have pos: "\<bar>round18 y - y\<bar> \<le> 1 / (2 * 10 ^ 18)" if "0 \<le> y" for y
  proof -
    let ?f = "of_int \<lfloor>y * 10 ^ 18 + 1 / 2\<rfloor> :: rat"
    have "?f \<le> y * 10 ^ 18 + 1 / 2" "y * 10 ^ 18 + 1 / 2 < ?f + 1" by linarith+
    moreover have "\<bar>f / S - y\<bar> \<le> 1 / (2 * S)" if "0 < S" "f \<le> y * S + 1 / 2" "y * S + 1 / 2 < f + 1"
      for f S :: rat
    proof -
      have "(f - y * S) / S \<le> (1 / 2) / S" "(y * S - f) / S \<le> (1 / 2) / S"
        using that by (intro divide_right_mono; simp)+
      then have "f / S - y \<le> 1 / (2 * S)" "y - f / S \<le> 1 / (2 * S)"
        using that(1) by (simp_all add: diff_divide_distrib)
      then show ?thesis by (simp only: abs_le_iff minus_diff_eq)
    qed
    ultimately have "\<bar>?f / 10 ^ 18 - y\<bar> \<le> 1 / (2 * 10 ^ 18)" by (metis zero_less_numeral zero_less_power)
    then show ?thesis by (simp only: round18_nonneg [OF that])
  qed
  show ?thesis
    using pos [of x] pos [of "- x"] round18_uminus [of x]
    by (cases "0 \<le> x") (auto simp: abs_minus_commute)
qed

lemma round18_eq_0_iff: "round18 x = 0 \<longleftrightarrow> \<bar>x\<bar> < 1 / (2 * 10 ^ 18)"
proof -
  have "round18 x = 0 \<longleftrightarrow> x = 0 \<or> \<lfloor>\<bar>x\<bar> * 10 ^ 18 + 1 / 2\<rfloor> = 0"
    by (simp add: round18_def sgn_eq_0_iff)
  also have "\<lfloor>\<bar>x\<bar> * 10 ^ 18 + 1 / 2\<rfloor> = 0 \<longleftrightarrow> \<bar>x\<bar> < 1 / (2 * 10 ^ 18)"
    by (simp add: floor_eq_iff field_simps)
  finally show ?thesis by auto
qed

section \<open>The operations\<close>

lemma amountD: "amount s \<Longrightarrow> is_dec18 (Parse s)"
  by (simp add: amount_def)

lemma Parse_0 [dec_simps]: "Parse ''0'' = 0"
  by code_simp

lemma amount_0 [simp]: "amount ''0''"
  by (simp add: amount_def Parse_0)

lemma amount_String [simp]: "amount (String x)"
  by (simp add: amount_def Parse_String)

lemma amount_Add [simp]: "amount (Add a b)"
  by (simp add: Add_def)

lemma amount_SubFloorZero [simp]: "amount (SubFloorZero a b)"
  by (simp add: SubFloorZero_def Let_def)

lemma amount_Mul [simp]: "amount (Mul a b)"
  by (simp add: Mul_def)

lemma amount_Min: "amount a \<Longrightarrow> amount b \<Longrightarrow> amount (Min a b)"
  by (simp add: Min_def)

lemma Cmp_le_0 [dec_simps]: "Cmp a b \<le> 0 \<longleftrightarrow> Parse a \<le> Parse b"
  by (auto simp: Cmp_def rat_cmp_def)

lemma Cmp_less_0 [dec_simps]: "Cmp a b < 0 \<longleftrightarrow> Parse a < Parse b"
  by (auto simp: Cmp_def rat_cmp_def)

lemma Cmp_ge_0 [dec_simps]: "0 \<le> Cmp a b \<longleftrightarrow> Parse b \<le> Parse a"
  by (auto simp: Cmp_def rat_cmp_def)

lemma Cmp_greater_0 [dec_simps]: "0 < Cmp a b \<longleftrightarrow> Parse b < Parse a"
  by (auto simp: Cmp_def rat_cmp_def)

lemma Cmp_eq_0 [dec_simps]: "Cmp a b = 0 \<longleftrightarrow> Parse a = Parse b"
  by (auto simp: Cmp_def rat_cmp_def)

lemma Parse_Min [dec_simps]: "Parse (Min a b) = min (Parse a) (Parse b)"
  by (auto simp: Min_def Cmp_le_0 min_def)

lemma Parse_Mul: "Parse (Mul a b) = round18 (Parse a * Parse b)"
  by (simp add: Mul_def Parse_String)

lemma Parse_Add: "amount a \<Longrightarrow> amount b \<Longrightarrow> Parse (Add a b) = Parse a + Parse b"
  by (simp add: Add_def Parse_String round18_exact is_dec18_add amount_def)

lemma Parse_SubFloorZero:
  "amount a \<Longrightarrow> amount b \<Longrightarrow> Parse (SubFloorZero a b) = max 0 (Parse a - Parse b)"
  by (auto simp: SubFloorZero_def Let_def Parse_String Parse_0 round18_exact is_dec18_diff
      amount_def max_def)

lemma Parse_Mul_nonneg: "0 \<le> Parse a \<Longrightarrow> 0 \<le> Parse b \<Longrightarrow> 0 \<le> Parse (Mul a b)"
  by (simp add: Parse_Mul round18_ge_0)

text \<open>Printing is a normal form: texts of equal value print the same.\<close>

lemma units_round18_eq: "units (round18 x) = units x"
proof -
  have u: "units 0 = 0" by (simp add: units_def floor_eq_iff)
  have "\<bar>round18 x\<bar> = \<bar>sgn x\<bar> * of_int (units x) / 10 ^ 18"
    unfolding units_round18 by (simp add: abs_mult)
  then have "\<bar>round18 x\<bar> = of_int (units x) / 10 ^ 18"
    using u by (cases "x = 0") auto
  then show ?thesis unfolding units_def [of "round18 x"] by (simp add: floor_eq_iff)
qed

lemma String_round18: "String (round18 x) = String x"
proof -
  have neg: "round18 x < 0 \<longleftrightarrow> x < 0 \<and> units x \<noteq> 0"
    using units_nonneg [of x] unfolding units_round18
    by (cases x "0 :: rat" rule: linorder_cases) (auto simp add: order_less_le dest: order.antisym [OF _ units_nonneg])
  have z: "dec_text False (utoa 0) (trim_right CHR ''0'' (pad18 0)) = ''0''" by code_simp
  show ?thesis
  proof (cases "x < 0 \<and> units x = 0")
    case True
    then show ?thesis
      using String_text [of x] String_text [of "round18 x"] neg z by (simp add: units_round18_eq)
  next
    case False
    then show ?thesis
      using String_text [of x] String_text [of "round18 x"] neg by (auto simp: units_round18_eq)
  qed
qed

lemma String_Parse_String: "String (Parse (String x)) = String x"
  by (simp add: Parse_String String_round18)

section \<open>The arithmetic of a fill\<close>

text \<open>
  What the matching loop and the ledger assume of the arithmetic they are given: comparison
  is by value, the smaller of two is one of them, and on well-formed amounts the sum is exact
  and the difference exact down to zero.
\<close>

locale fill_arith =
  fixes val :: "'n \<Rightarrow> rat" and wf :: "'n \<Rightarrow> bool"
    and cmp :: "'n \<Rightarrow> 'n \<Rightarrow> int" and minimum add sub :: "'n \<Rightarrow> 'n \<Rightarrow> 'n"
  assumes cmp_le: "cmp a b \<le> 0 \<longleftrightarrow> val a \<le> val b"
    and minimum_def: "minimum a b = (if cmp a b \<le> 0 then a else b)"
    and wf_add: "wf a \<Longrightarrow> wf b \<Longrightarrow> wf (add a b)"
    and wf_sub: "wf a \<Longrightarrow> wf b \<Longrightarrow> wf (sub a b)"
    and val_add: "wf a \<Longrightarrow> wf b \<Longrightarrow> val (add a b) = val a + val b"
    and val_sub: "wf a \<Longrightarrow> wf b \<Longrightarrow> val (sub a b) = max 0 (val a - val b)"
begin

lemma val_minimum: "val (minimum a b) = min (val a) (val b)"
  by (simp add: minimum_def cmp_le min_def)

lemma wf_minimum: "wf a \<Longrightarrow> wf b \<Longrightarrow> wf (minimum a b)"
  by (simp add: minimum_def)

text \<open>One fill takes the same amount from both sides and leaves nothing on one of them.\<close>

lemma fill_exact:
  assumes "wf a" "wf b"
  shows "val (sub a (minimum a b)) = val a - min (val a) (val b)"
    and "val (sub b (minimum a b)) = val b - min (val a) (val b)"
    and "val (sub a (minimum a b)) = 0 \<or> val (sub b (minimum a b)) = 0"
  using assms by (auto simp: val_sub val_minimum wf_minimum min_def max_def)

text \<open>Filled plus remaining is kept by a fill.\<close>

lemma fill_conserves:
  assumes "wf filled" "wf rem" "wf q" "val q \<le> val rem"
  shows "val (add filled q) + val (sub rem q) = val filled + val rem"
  using assms by (simp add: val_add val_sub max_def)

lemma fill_nonneg:
  assumes "wf rem" "wf q"
  shows "0 \<le> val (sub rem q)"
  using assms by (simp add: val_sub)

text \<open>Taking in two steps is taking the sum.\<close>

lemma sub_sub:
  assumes "wf a" "wf b" "wf c" "0 \<le> val b" "0 \<le> val c"
  shows "val (sub (sub a b) c) = val (sub a (add b c))"
  using assms by (auto simp: val_add val_sub wf_add wf_sub max_def)

end

interpretation da: fill_arith Parse amount Cmp Min Add SubFloorZero
  by unfold_locales
    (simp_all add: Cmp_le_0 Min_def Parse_Add Parse_SubFloorZero)

section \<open>Properties of the package\<close>

text \<open>Every rational, printed with \<^verbatim>\<open>String\<close> and read back with \<^verbatim>\<open>Parse\<close>, is the rational
  rounded half away from zero to 18 places, at most half a unit of the last place away, and
  printing that number again gives the same text.\<close>

theorem Parse_String_roundtrip:
  "Parse (String x) = sgn x * of_int \<lfloor>\<bar>x\<bar> * 10 ^ 18 + 1 / 2\<rfloor> / 10 ^ 18 \<and>
   \<bar>Parse (String x) - x\<bar> \<le> 1 / (2 * 10 ^ 18) \<and>
   String (Parse (String x)) = String x"
  using round18_error [of x] String_Parse_String [of x]
  by (simp add: Parse_String round18_def)

text \<open>On amounts with at most 18 decimal places addition is exact and subtraction is exact
  down to zero, and both return amounts again.\<close>

theorem Add_SubFloorZero_exact:
  assumes "amount a" and "amount b"
  shows "Parse (Add a b) = Parse a + Parse b \<and>
    Parse (SubFloorZero a b) = max 0 (Parse a - Parse b) \<and>
    amount (Add a b) \<and> amount (SubFloorZero a b)"
  using assms by (simp add: da.val_add da.val_sub)

theorem Add_SubFloorZero_exact_witness:
  "Parse (Add ''0.1'' ''0.2'') = 3 / 10 \<and> Parse (SubFloorZero ''0.1'' ''0.2'') = 0"
proof -
  have a: "amount ''0.1''" "amount ''0.2''" by code_simp+
  have v: "Parse ''0.1'' = 1 / 10" "Parse ''0.2'' = 2 / 10" by code_simp+
  show ?thesis using Add_SubFloorZero_exact [OF a] v by simp
qed

text \<open>The product is the exact product rounded to 18 places; it is monotone in each
  non-negative factor, so a smaller fill never costs more.\<close>

theorem Mul_rounded_monotone:
  assumes "0 \<le> Parse p" and "Parse q \<le> Parse q'"
  shows "Parse (Mul q p) = round18 (Parse q * Parse p) \<and> Parse (Mul q p) \<le> Parse (Mul q' p)"
  using assms by (simp add: Parse_Mul round18_mono mult_right_mono)

theorem Mul_rounded_monotone_witness:
  "Parse (Mul ''1.5'' ''0.1'') \<le> Parse (Mul ''2'' ''0.1'')"
  using Mul_rounded_monotone [of "''0.1''" "''1.5''" "''2''"] by code_simp

end
