(* ===== verification/OrderModel.thy ===== *)
theory OrderModel
  imports DecimalArith
begin

text \<open>
  The data the components share: orders (\<^verbatim>\<open>internal/core/order\<close>), trades (\<^verbatim>\<open>internal/core/trade\<close>)
  and the price levels of a book snapshot (\<^verbatim>\<open>internal/core/orderbook\<close>).

  The string types \<^verbatim>\<open>Side\<close>, \<^verbatim>\<open>Type\<close>, \<^verbatim>\<open>Status\<close> and \<^verbatim>\<open>TimeInForce\<close> are datatypes with one constructor
  per declared constant and one that carries any other text, the empty one included; the
  conversions \<open>side_of\<close>, \<open>type_of\<close> and \<open>tif_of\<close> read a text.
\<close>

section \<open>Orders\<close>

datatype side = SideBuy | SideSell | SideOther string

datatype order_type = TypeLimit | TypeMarket | TypeStopLimit | TypeOther string

datatype status =
    StatusPendingMatch | StatusPendingStop | StatusOpen | StatusPartiallyFilled
  | StatusFilled | StatusCanceled | StatusExpired | StatusRejected | StatusOther string

datatype time_in_force = TimeInForceGTC | TimeInForceIOC | TimeInForceOther string

definition side_of :: "string \<Rightarrow> side" where
  "side_of s = (if s = ''buy'' then SideBuy else if s = ''sell'' then SideSell else SideOther s)"

definition type_of :: "string \<Rightarrow> order_type" where
  "type_of s =
     (if s = ''limit'' then TypeLimit
      else if s = ''market'' then TypeMarket
      else if s = ''stop_limit'' then TypeStopLimit
      else TypeOther s)"

definition tif_of :: "string \<Rightarrow> time_in_force" where
  "tif_of s =
     (if s = ''gtc'' then TimeInForceGTC else if s = ''ioc'' then TimeInForceIOC
      else TimeInForceOther s)"

record order =
  o_ID :: string
  o_ClientOrderID :: string
  o_ReservationID :: string
  o_UserID :: string
  o_Market :: string
  o_BaseAsset :: string
  o_QuoteAsset :: string
  o_Side :: side
  o_Type :: order_type
  o_Status :: status
  o_TimeInForce :: time_in_force
  o_Price :: string
  o_StopPrice :: string
  o_Quantity :: string
  o_FilledQuantity :: string
  o_RemainingQuantity :: string
  o_SequenceID :: uint64
  o_CreatedAt :: time
  o_UpdatedAt :: time

definition NormalizeSide :: "string \<Rightarrow> side" where
  "NormalizeSide value = side_of (to_lower (trim_space value))"

definition NormalizeType :: "string \<Rightarrow> order_type" where
  "NormalizeType value =
     (let v = to_lower (trim_space value) in if v = [] then TypeLimit else type_of v)"

definition NormalizeTimeInForce :: "string \<Rightarrow> time_in_force" where
  "NormalizeTimeInForce value =
     (let v = to_lower (trim_space value) in if v = [] then TimeInForceGTC else tif_of v)"

datatype order_error = SideInvalid | TypeInvalid | TimeInForceInvalid

definition Side_Validate :: "side \<Rightarrow> order_error + unit" where
  "Side_Validate s =
     (case s of SideBuy \<Rightarrow> Inr () | SideSell \<Rightarrow> Inr () | SideOther _ \<Rightarrow> Inl SideInvalid)"

definition Type_Validate :: "order_type \<Rightarrow> order_error + unit" where
  "Type_Validate t =
     (case t of TypeLimit \<Rightarrow> Inr () | TypeMarket \<Rightarrow> Inr () | TypeStopLimit \<Rightarrow> Inr ()
      | TypeOther _ \<Rightarrow> Inl TypeInvalid)"

definition TimeInForce_Validate :: "time_in_force \<Rightarrow> order_error + unit" where
  "TimeInForce_Validate t =
     (case t of TimeInForceGTC \<Rightarrow> Inr () | TimeInForceIOC \<Rightarrow> Inr ()
      | TimeInForceOther _ \<Rightarrow> Inl TimeInForceInvalid)"

lemma Side_Validate_ok [simp]: "Side_Validate s = Inr u \<longleftrightarrow> s = SideBuy \<or> s = SideSell"
  by (auto simp: Side_Validate_def split: side.splits)

lemma Type_Validate_ok [simp]: "Type_Validate t = Inr u \<longleftrightarrow> t \<in> {TypeLimit, TypeMarket, TypeStopLimit}"
  by (auto simp: Type_Validate_def split: order_type.splits)

lemma TimeInForce_Validate_ok [simp]:
  "TimeInForce_Validate t = Inr u \<longleftrightarrow> t = TimeInForceGTC \<or> t = TimeInForceIOC"
  by (auto simp: TimeInForce_Validate_def split: time_in_force.splits)

datatype event_type =
    EventOrderAccepted | EventOrderCanceled | EventOrderFilled | EventOrderExpired
  | EventTradeCreated

record order_event =
  ev_ID :: string
  ev_OrderID :: string
  ev_UserID :: string
  ev_Market :: string
  ev_Type :: event_type
  ev_RefID :: string
  ev_CreatedAt :: time

section \<open>Trades\<close>

record trade =
  t_ID :: string
  t_Market :: string
  t_BaseAsset :: string
  t_QuoteAsset :: string
  t_MakerOrderID :: string
  t_TakerOrderID :: string
  t_MakerUserID :: string
  t_TakerUserID :: string
  t_TakerSide :: side
  t_Price :: string
  t_Quantity :: string
  t_QuoteQuantity :: string
  t_CreatedAt :: time

section \<open>Price levels\<close>

record price_level =
  pl_Market :: string
  pl_Side :: side
  pl_Price :: string
  pl_Quantity :: string
  pl_OrderCount :: int
  pl_FirstSequenceID :: uint64
  pl_LastUpdatedAt :: time

record book_snapshot =
  bs_Market :: string
  bs_Bids :: "price_level list"
  bs_Asks :: "price_level list"

end
