(* ===== verification/MatchEngine.thy ===== *)
theory MatchEngine
  imports OrderModel
begin

text \<open>
  \<^verbatim>\<open>internal/core/matching/engine.go\<close>: matching one taker against a list of makers. The trade
  identifier factory is a parameter: \<^verbatim>\<open>nil\<close> is \<^const>\<open>None\<close>, and \<open>Some ids\<close> gives the identifier of
  its n-th call of this run, which is the call for the n-th trade. Every error wraps
  \<^verbatim>\<open>ErrInvalidMatch\<close>; the constructors of \<open>match_error\<close> are its messages.
\<close>

datatype match_error =
    TradeIDFactoryRequired
  | OrderAlreadyActive
  | TakerIDRequired
  | TakerMarketIncomplete
  | TakerSideInvalid
  | TakerPriceNotPositive
  | TakerRemainingNotPositive
  | QuoteBelowPrecision
  | MarketMismatch
  | BaseAssetMismatch
  | QuoteAssetMismatch
  | OrderIDRequired
  | RestingSideInvalid
  | MarketOrdersCannotRest
  | RestingPriceNotPositive
  | RestingRemainingNotPositive
  | RestingStatusNotActive

type_synonym trade_ids = "(nat \<Rightarrow> string) option"

record match_result =
  r_Taker :: order
  r_Makers :: "order list"
  r_Trades :: "trade list"

definition validateTaker :: "order \<Rightarrow> match_error + unit" where
  "validateTaker item =
     (if o_ID item = [] then Inl TakerIDRequired
      else if o_Market item = [] \<or> o_BaseAsset item = [] \<or> o_QuoteAsset item = []
        then Inl TakerMarketIncomplete
      else if o_Side item \<noteq> SideBuy \<and> o_Side item \<noteq> SideSell then Inl TakerSideInvalid
      else if Cmp (o_Price item) ''0'' \<le> 0 then Inl TakerPriceNotPositive
      else if Cmp (o_RemainingQuantity item) ''0'' \<le> 0 then Inl TakerRemainingNotPositive
      else Inr ())"

definition isSelfTrade :: "order \<Rightarrow> order \<Rightarrow> bool" where
  "isSelfTrade taker maker \<longleftrightarrow> o_UserID taker \<noteq> [] \<and> o_UserID taker = o_UserID maker"

definition crossesPrice :: "order \<Rightarrow> order \<Rightarrow> bool" where
  "crossesPrice taker maker =
     (if o_ID maker = [] \<or> o_ID maker = o_ID taker then False
      else if o_Market maker \<noteq> o_Market taker \<or> o_Side maker = o_Side taker then False
      else if o_Status maker \<noteq> StatusOpen \<and> o_Status maker \<noteq> StatusPartiallyFilled then False
      else if Cmp (o_RemainingQuantity maker) ''0'' \<le> 0 then False
      else (case o_Side taker of
              SideBuy \<Rightarrow> o_Side maker = SideSell \<and> Cmp (o_Price maker) (o_Price taker) \<le> 0
            | SideSell \<Rightarrow> o_Side maker = SideBuy \<and> Cmp (o_Price maker) (o_Price taker) \<ge> 0
            | SideOther _ \<Rightarrow> False))"

definition eligibleMaker :: "order \<Rightarrow> order \<Rightarrow> bool" where
  "eligibleMaker taker maker =
     (if o_ID maker = [] \<or> o_ID maker = o_ID taker then False
      else if o_Market maker \<noteq> o_Market taker \<or> o_Side maker = o_Side taker then False
      else if isSelfTrade taker maker then False
      else if o_Status maker \<noteq> StatusOpen \<and> o_Status maker \<noteq> StatusPartiallyFilled then False
      else if Cmp (o_RemainingQuantity maker) ''0'' \<le> 0 then False
      else (case o_Side taker of
              SideBuy \<Rightarrow> o_Side maker = SideSell \<and> Cmp (o_Price maker) (o_Price taker) \<le> 0
            | SideSell \<Rightarrow> o_Side maker = SideBuy \<and> Cmp (o_Price maker) (o_Price taker) \<ge> 0
            | SideOther _ \<Rightarrow> False))"

definition statusForRemaining :: "string \<Rightarrow> status" where
  "statusForRemaining remaining =
     (if Cmp remaining ''0'' \<le> 0 then StatusFilled else StatusPartiallyFilled)"

text \<open>The fill of one maker: the trade, the updated maker and the updated taker, as both
  \<^verbatim>\<open>MatchLimit\<close> and \<^verbatim>\<open>MarketBook.Apply\<close> build them; \<open>k\<close> is the number of trades so far.\<close>

definition fill_trade :: "(nat \<Rightarrow> string) \<Rightarrow> time \<Rightarrow> nat \<Rightarrow> order \<Rightarrow> order \<Rightarrow> string \<Rightarrow> trade" where
  "fill_trade ids now k taker maker qty =
     \<lparr>t_ID = ids k, t_Market = o_Market taker, t_BaseAsset = o_BaseAsset taker,
      t_QuoteAsset = o_QuoteAsset taker, t_MakerOrderID = o_ID maker,
      t_TakerOrderID = o_ID taker, t_MakerUserID = o_UserID maker,
      t_TakerUserID = o_UserID taker, t_TakerSide = o_Side taker, t_Price = o_Price maker,
      t_Quantity = qty, t_QuoteQuantity = Mul qty (o_Price maker),
      t_CreatedAt = now + int k * 1000\<rparr>"

definition fill_order :: "time \<Rightarrow> string \<Rightarrow> order \<Rightarrow> order" where
  "fill_order now qty item =
     (let remaining = SubFloorZero (o_RemainingQuantity item) qty in
      item\<lparr>o_FilledQuantity := Add (o_FilledQuantity item) qty,
           o_RemainingQuantity := remaining,
           o_Status := statusForRemaining remaining,
           o_UpdatedAt := now\<rparr>)"

definition fill_result :: "(nat \<Rightarrow> string) \<Rightarrow> time \<Rightarrow> match_result \<Rightarrow> order \<Rightarrow> string \<Rightarrow> match_result" where
  "fill_result ids now r maker qty =
     r\<lparr>r_Trades := r_Trades r @ [fill_trade ids now (length (r_Trades r)) (r_Taker r) maker qty],
       r_Makers := r_Makers r @ [fill_order now qty maker],
       r_Taker := fill_order now qty (r_Taker r)\<rparr>"

fun match_makers :: "(nat \<Rightarrow> string) \<Rightarrow> time \<Rightarrow> match_result \<Rightarrow> order list \<Rightarrow> match_error + match_result" where
  "match_makers ids now r [] = Inr r"
| "match_makers ids now r (maker # makers) =
     (if Cmp (o_RemainingQuantity (r_Taker r)) ''0'' \<le> 0 then Inr r
      else if \<not> eligibleMaker (r_Taker r) maker then
        (if isSelfTrade (r_Taker r) maker \<and> crossesPrice (r_Taker r) maker
         then Inr (r\<lparr>r_Taker := (r_Taker r)\<lparr>o_Status := StatusExpired, o_UpdatedAt := now\<rparr>\<rparr>)
         else match_makers ids now r makers)
      else
        (let qty = Min (o_RemainingQuantity (r_Taker r)) (o_RemainingQuantity maker) in
         if Cmp qty ''0'' \<le> 0 then match_makers ids now r makers
         else if Cmp (Mul qty (o_Price maker)) ''0'' \<le> 0 then Inl QuoteBelowPrecision
         else match_makers ids now (fill_result ids now r maker qty) makers))"

definition MatchLimit :: "order \<Rightarrow> order list \<Rightarrow> trade_ids \<Rightarrow> time \<Rightarrow> match_error + match_result" where
  "MatchLimit taker makers newTradeID now =
     (case newTradeID of
        None \<Rightarrow> Inl TradeIDFactoryRequired
      | Some ids \<Rightarrow>
          (case validateTaker taker of
             Inl e \<Rightarrow> Inl e
           | Inr _ \<Rightarrow>
               (case match_makers ids now \<lparr>r_Taker = taker, r_Makers = [], r_Trades = []\<rparr> makers of
                  Inl e \<Rightarrow> Inl e
                | Inr r \<Rightarrow>
                    Inr (if Cmp (o_RemainingQuantity (r_Taker r)) ''0'' > 0 \<and>
                            o_Status (r_Taker r) \<noteq> StatusPartiallyFilled \<and>
                            o_Status (r_Taker r) \<noteq> StatusExpired
                         then r\<lparr>r_Taker := (r_Taker r)\<lparr>o_Status := StatusOpen\<rparr>\<rparr> else r))))"

end
