(* ===== verification/MatchFill.thy ===== *)
theory MatchFill
  imports MatchEngine
begin

text \<open>
  The invariant of a matching run, shared by \<^verbatim>\<open>MatchLimit\<close> and the book's \<^verbatim>\<open>Apply\<close>: what the
  trades so far, the updated makers and the taker have to do with the taker that came in.
  One fill preserves it; the arithmetic is that of the locale \<open>fill_arith\<close>.
\<close>

section \<open>Well-formed orders and trades\<close>

definition order_ok :: "order \<Rightarrow> bool" where
  "order_ok x \<longleftrightarrow> amount (o_FilledQuantity x) \<and> amount (o_RemainingQuantity x) \<and>
     0 \<le> Parse (o_FilledQuantity x) \<and> 0 \<le> Parse (o_RemainingQuantity x)"

definition same_order :: "order \<Rightarrow> order \<Rightarrow> bool" where
  "same_order a b \<longleftrightarrow>
     o_ID b = o_ID a \<and> o_ClientOrderID b = o_ClientOrderID a \<and>
     o_ReservationID b = o_ReservationID a \<and> o_UserID b = o_UserID a \<and>
     o_Market b = o_Market a \<and> o_BaseAsset b = o_BaseAsset a \<and> o_QuoteAsset b = o_QuoteAsset a \<and>
     o_Side b = o_Side a \<and> o_Type b = o_Type a \<and> o_TimeInForce b = o_TimeInForce a \<and>
     o_Price b = o_Price a \<and> o_StopPrice b = o_StopPrice a \<and> o_Quantity b = o_Quantity a \<and>
     o_SequenceID b = o_SequenceID a \<and> o_CreatedAt b = o_CreatedAt a"

definition within_limit :: "side \<Rightarrow> string \<Rightarrow> string \<Rightarrow> bool" where
  "within_limit s limit p =
     (case s of SideBuy \<Rightarrow> Parse p \<le> Parse limit | SideSell \<Rightarrow> Parse limit \<le> Parse p
      | SideOther _ \<Rightarrow> False)"

definition trade_ok :: "order \<Rightarrow> string \<Rightarrow> trade \<Rightarrow> bool" where
  "trade_ok taker limit t \<longleftrightarrow>
     amount (t_Quantity t) \<and> 0 < Parse (t_Quantity t) \<and>
     t_QuoteQuantity t = Mul (t_Quantity t) (t_Price t) \<and> 0 < Parse (t_QuoteQuantity t) \<and>
     t_TakerOrderID t = o_ID taker \<and> t_MakerOrderID t \<noteq> o_ID taker \<and>
     t_TakerUserID t = o_UserID taker \<and>
     (o_UserID taker = [] \<or> t_MakerUserID t \<noteq> o_UserID taker) \<and>
     t_Market t = o_Market taker \<and> t_TakerSide t = o_Side taker \<and>
     within_limit (o_Side taker) limit (t_Price t)"

text \<open>The updated maker that a trade reports is the resting order with the trade's fill.\<close>

definition maker_filled :: "time \<Rightarrow> order set \<Rightarrow> trade \<Rightarrow> order \<Rightarrow> bool" where
  "maker_filled now M t m \<longleftrightarrow> (\<exists>m0 \<in> M.
     m = fill_order now (t_Quantity t) m0 \<and> t_MakerOrderID t = o_ID m0 \<and>
     t_MakerUserID t = o_UserID m0 \<and> t_Price t = o_Price m0 \<and>
     Parse (t_Quantity t) \<le> Parse (o_RemainingQuantity m0))"

definition traded :: "trade list \<Rightarrow> rat" where
  "traded ts = sum_list (map (\<lambda>t. Parse (t_Quantity t)) ts)"

definition run_inv :: "(nat \<Rightarrow> string) \<Rightarrow> time \<Rightarrow> order \<Rightarrow> string \<Rightarrow> order set \<Rightarrow> match_result \<Rightarrow> bool" where
  "run_inv ids now taker limit M r \<longleftrightarrow>
     same_order taker (r_Taker r) \<and> order_ok (r_Taker r) \<and>
     Parse (o_FilledQuantity (r_Taker r)) = Parse (o_FilledQuantity taker) + traded (r_Trades r) \<and>
     Parse (o_RemainingQuantity (r_Taker r)) = Parse (o_RemainingQuantity taker) - traded (r_Trades r) \<and>
     (\<forall>t \<in> set (r_Trades r). trade_ok taker limit t) \<and>
     list_all2 (maker_filled now M) (r_Trades r) (r_Makers r) \<and>
     map t_ID (r_Trades r) = map ids [0..<length (r_Trades r)] \<and>
     (o_FilledQuantity taker \<noteq> [] \<longrightarrow> o_FilledQuantity (r_Taker r) \<noteq> [])"

lemma same_order_refl [simp]: "same_order x x"
  by (simp add: same_order_def)

lemma same_order_fields:
  assumes "same_order a b"
  shows "o_ID b = o_ID a" "o_Market b = o_Market a" "o_BaseAsset b = o_BaseAsset a"
    "o_QuoteAsset b = o_QuoteAsset a" "o_UserID b = o_UserID a" "o_Side b = o_Side a"
    "o_Type b = o_Type a" "o_TimeInForce b = o_TimeInForce a" "o_Price b = o_Price a"
    "o_Quantity b = o_Quantity a" "o_SequenceID b = o_SequenceID a"
  using assms by (simp_all add: same_order_def)

lemma same_order_upd [simp]:
  "same_order a b \<Longrightarrow> same_order a (b\<lparr>o_Status := s\<rparr>)"
  "same_order a b \<Longrightarrow> same_order a (b\<lparr>o_UpdatedAt := u\<rparr>)"
  "same_order a b \<Longrightarrow> same_order a (b\<lparr>o_Status := s, o_UpdatedAt := u\<rparr>)"
  by (simp_all add: same_order_def)

lemma same_order_fill: "same_order a b \<Longrightarrow> same_order a (fill_order now q b)"
  by (simp add: same_order_def fill_order_def Let_def)

lemma traded_snoc [simp]: "traded (ts @ [t]) = traded ts + Parse (t_Quantity t)"
  by (simp add: traded_def)

lemma traded_Nil [simp]: "traded [] = 0"
  by (simp add: traded_def)

lemma traded_nonneg:
  "(\<And>t. t \<in> set ts \<Longrightarrow> trade_ok x l t) \<Longrightarrow> 0 \<le> traded ts"
  unfolding traded_def by (intro sum_list_nonneg) (auto simp: trade_ok_def less_imp_le)

section \<open>Eligible makers and crossing\<close>

lemma eligibleMaker_iff:
  "eligibleMaker t m \<longleftrightarrow> crossesPrice t m \<and> \<not> isSelfTrade t m"
  by (auto simp: eligibleMaker_def crossesPrice_def split: side.splits)

lemma crossesPrice_within:
  "crossesPrice t m \<Longrightarrow> within_limit (o_Side t) (o_Price t) (o_Price m)"
  by (auto simp: crossesPrice_def within_limit_def dec_simps split: side.splits if_splits)

lemma crossesPriceD:
  assumes "crossesPrice t m"
  shows "o_ID m \<noteq> []" "o_ID m \<noteq> o_ID t" "o_Market m = o_Market t" "o_Side m \<noteq> o_Side t"
    "o_Status m = StatusOpen \<or> o_Status m = StatusPartiallyFilled"
    "0 < Parse (o_RemainingQuantity m)"
  using assms by (auto simp: crossesPrice_def dec_simps split: if_splits)

section \<open>One fill\<close>

lemma String_ne [simp]: "String x \<noteq> []"
  by (auto simp: String_def Trim_def Let_def)

lemma SubFloorZero_ne [simp]: "SubFloorZero a b \<noteq> []"
  by (auto simp: SubFloorZero_def Let_def)

lemma Add_ne [simp]: "Add a b \<noteq> []"
  by (simp add: Add_def)

lemma fill_order_fields [simp]:
  "o_ID (fill_order now q x) = o_ID x" "o_Market (fill_order now q x) = o_Market x"
  "o_BaseAsset (fill_order now q x) = o_BaseAsset x" "o_QuoteAsset (fill_order now q x) = o_QuoteAsset x"
  "o_UserID (fill_order now q x) = o_UserID x" "o_Side (fill_order now q x) = o_Side x"
  "o_Type (fill_order now q x) = o_Type x" "o_Price (fill_order now q x) = o_Price x"
  "o_TimeInForce (fill_order now q x) = o_TimeInForce x"
  "o_SequenceID (fill_order now q x) = o_SequenceID x" "o_UpdatedAt (fill_order now q x) = now"
  "o_FilledQuantity (fill_order now q x) = Add (o_FilledQuantity x) q"
  "o_RemainingQuantity (fill_order now q x) = SubFloorZero (o_RemainingQuantity x) q"
  "o_Status (fill_order now q x) = statusForRemaining (SubFloorZero (o_RemainingQuantity x) q)"
  by (simp_all add: fill_order_def Let_def)

lemma fill_order_ok:
  assumes "order_ok x" "amount q" "0 \<le> Parse q" "Parse q \<le> Parse (o_RemainingQuantity x)"
  shows "order_ok (fill_order now q x)"
    and "Parse (o_FilledQuantity (fill_order now q x)) = Parse (o_FilledQuantity x) + Parse q"
    and "Parse (o_RemainingQuantity (fill_order now q x)) = Parse (o_RemainingQuantity x) - Parse q"
  using assms by (auto simp: order_ok_def da.val_add da.val_sub)

lemma fill_order_sum:
  assumes "order_ok x" "amount q" "Parse q \<le> Parse (o_RemainingQuantity x)"
  shows "Parse (o_FilledQuantity (fill_order now q x)) + Parse (o_RemainingQuantity (fill_order now q x)) =
    Parse (o_FilledQuantity x) + Parse (o_RemainingQuantity x)"
  using assms da.fill_conserves by (simp add: order_ok_def)

lemma run_inv_fill:
  assumes inv: "run_inv ids now taker limit M r"
    and cross: "crossesPrice (taker\<lparr>o_Price := limit\<rparr>) m" and self: "\<not> isSelfTrade taker m"
    and m: "order_ok m" "m \<in> M"
    and qty: "qty = Min (o_RemainingQuantity (r_Taker r)) (o_RemainingQuantity m)"
    and pos: "0 < Parse (o_RemainingQuantity (r_Taker r))"
    and quote: "0 < Parse (Mul qty (o_Price m))"
  shows "run_inv ids now taker limit M (fill_result ids now r m qty)"
proof -
  have same: "same_order taker (r_Taker r)" and ok: "order_ok (r_Taker r)"
    using inv by (auto simp: run_inv_def)
  note f = same_order_fields [OF same]
  have a: "amount qty" using ok m qty amount_Min by (auto simp: order_ok_def)
  have q: "0 < Parse qty" "Parse qty \<le> Parse (o_RemainingQuantity (r_Taker r))"
    "Parse qty \<le> Parse (o_RemainingQuantity m)"
    using qty pos crossesPriceD [OF cross] by (auto simp: da.val_minimum)
  have t: "trade_ok taker limit (fill_trade ids now k (r_Taker r) m qty)" for k
    using a q quote crossesPriceD [OF cross] crossesPrice_within [OF cross] self
    by (auto simp: trade_ok_def fill_trade_def f isSelfTrade_def)
  have mf: "maker_filled now M (fill_trade ids now k (r_Taker r) m qty) (fill_order now qty m)" for k
    using m q by (auto simp: maker_filled_def fill_trade_def)
  show ?thesis
    using inv t mf fill_order_ok [OF ok a _ q(2)] q(1) same_order_fill [OF same]
    by (auto simp: run_inv_def fill_result_def fill_trade_def list_all2_appendI)
qed

lemma run_inv_start:
  "order_ok taker \<Longrightarrow> run_inv ids now taker limit M \<lparr>r_Taker = taker, r_Makers = [], r_Trades = []\<rparr>"
  by (simp add: run_inv_def)

lemma run_inv_taker_upd:
  "run_inv ids now taker limit M r \<Longrightarrow>
   run_inv ids now taker limit M (r\<lparr>r_Taker := (r_Taker r)\<lparr>o_Status := s, o_UpdatedAt := u\<rparr>\<rparr>)"
  "run_inv ids now taker limit M r \<Longrightarrow>
   run_inv ids now taker limit M (r\<lparr>r_Taker := (r_Taker r)\<lparr>o_Status := s\<rparr>\<rparr>)"
  by (auto simp: run_inv_def order_ok_def)

section \<open>MatchLimit\<close>

lemma match_makers_inv:
  assumes "match_makers ids now r ms = Inr r'"
    and "run_inv ids now taker (o_Price taker) M r"
    and "\<And>m. m \<in> set ms \<Longrightarrow> order_ok m" "set ms \<subseteq> M"
  shows "run_inv ids now taker (o_Price taker) M r'"
  using assms
proof (induction ids now r ms rule: match_makers.induct)
  case (1 ids now r)
  then show ?case by simp
next
  case (2 ids now r m ms)
  have same: "same_order taker (r_Taker r)" using 2 by (simp add: run_inv_def)
  note f = same_order_fields [OF same]
  have cr: "crossesPrice (taker\<lparr>o_Price := o_Price taker\<rparr>) m" if "crossesPrice (r_Taker r) m"
    using that by (auto simp: crossesPrice_def f split: side.splits if_splits)
  have sf: "\<not> isSelfTrade taker m" if "\<not> isSelfTrade (r_Taker r) m"
    using that by (simp add: isSelfTrade_def f)
  have ms: "order_ok m" "m \<in> M" using 2 by auto
  consider (full) "Cmp (o_RemainingQuantity (r_Taker r)) ''0'' \<le> 0"
    | (skip) "\<not> Cmp (o_RemainingQuantity (r_Taker r)) ''0'' \<le> 0" "\<not> eligibleMaker (r_Taker r) m"
    | (fill) "\<not> Cmp (o_RemainingQuantity (r_Taker r)) ''0'' \<le> 0" "eligibleMaker (r_Taker r) m"
    by blast
  then show ?case
  proof cases
    case full
    then show ?thesis using 2 by simp
  next
    case skip
    then show ?thesis using 2 by (auto simp: run_inv_taker_upd split: if_splits)
  next
    case fill
    define qty where "qty = Min (o_RemainingQuantity (r_Taker r)) (o_RemainingQuantity m)"
    show ?thesis
    proof (cases "Cmp qty ''0'' \<le> 0")
      case True
      then have "match_makers ids now r ms = Inr r'" using 2 fill by (simp add: Let_def qty_def)
      then show ?thesis using 2 fill True qty_def by auto
    next
      case False
      then have q: "\<not> Cmp (Mul qty (o_Price m)) ''0'' \<le> 0"
        and run: "match_makers ids now (fill_result ids now r m qty) ms = Inr r'"
        using 2 fill by (auto simp: Let_def qty_def split: if_splits)
      have "run_inv ids now taker (o_Price taker) M (fill_result ids now r m qty)"
        using fill q 2(5) by (intro run_inv_fill [OF _ cr sf ms qty_def])
          (auto simp: eligibleMaker_iff dec_simps)
      then show ?thesis using 2 fill False q run by (simp add: qty_def)
    qed
  qed
qed

text \<open>A run only reads ids once per trade, so the identifiers of the trades are the factory's
  first ones, in order.\<close>

theorem MatchLimit_conserves:
  assumes "order_ok taker" and "\<And>m. m \<in> set makers \<Longrightarrow> order_ok m"
    and "MatchLimit taker makers (Some ids) now = Inr r"
  shows "run_inv ids now taker (o_Price taker) (set makers) r"
  using assms match_makers_inv [OF _ run_inv_start [OF assms(1)], of ids now makers _ "set makers"]
  by (auto simp: MatchLimit_def run_inv_taker_upd split: sum.splits if_splits)

end
