(* ===== verification/MarketBook.thy ===== *)
theory MarketBook
  imports MatchFill
begin

text \<open>
  \<^verbatim>\<open>internal/core/matching/book.go\<close>: the in-memory order book of one market. Each side keeps
  its prices, best first, and a queue of resting orders per price text; \<open>mb_orders\<close> finds an
  order's side and price from its identifier. A side is addressed by name where the code
  holds a pointer to it; the receiver is never nil. An operation that can fail after it has
  changed the book returns the error together with the changed book.
\<close>

definition bookMinPositiveMarketPrice :: string where
  "bookMinPositiveMarketPrice = ''0.000000000000000001''"

record book_order_ref =
  ref_side :: side
  ref_price :: string

record book_side =
  s_side :: side
  s_prices :: "string list"
  s_levels :: "string \<rightharpoonup> order list"

record market_book =
  mb_Market :: string
  mb_BaseAsset :: string
  mb_QuoteAsset :: string
  mb_bids :: book_side
  mb_asks :: book_side
  mb_orders :: "string \<rightharpoonup> book_order_ref"

section \<open>Sides\<close>

definition newBookSide :: "side \<Rightarrow> book_side" where
  "newBookSide s = \<lparr>s_side = s, s_prices = [], s_levels = Map.empty\<rparr>"

definition NewMarketBook :: "string \<Rightarrow> string \<Rightarrow> string \<Rightarrow> market_book" where
  "NewMarketBook market baseAsset quoteAsset =
     \<lparr>mb_Market = market, mb_BaseAsset = baseAsset, mb_QuoteAsset = quoteAsset,
      mb_bids = newBookSide SideBuy, mb_asks = newBookSide SideSell, mb_orders = Map.empty\<rparr>"

definition level_at :: "book_side \<Rightarrow> string \<Rightarrow> order list" where
  "level_at s price = (case s_levels s price of None \<Rightarrow> [] | Some queue \<Rightarrow> queue)"

definition bestPrice :: "book_side \<Rightarrow> string option" where
  "bestPrice s = (case s_prices s of [] \<Rightarrow> None | p # _ \<Rightarrow> Some p)"

definition insertPrice :: "book_side \<Rightarrow> string \<Rightarrow> book_side" where
  "insertPrice s price =
     (let idx = sort_search (length (s_prices s))
        (\<lambda>i. let cmp = Cmp (s_prices s ! i) price in
             if s_side s = SideBuy then cmp < 0 else cmp > 0)
      in s\<lparr>s_prices := insert_at idx price (s_prices s)\<rparr>)"

definition removePrice :: "book_side \<Rightarrow> string \<Rightarrow> book_side" where
  "removePrice s price = s\<lparr>s_prices := remove1 price (s_prices s)\<rparr>"

definition set_level :: "book_side \<Rightarrow> string \<Rightarrow> order list \<Rightarrow> book_side" where
  "set_level s price queue = s\<lparr>s_levels := (s_levels s)(price \<mapsto> queue)\<rparr>"

definition delete_level :: "book_side \<Rightarrow> string \<Rightarrow> book_side" where
  "delete_level s price = s\<lparr>s_levels := (s_levels s)(price := None)\<rparr>"

definition book_side_of :: "market_book \<Rightarrow> side \<Rightarrow> book_side" where
  "book_side_of b s = (if s = SideBuy then mb_bids b else mb_asks b)"

definition put_side :: "market_book \<Rightarrow> side \<Rightarrow> book_side \<Rightarrow> market_book" where
  "put_side b s x = (if s = SideBuy then b\<lparr>mb_bids := x\<rparr> else b\<lparr>mb_asks := x\<rparr>)"

definition oppositeBookSide :: "side \<Rightarrow> side" where
  "oppositeBookSide s = (if s = SideBuy then SideSell else SideBuy)"

section \<open>Orders of the book\<close>

definition normalizeOrder :: "market_book \<Rightarrow> order \<Rightarrow> order" where
  "normalizeOrder b item =
     (let remaining = (if o_RemainingQuantity item = [] then o_Quantity item else o_RemainingQuantity item)
      in item\<lparr>
        o_Type := (if o_Type item = TypeOther [] then TypeLimit else o_Type item),
        o_TimeInForce := (if o_TimeInForce item = TimeInForceOther [] then TimeInForceGTC
                          else o_TimeInForce item),
        o_Status := (if o_Status item = StatusOther [] then StatusOpen else o_Status item),
        o_FilledQuantity := (if o_FilledQuantity item = [] then ''0'' else o_FilledQuantity item),
        o_RemainingQuantity := remaining,
        o_Quantity := (if o_Quantity item = [] then remaining else o_Quantity item),
        o_Market := (if o_Market item = [] then mb_Market b else o_Market item),
        o_BaseAsset := (if o_BaseAsset item = [] then mb_BaseAsset b else o_BaseAsset item),
        o_QuoteAsset := (if o_QuoteAsset item = [] then mb_QuoteAsset b else o_QuoteAsset item)\<rparr>)"

definition validateMarket :: "market_book \<Rightarrow> order \<Rightarrow> match_error + unit" where
  "validateMarket b item =
     (if mb_Market b \<noteq> [] \<and> o_Market item \<noteq> mb_Market b then Inl MarketMismatch
      else if mb_BaseAsset b \<noteq> [] \<and> o_BaseAsset item \<noteq> [] \<and> o_BaseAsset item \<noteq> mb_BaseAsset b
        then Inl BaseAssetMismatch
      else if mb_QuoteAsset b \<noteq> [] \<and> o_QuoteAsset item \<noteq> [] \<and> o_QuoteAsset item \<noteq> mb_QuoteAsset b
        then Inl QuoteAssetMismatch
      else Inr ())"

definition validateResting :: "market_book \<Rightarrow> order \<Rightarrow> match_error + unit" where
  "validateResting b item =
     (case validateMarket b item of
        Inl e \<Rightarrow> Inl e
      | Inr _ \<Rightarrow>
          if o_ID item = [] then Inl OrderIDRequired
          else if o_Side item \<noteq> SideBuy \<and> o_Side item \<noteq> SideSell then Inl RestingSideInvalid
          else if o_Type item = TypeMarket then Inl MarketOrdersCannotRest
          else if Cmp (o_Price item) ''0'' \<le> 0 then Inl RestingPriceNotPositive
          else if Cmp (o_RemainingQuantity item) ''0'' \<le> 0 then Inl RestingRemainingNotPositive
          else if o_Status item \<noteq> StatusOpen \<and> o_Status item \<noteq> StatusPartiallyFilled
            then Inl RestingStatusNotActive
          else Inr ())"

definition effectiveBookTaker :: "order \<Rightarrow> order" where
  "effectiveBookTaker item =
     (if o_Type item = TypeMarket \<and> o_Side item = SideSell \<and> Cmp (o_Price item) ''0'' \<le> 0
      then item\<lparr>o_Price := bookMinPositiveMarketPrice\<rparr> else item)"

definition isBookable :: "order \<Rightarrow> bool" where
  "isBookable item =
     (if o_Type item = TypeMarket then False
      else if o_Status item \<noteq> StatusOpen \<and> o_Status item \<noteq> StatusPartiallyFilled then False
      else Cmp (o_RemainingQuantity item) ''0'' > 0)"

definition isImmediateOnlyBookOrder :: "order \<Rightarrow> bool" where
  "isImmediateOnlyBookOrder item \<longleftrightarrow> o_Type item = TypeMarket \<or> o_TimeInForce item = TimeInForceIOC"

section \<open>Inserting and removing\<close>

definition queue_position :: "order list \<Rightarrow> uint64 \<Rightarrow> nat" where
  "queue_position queue seqno =
     (if seqno \<noteq> 0
      then sort_search (length queue)
             (\<lambda>i. o_SequenceID (queue ! i) \<noteq> 0 \<and> o_SequenceID (queue ! i) > seqno)
      else length queue)"

definition insertResting :: "market_book \<Rightarrow> order \<Rightarrow> match_error + market_book" where
  "insertResting b item0 =
     (let item = normalizeOrder b item0 in
      case validateResting b item of
        Inl e \<Rightarrow> Inl e
      | Inr _ \<Rightarrow>
          if mb_orders b (o_ID item) \<noteq> None then Inl OrderAlreadyActive
          else
            (let s0 = book_side_of b (o_Side item);
                 s = (if s_levels s0 (o_Price item) = None then insertPrice s0 (o_Price item) else s0);
                 queue = level_at s (o_Price item);
                 pos = queue_position queue (o_SequenceID item);
                 s' = set_level s (o_Price item) (insert_at pos item queue)
             in Inr ((put_side b (o_Side item) s')
                  \<lparr>mb_orders := (mb_orders b)(o_ID item \<mapsto>
                     \<lparr>ref_side = o_Side item, ref_price = o_Price item\<rparr>)\<rparr>)))"

text \<open>\<open>None\<close> is the zero order the code returns for an index outside the queue.\<close>

definition removeAt :: "market_book \<Rightarrow> side \<Rightarrow> string \<Rightarrow> nat \<Rightarrow> order option \<times> market_book" where
  "removeAt b sd price idx =
     (let s = book_side_of b sd; queue = level_at s price in
      if length queue \<le> idx then (None, b)
      else
        (let removed = queue ! idx;
             rest = remove_at idx queue;
             s' = (if rest = [] then removePrice (delete_level s price) price
                   else set_level s price rest)
         in (Some removed,
             (put_side b sd s')\<lparr>mb_orders := (mb_orders b)(o_ID removed := None)\<rparr>)))"

fun queue_index :: "string \<Rightarrow> order list \<Rightarrow> nat option" where
  "queue_index oid [] = None"
| "queue_index oid (item # queue) =
     (if o_ID item = oid then Some 0 else map_option Suc (queue_index oid queue))"

definition removeOrder :: "market_book \<Rightarrow> string \<Rightarrow> order option \<times> market_book" where
  "removeOrder b oid =
     (if oid = [] then (None, b)
      else
        (case mb_orders b oid of
           None \<Rightarrow> (None, b)
         | Some ref \<Rightarrow>
             (case queue_index oid (level_at (book_side_of b (ref_side ref)) (ref_price ref)) of
                Some idx \<Rightarrow> removeAt b (ref_side ref) (ref_price ref) idx
              | None \<Rightarrow> (None, b\<lparr>mb_orders := (mb_orders b)(oid := None)\<rparr>))))"

definition Cancel :: "market_book \<Rightarrow> string \<Rightarrow> time \<Rightarrow> order option \<times> market_book" where
  "Cancel b oid now =
     (if oid = [] then (None, b)
      else
        (case mb_orders b oid of
           None \<Rightarrow> (None, b)
         | Some ref \<Rightarrow>
             (case queue_index oid (level_at (book_side_of b (ref_side ref)) (ref_price ref)) of
                Some idx \<Rightarrow>
                  (let (removed, b') = removeAt b (ref_side ref) (ref_price ref) idx in
                   (map_option (\<lambda>x. x\<lparr>o_Status := StatusCanceled, o_UpdatedAt := now\<rparr>) removed, b'))
              | None \<Rightarrow> (None, b\<lparr>mb_orders := (mb_orders b)(oid := None)\<rparr>))))"

definition ActiveOrder :: "market_book \<Rightarrow> string \<Rightarrow> order option" where
  "ActiveOrder b oid =
     (if oid = [] then None
      else
        (case mb_orders b oid of
           None \<Rightarrow> None
         | Some ref \<Rightarrow>
             find (\<lambda>item. o_ID item = oid) (level_at (book_side_of b (ref_side ref)) (ref_price ref))))"

definition BestBid :: "market_book \<Rightarrow> string option" where
  "BestBid b = bestPrice (mb_bids b)"

definition BestAsk :: "market_book \<Rightarrow> string option" where
  "BestAsk b = bestPrice (mb_asks b)"

definition ActiveOrderCount :: "market_book \<Rightarrow> nat" where
  "ActiveOrderCount b = card (dom (mb_orders b))"

fun Load :: "market_book \<Rightarrow> order list \<Rightarrow> (match_error + unit) \<times> market_book" where
  "Load b [] = (Inr (), b)"
| "Load b (item0 # items) =
     (let item = normalizeOrder b item0 in
      if \<not> isBookable item then Load b items
      else (case insertResting b item of
              Inl e \<Rightarrow> (Inl e, b)
            | Inr b' \<Rightarrow> Load b' items))"

section \<open>Applying a taker\<close>

text \<open>
  One pass of the loop: it goes round again, breaks out of the loop, returns from \<^verbatim>\<open>Apply\<close>, or
  fails, each with the book it leaves behind.
\<close>

datatype apply_step =
    Continue market_book match_result
  | Break market_book match_result
  | Return market_book match_result
  | Fail match_error market_book

definition apply_iter :: "(nat \<Rightarrow> string) \<Rightarrow> time \<Rightarrow> side \<Rightarrow> market_book \<Rightarrow> match_result \<Rightarrow> apply_step" where
  "apply_iter ids now sd b r =
     (let s = book_side_of b sd in
      case bestPrice s of
        None \<Rightarrow> Break b r
      | Some price \<Rightarrow>
          (case level_at s price of
             [] \<Rightarrow> Continue (put_side b sd (removePrice s price)) r
           | maker # rest \<Rightarrow>
               (let eff = effectiveBookTaker (r_Taker r) in
                if \<not> eligibleMaker eff maker then
                  (if isSelfTrade eff maker \<and> crossesPrice eff maker
                   then Return b (r\<lparr>r_Taker := (r_Taker r)\<lparr>o_Status := StatusExpired, o_UpdatedAt := now\<rparr>\<rparr>)
                   else if \<not> isBookable maker \<or> o_Market maker \<noteq> o_Market (r_Taker r) \<or>
                           o_Side maker = o_Side (r_Taker r)
                   then Continue (snd (removeAt b sd price 0)) r
                   else Break b r)
                else
                  (let qty = Min (o_RemainingQuantity (r_Taker r)) (o_RemainingQuantity maker) in
                   if Cmp qty ''0'' \<le> 0 then Continue (snd (removeAt b sd price 0)) r
                   else if Cmp (Mul qty (o_Price maker)) ''0'' \<le> 0 then Fail QuoteBelowPrecision b
                   else
                     (let maker' = fill_order now qty maker;
                          r' = fill_result ids now r maker qty
                      in if o_Status maker' = StatusFilled
                         then Continue (snd (removeAt b sd price 0)) r'
                         else Continue (put_side b sd (set_level s price (maker' # rest))) r')))))"

definition side_size :: "book_side \<Rightarrow> nat" where
  "side_size s = sum_list (map (\<lambda>p. Suc (length (level_at s p))) (s_prices s))"

definition apply_measure :: "side \<Rightarrow> market_book \<Rightarrow> match_result \<Rightarrow> nat" where
  "apply_measure sd b r =
     (if Cmp (o_RemainingQuantity (r_Taker r)) ''0'' > 0 then Suc (side_size (book_side_of b sd)) else 0)"

lemma side_of_put_same [simp]: "book_side_of (put_side b sd s) sd = s"
  by (simp add: book_side_of_def put_side_def)

lemma side_of_put_other [simp]:
  "(sd = SideBuy) \<noteq> (sd' = SideBuy) \<Longrightarrow> book_side_of (put_side b sd s) sd' = book_side_of b sd'"
  by (auto simp: book_side_of_def put_side_def)

lemma side_of_orders_upd [simp]: "book_side_of (b\<lparr>mb_orders := m\<rparr>) sd = book_side_of b sd"
  by (simp add: book_side_of_def)

lemma put_side_fields [simp]:
  "mb_Market (put_side b sd s) = mb_Market b" "mb_BaseAsset (put_side b sd s) = mb_BaseAsset b"
  "mb_QuoteAsset (put_side b sd s) = mb_QuoteAsset b" "mb_orders (put_side b sd s) = mb_orders b"
  by (simp_all add: put_side_def)

lemma level_at_set_level [simp]:
  "level_at (set_level s p q) p' = (if p' = p then q else level_at s p')"
  by (simp add: level_at_def set_level_def)

lemma level_at_delete_level [simp]:
  "level_at (delete_level s p) p' = (if p' = p then [] else level_at s p')"
  by (simp add: level_at_def delete_level_def)

lemma level_at_prices_upd [simp]: "level_at (s\<lparr>s_prices := ps\<rparr>) p = level_at s p"
  by (simp add: level_at_def)

lemma level_at_removePrice [simp]: "level_at (removePrice s p) p' = level_at s p'"
  by (simp add: level_at_def removePrice_def)

lemma s_prices_simps [simp]:
  "s_prices (set_level s p q) = s_prices s" "s_prices (delete_level s p) = s_prices s"
  "s_prices (removePrice s p) = remove1 p (s_prices s)"
  "s_side (set_level s p q) = s_side s" "s_side (delete_level s p) = s_side s"
  "s_side (removePrice s p) = s_side s"
  by (simp_all add: set_level_def delete_level_def removePrice_def)

lemma bestPrice_Some [simp]: "bestPrice s = Some p \<longleftrightarrow> (\<exists>ps. s_prices s = p # ps)"
  by (auto simp: bestPrice_def split: list.splits)

lemma bestPrice_None [simp]: "bestPrice s = None \<longleftrightarrow> s_prices s = []"
  by (auto simp: bestPrice_def split: list.splits)

lemma sum_list_le:
  "(\<And>x. x \<in> set xs \<Longrightarrow> f x \<le> g x) \<Longrightarrow> sum_list (map f xs) \<le> (sum_list (map g xs) :: nat)"
  by (induction xs) (auto intro: add_mono)

lemma side_size_remove_head:
  assumes "bestPrice s = Some p"
  shows "side_size (removePrice s p) < side_size s"
  using assms by (auto simp: side_size_def)

lemma side_size_removeAt:
  assumes "bestPrice (book_side_of b sd) = Some p" "level_at (book_side_of b sd) p = m # q"
  shows "side_size (book_side_of (snd (removeAt b sd p 0)) sd) < side_size (book_side_of b sd)"
proof -
  let ?s = "book_side_of b sd"
  obtain ps where ps: "s_prices ?s = p # ps" using assms by auto
  show ?thesis
  proof (cases "q = []")
    case True
    have "sum_list (map (\<lambda>p'. Suc (length (level_at (delete_level ?s p) p'))) ps)
        \<le> sum_list (map (\<lambda>p. Suc (length (level_at ?s p))) ps)"
      by (rule sum_list_le) auto
    then show ?thesis using assms ps True by (auto simp: removeAt_def Let_def side_size_def)
  next
    case False
    have "sum_list (map (\<lambda>p'. Suc (length (level_at (set_level ?s p q) p'))) ps)
        \<le> sum_list (map (\<lambda>p. Suc (length (level_at ?s p))) ps)"
      using assms by (intro sum_list_le) auto
    then show ?thesis using assms ps False by (auto simp: removeAt_def Let_def side_size_def)
  qed
qed

text \<open>A fill that leaves the maker unfilled has used up the taker.\<close>

lemma SubFloorZero_self:
  assumes "Parse a \<le> Parse b" shows "Parse (SubFloorZero a b) = 0"
proof (cases "Parse a - Parse b < 0")
  case True then show ?thesis by (simp add: SubFloorZero_def Parse_0)
next
  case False
  then have "Parse a - Parse b = 0" using assms by simp
  then show ?thesis by (simp add: SubFloorZero_def Parse_String)
qed

lemma fill_exhausts:
  assumes "o_Status (fill_order now (Min (o_RemainingQuantity t) (o_RemainingQuantity m)) m) \<noteq> StatusFilled"
  shows "Parse (o_RemainingQuantity
    (fill_order now' (Min (o_RemainingQuantity t) (o_RemainingQuantity m)) t)) = 0"
proof (cases "Parse (o_RemainingQuantity t) \<le> Parse (o_RemainingQuantity m)")
  case True
  then show ?thesis by (simp add: SubFloorZero_self Parse_Min)
next
  case False
  then have "Parse (SubFloorZero (o_RemainingQuantity m)
      (Min (o_RemainingQuantity t) (o_RemainingQuantity m))) = 0"
    by (intro SubFloorZero_self) (simp add: Parse_Min)
  then show ?thesis using assms by (simp add: statusForRemaining_def Cmp_le_0 Parse_0)
qed

lemma apply_iter_decreases:
  assumes "apply_iter ids now sd b r = Continue b' r'"
    and "Cmp (o_RemainingQuantity (r_Taker r)) ''0'' > 0"
  shows "apply_measure sd b' r' < apply_measure sd b r"
proof -
  let ?s = "book_side_of b sd"
  obtain p where p: "bestPrice ?s = Some p"
    using assms(1) by (cases "bestPrice ?s") (auto simp: apply_iter_def Let_def)
  show ?thesis
  proof (cases "level_at ?s p")
    case Nil
    then show ?thesis
      using assms p side_size_remove_head [OF p] by (auto simp: apply_iter_def Let_def apply_measure_def)
  next
    case (Cons m q)
    note small = side_size_removeAt [OF p Cons]
    let ?qty = "Min (o_RemainingQuantity (r_Taker r)) (o_RemainingQuantity m)"
    have ex: "Parse (o_RemainingQuantity (r_Taker (fill_result ids now r m ?qty))) = 0"
      if "o_Status (fill_order now ?qty m) \<noteq> StatusFilled"
      using fill_exhausts [OF that] by (simp add: fill_result_def)
    show ?thesis
      using assms p Cons small ex
      by (auto simp: apply_iter_def Let_def apply_measure_def Cmp_greater_0 Parse_0 split: if_splits)
  qed
qed

function apply_loop :: "(nat \<Rightarrow> string) \<Rightarrow> time \<Rightarrow> side \<Rightarrow> market_book \<Rightarrow> match_result \<Rightarrow> apply_step" where
  "apply_loop ids now sd b r =
     (if Cmp (o_RemainingQuantity (r_Taker r)) ''0'' > 0 then
        (case apply_iter ids now sd b r of
           Continue b' r' \<Rightarrow> apply_loop ids now sd b' r'
         | Break b' r' \<Rightarrow> Break b' r'
         | Return b' r' \<Rightarrow> Return b' r'
         | Fail e b' \<Rightarrow> Fail e b')
      else Break b r)"
  by pat_completeness auto
termination
  by (relation "measure (\<lambda>(ids, now, sd, b, r). apply_measure sd b r)")
    (auto dest: apply_iter_decreases)

declare apply_loop.simps [simp del]

text \<open>What \<^verbatim>\<open>Apply\<close> does after the loop.\<close>

definition apply_finish :: "time \<Rightarrow> market_book \<Rightarrow> match_result \<Rightarrow> (match_error + match_result) \<times> market_book" where
  "apply_finish now b r =
     (if Cmp (o_RemainingQuantity (r_Taker r)) ''0'' \<le> 0 then
        (Inr (r\<lparr>r_Taker := (r_Taker r)\<lparr>o_Status := StatusFilled, o_UpdatedAt := now\<rparr>\<rparr>), b)
      else if isImmediateOnlyBookOrder (r_Taker r) then
        (Inr (r\<lparr>r_Taker := (r_Taker r)\<lparr>o_Status := StatusExpired, o_UpdatedAt := now\<rparr>\<rparr>), b)
      else
        (let st = (if r_Trades r = [] then StatusOpen else StatusPartiallyFilled);
             r' = r\<lparr>r_Taker := (r_Taker r)\<lparr>o_Status := st, o_UpdatedAt := now\<rparr>\<rparr>
         in case insertResting b (r_Taker r') of
              Inl e \<Rightarrow> (Inl e, b)
            | Inr b' \<Rightarrow> (Inr r', b')))"

definition Apply :: "market_book \<Rightarrow> order \<Rightarrow> trade_ids \<Rightarrow> time \<Rightarrow>
    (match_error + match_result) \<times> market_book" where
  "Apply b taker0 newTradeID now =
     (case newTradeID of
        None \<Rightarrow> (Inl TradeIDFactoryRequired, b)
      | Some ids \<Rightarrow>
          (let taker1 = normalizeOrder b taker0 in
           if mb_orders b (o_ID taker1) \<noteq> None then (Inl OrderAlreadyActive, b)
           else
             (case validateTaker (effectiveBookTaker taker1) of
                Inl e \<Rightarrow> (Inl e, b)
              | Inr _ \<Rightarrow>
                  (case validateMarket b taker1 of
                     Inl e \<Rightarrow> (Inl e, b)
                   | Inr _ \<Rightarrow>
                       (let taker = (if o_Type taker1 = TypeMarket
                                     then taker1\<lparr>o_TimeInForce := TimeInForceIOC\<rparr> else taker1);
                            r = \<lparr>r_Taker = taker, r_Makers = [], r_Trades = []\<rparr>
                        in case apply_loop ids now (oppositeBookSide (o_Side taker)) b r of
                             Return b' r' \<Rightarrow> (Inr r', b')
                           | Fail e b' \<Rightarrow> (Inl e, b')
                           | Break b' r' \<Rightarrow> apply_finish now b' r'
                           | Continue b' r' \<Rightarrow> apply_finish now b' r')))))"

text \<open>The makers of a result go back into the book one by one, then the taker.\<close>

definition replaceOrder :: "market_book \<Rightarrow> order \<Rightarrow> match_error + market_book" where
  "replaceOrder b x =
     (let b1 = snd (removeOrder b (o_ID x)); item = normalizeOrder b1 x in
      if isBookable item then insertResting b1 item else Inr b1)"

fun apply_makers :: "market_book \<Rightarrow> order list \<Rightarrow> (match_error + unit) \<times> market_book" where
  "apply_makers b [] = (Inr (), b)"
| "apply_makers b (maker # makers) =
     (case replaceOrder b maker of
        Inl e \<Rightarrow> (Inl e, snd (removeOrder b (o_ID maker)))
      | Inr b' \<Rightarrow> apply_makers b' makers)"

definition ApplyResult :: "market_book \<Rightarrow> match_result \<Rightarrow> (match_error + unit) \<times> market_book" where
  "ApplyResult b r =
     (case apply_makers b (r_Makers r) of
        (Inl e, b') \<Rightarrow> (Inl e, b')
      | (Inr _, b') \<Rightarrow>
          if o_ID (r_Taker r) = [] then (Inr (), b')
          else (case replaceOrder b' (r_Taker r) of
                  Inl e \<Rightarrow> (Inl e, snd (removeOrder b' (o_ID (r_Taker r))))
                | Inr b'' \<Rightarrow> (Inr (), b'')))"

section \<open>Snapshots for clients\<close>

text \<open>The totals of one level: quantity, number of orders, first sequence, last update.\<close>

fun level_totals :: "order list \<Rightarrow> string \<times> int \<times> uint64 \<times> time \<Rightarrow> string \<times> int \<times> uint64 \<times> time" where
  "level_totals [] acc = acc"
| "level_totals (item # queue) (quantity, n, first, lastUpdated) =
     (if \<not> isBookable item then level_totals queue (quantity, n, first, lastUpdated)
      else level_totals queue
        (Add quantity (o_RemainingQuantity item), n + 1,
         (if first = 0 \<or> (o_SequenceID item \<noteq> 0 \<and> o_SequenceID item < first)
          then o_SequenceID item else first),
         (if o_UpdatedAt item > lastUpdated then o_UpdatedAt item else lastUpdated)))"

fun snapshot_prices :: "market_book \<Rightarrow> book_side \<Rightarrow> nat \<Rightarrow> string list \<Rightarrow> price_level list \<Rightarrow> price_level list" where
  "snapshot_prices b s depth [] out = out"
| "snapshot_prices b s depth (price # prices) out =
     (if depth \<le> length out then out
      else
        (let (quantity, n, first, lastUpdated) = level_totals (level_at s price) (''0'', 0, 0, 0) in
         if n = 0 \<or> Cmp quantity ''0'' \<le> 0 then snapshot_prices b s depth prices out
         else snapshot_prices b s depth prices
           (out @ [\<lparr>pl_Market = mb_Market b, pl_Side = s_side s, pl_Price = price,
              pl_Quantity = quantity, pl_OrderCount = n, pl_FirstSequenceID = first,
              pl_LastUpdatedAt = lastUpdated\<rparr>])))"

definition snapshotSide :: "market_book \<Rightarrow> book_side \<Rightarrow> int \<Rightarrow> price_level list" where
  "snapshotSide b s depth =
     (let d = (if depth \<le> 0 \<or> depth > int (length (s_prices s)) then length (s_prices s) else nat depth)
      in snapshot_prices b s d (s_prices s) [])"

definition Snapshot :: "market_book \<Rightarrow> int \<Rightarrow> book_snapshot" where
  "Snapshot b depth =
     \<lparr>bs_Market = mb_Market b, bs_Bids = snapshotSide b (mb_bids b) depth,
      bs_Asks = snapshotSide b (mb_asks b) depth\<rparr>"

end
