(* ===== verification/BookInvariant.thy ===== *)
theory BookInvariant
  imports MarketBook
begin

text \<open>
  The invariant of the order book and its preservation. Prices are sorted best first without
  repetition, every price has a non-empty queue, every resting order is active, priced at its
  level and of its side, and the identifier index is exactly the set of resting orders.
  Price priority and time priority are one interface, the locale \<open>priority_list\<close>, interpreted
  on the bids, the asks and the queue of a price.
\<close>

section \<open>Priority lists\<close>

text \<open>
  What the two binary searches of the book rely on: a total preorder that says which element
  may stand before which.
\<close>

locale priority_list =
  fixes before :: "'a \<Rightarrow> 'a \<Rightarrow> bool"
  assumes total: "before x y \<or> before y x"
    and trans: "before x y \<Longrightarrow> before y z \<Longrightarrow> before x z"
begin

lemma sorted_index:
  "sorted_wrt before xs \<Longrightarrow> i \<le> j \<Longrightarrow> j < length xs \<Longrightarrow> before (xs ! i) (xs ! j)"
  by (cases "i = j") (use total in \<open>auto simp: sorted_wrt_iff_nth_less\<close>)

lemma search_border:
  fixes x :: 'a
  assumes "sorted_wrt before xs"
  defines "pos \<equiv> sort_search (length xs) (\<lambda>i. \<not> before (xs ! i) x)"
  shows "i < pos \<Longrightarrow> before (xs ! i) x" and "pos \<le> i \<Longrightarrow> i < length xs \<Longrightarrow> \<not> before (xs ! i) x"
proof -
  have mono: "\<not> before (xs ! b) x" if "a \<le> b" "b < length xs" "\<not> before (xs ! a) x" for a b
    using that sorted_index [OF assms(1), of a b] trans by blast
  show "i < pos \<Longrightarrow> before (xs ! i) x"
    using sort_search_border(1) [of "length xs" "\<lambda>i. \<not> before (xs ! i) x" i] mono
    unfolding pos_def by blast
  show "pos \<le> i \<Longrightarrow> i < length xs \<Longrightarrow> \<not> before (xs ! i) x"
    using sort_search_border(2) [of "length xs" "\<lambda>i. \<not> before (xs ! i) x" i] mono
    unfolding pos_def by blast
qed

text \<open>The new element goes behind all it does not precede, so equals keep their arrival order.\<close>

lemma insert_sorted:
  assumes "sorted_wrt before xs"
  shows "sorted_wrt before (insert_at (sort_search (length xs) (\<lambda>i. \<not> before (xs ! i) x)) x xs)"
proof (rule sorted_wrt_insert_at [OF assms])
  let ?pos = "sort_search (length xs) (\<lambda>i. \<not> before (xs ! i) x)"
  fix y
  show "before y x" if "y \<in> set (take ?pos xs)"
    using that search_border(1) [OF assms] by (auto simp: in_set_conv_nth)
  show "before x y" if d: "y \<in> set (drop ?pos xs)"
  proof -
    obtain k where "?pos + k < length xs" "y = xs ! (?pos + k)"
      using d by (auto simp: in_set_conv_nth less_diff_conv add.commute)
    then have "\<not> before y x" using search_border(2) [OF assms, of "x" "?pos + k"] by simp
    then show ?thesis using total by blast
  qed
qed

lemma sorted_remove: "sorted_wrt before xs \<Longrightarrow> sorted_wrt before (remove_at i xs)"
  by (rule sorted_wrt_remove_at)

end

definition price_before :: "side \<Rightarrow> string \<Rightarrow> string \<Rightarrow> bool" where
  "price_before sd p q \<longleftrightarrow> (if sd = SideBuy then Parse q \<le> Parse p else Parse p \<le> Parse q)"

definition seq_before :: "order \<Rightarrow> order \<Rightarrow> bool" where
  "seq_before x y \<longleftrightarrow> o_SequenceID x \<le> o_SequenceID y"

interpretation bid_prices: priority_list "price_before SideBuy"
  by unfold_locales (auto simp: price_before_def)

interpretation ask_prices: priority_list "price_before SideSell"
  by unfold_locales (auto simp: price_before_def)

interpretation level_queue: priority_list seq_before
  by unfold_locales (auto simp: seq_before_def)

section \<open>The invariant\<close>

abbreviation is_side :: "side \<Rightarrow> bool" where
  "is_side sd \<equiv> sd = SideBuy \<or> sd = SideSell"

abbreviation level_of :: "market_book \<Rightarrow> side \<Rightarrow> string \<Rightarrow> order list" where
  "level_of b sd p \<equiv> level_at (book_side_of b sd) p"

definition resting_ok :: "market_book \<Rightarrow> side \<Rightarrow> string \<Rightarrow> order \<Rightarrow> bool" where
  "resting_ok b sd p x \<longleftrightarrow> o_Side x = sd \<and> o_Price x = p \<and> validateResting b x = Inr () \<and>
     normalizeOrder b x = x \<and> order_ok x"

definition side_inv :: "market_book \<Rightarrow> side \<Rightarrow> book_side \<Rightarrow> bool" where
  "side_inv b sd s \<longleftrightarrow> s_side s = sd \<and> distinct (s_prices s) \<and>
     dom (s_levels s) = set (s_prices s) \<and> sorted_wrt (price_before sd) (s_prices s) \<and>
     (\<forall>p \<in> set (s_prices s). level_at s p \<noteq> []) \<and>
     (\<forall>p. \<forall>x \<in> set (level_at s p). resting_ok b sd p x)"

definition index_inv :: "market_book \<Rightarrow> bool" where
  "index_inv b \<longleftrightarrow>
     (\<forall>sd p. is_side sd \<longrightarrow> distinct (map o_ID (level_of b sd p))) \<and>
     (\<forall>sd p x. is_side sd \<longrightarrow> x \<in> set (level_of b sd p) \<longrightarrow>
        mb_orders b (o_ID x) = Some \<lparr>ref_side = sd, ref_price = p\<rparr>) \<and>
     (\<forall>oid ref. mb_orders b oid = Some ref \<longrightarrow> is_side (ref_side ref) \<and>
        oid \<in> o_ID ` set (level_of b (ref_side ref) (ref_price ref)))"

definition book_inv :: "market_book \<Rightarrow> bool" where
  "book_inv b \<longleftrightarrow> (\<forall>sd. is_side sd \<longrightarrow> side_inv b sd (book_side_of b sd)) \<and> index_inv b"

definition time_inv :: "market_book \<Rightarrow> bool" where
  "time_inv b \<longleftrightarrow> (\<forall>sd p. is_side sd \<longrightarrow> sorted_wrt seq_before (level_of b sd p) \<and>
     (\<forall>x \<in> set (level_of b sd p). o_SequenceID x \<noteq> 0))"

definition uncrossed :: "market_book \<Rightarrow> bool" where
  "uncrossed b \<longleftrightarrow> (\<forall>p \<in> set (s_prices (mb_bids b)). \<forall>q \<in> set (s_prices (mb_asks b)). Parse p < Parse q)"

lemma book_side_of_simps [simp]:
  "book_side_of b SideBuy = mb_bids b" "book_side_of b SideSell = mb_asks b"
  by (simp_all add: book_side_of_def)

lemma side_of_put:
  "is_side sd \<Longrightarrow> is_side sd' \<Longrightarrow>
   book_side_of (put_side b sd s) sd' = (if sd' = sd then s else book_side_of b sd')"
  by (auto simp: book_side_of_def put_side_def)

lemma resting_ok_cong:
  assumes "mb_Market b' = mb_Market b" "mb_BaseAsset b' = mb_BaseAsset b" "mb_QuoteAsset b' = mb_QuoteAsset b"
  shows "resting_ok b' = resting_ok b" and "normalizeOrder b' = normalizeOrder b"
    and "validateMarket b' = validateMarket b" and "validateResting b' = validateResting b"
  unfolding fun_eq_iff resting_ok_def validateResting_def normalizeOrder_def validateMarket_def assms
  by (rule allI refl)+

lemma resting_ok_put [simp]:
  "resting_ok (put_side b sd' s) = resting_ok b"
  "resting_ok (b\<lparr>mb_orders := m\<rparr>) = resting_ok b"
  "normalizeOrder (put_side b sd' s) = normalizeOrder b"
  "normalizeOrder (b\<lparr>mb_orders := m\<rparr>) = normalizeOrder b"
  "validateMarket (put_side b sd' s) = validateMarket b"
  "validateMarket (b\<lparr>mb_orders := m\<rparr>) = validateMarket b"
  by (rule resting_ok_cong; simp)+

lemma side_inv_put [simp]:
  "side_inv (put_side b sd' s') sd s = side_inv b sd s"
  "side_inv (b\<lparr>mb_orders := m\<rparr>) sd s = side_inv b sd s"
  by (simp_all add: side_inv_def)

lemma book_invD:
  assumes "book_inv b" "is_side sd"
  shows "side_inv b sd (book_side_of b sd)"
    and "distinct (map o_ID (level_of b sd p))"
    and "x \<in> set (level_of b sd p) \<Longrightarrow> mb_orders b (o_ID x) = Some \<lparr>ref_side = sd, ref_price = p\<rparr>"
  using assms unfolding book_inv_def index_inv_def by blast+

lemma book_inv_index:
  assumes "book_inv b" "mb_orders b oid = Some ref"
  shows "is_side (ref_side ref)" and "\<exists>x \<in> set (level_of b (ref_side ref) (ref_price ref)). o_ID x = oid"
  using assms unfolding book_inv_def index_inv_def by blast+

lemma validateResting_ok:
  "validateResting b x = Inr u \<longleftrightarrow> validateMarket b x = Inr () \<and> o_ID x \<noteq> [] \<and> is_side (o_Side x) \<and>
     o_Type x \<noteq> TypeMarket \<and> 0 < Parse (o_Price x) \<and> 0 < Parse (o_RemainingQuantity x) \<and>
     (o_Status x = StatusOpen \<or> o_Status x = StatusPartiallyFilled)"
  by (auto simp: validateResting_def dec_simps split: sum.splits)

lemma validateTaker_ok:
  "validateTaker x = Inr u \<longleftrightarrow> o_ID x \<noteq> [] \<and> o_Market x \<noteq> [] \<and> o_BaseAsset x \<noteq> [] \<and> o_QuoteAsset x \<noteq> [] \<and>
     is_side (o_Side x) \<and> 0 < Parse (o_Price x) \<and> 0 < Parse (o_RemainingQuantity x)"
  by (auto simp: validateTaker_def dec_simps)

lemma isBookable_iff:
  "isBookable x \<longleftrightarrow> o_Type x \<noteq> TypeMarket \<and> (o_Status x = StatusOpen \<or> o_Status x = StatusPartiallyFilled) \<and>
     0 < Parse (o_RemainingQuantity x)"
  by (auto simp: isBookable_def dec_simps)

lemma resting_bookable: "resting_ok b sd p x \<Longrightarrow> isBookable x"
  by (simp add: resting_ok_def validateResting_ok isBookable_iff)

text \<open>Normalising twice is normalising once.\<close>

lemma normalizeOrder_fields [simp]:
  "o_ID (normalizeOrder b x) = o_ID x" "o_UserID (normalizeOrder b x) = o_UserID x"
  "o_Side (normalizeOrder b x) = o_Side x" "o_Price (normalizeOrder b x) = o_Price x"
  "o_SequenceID (normalizeOrder b x) = o_SequenceID x"
  "o_UpdatedAt (normalizeOrder b x) = o_UpdatedAt x"
  "o_Type (normalizeOrder b x) = (if o_Type x = TypeOther [] then TypeLimit else o_Type x)"
  "o_TimeInForce (normalizeOrder b x) =
     (if o_TimeInForce x = TimeInForceOther [] then TimeInForceGTC else o_TimeInForce x)"
  "o_Status (normalizeOrder b x) = (if o_Status x = StatusOther [] then StatusOpen else o_Status x)"
  "o_FilledQuantity (normalizeOrder b x) = (if o_FilledQuantity x = [] then ''0'' else o_FilledQuantity x)"
  "o_RemainingQuantity (normalizeOrder b x) =
     (if o_RemainingQuantity x = [] then o_Quantity x else o_RemainingQuantity x)"
  "o_Quantity (normalizeOrder b x) = (if o_Quantity x = [] then o_RemainingQuantity x else o_Quantity x)"
  "o_Market (normalizeOrder b x) = (if o_Market x = [] then mb_Market b else o_Market x)"
  "o_BaseAsset (normalizeOrder b x) = (if o_BaseAsset x = [] then mb_BaseAsset b else o_BaseAsset x)"
  "o_QuoteAsset (normalizeOrder b x) = (if o_QuoteAsset x = [] then mb_QuoteAsset b else o_QuoteAsset x)"
  by (simp_all add: normalizeOrder_def Let_def)

lemma normalizeOrder_id_iff:
  "normalizeOrder b x = x \<longleftrightarrow> o_Type x \<noteq> TypeOther [] \<and> o_TimeInForce x \<noteq> TimeInForceOther [] \<and>
     o_Status x \<noteq> StatusOther [] \<and> o_FilledQuantity x \<noteq> [] \<and>
     (o_RemainingQuantity x = [] \<longleftrightarrow> o_Quantity x = []) \<and>
     (o_Market x = [] \<longrightarrow> mb_Market b = []) \<and> (o_BaseAsset x = [] \<longrightarrow> mb_BaseAsset b = []) \<and>
     (o_QuoteAsset x = [] \<longrightarrow> mb_QuoteAsset b = [])" (is "?l = ?r")
proof
  assume l: ?l
  show ?r
    using arg_cong [OF l, of o_Type] arg_cong [OF l, of o_TimeInForce] arg_cong [OF l, of o_Status]
      arg_cong [OF l, of o_FilledQuantity] arg_cong [OF l, of o_RemainingQuantity]
      arg_cong [OF l, of o_Quantity] arg_cong [OF l, of o_Market] arg_cong [OF l, of o_BaseAsset]
      arg_cong [OF l, of o_QuoteAsset]
    by (auto split: if_splits)
next
  assume ?r
  then show ?l by (cases x) (auto simp: normalizeOrder_def Let_def)
qed

lemma normalizeOrder_idem [simp]: "normalizeOrder b (normalizeOrder b x) = normalizeOrder b x"
  by (subst normalizeOrder_id_iff) auto

section \<open>Removing\<close>

lemma insert_at_map: "map f (insert_at i x xs) = insert_at i (f x) (map f xs)"
  by (simp add: insert_at_def take_map drop_map)

lemma remove_at_map: "map f (remove_at i xs) = remove_at i (map f xs)"
  by (simp add: remove_at_def take_map drop_map)

lemma distinct_split:
  assumes "distinct xs" "i < length xs"
  shows "distinct (remove_at i xs) \<and> set (remove_at i xs) = set xs - {xs ! i}"
proof -
  obtain ys y zs where xs: "xs = ys @ y # zs" "length ys = i" "xs ! i = y"
    using assms(2) by (metis id_take_nth_drop length_take min.absorb4)
  then have "remove_at i xs = ys @ zs" by (auto simp: remove_at_def)
  then show ?thesis using assms xs by auto
qed

lemma distinct_map_remove_at: "distinct (map f xs) \<Longrightarrow> distinct (map f (remove_at i xs))"
proof (cases "i < length xs")
  case True
  then show "distinct (map f xs) \<Longrightarrow> distinct (map f (remove_at i xs))"
    using distinct_split [of "map f xs" i] by (simp add: remove_at_map)
next
  case False
  then show "distinct (map f xs) \<Longrightarrow> distinct (map f (remove_at i xs))" by (simp add: remove_at_def)
qed

lemma remove_at_other:
  assumes "distinct (map f xs)" "i < length xs"
  shows "y \<in> set (remove_at i xs) \<longleftrightarrow> y \<in> set xs \<and> f y \<noteq> f (xs ! i)"
proof -
  have img: "f ` set (remove_at i xs) = f ` set xs - {f (xs ! i)}"
    using distinct_split [of "map f xs" i] assms by (simp add: remove_at_map [symmetric])
  have inj: "inj_on f (set xs)" using assms(1) by (simp add: distinct_map)
  show ?thesis
  proof
    assume y: "y \<in> set (remove_at i xs)"
    then have "f y \<in> f ` set xs - {f (xs ! i)}" using img by blast
    then show "y \<in> set xs \<and> f y \<noteq> f (xs ! i)" using y set_remove_at_subset [of i xs] by auto
  next
    assume y: "y \<in> set xs \<and> f y \<noteq> f (xs ! i)"
    then have "f y \<in> f ` set (remove_at i xs)" unfolding img by blast
    then obtain z where "z \<in> set (remove_at i xs)" "f z = f y" by force
    then show "y \<in> set (remove_at i xs)"
      using inj y set_remove_at_subset [of i xs] by (metis inj_onD subsetD)
  qed
qed

lemma removeAt_fields [simp]:
  "mb_Market (snd (removeAt b sd p i)) = mb_Market b"
  "mb_BaseAsset (snd (removeAt b sd p i)) = mb_BaseAsset b"
  "mb_QuoteAsset (snd (removeAt b sd p i)) = mb_QuoteAsset b"
  by (simp_all add: removeAt_def Let_def)

lemma fst_removeAt:
  "fst (removeAt b sd p i) = (if i < length (level_of b sd p) then Some (level_of b sd p ! i) else None)"
  by (auto simp: removeAt_def Let_def)

lemma level_removeAt:
  assumes "is_side sd" "is_side sd'"
  shows "level_of (snd (removeAt b sd p i)) sd' p' =
    (if sd' = sd \<and> p' = p then remove_at i (level_of b sd p) else level_of b sd' p')"
proof (cases "i < length (level_of b sd p)")
  case True
  then show ?thesis using assms by (auto simp: removeAt_def Let_def side_of_put)
next
  case False
  then have "remove_at i (level_of b sd p) = level_of b sd p" by (simp add: remove_at_def)
  then show ?thesis using False by (auto simp: removeAt_def Let_def)
qed

lemma orders_removeAt:
  "mb_orders (snd (removeAt b sd p i)) =
    (if i < length (level_of b sd p) then (mb_orders b)(o_ID (level_of b sd p ! i) := None) else mb_orders b)"
  by (auto simp: removeAt_def Let_def)

lemma prices_removeAt:
  assumes "is_side sd" "is_side sd'"
  shows "s_prices (book_side_of (snd (removeAt b sd p i)) sd') =
    (if sd' = sd \<and> i < length (level_of b sd p) \<and> remove_at i (level_of b sd p) = []
     then remove1 p (s_prices (book_side_of b sd)) else s_prices (book_side_of b sd'))"
  using assms by (auto simp: removeAt_def Let_def side_of_put)

lemma sorted_wrt_remove1: "sorted_wrt P xs \<Longrightarrow> sorted_wrt P (remove1 x xs)"
  by (induction xs) (auto dest: set_remove1_subset [THEN subsetD])

lemma dom_set_level [simp]: "dom (s_levels (set_level s p q)) = insert p (dom (s_levels s))"
  by (simp add: set_level_def)

lemma dom_delete_level [simp]: "dom (s_levels (delete_level s p)) = dom (s_levels s) - {p}"
  by (auto simp: delete_level_def dom_def)

lemma s_levels_removePrice [simp]: "s_levels (removePrice s p) = s_levels s"
  by (simp add: removePrice_def)

lemma level_ne_price:
  assumes "side_inv b sd s" "level_at s p \<noteq> []"
  shows "p \<in> set (s_prices s)"
  using assms by (auto simp: side_inv_def level_at_def split: option.splits)

lemma side_inv_removeAt:
  assumes inv: "side_inv b sd s" and i: "i < length (level_at s p)"
  shows "side_inv b sd (if remove_at i (level_at s p) = [] then removePrice (delete_level s p) p
    else set_level s p (remove_at i (level_at s p)))"
proof -
  have p: "p \<in> set (s_prices s)" using inv i by (intro level_ne_price) auto
  show ?thesis
    using inv p set_remove_at_subset [of i "level_at s p"]
    by (auto simp: side_inv_def sorted_wrt_remove1)
qed

lemma book_inv_removeAt [book_intros]:
  assumes inv: "book_inv b" and sd: "is_side sd"
  shows "book_inv (snd (removeAt b sd p i))"
proof (cases "i < length (level_of b sd p)")
  case False
  then show ?thesis using inv by (simp add: removeAt_def Let_def)
next
  case True
  let ?b = "snd (removeAt b sd p i)" and ?q = "level_of b sd p"
  let ?x = "?q ! i"
  have side: "side_inv ?b sd' (book_side_of ?b sd')" if "is_side sd'" for sd'
    using that True sd side_inv_removeAt [OF book_invD(1) [OF inv sd] True] book_invD(1) [OF inv that]
    by (auto simp: removeAt_def Let_def side_of_put)
  have xin: "?x \<in> set ?q" using True by simp
  have level: "y \<in> set (level_of ?b sd' p') \<longleftrightarrow> y \<in> set (level_of b sd' p') \<and> o_ID y \<noteq> o_ID ?x"
    if "is_side sd'" for y sd' p'
  proof (cases "sd' = sd \<and> p' = p")
    case True
    then show ?thesis
      using remove_at_other [OF book_invD(2) [OF inv sd] \<open>i < _\<close>] sd by (simp add: level_removeAt)
  next
    case False
    have "o_ID y \<noteq> o_ID ?x" if y: "y \<in> set (level_of b sd' p')"
      using book_invD(3) [OF inv \<open>is_side sd'\<close> y] book_invD(3) [OF inv sd xin] False by auto
    then show ?thesis using level_removeAt [OF sd that, of b p i p'] False by auto
  qed
  have "index_inv ?b"
    unfolding index_inv_def
  proof (intro conjI allI impI)
    fix sd' p' assume s: "is_side sd'"
    show "distinct (map o_ID (level_of ?b sd' p'))"
      unfolding level_removeAt [OF sd s]
      using book_invD(2) [OF inv s] distinct_map_remove_at [OF book_invD(2) [OF inv sd]] by simp
    fix x assume "x \<in> set (level_of ?b sd' p')"
    then show "mb_orders ?b (o_ID x) = Some \<lparr>ref_side = sd', ref_price = p'\<rparr>"
      using level [OF s] book_invD(3) [OF inv s] True by (simp add: orders_removeAt)
  next
    fix oid ref assume o: "mb_orders ?b oid = Some ref"
    then have o': "mb_orders b oid = Some ref" "oid \<noteq> o_ID ?x"
      using True by (auto simp: orders_removeAt split: if_splits)
    show "is_side (ref_side ref)" using book_inv_index(1) [OF inv o'(1)] .
    show "oid \<in> o_ID ` set (level_of ?b (ref_side ref) (ref_price ref))"
      using book_inv_index [OF inv o'(1)] level o'(2) by (auto simp: image_iff)
  qed
  with side show ?thesis by (simp add: book_inv_def)
qed

lemma queue_index_Some:
  "queue_index oid q = Some i \<Longrightarrow> i < length q \<and> o_ID (q ! i) = oid"
  by (induction q arbitrary: i) (auto split: if_splits)

lemma queue_index_None: "queue_index oid q = None \<longleftrightarrow> oid \<notin> o_ID ` set q"
  by (induction q) auto

text \<open>Under the invariant an indexed order is always found at its level.\<close>

lemma indexed_found:
  assumes "book_inv b" "mb_orders b oid = Some ref"
  obtains i where "queue_index oid (level_of b (ref_side ref) (ref_price ref)) = Some i"
    "i < length (level_of b (ref_side ref) (ref_price ref))"
    "o_ID (level_of b (ref_side ref) (ref_price ref) ! i) = oid"
  using book_inv_index(2) [OF assms] queue_index_None [of oid] queue_index_Some
  by (metis image_eqI not_None_eq)

lemma removeOrder_cases:
  assumes "book_inv b"
  shows "removeOrder b oid =
    (if oid = [] then (None, b)
     else (case mb_orders b oid of
         None \<Rightarrow> (None, b)
       | Some ref \<Rightarrow> removeAt b (ref_side ref) (ref_price ref)
           (the (queue_index oid (level_of b (ref_side ref) (ref_price ref))))))"
  using indexed_found [OF assms] by (fastforce simp: removeOrder_def split: option.splits)

lemma book_inv_removeOrder [book_intros]:
  assumes "book_inv b" shows "book_inv (snd (removeOrder b oid))"
  using assms book_inv_index(1) [OF assms]
  by (auto simp: removeOrder_cases [OF assms] split: option.splits intro!: book_inv_removeAt)

lemma Cancel_removeOrder: "Cancel b oid now =
    (map_option (\<lambda>x. x\<lparr>o_Status := StatusCanceled, o_UpdatedAt := now\<rparr>) (fst (removeOrder b oid)),
     snd (removeOrder b oid))"
  by (simp add: Cancel_def removeOrder_def case_prod_beta split: option.split)

lemma removeOrder_fields [simp]:
  assumes "book_inv b"
  shows "mb_Market (snd (removeOrder b oid)) = mb_Market b"
    "mb_BaseAsset (snd (removeOrder b oid)) = mb_BaseAsset b"
    "mb_QuoteAsset (snd (removeOrder b oid)) = mb_QuoteAsset b"
  by (auto simp: removeOrder_cases [OF assms] split: option.splits)

section \<open>Changing the best order in place\<close>

lemma level_set_level:
  assumes "is_side sd" "is_side sd'"
  shows "level_of (put_side b sd (set_level (book_side_of b sd) p q)) sd' p' =
    (if sd' = sd \<and> p' = p then q else level_of b sd' p')"
  using assms by (auto simp: side_of_put)

lemma book_inv_update_head:
  assumes inv: "book_inv b" and sd: "is_side sd" and q: "level_of b sd p = m # q"
    and ok: "resting_ok b sd p m'" and same: "o_ID m' = o_ID m"
  shows "book_inv (put_side b sd (set_level (book_side_of b sd) p (m' # q)))"
proof -
  let ?b = "put_side b sd (set_level (book_side_of b sd) p (m' # q))"
  have p: "p \<in> set (s_prices (book_side_of b sd))"
    using level_ne_price [OF book_invD(1) [OF inv sd]] q by simp
  have side: "side_inv ?b sd' (book_side_of ?b sd')" if "is_side sd'" for sd'
    using that sd p q ok book_invD(1) [OF inv sd] book_invD(1) [OF inv that]
    by (auto simp: side_of_put side_inv_def)
  have ids: "map o_ID (level_of ?b sd' p') = map o_ID (level_of b sd' p')" if "is_side sd'" for sd' p'
    unfolding level_set_level [OF sd that] using q same by auto
  have "index_inv ?b"
    unfolding index_inv_def
  proof (intro conjI allI impI)
    fix sd' p' assume s: "is_side sd'"
    show "distinct (map o_ID (level_of ?b sd' p'))" using ids [OF s] book_invD(2) [OF inv s] by simp
    fix x assume "x \<in> set (level_of ?b sd' p')"
    then have "o_ID x \<in> set (map o_ID (level_of b sd' p'))" using ids [OF s, of p'] by (metis image_eqI list.set_map)
    then show "mb_orders ?b (o_ID x) = Some \<lparr>ref_side = sd', ref_price = p'\<rparr>"
      using book_invD(3) [OF inv s] by auto
  next
    fix oid ref assume "mb_orders ?b oid = Some ref"
    then have o: "mb_orders b oid = Some ref" by simp
    show "is_side (ref_side ref)" using book_inv_index(1) [OF inv o] .
    have "oid \<in> set (map o_ID (level_of b (ref_side ref) (ref_price ref)))"
      using book_inv_index(2) [OF inv o] by auto
    then show "oid \<in> o_ID ` set (level_of ?b (ref_side ref) (ref_price ref))"
      using ids [OF book_inv_index(1) [OF inv o]] by (metis list.set_map)
  qed
  with side show ?thesis by (simp add: book_inv_def)
qed

section \<open>Inserting\<close>

lemma level_at_insertPrice [simp]: "level_at (insertPrice s p) p' = level_at s p'"
  by (simp add: insertPrice_def Let_def)

lemma insertPrice_fields [simp]:
  "s_side (insertPrice s p) = s_side s" "s_levels (insertPrice s p) = s_levels s"
  "set (s_prices (insertPrice s p)) = insert p (set (s_prices s))"
  by (simp_all add: insertPrice_def Let_def)

lemma insertPrice_sorted:
  assumes "is_side sd" "s_side s = sd" "sorted_wrt (price_before sd) (s_prices s)"
  shows "sorted_wrt (price_before sd) (s_prices (insertPrice s p))"
proof -
  have "(\<lambda>i. let cmp = Cmp (s_prices s ! i) p in if s_side s = SideBuy then cmp < 0 else cmp > 0) =
      (\<lambda>i. \<not> price_before sd (s_prices s ! i) p)"
    using assms(1,2) by (auto simp: fun_eq_iff price_before_def dec_simps Let_def)
  then show ?thesis
    using assms bid_prices.insert_sorted [of "s_prices s" p] ask_prices.insert_sorted [of "s_prices s" p]
    by (auto simp: insertPrice_def)
qed

definition insert_level :: "book_side \<Rightarrow> order \<Rightarrow> book_side" where
  "insert_level s0 item =
     (let s = (if s_levels s0 (o_Price item) = None then insertPrice s0 (o_Price item) else s0);
          queue = level_at s (o_Price item)
      in set_level s (o_Price item) (insert_at (queue_position queue (o_SequenceID item)) item queue))"

lemma insertResting_Inr:
  "insertResting b item0 = Inr b' \<longleftrightarrow>
     (let item = normalizeOrder b item0 in
      validateResting b item = Inr () \<and> mb_orders b (o_ID item) = None \<and>
      b' = (put_side b (o_Side item) (insert_level (book_side_of b (o_Side item)) item))
        \<lparr>mb_orders := (mb_orders b)(o_ID item \<mapsto> \<lparr>ref_side = o_Side item, ref_price = o_Price item\<rparr>)\<rparr>)"
  by (auto simp: insertResting_def insert_level_def Let_def split: sum.splits)

lemma level_insert_level:
  "level_at (insert_level s x) p = (if p = o_Price x
     then insert_at (queue_position (level_at s (o_Price x)) (o_SequenceID x)) x (level_at s (o_Price x))
     else level_at s p)"
  by (simp add: insert_level_def Let_def)

lemma prices_insert_level:
  "set (s_prices (insert_level s x)) = (if s_levels s (o_Price x) = None
     then insert (o_Price x) (set (s_prices s)) else set (s_prices s))"
  by (simp add: insert_level_def Let_def)

lemma insert_at_ne [simp]: "insert_at i x xs \<noteq> []"
  by (simp add: insert_at_def)

lemma side_inv_insert_level:
  assumes inv: "side_inv b sd s" and sd: "is_side sd" and ok: "resting_ok b sd (o_Price x) x"
  shows "side_inv b sd (insert_level s x)"
proof -
  have d: "distinct (s_prices (insertPrice s p))" if "p \<notin> set (s_prices s)" for p
    using inv that by (simp add: side_inv_def insertPrice_def Let_def distinct_insert_at)
  have "s_levels s p = None \<longleftrightarrow> p \<notin> set (s_prices s)" for p
    using inv unfolding side_inv_def by (metis domIff)
  then show ?thesis
    using inv ok d insertPrice_sorted [OF sd, of s]
    by (auto simp: side_inv_def insert_level_def Let_def)
qed

lemma book_inv_insert:
  assumes inv: "book_inv b" and ins: "insertResting b x0 = Inr b'" and ok: "order_ok (normalizeOrder b x0)"
  shows "book_inv b'"
proof -
  define x where "x = normalizeOrder b x0"
  have val: "validateResting b x = Inr ()" and new: "mb_orders b (o_ID x) = None"
    and b': "b' = (put_side b (o_Side x) (insert_level (book_side_of b (o_Side x)) x))
        \<lparr>mb_orders := (mb_orders b)(o_ID x \<mapsto> \<lparr>ref_side = o_Side x, ref_price = o_Price x\<rparr>)\<rparr>"
    using ins unfolding insertResting_Inr x_def Let_def by auto
  have sdx: "is_side (o_Side x)" using val by (simp add: validateResting_ok)
  have rest: "resting_ok b (o_Side x) (o_Price x) x" using val ok by (simp add: resting_ok_def x_def)
  have lev: "level_of b' sd p = (if sd = o_Side x \<and> p = o_Price x
      then insert_at (queue_position (level_of b sd p) (o_SequenceID x)) x (level_of b sd p)
      else level_of b sd p)" if "is_side sd" for sd p
    using that sdx by (auto simp: b' side_of_put level_insert_level)
  have side: "side_inv b' sd (book_side_of b' sd)" if "is_side sd" for sd
    using that sdx rest book_invD(1) [OF inv that] side_inv_insert_level [OF book_invD(1) [OF inv sdx] sdx rest]
    by (auto simp: b' side_of_put)
  have fresh: "o_ID y \<noteq> o_ID x" if "is_side sd" "y \<in> set (level_of b sd p)" for y sd p
    using book_invD(3) [OF inv that] new by auto
  have "index_inv b'"
    unfolding index_inv_def
  proof (intro conjI allI impI)
    fix sd p assume s: "is_side sd"
    have "distinct (map o_ID (insert_at i x (level_of b sd p)))" for i
      using distinct_insert_at [of "o_ID x" "map o_ID (level_of b sd p)" i] fresh [OF s, of _ p] book_invD(2) [OF inv s, of p]
      by (force simp: insert_at_map)
    then show "distinct (map o_ID (level_of b' sd p))"
      unfolding lev [OF s] using book_invD(2) [OF inv s] by auto
    fix y assume "y \<in> set (level_of b' sd p)"
    then show "mb_orders b' (o_ID y) = Some \<lparr>ref_side = sd, ref_price = p\<rparr>"
      unfolding lev [OF s] using fresh [OF s] book_invD(3) [OF inv s]
      by (auto simp: b' split: if_splits)
  next
    fix oid ref assume o: "mb_orders b' oid = Some ref"
    have "is_side (ref_side ref) \<and> oid \<in> o_ID ` set (level_of b' (ref_side ref) (ref_price ref))"
    proof (cases "oid = o_ID x")
      case True
      then have "ref = \<lparr>ref_side = o_Side x, ref_price = o_Price x\<rparr>" using o by (simp add: b')
      then show ?thesis using True sdx lev [OF sdx] by simp
    next
      case False
      then have o': "mb_orders b oid = Some ref" using o by (simp add: b')
      then show ?thesis
        using book_inv_index [OF inv o'] lev [OF book_inv_index(1) [OF inv o']] by auto
    qed
    then show "is_side (ref_side ref)" "oid \<in> o_ID ` set (level_of b' (ref_side ref) (ref_price ref))"
      by auto
  qed
  with side show ?thesis by (simp add: book_inv_def)
qed

lemma book_inv_new [book_intros]: "book_inv (NewMarketBook m ba qa)"
  by (auto simp: book_inv_def index_inv_def side_inv_def NewMarketBook_def newBookSide_def level_at_def)

lemma insert_fields:
  "insertResting b x = Inr b' \<Longrightarrow> mb_Market b' = mb_Market b \<and> mb_BaseAsset b' = mb_BaseAsset b \<and>
     mb_QuoteAsset b' = mb_QuoteAsset b"
  by (auto simp: insertResting_Inr Let_def)

lemma book_inv_Load:
  assumes "book_inv b" "\<And>x. x \<in> set items \<Longrightarrow> order_ok (normalizeOrder b x)"
  shows "book_inv (snd (Load b items))"
  using assms
proof (induction b items rule: Load.induct)
  case (1 b)
  then show ?case by simp
next
  case (2 b x items)
  have n: "normalizeOrder b' = normalizeOrder b" if "insertResting b y = Inr b'" for b' y
    using insert_fields [OF that] by (intro resting_ok_cong(2)) auto
  show ?case
  proof (cases "isBookable (normalizeOrder b x)")
    case False
    then show ?thesis using 2 by (simp add: Let_def)
  next
    case True
    show ?thesis
    proof (cases "insertResting b (normalizeOrder b x)")
      case (Inl e)
      then show ?thesis using True 2 by (simp add: Let_def)
    next
      case (Inr b')
      have "book_inv b'" using book_inv_insert [OF 2(3) Inr] 2(4) by simp
      then show ?thesis using True Inr 2(2) [OF refl _ Inr] 2(4) n [OF Inr] by (simp add: Let_def)
    qed
  qed
qed

end
