(* ===== verification/BookApply.thy ===== *)
theory BookApply
  imports BookInvariant
begin

text \<open>
  What \<^verbatim>\<open>MarketBook.Apply\<close> does to the book and to the taker: the loop keeps the book invariant
  and the run invariant of \<^verbatim>\<open>MatchFill\<close>, it stops with nothing left to match, and the book that
  was not crossed is not crossed afterwards. The step relation \<open>book_step\<close> collects the
  operations of the book; its invariants hold by rule induction in every reachable book.
\<close>

section \<open>The loop\<close>

abbreviation eff_price :: "order \<Rightarrow> string" where
  "eff_price t \<equiv> o_Price (effectiveBookTaker t)"

lemma effective_fields [simp]:
  "o_ID (effectiveBookTaker t) = o_ID t" "o_UserID (effectiveBookTaker t) = o_UserID t"
  "o_Market (effectiveBookTaker t) = o_Market t" "o_Side (effectiveBookTaker t) = o_Side t"
  "o_BaseAsset (effectiveBookTaker t) = o_BaseAsset t" "o_QuoteAsset (effectiveBookTaker t) = o_QuoteAsset t"
  "o_Type (effectiveBookTaker t) = o_Type t"
  "o_RemainingQuantity (effectiveBookTaker t) = o_RemainingQuantity t"
  by (simp_all add: effectiveBookTaker_def)

lemma effective_same:
  assumes "same_order t t'"
  shows "eff_price t' = eff_price t"
  using same_order_fields [OF assms] by (simp add: effectiveBookTaker_def)

lemma crossesPrice_iff:
  "crossesPrice t m \<longleftrightarrow> o_ID m \<noteq> [] \<and> o_ID m \<noteq> o_ID t \<and> o_Market m = o_Market t \<and> is_side (o_Side t) \<and>
     o_Side m = oppositeBookSide (o_Side t) \<and>
     (o_Status m = StatusOpen \<or> o_Status m = StatusPartiallyFilled) \<and>
     0 < Parse (o_RemainingQuantity m) \<and> within_limit (o_Side t) (o_Price t) (o_Price m)"
  by (cases "o_Side t") (auto simp: crossesPrice_def oppositeBookSide_def within_limit_def dec_simps)

lemma isSelfTrade_same: "o_UserID t' = o_UserID t \<Longrightarrow> isSelfTrade t' = isSelfTrade t"
  by (simp add: isSelfTrade_def fun_eq_iff)

lemma opposite_side [simp]:
  "is_side sd \<Longrightarrow> is_side (oppositeBookSide sd)" "oppositeBookSide sd \<noteq> sd"
  "is_side sd \<Longrightarrow> oppositeBookSide (oppositeBookSide sd) = sd"
  by (auto simp: oppositeBookSide_def)

lemma within_limit_before:
  assumes "is_side sd" "price_before (oppositeBookSide sd) p q" "within_limit sd l q"
  shows "within_limit sd l p"
  using assms by (auto simp: within_limit_def price_before_def oppositeBookSide_def split: if_splits)

definition apply_inv :: "(nat \<Rightarrow> string) \<Rightarrow> time \<Rightarrow> market_book \<Rightarrow> order \<Rightarrow> market_book \<Rightarrow> match_result \<Rightarrow> bool" where
  "apply_inv ids now b0 t b r \<longleftrightarrow>
     (let sd = oppositeBookSide (o_Side t); M = (\<Union>p. set (level_of b0 sd p)) in
      book_inv b \<and> mb_Market b = mb_Market b0 \<and> mb_BaseAsset b = mb_BaseAsset b0 \<and>
      mb_QuoteAsset b = mb_QuoteAsset b0 \<and> mb_orders b (o_ID t) = None \<and>
      book_side_of b (o_Side t) = book_side_of b0 (o_Side t) \<and>
      set (s_prices (book_side_of b sd)) \<subseteq> set (s_prices (book_side_of b0 sd)) \<and>
      (0 < Parse (o_RemainingQuantity (r_Taker r)) \<longrightarrow> (\<forall>p. set (level_of b sd p) \<subseteq> M)) \<and>
      run_inv ids now t (eff_price t) M r)"

lemma order_ok_statusForRemaining:
  assumes "order_ok (fill_order now q m)"
  shows "o_Status (fill_order now q m) = StatusFilled \<longleftrightarrow> Parse (o_RemainingQuantity (fill_order now q m)) = 0"
  using assms by (auto simp: statusForRemaining_def dec_simps order_ok_def)

lemma o_Quantity_fill [simp]: "o_Quantity (fill_order now q x) = o_Quantity x"
  by (simp add: fill_order_def Let_def)

lemma resting_ok_fill:
  assumes "resting_ok b sd p m" "amount q" "0 < Parse q" "Parse q \<le> Parse (o_RemainingQuantity m)"
    and "o_Status (fill_order now q m) \<noteq> StatusFilled"
  shows "resting_ok b sd p (fill_order now q m)"
proof -
  have "o_Status (fill_order now q m) = StatusPartiallyFilled"
    using assms(5) by (auto simp: statusForRemaining_def)
  moreover have ok: "order_ok (fill_order now q m)"
    using assms by (intro fill_order_ok) (auto simp: resting_ok_def)
  moreover have "0 < Parse (o_RemainingQuantity (fill_order now q m))"
    using ok assms(5) order_ok_statusForRemaining [OF ok] unfolding order_ok_def by linarith
  moreover have "o_RemainingQuantity m \<noteq> []"
    using assms(3,4) by (auto simp: Parse_def rat_set_string_def)
  moreover have "validateMarket b (fill_order now q m) = validateMarket b m" by (simp add: validateMarket_def)
  moreover have "normalizeOrder b (fill_order now q m) = fill_order now q m"
    using assms(1) \<open>o_RemainingQuantity m \<noteq> []\<close> \<open>o_Status _ = _\<close>
    unfolding resting_ok_def normalizeOrder_id_iff by simp
  ultimately show ?thesis
    using assms(1) unfolding resting_ok_def validateResting_ok by auto
qed

lemma apply_iter_inv:
  assumes inv: "apply_inv ids now b0 t b r" and sd: "is_side (o_Side t)"
    and pos: "0 < Parse (o_RemainingQuantity (r_Taker r))"
  shows "case apply_iter ids now (oppositeBookSide (o_Side t)) b r of
      Continue b' r' \<Rightarrow> apply_inv ids now b0 t b' r'
    | Break b' r' \<Rightarrow> b' = b \<and> r' = r \<and>
        (\<forall>q \<in> set (s_prices (book_side_of b (oppositeBookSide (o_Side t)))).
           \<not> within_limit (o_Side t) (eff_price t) q)
    | Return b' r' \<Rightarrow> b' = b \<and> apply_inv ids now b0 t b' r' \<and> o_Status (r_Taker r') = StatusExpired \<and>
        0 < Parse (o_RemainingQuantity (r_Taker r'))
    | Fail e b' \<Rightarrow> b' = b \<and> e = QuoteBelowPrecision"
proof -
  define os where "os = oppositeBookSide (o_Side t)"
  define M where "M = (\<Union>p. set (level_of b0 os p))"
  let ?s = "book_side_of b os" and ?l = "eff_price t"
  have os: "is_side os" and opp: "os \<noteq> o_Side t" using sd by (auto simp: os_def)
  have bi: "book_inv b" and free: "mb_orders b (o_ID t) = None"
    and ri: "run_inv ids now t ?l M r" and sub: "\<And>p. set (level_of b os p) \<subseteq> M"
    using inv pos unfolding apply_inv_def Let_def os_def [symmetric] M_def by auto
  have same: "same_order t (r_Taker r)" using ri by (simp add: run_inv_def)
  note f = same_order_fields [OF same] and eff = effective_same [OF same]
  have si: "side_inv b os ?s" by (rule book_invD(1) [OF bi os])
  have keep: "apply_inv ids now b0 t (snd (removeAt b os p 0)) r'"
    if "run_inv ids now t ?l M r'" "set (level_of b os p) \<noteq> {}" for p r'
  proof -
    have "mb_orders (snd (removeAt b os p 0)) (o_ID t) = None" using free by (simp add: orders_removeAt)
    moreover have "set (level_of (snd (removeAt b os p 0)) os p') \<subseteq> M" for p'
      using sub [of p'] set_remove_at_subset [of 0 "level_of b os p"] by (auto simp: level_removeAt [OF os os])
    moreover have "book_side_of (snd (removeAt b os p 0)) (o_Side t) = book_side_of b (o_Side t)"
      using sd os opp by (auto simp: removeAt_def Let_def side_of_put)
    moreover have "set (s_prices (book_side_of (snd (removeAt b os p 0)) os)) \<subseteq> set (s_prices ?s)"
      using set_remove1_subset [of p "s_prices ?s"] by (auto simp: prices_removeAt [OF os os])
    ultimately show ?thesis
      using inv that book_inv_removeAt [OF bi os]
      unfolding apply_inv_def Let_def os_def [symmetric] M_def by auto
  qed
  show ?thesis
  proof (cases "s_prices ?s")
    case Nil
    then show ?thesis by (simp add: apply_iter_def Let_def os_def [symmetric] bestPrice_def)
  next
    case (Cons p ps)
    have "level_at ?s p \<noteq> []" using si Cons by (simp add: side_inv_def)
    then obtain m q where mq: "level_at ?s p = m # q" by (cases "level_at ?s p") auto
    have m: "m \<in> M" "resting_ok b os p m" "o_ID m \<noteq> o_ID t"
      using sub [of p] mq si book_invD(3) [OF bi os, of m p] free by (auto simp: side_inv_def)
    then have mok: "order_ok m" "o_Price m = p" "isBookable m" "o_Side m = os" "o_ID m \<noteq> []"
      using resting_bookable by (auto simp: resting_ok_def validateResting_ok)
    let ?e = "effectiveBookTaker (r_Taker r)"
    have eself: "isSelfTrade ?e m = isSelfTrade t m"
      by (simp add: isSelfTrade_def f)
    have ecross: "crossesPrice ?e m = crossesPrice (t\<lparr>o_Price := ?l\<rparr>) m"
      by (simp add: crossesPrice_iff f eff)
    have rest: "crossesPrice ?e m \<longleftrightarrow> o_Market m = o_Market t \<and> within_limit (o_Side t) ?l p"
      unfolding ecross using m mok sd by (auto simp: crossesPrice_iff os_def isBookable_iff)
    define qty where "qty = Min (o_RemainingQuantity (r_Taker r)) (o_RemainingQuantity m)"
    have qty: "0 < Parse qty" "Parse qty \<le> Parse (o_RemainingQuantity m)" "amount qty"
      "Parse qty \<le> Parse (o_RemainingQuantity (r_Taker r))"
      using pos mok ri by (auto simp: qty_def da.val_minimum isBookable_iff order_ok_def run_inv_def amount_Min)
    consider (eligible) "eligibleMaker ?e m"
      | (self) "\<not> eligibleMaker ?e m" "isSelfTrade ?e m" "crossesPrice ?e m"
      | (market) "\<not> eligibleMaker ?e m" "\<not> crossesPrice ?e m" "o_Market m \<noteq> o_Market t"
      | (beyond) "\<not> eligibleMaker ?e m" "\<not> crossesPrice ?e m" "o_Market m = o_Market t"
      by (auto simp: eligibleMaker_iff)
    then show ?thesis
    proof cases
      case eligible
      then have cr: "crossesPrice (t\<lparr>o_Price := ?l\<rparr>) m" and ns: "\<not> isSelfTrade t m"
        by (auto simp: eligibleMaker_iff ecross eself)
      show ?thesis
      proof (cases "0 < Parse (Mul qty (o_Price m))")
        case False
        then show ?thesis
          using Cons mq eligible qty
          by (simp add: apply_iter_def bestPrice_def Let_def os_def [symmetric] qty_def [symmetric] Cmp_le_0 Parse_0)
      next
        case True
        let ?r = "fill_result ids now r m qty"
        have ri': "run_inv ids now t ?l M ?r"
          by (rule run_inv_fill [OF ri cr ns mok(1) m(1) qty_def pos True])
        show ?thesis
        proof (cases "o_Status (fill_order now qty m) = StatusFilled")
          case True': True
          then show ?thesis
            using Cons mq eligible qty True keep [OF ri', of p]
            by (simp add: apply_iter_def bestPrice_def Let_def os_def [symmetric] qty_def [symmetric] Cmp_le_0 Parse_0)
        next
          case False
          let ?b = "put_side b os (set_level ?s p (fill_order now qty m # q))"
          have "book_inv ?b"
            using book_inv_update_head [OF bi os mq resting_ok_fill [OF m(2) qty(3,1,2) False]] by simp
          moreover have "Parse (o_RemainingQuantity (r_Taker ?r)) = 0"
            using fill_exhausts [of now "r_Taker r" m now] False by (simp add: qty_def fill_result_def)
          ultimately have "apply_inv ids now b0 t ?b ?r"
            using inv ri' sd os opp
            unfolding apply_inv_def Let_def os_def [symmetric] M_def [symmetric] by (auto simp: side_of_put)
          then show ?thesis
            using Cons mq eligible qty True False
            by (simp add: apply_iter_def bestPrice_def Let_def os_def [symmetric] qty_def [symmetric] Cmp_le_0 Parse_0)
        qed
      qed
    next
      case self
      have "apply_inv ids now b0 t b (r\<lparr>r_Taker := (r_Taker r)\<lparr>o_Status := StatusExpired, o_UpdatedAt := now\<rparr>\<rparr>)"
        using inv by (auto simp: apply_inv_def Let_def run_inv_taker_upd)
      then show ?thesis
        using self Cons mq pos by (simp add: apply_iter_def bestPrice_def Let_def os_def [symmetric])
    next
      case market
      then show ?thesis
        using Cons mq keep [OF ri, of p] by (simp add: apply_iter_def bestPrice_def Let_def os_def [symmetric] f)
    next
      case beyond
      then have "\<not> within_limit (o_Side t) ?l p" using rest by simp
      moreover have "price_before os p q" if "q \<in> set (s_prices ?s)" for q
        using si Cons that by (auto simp: side_inv_def price_before_def)
      ultimately have "\<forall>q \<in> set (s_prices ?s). \<not> within_limit (o_Side t) ?l q"
        using within_limit_before [OF sd] os_def by blast
      then show ?thesis
        using beyond Cons mq mok opp by (simp add: apply_iter_def bestPrice_def Let_def os_def [symmetric] f)
    qed
  qed
qed

definition loop_post :: "(nat \<Rightarrow> string) \<Rightarrow> time \<Rightarrow> market_book \<Rightarrow> order \<Rightarrow> apply_step \<Rightarrow> bool" where
  "loop_post ids now b0 t st =
     (case st of
        Continue b' r' \<Rightarrow> False
      | Break b' r' \<Rightarrow> apply_inv ids now b0 t b' r' \<and>
          (0 < Parse (o_RemainingQuantity (r_Taker r')) \<longrightarrow>
            (\<forall>q \<in> set (s_prices (book_side_of b' (oppositeBookSide (o_Side t)))).
               \<not> within_limit (o_Side t) (eff_price t) q))
      | Return b' r' \<Rightarrow> apply_inv ids now b0 t b' r' \<and> o_Status (r_Taker r') = StatusExpired \<and>
        0 < Parse (o_RemainingQuantity (r_Taker r'))
      | Fail e b' \<Rightarrow> e = QuoteBelowPrecision \<and> (\<exists>r'. apply_inv ids now b0 t b' r'))"

lemma apply_loop_post:
  assumes "apply_inv ids now b0 t b r" "is_side (o_Side t)"
  shows "loop_post ids now b0 t (apply_loop ids now (oppositeBookSide (o_Side t)) b r)"
  using assms
proof (induction ids now "oppositeBookSide (o_Side t)" b r rule: apply_loop.induct)
  case (1 ids now b r)
  show ?case
  proof (cases "0 < Parse (o_RemainingQuantity (r_Taker r))")
    case False
    then show ?thesis
      using 1 by (subst apply_loop.simps) (auto simp: loop_post_def Cmp_greater_0 Parse_0)
  next
    case True
    then have c: "Cmp (o_RemainingQuantity (r_Taker r)) ''0'' > 0" by (simp add: Cmp_greater_0 Parse_0)
    show ?thesis
      using apply_iter_inv [OF 1(2,3) True] c 1(1) [OF c] 1(2,3)
      by (subst apply_loop.simps) (auto simp: loop_post_def split: apply_step.splits)
  qed
qed

section \<open>Apply\<close>

definition entry_taker :: "market_book \<Rightarrow> order \<Rightarrow> order" where
  "entry_taker b t0 =
     (let t = normalizeOrder b t0 in
      if o_Type t = TypeMarket then t\<lparr>o_TimeInForce := TimeInForceIOC\<rparr> else t)"

definition admissible :: "market_book \<Rightarrow> order \<Rightarrow> bool" where
  "admissible b t0 \<longleftrightarrow> (let t = normalizeOrder b t0 in
     mb_orders b (o_ID t) = None \<and> validateTaker (effectiveBookTaker t) = Inr () \<and>
     validateMarket b t = Inr ())"

lemma entry_taker_fields [simp]:
  "o_ID (entry_taker b t) = o_ID t" "o_Side (entry_taker b t) = o_Side t" "o_UserID (entry_taker b t) = o_UserID t"
  "o_Price (entry_taker b t) = o_Price t" "o_SequenceID (entry_taker b t) = o_SequenceID t"
  "o_FilledQuantity (entry_taker b t) = o_FilledQuantity (normalizeOrder b t)"
  "o_RemainingQuantity (entry_taker b t) = o_RemainingQuantity (normalizeOrder b t)"
  "o_Quantity (entry_taker b t) = o_Quantity (normalizeOrder b t)"
  "o_Market (entry_taker b t) = o_Market (normalizeOrder b t)"
  "o_BaseAsset (entry_taker b t) = o_BaseAsset (normalizeOrder b t)"
  "o_QuoteAsset (entry_taker b t) = o_QuoteAsset (normalizeOrder b t)"
  "o_Type (entry_taker b t) = o_Type (normalizeOrder b t)"
  by (simp_all add: entry_taker_def Let_def)

lemma Apply_admissible:
  assumes "admissible b t0"
  shows "Apply b t0 (Some ids) now =
    (let t = entry_taker b t0 in
     case apply_loop ids now (oppositeBookSide (o_Side t)) b \<lparr>r_Taker = t, r_Makers = [], r_Trades = []\<rparr> of
       Return b' r' \<Rightarrow> (Inr r', b') | Fail e b' \<Rightarrow> (Inl e, b')
     | Break b' r' \<Rightarrow> apply_finish now b' r' | Continue b' r' \<Rightarrow> apply_finish now b' r')"
  using assms by (simp add: Apply_def admissible_def Let_def entry_taker_def split del: if_split)

lemma Apply_rejected:
  assumes "\<not> admissible b t0"
  shows "\<exists>e. Apply b t0 (Some ids) now = (Inl e, b) \<and> e \<noteq> QuoteBelowPrecision"
proof -
  have "e \<noteq> QuoteBelowPrecision" if "validateTaker x = Inl e \<or> validateMarket b x = Inl e" for x e
    using that by (auto simp: validateTaker_def validateMarket_def split: if_splits)
  then show ?thesis
    using assms by (auto simp: Apply_def admissible_def Let_def split: sum.splits)
qed

lemma admissible_side:
  assumes "admissible b t0"
  shows "is_side (o_Side t0)" "o_ID t0 \<noteq> []" "mb_orders b (o_ID t0) = None"
    "0 < Parse (o_RemainingQuantity (entry_taker b t0))" "0 < Parse (eff_price (entry_taker b t0))"
  using assms by (auto simp: admissible_def Let_def validateTaker_ok effectiveBookTaker_def split: if_splits)

lemma order_ok_entry: "order_ok (normalizeOrder b t) \<Longrightarrow> order_ok (entry_taker b t)"
  by (simp add: order_ok_def)

lemma apply_inv_start:
  assumes "book_inv b" "admissible b t0" "order_ok (normalizeOrder b t0)"
  shows "apply_inv ids now b (entry_taker b t0) b
    \<lparr>r_Taker = entry_taker b t0, r_Makers = [], r_Trades = []\<rparr>"
  using assms admissible_side [OF assms(2)] run_inv_start [OF order_ok_entry [OF assms(3)]]
  by (auto simp: apply_inv_def Let_def)

text \<open>A taker that is left over and may rest is always accepted by the book.\<close>

lemma insertResting_taker:
  assumes inv: "apply_inv ids now b0 t b r" and adm: "admissible b0 t0" and t: "t = entry_taker b0 t0"
    and left: "0 < Parse (o_RemainingQuantity (r_Taker r))" and imm: "\<not> isImmediateOnlyBookOrder (r_Taker r)"
    and st: "st = StatusOpen \<or> st = StatusPartiallyFilled"
  defines "x \<equiv> (r_Taker r)\<lparr>o_Status := st, o_UpdatedAt := now\<rparr>"
  shows "\<exists>b'. insertResting b x = Inr b' \<and> normalizeOrder b x = x \<and> order_ok x"
proof -
  have same: "same_order t (r_Taker r)" and ok: "order_ok (r_Taker r)"
    using inv by (auto simp: apply_inv_def Let_def run_inv_def)
  note f = same_order_fields [OF same]
  have b: "normalizeOrder b = normalizeOrder b0" "validateMarket b = validateMarket b0"
    using inv by (auto simp: apply_inv_def Let_def intro!: resting_ok_cong(2,3))
  have ty: "o_Type t \<noteq> TypeMarket" using imm f by (simp add: isImmediateOnlyBookOrder_def)
  then have tn: "t = normalizeOrder b0 t0" using t by (auto simp: entry_taker_def Let_def split: if_splits)
  have "eff_price t = o_Price t" using ty by (simp add: effectiveBookTaker_def)
  then have price: "0 < Parse (o_Price t)" using admissible_side(5) [OF adm] t by simp
  have ne: "o_RemainingQuantity (r_Taker r) \<noteq> []" using left by (auto simp: Parse_def rat_set_string_def)
  have fq: "o_FilledQuantity (r_Taker r) \<noteq> [] \<and> (o_Quantity t = [] \<longrightarrow> False)"
  proof -
    have "o_FilledQuantity t \<noteq> []" using tn by (metis normalizeOrder_id_iff normalizeOrder_idem)
    moreover have "o_Quantity t \<noteq> []"
      using admissible_side(4) [OF adm] t by (auto simp: Parse_def rat_set_string_def)
    ultimately show ?thesis using inv by (auto simp: apply_inv_def Let_def run_inv_def)
  qed
  have norm: "normalizeOrder b0 x = x"
    using tn st ne fq f unfolding x_def normalizeOrder_id_iff by (auto split: if_splits)
  have "validateMarket b0 x = validateMarket b0 t" by (simp add: x_def f validateMarket_def)
  then have "validateResting b0 x = Inr ()"
    using adm st left price ty f tn
    by (auto simp: x_def validateResting_ok admissible_def Let_def validateTaker_ok)
  moreover have "mb_orders b (o_ID x) = None"
    using inv by (simp add: x_def f apply_inv_def Let_def)
  moreover have "validateResting b = validateResting b0"
    using inv by (auto simp: apply_inv_def Let_def intro!: resting_ok_cong(4))
  ultimately show ?thesis
    using norm b ok by (auto simp: insertResting_Inr Let_def x_def order_ok_def)
qed

text \<open>How the run of an admissible taker ends.\<close>

lemma Apply_outcome:
  assumes inv: "book_inv b" and adm: "admissible b t0" and ok: "order_ok (normalizeOrder b t0)"
  defines "t \<equiv> entry_taker b t0"
  shows "(\<exists>b' r'. Apply b t0 (Some ids) now = (Inl QuoteBelowPrecision, b') \<and> apply_inv ids now b t b' r') \<or>
    (\<exists>b' r'. Apply b t0 (Some ids) now = (Inr r', b') \<and> apply_inv ids now b t b' r' \<and>
       (o_Status (r_Taker r') = StatusExpired \<and> 0 < Parse (o_RemainingQuantity (r_Taker r')) \<or>
        o_Status (r_Taker r') = StatusFilled \<and> Parse (o_RemainingQuantity (r_Taker r')) = 0)) \<or>
    (\<exists>b1 r1 b' st. let x = (r_Taker r1)\<lparr>o_Status := st, o_UpdatedAt := now\<rparr> in
       apply_inv ids now b t b1 r1 \<and> 0 < Parse (o_RemainingQuantity (r_Taker r1)) \<and>
       \<not> isImmediateOnlyBookOrder (r_Taker r1) \<and>
       (\<forall>q \<in> set (s_prices (book_side_of b1 (oppositeBookSide (o_Side t)))).
          \<not> within_limit (o_Side t) (eff_price t) q) \<and>
       st = (if r_Trades r1 = [] then StatusOpen else StatusPartiallyFilled) \<and>
       insertResting b1 x = Inr b' \<and> normalizeOrder b1 x = x \<and> order_ok x \<and>
       Apply b t0 (Some ids) now = (Inr (r1\<lparr>r_Taker := x\<rparr>), b'))"
proof -
  let ?st = "apply_loop ids now (oppositeBookSide (o_Side t)) b \<lparr>r_Taker = t, r_Makers = [], r_Trades = []\<rparr>"
  have sd: "is_side (o_Side t)" using admissible_side(1) [OF adm] by (simp add: t_def)
  have post: "loop_post ids now b t ?st"
    using apply_loop_post [OF apply_inv_start [OF inv adm ok]] sd unfolding t_def by blast
  note app = Apply_admissible [OF adm, of ids now, folded t_def, unfolded Let_def]
  show ?thesis
  proof (cases ?st)
    case (Continue b' r') with post show ?thesis by (simp add: loop_post_def)
  next
    case (Return b' r') with post app show ?thesis by (auto simp: loop_post_def)
  next
    case (Fail e b') with post app show ?thesis by (auto simp: loop_post_def)
  next
    case (Break b1 r1)
    have ai: "apply_inv ids now b t b1 r1" using post Break by (simp add: loop_post_def)
    have nn: "0 \<le> Parse (o_RemainingQuantity (r_Taker r1))"
      using ai by (simp add: apply_inv_def Let_def run_inv_def order_ok_def)
    have upd: "apply_inv ids now b t b1 (r1\<lparr>r_Taker := (r_Taker r1)\<lparr>o_Status := s, o_UpdatedAt := now\<rparr>\<rparr>)" for s
      using ai by (auto simp: apply_inv_def Let_def run_inv_taker_upd)
    have fin: "Apply b t0 (Some ids) now = apply_finish now b1 r1" using app Break by simp
    consider (full) "Parse (o_RemainingQuantity (r_Taker r1)) = 0"
      | (imm) "0 < Parse (o_RemainingQuantity (r_Taker r1))" "isImmediateOnlyBookOrder (r_Taker r1)"
      | (rest) "0 < Parse (o_RemainingQuantity (r_Taker r1))" "\<not> isImmediateOnlyBookOrder (r_Taker r1)"
      using nn by fastforce
    then show ?thesis
    proof cases
      case full
      then show ?thesis
        using fin upd [of StatusFilled] by (auto simp: apply_finish_def dec_simps)
    next
      case imm
      then show ?thesis
        using fin upd [of StatusExpired] by (auto simp: apply_finish_def dec_simps)
    next
      case rest
      define st where "st = (if r_Trades r1 = [] then StatusOpen else StatusPartiallyFilled)"
      have stv: "st = StatusOpen \<or> st = StatusPartiallyFilled" by (simp add: st_def)
      obtain b' where b': "insertResting b1 ((r_Taker r1)\<lparr>o_Status := st, o_UpdatedAt := now\<rparr>) = Inr b'"
        "normalizeOrder b1 ((r_Taker r1)\<lparr>o_Status := st, o_UpdatedAt := now\<rparr>) =
          (r_Taker r1)\<lparr>o_Status := st, o_UpdatedAt := now\<rparr>"
        "order_ok ((r_Taker r1)\<lparr>o_Status := st, o_UpdatedAt := now\<rparr>)"
        using insertResting_taker [OF ai adm t_def [THEN meta_eq_to_obj_eq] rest stv] by blast
      have "Apply b t0 (Some ids) now = (Inr (r1\<lparr>r_Taker := (r_Taker r1)\<lparr>o_Status := st, o_UpdatedAt := now\<rparr>\<rparr>), b')"
        using fin rest b'(1) by (simp add: apply_finish_def dec_simps Let_def st_def)
      moreover have "\<forall>q \<in> set (s_prices (book_side_of b1 (oppositeBookSide (o_Side t)))).
          \<not> within_limit (o_Side t) (eff_price t) q"
        using post Break rest by (simp add: loop_post_def)
      ultimately show ?thesis
        using ai rest b' st_def unfolding Let_def by blast
    qed
  qed
qed

lemma Apply_run_inv:
  assumes inv: "book_inv b" and ok: "order_ok (normalizeOrder b taker)"
    and r: "fst (Apply b taker (Some ids) now) = Inr r"
  shows "run_inv ids now (entry_taker b taker) (eff_price (entry_taker b taker))
      (\<Union>p. set (level_of b (oppositeBookSide (o_Side taker)) p)) r \<and>
    (o_Status (r_Taker r) = StatusFilled \<longleftrightarrow> Parse (o_RemainingQuantity (r_Taker r)) = 0)"
proof -
  have adm: "admissible b taker" using r Apply_rejected [of b taker ids now] by fastforce
  have ri: "run_inv ids now (entry_taker b taker) (eff_price (entry_taker b taker))
      (\<Union>p. set (level_of b (oppositeBookSide (o_Side taker)) p)) r'"
    if "apply_inv ids now b (entry_taker b taker) b' r'" for b' r'
    using that by (simp add: apply_inv_def Let_def)
  show ?thesis
    using Apply_outcome [OF inv adm ok, of ids now] r ri run_inv_taker_upd(1) [OF ri]
    unfolding Let_def by (elim disjE exE conjE) (auto split: if_splits)
qed

lemma book_inv_insert_id:
  "book_inv b \<Longrightarrow> insertResting b x = Inr b' \<Longrightarrow> normalizeOrder b x = x \<Longrightarrow> order_ok x \<Longrightarrow> book_inv b'"
  using book_inv_insert [of b x b'] by simp

lemma Apply_book_inv:
  assumes inv: "book_inv b" and ok: "order_ok (normalizeOrder b t0)"
  shows "book_inv (snd (Apply b t0 f now))"
proof (cases f)
  case None
  then show ?thesis using inv by (simp add: Apply_def)
next
  case (Some ids)
  show ?thesis
  proof (cases "admissible b t0")
    case False
    then show ?thesis using Apply_rejected [OF False, of ids now] inv Some by auto
  next
    case True
    have ai: "book_inv b'" if "apply_inv ids now b t b' r'" for t b' r'
      using that by (simp add: apply_inv_def Let_def)
    show ?thesis
      using Apply_outcome [OF inv True ok, of ids now] Some ai book_inv_insert_id [OF ai]
      unfolding Let_def by (elim disjE exE conjE) auto
  qed
qed

section \<open>The book is never crossed by Apply\<close>

lemma uncrossed_side:
  "is_side sd \<Longrightarrow> uncrossed b \<longleftrightarrow> (\<forall>p \<in> set (s_prices (book_side_of b sd)).
     \<forall>q \<in> set (s_prices (book_side_of b (oppositeBookSide sd))). \<not> within_limit sd p q)"
  by (auto simp: uncrossed_def within_limit_def oppositeBookSide_def not_le) (meson not_le)

lemma prices_insertResting:
  assumes "insertResting b x = Inr b'" "normalizeOrder b x = x" "is_side sd"
  shows "set (s_prices (book_side_of b' sd)) \<subseteq>
    (if sd = o_Side x then insert (o_Price x) (set (s_prices (book_side_of b sd)))
     else set (s_prices (book_side_of b sd)))"
proof -
  have "is_side (o_Side x)" using assms by (auto simp: insertResting_Inr validateResting_ok Let_def)
  then show ?thesis
    using assms by (auto simp: insertResting_Inr Let_def side_of_put prices_insert_level)
qed

lemma uncrossed_apply_inv:
  assumes "apply_inv ids now b0 t b r" "is_side (o_Side t)" "uncrossed b0"
  shows "uncrossed b"
  using assms by (auto simp: uncrossed_side [OF assms(2)] apply_inv_def Let_def)

lemma Apply_uncrossed:
  assumes inv: "book_inv b" and ok: "order_ok (normalizeOrder b t0)" and un: "uncrossed b"
  shows "uncrossed (snd (Apply b t0 f now))"
proof (cases f)
  case None
  then show ?thesis using un by (simp add: Apply_def)
next
  case (Some ids)
  show ?thesis
  proof (cases "admissible b t0")
    case False
    then show ?thesis using Apply_rejected [OF False, of ids now] un Some by auto
  next
    case True
    define t where "t = entry_taker b t0"
    have sd: "is_side (o_Side t)" using admissible_side(1) [OF True] by (simp add: t_def)
    have rest: "uncrossed b'"
      if ai: "apply_inv ids now b t b1 r1" and imm: "\<not> isImmediateOnlyBookOrder (r_Taker r1)"
        and beyond: "\<forall>q \<in> set (s_prices (book_side_of b1 (oppositeBookSide (o_Side t)))).
          \<not> within_limit (o_Side t) (eff_price t) q"
        and ins: "insertResting b1 x = Inr b'" "normalizeOrder b1 x = x" and x: "same_order t x"
      for b1 r1 b' x
    proof -
      have "same_order t (r_Taker r1)" using ai by (simp add: apply_inv_def Let_def run_inv_def)
      then have "o_Type t \<noteq> TypeMarket" using imm by (simp add: isImmediateOnlyBookOrder_def same_order_fields)
      then have eff: "eff_price t = o_Price x" using same_order_fields [OF x] by (simp add: effectiveBookTaker_def)
      have xs: "o_Side x = o_Side t" using same_order_fields [OF x] by simp
      have own: "set (s_prices (book_side_of b' (o_Side t))) \<subseteq>
          insert (o_Price x) (set (s_prices (book_side_of b1 (o_Side t))))"
        using prices_insertResting [OF ins sd] xs by simp
      have other: "set (s_prices (book_side_of b' (oppositeBookSide (o_Side t)))) \<subseteq>
          set (s_prices (book_side_of b1 (oppositeBookSide (o_Side t))))"
        using prices_insertResting [OF ins opposite_side(1) [OF sd]] xs by simp
      show ?thesis
        using uncrossed_apply_inv [OF ai sd un] beyond own other
        unfolding uncrossed_side [OF sd] eff by blast
    qed
    have same: "same_order t (r_Taker r1)" if "apply_inv ids now b t b1 r1" for b1 r1
      using that by (simp add: apply_inv_def Let_def run_inv_def)
    show ?thesis
      using Apply_outcome [OF inv True ok, of ids now, folded t_def] Some
        uncrossed_apply_inv [OF _ sd un] rest [OF _ _ _ _ _ same_order_upd(3) [OF same]]
      unfolding Let_def by (elim disjE exE conjE) auto
  qed
qed

section \<open>ApplyResult\<close>

lemma replaceOrder_inv:
  assumes inv: "book_inv b" and ok: "order_ok (normalizeOrder b x)" and rep: "replaceOrder b x = Inr b'"
  shows "book_inv b' \<and> normalizeOrder b' = normalizeOrder b"
proof -
  let ?b1 = "snd (removeOrder b (o_ID x))"
  have b1: "book_inv ?b1" and n: "normalizeOrder ?b1 = normalizeOrder b"
    using inv by (auto intro!: book_inv_removeOrder resting_ok_cong(2))
  show ?thesis
  proof (cases "isBookable (normalizeOrder ?b1 x)")
    case False
    then show ?thesis using rep b1 n by (auto simp: replaceOrder_def Let_def)
  next
    case True
    then have ins: "insertResting ?b1 (normalizeOrder b x) = Inr b'"
      using rep n by (auto simp: replaceOrder_def Let_def)
    have "normalizeOrder b' = normalizeOrder ?b1"
      using insert_fields [OF ins] by (intro resting_ok_cong(2)) auto
    then show ?thesis
      using book_inv_insert [OF b1 ins] ok n by simp
  qed
qed

lemma apply_makers_inv:
  assumes "book_inv b" "\<And>x. x \<in> set ms \<Longrightarrow> order_ok (normalizeOrder b x)"
  shows "book_inv (snd (apply_makers b ms)) \<and>
    (fst (apply_makers b ms) = Inr () \<longrightarrow> normalizeOrder (snd (apply_makers b ms)) = normalizeOrder b)"
  using assms
proof (induction b ms rule: apply_makers.induct)
  case (1 b)
  then show ?case by simp
next
  case (2 b x ms)
  show ?case
  proof (cases "replaceOrder b x")
    case (Inl e)
    then show ?thesis using 2 by (auto intro: book_inv_removeOrder)
  next
    case (Inr b')
    have "book_inv b' \<and> normalizeOrder b' = normalizeOrder b"
      using replaceOrder_inv [OF 2(2) _ Inr] 2(3) by simp
    then show ?thesis using 2(1) [OF Inr] 2(3) Inr by auto
  qed
qed

lemma ApplyResult_inv:
  assumes inv: "book_inv b" and ms: "\<And>x. x \<in> set (r_Makers r) \<Longrightarrow> order_ok (normalizeOrder b x)"
    and t: "order_ok (normalizeOrder b (r_Taker r))"
  shows "book_inv (snd (ApplyResult b r))"
proof -
  obtain res b' where ab: "apply_makers b (r_Makers r) = (res, b')" by fastforce
  then have b': "book_inv b'" "res = Inr () \<Longrightarrow> normalizeOrder b' = normalizeOrder b"
    using apply_makers_inv [OF inv, of "r_Makers r"] ms by auto
  show ?thesis
  proof (cases "res = Inr () \<and> o_ID (r_Taker r) \<noteq> []")
    case False
    then show ?thesis using ab b'(1) by (cases res) (auto simp: ApplyResult_def)
  next
    case True
    show ?thesis
    proof (cases "replaceOrder b' (r_Taker r)")
      case (Inl e)
      then show ?thesis
        using True ab book_inv_removeOrder [OF b'(1)] by (simp add: ApplyResult_def)
    next
      case (Inr b'')
      have "order_ok (normalizeOrder b' (r_Taker r))" using b'(2) True t by simp
      then show ?thesis
        using True ab Inr replaceOrder_inv [OF b'(1) _ Inr] by (simp add: ApplyResult_def)
    qed
  qed
qed

section \<open>Reachable books\<close>

text \<open>
  The operations of the book as steps. Orders that come in carry amounts with at most 18
  decimals, which is what the database columns and the order service hand to the book.
\<close>

inductive book_step :: "market_book \<Rightarrow> market_book \<Rightarrow> bool" where
  step_Load: "(\<And>x. x \<in> set items \<Longrightarrow> order_ok (normalizeOrder b x)) \<Longrightarrow> book_step b (snd (Load b items))"
| step_Apply: "order_ok (normalizeOrder b t) \<Longrightarrow> book_step b (snd (Apply b t f now))"
| step_ApplyResult: "(\<And>x. x \<in> set (r_Makers r) \<Longrightarrow> order_ok (normalizeOrder b x)) \<Longrightarrow>
    order_ok (normalizeOrder b (r_Taker r)) \<Longrightarrow> book_step b (snd (ApplyResult b r))"
| step_Cancel: "book_step b (snd (Cancel b oid now))"

inductive reachable_book :: "market_book \<Rightarrow> bool" where
  reach_new: "reachable_book (NewMarketBook m ba qa)"
| reach_step: "reachable_book b \<Longrightarrow> book_step b b' \<Longrightarrow> reachable_book b'"

inductive_cases book_stepE: "book_step b b'"

lemma book_step_inv: "book_step b b' \<Longrightarrow> book_inv b \<Longrightarrow> book_inv b'"
  by (induction rule: book_step.induct)
    (auto intro: book_inv_Load Apply_book_inv ApplyResult_inv book_inv_removeOrder simp: Cancel_removeOrder)

lemma reachable_book_inv: "reachable_book b \<Longrightarrow> book_inv b"
  by (induction rule: reachable_book.induct) (auto intro: book_inv_new book_step_inv)

end
