(* ===== verification/BookPriority.thy ===== *)
theory BookPriority
  imports BookApply
begin

text \<open>
  The book against its list specification. A side, read level by level, is one list of
  resting orders; \<^verbatim>\<open>MarketBook.Apply\<close> does to the levels what \<^verbatim>\<open>MatchLimit\<close> does to that list, and
  consumes it from the front: price priority between levels, time priority within one.
\<close>

definition flat :: "book_side \<Rightarrow> order list" where
  "flat s = concat (map (level_at s) (s_prices s))"

lemma set_flat: "side_inv b sd s \<Longrightarrow> set (flat s) = (\<Union>p. set (level_at s p))"
proof -
  assume inv: "side_inv b sd s"
  have "set (level_at s p) \<subseteq> (\<Union>q \<in> set (s_prices s). set (level_at s q))" for p
    using level_ne_price [OF inv, of p] by (cases "level_at s p = []") auto
  then show ?thesis by (auto simp: flat_def)
qed

lemma flat_resting: "side_inv b sd s \<Longrightarrow> x \<in> set (flat s) \<Longrightarrow> resting_ok b sd (o_Price x) x"
proof -
  assume inv: "side_inv b sd s" and x: "x \<in> set (flat s)"
  obtain p where p: "x \<in> set (level_at s p)" using set_flat [OF inv] x by auto
  then have "resting_ok b sd p x" using inv unfolding side_inv_def by blast
  then show ?thesis by (simp add: resting_ok_def)
qed

lemma sorted_wrt_concat:
  "(\<And>xs. xs \<in> set xss \<Longrightarrow> sorted_wrt P xs) \<Longrightarrow>
   sorted_wrt (\<lambda>xs ys. \<forall>x \<in> set xs. \<forall>y \<in> set ys. P x y) xss \<Longrightarrow> sorted_wrt P (concat xss)"
  by (induction xss) (auto simp: sorted_wrt_append)

lemma sorted_wrt_total: "(\<And>x y. x \<in> set xs \<Longrightarrow> y \<in> set xs \<Longrightarrow> P x y) \<Longrightarrow> sorted_wrt P xs"
  by (induction xs) auto

lemma flat_sorted:
  assumes inv: "side_inv b sd s"
  shows "sorted_wrt (\<lambda>x y. price_before sd (o_Price x) (o_Price y)) (flat s)"
proof -
  have price: "o_Price x = p" if "x \<in> set (level_at s p)" for x p
    using inv that by (auto simp: side_inv_def resting_ok_def)
  have refl: "price_before sd p p" for p by (simp add: price_before_def)
  have "sorted_wrt (\<lambda>p q. price_before sd p q) (s_prices s)" using inv by (simp add: side_inv_def)
  then have "sorted_wrt (\<lambda>xs ys. \<forall>x \<in> set xs. \<forall>y \<in> set ys. price_before sd (o_Price x) (o_Price y))
      (map (level_at s) (s_prices s))"
    by (simp add: sorted_wrt_map) (auto elim!: sorted_wrt_mono_rel [rotated] simp: price)
  then show ?thesis
    unfolding flat_def
  proof (rule sorted_wrt_concat [rotated])
    fix xs assume "xs \<in> set (map (level_at s) (s_prices s))"
    then obtain p where "xs = level_at s p" by auto
    then show "sorted_wrt (\<lambda>x y. price_before sd (o_Price x) (o_Price y)) xs"
      using price refl by (intro sorted_wrt_total) simp
  qed
qed

lemma flat_remove_head:
  assumes inv: "book_inv b" and sd: "is_side sd"
    and p: "s_prices (book_side_of b sd) = p # ps" and q: "level_of b sd p = m # q"
  shows "flat (book_side_of b sd) = m # flat (book_side_of (snd (removeAt b sd p 0)) sd)"
proof -
  let ?s = "book_side_of b sd"
  have "p \<notin> set ps" using book_invD(1) [OF inv sd] p by (simp add: side_inv_def)
  then have ps: "map (level_at (removePrice (delete_level ?s p) p)) ps = map (level_at ?s) ps"
    "map (level_at (set_level ?s p q)) ps = map (level_at ?s) ps"
    by (auto intro!: map_cong)
  show ?thesis
    using p q by (cases "q = []") (simp_all add: flat_def removeAt_def Let_def ps)
qed

section \<open>Apply runs MatchLimit on the flattened side\<close>

lemma match_makers_done:
  "Parse (o_RemainingQuantity (r_Taker r)) \<le> 0 \<Longrightarrow> match_makers ids now r ms = Inr r"
  by (cases ms) (auto simp: dec_simps)

lemma match_makers_skip:
  "(\<And>x. x \<in> set ms \<Longrightarrow> \<not> crossesPrice (r_Taker r) x) \<Longrightarrow> match_makers ids now r ms = Inr r"
  by (induction ms) (auto simp: eligibleMaker_iff)

definition loop_result :: "apply_step \<Rightarrow> match_error + match_result" where
  "loop_result st = (case st of Continue b r \<Rightarrow> Inr r | Break b r \<Rightarrow> Inr r | Return b r \<Rightarrow> Inr r
     | Fail e b \<Rightarrow> Inl e)"

lemma loop_result_simps [simp]:
  "loop_result (Continue b r) = Inr r" "loop_result (Break b r) = Inr r"
  "loop_result (Return b r) = Inr r" "loop_result (Fail e b) = Inl e"
  by (simp_all add: loop_result_def)

lemma apply_loop_done:
  "Parse (o_RemainingQuantity (r_Taker r)) \<le> 0 \<Longrightarrow> apply_loop ids now sd b r = Break b r"
  by (subst apply_loop.simps) (simp add: dec_simps)

lemma beyond_no_cross:
  assumes "is_side (o_Side t)" "side_inv b (oppositeBookSide (o_Side t)) s" "o_Side t' = o_Side t" "o_Price t' = l"
    and "s_prices s = p # ps" "\<not> within_limit (o_Side t) l p" "x \<in> set (flat s)"
  shows "\<not> crossesPrice t' x"
proof -
  have "o_Price x \<in> set (s_prices s)"
    using assms(2,7) by (auto simp: flat_def side_inv_def resting_ok_def)
  then have "price_before (oppositeBookSide (o_Side t)) p (o_Price x)"
    using assms(2,5) by (auto simp: side_inv_def price_before_def)
  then have "\<not> within_limit (o_Side t) l (o_Price x)"
    using within_limit_before [OF assms(1)] assms(6) by blast
  then show ?thesis using assms(3,4) by (simp add: crossesPrice_iff)
qed

text \<open>\<^verbatim>\<open>Apply\<close> matches with the effective price of its taker, which differs from the taker's
  own for a market sell that names no price, and reports the taker with its own price. A run
  of the loop is therefore a run of the list engine on the taker at that price.\<close>

definition at_price :: "string \<Rightarrow> match_result \<Rightarrow> match_result" where
  "at_price l r = r\<lparr>r_Taker := (r_Taker r)\<lparr>o_Price := l\<rparr>\<rparr>"

lemma at_price_fields [simp]:
  "r_Taker (at_price l r) = (r_Taker r)\<lparr>o_Price := l\<rparr>"
  "r_Makers (at_price l r) = r_Makers r" "r_Trades (at_price l r) = r_Trades r"
  by (simp_all add: at_price_def)

lemma at_price_fill: "fill_result ids now (at_price l r) m q = at_price l (fill_result ids now r m q)"
  by (simp add: at_price_def fill_result_def fill_trade_def fill_order_def Let_def)

lemma at_price_expire:
  "(at_price l r)\<lparr>r_Taker := (r_Taker r)\<lparr>o_Price := l, o_Status := s, o_UpdatedAt := u\<rparr>\<rparr> =
   at_price l (r\<lparr>r_Taker := (r_Taker r)\<lparr>o_Status := s, o_UpdatedAt := u\<rparr>\<rparr>)"
  by (simp add: at_price_def)

lemma effective_at_price: "effectiveBookTaker t = t\<lparr>o_Price := eff_price t\<rparr>"
  by (simp add: effectiveBookTaker_def)

lemma apply_loop_match_makers:
  assumes "apply_inv ids now b0 t b r" "is_side (o_Side t)"
  shows "map_sum id (at_price (eff_price t)) (loop_result (apply_loop ids now (oppositeBookSide (o_Side t)) b r)) =
    match_makers ids now (at_price (eff_price t) r) (flat (book_side_of b (oppositeBookSide (o_Side t))))"
  using assms
proof (induction ids now "oppositeBookSide (o_Side t)" b r rule: apply_loop.induct)
  case (1 ids now b r)
  define os where "os = oppositeBookSide (o_Side t)"
  define l where "l = eff_price t"
  let ?s = "book_side_of b os" and ?e = "(r_Taker r)\<lparr>o_Price := l\<rparr>"
  let ?run = "\<lambda>b r. map_sum id (at_price l) (loop_result (apply_loop ids now os b r))"
  note inv = 1(2) and sd = 1(3)
  have os: "is_side os" using sd by (simp add: os_def)
  have bi: "book_inv b" and same: "same_order t (r_Taker r)"
    using inv by (auto simp: apply_inv_def Let_def run_inv_def)
  note f = same_order_fields [OF same]
  have et: "effectiveBookTaker (r_Taker r) = ?e"
    unfolding l_def effective_same [OF same, symmetric] by (rule effective_at_price)
  show ?case
  proof (cases "0 < Parse (o_RemainingQuantity (r_Taker r))")
    case False
    then show ?thesis by (simp add: apply_loop_done match_makers_done)
  next
    case pos: True
    then have c: "Cmp (o_RemainingQuantity (r_Taker r)) ''0'' > 0" by (simp add: Cmp_greater_0 Parse_0)
    note step = apply_iter_inv [OF inv sd pos, folded os_def]
      and ih = 1(1) [OF c _ _ sd, folded os_def l_def]
    have unf: "apply_loop ids now os b r = (case apply_iter ids now os b r of
        Continue b' r' \<Rightarrow> apply_loop ids now os b' r' | Break b' r' \<Rightarrow> Break b' r'
      | Return b' r' \<Rightarrow> Return b' r' | Fail e b' \<Rightarrow> Fail e b')"
      using c by (subst apply_loop.simps) simp
    have cont: "?run b r = match_makers ids now (at_price l r') (flat (book_side_of b' os))"
      if "apply_iter ids now os b r = Continue b' r'" for b' r'
      using that step ih [OF that] unf by simp
    show ?thesis
      unfolding os_def [symmetric] l_def [symmetric]
    proof (cases "s_prices ?s")
      case Nil
      then show "?run b r = match_makers ids now (at_price l r) (flat ?s)"
        using unf by (simp add: apply_iter_def bestPrice_def Let_def flat_def)
    next
      case (Cons p ps)
      have si: "side_inv b os ?s" by (rule book_invD(1) [OF bi os])
      then have "level_at ?s p \<noteq> []" using Cons by (simp add: side_inv_def)
      then obtain m q where mq: "level_at ?s p = m # q" by (cases "level_at ?s p") auto
      define rest where "rest = flat (book_side_of (snd (removeAt b os p 0)) os)"
      have fl: "flat ?s = m # rest" unfolding rest_def by (rule flat_remove_head [OF bi os Cons mq])
      have mok: "isBookable m" "o_Side m \<noteq> o_Side (r_Taker r)"
      proof -
        have "resting_ok b os p m" using si mq by (simp add: side_inv_def)
        then show "isBookable m" "o_Side m \<noteq> o_Side (r_Taker r)"
          using resting_bookable f by (auto simp: resting_ok_def os_def)
      qed
      define qty where "qty = Min (o_RemainingQuantity (r_Taker r)) (o_RemainingQuantity m)"
      have qty: "0 < Parse qty" using pos mok by (simp add: qty_def da.val_minimum isBookable_iff)
      let ?r = "fill_result ids now r m qty"
      note iter = apply_iter_def bestPrice_def Let_def Cons mq et qty_def [symmetric] Cmp_le_0 Parse_0
      have mm: "match_makers ids now (at_price l r) (flat ?s) =
          (if \<not> eligibleMaker ?e m then
             (if isSelfTrade ?e m \<and> crossesPrice ?e m
              then Inr (at_price l (r\<lparr>r_Taker := (r_Taker r)\<lparr>o_Status := StatusExpired, o_UpdatedAt := now\<rparr>\<rparr>))
              else match_makers ids now (at_price l r) rest)
           else if Parse (Mul qty (o_Price m)) \<le> 0 then Inl QuoteBelowPrecision
           else match_makers ids now (at_price l ?r) rest)"
        using pos qty by (simp add: fl Let_def qty_def [symmetric] Cmp_le_0 Parse_0 at_price_fill at_price_expire)
      consider (quote) "eligibleMaker ?e m" "Parse (Mul qty (o_Price m)) \<le> 0"
        | (filled) "eligibleMaker ?e m" "\<not> Parse (Mul qty (o_Price m)) \<le> 0"
            "o_Status (fill_order now qty m) = StatusFilled"
        | (partial) "eligibleMaker ?e m" "\<not> Parse (Mul qty (o_Price m)) \<le> 0"
            "o_Status (fill_order now qty m) \<noteq> StatusFilled"
        | (self) "\<not> eligibleMaker ?e m" "isSelfTrade ?e m" "crossesPrice ?e m"
        | (market) "\<not> eligibleMaker ?e m" "\<not> crossesPrice ?e m" "o_Market m \<noteq> o_Market (r_Taker r)"
        | (beyond) "\<not> eligibleMaker ?e m" "\<not> crossesPrice ?e m" "o_Market m = o_Market (r_Taker r)"
        by (auto simp: eligibleMaker_iff)
      then show "?run b r = match_makers ids now (at_price l r) (flat ?s)"
      proof cases
        case quote
        then show ?thesis unfolding unf mm using qty by (simp add: iter)
      next
        case filled
        then have "apply_iter ids now os b r = Continue (snd (removeAt b os p 0)) ?r"
          using qty by (simp add: iter)
        from cont [OF this] show ?thesis using filled mm rest_def by simp
      next
        case partial
        let ?b = "put_side b os (set_level ?s p (fill_order now qty m # q))"
        have "apply_iter ids now os b r = Continue ?b ?r" using partial qty by (simp add: iter)
        from cont [OF this] have "?run b r = match_makers ids now (at_price l ?r) (flat (book_side_of ?b os))" .
        moreover have "Parse (o_RemainingQuantity (r_Taker ?r)) = 0"
          using fill_exhausts [of now "r_Taker r" m now] partial by (simp add: qty_def fill_result_def)
        ultimately show ?thesis using partial mm by (simp add: match_makers_done)
      next
        case self
        then show ?thesis unfolding unf mm by (simp add: iter)
      next
        case market
        then have "apply_iter ids now os b r = Continue (snd (removeAt b os p 0)) r" by (simp add: iter)
        from cont [OF this] show ?thesis using market mm rest_def by simp
      next
        case beyond
        then have it: "apply_iter ids now os b r = Break b r" using mok by (simp add: iter)
        then have "\<not> within_limit (o_Side t) l p" using step Cons by (simp add: l_def)
        then have "\<not> crossesPrice ?e x" if "x \<in> set (flat ?s)" for x
          using beyond_no_cross [OF sd si [unfolded os_def] _ _ Cons [unfolded os_def] _ that [unfolded os_def], of ?e l] f by simp
        then have "match_makers ids now (at_price l r) (flat ?s) = Inr (at_price l r)"
          by (intro match_makers_skip) simp
        then show ?thesis unfolding unf using it by simp
      qed
    qed
  qed
qed

section \<open>Trades take the list from the front\<close>

text \<open>On a sorted list of makers that may all trade with the taker, the makers of the trades
  are a prefix of the list.\<close>

lemma match_makers_prefix:
  assumes "match_makers ids now r ms = Inr r'" "same_order t (r_Taker r)" "is_side (o_Side t)"
    and "\<And>x. x \<in> set ms \<Longrightarrow> isBookable x \<and> o_ID x \<noteq> [] \<and> o_ID x \<noteq> o_ID t \<and> o_Market x = o_Market t \<and>
      o_Side x = oppositeBookSide (o_Side t)"
    and "sorted_wrt (\<lambda>x y. price_before (oppositeBookSide (o_Side t)) (o_Price x) (o_Price y)) ms"
  shows "\<exists>k. map t_MakerOrderID (r_Trades r') = map t_MakerOrderID (r_Trades r) @ map o_ID (take k ms)"
  using assms
proof (induction ids now r ms rule: match_makers.induct)
  case (1 ids now r)
  then show ?case by simp
next
  case (2 ids now r m ms)
  note f = same_order_fields [OF 2(5)]
  have same': "same_order t (r_Taker (fill_result ids now r m q))" for q
    using same_order_fill [OF 2(5)] by (simp add: fill_result_def)
  define qty where "qty = Min (o_RemainingQuantity (r_Taker r)) (o_RemainingQuantity m)"
  have beyond: "match_makers ids now r (m # ms) = Inr r"
    if nc: "\<not> crossesPrice (r_Taker r) m"
  proof (rule match_makers_skip)
    fix x assume x: "x \<in> set (m # ms)"
    have "\<not> within_limit (o_Side t) (o_Price t) (o_Price m)"
      using nc 2(7) [of m] 2(6) by (auto simp: crossesPrice_iff f isBookable_iff)
    moreover have "price_before (oppositeBookSide (o_Side t)) (o_Price m) (o_Price x)"
      using x 2(8) by (auto simp: price_before_def)
    ultimately have "\<not> within_limit (o_Side t) (o_Price t) (o_Price x)"
      using within_limit_before [OF 2(6)] by blast
    then show "\<not> crossesPrice (r_Taker r) x" by (simp add: crossesPrice_iff f)
  qed
  consider (none) "match_makers ids now r (m # ms) = Inr r"
    | (self) "isSelfTrade (r_Taker r) m" "crossesPrice (r_Taker r) m" "0 < Parse (o_RemainingQuantity (r_Taker r))"
    | (fill) "eligibleMaker (r_Taker r) m" "0 < Parse (o_RemainingQuantity (r_Taker r))"
    using beyond match_makers_done [of r ids now "m # ms"] by (fastforce simp: eligibleMaker_iff)
  then show ?case
  proof cases
    case none
    then show ?thesis using 2(4) by (auto intro: exI [of _ 0])
  next
    case self
    then show ?thesis using 2(4) by (auto simp: dec_simps eligibleMaker_iff intro: exI [of _ 0])
  next
    case fill
    have "0 < Parse qty" using fill 2(7) [of m] by (simp add: qty_def da.val_minimum isBookable_iff)
    then have run: "match_makers ids now (fill_result ids now r m qty) ms = Inr r'"
      and q: "\<not> Cmp qty ''0'' \<le> 0" "\<not> Cmp (Mul qty (o_Price m)) ''0'' \<le> 0"
      using 2(4) fill by (auto simp: dec_simps Let_def qty_def split: if_splits)
    have "\<exists>k. map t_MakerOrderID (r_Trades r') =
        map t_MakerOrderID (r_Trades (fill_result ids now r m qty)) @ map o_ID (take k ms)"
      using fill q run 2(6-8) same'
      by (intro 2(3) [OF _ _ qty_def]) (auto simp: dec_simps)
    then obtain k where "map t_MakerOrderID (r_Trades r') =
        map t_MakerOrderID (r_Trades (fill_result ids now r m qty)) @ map o_ID (take k ms)" by blast
    then have "map t_MakerOrderID (r_Trades r') =
        map t_MakerOrderID (r_Trades r) @ map o_ID (take (Suc k) (m # ms))"
      by (simp add: fill_result_def fill_trade_def)
    then show ?thesis by blast
  qed
qed

section \<open>Time priority\<close>

lemma queue_position_search:
  "s \<noteq> 0 \<Longrightarrow> queue_position q s = sort_search (length q) (\<lambda>i. \<not> o_SequenceID (q ! i) \<le> s)"
proof -
  have "x > s \<longleftrightarrow> x \<noteq> 0 \<and> x > s" for x :: uint64 by (metis word_not_simps(1))
  then have "(\<lambda>i. o_SequenceID (q ! i) \<noteq> 0 \<and> o_SequenceID (q ! i) > s) = (\<lambda>i. \<not> o_SequenceID (q ! i) \<le> s)"
    by (auto simp: fun_eq_iff not_le)
  then show "s \<noteq> 0 \<Longrightarrow> ?thesis" by (simp add: queue_position_def)
qed

lemma queue_insert_sorted:
  assumes "sorted_wrt seq_before q" "o_SequenceID x \<noteq> 0"
  shows "sorted_wrt seq_before (insert_at (queue_position q (o_SequenceID x)) x q)"
  using level_queue.insert_sorted [OF assms(1), of x] queue_position_search [OF assms(2), of q]
  by (simp add: seq_before_def)

lemma level_insertResting:
  assumes "insertResting b x = Inr b'" "normalizeOrder b x = x" "is_side sd"
  shows "level_of b' sd p = (if sd = o_Side x \<and> p = o_Price x
    then insert_at (queue_position (level_of b sd p) (o_SequenceID x)) x (level_of b sd p)
    else level_of b sd p)"
proof -
  have "is_side (o_Side x)" using assms by (auto simp: insertResting_Inr validateResting_ok Let_def)
  then show ?thesis
    using assms by (auto simp: insertResting_Inr Let_def side_of_put level_insert_level)
qed

lemma time_inv_insert:
  assumes "time_inv b" "insertResting b x0 = Inr b'" "o_SequenceID x0 \<noteq> 0"
  shows "time_inv b'"
proof -
  let ?x = "normalizeOrder b x0"
  have ins: "insertResting b ?x = Inr b'" using assms(2) by (simp add: insertResting_def Let_def)
  show ?thesis
    unfolding time_inv_def
  proof (intro allI impI)
    fix sd p assume sd: "is_side sd"
    then have "sorted_wrt seq_before (level_of b sd p)" "\<forall>x \<in> set (level_of b sd p). o_SequenceID x \<noteq> 0"
      using assms(1) by (auto simp: time_inv_def)
    then show "sorted_wrt seq_before (level_of b' sd p) \<and> (\<forall>x \<in> set (level_of b' sd p). o_SequenceID x \<noteq> 0)"
      using queue_insert_sorted [of "level_of b sd p" ?x] assms(3)
      unfolding level_insertResting [OF ins normalizeOrder_idem sd] by auto
  qed
qed

lemma time_inv_removeAt:
  assumes "time_inv b" "is_side sd" shows "time_inv (snd (removeAt b sd p i))"
  unfolding time_inv_def
proof (intro allI impI)
  fix sd' p' assume "is_side sd'"
  then show "sorted_wrt seq_before (level_of (snd (removeAt b sd p i)) sd' p') \<and>
      (\<forall>x \<in> set (level_of (snd (removeAt b sd p i)) sd' p'). o_SequenceID x \<noteq> 0)"
    using assms level_queue.sorted_remove set_remove_at_subset [of i "level_of b sd p"]
    unfolding time_inv_def level_removeAt [OF assms(2) \<open>is_side sd'\<close>] by auto
qed

lemma time_inv_levels:
  assumes "time_inv b" "\<And>sd p. is_side sd \<Longrightarrow> map o_SequenceID (level_of b' sd p) = map o_SequenceID (level_of b sd p)"
  shows "time_inv b'"
proof -
  have seqs: "sorted_wrt seq_before xs \<and> (\<forall>x \<in> set xs. o_SequenceID x \<noteq> 0) \<longleftrightarrow>
      sorted_wrt (\<le>) (map o_SequenceID xs) \<and> 0 \<notin> set (map o_SequenceID xs)" for xs
    by (auto simp: sorted_wrt_map seq_before_def [abs_def])
  show ?thesis
    using assms unfolding time_inv_def seqs by metis
qed

definition step_book :: "apply_step \<Rightarrow> market_book" where
  "step_book st = (case st of Continue b r \<Rightarrow> b | Break b r \<Rightarrow> b | Return b r \<Rightarrow> b | Fail e b \<Rightarrow> b)"

definition step_taker_seq :: "apply_step \<Rightarrow> uint64 \<Rightarrow> bool" where
  "step_taker_seq st s = (case st of Continue b r \<Rightarrow> o_SequenceID (r_Taker r) = s
     | Break b r \<Rightarrow> o_SequenceID (r_Taker r) = s | Return b r \<Rightarrow> True | Fail e b \<Rightarrow> True)"

lemma time_inv_apply_iter:
  assumes "time_inv b" "is_side sd"
  shows "time_inv (step_book (apply_iter ids now sd b r)) \<and>
    step_taker_seq (apply_iter ids now sd b r) (o_SequenceID (r_Taker r))"
proof (cases "bestPrice (book_side_of b sd)")
  case None
  then show ?thesis using assms by (simp add: apply_iter_def Let_def step_book_def step_taker_seq_def del: bestPrice_None)
next
  case (Some p)
  have "time_inv (put_side b sd (removePrice (book_side_of b sd) p))"
    using assms by (intro time_inv_levels [OF assms(1)]) (auto simp: side_of_put)
  moreover have "time_inv (put_side b sd (set_level (book_side_of b sd) p (fill_order now qty m # q)))"
    if "level_of b sd p = m # q" for m q qty
    using that assms by (intro time_inv_levels [OF assms(1)]) (auto simp: side_of_put)
  ultimately show ?thesis
    using assms Some time_inv_removeAt [OF assms]
    by (auto simp: apply_iter_def Let_def step_book_def step_taker_seq_def fill_result_def simp del: bestPrice_Some
        split: list.splits)
qed

lemma time_inv_apply_loop:
  assumes "time_inv b" "is_side sd"
  shows "time_inv (step_book (apply_loop ids now sd b r)) \<and>
    step_taker_seq (apply_loop ids now sd b r) (o_SequenceID (r_Taker r))"
  using assms
proof (induction ids now sd b r rule: apply_loop.induct)
  case (1 ids now sd b r)
  show ?case
    using time_inv_apply_iter [OF 1(2,3), of ids now r] 1
    by (subst (1 2) apply_loop.simps)
      (auto simp: step_book_def step_taker_seq_def split: apply_step.splits)
qed

lemma Apply_time_inv:
  assumes "time_inv b" "o_SequenceID t \<noteq> 0"
  shows "time_inv (snd (Apply b t f now))"
proof (cases f)
  case None
  then show ?thesis using assms by (simp add: Apply_def)
next
  case (Some ids)
  show ?thesis
  proof (cases "admissible b t")
    case False
    then show ?thesis using Apply_rejected [OF False, of ids now] assms Some by auto
  next
    case True
    have fin: "time_inv (snd (apply_finish now b' r'))"
      if "time_inv b'" "o_SequenceID (r_Taker r') = o_SequenceID t" for b' r'
      using that assms(2) time_inv_insert [OF that(1)]
      by (auto simp: apply_finish_def Let_def split: sum.splits)
    have os: "is_side (oppositeBookSide (o_Side t))" using admissible_side(1) [OF True] by simp
    show ?thesis
      using time_inv_apply_loop [OF assms(1) os, of ids now
          "\<lparr>r_Taker = entry_taker b t, r_Makers = [], r_Trades = []\<rparr>"] fin Some
      unfolding Some Apply_admissible [OF True]
      by (auto simp: Let_def step_book_def step_taker_seq_def split: apply_step.splits)
  qed
qed

end
