(* ===== verification/BookSnapshot.thy ===== *)
theory BookSnapshot
  imports BookPriority
begin

text \<open>
  \<^verbatim>\<open>internal/core/matching/snapshot.go\<close>: capturing the state of a book, sealing it with a
  checksum, restoring it, and the guard on the retention of the event log.

  The checksum is SHA-256 over the JSON text; \<open>digest\<close> stands for that composition, \<^const>\<open>None\<close>
  when the encoder fails, and \<open>enc\<close> and \<open>dec\<close> for the JSON encoder and decoder. Durations
  wrap at 64 bits where the code multiplies them, and the difference of two times saturates.
\<close>

record book_state_snapshot =
  sn_SchemaVersion :: int
  sn_Market :: string
  sn_BaseAsset :: string
  sn_QuoteAsset :: string
  sn_LastAppliedSequence :: uint64
  sn_CreatedAt :: time
  sn_ActiveOrders :: "order list"
  sn_Checksum :: string

datatype snapshot_error =
    UnsupportedSchema int | MarketRequired | ChecksumRequired | ChecksumMismatch
  | EncodingFailed | DecodingFailed | LoadFailed match_error
  | EventLogAhead | SnapshotTooOld | RetentionBelowThreeTimes | SnapshotNearRetention

definition BookStateSnapshotVersion :: int where
  "BookStateSnapshotVersion = 1"

section \<open>Sealing and validating\<close>

definition computeChecksum :: "(book_state_snapshot \<Rightarrow> string option) \<Rightarrow> book_state_snapshot \<Rightarrow> snapshot_error + string" where
  "computeChecksum digest s =
     (case digest (s\<lparr>sn_Checksum := []\<rparr>) of None \<Rightarrow> Inl EncodingFailed | Some c \<Rightarrow> Inr c)"

definition Seal :: "(book_state_snapshot \<Rightarrow> string option) \<Rightarrow> book_state_snapshot \<Rightarrow> snapshot_error + book_state_snapshot" where
  "Seal digest s =
     (case computeChecksum digest s of Inl e \<Rightarrow> Inl e | Inr c \<Rightarrow> Inr (s\<lparr>sn_Checksum := c\<rparr>))"

definition Snapshot_Validate :: "(book_state_snapshot \<Rightarrow> string option) \<Rightarrow> book_state_snapshot \<Rightarrow> snapshot_error + unit" where
  "Snapshot_Validate digest s =
     (if sn_SchemaVersion s \<noteq> BookStateSnapshotVersion then Inl (UnsupportedSchema (sn_SchemaVersion s))
      else if sn_Market s = [] then Inl MarketRequired
      else if sn_Checksum s = [] then Inl ChecksumRequired
      else (case computeChecksum digest s of
              Inl e \<Rightarrow> Inl e
            | Inr expected \<Rightarrow> if sn_Checksum s \<noteq> expected then Inl ChecksumMismatch else Inr ()))"

definition CaptureState :: "(book_state_snapshot \<Rightarrow> string option) \<Rightarrow> market_book \<Rightarrow> uint64 \<Rightarrow> time \<Rightarrow> book_state_snapshot" where
  "CaptureState digest b lastAppliedSequence now =
     (let items = concat (map (level_at (mb_bids b)) (s_prices (mb_bids b))) @
                  concat (map (level_at (mb_asks b)) (s_prices (mb_asks b)));
          s = \<lparr>sn_SchemaVersion = BookStateSnapshotVersion, sn_Market = mb_Market b,
               sn_BaseAsset = mb_BaseAsset b, sn_QuoteAsset = mb_QuoteAsset b,
               sn_LastAppliedSequence = lastAppliedSequence, sn_CreatedAt = now,
               sn_ActiveOrders = items, sn_Checksum = []\<rparr>
      in case Seal digest s of Inl _ \<Rightarrow> s | Inr sealed \<Rightarrow> sealed)"

definition RestoreMarketBook :: "(book_state_snapshot \<Rightarrow> string option) \<Rightarrow> book_state_snapshot \<Rightarrow> snapshot_error + market_book" where
  "RestoreMarketBook digest s =
     (case Snapshot_Validate digest s of
        Inl e \<Rightarrow> Inl e
      | Inr _ \<Rightarrow>
          (case Load (NewMarketBook (sn_Market s) (sn_BaseAsset s) (sn_QuoteAsset s)) (sn_ActiveOrders s) of
             (Inl e, _) \<Rightarrow> Inl (LoadFailed e)
           | (Inr _, book) \<Rightarrow> Inr book))"

definition EncodeBookStateSnapshot ::
  "(book_state_snapshot \<Rightarrow> string option) \<Rightarrow> (book_state_snapshot \<Rightarrow> 'bytes option) \<Rightarrow>
   book_state_snapshot \<Rightarrow> snapshot_error + 'bytes" where
  "EncodeBookStateSnapshot digest enc s =
     (case (if sn_Checksum s = [] then Seal digest s else Inr s) of
        Inl e \<Rightarrow> Inl e
      | Inr s' \<Rightarrow>
          (case Snapshot_Validate digest s' of
             Inl e \<Rightarrow> Inl e
           | Inr _ \<Rightarrow> (case enc s' of None \<Rightarrow> Inl EncodingFailed | Some bytes \<Rightarrow> Inr bytes)))"

definition DecodeBookStateSnapshot ::
  "(book_state_snapshot \<Rightarrow> string option) \<Rightarrow> ('bytes \<Rightarrow> book_state_snapshot option) \<Rightarrow>
   'bytes \<Rightarrow> snapshot_error + book_state_snapshot" where
  "DecodeBookStateSnapshot digest dec payload =
     (case dec payload of
        None \<Rightarrow> Inl DecodingFailed
      | Some s \<Rightarrow>
          (case Snapshot_Validate digest s of Inl e \<Rightarrow> Inl e | Inr _ \<Rightarrow> Inr s))"

section \<open>Retention\<close>

record retention_guard =
  g_LatestSnapshotSequence :: uint64
  g_OldestRetainedSequence :: uint64
  g_SnapshotCreatedAt :: time
  g_Now :: time
  g_EventRetention :: duration
  g_MaxSnapshotAge :: duration

definition wrap_duration :: "int \<Rightarrow> duration" where
  "wrap_duration d = (d + 2 ^ 63) mod 2 ^ 64 - 2 ^ 63"

definition time_Sub :: "time \<Rightarrow> time \<Rightarrow> duration" where
  "time_Sub t u = max (- (2 ^ 63)) (min (2 ^ 63 - 1) (t - u))"

definition CheckSnapshotRetention :: "time \<Rightarrow> retention_guard \<Rightarrow> snapshot_error + unit" where
  "CheckSnapshotRetention clock g =
     (let now = (if g_Now g = 0 then clock else g_Now g);
          age = time_Sub now (g_SnapshotCreatedAt g)
      in if g_OldestRetainedSequence g > g_LatestSnapshotSequence g + 1 then Inl EventLogAhead
         else if g_MaxSnapshotAge g > 0 \<and> (g_SnapshotCreatedAt g = 0 \<or> age > g_MaxSnapshotAge g)
           then Inl SnapshotTooOld
         else if g_EventRetention g > 0 \<and> g_MaxSnapshotAge g > 0 \<and>
                 g_EventRetention g < wrap_duration (g_MaxSnapshotAge g * 3)
           then Inl RetentionBelowThreeTimes
         else if g_EventRetention g > 0 \<and> g_SnapshotCreatedAt g \<noteq> 0 \<and> age > g_EventRetention g div 3
           then Inl SnapshotNearRetention
         else Inr ())"

section \<open>Loading a captured side\<close>

definition mk_side :: "side \<Rightarrow> (string \<times> order list) list \<Rightarrow> book_side" where
  "mk_side sd L = \<lparr>s_side = sd, s_prices = map fst L, s_levels = map_of L\<rparr>"

definition order_refs :: "(string \<rightharpoonup> book_order_ref) \<Rightarrow> order list \<Rightarrow> (string \<rightharpoonup> book_order_ref)" where
  "order_refs m xs = foldl (\<lambda>m x. m(o_ID x \<mapsto> \<lparr>ref_side = o_Side x, ref_price = o_Price x\<rparr>)) m xs"

lemma order_refs_append: "order_refs m (xs @ ys) = order_refs (order_refs m xs) ys"
  by (simp add: order_refs_def)

lemma order_refs_simps [simp]:
  "order_refs m [] = m"
  "order_refs m (xs @ [x]) = (order_refs m xs)(o_ID x \<mapsto> \<lparr>ref_side = o_Side x, ref_price = o_Price x\<rparr>)"
  by (simp_all add: order_refs_def)

lemma order_refs_notin: "oid \<notin> o_ID ` set xs \<Longrightarrow> order_refs m xs oid = m oid"
  by (induction xs rule: rev_induct) auto

lemma order_refs_in:
  "distinct (map o_ID xs) \<Longrightarrow> x \<in> set xs \<Longrightarrow>
   order_refs m xs (o_ID x) = Some \<lparr>ref_side = o_Side x, ref_price = o_Price x\<rparr>"
  by (induction xs rule: rev_induct) (auto, (metis image_eqI)+)

lemma mk_side_levels:
  assumes "side_inv b sd s"
  shows "s = mk_side sd (map (\<lambda>p. (p, level_at s p)) (s_prices s))"
proof -
  have "s_levels s p = map_of (map (\<lambda>p. (p, level_at s p)) (s_prices s)) p" for p
  proof (cases "p \<in> set (s_prices s)")
    case True
    then have "s_levels s p \<noteq> None" using assms unfolding side_inv_def by blast
    then show ?thesis using True by (auto simp: map_of_map_restrict level_at_def)
  next
    case False
    then have "s_levels s p = None" using assms unfolding side_inv_def by (metis domIff)
    then show ?thesis using False by (simp add: map_of_map_restrict)
  qed
  then show ?thesis using assms by (cases s) (simp add: mk_side_def side_inv_def fun_eq_iff o_def)
qed

lemma sort_search_none: "(\<And>i. i < n \<Longrightarrow> \<not> f i) \<Longrightarrow> sort_search n f = n"
proof (rule ccontr)
  assume none: "\<And>i. i < n \<Longrightarrow> \<not> f i" and "sort_search n f \<noteq> n"
  then have "sort_search n f < n" using sort_search_le [of n f] by simp
  moreover have "f (sort_search n f)"
    by (rule sort_search_border(2) [of n]) (use none calculation in auto)
  ultimately show False using none by auto
qed

lemma insert_level_last:
  assumes "p = o_Price x" "p \<notin> fst ` set L" "o_SequenceID x \<noteq> 0" "\<And>y. y \<in> set q \<Longrightarrow> seq_before y x"
  shows "insert_level (mk_side sd (L @ [(p, q)])) x = mk_side sd (L @ [(p, q @ [x])])"
proof -
  have "queue_position q (o_SequenceID x) = length q"
    unfolding queue_position_search [OF assms(3)]
    by (rule sort_search_none) (use assms(4) in \<open>auto simp: seq_before_def\<close>)
  moreover have "map_of L p = None" using assms(2) by (simp add: map_of_eq_None_iff)
  ultimately show ?thesis
    using assms(1)
    by (auto simp: insert_level_def mk_side_def Let_def level_at_def set_level_def insert_at_def
        map_add_def fun_eq_iff split: option.splits)
qed

lemma insert_level_new:
  assumes "is_side sd" "p = o_Price x" "p \<notin> fst ` set L" "\<And>p'. p' \<in> fst ` set L \<Longrightarrow> price_before sd p' p"
  shows "insert_level (mk_side sd L) x = mk_side sd (L @ [(p, [x])])"
proof -
  have none: "map_of L p = None" using assms(3) by (simp add: map_of_eq_None_iff)
  have "sort_search (length (map fst L)) (\<lambda>i. let cmp = Cmp (map fst L ! i) p in
      if sd = SideBuy then cmp < 0 else cmp > 0) = length (map fst L)"
  proof (rule sort_search_none)
    fix i assume "i < length (map fst L)"
    then have "price_before sd (map fst L ! i) p" using assms(4) by (metis list.set_map nth_mem)
    then show "\<not> (let cmp = Cmp (map fst L ! i) p in if sd = SideBuy then cmp < 0 else cmp > 0)"
      by (auto simp: price_before_def dec_simps Let_def)
  qed
  then have "s_prices (insertPrice (mk_side sd L) p) = map fst L @ [p]"
    by (simp add: insertPrice_def mk_side_def insert_at_def Let_def)
  moreover have "queue_position [] s = 0" for s
    using sort_search_le [of 0] by (simp add: queue_position_def)
  ultimately show ?thesis
    using assms(2) none
    by (auto simp: insert_level_def mk_side_def Let_def level_at_def set_level_def insert_at_def
        insertPrice_def map_add_def fun_eq_iff split: option.splits)
qed

lemma put_side_twice [simp]: "put_side (put_side b sd s) sd s' = put_side b sd s'"
  by (simp add: put_side_def)

lemma put_side_orders: "put_side (b\<lparr>mb_orders := m\<rparr>) sd s = (put_side b sd s)\<lparr>mb_orders := m\<rparr>"
  by (simp add: put_side_def)

lemma put_side_self [simp]: "put_side b sd (book_side_of b sd) = b"
  by (simp add: put_side_def book_side_of_def)

lemma Load_append:
  "Load b (xs @ ys) = (case Load b xs of (Inl e, b') \<Rightarrow> (Inl e, b') | (Inr _, b') \<Rightarrow> Load b' ys)"
  by (induction b xs rule: Load.induct) (auto simp: Let_def split: sum.splits)

lemma Load_one:
  assumes "resting_ok b sd p x" "is_side sd" "mb_orders b (o_ID x) = None"
  shows "Load b [x] = (Inr (), (put_side b sd (insert_level (book_side_of b sd) x))
    \<lparr>mb_orders := order_refs (mb_orders b) [x]\<rparr>)"
proof -
  have x: "normalizeOrder b x = x" "isBookable x" "validateResting b x = Inr ()" "o_Side x = sd"
    using assms(1) resting_bookable [OF assms(1)] by (auto simp: resting_ok_def)
  then have "insertResting b x = Inr ((put_side b sd (insert_level (book_side_of b sd) x))
      \<lparr>mb_orders := order_refs (mb_orders b) [x]\<rparr>)"
    using assms(3) by (simp add: insertResting_Inr Let_def order_refs_def)
  then show ?thesis using x by simp
qed

text \<open>A queue loads behind the levels that are already there, in its order.\<close>

lemma Load_queue:
  assumes "book_side_of b sd = mk_side sd L" "is_side sd" "p \<notin> fst ` set L"
    and "\<And>p'. p' \<in> fst ` set L \<Longrightarrow> price_before sd p' p"
    and "\<And>x. x \<in> set q \<Longrightarrow> resting_ok b sd p x \<and> o_SequenceID x \<noteq> 0 \<and> mb_orders b (o_ID x) = None"
    and "sorted_wrt seq_before q" "distinct (map o_ID q)" "q \<noteq> []"
  shows "Load b q = (Inr (), (put_side b sd (mk_side sd (L @ [(p, q)])))
    \<lparr>mb_orders := order_refs (mb_orders b) q\<rparr>)"
  using assms(5-8)
proof (induction q rule: rev_induct)
  case Nil
  then show ?case by simp
next
  case (snoc x q)
  have x: "resting_ok b sd p x" "o_SequenceID x \<noteq> 0" "mb_orders b (o_ID x) = None" "p = o_Price x"
    using snoc.prems(1) [of x] by (auto simp: resting_ok_def)
  show ?case
  proof (cases "q = []")
    case True
    then show ?thesis
      using Load_one [OF x(1) assms(2) x(3)] insert_level_new [OF assms(2) x(4) assms(3,4)] assms(1)
      by simp
  next
    case False
    let ?c = "(put_side b sd (mk_side sd (L @ [(p, q)])))\<lparr>mb_orders := order_refs (mb_orders b) q\<rparr>"
    have q: "Load b q = (Inr (), ?c)" using snoc False by (simp add: sorted_wrt_append)
    have "mb_orders ?c (o_ID x) = None"
      using snoc.prems(3) x(3) by (simp add: order_refs_notin)
    then have "Load ?c [x] = (Inr (), (put_side ?c sd (insert_level (book_side_of ?c sd) x))
        \<lparr>mb_orders := order_refs (mb_orders ?c) [x]\<rparr>)"
      using x assms(2) by (intro Load_one) auto
    moreover have "insert_level (book_side_of ?c sd) x = mk_side sd (L @ [(p, q @ [x])])"
      using insert_level_last [OF x(4) assms(3) x(2), of q] snoc.prems(2)
      by (simp add: sorted_wrt_append)
    ultimately show ?thesis
      using q by (simp add: Load_append put_side_orders order_refs_append)
  qed
qed

lemma Load_levels:
  assumes "book_side_of b sd = mk_side sd []" "is_side sd"
    and "sorted_wrt (price_before sd) (map fst L)" "distinct (map fst L)"
    and "\<And>p q x. (p, q) \<in> set L \<Longrightarrow> x \<in> set q \<Longrightarrow> resting_ok b sd p x \<and> o_SequenceID x \<noteq> 0 \<and> mb_orders b (o_ID x) = None"
    and "\<And>p q. (p, q) \<in> set L \<Longrightarrow> sorted_wrt seq_before q \<and> q \<noteq> []"
    and "distinct (map o_ID (concat (map snd L)))"
  shows "Load b (concat (map snd L)) = (Inr (), (put_side b sd (mk_side sd L))
    \<lparr>mb_orders := order_refs (mb_orders b) (concat (map snd L))\<rparr>)"
  using assms(3-7)
proof (induction L rule: rev_induct)
  case Nil
  have "put_side b sd (mk_side sd []) = b" using put_side_self [of b sd] assms(1) by simp
  then show ?case by simp
next
  case (snoc pq L)
  obtain p q where pq: "pq = (p, q)" by fastforce
  let ?c = "(put_side b sd (mk_side sd L))\<lparr>mb_orders := order_refs (mb_orders b) (concat (map snd L))\<rparr>"
  have l: "Load b (concat (map snd L)) = (Inr (), ?c)"
  proof (rule snoc.IH)
    show "sorted_wrt (price_before sd) (map fst L)" "distinct (map fst L)"
      "distinct (map o_ID (concat (map snd L)))"
      using snoc.prems(1,2,5) by (auto simp: sorted_wrt_append)
    show "resting_ok b sd p x \<and> o_SequenceID x \<noteq> 0 \<and> mb_orders b (o_ID x) = None"
      if "(p, q) \<in> set L" "x \<in> set q" for p q x
      using snoc.prems(3) [of p q x] that by simp
    show "sorted_wrt seq_before q \<and> q \<noteq> []" if "(p, q) \<in> set L" for p q
      using snoc.prems(4) [of p q] that by simp
  qed
  have free: "mb_orders ?c (o_ID x) = None" if "x \<in> set q" for x
  proof -
    have "o_ID x \<notin> o_ID ` set (concat (map snd L))" using snoc.prems(5) that pq by auto
    then show ?thesis using snoc.prems(3) [of p q x] that pq by (simp add: order_refs_notin)
  qed
  have "Load ?c q = (Inr (), (put_side ?c sd (mk_side sd (L @ [(p, q)])))
      \<lparr>mb_orders := order_refs (mb_orders ?c) q\<rparr>)"
  proof (rule Load_queue)
    show "p \<notin> fst ` set L" using snoc.prems(2) pq by auto
    show "price_before sd p' p" if "p' \<in> fst ` set L" for p'
      using snoc.prems(1) that pq by (auto simp: sorted_wrt_append)
    show "resting_ok ?c sd p x \<and> o_SequenceID x \<noteq> 0 \<and> mb_orders ?c (o_ID x) = None" if "x \<in> set q" for x
      using snoc.prems(3) [of p q x] that pq free [OF that] by simp
    show "sorted_wrt seq_before q" "q \<noteq> []" using snoc.prems(4) [of p q] pq by auto
    show "distinct (map o_ID q)" using snoc.prems(5) pq by simp
  qed (use assms(2) in auto)
  then show ?case
    using l pq by (simp add: Load_append put_side_orders order_refs_append)
qed

section \<open>Restoring what was captured\<close>

lemma flat_mk: "concat (map snd (map (\<lambda>p. (p, level_at s p)) (s_prices s))) = flat s"
  by (simp add: flat_def o_def)

lemma flat_ids_distinct:
  assumes inv: "book_inv b" and sd: "is_side sd"
  shows "distinct (map o_ID (flat (book_side_of b sd)))"
proof -
  let ?s = "book_side_of b sd"
  have "distinct (map o_ID (concat (map (level_at ?s) ps)))" if "distinct ps" for ps
    using that
  proof (induction ps)
    case Nil
    then show ?case by simp
  next
    case (Cons p ps)
    have "o_ID x \<noteq> o_ID y" if "x \<in> set (level_at ?s p)" "y \<in> set (level_at ?s p')" "p' \<in> set ps" for x y p'
      using book_invD(3) [OF inv sd that(1)] book_invD(3) [OF inv sd that(2)] that(3) Cons.prems by auto
    then show ?case using Cons book_invD(2) [OF inv sd, of p] by (auto simp: image_iff)
  qed
  then show ?thesis using book_invD(1) [OF inv sd] by (simp add: flat_def side_inv_def)
qed

lemma Load_side:
  assumes inv: "book_inv b" and tinv: "time_inv b" and sd: "is_side sd"
    and c: "book_side_of c sd = newBookSide sd" "mb_Market c = mb_Market b" "mb_BaseAsset c = mb_BaseAsset b"
      "mb_QuoteAsset c = mb_QuoteAsset b"
    and fresh: "\<And>x. x \<in> set (flat (book_side_of b sd)) \<Longrightarrow> mb_orders c (o_ID x) = None"
  shows "Load c (flat (book_side_of b sd)) = (Inr (), (put_side c sd (book_side_of b sd))
    \<lparr>mb_orders := order_refs (mb_orders c) (flat (book_side_of b sd))\<rparr>)"
proof -
  let ?s = "book_side_of b sd"
  let ?L = "map (\<lambda>p. (p, level_at ?s p)) (s_prices ?s)"
  have si: "side_inv b sd ?s" by (rule book_invD(1) [OF inv sd])
  have fst: "map fst ?L = s_prices ?s" by (simp add: o_def)
  have "Load c (concat (map snd ?L)) = (Inr (), (put_side c sd (mk_side sd ?L))
      \<lparr>mb_orders := order_refs (mb_orders c) (concat (map snd ?L))\<rparr>)"
  proof (rule Load_levels [OF _ sd])
    show "book_side_of c sd = mk_side sd []" using c by (simp add: mk_side_def newBookSide_def)
    show "sorted_wrt (price_before sd) (map fst ?L)" "distinct (map fst ?L)"
      unfolding fst using si by (auto simp: side_inv_def)
    show "distinct (map o_ID (concat (map snd ?L)))"
      unfolding flat_mk by (rule flat_ids_distinct [OF inv sd])
    show "sorted_wrt seq_before q \<and> q \<noteq> []" if "(p, q) \<in> set ?L" for p q
      using that tinv si sd by (auto simp: time_inv_def side_inv_def)
    show "resting_ok c sd p x \<and> o_SequenceID x \<noteq> 0 \<and> mb_orders c (o_ID x) = None"
      if pq: "(p, q) \<in> set ?L" and x: "x \<in> set q" for p q x
    proof -
      have q: "q = level_at ?s p" using pq by auto
      have "x \<in> set (flat ?s)" using pq x by (auto simp: flat_def)
      moreover have "o_SequenceID x \<noteq> 0" using tinv sd x q unfolding time_inv_def by blast
      moreover have "resting_ok b sd p x" using si x q by (simp add: side_inv_def)
      ultimately show ?thesis using fresh resting_ok_cong(1) [of c b] c by simp
    qed
  qed
  then show ?thesis unfolding flat_mk mk_side_levels [OF si, symmetric] .
qed

lemma order_refs_book:
  assumes inv: "book_inv b"
  shows "order_refs Map.empty (flat (mb_bids b) @ flat (mb_asks b)) = mb_orders b"
proof
  fix oid
  let ?f = "flat (mb_bids b) @ flat (mb_asks b)"
  have flats: "set ?f = (\<Union>p. set (level_of b SideBuy p)) \<union> (\<Union>p. set (level_of b SideSell p))"
    using set_flat [OF book_invD(1) [OF inv, of SideBuy]] set_flat [OF book_invD(1) [OF inv, of SideSell]]
    by simp
  have mem: "\<exists>sd p. is_side sd \<and> x \<in> set (level_of b sd p)" if "x \<in> set ?f" for x
    using that unfolding flats by blast
  have ref: "mb_orders b (o_ID x) = Some \<lparr>ref_side = o_Side x, ref_price = o_Price x\<rparr>" if xf: "x \<in> set ?f" for x
  proof -
    obtain sd p where sd: "is_side sd" "x \<in> set (level_of b sd p)" using mem [OF xf] by blast
    then have "resting_ok b sd p x" using book_invD(1) [OF inv sd(1)] by (simp add: side_inv_def)
    then show ?thesis using book_invD(3) [OF inv sd] by (simp add: resting_ok_def)
  qed
  have dist: "distinct (map o_ID ?f)"
  proof -
    have "o_ID x \<noteq> o_ID y" if "x \<in> set (flat (mb_bids b))" "y \<in> set (flat (mb_asks b))" for x y
    proof -
      have "o_Side x = SideBuy" "o_Side y = SideSell"
        using flat_resting [OF book_invD(1) [OF inv, of SideBuy], of x]
          flat_resting [OF book_invD(1) [OF inv, of SideSell], of y] that
        by (auto simp: resting_ok_def)
      then show ?thesis using ref [of x] ref [of y] that by auto
    qed
    then show ?thesis
      using flat_ids_distinct [OF inv, of SideBuy] flat_ids_distinct [OF inv, of SideSell]
      by (auto simp: image_iff)
  qed
  show "order_refs Map.empty ?f oid = mb_orders b oid"
  proof (cases "\<exists>x \<in> set ?f. o_ID x = oid")
    case True
    then obtain x where "x \<in> set ?f" "o_ID x = oid" by blast
    then show ?thesis using ref order_refs_in [OF dist, of x Map.empty] by auto
  next
    case False
    have "mb_orders b oid = None"
    proof (rule ccontr)
      assume "mb_orders b oid \<noteq> None"
      then obtain r where r: "mb_orders b oid = Some r" by blast
      obtain x where "x \<in> set (level_of b (ref_side r) (ref_price r))" "o_ID x = oid"
        using book_inv_index(2) [OF inv r] by blast
      then have "x \<in> set ?f"
        using book_inv_index(1) [OF inv r] unfolding flats by auto
      then show False using False \<open>o_ID x = oid\<close> by blast
    qed
    moreover have "oid \<notin> o_ID ` set ?f" using False by blast
    ultimately show ?thesis by (simp add: order_refs_notin)
  qed
qed

lemma Load_captured:
  assumes inv: "book_inv b" and tinv: "time_inv b"
  shows "Load (NewMarketBook (mb_Market b) (mb_BaseAsset b) (mb_QuoteAsset b))
    (flat (mb_bids b) @ flat (mb_asks b)) = (Inr (), b)"
proof -
  let ?n = "NewMarketBook (mb_Market b) (mb_BaseAsset b) (mb_QuoteAsset b)"
  let ?c = "(put_side ?n SideBuy (mb_bids b))\<lparr>mb_orders := order_refs Map.empty (flat (mb_bids b))\<rparr>"
  have bids: "Load ?n (flat (mb_bids b)) = (Inr (), ?c)"
    using Load_side [OF inv tinv, of SideBuy ?n] by (simp add: NewMarketBook_def)
  have "o_ID y \<notin> o_ID ` set (flat (mb_bids b))" if y: "y \<in> set (flat (mb_asks b))" for y
  proof
    assume "o_ID y \<in> o_ID ` set (flat (mb_bids b))"
    then obtain x where x: "x \<in> set (flat (mb_bids b))" "o_ID x = o_ID y" by auto
    obtain p q where "x \<in> set (level_of b SideBuy p)" "y \<in> set (level_of b SideSell q)"
      using x(1) y set_flat [OF book_invD(1) [OF inv, of SideBuy]] set_flat [OF book_invD(1) [OF inv, of SideSell]]
      by fastforce
    then show False using book_invD(3) [OF inv, of SideBuy x p] book_invD(3) [OF inv, of SideSell y q] x(2) by simp
  qed
  then have "Load ?c (flat (mb_asks b)) = (Inr (), (put_side ?c SideSell (mb_asks b))
      \<lparr>mb_orders := order_refs (mb_orders ?c) (flat (mb_asks b))\<rparr>)"
    using Load_side [OF inv tinv, of SideSell ?c]
    by (simp add: NewMarketBook_def put_side_def order_refs_notin)
  moreover have "(put_side ?c SideSell (mb_asks b))\<lparr>mb_orders := order_refs (mb_orders ?c) (flat (mb_asks b))\<rparr> = b"
    using order_refs_book [OF inv] by (cases b) (simp add: put_side_def NewMarketBook_def order_refs_append)
  ultimately show ?thesis using bids by (simp add: Load_append)
qed

end
