(* ===== verification/BookProps.thy ===== *)
theory BookProps
  imports BookSnapshot
begin

text \<open>
  The properties of the order book, stated for the books that its operations can reach, and
  the concrete books on which the properties are instantiated.
\<close>

section \<open>A client snapshot lists the best levels\<close>

lemma level_totals_bookable:
  assumes "level_totals q (a, n, f, u) = (qty, k, f', u')"
    and "\<And>x. x \<in> set q \<Longrightarrow> isBookable x \<and> order_ok x" "amount a"
  shows "amount qty \<and> k = n + int (length q) \<and>
    Parse qty = Parse a + sum_list (map (\<lambda>x. Parse (o_RemainingQuantity x)) q)"
  using assms
proof (induction q arbitrary: a n f u)
  case Nil
  then show ?case by simp
next
  case (Cons x q)
  have x: "isBookable x" "amount (o_RemainingQuantity x)" using Cons.prems(2) [of x] by (auto simp: order_ok_def)
  have v: "Parse (Add a (o_RemainingQuantity x)) = Parse a + Parse (o_RemainingQuantity x)"
    using Cons.prems(3) x by (simp add: da.val_add)
  obtain f1 u1 where "level_totals q (Add a (o_RemainingQuantity x), n + 1, f1, u1) = (qty, k, f', u')"
    using Cons.prems(1) x(1) by simp
  from Cons.IH [OF this] show ?case using Cons.prems(2) v by simp
qed

definition level_entry :: "market_book \<Rightarrow> book_side \<Rightarrow> string \<Rightarrow> price_level" where
  "level_entry b s price =
     (let (quantity, n, first, lastUpdated) = level_totals (level_at s price) (''0'', 0, 0, 0) in
      \<lparr>pl_Market = mb_Market b, pl_Side = s_side s, pl_Price = price, pl_Quantity = quantity,
       pl_OrderCount = n, pl_FirstSequenceID = first, pl_LastUpdatedAt = lastUpdated\<rparr>)"

lemma level_entry_props:
  assumes inv: "side_inv b sd s" and p: "p \<in> set (s_prices s)"
  shows "pl_OrderCount (level_entry b s p) = int (length (level_at s p))"
    and "Parse (pl_Quantity (level_entry b s p)) =
      sum_list (map (\<lambda>x. Parse (o_RemainingQuantity x)) (level_at s p))"
    and "0 < Parse (pl_Quantity (level_entry b s p))" and "pl_Price (level_entry b s p) = p"
    and "pl_Side (level_entry b s p) = sd"
proof -
  have q: "isBookable x \<and> order_ok x" if "x \<in> set (level_at s p)" for x
  proof -
    have "resting_ok b sd p x" using inv that by (simp add: side_inv_def)
    then show ?thesis using resting_bookable by (auto simp: resting_ok_def)
  qed
  obtain quantity n first upd where tot: "level_totals (level_at s p) (''0'', 0, 0, 0) = (quantity, n, first, upd)"
    by (metis prod_cases4)
  note t = level_totals_bookable [OF tot q amount_0]
  show "pl_OrderCount (level_entry b s p) = int (length (level_at s p))"
    and sum: "Parse (pl_Quantity (level_entry b s p)) =
      sum_list (map (\<lambda>x. Parse (o_RemainingQuantity x)) (level_at s p))"
    using t by (auto simp: level_entry_def tot Parse_0)
  obtain x xs where x: "level_at s p = x # xs" using inv p by (cases "level_at s p") (auto simp: side_inv_def)
  have "0 \<le> sum_list (map (\<lambda>x. Parse (o_RemainingQuantity x)) xs)"
    using q x by (intro sum_list_nonneg) (auto simp: order_ok_def)
  then show "0 < Parse (pl_Quantity (level_entry b s p))"
    using q [of x] x by (simp add: sum isBookable_iff)
  show "pl_Price (level_entry b s p) = p" "pl_Side (level_entry b s p) = sd"
    using inv by (auto simp: level_entry_def tot side_inv_def)
qed

lemma snapshot_prices_take:
  assumes inv: "side_inv b sd s" and ps: "set ps \<subseteq> set (s_prices s)"
  shows "snapshot_prices b s d ps out = out @ map (level_entry b s) (take (d - length out) ps)"
  using ps
proof (induction ps arbitrary: out)
  case Nil
  then show ?case by simp
next
  case (Cons p ps)
  have p: "p \<in> set (s_prices s)" using Cons.prems by simp
  obtain quantity n first upd where tot: "level_totals (level_at s p) (''0'', 0, 0, 0) = (quantity, n, first, upd)"
    by (metis prod_cases4)
  have "n \<noteq> 0" "\<not> Cmp quantity ''0'' \<le> 0"
    using level_entry_props(1,3) [OF inv p] inv p
    by (auto simp: level_entry_def tot dec_simps side_inv_def)
  then have step: "snapshot_prices b s d (p # ps) out =
      (if d \<le> length out then out else snapshot_prices b s d ps (out @ [level_entry b s p]))"
    by (simp add: tot level_entry_def)
  show ?case
  proof (cases "d \<le> length out")
    case True
    then show ?thesis unfolding step by simp
  next
    case False
    then obtain k where k: "d - length out = Suc k" by (metis Suc_diff_Suc not_le)
    then have "d - length (out @ [level_entry b s p]) = k" by simp
    then show ?thesis
      using False k Cons.IH [of "out @ [level_entry b s p]"] Cons.prems unfolding step by simp
  qed
qed

lemma snapshotSide_levels:
  assumes "side_inv b sd s"
  shows "snapshotSide b s depth = map (level_entry b s)
    (if depth \<le> 0 then s_prices s else take (nat depth) (s_prices s))"
  using snapshot_prices_take [OF assms, of "s_prices s" _ "[]"]
  by (auto simp: snapshotSide_def Let_def)

section \<open>The number of active orders\<close>

lemma active_orders_dom:
  assumes inv: "book_inv b"
  shows "dom (mb_orders b) = o_ID ` set (flat (mb_bids b) @ flat (mb_asks b))"
    and "distinct (map o_ID (flat (mb_bids b) @ flat (mb_asks b)))"
proof -
  note bids = set_flat [OF book_invD(1) [OF inv, of SideBuy]]
    and asks = set_flat [OF book_invD(1) [OF inv, of SideSell]]
  have flats: "set (flat (mb_bids b) @ flat (mb_asks b)) =
      (\<Union>p. set (level_of b SideBuy p)) \<union> (\<Union>p. set (level_of b SideSell p))"
    using bids asks by simp
  show "dom (mb_orders b) = o_ID ` set (flat (mb_bids b) @ flat (mb_asks b))"
  proof (intro set_eqI iffI)
    fix oid assume "oid \<in> dom (mb_orders b)"
    then obtain r where r: "mb_orders b oid = Some r" by blast
    then obtain x where "x \<in> set (level_of b (ref_side r) (ref_price r))" "o_ID x = oid"
      using book_inv_index(2) [OF inv] by blast
    then have "x \<in> set (flat (mb_bids b) @ flat (mb_asks b))"
      using book_inv_index(1) [OF inv r] unfolding flats by auto
    then show "oid \<in> o_ID ` set (flat (mb_bids b) @ flat (mb_asks b))" using \<open>o_ID x = oid\<close> by blast
  next
    fix oid assume "oid \<in> o_ID ` set (flat (mb_bids b) @ flat (mb_asks b))"
    then obtain x where x: "x \<in> set (flat (mb_bids b) @ flat (mb_asks b))" "oid = o_ID x" by blast
    then obtain sd p where "is_side sd" "x \<in> set (level_of b sd p)" unfolding flats by blast
    then show "oid \<in> dom (mb_orders b)" using book_invD(3) [OF inv] x(2) by (simp add: domIff)
  qed
  have "o_ID x \<noteq> o_ID y" if x: "x \<in> set (flat (mb_bids b))" and y: "y \<in> set (flat (mb_asks b))" for x y
  proof -
    obtain p q where "x \<in> set (level_of b SideBuy p)" "y \<in> set (level_of b SideSell q)"
      using x y bids asks by auto
    then show ?thesis using book_invD(3) [OF inv, of SideBuy x p] book_invD(3) [OF inv, of SideSell y q] by auto
  qed
  then show "distinct (map o_ID (flat (mb_bids b) @ flat (mb_asks b)))"
    using flat_ids_distinct [OF inv, of SideBuy] flat_ids_distinct [OF inv, of SideSell]
    by (auto simp: image_iff)
qed

section \<open>Concrete books\<close>

definition sample_order :: "string \<Rightarrow> side \<Rightarrow> string \<Rightarrow> string \<Rightarrow> uint64 \<Rightarrow> order" where
  "sample_order oid sd price qty sq =
     \<lparr>o_ID = oid, o_ClientOrderID = [], o_ReservationID = [], o_UserID = oid, o_Market = ''M'',
      o_BaseAsset = ''B'', o_QuoteAsset = ''Q'', o_Side = sd, o_Type = TypeLimit,
      o_Status = StatusOpen, o_TimeInForce = TimeInForceGTC, o_Price = price, o_StopPrice = [],
      o_Quantity = qty, o_FilledQuantity = ''0'', o_RemainingQuantity = qty, o_SequenceID = sq,
      o_CreatedAt = 0, o_UpdatedAt = 0\<rparr>"

definition sample_ids :: "nat \<Rightarrow> string" where
  "sample_ids k = replicate (Suc k) (CHR ''t'')"

definition sample_book :: market_book where
  "sample_book = snd (Load (NewMarketBook ''M'' ''B'' ''Q'')
     [sample_order ''a1'' SideSell ''100'' ''1'' 1, sample_order ''a2'' SideSell ''101'' ''2'' 2,
      sample_order ''b1'' SideBuy ''99'' ''1'' 3])"

definition sample_taker :: order where
  "sample_taker = sample_order ''t1'' SideBuy ''100.5'' ''1.5'' 4"

lemma sample_order_ok:
  "order_ok (normalizeOrder b (sample_order oid sd price ''1'' sq))"
  "order_ok (normalizeOrder b (sample_order oid sd price ''2'' sq))"
  "order_ok (normalizeOrder b (sample_order oid sd price ''1.5'' sq))"
proof -
  have "amount ''1''" "amount ''2''" "amount ''1.5''" "0 \<le> Parse ''1''" "0 \<le> Parse ''2''" "0 \<le> Parse ''1.5''"
    by code_simp+
  then show "order_ok (normalizeOrder b (sample_order oid sd price ''1'' sq))"
    "order_ok (normalizeOrder b (sample_order oid sd price ''2'' sq))"
    "order_ok (normalizeOrder b (sample_order oid sd price ''1.5'' sq))"
    by (simp_all add: order_ok_def sample_order_def Parse_0)
qed

lemma sample_taker_ok: "order_ok (normalizeOrder b sample_taker)"
  unfolding sample_taker_def by (rule sample_order_ok)

lemma reachable_sample_book: "reachable_book sample_book"
  unfolding sample_book_def
  by (rule reach_step [OF reach_new step_Load]) (auto simp: sample_order_ok)

lemma sample_book_facts:
  "mb_Market sample_book = ''M''" "map o_ID (flat (mb_asks sample_book)) = [''a1'', ''a2'']"
  "s_prices (mb_bids sample_book) = [''99'']" "s_prices (mb_asks sample_book) = [''100'', ''101'']"
  by code_simp+

lemma sample_run:
  "(case fst (Apply sample_book sample_taker (Some sample_ids) 7) of
      Inr r \<Rightarrow> map t_Quantity (r_Trades r) = [''1''] \<and> o_Status (r_Taker r) = StatusPartiallyFilled
    | Inl _ \<Rightarrow> False)"
  by code_simp

lemma admissible_sample: "admissible sample_book sample_taker"
  by code_simp

text \<open>A book with three bids on two prices, and a market sell that names no price.\<close>

definition sample_bids :: market_book where
  "sample_bids = snd (Load (NewMarketBook ''M'' ''B'' ''Q'')
     [sample_order ''b1'' SideBuy ''98'' ''1'' 1, sample_order ''b2'' SideBuy ''99'' ''1'' 2,
      sample_order ''b3'' SideBuy ''99'' ''1'' 3])"

definition sample_market_sell :: order where
  "sample_market_sell = (sample_order ''t2'' SideSell [] ''1.5'' 4)\<lparr>o_Type := TypeMarket\<rparr>"

lemma sample_market_sell_ok: "order_ok (normalizeOrder b sample_market_sell)"
  using sample_order_ok(3) [of b "''t2''" SideSell "[]" 4]
  by (simp add: order_ok_def sample_market_sell_def sample_order_def normalizeOrder_def Let_def)

lemma reachable_sample_bids: "reachable_book sample_bids"
  unfolding sample_bids_def
  by (rule reach_step [OF reach_new step_Load]) (auto simp: sample_order_ok)

lemma sample_bids_facts:
  "mb_Market sample_bids = ''M''" "map o_ID (flat (mb_bids sample_bids)) = [''b2'', ''b3'', ''b1'']"
  by code_simp+

lemma admissible_sell: "admissible sample_bids sample_market_sell"
  by code_simp

lemma sample_sell_run:
  "(case fst (Apply sample_bids sample_market_sell (Some sample_ids) 7) of
      Inr r \<Rightarrow> map t_Quantity (r_Trades r) = [''1'', ''0.5''] \<and> o_Status (r_Taker r) = StatusFilled
    | Inl _ \<Rightarrow> False)"
  by code_simp

section \<open>Properties\<close>

text \<open>C5: every book that the operations Load, Apply, ApplyResult and Cancel can reach from an
  empty one is well formed: on each side the prices are distinct and sorted best first, they
  are exactly the keys of the level map, no level is empty, every resting order is active, has
  a positive price and remainder and sits at its own price and side, identifiers are unique,
  and the index \<open>mb_orders\<close> is exactly the resting orders.\<close>

theorem book_always_well_formed:
  assumes "reachable_book b"
  shows "book_inv b"
  using assms by (rule reachable_book_inv)

theorem book_always_well_formed_witness:
  "book_inv (snd (Apply sample_book sample_taker (Some sample_ids) 7))"
  by (rule book_always_well_formed [OF reach_step [OF reachable_sample_book step_Apply]])
    (rule sample_taker_ok)

text \<open>C4: applying a taker never leaves the book crossed: when every bid was below every ask
  before, it is so afterwards, also when Apply fails half way or the taker rests.\<close>

theorem Apply_never_crosses:
  assumes "reachable_book b" and "order_ok (normalizeOrder b taker)" and "uncrossed b"
  shows "uncrossed (snd (Apply b taker f now))"
  using Apply_uncrossed [OF reachable_book_inv [OF assms(1)] assms(2,3)] .

theorem Apply_never_crosses_witness:
  "uncrossed (snd (Apply sample_book sample_taker (Some sample_ids) 7))"
proof (rule Apply_never_crosses [OF reachable_sample_book sample_taker_ok])
  show "uncrossed sample_book"
    by (simp add: uncrossed_def sample_book_facts) code_simp
qed

text \<open>C1: the accounts of a run. What the taker was filled equals the sum of the trades, filled
  plus remaining is conserved and nothing becomes negative; every trade is at the maker's
  price, inside the taker's limit, of positive quantity and quote, and not between orders of
  one user; every reported maker is the resting order with exactly that trade's fill; trade
  identifiers are the factory's, in order; and the taker ends filled exactly when nothing
  remains.\<close>

theorem Apply_accounts:
  assumes "reachable_book b" and "order_ok (normalizeOrder b taker)"
    and "fst (Apply b taker (Some ids) now) = Inr r"
  shows "run_inv ids now (entry_taker b taker) (eff_price (entry_taker b taker))
      (\<Union>p. set (level_of b (oppositeBookSide (o_Side taker)) p)) r \<and>
    (o_Status (r_Taker r) = StatusFilled \<longleftrightarrow> Parse (o_RemainingQuantity (r_Taker r)) = 0)"
  by (rule Apply_run_inv [OF reachable_book_inv [OF assms(1)] assms(2,3)])

theorem Apply_accounts_witness:
  "\<exists>r. fst (Apply sample_book sample_taker (Some sample_ids) 7) = Inr r \<and>
    run_inv sample_ids 7 (entry_taker sample_book sample_taker) (eff_price (entry_taker sample_book sample_taker))
      (\<Union>p. set (level_of sample_book (oppositeBookSide (o_Side sample_taker)) p)) r \<and>
    map t_Quantity (r_Trades r) = [''1'']"
proof -
  obtain r where r: "fst (Apply sample_book sample_taker (Some sample_ids) 7) = Inr r"
    "map t_Quantity (r_Trades r) = [''1'']"
    using sample_run by (auto split: sum.splits)
  show ?thesis
    using Apply_accounts [OF reachable_sample_book sample_taker_ok r(1)] r by auto
qed

text \<open>C2: the book's Apply and the list engine MatchLimit agree. On a well-formed book, applying
  an admissible taker, limit or market, fails exactly when MatchLimit fails for that taker at
  its effective price (a market sell without a price is matched at the least positive one) on
  the opposite side flattened into one list, with the same error, and otherwise gives the same
  trades, the same updated makers and the same filled and remaining quantities.\<close>

theorem Apply_refines_MatchLimit:
  assumes "reachable_book b" and "order_ok (normalizeOrder b taker)" and "admissible b taker"
  shows "case MatchLimit (effectiveBookTaker (entry_taker b taker))
        (flat (book_side_of b (oppositeBookSide (o_Side taker)))) (Some ids) now of
      Inl e \<Rightarrow> fst (Apply b taker (Some ids) now) = Inl e
    | Inr m \<Rightarrow> \<exists>r. fst (Apply b taker (Some ids) now) = Inr r \<and>
        r_Trades r = r_Trades m \<and> r_Makers r = r_Makers m \<and>
        o_FilledQuantity (r_Taker r) = o_FilledQuantity (r_Taker m) \<and>
        o_RemainingQuantity (r_Taker r) = o_RemainingQuantity (r_Taker m)"
  (is "case ?M of Inl e \<Rightarrow> ?P e | Inr m \<Rightarrow> ?Q m")
proof -
  define t where "t = entry_taker b taker"
  let ?r = "\<lparr>r_Taker = t, r_Makers = [], r_Trades = []\<rparr>"
  let ?e = "\<lparr>r_Taker = effectiveBookTaker t, r_Makers = [], r_Trades = []\<rparr>"
  let ?st = "apply_loop ids now (oppositeBookSide (o_Side t)) b ?r"
  have inv: "book_inv b" and sd: "is_side (o_Side t)"
    using reachable_book_inv [OF assms(1)] admissible_side(1) [OF assms(3)] by (auto simp: t_def)
  have ai: "apply_inv ids now b t b ?r"
    unfolding t_def by (rule apply_inv_start [OF inv assms(3,2)])
  have loop: "map_sum id (at_price (eff_price t)) (loop_result ?st) =
      match_makers ids now ?e (flat (book_side_of b (oppositeBookSide (o_Side t))))"
    using apply_loop_match_makers [OF ai sd] by (simp add: at_price_def effective_at_price [symmetric])
  have post: "loop_post ids now b t ?st" by (rule apply_loop_post [OF ai sd])
  have valid: "validateTaker (effectiveBookTaker t) = Inr ()"
    using assms(3) admissible_side(5) [OF assms(3)]
    unfolding admissible_def Let_def validateTaker_ok by (simp add: t_def)
  note app = Apply_admissible [OF assms(3), of ids now, folded t_def, unfolded Let_def]
  have ml: "MatchLimit (effectiveBookTaker t) ms (Some ids) now = (case match_makers ids now ?e ms of Inl e \<Rightarrow> Inl e
      | Inr r \<Rightarrow> Inr (if Cmp (o_RemainingQuantity (r_Taker r)) ''0'' > 0 \<and>
          o_Status (r_Taker r) \<noteq> StatusPartiallyFilled \<and> o_Status (r_Taker r) \<noteq> StatusExpired
          then r\<lparr>r_Taker := (r_Taker r)\<lparr>o_Status := StatusOpen\<rparr>\<rparr> else r))" for ms
    using valid by (simp add: MatchLimit_def)
  show ?thesis
  proof (cases ?st)
    case (Continue b' r')
    then show ?thesis using post by (simp add: loop_post_def)
  next
    case (Return b' r')
    then show ?thesis using loop [symmetric] app ml by (simp add: t_def)
  next
    case (Fail e b')
    then show ?thesis using loop [symmetric] app ml by (simp add: t_def)
  next
    case (Break b' r')
    then have fin: "Apply b taker (Some ids) now = apply_finish now b' r'" using app by simp
    have "apply_inv ids now b t b' r'" using post Break by (simp add: loop_post_def)
    then have "\<exists>r. fst (apply_finish now b' r') = Inr r \<and> r_Trades r = r_Trades r' \<and> r_Makers r = r_Makers r' \<and>
        o_FilledQuantity (r_Taker r) = o_FilledQuantity (r_Taker r') \<and>
        o_RemainingQuantity (r_Taker r) = o_RemainingQuantity (r_Taker r')"
      using insertResting_taker [OF _ assms(3) t_def, of ids now b' r' StatusOpen]
        insertResting_taker [OF _ assms(3) t_def, of ids now b' r' StatusPartiallyFilled]
      by (cases "0 < Parse (o_RemainingQuantity (r_Taker r'))"; cases "isImmediateOnlyBookOrder (r_Taker r')")
        (auto simp: apply_finish_def Let_def Cmp_le_0 Parse_0 split: sum.splits)
    then show ?thesis using loop [symmetric] Break fin ml by (auto simp: t_def)
  qed
qed

theorem Apply_refines_MatchLimit_witness:
  "\<exists>m r. MatchLimit (effectiveBookTaker (entry_taker sample_bids sample_market_sell))
      (flat (mb_bids sample_bids)) (Some sample_ids) 7 = Inr m \<and>
    fst (Apply sample_bids sample_market_sell (Some sample_ids) 7) = Inr r \<and> r_Trades r = r_Trades m \<and>
    o_Price sample_market_sell = [] \<and> map t_Quantity (r_Trades r) = [''1'', ''0.5'']"
  using Apply_refines_MatchLimit [OF reachable_sample_bids sample_market_sell_ok admissible_sell, of sample_ids 7]
    sample_sell_run
  by (auto simp: sample_market_sell_def sample_order_def oppositeBookSide_def split: sum.splits)

text \<open>C3: price-time priority. In a book of a named market the makers of the trades of one
  Apply, of a limit or a market taker with or without a price, are, in order, a prefix of the opposite side read best price first and, within a
  price, in queue order: no resting order is passed over.\<close>

theorem Apply_price_time_priority:
  assumes "reachable_book b" and "order_ok (normalizeOrder b taker)" and "mb_Market b \<noteq> []"
    and "fst (Apply b taker (Some ids) now) = Inr r"
  shows "map t_MakerOrderID (r_Trades r) =
    map o_ID (take (length (r_Trades r)) (flat (book_side_of b (oppositeBookSide (o_Side taker)))))"
proof -
  define t where "t = entry_taker b taker"
  define os where "os = oppositeBookSide (o_Side taker)"
  let ?ms = "flat (book_side_of b os)"
  have inv: "book_inv b" by (rule reachable_book_inv [OF assms(1)])
  have adm: "admissible b taker" using assms(4) Apply_rejected [of b taker ids now] by fastforce
  note sd = admissible_side(1) [OF adm]
  have os: "is_side os" using sd by (simp add: os_def)
  have ai: "apply_inv ids now b t b \<lparr>r_Taker = t, r_Makers = [], r_Trades = []\<rparr>"
    unfolding t_def by (rule apply_inv_start [OF inv adm assms(2)])
  let ?st = "apply_loop ids now os b \<lparr>r_Taker = t, r_Makers = [], r_Trades = []\<rparr>"
  let ?e = "\<lparr>r_Taker = effectiveBookTaker t, r_Makers = [], r_Trades = []\<rparr>"
  have loop: "map_sum id (at_price (eff_price t)) (loop_result ?st) = match_makers ids now ?e ?ms"
    using apply_loop_match_makers [OF ai] sd by (simp add: at_price_def effective_at_price [symmetric] t_def os_def)
  have fin: "r_Trades r = r_Trades r'" if "fst (apply_finish now b' r') = Inr r" for b' r'
    using that by (auto simp: apply_finish_def Let_def split: sum.splits if_splits)
  have "\<exists>m. loop_result ?st = Inr m \<and> r_Trades r = r_Trades m"
    using assms(4) fin Apply_admissible [OF adm, of ids now, folded t_def]
    by (auto simp: Let_def t_def os_def split: apply_step.splits)
  then obtain m where m: "match_makers ids now ?e ?ms = Inr m" and tr: "r_Trades r = r_Trades m"
    using loop [symmetric] by auto
  have market: "o_Market t = mb_Market b"
    using adm assms(3) by (auto simp: t_def admissible_def Let_def validateMarket_def split: if_splits)
  have "\<exists>k. map t_MakerOrderID (r_Trades m) = map t_MakerOrderID (r_Trades ?e) @ map o_ID (take k ?ms)"
  proof (rule match_makers_prefix [OF m])
    show "same_order (effectiveBookTaker t) (r_Taker ?e)" "is_side (o_Side (effectiveBookTaker t))"
      using sd by (auto simp: t_def)
    show "sorted_wrt (\<lambda>x y. price_before (oppositeBookSide (o_Side (effectiveBookTaker t))) (o_Price x) (o_Price y)) ?ms"
      using flat_sorted [OF book_invD(1) [OF inv os]] by (simp add: t_def os_def)
    show "isBookable x \<and> o_ID x \<noteq> [] \<and> o_ID x \<noteq> o_ID (effectiveBookTaker t) \<and>
        o_Market x = o_Market (effectiveBookTaker t) \<and>
        o_Side x = oppositeBookSide (o_Side (effectiveBookTaker t))" if x: "x \<in> set ?ms" for x
    proof -
      have rest: "resting_ok b os (o_Price x) x" by (rule flat_resting [OF book_invD(1) [OF inv os] x])
      obtain p where "x \<in> set (level_of b os p)" using x set_flat [OF book_invD(1) [OF inv os]] by auto
      then have "mb_orders b (o_ID x) \<noteq> None" using book_invD(3) [OF inv os] by simp
      then have "o_ID x \<noteq> o_ID t" using admissible_side(3) [OF adm] by (metis entry_taker_fields(1) t_def)
      moreover have "o_Market x = mb_Market b"
        using rest assms(3) by (auto simp: resting_ok_def validateResting_ok validateMarket_def split: if_splits)
      ultimately show ?thesis
        using rest resting_bookable [OF rest] market
        by (auto simp: resting_ok_def validateResting_ok t_def os_def)
    qed
  qed
  then obtain k where k: "map t_MakerOrderID (r_Trades m) = map o_ID (take k ?ms)" by auto
  then have "length (r_Trades m) = min (length ?ms) k" by (metis length_map length_take)
  then have "take k ?ms = take (length (r_Trades m)) ?ms" by (metis min.commute nat_le_linear min_def take_all)
  then show ?thesis using k tr by (simp add: os_def)
qed

theorem Apply_price_time_priority_witness:
  "\<exists>r. fst (Apply sample_bids sample_market_sell (Some sample_ids) 7) = Inr r \<and>
    o_Price sample_market_sell = [] \<and> map t_MakerOrderID (r_Trades r) = [''b2'', ''b3'']"
proof -
  obtain r where r: "fst (Apply sample_bids sample_market_sell (Some sample_ids) 7) = Inr r"
    "map t_Quantity (r_Trades r) = [''1'', ''0.5'']"
    using sample_sell_run by (auto split: sum.splits)
  have m: "mb_Market sample_bids \<noteq> []" by (simp add: sample_bids_facts)
  have l: "length (r_Trades r) = 2" using arg_cong [OF r(2), of length] by simp
  have "map t_MakerOrderID (r_Trades r) = take 2 (map o_ID (flat (mb_bids sample_bids)))"
    using Apply_price_time_priority [OF reachable_sample_bids sample_market_sell_ok m r(1)] l
    by (simp add: sample_market_sell_def sample_order_def oppositeBookSide_def take_map)
  then show ?thesis
    using r(1) by (simp add: sample_bids_facts sample_market_sell_def sample_order_def)
qed

text \<open>C7: a taker is rejected before the book is touched or not at all. When it is not
  admissible the book is returned as it was; when it is, the only error Apply can still
  return is the precision of the quote amount: the remainder of a resting taker is never
  refused by the book after trades were made.\<close>

theorem Apply_total:
  assumes "reachable_book b" and "order_ok (normalizeOrder b taker)"
  shows "case Apply b taker (Some ids) now of
      (Inl e, b') \<Rightarrow> if admissible b taker then e = QuoteBelowPrecision else b' = b
    | (Inr r, b') \<Rightarrow> admissible b taker"
proof (cases "admissible b taker")
  case False
  then show ?thesis using Apply_rejected [OF False, of ids now] by auto
next
  case True
  then show ?thesis
    using Apply_outcome [OF reachable_book_inv [OF assms(1)] True assms(2), of ids now]
    unfolding Let_def by (elim disjE exE conjE) auto
qed

theorem Apply_total_witness:
  "case Apply sample_book sample_taker (Some sample_ids) 7 of
      (Inl e, b') \<Rightarrow> if admissible sample_book sample_taker then e = QuoteBelowPrecision else b' = sample_book
    | (Inr r, b') \<Rightarrow> admissible sample_book sample_taker"
  by (rule Apply_total [OF reachable_sample_book sample_taker_ok])

text \<open>Cancel takes out exactly the order asked for. It finds an order precisely when the
  identifier is indexed, returns that resting order with status canceled and the given time,
  forgets the identifier, leaves every other order where it was, and a second Cancel finds
  nothing.\<close>

theorem Cancel_exact:
  assumes "reachable_book b" and "oid \<noteq> []"
  shows "let (res, b') = Cancel b oid now in
    (res = None \<longleftrightarrow> mb_orders b oid = None) \<and>
    res = map_option (\<lambda>x. x\<lparr>o_Status := StatusCanceled, o_UpdatedAt := now\<rparr>) (ActiveOrder b oid) \<and>
    mb_orders b' = (mb_orders b)(oid := None) \<and> ActiveOrder b' oid = None \<and>
    (\<forall>sd p. is_side sd \<longrightarrow> set (level_of b' sd p) = {x \<in> set (level_of b sd p). o_ID x \<noteq> oid}) \<and>
    fst (Cancel b' oid now) = None"
proof (cases "mb_orders b oid")
  case None
  have inv: "book_inv b" by (rule reachable_book_inv [OF assms(1)])
  have "o_ID x \<noteq> oid" if "is_side sd" "x \<in> set (level_of b sd p)" for sd p x
    using book_invD(3) [OF inv that] None by auto
  then have "{x \<in> set (level_of b sd p). o_ID x \<noteq> oid} = set (level_of b sd p)" if "is_side sd" for sd p
    using that by blast
  then show ?thesis
    using None assms(2) by (simp add: Cancel_def ActiveOrder_def fun_upd_idem)
next
  case (Some ref)
  have inv: "book_inv b" by (rule reachable_book_inv [OF assms(1)])
  let ?sd = "ref_side ref" and ?p = "ref_price ref"
  let ?q = "level_of b ?sd ?p"
  obtain i where i: "queue_index oid ?q = Some i" "i < length ?q" "o_ID (?q ! i) = oid"
    using indexed_found [OF inv Some] .
  define b' where "b' = snd (removeAt b ?sd ?p i)"
  have sd: "is_side ?sd" by (rule book_inv_index(1) [OF inv Some])
  have cancel: "Cancel b oid now = (Some ((?q ! i)\<lparr>o_Status := StatusCanceled, o_UpdatedAt := now\<rparr>), b')"
    using assms(2) Some i by (simp add: Cancel_removeOrder removeOrder_def fst_removeAt b'_def)
  have orders: "mb_orders b' = (mb_orders b)(oid := None)"
    using i by (simp add: b'_def orders_removeAt)
  have levels: "set (level_of b' sd' p') = {x \<in> set (level_of b sd' p'). o_ID x \<noteq> oid}" if "is_side sd'" for sd' p'
  proof (cases "sd' = ?sd \<and> p' = ?p")
    case True
    then show ?thesis
      using remove_at_other [OF book_invD(2) [OF inv sd] i(2)] i(3)
      unfolding b'_def level_removeAt [OF sd that] by auto
  next
    case False
    have "o_ID x \<noteq> oid" if x: "x \<in> set (level_of b sd' p')" for x
      using book_invD(3) [OF inv \<open>is_side sd'\<close> x] Some False by (cases ref) auto
    then show ?thesis using False unfolding b'_def level_removeAt [OF sd that] by auto
  qed
  have "find (\<lambda>x. o_ID x = oid) ?q = Some (?q ! i)"
  proof -
    have "o_ID (?q ! j) \<noteq> oid" if "j < i" for j
      using that i book_invD(2) [OF inv sd, of ?p] by (metis (mono_tags) distinct_conv_nth length_map less_trans nat_neq_iff nth_map)
    then show ?thesis using i(2,3) by (auto simp: find_Some_iff)
  qed
  then have active: "ActiveOrder b oid = Some (?q ! i)" using Some assms(2) by (simp add: ActiveOrder_def)
  have gone: "ActiveOrder b' oid = None" "fst (Cancel b' oid now) = None"
    by (simp_all add: ActiveOrder_def Cancel_def orders)
  have "\<forall>sd p. is_side sd \<longrightarrow> set (level_of b' sd p) = {x \<in> set (level_of b sd p). o_ID x \<noteq> oid}"
    using levels by blast
  then show ?thesis
    unfolding cancel Let_def case_prod_conv using orders active gone Some by simp
qed

theorem Cancel_exact_witness:
  "fst (Cancel (snd (Cancel sample_book ''a1'' 9)) ''a1'' 9) = None \<and> ActiveOrder sample_book ''a1'' \<noteq> None"
proof -
  have "ActiveOrder sample_book ''a1'' \<noteq> None" by code_simp
  then show ?thesis
    using Cancel_exact [OF reachable_sample_book, of "''a1''" 9] by (auto simp: case_prod_beta Let_def)
qed

text \<open>The count of active orders is the number of orders resting on both sides.\<close>

theorem ActiveOrderCount_resting:
  assumes "reachable_book b"
  shows "ActiveOrderCount b = length (flat (mb_bids b)) + length (flat (mb_asks b))"
proof -
  note a = active_orders_dom [OF reachable_book_inv [OF assms]]
  have "card (o_ID ` set (flat (mb_bids b) @ flat (mb_asks b))) = length (flat (mb_bids b) @ flat (mb_asks b))"
    using distinct_card [OF a(2)] by (simp only: set_map length_map)
  then show ?thesis unfolding ActiveOrderCount_def a(1) by simp
qed

theorem ActiveOrderCount_resting_witness:
  "ActiveOrderCount sample_book = 3"
proof -
  have "length (flat (mb_bids sample_book)) + length (flat (mb_asks sample_book)) = 3" by code_simp
  then show ?thesis using ActiveOrderCount_resting [OF reachable_sample_book] by simp
qed

text \<open>The client snapshot of a well-formed book lists exactly the best levels, best first:
  all of them for a depth that is not positive, the first \<open>depth\<close> otherwise, each with its
  price, the number of its orders and the exact, positive sum of their remainders.\<close>

theorem Snapshot_lists_best_levels:
  assumes "reachable_book b"
  shows "map pl_Price (bs_Bids (Snapshot b depth)) =
      (if depth \<le> 0 then s_prices (mb_bids b) else take (nat depth) (s_prices (mb_bids b))) \<and>
    map pl_Price (bs_Asks (Snapshot b depth)) =
      (if depth \<le> 0 then s_prices (mb_asks b) else take (nat depth) (s_prices (mb_asks b))) \<and>
    (\<forall>l \<in> set (bs_Bids (Snapshot b depth)). 0 < Parse (pl_Quantity l) \<and>
       pl_OrderCount l = int (length (level_at (mb_bids b) (pl_Price l))) \<and>
       Parse (pl_Quantity l) = (\<Sum>x \<leftarrow> level_at (mb_bids b) (pl_Price l). Parse (o_RemainingQuantity x))) \<and>
    (\<forall>l \<in> set (bs_Asks (Snapshot b depth)). 0 < Parse (pl_Quantity l) \<and>
       pl_OrderCount l = int (length (level_at (mb_asks b) (pl_Price l))) \<and>
       Parse (pl_Quantity l) = (\<Sum>x \<leftarrow> level_at (mb_asks b) (pl_Price l). Parse (o_RemainingQuantity x)))"
proof -
  have side: "map pl_Price (snapshotSide b s depth) = (if depth \<le> 0 then s_prices s else take (nat depth) (s_prices s)) \<and>
      (\<forall>l \<in> set (snapshotSide b s depth). 0 < Parse (pl_Quantity l) \<and>
         pl_OrderCount l = int (length (level_at s (pl_Price l))) \<and>
         Parse (pl_Quantity l) = (\<Sum>x \<leftarrow> level_at s (pl_Price l). Parse (o_RemainingQuantity x)))"
    if si: "side_inv b sd s" for sd s
  proof -
    define ps where "ps = (if depth \<le> 0 then s_prices s else take (nat depth) (s_prices s))"
    have sub: "set ps \<subseteq> set (s_prices s)" using set_take_subset [of "nat depth" "s_prices s"] by (simp add: ps_def)
    have ss: "snapshotSide b s depth = map (level_entry b s) ps"
      using snapshotSide_levels [OF si] by (simp add: ps_def)
    have "pl_Price (level_entry b s p) = p" for p
      by (simp add: level_entry_def case_prod_beta Let_def)
    then show ?thesis
      using sub level_entry_props(1-3) [OF si] unfolding ss ps_def [symmetric] by (auto simp: o_def)
  qed
  note inv = reachable_book_inv [OF assms]
  show ?thesis
    using side [OF book_invD(1) [OF inv, of SideBuy]] side [OF book_invD(1) [OF inv, of SideSell]]
    unfolding Snapshot_def book_snapshot.simps book_side_of_simps by blast
qed

theorem Snapshot_lists_best_levels_witness:
  "map pl_Price (bs_Asks (Snapshot sample_book 1)) = [''100'']"
  using Snapshot_lists_best_levels [OF reachable_sample_book, of 1] by (simp add: sample_book_facts)

text \<open>C6: capturing and restoring a book is the identity. Whatever the checksum function, as
  long as it gives a non-empty text, a reachable book of a named market whose queues are in
  sequence order restores from its captured state to exactly the same book, also after the
  snapshot was encoded and decoded by a faithful codec.\<close>

theorem restore_captured_book:
  assumes "reachable_book b" and "time_inv b" and "mb_Market b \<noteq> []"
    and "\<And>s. \<exists>c. digest s = Some c \<and> c \<noteq> []"
    and "\<And>s. \<exists>bytes. enc s = Some bytes \<and> dec bytes = Some s"
  shows "RestoreMarketBook digest (CaptureState digest b lastSeq now) = Inr b \<and>
    (\<exists>bytes. EncodeBookStateSnapshot digest enc (CaptureState digest b lastSeq now) = Inr bytes \<and>
       DecodeBookStateSnapshot digest dec bytes = Inr (CaptureState digest b lastSeq now))"
proof -
  define s0 where "s0 = \<lparr>sn_SchemaVersion = BookStateSnapshotVersion, sn_Market = mb_Market b,
    sn_BaseAsset = mb_BaseAsset b, sn_QuoteAsset = mb_QuoteAsset b, sn_LastAppliedSequence = lastSeq,
    sn_CreatedAt = now, sn_ActiveOrders = flat (mb_bids b) @ flat (mb_asks b), sn_Checksum = []\<rparr>"
  obtain c where c: "digest s0 = Some c" "c \<noteq> []" using assms(4) by blast
  have s0c: "s0\<lparr>sn_Checksum := []\<rparr> = s0" by (simp add: s0_def)
  have cap: "CaptureState digest b lastSeq now = s0\<lparr>sn_Checksum := c\<rparr>"
    using c s0c by (simp add: CaptureState_def Let_def Seal_def computeChecksum_def s0_def flat_def)
  have valid: "Snapshot_Validate digest (s0\<lparr>sn_Checksum := c\<rparr>) = Inr ()"
    using c s0c assms(3) by (simp add: Snapshot_Validate_def computeChecksum_def) (simp add: s0_def)
  obtain bytes where bytes: "enc (s0\<lparr>sn_Checksum := c\<rparr>) = Some bytes" "dec bytes = Some (s0\<lparr>sn_Checksum := c\<rparr>)"
    using assms(5) by blast
  have "RestoreMarketBook digest (s0\<lparr>sn_Checksum := c\<rparr>) = Inr b"
    using valid Load_captured [OF reachable_book_inv [OF assms(1)] assms(2)]
    by (simp add: RestoreMarketBook_def) (simp add: s0_def)
  moreover have "EncodeBookStateSnapshot digest enc (s0\<lparr>sn_Checksum := c\<rparr>) = Inr bytes"
    using valid bytes c(2) by (simp add: EncodeBookStateSnapshot_def)
  moreover have "DecodeBookStateSnapshot digest dec bytes = Inr (s0\<lparr>sn_Checksum := c\<rparr>)"
    using valid bytes by (simp add: DecodeBookStateSnapshot_def)
  ultimately show ?thesis unfolding cap by blast
qed

lemma time_inv_Load:
  "time_inv b \<Longrightarrow> (\<And>x. x \<in> set items \<Longrightarrow> o_SequenceID x \<noteq> 0) \<Longrightarrow> time_inv (snd (Load b items))"
proof (induction b items rule: Load.induct)
  case (1 b)
  then show ?case by simp
next
  case (2 b x items)
  show ?case
    using 2 time_inv_insert [OF 2(3)] by (auto simp: Let_def split: sum.splits)
qed

lemma time_inv_new: "time_inv (NewMarketBook m ba qa)"
  by (auto simp: time_inv_def NewMarketBook_def newBookSide_def level_at_def)

lemma time_inv_sample: "time_inv sample_book"
  unfolding sample_book_def by (rule time_inv_Load [OF time_inv_new]) (auto simp: sample_order_def)

theorem restore_captured_book_witness:
  "RestoreMarketBook (\<lambda>_. Some ''c'') (CaptureState (\<lambda>_. Some ''c'') sample_book 3 5) = Inr sample_book"
  using restore_captured_book [OF reachable_sample_book time_inv_sample, of "\<lambda>_. Some ''c''" Some Some 3 5]
  by (simp add: sample_book_facts)

text \<open>Time priority is kept. When every queue is in the order of the sequence numbers, it
  still is after applying a taker that carries one, however the run ends.\<close>

theorem Apply_keeps_time_order:
  assumes "time_inv b" and "o_SequenceID taker \<noteq> 0"
  shows "time_inv (snd (Apply b taker f now))"
  using assms by (rule Apply_time_inv)

theorem Apply_keeps_time_order_witness:
  "time_inv (snd (Apply sample_book sample_taker (Some sample_ids) 7))"
  by (rule Apply_keeps_time_order [OF time_inv_sample]) (simp add: sample_taker_def sample_order_def)

text \<open>What the retention guard guarantees when it passes: the event log still holds the
  event after the snapshot, the snapshot is no older than its maximum age, and a third of the
  retention period, as long as the sequence number and three times the maximum age do not wrap
  at 64 bits.\<close>

theorem retention_guard_safe:
  assumes "CheckSnapshotRetention clock g = Inr ()"
    and "g_LatestSnapshotSequence g \<noteq> - 1" and "0 < g_MaxSnapshotAge g" and "g_MaxSnapshotAge g * 3 < 2 ^ 63"
    and "0 < g_EventRetention g"
  defines "age \<equiv> time_Sub (if g_Now g = 0 then clock else g_Now g) (g_SnapshotCreatedAt g)"
  shows "unat (g_OldestRetainedSequence g) \<le> unat (g_LatestSnapshotSequence g) + 1 \<and>
    age \<le> g_MaxSnapshotAge g \<and> g_MaxSnapshotAge g * 3 \<le> g_EventRetention g \<and>
    age \<le> g_EventRetention g div 3 \<and> g_SnapshotCreatedAt g \<noteq> 0"
proof -
  have wrap: "wrap_duration (g_MaxSnapshotAge g * 3) = g_MaxSnapshotAge g * 3"
    using assms(3,4) by (simp add: wrap_duration_def)
  have "unat (g_LatestSnapshotSequence g + 1) = unat (g_LatestSnapshotSequence g) + 1"
    using assms(2) by (metis add.commute unatSuc Suc_eq_plus1 add_eq_0_iff add.inverse_inverse)
  then have "g_OldestRetainedSequence g \<le> g_LatestSnapshotSequence g + 1 \<Longrightarrow>
      unat (g_OldestRetainedSequence g) \<le> unat (g_LatestSnapshotSequence g) + 1"
    by (simp add: word_le_nat_alt)
  then show ?thesis
    using assms(1,3,5) wrap unfolding age_def CheckSnapshotRetention_def Let_def
    by (auto split: if_splits simp: not_less)
qed

definition sample_guard :: retention_guard where
  "sample_guard = \<lparr>g_LatestSnapshotSequence = 10, g_OldestRetainedSequence = 5, g_SnapshotCreatedAt = 100,
     g_Now = 110, g_EventRetention = 60, g_MaxSnapshotAge = 20\<rparr>"

theorem retention_guard_safe_witness:
  "time_Sub 110 100 \<le> g_MaxSnapshotAge sample_guard"
proof -
  have "CheckSnapshotRetention 0 sample_guard = Inr ()" by code_simp
  from retention_guard_safe [OF this] show ?thesis
    by (simp add: sample_guard_def)
qed

end
