(* ===== verification/Tables.thy ===== *)
theory Tables
  imports OrderModel
begin

text \<open>
  Tables of the relational store. The repositories use PostgreSQL through GORM; what they rely
  on is a table with a primary key: finding the row of a key, saving a row (insert or replace),
  creating a row (an error when the key is taken), deleting and updating the rows that match.
  A table is the list of its rows in insertion order.

  The locale \<open>keyed_table\<close> is the interface the ledger proofs use: reading after saving, and
  the sum of a column after saving. It is interpreted on the row lists here and on the tables of
  the database in \<^verbatim>\<open>Database\<close>.
\<close>

fun row_find :: "('r \<Rightarrow> 'k) \<Rightarrow> 'k \<Rightarrow> 'r list \<Rightarrow> 'r option" where
  "row_find key k [] = None"
| "row_find key k (x # xs) = (if key x = k then Some x else row_find key k xs)"

fun row_save :: "('r \<Rightarrow> 'k) \<Rightarrow> 'r \<Rightarrow> 'r list \<Rightarrow> 'r list" where
  "row_save key r [] = [r]"
| "row_save key r (x # xs) = (if key x = key r then r # xs else x # row_save key r xs)"

definition row_exists :: "('r \<Rightarrow> 'k) \<Rightarrow> 'k \<Rightarrow> 'r list \<Rightarrow> bool" where
  "row_exists key k rows \<longleftrightarrow> row_find key k rows \<noteq> None"

definition row_delete :: "('r \<Rightarrow> bool) \<Rightarrow> 'r list \<Rightarrow> 'r list" where
  "row_delete P rows = filter (\<lambda>r. \<not> P r) rows"

definition row_update :: "('r \<Rightarrow> bool) \<Rightarrow> ('r \<Rightarrow> 'r) \<Rightarrow> 'r list \<Rightarrow> 'r list" where
  "row_update P f rows = map (\<lambda>r. if P r then f r else r) rows"

definition row_sum :: "('r \<Rightarrow> rat) \<Rightarrow> 'r list \<Rightarrow> rat" where
  "row_sum v rows = sum_list (map v rows)"

lemma row_find_key: "row_find key k rows = Some r \<Longrightarrow> key r = k \<and> r \<in> set rows"
  by (induction rows) (auto split: if_splits)

lemma row_find_None: "row_find key k rows = None \<longleftrightarrow> k \<notin> key ` set rows"
  by (induction rows) auto

lemma row_find_append:
  "row_find key k (xs @ ys) = (case row_find key k xs of None \<Rightarrow> row_find key k ys | Some r \<Rightarrow> Some r)"
  by (induction xs) auto

lemma row_find_save:
  "row_find key k (row_save key r rows) = (if k = key r then Some r else row_find key k rows)"
  by (induction rows) auto

lemma row_sum_save:
  "row_sum v (row_save key r rows) =
    row_sum v rows + v r - (case row_find key (key r) rows of None \<Rightarrow> 0 | Some r0 \<Rightarrow> v r0)"
  by (induction rows) (auto simp: row_sum_def)

lemma set_row_save: "x \<in> set (row_save key r rows) \<Longrightarrow> x = r \<or> x \<in> set rows"
  by (induction rows) (auto split: if_splits)

lemma row_save_keys:
  "map key (row_save key r rows) =
    (if key r \<in> key ` set rows then map key rows else map key rows @ [key r])"
  by (induction rows) auto

lemma row_save_distinct: "distinct (map key rows) \<Longrightarrow> distinct (map key (row_save key r rows))"
  unfolding row_save_keys by auto

lemma row_find_distinct:
  "distinct (map key rows) \<Longrightarrow> r \<in> set rows \<Longrightarrow> row_find key (key r) rows = Some r"
  by (induction rows) (auto simp: image_iff)

section \<open>The interface\<close>

locale keyed_table =
  fixes key :: "'r \<Rightarrow> 'k" and get :: "'s \<Rightarrow> 'k \<Rightarrow> 'r option" and put :: "'r \<Rightarrow> 's \<Rightarrow> 's"
    and total :: "('r \<Rightarrow> rat) \<Rightarrow> 's \<Rightarrow> rat"
  assumes get_put: "get (put r s) k = (if k = key r then Some r else get s k)"
    and get_key: "get s k = Some r \<Longrightarrow> key r = k"
    and total_put: "total v (put r s) =
      total v s + v r - (case get s (key r) of None \<Rightarrow> 0 | Some r0 \<Rightarrow> v r0)"
begin

lemma total_update: "get s (key r) = Some r0 \<Longrightarrow> total v (put r s) = total v s + (v r - v r0)"
  by (simp add: total_put)

lemma total_insert: "get s (key r) = None \<Longrightarrow> total v (put r s) = total v s + v r"
  by (simp add: total_put)

lemma total_neutral:
  "get s (key r) = Some r0 \<Longrightarrow> v r = v r0 \<Longrightarrow> total v (put r s) = total v s"
  by (simp add: total_put)

text \<open>A property of all rows is kept when the saved row has it.\<close>

lemma all_put:
  "(\<And>k x. get s k = Some x \<Longrightarrow> P x) \<Longrightarrow> P r \<Longrightarrow> get (put r s) k = Some x \<Longrightarrow> P x"
  by (auto simp: get_put split: if_splits)

lemma get_other: "k \<noteq> key r \<Longrightarrow> get (put r s) k = get s k"
  by (simp add: get_put)

lemma get_same: "get (put r s) (key r) = Some r"
  by (simp add: get_put)

end

interpretation rows: keyed_table key "\<lambda>s k. row_find key k s" "row_save key" row_sum
  for key :: "'r \<Rightarrow> 'k"
  by unfold_locales (auto simp: row_find_save row_sum_save dest: row_find_key)

end
