(* ===== verification/Database.thy ===== *)
theory Database
  imports Tables
begin

text \<open>
  The rows of the store (\<^verbatim>\<open>internal/adapters/storage/postgres/model.go\<close>, with the data types of
  \<^verbatim>\<open>internal/core/balance\<close>, \<^verbatim>\<open>internal/core/trade\<close> and the repositories) and the database as one
  record of tables.

  A row has the fields of the Go struct. Errors are one type for all layers; their messages are left out. Orders and trades are stored with the fields of
  \<^typ>\<open>order\<close> and \<^typ>\<open>trade\<close>. Numeric columns hold decimal texts; PostgreSQL compares them by value,
  so a price that is part of a key is compared by \<^const>\<open>Parse\<close>. New identifiers
  (\<^verbatim>\<open>idgen.New\<close>, a random UUID behind a prefix) come from the parameter \<open>e_newid\<close> of the
  environment, indexed by a counter that the database state carries, and \<open>e_now\<close> is the clock
  of the operation. Looking up with an empty key part, which GORM would drop from the condition,
  is not modelled: the callers pass non-empty keys.
\<close>

section \<open>Balances\<close>

record wallet =
  w_UserID :: string
  w_ChainKey :: string
  w_Address :: string
  w_CreatedAt :: time
  w_UpdatedAt :: time

record balance =
  b_UserID :: string
  b_Asset :: string
  b_Available :: string
  b_Locked :: string
  b_Pending :: string
  b_UpdatedAt :: time

datatype withdrawal_status = WithdrawalRequested | WithdrawalCompleted | WithdrawalCanceled

record withdrawal =
  wd_ID :: string
  wd_UserID :: string
  wd_Asset :: string
  wd_Amount :: string
  wd_ChainKey :: string
  wd_Address :: string
  wd_Status :: withdrawal_status
  wd_CreatedAt :: time
  wd_UpdatedAt :: time

datatype balance_event_type =
    EventDepositPending | EventDepositSettled | EventWithdrawalRequested
  | EventWithdrawalCompleted | EventWithdrawalCanceled | EventReserve | EventRelease
  | EventDebitLocked | EventSettlementReceive

record balance_event =
  be_ID :: string
  be_UserID :: string
  be_Asset :: string
  be_Type :: balance_event_type
  be_Amount :: string
  be_OrderID :: string
  be_ReservationID :: string
  be_TradeID :: string
  be_WithdrawalID :: string
  be_CreatedAt :: time

datatype reservation_status =
    ReservationStatusActive | ReservationStatusConsumed | ReservationStatusReleased
  | ReservationStatusClosed | ReservationStatusNone

record reservation =
  rv_ID :: string
  rv_UserID :: string
  rv_Market :: string
  rv_Asset :: string
  rv_Amount :: string
  rv_ConsumedAmount :: string
  rv_ReleasedAmount :: string
  rv_RemainingAmount :: string
  rv_Status :: reservation_status
  rv_OrderID :: string
  rv_CommandID :: string
  rv_CreatedAt :: time
  rv_UpdatedAt :: time

section \<open>Market data\<close>

record candle =
  cd_Market :: string
  cd_Interval :: string
  cd_OpenTime :: time
  cd_CloseTime :: time
  cd_Open :: string
  cd_High :: string
  cd_Low :: string
  cd_Close :: string
  cd_VolumeBase :: string
  cd_VolumeQuote :: string
  cd_TradeCount :: int
  cd_LastTradeAt :: time

record interval =
  iv_Key :: string
  iv_Duration :: duration

definition minute :: duration where
  "minute = 60 * 1000000000"

definition SupportedIntervals :: "interval list" where
  "SupportedIntervals =
     [\<lparr>iv_Key = ''1m'', iv_Duration = minute\<rparr>, \<lparr>iv_Key = ''5m'', iv_Duration = 5 * minute\<rparr>,
      \<lparr>iv_Key = ''15m'', iv_Duration = 15 * minute\<rparr>, \<lparr>iv_Key = ''1h'', iv_Duration = 60 * minute\<rparr>,
      \<lparr>iv_Key = ''4h'', iv_Duration = 4 * (60 * minute)\<rparr>, \<lparr>iv_Key = ''1d'', iv_Duration = 24 * (60 * minute)\<rparr>]"

definition IntervalByKey :: "string \<Rightarrow> interval option" where
  "IntervalByKey key = find (\<lambda>iv. iv_Key iv = key) SupportedIntervals"

record sequence_row =
  sq_Market :: string
  sq_NextSequence :: uint64
  sq_UpdatedAt :: time

record market_row =
  mk_Symbol :: string
  mk_BaseAsset :: string
  mk_QuoteAsset :: string
  mk_ChainKeys :: string
  mk_Enabled :: bool
  mk_LastPrice :: string
  mk_Change24h :: string
  mk_High24h :: string
  mk_Low24h :: string
  mk_Volume24h :: string
  mk_CreatedAt :: time
  mk_UpdatedAt :: time

section \<open>Work queues and logs\<close>

datatype job_status =
    JobPending | JobProcessing | JobCompleted | JobFailed | JobQuarantined

record match_job =
  mj_ID :: string
  mj_OrderID :: string
  mj_Market :: string
  mj_Status :: job_status
  mj_Attempts :: int
  mj_AvailableAt :: time
  mj_LockedBy :: string
  mj_LockedAt :: time
  mj_LastError :: string
  mj_CreatedAt :: time
  mj_UpdatedAt :: time

datatype outbox_status = OutboxPending | OutboxProcessing | OutboxPublished | OutboxFailed

record outbox_event =
  ox_ID :: string
  ox_Topic :: string
  ox_EventKey :: string
  ox_Payload :: string
  ox_Status :: outbox_status
  ox_Attempts :: int
  ox_AvailableAt :: time
  ox_LockedBy :: string
  ox_LockedAt :: time
  ox_LastError :: string
  ox_CreatedAt :: time
  ox_UpdatedAt :: time
  ox_PublishedAt :: time

record service_lease =
  sl_Name :: string
  sl_Owner :: string
  sl_ExpiresAt :: time
  sl_UpdatedAt :: time

datatype command_status =
    CommandPending | CommandCompleted | CommandRejected | CommandQuarantined
  | CommandStatusOther string

record order_command =
  oc_ID :: string
  oc_ClientOrderID :: string
  oc_UserID :: string
  oc_Market :: string
  oc_Type :: string
  oc_PayloadHash :: string
  oc_Payload :: string
  oc_Status :: command_status
  oc_Outcome :: string
  oc_OrderID :: string
  oc_Attempts :: int
  oc_LastError :: string
  oc_QuarantinedAt :: time
  oc_CreatedAt :: time
  oc_UpdatedAt :: time

datatype log_status =
    LogPending | LogProcessing | LogApplied | LogRejected | LogQuarantined | LogStatusOther string

record command_log =
  cl_ID :: string
  cl_CommandID :: string
  cl_SequenceID :: uint64
  cl_Market :: string
  cl_Type :: string
  cl_Key :: string
  cl_PayloadHash :: string
  cl_Payload :: string
  cl_Status :: log_status
  cl_Attempts :: int
  cl_AvailableAt :: time
  cl_LockedBy :: string
  cl_LockedAt :: time
  cl_LastError :: string
  cl_AppliedOrderID :: string
  cl_AppliedAt :: time
  cl_QuarantinedAt :: time
  cl_CreatedAt :: time
  cl_UpdatedAt :: time

record matcher_snapshot =
  ms_ID :: string
  ms_Market :: string
  ms_SequenceID :: uint64
  ms_SchemaVersion :: int
  ms_Payload :: string
  ms_Checksum :: string
  ms_CreatedAt :: time
  ms_LastValidatedAt :: time

record match_event_log =
  me_ID :: string
  me_Market :: string
  me_SequenceID :: uint64
  me_Type :: string
  me_PayloadHash :: string
  me_Payload :: string
  me_CreatedAt :: time

record projection_offset =
  po_Projection :: string
  po_Market :: string
  po_Stream :: string
  po_LastSequence :: uint64
  po_LastEventID :: string
  po_LastEventHash :: string
  po_LastEventAt :: time
  po_UpdatedAt :: time
  po_LastAdvancedAt :: time

section \<open>The database\<close>

text \<open>The table rows that carry the fields of a domain type.\<close>

type_synonym order_row = order
type_synonym active_order_row = order
type_synonym trade_row = trade
type_synonym order_event_row = order_event
type_synonym wallet_row = wallet
type_synonym balance_row = balance
type_synonym balance_event_row = balance_event
type_synonym reservation_row = reservation
type_synonym withdrawal_row = withdrawal
type_synonym price_level_row = price_level
type_synonym candle_row = candle
type_synonym order_command_row = order_command
type_synonym command_log_row = command_log
type_synonym match_event_log_row = match_event_log
type_synonym projection_offset_row = projection_offset

record db =
  db_orders :: "order_row list"
  db_active :: "active_order_row list"
  db_trades :: "trade_row list"
  db_order_events :: "order_event_row list"
  db_wallets :: "wallet_row list"
  db_balances :: "balance_row list"
  db_balance_events :: "balance_event_row list"
  db_reservations :: "reservation_row list"
  db_withdrawals :: "withdrawal_row list"
  db_levels :: "price_level_row list"
  db_candles :: "candle_row list"
  db_sequences :: "sequence_row list"
  db_jobs :: "match_job list"
  db_commands :: "order_command_row list"
  db_command_log :: "command_log_row list"
  db_command_sequences :: "sequence_row list"
  db_snapshots :: "matcher_snapshot list"
  db_event_log :: "match_event_log_row list"
  db_offsets :: "projection_offset_row list"
  db_outbox :: "outbox_event list"
  db_leases :: "service_lease list"
  db_markets :: "market_row list"
  db_ids :: nat

record env =
  e_now :: time
  e_newid :: "nat \<Rightarrow> string"

definition empty_db :: db where
  "empty_db = \<lparr>db_orders = [], db_active = [], db_trades = [], db_order_events = [], db_wallets = [],
     db_balances = [], db_balance_events = [], db_reservations = [], db_withdrawals = [],
     db_levels = [], db_candles = [], db_sequences = [], db_jobs = [],
     db_commands = [], db_command_log = [], db_command_sequences = [], db_snapshots = [], db_event_log = [],
     db_offsets = [], db_outbox = [], db_leases = [], db_markets = [], db_ids = 0\<rparr>"

datatype ledger_error =
    ErrInsufficientBalance
  | ErrRecordNotFound
  | ErrDuplicateKey
  | ErrWithdrawalNotRequested
  | ErrInvalidSettlement
  | ErrReservationIncomplete
  | ErrMarketRequired
  | ErrInvalidOrder
  | ErrUnknownMarket
  | ErrOrderNotFound
  | ErrOrderNotCancelable
  | ErrPriceBandExceeded
  | ErrInvalidMatch
  | ErrInvalidSnapshot
  | ErrEncoding
  | ErrPayloadConflict
  | ErrIncomplete
  | ErrProjectionConflict
  | ErrGateway
  | ErrDiverges

type_synonym 'a ltx = "(db, ledger_error, 'a) tx"

definition new_id :: "env \<Rightarrow> string \<Rightarrow> string ltx" where
  "new_id env prefix d = Inr (prefix @ ''_'' @ e_newid env (db_ids d), d\<lparr>db_ids := Suc (db_ids d)\<rparr>)"

definition zeroIfEmpty :: "string \<Rightarrow> string" where
  "zeroIfEmpty value = (if value = [] then ''0'' else value)"

lemma Parse_zeroIfEmpty [simp]: "Parse (zeroIfEmpty s) = Parse s"
proof (cases s)
  case Nil
  have "Parse [] = 0" by (simp add: Parse_def rat_set_string_def)
  moreover have "Parse ''0'' = 0" by (simp add: Parse_0)
  ultimately show ?thesis using Nil by (simp add: zeroIfEmpty_def)
qed (simp add: zeroIfEmpty_def)

definition bal_key :: "balance \<Rightarrow> string \<times> string" where
  "bal_key b = (b_UserID b, b_Asset b)"

definition get_balance :: "db \<Rightarrow> string \<times> string \<Rightarrow> balance option" where
  "get_balance d k = row_find bal_key k (db_balances d)"

definition put_balance :: "balance \<Rightarrow> db \<Rightarrow> db" where
  "put_balance b d = d\<lparr>db_balances := row_save bal_key b (db_balances d)\<rparr>"

definition sum_balances :: "(balance \<Rightarrow> rat) \<Rightarrow> db \<Rightarrow> rat" where
  "sum_balances v d = row_sum v (db_balances d)"

definition get_reservation :: "db \<Rightarrow> string \<Rightarrow> reservation option" where
  "get_reservation d k = row_find rv_ID k (db_reservations d)"

definition put_reservation :: "reservation \<Rightarrow> db \<Rightarrow> db" where
  "put_reservation r d = d\<lparr>db_reservations := row_save rv_ID r (db_reservations d)\<rparr>"

definition sum_reservations :: "(reservation \<Rightarrow> rat) \<Rightarrow> db \<Rightarrow> rat" where
  "sum_reservations v d = row_sum v (db_reservations d)"

definition get_withdrawal :: "db \<Rightarrow> string \<Rightarrow> withdrawal option" where
  "get_withdrawal d k = row_find wd_ID k (db_withdrawals d)"

definition put_withdrawal :: "withdrawal \<Rightarrow> db \<Rightarrow> db" where
  "put_withdrawal w d = d\<lparr>db_withdrawals := row_save wd_ID w (db_withdrawals d)\<rparr>"

definition sum_withdrawals :: "(withdrawal \<Rightarrow> rat) \<Rightarrow> db \<Rightarrow> rat" where
  "sum_withdrawals v d = row_sum v (db_withdrawals d)"

interpretation bal: keyed_table bal_key get_balance put_balance sum_balances
  by unfold_locales
    (auto simp: get_balance_def put_balance_def sum_balances_def rows.get_put rows.total_put dest: row_find_key)

interpretation res: keyed_table rv_ID get_reservation put_reservation sum_reservations
  by unfold_locales
    (auto simp: get_reservation_def put_reservation_def sum_reservations_def rows.get_put rows.total_put
      dest: row_find_key)

interpretation wdr: keyed_table wd_ID get_withdrawal put_withdrawal sum_withdrawals
  by unfold_locales
    (auto simp: get_withdrawal_def put_withdrawal_def sum_withdrawals_def rows.get_put rows.total_put
      dest: row_find_key)

lemma put_balance_frame [simp]:
  "get_reservation (put_balance b d) = get_reservation d" "sum_reservations v (put_balance b d) = sum_reservations v d"
  "get_withdrawal (put_balance b d) = get_withdrawal d" "sum_withdrawals w (put_balance b d) = sum_withdrawals w d"
  "db_orders (put_balance b d) = db_orders d" "db_ids (put_balance b d) = db_ids d"
  "db_balance_events (put_balance b d) = db_balance_events d"
  by (simp_all add: put_balance_def get_reservation_def sum_reservations_def get_withdrawal_def
      sum_withdrawals_def fun_eq_iff)

lemma put_reservation_frame [simp]:
  "get_balance (put_reservation r d) = get_balance d" "sum_balances w (put_reservation r d) = sum_balances w d"
  "get_withdrawal (put_reservation r d) = get_withdrawal d"
  "db_orders (put_reservation r d) = db_orders d" "db_ids (put_reservation r d) = db_ids d"
  "db_balance_events (put_reservation r d) = db_balance_events d"
  by (simp_all add: put_reservation_def get_balance_def sum_balances_def get_withdrawal_def fun_eq_iff)

lemma put_withdrawal_frame [simp]:
  "get_balance (put_withdrawal x d) = get_balance d" "sum_balances w (put_withdrawal x d) = sum_balances w d"
  "get_reservation (put_withdrawal x d) = get_reservation d"
  "sum_reservations v (put_withdrawal x d) = sum_reservations v d"
  "db_orders (put_withdrawal x d) = db_orders d" "db_ids (put_withdrawal x d) = db_ids d"
  by (simp_all add: put_withdrawal_def get_balance_def sum_balances_def get_reservation_def
      sum_reservations_def fun_eq_iff)

end
