(* ===== verification/Ledger.thy ===== *)
theory Ledger
  imports Database
begin

text \<open>
  The ledger operations of \<^verbatim>\<open>exchange_repository.go\<close> and \<^verbatim>\<open>reservation_repository.go\<close>: deposits,
  withdrawals, the reservation and release of an order's funds, and the settlement of trades. An
  operation is a transaction on the database (\<^typ>\<open>'a ltx\<close>): an error value stands for the
  \<^verbatim>\<open>error\<close> the Go method returns, after which the surrounding database transaction is rolled back.
\<close>

definition not_found_as :: "ledger_error \<Rightarrow> 'a ltx \<Rightarrow> 'a ltx" where
  "not_found_as e m d = (case m d of Inl ErrRecordNotFound \<Rightarrow> Inl e | r \<Rightarrow> r)"

definition fail_if :: "bool \<Rightarrow> ledger_error \<Rightarrow> unit ltx" where
  "fail_if c e = (if c then tx_fail e else tx_return ())"

section \<open>Rows and events\<close>

definition modelToBalance :: "balance \<Rightarrow> balance" where
  "modelToBalance m =
     m\<lparr>b_Available := zeroIfEmpty (b_Available m), b_Locked := zeroIfEmpty (b_Locked m),
       b_Pending := zeroIfEmpty (b_Pending m)\<rparr>"

definition withdrawalToModel :: "withdrawal \<Rightarrow> withdrawal" where
  "withdrawalToModel item =
     item\<lparr>wd_UserID := trim_space (wd_UserID item), wd_Asset := to_upper (trim_space (wd_Asset item)),
       wd_ChainKey := to_lower (trim_space (wd_ChainKey item)), wd_Address := trim_space (wd_Address item)\<rparr>"

definition modelToReservation :: "reservation \<Rightarrow> reservation" where
  "modelToReservation m =
     m\<lparr>rv_Amount := zeroIfEmpty (rv_Amount m), rv_ConsumedAmount := zeroIfEmpty (rv_ConsumedAmount m),
       rv_ReleasedAmount := zeroIfEmpty (rv_ReleasedAmount m),
       rv_RemainingAmount := zeroIfEmpty (rv_RemainingAmount m)\<rparr>"

definition account_key :: "string \<Rightarrow> string \<Rightarrow> string \<times> string" where
  "account_key userID asset = (trim_space userID, to_upper (trim_space asset))"

definition balanceForUpdate :: "env \<Rightarrow> string \<Rightarrow> string \<Rightarrow> bool \<Rightarrow> balance ltx" where
  "balanceForUpdate env userID asset create d =
     (case get_balance d (account_key userID asset) of
        Some b \<Rightarrow> Inr (b, d)
      | None \<Rightarrow>
          if create then
            let b = \<lparr>b_UserID = trim_space userID, b_Asset = to_upper (trim_space asset),
                     b_Available = ''0'', b_Locked = ''0'', b_Pending = ''0'', b_UpdatedAt = e_now env\<rparr>
            in Inr (b, put_balance b d)
          else Inl ErrRecordNotFound)"

definition saveBalance :: "balance \<Rightarrow> unit ltx" where
  "saveBalance b = tx_modify (put_balance b)"

definition createBalanceEvent :: "balance_event \<Rightarrow> unit ltx" where
  "createBalanceEvent item d =
     (if row_exists be_ID (be_ID item) (db_balance_events d) then Inl ErrDuplicateKey
      else Inr ((), d\<lparr>db_balance_events := db_balance_events d @
             [item\<lparr>be_Asset := to_upper (trim_space (be_Asset item))\<rparr>]\<rparr>))"

definition BalanceEventExists :: "db \<Rightarrow> string \<Rightarrow> bool" where
  "BalanceEventExists d ID = (if trim_space ID = [] then False else row_exists be_ID ID (db_balance_events d))"

definition default_event_id :: "env \<Rightarrow> string \<Rightarrow> string ltx" where
  "default_event_id env eventID = (if eventID = [] then new_id env ''bev'' else tx_return eventID)"

definition plain_event ::
  "string \<Rightarrow> string \<Rightarrow> string \<Rightarrow> balance_event_type \<Rightarrow> string \<Rightarrow> time \<Rightarrow> balance_event" where
  "plain_event eventID userID asset etype amt now =
     \<lparr>be_ID = eventID, be_UserID = userID, be_Asset = asset, be_Type = etype, be_Amount = amt,
      be_OrderID = [], be_ReservationID = [], be_TradeID = [], be_WithdrawalID = [], be_CreatedAt = now\<rparr>"

section \<open>Wallets and deposits\<close>

definition modelToWallet :: "wallet \<Rightarrow> wallet" where
  "modelToWallet model = model"

definition ListWallets :: "db \<Rightarrow> string \<Rightarrow> wallet list" where
  "ListWallets d userID = map modelToWallet (filter (\<lambda>w. userID = [] \<or> w_UserID w = userID) (db_wallets d))"

definition ListBalances :: "db \<Rightarrow> string \<Rightarrow> balance list" where
  "ListBalances d userID = map modelToBalance (filter (\<lambda>b. userID = [] \<or> b_UserID b = userID) (db_balances d))"

definition wallet_key :: "wallet \<Rightarrow> string \<times> string" where
  "wallet_key w = (w_UserID w, w_ChainKey w)"

definition UpsertWallet :: "env \<Rightarrow> wallet \<Rightarrow> wallet ltx" where
  "UpsertWallet env item d =
     (let model = \<lparr>w_UserID = trim_space (w_UserID item), w_ChainKey = to_lower (trim_space (w_ChainKey item)),
                   w_Address = trim_space (w_Address item), w_CreatedAt = e_now env, w_UpdatedAt = e_now env\<rparr>
      in Inr (model, d\<lparr>db_wallets := row_save wallet_key model (db_wallets d)\<rparr>))"

definition MarkDepositPending :: "env \<Rightarrow> string \<Rightarrow> string \<Rightarrow> string \<Rightarrow> string \<Rightarrow> balance ltx" where
  "MarkDepositPending env userID asset amt eventID0 =
     tx_bind (default_event_id env eventID0) (\<lambda>eventID.
     tx_bind (balanceForUpdate env userID asset True) (\<lambda>model.
     let model = model\<lparr>b_Pending := Add (b_Pending model) amt, b_UpdatedAt := e_now env\<rparr> in
     tx_bind (saveBalance model) (\<lambda>_.
     tx_bind (createBalanceEvent (plain_event eventID userID asset EventDepositPending amt (e_now env))) (\<lambda>_.
     tx_return (modelToBalance model)))))"

definition SettleDeposit :: "env \<Rightarrow> string \<Rightarrow> string \<Rightarrow> string \<Rightarrow> string \<Rightarrow> balance ltx" where
  "SettleDeposit env userID asset amt eventID0 =
     tx_bind (default_event_id env eventID0) (\<lambda>eventID.
     tx_bind (balanceForUpdate env userID asset False) (\<lambda>model.
     tx_bind (fail_if (Cmp (b_Pending model) amt < 0) ErrInsufficientBalance) (\<lambda>_.
     let model = model\<lparr>b_Pending := SubFloorZero (b_Pending model) amt,
                       b_Available := Add (b_Available model) amt, b_UpdatedAt := e_now env\<rparr> in
     tx_bind (saveBalance model) (\<lambda>_.
     tx_bind (createBalanceEvent (plain_event eventID userID asset EventDepositSettled amt (e_now env))) (\<lambda>_.
     tx_return (modelToBalance model))))))"

section \<open>Withdrawals\<close>

definition modelToWithdrawal :: "withdrawal \<Rightarrow> withdrawal" where
  "modelToWithdrawal model = model"

definition ListWithdrawals :: "db \<Rightarrow> string \<Rightarrow> int \<Rightarrow> withdrawal list" where
  "ListWithdrawals d userID limit =
     (let n = (if limit \<le> 0 \<or> limit > 500 then 100 else limit)
      in map modelToWithdrawal (take (nat n)
           (sort_key (\<lambda>w. - wd_CreatedAt w)
              (filter (\<lambda>w. userID = [] \<or> wd_UserID w = userID) (db_withdrawals d)))))"

definition create_withdrawal :: "withdrawal \<Rightarrow> unit ltx" where
  "create_withdrawal w d =
     (case get_withdrawal d (wd_ID w) of Some _ \<Rightarrow> Inl ErrDuplicateKey | None \<Rightarrow> Inr ((), put_withdrawal w d))"

definition RequestWithdrawal :: "env \<Rightarrow> withdrawal \<Rightarrow> string \<Rightarrow> withdrawal ltx" where
  "RequestWithdrawal env item eventID0 =
     tx_bind (default_event_id env eventID0) (\<lambda>eventID.
     tx_bind (not_found_as ErrInsufficientBalance
       (balanceForUpdate env (wd_UserID item) (wd_Asset item) False)) (\<lambda>model.
     tx_bind (fail_if (Cmp (b_Available model) (wd_Amount item) < 0) ErrInsufficientBalance) (\<lambda>_.
     let now = e_now env;
         withdrawal = (withdrawalToModel item)
           \<lparr>wd_Status := WithdrawalRequested, wd_CreatedAt := now, wd_UpdatedAt := now\<rparr>;
         model = model\<lparr>b_Available := SubFloorZero (b_Available model) (wd_Amount item),
                       b_Pending := Add (b_Pending model) (wd_Amount item), b_UpdatedAt := now\<rparr> in
     tx_bind (saveBalance model) (\<lambda>_.
     tx_bind (create_withdrawal withdrawal) (\<lambda>_.
     tx_bind (createBalanceEvent ((plain_event eventID (wd_UserID item) (wd_Asset item)
         EventWithdrawalRequested (wd_Amount item) now)\<lparr>be_WithdrawalID := wd_ID item\<rparr>)) (\<lambda>_.
     tx_return withdrawal))))))"

definition find_withdrawal :: "string \<Rightarrow> withdrawal ltx" where
  "find_withdrawal ID d =
     (case get_withdrawal d ID of None \<Rightarrow> Inl ErrRecordNotFound | Some w \<Rightarrow> Inr (w, d))"

definition finalizeWithdrawal ::
  "env \<Rightarrow> string \<Rightarrow> withdrawal_status \<Rightarrow> balance_event_type \<Rightarrow> string \<Rightarrow> withdrawal ltx" where
  "finalizeWithdrawal env ID nextStatus etype eventID =
     tx_bind (find_withdrawal ID) (\<lambda>model.
     tx_bind (fail_if (wd_Status model \<noteq> WithdrawalRequested) ErrWithdrawalNotRequested) (\<lambda>_.
     tx_bind (balanceForUpdate env (wd_UserID model) (wd_Asset model) False) (\<lambda>bal.
     tx_bind (fail_if (Cmp (b_Pending bal) (wd_Amount model) < 0) ErrInsufficientBalance) (\<lambda>_.
     let now = e_now env;
         bal = bal\<lparr>b_Pending := SubFloorZero (b_Pending bal) (wd_Amount model)\<rparr>;
         bal = (if nextStatus = WithdrawalCanceled
                then bal\<lparr>b_Available := Add (b_Available bal) (wd_Amount model)\<rparr> else bal);
         bal = bal\<lparr>b_UpdatedAt := now\<rparr>;
         model = model\<lparr>wd_Status := nextStatus, wd_UpdatedAt := now\<rparr> in
     tx_bind (saveBalance bal) (\<lambda>_.
     tx_bind (tx_modify (put_withdrawal model)) (\<lambda>_.
     tx_bind (createBalanceEvent ((plain_event eventID (wd_UserID model) (wd_Asset model) etype
         (wd_Amount model) now)\<lparr>be_WithdrawalID := wd_ID model\<rparr>)) (\<lambda>_.
     tx_return model)))))))"

definition CompleteWithdrawal :: "env \<Rightarrow> string \<Rightarrow> string \<Rightarrow> withdrawal ltx" where
  "CompleteWithdrawal env ID eventID0 =
     tx_bind (default_event_id env eventID0)
       (finalizeWithdrawal env ID WithdrawalCompleted EventWithdrawalCompleted)"

definition CancelWithdrawal :: "env \<Rightarrow> string \<Rightarrow> string \<Rightarrow> withdrawal ltx" where
  "CancelWithdrawal env ID eventID0 =
     tx_bind (default_event_id env eventID0)
       (finalizeWithdrawal env ID WithdrawalCanceled EventWithdrawalCanceled)"

section \<open>Reservations\<close>

definition GetReservation :: "db \<Rightarrow> string \<Rightarrow> reservation option" where
  "GetReservation d ID = map_option modelToReservation (get_reservation d (trim_space ID))"

definition reservation_times :: "env \<Rightarrow> reservation \<Rightarrow> reservation" where
  "reservation_times env model =
     (let model = (if rv_CreatedAt model = 0 then model\<lparr>rv_CreatedAt := e_now env\<rparr> else model)
      in if rv_UpdatedAt model = 0 then model\<lparr>rv_UpdatedAt := rv_CreatedAt model\<rparr> else model)"

definition createReservation :: "env \<Rightarrow> reservation \<Rightarrow> unit ltx" where
  "createReservation env item d =
     (let model = item\<lparr>rv_ID := trim_space (rv_ID item), rv_UserID := trim_space (rv_UserID item),
            rv_Market := to_upper (trim_space (rv_Market item)), rv_Asset := to_upper (trim_space (rv_Asset item)),
            rv_ConsumedAmount := zeroIfEmpty (rv_ConsumedAmount item),
            rv_ReleasedAmount := zeroIfEmpty (rv_ReleasedAmount item),
            rv_OrderID := trim_space (rv_OrderID item), rv_CommandID := trim_space (rv_CommandID item)\<rparr>
      in if rv_ID model = [] \<or> rv_UserID model = [] \<or> rv_Market model = [] \<or> rv_Asset model = [] \<or>
           rv_OrderID model = [] then Inl ErrReservationIncomplete
      else if Cmp (rv_Amount model) ''0'' \<le> 0 \<or> Cmp (rv_RemainingAmount model) ''0'' \<le> 0
           then Inl ErrInsufficientBalance
      else
        let model = (if rv_Status model = ReservationStatusNone
                     then model\<lparr>rv_Status := ReservationStatusActive\<rparr> else model);
            model = reservation_times env model
        in if get_reservation d (rv_ID model) \<noteq> None \<or>
              row_exists rv_OrderID (rv_OrderID model) (db_reservations d) then Inl ErrDuplicateKey
           else Inr ((), put_reservation model d))"

definition reservationStatus :: "reservation \<Rightarrow> reservation_status" where
  "reservationStatus model =
     (if Cmp (rv_RemainingAmount model) ''0'' > 0 then ReservationStatusActive
      else if Cmp (rv_ConsumedAmount model) ''0'' > 0 \<and> Cmp (rv_ReleasedAmount model) ''0'' > 0
           then ReservationStatusClosed
      else if Cmp (rv_ConsumedAmount model) ''0'' > 0 then ReservationStatusConsumed
      else ReservationStatusReleased)"

definition applyReservationDelta :: "env \<Rightarrow> string \<Rightarrow> string \<Rightarrow> bool \<Rightarrow> unit ltx" where
  "applyReservationDelta env ID0 amt consume d =
     (let ID = trim_space ID0 in
      if ID = [] \<or> Cmp amt ''0'' \<le> 0 then Inr ((), d)
      else case get_reservation d ID of
        None \<Rightarrow> Inr ((), d)
      | Some model \<Rightarrow>
          if Cmp (rv_RemainingAmount model) amt < 0 then Inl ErrInsufficientBalance
          else
            let model = (if consume then model\<lparr>rv_ConsumedAmount := Add (rv_ConsumedAmount model) amt\<rparr>
                         else model\<lparr>rv_ReleasedAmount := Add (rv_ReleasedAmount model) amt\<rparr>);
                model = model\<lparr>rv_RemainingAmount := SubFloorZero (rv_RemainingAmount model) amt\<rparr>;
                model = model\<lparr>rv_Status := reservationStatus model, rv_UpdatedAt := e_now env\<rparr>
            in Inr ((), put_reservation model d))"

definition consumeReservation :: "env \<Rightarrow> string \<Rightarrow> string \<Rightarrow> unit ltx" where
  "consumeReservation env ID amt = applyReservationDelta env ID amt True"

definition releaseReservation :: "env \<Rightarrow> string \<Rightarrow> string \<Rightarrow> unit ltx" where
  "releaseReservation env ID amt = applyReservationDelta env ID amt False"

section \<open>Locked funds\<close>

definition orderReserveAssetAmount :: "order \<Rightarrow> string \<times> string" where
  "orderReserveAssetAmount item =
     (if o_Side item = SideBuy then (o_QuoteAsset item, Mul (o_Price item) (o_RemainingQuantity item))
      else (o_BaseAsset item, o_RemainingQuantity item))"

definition reservationIDForOrder :: "order \<Rightarrow> string" where
  "reservationIDForOrder item =
     (let value = trim_space (o_ReservationID item) in
      if value \<noteq> [] then value else if o_ID item \<noteq> [] then ''res_'' @ o_ID item else [])"

definition debitLocked :: "env \<Rightarrow> string \<Rightarrow> string \<Rightarrow> string \<Rightarrow> balance_event \<Rightarrow> unit ltx" where
  "debitLocked env userID asset amt event =
     tx_bind (balanceForUpdate env userID asset False) (\<lambda>model.
     tx_bind (fail_if (Cmp (b_Locked model) amt < 0) ErrInsufficientBalance) (\<lambda>_.
     tx_bind (saveBalance (model\<lparr>b_Locked := SubFloorZero (b_Locked model) amt, b_UpdatedAt := e_now env\<rparr>)) (\<lambda>_.
     tx_bind (default_event_id env (be_ID event)) (\<lambda>eventID.
     createBalanceEvent (event\<lparr>be_ID := eventID, be_Asset := asset, be_Amount := amt\<rparr>)))))"

definition addAvailableBalanceWithReservation ::
  "env \<Rightarrow> string \<Rightarrow> string \<Rightarrow> string \<Rightarrow> balance_event_type \<Rightarrow> string \<Rightarrow> string \<Rightarrow> string \<Rightarrow> time \<Rightarrow> unit ltx" where
  "addAvailableBalanceWithReservation env userID asset amt etype orderID reservationID tradeID createdAt0 =
     (let createdAt = (if createdAt0 = 0 then e_now env else createdAt0) in
     tx_bind (balanceForUpdate env userID asset True) (\<lambda>model.
     tx_bind (saveBalance (model\<lparr>b_Available := Add (b_Available model) amt, b_UpdatedAt := e_now env\<rparr>)) (\<lambda>_.
     tx_bind (new_id env ''bev'') (\<lambda>eventID.
     createBalanceEvent ((plain_event eventID userID asset etype amt createdAt)
       \<lparr>be_OrderID := orderID, be_ReservationID := reservationID, be_TradeID := tradeID\<rparr>)))))"

definition addAvailableBalance ::
  "env \<Rightarrow> string \<Rightarrow> string \<Rightarrow> string \<Rightarrow> balance_event_type \<Rightarrow> string \<Rightarrow> string \<Rightarrow> time \<Rightarrow> unit ltx" where
  "addAvailableBalance env userID asset amt etype orderID tradeID createdAt =
     addAvailableBalanceWithReservation env userID asset amt etype orderID [] tradeID createdAt"

definition moveLockedToAvailable :: "env \<Rightarrow> string \<Rightarrow> string \<Rightarrow> string \<Rightarrow> balance_event \<Rightarrow> unit ltx" where
  "moveLockedToAvailable env userID asset amt event =
     tx_bind (debitLocked env userID asset amt
       ((plain_event (be_ID event) userID asset EventRelease amt (be_CreatedAt event))
         \<lparr>be_OrderID := be_OrderID event, be_ReservationID := be_ReservationID event,
          be_TradeID := be_TradeID event\<rparr>)) (\<lambda>_.
     addAvailableBalanceWithReservation env userID asset amt EventRelease (be_OrderID event)
       (be_ReservationID event) (be_TradeID event) (be_CreatedAt event))"

section \<open>Reserving and releasing an order's funds\<close>

definition ReserveOrderFunds :: "env \<Rightarrow> order \<Rightarrow> string \<Rightarrow> unit ltx" where
  "ReserveOrderFunds env item eventID0 =
     tx_bind (default_event_id env eventID0) (\<lambda>eventID.
     let (asset, amt) = orderReserveAssetAmount item in
     if Cmp amt ''0'' \<le> 0 then tx_return () else
     let reservationID = reservationIDForOrder item in
     tx_bind (not_found_as ErrInsufficientBalance (balanceForUpdate env (o_UserID item) asset False)) (\<lambda>model.
     tx_bind (fail_if (Cmp (b_Available model) amt < 0) ErrInsufficientBalance) (\<lambda>_.
     tx_bind (saveBalance (model\<lparr>b_Available := SubFloorZero (b_Available model) amt,
         b_Locked := Add (b_Locked model) amt, b_UpdatedAt := e_now env\<rparr>)) (\<lambda>_.
     let now = e_now env in
     tx_bind (createReservation env
       \<lparr>rv_ID = reservationID, rv_UserID = o_UserID item, rv_Market = o_Market item, rv_Asset = asset,
        rv_Amount = amt, rv_ConsumedAmount = [], rv_ReleasedAmount = [], rv_RemainingAmount = amt,
        rv_Status = ReservationStatusActive, rv_OrderID = o_ID item, rv_CommandID = [],
        rv_CreatedAt = now, rv_UpdatedAt = now\<rparr>) (\<lambda>_.
     createBalanceEvent ((plain_event eventID (o_UserID item) asset EventReserve amt now)
       \<lparr>be_OrderID := o_ID item, be_ReservationID := reservationID\<rparr>))))))"

definition clampedReleaseAmount :: "env \<Rightarrow> string \<Rightarrow> string \<Rightarrow> string \<Rightarrow> string \<Rightarrow> string ltx" where
  "clampedReleaseAmount env userID asset reservationID requested d =
     (let amt = (if reservationID \<noteq> [] then
                   (case GetReservation d reservationID of
                      Some r \<Rightarrow>
                        if Cmp (rv_RemainingAmount r) ''0'' > 0 \<and> Cmp (rv_RemainingAmount r) requested < 0
                        then rv_RemainingAmount r else requested
                    | None \<Rightarrow> requested)
                 else requested)
      in case balanceForUpdate env userID asset False d of
           Inl ErrRecordNotFound \<Rightarrow> Inr (''0'', d)
         | Inl e \<Rightarrow> Inl e
         | Inr (bal, d') \<Rightarrow> Inr (if Cmp (b_Locked bal) amt < 0 then b_Locked bal else amt, d'))"

definition ReleaseOrderFunds :: "env \<Rightarrow> order \<Rightarrow> string \<Rightarrow> unit ltx" where
  "ReleaseOrderFunds env item eventID0 =
     tx_bind (default_event_id env eventID0) (\<lambda>eventID.
     let (asset, amt) = orderReserveAssetAmount item in
     if Cmp amt ''0'' \<le> 0 then tx_return () else
     let reservationID = reservationIDForOrder item in
     tx_bind (clampedReleaseAmount env (o_UserID item) asset reservationID amt) (\<lambda>amt.
     if Cmp amt ''0'' \<le> 0 then tx_return () else
     tx_bind (moveLockedToAvailable env (o_UserID item) asset amt
       ((plain_event eventID (o_UserID item) asset EventRelease amt (e_now env))
         \<lparr>be_OrderID := o_ID item, be_ReservationID := reservationID\<rparr>)) (\<lambda>_.
     releaseReservation env reservationID amt)))"

section \<open>Settlement\<close>

record settlement_plan =
  sp_Buyer :: order
  sp_Seller :: order
  sp_BuyerLockedQuote :: string
  sp_BuyerQuoteRelease :: string

definition settlementForTrade :: "trade \<Rightarrow> order \<Rightarrow> order \<Rightarrow> ledger_error + settlement_plan" where
  "settlementForTrade item maker taker =
     (let buyer = (if t_TakerSide item = SideBuy then taker else maker);
          seller = (if t_TakerSide item = SideBuy then maker else taker) in
      if o_ID buyer = [] \<or> o_ID seller = [] then Inl ErrInvalidSettlement
      else if Cmp (t_Quantity item) ''0'' \<le> 0 then Inl ErrInvalidSettlement
      else if Cmp (t_QuoteQuantity item) ''0'' \<le> 0 then Inl ErrInvalidSettlement
      else if Cmp (o_Price buyer) ''0'' \<le> 0 then Inl ErrInvalidSettlement
      else
        let buyerLockedQuote = Mul (t_Quantity item) (o_Price buyer) in
        if Cmp buyerLockedQuote ''0'' \<le> 0 then Inl ErrInvalidSettlement
        else if Cmp (t_QuoteQuantity item) buyerLockedQuote > 0 then Inl ErrInvalidSettlement
        else Inr \<lparr>sp_Buyer = buyer, sp_Seller = seller, sp_BuyerLockedQuote = buyerLockedQuote,
                  sp_BuyerQuoteRelease = SubFloorZero buyerLockedQuote (t_QuoteQuantity item)\<rparr>)"

definition lift_result :: "ledger_error + 'a \<Rightarrow> 'a ltx" where
  "lift_result r = (case r of Inl e \<Rightarrow> tx_fail e | Inr x \<Rightarrow> tx_return x)"

definition refund_buyer :: "env \<Rightarrow> trade \<Rightarrow> settlement_plan \<Rightarrow> unit ltx" where
  "refund_buyer env item plan =
     (let buyer = sp_Buyer plan; buyerRes = reservationIDForOrder buyer in
      if Cmp (sp_BuyerQuoteRelease plan) ''0'' > 0 then
        tx_bind (addAvailableBalanceWithReservation env (o_UserID buyer) (t_QuoteAsset item)
           (sp_BuyerQuoteRelease plan) EventRelease (o_ID buyer) buyerRes (t_ID item) (t_CreatedAt item)) (\<lambda>_.
        releaseReservation env buyerRes (sp_BuyerQuoteRelease plan))
      else tx_return ())"

definition settleTrade :: "env \<Rightarrow> trade \<Rightarrow> order \<Rightarrow> order \<Rightarrow> unit ltx" where
  "settleTrade env item maker taker =
     tx_bind (lift_result (settlementForTrade item maker taker)) (\<lambda>plan.
     let buyer = sp_Buyer plan; seller = sp_Seller plan;
         buyerRes = reservationIDForOrder buyer; sellerRes = reservationIDForOrder seller in
     tx_bind (debitLocked env (o_UserID buyer) (t_QuoteAsset item) (sp_BuyerLockedQuote plan)
       ((plain_event [] (o_UserID buyer) (t_QuoteAsset item) EventDebitLocked (sp_BuyerLockedQuote plan)
          (t_CreatedAt item))\<lparr>be_OrderID := o_ID buyer, be_ReservationID := buyerRes, be_TradeID := t_ID item\<rparr>)) (\<lambda>_.
     tx_bind (consumeReservation env buyerRes (t_QuoteQuantity item)) (\<lambda>_.
     tx_bind (refund_buyer env item plan) (\<lambda>_.
     tx_bind (addAvailableBalance env (o_UserID buyer) (t_BaseAsset item) (t_Quantity item)
       EventSettlementReceive (o_ID buyer) (t_ID item) (t_CreatedAt item)) (\<lambda>_.
     tx_bind (debitLocked env (o_UserID seller) (t_BaseAsset item) (t_Quantity item)
       ((plain_event [] (o_UserID seller) (t_BaseAsset item) EventDebitLocked (t_Quantity item)
          (t_CreatedAt item))\<lparr>be_OrderID := o_ID seller, be_ReservationID := sellerRes, be_TradeID := t_ID item\<rparr>)) (\<lambda>_.
     tx_bind (consumeReservation env sellerRes (t_Quantity item)) (\<lambda>_.
     addAvailableBalance env (o_UserID seller) (t_QuoteAsset item) (t_QuoteQuantity item)
       EventSettlementReceive (o_ID seller) (t_ID item) (t_CreatedAt item))))))))"

definition getOrder :: "db \<Rightarrow> string \<Rightarrow> order option" where
  "getOrder d ID = row_find o_ID ID (db_orders d)"

definition find_order :: "string \<Rightarrow> order ltx" where
  "find_order ID d = (case getOrder d ID of None \<Rightarrow> Inl ErrRecordNotFound | Some x \<Rightarrow> Inr (x, d))"

definition FindOrderByClientID :: "db \<Rightarrow> string \<Rightarrow> string \<Rightarrow> order option" where
  "FindOrderByClientID d userID clientOrderID =
     find (\<lambda>x. o_UserID x = userID \<and> o_ClientOrderID x = clientOrderID) (db_orders d)"

definition SettleTrades :: "env \<Rightarrow> trade list \<Rightarrow> unit ltx" where
  "SettleTrades env items =
     tx_each (\<lambda>item.
       tx_bind (find_order (t_MakerOrderID item)) (\<lambda>maker.
       tx_bind (find_order (t_TakerOrderID item)) (\<lambda>taker.
       settleTrade env item maker taker))) items"

end
