(* ===== verification/LedgerPostings.thy ===== *)
theory LedgerPostings
  imports Ledger
begin

text \<open>
  The abstract ledger: an account is three rational amounts (available, locked, pending) per user
  and asset, and an operation is a list of postings, each adding to one account.
  \<open>posted d ps d'\<close> says that the tables of \<open>d'\<close> are those of \<open>d\<close> after the postings \<open>ps\<close>: every
  account and the total of every asset moved by exactly the postings, and all balances stayed
  non-negative amounts. The operations of \<^verbatim>\<open>Ledger\<close> refine their postings.
\<close>

section \<open>Accounts\<close>

definition avail :: "db \<Rightarrow> string \<times> string \<Rightarrow> rat" where
  "avail d k = (case get_balance d k of None \<Rightarrow> 0 | Some b \<Rightarrow> Parse (b_Available b))"

definition locked :: "db \<Rightarrow> string \<times> string \<Rightarrow> rat" where
  "locked d k = (case get_balance d k of None \<Rightarrow> 0 | Some b \<Rightarrow> Parse (b_Locked b))"

definition pending :: "db \<Rightarrow> string \<times> string \<Rightarrow> rat" where
  "pending d k = (case get_balance d k of None \<Rightarrow> 0 | Some b \<Rightarrow> Parse (b_Pending b))"

definition bal_value :: "string \<Rightarrow> balance \<Rightarrow> rat" where
  "bal_value a b =
     (if b_Asset b = a then Parse (b_Available b) + Parse (b_Locked b) + Parse (b_Pending b) else 0)"

definition asset_total :: "string \<Rightarrow> db \<Rightarrow> rat" where
  "asset_total a d = sum_balances (bal_value a) d"

definition good_amount :: "string \<Rightarrow> bool" where
  "good_amount s \<longleftrightarrow> amount s \<and> 0 \<le> Parse s"

definition bal_ok :: "balance \<Rightarrow> bool" where
  "bal_ok b \<longleftrightarrow> good_amount (b_Available b) \<and> good_amount (b_Locked b) \<and> good_amount (b_Pending b)"

definition balances_ok :: "db \<Rightarrow> bool" where
  "balances_ok d \<longleftrightarrow> list_all bal_ok (db_balances d)"

lemma good_amount_0 [simp]: "good_amount ''0''"
  by (simp add: good_amount_def Parse_0)

lemma good_amount_Add: "good_amount a \<Longrightarrow> good_amount b \<Longrightarrow> good_amount (Add a b)"
  by (simp add: good_amount_def Parse_Add)

lemma good_amount_Sub: "good_amount a \<Longrightarrow> good_amount b \<Longrightarrow> good_amount (SubFloorZero a b)"
  by (simp add: good_amount_def Parse_SubFloorZero)

lemma good_amount_Mul: "good_amount a \<Longrightarrow> good_amount b \<Longrightarrow> good_amount (Mul a b)"
  by (simp add: good_amount_def Parse_Mul_nonneg)

lemma Parse_Add_good: "good_amount a \<Longrightarrow> good_amount b \<Longrightarrow> Parse (Add a b) = Parse a + Parse b"
  by (simp add: good_amount_def Parse_Add)

lemma Parse_Sub_good:
  "good_amount a \<Longrightarrow> good_amount b \<Longrightarrow> Parse b \<le> Parse a \<Longrightarrow> Parse (SubFloorZero a b) = Parse a - Parse b"
  by (simp add: good_amount_def Parse_SubFloorZero)

lemmas good_amounts = good_amount_Add good_amount_Sub good_amount_Mul Parse_Add_good Parse_Sub_good

lemma balances_okD: "balances_ok d \<Longrightarrow> get_balance d k = Some b \<Longrightarrow> bal_ok b"
  by (auto simp: balances_ok_def get_balance_def list_all_iff dest: row_find_key)

lemma balances_ok_put: "balances_ok d \<Longrightarrow> bal_ok b \<Longrightarrow> balances_ok (put_balance b d)"
  by (auto simp: balances_ok_def put_balance_def list_all_iff dest: set_row_save)

lemma balances_ok_empty [simp]: "balances_ok empty_db"
  by (simp add: balances_ok_def empty_db_def)

section \<open>Postings\<close>

record posting =
  po_key :: "string \<times> string"
  po_avail :: rat
  po_locked :: rat
  po_pending :: rat

abbreviation post :: "string \<times> string \<Rightarrow> rat \<Rightarrow> rat \<Rightarrow> rat \<Rightarrow> posting" where
  "post k a l p \<equiv> \<lparr>po_key = k, po_avail = a, po_locked = l, po_pending = p\<rparr>"

fun moved :: "(posting \<Rightarrow> rat) \<Rightarrow> string \<times> string \<Rightarrow> posting list \<Rightarrow> rat" where
  "moved f k [] = 0"
| "moved f k (p # ps) = (if po_key p = k then f p else 0) + moved f k ps"

fun moved_total :: "string \<Rightarrow> posting list \<Rightarrow> rat" where
  "moved_total a [] = 0"
| "moved_total a (p # ps) =
     (if snd (po_key p) = a then po_avail p + po_locked p + po_pending p else 0) + moved_total a ps"

definition posted :: "db \<Rightarrow> posting list \<Rightarrow> db \<Rightarrow> bool" where
  "posted d ps d' \<longleftrightarrow> balances_ok d' \<and>
     (\<forall>k. avail d' k = avail d k + moved po_avail k ps \<and> locked d' k = locked d k + moved po_locked k ps \<and>
          pending d' k = pending d k + moved po_pending k ps) \<and>
     (\<forall>a. asset_total a d' = asset_total a d + moved_total a ps)"

text \<open>The tables other than the balances, their events and the identifier counter.\<close>

definition same_rest :: "db \<Rightarrow> db \<Rightarrow> bool" where
  "same_rest d d' \<longleftrightarrow>
     d' = d\<lparr>db_balances := db_balances d', db_balance_events := db_balance_events d', db_ids := db_ids d'\<rparr>"

lemma moved_append [simp]: "moved f k (ps @ qs) = moved f k ps + moved f k qs"
  by (induction ps) auto

lemma moved_total_append [simp]: "moved_total a (ps @ qs) = moved_total a ps + moved_total a qs"
  by (induction ps) auto

lemma posted_trans: "posted d ps d1 \<Longrightarrow> posted d1 qs d2 \<Longrightarrow> posted d (ps @ qs) d2"
  by (simp add: posted_def)

lemma posted_refl: "balances_ok d \<Longrightarrow> posted d [] d"
  by (simp add: posted_def)

lemma posted_ok: "posted d ps d' \<Longrightarrow> balances_ok d'"
  by (simp add: posted_def)

lemma posted_total: "posted d ps d' \<Longrightarrow> asset_total a d' = asset_total a d + moved_total a ps"
  by (simp add: posted_def)

lemma same_rest_refl [simp]: "same_rest d d"
  by (simp add: same_rest_def)

lemma same_rest_trans: "same_rest d d1 \<Longrightarrow> same_rest d1 d2 \<Longrightarrow> same_rest d d2"
  unfolding same_rest_def by (cases d, cases d1, cases d2) simp

lemma same_rest_fields:
  "same_rest d d' \<Longrightarrow> get_reservation d' = get_reservation d \<and> sum_reservations v d' = sum_reservations v d \<and>
    get_withdrawal d' = get_withdrawal d \<and> db_orders d' = db_orders d \<and> db_reservations d' = db_reservations d"
  unfolding same_rest_def
  by (cases d, cases d') (simp add: get_reservation_def sum_reservations_def get_withdrawal_def fun_eq_iff)

text \<open>The parts of the state the views do not read.\<close>

lemma views_cong:
  "db_balances d' = db_balances d \<Longrightarrow>
    get_balance d' = get_balance d \<and> avail d' = avail d \<and> locked d' = locked d \<and> pending d' = pending d \<and>
    asset_total a d' = asset_total a d \<and> balances_ok d' = balances_ok d"
  by (simp add: get_balance_def avail_def locked_def pending_def asset_total_def sum_balances_def
      balances_ok_def fun_eq_iff)

lemma posted_cong:
  "db_balances d1 = db_balances d2 \<Longrightarrow> posted d ps d1 \<longleftrightarrow> posted d ps d2"
  using views_cong [of d1 d2] by (simp add: posted_def)

lemma posted_unchanged: "balances_ok d \<Longrightarrow> db_balances d' = db_balances d \<Longrightarrow> posted d [] d'"
  using posted_cong posted_refl by metis

section \<open>The effect of the row operations\<close>

lemma new_id_effect:
  "new_id env p d = Inr (i, d') \<Longrightarrow> db_balances d' = db_balances d \<and> same_rest d d' \<and> db_ids d \<le> db_ids d'"
  by (auto simp: new_id_def same_rest_def)

lemma default_event_id_effect:
  "default_event_id env e d = Inr (i, d') \<Longrightarrow> db_balances d' = db_balances d \<and> same_rest d d'"
  by (auto simp: default_event_id_def dest: new_id_effect split: if_splits)

lemma createBalanceEvent_effect:
  "createBalanceEvent e d = Inr (u, d') \<Longrightarrow> db_balances d' = db_balances d \<and> same_rest d d'"
  by (auto simp: createBalanceEvent_def same_rest_def split: if_splits)

lemma fail_if_Inr_iff [simp]: "fail_if c e d = Inr r \<longleftrightarrow> \<not> c \<and> r = ((), d)"
  by (auto simp: fail_if_def)

lemma not_found_as_Inr_iff [simp]: "not_found_as e m d = Inr r \<longleftrightarrow> m d = Inr r"
  by (auto simp: not_found_as_def split: sum.splits ledger_error.splits)

lemma lift_result_Inr_iff [simp]: "lift_result r d = Inr q \<longleftrightarrow> (\<exists>x. r = Inr x \<and> q = (x, d))"
  by (auto simp: lift_result_def split: sum.splits)

lemma posted_save:
  assumes ok: "balances_ok d" and b: "get_balance d k = Some b" and b': "bal_ok b'" "bal_key b' = bal_key b"
  shows "posted d [post k (Parse (b_Available b') - Parse (b_Available b))
    (Parse (b_Locked b') - Parse (b_Locked b)) (Parse (b_Pending b') - Parse (b_Pending b))] (put_balance b' d)"
proof -
  have k: "bal_key b = k" using bal.get_key [OF b] .
  then have key: "bal_key b' = k" and ass: "b_Asset b' = b_Asset b" "b_Asset b = snd k"
    using b'(2) by (auto simp: bal_key_def)
  have "asset_total a (put_balance b' d) = asset_total a d + (bal_value a b' - bal_value a b)" for a
    unfolding asset_total_def by (rule bal.total_update) (simp add: key b)
  then show ?thesis
    using b ass balances_ok_put [OF ok b'(1)]
    by (auto simp: posted_def avail_def locked_def pending_def bal.get_put key bal_value_def)
qed

lemma balanceForUpdate_effect:
  assumes "balanceForUpdate env u a c d = Inr (b, d1)" and "balances_ok d"
  shows "posted d [] d1 \<and> same_rest d d1 \<and> get_balance d1 (account_key u a) = Some b \<and> bal_ok b \<and>
    (\<not> c \<longrightarrow> d1 = d)"
proof (cases "get_balance d (account_key u a)")
  case (Some b0)
  then show ?thesis
    using assms by (auto simp: balanceForUpdate_def posted_refl dest: balances_okD)
next
  case None
  let ?b = "\<lparr>b_UserID = trim_space u, b_Asset = to_upper (trim_space a),
    b_Available = ''0'', b_Locked = ''0'', b_Pending = ''0'', b_UpdatedAt = e_now env\<rparr>"
  have c: c "b = ?b" "d1 = put_balance ?b d"
    using None assms(1) by (auto simp: balanceForUpdate_def Let_def split: if_splits)
  have key: "bal_key ?b = account_key u a" by (simp add: bal_key_def account_key_def)
  have ok: "bal_ok ?b" by (simp add: bal_ok_def)
  have "asset_total x d1 = asset_total x d" for x
    unfolding asset_total_def c(3)
    by (subst bal.total_insert) (simp_all add: key None bal_value_def Parse_0 del: put_balance_frame)
  then have "posted d [] d1"
    using None balances_ok_put [OF assms(2) ok]
    by (auto simp: posted_def c avail_def locked_def pending_def bal.get_put key Parse_0)
  moreover have "same_rest d d1" by (simp add: c same_rest_def put_balance_def)
  ultimately show ?thesis using c ok bal.get_same [of ?b d] by (simp add: key)
qed

text \<open>Reading a balance, changing its amounts and saving it posts the difference.\<close>

lemma update_balance_effect:
  assumes "balanceForUpdate env u a c d = Inr (b, d1)" and "saveBalance b' d1 = Inr (v, d2)"
    and "balances_ok d" and "bal_ok b \<Longrightarrow> bal_ok b'" and "bal_key b' = bal_key b"
  shows "posted d [post (account_key u a) (Parse (b_Available b') - Parse (b_Available b))
    (Parse (b_Locked b') - Parse (b_Locked b)) (Parse (b_Pending b') - Parse (b_Pending b))] d2 \<and> same_rest d d2"
proof -
  have 1: "posted d [] d1" "same_rest d d1" "get_balance d1 (account_key u a) = Some b" "bal_ok b"
    using balanceForUpdate_effect [OF assms(1,3)] by auto
  have d2: "d2 = put_balance b' d1" using assms(2) by (simp add: saveBalance_def)
  have "same_rest d1 d2" by (simp add: d2 same_rest_def put_balance_def)
  then show ?thesis
    using posted_trans [OF 1(1) posted_save [OF posted_ok [OF 1(1)] 1(3) assms(4) [OF 1(4)] assms(5)]]
      same_rest_trans [OF 1(2)] d2 by simp
qed


lemma debitLocked_effect:
  assumes "debitLocked env u a amt e d = Inr (v, d')" and "balances_ok d" and "good_amount amt"
  shows "posted d [post (account_key u a) 0 (- Parse amt) 0] d' \<and> same_rest d d' \<and>
    Parse amt \<le> locked d (account_key u a)"
proof -
  obtain b d1 v2 d2 i d3 where 1: "balanceForUpdate env u a False d = Inr (b, d1)"
    and le: "\<not> Cmp (b_Locked b) amt < 0"
    and 2: "saveBalance (b\<lparr>b_Locked := SubFloorZero (b_Locked b) amt, b_UpdatedAt := e_now env\<rparr>) d1 = Inr (v2, d2)"
    and 3: "default_event_id env (be_ID e) d2 = Inr (i, d3)"
    and 4: "createBalanceEvent (e\<lparr>be_ID := i, be_Asset := a, be_Amount := amt\<rparr>) d3 = Inr (v, d')"
    using assms(1) by (auto simp: debitLocked_def tx_bind_Inr_iff)
  have le': "Parse amt \<le> Parse (b_Locked b)" using le by (simp add: dec_simps)
  have ok: "bal_ok b" "get_balance d (account_key u a) = Some b"
    using balanceForUpdate_effect [OF 1 assms(2)] by auto
  have "posted d [post (account_key u a) 0 (- Parse amt) 0] d2 \<and> same_rest d d2"
    using update_balance_effect [OF 1 2 assms(2)] le' ok assms(3)
    by (simp add: bal_ok_def bal_key_def good_amounts)
  then show ?thesis
    using default_event_id_effect [OF 3] createBalanceEvent_effect [OF 4] posted_cong [of d' d2] le' ok
    by (auto intro: same_rest_trans simp: locked_def)
qed

lemma addAvailable_effect:
  assumes "addAvailableBalanceWithReservation env u a amt ty oid rid tid t d = Inr (v, d')"
    and "balances_ok d" and "good_amount amt"
  shows "posted d [post (account_key u a) (Parse amt) 0 0] d' \<and> same_rest d d'"
proof -
  let ?b = "\<lambda>b. b\<lparr>b_Available := Add (b_Available b) amt, b_UpdatedAt := e_now env\<rparr>"
  obtain b d1 v2 d2 i d3 e where 1: "balanceForUpdate env u a True d = Inr (b, d1)"
    and 2: "saveBalance (?b b) d1 = Inr (v2, d2)"
    and 3: "new_id env ''bev'' d2 = Inr (i, d3)" and 4: "createBalanceEvent e d3 = Inr (v, d')"
    using assms(1) by (auto simp: addAvailableBalanceWithReservation_def tx_bind_Inr_iff Let_def)
  have ok: "bal_ok b" using balanceForUpdate_effect [OF 1 assms(2)] by auto
  have "posted d [post (account_key u a) (Parse amt) 0 0] d2 \<and> same_rest d d2"
    using update_balance_effect [OF 1 2 assms(2)] ok assms(3)
    by (simp add: bal_ok_def bal_key_def good_amounts)
  then show ?thesis
    using new_id_effect [OF 3] createBalanceEvent_effect [OF 4] posted_cong [of d' d2]
    by (auto intro: same_rest_trans)
qed

lemma addAvailableBalance_effect:
  assumes "addAvailableBalance env u a amt ty oid tid t d = Inr (v, d')"
    and "balances_ok d" and "good_amount amt"
  shows "posted d [post (account_key u a) (Parse amt) 0 0] d' \<and> same_rest d d'"
  using addAvailable_effect [OF assms(1) [unfolded addAvailableBalance_def] assms(2,3)] .

lemma moveLockedToAvailable_effect:
  assumes "moveLockedToAvailable env u a amt e d = Inr (v, d')" and "balances_ok d" and "good_amount amt"
  shows "posted d [post (account_key u a) 0 (- Parse amt) 0, post (account_key u a) (Parse amt) 0 0] d' \<and>
    same_rest d d' \<and> Parse amt \<le> locked d (account_key u a)"
proof -
  obtain v1 d1 e1 where 1: "debitLocked env u a amt e1 d = Inr (v1, d1)"
    and 2: "addAvailableBalanceWithReservation env u a amt EventRelease (be_OrderID e)
       (be_ReservationID e) (be_TradeID e) (be_CreatedAt e) d1 = Inr (v, d')"
    using assms(1) by (auto simp: moveLockedToAvailable_def tx_bind_Inr_iff)
  note a = debitLocked_effect [OF 1 assms(2,3)]
  note b = addAvailable_effect [OF 2 posted_ok assms(3)]
  show ?thesis using a b posted_trans same_rest_trans by fastforce
qed

section \<open>The effect on reservations\<close>

text \<open>A reservation's books balance: what was reserved is consumed, released or remaining.\<close>

definition res_ok :: "reservation \<Rightarrow> bool" where
  "res_ok r \<longleftrightarrow> good_amount (rv_Amount r) \<and> good_amount (rv_ConsumedAmount r) \<and>
     good_amount (rv_ReleasedAmount r) \<and> good_amount (rv_RemainingAmount r) \<and>
     Parse (rv_Amount r) = Parse (rv_ConsumedAmount r) + Parse (rv_ReleasedAmount r) + Parse (rv_RemainingAmount r) \<and>
     rv_Status r = reservationStatus r"

definition reservations_ok :: "db \<Rightarrow> bool" where
  "reservations_ok d \<longleftrightarrow> list_all res_ok (db_reservations d)"

definition res_value :: "string \<times> string \<Rightarrow> reservation \<Rightarrow> rat" where
  "res_value k r = (if (rv_UserID r, rv_Asset r) = k then Parse (rv_RemainingAmount r) else 0)"

definition reserved :: "db \<Rightarrow> string \<times> string \<Rightarrow> rat" where
  "reserved d k = sum_reservations (res_value k) d"

text \<open>Everything locked on an account is what the reservations on it have left.\<close>

definition locks_backed :: "db \<Rightarrow> bool" where
  "locks_backed d \<longleftrightarrow> (\<forall>k. locked d k = reserved d k)"

definition remaining :: "db \<Rightarrow> string \<Rightarrow> rat" where
  "remaining d i = (case get_reservation d i of None \<Rightarrow> 0 | Some r \<Rightarrow> Parse (rv_RemainingAmount r))"

text \<open>The tables other than the reservations.\<close>

definition same_but_reservations :: "db \<Rightarrow> db \<Rightarrow> bool" where
  "same_but_reservations d d' \<longleftrightarrow> d' = d\<lparr>db_reservations := db_reservations d'\<rparr>"

lemma same_but_reservations_balances: "same_but_reservations d d' \<Longrightarrow> db_balances d' = db_balances d"
  unfolding same_but_reservations_def by (cases d, cases d') simp

lemma reservations_okD: "reservations_ok d \<Longrightarrow> get_reservation d i = Some r \<Longrightarrow> res_ok r"
  by (auto simp: reservations_ok_def get_reservation_def list_all_iff dest: row_find_key)

lemma reservations_ok_put: "reservations_ok d \<Longrightarrow> res_ok r \<Longrightarrow> reservations_ok (put_reservation r d)"
  by (auto simp: reservations_ok_def put_reservation_def list_all_iff dest: set_row_save)

lemma reservations_ok_cong: "same_rest d d' \<Longrightarrow> reservations_ok d' = reservations_ok d"
  using same_rest_fields by (simp add: reservations_ok_def)

lemma reserved_cong: "same_rest d d' \<Longrightarrow> reserved d' k = reserved d k"
  using same_rest_fields by (simp add: reserved_def)

lemma remaining_nonneg: "reservations_ok d \<Longrightarrow> 0 \<le> remaining d i"
  by (auto simp: remaining_def res_ok_def good_amount_def dest: reservations_okD split: option.splits)

lemma row_sum_nonneg: "(\<And>x. x \<in> set xs \<Longrightarrow> 0 \<le> v x) \<Longrightarrow> 0 \<le> row_sum v xs"
  by (induction xs) (auto simp: row_sum_def)

lemma row_sum_ge_member:
  "(\<And>x. x \<in> set xs \<Longrightarrow> 0 \<le> v x) \<Longrightarrow> y \<in> set xs \<Longrightarrow> v y \<le> row_sum v xs"
proof (induction xs)
  case (Cons x xs)
  have "0 \<le> row_sum v xs" using Cons.prems by (intro row_sum_nonneg) auto
  moreover have "0 \<le> v x" using Cons.prems(1) [of x] by simp
  moreover have "v y \<le> row_sum v xs" if "y \<in> set xs" using Cons that by simp
  ultimately show ?case using Cons.prems(2) by (fastforce simp: row_sum_def)
qed simp

lemma remaining_le_reserved:
  assumes "reservations_ok d" and "get_reservation d i = Some r"
  shows "Parse (rv_RemainingAmount r) \<le> reserved d (rv_UserID r, rv_Asset r)"
proof -
  have r: "r \<in> set (db_reservations d)" using assms(2) by (auto simp: get_reservation_def dest: row_find_key)
  have "0 \<le> res_value k x" if "x \<in> set (db_reservations d)" for x k
    using assms(1) that by (auto simp: reservations_ok_def list_all_iff res_value_def res_ok_def good_amount_def)
  from row_sum_ge_member [of _ "res_value (rv_UserID r, rv_Asset r)", OF this r]
  show ?thesis by (simp add: reserved_def sum_reservations_def res_value_def)
qed

lemma applyReservationDelta_effect:
  assumes a: "applyReservationDelta env i amt c d = Inr (u, d')" and ok: "reservations_ok d"
    and amt: "good_amount amt" and r: "get_reservation d (trim_space i) = Some r" and i: "trim_space i \<noteq> []"
  shows "reservations_ok d' \<and> same_but_reservations d d' \<and> Parse amt \<le> Parse (rv_RemainingAmount r) \<and>
    (\<forall>k. reserved d' k = reserved d k - (if (rv_UserID r, rv_Asset r) = k then Parse amt else 0)) \<and>
    (\<exists>r'. get_reservation d' (trim_space i) = Some r' \<and> rv_UserID r' = rv_UserID r \<and> rv_Asset r' = rv_Asset r \<and>
      Parse (rv_RemainingAmount r') = Parse (rv_RemainingAmount r) - Parse amt \<and>
      Parse (rv_ConsumedAmount r') = Parse (rv_ConsumedAmount r) + (if c then Parse amt else 0) \<and>
      Parse (rv_ReleasedAmount r') = Parse (rv_ReleasedAmount r) + (if c then 0 else Parse amt)) \<and>
    (\<forall>j. j \<noteq> trim_space i \<longrightarrow> get_reservation d' j = get_reservation d j)"
proof (cases "Parse amt = 0")
  case True
  then have "d' = d" using a by (auto simp: applyReservationDelta_def dec_simps)
  moreover have "0 \<le> Parse (rv_RemainingAmount r)"
    using reservations_okD [OF ok r] by (simp add: res_ok_def good_amount_def)
  ultimately show ?thesis using True ok r by (simp add: same_but_reservations_def)
next
  case False
  then have pos: "\<not> Parse amt \<le> 0" using amt by (simp add: good_amount_def)
  let ?r1 = "if c then r\<lparr>rv_ConsumedAmount := Add (rv_ConsumedAmount r) amt\<rparr>
     else r\<lparr>rv_ReleasedAmount := Add (rv_ReleasedAmount r) amt\<rparr>"
  let ?r2 = "?r1\<lparr>rv_RemainingAmount := SubFloorZero (rv_RemainingAmount ?r1) amt\<rparr>"
  let ?r = "?r2\<lparr>rv_Status := reservationStatus ?r2, rv_UpdatedAt := e_now env\<rparr>"
  have le: "Parse amt \<le> Parse (rv_RemainingAmount r)" and d': "d' = put_reservation ?r d"
    using a pos r i by (auto simp: applyReservationDelta_def Let_def dec_simps split: if_splits)
  have id: "rv_ID r = trim_space i" using res.get_key [OF r] .
  have idr: "rv_ID ?r = trim_space i" by (cases c) (simp_all add: id)
  have st: "reservationStatus (x\<lparr>rv_Status := s, rv_UpdatedAt := t\<rparr>) = reservationStatus x" for x s t
    by (simp add: reservationStatus_def)
  have rok: "res_ok ?r"
    using reservations_okD [OF ok r] amt le unfolding res_ok_def st by (simp add: good_amounts)
  have "reserved d' k = reserved d k + (res_value k ?r - res_value k r)" for k
    unfolding reserved_def d' by (rule res.total_update) (simp add: id r)
  then have res: "\<forall>k. reserved d' k = reserved d k - (if (rv_UserID r, rv_Asset r) = k then Parse amt else 0)"
    using reservations_okD [OF ok r] amt le by (simp add: res_value_def res_ok_def good_amounts)
  have "get_reservation d' (trim_space i) = Some ?r"
    using res.get_same [of ?r d] unfolding d' idr .
  then have "\<exists>r'. get_reservation d' (trim_space i) = Some r' \<and> rv_UserID r' = rv_UserID r \<and> rv_Asset r' = rv_Asset r \<and>
      Parse (rv_RemainingAmount r') = Parse (rv_RemainingAmount r) - Parse amt \<and>
      Parse (rv_ConsumedAmount r') = Parse (rv_ConsumedAmount r) + (if c then Parse amt else 0) \<and>
      Parse (rv_ReleasedAmount r') = Parse (rv_ReleasedAmount r) + (if c then 0 else Parse amt)"
    using reservations_okD [OF ok r] amt le by (intro exI [of _ ?r]) (simp add: res_ok_def good_amounts)
  moreover have "\<forall>j. j \<noteq> trim_space i \<longrightarrow> get_reservation d' j = get_reservation d j"
    by (simp add: d' res.get_other id)
  ultimately show ?thesis
    using res le reservations_ok_put [OF ok rok] by (simp add: d' same_but_reservations_def put_reservation_def)
qed

end
