(* ===== verification/LedgerEffects.thy ===== *)
theory LedgerEffects
  imports LedgerPostings
begin

text \<open>
  The postings of every ledger operation, and the audit identity: the total of an asset over all
  accounts equals the deposits minus the completed withdrawals that the balance events record.
\<close>

section \<open>The event log\<close>

definition event_net :: "string \<Rightarrow> balance_event \<Rightarrow> rat" where
  "event_net a e =
     (if be_Asset e = a then
        (case be_Type e of EventDepositPending \<Rightarrow> Parse (be_Amount e)
         | EventWithdrawalCompleted \<Rightarrow> - Parse (be_Amount e) | _ \<Rightarrow> 0)
      else 0)"

definition net_inflow :: "string \<Rightarrow> db \<Rightarrow> rat" where
  "net_inflow a d = row_sum (event_net a) (db_balance_events d)"

definition books_balance :: "db \<Rightarrow> bool" where
  "books_balance d \<longleftrightarrow> (\<forall>a. asset_total a d = net_inflow a d)"

definition internal :: "balance_event_type \<Rightarrow> bool" where
  "internal ty \<longleftrightarrow> ty \<noteq> EventDepositPending \<and> ty \<noteq> EventWithdrawalCompleted"

lemma net_inflow_cong: "db_balance_events d' = db_balance_events d \<Longrightarrow> net_inflow a d' = net_inflow a d"
  by (simp add: net_inflow_def)

lemma createBalanceEvent_net:
  "createBalanceEvent e d = Inr (u, d') \<Longrightarrow>
    net_inflow a d' = net_inflow a d + event_net a (e\<lparr>be_Asset := to_upper (trim_space (be_Asset e))\<rparr>)"
  by (auto simp: createBalanceEvent_def net_inflow_def row_sum_def split: if_splits)

lemma event_net_internal: "internal (be_Type e) \<Longrightarrow> event_net a e = 0"
  by (auto simp: event_net_def internal_def split: balance_event_type.splits)

lemma createBalanceEvent_internal:
  "createBalanceEvent e d = Inr (u, d') \<Longrightarrow> internal (be_Type e) \<Longrightarrow> net_inflow a d' = net_inflow a d"
  by (simp add: createBalanceEvent_net event_net_internal)

lemma default_event_id_net: "default_event_id env e d = Inr (i, d') \<Longrightarrow> net_inflow a d' = net_inflow a d"
  by (auto simp: default_event_id_def new_id_def net_inflow_def split: if_splits)

lemma new_id_net: "new_id env e d = Inr (i, d') \<Longrightarrow> net_inflow a d' = net_inflow a d"
  by (auto simp: new_id_def net_inflow_def)

lemma balanceForUpdate_net: "balanceForUpdate env u s c d = Inr (b, d') \<Longrightarrow> net_inflow a d' = net_inflow a d"
  by (auto simp: balanceForUpdate_def net_inflow_def Let_def split: option.splits if_splits)

lemma saveBalance_net: "saveBalance b d = Inr (u, d') \<Longrightarrow> net_inflow a d' = net_inflow a d"
  by (auto simp: saveBalance_def net_inflow_def)

lemma put_withdrawal_net [simp]: "net_inflow a (put_withdrawal w d) = net_inflow a d"
  by (simp add: put_withdrawal_def net_inflow_def)

lemma put_reservation_net [simp]: "net_inflow a (put_reservation w d) = net_inflow a d"
  by (simp add: net_inflow_def)

lemma applyReservationDelta_net:
  "applyReservationDelta env i amt c d = Inr (u, d') \<Longrightarrow> net_inflow a d' = net_inflow a d"
  by (auto simp: applyReservationDelta_def Let_def split: option.splits if_splits)

lemma createReservation_net:
  "createReservation env r d = Inr (u, d') \<Longrightarrow> net_inflow a d' = net_inflow a d"
  by (auto simp: createReservation_def Let_def split: if_splits)

lemmas op_nets = default_event_id_net new_id_net balanceForUpdate_net saveBalance_net
  applyReservationDelta_net createReservation_net createBalanceEvent_internal

lemma debitLocked_net:
  "debitLocked env u s amt e d = Inr (v, d') \<Longrightarrow> internal (be_Type e) \<Longrightarrow> net_inflow a d' = net_inflow a d"
  by (auto simp: debitLocked_def tx_bind_Inr_iff op_nets)

lemma addAvailable_net:
  "addAvailableBalanceWithReservation env u s amt ty oid rid tid t d = Inr (v, d') \<Longrightarrow> internal ty \<Longrightarrow>
    net_inflow a d' = net_inflow a d"
  by (auto simp: addAvailableBalanceWithReservation_def tx_bind_Inr_iff plain_event_def op_nets)

lemma moveLockedToAvailable_net:
  "moveLockedToAvailable env u s amt e d = Inr (v, d') \<Longrightarrow> net_inflow a d' = net_inflow a d"
  by (auto simp: moveLockedToAvailable_def tx_bind_Inr_iff plain_event_def internal_def
      debitLocked_net addAvailable_net)

section \<open>Deposits and withdrawals\<close>

lemma posted_then:
  "posted d ps d1 \<and> same_rest d d1 \<Longrightarrow> posted d1 qs d2 \<and> same_rest d1 d2 \<Longrightarrow>
    posted d (ps @ qs) d2 \<and> same_rest d d2"
  using posted_trans same_rest_trans by blast

lemma posted_event:
  "posted d ps d1 \<and> same_rest d d1 \<Longrightarrow> db_balances d2 = db_balances d1 \<and> same_rest d1 d2 \<Longrightarrow>
    posted d ps d2 \<and> same_rest d d2"
  using posted_cong same_rest_trans by blast

lemma posted_start:
  "balances_ok d \<Longrightarrow> db_balances d1 = db_balances d \<and> same_rest d d1 \<Longrightarrow> posted d [] d1 \<and> same_rest d d1"
  using posted_unchanged by blast

lemma MarkDepositPending_effect:
  assumes "MarkDepositPending env u s amt e d = Inr (r, d')" and "balances_ok d" and "good_amount amt"
  shows "posted d [post (account_key u s) 0 0 (Parse amt)] d' \<and> same_rest d d' \<and>
    net_inflow a d' = net_inflow a d + (if a = snd (account_key u s) then Parse amt else 0)"
proof -
  let ?b = "\<lambda>b. b\<lparr>b_Pending := Add (b_Pending b) amt, b_UpdatedAt := e_now env\<rparr>"
  obtain i d0 b d1 v2 d2 v3 where 0: "default_event_id env e d = Inr (i, d0)"
    and 1: "balanceForUpdate env u s True d0 = Inr (b, d1)" and 2: "saveBalance (?b b) d1 = Inr (v2, d2)"
    and 3: "createBalanceEvent (plain_event i u s EventDepositPending amt (e_now env)) d2 = Inr (v3, d')"
    using assms(1) by (auto simp: MarkDepositPending_def tx_bind_Inr_iff Let_def)
  have p0: "posted d [] d0" "same_rest d d0"
    using default_event_id_effect [OF 0] posted_unchanged [OF assms(2)] by auto
  have ok: "bal_ok b" using balanceForUpdate_effect [OF 1 posted_ok [OF p0(1)]] by auto
  have st: "posted d0 [post (account_key u s) 0 0 (Parse amt)] d2 \<and> same_rest d0 d2"
    using update_balance_effect [OF 1 2 posted_ok [OF p0(1)]] ok assms(3)
    by (simp add: bal_ok_def bal_key_def good_amounts)
  have "posted d [post (account_key u s) 0 0 (Parse amt)] d' \<and> same_rest d d'"
    using posted_event [OF posted_then [OF posted_start [OF assms(2) default_event_id_effect [OF 0]] st]
        createBalanceEvent_effect [OF 3]] by simp
  moreover have "net_inflow a d' = net_inflow a d + (if a = snd (account_key u s) then Parse amt else 0)"
    using createBalanceEvent_net [OF 3] 0 1 2
    by (simp add: op_nets plain_event_def event_net_def account_key_def)
  ultimately show ?thesis by blast
qed

lemma SettleDeposit_effect:
  assumes "SettleDeposit env u s amt e d = Inr (r, d')" and "balances_ok d" and "good_amount amt"
  shows "posted d [post (account_key u s) (Parse amt) 0 (- Parse amt)] d' \<and> same_rest d d' \<and>
    net_inflow a d' = net_inflow a d \<and> Parse amt \<le> pending d (account_key u s)"
proof -
  let ?b = "\<lambda>b. b\<lparr>b_Pending := SubFloorZero (b_Pending b) amt, b_Available := Add (b_Available b) amt,
    b_UpdatedAt := e_now env\<rparr>"
  obtain i d0 b d1 v2 d2 v3 where 0: "default_event_id env e d = Inr (i, d0)"
    and 1: "balanceForUpdate env u s False d0 = Inr (b, d1)" and le: "\<not> Cmp (b_Pending b) amt < 0"
    and 2: "saveBalance (?b b) d1 = Inr (v2, d2)"
    and 3: "createBalanceEvent (plain_event i u s EventDepositSettled amt (e_now env)) d2 = Inr (v3, d')"
    using assms(1) by (auto simp: SettleDeposit_def tx_bind_Inr_iff Let_def)
  have p0: "posted d [] d0" "same_rest d d0" "db_balances d0 = db_balances d"
    using default_event_id_effect [OF 0] posted_unchanged [OF assms(2)] by auto
  have ok: "bal_ok b" "get_balance d0 (account_key u s) = Some b"
    using balanceForUpdate_effect [OF 1 posted_ok [OF p0(1)]] by auto
  have le': "Parse amt \<le> Parse (b_Pending b)" using le by (simp add: dec_simps)
  have st: "posted d0 [post (account_key u s) (Parse amt) 0 (- Parse amt)] d2 \<and> same_rest d0 d2"
    using update_balance_effect [OF 1 2 posted_ok [OF p0(1)]] ok assms(3) le'
    by (simp add: bal_ok_def bal_key_def good_amounts)
  have "posted d [post (account_key u s) (Parse amt) 0 (- Parse amt)] d' \<and> same_rest d d'"
    using posted_event [OF posted_then [OF posted_start [OF assms(2) default_event_id_effect [OF 0]] st]
        createBalanceEvent_effect [OF 3]] by simp
  moreover have "net_inflow a d' = net_inflow a d"
    using createBalanceEvent_internal [OF 3] 0 1 2 by (simp add: op_nets plain_event_def internal_def)
  moreover have "get_balance d (account_key u s) = Some b" using ok(2) views_cong [OF p0(3)] by simp
  ultimately show ?thesis using le' by (simp add: pending_def)
qed


text \<open>The withdrawal rows: their amounts are good, and a finished one never changes again.\<close>

definition withdrawals_ok :: "db \<Rightarrow> bool" where
  "withdrawals_ok d \<longleftrightarrow> list_all (\<lambda>w. good_amount (wd_Amount w)) (db_withdrawals d)"

lemma withdrawals_okD: "withdrawals_ok d \<Longrightarrow> get_withdrawal d i = Some w \<Longrightarrow> good_amount (wd_Amount w)"
  by (auto simp: withdrawals_ok_def get_withdrawal_def list_all_iff dest: row_find_key)

lemma withdrawals_ok_put: "withdrawals_ok d \<Longrightarrow> good_amount (wd_Amount w) \<Longrightarrow> withdrawals_ok (put_withdrawal w d)"
  by (auto simp: withdrawals_ok_def put_withdrawal_def list_all_iff dest: set_row_save)

definition same_but_withdrawals :: "db \<Rightarrow> db \<Rightarrow> bool" where
  "same_but_withdrawals d d' \<longleftrightarrow>
     d' = d\<lparr>db_balances := db_balances d', db_balance_events := db_balance_events d', db_ids := db_ids d',
            db_withdrawals := db_withdrawals d'\<rparr>"

lemma same_rest_withdrawal:
  "same_rest d d1 \<Longrightarrow> same_rest (put_withdrawal w d1) d2 \<Longrightarrow>
    same_but_withdrawals d d2 \<and> db_withdrawals d2 = db_withdrawals (put_withdrawal w d)"
  unfolding same_rest_def same_but_withdrawals_def put_withdrawal_def
  by (cases d, cases d1, cases d2) simp

lemma put_withdrawal_balances: "db_balances (put_withdrawal w d) = db_balances d"
  by (simp add: put_withdrawal_def)

lemma get_withdrawal_cong: "db_withdrawals d = db_withdrawals d' \<Longrightarrow> get_withdrawal d = get_withdrawal d'"
  by (simp add: get_withdrawal_def fun_eq_iff)

lemma RequestWithdrawal_effect:
  assumes "RequestWithdrawal env w e d = Inr (r, d')" and "balances_ok d" and "good_amount (wd_Amount w)"
  defines "k \<equiv> account_key (wd_UserID w) (wd_Asset w)"
  shows "posted d [post k (- Parse (wd_Amount w)) 0 (Parse (wd_Amount w))] d' \<and> same_but_withdrawals d d' \<and>
    net_inflow a d' = net_inflow a d \<and> Parse (wd_Amount w) \<le> avail d k \<and>
    get_withdrawal d (wd_ID w) = None \<and> db_withdrawals d' = db_withdrawals (put_withdrawal r d) \<and>
    wd_ID r = wd_ID w \<and> wd_Status r = WithdrawalRequested \<and> wd_Amount r = wd_Amount w \<and>
    (wd_UserID r, wd_Asset r) = k"
proof -
  let ?w = "(withdrawalToModel w)\<lparr>wd_Status := WithdrawalRequested, wd_CreatedAt := e_now env, wd_UpdatedAt := e_now env\<rparr>"
  let ?b = "\<lambda>b. b\<lparr>b_Available := SubFloorZero (b_Available b) (wd_Amount w),
    b_Pending := Add (b_Pending b) (wd_Amount w), b_UpdatedAt := e_now env\<rparr>"
  obtain i d0 b d1 v2 d2 v3 d3 v4 where 0: "default_event_id env e d = Inr (i, d0)"
    and 1: "balanceForUpdate env (wd_UserID w) (wd_Asset w) False d0 = Inr (b, d1)"
    and le: "\<not> Cmp (b_Available b) (wd_Amount w) < 0"
    and 2: "saveBalance (?b b) d1 = Inr (v2, d2)"
    and 3: "create_withdrawal ?w d2 = Inr (v3, d3)"
    and 4: "createBalanceEvent ((plain_event i (wd_UserID w) (wd_Asset w) EventWithdrawalRequested (wd_Amount w)
      (e_now env))\<lparr>be_WithdrawalID := wd_ID w\<rparr>) d3 = Inr (v4, d')" and r: "r = ?w"
    using assms(1) by (auto simp: RequestWithdrawal_def tx_bind_Inr_iff Let_def)
  note s0 = posted_start [OF assms(2) default_event_id_effect [OF 0]]
  have ok: "bal_ok b" "get_balance d0 k = Some b"
    using balanceForUpdate_effect [OF 1] s0 posted_ok k_def by auto
  have le': "Parse (wd_Amount w) \<le> Parse (b_Available b)" using le by (simp add: dec_simps)
  have st: "posted d0 [post k (- Parse (wd_Amount w)) 0 (Parse (wd_Amount w))] d2 \<and> same_rest d0 d2"
    using update_balance_effect [OF 1 2 posted_ok [OF conjunct1 [OF s0]]] ok assms(3) le'
    by (simp add: bal_ok_def bal_key_def good_amounts k_def)
  have id: "wd_ID ?w = wd_ID w" by (simp add: withdrawalToModel_def)
  have d3: "d3 = put_withdrawal ?w d2" "get_withdrawal d2 (wd_ID w) = None"
    using 3 id by (auto simp: create_withdrawal_def split: option.splits)
  note fin = createBalanceEvent_effect [OF 4]
  have sr: "same_rest d d2" using posted_then [OF s0 st] by simp
  have p: "posted d [post k (- Parse (wd_Amount w)) 0 (Parse (wd_Amount w))] d'"
    using posted_then [OF s0 st] posted_cong [of d' d2] fin d3 put_withdrawal_balances by simp
  have "same_but_withdrawals d d' \<and> db_withdrawals d' = db_withdrawals (put_withdrawal r d)"
    unfolding r by (rule same_rest_withdrawal [OF sr]) (use fin d3(1) in simp)
  moreover have "net_inflow a d' = net_inflow a d"
    using createBalanceEvent_internal [OF 4] 0 1 2 d3 by (simp add: op_nets plain_event_def internal_def)
  moreover have "get_balance d k = Some b" using ok(2) views_cong default_event_id_effect [OF 0] by metis
  moreover have "get_withdrawal d (wd_ID w) = None" using d3(2) same_rest_fields [OF sr] by simp
  moreover have "wd_Status r = WithdrawalRequested \<and> wd_Amount r = wd_Amount w \<and> (wd_UserID r, wd_Asset r) = k"
    by (simp add: r k_def withdrawalToModel_def account_key_def)
  ultimately show ?thesis using p le' id r by (simp add: avail_def)
qed


lemma find_withdrawal_Inr_iff [simp]:
  "find_withdrawal i d = Inr q \<longleftrightarrow> (\<exists>w. get_withdrawal d i = Some w \<and> q = (w, d))"
  by (auto simp: find_withdrawal_def split: option.splits)

lemma finalizeWithdrawal_effect:
  assumes "finalizeWithdrawal env i st ty e d = Inr (r, d')" and "balances_ok d" and "withdrawals_ok d"
    and "ty \<noteq> EventDepositPending"
  shows "\<exists>w. get_withdrawal d i = Some w \<and> wd_Status w = WithdrawalRequested \<and>
    (let k = account_key (wd_UserID w) (wd_Asset w); n = Parse (wd_Amount w) in
      posted d [post k (if st = WithdrawalCanceled then n else 0) 0 (- n)] d' \<and> n \<le> pending d k \<and>
      net_inflow (snd k) d' = net_inflow (snd k) d - (if ty = EventWithdrawalCompleted then n else 0) \<and>
      (\<forall>a. a \<noteq> snd k \<longrightarrow> net_inflow a d' = net_inflow a d)) \<and>
    r = w\<lparr>wd_Status := st, wd_UpdatedAt := e_now env\<rparr> \<and> same_but_withdrawals d d' \<and>
    db_withdrawals d' = db_withdrawals (put_withdrawal r d)"
proof -
  let ?b = "\<lambda>b w. (if st = WithdrawalCanceled
      then b\<lparr>b_Pending := SubFloorZero (b_Pending b) (wd_Amount w),
        b_Available := Add (b_Available (b\<lparr>b_Pending := SubFloorZero (b_Pending b) (wd_Amount w)\<rparr>)) (wd_Amount w)\<rparr>
      else b\<lparr>b_Pending := SubFloorZero (b_Pending b) (wd_Amount w)\<rparr>)\<lparr>b_UpdatedAt := e_now env\<rparr>"
  let ?w = "\<lambda>w. w\<lparr>wd_Status := st, wd_UpdatedAt := e_now env\<rparr>"
  obtain w b d1 v2 d2 v3 where w: "get_withdrawal d i = Some w" "wd_Status w = WithdrawalRequested"
    and 1: "balanceForUpdate env (wd_UserID w) (wd_Asset w) False d = Inr (b, d1)"
    and le: "\<not> Cmp (b_Pending b) (wd_Amount w) < 0"
    and 2: "saveBalance (?b b w) d1 = Inr (v2, d2)"
    and 3: "createBalanceEvent ((plain_event e (wd_UserID w) (wd_Asset w) ty (wd_Amount w)
      (e_now env))\<lparr>be_WithdrawalID := wd_ID w\<rparr>) (put_withdrawal (?w w) d2) = Inr (v3, d')" and r: "r = ?w w"
    using assms(1)
    by (auto simp: finalizeWithdrawal_def tx_bind_Inr_iff Let_def)
  let ?k = "account_key (wd_UserID w) (wd_Asset w)" let ?n = "Parse (wd_Amount w)"
  have ok: "bal_ok b" "get_balance d ?k = Some b"
    using balanceForUpdate_effect [OF 1 assms(2)] by auto
  have le': "?n \<le> Parse (b_Pending b)" using le by (simp add: dec_simps)
  have good: "good_amount (wd_Amount w)" using withdrawals_okD [OF assms(3) w(1)] .
  have st: "posted d [post ?k (if st = WithdrawalCanceled then ?n else 0) 0 (- ?n)] d2 \<and> same_rest d d2"
    using update_balance_effect [OF 1 2 assms(2)] ok good le'
    by (cases "st = WithdrawalCanceled") (simp_all add: bal_ok_def bal_key_def good_amounts)
  note fin = createBalanceEvent_effect [OF 3]
  have p: "posted d [post ?k (if st = WithdrawalCanceled then ?n else 0) 0 (- ?n)] d'"
    using conjunct1 [OF st] posted_cong [of d' d2] fin put_withdrawal_balances by metis
  have "same_but_withdrawals d d' \<and> db_withdrawals d' = db_withdrawals (put_withdrawal r d)"
    unfolding r by (rule same_rest_withdrawal [OF conjunct2 [OF st]]) (use fin in simp)
  moreover have "net_inflow a d' = net_inflow a d -
      (if a = snd ?k \<and> ty = EventWithdrawalCompleted then ?n else 0)" for a
    using createBalanceEvent_net [OF 3] 1 2 assms(4)
    by (auto simp: op_nets plain_event_def event_net_def account_key_def split: balance_event_type.splits)
  ultimately show ?thesis using w r p le' ok(2) by (auto simp: Let_def pending_def)
qed

section \<open>Order funds\<close>

lemma reservation_times_fields [simp]:
  "rv_ID (reservation_times env r) = rv_ID r" "rv_UserID (reservation_times env r) = rv_UserID r"
  "rv_Asset (reservation_times env r) = rv_Asset r" "rv_Amount (reservation_times env r) = rv_Amount r"
  "rv_ConsumedAmount (reservation_times env r) = rv_ConsumedAmount r"
  "rv_ReleasedAmount (reservation_times env r) = rv_ReleasedAmount r"
  "rv_RemainingAmount (reservation_times env r) = rv_RemainingAmount r"
  "rv_Status (reservation_times env r) = rv_Status r"
  "reservationStatus (reservation_times env r) = reservationStatus r"
  by (simp_all add: reservation_times_def Let_def reservationStatus_def)

lemma createReservation_effect:
  assumes a: "createReservation env r d = Inr (u, d')" and ok: "reservations_ok d"
    and amt: "good_amount (rv_Amount r)" and rest: "rv_RemainingAmount r = rv_Amount r" "rv_ConsumedAmount r = []"
      "rv_ReleasedAmount r = []" "rv_Status r = ReservationStatusActive"
  shows "reservations_ok d' \<and> same_but_reservations d d' \<and> 0 < Parse (rv_Amount r) \<and>
    get_reservation d (trim_space (rv_ID r)) = None \<and>
    (\<forall>k. reserved d' k = reserved d k + (if account_key (rv_UserID r) (rv_Asset r) = k then Parse (rv_Amount r) else 0)) \<and>
    (\<exists>r'. get_reservation d' (trim_space (rv_ID r)) = Some r' \<and>
      (rv_UserID r', rv_Asset r') = account_key (rv_UserID r) (rv_Asset r) \<and> rv_RemainingAmount r' = rv_Amount r)"
proof -
  let ?r = "r\<lparr>rv_ID := trim_space (rv_ID r), rv_UserID := trim_space (rv_UserID r),
            rv_Market := to_upper (trim_space (rv_Market r)), rv_Asset := to_upper (trim_space (rv_Asset r)),
            rv_ConsumedAmount := ''0'', rv_ReleasedAmount := ''0'',
            rv_OrderID := trim_space (rv_OrderID r), rv_CommandID := trim_space (rv_CommandID r)\<rparr>"
  let ?q = "reservation_times env ?r"
  have d': "d' = put_reservation ?q d" and new: "get_reservation d (trim_space (rv_ID r)) = None"
      and pos: "0 < Parse (rv_Amount r)"
    using a rest by (simp_all add: createReservation_def Let_def zeroIfEmpty_def dec_simps split: if_splits)
  have rok: "res_ok ?q"
    using amt pos rest by (simp add: res_ok_def reservationStatus_def dec_simps)
  have "reserved d' k = reserved d k + res_value k ?q" for k
    unfolding reserved_def d' by (rule res.total_insert) (simp add: new)
  then have "\<forall>k. reserved d' k = reserved d k +
      (if account_key (rv_UserID r) (rv_Asset r) = k then Parse (rv_Amount r) else 0)"
    using rest by (simp add: res_value_def account_key_def)
  moreover have "get_reservation d' (trim_space (rv_ID r)) = Some ?q"
    using res.get_same [of ?q d] by (simp add: d')
  ultimately show ?thesis
    using pos new reservations_ok_put [OF ok rok] rest
    by (simp add: d' same_but_reservations_def put_reservation_def account_key_def)
qed


text \<open>The tables an order's funds never touch.\<close>

definition same_but_funds :: "db \<Rightarrow> db \<Rightarrow> bool" where
  "same_but_funds d d' \<longleftrightarrow>
     d' = d\<lparr>db_balances := db_balances d', db_balance_events := db_balance_events d', db_ids := db_ids d',
            db_reservations := db_reservations d'\<rparr>"

lemma same_but_funds_refl [simp]: "same_but_funds d d"
  by (simp add: same_but_funds_def)

lemma same_but_funds_trans [trans]: "same_but_funds d d1 \<Longrightarrow> same_but_funds d1 d2 \<Longrightarrow> same_but_funds d d2"
  unfolding same_but_funds_def by (cases d, cases d1, cases d2) simp

lemma same_rest_funds: "same_rest d d' \<Longrightarrow> same_but_funds d d'"
  unfolding same_rest_def same_but_funds_def by (cases d, cases d') simp

lemma same_but_reservations_funds: "same_but_reservations d d' \<Longrightarrow> same_but_funds d d'"
  unfolding same_but_reservations_def same_but_funds_def by (cases d, cases d') simp

lemma same_but_funds_fields:
  "same_but_funds d d' \<Longrightarrow> db_withdrawals d' = db_withdrawals d \<and> db_orders d' = db_orders d \<and>
    db_active d' = db_active d \<and> db_levels d' = db_levels d"
  unfolding same_but_funds_def by (cases d, cases d') simp

text \<open>
  \<open>funds_step d ps d'\<close>: the postings \<open>ps\<close> were made, the reservations stayed well-formed, nothing
  flowed in or out, and no other table changed.
\<close>

definition funds_step :: "db \<Rightarrow> posting list \<Rightarrow> db \<Rightarrow> bool" where
  "funds_step d ps d' \<longleftrightarrow> posted d ps d' \<and> reservations_ok d' \<and> same_but_funds d d' \<and>
     (\<forall>a. net_inflow a d' = net_inflow a d)"

lemma funds_step_then: "funds_step d ps d1 \<Longrightarrow> funds_step d1 qs d2 \<Longrightarrow> funds_step d (ps @ qs) d2"
  unfolding funds_step_def using posted_trans same_but_funds_trans by metis

lemma funds_step_refl: "balances_ok d \<Longrightarrow> reservations_ok d \<Longrightarrow> funds_step d [] d"
  by (simp add: funds_step_def posted_refl)

lemma funds_step_ok: "funds_step d ps d' \<Longrightarrow> balances_ok d' \<and> reservations_ok d'"
  by (auto simp: funds_step_def posted_ok)

lemma funds_step_rest:
  "posted d ps d' \<and> same_rest d d' \<Longrightarrow> reservations_ok d \<Longrightarrow> (\<And>a. net_inflow a d' = net_inflow a d) \<Longrightarrow>
    funds_step d ps d'"
  unfolding funds_step_def using reservations_ok_cong same_rest_funds by blast

lemma funds_step_locked: "funds_step d ps d' \<Longrightarrow> locked d' k = locked d k + moved po_locked k ps"
  by (cases k) (simp add: funds_step_def posted_def)

lemma debitLocked_funds:
  assumes "debitLocked env u a amt e d = Inr (v, d')" and "balances_ok d" and "reservations_ok d"
    and "good_amount amt" and "internal (be_Type e)"
  shows "funds_step d [post (account_key u a) 0 (- Parse amt) 0] d' \<and> same_rest d d'"
  using debitLocked_effect [OF assms(1,2,4)] debitLocked_net [OF assms(1,5)] funds_step_rest [OF _ assms(3)] by blast

lemma addAvailable_funds:
  assumes "addAvailableBalanceWithReservation env u a amt ty oid rid tid t d = Inr (v, d')"
    and "balances_ok d" and "reservations_ok d" and "good_amount amt" and "internal ty"
  shows "funds_step d [post (account_key u a) (Parse amt) 0 0] d' \<and> same_rest d d'"
  using addAvailable_effect [OF assms(1,2,4)] addAvailable_net [OF assms(1,5)] funds_step_rest [OF _ assms(3)] by blast

lemma applyReservationDelta_none:
  assumes "applyReservationDelta env i amt c d = Inr (u, d')"
    and "trim_space i = [] \<or> get_reservation d (trim_space i) = None"
  shows "d' = d"
  using assms by (auto simp: applyReservationDelta_def Let_def split: if_splits)

lemma applyReservationDelta_funds:
  assumes "applyReservationDelta env i amt c d = Inr (u, d')" and "balances_ok d" and "reservations_ok d"
    and "good_amount amt"
  shows "funds_step d [] d' \<and> same_but_reservations d d'"
proof -
  have "reservations_ok d' \<and> same_but_reservations d d'"
  proof (cases "trim_space i = [] \<or> get_reservation d (trim_space i) = None")
    case True
    then show ?thesis
      using applyReservationDelta_none [OF assms(1)] assms(3) by (simp add: same_but_reservations_def)
  next
    case False
    then show ?thesis using applyReservationDelta_effect [OF assms(1,3,4)] by auto
  qed
  then show ?thesis
    using posted_unchanged [OF assms(2) same_but_reservations_balances] applyReservationDelta_net [OF assms(1)]
      same_but_reservations_funds by (auto simp: funds_step_def)
qed

lemma ReserveOrderFunds_effect:
  assumes a: "ReserveOrderFunds env x e d = Inr (u, d')" and ok: "balances_ok d" "reservations_ok d"
    and amt: "orderReserveAssetAmount x = (asset, amt)" "amount amt"
  defines "k \<equiv> account_key (o_UserID x) asset"
  shows "funds_step d (if Parse amt \<le> 0 then [] else [post k (- Parse amt) (Parse amt) 0]) d' \<and>
    (\<forall>j. reserved d' j = reserved d j + (if j = k \<and> 0 < Parse amt then Parse amt else 0)) \<and>
    (0 < Parse amt \<longrightarrow> Parse amt \<le> avail d k \<and>
       get_reservation d (trim_space (reservationIDForOrder x)) = None \<and>
       (\<exists>r. get_reservation d' (trim_space (reservationIDForOrder x)) = Some r \<and>
          (rv_UserID r, rv_Asset r) = k \<and> rv_RemainingAmount r = amt))"
proof (cases "Parse amt \<le> 0")
  case True
  then obtain i where 0: "default_event_id env e d = Inr (i, d')"
    using a amt by (auto simp: ReserveOrderFunds_def tx_bind_Inr_iff dec_simps)
  have s: "posted d [] d' \<and> same_rest d d'" using posted_start [OF ok(1) default_event_id_effect [OF 0]] .
  then show ?thesis
    using True funds_step_rest [OF s ok(2) default_event_id_net [OF 0]] reserved_cong by auto
next
  case False
  then have pos: "0 < Parse amt" "\<not> Cmp amt ''0'' \<le> 0" and good: "good_amount amt"
    using amt(2) by (simp_all add: dec_simps good_amount_def)
  let ?b = "\<lambda>b. b\<lparr>b_Available := SubFloorZero (b_Available b) amt, b_Locked := Add (b_Locked b) amt, b_UpdatedAt := e_now env\<rparr>"
  let ?r = "\<lparr>rv_ID = reservationIDForOrder x, rv_UserID = o_UserID x, rv_Market = o_Market x, rv_Asset = asset,
        rv_Amount = amt, rv_ConsumedAmount = [], rv_ReleasedAmount = [], rv_RemainingAmount = amt,
        rv_Status = ReservationStatusActive, rv_OrderID = o_ID x, rv_CommandID = [],
        rv_CreatedAt = e_now env, rv_UpdatedAt = e_now env\<rparr>"
  obtain i d0 b d1 v2 d2 v3 d3 where 0: "default_event_id env e d = Inr (i, d0)"
    and 1: "balanceForUpdate env (o_UserID x) asset False d0 = Inr (b, d1)" and le: "\<not> Cmp (b_Available b) amt < 0"
    and 2: "saveBalance (?b b) d1 = Inr (v2, d2)" and 3: "createReservation env ?r d2 = Inr (v3, d3)"
    and 4: "createBalanceEvent ((plain_event i (o_UserID x) asset EventReserve amt (e_now env))
       \<lparr>be_OrderID := o_ID x, be_ReservationID := reservationIDForOrder x\<rparr>) d3 = Inr (u, d')"
    using a amt pos(2) by (auto simp: ReserveOrderFunds_def tx_bind_Inr_iff Let_def)
  note s0 = posted_start [OF ok(1) default_event_id_effect [OF 0]]
  have b: "bal_ok b" "get_balance d0 k = Some b"
    using balanceForUpdate_effect [OF 1] s0 posted_ok k_def by auto
  have le': "Parse amt \<le> Parse (b_Available b)" using le by (simp add: dec_simps)
  have "posted d0 [post k (- Parse amt) (Parse amt) 0] d2 \<and> same_rest d0 d2"
    using update_balance_effect [OF 1 2 posted_ok [OF conjunct1 [OF s0]]] b good le'
    by (simp add: bal_ok_def bal_key_def good_amounts k_def)
  from posted_then [OF s0 this] have s2: "posted d [post k (- Parse amt) (Parse amt) 0] d2 \<and> same_rest d d2" by simp
  have net: "net_inflow z d2 = net_inflow z d" for z using 0 1 2 by (simp add: op_nets)
  have f2: "funds_step d [post k (- Parse amt) (Parse amt) 0] d2" by (rule funds_step_rest [OF s2 ok(2) net])
  note r = createReservation_effect [OF 3 conjunct2 [OF funds_step_ok [OF f2]], simplified, OF good]
  have sr: "same_but_reservations d2 d3" using r by blast
  have f3: "funds_step d2 [] d3"
    using r posted_unchanged [OF _ same_but_reservations_balances [OF sr]] funds_step_ok [OF f2]
      createReservation_net [OF 3] same_but_reservations_funds [OF sr] by (auto simp: funds_step_def)
  have s4: "posted d3 [] d' \<and> same_rest d3 d'"
    using posted_start [OF _ createBalanceEvent_effect [OF 4]] funds_step_ok [OF f3] by blast
  have f4: "funds_step d3 [] d'"
    using funds_step_rest [OF s4] funds_step_ok [OF f3] createBalanceEvent_internal [OF 4]
    by (simp add: plain_event_def internal_def)
  have f: "funds_step d [post k (- Parse amt) (Parse amt) 0] d'"
    using funds_step_then [OF funds_step_then [OF f2 f3] f4] by simp
  have res: "\<forall>j. reserved d' j = reserved d j + (if k = j then Parse amt else 0)"
    using r reserved_cong [OF conjunct2 [OF s4]] reserved_cong [OF conjunct2 [OF s2]] by (simp add: k_def)
  have "get_balance d k = Some b" using b(2) views_cong default_event_id_effect [OF 0] by metis
  moreover have "get_reservation d' = get_reservation d3" "get_reservation d2 = get_reservation d"
    using same_rest_fields s4 s2 by blast+
  ultimately show ?thesis using f res r pos le' by (auto simp: avail_def k_def)
qed

end
