(* ===== verification/LedgerFunds.thy ===== *)
theory LedgerFunds
  imports LedgerEffects
begin

text \<open>
  The postings of releasing an order's funds and of settling a trade, and the backing of locked
  funds: what is locked on an account is what the active reservations on it have left.
\<close>

lemma locks_backedD: "locks_backed d \<Longrightarrow> locked d k = reserved d k"
  unfolding locks_backed_def by blast

lemma locks_backedI: "(\<And>k. locked d k = reserved d k) \<Longrightarrow> locks_backed d"
  unfolding locks_backed_def by blast

section \<open>Releasing\<close>

definition reservation_for :: "db \<Rightarrow> order \<Rightarrow> string \<times> string \<Rightarrow> reservation \<Rightarrow> bool" where
  "reservation_for d x k r \<longleftrightarrow> trim_space (reservationIDForOrder x) \<noteq> [] \<and>
     get_reservation d (trim_space (reservationIDForOrder x)) = Some r \<and> (rv_UserID r, rv_Asset r) = k"

lemma reservationIDForOrder_nonempty: "trim_space (reservationIDForOrder x) \<noteq> [] \<Longrightarrow> reservationIDForOrder x \<noteq> []"
  by auto

lemma clamped_effect:
  assumes "clampedReleaseAmount env u a i req d = Inr (n, d')"
  shows "d' = d"
  using assms by (auto simp: clampedReleaseAmount_def balanceForUpdate_def Let_def
      split: option.splits if_splits)

lemma clamped_amount:
  assumes c: "clampedReleaseAmount env u a i req d = Inr (n, d')" and ok: "balances_ok d" "reservations_ok d"
    and req: "good_amount req"
  shows "good_amount n \<and> Parse n \<le> Parse req"
proof -
  define m where "m = (if i \<noteq> [] then (case GetReservation d i of
                      Some r \<Rightarrow> if Cmp (rv_RemainingAmount r) ''0'' > 0 \<and> Cmp (rv_RemainingAmount r) req < 0
                        then rv_RemainingAmount r else req
                    | None \<Rightarrow> req) else req)"
  have m: "good_amount m \<and> Parse m \<le> Parse req"
    using req reservations_okD [OF ok(2)]
    by (auto simp: m_def GetReservation_def modelToReservation_def dec_simps res_ok_def good_amount_def
        zeroIfEmpty_def split: option.splits)
  show ?thesis
  proof (cases "get_balance d (account_key u a)")
    case None
    then have "n = ''0''"
      using c by (auto simp: clampedReleaseAmount_def balanceForUpdate_def Let_def)
    then show ?thesis using req by (simp add: good_amount_def Parse_0)
  next
    case (Some b)
    then have "n = (if Cmp (b_Locked b) m < 0 then b_Locked b else m)"
      using c unfolding clampedReleaseAmount_def m_def [symmetric]
      by (simp add: balanceForUpdate_def Let_def)
    then show ?thesis using m balances_okD [OF ok(1) Some] by (auto simp: dec_simps bal_ok_def)
  qed
qed

lemma clamped_exact:
  assumes c: "clampedReleaseAmount env u a i req d = Inr (n, d')" and i: "i \<noteq> []"
    and r: "get_reservation d (trim_space i) = Some r" "0 < Parse (rv_RemainingAmount r)"
    and l: "Parse (rv_RemainingAmount r) \<le> locked d (account_key u a)"
  shows "Parse n = min (Parse req) (Parse (rv_RemainingAmount r))"
proof -
  obtain b where b: "get_balance d (account_key u a) = Some b"
    using l r(2) by (auto simp: locked_def split: option.splits)
  then have "Parse (rv_RemainingAmount r) \<le> Parse (b_Locked b)" using l by (simp add: locked_def)
  then show ?thesis
    using c b i r
    by (auto simp: clampedReleaseAmount_def balanceForUpdate_def GetReservation_def modelToReservation_def
        dec_simps Let_def split: if_splits)
qed

lemma moveLockedToAvailable_funds:
  assumes "moveLockedToAvailable env u a amt e d = Inr (v, d')" and "balances_ok d" and "reservations_ok d"
    and "good_amount amt"
  shows "funds_step d [post (account_key u a) 0 (- Parse amt) 0, post (account_key u a) (Parse amt) 0 0] d' \<and>
    same_rest d d' \<and> Parse amt \<le> locked d (account_key u a)"
  using moveLockedToAvailable_effect [OF assms(1,2,4)] moveLockedToAvailable_net [OF assms(1)]
    funds_step_rest [OF _ assms(3)] by blast

lemma ReleaseOrderFunds_effect:
  assumes a: "ReleaseOrderFunds env x e d = Inr (u, d')" and ok: "balances_ok d" "reservations_ok d"
    and amt: "orderReserveAssetAmount x = (asset, amt)" "amount amt"
  defines "k \<equiv> account_key (o_UserID x) asset"
  shows "\<exists>n d0 d2. good_amount n \<and> (Parse n \<le> Parse amt \<or> Parse n = 0) \<and>
    funds_step d [post k 0 (- Parse n) 0, post k (Parse n) 0 0] d' \<and>
    (0 < Parse amt \<longrightarrow> clampedReleaseAmount env (o_UserID x) asset (reservationIDForOrder x) amt d0 = Inr (n, d0) \<and>
       same_rest d d0 \<and> db_balances d0 = db_balances d) \<and>
    (if Parse n = 0 then same_rest d d'
     else same_rest d d2 \<and> releaseReservation env (reservationIDForOrder x) n d2 = Inr (u, d'))"
proof (cases "Parse amt \<le> 0")
  case True
  then obtain i where 0: "default_event_id env e d = Inr (i, d')"
    using a amt by (auto simp: ReleaseOrderFunds_def tx_bind_Inr_iff dec_simps)
  have s: "posted d [] d' \<and> same_rest d d'" using posted_start [OF ok(1) default_event_id_effect [OF 0]] .
  have f: "funds_step d [] d'" by (rule funds_step_rest [OF s ok(2) default_event_id_net [OF 0]])
  have z: "funds_step d [post k 0 (- Parse ''0'') 0, post k (Parse ''0'') 0 0] d'"
    using f by (auto simp: funds_step_def posted_def Parse_0)
  show ?thesis
    by (rule exI [of _ "''0''"]) (use True z s in \<open>simp add: Parse_0\<close>)
next
  case False
  then have good: "good_amount amt" and np: "\<not> Cmp amt ''0'' \<le> 0"
    using amt(2) by (simp_all add: dec_simps good_amount_def)
  obtain i d0 n d1 where 0: "default_event_id env e d = Inr (i, d0)"
    and 1: "clampedReleaseAmount env (o_UserID x) asset (reservationIDForOrder x) amt d0 = Inr (n, d1)"
    and 2: "(if Cmp n ''0'' \<le> 0 then tx_return () else
     tx_bind (moveLockedToAvailable env (o_UserID x) asset n
       ((plain_event i (o_UserID x) asset EventRelease n (e_now env))
         \<lparr>be_OrderID := o_ID x, be_ReservationID := reservationIDForOrder x\<rparr>)) (\<lambda>_.
     releaseReservation env (reservationIDForOrder x) n)) d1 = Inr (u, d')"
    using a amt(1) np
    by (auto simp: ReleaseOrderFunds_def tx_bind_Inr_iff Let_def)
  note s0 = posted_start [OF ok(1) default_event_id_effect [OF 0]]
  have f0: "funds_step d [] d0" by (rule funds_step_rest [OF s0 ok(2) default_event_id_net [OF 0]])
  have bal0: "db_balances d0 = db_balances d" using default_event_id_effect [OF 0] by blast
  note ok0 = conjunct1 [OF funds_step_ok [OF f0]] conjunct2 [OF funds_step_ok [OF f0]]
  have d1: "d1 = d0" using clamped_effect [OF 1] .
  have n: "good_amount n" "Parse n \<le> Parse amt" using clamped_amount [OF 1 ok0 good] by auto
  show ?thesis
  proof (cases "Parse n = 0")
    case True
    then have "d' = d0" using 2 d1 by (simp add: dec_simps)
    moreover have "funds_step d [post k 0 (- Parse n) 0, post k (Parse n) 0 0] d0"
      using f0 True by (auto simp: funds_step_def posted_def)
    ultimately show ?thesis using n True 1 d1 s0 bal0 by metis
  next
    case nz: False
    then have "\<not> Cmp n ''0'' \<le> 0" using n(1) by (simp add: dec_simps good_amount_def)
    with 2 d1 obtain ev v d2 where 3: "moveLockedToAvailable env (o_UserID x) asset n ev d0 = Inr (v, d2)"
      and 4: "releaseReservation env (reservationIDForOrder x) n d2 = Inr (u, d')"
      by (auto simp: tx_bind_Inr_iff)
    note m = moveLockedToAvailable_funds [OF 3 ok0 n(1)]
    note f2 = funds_step_then [OF f0 conjunct1 [OF m]]
    have f3: "funds_step d2 [] d'"
      using applyReservationDelta_funds [OF 4 [unfolded releaseReservation_def]] funds_step_ok [OF f2] n(1) by blast
    have "funds_step d [post k 0 (- Parse n) 0, post k (Parse n) 0 0] d'"
      using funds_step_then [OF f2 f3] by (simp add: k_def)
    moreover have "same_rest d d2" using same_rest_trans s0 m by blast
    ultimately show ?thesis using n nz 1 d1 s0 bal0 4 by metis
  qed
qed


lemma locked_cong: "db_balances d' = db_balances d \<Longrightarrow> locked d' = locked d"
  using views_cong by blast

text \<open>With a backed reservation the release takes the smaller of what is asked and what is left.\<close>

lemma ReleaseOrderFunds_exact:
  assumes a: "ReleaseOrderFunds env x e d = Inr (u, d')" and ok: "balances_ok d" "reservations_ok d"
    and amt: "orderReserveAssetAmount x = (asset, amt)" "amount amt" "0 < Parse amt"
    and k: "k = account_key (o_UserID x) asset"
    and r: "reservation_for d x k r" "0 < Parse (rv_RemainingAmount r)" and bk: "locks_backed d"
  defines "n \<equiv> min (Parse amt) (Parse (rv_RemainingAmount r))"
  shows "funds_step d [post k 0 (- n) 0, post k n 0 0] d' \<and> locks_backed d' \<and>
    remaining d' (trim_space (reservationIDForOrder x)) = Parse (rv_RemainingAmount r) - n"
proof -
  obtain m d0 d2 where m: "good_amount m" "funds_step d [post k 0 (- Parse m) 0, post k (Parse m) 0 0] d'"
    and c: "clampedReleaseAmount env (o_UserID x) asset (reservationIDForOrder x) amt d0 = Inr (m, d0)"
    and d0: "same_rest d d0" "db_balances d0 = db_balances d"
    and fin: "if Parse m = 0 then same_rest d d'
      else same_rest d d2 \<and> releaseReservation env (reservationIDForOrder x) m d2 = Inr (u, d')"
    using ReleaseOrderFunds_effect [OF a ok amt(1,2)] amt(3) k by blast
  have i: "reservationIDForOrder x \<noteq> []" "trim_space (reservationIDForOrder x) \<noteq> []"
    and g: "get_reservation d (trim_space (reservationIDForOrder x)) = Some r" "(rv_UserID r, rv_Asset r) = k"
    using r(1) reservationIDForOrder_nonempty by (auto simp: reservation_for_def)
  have "Parse (rv_RemainingAmount r) \<le> locked d0 (account_key (o_UserID x) asset)"
    using remaining_le_reserved [OF ok(2) g(1)] locks_backedD [OF bk] g(2) k locked_cong [OF d0(2)] by simp
  then have n: "Parse m = n"
    using clamped_exact [OF c i(1) _ r(2)] g(1) same_rest_fields [OF d0(1)] by (simp add: n_def)
  have npos: "0 < n" using amt(3) r(2) by (simp add: n_def)
  then have d2: "same_rest d d2" and rel: "applyReservationDelta env (reservationIDForOrder x) m False d2 = Inr (u, d')"
    using fin n by (simp_all add: releaseReservation_def)
  have ok2: "reservations_ok d2" and g2: "get_reservation d2 (trim_space (reservationIDForOrder x)) = Some r"
    using ok(2) reservations_ok_cong [OF d2] same_rest_fields [OF d2] g(1) by simp_all
  note e = applyReservationDelta_effect [OF rel ok2 m(1) g2 i(2)]
  have rsv: "reserved d' j = reserved d j - (if k = j then n else 0)" for j
  proof -
    have "reserved d' j = reserved d2 j - (if (rv_UserID r, rv_Asset r) = j then Parse m else 0)"
      using e by blast
    then show ?thesis using reserved_cong [OF d2] n g(2) by simp
  qed
  have "locked d' j = locked d j + (if k = j then - n else 0)" for j
    using funds_step_locked [OF m(2)] n by simp
  then have "locks_backed d'" using locks_backedD [OF bk] rsv by (intro locks_backedI) simp
  moreover have "remaining d' (trim_space (reservationIDForOrder x)) = Parse (rv_RemainingAmount r) - n"
    using e n by (auto simp: remaining_def)
  ultimately show ?thesis using m(2) n by simp
qed

section \<open>Settling\<close>

lemma settlementForTrade_plan:
  assumes "settlementForTrade t maker taker = Inr p" and "good_amount (t_QuoteQuantity t)"
  shows "good_amount (sp_BuyerLockedQuote p) \<and> good_amount (sp_BuyerQuoteRelease p) \<and>
    0 < Parse (t_Quantity t) \<and> 0 < Parse (t_QuoteQuantity t) \<and> 0 < Parse (o_Price (sp_Buyer p)) \<and>
    sp_BuyerLockedQuote p = Mul (t_Quantity t) (o_Price (sp_Buyer p)) \<and>
    Parse (sp_BuyerLockedQuote p) = Parse (t_QuoteQuantity t) + Parse (sp_BuyerQuoteRelease p) \<and>
    (if t_TakerSide t = SideBuy then sp_Buyer p = taker \<and> sp_Seller p = maker
     else sp_Buyer p = maker \<and> sp_Seller p = taker)"
proof -
  let ?b = "if t_TakerSide t = SideBuy then taker else maker"
  let ?l = "Mul (t_Quantity t) (o_Price ?b)"
  have p: "0 < Parse (t_Quantity t)" "0 < Parse (t_QuoteQuantity t)" "0 < Parse (o_Price ?b)" "0 < Parse ?l"
     "Parse (t_QuoteQuantity t) \<le> Parse ?l"
     "p = \<lparr>sp_Buyer = ?b, sp_Seller = (if t_TakerSide t = SideBuy then maker else taker),
       sp_BuyerLockedQuote = ?l, sp_BuyerQuoteRelease = SubFloorZero ?l (t_QuoteQuantity t)\<rparr>"
    using assms(1) unfolding settlementForTrade_def Let_def
    by (auto simp only: dec_simps if_split_asm sum.inject sum.distinct not_less not_le simp_thms split: if_split_asm)
  have l: "good_amount ?l" using p(4) by (simp add: good_amount_def)
  have "good_amount (SubFloorZero ?l (t_QuoteQuantity t))"
    "Parse (SubFloorZero ?l (t_QuoteQuantity t)) = Parse ?l - Parse (t_QuoteQuantity t)"
    using good_amount_Sub [OF l assms(2)] Parse_Sub_good [OF l assms(2) p(5)] .
  then show ?thesis using p l by (cases "t_TakerSide t = SideBuy") simp_all
qed

definition settlement_postings :: "trade \<Rightarrow> settlement_plan \<Rightarrow> posting list" where
  "settlement_postings t p =
     (let buyer = o_UserID (sp_Buyer p); seller = o_UserID (sp_Seller p) in
      [post (account_key buyer (t_QuoteAsset t)) 0 (- Parse (sp_BuyerLockedQuote p)) 0,
       post (account_key buyer (t_QuoteAsset t)) (Parse (sp_BuyerQuoteRelease p)) 0 0,
       post (account_key buyer (t_BaseAsset t)) (Parse (t_Quantity t)) 0 0,
       post (account_key seller (t_BaseAsset t)) 0 (- Parse (t_Quantity t)) 0,
       post (account_key seller (t_QuoteAsset t)) (Parse (t_QuoteQuantity t)) 0 0])"

text \<open>The seven calls of \<^verbatim>\<open>settleTrade\<close>, with the states between them.\<close>

lemma settleTrade_calls:
  assumes "settleTrade env t maker taker d = Inr (u, d')"
  obtains p d1 d2 d3 d4 d5 d6 e1 e5 v where
    "settlementForTrade t maker taker = Inr p"
    "debitLocked env (o_UserID (sp_Buyer p)) (t_QuoteAsset t) (sp_BuyerLockedQuote p) e1 d = Inr (v, d1)"
    "be_Type e1 = EventDebitLocked"
    "consumeReservation env (reservationIDForOrder (sp_Buyer p)) (t_QuoteQuantity t) d1 = Inr (v, d2)"
    "refund_buyer env t p d2 = Inr (v, d3)"
    "addAvailableBalance env (o_UserID (sp_Buyer p)) (t_BaseAsset t) (t_Quantity t)
       EventSettlementReceive (o_ID (sp_Buyer p)) (t_ID t) (t_CreatedAt t) d3 = Inr (v, d4)"
    "debitLocked env (o_UserID (sp_Seller p)) (t_BaseAsset t) (t_Quantity t) e5 d4 = Inr (v, d5)"
    "be_Type e5 = EventDebitLocked"
    "consumeReservation env (reservationIDForOrder (sp_Seller p)) (t_Quantity t) d5 = Inr (v, d6)"
    "addAvailableBalance env (o_UserID (sp_Seller p)) (t_QuoteAsset t) (t_QuoteQuantity t)
       EventSettlementReceive (o_ID (sp_Seller p)) (t_ID t) (t_CreatedAt t) d6 = Inr (v, d')"
  using assms by (auto simp: settleTrade_def tx_bind_Inr_iff Let_def plain_event_def)


definition has_reservation :: "db \<Rightarrow> order \<Rightarrow> string \<times> string \<Rightarrow> bool" where
  "has_reservation d x k \<longleftrightarrow> (\<exists>r. reservation_for d x k r)"

lemma has_reservation_rest: "same_rest d d' \<Longrightarrow> has_reservation d' x k = has_reservation d x k"
  using same_rest_fields by (simp add: has_reservation_def reservation_for_def)

lemma delta_reserved:
  assumes a: "applyReservationDelta env (reservationIDForOrder x) amt c d = Inr (u, d')"
    and ok: "reservations_ok d" "good_amount amt" and r: "has_reservation d x k"
  shows "reserved d' j = reserved d j - (if k = j then Parse amt else 0)"
    and "has_reservation d y k2 \<Longrightarrow> has_reservation d' y k2"
proof -
  obtain r where r: "get_reservation d (trim_space (reservationIDForOrder x)) = Some r"
     "trim_space (reservationIDForOrder x) \<noteq> []" and k: "(rv_UserID r, rv_Asset r) = k"
    using r by (auto simp: has_reservation_def reservation_for_def)
  note e = applyReservationDelta_effect [OF a ok r]
  show "reserved d' j = reserved d j - (if k = j then Parse amt else 0)" using e k by blast
  show "has_reservation d' y k2" if y: "has_reservation d y k2"
  proof (cases "trim_space (reservationIDForOrder y) = trim_space (reservationIDForOrder x)")
    case True
    then show ?thesis using e y r by (auto simp: has_reservation_def reservation_for_def)
  next
    case False
    then show ?thesis using e y by (auto simp: has_reservation_def reservation_for_def)
  qed
qed

lemma refund_buyer_effect:
  assumes a: "refund_buyer env t p d = Inr (v, d')" and ok: "balances_ok d" "reservations_ok d"
    and good: "good_amount (sp_BuyerQuoteRelease p)"
  defines "k \<equiv> account_key (o_UserID (sp_Buyer p)) (t_QuoteAsset t)" and "n \<equiv> Parse (sp_BuyerQuoteRelease p)"
  shows "funds_step d [post k n 0 0] d'"
    and "has_reservation d (sp_Buyer p) j \<Longrightarrow> reserved d' i = reserved d i - (if j = i then n else 0)"
    and "has_reservation d (sp_Buyer p) j \<Longrightarrow> has_reservation d y k2 \<Longrightarrow> has_reservation d' y k2"
proof -
  have c: "(n = 0 \<and> d' = d) \<or> (\<exists>d1 v1. addAvailableBalanceWithReservation env (o_UserID (sp_Buyer p)) (t_QuoteAsset t)
           (sp_BuyerQuoteRelease p) EventRelease (o_ID (sp_Buyer p)) (reservationIDForOrder (sp_Buyer p))
           (t_ID t) (t_CreatedAt t) d = Inr (v1, d1) \<and>
        applyReservationDelta env (reservationIDForOrder (sp_Buyer p)) (sp_BuyerQuoteRelease p) False d1 = Inr (v, d'))"
    (is "?zero \<or> ?some")
    using a good by (auto simp: refund_buyer_def Let_def tx_bind_Inr_iff releaseReservation_def n_def
        dec_simps good_amount_def split: if_splits)
  show "funds_step d [post k n 0 0] d'"
  proof (cases ?zero)
    case True
    then show ?thesis using funds_step_refl [OF ok] by (simp add: funds_step_def posted_def)
  next
    case False
    then obtain d1 v1 where 1: "addAvailableBalanceWithReservation env (o_UserID (sp_Buyer p)) (t_QuoteAsset t)
           (sp_BuyerQuoteRelease p) EventRelease (o_ID (sp_Buyer p)) (reservationIDForOrder (sp_Buyer p))
           (t_ID t) (t_CreatedAt t) d = Inr (v1, d1)"
      and 2: "applyReservationDelta env (reservationIDForOrder (sp_Buyer p)) (sp_BuyerQuoteRelease p) False d1 = Inr (v, d')"
      using c by blast
    have f1: "funds_step d [post k n 0 0] d1"
      using addAvailable_funds [OF 1 ok good] by (simp add: internal_def k_def n_def)
    have f2: "funds_step d1 [] d'" using applyReservationDelta_funds [OF 2] funds_step_ok [OF f1] good by blast
    show ?thesis using funds_step_then [OF f1 f2] by simp
  qed
  have r: "reserved d' i = reserved d i - (if j = i then n else 0) \<and>
      (has_reservation d y k2 \<longrightarrow> has_reservation d' y k2)" if h: "has_reservation d (sp_Buyer p) j"
  proof (cases ?zero)
    case True
    then show ?thesis by simp
  next
    case False
    then obtain d1 v1 where 1: "addAvailableBalanceWithReservation env (o_UserID (sp_Buyer p)) (t_QuoteAsset t)
           (sp_BuyerQuoteRelease p) EventRelease (o_ID (sp_Buyer p)) (reservationIDForOrder (sp_Buyer p))
           (t_ID t) (t_CreatedAt t) d = Inr (v1, d1)"
      and 2: "applyReservationDelta env (reservationIDForOrder (sp_Buyer p)) (sp_BuyerQuoteRelease p) False d1 = Inr (v, d')"
      using c by blast
    have s1: "same_rest d d1"
      using addAvailable_funds [OF 1 ok good] by (simp add: internal_def)
    have ok1: "reservations_ok d1" using reservations_ok_cong [OF s1] ok by simp
    have h1: "has_reservation d1 (sp_Buyer p) j" using h has_reservation_rest [OF s1] by simp
    show ?thesis
      using delta_reserved [OF 2 ok1 good h1] reserved_cong [OF s1] has_reservation_rest [OF s1] by (simp add: n_def)
  qed
  show "has_reservation d (sp_Buyer p) j \<Longrightarrow> reserved d' i = reserved d i - (if j = i then n else 0)" using r by blast
  show "has_reservation d (sp_Buyer p) j \<Longrightarrow> has_reservation d y k2 \<Longrightarrow> has_reservation d' y k2" using r by blast
qed

lemma settleTrade_effect:
  assumes a: "settleTrade env t maker taker d = Inr (u, d')" and ok: "balances_ok d" "reservations_ok d"
    and good: "good_amount (t_Quantity t)" "good_amount (t_QuoteQuantity t)"
  shows "\<exists>p. settlementForTrade t maker taker = Inr p \<and> funds_step d (settlement_postings t p) d' \<and>
    (let kb = account_key (o_UserID (sp_Buyer p)) (t_QuoteAsset t);
         ks = account_key (o_UserID (sp_Seller p)) (t_BaseAsset t) in
     has_reservation d (sp_Buyer p) kb \<and> has_reservation d (sp_Seller p) ks \<longrightarrow>
       (\<forall>j. reserved d' j = reserved d j - (if kb = j then Parse (sp_BuyerLockedQuote p) else 0)
          - (if ks = j then Parse (t_Quantity t) else 0)))"
proof -
  obtain p d1 d2 d3 d4 d5 d6 e1 e5 v where plan: "settlementForTrade t maker taker = Inr p"
    and 1: "debitLocked env (o_UserID (sp_Buyer p)) (t_QuoteAsset t) (sp_BuyerLockedQuote p) e1 d = Inr (v, d1)"
      "be_Type e1 = EventDebitLocked"
    and 2: "consumeReservation env (reservationIDForOrder (sp_Buyer p)) (t_QuoteQuantity t) d1 = Inr (v, d2)"
    and 3: "refund_buyer env t p d2 = Inr (v, d3)"
    and 4: "addAvailableBalance env (o_UserID (sp_Buyer p)) (t_BaseAsset t) (t_Quantity t)
       EventSettlementReceive (o_ID (sp_Buyer p)) (t_ID t) (t_CreatedAt t) d3 = Inr (v, d4)"
    and 5: "debitLocked env (o_UserID (sp_Seller p)) (t_BaseAsset t) (t_Quantity t) e5 d4 = Inr (v, d5)"
      "be_Type e5 = EventDebitLocked"
    and 6: "consumeReservation env (reservationIDForOrder (sp_Seller p)) (t_Quantity t) d5 = Inr (v, d6)"
    and 7: "addAvailableBalance env (o_UserID (sp_Seller p)) (t_QuoteAsset t) (t_QuoteQuantity t)
       EventSettlementReceive (o_ID (sp_Seller p)) (t_ID t) (t_CreatedAt t) d6 = Inr (v, d')"
    by (rule settleTrade_calls [OF a])
  note pl = settlementForTrade_plan [OF plan good(2)]
  have lq: "Parse (sp_BuyerLockedQuote p) = Parse (t_QuoteQuantity t) + Parse (sp_BuyerQuoteRelease p)"
    using pl by blast
  let ?kb = "account_key (o_UserID (sp_Buyer p)) (t_QuoteAsset t)"
  let ?ks = "account_key (o_UserID (sp_Seller p)) (t_BaseAsset t)"
  have int: "internal EventDebitLocked" "internal EventSettlementReceive" by (simp_all add: internal_def)
  note f1 = debitLocked_funds [OF 1(1) ok conjunct1 [OF pl], unfolded 1(2), OF int(1)]
  note s1 = conjunct1 [OF f1] and o1 = funds_step_ok [OF conjunct1 [OF f1]]
  note f2 = applyReservationDelta_funds [OF 2 [unfolded consumeReservation_def] conjunct1 [OF o1] conjunct2 [OF o1] good(2)]
  note s2 = funds_step_then [OF s1 conjunct1 [OF f2]] and o2 = funds_step_ok [OF conjunct1 [OF f2]]
  note f3 = refund_buyer_effect [OF 3 conjunct1 [OF o2] conjunct2 [OF o2] conjunct1 [OF conjunct2 [OF pl]]]
  note s3 = funds_step_then [OF s2 f3(1)] and o3 = funds_step_ok [OF f3(1)]
  note f4 = addAvailable_funds [OF 4 [unfolded addAvailableBalance_def] conjunct1 [OF o3] conjunct2 [OF o3] good(1) int(2)]
  note s4 = funds_step_then [OF s3 conjunct1 [OF f4]] and o4 = funds_step_ok [OF conjunct1 [OF f4]]
  note f5 = debitLocked_funds [OF 5(1) conjunct1 [OF o4] conjunct2 [OF o4] good(1), unfolded 5(2), OF int(1)]
  note s5 = funds_step_then [OF s4 conjunct1 [OF f5]] and o5 = funds_step_ok [OF conjunct1 [OF f5]]
  note f6 = applyReservationDelta_funds [OF 6 [unfolded consumeReservation_def] conjunct1 [OF o5] conjunct2 [OF o5] good(1)]
  note s6 = funds_step_then [OF s5 conjunct1 [OF f6]] and o6 = funds_step_ok [OF conjunct1 [OF f6]]
  note f7 = addAvailable_funds [OF 7 [unfolded addAvailableBalance_def] conjunct1 [OF o6] conjunct2 [OF o6] good(2) int(2)]
  have post: "funds_step d (settlement_postings t p) d'"
    using funds_step_then [OF s6 conjunct1 [OF f7]] by (simp add: settlement_postings_def Let_def)
  have res: "reserved d' j = reserved d j - (if ?kb = j then Parse (sp_BuyerLockedQuote p) else 0)
          - (if ?ks = j then Parse (t_Quantity t) else 0)"
    if hb: "has_reservation d (sp_Buyer p) ?kb" and hs: "has_reservation d (sp_Seller p) ?ks" for j
  proof -
    note r1 = conjunct2 [OF f1]
    have h1: "has_reservation d1 (sp_Buyer p) ?kb" "has_reservation d1 (sp_Seller p) ?ks"
      using hb hs has_reservation_rest [OF r1] by auto
    note q2 = delta_reserved [OF 2 [unfolded consumeReservation_def] conjunct2 [OF o1] good(2) h1(1)]
    note h2 = q2(2) [OF h1(1)] q2(2) [OF h1(2)]
    note q3 = f3(2) [OF h2(1)] f3(3) [OF h2]
    have r45: "same_rest d3 d5" using same_rest_trans f4 f5 by blast
    have h5: "has_reservation d5 (sp_Seller p) ?ks" using q3(2) has_reservation_rest [OF r45] by simp
    note q6 = delta_reserved [OF 6 [unfolded consumeReservation_def] conjunct2 [OF o5] good(1) h5]
    show ?thesis
      using q6(1) [of j] q3(1) [of j] q2(1) [of j] reserved_cong [OF r1, of j] reserved_cong [OF r45, of j]
        reserved_cong [OF conjunct2 [OF f7], of j] lq by simp
  qed
  show ?thesis by (rule exI [of _ p]) (use plan post res in \<open>simp add: Let_def\<close>)
qed

end
