(* ===== verification/LedgerColumns.thy ===== *)
theory LedgerColumns
  imports LedgerFunds
begin

text \<open>
  What the columns of a balance stand for. The pending column of an account is the sum of its
  pending deposits, read off the balance events, and of its open withdrawals, read off the
  withdrawal rows; the locked column is what the account's reservations have left, as long as
  funds are released and settled only for orders that hold a reservation. Both are shown for
  every operation of the ledger, each with its effect on the events and rows.
\<close>

section \<open>Account keys\<close>

lemma account_key_idem [simp]:
  "account_key (trim_space u) a = account_key u a"
  "account_key u (to_upper (trim_space a)) = account_key u a"
  by (simp_all add: account_key_def trim_space_upper to_upper_idem)

section \<open>The pending column\<close>

definition event_pend :: "string \<times> string \<Rightarrow> balance_event \<Rightarrow> rat" where
  "event_pend k e =
     (if account_key (be_UserID e) (be_Asset e) = k then
        (case be_Type e of EventDepositPending \<Rightarrow> Parse (be_Amount e)
         | EventDepositSettled \<Rightarrow> - Parse (be_Amount e) | _ \<Rightarrow> 0)
      else 0)"

definition pending_deposits :: "db \<Rightarrow> string \<times> string \<Rightarrow> rat" where
  "pending_deposits d k = row_sum (event_pend k) (db_balance_events d)"

definition open_amount :: "string \<times> string \<Rightarrow> withdrawal \<Rightarrow> rat" where
  "open_amount k w =
     (if wd_Status w = WithdrawalRequested \<and> account_key (wd_UserID w) (wd_Asset w) = k
      then Parse (wd_Amount w) else 0)"

definition open_withdrawals :: "db \<Rightarrow> string \<times> string \<Rightarrow> rat" where
  "open_withdrawals d k = sum_withdrawals (open_amount k) d"

definition pending_backed :: "db \<Rightarrow> bool" where
  "pending_backed d \<longleftrightarrow> (\<forall>k. pending d k = pending_deposits d k + open_withdrawals d k)"

lemma pending_backedI:
  "(\<And>k. pending d k = pending_deposits d k + open_withdrawals d k) \<Longrightarrow> pending_backed d"
  by (simp add: pending_backed_def)

lemma pending_backedD: "pending_backed d \<Longrightarrow> pending d k = pending_deposits d k + open_withdrawals d k"
  unfolding pending_backed_def by blast

lemma open_withdrawals_cong:
  "db_withdrawals d' = db_withdrawals d \<Longrightarrow> open_withdrawals d' k = open_withdrawals d k"
  by (simp add: open_withdrawals_def sum_withdrawals_def)

lemma same_rest_withdrawals: "same_rest d d' \<Longrightarrow> db_withdrawals d' = db_withdrawals d"
  unfolding same_rest_def by (cases d, cases d') simp

text \<open>A transaction is quiet when the events it appends are no deposits.\<close>

definition no_deposit_logged :: "db \<Rightarrow> db \<Rightarrow> bool" where
  "no_deposit_logged d d' \<longleftrightarrow> (\<forall>k. pending_deposits d' k = pending_deposits d k)"

definition quiet :: "'a ltx \<Rightarrow> bool" where
  "quiet m \<longleftrightarrow> (\<forall>d r d'. m d = Inr (r, d') \<longrightarrow> no_deposit_logged d d')"

lemma quietI: "(\<And>d r d'. m d = Inr (r, d') \<Longrightarrow> db_balance_events d' = db_balance_events d) \<Longrightarrow> quiet m"
  by (simp add: quiet_def no_deposit_logged_def pending_deposits_def)

lemma quietD: "quiet m \<Longrightarrow> m d = Inr (r, d') \<Longrightarrow> pending_deposits d' k = pending_deposits d k"
  unfolding quiet_def no_deposit_logged_def by blast

lemma quiet_bind: "quiet m \<Longrightarrow> (\<And>x. quiet (f x)) \<Longrightarrow> quiet (tx_bind m f)"
  by (fastforce simp: quiet_def no_deposit_logged_def tx_bind_Inr_iff)

lemma quiet_if: "(c \<Longrightarrow> quiet m) \<Longrightarrow> (\<not> c \<Longrightarrow> quiet n) \<Longrightarrow> quiet (if c then m else n)"
  by simp

lemma quiet_not_found: "quiet m \<Longrightarrow> quiet (not_found_as e m)"
  by (simp add: quiet_def)

lemma quiet_lift: "quiet (lift_result r)"
  by (auto intro!: quietI)

lemma quiet_fail_if: "quiet (fail_if c e)"
  by (auto intro!: quietI)

lemma quiet_return: "quiet (tx_return x)"
  by (auto intro!: quietI)

lemma quiet_balanceForUpdate: "quiet (balanceForUpdate env u a c)"
  by (rule quietI) (auto simp: balanceForUpdate_def put_balance_def Let_def split: option.splits if_splits)

lemma quiet_saveBalance: "quiet (saveBalance b)"
  by (rule quietI) (auto simp: saveBalance_def put_balance_def)

lemma quiet_put_withdrawal: "quiet (tx_modify (put_withdrawal w))"
  by (rule quietI) (auto simp: put_withdrawal_def)

lemma quiet_create_withdrawal: "quiet (create_withdrawal w)"
  by (rule quietI) (auto simp: create_withdrawal_def put_withdrawal_def split: option.splits)

lemma quiet_find_withdrawal: "quiet (find_withdrawal i)"
  by (rule quietI) auto

lemma quiet_new_id: "quiet (new_id env p)"
  by (rule quietI) (auto simp: new_id_def)

lemma quiet_event_id: "quiet (default_event_id env e)"
  by (rule quietI) (auto simp: default_event_id_def new_id_def split: if_splits)

lemma quiet_delta: "quiet (applyReservationDelta env i amt c)"
  by (rule quietI) (auto simp: applyReservationDelta_def put_reservation_def Let_def split: option.splits if_splits)

lemma quiet_createReservation: "quiet (createReservation env r)"
  by (rule quietI) (auto simp: createReservation_def put_reservation_def Let_def split: if_splits)

lemma quiet_clamped: "quiet (clampedReleaseAmount env u a i req)"
  by (rule quietI) (auto dest: clamped_effect)

lemma createBalanceEvent_pend:
  "createBalanceEvent e d = Inr (u, d') \<Longrightarrow>
    pending_deposits d' k = pending_deposits d k + event_pend k (e\<lparr>be_Asset := to_upper (trim_space (be_Asset e))\<rparr>)"
  by (auto simp: createBalanceEvent_def pending_deposits_def row_sum_def split: if_splits)

lemma quiet_event:
  "be_Type e \<noteq> EventDepositPending \<Longrightarrow> be_Type e \<noteq> EventDepositSettled \<Longrightarrow> quiet (createBalanceEvent e)"
  by (auto simp: quiet_def no_deposit_logged_def createBalanceEvent_pend event_pend_def
      split: balance_event_type.splits)

lemmas quiet_rows = quiet_if quiet_not_found quiet_lift quiet_fail_if quiet_return quiet_balanceForUpdate
  quiet_saveBalance quiet_put_withdrawal quiet_create_withdrawal quiet_find_withdrawal quiet_new_id
  quiet_event_id quiet_delta quiet_createReservation quiet_clamped quiet_event

lemma quiet_debitLocked:
  "be_Type e \<noteq> EventDepositPending \<Longrightarrow> be_Type e \<noteq> EventDepositSettled \<Longrightarrow> quiet (debitLocked env u a amt e)"
  unfolding debitLocked_def by (intro quiet_bind quiet_rows) simp_all

lemma quiet_addAvailable:
  "ty \<noteq> EventDepositPending \<Longrightarrow> ty \<noteq> EventDepositSettled \<Longrightarrow>
    quiet (addAvailableBalanceWithReservation env u a amt ty oid rid tid t)"
  unfolding addAvailableBalanceWithReservation_def Let_def
  by (intro quiet_bind quiet_rows) (simp_all add: plain_event_def)

lemma quiet_moveLocked: "quiet (moveLockedToAvailable env u a amt e)"
  unfolding moveLockedToAvailable_def
  by (intro quiet_bind quiet_debitLocked quiet_addAvailable) (simp_all add: plain_event_def)

lemma quiet_ReserveOrderFunds: "quiet (ReserveOrderFunds env x e)"
  unfolding ReserveOrderFunds_def Let_def case_prod_beta
  by (intro quiet_bind quiet_rows) (simp_all add: plain_event_def)

lemma quiet_ReleaseOrderFunds: "quiet (ReleaseOrderFunds env x e)"
  unfolding ReleaseOrderFunds_def Let_def case_prod_beta releaseReservation_def
  by (intro quiet_bind quiet_rows quiet_moveLocked)

lemma quiet_settleTrade: "quiet (settleTrade env t maker taker)"
  unfolding settleTrade_def Let_def refund_buyer_def consumeReservation_def releaseReservation_def
    addAvailableBalance_def
  by (intro quiet_bind quiet_rows quiet_debitLocked quiet_addAvailable) (simp_all add: plain_event_def)

lemma quiet_RequestWithdrawal: "quiet (RequestWithdrawal env w e)"
  unfolding RequestWithdrawal_def Let_def
  by (intro quiet_bind quiet_rows) (simp_all add: plain_event_def)

lemma quiet_finalizeWithdrawal:
  "ty \<noteq> EventDepositPending \<Longrightarrow> ty \<noteq> EventDepositSettled \<Longrightarrow> quiet (finalizeWithdrawal env i st ty e)"
  unfolding finalizeWithdrawal_def Let_def
  by (intro quiet_bind quiet_rows) (simp_all add: plain_event_def)

section \<open>The pending column after every operation\<close>

lemma pending_posted: "posted d ps d' \<Longrightarrow> pending d' k = pending d k + moved po_pending k ps"
  by (cases k) (simp add: posted_def)

lemma MarkDepositPending_deposits:
  assumes "MarkDepositPending env u s amt e d = Inr (r, d')"
  shows "pending_deposits d' k = pending_deposits d k + (if account_key u s = k then Parse amt else 0)"
proof -
  obtain i d0 b d1 v2 d2 v3 b' where 0: "default_event_id env e d = Inr (i, d0)"
    and 1: "balanceForUpdate env u s True d0 = Inr (b, d1)" and 2: "saveBalance b' d1 = Inr (v2, d2)"
    and 3: "createBalanceEvent (plain_event i u s EventDepositPending amt (e_now env)) d2 = Inr (v3, d')"
    using assms by (auto simp: MarkDepositPending_def tx_bind_Inr_iff Let_def)
  show ?thesis
    using createBalanceEvent_pend [OF 3, of k] quietD [OF quiet_event_id 0, of k]
      quietD [OF quiet_balanceForUpdate 1, of k] quietD [OF quiet_saveBalance 2, of k]
    by (simp add: event_pend_def plain_event_def)
qed

lemma SettleDeposit_deposits:
  assumes "SettleDeposit env u s amt e d = Inr (r, d')"
  shows "pending_deposits d' k = pending_deposits d k - (if account_key u s = k then Parse amt else 0)"
proof -
  obtain i d0 b d1 v2 d2 v3 b' where 0: "default_event_id env e d = Inr (i, d0)"
    and 1: "balanceForUpdate env u s False d0 = Inr (b, d1)" and 2: "saveBalance b' d1 = Inr (v2, d2)"
    and 3: "createBalanceEvent (plain_event i u s EventDepositSettled amt (e_now env)) d2 = Inr (v3, d')"
    using assms by (auto simp: SettleDeposit_def tx_bind_Inr_iff Let_def)
  show ?thesis
    using createBalanceEvent_pend [OF 3, of k] quietD [OF quiet_event_id 0, of k]
      quietD [OF quiet_balanceForUpdate 1, of k] quietD [OF quiet_saveBalance 2, of k]
    by (simp add: event_pend_def plain_event_def)
qed

lemma open_after_request:
  assumes "db_withdrawals d' = db_withdrawals (put_withdrawal r d)" and "get_withdrawal d (wd_ID r) = None"
    and "wd_Status r = WithdrawalRequested" and "account_key (wd_UserID r) (wd_Asset r) = k"
  shows "open_withdrawals d' j = open_withdrawals d j + (if k = j then Parse (wd_Amount r) else 0)"
  using assms wdr.total_insert [of d r "open_amount j"] open_withdrawals_cong [OF assms(1), of j]
  by (simp add: open_withdrawals_def open_amount_def)

lemma open_after_finalize:
  assumes "db_withdrawals d' = db_withdrawals (put_withdrawal r d)" and "get_withdrawal d (wd_ID r) = Some w"
    and "wd_Status w = WithdrawalRequested" and "wd_Status r \<noteq> WithdrawalRequested"
  shows "open_withdrawals d' j = open_withdrawals d j -
    (if account_key (wd_UserID w) (wd_Asset w) = j then Parse (wd_Amount w) else 0)"
  using assms wdr.total_update [of d r w "open_amount j"] open_withdrawals_cong [OF assms(1), of j]
  by (simp add: open_withdrawals_def open_amount_def)

lemma pending_backed_funds:
  assumes "funds_step d ps d'" and "\<And>k. moved po_pending k ps = 0"
    and "\<And>k. pending_deposits d' k = pending_deposits d k" and "pending_backed d"
  shows "pending_backed d'"
proof -
  have "posted d ps d'" using assms(1) by (simp add: funds_step_def)
  then have "pending d' k = pending d k" for k
    using pending_posted [of d ps d' k] assms(2) [of k] by simp
  moreover have "open_withdrawals d' k = open_withdrawals d k" for k
    using assms(1) same_but_funds_fields open_withdrawals_cong unfolding funds_step_def by blast
  ultimately show ?thesis using assms(3,4) by (simp add: pending_backed_def)
qed

section \<open>The locked column\<close>

lemma reserved_withdrawals: "same_but_withdrawals d d' \<Longrightarrow> reserved d' k = reserved d k"
  unfolding same_but_withdrawals_def by (cases d, cases d') (simp add: reserved_def sum_reservations_def)

lemma locks_backed_posted:
  assumes "posted d ps d'" and "\<And>k. moved po_locked k ps = 0" and "\<And>k. reserved d' k = reserved d k"
    and "locks_backed d"
  shows "locks_backed d'"
proof (rule locks_backedI)
  fix k
  have "locked d' k = locked d k" using assms(1,2) by (cases k) (simp add: posted_def)
  then show "locked d' k = reserved d' k" using assms(3) locks_backedD [OF assms(4)] by simp
qed

text \<open>A release for an order that holds a reservation unlocks what it takes off the reservation,
  also when nothing is left of it: taking more than is left is an error.\<close>

lemma ReleaseOrderFunds_backed:
  assumes a: "ReleaseOrderFunds env x e d = Inr (u, d')" and ok: "balances_ok d" "reservations_ok d"
    and amt: "orderReserveAssetAmount x = (asset, amt)" "amount amt"
    and r: "has_reservation d x (account_key (o_UserID x) asset)" and bk: "locks_backed d"
  shows "locks_backed d'"
proof (rule locks_backedI)
  fix j
  let ?k = "account_key (o_UserID x) asset"
  obtain n d2 where n: "good_amount n" and f: "funds_step d [post ?k 0 (- Parse n) 0, post ?k (Parse n) 0 0] d'"
    and fin: "if Parse n = 0 then same_rest d d'
      else same_rest d d2 \<and> releaseReservation env (reservationIDForOrder x) n d2 = Inr (u, d')"
    using ReleaseOrderFunds_effect [OF a ok amt] by blast
  have "reserved d' j = reserved d j - (if ?k = j then Parse n else 0)"
  proof (cases "Parse n = 0")
    case True
    then show ?thesis using fin reserved_cong by simp
  next
    case False
    then have s: "same_rest d d2"
      and rel: "applyReservationDelta env (reservationIDForOrder x) n False d2 = Inr (u, d')"
      using fin by (simp_all add: releaseReservation_def)
    have "reservations_ok d2" using ok(2) reservations_ok_cong [OF s] by simp
    moreover have "has_reservation d2 x ?k" using r has_reservation_rest [OF s] by simp
    ultimately show ?thesis using delta_reserved(1) [OF rel _ n] reserved_cong [OF s] by simp
  qed
  then show "locked d' j = reserved d' j"
    using funds_step_locked [OF f, of j] locks_backedD [OF bk, of j] by simp
qed

end
