(* ===== verification/LedgerProps.thy ===== *)
theory LedgerProps
  imports LedgerColumns
begin

text \<open>
  The ledger as a transition system, its invariants, and the properties of the ledger with the
  concrete databases on which they are instantiated.
\<close>

section \<open>The ledger's steps\<close>

inductive ledger_step :: "db \<Rightarrow> db \<Rightarrow> bool" where
  step_deposit: "MarkDepositPending env u s amt e d = Inr (r, d') \<Longrightarrow> good_amount amt \<Longrightarrow> ledger_step d d'"
| step_settle_deposit: "SettleDeposit env u s amt e d = Inr (r, d') \<Longrightarrow> good_amount amt \<Longrightarrow> ledger_step d d'"
| step_request: "RequestWithdrawal env w e d = Inr (r', d') \<Longrightarrow> good_amount (wd_Amount w) \<Longrightarrow> ledger_step d d'"
| step_complete: "CompleteWithdrawal env i e d = Inr (r', d') \<Longrightarrow> ledger_step d d'"
| step_cancel: "CancelWithdrawal env i e d = Inr (r', d') \<Longrightarrow> ledger_step d d'"
| step_reserve: "ReserveOrderFunds env x e d = Inr (v, d') \<Longrightarrow> amount (o_RemainingQuantity x) \<Longrightarrow> ledger_step d d'"
| step_release: "ReleaseOrderFunds env x e d = Inr (v, d') \<Longrightarrow> amount (o_RemainingQuantity x) \<Longrightarrow> ledger_step d d'"
| step_trade: "settleTrade env t maker taker d = Inr (v, d') \<Longrightarrow> good_amount (t_Quantity t) \<Longrightarrow>
    good_amount (t_QuoteQuantity t) \<Longrightarrow> ledger_step d d'"

inductive_cases ledger_stepE: "ledger_step d d'"

inductive reachable_ledger :: "db \<Rightarrow> bool" where
  reach_empty: "reachable_ledger empty_db"
| reach_ledger_step: "reachable_ledger d \<Longrightarrow> ledger_step d d' \<Longrightarrow> reachable_ledger d'"

definition ledger_ok :: "db \<Rightarrow> bool" where
  "ledger_ok d \<longleftrightarrow> balances_ok d \<and> reservations_ok d \<and> withdrawals_ok d \<and> books_balance d"

lemma reserve_amount: "amount (o_RemainingQuantity x) \<Longrightarrow> orderReserveAssetAmount x = (s, n) \<Longrightarrow> amount n"
  by (auto simp: orderReserveAssetAmount_def split: if_splits)

lemma ledger_ok_funds:
  assumes "ledger_ok d" and "funds_step d ps d'" and "\<And>a. moved_total a ps = 0"
  shows "ledger_ok d'"
  using assms same_but_funds_fields [of d d'] posted_total [of d ps d'] posted_ok [of d ps d']
  by (simp add: ledger_ok_def funds_step_def posted_ok books_balance_def withdrawals_ok_def)

lemma reservations_ok_withdrawals: "same_but_withdrawals d d' \<Longrightarrow> reservations_ok d' = reservations_ok d"
  unfolding same_but_withdrawals_def by (cases d, cases d') (simp add: reservations_ok_def)

lemma CompleteWithdrawal_finalize:
  assumes "CompleteWithdrawal env i e d = Inr (r, d')"
  obtains e1 d0 where "default_event_id env e d = Inr (e1, d0)"
    and "finalizeWithdrawal env i WithdrawalCompleted EventWithdrawalCompleted e1 d0 = Inr (r, d')"
  using assms by (auto simp: CompleteWithdrawal_def tx_bind_Inr_iff)

lemma CancelWithdrawal_finalize:
  assumes "CancelWithdrawal env i e d = Inr (r, d')"
  obtains e1 d0 where "default_event_id env e d = Inr (e1, d0)"
    and "finalizeWithdrawal env i WithdrawalCanceled EventWithdrawalCanceled e1 d0 = Inr (r, d')"
  using assms by (auto simp: CancelWithdrawal_def tx_bind_Inr_iff)

lemma ledger_ok_event_id:
  assumes "default_event_id env e d = Inr (i, d0)" and "ledger_ok d"
  shows "ledger_ok d0 \<and> db_withdrawals d0 = db_withdrawals d \<and> avail d0 = avail d \<and> pending d0 = pending d \<and>
    locked d0 = locked d"
proof -
  note e = default_event_id_effect [OF assms(1)]
  note v = views_cong [OF conjunct1 [OF e]]
  have w: "db_withdrawals d0 = db_withdrawals d"
    using conjunct2 [OF e] unfolding same_rest_def by (cases d, cases d0) simp
  then show ?thesis
    using assms(2) v reservations_ok_cong [OF conjunct2 [OF e]] default_event_id_net [OF assms(1)]
    by (simp add: ledger_ok_def books_balance_def withdrawals_ok_def)
qed

lemma ledger_ok_finalize:
  assumes f: "finalizeWithdrawal env i st ty e d = Inr (r, d')" and ok: "ledger_ok d"
    and ty: "(st, ty) = (WithdrawalCanceled, EventWithdrawalCanceled) \<or>
      (st, ty) = (WithdrawalCompleted, EventWithdrawalCompleted)"
  shows "ledger_ok d'"
proof -
  have b: "balances_ok d" "withdrawals_ok d" "reservations_ok d" "books_balance d" and nd: "ty \<noteq> EventDepositPending"
    using ok ty by (auto simp: ledger_ok_def)
  obtain w k n where w: "get_withdrawal d i = Some w" "n = Parse (wd_Amount w)"
    and p: "posted d [post k (if st = WithdrawalCanceled then n else 0) 0 (- n)] d'"
    and net: "net_inflow (snd k) d' = net_inflow (snd k) d - (if ty = EventWithdrawalCompleted then n else 0)"
      "\<forall>a. a \<noteq> snd k \<longrightarrow> net_inflow a d' = net_inflow a d"
    and r: "r = w\<lparr>wd_Status := st, wd_UpdatedAt := e_now env\<rparr>" "same_but_withdrawals d d'"
      "db_withdrawals d' = db_withdrawals (put_withdrawal r d)"
    using finalizeWithdrawal_effect [OF f b(1,2) nd] unfolding Let_def by blast
  have "withdrawals_ok (put_withdrawal r d)"
    using withdrawals_ok_put [OF b(2)] withdrawals_okD [OF b(2) w(1)] r(1) by simp
  then have "withdrawals_ok d'" using r(3) by (simp add: withdrawals_ok_def)
  moreover have "asset_total a d' = net_inflow a d'" for a
    using posted_total [OF p, of a] net b(4) ty by (cases "a = snd k") (auto simp: books_balance_def)
  ultimately show ?thesis
    using posted_ok [OF p] reservations_ok_withdrawals [OF r(2)] b(3) by (simp add: ledger_ok_def books_balance_def)
qed

lemma ledger_ok_step:
  assumes "ledger_step d d'" and ok: "ledger_ok d"
  shows "ledger_ok d'"
  using assms(1)
proof (cases rule: ledger_step.cases)
  case (step_deposit env u s amt e r)
  have b: "balances_ok d" "reservations_ok d" "withdrawals_ok d" "books_balance d" using ok by (auto simp: ledger_ok_def)
  have e: "posted d [post (account_key u s) 0 0 (Parse amt)] d'" "same_rest d d'"
    "\<And>a. net_inflow a d' = net_inflow a d + (if a = snd (account_key u s) then Parse amt else 0)"
    using MarkDepositPending_effect [OF step_deposit(1) b(1) step_deposit(2)] by blast+
  have "db_withdrawals d' = db_withdrawals d" using e(2) unfolding same_rest_def by (cases d, cases d') simp
  then show ?thesis
    using b e posted_ok [OF e(1)] posted_total [OF e(1)] reservations_ok_cong [OF e(2)]
    by (auto simp: ledger_ok_def books_balance_def withdrawals_ok_def)
next
  case (step_settle_deposit env u s amt e r)
  have b: "balances_ok d" "reservations_ok d" "withdrawals_ok d" "books_balance d" using ok by (auto simp: ledger_ok_def)
  have e: "posted d [post (account_key u s) (Parse amt) 0 (- Parse amt)] d'" "same_rest d d'"
    "\<And>a. net_inflow a d' = net_inflow a d"
    using SettleDeposit_effect [OF step_settle_deposit(1) b(1) step_settle_deposit(2)] by blast+
  show ?thesis
    by (rule ledger_ok_funds [OF ok funds_step_rest [OF conjI [OF e(1,2)] b(2) e(3)]]) simp
next
  case (step_request env w e r')
  have b: "balances_ok d" "reservations_ok d" "withdrawals_ok d" "books_balance d" using ok by (auto simp: ledger_ok_def)
  let ?k = "account_key (wd_UserID w) (wd_Asset w)"
  note q = RequestWithdrawal_effect [OF step_request(1) b(1) step_request(2)]
  have e: "posted d [post ?k (- Parse (wd_Amount w)) 0 (Parse (wd_Amount w))] d'" "same_but_withdrawals d d'"
    "db_withdrawals d' = db_withdrawals (put_withdrawal r' d)" "wd_Amount r' = wd_Amount w"
    "\<And>a. net_inflow a d' = net_inflow a d"
    using q by blast+
  have "withdrawals_ok d'"
    using withdrawals_ok_put [OF b(3), of r'] e(3,4) step_request(2) by (simp add: withdrawals_ok_def)
  then show ?thesis
    using b posted_ok [OF e(1)] posted_total [OF e(1)] reservations_ok_withdrawals [OF e(2)] e(5)
    by (simp add: ledger_ok_def books_balance_def)
next
  case (step_complete env i e r')
  obtain e1 d0 where 0: "default_event_id env e d = Inr (e1, d0)"
    and 1: "finalizeWithdrawal env i WithdrawalCompleted EventWithdrawalCompleted e1 d0 = Inr (r', d')"
    using CompleteWithdrawal_finalize [OF step_complete] by blast
  show ?thesis using ledger_ok_finalize [OF 1] ledger_ok_event_id [OF 0 ok] by blast
next
  case (step_cancel env i e r')
  obtain e1 d0 where 0: "default_event_id env e d = Inr (e1, d0)"
    and 1: "finalizeWithdrawal env i WithdrawalCanceled EventWithdrawalCanceled e1 d0 = Inr (r', d')"
    using CancelWithdrawal_finalize [OF step_cancel] by blast
  show ?thesis using ledger_ok_finalize [OF 1] ledger_ok_event_id [OF 0 ok] by blast
next
  case (step_reserve env x e v)
  have b: "balances_ok d" "reservations_ok d" using ok by (auto simp: ledger_ok_def)
  obtain s n where sn: "orderReserveAssetAmount x = (s, n)" by fastforce
  note q = ReserveOrderFunds_effect [OF step_reserve(1) b sn reserve_amount [OF step_reserve(2) sn]]
  show ?thesis by (rule ledger_ok_funds [OF ok conjunct1 [OF q]]) simp
next
  case (step_release env x e v)
  have b: "balances_ok d" "reservations_ok d" using ok by (auto simp: ledger_ok_def)
  obtain s n where sn: "orderReserveAssetAmount x = (s, n)" by fastforce
  obtain m where q: "funds_step d [post (account_key (o_UserID x) s) 0 (- Parse m) 0,
      post (account_key (o_UserID x) s) (Parse m) 0 0] d'"
    using ReleaseOrderFunds_effect [OF step_release(1) b sn reserve_amount [OF step_release(2) sn]] by blast
  show ?thesis by (rule ledger_ok_funds [OF ok q]) simp
next
  case (step_trade env t maker taker v)
  have b: "balances_ok d" "reservations_ok d" using ok by (auto simp: ledger_ok_def)
  obtain p where p: "settlementForTrade t maker taker = Inr p" "funds_step d (settlement_postings t p) d'"
    using settleTrade_effect [OF step_trade(1) b step_trade(2,3)] by blast
  have lq: "Parse (sp_BuyerLockedQuote p) = Parse (t_QuoteQuantity t) + Parse (sp_BuyerQuoteRelease p)"
    using settlementForTrade_plan [OF p(1) step_trade(3)] by blast
  show ?thesis
    by (rule ledger_ok_funds [OF ok p(2)]) (simp add: settlement_postings_def Let_def account_key_def lq)
qed

lemma ledger_ok_empty: "ledger_ok empty_db"
  by (simp add: ledger_ok_def balances_ok_def reservations_ok_def withdrawals_ok_def books_balance_def
      asset_total_def sum_balances_def net_inflow_def row_sum_def empty_db_def)

lemma reachable_ledger_ok: "reachable_ledger d \<Longrightarrow> ledger_ok d"
  by (induction rule: reachable_ledger.induct) (auto intro: ledger_ok_empty ledger_ok_step)


section \<open>The pending and the locked columns\<close>

lemma pending_backed_finalize:
  assumes f: "finalizeWithdrawal env i st ty e d = Inr (r, d')" and ok: "ledger_ok d" and bk: "pending_backed d"
    and ty: "ty \<noteq> EventDepositPending" "ty \<noteq> EventDepositSettled" "st \<noteq> WithdrawalRequested"
  shows "pending_backed d'"
proof -
  have b: "balances_ok d" "withdrawals_ok d" using ok by (auto simp: ledger_ok_def)
  obtain w where w: "get_withdrawal d i = Some w" "wd_Status w = WithdrawalRequested"
    and p: "posted d [post (account_key (wd_UserID w) (wd_Asset w))
      (if st = WithdrawalCanceled then Parse (wd_Amount w) else 0) 0 (- Parse (wd_Amount w))] d'"
    and r: "r = w\<lparr>wd_Status := st, wd_UpdatedAt := e_now env\<rparr>" "db_withdrawals d' = db_withdrawals (put_withdrawal r d)"
    using finalizeWithdrawal_effect [OF f b ty(1)] unfolding Let_def by blast
  have "get_withdrawal d (wd_ID r) = Some w" using w(1) wdr.get_key [OF w(1)] r(1) by simp
  note o' = open_after_finalize [OF r(2) this w(2)]
  show ?thesis
  proof (rule pending_backedI)
    fix k
    show "pending d' k = pending_deposits d' k + open_withdrawals d' k"
      using pending_posted [OF p, of k] o' [of k] quietD [OF quiet_finalizeWithdrawal [OF ty(1,2)] f, of k]
        pending_backedD [OF bk, of k] r(1) ty(3) by simp
  qed
qed

lemma pending_backed_event_id:
  assumes "default_event_id env e d = Inr (i, d0)" and "ledger_ok d" and "pending_backed d"
  shows "pending_backed d0"
  using ledger_ok_event_id [OF assms(1,2)] quietD [OF quiet_event_id assms(1)] open_withdrawals_cong [of d0 d] assms(3)
  by (simp add: pending_backed_def)

lemma pending_backed_step:
  assumes "ledger_step d d'" and ok: "ledger_ok d" and bk: "pending_backed d"
  shows "pending_backed d'"
proof -
  have b: "balances_ok d" "reservations_ok d" "withdrawals_ok d" using ok by (auto simp: ledger_ok_def)
  note pb = pending_backedD [OF bk]
  show ?thesis
    using assms(1)
  proof (cases rule: ledger_step.cases)
    case (step_deposit env u s amt e r)
    have e: "posted d [post (account_key u s) 0 0 (Parse amt)] d'" "same_rest d d'"
      using MarkDepositPending_effect [OF step_deposit(1) b(1) step_deposit(2)] by blast+
    show ?thesis
      by (rule pending_backedI)
        (simp add: pending_posted [OF e(1)] MarkDepositPending_deposits [OF step_deposit(1)] pb
          open_withdrawals_cong [OF same_rest_withdrawals [OF e(2)]])
  next
    case (step_settle_deposit env u s amt e r)
    have e: "posted d [post (account_key u s) (Parse amt) 0 (- Parse amt)] d'" "same_rest d d'"
      using SettleDeposit_effect [OF step_settle_deposit(1) b(1) step_settle_deposit(2)] by blast+
    show ?thesis
      by (rule pending_backedI)
        (simp add: pending_posted [OF e(1)] SettleDeposit_deposits [OF step_settle_deposit(1)] pb
          open_withdrawals_cong [OF same_rest_withdrawals [OF e(2)]])
  next
    case (step_request env w e r')
    let ?k = "account_key (wd_UserID w) (wd_Asset w)"
    have p: "posted d [post ?k (- Parse (wd_Amount w)) 0 (Parse (wd_Amount w))] d'"
      and r: "db_withdrawals d' = db_withdrawals (put_withdrawal r' d)" "get_withdrawal d (wd_ID r') = None"
        "wd_Status r' = WithdrawalRequested" "wd_Amount r' = wd_Amount w" "(wd_UserID r', wd_Asset r') = ?k"
      using RequestWithdrawal_effect [OF step_request(1) b(1) step_request(2)] by metis+
    have key: "account_key (wd_UserID r') (wd_Asset r') = ?k"
      using r(5) by (metis account_key_def account_key_idem prod.inject)
    show ?thesis
      by (rule pending_backedI)
        (simp add: pending_posted [OF p] open_after_request [OF r(1-3) key] r(4) pb
          quietD [OF quiet_RequestWithdrawal step_request(1)])
  next
    case (step_complete env i e r')
    obtain e1 d0 where 0: "default_event_id env e d = Inr (e1, d0)"
      and 1: "finalizeWithdrawal env i WithdrawalCompleted EventWithdrawalCompleted e1 d0 = Inr (r', d')"
      using CompleteWithdrawal_finalize [OF step_complete] by blast
    show ?thesis
      using pending_backed_finalize [OF 1] ledger_ok_event_id [OF 0 ok] pending_backed_event_id [OF 0 ok bk] by simp
  next
    case (step_cancel env i e r')
    obtain e1 d0 where 0: "default_event_id env e d = Inr (e1, d0)"
      and 1: "finalizeWithdrawal env i WithdrawalCanceled EventWithdrawalCanceled e1 d0 = Inr (r', d')"
      using CancelWithdrawal_finalize [OF step_cancel] by blast
    show ?thesis
      using pending_backed_finalize [OF 1] ledger_ok_event_id [OF 0 ok] pending_backed_event_id [OF 0 ok bk] by simp
  next
    case (step_reserve env x e v)
    obtain s n where sn: "orderReserveAssetAmount x = (s, n)" by fastforce
    note q = ReserveOrderFunds_effect [OF step_reserve(1) b(1,2) sn reserve_amount [OF step_reserve(2) sn]]
    show ?thesis
      by (rule pending_backed_funds [OF conjunct1 [OF q] _ quietD [OF quiet_ReserveOrderFunds step_reserve(1)] bk]) simp
  next
    case (step_release env x e v)
    obtain s n where sn: "orderReserveAssetAmount x = (s, n)" by fastforce
    obtain m where q: "funds_step d [post (account_key (o_UserID x) s) 0 (- Parse m) 0,
        post (account_key (o_UserID x) s) (Parse m) 0 0] d'"
      using ReleaseOrderFunds_effect [OF step_release(1) b(1,2) sn reserve_amount [OF step_release(2) sn]] by blast
    show ?thesis
      by (rule pending_backed_funds [OF q _ quietD [OF quiet_ReleaseOrderFunds step_release(1)] bk]) simp
  next
    case (step_trade env t maker taker v)
    obtain p where q: "funds_step d (settlement_postings t p) d'"
      using settleTrade_effect [OF step_trade(1) b(1,2) step_trade(2,3)] by blast
    show ?thesis
      by (rule pending_backed_funds [OF q _ quietD [OF quiet_settleTrade step_trade(1)] bk])
        (simp add: settlement_postings_def Let_def)
  qed
qed

lemma pending_backed_empty: "pending_backed empty_db"
  by (rule pending_backedI)
    (simp add: pending_def get_balance_def pending_deposits_def open_withdrawals_def sum_withdrawals_def
      row_sum_def empty_db_def)

lemma reachable_pending_backed: "reachable_ledger d \<Longrightarrow> pending_backed d"
  by (induction rule: reachable_ledger.induct)
    (auto intro: pending_backed_empty pending_backed_step reachable_ledger_ok)

lemma locks_backed_event_id:
  "default_event_id env e d = Inr (i, d0) \<Longrightarrow> balances_ok d \<Longrightarrow> locks_backed d \<Longrightarrow> locks_backed d0"
  by (rule locks_backed_posted [OF conjunct1 [OF posted_start] _ reserved_cong])
    (auto dest: default_event_id_effect)

text \<open>The covered ledgers are those whose releases and trades were for orders that hold a
  reservation on the account they lock: the buyer of a trade one on the quote asset, the seller
  one on the base asset.\<close>

definition buyer_of :: "trade \<Rightarrow> order \<Rightarrow> order \<Rightarrow> order" where
  "buyer_of t maker taker = (if t_TakerSide t = SideBuy then taker else maker)"

definition seller_of :: "trade \<Rightarrow> order \<Rightarrow> order \<Rightarrow> order" where
  "seller_of t maker taker = (if t_TakerSide t = SideBuy then maker else taker)"

definition covers :: "db \<Rightarrow> order \<Rightarrow> string \<Rightarrow> bool" where
  "covers d x asset \<longleftrightarrow> has_reservation d x (account_key (o_UserID x) asset)"

inductive covered_ledger :: "db \<Rightarrow> bool" where
  covered_empty: "covered_ledger empty_db"
| covered_deposit: "covered_ledger d \<Longrightarrow> MarkDepositPending env u s amt e d = Inr (r, d') \<Longrightarrow> good_amount amt \<Longrightarrow>
    covered_ledger d'"
| covered_settle_deposit: "covered_ledger d \<Longrightarrow> SettleDeposit env u s amt e d = Inr (r, d') \<Longrightarrow> good_amount amt \<Longrightarrow>
    covered_ledger d'"
| covered_request: "covered_ledger d \<Longrightarrow> RequestWithdrawal env w e d = Inr (r', d') \<Longrightarrow> good_amount (wd_Amount w) \<Longrightarrow>
    covered_ledger d'"
| covered_complete: "covered_ledger d \<Longrightarrow> CompleteWithdrawal env i e d = Inr (r', d') \<Longrightarrow> covered_ledger d'"
| covered_cancel: "covered_ledger d \<Longrightarrow> CancelWithdrawal env i e d = Inr (r', d') \<Longrightarrow> covered_ledger d'"
| covered_reserve: "covered_ledger d \<Longrightarrow> ReserveOrderFunds env x e d = Inr (v, d') \<Longrightarrow>
    amount (o_RemainingQuantity x) \<Longrightarrow> covered_ledger d'"
| covered_release: "covered_ledger d \<Longrightarrow> ReleaseOrderFunds env x e d = Inr (v, d') \<Longrightarrow>
    amount (o_RemainingQuantity x) \<Longrightarrow> covers d x (fst (orderReserveAssetAmount x)) \<Longrightarrow> covered_ledger d'"
| covered_trade: "covered_ledger d \<Longrightarrow> settleTrade env t maker taker d = Inr (v, d') \<Longrightarrow>
    good_amount (t_Quantity t) \<Longrightarrow> good_amount (t_QuoteQuantity t) \<Longrightarrow>
    covers d (buyer_of t maker taker) (t_QuoteAsset t) \<Longrightarrow> covers d (seller_of t maker taker) (t_BaseAsset t) \<Longrightarrow>
    covered_ledger d'"

lemma covered_reachable: "covered_ledger d \<Longrightarrow> reachable_ledger d"
  by (induction rule: covered_ledger.induct) (blast intro: reach_empty reach_ledger_step ledger_step.intros)+

lemma covered_ok:
  assumes "covered_ledger d" shows "balances_ok d" "reservations_ok d" "ledger_ok d"
  using reachable_ledger_ok [OF covered_reachable [OF assms]] by (auto simp: ledger_ok_def)

lemma plan_sides:
  "settlementForTrade t maker taker = Inr p \<Longrightarrow>
    sp_Buyer p = buyer_of t maker taker \<and> sp_Seller p = seller_of t maker taker"
  by (auto simp: settlementForTrade_def Let_def buyer_of_def seller_of_def split: if_splits)

lemma settleTrade_backed:
  assumes a: "settleTrade env t maker taker d = Inr (v, d')" and ok: "balances_ok d" "reservations_ok d"
    and good: "good_amount (t_Quantity t)" "good_amount (t_QuoteQuantity t)"
    and cov: "covers d (buyer_of t maker taker) (t_QuoteAsset t)" "covers d (seller_of t maker taker) (t_BaseAsset t)"
    and bk: "locks_backed d"
  shows "locks_backed d'"
proof -
  obtain p where p: "settlementForTrade t maker taker = Inr p" and f: "funds_step d (settlement_postings t p) d'"
    and r: "let kb = account_key (o_UserID (sp_Buyer p)) (t_QuoteAsset t);
           ks = account_key (o_UserID (sp_Seller p)) (t_BaseAsset t) in
       has_reservation d (sp_Buyer p) kb \<and> has_reservation d (sp_Seller p) ks \<longrightarrow>
       (\<forall>j. reserved d' j = reserved d j - (if kb = j then Parse (sp_BuyerLockedQuote p) else 0)
          - (if ks = j then Parse (t_Quantity t) else 0))"
    using settleTrade_effect [OF a ok good] by blast
  show ?thesis
  proof (rule locks_backedI)
    fix j
    show "locked d' j = reserved d' j"
      using r cov funds_step_locked [OF f, of j] locks_backedD [OF bk, of j] plan_sides [OF p]
      by (cases j) (simp add: covers_def settlement_postings_def Let_def)
  qed
qed

lemma locks_backed_finalize:
  assumes f: "finalizeWithdrawal env i st ty e d = Inr (r, d')" and ok: "ledger_ok d" and bk: "locks_backed d"
    and ty: "ty \<noteq> EventDepositPending"
  shows "locks_backed d'"
proof -
  have b: "balances_ok d" "withdrawals_ok d" using ok by (auto simp: ledger_ok_def)
  obtain k n m where p: "posted d [post k n 0 m] d'" and s: "same_but_withdrawals d d'"
    using finalizeWithdrawal_effect [OF f b ty] unfolding Let_def by blast
  show ?thesis by (rule locks_backed_posted [OF p _ reserved_withdrawals [OF s] bk]) simp
qed

lemma locks_backed_empty: "locks_backed empty_db"
  by (rule locks_backedI)
    (simp add: locked_def get_balance_def reserved_def sum_reservations_def row_sum_def empty_db_def)

lemma covered_locks_backed: "covered_ledger d \<Longrightarrow> locks_backed d"
proof (induction rule: covered_ledger.induct)
  case covered_empty
  show ?case by (rule locks_backed_empty)
next
  case (covered_deposit d env u s amt e r d')
  note b = covered_ok [OF covered_deposit(1)]
  have e: "posted d [post (account_key u s) 0 0 (Parse amt)] d'" "same_rest d d'"
    using MarkDepositPending_effect [OF covered_deposit(2) b(1) covered_deposit(3)] by blast+
  show ?case by (rule locks_backed_posted [OF e(1) _ reserved_cong [OF e(2)] covered_deposit(4)]) simp
next
  case (covered_settle_deposit d env u s amt e r d')
  note b = covered_ok [OF covered_settle_deposit(1)]
  have e: "posted d [post (account_key u s) (Parse amt) 0 (- Parse amt)] d'" "same_rest d d'"
    using SettleDeposit_effect [OF covered_settle_deposit(2) b(1) covered_settle_deposit(3)] by blast+
  show ?case by (rule locks_backed_posted [OF e(1) _ reserved_cong [OF e(2)] covered_settle_deposit(4)]) simp
next
  case (covered_request d env w e r' d')
  note b = covered_ok [OF covered_request(1)]
  have e: "posted d [post (account_key (wd_UserID w) (wd_Asset w)) (- Parse (wd_Amount w)) 0 (Parse (wd_Amount w))] d'"
    "same_but_withdrawals d d'"
    using RequestWithdrawal_effect [OF covered_request(2) b(1) covered_request(3)] by blast+
  show ?case by (rule locks_backed_posted [OF e(1) _ reserved_withdrawals [OF e(2)] covered_request(4)]) simp
next
  case (covered_complete d env i e r' d')
  note b = covered_ok [OF covered_complete(1)]
  obtain e1 d0 where 0: "default_event_id env e d = Inr (e1, d0)"
    and 1: "finalizeWithdrawal env i WithdrawalCompleted EventWithdrawalCompleted e1 d0 = Inr (r', d')"
    using CompleteWithdrawal_finalize [OF covered_complete(2)] by blast
  show ?case
    using locks_backed_finalize [OF 1] ledger_ok_event_id [OF 0 b(3)] locks_backed_event_id [OF 0 b(1) covered_complete(3)]
    by simp
next
  case (covered_cancel d env i e r' d')
  note b = covered_ok [OF covered_cancel(1)]
  obtain e1 d0 where 0: "default_event_id env e d = Inr (e1, d0)"
    and 1: "finalizeWithdrawal env i WithdrawalCanceled EventWithdrawalCanceled e1 d0 = Inr (r', d')"
    using CancelWithdrawal_finalize [OF covered_cancel(2)] by blast
  show ?case
    using locks_backed_finalize [OF 1] ledger_ok_event_id [OF 0 b(3)] locks_backed_event_id [OF 0 b(1) covered_cancel(3)]
    by simp
next
  case (covered_reserve d env x e v d')
  note b = covered_ok [OF covered_reserve(1)]
  obtain s n where sn: "orderReserveAssetAmount x = (s, n)" by fastforce
  note q = ReserveOrderFunds_effect [OF covered_reserve(2) b(1,2) sn reserve_amount [OF covered_reserve(3) sn]]
  show ?case
  proof (rule locks_backedI)
    fix j
    show "locked d' j = reserved d' j"
      using funds_step_locked [OF conjunct1 [OF q], of j] conjunct1 [OF conjunct2 [OF q]]
        locks_backedD [OF covered_reserve(4), of j] by (cases j) auto
  qed
next
  case (covered_release d env x e v d')
  note b = covered_ok [OF covered_release(1)]
  obtain s n where sn: "orderReserveAssetAmount x = (s, n)" by fastforce
  show ?case
    using ReleaseOrderFunds_backed [OF covered_release(2) b(1,2) sn reserve_amount [OF covered_release(3) sn] _
        covered_release(5)] covered_release(4) sn by (simp add: covers_def)
next
  case (covered_trade d env t maker taker v d')
  note b = covered_ok [OF covered_trade(1)]
  show ?case by (rule settleTrade_backed [OF covered_trade(2) b(1,2) covered_trade(3-7)])
qed

section \<open>A sample ledger\<close>

text \<open>
  Alice holds 100 USD and Bob 5 BTC; Alice bids for 3 BTC at 2 and Bob offers 3 BTC at 1.5, and
  both orders have their funds reserved.
\<close>

definition sample_env :: env where
  "sample_env = \<lparr>e_now = 7, e_newid = (\<lambda>n. replicate n (CHR ''i''))\<rparr>"

definition after :: "'a ltx \<Rightarrow> db \<Rightarrow> db" where
  "after m d = (case m d of Inl _ \<Rightarrow> d | Inr (_, d') \<Rightarrow> d')"

definition succeeds :: "'a ltx \<Rightarrow> db \<Rightarrow> bool" where
  "succeeds m d = (case m d of Inl _ \<Rightarrow> False | Inr _ \<Rightarrow> True)"

lemma succeeds_after: "succeeds m d \<Longrightarrow> \<exists>r. m d = Inr (r, after m d)"
  by (auto simp: succeeds_def after_def split: sum.splits prod.splits)

definition sample_order :: "string \<Rightarrow> string \<Rightarrow> side \<Rightarrow> string \<Rightarrow> order" where
  "sample_order oid user sd price =
     \<lparr>o_ID = oid, o_ClientOrderID = oid, o_ReservationID = [], o_UserID = user, o_Market = ''BTC-USD'',
      o_BaseAsset = ''BTC'', o_QuoteAsset = ''USD'', o_Side = sd, o_Type = TypeLimit, o_Status = StatusOpen,
      o_TimeInForce = TimeInForceGTC, o_Price = price, o_StopPrice = ''0'', o_Quantity = ''3'',
      o_FilledQuantity = ''0'', o_RemainingQuantity = ''3'', o_SequenceID = 1, o_CreatedAt = 1, o_UpdatedAt = 1\<rparr>"

definition sample_bid :: order where
  "sample_bid = sample_order ''o1'' ''alice'' SideBuy ''2''"

definition sample_ask :: order where
  "sample_ask = sample_order ''o2'' ''bob'' SideSell ''1.5''"

definition sample_balance :: "string \<Rightarrow> string \<Rightarrow> string \<Rightarrow> string \<Rightarrow> string \<Rightarrow> balance" where
  "sample_balance user asset av lk pe =
     \<lparr>b_UserID = user, b_Asset = asset, b_Available = av, b_Locked = lk, b_Pending = pe, b_UpdatedAt = 7\<rparr>"

definition sample_event :: "nat \<Rightarrow> string \<Rightarrow> string \<Rightarrow> balance_event_type \<Rightarrow> string \<Rightarrow> balance_event" where
  "sample_event n user asset ty amt =
     plain_event (''bev_'' @ replicate n (CHR ''i'')) user asset ty amt 7"

definition sample_reservation :: "string \<Rightarrow> string \<Rightarrow> string \<Rightarrow> string \<Rightarrow> reservation" where
  "sample_reservation oid user asset amt =
     \<lparr>rv_ID = ''res_'' @ oid, rv_UserID = user, rv_Market = ''BTC-USD'', rv_Asset = asset, rv_Amount = amt,
      rv_ConsumedAmount = ''0'', rv_ReleasedAmount = ''0'', rv_RemainingAmount = amt,
      rv_Status = ReservationStatusActive, rv_OrderID = oid, rv_CommandID = [], rv_CreatedAt = 7, rv_UpdatedAt = 7\<rparr>"

definition sample_deposits :: "balance_event list" where
  "sample_deposits =
     [sample_event 0 ''alice'' ''USD'' EventDepositPending ''100'',
      sample_event 1 ''alice'' ''USD'' EventDepositSettled ''100'',
      sample_event 2 ''bob'' ''BTC'' EventDepositPending ''5'',
      sample_event 3 ''bob'' ''BTC'' EventDepositSettled ''5'']"

definition sample_db :: "balance list \<Rightarrow> balance_event list \<Rightarrow> reservation list \<Rightarrow> nat \<Rightarrow> db" where
  "sample_db bs es rs n =
     empty_db\<lparr>db_balances := bs, db_balance_events := es, db_reservations := rs, db_ids := n\<rparr>"

definition sample_deposited :: "nat \<Rightarrow> db" where
  "sample_deposited n =
     sample_db
       (take (1 + n div 3)
         [if n = 1 then sample_balance ''alice'' ''USD'' ''0'' ''0'' ''100'' else sample_balance ''alice'' ''USD'' ''100'' ''0'' ''0'',
          if n = 3 then sample_balance ''bob'' ''BTC'' ''0'' ''0'' ''5'' else sample_balance ''bob'' ''BTC'' ''5'' ''0'' ''0''])
       (take n sample_deposits) [] n"

definition sample_half :: db where
  "sample_half =
     sample_db [sample_balance ''alice'' ''USD'' ''94'' ''6'' ''0'', sample_balance ''bob'' ''BTC'' ''5'' ''0'' ''0'']
       (sample_deposits @ [(sample_event 4 ''alice'' ''USD'' EventReserve ''6'')
          \<lparr>be_OrderID := ''o1'', be_ReservationID := ''res_o1''\<rparr>])
       [sample_reservation ''o1'' ''alice'' ''USD'' ''6''] 5"

definition sample_ledger :: db where
  "sample_ledger =
     sample_db [sample_balance ''alice'' ''USD'' ''94'' ''6'' ''0'', sample_balance ''bob'' ''BTC'' ''2'' ''3'' ''0'']
       (sample_deposits @ [(sample_event 4 ''alice'' ''USD'' EventReserve ''6'')
          \<lparr>be_OrderID := ''o1'', be_ReservationID := ''res_o1''\<rparr>,
         (sample_event 5 ''bob'' ''BTC'' EventReserve ''3'')
          \<lparr>be_OrderID := ''o2'', be_ReservationID := ''res_o2''\<rparr>])
       [sample_reservation ''o1'' ''alice'' ''USD'' ''6'', sample_reservation ''o2'' ''bob'' ''BTC'' ''3''] 6"

definition sample_trade :: trade where
  "sample_trade = \<lparr>t_ID = ''t1'', t_Market = ''BTC-USD'', t_BaseAsset = ''BTC'', t_QuoteAsset = ''USD'',
     t_MakerOrderID = ''o2'', t_TakerOrderID = ''o1'', t_MakerUserID = ''bob'', t_TakerUserID = ''alice'',
     t_TakerSide = SideBuy, t_Price = ''1.5'', t_Quantity = ''3'', t_QuoteQuantity = ''4.5'', t_CreatedAt = 8\<rparr>"

definition sample_withdrawal :: withdrawal where
  "sample_withdrawal = \<lparr>wd_ID = ''w1'', wd_UserID = ''alice'', wd_Asset = ''usd'', wd_Amount = ''10'',
     wd_ChainKey = ''eth'', wd_Address = ''0xa'', wd_Status = WithdrawalRequested, wd_CreatedAt = 0, wd_UpdatedAt = 0\<rparr>"

lemma sample_good: "good_amount ''100'' \<and> good_amount ''5'' \<and> good_amount ''3'' \<and> good_amount ''4.5'' \<and> good_amount ''10''"
  by code_simp

definition leads_to :: "'a ltx \<Rightarrow> db \<Rightarrow> db \<Rightarrow> bool" where
  "leads_to m d d' = (case m d of Inl _ \<Rightarrow> False | Inr (_, d1) \<Rightarrow> d1 = d')"

lemma leads_toD: "leads_to m d d' \<Longrightarrow> \<exists>r. m d = Inr (r, d')"
  by (auto simp: leads_to_def split: sum.splits prod.splits)

lemma sample_runs:
  "leads_to (MarkDepositPending sample_env ''alice'' ''USD'' ''100'' []) empty_db (sample_deposited 1)"
  "leads_to (SettleDeposit sample_env ''alice'' ''USD'' ''100'' []) (sample_deposited 1) (sample_deposited 2)"
  "leads_to (MarkDepositPending sample_env ''bob'' ''BTC'' ''5'' []) (sample_deposited 2) (sample_deposited 3)"
  "leads_to (SettleDeposit sample_env ''bob'' ''BTC'' ''5'' []) (sample_deposited 3) (sample_deposited 4)"
  "leads_to (ReserveOrderFunds sample_env sample_bid []) (sample_deposited 4) sample_half"
  "leads_to (ReserveOrderFunds sample_env sample_ask []) sample_half sample_ledger"
  by code_simp+

lemma sample_ledger_runs:
  "succeeds (settleTrade sample_env sample_trade sample_ask sample_bid) sample_ledger"
  "succeeds (ReleaseOrderFunds sample_env sample_bid []) sample_ledger"
  "succeeds (RequestWithdrawal sample_env sample_withdrawal []) sample_ledger"
  by code_simp+

lemma sample_amounts: "amount (o_RemainingQuantity sample_bid)" "amount (o_RemainingQuantity sample_ask)"
  using sample_good by (simp_all add: sample_bid_def sample_ask_def sample_order_def good_amount_def)

lemma covered_sample_deposited: "covered_ledger (sample_deposited 4)"
proof -
  have g: "good_amount ''100''" "good_amount ''5''" using sample_good by auto
  have 1: "covered_ledger (sample_deposited 1)"
    using leads_toD [OF sample_runs(1)] covered_deposit [OF covered_empty _ g(1)] by blast
  have 2: "covered_ledger (sample_deposited 2)"
    using leads_toD [OF sample_runs(2)] covered_settle_deposit [OF 1 _ g(1)] by blast
  have 3: "covered_ledger (sample_deposited 3)"
    using leads_toD [OF sample_runs(3)] covered_deposit [OF 2 _ g(2)] by blast
  show ?thesis
    using leads_toD [OF sample_runs(4)] covered_settle_deposit [OF 3 _ g(2)] by blast
qed

lemma covered_sample_half: "covered_ledger sample_half"
  using leads_toD [OF sample_runs(5)] covered_reserve [OF covered_sample_deposited _ sample_amounts(1)] by blast

lemma covered_sample_ledger: "covered_ledger sample_ledger"
  using leads_toD [OF sample_runs(6)] covered_reserve [OF covered_sample_half _ sample_amounts(2)] by blast

lemmas reachable_sample_deposited = covered_reachable [OF covered_sample_deposited]
lemmas reachable_sample_half = covered_reachable [OF covered_sample_half]
lemmas reachable_sample_ledger = covered_reachable [OF covered_sample_ledger]

text \<open>The sample ledger with Alice's request to withdraw 10 of her USD.\<close>

definition sample_requested :: db where
  "sample_requested = after (RequestWithdrawal sample_env sample_withdrawal []) sample_ledger"

lemma covered_sample_requested: "covered_ledger sample_requested"
proof -
  obtain r where "RequestWithdrawal sample_env sample_withdrawal [] sample_ledger = Inr (r, sample_requested)"
    using succeeds_after [OF sample_ledger_runs(3)] unfolding sample_requested_def by blast
  moreover have "good_amount (wd_Amount sample_withdrawal)" using sample_good by (simp add: sample_withdrawal_def)
  ultimately show ?thesis using covered_request [OF covered_sample_ledger] by blast
qed

section \<open>The properties\<close>

text \<open>C8: the books of every reachable ledger: no balance is ever negative, every reservation's amount
  is the sum of what it consumed, released and has left, and per asset the money in all accounts is
  what the recorded deposits brought in less what the recorded withdrawals took out. On every account
  the pending column is the sum of its deposits recorded as pending and not as settled and of its open
  withdrawals; and as long as funds were released and settled only for orders that hold a
  reservation on the account, the locked column is the sum of what its reservations have left.\<close>

theorem ledger_books_balance:
  assumes "reachable_ledger d"
  shows "(\<forall>k b. get_balance d k = Some b \<longrightarrow>
      0 \<le> Parse (b_Available b) \<and> 0 \<le> Parse (b_Locked b) \<and> 0 \<le> Parse (b_Pending b)) \<and>
    (\<forall>i r. get_reservation d i = Some r \<longrightarrow>
      Parse (rv_Amount r) = Parse (rv_ConsumedAmount r) + Parse (rv_ReleasedAmount r) + Parse (rv_RemainingAmount r) \<and>
      0 \<le> Parse (rv_RemainingAmount r) \<and> rv_Status r = reservationStatus r) \<and>
    (\<forall>a. asset_total a d = net_inflow a d) \<and>
    (\<forall>k. pending d k = pending_deposits d k + open_withdrawals d k) \<and>
    (covered_ledger d \<longrightarrow> (\<forall>k. locked d k = reserved d k))"
proof -
  have ok: "balances_ok d" "reservations_ok d" "books_balance d"
    using reachable_ledger_ok [OF assms] by (auto simp: ledger_ok_def)
  have "\<forall>k. pending d k = pending_deposits d k + open_withdrawals d k"
    using pending_backedD [OF reachable_pending_backed [OF assms]] by blast
  moreover have "covered_ledger d \<longrightarrow> (\<forall>k. locked d k = reserved d k)"
    using locks_backedD [OF covered_locks_backed] by blast
  ultimately show ?thesis
    using balances_okD [OF ok(1)] reservations_okD [OF ok(2)] ok(3)
    by (auto simp: bal_ok_def res_ok_def good_amount_def books_balance_def)
qed

theorem ledger_books_balance_witness:
  "asset_total ''USD'' sample_requested = 100 \<and> asset_total ''BTC'' sample_requested = 5 \<and>
   pending sample_requested (''alice'', ''USD'') = 10 \<and> locked sample_requested (''alice'', ''USD'') = 6"
proof -
  have "net_inflow ''USD'' sample_requested = 100" "net_inflow ''BTC'' sample_requested = 5"
    "pending_deposits sample_requested (''alice'', ''USD'') = 0" "open_withdrawals sample_requested (''alice'', ''USD'') = 10"
    "reserved sample_requested (''alice'', ''USD'') = 6"
    by code_simp+
  then show ?thesis
    using ledger_books_balance [OF covered_reachable [OF covered_sample_requested]] covered_sample_requested by simp
qed

text \<open>C9: a trade of decimal amounts settled on a reachable ledger moves exactly its amounts. The buyer is the taker of a trade whose taker
  bought and the maker otherwise, the seller the other one. The buyer's locked quote at the buyer's
  own price pays the seller the trade's quote and the rest is refunded, the seller's locked base goes
  to the buyer, and no asset is created or lost. Where both orders hold a reservation on the account they
  pay from, locked funds stay backed by the reservations.\<close>

theorem settleTrade_settles:
  assumes "settleTrade env t maker taker d = Inr (u, d')" and "reachable_ledger d"
    and "good_amount (t_Quantity t)" and "good_amount (t_QuoteQuantity t)"
  shows "let buyer = (if t_TakerSide t = SideBuy then taker else maker);
         seller = (if t_TakerSide t = SideBuy then maker else taker);
         kb = account_key (o_UserID buyer) (t_QuoteAsset t); ks = account_key (o_UserID seller) (t_BaseAsset t);
         cost = Parse (t_QuoteQuantity t); refund = Parse (Mul (t_Quantity t) (o_Price buyer)) - cost in
      0 < cost \<and> 0 \<le> refund \<and>
      posted d [post kb 0 (- (cost + refund)) 0, post kb refund 0 0,
        post (account_key (o_UserID buyer) (t_BaseAsset t)) (Parse (t_Quantity t)) 0 0,
        post ks 0 (- Parse (t_Quantity t)) 0, post (account_key (o_UserID seller) (t_QuoteAsset t)) cost 0 0] d' \<and>
      (\<forall>a. asset_total a d' = asset_total a d) \<and>
      (locks_backed d \<and> has_reservation d buyer kb \<and> has_reservation d seller ks \<longrightarrow> locks_backed d')"
proof -
  have ok: "balances_ok d" "reservations_ok d"
    using reachable_ledger_ok [OF assms(2)] by (auto simp: ledger_ok_def)
  obtain p where p: "settlementForTrade t maker taker = Inr p" "funds_step d (settlement_postings t p) d'"
    using settleTrade_effect [OF assms(1) ok assms(3,4)] by blast
  note plan = settlementForTrade_plan [OF p(1) assms(4)]
  note sides = plan_sides [OF p(1)]
  have lk: "sp_BuyerLockedQuote p = Mul (t_Quantity t) (o_Price (buyer_of t maker taker))"
    using plan sides by simp
  have lq: "Parse (Mul (t_Quantity t) (o_Price (buyer_of t maker taker))) =
      Parse (t_QuoteQuantity t) + Parse (sp_BuyerQuoteRelease p)"
    unfolding lk [symmetric] using plan by blast
  have refund: "0 \<le> Parse (sp_BuyerQuoteRelease p)" "0 < Parse (t_QuoteQuantity t)"
    using plan by (auto simp: good_amount_def)
  have posts: "posted d (settlement_postings t p) d'" using p(2) by (simp add: funds_step_def)
  have total: "asset_total a d' = asset_total a d" for a
    using posted_total [OF posts, of a] sides
    by (simp add: settlement_postings_def Let_def account_key_def lk lq)
  have backed: "covers d (buyer_of t maker taker) (t_QuoteAsset t) \<Longrightarrow>
      covers d (seller_of t maker taker) (t_BaseAsset t) \<Longrightarrow> locks_backed d \<Longrightarrow> locks_backed d'"
    by (rule settleTrade_backed [OF assms(1) ok assms(3,4)])
  show ?thesis
    unfolding buyer_of_def [of t maker taker, symmetric] seller_of_def [of t maker taker, symmetric] Let_def
    using posts total backed refund sides
    by (simp add: settlement_postings_def Let_def covers_def lk lq)
qed

theorem settleTrade_settles_witness:
  "asset_total ''USD'' (after (settleTrade sample_env sample_trade sample_ask sample_bid) sample_ledger) =
     asset_total ''USD'' sample_ledger \<and>
   avail (after (settleTrade sample_env sample_trade sample_ask sample_bid) sample_ledger) (''bob'', ''USD'') = 9/2 \<and>
   avail (after (settleTrade sample_env sample_trade sample_ask sample_bid) sample_ledger) (''alice'', ''USD'') = 191/2 \<and>
   avail (after (settleTrade sample_env sample_trade sample_ask sample_bid) sample_ledger) (''alice'', ''BTC'') = 3"
proof -
  let ?d = "after (settleTrade sample_env sample_trade sample_ask sample_bid) sample_ledger"
  have g: "good_amount (t_Quantity sample_trade)" "good_amount (t_QuoteQuantity sample_trade)"
    using sample_good by (simp_all add: sample_trade_def)
  obtain r where run: "settleTrade sample_env sample_trade sample_ask sample_bid sample_ledger = Inr (r, ?d)"
    using succeeds_after [OF sample_ledger_runs(1)] by blast
  have v: "Parse ''4.5'' = 9/2" "Parse ''3'' = 3" "Parse (Mul ''3'' ''2'') = 6"
    "avail sample_ledger (''bob'', ''USD'') = 0" "avail sample_ledger (''alice'', ''USD'') = 94"
    "avail sample_ledger (''alice'', ''BTC'') = 0"
    "account_key ''alice'' ''USD'' = (''alice'', ''USD'')" "account_key ''alice'' ''BTC'' = (''alice'', ''BTC'')"
    "account_key ''bob'' ''USD'' = (''bob'', ''USD'')" "account_key ''bob'' ''BTC'' = (''bob'', ''BTC'')"
    by code_simp+
  show ?thesis
    using settleTrade_settles [OF run reachable_sample_ledger g] unfolding Let_def
    by (simp add: posted_def sample_trade_def sample_ask_def sample_bid_def sample_order_def v)
qed

end
