(* ===== verification/LedgerFlow.thy ===== *)
theory LedgerFlow
  imports LedgerProps
begin

text \<open>
  Properties of the order and withdrawal flows over the ledger: reserving and releasing an order's
  funds, refusals without effect, and the life of a withdrawal.
\<close>

text \<open>Reserving an order's funds moves exactly the order's cost from available to locked, creates
  the reservation of that amount, and keeps locked funds backed; an order of no cost reserves nothing.\<close>

theorem ReserveOrderFunds_locks:
  assumes "ReserveOrderFunds env x e d = Inr (u, d')" and "reachable_ledger d" and "locks_backed d"
    and "amount (o_RemainingQuantity x)"
  shows "let (asset, amt) = orderReserveAssetAmount x; n = Parse amt; k = account_key (o_UserID x) asset in
    locks_backed d' \<and> (\<forall>a. asset_total a d' = asset_total a d) \<and>
    (if n \<le> 0 then avail d' = avail d \<and> locked d' = locked d
     else posted d [post k (- n) n 0] d' \<and> n \<le> avail d k \<and> has_reservation d' x k \<and>
       remaining d' (trim_space (reservationIDForOrder x)) = n)"
proof -
  obtain asset amt where sn: "orderReserveAssetAmount x = (asset, amt)" by fastforce
  have ok: "balances_ok d" "reservations_ok d"
    using reachable_ledger_ok [OF assms(2)] by (auto simp: ledger_ok_def)
  let ?k = "account_key (o_UserID x) asset" let ?n = "Parse amt"
  note q = ReserveOrderFunds_effect [OF assms(1) ok sn reserve_amount [OF assms(4) sn]]
  let ?ps = "if ?n \<le> 0 then [] else [post ?k (- ?n) ?n 0]"
  have f: "funds_step d ?ps d'" and r: "\<And>j. reserved d' j = reserved d j + (if j = ?k \<and> 0 < ?n then ?n else 0)"
    using q by blast+
  have posts: "posted d ?ps d'" using f by (simp add: funds_step_def)
  have "locked d' j = reserved d' j" for j
    using funds_step_locked [OF f, of j] r [of j] locks_backedD [OF assms(3), of j] by (cases "j = ?k") auto
  then have backed: "locks_backed d'" by (rule locks_backedI)
  have total: "asset_total a d' = asset_total a d" for a using posted_total [OF posts, of a] by simp
  show ?thesis
  proof (cases "?n \<le> 0")
    case True
    then have "avail d' = avail d" "locked d' = locked d"
      using posts unfolding posted_def by (auto intro!: ext)
    then show ?thesis using True sn backed total by (simp add: Let_def)
  next
    case False
    then obtain r where "get_reservation d' (trim_space (reservationIDForOrder x)) = Some r"
      "(rv_UserID r, rv_Asset r) = ?k" "rv_RemainingAmount r = amt"
      and av: "?n \<le> avail d ?k" using q by auto
    moreover have "trim_space (reservationIDForOrder x) \<noteq> []"
    proof
      assume "trim_space (reservationIDForOrder x) = []"
      then show False using assms(1) sn False
        by (auto simp: ReserveOrderFunds_def tx_bind_Inr_iff Let_def dec_simps createReservation_def split: if_splits)
    qed
    ultimately have "has_reservation d' x ?k" "remaining d' (trim_space (reservationIDForOrder x)) = ?n"
      by (auto simp: has_reservation_def reservation_for_def remaining_def)
    then show ?thesis using False sn backed total posts av by (simp add: Let_def)
  qed
qed

lemma locks_backed_half: "locks_backed sample_half"
  by (rule covered_locks_backed [OF covered_sample_half])

theorem ReserveOrderFunds_locks_witness:
  "locks_backed sample_ledger \<and> remaining sample_ledger ''res_o2'' = 3"
proof -
  obtain r where "ReserveOrderFunds sample_env sample_ask [] sample_half = Inr (r, sample_ledger)"
    using leads_toD [OF sample_runs(6)] by blast
  note t = ReserveOrderFunds_locks [OF this reachable_sample_half locks_backed_half sample_amounts(2)]
  have "orderReserveAssetAmount sample_ask = (''BTC'', ''3'')" "reservationIDForOrder sample_ask = ''res_o2''"
    "trim_space ''res_o2'' = ''res_o2''" "Parse ''3'' = 3"
    by code_simp+
  then show ?thesis using t by (simp add: Let_def)
qed

text \<open>Releasing an order's funds gives back the smaller of what the order still needs and what its
  reservation has left, from locked to available, and keeps locked funds backed.\<close>

theorem ReleaseOrderFunds_unlocks:
  assumes "ReleaseOrderFunds env x e d = Inr (u, d')" and "reachable_ledger d" and "locks_backed d"
    and "orderReserveAssetAmount x = (asset, amt)" and "amount amt" and "0 < Parse amt"
    and "reservation_for d x (account_key (o_UserID x) asset) r" and "0 < Parse (rv_RemainingAmount r)"
  shows "let n = min (Parse amt) (Parse (rv_RemainingAmount r)); k = account_key (o_UserID x) asset in
    posted d [post k 0 (- n) 0, post k n 0 0] d' \<and> locks_backed d' \<and>
    remaining d' (trim_space (reservationIDForOrder x)) = Parse (rv_RemainingAmount r) - n"
proof -
  have ok: "balances_ok d" "reservations_ok d"
    using reachable_ledger_ok [OF assms(2)] by (auto simp: ledger_ok_def)
  show ?thesis
    using ReleaseOrderFunds_exact [OF assms(1) ok assms(4,5,6) refl assms(7,8,3)] by (simp add: Let_def funds_step_def)
qed

lemma locks_backed_sample: "locks_backed sample_ledger"
  by (rule covered_locks_backed [OF covered_sample_ledger])

theorem ReleaseOrderFunds_unlocks_witness:
  "avail (after (ReleaseOrderFunds sample_env sample_bid []) sample_ledger) (''alice'', ''USD'') = 100"
proof -
  let ?d = "after (ReleaseOrderFunds sample_env sample_bid []) sample_ledger"
  obtain u where u: "ReleaseOrderFunds sample_env sample_bid [] sample_ledger = Inr (u, ?d)"
    using succeeds_after [OF sample_ledger_runs(2)] by blast
  have f: "orderReserveAssetAmount sample_bid = (''USD'', ''6'')" "account_key (o_UserID sample_bid) ''USD'' = (''alice'', ''USD'')"
    "reservationIDForOrder sample_bid = ''res_o1''" "trim_space ''res_o1'' = ''res_o1''" "Parse ''6'' = 6" "Parse ''94'' = 94"
    by code_simp+
  have r: "reservation_for sample_ledger sample_bid (account_key (o_UserID sample_bid) ''USD'')
      (sample_reservation ''o1'' ''alice'' ''USD'' ''6'')"
    unfolding reservation_for_def f
    by (simp add: get_reservation_def sample_ledger_def sample_db_def sample_reservation_def)
  have rem: "0 < Parse (rv_RemainingAmount (sample_reservation ''o1'' ''alice'' ''USD'' ''6''))"
    by (simp add: sample_reservation_def f)
  have am: "amount ''6''" by code_simp
  have pos: "0 < Parse ''6''" by (simp add: f)
  have "posted sample_ledger [post (''alice'', ''USD'') 0 (- 6) 0, post (''alice'', ''USD'') 6 0 0] ?d"
    using ReleaseOrderFunds_unlocks [OF u reachable_sample_ledger locks_backed_sample f(1) am pos r rem]
    by (simp add: Let_def sample_reservation_def f)
  then have "avail ?d (''alice'', ''USD'') = avail sample_ledger (''alice'', ''USD'') + 6"
    by (simp add: posted_def)
  moreover have "avail sample_ledger (''alice'', ''USD'') = 94"
    by (simp add: avail_def get_balance_def sample_ledger_def sample_db_def bal_key_def sample_balance_def f)
  ultimately show ?thesis by simp
qed


lemma default_event_id_Inr: "\<exists>i d0. default_event_id env e d = Inr (i, d0)"
  by (auto simp: default_event_id_def new_id_def tx_return_def)

lemma no_overdraft_parts:
  "\<lbrakk>orderReserveAssetAmount x = (asset, amt); 0 < Parse amt; avail d (account_key (o_UserID x) asset) < Parse amt\<rbrakk>
    \<Longrightarrow> run_tx (ReserveOrderFunds env x e) d = (Inl ErrInsufficientBalance, d)"
  "avail d (account_key (wd_UserID w) (wd_Asset w)) < Parse (wd_Amount w) \<Longrightarrow>
    run_tx (RequestWithdrawal env w e) d = (Inl ErrInsufficientBalance, d)"
proof -
  obtain i d0 where 0: "default_event_id env e d = Inr (i, d0)" using default_event_id_Inr by blast
  have v: "get_balance d0 = get_balance d" using views_cong default_event_id_effect [OF 0] by blast
  show "run_tx (ReserveOrderFunds env x e) d = (Inl ErrInsufficientBalance, d)"
    if "orderReserveAssetAmount x = (asset, amt)" "0 < Parse amt" "avail d (account_key (o_UserID x) asset) < Parse amt"
    using that 0 v
    by (cases "get_balance d (account_key (o_UserID x) asset)")
      (auto simp: ReserveOrderFunds_def tx_bind_def balanceForUpdate_def not_found_as_def fail_if_def tx_fail_def
        avail_def dec_simps run_tx_def Let_def)
  show "run_tx (RequestWithdrawal env w e) d = (Inl ErrInsufficientBalance, d)"
    if "avail d (account_key (wd_UserID w) (wd_Asset w)) < Parse (wd_Amount w)"
    using that 0 v
    by (cases "get_balance d (account_key (wd_UserID w) (wd_Asset w))")
      (auto simp: RequestWithdrawal_def tx_bind_def balanceForUpdate_def not_found_as_def fail_if_def tx_fail_def
        avail_def dec_simps run_tx_def Let_def)
qed

text \<open>Nothing is spent that is not there: an order whose cost exceeds the available amount and a
  withdrawal that exceeds it are refused with \<^verbatim>\<open>ErrInsufficientBalance\<close>, and the rolled back
  transaction leaves the database as it was.\<close>

theorem no_overdraft:
  "(let (asset, amt) = orderReserveAssetAmount x in
      0 < Parse amt \<and> avail d (account_key (o_UserID x) asset) < Parse amt \<longrightarrow>
        run_tx (ReserveOrderFunds env x e) d = (Inl ErrInsufficientBalance, d)) \<and>
   (avail d (account_key (wd_UserID w) (wd_Asset w)) < Parse (wd_Amount w) \<longrightarrow>
      run_tx (RequestWithdrawal env w e) d = (Inl ErrInsufficientBalance, d))"
  using no_overdraft_parts by (auto split: prod.split)

theorem no_overdraft_witness:
  "run_tx (ReserveOrderFunds sample_env (sample_bid\<lparr>o_Price := ''50''\<rparr>) []) sample_ledger
    = (Inl ErrInsufficientBalance, sample_ledger)"
proof -
  have o: "orderReserveAssetAmount (sample_bid\<lparr>o_Price := ''50''\<rparr>) = (''USD'', ''150'')" by code_simp
  have p: "Parse ''150'' = 150" "Parse ''94'' = 94" "account_key (o_UserID sample_bid) ''USD'' = (''alice'', ''USD'')"
    by code_simp+
  have "avail sample_ledger (''alice'', ''USD'') < Parse ''150''"
    by (simp add: avail_def get_balance_def sample_ledger_def sample_db_def bal_key_def sample_balance_def p)
  then show ?thesis
    using no_overdraft [of "sample_bid\<lparr>o_Price := ''50''\<rparr>" sample_ledger sample_env "[]" sample_withdrawal]
    unfolding o p by (simp add: p)
qed

lemma withdrawal_flow_parts:
  assumes "reachable_ledger d"
  shows "RequestWithdrawal env w e d = Inr (r, d') \<Longrightarrow> good_amount (wd_Amount w) \<Longrightarrow>
      (let k = account_key (wd_UserID w) (wd_Asset w); n = Parse (wd_Amount w) in
        posted d [post k (- n) 0 n] d' \<and> n \<le> avail d k \<and> get_withdrawal d (wd_ID w) = None \<and>
        get_withdrawal d' (wd_ID w) = Some r \<and> wd_Status r = WithdrawalRequested \<and> wd_Amount r = wd_Amount w)"
    and "CompleteWithdrawal env i e d = Inr (r, d') \<Longrightarrow>
      (\<exists>w0. get_withdrawal d i = Some w0 \<and> wd_Status w0 = WithdrawalRequested \<and>
        (let k = account_key (wd_UserID w0) (wd_Asset w0); n = Parse (wd_Amount w0) in
          posted d [post k 0 0 (- n)] d' \<and> asset_total (snd k) d' = asset_total (snd k) d - n) \<and>
        get_withdrawal d' i = Some r \<and> wd_Status r = WithdrawalCompleted)"
    and "CancelWithdrawal env i e d = Inr (r, d') \<Longrightarrow>
      (\<exists>w0. get_withdrawal d i = Some w0 \<and> wd_Status w0 = WithdrawalRequested \<and>
        (let k = account_key (wd_UserID w0) (wd_Asset w0); n = Parse (wd_Amount w0) in
          posted d [post k n 0 (- n)] d' \<and> (\<forall>a. asset_total a d' = asset_total a d)) \<and>
        get_withdrawal d' i = Some r \<and> wd_Status r = WithdrawalCanceled)"
proof -
  have ok: "balances_ok d" "withdrawals_ok d" "ledger_ok d"
    using reachable_ledger_ok [OF assms] by (auto simp: ledger_ok_def)
  have gw: "get_withdrawal d' (wd_ID w1) = Some w1" if "db_withdrawals d' = db_withdrawals (put_withdrawal w1 d)" for w1
    using wdr.get_same [of w1 d] get_withdrawal_cong [OF that] by simp
  show "let k = account_key (wd_UserID w) (wd_Asset w); n = Parse (wd_Amount w) in
        posted d [post k (- n) 0 n] d' \<and> n \<le> avail d k \<and> get_withdrawal d (wd_ID w) = None \<and>
        get_withdrawal d' (wd_ID w) = Some r \<and> wd_Status r = WithdrawalRequested \<and> wd_Amount r = wd_Amount w"
    if "RequestWithdrawal env w e d = Inr (r, d')" "good_amount (wd_Amount w)"
    using RequestWithdrawal_effect [OF that(1) ok(1) that(2)] gw [of r] unfolding Let_def by metis
  have fin: "\<exists>w0. get_withdrawal d i = Some w0 \<and> wd_Status w0 = WithdrawalRequested \<and>
        (let k = account_key (wd_UserID w0) (wd_Asset w0); n = Parse (wd_Amount w0) in
          posted d [post k (if st = WithdrawalCanceled then n else 0) 0 (- n)] d') \<and>
        get_withdrawal d' i = Some r \<and> wd_Status r = st"
    if e: "default_event_id env e d = Inr (e1, d0)" and f: "finalizeWithdrawal env i st ty e1 d0 = Inr (r, d')"
      and ty: "ty \<noteq> EventDepositPending" for st ty e1 d0
  proof -
    have o: "ledger_ok d0" "db_withdrawals d0 = db_withdrawals d" "db_balances d0 = db_balances d"
      using ledger_ok_event_id [OF e ok(3)] default_event_id_effect [OF e] by auto
    have b: "balances_ok d0" "withdrawals_ok d0" using o(1) by (auto simp: ledger_ok_def)
    obtain w0 where w0: "get_withdrawal d0 i = Some w0" "wd_Status w0 = WithdrawalRequested"
      and p: "let k = account_key (wd_UserID w0) (wd_Asset w0); n = Parse (wd_Amount w0) in
        posted d0 [post k (if st = WithdrawalCanceled then n else 0) 0 (- n)] d'"
      and r: "r = w0\<lparr>wd_Status := st, wd_UpdatedAt := e_now env\<rparr>" "db_withdrawals d' = db_withdrawals (put_withdrawal r d0)"
      using finalizeWithdrawal_effect [OF f b ty] unfolding Let_def by blast
    have "wd_ID w0 = i" using wdr.get_key [OF w0(1)] .
    then have "get_withdrawal d' i = Some r" "wd_Status r = st"
      using wdr.get_same [of r d0] get_withdrawal_cong [OF r(2)] r(1) by simp_all
    moreover have "posted d0 ps d' = posted d ps d'" for ps
      using views_cong [OF o(3)] by (simp add: posted_def)
    ultimately show ?thesis using w0 p get_withdrawal_cong [OF o(2)] unfolding Let_def by metis
  qed
  show "\<exists>w0. get_withdrawal d i = Some w0 \<and> wd_Status w0 = WithdrawalRequested \<and>
        (let k = account_key (wd_UserID w0) (wd_Asset w0); n = Parse (wd_Amount w0) in
          posted d [post k 0 0 (- n)] d' \<and> asset_total (snd k) d' = asset_total (snd k) d - n) \<and>
        get_withdrawal d' i = Some r \<and> wd_Status r = WithdrawalCompleted"
    if c: "CompleteWithdrawal env i e d = Inr (r, d')"
  proof -
    obtain e1 d0 where "default_event_id env e d = Inr (e1, d0)"
      "finalizeWithdrawal env i WithdrawalCompleted EventWithdrawalCompleted e1 d0 = Inr (r, d')"
      using CompleteWithdrawal_finalize [OF c] by blast
    from fin [OF this] show ?thesis using posted_total by (fastforce simp: Let_def)
  qed
  show "\<exists>w0. get_withdrawal d i = Some w0 \<and> wd_Status w0 = WithdrawalRequested \<and>
        (let k = account_key (wd_UserID w0) (wd_Asset w0); n = Parse (wd_Amount w0) in
          posted d [post k n 0 (- n)] d' \<and> (\<forall>a. asset_total a d' = asset_total a d)) \<and>
        get_withdrawal d' i = Some r \<and> wd_Status r = WithdrawalCanceled"
    if c: "CancelWithdrawal env i e d = Inr (r, d')"
  proof -
    obtain e1 d0 where "default_event_id env e d = Inr (e1, d0)"
      "finalizeWithdrawal env i WithdrawalCanceled EventWithdrawalCanceled e1 d0 = Inr (r, d')"
      using CancelWithdrawal_finalize [OF c] by blast
    from fin [OF this] show ?thesis using posted_total by (fastforce simp: Let_def)
  qed
qed

text \<open>The life of a withdrawal. A request moves the amount from available to pending and opens a
  requested withdrawal; completing it takes the amount out of pending for good, canceling it gives
  the amount back, and either is possible only while the withdrawal is still requested.\<close>

theorem withdrawal_flow:
  assumes "reachable_ledger d"
  shows "(RequestWithdrawal env w e d = Inr (r, d') \<and> good_amount (wd_Amount w) \<longrightarrow>
      (let k = account_key (wd_UserID w) (wd_Asset w); n = Parse (wd_Amount w) in
        posted d [post k (- n) 0 n] d' \<and> n \<le> avail d k \<and> get_withdrawal d (wd_ID w) = None \<and>
        get_withdrawal d' (wd_ID w) = Some r \<and> wd_Status r = WithdrawalRequested \<and> wd_Amount r = wd_Amount w)) \<and>
    (CompleteWithdrawal env i e d = Inr (r, d') \<longrightarrow>
      (\<exists>w0. get_withdrawal d i = Some w0 \<and> wd_Status w0 = WithdrawalRequested \<and>
        (let k = account_key (wd_UserID w0) (wd_Asset w0); n = Parse (wd_Amount w0) in
          posted d [post k 0 0 (- n)] d' \<and> asset_total (snd k) d' = asset_total (snd k) d - n) \<and>
        get_withdrawal d' i = Some r \<and> wd_Status r = WithdrawalCompleted)) \<and>
    (CancelWithdrawal env i e d = Inr (r, d') \<longrightarrow>
      (\<exists>w0. get_withdrawal d i = Some w0 \<and> wd_Status w0 = WithdrawalRequested \<and>
        (let k = account_key (wd_UserID w0) (wd_Asset w0); n = Parse (wd_Amount w0) in
          posted d [post k n 0 (- n)] d' \<and> (\<forall>a. asset_total a d' = asset_total a d)) \<and>
        get_withdrawal d' i = Some r \<and> wd_Status r = WithdrawalCanceled))"
  using withdrawal_flow_parts [OF assms] by blast

theorem withdrawal_flow_witness:
  "\<exists>r. get_withdrawal (after (RequestWithdrawal sample_env sample_withdrawal []) sample_ledger) ''w1'' = Some r \<and>
    wd_Status r = WithdrawalRequested"
proof -
  obtain r where r: "RequestWithdrawal sample_env sample_withdrawal [] sample_ledger =
      Inr (r, after (RequestWithdrawal sample_env sample_withdrawal []) sample_ledger)"
    using succeeds_after [OF sample_ledger_runs(3)] by blast
  have g: "good_amount (wd_Amount sample_withdrawal)" using sample_good by (simp add: sample_withdrawal_def)
  have i: "wd_ID sample_withdrawal = ''w1''" by (simp add: sample_withdrawal_def)
  show ?thesis using withdrawal_flow [OF reachable_sample_ledger, of sample_env sample_withdrawal "[]" r] r g
    unfolding Let_def i by blast
qed


lemma get_withdrawal_funds: "same_but_funds d d' \<Longrightarrow> get_withdrawal d' = get_withdrawal d"
  using get_withdrawal_cong same_but_funds_fields by metis

lemma finalize_keeps_final:
  assumes e: "default_event_id env e d = Inr (e1, d0)"
    and f: "finalizeWithdrawal env j st ty e1 d0 = Inr (r, d')" and ok: "ledger_ok d"
    and ty: "ty \<noteq> EventDepositPending"
    and w: "get_withdrawal d i = Some w" "wd_Status w \<noteq> WithdrawalRequested"
  shows "get_withdrawal d' i = Some w"
proof -
  have o: "ledger_ok d0" "db_withdrawals d0 = db_withdrawals d" using ledger_ok_event_id [OF e ok] by auto
  have b: "balances_ok d0" "withdrawals_ok d0" using o(1) by (auto simp: ledger_ok_def)
  obtain w0 where w0: "get_withdrawal d0 j = Some w0" "wd_Status w0 = WithdrawalRequested"
    and r: "r = w0\<lparr>wd_Status := st, wd_UpdatedAt := e_now env\<rparr>" "db_withdrawals d' = db_withdrawals (put_withdrawal r d0)"
    using finalizeWithdrawal_effect [OF f b ty] unfolding Let_def by blast
  have "wd_ID r = j" using wdr.get_key [OF w0(1)] r(1) by simp
  moreover have "get_withdrawal d0 i = Some w" using w(1) get_withdrawal_cong [OF o(2)] by simp
  ultimately show ?thesis
    using w0 w(2) wdr.get_other [of i r d0] get_withdrawal_cong [OF r(2)] by (cases "i = j") auto
qed

lemma ledger_step_keeps_final:
  assumes "ledger_step d d'" and ok: "ledger_ok d"
    and w: "get_withdrawal d i = Some w" "wd_Status w \<noteq> WithdrawalRequested"
  shows "get_withdrawal d' i = Some w"
proof -
  have b: "balances_ok d" "reservations_ok d" using ok by (auto simp: ledger_ok_def)
  show ?thesis
    using assms(1)
  proof (cases rule: ledger_step.cases)
    case (step_deposit env u s amt e r)
    then show ?thesis using MarkDepositPending_effect [OF step_deposit(1) b(1) step_deposit(2)] same_rest_fields w(1) by metis
  next
    case (step_settle_deposit env u s amt e r)
    then show ?thesis using SettleDeposit_effect [OF step_settle_deposit(1) b(1) step_settle_deposit(2)] same_rest_fields w(1) by metis
  next
    case (step_request env x e r')
    have "get_withdrawal d (wd_ID x) = None" "db_withdrawals d' = db_withdrawals (put_withdrawal r' d)" "wd_ID r' = wd_ID x"
      using RequestWithdrawal_effect [OF step_request(1) b(1) step_request(2)] by auto
    moreover from this have "i \<noteq> wd_ID r'" using w(1) by auto
    ultimately show ?thesis
      using w(1) wdr.get_other [of i r' d] get_withdrawal_cong [of d' "put_withdrawal r' d"] by simp
  next
    case (step_complete env j e r')
    obtain e1 d0 where "default_event_id env e d = Inr (e1, d0)"
      "finalizeWithdrawal env j WithdrawalCompleted EventWithdrawalCompleted e1 d0 = Inr (r', d')"
      using CompleteWithdrawal_finalize [OF step_complete] by blast
    from finalize_keeps_final [OF this ok _ w] show ?thesis by simp
  next
    case (step_cancel env j e r')
    obtain e1 d0 where "default_event_id env e d = Inr (e1, d0)"
      "finalizeWithdrawal env j WithdrawalCanceled EventWithdrawalCanceled e1 d0 = Inr (r', d')"
      using CancelWithdrawal_finalize [OF step_cancel] by blast
    from finalize_keeps_final [OF this ok _ w] show ?thesis by simp
  next
    case (step_reserve env x e v)
    obtain s n where sn: "orderReserveAssetAmount x = (s, n)" by fastforce
    have "same_but_funds d d'"
      using ReserveOrderFunds_effect [OF step_reserve(1) b sn reserve_amount [OF step_reserve(2) sn]]
      unfolding funds_step_def by blast
    then show ?thesis using w(1) get_withdrawal_funds by metis
  next
    case (step_release env x e v)
    obtain s n where sn: "orderReserveAssetAmount x = (s, n)" by fastforce
    have "same_but_funds d d'"
      using ReleaseOrderFunds_effect [OF step_release(1) b sn reserve_amount [OF step_release(2) sn]]
      unfolding funds_step_def by blast
    then show ?thesis using w(1) get_withdrawal_funds by metis
  next
    case (step_trade env t maker taker v)
    then show ?thesis
      using settleTrade_effect [OF step_trade(1) b step_trade(2,3)] w(1) get_withdrawal_funds
      unfolding funds_step_def by metis
  qed
qed

text \<open>A finished withdrawal is final: no ledger operation changes its row, and completing or
  canceling it again is an error that changes nothing.\<close>

theorem withdrawal_final:
  assumes "reachable_ledger d" and "get_withdrawal d i = Some w" and "wd_Status w \<noteq> WithdrawalRequested"
  shows "(ledger_step\<^sup>*\<^sup>* d d' \<longrightarrow> get_withdrawal d' i = Some w) \<and>
    run_tx (CompleteWithdrawal env i e) d = (Inl ErrWithdrawalNotRequested, d) \<and>
    run_tx (CancelWithdrawal env i e) d = (Inl ErrWithdrawalNotRequested, d)"
proof -
  have "get_withdrawal d' i = Some w \<and> ledger_ok d'" if "ledger_step\<^sup>*\<^sup>* d d'"
    using that
  proof (induction rule: rtranclp_induct)
    case base
    then show ?case using assms(2) reachable_ledger_ok [OF assms(1)] by simp
  next
    case (step y z)
    then show ?case using ledger_step_keeps_final [OF step(2)] ledger_ok_step [OF step(2)] assms(3) by blast
  qed
  moreover
  obtain i0 d0 where 0: "default_event_id env e d = Inr (i0, d0)" using default_event_id_Inr by blast
  have "get_withdrawal d0 i = Some w"
    using assms(2) same_rest_fields conjunct2 [OF default_event_id_effect [OF 0]] by metis
  then have "CompleteWithdrawal env i e d = Inl ErrWithdrawalNotRequested"
    "CancelWithdrawal env i e d = Inl ErrWithdrawalNotRequested"
    using 0 assms(3) by (auto simp: CompleteWithdrawal_def CancelWithdrawal_def tx_bind_def finalizeWithdrawal_def
        find_withdrawal_def fail_if_def tx_fail_def)
  ultimately show ?thesis by (simp add: run_tx_def)
qed

definition sample_canceled :: db where
  "sample_canceled = after (CancelWithdrawal sample_env ''w1'' []) sample_requested"

theorem withdrawal_final_witness:
  "run_tx (CompleteWithdrawal sample_env ''w1'' []) sample_canceled = (Inl ErrWithdrawalNotRequested, sample_canceled)"
proof -
  have c: "succeeds (CancelWithdrawal sample_env ''w1'' []) sample_requested" by code_simp
  have 1: "reachable_ledger sample_requested" by (rule covered_reachable [OF covered_sample_requested])
  obtain r where r: "CancelWithdrawal sample_env ''w1'' [] sample_requested = Inr (r, sample_canceled)"
    using succeeds_after [OF c] by (auto simp: sample_canceled_def)
  have 2: "reachable_ledger sample_canceled" by (rule reach_ledger_step [OF 1 step_cancel [OF r]])
  have w: "get_withdrawal sample_canceled ''w1'' = Some r" "wd_Status r \<noteq> WithdrawalRequested"
    using withdrawal_flow_parts(3) [OF 1 r] by auto
  show ?thesis using withdrawal_final [OF 2 w] by blast
qed

end
