(* ===== verification/LedgerFaults.thy ===== *)
theory LedgerFaults
  imports LedgerFlow
begin

text \<open>
  Two corners of the ledger where the code does less than its callers expect, each as a theorem
  about the operations: releasing an order whose reservation is used up, and settling a deposit out
  of funds that wait for a withdrawal (both live in the one \<^verbatim>\<open>Pending\<close> column).
\<close>

text \<open>C10: releasing the funds of an order that still has a remainder but whose reservation has nothing
  left fails whenever the account has anything locked, instead of releasing nothing.\<close>

theorem ReleaseOrderFunds_exhausted:
  assumes "reachable_ledger d" and "orderReserveAssetAmount x = (asset, amt)" and "amount amt" and "0 < Parse amt"
    and "reservation_for d x (account_key (o_UserID x) asset) r" and "Parse (rv_RemainingAmount r) = 0"
    and "0 < locked d (account_key (o_UserID x) asset)"
  shows "\<exists>err. run_tx (ReleaseOrderFunds env x e) d = (Inl err, d)"
proof (rule ccontr)
  assume "\<not> (\<exists>err. run_tx (ReleaseOrderFunds env x e) d = (Inl err, d))"
  then obtain u d' where a: "ReleaseOrderFunds env x e d = Inr (u, d')"
    by (auto simp: run_tx_def split: sum.splits)
  have ok: "balances_ok d" "reservations_ok d"
    using reachable_ledger_ok [OF assms(1)] by (auto simp: ledger_ok_def)
  let ?i = "reservationIDForOrder x"
  have i: "trim_space ?i \<noteq> []" and g: "get_reservation d (trim_space ?i) = Some r"
    using assms(5) by (auto simp: reservation_for_def)
  obtain n d0 d2 where n: "good_amount n"
    and c: "clampedReleaseAmount env (o_UserID x) asset ?i amt d0 = Inr (n, d0)"
    and d0: "same_rest d d0" "db_balances d0 = db_balances d"
    and fin: "if Parse n = 0 then same_rest d d'
      else same_rest d d2 \<and> releaseReservation env ?i n d2 = Inr (u, d')"
    using ReleaseOrderFunds_effect [OF a ok assms(2,3)] assms(4) by blast
  obtain b where b: "get_balance d0 (account_key (o_UserID x) asset) = Some b" "0 < Parse (b_Locked b)"
    using assms(7) views_cong [OF d0(2)] by (auto simp: locked_def split: option.splits)
  have "GetReservation d0 ?i = Some (modelToReservation r)"
    using g same_rest_fields [OF d0(1)] by (simp add: GetReservation_def)
  then have npos: "0 < Parse n"
    using c b assms(4,6) i
    by (auto simp: clampedReleaseAmount_def balanceForUpdate_def modelToReservation_def dec_simps Let_def split: if_splits)
  then have d2: "same_rest d d2" and rel: "applyReservationDelta env ?i n False d2 = Inr (u, d')"
    using fin by (simp_all add: releaseReservation_def)
  have "reservations_ok d2" "get_reservation d2 (trim_space ?i) = Some r"
    using ok(2) reservations_ok_cong [OF d2] same_rest_fields [OF d2] g by simp_all
  from applyReservationDelta_effect [OF rel this(1) n this(2) i] show False using npos assms(6) by simp
qed

text \<open>
  The instance: Alice bids for 1e-8 at 1e-10, which costs one unit of the last place; a fill of half
  of it costs the whole unit by rounding up, and the other half can no longer be released while
  her second order keeps funds locked.
\<close>

definition tiny_bid :: "string \<Rightarrow> order" where
  "tiny_bid q = (sample_order ''o3'' ''alice'' SideBuy ''0.0000000001'')\<lparr>o_Quantity := ''0.00000001'', o_RemainingQuantity := q\<rparr>"

definition tiny_trade :: trade where
  "tiny_trade = sample_trade\<lparr>t_ID := ''t2'', t_TakerOrderID := ''o3'', t_Price := ''0.0000000001'',
     t_Quantity := ''0.000000005'', t_QuoteQuantity := ''0.000000000000000001''\<rparr>"

definition tiny_reserved :: db where
  "tiny_reserved = after (ReserveOrderFunds sample_env (tiny_bid ''0.00000001'') []) sample_ledger"

definition tiny_filled :: db where
  "tiny_filled = after (settleTrade sample_env tiny_trade sample_ask (tiny_bid ''0.00000001'')) tiny_reserved"


lemma tiny_runs:
  "succeeds (ReserveOrderFunds sample_env (tiny_bid ''0.00000001'') []) sample_ledger"
  "succeeds (settleTrade sample_env tiny_trade sample_ask (tiny_bid ''0.00000001'')) tiny_reserved"
  by code_simp+

lemma tiny_state:
  "GetReservation tiny_filled ''res_o3'' \<noteq> None \<and>
   (case get_reservation tiny_filled ''res_o3'' of None \<Rightarrow> False
    | Some r \<Rightarrow> rv_UserID r = ''alice'' \<and> rv_Asset r = ''USD'' \<and> rv_RemainingAmount r = ''0'') \<and>
   (case get_balance tiny_filled (''alice'', ''USD'') of None \<Rightarrow> False | Some b \<Rightarrow> b_Locked b = ''6'')"
  by code_simp

lemma reachable_tiny_filled: "reachable_ledger tiny_filled"
proof -
  have a: "amount (o_RemainingQuantity (tiny_bid ''0.00000001''))" by code_simp
  have g: "good_amount (t_Quantity tiny_trade)" "good_amount (t_QuoteQuantity tiny_trade)" by code_simp+
  have 1: "reachable_ledger tiny_reserved"
    using succeeds_after [OF tiny_runs(1)] reach_ledger_step [OF reachable_sample_ledger step_reserve [OF _ a]]
    by (auto simp: tiny_reserved_def)
  show ?thesis
    using succeeds_after [OF tiny_runs(2)] reach_ledger_step [OF 1 step_trade [OF _ g]]
    by (auto simp: tiny_filled_def)
qed

theorem ReleaseOrderFunds_exhausted_witness:
  "\<exists>err. run_tx (ReleaseOrderFunds sample_env (tiny_bid ''0.000000005'') []) tiny_filled = (Inl err, tiny_filled)"
proof -
  let ?x = "tiny_bid ''0.000000005''"
  have f: "orderReserveAssetAmount ?x = (''USD'', ''0.000000000000000001'')" "amount ''0.000000000000000001''"
    "account_key (o_UserID ?x) ''USD'' = (''alice'', ''USD'')" "reservationIDForOrder ?x = ''res_o3''"
    "trim_space ''res_o3'' = ''res_o3''" "0 < Parse ''0.000000000000000001''" "0 < Parse ''6''"
    by code_simp+
  obtain r where r: "get_reservation tiny_filled ''res_o3'' = Some r" "rv_UserID r = ''alice''" "rv_Asset r = ''USD''"
    "rv_RemainingAmount r = ''0''"
    using tiny_state by (auto split: option.splits)
  have 1: "reservation_for tiny_filled ?x (account_key (o_UserID ?x) ''USD'') r"
    using r f by (simp add: reservation_for_def)
  have 2: "0 < locked tiny_filled (account_key (o_UserID ?x) ''USD'')"
    using tiny_state f by (auto simp: locked_def split: option.splits)
  have 3: "Parse (rv_RemainingAmount r) = 0" using r by (simp add: Parse_0)
  show ?thesis by (rule ReleaseOrderFunds_exhausted [OF reachable_tiny_filled f(1,2,6) 1 3 2])
qed

lemma finalize_needs_pending:
  assumes ok: "ledger_ok d" and e: "default_event_id env e d = Inr (e1, d0)" and ty: "ty \<noteq> EventDepositPending"
    and w: "get_withdrawal d i = Some w" "pending d (account_key (wd_UserID w) (wd_Asset w)) < Parse (wd_Amount w)"
  shows "\<exists>err. finalizeWithdrawal env i st ty e1 d0 = Inl err"
proof (rule ccontr)
  assume "\<not> (\<exists>err. finalizeWithdrawal env i st ty e1 d0 = Inl err)"
  then obtain r d' where f: "finalizeWithdrawal env i st ty e1 d0 = Inr (r, d')"
    by (cases "finalizeWithdrawal env i st ty e1 d0") auto
  have o: "ledger_ok d0" "db_withdrawals d0 = db_withdrawals d" "pending d0 = pending d"
    using ledger_ok_event_id [OF e ok] by auto
  have b: "balances_ok d0" "withdrawals_ok d0" using o(1) by (auto simp: ledger_ok_def)
  obtain w0 where "get_withdrawal d0 i = Some w0"
    "Parse (wd_Amount w0) \<le> pending d0 (account_key (wd_UserID w0) (wd_Asset w0))"
    using finalizeWithdrawal_effect [OF f b ty] unfolding Let_def by blast
  then show False using w get_withdrawal_cong [OF o(2)] o(3) by simp
qed

text \<open>C11: the pending column does not tell deposits from withdrawals: settling a deposit of the amount
  of a requested withdrawal, with no deposit pending, puts the money back into the available balance,
  and the withdrawal can then neither be completed nor canceled.\<close>

theorem settle_deposit_takes_withdrawal:
  assumes "reachable_ledger d" and "good_amount (wd_Amount w)" and "0 < Parse (wd_Amount w)"
    and "pending d (account_key (wd_UserID w) (wd_Asset w)) = 0"
    and "RequestWithdrawal env w e d = Inr (r, d1)"
    and "SettleDeposit env (wd_UserID r) (wd_Asset r) (wd_Amount w) e' d1 = Inr (b, d2)"
    and "account_key (wd_UserID r) (wd_Asset r) = account_key (wd_UserID w) (wd_Asset w)"
  shows "avail d2 (account_key (wd_UserID w) (wd_Asset w)) = avail d (account_key (wd_UserID w) (wd_Asset w)) \<and>
    (\<exists>err. CompleteWithdrawal env (wd_ID w) e'' d2 = Inl err) \<and> (\<exists>err. CancelWithdrawal env (wd_ID w) e'' d2 = Inl err)"
proof -
  let ?k = "account_key (wd_UserID w) (wd_Asset w)" let ?n = "Parse (wd_Amount w)"
  have ok: "ledger_ok d" "ledger_ok d1" "ledger_ok d2"
    using reachable_ledger_ok [OF assms(1)] ledger_ok_step [OF step_request [OF assms(5,2)]]
      ledger_ok_step [OF step_settle_deposit [OF assms(6,2)]] by blast+
  then have b: "balances_ok d" "balances_ok d1" by (auto simp: ledger_ok_def)
  have p1: "posted d [post ?k (- ?n) 0 ?n] d1" and r: "db_withdrawals d1 = db_withdrawals (put_withdrawal r d)"
    "wd_ID r = wd_ID w" "wd_Amount r = wd_Amount w"
    using RequestWithdrawal_effect [OF assms(5) b(1) assms(2)] by auto
  have p2: "posted d1 [post ?k ?n 0 (- ?n)] d2" and s: "same_rest d1 d2"
    using SettleDeposit_effect [OF assms(6) b(2) assms(2)] assms(7) by auto
  have av: "avail d2 ?k = avail d ?k" and pe: "pending d2 ?k = 0"
    using posted_trans [OF p1 p2] assms(4) by (cases ?k, simp add: posted_def)+
  have w2: "get_withdrawal d2 (wd_ID w) = Some r"
    using wdr.get_same [of r d] get_withdrawal_cong [OF r(1)] same_rest_fields [OF s] r(2) by simp
  obtain e1 d3 where e3: "default_event_id env e'' d2 = Inr (e1, d3)" using default_event_id_Inr by blast
  have less: "pending d2 (account_key (wd_UserID r) (wd_Asset r)) < Parse (wd_Amount r)"
    using pe assms(3,7) r(3) by simp
  show ?thesis
    using av e3 finalize_needs_pending [OF ok(3) e3 _ w2 less]
    by (auto simp: CompleteWithdrawal_def CancelWithdrawal_def tx_bind_def)
qed

theorem settle_deposit_takes_withdrawal_witness:
  "\<exists>err. CompleteWithdrawal sample_env ''w1'' [] (after (SettleDeposit sample_env ''alice'' ''USD'' ''10'' [])
     (after (RequestWithdrawal sample_env sample_withdrawal []) sample_ledger)) = Inl err"
proof -
  let ?d1 = "after (RequestWithdrawal sample_env sample_withdrawal []) sample_ledger"
  obtain r where r: "RequestWithdrawal sample_env sample_withdrawal [] sample_ledger = Inr (r, ?d1)"
    using succeeds_after [OF sample_ledger_runs(3)] by blast
  have c: "succeeds (SettleDeposit sample_env ''alice'' ''USD'' ''10'' []) ?d1" by code_simp
  obtain b where b: "SettleDeposit sample_env ''alice'' ''USD'' ''10'' [] ?d1 =
      Inr (b, after (SettleDeposit sample_env ''alice'' ''USD'' ''10'' []) ?d1)"
    using succeeds_after [OF c] by blast
  have w: "wd_ID sample_withdrawal = ''w1''" "wd_Amount sample_withdrawal = ''10''" by (simp_all add: sample_withdrawal_def)
  have k: "account_key (wd_UserID sample_withdrawal) (wd_Asset sample_withdrawal) = (''alice'', ''USD'')"
    "account_key ''alice'' ''USD'' = (''alice'', ''USD'')" "0 < Parse ''10''"
    by code_simp+
  have bal: "balances_ok sample_ledger"
    using reachable_ledger_ok [OF reachable_sample_ledger] by (simp add: ledger_ok_def)
  have "good_amount ''10''" using sample_good by simp
  then have ru: "wd_UserID r = ''alice''" "wd_Asset r = ''USD''" and g: "good_amount (wd_Amount sample_withdrawal)"
    using RequestWithdrawal_effect [OF r bal] by (simp_all add: w k)
  have z: "pending sample_ledger (account_key (wd_UserID sample_withdrawal) (wd_Asset sample_withdrawal)) = 0"
    unfolding k by (simp add: pending_def get_balance_def sample_ledger_def sample_db_def bal_key_def sample_balance_def Parse_0)
  have p: "0 < Parse (wd_Amount sample_withdrawal)" using k(3) w by simp
  show ?thesis
    using settle_deposit_takes_withdrawal [OF reachable_sample_ledger g p z r, where e' = "[]" and b = b and e'' = "[]"] b
    by (simp add: ru w k)
qed

end
