(* ===== verification/OrderStore.thy ===== *)
theory OrderStore
  imports Database "HOL-Library.List_Lexorder" "HOL-Library.Product_Lexorder" "HOL-Library.Char_ord"
begin

text \<open>
  The order side of \<^verbatim>\<open>exchange_repository.go\<close>: orders and the table of active (bookable) orders,
  order sequences, trades, candles, and the price levels that project the active orders.

  A condition that GORM builds from a struct is dropped when the field is empty, which
  \<open>col_eq\<close> writes out. \<^verbatim>\<open>ORDER BY\<close> is a stable sort, so rows with equal keys stay in insertion order
  (PostgreSQL leaves their order open). A price column is numeric: rows are grouped and compared by
  the value of the price; the text a numeric column reads back with is not modelled.
\<close>

definition col_eq :: "string \<Rightarrow> string \<Rightarrow> bool" where
  "col_eq col v \<longleftrightarrow> v = [] \<or> col = v"

definition minimumActiveOrderQuantity :: string where
  "minimumActiveOrderQuantity = ''0.000000005''"

definition side_text :: "side \<Rightarrow> string" where
  "side_text s = (case s of SideBuy \<Rightarrow> ''buy'' | SideSell \<Rightarrow> ''sell'' | SideOther t \<Rightarrow> t)"

definition limit_or :: "int \<Rightarrow> int \<Rightarrow> int \<Rightarrow> nat" where
  "limit_or limit maximum dflt = nat (if limit \<le> 0 \<or> maximum < limit then dflt else limit)"

section \<open>Conversions between orders, trades and rows\<close>

definition orderToModel :: "order \<Rightarrow> order" where
  "orderToModel item =
     item\<lparr>o_ReservationID := trim_space (o_ReservationID item), o_StopPrice := zeroIfEmpty (o_StopPrice item),
          o_FilledQuantity := zeroIfEmpty (o_FilledQuantity item)\<rparr>"

definition modelToOrder :: "order \<Rightarrow> order" where
  "modelToOrder model = model"

definition activeOrderToModel :: "order \<Rightarrow> order" where
  "activeOrderToModel item =
     item\<lparr>o_ReservationID := trim_space (o_ReservationID item), o_StopPrice := zeroIfEmpty (o_StopPrice item),
          o_FilledQuantity := zeroIfEmpty (o_FilledQuantity item)\<rparr>"

definition activeModelToOrder :: "order \<Rightarrow> order" where
  "activeModelToOrder model = model"

definition modelsToOrders :: "order list \<Rightarrow> order list" where
  "modelsToOrders models = map modelToOrder models"

definition activeModelsToOrders :: "order list \<Rightarrow> order list" where
  "activeModelsToOrders models = map activeModelToOrder models"

definition tradeToModel :: "trade \<Rightarrow> trade" where
  "tradeToModel item = item"

definition modelToTrade :: "trade \<Rightarrow> trade" where
  "modelToTrade model = model"

definition modelsToTrades :: "trade list \<Rightarrow> trade list" where
  "modelsToTrades models = map modelToTrade models"

definition openStatuses :: "status list" where
  "openStatuses = [StatusOpen, StatusPartiallyFilled]"

definition isOpenStatus :: "status \<Rightarrow> bool" where
  "isOpenStatus s \<longleftrightarrow> s = StatusOpen \<or> s = StatusPartiallyFilled"

definition isBookableOrder :: "order \<Rightarrow> bool" where
  "isBookableOrder item \<longleftrightarrow> o_Type item \<noteq> TypeMarket \<and> isOpenStatus (o_Status item) \<and>
     Cmp (o_RemainingQuantity item) minimumActiveOrderQuantity \<ge> 0"

definition bookable_row :: "order \<Rightarrow> bool" where
  "bookable_row r \<longleftrightarrow> o_Status r \<in> set openStatuses \<and>
     Parse minimumActiveOrderQuantity \<le> Parse (o_RemainingQuantity r) \<and> o_Type r \<noteq> TypeMarket"

section \<open>Orders\<close>

definition SyncActiveOrder :: "order \<Rightarrow> unit ltx" where
  "SyncActiveOrder item =
     (if \<not> isBookableOrder item then
        tx_modify (\<lambda>d. d\<lparr>db_active := row_delete (\<lambda>r. o_ID r = o_ID item) (db_active d)\<rparr>)
      else tx_modify (\<lambda>d. d\<lparr>db_active := row_save o_ID (activeOrderToModel item) (db_active d)\<rparr>))"

definition create_order_row :: "order \<Rightarrow> unit ltx" where
  "create_order_row model d =
     (if row_exists o_ID (o_ID model) (db_orders d) \<or>
         (\<exists>r \<in> set (db_orders d). o_UserID r = o_UserID model \<and> o_ClientOrderID r = o_ClientOrderID model)
      then Inl ErrDuplicateKey else Inr ((), d\<lparr>db_orders := db_orders d @ [model]\<rparr>))"

definition save_order_row :: "order \<Rightarrow> unit ltx" where
  "save_order_row model d =
     (if (\<exists>r \<in> set (db_orders d). o_ID r \<noteq> o_ID model \<and> o_UserID r = o_UserID model \<and>
            o_ClientOrderID r = o_ClientOrderID model)
      then Inl ErrDuplicateKey else Inr ((), d\<lparr>db_orders := row_save o_ID model (db_orders d)\<rparr>))"

definition CreateOrder :: "order \<Rightarrow> unit ltx" where
  "CreateOrder item = tx_bind (create_order_row (orderToModel item)) (\<lambda>_. SyncActiveOrder item)"

definition SaveOrder :: "order \<Rightarrow> unit ltx" where
  "SaveOrder item = tx_bind (save_order_row (orderToModel item)) (\<lambda>_. SyncActiveOrder item)"

definition maxOrderSequence :: "string \<Rightarrow> db \<Rightarrow> uint64" where
  "maxOrderSequence market d =
     (case filter (\<lambda>r. col_eq (o_Market r) market) (db_orders d) of
        [] \<Rightarrow> 0
      | r # rs \<Rightarrow> fold max (map o_SequenceID rs) (o_SequenceID r))"

definition NextOrderSequence :: "env \<Rightarrow> string \<Rightarrow> uint64 ltx" where
  "NextOrderSequence env market0 d =
     (let market = to_upper (trim_space market0) in
      if market = [] then Inl ErrMarketRequired
      else
        let maxSeq = maxOrderSequence market d;
            firstSeq = (if maxSeq + 1 = 0 then 1 else maxSeq + 1);
            seed = \<lparr>sq_Market = market, sq_NextSequence = firstSeq, sq_UpdatedAt = e_now env\<rparr>;
            rows = (if row_exists sq_Market market (db_sequences d) then db_sequences d
                    else db_sequences d @ [seed])
        in case row_find sq_Market market rows of
             None \<Rightarrow> Inl ErrRecordNotFound
           | Some model \<Rightarrow>
               let seq0 = sq_NextSequence model;
                   seq = (if seq0 = 0 \<or> seq0 \<le> maxSeq then firstSeq else seq0);
                   model = model\<lparr>sq_NextSequence := seq + 1, sq_UpdatedAt := e_now env\<rparr>
               in Inr (seq, d\<lparr>db_sequences := row_save sq_Market model rows\<rparr>))"

definition status_eq :: "status \<Rightarrow> status \<Rightarrow> bool" where
  "status_eq col v \<longleftrightarrow> v = StatusOther [] \<or> col = v"

definition ListOrders :: "db \<Rightarrow> string \<Rightarrow> string \<Rightarrow> status \<Rightarrow> int \<Rightarrow> order list" where
  "ListOrders d userID market st limit0 =
     (let rows = filter (\<lambda>r. col_eq (o_UserID r) userID \<and> col_eq (o_Market r) market \<and> status_eq (o_Status r) st \<and>
            (st \<noteq> StatusOther [] \<and> isOpenStatus st \<longrightarrow>
               Parse minimumActiveOrderQuantity \<le> Parse (o_RemainingQuantity r) \<and> o_Type r \<noteq> TypeMarket))
          (db_orders d)
      in modelsToOrders (take (limit_or limit0 500 100) (sort_key (\<lambda>r. - o_CreatedAt r) rows)))"

definition side_eq :: "side \<Rightarrow> side \<Rightarrow> bool" where
  "side_eq col v \<longleftrightarrow> v = SideOther [] \<or> col = v"

definition book_order_key :: "side \<Rightarrow> order \<Rightarrow> rat \<times> nat" where
  "book_order_key s r =
     ((if s = SideBuy then - Parse (o_Price r) else Parse (o_Price r)), unat (o_SequenceID r))"

definition ListOpenOrders :: "db \<Rightarrow> string \<Rightarrow> side \<Rightarrow> int \<Rightarrow> order list" where
  "ListOpenOrders d market s limit0 =
     activeModelsToOrders (take (limit_or limit0 1000 100)
       (sort_key (book_order_key s)
         (filter (\<lambda>r. col_eq (o_Market r) market \<and> side_eq (o_Side r) s) (db_active d))))"

definition ListActiveOrdersForUpdate :: "db \<Rightarrow> string \<Rightarrow> string \<Rightarrow> int \<Rightarrow> order list" where
  "ListActiveOrdersForUpdate d market0 excludeOrderID limit =
     (let market = to_upper (trim_space market0) in
      if market = [] then []
      else
        let rows = sort_key (\<lambda>r. (unat (o_SequenceID r), o_ID r))
              (filter (\<lambda>r. o_Market r = market \<and> bookable_row r \<and>
                 (excludeOrderID \<noteq> [] \<longrightarrow> o_ID r \<noteq> excludeOrderID)) (db_active d))
        in activeModelsToOrders (if limit > 0 then take (nat limit) rows else rows))"

definition ListMatchCandidates :: "db \<Rightarrow> string \<Rightarrow> side \<Rightarrow> string \<Rightarrow> string \<Rightarrow> int \<Rightarrow> order list" where
  "ListMatchCandidates d market makerSide takerPrice excludeOrderID limit0 =
     activeModelsToOrders (take (limit_or limit0 1000 500)
       (sort_key (book_order_key (if makerSide = SideSell then SideSell else SideBuy))
         (filter (\<lambda>r. col_eq (o_Market r) market \<and> side_eq (o_Side r) makerSide \<and> bookable_row r \<and>
            (excludeOrderID \<noteq> [] \<longrightarrow> o_ID r \<noteq> excludeOrderID) \<and>
            (if makerSide = SideSell then Parse (o_Price r) \<le> Parse takerPrice
             else Parse takerPrice \<le> Parse (o_Price r))) (db_active d))))"

definition ListPendingStops :: "db \<Rightarrow> string \<Rightarrow> int \<Rightarrow> order list" where
  "ListPendingStops d market limit0 =
     modelsToOrders (take (limit_or limit0 1000 500)
       (sort_key (\<lambda>r. unat (o_SequenceID r))
         (filter (\<lambda>r. col_eq (o_Market r) market \<and> o_Status r = StatusPendingStop) (db_orders d))))"

definition RebuildActiveOrders :: "string \<Rightarrow> unit ltx" where
  "RebuildActiveOrders market0 =
     (let market = to_upper (trim_space market0) in
      if market = [] then tx_return ()
      else tx_modify (\<lambda>d.
        d\<lparr>db_active := row_delete (\<lambda>r. o_Market r = market) (db_active d) @
            filter (\<lambda>r. o_Market r = market \<and> bookable_row r) (db_orders d)\<rparr>))"

section \<open>Trades and order events\<close>

fun create_rows :: "('r \<Rightarrow> string) \<Rightarrow> 'r list \<Rightarrow> 'r list \<Rightarrow> 'r list option" where
  "create_rows key [] rows = Some rows"
| "create_rows key (r # rs) rows =
     (if row_exists key (key r) rows then None else create_rows key rs (rows @ [r]))"

definition CreateTrades :: "trade list \<Rightarrow> unit ltx" where
  "CreateTrades items d =
     (if items = [] then Inr ((), d)
      else case create_rows t_ID (map tradeToModel items) (db_trades d) of
             None \<Rightarrow> Inl ErrDuplicateKey
           | Some rows \<Rightarrow> Inr ((), d\<lparr>db_trades := rows\<rparr>))"

definition orderEventToModel :: "order_event \<Rightarrow> order_event" where
  "orderEventToModel item = item"

definition CreateOrderEvents :: "order_event list \<Rightarrow> unit ltx" where
  "CreateOrderEvents items d =
     (if items = [] then Inr ((), d)
      else case create_rows ev_ID (map orderEventToModel items) (db_order_events d) of
             None \<Rightarrow> Inl ErrDuplicateKey
           | Some rows \<Rightarrow> Inr ((), d\<lparr>db_order_events := rows\<rparr>))"

definition ListMarketTrades :: "db \<Rightarrow> string \<Rightarrow> int \<Rightarrow> trade list" where
  "ListMarketTrades d market limit0 =
     modelsToTrades (take (limit_or limit0 500 100)
       (sort_key (\<lambda>r. - t_CreatedAt r) (filter (\<lambda>r. col_eq (t_Market r) market) (db_trades d))))"

definition ListTradesAfter :: "db \<Rightarrow> string \<Rightarrow> time \<Rightarrow> string \<Rightarrow> int \<Rightarrow> trade list" where
  "ListTradesAfter d market0 aft afterID0 limit0 =
     (let market = to_upper (trim_space market0); afterID = trim_space afterID0 in
      if market = [] then []
      else modelsToTrades (take (limit_or limit0 10000 1000)
        (sort_key (\<lambda>r. (t_CreatedAt r, t_ID r))
          (filter (\<lambda>r. t_Market r = market \<and>
             (aft \<noteq> 0 \<longrightarrow> aft < t_CreatedAt r \<or> (t_CreatedAt r = aft \<and> afterID < t_ID r))) (db_trades d)))))"

definition LastTrade :: "db \<Rightarrow> string \<Rightarrow> trade option" where
  "LastTrade d market =
     (case sort_key (\<lambda>r. - t_CreatedAt r) (filter (\<lambda>r. col_eq (t_Market r) market) (db_trades d)) of
        [] \<Rightarrow> None | r # _ \<Rightarrow> Some (modelToTrade r))"

definition ListUserTrades :: "db \<Rightarrow> string \<Rightarrow> string \<Rightarrow> int \<Rightarrow> trade list" where
  "ListUserTrades d userID market limit0 =
     modelsToTrades (take (limit_or limit0 500 100)
       (sort_key (\<lambda>r. - t_CreatedAt r)
         (filter (\<lambda>r. (col_eq (t_Market r) market \<and> col_eq (t_MakerUserID r) userID) \<or>
                      (col_eq (t_Market r) market \<and> col_eq (t_TakerUserID r) userID)) (db_trades d))))"

end
