(* ===== verification/OrderStoreProps.thy ===== *)
theory OrderStoreProps
  imports OrderStore
begin

text \<open>
  Properties of the order store: sequence numbers, the table of active orders as the projection of
  the orders, and the candidates a taker is matched with.
\<close>

section \<open>Sequence numbers\<close>

lemma fold_max_ge: "(x :: 'a :: linorder) \<le> fold max ys x \<and> (\<forall>y \<in> set ys. y \<le> fold max ys x)"
proof (induction ys arbitrary: x)
  case (Cons y ys)
  show ?case using Cons.IH [of "max y x"] by (auto intro: order_trans)
qed simp

lemma fold_max_member:
  assumes "r \<in> set rows"
  shows "(f r :: 'a :: {linorder, zero}) \<le> (case rows of [] \<Rightarrow> 0 | x # xs \<Rightarrow> fold max (map f xs) (f x))"
proof (cases rows)
  case (Cons x xs)
  then have "f r = f x \<or> f r \<in> set (map f xs)" using assms by auto
  then show ?thesis using fold_max_ge [of "f x" "map f xs"] Cons by auto
qed (use assms in simp)

lemma word_increment:
  fixes x :: uint64
  assumes "x \<noteq> - 1"
  shows "x < x + 1 \<and> x + 1 \<noteq> 0"
proof -
  have ne: "x + 1 \<noteq> 0" using assms by (simp add: eq_neg_iff_add_eq_0)
  have "unat (x + 1) = Suc (unat x)" using unatSuc [of x] ne by (simp add: add.commute)
  then show ?thesis using ne by (simp add: word_less_nat_alt)
qed

lemma maxOrderSequence_ge:
  "r \<in> set (db_orders d) \<Longrightarrow> o_Market r = market \<Longrightarrow> o_SequenceID r \<le> maxOrderSequence market d"
proof -
  assume r: "r \<in> set (db_orders d)" "o_Market r = market"
  then have "r \<in> set (filter (\<lambda>r. col_eq (o_Market r) market) (db_orders d))" by (simp add: col_eq_def)
  then show ?thesis
    unfolding maxOrderSequence_def
    by (rule fold_max_member)
qed

text \<open>A sequence number drawn for a market is not zero, is larger than that of every order of the
  market, and the next one drawn is larger still, as long as the 64 bit counter does not wrap.\<close>

theorem NextOrderSequence_increases:
  assumes "NextOrderSequence env market d = Inr (s, d')" and "s \<noteq> - 1"
    and "maxOrderSequence (to_upper (trim_space market)) d \<noteq> - 1"
  shows "s \<noteq> 0 \<and> db_orders d' = db_orders d \<and>
    (\<forall>r \<in> set (db_orders d). o_Market r = to_upper (trim_space market) \<longrightarrow> o_SequenceID r < s) \<and>
    (\<exists>s' d''. NextOrderSequence env' market d' = Inr (s', d'') \<and> s < s')"
proof -
  let ?m = "to_upper (trim_space market)"
  let ?max = "maxOrderSequence ?m d"
  have m: "?m \<noteq> []" using assms(1) by (auto simp: NextOrderSequence_def Let_def)
  have inc: "x < x + 1" "x + 1 \<noteq> 0" if "x \<noteq> - 1" for x :: uint64
    using word_increment [OF that] by simp_all
  have first: "?max + 1 \<noteq> 0" "?max < ?max + 1" using inc [OF assms(3)] by auto
  define rows where "rows = (if row_exists sq_Market ?m (db_sequences d) then db_sequences d
     else db_sequences d @ [\<lparr>sq_Market = ?m, sq_NextSequence = ?max + 1, sq_UpdatedAt = e_now env\<rparr>])"
  obtain q where q: "row_find sq_Market ?m rows = Some q"
    by (cases "row_find sq_Market ?m (db_sequences d)") (auto simp: rows_def row_exists_def row_find_append)
  have s: "s = (if sq_NextSequence q = 0 \<or> sq_NextSequence q \<le> ?max then ?max + 1 else sq_NextSequence q)"
    and d': "d' = d\<lparr>db_sequences := row_save sq_Market (q\<lparr>sq_NextSequence := s + 1, sq_UpdatedAt := e_now env\<rparr>) rows\<rparr>"
    using assms(1)
    unfolding NextOrderSequence_def Let_def if_not_P [OF m] if_not_P [OF first(1)] rows_def [symmetric] q
    by (auto split: if_splits)
  have gt: "?max < s" "s \<noteq> 0" using s first by (auto simp: not_le)
  have key: "sq_Market q = ?m" using row_find_key [OF q] by simp
  have max': "maxOrderSequence ?m d' = ?max" by (simp add: d' maxOrderSequence_def)
  have find': "row_find sq_Market ?m (db_sequences d') = Some (q\<lparr>sq_NextSequence := s + 1, sq_UpdatedAt := e_now env\<rparr>)"
    by (simp add: d' row_find_save key)
  have s1: "s < s + 1" "s + 1 \<noteq> 0" using inc [OF assms(2)] by auto
  have "\<not> s + 1 \<le> ?max" using gt(1) s1(1) by (meson leD order.strict_trans)
  then have "\<exists>d''. NextOrderSequence env' market d' = Inr (s + 1, d'')"
    using m find' s1 max' by (auto simp: NextOrderSequence_def Let_def row_exists_def)
  moreover have "o_SequenceID r < s" if "r \<in> set (db_orders d)" "o_Market r = ?m" for r
    using maxOrderSequence_ge [OF that] gt(1) by (rule order.strict_trans1)
  ultimately show ?thesis using gt(2) s1 d' by auto
qed

definition seq_env :: env where
  "seq_env = \<lparr>e_now = 3, e_newid = (\<lambda>n. [])\<rparr>"

theorem NextOrderSequence_increases_witness:
  "\<exists>s d'. NextOrderSequence seq_env ''btc'' empty_db = Inr (s, d') \<and> s \<noteq> 0"
proof -
  have r: "(case NextOrderSequence seq_env ''btc'' empty_db of Inr (s, d') \<Rightarrow> s = 1 | Inl _ \<Rightarrow> False)" by code_simp
  then obtain s d' where s: "NextOrderSequence seq_env ''btc'' empty_db = Inr (s, d')" "s = 1"
    by (auto split: sum.splits prod.splits)
  have ne: "s \<noteq> - 1" "maxOrderSequence (to_upper (trim_space ''btc'')) empty_db \<noteq> - 1"
    using s(2) by (simp_all add: maxOrderSequence_def empty_db_def)
  show ?thesis using NextOrderSequence_increases [OF s(1) ne] s(1) by blast
qed

section \<open>The active orders\<close>

text \<open>The active table holds exactly the bookable orders of the order table, as rows.\<close>

definition active_synced :: "db \<Rightarrow> bool" where
  "active_synced d \<longleftrightarrow> (\<forall>i. row_find o_ID i (db_active d) =
     (case row_find o_ID i (db_orders d) of
        Some x \<Rightarrow> if isBookableOrder x then Some x else None
      | None \<Rightarrow> None))"

lemma find_deleted:
  "row_find key k (row_delete (\<lambda>r. key r = k') rows) = (if k = k' then None else row_find key k rows)"
  by (induction rows) (auto simp: row_delete_def)

lemma isBookable_model [simp]: "isBookableOrder (orderToModel x) = isBookableOrder x"
  by (simp add: isBookableOrder_def orderToModel_def)

lemma model_same: "activeOrderToModel x = orderToModel x"
  by (simp add: activeOrderToModel_def orderToModel_def)

lemma model_ID [simp]: "o_ID (orderToModel x) = o_ID x"
  by (simp add: orderToModel_def)

lemma SyncActiveOrder_effect:
  "SyncActiveOrder x d = Inr (u, d') \<Longrightarrow> db_orders d' = db_orders d \<and>
    row_find o_ID i (db_active d') =
      (if i = o_ID x then (if isBookableOrder x then Some (orderToModel x) else None) else row_find o_ID i (db_active d))"
  by (auto simp: SyncActiveOrder_def find_deleted row_find_save model_same split: if_splits)

lemma SyncActiveOrder_total: "\<exists>d'. SyncActiveOrder x d = Inr ((), d')"
  by (auto simp: SyncActiveOrder_def tx_modify_def)

lemma bookable_row_iff: "bookable_row r \<longleftrightarrow> isBookableOrder r"
  by (auto simp: bookable_row_def isBookableOrder_def openStatuses_def isOpenStatus_def dec_simps)

lemma row_find_filter:
  "distinct (map key rows) \<Longrightarrow> row_find key i (filter P rows) =
    (case row_find key i rows of Some x \<Rightarrow> if P x then Some x else None | None \<Rightarrow> None)"
proof (induction rows)
  case (Cons r rows)
  have "row_find key (key r) (filter P rows) = None" using Cons.prems by (auto simp: row_find_None)
  then show ?case using Cons by (auto split: option.splits)
qed simp

text \<open>C14: creating and saving an order keep the active table the exact projection of the order table,
  whatever the order's state, and rebuilding it changes nothing a query by identifier can see.\<close>

theorem active_orders_projection:
  assumes "active_synced d"
  shows "(CreateOrder x d = Inr (u, d') \<longrightarrow> active_synced d' \<and> row_find o_ID (o_ID x) (db_orders d) = None \<and>
      row_find o_ID (o_ID x) (db_orders d') = Some (orderToModel x)) \<and>
    (SaveOrder x d = Inr (u, d') \<longrightarrow> active_synced d' \<and> row_find o_ID (o_ID x) (db_orders d') = Some (orderToModel x)) \<and>
    (RebuildActiveOrders market d = Inr (u, d') \<and> distinct (map o_ID (db_orders d)) \<and>
       distinct (map o_ID (db_active d)) \<longrightarrow> active_synced d')"
proof (intro conjI impI)
  assume c: "CreateOrder x d = Inr (u, d')"
  then obtain d1 where 1: "create_order_row (orderToModel x) d = Inr ((), d1)" and 2: "SyncActiveOrder x d1 = Inr (u, d')"
    by (auto simp: CreateOrder_def tx_bind_Inr_iff)
  have d1: "d1 = d\<lparr>db_orders := db_orders d @ [orderToModel x]\<rparr>" and new: "row_find o_ID (o_ID x) (db_orders d) = None"
    using 1 by (auto simp: create_order_row_def row_exists_def split: if_splits)
  note e = SyncActiveOrder_effect [OF 2]
  show "active_synced d'"
    using assms e d1 new by (auto simp: active_synced_def row_find_append split: option.splits)
  show "row_find o_ID (o_ID x) (db_orders d) = None" by fact
  show "row_find o_ID (o_ID x) (db_orders d') = Some (orderToModel x)" using e d1 new by (simp add: row_find_append)
next
  assume c: "SaveOrder x d = Inr (u, d')"
  then obtain d1 where 1: "save_order_row (orderToModel x) d = Inr ((), d1)" and 2: "SyncActiveOrder x d1 = Inr (u, d')"
    by (auto simp: SaveOrder_def tx_bind_Inr_iff)
  have d1: "d1 = d\<lparr>db_orders := row_save o_ID (orderToModel x) (db_orders d)\<rparr>"
    using 1 by (auto simp: save_order_row_def split: if_splits)
  note e = SyncActiveOrder_effect [OF 2]
  show "active_synced d'"
    using assms e d1 by (auto simp: active_synced_def row_find_save split: option.splits)
  show "row_find o_ID (o_ID x) (db_orders d') = Some (orderToModel x)" using e d1 by (simp add: row_find_save)
next
  assume r: "RebuildActiveOrders market d = Inr (u, d') \<and> distinct (map o_ID (db_orders d)) \<and> distinct (map o_ID (db_active d))"
  let ?m = "to_upper (trim_space market)"
  show "active_synced d'"
  proof (cases "?m = []")
    case True
    then show ?thesis using r assms by (auto simp: RebuildActiveOrders_def)
  next
    case False
    then have d': "db_orders d' = db_orders d"
      "db_active d' = filter (\<lambda>r. o_Market r \<noteq> ?m) (db_active d) @ filter (\<lambda>r. o_Market r = ?m \<and> bookable_row r) (db_orders d)"
      using r by (auto simp: RebuildActiveOrders_def Let_def row_delete_def)
    have "row_find o_ID i (db_active d') = (case row_find o_ID i (db_orders d) of
        Some x \<Rightarrow> if isBookableOrder x then Some x else None | None \<Rightarrow> None)" for i
      using assms r unfolding d'(2) row_find_append
      by (auto simp: row_find_filter active_synced_def bookable_row_iff split: option.splits if_splits)
    then show ?thesis by (simp add: active_synced_def d'(1))
  qed
qed

definition store_order :: order where
  "store_order =
     \<lparr>o_ID = ''o1'', o_ClientOrderID = ''c1'', o_ReservationID = '' r '', o_UserID = ''u'', o_Market = ''M'',
      o_BaseAsset = ''B'', o_QuoteAsset = ''Q'', o_Side = SideBuy, o_Type = TypeLimit, o_Status = StatusOpen,
      o_TimeInForce = TimeInForceGTC, o_Price = ''2'', o_StopPrice = [], o_Quantity = ''1'', o_FilledQuantity = [],
      o_RemainingQuantity = ''1'', o_SequenceID = 1, o_CreatedAt = 1, o_UpdatedAt = 1\<rparr>"

theorem active_orders_projection_witness:
  "\<exists>d'. CreateOrder store_order empty_db = Inr ((), d') \<and> active_synced d'"
proof -
  have s: "active_synced empty_db" by (simp add: active_synced_def empty_db_def)
  obtain d' where d': "CreateOrder store_order empty_db = Inr ((), d')"
    using SyncActiveOrder_total
    by (auto simp: CreateOrder_def tx_bind_def create_order_row_def row_exists_def empty_db_def split: sum.splits)
  then show ?thesis using active_orders_projection [OF s, of store_order "()" d'] by blast
qed

section \<open>Match candidates\<close>

lemma activeModelsToOrders_id: "activeModelsToOrders rows = rows"
  by (simp add: activeModelsToOrders_def activeModelToOrder_def map_idI)

text \<open>The candidates for a taker are sorted by price then sequence, all cross its price and are
  bookable, and a crossing bookable order that is left out comes no earlier in that order than any that
  is listed.\<close>

theorem ListMatchCandidates_best:
  fixes d market makerSide takerPrice exclude limit
  defines "cs \<equiv> ListMatchCandidates d market makerSide takerPrice exclude limit"
    and "key \<equiv> book_order_key (if makerSide = SideSell then SideSell else SideBuy)"
    and "eligible \<equiv> \<lambda>r. r \<in> set (db_active d) \<and> col_eq (o_Market r) market \<and> side_eq (o_Side r) makerSide \<and>
      isBookableOrder r \<and> (exclude \<noteq> [] \<longrightarrow> o_ID r \<noteq> exclude) \<and>
      (if makerSide = SideSell then Parse (o_Price r) \<le> Parse takerPrice else Parse takerPrice \<le> Parse (o_Price r))"
  shows "sorted (map key cs) \<and> (\<forall>r \<in> set cs. eligible r) \<and>
    (\<forall>r. eligible r \<and> r \<notin> set cs \<longrightarrow> (\<forall>c \<in> set cs. key c \<le> key r))"
proof -
  define rows where "rows = sort_key key (filter (\<lambda>r. col_eq (o_Market r) market \<and> side_eq (o_Side r) makerSide \<and> bookable_row r \<and>
            (exclude \<noteq> [] \<longrightarrow> o_ID r \<noteq> exclude) \<and>
            (if makerSide = SideSell then Parse (o_Price r) \<le> Parse takerPrice
             else Parse takerPrice \<le> Parse (o_Price r))) (db_active d))"
  have cs: "cs = take (limit_or limit 1000 500) rows"
    by (simp add: cs_def ListMatchCandidates_def rows_def key_def activeModelsToOrders_id)
  have el: "r \<in> set rows \<longleftrightarrow> eligible r" for r
    by (auto simp: rows_def eligible_def bookable_row_iff)
  have sorted: "sorted (map key rows)" by (simp add: rows_def)
  have "sorted (map key (take (limit_or limit 1000 500) rows @ drop (limit_or limit 1000 500) rows))"
    using sorted by simp
  then have split: "sorted (map key cs)" "\<forall>c \<in> set cs. \<forall>r \<in> set (drop (limit_or limit 1000 500) rows). key c \<le> key r"
    unfolding cs map_append sorted_append by auto
  have "r \<in> set (drop (limit_or limit 1000 500) rows)" if "eligible r" "r \<notin> set cs" for r
    using that el [of r] unfolding cs by (metis append_take_drop_id set_append UnE)
  then show ?thesis using split el cs in_set_takeD by metis
qed


definition store_db :: db where
  "store_db = empty_db\<lparr>db_active := [store_order\<lparr>o_Side := SideSell\<rparr>]\<rparr>"

theorem ListMatchCandidates_best_witness:
  "ListMatchCandidates store_db ''M'' SideSell ''2'' [] 10 \<noteq> [] \<and>
   isBookableOrder (hd (ListMatchCandidates store_db ''M'' SideSell ''2'' [] 10))"
proof -
  have "ListMatchCandidates store_db ''M'' SideSell ''2'' [] 10 \<noteq> []" by code_simp
  then show ?thesis
    using ListMatchCandidates_best [where d = store_db and market = "''M''" and makerSide = SideSell
        and takerPrice = "''2''" and exclude = "[]" and limit = 10] hd_in_set by blast
qed

end
