(* ===== verification/PriceLevels.thy ===== *)
theory PriceLevels
  imports OrderStore
begin

text \<open>
  The price level projection of \<^verbatim>\<open>exchange_repository.go\<close>: levels are refreshed for the keys a
  command touched, pruned, rebuilt from the active orders, listed and reconciled with them. A
  group of rows of one price takes the price text of its first row.
\<close>

record price_level_key =
  lk_Market :: string
  lk_Side :: side
  lk_Price :: string

definition modelToPriceLevel :: "price_level \<Rightarrow> price_level" where
  "modelToPriceLevel model = model"

definition priceLevelToModel :: "price_level \<Rightarrow> price_level" where
  "priceLevelToModel level = level"

definition key_text :: "price_level_key \<Rightarrow> string" where
  "key_text key = lk_Market key @ ''|'' @ side_text (lk_Side key) @ ''|'' @ lk_Price key"

fun unique_keys :: "price_level_key list \<Rightarrow> string set \<Rightarrow> price_level_key list" where
  "unique_keys [] seen = []"
| "unique_keys (key # ks) seen =
     (if key_text key \<in> seen then unique_keys ks seen
      else key # unique_keys ks (insert (key_text key) seen))"

definition uniquePriceLevelKeys :: "price_level_key list \<Rightarrow> price_level_key list" where
  "uniquePriceLevelKeys keys = unique_keys keys {}"

definition level_key :: "price_level \<Rightarrow> string \<times> side \<times> rat" where
  "level_key l = (pl_Market l, pl_Side l, Parse (pl_Price l))"

definition key_of :: "price_level_key \<Rightarrow> string \<times> side \<times> rat" where
  "key_of key = (lk_Market key, lk_Side key, Parse (lk_Price key))"

definition empty_key :: "price_level_key \<Rightarrow> bool" where
  "empty_key key \<longleftrightarrow> lk_Market key = [] \<or> lk_Side key = SideOther [] \<or> lk_Price key = []"

definition order_level :: "order \<Rightarrow> string \<times> side \<times> rat" where
  "order_level r = (o_Market r, o_Side r, Parse (o_Price r))"

definition add_to_level :: "order \<Rightarrow> price_level \<Rightarrow> price_level" where
  "add_to_level item level =
     (if Cmp (o_RemainingQuantity item) minimumActiveOrderQuantity < 0 then level
      else
        level\<lparr>pl_Quantity := Add (pl_Quantity level) (o_RemainingQuantity item),
              pl_OrderCount := pl_OrderCount level + 1,
              pl_FirstSequenceID :=
                (if pl_FirstSequenceID level = 0 \<or>
                    (o_SequenceID item \<noteq> 0 \<and> o_SequenceID item < pl_FirstSequenceID level)
                 then o_SequenceID item else pl_FirstSequenceID level)\<rparr>)"

definition delete_level :: "string \<times> side \<times> rat \<Rightarrow> db \<Rightarrow> db" where
  "delete_level k d = d\<lparr>db_levels := row_delete (\<lambda>l. level_key l = k) (db_levels d)\<rparr>"

definition refresh_level :: "env \<Rightarrow> price_level_key \<Rightarrow> unit ltx" where
  "refresh_level env key d =
     (if empty_key key then Inr ((), d)
      else
        let models = filter (\<lambda>r. order_level r = key_of key \<and>
              Parse minimumActiveOrderQuantity \<le> Parse (o_RemainingQuantity r)) (db_active d)
        in if models = [] then Inr ((), delete_level (key_of key) d)
           else
             let level = fold add_to_level models
                   \<lparr>pl_Market = lk_Market key, pl_Side = lk_Side key, pl_Price = lk_Price key, pl_Quantity = ''0'',
                    pl_OrderCount = 0, pl_FirstSequenceID = 0, pl_LastUpdatedAt = e_now env\<rparr>
             in if pl_OrderCount level = 0 then Inr ((), delete_level (key_of key) d)
                else Inr ((), d\<lparr>db_levels := row_save level_key level (db_levels d)\<rparr>))"

definition RefreshPriceLevels :: "env \<Rightarrow> price_level_key list \<Rightarrow> unit ltx" where
  "RefreshPriceLevels env keys = tx_each (refresh_level env) (uniquePriceLevelKeys keys)"

definition PriceLevelDeltas :: "db \<Rightarrow> price_level_key list \<Rightarrow> price_level list" where
  "PriceLevelDeltas d keys =
     map (\<lambda>key. case row_find level_key (key_of key) (db_levels d) of
            None \<Rightarrow> \<lparr>pl_Market = lk_Market key, pl_Side = lk_Side key, pl_Price = lk_Price key, pl_Quantity = [],
                     pl_OrderCount = 0, pl_FirstSequenceID = 0, pl_LastUpdatedAt = 0\<rparr>
          | Some model \<Rightarrow> modelToPriceLevel model)
       (filter (\<lambda>key. \<not> empty_key key) (uniquePriceLevelKeys keys))"

definition PruneStalePriceLevels :: "string \<Rightarrow> unit ltx" where
  "PruneStalePriceLevels market0 =
     (let market = to_upper (trim_space market0) in
      if market = [] then tx_return ()
      else tx_modify (\<lambda>d. d\<lparr>db_levels := row_delete (\<lambda>l. pl_Market l = market \<and>
             \<not> (\<exists>item \<in> set (db_active d). order_level item = level_key l \<and> bookable_row item)) (db_levels d)\<rparr>))"

section \<open>Aggregation\<close>

definition row_amount :: "order list \<Rightarrow> rat" where
  "row_amount rows = sum_list (map (\<lambda>r. Parse (o_RemainingQuantity r)) rows)"

fun group_prices :: "order list \<Rightarrow> rat list \<Rightarrow> string list" where
  "group_prices [] seen = []"
| "group_prices (r # rs) seen =
     (if Parse (o_Price r) \<in> set seen then group_prices rs seen
      else o_Price r # group_prices rs (Parse (o_Price r) # seen))"

definition min_sequence :: "order list \<Rightarrow> uint64" where
  "min_sequence rows = (case rows of [] \<Rightarrow> 0 | r # rs \<Rightarrow> fold min (map o_SequenceID rs) (o_SequenceID r))"

definition aggregatePriceLevels :: "env \<Rightarrow> db \<Rightarrow> string \<Rightarrow> side \<Rightarrow> price_level list" where
  "aggregatePriceLevels env d market s =
     (let rows = filter (\<lambda>r. o_Market r = market \<and> o_Side r = s \<and>
            Parse minimumActiveOrderQuantity \<le> Parse (o_RemainingQuantity r)) (db_active d);
          prices = sort_key (\<lambda>p. if s = SideBuy then - Parse p else Parse p) (group_prices rows []);
          group = (\<lambda>p. filter (\<lambda>r. Parse (o_Price r) = Parse p) rows)
      in map (\<lambda>p. \<lparr>pl_Market = market, pl_Side = s, pl_Price = p, pl_Quantity = String (row_amount (group p)),
                  pl_OrderCount = int (length (group p)), pl_FirstSequenceID = min_sequence (group p),
                  pl_LastUpdatedAt = e_now env\<rparr>)
           (filter (\<lambda>p. 0 < Parse (String (row_amount (group p))) \<and> 0 < length (group p)) prices))"

definition RebuildPriceLevels :: "env \<Rightarrow> string \<Rightarrow> unit ltx" where
  "RebuildPriceLevels env market0 d =
     (let market = to_upper (trim_space market0) in
      if market = [] then Inr ((), d)
      else
        let kept = row_delete (\<lambda>l. pl_Market l = market) (db_levels d)
        in Inr ((), d\<lparr>db_levels := kept @ aggregatePriceLevels env d market SideBuy @
                        aggregatePriceLevels env d market SideSell\<rparr>))"

definition ListPriceLevels :: "db \<Rightarrow> string \<Rightarrow> side \<Rightarrow> int \<Rightarrow> price_level list" where
  "ListPriceLevels d market s limit0 =
     map modelToPriceLevel (take (limit_or limit0 500 100)
       (sort_key (\<lambda>l. ((if s = SideBuy then - Parse (pl_Price l) else Parse (pl_Price l)), unat (pl_FirstSequenceID l)))
         (filter (\<lambda>l. col_eq (pl_Market l) market \<and> side_eq (pl_Side l) s \<and>
            Parse minimumActiveOrderQuantity \<le> Parse (pl_Quantity l) \<and> 0 < pl_OrderCount l) (db_levels d))))"

section \<open>Reconciliation\<close>

record projection_drift =
  pd_Market :: string
  pd_Side :: string
  pd_Price :: string
  pd_ActiveQuantity :: string
  pd_LevelQuantity :: string
  pd_ActiveOrderCount :: int
  pd_LevelOrderCount :: int

definition active_group :: "db \<Rightarrow> string \<times> side \<times> rat \<Rightarrow> order list" where
  "active_group d k = filter (\<lambda>r. order_level r = k) (db_active d)"

definition drift_of :: "string \<times> side \<times> rat \<Rightarrow> order list \<Rightarrow> price_level option \<Rightarrow> projection_drift" where
  "drift_of k grp l =
     \<lparr>pd_Market = fst k, pd_Side = side_text (fst (snd k)), pd_Price = String (snd (snd k)),
      pd_ActiveQuantity = String (row_amount grp),
      pd_LevelQuantity = (case l of None \<Rightarrow> ''0'' | Some x \<Rightarrow> String (Parse (pl_Quantity x))),
      pd_ActiveOrderCount = int (length grp),
      pd_LevelOrderCount = (case l of None \<Rightarrow> 0 | Some x \<Rightarrow> pl_OrderCount x)\<rparr>"

definition drifted :: "order list \<Rightarrow> price_level option \<Rightarrow> bool" where
  "drifted grp l =
     (case l of None \<Rightarrow> grp \<noteq> []
      | Some x \<Rightarrow> grp = [] \<or> row_amount grp \<noteq> Parse (pl_Quantity x) \<or> int (length grp) \<noteq> pl_OrderCount x)"

definition ReconcileOrderBookProjection :: "db \<Rightarrow> string \<Rightarrow> projection_drift list" where
  "ReconcileOrderBookProjection d market0 =
     (let market = to_upper (trim_space market0) in
      if market = [] then []
      else
        let keys = remdups (map order_level (filter (\<lambda>r. o_Market r = market) (db_active d)) @
                    map level_key (filter (\<lambda>l. pl_Market l = market) (db_levels d)));
            sorted = sort_key (\<lambda>k. (fst k, side_text (fst (snd k)), snd (snd k))) keys
        in map (\<lambda>k. drift_of k (active_group d k) (row_find level_key k (db_levels d)))
             (filter (\<lambda>k. drifted (active_group d k) (row_find level_key k (db_levels d))) sorted))"

fun aggregate_levels :: "time \<Rightarrow> string \<Rightarrow> side \<Rightarrow> order list \<Rightarrow> price_level list \<Rightarrow> price_level list" where
  "aggregate_levels now market s [] levels = levels"
| "aggregate_levels now market s (item # items) levels =
     (if o_Type item = TypeMarket \<or> \<not> isOpenStatus (o_Status item) \<or> Cmp (o_RemainingQuantity item) ''0'' \<le> 0
      then aggregate_levels now market s items levels
      else case row_find pl_Price (o_Price item) levels of
        None \<Rightarrow> aggregate_levels now market s items (levels @
          [\<lparr>pl_Market = market, pl_Side = s, pl_Price = o_Price item, pl_Quantity = o_RemainingQuantity item,
            pl_OrderCount = 1, pl_FirstSequenceID = o_SequenceID item, pl_LastUpdatedAt = now\<rparr>])
      | Some l \<Rightarrow> aggregate_levels now market s items (row_save pl_Price
          (l\<lparr>pl_Quantity := Add (pl_Quantity l) (o_RemainingQuantity item), pl_OrderCount := pl_OrderCount l + 1,
             pl_FirstSequenceID :=
               (if pl_FirstSequenceID l = 0 \<or> (o_SequenceID item \<noteq> 0 \<and> o_SequenceID item < pl_FirstSequenceID l)
                then o_SequenceID item else pl_FirstSequenceID l)\<rparr>) levels))"

definition aggregateLevels :: "time \<Rightarrow> string \<Rightarrow> side \<Rightarrow> order list \<Rightarrow> price_level list" where
  "aggregateLevels now market s orders = aggregate_levels now market s orders []"


section \<open>Exact levels\<close>

text \<open>A level of the table is exact when it is the aggregate of the bookable active orders at its price.\<close>

definition level_group :: "db \<Rightarrow> string \<times> side \<times> rat \<Rightarrow> order list" where
  "level_group d k = filter (\<lambda>r. order_level r = k \<and>
     Parse minimumActiveOrderQuantity \<le> Parse (o_RemainingQuantity r)) (db_active d)"

definition level_exact :: "db \<Rightarrow> string \<times> side \<times> rat \<Rightarrow> bool" where
  "level_exact d k \<longleftrightarrow>
     (case row_find level_key k (db_levels d) of
        None \<Rightarrow> level_group d k = []
      | Some l \<Rightarrow> level_group d k \<noteq> [] \<and> Parse (pl_Quantity l) = row_amount (level_group d k) \<and>
          pl_OrderCount l = int (length (level_group d k)))"

definition active_amounts :: "db \<Rightarrow> bool" where
  "active_amounts d \<longleftrightarrow> (\<forall>r \<in> set (db_active d). amount (o_RemainingQuantity r))"

lemma level_group_levels [simp]: "level_group (d\<lparr>db_levels := ls\<rparr>) k = level_group d k"
  by (simp add: level_group_def)

lemma row_find_delete_key:
  "row_find key k (row_delete (\<lambda>r. key r = k') rows) = (if k = k' then None else row_find key k rows)"
  by (induction rows) (auto simp: row_delete_def)

lemma row_find_filter_None: "(\<And>r. r \<in> set rows \<Longrightarrow> key r = k \<Longrightarrow> P r) \<Longrightarrow> row_find key k (row_delete P rows) = None"
  by (auto simp: row_find_None row_delete_def)

lemma min_quantity: "Parse minimumActiveOrderQuantity = 5 / 10 ^ 9"
  by code_simp

lemma fold_add_to_level:
  assumes "\<And>r. r \<in> set rows \<Longrightarrow> amount (o_RemainingQuantity r) \<and>
      Parse minimumActiveOrderQuantity \<le> Parse (o_RemainingQuantity r)"
    and "amount (pl_Quantity l)"
  shows "Parse (pl_Quantity (fold add_to_level rows l)) = Parse (pl_Quantity l) + row_amount rows \<and>
    pl_OrderCount (fold add_to_level rows l) = pl_OrderCount l + int (length rows) \<and>
    level_key (fold add_to_level rows l) = level_key l"
  using assms
proof (induction rows arbitrary: l)
  case Nil
  then show ?case by (simp add: row_amount_def)
next
  case (Cons r rows)
  have r: "amount (o_RemainingQuantity r)" "\<not> Cmp (o_RemainingQuantity r) minimumActiveOrderQuantity < 0"
    using Cons.prems(1) [of r] by (auto simp: dec_simps)
  have l: "Parse (pl_Quantity (add_to_level r l)) = Parse (pl_Quantity l) + Parse (o_RemainingQuantity r)"
    "amount (pl_Quantity (add_to_level r l))" "pl_OrderCount (add_to_level r l) = pl_OrderCount l + 1"
    "level_key (add_to_level r l) = level_key l"
    using r Cons.prems(2) by (simp_all add: add_to_level_def Parse_Add level_key_def)
  show ?case using Cons.IH [OF _ l(2)] Cons.prems(1) l by (simp add: row_amount_def)
qed

lemma refresh_level_exact:
  assumes a: "active_amounts d"
  shows "\<exists>d'. refresh_level env key d = Inr ((), d') \<and> db_active d' = db_active d \<and>
    (\<not> empty_key key \<longrightarrow> level_exact d' (key_of key)) \<and>
    (\<forall>k. k \<noteq> key_of key \<or> empty_key key \<longrightarrow> row_find level_key k (db_levels d') = row_find level_key k (db_levels d))"
proof (cases "empty_key key")
  case True
  then show ?thesis by (simp add: refresh_level_def)
next
  case False
  let ?g = "level_group d (key_of key)"
  let ?l = "fold add_to_level ?g
    \<lparr>pl_Market = lk_Market key, pl_Side = lk_Side key, pl_Price = lk_Price key, pl_Quantity = ''0'',
     pl_OrderCount = 0, pl_FirstSequenceID = 0, pl_LastUpdatedAt = e_now env\<rparr>"
  have g: "\<And>r. r \<in> set ?g \<Longrightarrow> amount (o_RemainingQuantity r) \<and>
      Parse minimumActiveOrderQuantity \<le> Parse (o_RemainingQuantity r)"
    using a by (auto simp: level_group_def active_amounts_def)
  have l: "Parse (pl_Quantity ?l) = row_amount ?g" "pl_OrderCount ?l = int (length ?g)" "level_key ?l = key_of key"
    using fold_add_to_level [OF g] by (simp_all add: Parse_0 level_key_def key_of_def)
  show ?thesis
  proof (cases "?g = []")
    case True
    then have "refresh_level env key d = Inr ((), delete_level (key_of key) d)"
      using False by (simp add: refresh_level_def level_group_def)
    then show ?thesis
      using True False by (simp add: delete_level_def level_exact_def row_find_delete_key level_group_def)
  next
    case ne: False
    then have "refresh_level env key d = Inr ((), d\<lparr>db_levels := row_save level_key ?l (db_levels d)\<rparr>)"
      using False l(2) by (simp add: refresh_level_def level_group_def Let_def)
    then show ?thesis
      using ne l False by (simp add: level_exact_def row_find_save)
  qed
qed

lemma refresh_levels_exact:
  assumes "active_amounts d"
  shows "\<exists>d'. tx_each (refresh_level env) keys d = Inr ((), d') \<and> db_active d' = db_active d \<and>
    (\<forall>key \<in> set keys. \<not> empty_key key \<longrightarrow> level_exact d' (key_of key)) \<and>
    (\<forall>k. k \<notin> key_of ` set keys \<longrightarrow> row_find level_key k (db_levels d') = row_find level_key k (db_levels d)) \<and>
    (\<forall>k. level_exact d k \<longrightarrow> level_exact d' k)"
  using assms
proof (induction keys arbitrary: d)
  case Nil
  then show ?case by (simp add: tx_return_def)
next
  case (Cons key keys)
  obtain d1 where 1: "refresh_level env key d = Inr ((), d1)" "db_active d1 = db_active d"
    "\<not> empty_key key \<longrightarrow> level_exact d1 (key_of key)"
    "\<And>k. k \<noteq> key_of key \<or> empty_key key \<Longrightarrow> row_find level_key k (db_levels d1) = row_find level_key k (db_levels d)"
    using refresh_level_exact [OF Cons.prems] by blast
  have "active_amounts d1" using Cons.prems 1(2) by (simp add: active_amounts_def)
  from Cons.IH [OF this] obtain d' where 2: "tx_each (refresh_level env) keys d1 = Inr ((), d')" "db_active d' = db_active d1"
    "\<forall>key \<in> set keys. \<not> empty_key key \<longrightarrow> level_exact d' (key_of key)"
    "\<And>k. k \<notin> key_of ` set keys \<Longrightarrow> row_find level_key k (db_levels d') = row_find level_key k (db_levels d1)"
    "\<And>k. level_exact d1 k \<Longrightarrow> level_exact d' k" by blast
  have keep: "level_exact d1 k" if "level_exact d k" for k
  proof (cases "k = key_of key \<and> \<not> empty_key key")
    case True
    then show ?thesis using 1(3) by simp
  next
    case False
    then have "row_find level_key k (db_levels d1) = row_find level_key k (db_levels d)" using 1(4) by blast
    moreover have "level_group d1 k = level_group d k" using 1(2) by (simp add: level_group_def)
    ultimately show ?thesis using that by (auto simp: level_exact_def split: option.splits)
  qed
  show ?case
    using 1 2 keep by (intro exI [of _ d']) (auto simp: tx_bind_def)
qed

text \<open>Two keys of the same text are the same key when the market has no bar and the side is known.\<close>

definition plain_key :: "price_level_key \<Rightarrow> bool" where
  "plain_key key \<longleftrightarrow> CHR ''|'' \<notin> set (lk_Market key) \<and> lk_Side key \<in> {SideBuy, SideSell}"

lemma append_bar:
  assumes "CHR ''|'' \<notin> set a" and "CHR ''|'' \<notin> set b" and "a @ CHR ''|'' # x = b @ CHR ''|'' # y"
  shows "a = b \<and> x = y"
  using assms by (induction a arbitrary: b) (auto simp: append_eq_Cons_conv Cons_eq_append_conv)

lemma key_text_inj:
  assumes "plain_key a" and "plain_key b" and "key_text a = key_text b"
  shows "a = b"
proof -
  have "lk_Market a = lk_Market b \<and> side_text (lk_Side a) @ ''|'' @ lk_Price a = side_text (lk_Side b) @ ''|'' @ lk_Price b"
    using assms append_bar [of "lk_Market a" "lk_Market b"] by (simp add: plain_key_def key_text_def)
  moreover have "lk_Side a = lk_Side b \<and> lk_Price a = lk_Price b"
    using calculation assms(1,2) by (auto simp: plain_key_def side_text_def)
  ultimately show ?thesis by simp
qed

lemma unique_keys_texts: "key_text ` set (unique_keys keys seen) = key_text ` set keys - seen"
  by (induction keys seen rule: unique_keys.induct) auto

lemma unique_keys_subset: "set (unique_keys keys seen) \<subseteq> set keys"
  by (induction keys seen rule: unique_keys.induct) auto

lemma uniquePriceLevelKeys_set:
  assumes "\<forall>key \<in> set keys. plain_key key"
  shows "set (uniquePriceLevelKeys keys) = set keys"
proof -
  have s: "set (uniquePriceLevelKeys keys) \<subseteq> set keys"
    using unique_keys_subset by (simp add: uniquePriceLevelKeys_def)
  have eq: "key_text ` set (uniquePriceLevelKeys keys) = key_text ` set keys"
    using unique_keys_texts [of keys "{}"] by (simp add: uniquePriceLevelKeys_def)
  then have "x \<in> set (uniquePriceLevelKeys keys)" if "x \<in> set keys" for x
  proof -
    have "key_text x \<in> key_text ` set (uniquePriceLevelKeys keys)" unfolding eq using that by (rule imageI)
    then obtain y where "y \<in> set (uniquePriceLevelKeys keys)" "key_text x = key_text y" by (rule imageE)
    then show ?thesis using key_text_inj assms that s by blast
  qed
  then show ?thesis using s by blast
qed

text \<open>Refreshing the levels a command touched makes each of them exact - a row exactly when a bookable
  order rests at the price, with the sum and the number of those orders - and changes no other level.\<close>

theorem RefreshPriceLevels_exact:
  assumes "active_amounts d" and "\<forall>key \<in> set keys. plain_key key"
  shows "\<exists>d'. RefreshPriceLevels env keys d = Inr ((), d') \<and> db_active d' = db_active d \<and>
    (\<forall>key \<in> set keys. \<not> empty_key key \<longrightarrow> level_exact d' (key_of key)) \<and>
    (\<forall>k. k \<notin> key_of ` set keys \<longrightarrow> row_find level_key k (db_levels d') = row_find level_key k (db_levels d))"
  using refresh_levels_exact [OF assms(1), of env "uniquePriceLevelKeys keys"] uniquePriceLevelKeys_set [OF assms(2)]
  unfolding RefreshPriceLevels_def by auto

definition sample_active :: "string \<Rightarrow> side \<Rightarrow> string \<Rightarrow> string \<Rightarrow> uint64 \<Rightarrow> order" where
  "sample_active oid s price quantity sq =
     \<lparr>o_ID = oid, o_ClientOrderID = oid, o_ReservationID = [], o_UserID = ''u'', o_Market = ''M'',
      o_BaseAsset = ''B'', o_QuoteAsset = ''Q'', o_Side = s, o_Type = TypeLimit, o_Status = StatusOpen,
      o_TimeInForce = TimeInForceGTC, o_Price = price, o_StopPrice = ''0'', o_Quantity = quantity,
      o_FilledQuantity = ''0'', o_RemainingQuantity = quantity, o_SequenceID = sq, o_CreatedAt = 1, o_UpdatedAt = 1\<rparr>"

definition sample_levels_db :: db where
  "sample_levels_db = empty_db\<lparr>db_active :=
     [sample_active ''a'' SideBuy ''2'' ''1.5'' 1, sample_active ''b'' SideBuy ''2.0'' ''0.5'' 2,
      sample_active ''c'' SideSell ''3'' ''1'' 3]\<rparr>"

definition sample_keys :: "price_level_key list" where
  "sample_keys = [\<lparr>lk_Market = ''M'', lk_Side = SideBuy, lk_Price = ''2''\<rparr>,
     \<lparr>lk_Market = ''M'', lk_Side = SideBuy, lk_Price = ''2''\<rparr>,
     \<lparr>lk_Market = ''M'', lk_Side = SideSell, lk_Price = ''4''\<rparr>]"

lemma sample_levels_amounts: "active_amounts sample_levels_db"
  by code_simp

theorem RefreshPriceLevels_exact_witness:
  "\<exists>d'. RefreshPriceLevels \<lparr>e_now = 1, e_newid = (\<lambda>n. [])\<rparr> sample_keys sample_levels_db = Inr ((), d') \<and>
     level_exact d' (''M'', SideBuy, 2)"
proof -
  have k: "\<forall>key \<in> set sample_keys. plain_key key" by (simp add: sample_keys_def plain_key_def)
  have v: "key_of (hd sample_keys) = (''M'', SideBuy, 2)" "hd sample_keys \<in> set sample_keys" "\<not> empty_key (hd sample_keys)"
    by code_simp+
  show ?thesis using RefreshPriceLevels_exact [OF sample_levels_amounts k] v by metis
qed

section \<open>Rebuilding\<close>

lemma group_prices_values: "Parse ` set (group_prices rs seen) = (\<lambda>r. Parse (o_Price r)) ` set rs - set seen"
  by (induction rs seen rule: group_prices.induct) auto

lemma row_amount_amount: "(\<And>r. r \<in> set rows \<Longrightarrow> amount (o_RemainingQuantity r)) \<Longrightarrow> is_dec18 (row_amount rows)"
  by (induction rows) (auto simp: row_amount_def intro: is_dec18_add amountD)

lemma Parse_String_row_amount:
  "(\<And>r. r \<in> set rows \<Longrightarrow> amount (o_RemainingQuantity r)) \<Longrightarrow> Parse (String (row_amount rows)) = row_amount rows"
  using round18_exact [OF row_amount_amount] by (simp add: Parse_String)

lemma row_amount_pos:
  assumes "rows \<noteq> []" and "\<And>r. r \<in> set rows \<Longrightarrow> 0 < Parse (o_RemainingQuantity r)"
  shows "0 < row_amount rows"
  using assms
proof (induction rows)
  case (Cons r rows)
  then show ?case by (cases "rows = []") (auto simp: row_amount_def add_pos_pos)
qed simp

lemma aggregate_find:
  assumes a: "active_amounts d"
  shows "case row_find level_key (market, s, x) (aggregatePriceLevels env d market s) of
      None \<Rightarrow> level_group d (market, s, x) = []
    | Some l \<Rightarrow> level_group d (market, s, x) \<noteq> [] \<and> Parse (pl_Quantity l) = row_amount (level_group d (market, s, x)) \<and>
        pl_OrderCount l = int (length (level_group d (market, s, x)))"
proof -
  define rows where "rows = filter (\<lambda>r. o_Market r = market \<and> o_Side r = s \<and>
    Parse minimumActiveOrderQuantity \<le> Parse (o_RemainingQuantity r)) (db_active d)"
  define group where "group = (\<lambda>p. filter (\<lambda>r. Parse (o_Price r) = Parse p) rows)"
  have g: "group p = level_group d (market, s, Parse p)" for p
    unfolding group_def rows_def level_group_def filter_filter
    by (rule filter_cong) (auto simp: order_level_def)
  have good: "amount (o_RemainingQuantity r)" "0 < Parse (o_RemainingQuantity r)" if "r \<in> set (group p)" for r p
    using that a by (auto simp: group_def rows_def active_amounts_def min_quantity)
  let ?row = "\<lambda>p. \<lparr>pl_Market = market, pl_Side = s, pl_Price = p, pl_Quantity = String (row_amount (group p)),
      pl_OrderCount = int (length (group p)), pl_FirstSequenceID = min_sequence (group p), pl_LastUpdatedAt = e_now env\<rparr>"
  have agg: "set (aggregatePriceLevels env d market s) =
      ?row ` {p \<in> set (group_prices rows []). 0 < Parse (String (row_amount (group p))) \<and> 0 < length (group p)}"
    unfolding aggregatePriceLevels_def Let_def rows_def [symmetric] group_def set_map set_filter set_sort by simp
  have quantity: "Parse (String (row_amount (group p))) = row_amount (group p)" for p
    by (rule Parse_String_row_amount) (rule good)
  show ?thesis
  proof (cases "row_find level_key (market, s, x) (aggregatePriceLevels env d market s)")
    case (Some l)
    have l: "l \<in> set (aggregatePriceLevels env d market s)" "level_key l = (market, s, x)"
      using row_find_key [OF Some] by simp_all
    from l(1) obtain p where p: "l = ?row p" "0 < length (group p)" unfolding agg by blast
    with l(2) have "Parse p = x" by (simp add: level_key_def)
    note p = p this
    show ?thesis using Some quantity [of p] g [of p] p by simp
  next
    case None
    have "level_group d (market, s, x) = []"
    proof (rule ccontr)
      assume ne: "level_group d (market, s, x) \<noteq> []"
      then obtain r where r: "r \<in> set rows" "Parse (o_Price r) = x"
        by (auto simp: level_group_def rows_def order_level_def filter_empty_conv)
      then obtain p where p: "p \<in> set (group_prices rows [])" "Parse p = x"
        using group_prices_values [of rows "[]"] by force
      have gp: "group p \<noteq> []" using g [of p] p(2) ne by simp
      then have "0 < row_amount (group p)" by (rule row_amount_pos) (rule good)
      then have "?row p \<in> set (aggregatePriceLevels env d market s)" using agg p gp quantity by auto
      then show False using None p(2) by (force simp: row_find_None level_key_def)
    qed
    then show ?thesis using None by simp
  qed
qed


lemma aggregate_key:
  "l \<in> set (aggregatePriceLevels env d market s) \<Longrightarrow> pl_Market l = market \<and> pl_Side l = s"
  by (auto simp: aggregatePriceLevels_def Let_def)

lemma aggregate_other: "(m, s', x) \<noteq> (market, s, x) \<Longrightarrow> row_find level_key (m, s', x) (aggregatePriceLevels env d market s) = None"
  by (auto simp: row_find_None level_key_def dest: aggregate_key)

lemma RebuildPriceLevels_levels:
  fixes env :: env
  assumes "active_amounts d" and "market = to_upper (trim_space market0)" and "market \<noteq> []"
  defines "d' \<equiv> snd (projr (RebuildPriceLevels env market0 d))"
  shows "RebuildPriceLevels env market0 d = Inr ((), d')" and "db_active d' = db_active d"
    and "s = SideBuy \<or> s = SideSell \<Longrightarrow> level_exact d' (market, s, x)"
    and "l \<in> set (db_levels d') \<Longrightarrow> pl_Market l = market \<Longrightarrow> pl_Side l = SideBuy \<or> pl_Side l = SideSell"
    and "m \<noteq> market \<Longrightarrow> row_find level_key (m, s, x) (db_levels d') = row_find level_key (m, s, x) (db_levels d)"
proof -
  let ?kept = "row_delete (\<lambda>l. pl_Market l = market) (db_levels d)"
  let ?buy = "aggregatePriceLevels env d market SideBuy" let ?sell = "aggregatePriceLevels env d market SideSell"
  have d': "RebuildPriceLevels env market0 d = Inr ((), d')" "d' = d\<lparr>db_levels := ?kept @ ?buy @ ?sell\<rparr>"
    using assms(2,3) unfolding d'_def RebuildPriceLevels_def Let_def by simp_all
  then show "RebuildPriceLevels env market0 d = Inr ((), d')" "db_active d' = db_active d" by simp_all
  have kept: "row_find level_key (market, s, x) ?kept = None" for s x
    by (auto simp: row_find_None row_delete_def level_key_def)
  show "level_exact d' (market, s, x)" if "s = SideBuy \<or> s = SideSell"
  proof -
    have "row_find level_key (market, s, x) (db_levels d') =
        row_find level_key (market, s, x) (aggregatePriceLevels env d market s)"
      using that kept by (auto simp: d'(2) row_find_append aggregate_other split: option.splits)
    moreover have "level_group d' (market, s, x) = level_group d (market, s, x)" by (simp add: d'(2))
    ultimately show ?thesis using aggregate_find [OF assms(1), of market s x env]
      by (auto simp: level_exact_def split: option.splits)
  qed
  show "pl_Side l = SideBuy \<or> pl_Side l = SideSell" if "l \<in> set (db_levels d')" "pl_Market l = market"
    using that by (auto simp: d'(2) row_delete_def dest: aggregate_key)
  have keep: "row_find level_key (m, s, x) (row_delete (\<lambda>l. pl_Market l = market) rows) =
      row_find level_key (m, s, x) rows" if "m \<noteq> market" for rows
    using that by (induction rows) (auto simp: row_delete_def level_key_def)
  show "row_find level_key (m, s, x) (db_levels d') = row_find level_key (m, s, x) (db_levels d)" if "m \<noteq> market"
    using that keep [OF that] by (auto simp: d'(2) row_find_append aggregate_other split: option.splits)
qed

definition active_bookable :: "db \<Rightarrow> string \<Rightarrow> bool" where
  "active_bookable d market \<longleftrightarrow> (\<forall>r \<in> set (db_active d). o_Market r = market \<longrightarrow>
     Parse minimumActiveOrderQuantity \<le> Parse (o_RemainingQuantity r) \<and> o_Side r \<in> {SideBuy, SideSell})"

lemma exact_not_drifted:
  assumes "level_exact d k" and "active_bookable d (fst k)"
  shows "\<not> drifted (active_group d k) (row_find level_key k (db_levels d))"
proof -
  have "active_group d k = level_group d k"
    using assms(2) unfolding active_group_def level_group_def
    by (intro filter_cong refl) (auto simp: active_bookable_def order_level_def)
  then show ?thesis using assms(1) by (auto simp: level_exact_def drifted_def split: option.splits)
qed

text \<open>C13: a rebuilt projection has no drift: when every active order of the market is bookable and bought
  or sold, reconciling the rebuilt levels with the active orders reports nothing; the active orders and the
  levels of the other markets are untouched, and every level of the market is exact: it is there just when
  orders of its side and price are, with their number and the sum of their remainders.\<close>

theorem RebuildPriceLevels_no_drift:
  assumes "active_amounts d" and "active_bookable d (to_upper (trim_space market0))"
    and "RebuildPriceLevels env market0 d = Inr (u, d')"
  shows "ReconcileOrderBookProjection d' market0 = [] \<and> db_active d' = db_active d \<and>
    (\<forall>m s x. m \<noteq> to_upper (trim_space market0) \<longrightarrow>
       row_find level_key (m, s, x) (db_levels d') = row_find level_key (m, s, x) (db_levels d)) \<and>
    (to_upper (trim_space market0) \<noteq> [] \<longrightarrow>
       (\<forall>s x. s = SideBuy \<or> s = SideSell \<longrightarrow> level_exact d' (to_upper (trim_space market0), s, x)))"
proof (cases "to_upper (trim_space market0) = []")
  case True
  then have "d' = d" using assms(3) by (simp add: RebuildPriceLevels_def)
  then show ?thesis using True by (simp add: ReconcileOrderBookProjection_def)
next
  case False
  let ?m = "to_upper (trim_space market0)"
  note r = RebuildPriceLevels_levels [OF assms(1) refl False, where env = env]
  have d': "d' = snd (projr (RebuildPriceLevels env market0 d))" using assms(3) by simp
  have act: "db_active d' = db_active d" using r(2) d' by simp
  then have book: "active_bookable d' ?m" using assms(2) by (simp add: active_bookable_def)
  have side: "pl_Side l = SideBuy \<or> pl_Side l = SideSell" if "l \<in> set (db_levels d')" "pl_Market l = ?m" for l
    using r(4) that unfolding d' [symmetric] .
  have "\<not> drifted (active_group d' k) (row_find level_key k (db_levels d'))"
    if k: "k \<in> set (map order_level (filter (\<lambda>r. o_Market r = ?m) (db_active d')) @
                    map level_key (filter (\<lambda>l. pl_Market l = ?m) (db_levels d')))" for k
  proof -
    have "fst k = ?m" "fst (snd k) = SideBuy \<or> fst (snd k) = SideSell"
      using k book by (auto simp: order_level_def level_key_def active_bookable_def dest: side)
    then have "level_exact d' k" using r(3) [of "fst (snd k)" "snd (snd k)"] unfolding d' [symmetric] by (cases k) auto
    then show ?thesis using exact_not_drifted book \<open>fst k = ?m\<close> by metis
  qed
  then have "ReconcileOrderBookProjection d' market0 = []"
    using False by (auto simp: ReconcileOrderBookProjection_def Let_def filter_empty_conv)
  then show ?thesis using False act r(3,5) unfolding d' [symmetric] by blast
qed

theorem RebuildPriceLevels_no_drift_witness:
  "\<exists>d'. RebuildPriceLevels \<lparr>e_now = 1, e_newid = (\<lambda>n. [])\<rparr> ''m'' sample_levels_db = Inr ((), d') \<and>
     ReconcileOrderBookProjection d' ''M'' = [] \<and> ReconcileOrderBookProjection sample_levels_db ''M'' \<noteq> []"
proof -
  let ?e = "\<lparr>e_now = 1, e_newid = (\<lambda>n. [])\<rparr>"
  have m: "to_upper (trim_space ''m'') = ''M''" "to_upper (trim_space ''M'') = ''M''" by code_simp+
  have b: "active_bookable sample_levels_db ''M''" by code_simp
  have drift: "ReconcileOrderBookProjection sample_levels_db ''M'' \<noteq> []" by code_simp
  have ne: "''M'' \<noteq> []" by simp
  obtain d' where d': "RebuildPriceLevels ?e ''M'' sample_levels_db = Inr ((), d')"
    using RebuildPriceLevels_levels(1) [OF sample_levels_amounts m(2) [symmetric] ne] by blast
  have "RebuildPriceLevels ?e ''m'' sample_levels_db = RebuildPriceLevels ?e ''M'' sample_levels_db"
    by (simp only: RebuildPriceLevels_def m)
  then show ?thesis
    using RebuildPriceLevels_no_drift [OF sample_levels_amounts _ d'] b d' drift m by auto
qed

end
