(* ===== verification/Candles.thy ===== *)
theory Candles
  imports OrderStore
begin

text \<open>
  The candles of \<^verbatim>\<open>exchange_repository.go\<close>: every trade updates one candle per supported interval.
\<close>

definition time_truncate :: "time \<Rightarrow> duration \<Rightarrow> time" where
  "time_truncate t i = (if i \<le> 0 then t else t - t mod i)"

definition candle_key :: "candle \<Rightarrow> string \<times> string \<times> time" where
  "candle_key c = (cd_Market c, cd_Interval c, cd_OpenTime c)"

definition new_candle :: "trade \<Rightarrow> interval \<Rightarrow> candle" where
  "new_candle item iv =
     (let openTime = time_truncate (t_CreatedAt item) (iv_Duration iv) in
      \<lparr>cd_Market = t_Market item, cd_Interval = iv_Key iv, cd_OpenTime = openTime,
       cd_CloseTime = openTime + iv_Duration iv, cd_Open = t_Price item, cd_High = t_Price item,
       cd_Low = t_Price item, cd_Close = t_Price item, cd_VolumeBase = t_Quantity item,
       cd_VolumeQuote = t_QuoteQuantity item, cd_TradeCount = 1, cd_LastTradeAt = t_CreatedAt item\<rparr>)"

definition extend_candle :: "trade \<Rightarrow> candle \<Rightarrow> candle" where
  "extend_candle item model =
     (let model = (if Cmp (t_Price item) (cd_High model) > 0 then model\<lparr>cd_High := t_Price item\<rparr> else model);
          model = (if Cmp (t_Price item) (cd_Low model) < 0 then model\<lparr>cd_Low := t_Price item\<rparr> else model);
          model = (if cd_LastTradeAt model \<le> t_CreatedAt item
                   then model\<lparr>cd_Close := t_Price item, cd_LastTradeAt := t_CreatedAt item\<rparr> else model)
      in model\<lparr>cd_VolumeBase := Add (cd_VolumeBase model) (t_Quantity item),
               cd_VolumeQuote := Add (cd_VolumeQuote model) (t_QuoteQuantity item),
               cd_TradeCount := cd_TradeCount model + 1\<rparr>)"

definition updateCandle :: "trade \<Rightarrow> interval \<Rightarrow> unit ltx" where
  "updateCandle item iv d =
     (let key = (t_Market item, iv_Key iv, time_truncate (t_CreatedAt item) (iv_Duration iv)) in
      case row_find candle_key key (db_candles d) of
        None \<Rightarrow> Inr ((), d\<lparr>db_candles := db_candles d @ [new_candle item iv]\<rparr>)
      | Some model \<Rightarrow> Inr ((), d\<lparr>db_candles := row_save candle_key (extend_candle item model) (db_candles d)\<rparr>))"

definition UpdateCandles :: "trade list \<Rightarrow> unit ltx" where
  "UpdateCandles items = tx_each (\<lambda>item. tx_each (updateCandle item) SupportedIntervals) items"

definition modelToCandle :: "candle \<Rightarrow> candle" where
  "modelToCandle model = model"

definition ListCandles :: "db \<Rightarrow> string \<Rightarrow> string \<Rightarrow> int \<Rightarrow> candle list" where
  "ListCandles d market interval limit0 =
     map modelToCandle (rev (take (limit_or limit0 1000 500)
       (sort_key (\<lambda>c. - cd_OpenTime c)
         (filter (\<lambda>c. col_eq (cd_Market c) market \<and> col_eq (cd_Interval c) interval) (db_candles d)))))"

section \<open>What a candle says\<close>

text \<open>
  The specification: a candle is built from the trades of its window; its volumes are their sums, its
  extremes the largest and smallest price, and its close the price of a latest trade.
\<close>

definition candle_of :: "trade list \<Rightarrow> candle \<Rightarrow> bool" where
  "candle_of ts c \<longleftrightarrow> ts \<noteq> [] \<and> cd_Open c = t_Price (hd ts) \<and>
     cd_TradeCount c = int (length ts) \<and>
     Parse (cd_VolumeBase c) = sum_list (map (\<lambda>t. Parse (t_Quantity t)) ts) \<and> amount (cd_VolumeBase c) \<and>
     Parse (cd_VolumeQuote c) = sum_list (map (\<lambda>t. Parse (t_QuoteQuantity t)) ts) \<and> amount (cd_VolumeQuote c) \<and>
     (\<forall>t \<in> set ts. Parse (cd_Low c) \<le> Parse (t_Price t) \<and> Parse (t_Price t) \<le> Parse (cd_High c) \<and>
        t_CreatedAt t \<le> cd_LastTradeAt c) \<and>
     (\<exists>t \<in> set ts. cd_High c = t_Price t) \<and> (\<exists>t \<in> set ts. cd_Low c = t_Price t) \<and>
     (\<exists>t \<in> set ts. cd_Close c = t_Price t \<and> t_CreatedAt t = cd_LastTradeAt c)"

definition trade_amounts :: "trade \<Rightarrow> bool" where
  "trade_amounts t \<longleftrightarrow> amount (t_Quantity t) \<and> amount (t_QuoteQuantity t)"

lemma candle_of_new: "trade_amounts t \<Longrightarrow> candle_of [t] (new_candle t iv)"
  by (simp add: candle_of_def new_candle_def Let_def trade_amounts_def)

lemma extend_candle_fields:
  "cd_Market (extend_candle t c) = cd_Market c" "cd_Interval (extend_candle t c) = cd_Interval c"
  "cd_OpenTime (extend_candle t c) = cd_OpenTime c" "cd_CloseTime (extend_candle t c) = cd_CloseTime c"
  "cd_Open (extend_candle t c) = cd_Open c" "cd_TradeCount (extend_candle t c) = cd_TradeCount c + 1"
  "cd_VolumeBase (extend_candle t c) = Add (cd_VolumeBase c) (t_Quantity t)"
  "cd_VolumeQuote (extend_candle t c) = Add (cd_VolumeQuote c) (t_QuoteQuantity t)"
  "cd_High (extend_candle t c) = (if Parse (cd_High c) < Parse (t_Price t) then t_Price t else cd_High c)"
  "cd_Low (extend_candle t c) = (if Parse (t_Price t) < Parse (cd_Low c) then t_Price t else cd_Low c)"
  "cd_Close (extend_candle t c) = (if cd_LastTradeAt c \<le> t_CreatedAt t then t_Price t else cd_Close c)"
  "cd_LastTradeAt (extend_candle t c) = max (cd_LastTradeAt c) (t_CreatedAt t)"
  by (simp_all add: extend_candle_def Let_def dec_simps)

lemma candle_of_extend:
  assumes c: "candle_of ts c" and t: "trade_amounts t"
  shows "candle_of (ts @ [t]) (extend_candle t c)"
proof -
  have ne: "ts \<noteq> []" and hd: "hd (ts @ [t]) = hd ts" using c by (auto simp: candle_of_def)
  have vol: "Parse (Add (cd_VolumeBase c) (t_Quantity t)) = Parse (cd_VolumeBase c) + Parse (t_Quantity t)"
    "Parse (Add (cd_VolumeQuote c) (t_QuoteQuantity t)) = Parse (cd_VolumeQuote c) + Parse (t_QuoteQuantity t)"
    using c t by (auto simp: candle_of_def trade_amounts_def Parse_Add)
  have bounds: "\<forall>x \<in> set (ts @ [t]). Parse (cd_Low (extend_candle t c)) \<le> Parse (t_Price x) \<and>
      Parse (t_Price x) \<le> Parse (cd_High (extend_candle t c)) \<and> t_CreatedAt x \<le> cd_LastTradeAt (extend_candle t c)"
    using c by (fastforce simp: candle_of_def extend_candle_fields)
  have high: "\<exists>x \<in> set (ts @ [t]). cd_High (extend_candle t c) = t_Price x"
    and low: "\<exists>x \<in> set (ts @ [t]). cd_Low (extend_candle t c) = t_Price x"
    and cls: "\<exists>x \<in> set (ts @ [t]). cd_Close (extend_candle t c) = t_Price x \<and>
      t_CreatedAt x = cd_LastTradeAt (extend_candle t c)"
    using c by (auto simp: candle_of_def extend_candle_fields)
  show ?thesis
    unfolding candle_of_def using bounds high low cls c vol hd ne
    by (simp add: candle_of_def extend_candle_fields)
qed


section \<open>All candles\<close>

definition window :: "interval \<Rightarrow> string \<Rightarrow> time \<Rightarrow> trade list \<Rightarrow> trade list" where
  "window iv m opened ts =
     filter (\<lambda>t. t_Market t = m \<and> time_truncate (t_CreatedAt t) (iv_Duration iv) = opened) ts"

definition candle_matches :: "trade list \<Rightarrow> candle option \<Rightarrow> bool" where
  "candle_matches ts c = (case c of None \<Rightarrow> ts = [] | Some x \<Rightarrow> candle_of ts x)"

definition candles_of :: "(string \<Rightarrow> trade list) \<Rightarrow> db \<Rightarrow> bool" where
  "candles_of f d \<longleftrightarrow> (\<forall>iv \<in> set SupportedIntervals. \<forall>m opened.
     candle_matches (window iv m opened (f (iv_Key iv))) (row_find candle_key (m, iv_Key iv, opened) (db_candles d)))"

lemma updateCandle_total: "\<exists>d'. updateCandle t iv d = Inr ((), d')"
  by (auto simp: updateCandle_def Let_def split: option.splits)

lemma updateCandle_candles:
  assumes u: "updateCandle t iv d = Inr (u, d')"
  shows "row_find candle_key k (db_candles d') =
    (if k = (t_Market t, iv_Key iv, time_truncate (t_CreatedAt t) (iv_Duration iv))
     then Some (case row_find candle_key k (db_candles d) of None \<Rightarrow> new_candle t iv | Some c \<Rightarrow> extend_candle t c)
     else row_find candle_key k (db_candles d))"
proof -
  let ?k = "(t_Market t, iv_Key iv, time_truncate (t_CreatedAt t) (iv_Duration iv))"
  have new: "candle_key (new_candle t iv) = ?k" by (simp add: candle_key_def new_candle_def Let_def)
  show ?thesis
  proof (cases "row_find candle_key ?k (db_candles d)")
    case None
    then have "db_candles d' = db_candles d @ [new_candle t iv]"
      using u by (auto simp: updateCandle_def Let_def)
    then show ?thesis using None new by (auto simp: row_find_append split: option.splits)
  next
    case (Some c)
    then have "db_candles d' = row_save candle_key (extend_candle t c) (db_candles d)"
      using u by (auto simp: updateCandle_def Let_def)
    moreover have "candle_key (extend_candle t c) = ?k"
      using row_find_key [OF Some] by (simp add: candle_key_def extend_candle_fields)
    ultimately show ?thesis using Some by (simp add: row_find_save)
  qed
qed

lemma keys_distinct:
  "iv \<in> set SupportedIntervals \<Longrightarrow> jv \<in> set SupportedIntervals \<Longrightarrow> iv_Key iv = iv_Key jv \<Longrightarrow> iv = jv"
  by (auto simp: SupportedIntervals_def)

lemma candles_of_update:
  assumes u: "updateCandle t iv d = Inr (u, d')" and c: "candles_of f d" and t: "trade_amounts t"
    and iv: "iv \<in> set SupportedIntervals"
  shows "candles_of (f(iv_Key iv := f (iv_Key iv) @ [t])) d'"
proof -
  have "candle_matches (window jv m opened ((f(iv_Key iv := f (iv_Key iv) @ [t])) (iv_Key jv)))
      (row_find candle_key (m, iv_Key jv, opened) (db_candles d'))"
    if jv: "jv \<in> set SupportedIntervals" for jv m opened
  proof -
    have old: "candle_matches (window jv m opened (f (iv_Key jv))) (row_find candle_key (m, iv_Key jv, opened) (db_candles d))"
      using c jv by (simp add: candles_of_def)
    show ?thesis
    proof (cases "(m, iv_Key jv, opened) = (t_Market t, iv_Key iv, time_truncate (t_CreatedAt t) (iv_Duration iv))")
      case True
      then have "jv = iv" using keys_distinct [OF jv iv] by simp
      then show ?thesis
        using True old candle_of_new [OF t] candle_of_extend [OF _ t]
        by (auto simp: updateCandle_candles [OF u] window_def candle_matches_def split: option.splits)
    next
      case False
      then have "window jv m opened ((f(iv_Key iv := f (iv_Key iv) @ [t])) (iv_Key jv)) = window jv m opened (f (iv_Key jv))"
        using keys_distinct [OF jv iv] by (auto simp: window_def)
      then show ?thesis using False old by (auto simp: updateCandle_candles [OF u])
    qed
  qed
  then show ?thesis by (simp add: candles_of_def)
qed

lemma candles_of_intervals:
  assumes "tx_each (updateCandle t) ivs d = Inr (u, d')" and "candles_of f d" and "trade_amounts t"
    and "set ivs \<subseteq> set SupportedIntervals" and "distinct (map iv_Key ivs)"
  shows "candles_of (\<lambda>k. if k \<in> iv_Key ` set ivs then f k @ [t] else f k) d'"
  using assms
proof (induction ivs arbitrary: d f)
  case Nil
  then show ?case by simp
next
  case (Cons iv ivs)
  obtain d1 where 1: "updateCandle t iv d = Inr ((), d1)" and 2: "tx_each (updateCandle t) ivs d1 = Inr (u, d')"
    using Cons.prems(1) by (auto simp: tx_bind_Inr_iff)
  have c1: "candles_of (f(iv_Key iv := f (iv_Key iv) @ [t])) d1"
    using candles_of_update [OF 1 Cons.prems(2,3)] Cons.prems(4) by simp
  have "candles_of (\<lambda>k. if k \<in> iv_Key ` set ivs then (f(iv_Key iv := f (iv_Key iv) @ [t])) k @ [t]
      else (f(iv_Key iv := f (iv_Key iv) @ [t])) k) d'"
    using Cons.IH [OF 2 c1] Cons.prems(3,4,5) by simp
  moreover have "(\<lambda>k. if k \<in> iv_Key ` set ivs then (f(iv_Key iv := f (iv_Key iv) @ [t])) k @ [t]
      else (f(iv_Key iv := f (iv_Key iv) @ [t])) k) = (\<lambda>k. if k \<in> iv_Key ` set (iv # ivs) then f k @ [t] else f k)"
    using Cons.prems(5) by (auto simp: fun_eq_iff)
  ultimately show ?case by metis
qed

lemma candles_of_trade:
  assumes "tx_each (updateCandle t) SupportedIntervals d = Inr (u, d')" and "candles_of (\<lambda>k. ts) d" and "trade_amounts t"
  shows "candles_of (\<lambda>k. ts @ [t]) d'"
  using candles_of_intervals [OF assms] by (simp add: candles_of_def SupportedIntervals_def)

lemma UpdateCandles_candles_of:
  assumes "UpdateCandles items d = Inr (u, d')" and "candles_of (\<lambda>k. ts) d" and "list_all trade_amounts items"
  shows "candles_of (\<lambda>k. ts @ items) d'"
  using assms unfolding UpdateCandles_def
proof (induction items arbitrary: d ts)
  case Nil
  then show ?case by simp
next
  case (Cons t items)
  obtain d1 where 1: "tx_each (updateCandle t) SupportedIntervals d = Inr ((), d1)"
    and 2: "tx_each (\<lambda>item. tx_each (updateCandle item) SupportedIntervals) items d1 = Inr (u, d')"
    using Cons.prems(1) by (auto simp: tx_bind_Inr_iff)
  have "candles_of (\<lambda>k. ts @ [t]) d1" using candles_of_trade [OF 1 Cons.prems(2)] Cons.prems(3) by simp
  from Cons.IH [OF 2 this] show ?case using Cons.prems(3) by simp
qed

lemma tx_each_total: "(\<And>x d. \<exists>d'. f x d = Inr ((), d')) \<Longrightarrow> \<exists>d'. tx_each f xs d = Inr ((), d')"
proof (induction xs arbitrary: d)
  case Nil
  then show ?case by (simp add: tx_return_def)
next
  case (Cons x xs)
  obtain d1 where "f x d = Inr ((), d1)" using Cons.prems by blast
  then show ?case using Cons.IH [OF Cons.prems, of d1] by (simp add: tx_bind_def)
qed

text \<open>C12: the candles say what happened: recording trades in any order never fails, and after it the
  candle of every market, interval and window exists exactly when the window has a trade, opens with
  the first recorded price, has the true high, low, volumes and count, and closes with a latest price.\<close>

theorem UpdateCandles_exact:
  assumes "db_candles d = []" and "list_all trade_amounts items" and "iv \<in> set SupportedIntervals"
  shows "\<exists>d'. UpdateCandles items d = Inr ((), d') \<and>
    (let ts = window iv m opened items in
      case row_find candle_key (m, iv_Key iv, opened) (db_candles d') of
        None \<Rightarrow> ts = []
      | Some c \<Rightarrow> ts \<noteq> [] \<and> cd_Open c = t_Price (hd ts) \<and> cd_TradeCount c = int (length ts) \<and>
          Parse (cd_VolumeBase c) = sum_list (map (\<lambda>t. Parse (t_Quantity t)) ts) \<and>
          Parse (cd_VolumeQuote c) = sum_list (map (\<lambda>t. Parse (t_QuoteQuantity t)) ts) \<and>
          Parse (cd_High c) = Max (set (map (\<lambda>t. Parse (t_Price t)) ts)) \<and>
          Parse (cd_Low c) = Lattices_Big.Min (set (map (\<lambda>t. Parse (t_Price t)) ts)) \<and>
          (\<exists>t \<in> set ts. cd_Close c = t_Price t \<and> (\<forall>t' \<in> set ts. t_CreatedAt t' \<le> t_CreatedAt t)))"
proof -
  have "\<exists>d'. tx_each (updateCandle item) SupportedIntervals x = Inr ((), d')" for item x
    by (rule tx_each_total) (rule updateCandle_total)
  then have "\<exists>d'. UpdateCandles items d = Inr ((), d')"
    unfolding UpdateCandles_def by (rule tx_each_total)
  then obtain d' where d': "UpdateCandles items d = Inr ((), d')" by blast
  have "candles_of (\<lambda>k. []) d"
    using assms(1) by (simp add: candles_of_def candle_matches_def window_def)
  from UpdateCandles_candles_of [OF d' this assms(2)]
  have m: "candle_matches (window iv m opened items) (row_find candle_key (m, iv_Key iv, opened) (db_candles d'))"
    using assms(3) by (simp add: candles_of_def)
  have high: "Parse (cd_High c) = Max (set (map (\<lambda>t. Parse (t_Price t)) ts))"
    and low: "Parse (cd_Low c) = Lattices_Big.Min (set (map (\<lambda>t. Parse (t_Price t)) ts))" if "candle_of ts c" for ts c
    using that by (auto simp: candle_of_def intro!: Max_eqI [symmetric] Lattices_Big.Min_eqI [symmetric])
  show ?thesis
  proof (cases "row_find candle_key (m, iv_Key iv, opened) (db_candles d')")
    case None
    then show ?thesis using d' m by (simp add: candle_matches_def)
  next
    case (Some c)
    then have c: "candle_of (window iv m opened items) c" using m by (simp add: candle_matches_def)
    have "\<exists>t \<in> set (window iv m opened items). cd_Close c = t_Price t \<and>
        (\<forall>t' \<in> set (window iv m opened items). t_CreatedAt t' \<le> t_CreatedAt t)"
      using c unfolding candle_of_def by auto
    then show ?thesis
      using Some d' c high [OF c] low [OF c] by (simp add: candle_of_def)
  qed
qed

definition candle_trades :: "trade list" where
  "candle_trades =
     [\<lparr>t_ID = ''t1'', t_Market = ''M'', t_BaseAsset = ''B'', t_QuoteAsset = ''Q'', t_MakerOrderID = ''a'',
       t_TakerOrderID = ''b'', t_MakerUserID = ''u'', t_TakerUserID = ''v'', t_TakerSide = SideBuy,
       t_Price = ''2'', t_Quantity = ''1'', t_QuoteQuantity = ''2'', t_CreatedAt = 5\<rparr>]"

theorem UpdateCandles_exact_witness:
  "\<exists>d'. UpdateCandles candle_trades empty_db = Inr ((), d') \<and>
     row_find candle_key (''M'', ''1m'', 0) (db_candles d') \<noteq> None"
proof -
  have a: "list_all trade_amounts candle_trades" by code_simp
  have i: "\<lparr>iv_Key = ''1m'', iv_Duration = minute\<rparr> \<in> set SupportedIntervals" by (simp add: SupportedIntervals_def)
  have w: "window \<lparr>iv_Key = ''1m'', iv_Duration = minute\<rparr> ''M'' 0 candle_trades \<noteq> []" by code_simp
  have e: "db_candles empty_db = []" by (simp add: empty_db_def)
  show ?thesis
    using UpdateCandles_exact [OF e a i, of "''M''" 0] w by (auto simp: Let_def split: option.splits)
qed

end
