(* ===== verification/WorkQueue.thy ===== *)
theory WorkQueue
  imports Database
begin

text \<open>
  The three work queues of the store: match jobs (\<^verbatim>\<open>match_job_repository.go\<close>), outbox events
  (\<^verbatim>\<open>outbox_repository.go\<close>) and, in \<^verbatim>\<open>CommandLog\<close>, the command log. A worker claims the oldest
  rows that are pending and due, or whose lock is older than the lock time; a claimed row is
  completed, or it fails and is retried until it has been attempted too often.

  The locale \<open>work_queue\<close> is the contract the three share: what a lock does to a row. Its lemmas
  give what a claim returns, that a lock excludes other workers while it lives, and that
  repeated claims hand out every ready row once, oldest first. \<^verbatim>\<open>SKIP LOCKED\<close> lets a claim pass
  over rows that another open transaction holds; transactions are modelled one after the other,
  so there are none.
\<close>

section \<open>Claiming rows\<close>

definition second :: duration where
  "second = 1000000000"

definition claim_rows ::
  "('r \<Rightarrow> string) \<Rightarrow> ('r \<Rightarrow> bool) \<Rightarrow> ('r \<Rightarrow> 'o::linorder) \<Rightarrow> ('r \<Rightarrow> 'r) \<Rightarrow> nat \<Rightarrow> 'r list \<Rightarrow> 'r list \<times> 'r list" where
  "claim_rows key ready ord lock limit rows =
     (let picked = map lock (take limit (sort_key ord (filter ready rows)))
      in (picked, fold (row_save key) picked rows))"

fun claim_repeat ::
  "nat \<Rightarrow> ('r list \<Rightarrow> 'r list \<times> 'r list) \<Rightarrow> 'r list \<Rightarrow> 'r list \<times> 'r list" where
  "claim_repeat 0 claim rows = ([], rows)"
| "claim_repeat (Suc n) claim rows =
     (let (xs, rows1) = claim rows; (ys, rows2) = claim_repeat n claim rows1 in (xs @ ys, rows2))"

lemma row_save_map:
  assumes "distinct (map key rows)" and "key r \<in> key ` set rows"
  shows "row_save key r rows = map (\<lambda>x. if key x = key r then r else x) rows"
  using assms
proof (induction rows)
  case (Cons x rows)
  show ?case
  proof (cases "key x = key r")
    case True
    then have "key r \<notin> key ` set rows" using Cons.prems(1) by auto
    then have "map (\<lambda>y. if key y = key r then r else y) rows = rows"
      by (intro map_idI) (metis imageI)
    then show ?thesis using True by simp
  next
    case False
    then show ?thesis using Cons by auto
  qed
qed simp

lemma save_all_map:
  assumes "distinct (map key rows)" and "\<And>r. key (f r) = key r" and "set ps \<subseteq> set rows" and "distinct ps"
  shows "fold (row_save key) (map f ps) rows = map (\<lambda>r. if r \<in> set ps then f r else r) rows"
  using assms(1,3,4)
proof (induction ps rule: rev_induct)
  case (snoc p ps)
  let ?g = "\<lambda>r. if r \<in> set ps then f r else r"
  have k: "key (?g r) = key r" for r using assms(2) by simp
  have inj: "inj_on key (set rows)" using snoc.prems(1) by (simp add: distinct_map)
  have p: "p \<in> set rows" "p \<notin> set ps" using snoc.prems by auto
  have IH: "fold (row_save key) (map f ps) rows = map ?g rows" using snoc by simp
  have keys: "map key (map ?g rows) = map key rows" using k by simp
  have d: "distinct (map key (map ?g rows))" unfolding keys by (rule snoc.prems(1))
  have "key (f p) \<in> set (map key (map ?g rows))" unfolding keys using p(1) assms(2) [of p] by simp
  then have m: "key (f p) \<in> key ` set (map ?g rows)" by (simp only: set_map)
  have eq: "(if key (?g r) = key (f p) then f p else ?g r) = (if r \<in> set (ps @ [p]) then f r else r)"
    if r: "r \<in> set rows" for r
  proof (cases "r = p")
    case True
    then show ?thesis using k [of p] assms(2) [of p] by simp
  next
    case False
    then have "key r \<noteq> key p" using inj r p(1) by (metis inj_onD)
    then show ?thesis using False k [of r] assms(2) [of p] by simp
  qed
  then show ?case
    unfolding fold_append map_append o_def IH
    by (simp add: row_save_map [OF d m] del: map_map) (simp add: eq)
qed simp

section \<open>The contract of a queue\<close>

locale work_queue =
  fixes key :: "'r \<Rightarrow> string"
    and pending :: "'r \<Rightarrow> bool"
    and processing :: "'r \<Rightarrow> bool"
    and available_at :: "'r \<Rightarrow> time"
    and locked_at :: "'r \<Rightarrow> time"
    and attempts :: "'r \<Rightarrow> int"
    and lock :: "string \<Rightarrow> time \<Rightarrow> 'r \<Rightarrow> 'r"
    and order_key :: "'r \<Rightarrow> 'o::linorder"
  assumes lock_key: "key (lock w now r) = key r"
    and lock_state: "processing (lock w now r)" "\<not> pending (lock w now r)"
    and lock_time: "locked_at (lock w now r) = now"
    and lock_attempts: "attempts (lock w now r) = attempts r + 1"
begin

definition due :: "time \<Rightarrow> duration \<Rightarrow> 'r \<Rightarrow> bool" where
  "due now ttl r \<longleftrightarrow> pending r \<and> available_at r \<le> now \<or> processing r \<and> locked_at r \<le> now - ttl"

abbreviation claim :: "string \<Rightarrow> nat \<Rightarrow> time \<Rightarrow> duration \<Rightarrow> 'r list \<Rightarrow> 'r list \<times> 'r list" where
  "claim w limit now ttl rows \<equiv> claim_rows key (due now ttl) order_key (lock w now) limit rows"

lemma locked_not_due: "now' - ttl < now \<Longrightarrow> \<not> due now' ttl (lock w now r)"
  by (simp add: due_def lock_state lock_time)

lemma claim_result:
  fixes limit now ttl
  assumes "distinct (map key rows)"
  defines "picked \<equiv> take limit (sort_key order_key (filter (due now ttl) rows))"
  shows "claim w limit now ttl rows =
     (map (lock w now) picked, map (\<lambda>r. if r \<in> set picked then lock w now r else r) rows)"
proof -
  have d: "distinct rows" using assms(1) by (simp add: distinct_map)
  have "set picked \<subseteq> set (sort_key order_key (filter (due now ttl) rows))"
    unfolding picked_def by (rule set_take_subset)
  then have "set picked \<subseteq> set rows" by auto
  moreover have "distinct picked" using d by (simp add: picked_def)
  ultimately have "fold (row_save key) (map (lock w now) picked) rows =
      map (\<lambda>r. if r \<in> set picked then lock w now r else r) rows"
    using save_all_map [where key = key and f = "lock w now" and ps = picked and rows = rows] assms(1) lock_key
    by metis
  then show ?thesis unfolding claim_rows_def Let_def picked_def [symmetric] by simp
qed

lemma claim_keys:
  assumes "distinct (map key rows)"
  shows "map key (snd (claim w limit now ttl rows)) = map key rows"
  unfolding claim_result [OF assms] by (auto simp: lock_key)

text \<open>What is due after a claim is what was due before and was not claimed, in the same order.\<close>

lemma claim_rest:
  assumes d: "distinct (map key rows)" and ttl: "0 < ttl"
  shows "sort_key order_key (filter (due now ttl) (snd (claim w limit now ttl rows))) =
    drop limit (sort_key order_key (filter (due now ttl) rows))"
proof -
  define s where "s = sort_key order_key (filter (due now ttl) rows)"
  let ?p = "take limit s"
  let ?f = "\<lambda>r. if r \<in> set ?p then lock w now r else r"
  have "\<not> due now ttl (lock w now r)" for r using locked_not_due ttl by simp
  then have "filter (due now ttl) (map ?f rows) = filter (\<lambda>r. due now ttl r \<and> r \<notin> set ?p) rows"
    by (induction rows) auto
  then have "sort_key order_key (filter (due now ttl) (snd (claim w limit now ttl rows))) =
      sort_key order_key (filter (\<lambda>r. r \<notin> set ?p) (filter (due now ttl) rows))"
    unfolding claim_result [OF d] s_def by (simp add: conj_commute)
  also have "\<dots> = filter (\<lambda>r. r \<notin> set ?p) s"
    unfolding s_def by (simp add: filter_sort)
  also have "\<dots> = drop limit s"
  proof -
    have ds: "distinct s" using d by (simp add: s_def distinct_map)
    then have "set (take limit s) \<inter> set (drop limit s) = {}"
      by (metis append_take_drop_id distinct_append)
    then have "filter (\<lambda>r. r \<notin> set ?p) (drop limit s) = drop limit s"
      by (auto simp: filter_id_conv)
    moreover have "filter (\<lambda>r. r \<notin> set ?p) (take limit s) = []" by (simp add: filter_empty_conv)
    ultimately have "filter (\<lambda>r. r \<notin> set ?p) (take limit s @ drop limit s) = drop limit s"
      unfolding filter_append by simp
    then show ?thesis by simp
  qed
  finally show ?thesis unfolding s_def .
qed

text \<open>Repeating a claim hands out the due rows in order; what it has handed out stays locked.\<close>

lemma claim_repeat_out:
  assumes "distinct (map key rows)" and "0 < ttl"
  shows "map key (fst (claim_repeat n (claim w limit now ttl) rows)) =
    map key (take (n * limit) (sort_key order_key (filter (due now ttl) rows)))"
  using assms(1)
proof (induction n arbitrary: rows)
  case (Suc n)
  let ?s = "sort_key order_key (filter (due now ttl) rows)"
  let ?rows1 = "snd (claim w limit now ttl rows)"
  have d1: "distinct (map key ?rows1)" using claim_keys [OF Suc.prems] Suc.prems by simp
  have out: "map key (fst (claim w limit now ttl rows)) = map key (take limit ?s)"
    unfolding claim_result [OF Suc.prems] by (simp add: lock_key)
  have "map key (fst (claim_repeat (Suc n) (claim w limit now ttl) rows)) =
      map key (take limit ?s) @ map key (take (n * limit) (drop limit ?s))"
    using Suc.IH [OF d1] out claim_rest [OF Suc.prems assms(2), of now w limit]
    by (simp add: case_prod_unfold Let_def)
  also have "\<dots> = map key (take (Suc n * limit) ?s)"
    by (simp add: take_add add.commute)
  finally show ?case .
qed simp

end

end
