(* ===== verification/Registries.thy ===== *)
theory Registries
  imports Database
begin

text \<open>
  The registries of the exchange: markets (\<^verbatim>\<open>internal/core/market\<close>), assets with their
  deployments (\<^verbatim>\<open>internal/core/asset\<close>) and chains (\<^verbatim>\<open>internal/core/chain\<close>). A registry is a Go map
  from a key to a value; it is the list of its values, with distinct keys, in the order in which
  the map is ranged over. Go leaves that order open; a registry built here has insertion order.
  A chain key is a string type and stays a string.
\<close>

section \<open>Markets\<close>

record market =
  m_Symbol :: string
  m_BaseAsset :: string
  m_QuoteAsset :: string
  m_ChainKeys :: "string list"
  m_Enabled :: bool

type_synonym market_registry = "market list"

definition market_NewRegistry :: "market list \<Rightarrow> market_registry" where
  "market_NewRegistry markets = fold (row_save m_Symbol) markets []"

definition market_Get :: "market_registry \<Rightarrow> string \<Rightarrow> market option" where
  "market_Get r symbol = row_find m_Symbol symbol r"

definition market_All :: "market_registry \<Rightarrow> market list" where
  "market_All r = r"

section \<open>Chains\<close>

type_synonym chain_key = string

definition ChainKeyBinanceSmartChain :: chain_key where "ChainKeyBinanceSmartChain = ''binance_smart_chain''"
definition ChainKeyEthereum :: chain_key where "ChainKeyEthereum = ''ethereum''"
definition ChainKeyChiliz :: chain_key where "ChainKeyChiliz = ''chiliz''"
definition ChainKeySolana :: chain_key where "ChainKeySolana = ''solana''"
definition ChainKeyBase :: chain_key where "ChainKeyBase = ''base''"
definition ChainKeyAvalanche :: chain_key where "ChainKeyAvalanche = ''avalanche''"
definition ChainKeyUnichain :: chain_key where "ChainKeyUnichain = ''unichain''"
definition ChainKeyArbitrum :: chain_key where "ChainKeyArbitrum = ''arbitrum''"
definition ChainKeyOptimism :: chain_key where "ChainKeyOptimism = ''optimism''"
definition ChainKeyPolygon :: chain_key where "ChainKeyPolygon = ''polygon''"

datatype chain_kind = KindEVM | KindSolana | KindBitcoin | KindOther string

record chain =
  ch_Key :: chain_key
  ch_Name :: string
  ch_Kind :: chain_kind
  ch_ChainID :: "int option"
  ch_Network :: string
  ch_NativeAsset :: string
  ch_RPCURLs :: "string list"
  ch_ExplorerURL :: string
  ch_Confirmations :: int
  ch_Enabled :: bool
  ch_Multicall3Address :: string

type_synonym chain_registry = "chain list"

definition chain_NewRegistry :: "chain list \<Rightarrow> chain_registry" where
  "chain_NewRegistry items = fold (row_save ch_Key) items []"

definition chain_Get :: "chain_registry \<Rightarrow> string \<Rightarrow> chain option" where
  "chain_Get r key = row_find ch_Key key r"

definition chain_All :: "chain_registry \<Rightarrow> chain list" where
  "chain_All r = r"

section \<open>Assets\<close>

record deployment =
  dp_ChainKey :: chain_key
  dp_Address :: string
  dp_Name :: string
  dp_Symbol :: string
  dp_Mint :: string
  dp_Decimals :: int
  dp_Enabled :: bool
  dp_Native :: bool
  dp_IconURL :: string
  dp_ChainLogoURL :: string

definition Identifier :: "deployment \<Rightarrow> string" where
  "Identifier d = (if dp_Mint d \<noteq> [] then dp_Mint d else dp_Address d)"

definition deployment_AssetID :: "deployment \<Rightarrow> string" where
  "deployment_AssetID d =
     (if dp_ChainKey d = ChainKeySolana then (if dp_Mint d \<noteq> [] then dp_Mint d else dp_Address d)
      else (if dp_Address d \<noteq> [] then dp_Address d else dp_Mint d))"

datatype deployment_error = MintRequired | AddressRequired

definition Deployment_Validate :: "deployment \<Rightarrow> deployment_error + unit" where
  "Deployment_Validate d =
     (if dp_Native d then Inr ()
      else if dp_ChainKey d = ChainKeySolana
        then (if dp_Mint d = [] then Inl MintRequired else Inr ())
      else (if dp_Address d = [] then Inl AddressRequired else Inr ()))"

record asset =
  a_Symbol :: string
  a_Name :: string
  a_Type :: string
  a_Decimals :: int
  a_IconURL :: string
  a_Deployments :: "deployment list"

type_synonym asset_registry = "asset list"

definition asset_NewRegistry :: "asset list \<Rightarrow> asset_registry" where
  "asset_NewRegistry assets = fold (row_save a_Symbol) assets []"

definition asset_Get :: "asset_registry \<Rightarrow> string \<Rightarrow> asset option" where
  "asset_Get r symbol = row_find a_Symbol symbol r"

definition asset_All :: "asset_registry \<Rightarrow> asset list" where
  "asset_All r = r"

section \<open>What a registry holds\<close>

lemma row_find_saves:
  "row_find key k (fold (row_save key) items acc) =
     (case row_find key k (rev items) of Some x \<Rightarrow> Some x | None \<Rightarrow> row_find key k acc)"
  by (induction items arbitrary: acc)
     (auto simp: row_find_save row_find_append split: option.splits)

text \<open>A registered key maps to the last item given for it, and nothing else is registered.\<close>

lemma market_Get_NewRegistry:
  "market_Get (market_NewRegistry markets) symbol = row_find m_Symbol symbol (rev markets)"
  by (simp add: market_Get_def market_NewRegistry_def row_find_saves split: option.splits)

lemma chain_Get_NewRegistry: "chain_Get (chain_NewRegistry items) key = row_find ch_Key key (rev items)"
  by (simp add: chain_Get_def chain_NewRegistry_def row_find_saves split: option.splits)

lemma asset_Get_NewRegistry: "asset_Get (asset_NewRegistry assets) symbol = row_find a_Symbol symbol (rev assets)"
  by (simp add: asset_Get_def asset_NewRegistry_def row_find_saves split: option.splits)

lemma Deployment_Validate_AssetID:
  "Deployment_Validate d = Inr u \<Longrightarrow> \<not> dp_Native d \<Longrightarrow> deployment_AssetID d \<noteq> []"
  by (auto simp: Deployment_Validate_def deployment_AssetID_def split: if_splits)

end
