(* ===== verification/OrderRules.thy ===== *)
theory OrderRules
  imports Registries OrderStore BookSnapshot
begin

text \<open>
  The rules of \<^verbatim>\<open>internal/app/orders/service.go\<close> that decide about a single order: reading and
  checking a place request, statuses, stop prices, the price band, command identities and the
  order events.

  A \<open>service\<close> is the service with what it was configured with. Its parameters are the market and
  asset registries, the price band, the two environment variables it reads, and the functions it
  calls in libraries: the hexadecimal SHA-256 of a text and the JSON text of a payload, \<^const>\<open>None\<close>
  where marshalling fails, and the JSON encoder and decoder of book snapshots with the digest of
  their text. The payment gateway is a pair of optional functions.
\<close>

section \<open>The service\<close>

record command_payload =
  cp_CommandType :: string
  cp_ClientOrderID :: string
  cp_ReservationID :: string
  cp_UserID :: string
  cp_Market :: string
  cp_Side :: side
  cp_Type :: order_type
  cp_TimeInForce :: time_in_force
  cp_Price :: string
  cp_StopPrice :: string
  cp_Quantity :: string

record match_event_payload =
  mp_Taker :: order
  mp_Makers :: "order list"
  mp_Trades :: "trade list"
  mp_Levels :: "price_level list"

record gateway_address =
  ga_WalletID :: string
  ga_UserID :: string
  ga_Symbol :: string
  ga_Chain :: string
  ga_Address :: string
  ga_Label :: string

record gateway =
  gw_CreateStaticAddress :: "string \<Rightarrow> string \<Rightarrow> int \<Rightarrow> string \<Rightarrow> gateway_address option"
  gw_QRCode :: "string \<Rightarrow> int \<Rightarrow> string option"

record service =
  sv_markets :: market_registry
  sv_assets :: "asset_registry option"
  sv_priceBandBps :: int
  sv_matching_mode :: string
  sv_publish :: bool
  sv_gateway :: "gateway option"
  sv_sha256 :: "string \<Rightarrow> string"
  sv_command_json :: "command_payload \<Rightarrow> string option"
  sv_event_json :: "match_event_payload \<Rightarrow> string option"
  sv_snapshot_digest :: "book_state_snapshot \<Rightarrow> string option"
  sv_snapshot_json :: "book_state_snapshot \<Rightarrow> string option"
  sv_snapshot_unjson :: "string \<Rightarrow> book_state_snapshot option"

record place_request =
  pr_CommandID :: string
  pr_ClientOrderID :: string
  pr_ReservationID :: string
  pr_UserID :: string
  pr_Market :: string
  pr_Side :: string
  pr_Type :: string
  pr_TimeInForce :: string
  pr_Price :: string
  pr_StopPrice :: string
  pr_Quantity :: string

text \<open>\<^verbatim>\<open>strconv.ParseInt(raw, 10, 64)\<close>: an optional sign and decimal digits, in the range of an int64.\<close>

definition parse_int64 :: "string \<Rightarrow> int option" where
  "parse_int64 s =
     (let neg = (s \<noteq> [] \<and> hd s = CHR ''-'');
          ds = (if s \<noteq> [] \<and> (hd s = CHR ''-'' \<or> hd s = CHR ''+'') then tl s else s);
          n = foldl (\<lambda>acc c. acc * 10 + digit_value c) 0 ds;
          v = (if neg then - n else n)
      in if ds = [] \<or> \<not> list_all is_digit ds \<or> v < - (2 ^ 63) \<or> 2 ^ 63 - 1 < v then None else Some v)"

definition defaultPriceBandBps :: "string \<Rightarrow> int" where
  "defaultPriceBandBps env_text =
     (let raw = trim_space env_text in
      if raw = [] then 0
      else (case parse_int64 raw of None \<Rightarrow> 0 | Some v \<Rightarrow> if v < 0 then 0 else v))"

definition matchingMode :: "service \<Rightarrow> string" where
  "matchingMode s = to_lower (trim_space (sv_matching_mode s))"

definition asyncMatchingEnabled :: "service \<Rightarrow> bool" where
  "asyncMatchingEnabled s \<longleftrightarrow> matchingMode s = ''async'' \<or> matchingMode s = ''command_log''"

definition commandLogMatchingEnabled :: "service \<Rightarrow> bool" where
  "commandLogMatchingEnabled s \<longleftrightarrow> matchingMode s = ''command_log''"

definition normalizeMarket :: "string \<Rightarrow> string" where
  "normalizeMarket value = to_upper (trim_space value)"

definition requiredMarket :: "service \<Rightarrow> string \<Rightarrow> ledger_error + string" where
  "requiredMarket s value =
     (case market_Get (sv_markets s) (normalizeMarket value) of
        None \<Rightarrow> Inl ErrUnknownMarket | Some _ \<Rightarrow> Inr (normalizeMarket value))"

definition optionalMarket :: "service \<Rightarrow> string \<Rightarrow> ledger_error + string" where
  "optionalMarket s value = (if trim_space value = [] then Inr [] else requiredMarket s value)"

definition zeroIfEmptyString :: "string \<Rightarrow> string" where
  "zeroIfEmptyString value = (if trim_space value = [] then ''0'' else value)"

fun firstNonEmptyString :: "string list \<Rightarrow> string" where
  "firstNonEmptyString [] = []"
| "firstNonEmptyString (v # vs) = (if trim_space v \<noteq> [] then trim_space v else firstNonEmptyString vs)"

section \<open>Building an order\<close>

definition parsePositiveDecimal :: "string \<Rightarrow> ledger_error + rat" where
  "parsePositiveDecimal value0 =
     (let value = trim_space value0; out = Parse value in
      if value = [] then Inl ErrInvalidOrder
      else if FractionalDigits value > Scale then Inl ErrInvalidOrder
      else if out \<le> 0 then Inl ErrInvalidOrder
      else if String out = ''0'' then Inl ErrInvalidOrder
      else Inr out)"

definition normalizeOrderTimeInForce :: "order_type \<Rightarrow> string \<Rightarrow> time_in_force" where
  "normalizeOrderTimeInForce orderType value =
     (if trim_space value = [] \<and> orderType = TypeMarket then TimeInForceIOC
      else NormalizeTimeInForce value)"

definition orderReservationID :: "service \<Rightarrow> place_request \<Rightarrow> string \<Rightarrow> string \<Rightarrow> string" where
  "orderReservationID s req userID clientOrderID =
     (let value = trim_space (pr_ReservationID req) in
      if value \<noteq> [] then value
      else ''res_'' @ take 24 (sv_sha256 s (trim_space userID @ ''|'' @ trim_space clientOrderID)))"

text \<open>\<open>ordID\<close> is the identifier \<^verbatim>\<open>idgen.New("ord")\<close> returns. The checks come in the order of the code.\<close>

definition buildOrder :: "service \<Rightarrow> env \<Rightarrow> string \<Rightarrow> place_request \<Rightarrow> ledger_error + order" where
  "buildOrder s env ordID req =
     (let marketSymbol = normalizeMarket (pr_Market req);
          sd = NormalizeSide (pr_Side req);
          orderType = NormalizeType (pr_Type req);
          clientOrderID = trim_space (pr_ClientOrderID req);
          tif = normalizeOrderTimeInForce orderType (pr_TimeInForce req)
      in case market_Get (sv_markets s) marketSymbol of
           None \<Rightarrow> Inl ErrUnknownMarket
         | Some m \<Rightarrow>
      if \<not> m_Enabled m then Inl ErrUnknownMarket
      else if Side_Validate sd \<noteq> Inr () then Inl ErrInvalidOrder
      else if Type_Validate orderType \<noteq> Inr () then Inl ErrInvalidOrder
      else if trim_space (pr_UserID req) = [] then Inl ErrInvalidOrder
      else if clientOrderID = [] then Inl ErrInvalidOrder
      else (case parsePositiveDecimal (pr_Price req) of
              Inl e \<Rightarrow> Inl e
            | Inr price \<Rightarrow>
           (case parsePositiveDecimal (pr_Quantity req) of
              Inl e \<Rightarrow> Inl e
            | Inr quantity \<Rightarrow>
              if Cmp (Mul (String price) (String quantity)) ''0'' \<le> 0 then Inl ErrInvalidOrder
              else if TimeInForce_Validate tif \<noteq> Inr () then Inl ErrInvalidOrder
              else if orderType = TypeMarket \<and> tif \<noteq> TimeInForceIOC then Inl ErrInvalidOrder
              else if orderType \<noteq> TypeMarket \<and> tif = TimeInForceIOC \<and> orderType \<noteq> TypeLimit
                then Inl ErrInvalidOrder
              else (let item = \<lparr>o_ID = ordID, o_ClientOrderID = clientOrderID,
                       o_ReservationID = orderReservationID s req (trim_space (pr_UserID req)) clientOrderID,
                       o_UserID = trim_space (pr_UserID req), o_Market = marketSymbol,
                       o_BaseAsset = m_BaseAsset m, o_QuoteAsset = m_QuoteAsset m,
                       o_Side = sd, o_Type = orderType, o_Status = StatusOpen, o_TimeInForce = tif,
                       o_Price = String price, o_StopPrice = ''0'', o_Quantity = String quantity,
                       o_FilledQuantity = ''0'', o_RemainingQuantity = String quantity,
                       o_SequenceID = 0, o_CreatedAt = e_now env, o_UpdatedAt = e_now env\<rparr>
                    in if orderType = TypeStopLimit
                       then (case parsePositiveDecimal (pr_StopPrice req) of
                               Inl e \<Rightarrow> Inl e
                             | Inr stop \<Rightarrow> Inr (item\<lparr>o_StopPrice := String stop, o_Status := StatusPendingStop\<rparr>))
                       else Inr item))))"

section \<open>Statuses and stops\<close>

definition stopTriggered :: "order \<Rightarrow> string \<Rightarrow> bool" where
  "stopTriggered item lastPrice =
     (case o_Side item of
        SideBuy \<Rightarrow> Cmp lastPrice (o_StopPrice item) \<ge> 0
      | SideSell \<Rightarrow> Cmp lastPrice (o_StopPrice item) \<le> 0
      | SideOther _ \<Rightarrow> False)"

definition stopPriceValidForLastPrice :: "order \<Rightarrow> string \<Rightarrow> bool" where
  "stopPriceValidForLastPrice item lastPrice =
     (if o_Type item \<noteq> TypeStopLimit \<or> lastPrice = [] then True
      else (case o_Side item of
              SideBuy \<Rightarrow> Cmp (o_StopPrice item) lastPrice > 0
            | SideSell \<Rightarrow> Cmp (o_StopPrice item) lastPrice < 0
            | SideOther _ \<Rightarrow> False))"

definition lastTradePrice :: "trade list \<Rightarrow> string" where
  "lastTradePrice trades = (if trades = [] then [] else t_Price (last trades))"

definition cancelable :: "status \<Rightarrow> bool" where
  "cancelable st \<longleftrightarrow> st \<in> {StatusPendingMatch, StatusOpen, StatusPartiallyFilled, StatusPendingStop}"

definition cancelAlreadyTerminal :: "status \<Rightarrow> bool" where
  "cancelAlreadyTerminal st \<longleftrightarrow> st \<in> {StatusFilled, StatusCanceled, StatusExpired}"

definition oppositeSide :: "side \<Rightarrow> side" where
  "oppositeSide sd = (if sd = SideBuy then SideSell else SideBuy)"

definition minPositiveMarketPrice :: string where
  "minPositiveMarketPrice = ''0.000000000000000001''"

definition effectiveMatchTaker :: "order \<Rightarrow> order" where
  "effectiveMatchTaker item =
     (if o_Type item = TypeMarket \<and> o_Side item = SideSell then item\<lparr>o_Price := minPositiveMarketPrice\<rparr>
      else item)"

definition knownStatus :: "status \<Rightarrow> bool" where
  "knownStatus st \<longleftrightarrow> st \<in> {StatusPendingMatch, StatusPendingStop, StatusOpen, StatusPartiallyFilled,
     StatusFilled, StatusCanceled, StatusExpired, StatusRejected}"

definition isImmediateOnly :: "order \<Rightarrow> bool" where
  "isImmediateOnly item \<longleftrightarrow> o_Type item = TypeMarket \<or> o_TimeInForce item = TimeInForceIOC"

definition shouldReleaseUnfilled :: "order \<Rightarrow> bool" where
  "shouldReleaseUnfilled item \<longleftrightarrow> o_Status item = StatusExpired \<and> Cmp (o_RemainingQuantity item) ''0'' > 0"

text \<open>The two checks against the last trade of the market; a market without trades passes both.\<close>

definition validatePriceBand :: "service \<Rightarrow> db \<Rightarrow> order \<Rightarrow> ledger_error + unit" where
  "validatePriceBand s d item =
     (if sv_priceBandBps s \<le> 0 then Inr ()
      else (case LastTrade d (o_Market item) of
              None \<Rightarrow> Inr ()
            | Some t \<Rightarrow>
                (let reference = Parse (t_Price t); limit = Parse (o_Price item);
                     band = of_int (sv_priceBandBps s) / 10000
                 in if limit < reference * (1 - band) \<or> reference * (1 + band) < limit
                    then Inl ErrPriceBandExceeded else Inr ())))"

definition validateStopPlacement :: "service \<Rightarrow> db \<Rightarrow> order \<Rightarrow> ledger_error + unit" where
  "validateStopPlacement s d item =
     (if o_Type item \<noteq> TypeStopLimit then Inr ()
      else (case LastTrade d (o_Market item) of
              None \<Rightarrow> Inr ()
            | Some t \<Rightarrow>
                if stopPriceValidForLastPrice item (t_Price t) then Inr () else Inl ErrInvalidOrder))"

section \<open>Command identity\<close>

definition OrderCommandTypeNewOrder :: string where
  "OrderCommandTypeNewOrder = ''new_order''"

definition orderCommandID :: "place_request \<Rightarrow> order \<Rightarrow> string" where
  "orderCommandID req item =
     (let value = trim_space (pr_CommandID req) in
      if value \<noteq> [] then value else trim_space (o_ClientOrderID item))"

definition command_payload_of :: "order \<Rightarrow> command_payload" where
  "command_payload_of item =
     \<lparr>cp_CommandType = OrderCommandTypeNewOrder, cp_ClientOrderID = o_ClientOrderID item,
      cp_ReservationID = o_ReservationID item, cp_UserID = o_UserID item, cp_Market = o_Market item,
      cp_Side = o_Side item, cp_Type = o_Type item, cp_TimeInForce = o_TimeInForce item,
      cp_Price = Trim (o_Price item), cp_StopPrice = Trim (zeroIfEmptyString (o_StopPrice item)),
      cp_Quantity = Trim (o_Quantity item)\<rparr>"

definition orderCommandPayload :: "service \<Rightarrow> order \<Rightarrow> ledger_error + (string \<times> string)" where
  "orderCommandPayload s item =
     (case sv_command_json s (command_payload_of item) of
        None \<Rightarrow> Inl ErrEncoding
      | Some raw \<Rightarrow> Inr (raw, sv_sha256 s raw))"

definition sameOrderCommandPayload :: "order \<Rightarrow> order \<Rightarrow> bool" where
  "sameOrderCommandPayload existing requested \<longleftrightarrow>
     o_UserID existing = o_UserID requested \<and>
     o_ReservationID existing = o_ReservationID requested \<and>
     o_Market existing = o_Market requested \<and>
     o_Side existing = o_Side requested \<and>
     o_Type existing = o_Type requested \<and>
     o_TimeInForce existing = o_TimeInForce requested \<and>
     Cmp (o_Price existing) (o_Price requested) = 0 \<and>
     Cmp (zeroIfEmptyString (o_StopPrice existing)) (zeroIfEmptyString (o_StopPrice requested)) = 0 \<and>
     Cmp (o_Quantity existing) (o_Quantity requested) = 0"

section \<open>Order events\<close>

definition newOrderEvent :: "env \<Rightarrow> order \<Rightarrow> event_type \<Rightarrow> string \<Rightarrow> order_event ltx" where
  "newOrderEvent env item eventType refID =
     tx_bind (new_id env ''evt'') (\<lambda>evtID.
     tx_return \<lparr>ev_ID = evtID, ev_OrderID = o_ID item, ev_UserID = o_UserID item,
       ev_Market = o_Market item, ev_Type = eventType, ev_RefID = refID, ev_CreatedAt = e_now env\<rparr>)"

fun eventsForTrades :: "env \<Rightarrow> trade list \<Rightarrow> order_event list ltx" where
  "eventsForTrades env [] = tx_return []"
| "eventsForTrades env (item # items) =
     tx_bind (new_id env ''evt'') (\<lambda>makerEvt.
     tx_bind (new_id env ''evt'') (\<lambda>takerEvt.
     tx_bind (eventsForTrades env items) (\<lambda>events.
     tx_return
      (\<lparr>ev_ID = makerEvt, ev_OrderID = t_MakerOrderID item, ev_UserID = t_MakerUserID item,
         ev_Market = t_Market item, ev_Type = EventTradeCreated, ev_RefID = t_ID item,
         ev_CreatedAt = t_CreatedAt item\<rparr> #
       \<lparr>ev_ID = takerEvt, ev_OrderID = t_TakerOrderID item, ev_UserID = t_TakerUserID item,
         ev_Market = t_Market item, ev_Type = EventTradeCreated, ev_RefID = t_ID item,
         ev_CreatedAt = t_CreatedAt item\<rparr> # events))))"

definition terminalOrderEvents :: "env \<Rightarrow> order \<Rightarrow> order_event list ltx" where
  "terminalOrderEvents env item =
     (if o_Status item = StatusFilled
        then tx_bind (newOrderEvent env item EventOrderFilled []) (\<lambda>e. tx_return [e])
      else if o_Status item = StatusExpired
        then tx_bind (newOrderEvent env item EventOrderExpired []) (\<lambda>e. tx_return [e])
      else tx_return [])"

definition terminalEvents :: "env \<Rightarrow> order \<Rightarrow> trade list \<Rightarrow> order_event list ltx" where
  "terminalEvents env item trades =
     tx_bind (eventsForTrades env trades) (\<lambda>es.
     tx_bind (terminalOrderEvents env item) (\<lambda>ts. tx_return (es @ ts)))"

fun filled_events :: "env \<Rightarrow> order list \<Rightarrow> order_event list ltx" where
  "filled_events env [] = tx_return []"
| "filled_events env (maker # makers) =
     (if o_Status maker = StatusFilled
      then tx_bind (newOrderEvent env maker EventOrderFilled []) (\<lambda>e.
           tx_bind (filled_events env makers) (\<lambda>es. tx_return (e # es)))
      else filled_events env makers)"

definition matchEvents :: "env \<Rightarrow> order \<Rightarrow> order list \<Rightarrow> trade list \<Rightarrow> order_event list ltx" where
  "matchEvents env taker makers trades =
     tx_bind (eventsForTrades env trades) (\<lambda>es.
     tx_bind (filled_events env makers) (\<lambda>fs.
     tx_bind (terminalOrderEvents env taker) (\<lambda>ts. tx_return (es @ fs @ ts))))"

end
