(* ===== verification/CommandLog.thy ===== *)
theory CommandLog
  imports Ledger OrderStore WorkQueue OrderRules
begin

text \<open>
  The commands of the exchange (\<^verbatim>\<open>order_command_repository.go\<close>) and the log of commands that the
  matchers of a market consume in sequence (\<^verbatim>\<open>order_command_log_repository.go\<close>). Appending is
  idempotent in the command id and draws the next sequence number of the market; the log is a
  work queue ordered by sequence number.
\<close>

section \<open>Commands\<close>

definition modelToOrderCommand :: "order_command \<Rightarrow> order_command" where
  "modelToOrderCommand model = model"

definition CreateOrderCommand :: "env \<Rightarrow> order_command \<Rightarrow> unit ltx" where
  "CreateOrderCommand env item d =
     (let model = \<lparr>oc_ID = trim_space (oc_ID item), oc_ClientOrderID = trim_space (oc_ClientOrderID item),
                   oc_UserID = trim_space (oc_UserID item),
                   oc_Market = to_upper (trim_space (oc_Market item)), oc_Type = trim_space (oc_Type item),
                   oc_PayloadHash = trim_space (oc_PayloadHash item), oc_Payload = trim_space (oc_Payload item),
                   oc_Status = oc_Status item, oc_Outcome = trim_space (oc_Outcome item),
                   oc_OrderID = trim_space (oc_OrderID item), oc_Attempts = oc_Attempts item,
                   oc_LastError = [], oc_QuarantinedAt = 0,
                   oc_CreatedAt = e_now env, oc_UpdatedAt = e_now env\<rparr>;
          typed = (if oc_Type model = [] then model\<lparr>oc_Type := OrderCommandTypeNewOrder\<rparr> else model);
          row = (if oc_Status typed = CommandStatusOther [] then typed\<lparr>oc_Status := CommandPending\<rparr> else typed)
      in if oc_ID model = [] \<or> oc_UserID model = [] \<or> oc_ClientOrderID model = [] \<or>
            oc_PayloadHash model = [] \<or> oc_Payload model = [] then Inr ((), d)
         else if row_exists oc_ID (oc_ID row) (db_commands d) \<or>
                 (\<exists>r \<in> set (db_commands d). oc_UserID r = oc_UserID row \<and> oc_ClientOrderID r = oc_ClientOrderID row)
           then Inl ErrDuplicateKey
         else Inr ((), d\<lparr>db_commands := db_commands d @ [row]\<rparr>))"

definition GetOrderCommand :: "db \<Rightarrow> string \<Rightarrow> order_command option" where
  "GetOrderCommand d ID =
     (let ID = trim_space ID in
      if ID = [] then None else map_option modelToOrderCommand (row_find oc_ID ID (db_commands d)))"

definition GetOrderCommandForUpdate :: "db \<Rightarrow> string \<Rightarrow> order_command option" where
  "GetOrderCommandForUpdate d ID =
     (let ID = trim_space ID in
      if ID = [] then None else map_option modelToOrderCommand (row_find oc_ID ID (db_commands d)))"

definition FindOrderCommandByClientID :: "db \<Rightarrow> string \<Rightarrow> string \<Rightarrow> order_command option" where
  "FindOrderCommandByClientID d userID clientOrderID =
     map_option modelToOrderCommand
       (find (\<lambda>r. col_eq (oc_UserID r) (trim_space userID) \<and> col_eq (oc_ClientOrderID r) (trim_space clientOrderID))
          (sort_key oc_ID (db_commands d)))"

definition updateOrderCommand :: "env \<Rightarrow> string \<Rightarrow> (order_command \<Rightarrow> order_command) \<Rightarrow> unit ltx" where
  "updateOrderCommand env ID0 values d =
     (let ID = trim_space ID0 in
      if ID = [] then Inr ((), d)
      else Inr ((), d\<lparr>db_commands := row_update (\<lambda>r. oc_ID r = ID)
              (\<lambda>r. (values r)\<lparr>oc_UpdatedAt := e_now env\<rparr>) (db_commands d)\<rparr>))"

definition CompleteOrderCommand :: "env \<Rightarrow> string \<Rightarrow> string \<Rightarrow> string \<Rightarrow> unit ltx" where
  "CompleteOrderCommand env ID orderID outcome =
     updateOrderCommand env ID (\<lambda>r. r\<lparr>oc_Status := CommandCompleted, oc_Outcome := trim_space outcome,
       oc_OrderID := trim_space orderID, oc_LastError := []\<rparr>)"

definition RejectOrderCommand :: "env \<Rightarrow> string \<Rightarrow> string \<Rightarrow> unit ltx" where
  "RejectOrderCommand env ID message =
     updateOrderCommand env ID (\<lambda>r. r\<lparr>oc_Status := CommandRejected, oc_Outcome := ''rejected'',
       oc_LastError := trim_space message\<rparr>)"

definition QuarantineOrderCommand :: "env \<Rightarrow> string \<Rightarrow> string \<Rightarrow> unit ltx" where
  "QuarantineOrderCommand env ID message =
     updateOrderCommand env ID (\<lambda>r. r\<lparr>oc_Status := CommandQuarantined, oc_Outcome := ''command_quarantined'',
       oc_LastError := trim_space message, oc_QuarantinedAt := e_now env\<rparr>)"

section \<open>The sequence of a market\<close>

definition log_rows :: "db \<Rightarrow> string \<Rightarrow> command_log list" where
  "log_rows d market = filter (\<lambda>r. col_eq (cl_Market r) market) (db_command_log d)"

definition maxOrderCommandSequence :: "string \<Rightarrow> db \<Rightarrow> uint64" where
  "maxOrderCommandSequence market d =
     (case log_rows d market of
        [] \<Rightarrow> 0
      | r # rs \<Rightarrow> fold max (map cl_SequenceID rs) (cl_SequenceID r))"

definition nextOrderCommandSequence :: "env \<Rightarrow> string \<Rightarrow> uint64 ltx" where
  "nextOrderCommandSequence env market0 d =
     (let market = to_upper (trim_space market0) in
      if market = [] then Inl ErrMarketRequired
      else
        let maxSeq = maxOrderCommandSequence market d;
            firstSeq = (if maxSeq + 1 = 0 then 1 else maxSeq + 1);
            seed = \<lparr>sq_Market = market, sq_NextSequence = firstSeq, sq_UpdatedAt = e_now env\<rparr>;
            rows = (if row_exists sq_Market market (db_command_sequences d) then db_command_sequences d
                    else db_command_sequences d @ [seed])
        in case row_find sq_Market market rows of
             None \<Rightarrow> Inl ErrRecordNotFound
           | Some model \<Rightarrow>
               let seq0 = sq_NextSequence model;
                   seq = (if seq0 = 0 \<or> seq0 \<le> maxSeq then firstSeq else seq0);
                   model = model\<lparr>sq_NextSequence := seq + 1, sq_UpdatedAt := e_now env\<rparr>
               in Inr (seq, d\<lparr>db_command_sequences := row_save sq_Market model rows\<rparr>))"

section \<open>The log\<close>

definition modelToOrderCommandLog :: "command_log \<Rightarrow> command_log" where
  "modelToOrderCommandLog model = model"

definition create_log_row :: "command_log \<Rightarrow> unit ltx" where
  "create_log_row model d =
     (if row_exists cl_ID (cl_ID model) (db_command_log d) \<or>
         row_exists cl_CommandID (cl_CommandID model) (db_command_log d)
      then Inl ErrDuplicateKey else Inr ((), d\<lparr>db_command_log := db_command_log d @ [model]\<rparr>))"

definition normal_log_item :: "command_log \<Rightarrow> command_log" where
  "normal_log_item item =
     item\<lparr>cl_CommandID := trim_space (cl_CommandID item), cl_Market := to_upper (trim_space (cl_Market item)),
          cl_Type := (if trim_space (cl_Type item) = [] then OrderCommandTypeNewOrder else trim_space (cl_Type item)),
          cl_Key := trim_space (cl_Key item), cl_PayloadHash := trim_space (cl_PayloadHash item),
          cl_Payload := trim_space (cl_Payload item),
          cl_Status := (if cl_Status item = LogStatusOther [] then LogPending else cl_Status item)\<rparr>"

definition AppendOrderCommandLog :: "env \<Rightarrow> command_log \<Rightarrow> command_log ltx" where
  "AppendOrderCommandLog env item0 =
     tx_bind (if cl_ID item0 = [] then new_id env ''ocl'' else tx_return (cl_ID item0)) (\<lambda>logID.
     let item = (normal_log_item item0)\<lparr>cl_ID := logID\<rparr> in
     tx_bind (fail_if (cl_CommandID item = [] \<or> cl_Market item = [] \<or> cl_PayloadHash item = [] \<or>
                       cl_Payload item = []) ErrIncomplete) (\<lambda>_.
     tx_bind (tx_get (\<lambda>d. row_find cl_CommandID (cl_CommandID item) (db_command_log d))) (\<lambda>found.
     case found of
       Some existing \<Rightarrow>
         if cl_PayloadHash existing \<noteq> cl_PayloadHash item then tx_fail ErrPayloadConflict
         else tx_return (modelToOrderCommandLog existing)
     | None \<Rightarrow>
         tx_bind (nextOrderCommandSequence env (cl_Market item)) (\<lambda>seq.
         let model = \<lparr>cl_ID = trim_space (cl_ID item), cl_CommandID = cl_CommandID item, cl_SequenceID = seq,
                      cl_Market = cl_Market item, cl_Type = cl_Type item, cl_Key = cl_Key item,
                      cl_PayloadHash = cl_PayloadHash item, cl_Payload = cl_Payload item,
                      cl_Status = cl_Status item, cl_Attempts = cl_Attempts item,
                      cl_AvailableAt = (if cl_AvailableAt item \<noteq> 0 then cl_AvailableAt item else e_now env),
                      cl_LockedBy = [], cl_LockedAt = 0, cl_LastError = [], cl_AppliedOrderID = [],
                      cl_AppliedAt = 0, cl_QuarantinedAt = 0,
                      cl_CreatedAt = e_now env, cl_UpdatedAt = e_now env\<rparr>
         in tx_bind (create_log_row model) (\<lambda>_. tx_return (modelToOrderCommandLog model))))))"

definition lock_log :: "string \<Rightarrow> time \<Rightarrow> command_log \<Rightarrow> command_log" where
  "lock_log workerID now model =
     model\<lparr>cl_Status := LogProcessing, cl_Attempts := cl_Attempts model + 1, cl_LockedBy := workerID,
           cl_LockedAt := now, cl_UpdatedAt := now\<rparr>"

definition log_due :: "time \<Rightarrow> duration \<Rightarrow> command_log \<Rightarrow> bool" where
  "log_due now ttl r \<longleftrightarrow> cl_Status r = LogPending \<and> cl_AvailableAt r \<le> now \<or>
     cl_Status r = LogProcessing \<and> cl_LockedAt r \<le> now - ttl"

definition ClaimOrderCommandLogsAfter ::
  "env \<Rightarrow> string \<Rightarrow> string \<Rightarrow> int \<Rightarrow> duration \<Rightarrow> uint64 \<Rightarrow> command_log list ltx" where
  "ClaimOrderCommandLogsAfter env market0 workerID0 limit lockTTL0 afterSequence d =
     (let market = to_upper (trim_space market0);
          workerID = (if trim_space workerID0 = [] then ''matcher'' else trim_space workerID0);
          lockTTL = (if lockTTL0 \<le> 0 then 5 * minute else lockTTL0);
          now = e_now env
      in if market = [] then Inl ErrMarketRequired
         else let (claimed, rows) =
                claim_rows cl_ID
                  (\<lambda>r. cl_Market r = market \<and> log_due now lockTTL r \<and>
                       (0 < afterSequence \<longrightarrow> afterSequence < cl_SequenceID r))
                  cl_SequenceID (lock_log workerID now) (limit_or limit 1000 100) (db_command_log d)
              in Inr (map modelToOrderCommandLog claimed, d\<lparr>db_command_log := rows\<rparr>))"

definition ClaimOrderCommandLogs ::
  "env \<Rightarrow> string \<Rightarrow> string \<Rightarrow> int \<Rightarrow> duration \<Rightarrow> command_log list ltx" where
  "ClaimOrderCommandLogs env market workerID limit lockTTL =
     ClaimOrderCommandLogsAfter env market workerID limit lockTTL 0"

definition ListOrderCommandLogsAfter :: "db \<Rightarrow> string \<Rightarrow> uint64 \<Rightarrow> int \<Rightarrow> command_log list" where
  "ListOrderCommandLogsAfter d market0 afterSequence limit =
     (let market = to_upper (trim_space market0) in
      if market = [] then []
      else map modelToOrderCommandLog (take (limit_or limit 10000 1000)
             (sort_key cl_SequenceID (filter (\<lambda>r. afterSequence < cl_SequenceID r) (log_rows d market)))))"

definition ListUnappliedOrderCommandLogsThrough :: "db \<Rightarrow> string \<Rightarrow> uint64 \<Rightarrow> int \<Rightarrow> command_log list" where
  "ListUnappliedOrderCommandLogsThrough d market0 throughSequence limit =
     (let market = to_upper (trim_space market0) in
      if market = [] \<or> throughSequence = 0 then []
      else map modelToOrderCommandLog (take (limit_or limit 10000 1000)
             (sort_key cl_SequenceID
               (filter (\<lambda>r. cl_SequenceID r \<le> throughSequence \<and> cl_Status r \<in> {LogPending, LogProcessing})
                 (log_rows d market)))))"

definition OrderCommandSequenceBounds :: "db \<Rightarrow> string \<Rightarrow> uint64 \<times> uint64" where
  "OrderCommandSequenceBounds d market0 =
     (let market = to_upper (trim_space market0) in
      if market = [] then (0, 0)
      else (case log_rows d market of
              [] \<Rightarrow> (0, 0)
            | r # rs \<Rightarrow> (fold min (map cl_SequenceID rs) (cl_SequenceID r),
                         fold max (map cl_SequenceID rs) (cl_SequenceID r))))"

definition LatestAppliedOrderCommandSequence :: "db \<Rightarrow> string \<Rightarrow> uint64" where
  "LatestAppliedOrderCommandSequence d market0 =
     (let market = to_upper (trim_space market0) in
      if market = [] then 0
      else (case filter (\<lambda>r. cl_Status r = LogApplied) (log_rows d market) of
              [] \<Rightarrow> 0
            | r # rs \<Rightarrow> fold max (map cl_SequenceID rs) (cl_SequenceID r)))"

definition update_log :: "string \<Rightarrow> (command_log \<Rightarrow> command_log) \<Rightarrow> unit ltx" where
  "update_log commandID0 f d =
     (let commandID = trim_space commandID0 in
      if commandID = [] then Inr ((), d)
      else Inr ((), d\<lparr>db_command_log := row_update (\<lambda>r. cl_CommandID r = commandID) f (db_command_log d)\<rparr>))"

definition ApplyOrderCommandLog :: "env \<Rightarrow> string \<Rightarrow> string \<Rightarrow> unit ltx" where
  "ApplyOrderCommandLog env commandID orderID =
     update_log commandID (\<lambda>r. r\<lparr>cl_Status := LogApplied, cl_AppliedOrderID := trim_space orderID,
       cl_AppliedAt := e_now env, cl_LockedBy := [], cl_LockedAt := 0, cl_LastError := [],
       cl_UpdatedAt := e_now env\<rparr>)"

definition updateOrderCommandLogTerminal ::
  "env \<Rightarrow> string \<Rightarrow> log_status \<Rightarrow> time option \<Rightarrow> string \<Rightarrow> unit ltx" where
  "updateOrderCommandLogTerminal env commandID st quarantined message =
     update_log commandID (\<lambda>r0.
       let r = r0\<lparr>cl_Status := st, cl_LockedBy := [], cl_LockedAt := 0, cl_LastError := trim_space message,
                  cl_UpdatedAt := e_now env\<rparr>
       in case quarantined of None \<Rightarrow> r | Some t \<Rightarrow> r\<lparr>cl_QuarantinedAt := t\<rparr>)"

definition RejectOrderCommandLog :: "env \<Rightarrow> string \<Rightarrow> string \<Rightarrow> unit ltx" where
  "RejectOrderCommandLog env commandID message =
     updateOrderCommandLogTerminal env commandID LogRejected None message"

definition QuarantineOrderCommandLog :: "env \<Rightarrow> string \<Rightarrow> string \<Rightarrow> unit ltx" where
  "QuarantineOrderCommandLog env commandID message =
     updateOrderCommandLogTerminal env commandID LogQuarantined (Some (e_now env)) message"

definition fail_log :: "time \<Rightarrow> string \<Rightarrow> int \<Rightarrow> duration \<Rightarrow> command_log \<Rightarrow> command_log" where
  "fail_log now message maxAttempts retryAfter model =
     (let gone = (maxAttempts \<le> cl_Attempts model) in
      model\<lparr>cl_Status := (if gone then LogQuarantined else LogPending),
            cl_AvailableAt := (if gone then now else now + retryAfter),
            cl_QuarantinedAt := (if gone then now else cl_QuarantinedAt model),
            cl_LockedBy := [], cl_LockedAt := 0, cl_LastError := trim_space message, cl_UpdatedAt := now\<rparr>)"

definition FailOrderCommandLog :: "env \<Rightarrow> string \<Rightarrow> string \<Rightarrow> int \<Rightarrow> duration \<Rightarrow> unit ltx" where
  "FailOrderCommandLog env commandID0 message maxAttempts0 retryAfter0 d =
     (let commandID = trim_space commandID0;
          maxAttempts = (if maxAttempts0 \<le> 0 then 5 else maxAttempts0);
          retryAfter = (if retryAfter0 \<le> 0 then second else retryAfter0)
      in if commandID = [] then Inr ((), d)
         else (case row_find cl_CommandID commandID (db_command_log d) of
                 None \<Rightarrow> Inl ErrRecordNotFound
               | Some model \<Rightarrow> Inr ((), d\<lparr>db_command_log :=
                   row_save cl_ID (fail_log (e_now env) message maxAttempts retryAfter model) (db_command_log d)\<rparr>)))"

end
