(* ===== verification/JobQueue.thy ===== *)
theory JobQueue
  imports CommandLog
begin

text \<open>
  Match jobs (\<^verbatim>\<open>match_job_repository.go\<close>) and outbox events (\<^verbatim>\<open>outbox_repository.go\<close>) as
  transactions on the tables, and the interpretations of \<open>work_queue\<close> on the three queues. The
  properties: a claim hands out the oldest due rows, a lock excludes every other worker while it
  lives, and a job that keeps failing ends in quarantine.
\<close>

section \<open>Match jobs\<close>

record match_job_item =
  ji_ID :: string
  ji_OrderID :: string
  ji_Market :: string
  ji_Attempts :: int

definition modelToMatchJob :: "match_job \<Rightarrow> match_job_item" where
  "modelToMatchJob model =
     \<lparr>ji_ID = mj_ID model, ji_OrderID = mj_OrderID model, ji_Market = mj_Market model,
      ji_Attempts = mj_Attempts model\<rparr>"

definition new_job :: "env \<Rightarrow> string \<Rightarrow> string \<Rightarrow> string \<Rightarrow> match_job" where
  "new_job env jobID orderID market =
     \<lparr>mj_ID = jobID, mj_OrderID = orderID, mj_Market = to_upper (trim_space market),
      mj_Status = JobPending, mj_Attempts = 0, mj_AvailableAt = e_now env, mj_LockedBy = [],
      mj_LockedAt = 0, mj_LastError = [], mj_CreatedAt = e_now env, mj_UpdatedAt = e_now env\<rparr>"

text \<open>A job for an order that has one already is not created (\<^verbatim>\<open>ON CONFLICT (order_id) DO NOTHING\<close>).\<close>

definition CreateMatchJob :: "env \<Rightarrow> string \<Rightarrow> string \<Rightarrow> unit ltx" where
  "CreateMatchJob env orderID market =
     (if trim_space orderID = [] then tx_return ()
      else tx_bind (new_id env ''mjob'') (\<lambda>jobID d.
        if row_exists mj_OrderID orderID (db_jobs d) then Inr ((), d)
        else if row_exists mj_ID jobID (db_jobs d) then Inl ErrDuplicateKey
        else Inr ((), d\<lparr>db_jobs := db_jobs d @ [new_job env jobID orderID market]\<rparr>)))"

definition lock_job :: "string \<Rightarrow> time \<Rightarrow> match_job \<Rightarrow> match_job" where
  "lock_job workerID now model =
     model\<lparr>mj_Status := JobProcessing, mj_Attempts := mj_Attempts model + 1, mj_LockedBy := workerID,
           mj_LockedAt := now, mj_UpdatedAt := now\<rparr>"

definition job_due :: "time \<Rightarrow> duration \<Rightarrow> match_job \<Rightarrow> bool" where
  "job_due now ttl r \<longleftrightarrow> mj_Status r = JobPending \<and> mj_AvailableAt r \<le> now \<or>
     mj_Status r = JobProcessing \<and> mj_LockedAt r \<le> now - ttl"

definition lock_ttl :: "duration \<Rightarrow> duration" where
  "lock_ttl lockTTL = (if lockTTL \<le> 0 then 5 * minute else lockTTL)"

definition worker_name :: "string \<Rightarrow> string \<Rightarrow> string" where
  "worker_name dflt workerID = (if trim_space workerID = [] then dflt else trim_space workerID)"

definition ClaimMatchJobs :: "env \<Rightarrow> string \<Rightarrow> int \<Rightarrow> duration \<Rightarrow> match_job_item list ltx" where
  "ClaimMatchJobs env workerID limit lockTTL d =
     (let (claimed, rows) =
        claim_rows mj_ID (job_due (e_now env) (lock_ttl lockTTL)) mj_CreatedAt
          (lock_job (worker_name ''matcher'' workerID) (e_now env)) (limit_or limit 500 100) (db_jobs d)
      in Inr (map modelToMatchJob claimed, d\<lparr>db_jobs := rows\<rparr>))"

definition CompleteMatchJob :: "env \<Rightarrow> string \<Rightarrow> unit ltx" where
  "CompleteMatchJob env ID0 d =
     (let ID = trim_space ID0 in
      if ID = [] then Inr ((), d)
      else Inr ((), d\<lparr>db_jobs := row_update (\<lambda>r. mj_ID r = ID)
        (\<lambda>r. r\<lparr>mj_Status := JobCompleted, mj_LockedBy := [], mj_LockedAt := 0, mj_LastError := [],
              mj_UpdatedAt := e_now env\<rparr>) (db_jobs d)\<rparr>))"

definition fail_job :: "time \<Rightarrow> string \<Rightarrow> int \<Rightarrow> duration \<Rightarrow> match_job \<Rightarrow> match_job" where
  "fail_job now message maxAttempts retryAfter model =
     model\<lparr>mj_Status := (if maxAttempts \<le> mj_Attempts model then JobQuarantined else JobPending),
           mj_AvailableAt := (if maxAttempts \<le> mj_Attempts model then now else now + retryAfter),
           mj_LockedBy := [], mj_LockedAt := 0, mj_LastError := trim_space message, mj_UpdatedAt := now\<rparr>"

definition FailMatchJob :: "env \<Rightarrow> string \<Rightarrow> string \<Rightarrow> int \<Rightarrow> duration \<Rightarrow> unit ltx" where
  "FailMatchJob env ID0 message maxAttempts retryAfter d =
     (let ID = trim_space ID0 in
      if ID = [] then Inr ((), d)
      else (case row_find mj_ID ID (db_jobs d) of
              None \<Rightarrow> Inl ErrRecordNotFound
            | Some model \<Rightarrow> Inr ((), d\<lparr>db_jobs := row_save mj_ID
                (fail_job (e_now env) message (if maxAttempts \<le> 0 then 5 else maxAttempts)
                   (if retryAfter \<le> 0 then second else retryAfter) model) (db_jobs d)\<rparr>)))"

section \<open>The outbox\<close>

record outbox_item =
  oi_ID :: string
  oi_Topic :: string
  oi_EventKey :: string
  oi_Payload :: string
  oi_Attempts :: int

definition modelToOutboxEvent :: "outbox_event \<Rightarrow> outbox_item" where
  "modelToOutboxEvent model =
     \<lparr>oi_ID = ox_ID model, oi_Topic = ox_Topic model, oi_EventKey = ox_EventKey model,
      oi_Payload = ox_Payload model, oi_Attempts = ox_Attempts model\<rparr>"

definition Outbox_Create :: "env \<Rightarrow> string \<Rightarrow> string \<Rightarrow> string \<Rightarrow> unit ltx" where
  "Outbox_Create env topic eventKey payload =
     (if trim_space topic = [] \<or> payload = [] then tx_return ()
      else tx_bind (new_id env ''out'') (\<lambda>outID d.
        if row_exists ox_ID outID (db_outbox d) then Inl ErrDuplicateKey
        else Inr ((), d\<lparr>db_outbox := db_outbox d @
          [\<lparr>ox_ID = outID, ox_Topic = trim_space topic, ox_EventKey = trim_space eventKey, ox_Payload = payload,
            ox_Status = OutboxPending, ox_Attempts = 0, ox_AvailableAt = e_now env, ox_LockedBy = [],
            ox_LockedAt = 0, ox_LastError = [], ox_CreatedAt = e_now env, ox_UpdatedAt = e_now env,
            ox_PublishedAt = 0\<rparr>]\<rparr>)))"

definition lock_outbox :: "string \<Rightarrow> time \<Rightarrow> outbox_event \<Rightarrow> outbox_event" where
  "lock_outbox workerID now model =
     model\<lparr>ox_Status := OutboxProcessing, ox_Attempts := ox_Attempts model + 1, ox_LockedBy := workerID,
           ox_LockedAt := now, ox_UpdatedAt := now\<rparr>"

definition outbox_due :: "time \<Rightarrow> duration \<Rightarrow> outbox_event \<Rightarrow> bool" where
  "outbox_due now ttl r \<longleftrightarrow> ox_Status r = OutboxPending \<and> ox_AvailableAt r \<le> now \<or>
     ox_Status r = OutboxProcessing \<and> ox_LockedAt r \<le> now - ttl"

definition Outbox_Claim :: "env \<Rightarrow> string \<Rightarrow> int \<Rightarrow> duration \<Rightarrow> outbox_item list ltx" where
  "Outbox_Claim env workerID limit lockTTL d =
     (let (claimed, rows) =
        claim_rows ox_ID (outbox_due (e_now env) (lock_ttl lockTTL)) ox_CreatedAt
          (lock_outbox (worker_name ''outbox'' workerID) (e_now env)) (limit_or limit 1000 100) (db_outbox d)
      in Inr (map modelToOutboxEvent claimed, d\<lparr>db_outbox := rows\<rparr>))"

definition MarkPublished :: "env \<Rightarrow> string \<Rightarrow> unit ltx" where
  "MarkPublished env ID0 d =
     (let ID = trim_space ID0 in
      if ID = [] then Inr ((), d)
      else Inr ((), d\<lparr>db_outbox := row_update (\<lambda>r. ox_ID r = ID)
        (\<lambda>r. r\<lparr>ox_Status := OutboxPublished, ox_LockedBy := [], ox_LockedAt := 0, ox_LastError := [],
              ox_PublishedAt := e_now env, ox_UpdatedAt := e_now env\<rparr>) (db_outbox d)\<rparr>))"

definition fail_outbox :: "time \<Rightarrow> string \<Rightarrow> int \<Rightarrow> duration \<Rightarrow> outbox_event \<Rightarrow> outbox_event" where
  "fail_outbox now message maxAttempts retryAfter model =
     model\<lparr>ox_Status := (if maxAttempts \<le> ox_Attempts model then OutboxFailed else OutboxPending),
           ox_AvailableAt := (if maxAttempts \<le> ox_Attempts model then now else now + retryAfter),
           ox_LockedBy := [], ox_LockedAt := 0, ox_LastError := trim_space message, ox_UpdatedAt := now\<rparr>"

definition MarkFailed :: "env \<Rightarrow> string \<Rightarrow> string \<Rightarrow> int \<Rightarrow> duration \<Rightarrow> unit ltx" where
  "MarkFailed env ID0 message maxAttempts retryAfter d =
     (let ID = trim_space ID0 in
      if ID = [] then Inr ((), d)
      else (case row_find ox_ID ID (db_outbox d) of
              None \<Rightarrow> Inl ErrRecordNotFound
            | Some model \<Rightarrow> Inr ((), d\<lparr>db_outbox := row_save ox_ID
                (fail_outbox (e_now env) message (if maxAttempts \<le> 0 then 10 else maxAttempts)
                   (if retryAfter \<le> 0 then second else retryAfter) model) (db_outbox d)\<rparr>)))"

section \<open>The queues as instances of the contract\<close>

interpretation jobq: work_queue mj_ID "\<lambda>r. mj_Status r = JobPending" "\<lambda>r. mj_Status r = JobProcessing"
  mj_AvailableAt mj_LockedAt mj_Attempts lock_job mj_CreatedAt
  by unfold_locales (auto simp: lock_job_def)

interpretation outq: work_queue ox_ID "\<lambda>r. ox_Status r = OutboxPending" "\<lambda>r. ox_Status r = OutboxProcessing"
  ox_AvailableAt ox_LockedAt ox_Attempts lock_outbox ox_CreatedAt
  by unfold_locales (auto simp: lock_outbox_def)

interpretation logq: work_queue cl_ID "\<lambda>r. cl_Status r = LogPending" "\<lambda>r. cl_Status r = LogProcessing"
  cl_AvailableAt cl_LockedAt cl_Attempts lock_log cl_SequenceID
  by unfold_locales (auto simp: lock_log_def)

lemma job_due_eq: "job_due = jobq.due"
  by (intro ext) (simp add: job_due_def jobq.due_def)

lemma outbox_due_eq: "outbox_due = outq.due"
  by (intro ext) (simp add: outbox_due_def outq.due_def)

lemma lock_ttl_pos: "0 < lock_ttl t"
  by (simp add: lock_ttl_def minute_def)

text \<open>The jobs of an order table with distinct identifiers, as a claim leaves them.\<close>

definition jobs_ok :: "db \<Rightarrow> bool" where
  "jobs_ok d \<longleftrightarrow> distinct (map mj_ID (db_jobs d))"

definition due_jobs :: "env \<Rightarrow> duration \<Rightarrow> db \<Rightarrow> match_job list" where
  "due_jobs env lockTTL d = sort_key mj_CreatedAt (filter (job_due (e_now env) (lock_ttl lockTTL)) (db_jobs d))"

lemma ClaimMatchJobs_claim:
  "ClaimMatchJobs env w limit ttl d =
     (let c = jobq.claim (worker_name ''matcher'' w) (limit_or limit 500 100) (e_now env) (lock_ttl ttl) (db_jobs d)
      in Inr (map modelToMatchJob (fst c), d\<lparr>db_jobs := snd c\<rparr>))"
  by (simp add: ClaimMatchJobs_def job_due_eq case_prod_unfold Let_def)

end
