(* ===== verification/EventLog.thy ===== *)
theory EventLog
  imports CommandLog
begin

text \<open>
  What the matchers and the projections keep about their progress: the log of match results
  (\<^verbatim>\<open>match_event_log_repository.go\<close>), the offset of each projection
  (\<^verbatim>\<open>projection_offset_repository.go\<close>), the snapshots of the matchers' books
  (\<^verbatim>\<open>matcher_snapshot_repository.go\<close>) and the leases that elect one owner of a task
  (\<^verbatim>\<open>lease_repository.go\<close>).
\<close>

section \<open>The log of match results\<close>

definition MatchEventTypeResult :: string where
  "MatchEventTypeResult = ''match_result''"

definition event_key :: "match_event_log \<Rightarrow> string \<times> uint64 \<times> string" where
  "event_key r = (me_Market r, me_SequenceID r, me_Type r)"

definition modelToMatchEventLog :: "match_event_log \<Rightarrow> match_event_log" where
  "modelToMatchEventLog model = model"

definition normal_event :: "match_event_log \<Rightarrow> match_event_log" where
  "normal_event item =
     item\<lparr>me_Market := to_upper (trim_space (me_Market item)),
          me_Type := (if trim_space (me_Type item) = [] then MatchEventTypeResult else trim_space (me_Type item)),
          me_PayloadHash := trim_space (me_PayloadHash item), me_Payload := trim_space (me_Payload item)\<rparr>"

definition AppendMatchEventLog :: "env \<Rightarrow> match_event_log \<Rightarrow> match_event_log ltx" where
  "AppendMatchEventLog env item0 =
     tx_bind (if me_ID item0 = [] then new_id env ''mel'' else tx_return (me_ID item0)) (\<lambda>eventID.
     let item = (normal_event item0)\<lparr>me_ID := eventID\<rparr> in
     tx_bind (fail_if (me_Market item = [] \<or> me_SequenceID item = 0 \<or> me_PayloadHash item = [] \<or>
                       me_Payload item = []) ErrIncomplete) (\<lambda>_ d.
     case row_find event_key (event_key item) (db_event_log d) of
       Some existing \<Rightarrow>
         if me_PayloadHash existing \<noteq> me_PayloadHash item then Inl ErrPayloadConflict
         else Inr (modelToMatchEventLog existing, d)
     | None \<Rightarrow>
         let model = item\<lparr>me_CreatedAt := e_now env\<rparr> in
         if row_exists me_ID (me_ID model) (db_event_log d) then Inl ErrDuplicateKey
         else Inr (modelToMatchEventLog model, d\<lparr>db_event_log := db_event_log d @ [model]\<rparr>)))"

definition result_rows :: "db \<Rightarrow> string \<Rightarrow> match_event_log list" where
  "result_rows d market = filter (\<lambda>r. me_Market r = market \<and> me_Type r = MatchEventTypeResult) (db_event_log d)"

definition ListMatchEventLogsAfter :: "db \<Rightarrow> string \<Rightarrow> uint64 \<Rightarrow> int \<Rightarrow> match_event_log list" where
  "ListMatchEventLogsAfter d market0 afterSequence limit =
     (let market = to_upper (trim_space market0) in
      if market = [] then []
      else map modelToMatchEventLog (take (limit_or limit 10000 1000)
             (sort_key me_SequenceID (filter (\<lambda>r. afterSequence < me_SequenceID r) (result_rows d market)))))"

definition GetMatchEventLog :: "db \<Rightarrow> string \<Rightarrow> uint64 \<Rightarrow> match_event_log option" where
  "GetMatchEventLog d market0 sequence =
     (let market = to_upper (trim_space market0) in
      if market = [] \<or> sequence = 0 then None
      else map_option modelToMatchEventLog
             (row_find event_key (market, sequence, MatchEventTypeResult) (db_event_log d)))"

definition LatestMatchEventSequence :: "db \<Rightarrow> string \<Rightarrow> uint64" where
  "LatestMatchEventSequence d market0 =
     (let market = to_upper (trim_space market0) in
      if market = [] then 0
      else (case result_rows d market of
              [] \<Rightarrow> 0
            | r # rs \<Rightarrow> fold max (map me_SequenceID rs) (me_SequenceID r)))"

section \<open>Projection offsets\<close>

definition normalizeProjectionName :: "string \<Rightarrow> string" where
  "normalizeProjectionName value = to_lower (trim_space value)"

definition offset_key :: "projection_offset \<Rightarrow> string \<times> string" where
  "offset_key r = (po_Projection r, po_Market r)"

definition modelToProjectionOffset :: "projection_offset \<Rightarrow> projection_offset" where
  "modelToProjectionOffset model = model"

definition GetProjectionOffset :: "db \<Rightarrow> string \<Rightarrow> string \<Rightarrow> projection_offset option" where
  "GetProjectionOffset d projection0 market0 =
     (let projection = normalizeProjectionName projection0; market = to_upper (trim_space market0) in
      if projection = [] \<or> market = [] then None
      else map_option modelToProjectionOffset (row_find offset_key (projection, market) (db_offsets d)))"

definition normal_offset :: "projection_offset \<Rightarrow> projection_offset" where
  "normal_offset item =
     (let market = to_upper (trim_space (po_Market item)) in
      item\<lparr>po_Projection := normalizeProjectionName (po_Projection item), po_Market := market,
           po_Stream := (if trim_space (po_Stream item) = [] then market else trim_space (po_Stream item)),
           po_LastEventID := trim_space (po_LastEventID item),
           po_LastEventHash := trim_space (po_LastEventHash item)\<rparr>)"

definition text_conflict :: "string \<Rightarrow> string \<Rightarrow> bool" where
  "text_conflict a b \<longleftrightarrow> a \<noteq> [] \<and> b \<noteq> [] \<and> a \<noteq> b"

definition AdvanceProjectionOffset :: "env \<Rightarrow> projection_offset \<Rightarrow> projection_offset ltx" where
  "AdvanceProjectionOffset env item0 d =
     (let item = normal_offset item0;
          model = item\<lparr>po_UpdatedAt := e_now env, po_LastAdvancedAt := e_now env\<rparr>
      in if po_Projection item = [] \<or> po_Market item = [] then Inl ErrIncomplete
         else (case row_find offset_key (offset_key item) (db_offsets d) of
                 None \<Rightarrow> Inr (modelToProjectionOffset model, d\<lparr>db_offsets := db_offsets d @ [model]\<rparr>)
               | Some existing \<Rightarrow>
                   if po_LastSequence item < po_LastSequence existing
                     then Inr (modelToProjectionOffset existing, d)
                   else if po_LastSequence item = po_LastSequence existing then
                     (if text_conflict (po_LastEventID existing) (po_LastEventID item) \<or>
                         text_conflict (po_LastEventHash existing) (po_LastEventHash item)
                      then Inl ErrProjectionConflict else Inr (modelToProjectionOffset existing, d))
                   else Inr (modelToProjectionOffset model,
                             d\<lparr>db_offsets := row_save offset_key model (db_offsets d)\<rparr>)))"

section \<open>Matcher snapshots\<close>

text \<open>The errors of \<^verbatim>\<open>internal/core/matching/snapshot.go\<close> pass through as one error.\<close>

definition snapshot_result :: "snapshot_error + 'a \<Rightarrow> 'a ltx" where
  "snapshot_result r = (case r of Inl _ \<Rightarrow> tx_fail ErrInvalidSnapshot | Inr x \<Rightarrow> tx_return x)"

definition SaveMatcherSnapshot :: "service \<Rightarrow> env \<Rightarrow> book_state_snapshot \<Rightarrow> unit ltx" where
  "SaveMatcherSnapshot s env snapshot0 =
     tx_bind (snapshot_result (if sn_Checksum snapshot0 = [] then Seal (sv_snapshot_digest s) snapshot0
                               else Inr snapshot0)) (\<lambda>snapshot.
     tx_bind (snapshot_result (Snapshot_Validate (sv_snapshot_digest s) snapshot)) (\<lambda>_.
     tx_bind (snapshot_result (EncodeBookStateSnapshot (sv_snapshot_digest s) (sv_snapshot_json s) snapshot)) (\<lambda>payload.
     tx_bind (new_id env ''msn'') (\<lambda>rowID d.
       if row_exists ms_ID rowID (db_snapshots d) then Inl ErrDuplicateKey
       else Inr ((), d\<lparr>db_snapshots := db_snapshots d @
         [\<lparr>ms_ID = rowID, ms_Market = to_upper (trim_space (sn_Market snapshot)),
           ms_SequenceID = sn_LastAppliedSequence snapshot, ms_SchemaVersion = sn_SchemaVersion snapshot,
           ms_Payload = payload, ms_Checksum = sn_Checksum snapshot,
           ms_CreatedAt = e_now env, ms_LastValidatedAt = e_now env\<rparr>]\<rparr>)))))"

text \<open>The row with the highest sequence number, the youngest of those; the first row wins a tie.\<close>

definition latest_snapshot_row :: "db \<Rightarrow> string \<Rightarrow> matcher_snapshot option" where
  "latest_snapshot_row d market =
     (case sort_key (\<lambda>r. (- int (unat (ms_SequenceID r)), - ms_CreatedAt r))
             (filter (\<lambda>r. ms_Market r = market) (db_snapshots d)) of
        [] \<Rightarrow> None | r # _ \<Rightarrow> Some r)"

definition LatestMatcherSnapshot :: "service \<Rightarrow> env \<Rightarrow> string \<Rightarrow> book_state_snapshot ltx" where
  "LatestMatcherSnapshot s env market0 =
     (let market = to_upper (trim_space market0) in
      tx_bind (fail_if (market = []) ErrRecordNotFound) (\<lambda>_.
      tx_bind (tx_get (\<lambda>d. latest_snapshot_row d market)) (\<lambda>found.
      case found of
        None \<Rightarrow> tx_fail ErrRecordNotFound
      | Some model \<Rightarrow>
          tx_bind (snapshot_result (DecodeBookStateSnapshot (sv_snapshot_digest s) (sv_snapshot_unjson s) (ms_Payload model))) (\<lambda>snapshot.
          tx_bind (tx_modify (\<lambda>d. d\<lparr>db_snapshots := row_update (\<lambda>r. ms_ID r = ms_ID model)
                    (\<lambda>r. r\<lparr>ms_LastValidatedAt := e_now env\<rparr>) (db_snapshots d)\<rparr>)) (\<lambda>_.
          tx_return snapshot)))))"

section \<open>Leases\<close>

definition TryAcquire :: "env \<Rightarrow> string \<Rightarrow> string \<Rightarrow> duration \<Rightarrow> db \<Rightarrow> bool \<times> db" where
  "TryAcquire env name0 owner0 ttl0 d =
     (let name = trim_space name0; owner = trim_space owner0;
          ttl = (if ttl0 \<le> 0 then minute else ttl0); now = e_now env;
          free = (\<lambda>r. sl_Name r = name \<and> (sl_ExpiresAt r \<le> now \<or> sl_Owner r = owner));
          lease = \<lparr>sl_Name = name, sl_Owner = owner, sl_ExpiresAt = now + ttl, sl_UpdatedAt = now\<rparr>
      in if name = [] \<or> owner = [] then (False, d)
         else if list_ex free (db_leases d) then
           (True, d\<lparr>db_leases := row_update free
              (\<lambda>r. r\<lparr>sl_Owner := owner, sl_ExpiresAt := now + ttl, sl_UpdatedAt := now\<rparr>) (db_leases d)\<rparr>)
         else if row_exists sl_Name name (db_leases d) then (False, d)
         else (True, d\<lparr>db_leases := db_leases d @ [lease]\<rparr>))"

definition Release :: "string \<Rightarrow> string \<Rightarrow> db \<Rightarrow> db" where
  "Release name0 owner0 d =
     (let name = trim_space name0; owner = trim_space owner0 in
      if name = [] \<or> owner = [] then d
      else d\<lparr>db_leases := row_delete (\<lambda>r. sl_Name r = name \<and> sl_Owner r = owner) (db_leases d)\<rparr>)"

end
