(* ===== verification/Trading.thy ===== *)
theory Trading
  imports JobQueue EventLog PriceLevels
begin

text \<open>
  Placing, matching and canceling orders (\<^verbatim>\<open>internal/app/orders/service.go\<close>). An operation of the
  service is one transaction on the store, followed by the messages it publishes; a failed
  transaction leaves the store as it was and publishes nothing.

  \<open>match_loop\<close> is the loop of \<^verbatim>\<open>match\<close>: it takes the best candidates from the store, matches them
  and saves the makers until the taker is filled or nothing matches. Its fuel is one more than the
  number of active orders; \<open>ErrDiverges\<close> would be its end. \<^verbatim>\<open>TradingLoop\<close> shows that it never is.
  The trade identifiers of a round are drawn from the identifiers of the environment.
\<close>

section \<open>Touched price levels\<close>

type_synonym level_tracker = "price_level_key list"

definition newLevelTracker :: level_tracker where
  "newLevelTracker = []"

definition touch :: "level_tracker \<Rightarrow> order \<Rightarrow> level_tracker" where
  "touch t item =
     (if o_Market item = [] \<or> o_Side item = SideOther [] \<or> o_Price item = [] then t
      else row_save key_text \<lparr>lk_Market = o_Market item, lk_Side = o_Side item, lk_Price = o_Price item\<rparr> t)"

definition tracker_keys :: "level_tracker \<Rightarrow> price_level_key list" where
  "tracker_keys t = t"

definition refreshBookProjection :: "env \<Rightarrow> string \<Rightarrow> level_tracker \<Rightarrow> price_level list ltx" where
  "refreshBookProjection env marketSymbol levels =
     (let keys = tracker_keys levels in
      tx_bind (RefreshPriceLevels env keys) (\<lambda>_.
      tx_bind (PruneStalePriceLevels marketSymbol) (\<lambda>_.
      tx_get (\<lambda>d. PriceLevelDeltas d keys))))"

record book_delta =
  bd_Market :: string
  bd_Version :: uint64
  bd_Levels :: "price_level list"

definition newBookDelta :: "string \<Rightarrow> uint64 \<Rightarrow> price_level list \<Rightarrow> book_delta" where
  "newBookDelta marketSymbol version levels =
     \<lparr>bd_Market = marketSymbol, bd_Version = version, bd_Levels = levels\<rparr>"

definition bookVersion :: "order \<Rightarrow> uint64 \<Rightarrow> uint64" where
  "bookVersion item sequence = (if 0 < sequence then sequence else o_SequenceID item)"

section \<open>Matching against the store\<close>

record match_state =
  mt_Taker :: order
  mt_Makers :: "order list"
  mt_Trades :: "trade list"
  mt_Levels :: level_tracker

fun save_makers :: "level_tracker \<Rightarrow> order list \<Rightarrow> level_tracker ltx" where
  "save_makers levels [] = tx_return levels"
| "save_makers levels (maker # makers) =
     tx_bind (SaveOrder maker) (\<lambda>_. save_makers (touch levels maker) makers)"

definition trade_id_source :: "env \<Rightarrow> db \<Rightarrow> trade_ids" where
  "trade_id_source env d = Some (\<lambda>k. ''trd_'' @ e_newid env (db_ids d + k))"

text \<open>One round: the new state, and whether the loop goes on.\<close>

definition match_round :: "env \<Rightarrow> side \<Rightarrow> match_state \<Rightarrow> (match_state \<times> bool) ltx" where
  "match_round env makerSide st =
     (let taker = mt_Taker st; matchTaker = effectiveMatchTaker taker in
      tx_bind (tx_get (\<lambda>d. ListMatchCandidates d (o_Market matchTaker) makerSide (o_Price matchTaker)
                            (o_ID matchTaker) 500)) (\<lambda>candidates.
      if candidates = [] then tx_return (st, False)
      else
        tx_bind (tx_get (trade_id_source env)) (\<lambda>ids.
        case MatchLimit matchTaker candidates ids (e_now env) of
          Inl _ \<Rightarrow> tx_fail ErrInvalidMatch
        | Inr r \<Rightarrow>
            let updated = (r_Taker r)\<lparr>o_Price := o_Price taker\<rparr> in
            tx_bind (tx_modify (\<lambda>d. d\<lparr>db_ids := db_ids d + length (r_Trades r)\<rparr>)) (\<lambda>_.
            tx_bind (save_makers (mt_Levels st) (r_Makers r)) (\<lambda>levels.
            let st1 = st\<lparr>mt_Makers := mt_Makers st @ r_Makers r, mt_Levels := levels\<rparr> in
            if r_Trades r \<noteq> [] then
              tx_return (st1\<lparr>mt_Trades := mt_Trades st @ r_Trades r, mt_Taker := updated,
                             mt_Levels := touch levels updated\<rparr>, True)
            else if o_Status updated = StatusExpired then
              tx_return (st1\<lparr>mt_Taker := updated, mt_Levels := touch levels updated\<rparr>, False)
            else tx_return (st1, False))))))"

fun match_loop :: "nat \<Rightarrow> env \<Rightarrow> side \<Rightarrow> match_state \<Rightarrow> match_state ltx" where
  "match_loop 0 env makerSide st = tx_fail ErrDiverges"
| "match_loop (Suc n) env makerSide st =
     (if Cmp (o_RemainingQuantity (mt_Taker st)) ''0'' > 0 then
        tx_bind (match_round env makerSide st) (\<lambda>(st', more).
        if more then match_loop n env makerSide st' else tx_return st')
      else tx_return st)"

definition final_taker :: "order \<Rightarrow> order" where
  "final_taker taker =
     (if Cmp (o_RemainingQuantity taker) ''0'' > 0 \<and> isImmediateOnly taker
        then taker\<lparr>o_Status := StatusExpired\<rparr>
      else if Cmp (o_RemainingQuantity taker) ''0'' > 0 \<and> o_Status taker \<noteq> StatusPartiallyFilled \<and>
              o_Status taker \<noteq> StatusExpired
        then taker\<lparr>o_Status := StatusOpen\<rparr> else taker)"

definition match_fuel :: "db \<Rightarrow> nat" where
  "match_fuel d = Suc (length (db_active d))"

text \<open>\<^verbatim>\<open>Service.match\<close>: the updated taker, the makers, the trades and the touched levels.\<close>

definition match_order :: "env \<Rightarrow> order \<Rightarrow> level_tracker \<Rightarrow> match_state ltx" where
  "match_order env taker levels =
     tx_bind (tx_get match_fuel) (\<lambda>fuel.
     tx_bind (match_loop fuel env (oppositeSide (o_Side taker))
        \<lparr>mt_Taker = taker, mt_Makers = [], mt_Trades = [], mt_Levels = touch levels taker\<rparr>) (\<lambda>st.
     let taker' = final_taker (mt_Taker st) in
     tx_return (st\<lparr>mt_Taker := taker', mt_Levels := touch (mt_Levels st) taker'\<rparr>)))"

text \<open>\<^verbatim>\<open>matchWithBook\<close> rebuilds the order book from the active orders and applies the taker to it.\<close>

definition matchWithBook :: "env \<Rightarrow> order \<Rightarrow> level_tracker \<Rightarrow> match_state ltx" where
  "matchWithBook env taker levels0 =
     (let levels = touch levels0 taker in
      tx_bind (tx_get (\<lambda>d. ListActiveOrdersForUpdate d (o_Market taker) (o_ID taker) 0)) (\<lambda>active.
      tx_bind (tx_get (trade_id_source env)) (\<lambda>ids.
      case Load (NewMarketBook (o_Market taker) (o_BaseAsset taker) (o_QuoteAsset taker)) active of
        (Inl _, _) \<Rightarrow> tx_fail ErrInvalidMatch
      | (Inr _, book) \<Rightarrow>
          (case fst (Apply book taker ids (e_now env)) of
             Inl _ \<Rightarrow> tx_fail ErrInvalidMatch
           | Inr r \<Rightarrow>
               let updated = (r_Taker r)\<lparr>o_Price := o_Price taker\<rparr> in
               tx_bind (tx_modify (\<lambda>d. d\<lparr>db_ids := db_ids d + length (r_Trades r)\<rparr>)) (\<lambda>_.
               tx_return \<lparr>mt_Taker = updated, mt_Makers = r_Makers r, mt_Trades = r_Trades r,
                          mt_Levels = fold (\<lambda>m t. touch t m) (r_Makers r) (touch levels updated)\<rparr>)))))"

definition captureMatcherSnapshot ::
  "service \<Rightarrow> env \<Rightarrow> string \<Rightarrow> string \<Rightarrow> string \<Rightarrow> uint64 \<Rightarrow> book_state_snapshot ltx" where
  "captureMatcherSnapshot s env marketSymbol baseAsset quoteAsset sequence =
     tx_bind (tx_get (\<lambda>d. ListActiveOrdersForUpdate d marketSymbol [] 0)) (\<lambda>active.
     case Load (NewMarketBook marketSymbol baseAsset quoteAsset) active of
       (Inl _, _) \<Rightarrow> tx_fail ErrInvalidMatch
     | (Inr _, book) \<Rightarrow> tx_return (CaptureState (sv_snapshot_digest s) book sequence (e_now env)))"

section \<open>Recording a match\<close>

record match_outcome =
  mo_Order :: order
  mo_Trades :: "trade list"

text \<open>The part the operations share: the taker is saved, its trades settled, the funds of an expired
  remainder released, trades and events recorded.\<close>

definition release_unfilled :: "env \<Rightarrow> order \<Rightarrow> unit ltx" where
  "release_unfilled env updated =
     (if shouldReleaseUnfilled updated
      then tx_bind (new_id env ''bev'') (ReleaseOrderFunds env updated) else tx_return ())"

definition record_match :: "env \<Rightarrow> match_state \<Rightarrow> unit ltx" where
  "record_match env st =
     tx_bind (SaveOrder (mt_Taker st)) (\<lambda>_.
     tx_bind (SettleTrades env (mt_Trades st)) (\<lambda>_.
     tx_bind (release_unfilled env (mt_Taker st)) (\<lambda>_.
     tx_bind (CreateTrades (mt_Trades st)) (\<lambda>_.
     tx_bind (matchEvents env (mt_Taker st) (mt_Makers st) (mt_Trades st)) CreateOrderEvents))))"

definition activate_stop :: "env \<Rightarrow> order \<Rightarrow> level_tracker \<Rightarrow> (match_outcome \<times> level_tracker) ltx" where
  "activate_stop env item levels =
     tx_bind (match_order env (item\<lparr>o_Status := StatusOpen, o_UpdatedAt := e_now env\<rparr>) levels) (\<lambda>st.
     tx_bind (SaveOrder (mt_Taker st)) (\<lambda>_.
     tx_bind (SettleTrades env (mt_Trades st)) (\<lambda>_.
     tx_bind (CreateTrades (mt_Trades st)) (\<lambda>_.
     tx_bind (matchEvents env (mt_Taker st) (mt_Makers st) (mt_Trades st)) (\<lambda>events.
     tx_bind (CreateOrderEvents events) (\<lambda>_.
     tx_return (\<lparr>mo_Order = mt_Taker st, mo_Trades = mt_Trades st\<rparr>, mt_Levels st)))))))"

fun activate_stops ::
  "service \<Rightarrow> env \<Rightarrow> string \<Rightarrow> order list \<Rightarrow> level_tracker \<Rightarrow> (match_outcome list \<times> level_tracker) ltx" where
  "activate_stops s env lastPrice [] levels = tx_return ([], levels)"
| "activate_stops s env lastPrice (item # items) levels =
     (if \<not> stopTriggered item lastPrice then activate_stops s env lastPrice items levels
      else
        tx_bind (tx_get (\<lambda>d. validatePriceBand s d item)) (\<lambda>band.
        tx_bind (lift_result band) (\<lambda>_.
        tx_bind (activate_stop env item levels) (\<lambda>(result, levels1).
        tx_bind (activate_stops s env lastPrice items levels1) (\<lambda>(results, levels2).
        tx_return (result # results, levels2))))))"

definition activateTriggeredStops ::
  "service \<Rightarrow> env \<Rightarrow> string \<Rightarrow> string \<Rightarrow> level_tracker \<Rightarrow> (match_outcome list \<times> level_tracker) ltx" where
  "activateTriggeredStops s env marketSymbol lastPrice levels =
     (if lastPrice = [] then tx_return ([], levels)
      else tx_bind (tx_get (\<lambda>d. ListPendingStops d marketSymbol 500)) (\<lambda>pending.
           activate_stops s env lastPrice pending levels))"

definition appendMatchEventLog ::
  "service \<Rightarrow> env \<Rightarrow> uint64 \<Rightarrow> order \<Rightarrow> order list \<Rightarrow> trade list \<Rightarrow> price_level list \<Rightarrow> unit ltx" where
  "appendMatchEventLog s env sequence taker makers trades levels =
     (if sequence = 0 then tx_return ()
      else (case sv_event_json s \<lparr>mp_Taker = taker, mp_Makers = makers, mp_Trades = trades, mp_Levels = levels\<rparr> of
              None \<Rightarrow> tx_fail ErrEncoding
            | Some raw \<Rightarrow>
                tx_bind (AppendMatchEventLog env
                  \<lparr>me_ID = [], me_Market = o_Market taker, me_SequenceID = sequence,
                   me_Type = MatchEventTypeResult, me_PayloadHash = sv_sha256 s raw, me_Payload = raw,
                   me_CreatedAt = 0\<rparr>) (\<lambda>_. tx_return ())))"

definition save_snapshot_if :: "bool \<Rightarrow> service \<Rightarrow> env \<Rightarrow> order \<Rightarrow> uint64 \<Rightarrow> unit ltx" where
  "save_snapshot_if saveSnapshot s env taker sequence =
     (if saveSnapshot then
        tx_bind (captureMatcherSnapshot s env (o_Market taker) (o_BaseAsset taker) (o_QuoteAsset taker) sequence)
          (SaveMatcherSnapshot s env)
      else tx_return ())"

definition maxResultSequence :: "match_outcome list \<Rightarrow> uint64" where
  "maxResultSequence results = foldl (\<lambda>m r. if m < o_SequenceID (mo_Order r) then o_SequenceID (mo_Order r) else m) 0 results"

end
