(* ===== verification/OrderService.thy ===== *)
theory OrderService
  imports Trading Candles
begin

text \<open>
  The operations of \<^verbatim>\<open>orders.Service\<close> on orders: \<^verbatim>\<open>Place\<close>, \<^verbatim>\<open>Cancel\<close>, the three ways of matching an
  order, \<^verbatim>\<open>TriggerStops\<close>, and the queries. An operation takes the service, the environment and the
  store, and returns its result or error, the new store and the messages it published.
\<close>

section \<open>Messages\<close>

record socket_event =
  se_Type :: string
  se_Market :: string
  se_UserID :: string
  se_Version :: uint64
  se_Order :: "order option"
  se_Trades :: "trade list"
  se_Bids :: "price_level list"
  se_Asks :: "price_level list"
  se_Balance :: "balance option"
  se_Withdrawal :: "withdrawal option"
  se_Wallet :: "wallet option"
  se_CreatedAt :: time

definition plain_message :: "env \<Rightarrow> string \<Rightarrow> string \<Rightarrow> string \<Rightarrow> socket_event" where
  "plain_message env eventType market userID =
     \<lparr>se_Type = eventType, se_Market = market, se_UserID = userID, se_Version = 0, se_Order = None,
      se_Trades = [], se_Bids = [], se_Asks = [], se_Balance = None, se_Withdrawal = None, se_Wallet = None,
      se_CreatedAt = e_now env\<rparr>"

definition publishOrderUpdate :: "service \<Rightarrow> env \<Rightarrow> string \<Rightarrow> match_outcome \<Rightarrow> socket_event list" where
  "publishOrderUpdate s env eventType0 r =
     (let item = mo_Order r; trades = mo_Trades r;
          eventType = (if o_Status item = StatusFilled then ''exchange.order_filled''
                       else if o_Status item = StatusExpired then ''exchange.order_expired'' else eventType0)
      in if \<not> sv_publish s then []
         else [(plain_message env eventType (o_Market item) (o_UserID item))\<lparr>se_Order := Some item, se_Trades := trades\<rparr>] @
              (if trades \<noteq> [] then
                 [(plain_message env ''exchange.trades_created'' (o_Market item) (o_UserID item))\<lparr>se_Trades := trades\<rparr>]
               else []) @
              [(plain_message env ''exchange.orderbook_updated'' (o_Market item) [])\<lparr>se_Version := o_SequenceID item\<rparr>])"

definition publishOrderBookDelta :: "service \<Rightarrow> env \<Rightarrow> book_delta \<Rightarrow> socket_event list" where
  "publishOrderBookDelta s env delta =
     (if \<not> sv_publish s \<or> trim_space (bd_Market delta) = [] \<or> bd_Levels delta = [] then []
      else [(plain_message env ''exchange.orderbook_delta'' (bd_Market delta) [])
              \<lparr>se_Version := bd_Version delta,
               se_Bids := filter (\<lambda>l. pl_Side l = SideBuy) (bd_Levels delta),
               se_Asks := filter (\<lambda>l. pl_Side l = SideSell) (bd_Levels delta)\<rparr>])"

definition publish_all :: "service \<Rightarrow> env \<Rightarrow> string \<Rightarrow> match_outcome list \<Rightarrow> book_delta list \<Rightarrow> socket_event list" where
  "publish_all s env eventType results deltas =
     concat (map (publishOrderUpdate s env eventType) results) @ concat (map (publishOrderBookDelta s env) deltas)"

text \<open>A transaction of the service: its value carries what is to be published.\<close>

definition service_tx ::
  "('a \<Rightarrow> socket_event list) \<Rightarrow> 'a ltx \<Rightarrow> db \<Rightarrow> (ledger_error + 'a) \<times> db \<times> socket_event list" where
  "service_tx messages m d =
     (case run_tx m d of
        (Inl e, d') \<Rightarrow> (Inl e, d', [])
      | (Inr x, d') \<Rightarrow> (Inr x, d', messages x))"

section \<open>Placing an order\<close>

record placed =
  pd_Result :: match_outcome
  pd_Publish :: "match_outcome list"
  pd_Deltas :: "book_delta list"

definition placed_existing :: "order \<Rightarrow> placed" where
  "placed_existing existing = \<lparr>pd_Result = \<lparr>mo_Order = existing, mo_Trades = []\<rparr>, pd_Publish = [], pd_Deltas = []\<rparr>"

definition placed_waiting :: "order \<Rightarrow> placed" where
  "placed_waiting item =
     \<lparr>pd_Result = \<lparr>mo_Order = item, mo_Trades = []\<rparr>, pd_Publish = [\<lparr>mo_Order = item, mo_Trades = []\<rparr>], pd_Deltas = []\<rparr>"

definition status_text :: "status \<Rightarrow> string" where
  "status_text st =
     (case st of
        StatusPendingMatch \<Rightarrow> ''pending_match'' | StatusPendingStop \<Rightarrow> ''pending_stop''
      | StatusOpen \<Rightarrow> ''open'' | StatusPartiallyFilled \<Rightarrow> ''partially_filled'' | StatusFilled \<Rightarrow> ''filled''
      | StatusCanceled \<Rightarrow> ''canceled'' | StatusExpired \<Rightarrow> ''expired'' | StatusRejected \<Rightarrow> ''rejected''
      | StatusOther t \<Rightarrow> t)"

text \<open>Looking for an earlier command or order of the same identity; \<open>Inl\<close> is the order to return,
  \<open>Inr\<close> tells whether the command exists.\<close>

definition find_earlier_command :: "string \<Rightarrow> string \<Rightarrow> (order + bool) ltx" where
  "find_earlier_command commandID payloadHash =
     (if commandID = [] then tx_return (Inr False)
      else tx_bind (tx_get (\<lambda>d. GetOrderCommandForUpdate d commandID)) (\<lambda>found.
        case found of
          None \<Rightarrow> tx_return (Inr False)
        | Some cmd \<Rightarrow>
            if oc_PayloadHash cmd \<noteq> payloadHash then tx_fail ErrInvalidOrder
            else if trim_space (oc_OrderID cmd) \<noteq> [] then
              tx_bind (tx_get (\<lambda>d. getOrder d (oc_OrderID cmd))) (\<lambda>existing.
              case existing of Some x \<Rightarrow> tx_return (Inl x) | None \<Rightarrow> tx_return (Inr True))
            else tx_return (Inr True)))"

definition find_earlier_order :: "env \<Rightarrow> string \<Rightarrow> bool \<Rightarrow> order \<Rightarrow> order option ltx" where
  "find_earlier_order env commandID commandExists item =
     (if o_ClientOrderID item = [] then tx_return None
      else tx_bind (tx_get (\<lambda>d. FindOrderByClientID d (o_UserID item) (o_ClientOrderID item))) (\<lambda>found.
        case found of
          None \<Rightarrow> tx_return None
        | Some existing \<Rightarrow>
            if \<not> sameOrderCommandPayload existing item then tx_fail ErrInvalidOrder
            else if commandExists then
              tx_bind (CompleteOrderCommand env commandID (o_ID existing) ''duplicate'') (\<lambda>_.
              tx_bind (ApplyOrderCommandLog env commandID (o_ID existing)) (\<lambda>_.
              tx_return (Some existing)))
            else tx_return (Some existing)))"

definition new_command :: "string \<Rightarrow> string \<times> string \<Rightarrow> order \<Rightarrow> order_command" where
  "new_command commandID payload item =
     \<lparr>oc_ID = commandID, oc_ClientOrderID = o_ClientOrderID item, oc_UserID = o_UserID item,
      oc_Market = o_Market item, oc_Type = OrderCommandTypeNewOrder, oc_PayloadHash = snd payload,
      oc_Payload = fst payload, oc_Status = CommandPending, oc_Outcome = [], oc_OrderID = [],
      oc_Attempts = 0, oc_LastError = [], oc_QuarantinedAt = 0, oc_CreatedAt = 0, oc_UpdatedAt = 0\<rparr>"

definition new_log :: "string \<Rightarrow> string \<times> string \<Rightarrow> order \<Rightarrow> command_log" where
  "new_log commandID payload item =
     \<lparr>cl_ID = [], cl_CommandID = commandID, cl_SequenceID = 0, cl_Market = o_Market item,
      cl_Type = OrderCommandTypeNewOrder, cl_Key = o_Market item, cl_PayloadHash = snd payload,
      cl_Payload = fst payload, cl_Status = LogPending, cl_Attempts = 0, cl_AvailableAt = 0, cl_LockedBy = [],
      cl_LockedAt = 0, cl_LastError = [], cl_AppliedOrderID = [], cl_AppliedAt = 0, cl_QuarantinedAt = 0,
      cl_CreatedAt = 0, cl_UpdatedAt = 0\<rparr>"

text \<open>Recording the command, checking the order against the market, and accepting it: it gets a
  sequence number, is stored, its funds are reserved and the event is recorded.\<close>

definition accept_order :: "service \<Rightarrow> env \<Rightarrow> string \<Rightarrow> bool \<Rightarrow> string \<times> string \<Rightarrow> order \<Rightarrow> order ltx" where
  "accept_order s env commandID commandExists payload item0 =
     tx_bind (if commandExists then tx_return () else CreateOrderCommand env (new_command commandID payload item0)) (\<lambda>_.
     tx_bind (AppendOrderCommandLog env (new_log commandID payload item0)) (\<lambda>_.
     tx_bind (tx_get (\<lambda>d. validatePriceBand s d item0)) (\<lambda>band.
     tx_bind (lift_result band) (\<lambda>_.
     tx_bind (tx_get (\<lambda>d. validateStopPlacement s d item0)) (\<lambda>stop.
     tx_bind (lift_result stop) (\<lambda>_.
     tx_bind (NextOrderSequence env (o_Market item0)) (\<lambda>seq.
     let item = item0\<lparr>o_SequenceID := seq\<rparr> in
     tx_bind (CreateOrder item) (\<lambda>_.
     tx_bind (new_id env ''bev'') (\<lambda>bev.
     tx_bind (ReserveOrderFunds env item bev) (\<lambda>_.
     tx_bind (newOrderEvent env item EventOrderAccepted []) (\<lambda>event.
     tx_bind (CreateOrderEvents [event]) (\<lambda>_.
     tx_return item))))))))))))"

definition finish_command :: "env \<Rightarrow> string \<Rightarrow> bool \<Rightarrow> order \<Rightarrow> unit ltx" where
  "finish_command env commandID applied item =
     tx_bind (CompleteOrderCommand env commandID (o_ID item) (status_text (o_Status item))) (\<lambda>_.
     if applied then ApplyOrderCommandLog env commandID (o_ID item) else tx_return ())"

text \<open>Matching at a later time: the order waits for a worker, which a match job or the command log tells.\<close>

definition place_async :: "service \<Rightarrow> env \<Rightarrow> string \<Rightarrow> order \<Rightarrow> placed ltx" where
  "place_async s env commandID item0 =
     (let item = item0\<lparr>o_Status := StatusPendingMatch, o_UpdatedAt := e_now env\<rparr>;
          logged = commandLogMatchingEnabled s in
      tx_bind (SaveOrder item) (\<lambda>_.
      tx_bind (if logged then tx_return () else CreateMatchJob env (o_ID item) (o_Market item)) (\<lambda>_.
      tx_bind (finish_command env commandID (\<not> logged) item) (\<lambda>_.
      tx_return (placed_waiting item)))))"

definition place_now :: "service \<Rightarrow> env \<Rightarrow> string \<Rightarrow> order \<Rightarrow> placed ltx" where
  "place_now s env commandID item =
     tx_bind (match_order env item newLevelTracker) (\<lambda>st.
     tx_bind (record_match env st) (\<lambda>_.
     let updated = mt_Taker st; trades = mt_Trades st in
     tx_bind (activateTriggeredStops s env (o_Market updated) (lastTradePrice trades) (mt_Levels st)) (\<lambda>(activated, levels).
     tx_bind (refreshBookProjection env (o_Market updated) levels) (\<lambda>deltas.
     tx_bind (finish_command env commandID True updated) (\<lambda>_.
     tx_return \<lparr>pd_Result = \<lparr>mo_Order = updated, mo_Trades = trades\<rparr>,
       pd_Publish = \<lparr>mo_Order = updated, mo_Trades = trades\<rparr> # activated,
       pd_Deltas = [newBookDelta (o_Market updated) (o_SequenceID updated) deltas]\<rparr>)))))"

definition place_tx :: "service \<Rightarrow> env \<Rightarrow> string \<Rightarrow> string \<times> string \<Rightarrow> order \<Rightarrow> placed ltx" where
  "place_tx s env commandID payload item0 =
     tx_bind (find_earlier_command commandID (snd payload)) (\<lambda>earlier.
     case earlier of
       Inl existing \<Rightarrow> tx_return (placed_existing existing)
     | Inr commandExists \<Rightarrow>
         tx_bind (find_earlier_order env commandID commandExists item0) (\<lambda>found.
         case found of
           Some existing \<Rightarrow> tx_return (placed_existing existing)
         | None \<Rightarrow>
             tx_bind (accept_order s env commandID commandExists payload item0) (\<lambda>item.
             if o_Status item \<noteq> StatusPendingStop \<and> asyncMatchingEnabled s then place_async s env commandID item
             else if o_Status item = StatusPendingStop then
               tx_bind (finish_command env commandID True item) (\<lambda>_. tx_return (placed_waiting item))
             else place_now s env commandID item)))"

text \<open>The identifier of the order is drawn before the transaction; a refused request draws none.\<close>

definition Place :: "service \<Rightarrow> env \<Rightarrow> place_request \<Rightarrow> db \<Rightarrow> (ledger_error + match_outcome) \<times> db \<times> socket_event list" where
  "Place s env req d =
     (case buildOrder s env (''ord_'' @ e_newid env (db_ids d)) req of
        Inl e \<Rightarrow> (Inl e, d, [])
      | Inr item \<Rightarrow>
          (case orderCommandPayload s item of
             Inl e \<Rightarrow> (Inl e, d, [])
           | Inr payload \<Rightarrow>
               (case service_tx (\<lambda>p. publish_all s env ''exchange.order_accepted'' (pd_Publish p) (pd_Deltas p))
                       (place_tx s env (orderCommandID req item) payload item) (d\<lparr>db_ids := Suc (db_ids d)\<rparr>) of
                  (Inl e, d', ms) \<Rightarrow> (Inl e, d', ms)
                | (Inr p, d', ms) \<Rightarrow> (Inr (pd_Result p), d', ms))))"

section \<open>Canceling\<close>

definition cancel_tx :: "service \<Rightarrow> env \<Rightarrow> string \<Rightarrow> string \<Rightarrow> (order \<times> book_delta option) ltx" where
  "cancel_tx s env ordID userID =
     tx_bind (not_found_as ErrOrderNotFound (find_order ordID)) (\<lambda>item0.
     if trim_space userID \<noteq> [] \<and> o_UserID item0 \<noteq> userID then tx_fail ErrInvalidOrder
     else if \<not> cancelable (o_Status item0) then
       (if cancelAlreadyTerminal (o_Status item0) then tx_return (item0, None) else tx_fail ErrOrderNotCancelable)
     else
       (let item = item0\<lparr>o_Status := StatusCanceled, o_RemainingQuantity := ''0'', o_UpdatedAt := e_now env\<rparr> in
        tx_bind (SaveOrder item) (\<lambda>_.
        tx_bind (new_id env ''bev'') (\<lambda>bev.
        tx_bind (ReleaseOrderFunds env item0 bev) (\<lambda>_.
        tx_bind (newOrderEvent env item EventOrderCanceled []) (\<lambda>event.
        tx_bind (CreateOrderEvents [event]) (\<lambda>_.
        tx_bind (refreshBookProjection env (o_Market item) (touch newLevelTracker item)) (\<lambda>deltas.
        tx_return (item, Some (newBookDelta (o_Market item) (o_SequenceID item) deltas)))))))))) "

definition cancel_messages :: "service \<Rightarrow> env \<Rightarrow> order \<times> book_delta option \<Rightarrow> socket_event list" where
  "cancel_messages s env r =
     (case snd r of
        None \<Rightarrow> []
      | Some delta \<Rightarrow> publishOrderUpdate s env ''exchange.order_canceled'' \<lparr>mo_Order = fst r, mo_Trades = []\<rparr> @
                     publishOrderBookDelta s env delta)"

definition Cancel_order ::
  "service \<Rightarrow> env \<Rightarrow> string \<Rightarrow> string \<Rightarrow> db \<Rightarrow> (ledger_error + order) \<times> db \<times> socket_event list" where
  "Cancel_order s env ordID userID d =
     (case service_tx (cancel_messages s env) (cancel_tx s env ordID userID) d of
        (Inl e, d', ms) \<Rightarrow> (Inl e, d', ms) | (Inr r, d', ms) \<Rightarrow> (Inr (fst r), d', ms))"

definition Get_order :: "db \<Rightarrow> string \<Rightarrow> ledger_error + order" where
  "Get_order d ordID = (case getOrder d ordID of None \<Rightarrow> Inl ErrOrderNotFound | Some x \<Rightarrow> Inr x)"

section \<open>Matching a waiting order\<close>

definition start_matching :: "env \<Rightarrow> order \<Rightarrow> order option" where
  "start_matching env item =
     (case o_Status item of
        StatusPendingMatch \<Rightarrow> Some (item\<lparr>o_Status := StatusOpen, o_UpdatedAt := e_now env\<rparr>)
      | StatusOpen \<Rightarrow> Some item
      | StatusPartiallyFilled \<Rightarrow> Some item
      | _ \<Rightarrow> None)"

definition match_order_tx :: "service \<Rightarrow> env \<Rightarrow> string \<Rightarrow> placed ltx" where
  "match_order_tx s env ordID =
     tx_bind (not_found_as ErrOrderNotFound (find_order ordID)) (\<lambda>item0.
     case start_matching env item0 of
       None \<Rightarrow> tx_return (placed_existing item0)
     | Some item \<Rightarrow>
         tx_bind (match_order env item newLevelTracker) (\<lambda>st.
         tx_bind (record_match env st) (\<lambda>_.
         let updated = mt_Taker st; trades = mt_Trades st in
         tx_bind (activateTriggeredStops s env (o_Market updated) (lastTradePrice trades) (mt_Levels st)) (\<lambda>(activated, levels).
         tx_bind (refreshBookProjection env (o_Market updated) levels) (\<lambda>deltas.
         tx_return \<lparr>pd_Result = \<lparr>mo_Order = updated, mo_Trades = trades\<rparr>,
           pd_Publish = \<lparr>mo_Order = updated, mo_Trades = trades\<rparr> # activated,
           pd_Deltas = [newBookDelta (o_Market updated) (o_SequenceID updated) deltas]\<rparr>)))))"

definition placed_result ::
  "(ledger_error + placed) \<times> db \<times> socket_event list \<Rightarrow> (ledger_error + match_outcome) \<times> db \<times> socket_event list" where
  "placed_result r = (case r of (Inl e, d, ms) \<Rightarrow> (Inl e, d, ms) | (Inr p, d, ms) \<Rightarrow> (Inr (pd_Result p), d, ms))"

definition MatchOrder :: "service \<Rightarrow> env \<Rightarrow> string \<Rightarrow> db \<Rightarrow> (ledger_error + match_outcome) \<times> db \<times> socket_event list" where
  "MatchOrder s env ordID d =
     placed_result (service_tx (\<lambda>p. publish_all s env ''exchange.order_updated'' (pd_Publish p) (pd_Deltas p))
       (match_order_tx s env ordID) d)"

definition match_with_book_tx :: "service \<Rightarrow> env \<Rightarrow> string \<Rightarrow> uint64 \<Rightarrow> bool \<Rightarrow> placed ltx" where
  "match_with_book_tx s env ordID sequence saveSnapshot =
     tx_bind (not_found_as ErrOrderNotFound (find_order ordID)) (\<lambda>item0.
     case start_matching env item0 of
       None \<Rightarrow> tx_return (placed_existing item0)
     | Some item \<Rightarrow>
         tx_bind (matchWithBook env item newLevelTracker) (\<lambda>st.
         tx_bind (tx_each SaveOrder (mt_Makers st)) (\<lambda>_.
         tx_bind (record_match env st) (\<lambda>_.
         let updated = mt_Taker st; trades = mt_Trades st in
         tx_bind (activateTriggeredStops s env (o_Market updated) (lastTradePrice trades) (mt_Levels st)) (\<lambda>(activated, levels).
         tx_bind (refreshBookProjection env (o_Market updated) levels) (\<lambda>deltas.
         tx_bind (appendMatchEventLog s env sequence updated (mt_Makers st) trades deltas) (\<lambda>_.
         tx_bind (save_snapshot_if saveSnapshot s env updated sequence) (\<lambda>_.
         tx_return \<lparr>pd_Result = \<lparr>mo_Order = updated, mo_Trades = trades\<rparr>,
           pd_Publish = \<lparr>mo_Order = updated, mo_Trades = trades\<rparr> # activated,
           pd_Deltas = [newBookDelta (o_Market updated) (bookVersion updated sequence) deltas]\<rparr>))))))))"

definition MatchOrderWithBookAtSequence ::
  "service \<Rightarrow> env \<Rightarrow> string \<Rightarrow> uint64 \<Rightarrow> bool \<Rightarrow> db \<Rightarrow> (ledger_error + match_outcome) \<times> db \<times> socket_event list" where
  "MatchOrderWithBookAtSequence s env ordID sequence saveSnapshot d =
     placed_result (service_tx (\<lambda>p. publish_all s env ''exchange.order_updated'' (pd_Publish p) (pd_Deltas p))
       (match_with_book_tx s env ordID sequence saveSnapshot) d)"

definition MatchOrderWithBook :: "service \<Rightarrow> env \<Rightarrow> string \<Rightarrow> db \<Rightarrow> (ledger_error + match_outcome) \<times> db \<times> socket_event list" where
  "MatchOrderWithBook s env ordID = MatchOrderWithBookAtSequence s env ordID 0 False"

section \<open>Persisting the result of a resident book\<close>

record book_match_persistence =
  bp_Result :: match_outcome
  bp_ReloadBook :: bool

record persisted =
  ps_Out :: book_match_persistence
  ps_Publish :: "match_outcome list"
  ps_Deltas :: "book_delta list"

fun save_result_makers :: "level_tracker \<Rightarrow> order list \<Rightarrow> level_tracker ltx" where
  "save_result_makers levels [] = tx_return levels"
| "save_result_makers levels (maker # makers) =
     tx_bind (not_found_as ErrOrderNotFound (find_order (o_ID maker))) (\<lambda>_.
     tx_bind (SaveOrder maker) (\<lambda>_.
     save_result_makers (touch levels maker) makers))"

definition persist_tx :: "service \<Rightarrow> env \<Rightarrow> match_result \<Rightarrow> uint64 \<Rightarrow> bool \<Rightarrow> persisted ltx" where
  "persist_tx s env r sequence saveSnapshot =
     (let taker = r_Taker r; trades = r_Trades r; makers = r_Makers r in
      tx_bind (not_found_as ErrOrderNotFound (find_order (o_ID taker))) (\<lambda>current.
      if o_Status current \<notin> {StatusPendingMatch, StatusOpen, StatusPartiallyFilled} then
        tx_return \<lparr>ps_Out = \<lparr>bp_Result = \<lparr>mo_Order = current, mo_Trades = []\<rparr>, bp_ReloadBook = False\<rparr>,
                   ps_Publish = [], ps_Deltas = []\<rparr>
      else
        tx_bind (save_result_makers (touch newLevelTracker taker) makers) (\<lambda>levels.
        tx_bind (record_match env \<lparr>mt_Taker = taker, mt_Makers = makers, mt_Trades = trades, mt_Levels = levels\<rparr>) (\<lambda>_.
        tx_bind (activateTriggeredStops s env (o_Market taker) (lastTradePrice trades) levels) (\<lambda>(activated, levels').
        tx_bind (refreshBookProjection env (o_Market taker) levels') (\<lambda>deltas.
        tx_bind (appendMatchEventLog s env sequence taker makers trades deltas) (\<lambda>_.
        tx_bind (save_snapshot_if saveSnapshot s env taker sequence) (\<lambda>_.
        let out = \<lparr>mo_Order = taker, mo_Trades = trades\<rparr> in
        tx_return \<lparr>ps_Out = \<lparr>bp_Result = out, bp_ReloadBook = (activated \<noteq> [])\<rparr>,
          ps_Publish = out # activated,
          ps_Deltas = [newBookDelta (o_Market taker) (bookVersion taker sequence) deltas]\<rparr>))))))))"

definition PersistBookMatchResult ::
  "service \<Rightarrow> env \<Rightarrow> match_result \<Rightarrow> uint64 \<Rightarrow> bool \<Rightarrow> db \<Rightarrow>
     (ledger_error + book_match_persistence) \<times> db \<times> socket_event list" where
  "PersistBookMatchResult s env r sequence saveSnapshot d =
     (case service_tx (\<lambda>p. publish_all s env ''exchange.order_updated'' (ps_Publish p) (ps_Deltas p))
             (persist_tx s env r sequence saveSnapshot) d of
        (Inl e, d', ms) \<Rightarrow> (Inl e, d', ms)
      | (Inr p, d', ms) \<Rightarrow> (Inr (ps_Out p), d', ms))"

section \<open>Triggering stops\<close>

definition trigger_tx :: "service \<Rightarrow> env \<Rightarrow> string \<Rightarrow> string \<Rightarrow> (match_outcome list \<times> book_delta) ltx" where
  "trigger_tx s env marketSymbol lastPrice =
     tx_bind (activateTriggeredStops s env marketSymbol lastPrice newLevelTracker) (\<lambda>(activated, levels).
     tx_bind (refreshBookProjection env marketSymbol levels) (\<lambda>deltas.
     tx_return (activated, newBookDelta marketSymbol (maxResultSequence activated) deltas)))"

definition TriggerStops ::
  "service \<Rightarrow> env \<Rightarrow> string \<Rightarrow> string \<Rightarrow> db \<Rightarrow> (ledger_error + match_outcome list) \<times> db \<times> socket_event list" where
  "TriggerStops s env market lastPrice0 d =
     (let marketSymbol = normalizeMarket market in
      case parsePositiveDecimal lastPrice0 of
        Inl e \<Rightarrow> (Inl e, d, [])
      | Inr lastPrice \<Rightarrow>
          (case market_Get (sv_markets s) marketSymbol of
             None \<Rightarrow> (Inl ErrUnknownMarket, d, [])
           | Some _ \<Rightarrow>
               (case service_tx (\<lambda>r. publish_all s env ''exchange.order_updated'' (fst r) [snd r])
                       (trigger_tx s env marketSymbol (String lastPrice)) d of
                  (Inl e, d', ms) \<Rightarrow> (Inl e, d', ms)
                | (Inr r, d', ms) \<Rightarrow> (Inr (fst r), d', ms))))"

section \<open>Queries\<close>

definition Book :: "service \<Rightarrow> db \<Rightarrow> string \<Rightarrow> int \<Rightarrow> ledger_error + book_snapshot" where
  "Book s d market depth =
     (let marketSymbol = normalizeMarket market in
      case market_Get (sv_markets s) marketSymbol of
        None \<Rightarrow> Inl ErrUnknownMarket
      | Some _ \<Rightarrow> Inr \<lparr>bs_Market = marketSymbol, bs_Bids = ListPriceLevels d marketSymbol SideBuy depth,
                      bs_Asks = ListPriceLevels d marketSymbol SideSell depth\<rparr>)"

definition status_of :: "string \<Rightarrow> status" where
  "status_of t =
     (case find (\<lambda>st. status_text st = t)
             [StatusPendingMatch, StatusPendingStop, StatusOpen, StatusPartiallyFilled, StatusFilled,
              StatusCanceled, StatusExpired, StatusRejected] of
        Some st \<Rightarrow> st | None \<Rightarrow> StatusOther t)"

definition OrderHistory :: "service \<Rightarrow> db \<Rightarrow> string \<Rightarrow> string \<Rightarrow> string \<Rightarrow> int \<Rightarrow> ledger_error + order list" where
  "OrderHistory s d userID0 market status0 limit =
     (let userID = trim_space userID0; st = status_of (to_lower (trim_space status0)) in
      if userID = [] then Inl ErrInvalidOrder
      else (case optionalMarket s market of
              Inl e \<Rightarrow> Inl e
            | Inr marketSymbol \<Rightarrow>
                if st \<noteq> StatusOther [] \<and> \<not> knownStatus st then Inl ErrInvalidOrder
                else Inr (ListOrders d userID marketSymbol st limit)))"

definition UserTrades :: "service \<Rightarrow> db \<Rightarrow> string \<Rightarrow> string \<Rightarrow> int \<Rightarrow> ledger_error + trade list" where
  "UserTrades s d userID0 market limit =
     (let userID = trim_space userID0 in
      if userID = [] then Inl ErrInvalidOrder
      else (case optionalMarket s market of
              Inl e \<Rightarrow> Inl e | Inr marketSymbol \<Rightarrow> Inr (ListUserTrades d userID marketSymbol limit)))"

definition MarketTrades :: "service \<Rightarrow> db \<Rightarrow> string \<Rightarrow> int \<Rightarrow> ledger_error + trade list" where
  "MarketTrades s d market limit =
     (case requiredMarket s market of Inl e \<Rightarrow> Inl e | Inr marketSymbol \<Rightarrow> Inr (ListMarketTrades d marketSymbol limit))"

definition Candles_query :: "service \<Rightarrow> db \<Rightarrow> string \<Rightarrow> string \<Rightarrow> int \<Rightarrow> ledger_error + candle list" where
  "Candles_query s d market interval0 limit =
     (case requiredMarket s market of
        Inl e \<Rightarrow> Inl e
      | Inr marketSymbol \<Rightarrow>
          (let interval = (if to_lower (trim_space interval0) = [] then ''1m'' else to_lower (trim_space interval0)) in
           case IntervalByKey interval of
             None \<Rightarrow> Inl ErrInvalidOrder
           | Some _ \<Rightarrow> Inr (ListCandles d marketSymbol interval limit)))"

end
