(* ===== verification/TradingLoop.thy ===== *)
theory TradingLoop
  imports OrderService OrderStoreProps MatchFill
begin

text \<open>
  The matching loop of the service ends: a round that leaves the taker with a remainder has filled
  every maker it traded with, filled makers leave the active orders, so each further round has
  fewer active orders than the one before. The fuel \<^const>\<open>match_fuel\<close> is therefore enough, and
  more of it changes nothing.
\<close>

section \<open>Makers of an unfinished round\<close>

lemma SubFloorZero_pos: "0 < Parse (SubFloorZero a b) \<Longrightarrow> Parse b < Parse a"
  by (cases "Parse a < Parse b"; cases "Parse a = Parse b")
     (auto simp: SubFloorZero_def Let_def Parse_0 Parse_String)

lemma fill_leaves:
  assumes "0 < Parse (o_RemainingQuantity (fill_order now (Min rt rm) taker))" and "o_RemainingQuantity taker = rt"
    and "o_RemainingQuantity maker = rm" and "0 \<le> Parse (Min rt rm)"
  shows "0 < Parse rt" and "o_Status (fill_order now (Min rt rm) maker) = StatusFilled"
proof -
  have less: "Parse (Min rt rm) < Parse rt"
    using assms(1,2) SubFloorZero_pos by (auto simp: fill_order_def Let_def)
  then show "0 < Parse rt" using assms(4) by simp
  have "Min rt rm = rm" using less by (auto simp: Min_def)
  then show "o_Status (fill_order now (Min rt rm) maker) = StatusFilled"
    using assms(3) by (simp add: fill_order_def Let_def statusForRemaining_def dec_simps SubFloorZero_self)
qed

lemma match_makers_filled:
  assumes "match_makers ids now r0 makers = Inr r"
  shows "\<exists>ms. r_Makers r = r_Makers r0 @ ms \<and> length (r_Trades r) = length (r_Trades r0) + length ms \<and>
    o_ID ` set ms \<subseteq> o_ID ` set makers \<and>
    (0 < Parse (o_RemainingQuantity (r_Taker r)) \<longrightarrow>
       0 < Parse (o_RemainingQuantity (r_Taker r0)) \<and> (\<forall>m \<in> set ms. o_Status m = StatusFilled))"
  using assms
proof (induction ids now r0 makers rule: match_makers.induct)
  case (1 ids now r0)
  then show ?case by simp
next
  case (2 ids now r0 maker makers)
  let ?t = "r_Taker r0"
  define qty where "qty = Min (o_RemainingQuantity ?t) (o_RemainingQuantity maker)"
  consider (full) "Cmp (o_RemainingQuantity ?t) ''0'' \<le> 0"
    | (skip) "\<not> Cmp (o_RemainingQuantity ?t) ''0'' \<le> 0" "\<not> eligibleMaker ?t maker"
    | (none) "\<not> Cmp (o_RemainingQuantity ?t) ''0'' \<le> 0" "eligibleMaker ?t maker" "Cmp qty ''0'' \<le> 0"
    | (fill) "\<not> Cmp (o_RemainingQuantity ?t) ''0'' \<le> 0" "eligibleMaker ?t maker" "\<not> Cmp qty ''0'' \<le> 0"
    by blast
  then show ?case
  proof cases
    case full
    then have "r = r0" using 2 by simp
    then show ?thesis by (intro exI [of _ "[]"]) (simp add: full [unfolded dec_simps] Parse_0 not_less)
  next
    case skip
    show ?thesis
    proof (cases "isSelfTrade ?t maker \<and> crossesPrice ?t maker")
      case True
      then have "r = r0\<lparr>r_Taker := ?t\<lparr>o_Status := StatusExpired, o_UpdatedAt := now\<rparr>\<rparr>" using 2 skip by simp
      then show ?thesis using skip(1) by (intro exI [of _ "[]"]) (auto simp: dec_simps)
    next
      case False
      then have run: "match_makers ids now r0 makers = Inr r" using 2(4) skip by auto
      show ?thesis using "2.IH"(1) [OF skip(1,2) False run] by auto
    qed
  next
    case none
    then have run: "match_makers ids now r0 makers = Inr r" using 2(4) by (simp add: qty_def Let_def)
    have el: "\<not> \<not> eligibleMaker ?t maker" using none(2) by simp
    show ?thesis using "2.IH"(2) [OF none(1) el qty_def none(3) run] by auto
  next
    case fill
    define r1 where "r1 = fill_result ids now r0 maker qty"
    have q: "\<not> Cmp (Mul qty (o_Price maker)) ''0'' \<le> 0" and run: "match_makers ids now r1 makers = Inr r"
      using 2(4) fill by (auto simp: Let_def qty_def r1_def split: if_splits)
    have el: "\<not> \<not> eligibleMaker ?t maker" using fill(2) by simp
    obtain ms where ms: "r_Makers r = r_Makers r1 @ ms" "length (r_Trades r) = length (r_Trades r1) + length ms"
      "o_ID ` set ms \<subseteq> o_ID ` set makers"
      "0 < Parse (o_RemainingQuantity (r_Taker r)) \<longrightarrow>
         0 < Parse (o_RemainingQuantity (r_Taker r1)) \<and> (\<forall>m \<in> set ms. o_Status m = StatusFilled)"
      using "2.IH"(3) [OF fill(1) el qty_def fill(3) q] run unfolding r1_def by blast
    have nn: "0 \<le> Parse (Min (o_RemainingQuantity ?t) (o_RemainingQuantity maker))"
      using fill(3) unfolding qty_def Cmp_le_0 Parse_0 by simp
    have "0 < Parse (o_RemainingQuantity ?t) \<and> o_Status (fill_order now qty maker) = StatusFilled"
      if "0 < Parse (o_RemainingQuantity (r_Taker r1))"
      using fill_leaves [where taker = ?t and maker = maker and now = now, OF _ refl refl nn] that
      unfolding r1_def fill_result_def qty_def by simp
    moreover have "o_ID (fill_order now qty maker) = o_ID maker" by (simp add: fill_order_def Let_def)
    ultimately show ?thesis using ms
      by (intro exI [of _ "fill_order now qty maker # ms"]) (auto simp: r1_def fill_result_def)
  qed
qed

lemma MatchLimit_filled:
  assumes "MatchLimit taker makers ids now = Inr r" and "0 < Parse (o_RemainingQuantity (r_Taker r))"
  shows "length (r_Makers r) = length (r_Trades r)" and "o_ID ` set (r_Makers r) \<subseteq> o_ID ` set makers"
    and "\<forall>m \<in> set (r_Makers r). o_Status m = StatusFilled"
proof -
  obtain f r1 where "match_makers f now \<lparr>r_Taker = taker, r_Makers = [], r_Trades = []\<rparr> makers = Inr r1"
    and "r = r1 \<or> r = r1\<lparr>r_Taker := (r_Taker r1)\<lparr>o_Status := StatusOpen\<rparr>\<rparr>"
    using assms(1) by (auto simp: MatchLimit_def split: option.splits sum.splits if_splits)
  then have "\<exists>ms. r_Makers r = ms \<and> length (r_Trades r) = length ms \<and> o_ID ` set ms \<subseteq> o_ID ` set makers \<and>
      (0 < Parse (o_RemainingQuantity (r_Taker r)) \<longrightarrow> (\<forall>m \<in> set ms. o_Status m = StatusFilled))"
    using match_makers_filled by fastforce
  then show "length (r_Makers r) = length (r_Trades r)" "o_ID ` set (r_Makers r) \<subseteq> o_ID ` set makers"
    "\<forall>m \<in> set (r_Makers r). o_Status m = StatusFilled"
    using assms(2) by auto
qed

section \<open>Saving filled makers\<close>

lemma SaveOrder_active:
  "SaveOrder m d = Inr (u, d') \<Longrightarrow> \<not> isBookableOrder m \<Longrightarrow>
   db_active d' = filter (\<lambda>r. o_ID r \<noteq> o_ID m) (db_active d)"
  by (auto simp: SaveOrder_def tx_bind_Inr_iff SyncActiveOrder_def save_order_row_def row_delete_def split: if_splits)

lemma SaveOrder_not_diverges: "SaveOrder m d \<noteq> Inl ErrDiverges"
  by (auto simp: SaveOrder_def tx_bind_def SyncActiveOrder_def save_order_row_def tx_modify_def split: sum.splits)

lemma save_makers_not_diverges: "save_makers levels makers d \<noteq> Inl ErrDiverges"
  by (induction levels makers arbitrary: d rule: save_makers.induct)
     (auto simp: tx_return_def tx_bind_def SaveOrder_not_diverges split: sum.splits)

lemma save_makers_active:
  "save_makers levels makers d = Inr (levels', d') \<Longrightarrow> \<forall>m \<in> set makers. \<not> isBookableOrder m \<Longrightarrow>
   db_active d' = filter (\<lambda>r. o_ID r \<notin> o_ID ` set makers) (db_active d)"
proof (induction levels makers arbitrary: d rule: save_makers.induct)
  case (2 levels maker makers)
  then obtain u d1 where s: "SaveOrder maker d = Inr (u, d1)" "save_makers (touch levels maker) makers d1 = Inr (levels', d')"
    by (auto simp: tx_bind_Inr_iff)
  have "db_active d' = filter (\<lambda>r. o_ID r \<notin> o_ID ` set makers) (filter (\<lambda>r. o_ID r \<noteq> o_ID maker) (db_active d))"
    using "2.IH" [OF s(2)] SaveOrder_active [OF s(1)] "2.prems"(2) by simp
  then show ?case by (simp add: conj_commute)
qed simp

section \<open>The loop\<close>

declare match_loop.simps [simp del]

lemma candidates_active:
  "set (ListMatchCandidates d market sd price ex limit) \<subseteq> set (db_active d)"
  unfolding ListMatchCandidates_def activeModelsToOrders_id
  by (auto dest!: in_set_takeD)

lemma match_round_fewer:
  assumes "match_round env sd st d = Inr ((st', True), d')"
    and "0 < Parse (o_RemainingQuantity (mt_Taker st'))"
  shows "length (db_active d') < length (db_active d)"
proof -
  let ?taker = "effectiveMatchTaker (mt_Taker st)"
  let ?cs = "ListMatchCandidates d (o_Market ?taker) sd (o_Price ?taker) (o_ID ?taker) 500"
  obtain r levels where r: "MatchLimit ?taker ?cs (trade_id_source env d) (e_now env) = Inr r"
    and s: "save_makers (mt_Levels st) (r_Makers r) (d\<lparr>db_ids := db_ids d + length (r_Trades r)\<rparr>) = Inr (levels, d')"
    and t: "r_Trades r \<noteq> []" "mt_Taker st' = (r_Taker r)\<lparr>o_Price := o_Price (mt_Taker st)\<rparr>"
    using assms(1)
    by (auto simp: match_round_def Let_def tx_bind_Inr_iff split: if_splits sum.splits)
  have rem: "0 < Parse (o_RemainingQuantity (r_Taker r))" using assms(2) t(2) by simp
  note f = MatchLimit_filled [OF r rem]
  have nb: "\<forall>m \<in> set (r_Makers r). \<not> isBookableOrder m"
    using f(3) by (simp add: isBookableOrder_def isOpenStatus_def)
  obtain m where m: "m \<in> set (r_Makers r)" using f(1) t(1) by (cases "r_Makers r") auto
  then have "o_ID m \<in> o_ID ` set ?cs" using f(2) by blast
  then obtain c where c: "c \<in> set (db_active d)" "o_ID c = o_ID m"
    using candidates_active [of d "o_Market ?taker" sd "o_Price ?taker" "o_ID ?taker" 500] by auto
  have "db_active d' = filter (\<lambda>r'. o_ID r' \<notin> o_ID ` set (r_Makers r)) (db_active d)"
    using save_makers_active [OF s nb] by simp
  then show ?thesis using c m by (auto intro!: length_filter_less)
qed

lemma match_round_not_diverges: "match_round env sd st d \<noteq> Inl ErrDiverges"
  by (auto simp: save_makers_not_diverges match_round_def Let_def tx_bind_def tx_get_def tx_modify_def tx_return_def tx_fail_def
      split: if_splits sum.splits)

lemma match_loop_stop:
  "\<not> 0 < Parse (o_RemainingQuantity (mt_Taker st)) \<Longrightarrow> match_loop (Suc n) env sd st d = Inr (st, d)"
  by (simp add: match_loop.simps dec_simps tx_return_def)

lemma match_loop_enough:
  assumes "length (db_active d) < n"
  shows "match_loop n env sd st d \<noteq> Inl ErrDiverges \<and> match_loop n env sd st d = match_loop (match_fuel d) env sd st d"
  using assms
proof (induction n arbitrary: st d rule: less_induct)
  case (less n)
  obtain n' where n: "n = Suc n'" using less.prems by (cases n) auto
  show ?case
  proof (cases "0 < Parse (o_RemainingQuantity (mt_Taker st))")
    case False
    then show ?thesis unfolding n match_fuel_def by (simp add: match_loop_stop)
  next
    case True
    have unfold: "match_loop (Suc k) env sd st d =
        (case match_round env sd st d of Inl e \<Rightarrow> Inl e
         | Inr ((st', go), d') \<Rightarrow> if go then match_loop k env sd st' d' else Inr (st', d'))" for k
      using True by (auto simp: match_loop.simps dec_simps tx_bind_def tx_return_def split: sum.splits prod.splits)
    show ?thesis
    proof (cases "match_round env sd st d")
      case (Inl e)
      then show ?thesis using match_round_not_diverges [of env sd st d] unfolding n match_fuel_def unfold by simp
    next
      case (Inr x)
      obtain st' go d' where x: "match_round env sd st d = Inr ((st', go), d')" using Inr by (cases x) auto
      have "match_loop k env sd st' d' \<noteq> Inl ErrDiverges \<and>
          match_loop k env sd st' d' = match_loop (match_fuel d') env sd st' d'"
        if go: "go" and k: "k < n" "length (db_active d) \<le> k" for k
      proof (cases "0 < Parse (o_RemainingQuantity (mt_Taker st'))")
        case True
        have "length (db_active d') < k" using match_round_fewer [OF x [unfolded eqTrueI [OF go]] True] k(2) by simp
        then show ?thesis using less.IH [OF k(1)] by blast
      next
        case False
        show ?thesis
        proof (cases k)
          case 0
          have "db_active d \<noteq> []"
          proof
            assume "db_active d = []"
            then have "ListMatchCandidates d a b c e 500 = []" for a b c e
              using candidates_active [of d a b c e 500] by simp
            then show False using x go by (simp add: match_round_def Let_def tx_bind_def tx_get_def tx_return_def)
          qed
          then show ?thesis using k(2) 0 by simp
        next
          case (Suc j)
          then show ?thesis using False unfolding match_fuel_def by (simp add: match_loop_stop)
        qed
      qed
      from this [of n'] this [of "length (db_active d)"] show ?thesis
        using less.prems unfolding n match_fuel_def unfold x by (cases go) auto
    qed
  qed
qed

text \<open>C17: matching an order always ends: with one more unit of fuel than there are active orders the
  loop returns or fails for a reason of the store or of the matching engine, and no larger amount of
  fuel gives another result.\<close>

theorem match_loop_terminates:
  assumes "length (db_active d) < fuel"
  shows "match_loop fuel env sd st d = match_loop (match_fuel d) env sd st d \<and>
    match_loop fuel env sd st d \<noteq> Inl ErrDiverges \<and> match_order env taker levels d \<noteq> Inl ErrDiverges"
proof -
  have "match_order env taker levels d \<noteq> Inl ErrDiverges"
    using match_loop_enough [of d "match_fuel d"]
    by (auto simp: match_order_def tx_bind_def tx_get_def tx_return_def Let_def match_fuel_def split: sum.splits)
  then show ?thesis using match_loop_enough [OF assms, of env sd st] by blast
qed

definition loop_state :: match_state where
  "loop_state = \<lparr>mt_Taker = store_order, mt_Makers = [], mt_Trades = [], mt_Levels = []\<rparr>"

theorem match_loop_terminates_witness:
  "length (db_active store_db) = 1 \<and> match_loop 5 seq_env SideSell loop_state store_db \<noteq> Inl ErrDiverges \<and>
    match_order seq_env store_order [] store_db \<noteq> Inl ErrDiverges"
proof -
  have l: "length (db_active store_db) = 1" by (simp add: store_db_def)
  then have "length (db_active store_db) < 5" by simp
  from match_loop_terminates [OF this, of seq_env SideSell loop_state store_order "[]"] l show ?thesis by blast
qed

end
