(* ===== verification/TradingFunds.thy ===== *)
theory TradingFunds
  imports TradingLoop BookProps LedgerFlow
begin

text \<open>
  Trading and the ledger: every operation of the service on orders keeps the ledger's invariant and
  the amounts of the stored orders well formed, and moves no asset in or out. An operation is a
  transaction composed of smaller ones, so the argument is a small logic of transactions:
  \<open>tx_keeps Q m\<close> says that \<open>m\<close> keeps the invariant and that its value has the property \<open>Q\<close>; the
  rules in \<open>keeps_intros\<close> follow the structure of the code.
\<close>

section \<open>A logic of transactions\<close>

definition order_good :: "order \<Rightarrow> bool" where
  "order_good x \<longleftrightarrow> order_ok x \<and> o_RemainingQuantity x \<noteq> []"

definition orders_good :: "db \<Rightarrow> bool" where
  "orders_good d \<longleftrightarrow> (\<forall>x \<in> set (db_orders d). order_good x) \<and> (\<forall>x \<in> set (db_active d). order_good x)"

definition trading_ok :: "db \<Rightarrow> bool" where
  "trading_ok d \<longleftrightarrow> ledger_ok d \<and> orders_good d"

definition kept :: "db \<Rightarrow> db \<Rightarrow> bool" where
  "kept d d' \<longleftrightarrow> trading_ok d' \<and> (\<forall>a. net_inflow a d' = net_inflow a d)"

definition tx_keeps :: "('a \<Rightarrow> bool) \<Rightarrow> 'a ltx \<Rightarrow> bool" where
  "tx_keeps Q m \<longleftrightarrow> (\<forall>d r d'. trading_ok d \<longrightarrow> m d = Inr (r, d') \<longrightarrow> kept d d' \<and> Q r)"

text \<open>Transactions that leave the tables the invariant speaks of alone.\<close>

definition trade_view :: "db \<Rightarrow> balance list \<times> reservation list \<times> withdrawal list \<times> balance_event list \<times> order list \<times> order list" where
  "trade_view d = (db_balances d, db_reservations d, db_withdrawals d, db_balance_events d, db_orders d, db_active d)"

definition tx_frame :: "'a ltx \<Rightarrow> bool" where
  "tx_frame m \<longleftrightarrow> (\<forall>d r d'. m d = Inr (r, d') \<longrightarrow> trade_view d' = trade_view d)"

named_theorems keeps_intros
named_theorems frame_intros

lemma tx_keepsI:
  "(\<And>d r d'. trading_ok d \<Longrightarrow> m d = Inr (r, d') \<Longrightarrow> kept d d' \<and> Q r) \<Longrightarrow> tx_keeps Q m"
  by (auto simp: tx_keeps_def)

lemma tx_keepsD: "tx_keeps Q m \<Longrightarrow> trading_ok d \<Longrightarrow> m d = Inr (r, d') \<Longrightarrow> kept d d' \<and> Q r"
  by (auto simp: tx_keeps_def)

lemma kept_trans: "kept d d1 \<Longrightarrow> kept d1 d2 \<Longrightarrow> kept d d2"
  by (simp add: kept_def)

lemma kept_refl: "trading_ok d \<Longrightarrow> kept d d"
  by (simp add: kept_def)

lemma tx_keeps_bind:
  "tx_keeps Q m \<Longrightarrow> (\<And>x. Q x \<Longrightarrow> tx_keeps R (f x)) \<Longrightarrow> tx_keeps R (tx_bind m f)"
  unfolding tx_keeps_def tx_bind_Inr_iff kept_def by metis

lemma tx_keeps_return [keeps_intros]: "Q x \<Longrightarrow> tx_keeps Q (tx_return x)"
  by (auto simp: tx_keeps_def kept_refl)

lemma tx_keeps_fail [keeps_intros]: "tx_keeps Q (tx_fail e)"
  by (simp add: tx_keeps_def)

lemma tx_keeps_weaken: "tx_keeps Q m \<Longrightarrow> (\<And>x. Q x \<Longrightarrow> R x) \<Longrightarrow> tx_keeps R m"
  by (auto simp: tx_keeps_def)

lemma tx_keeps_get: "(\<And>d. trading_ok d \<Longrightarrow> Q (f d)) \<Longrightarrow> tx_keeps Q (tx_get f)"
  by (auto simp: tx_keeps_def kept_refl)

lemma tx_keeps_if [keeps_intros]: "(b \<Longrightarrow> tx_keeps Q m) \<Longrightarrow> (\<not> b \<Longrightarrow> tx_keeps Q n) \<Longrightarrow> tx_keeps Q (if b then m else n)"
  by simp

lemma tx_keeps_not_found: "tx_keeps Q m \<Longrightarrow> tx_keeps Q (not_found_as e m)"
  unfolding not_found_as_def tx_keeps_def by (auto split: sum.splits ledger_error.splits)

lemma view_kept: "trade_view d' = trade_view d \<Longrightarrow> trading_ok d \<Longrightarrow> kept d d'"
  unfolding trade_view_def trading_ok_def kept_def ledger_ok_def balances_ok_def reservations_ok_def withdrawals_ok_def
    books_balance_def orders_good_def asset_total_def net_inflow_def sum_balances_def
  by auto

lemma tx_keeps_frame: "tx_frame m \<Longrightarrow> tx_keeps (\<lambda>_. True) m"
  by (auto simp: tx_frame_def tx_keeps_def view_kept)

lemma tx_frame_bind [frame_intros]: "tx_frame m \<Longrightarrow> (\<And>x. tx_frame (f x)) \<Longrightarrow> tx_frame (tx_bind m f)"
  unfolding tx_frame_def tx_bind_Inr_iff by metis

lemma tx_frame_simple [frame_intros]:
  "tx_frame (tx_return x)" "tx_frame (tx_fail e)" "tx_frame (tx_get f)" "tx_frame (fail_if b e)" "tx_frame (lift_result y)"
  by (auto simp: tx_frame_def fail_if_def lift_result_def tx_return_def tx_fail_def split: sum.splits)

lemma tx_frame_if [frame_intros]: "tx_frame m \<Longrightarrow> tx_frame n \<Longrightarrow> tx_frame (if b then m else n)"
  by simp

lemma tx_frame_cases [frame_intros]:
  "tx_frame m \<Longrightarrow> (\<And>y. tx_frame (n y)) \<Longrightarrow> tx_frame (case x of None \<Rightarrow> m | Some y \<Rightarrow> n y)"
  "(\<And>a. tx_frame (f a)) \<Longrightarrow> (\<And>b. tx_frame (g b)) \<Longrightarrow> tx_frame (case z of Inl a \<Rightarrow> f a | Inr b \<Rightarrow> g b)"
  "(\<And>a b. tx_frame (h a b)) \<Longrightarrow> tx_frame (case p of (a, b) \<Rightarrow> h a b)"
  by (auto split: option.split sum.split prod.split)

lemma tx_keeps_cases [keeps_intros]:
  "(x = None \<Longrightarrow> tx_keeps Q m) \<Longrightarrow> (\<And>y. x = Some y \<Longrightarrow> tx_keeps Q (n y)) \<Longrightarrow>
   tx_keeps Q (case x of None \<Rightarrow> m | Some y \<Rightarrow> n y)"
  "(\<And>a. z = Inl a \<Longrightarrow> tx_keeps Q (f a)) \<Longrightarrow> (\<And>b. z = Inr b \<Longrightarrow> tx_keeps Q (g b)) \<Longrightarrow>
   tx_keeps Q (case z of Inl a \<Rightarrow> f a | Inr b \<Rightarrow> g b)"
  "(\<And>a b. p = (a, b) \<Longrightarrow> tx_keeps Q (h a b)) \<Longrightarrow> tx_keeps Q (case p of (a, b) \<Rightarrow> h a b)"
  by (auto split: option.split sum.split prod.split)

lemma tx_frame_each [frame_intros]: "(\<And>x. tx_frame (f x)) \<Longrightarrow> tx_frame (tx_each f xs)"
  by (induction xs) (auto intro: frame_intros)

lemma tx_frame_id [frame_intros]: "tx_frame (new_id env p)"
  by (auto simp: tx_frame_def new_id_def trade_view_def)

section \<open>Transactions outside the ledger\<close>

lemma frame_levels [frame_intros]:
  "tx_frame (RefreshPriceLevels env keys)" "tx_frame (PruneStalePriceLevels m)"
proof -
  have "tx_frame (refresh_level env key)" for key
    by (auto simp: tx_frame_def refresh_level_def delete_level_def trade_view_def Let_def split: if_splits)
  then show "tx_frame (RefreshPriceLevels env keys)"
    unfolding RefreshPriceLevels_def by (rule tx_frame_each)
  show "tx_frame (PruneStalePriceLevels m)"
    by (auto simp: tx_frame_def PruneStalePriceLevels_def trade_view_def Let_def tx_modify_def tx_return_def split: if_splits)
qed

lemma frame_refresh [frame_intros]: "tx_frame (refreshBookProjection env m levels)"
  unfolding refreshBookProjection_def Let_def by (intro frame_intros)

lemma frame_records [frame_intros]:
  "tx_frame (CreateTrades ts)" "tx_frame (CreateOrderEvents es)" "tx_frame (NextOrderSequence env m)"
  "tx_frame (nextOrderCommandSequence env m)" "tx_frame (create_log_row r)" "tx_frame (CreateOrderCommand env c)"
  "tx_frame (updateOrderCommand env i f)" "tx_frame (update_log i g)" "tx_frame (CreateMatchJob env i m)"
  by (auto simp: tx_frame_def CreateTrades_def CreateOrderEvents_def NextOrderSequence_def nextOrderCommandSequence_def
      create_log_row_def CreateOrderCommand_def updateOrderCommand_def update_log_def CreateMatchJob_def
      tx_bind_Inr_iff new_id_def trade_view_def Let_def split: option.splits if_splits)

lemma frame_commands [frame_intros]:
  "tx_frame (CompleteOrderCommand env i j t)" "tx_frame (ApplyOrderCommandLog env i j)"
  unfolding CompleteOrderCommand_def ApplyOrderCommandLog_def by (intro frame_intros)+

lemma frame_append_log [frame_intros]: "tx_frame (AppendOrderCommandLog env item)"
  unfolding AppendOrderCommandLog_def Let_def by (intro frame_intros)

lemma frame_events [frame_intros]:
  "tx_frame (newOrderEvent env x ty r)" "tx_frame (terminalOrderEvents env x)" "tx_frame (matchEvents env x ms ts)"
proof -
  have e: "tx_frame (newOrderEvent env x ty r)" for x ty r
    unfolding newOrderEvent_def by (intro frame_intros)
  have t: "tx_frame (eventsForTrades env ts)" for ts by (induction ts) (auto intro!: frame_intros)
  have f: "tx_frame (filled_events env ms)" for ms by (induction ms) (auto intro!: frame_intros e)
  have o: "tx_frame (terminalOrderEvents env x)" for x
    unfolding terminalOrderEvents_def by (intro frame_intros e)
  show "tx_frame (newOrderEvent env x ty r)" "tx_frame (terminalOrderEvents env x)" by (rule e, rule o)
  show "tx_frame (matchEvents env x ms ts)" unfolding matchEvents_def by (intro frame_intros e t f o)
qed

lemma frame_event_log [frame_intros]:
  "tx_frame (appendMatchEventLog s env sequence taker makers trades levels)"
proof -
  have "tx_frame (AppendMatchEventLog env item)" for item
    by (auto simp: tx_frame_def AppendMatchEventLog_def tx_bind_Inr_iff new_id_def fail_if_def trade_view_def Let_def
        split: if_splits option.splits)
  then show ?thesis unfolding appendMatchEventLog_def by (intro frame_intros)
qed

lemma frame_snapshot [frame_intros]: "tx_frame (save_snapshot_if b s env taker sequence)"
proof -
  have r: "tx_frame (snapshot_result x)" for x by (auto simp: snapshot_result_def intro: frame_intros split: sum.splits)
  have c: "tx_frame (captureMatcherSnapshot s env m ba qa n)" for m ba qa n
    unfolding captureMatcherSnapshot_def by (intro frame_intros)
  have "tx_frame (\<lambda>d. if row_exists ms_ID i (db_snapshots d) then Inl ErrDuplicateKey
          else Inr ((), d\<lparr>db_snapshots := db_snapshots d @ [row]\<rparr>))" for i row
    by (auto simp: tx_frame_def trade_view_def split: if_splits)
  then show ?thesis unfolding save_snapshot_if_def SaveMatcherSnapshot_def by (intro frame_intros c r)
qed

section \<open>Orders and funds\<close>

lemma order_good_upd [simp]:
  "order_good (x\<lparr>o_Status := st\<rparr>) = order_good x" "order_good (x\<lparr>o_UpdatedAt := u\<rparr>) = order_good x"
  "order_good (x\<lparr>o_Price := p\<rparr>) = order_good x" "order_good (x\<lparr>o_SequenceID := q\<rparr>) = order_good x"
  "order_good (x\<lparr>o_Status := st, o_UpdatedAt := u\<rparr>) = order_good x"
  by (simp_all add: order_good_def order_ok_def)

lemma order_good_model: "order_good x \<Longrightarrow> order_good (orderToModel x)"
proof -
  have "amount (zeroIfEmpty t) = amount t" for t by (simp add: amount_def)
  then show "order_good x \<Longrightarrow> order_good (orderToModel x)" by (simp add: order_good_def order_ok_def orderToModel_def)
qed

lemma keeps_tables:
  assumes "trading_ok d" and "db_balances d' = db_balances d" "db_reservations d' = db_reservations d"
    "db_withdrawals d' = db_withdrawals d" "db_balance_events d' = db_balance_events d" and "orders_good d'"
  shows "kept d d'"
  using assms unfolding trading_ok_def kept_def ledger_ok_def balances_ok_def reservations_ok_def withdrawals_ok_def
    books_balance_def asset_total_def net_inflow_def sum_balances_def by auto

lemma keeps_SyncActiveOrder: "order_good x \<Longrightarrow> tx_keeps (\<lambda>_. True) (SyncActiveOrder x)"
  using order_good_model [of x]
  by (intro tx_keepsI)
     (auto simp: SyncActiveOrder_def tx_modify_def trading_ok_def orders_good_def row_delete_def model_same
       intro!: keeps_tables dest!: set_row_save split: if_splits)

lemma keeps_SaveOrder: "order_good x \<Longrightarrow> tx_keeps (\<lambda>_. True) (SaveOrder x)"
  unfolding SaveOrder_def
proof (intro tx_keeps_bind [where Q = "\<lambda>_. True"] keeps_SyncActiveOrder)
  assume g: "order_good x"
  show "tx_keeps (\<lambda>_. True) (save_order_row (orderToModel x))"
    using order_good_model [OF g]
    by (intro tx_keepsI)
       (auto simp: save_order_row_def trading_ok_def orders_good_def intro!: keeps_tables dest!: set_row_save split: if_splits)
qed

lemma keeps_CreateOrder: "order_good x \<Longrightarrow> tx_keeps (\<lambda>_. True) (CreateOrder x)"
  unfolding CreateOrder_def
proof (intro tx_keeps_bind [where Q = "\<lambda>_. True"] keeps_SyncActiveOrder)
  assume g: "order_good x"
  show "tx_keeps (\<lambda>_. True) (create_order_row (orderToModel x))"
    using order_good_model [OF g]
    by (intro tx_keepsI)
       (auto simp: create_order_row_def trading_ok_def orders_good_def intro!: keeps_tables split: if_splits)
qed

lemma keeps_find_order: "tx_keeps order_good (find_order i)"
  by (intro tx_keepsI)
     (auto simp: find_order_def getOrder_def trading_ok_def orders_good_def kept_refl dest!: row_find_key split: option.splits)

lemma keeps_ledger:
  assumes "ledger_step d d'" and "same_but_funds d d'" and "\<And>a. net_inflow a d' = net_inflow a d" and "trading_ok d"
  shows "kept d d'"
  using ledger_ok_step [OF assms(1)] same_but_funds_fields [OF assms(2)] assms(3,4)
  by (auto simp: kept_def trading_ok_def orders_good_def)

lemma keeps_ReserveOrderFunds: "order_good x \<Longrightarrow> tx_keeps (\<lambda>_. True) (ReserveOrderFunds env x e)"
proof (intro tx_keepsI conjI)
  fix d u d' assume g: "order_good x" and ok: "trading_ok d" and r: "ReserveOrderFunds env x e d = Inr (u, d')"
  have a: "amount (o_RemainingQuantity x)" using g by (simp add: order_good_def order_ok_def)
  obtain s n where sn: "orderReserveAssetAmount x = (s, n)" by fastforce
  have b: "balances_ok d" "reservations_ok d" using ok by (auto simp: trading_ok_def ledger_ok_def)
  have "\<exists>ps. funds_step d ps d'" using ReserveOrderFunds_effect [OF r b sn reserve_amount [OF a sn]] by blast
  then show "kept d d'" using keeps_ledger [OF step_reserve [OF r a]] ok by (auto simp: funds_step_def)
qed simp

lemma keeps_ReleaseOrderFunds: "order_good x \<Longrightarrow> tx_keeps (\<lambda>_. True) (ReleaseOrderFunds env x e)"
proof (intro tx_keepsI conjI)
  fix d u d' assume g: "order_good x" and ok: "trading_ok d" and r: "ReleaseOrderFunds env x e d = Inr (u, d')"
  have a: "amount (o_RemainingQuantity x)" using g by (simp add: order_good_def order_ok_def)
  obtain s n where sn: "orderReserveAssetAmount x = (s, n)" by fastforce
  have b: "balances_ok d" "reservations_ok d" using ok by (auto simp: trading_ok_def ledger_ok_def)
  have "\<exists>ps. funds_step d ps d'" using ReleaseOrderFunds_effect [OF r b sn reserve_amount [OF a sn]] by blast
  then show "kept d d'" using keeps_ledger [OF step_release [OF r a]] ok by (auto simp: funds_step_def)
qed simp

definition trade_good :: "trade \<Rightarrow> bool" where
  "trade_good t \<longleftrightarrow> good_amount (t_Quantity t) \<and> good_amount (t_QuoteQuantity t)"

lemma keeps_settleTrade: "trade_good t \<Longrightarrow> tx_keeps (\<lambda>_. True) (settleTrade env t maker taker)"
proof (intro tx_keepsI conjI)
  fix d u d' assume g: "trade_good t" and ok: "trading_ok d" and r: "settleTrade env t maker taker d = Inr (u, d')"
  have a: "good_amount (t_Quantity t)" "good_amount (t_QuoteQuantity t)" using g by (auto simp: trade_good_def)
  have b: "balances_ok d" "reservations_ok d" using ok by (auto simp: trading_ok_def ledger_ok_def)
  have "\<exists>ps. funds_step d ps d'" using settleTrade_effect [OF r b a] by blast
  then show "kept d d'" using keeps_ledger [OF step_trade [OF r a]] ok by (auto simp: funds_step_def)
qed simp

lemma keeps_each: "(\<And>x. x \<in> set xs \<Longrightarrow> tx_keeps (\<lambda>_. True) (f x)) \<Longrightarrow> tx_keeps (\<lambda>_. True) (tx_each f xs)"
  by (induction xs) (auto intro!: keeps_intros intro: tx_keeps_bind)

lemma keeps_SettleTrades: "\<forall>t \<in> set ts. trade_good t \<Longrightarrow> tx_keeps (\<lambda>_. True) (SettleTrades env ts)"
  unfolding SettleTrades_def
  by (intro keeps_each tx_keeps_bind [OF keeps_find_order] keeps_settleTrade) simp

section \<open>Matching\<close>

definition result_good :: "match_result \<Rightarrow> bool" where
  "result_good r \<longleftrightarrow> order_good (r_Taker r) \<and> (\<forall>m \<in> set (r_Makers r). order_good m) \<and>
     (\<forall>t \<in> set (r_Trades r). trade_good t)"

definition state_good :: "match_state \<Rightarrow> bool" where
  "state_good st \<longleftrightarrow> order_good (mt_Taker st) \<and> (\<forall>m \<in> set (mt_Makers st). order_good m) \<and>
     (\<forall>t \<in> set (mt_Trades st). trade_good t)"

text \<open>A run that accounts for its fills has well-formed results; its taker has a remaining text
  because a fill prints one.\<close>

lemma trade_ok_good: "trade_ok x p t \<Longrightarrow> trade_good t"
  by (auto simp: trade_ok_def trade_good_def good_amount_def)

lemma list_all2_right: "list_all2 P xs ys \<Longrightarrow> y \<in> set ys \<Longrightarrow> \<exists>x \<in> set xs. P x y"
  by (induction rule: list_all2_induct) auto

lemma run_inv_good:
  assumes "run_inv ids now taker p M r" and "\<And>m. m \<in> M \<Longrightarrow> order_ok m" and "o_RemainingQuantity (r_Taker r) \<noteq> []"
  shows "result_good r"
proof -
  have l: "list_all2 (maker_filled now M) (r_Trades r) (r_Makers r)"
    and t: "\<And>t. t \<in> set (r_Trades r) \<Longrightarrow> trade_ok taker p t" using assms(1) by (auto simp: run_inv_def)
  have "order_good m" if m: "m \<in> set (r_Makers r)" for m
  proof -
    obtain t where t': "t \<in> set (r_Trades r)" "maker_filled now M t m"
      using list_all2_right [OF l m] by blast
    then obtain m0 where m0: "m0 \<in> M" "m = fill_order now (t_Quantity t) m0"
      "Parse (t_Quantity t) \<le> Parse (o_RemainingQuantity m0)"
      by (auto simp: maker_filled_def)
    have q: "amount (t_Quantity t)" "0 \<le> Parse (t_Quantity t)" using t [OF t'(1)] by (auto simp: trade_ok_def)
    show ?thesis using fill_order_ok(1) [OF assms(2) [OF m0(1)] q m0(3)] m0(2) by (simp add: order_good_def)
  qed
  moreover have "\<forall>t \<in> set (r_Trades r). trade_good t" using t trade_ok_good by blast
  moreover have "order_ok (r_Taker r)" using assms(1) by (simp add: run_inv_def)
  ultimately show ?thesis using assms(3) by (simp add: result_good_def order_good_def)
qed

lemma match_makers_remaining:
  "match_makers ids now r0 ms = Inr r \<Longrightarrow> o_RemainingQuantity (r_Taker r0) \<noteq> [] \<Longrightarrow> o_RemainingQuantity (r_Taker r) \<noteq> []"
  by (induction ids now r0 ms rule: match_makers.induct)
     (auto simp: Let_def fill_result_def split: if_splits)

lemma MatchLimit_good:
  assumes "MatchLimit taker makers ids now = Inr r" and "order_good taker" and "\<forall>m \<in> set makers. order_good m"
  shows "result_good r"
proof -
  obtain f where ids: "ids = Some f" using assms(1) by (auto simp: MatchLimit_def split: option.splits)
  obtain r1 where "match_makers f now \<lparr>r_Taker = taker, r_Makers = [], r_Trades = []\<rparr> makers = Inr r1"
    and "o_RemainingQuantity (r_Taker r) = o_RemainingQuantity (r_Taker r1)"
    using assms(1) by (auto simp: MatchLimit_def ids split: sum.splits if_splits)
  then have rem: "o_RemainingQuantity (r_Taker r) \<noteq> []"
    using match_makers_remaining assms(2) by (fastforce simp: order_good_def)
  have "run_inv f now taker (o_Price taker) (set makers) r"
    using MatchLimit_conserves [of taker makers f now r] assms by (auto simp: ids order_good_def)
  then show ?thesis using run_inv_good rem assms(3) by (auto simp: order_good_def)
qed

lemma keeps_save_makers:
  "\<forall>m \<in> set makers. order_good m \<Longrightarrow> tx_keeps (\<lambda>_. True) (save_makers levels makers)"
  by (induction levels makers rule: save_makers.induct)
     (auto intro!: keeps_intros tx_keeps_bind [OF keeps_SaveOrder])

lemma frame_draw_ids [frame_intros]: "tx_frame (tx_modify (\<lambda>d. d\<lparr>db_ids := f d\<rparr>))"
  by (simp add: tx_frame_def tx_modify_def trade_view_def)

lemmas keeps_frame_then = tx_keeps_bind [OF tx_keeps_frame]

lemma order_good_effective: "order_good x \<Longrightarrow> order_good (effectiveMatchTaker x)"
  by (simp add: effectiveMatchTaker_def)

lemma keeps_match_round:
  assumes "state_good st"
  shows "tx_keeps (\<lambda>r. state_good (fst r)) (match_round env sd st)"
proof -
  have t: "order_good (effectiveMatchTaker (mt_Taker st))"
    using assms order_good_effective by (simp add: state_good_def)
  have cs: "tx_keeps (\<lambda>cs. \<forall>m \<in> set cs. order_good m)
      (tx_get (\<lambda>d. ListMatchCandidates d m sd p i 500))" for m p i
    using candidates_active by (intro tx_keeps_get) (fastforce simp: trading_ok_def orders_good_def)
  show ?thesis
    unfolding match_round_def Let_def
    by (rule tx_keeps_bind [OF cs], (intro keeps_intros keeps_frame_then frame_intros tx_keeps_bind [OF keeps_save_makers])+)
       (use assms t in \<open>auto simp: state_good_def result_good_def dest: MatchLimit_good\<close>)
qed

lemma keeps_match_loop: "state_good st \<Longrightarrow> tx_keeps state_good (match_loop n env sd st)"
proof (induction n arbitrary: st)
  case (Suc n)
  show ?case
    unfolding match_loop.simps
    by (intro keeps_intros tx_keeps_bind [OF keeps_match_round [OF Suc.prems]] Suc.IH) (use Suc.prems in auto)
qed (simp add: match_loop.simps keeps_intros)

lemma keeps_match_order: "order_good taker \<Longrightarrow> tx_keeps state_good (match_order env taker levels)"
  unfolding match_order_def Let_def
  by (intro keeps_frame_then frame_intros tx_keeps_bind [OF keeps_match_loop] keeps_intros)
     (auto simp: state_good_def final_taker_def)

lemma order_good_normal: "order_good x \<Longrightarrow> order_ok (normalizeOrder b x)"
proof -
  have "amount ''0''" by simp
  then show "order_good x \<Longrightarrow> order_ok (normalizeOrder b x)" by (auto simp: order_good_def order_ok_def Parse_0)
qed

text \<open>The book keeps the taker's remaining text non-empty: the normalised taker has one, and a fill
  prints the next.\<close>

definition has_rest :: "match_result \<Rightarrow> bool" where
  "has_rest r \<longleftrightarrow> o_RemainingQuantity (r_Taker r) \<noteq> []"

fun step_rest :: "apply_step \<Rightarrow> bool" where
  "step_rest (Continue b r) = has_rest r"
| "step_rest (Break b r) = has_rest r"
| "step_rest (Return b r) = has_rest r"
| "step_rest (Fail e b) = True"

lemma has_rest_upd [simp]:
  "has_rest (r\<lparr>r_Taker := (r_Taker r)\<lparr>o_Status := st, o_UpdatedAt := now\<rparr>\<rparr>) = has_rest r"
  "has_rest (fill_result ids now r m q)"
  by (simp_all add: has_rest_def fill_result_def)

lemma apply_iter_rest: "has_rest r \<Longrightarrow> step_rest (apply_iter ids now sd b r)"
  by (simp add: apply_iter_def Let_def split: option.split list.split)

lemma apply_loop_rest: "has_rest r \<Longrightarrow> step_rest (apply_loop ids now sd b r)"
proof (induction ids now sd b r rule: apply_loop.induct)
  case (1 ids now sd b r)
  then show ?case
    using apply_iter_rest [OF 1(2), of ids now sd b]
    by (subst apply_loop.simps) (auto split: apply_step.split)
qed

lemma apply_finish_rest: "fst (apply_finish now b r) = Inr r' \<Longrightarrow> has_rest r \<Longrightarrow> has_rest r'"
  by (auto simp: apply_finish_def Let_def split: if_splits sum.splits)

lemma Apply_rest:
  assumes "fst (Apply b taker (Some ids) now) = Inr r" and "o_RemainingQuantity taker \<noteq> []"
  shows "has_rest r"
proof -
  let ?t = "normalizeOrder b taker"
  let ?e = "if o_Type ?t = TypeMarket then ?t\<lparr>o_TimeInForce := TimeInForceIOC\<rparr> else ?t"
  have "has_rest \<lparr>r_Taker = ?e, r_Makers = [], r_Trades = []\<rparr>"
    using assms(2) by (simp add: has_rest_def normalizeOrder_def)
  from apply_loop_rest [OF this, of ids now "oppositeBookSide (o_Side ?e)" b]
  show ?thesis
    using assms(1) by (auto simp: Apply_def Let_def split: if_splits sum.splits apply_step.splits dest: apply_finish_rest)
qed

lemma opposite_is_side: "is_side (oppositeBookSide sd)"
  by (simp add: oppositeBookSide_def)

lemma Apply_good:
  assumes "fst (Apply b taker (Some ids) now) = Inr r" and "book_inv b" and "order_good taker"
  shows "result_good r"
proof (rule run_inv_good)
  show "run_inv ids now (entry_taker b taker) (eff_price (entry_taker b taker))
      (\<Union>p. set (level_of b (oppositeBookSide (o_Side taker)) p)) r"
    using Apply_run_inv [OF assms(2) order_good_normal [OF assms(3)] assms(1)] by blast
  show "order_ok m" if m: "m \<in> (\<Union>p. set (level_of b (oppositeBookSide (o_Side taker)) p))" for m
  proof -
    obtain p where p: "m \<in> set (level_of b (oppositeBookSide (o_Side taker)) p)" using m by blast
    have "side_inv b (oppositeBookSide (o_Side taker)) (book_side_of b (oppositeBookSide (o_Side taker)))"
      using assms(2) opposite_is_side by (simp only: book_inv_def)
    then show ?thesis using p by (auto simp only: side_inv_def resting_ok_def)
  qed
  show "o_RemainingQuantity (r_Taker r) \<noteq> []"
    using Apply_rest [OF assms(1)] assms(3) by (simp add: has_rest_def order_good_def)
qed

lemma active_orders_good:
  "trading_ok d \<Longrightarrow> \<forall>x \<in> set (ListActiveOrdersForUpdate d m i n). order_good x"
  unfolding ListActiveOrdersForUpdate_def
  by (auto simp: Let_def activeModelsToOrders_def activeModelToOrder_def trading_ok_def orders_good_def dest!: in_set_takeD)

lemma keeps_matchWithBook:
  assumes "order_good taker"
  shows "tx_keeps state_good (matchWithBook env taker levels)"
proof -
  have as: "tx_keeps (\<lambda>xs. \<forall>x \<in> set xs. order_good x)
      (tx_get (\<lambda>d. ListActiveOrdersForUpdate d m i n))" for m i n
    by (rule tx_keeps_get) (rule active_orders_good)
  have g: "result_good r" if l: "Load (NewMarketBook m ba qa) xs = (e, b)" and xs: "\<forall>x \<in> set xs. order_good x"
    and a: "fst (Apply b taker ids now) = Inr r" for m ba qa xs e b ids now r
  proof -
    have "book_inv (snd (Load (NewMarketBook m ba qa) xs))"
      by (rule book_inv_Load [OF book_inv_new]) (use xs order_good_normal in auto)
    moreover obtain f where "ids = Some f" using a by (cases ids) (auto simp: Apply_def)
    ultimately show ?thesis using Apply_good a l assms by auto
  qed
  show ?thesis
    unfolding matchWithBook_def Let_def
    by (intro tx_keeps_bind [OF as] keeps_intros keeps_frame_then frame_intros)
       (auto simp: state_good_def result_good_def dest!: g)
qed

lemma keeps_release_unfilled: "order_good x \<Longrightarrow> tx_keeps (\<lambda>_. True) (release_unfilled env x)"
  unfolding release_unfilled_def by (intro keeps_intros keeps_frame_then frame_intros keeps_ReleaseOrderFunds) auto

lemma keeps_record_match: "state_good st \<Longrightarrow> tx_keeps (\<lambda>_. True) (record_match env st)"
  unfolding record_match_def
  by (intro tx_keeps_bind [OF keeps_SaveOrder] tx_keeps_bind [OF keeps_SettleTrades]
      tx_keeps_bind [OF keeps_release_unfilled] keeps_frame_then frame_intros tx_keeps_frame)
     (auto simp: state_good_def)

lemma keeps_activate_stop: "order_good x \<Longrightarrow> tx_keeps (\<lambda>_. True) (activate_stop env x levels)"
  unfolding activate_stop_def
  by (intro tx_keeps_bind [OF keeps_match_order] tx_keeps_bind [OF keeps_SaveOrder] tx_keeps_bind [OF keeps_SettleTrades]
      keeps_frame_then frame_intros keeps_intros)
     (auto simp: state_good_def)

lemma keeps_activate_stops: "\<forall>x \<in> set items. order_good x \<Longrightarrow> tx_keeps (\<lambda>_. True) (activate_stops s env p items levels)"
proof (induction s env p items levels rule: activate_stops.induct)
  case (2 s env p x items levels)
  have x: "order_good x" using 2 by simp
  show ?case
    unfolding activate_stops.simps
    by (rule tx_keeps_if, use 2 in simp, rule keeps_frame_then, rule tx_frame_simple, rule keeps_frame_then,
        rule tx_frame_simple, rule tx_keeps_bind [OF keeps_activate_stop [OF x]], rule tx_keeps_cases,
        rule tx_keeps_bind [OF 2(2)]) (use 2 in \<open>auto intro!: keeps_intros\<close>)
qed (simp add: keeps_intros)

lemma pending_orders: "set (ListPendingStops d m limit) \<subseteq> set (db_orders d)"
  unfolding ListPendingStops_def by (auto simp: modelsToOrders_def modelToOrder_def dest!: in_set_takeD)

lemma keeps_activateTriggeredStops: "tx_keeps (\<lambda>_. True) (activateTriggeredStops s env m p levels)"
proof -
  have "tx_keeps (\<lambda>xs. \<forall>x \<in> set xs. order_good x) (tx_get (\<lambda>d. ListPendingStops d m 500))"
    using pending_orders by (intro tx_keeps_get) (fastforce simp: trading_ok_def orders_good_def)
  then show ?thesis
    unfolding activateTriggeredStops_def by (intro keeps_intros tx_keeps_bind [OF _ keeps_activate_stops]) auto
qed

section \<open>The operations\<close>

lemma keeps_accept_order:
  assumes "order_good x"
  shows "tx_keeps order_good (accept_order s env i b p x)"
  unfolding accept_order_def Let_def
  by (intro keeps_frame_then frame_intros tx_keeps_bind [OF keeps_CreateOrder] tx_keeps_bind [OF keeps_ReserveOrderFunds] keeps_intros)
     (use assms in auto)

lemma frame_finish [frame_intros]: "tx_frame (finish_command env i b x)"
  unfolding finish_command_def by (intro frame_intros)

lemma keeps_place_now: "order_good x \<Longrightarrow> tx_keeps (\<lambda>_. True) (place_now s env i x)"
  unfolding place_now_def Let_def
  by (intro tx_keeps_bind [OF keeps_match_order] tx_keeps_bind [OF keeps_record_match]
      tx_keeps_bind [OF keeps_activateTriggeredStops] keeps_intros keeps_frame_then frame_intros) auto

lemma keeps_place_async: "order_good x \<Longrightarrow> tx_keeps (\<lambda>_. True) (place_async s env i x)"
  unfolding place_async_def Let_def
  by (intro tx_keeps_bind [OF keeps_SaveOrder] keeps_frame_then frame_intros keeps_intros) auto

lemma frame_find_earlier [frame_intros]:
  "tx_frame (find_earlier_command i h)" "tx_frame (find_earlier_order env i b x)"
  unfolding find_earlier_command_def find_earlier_order_def by (intro frame_intros)+

lemma keeps_place_tx: "order_good x \<Longrightarrow> tx_keeps (\<lambda>_. True) (place_tx s env i p x)"
  unfolding place_tx_def
  by (intro keeps_frame_then frame_intros keeps_intros tx_keeps_bind [OF keeps_accept_order] keeps_place_now keeps_place_async)

lemma keeps_cancel_tx: "tx_keeps (\<lambda>_. True) (cancel_tx s env i u)"
proof -
  have "order_good (x\<lparr>o_Status := st, o_RemainingQuantity := ''0'', o_UpdatedAt := t\<rparr>)" if "order_good x" for x st t
    using that by (simp add: order_good_def order_ok_def Parse_0)
  then show ?thesis
    unfolding cancel_tx_def Let_def
    by (intro tx_keeps_bind [OF tx_keeps_not_found [OF keeps_find_order]] keeps_intros tx_keeps_bind [OF keeps_SaveOrder]
        keeps_frame_then frame_intros tx_keeps_bind [OF keeps_ReleaseOrderFunds]) auto
qed

lemma start_matching_good: "start_matching env x = Some y \<Longrightarrow> order_good x \<Longrightarrow> order_good y"
  by (auto simp: start_matching_def split: status.splits)

lemma keeps_match_order_tx: "tx_keeps (\<lambda>_. True) (match_order_tx s env i)"
  unfolding match_order_tx_def Let_def
  by (intro tx_keeps_bind [OF tx_keeps_not_found [OF keeps_find_order]] keeps_intros tx_keeps_bind [OF keeps_match_order]
      tx_keeps_bind [OF keeps_record_match] tx_keeps_bind [OF keeps_activateTriggeredStops] keeps_frame_then frame_intros)
     (auto dest: start_matching_good)

lemma keeps_match_with_book_tx: "tx_keeps (\<lambda>_. True) (match_with_book_tx s env i n b)"
  unfolding match_with_book_tx_def Let_def
  by (intro tx_keeps_bind [OF tx_keeps_not_found [OF keeps_find_order]] keeps_intros tx_keeps_bind [OF keeps_matchWithBook]
      tx_keeps_bind [OF keeps_each] keeps_SaveOrder
      tx_keeps_bind [OF keeps_record_match] tx_keeps_bind [OF keeps_activateTriggeredStops] keeps_frame_then frame_intros)
     (auto dest: start_matching_good simp: state_good_def)

lemma keeps_save_result_makers:
  "\<forall>m \<in> set makers. order_good m \<Longrightarrow> tx_keeps (\<lambda>_. True) (save_result_makers levels makers)"
  by (induction levels makers rule: save_result_makers.induct)
     (auto intro!: keeps_intros tx_keeps_bind [OF tx_keeps_not_found [OF keeps_find_order]] tx_keeps_bind [OF keeps_SaveOrder])

lemma keeps_persist_tx: "result_good r \<Longrightarrow> tx_keeps (\<lambda>_. True) (persist_tx s env r n b)"
  unfolding persist_tx_def Let_def
  by (intro tx_keeps_bind [OF tx_keeps_not_found [OF keeps_find_order]] keeps_intros tx_keeps_bind [OF keeps_save_result_makers]
      tx_keeps_bind [OF keeps_record_match] tx_keeps_bind [OF keeps_activateTriggeredStops] keeps_frame_then frame_intros)
     (auto simp: result_good_def state_good_def)

lemma keeps_trigger_tx: "tx_keeps (\<lambda>_. True) (trigger_tx s env m p)"
  unfolding trigger_tx_def
  by (intro tx_keeps_bind [OF keeps_activateTriggeredStops] keeps_intros keeps_frame_then frame_intros)

end
