(* ===== verification/TradingProps.thy ===== *)
theory TradingProps
  imports TradingFunds LedgerProps
begin

text \<open>
  What the service of \<^verbatim>\<open>internal/app/orders\<close> guarantees of its orders: the type of the orders it
  builds, the invariant of the store under every operation on orders, and what a cancellation does.
\<close>

section \<open>The orders of the service\<close>

definition canonical_amount :: "string \<Rightarrow> bool" where
  "canonical_amount q \<longleftrightarrow> String (Parse q) = q \<and> 0 < Parse q"

lemma parsePositiveDecimal_canonical:
  assumes "parsePositiveDecimal v = Inr q"
  shows "canonical_amount (String q) \<and> FractionalDigits (trim_space v) \<le> Scale \<and> q = Parse (trim_space v)"
proof -
  have q: "0 < q" "String q \<noteq> ''0''" "FractionalDigits (trim_space v) \<le> Scale" "q = Parse (trim_space v)"
    using assms by (auto simp: parsePositiveDecimal_def Let_def split: if_splits)
  have z: "String 0 = ''0''" by code_simp
  have "round18 0 = 0" by (simp add: round18_def)
  then have "0 \<le> round18 q" using round18_mono [of 0 q] q(1) by simp
  moreover have "round18 q \<noteq> 0" using String_round18 [of q] q(2) z by auto
  ultimately show ?thesis
    using q(3,4) String_Parse_String by (simp add: canonical_amount_def Parse_String)
qed

lemma canonical_ne: "canonical_amount q \<Longrightarrow> q \<noteq> []"
proof
  assume c: "canonical_amount q" "q = []"
  have "Parse [] = 0" by (simp add: Parse_def rat_set_string_def)
  then show False using c by (simp add: canonical_amount_def)
qed

definition build_facts :: "service \<Rightarrow> string \<Rightarrow> order \<Rightarrow> bool" where
  "build_facts s i x \<longleftrightarrow>
    (\<exists>m. market_Get (sv_markets s) (o_Market x) = Some m \<and> m_Enabled m \<and>
      o_BaseAsset x = m_BaseAsset m \<and> o_QuoteAsset x = m_QuoteAsset m) \<and>
    o_ID x = i \<and> o_UserID x \<noteq> [] \<and> o_ClientOrderID x \<noteq> [] \<and>
    Side_Validate (o_Side x) = Inr () \<and> Type_Validate (o_Type x) = Inr () \<and>
    canonical_amount (o_Price x) \<and> canonical_amount (o_Quantity x) \<and>
    o_RemainingQuantity x = o_Quantity x \<and> o_FilledQuantity x = ''0'' \<and>
    0 < Parse (Mul (o_Price x) (o_Quantity x)) \<and>
    o_Status x = (if o_Type x = TypeStopLimit then StatusPendingStop else StatusOpen) \<and>
    (if o_Type x = TypeStopLimit then canonical_amount (o_StopPrice x) else o_StopPrice x = ''0'') \<and>
    TimeInForce_Validate (o_TimeInForce x) = Inr () \<and>
    (o_Type x = TypeMarket \<longrightarrow> o_TimeInForce x = TimeInForceIOC) \<and>
    (o_TimeInForce x = TimeInForceIOC \<longrightarrow> o_Type x \<noteq> TypeStopLimit)"

lemma Cmp_nonpos: "(Cmp v ''0'' \<le> 0) = (Parse v \<le> 0)"
  by (simp add: Cmp_def rat_cmp_def Parse_0)

lemma buildOrder_facts:
  assumes "buildOrder s env i req = Inr x"
  shows "build_facts s i x"
proof -
  obtain m where m: "market_Get (sv_markets s) (normalizeMarket (pr_Market req)) = Some m"
    using assms by (auto simp: buildOrder_def Let_def split: option.splits)
  obtain p where p: "parsePositiveDecimal (pr_Price req) = Inr p"
    using assms by (auto simp: buildOrder_def Let_def m split: if_splits sum.splits)
  obtain q where q: "parsePositiveDecimal (pr_Quantity req) = Inr q"
    using assms by (auto simp: buildOrder_def Let_def m p split: if_splits sum.splits)
  note facts = parsePositiveDecimal_canonical [OF p] parsePositiveDecimal_canonical [OF q]
  show ?thesis
  proof (cases "NormalizeType (pr_Type req) = TypeStopLimit")
    case True
    obtain z where z: "parsePositiveDecimal (pr_StopPrice req) = Inr z"
      using assms by (auto simp: buildOrder_def Let_def m p q True split: if_splits sum.splits)
    show ?thesis
      using assms facts parsePositiveDecimal_canonical [OF z]
      by (auto simp: buildOrder_def Let_def m p q z True build_facts_def Cmp_nonpos
          simp del: Side_Validate_ok Type_Validate_ok TimeInForce_Validate_ok split: if_split_asm)
  next
    case False
    then show ?thesis
      using assms facts
      by (auto simp: buildOrder_def Let_def m p q build_facts_def Cmp_nonpos
          simp del: Side_Validate_ok Type_Validate_ok TimeInForce_Validate_ok split: if_split_asm)
  qed
qed

section \<open>A sample session\<close>

definition sample_service :: service where
  "sample_service =
     \<lparr>sv_markets = [\<lparr>m_Symbol = ''BTC-USD'', m_BaseAsset = ''BTC'', m_QuoteAsset = ''USD'', m_ChainKeys = [], m_Enabled = True\<rparr>],
      sv_assets = None, sv_priceBandBps = 0, sv_matching_mode = ''sync'', sv_publish = True, sv_gateway = None,
      sv_sha256 = (\<lambda>t. t @ ''h''), sv_command_json = (\<lambda>c. Some (cp_ClientOrderID c)), sv_event_json = (\<lambda>p. Some ''e''),
      sv_snapshot_digest = (\<lambda>b. None), sv_snapshot_json = (\<lambda>b. None), sv_snapshot_unjson = (\<lambda>t. None)\<rparr>"

definition sample_request :: "string \<Rightarrow> string \<Rightarrow> string \<Rightarrow> string \<Rightarrow> string \<Rightarrow> place_request" where
  "sample_request cid user sd price qty =
     \<lparr>pr_CommandID = [], pr_ClientOrderID = cid, pr_ReservationID = [], pr_UserID = user, pr_Market = ''btc-usd'',
      pr_Side = sd, pr_Type = ''limit'', pr_TimeInForce = [], pr_Price = price, pr_StopPrice = [], pr_Quantity = qty\<rparr>"

definition after :: "(ledger_error + 'a) \<times> db \<times> socket_event list \<Rightarrow> db" where
  "after r = fst (snd r)"

definition sample_resting :: db where
  "sample_resting = after (Place sample_service sample_env (sample_request ''c1'' ''alice'' ''buy'' ''2'' ''3'') (sample_deposited 4))"

definition sample_traded :: db where
  "sample_traded = after (Place sample_service sample_env (sample_request ''c2'' ''bob'' ''sell'' ''1.5'' ''1'') sample_resting)"

definition sample_canceled :: db where
  "sample_canceled = after (Cancel_order sample_service sample_env (o_ID (hd (db_orders sample_traded))) ''alice'' sample_traded)"

text \<open>C19: the type of an order that is built: its market is registered and enabled, its enumerations
  are legal and normalised, its amounts are positive, canonical and have at most 18 decimals, nothing
  is filled, the notional is not below the precision, it waits for its stop exactly when it is a
  stop-limit order, and market orders are immediate.\<close>

theorem buildOrder_type:
  assumes "buildOrder s env i req = Inr x"
  shows "(\<exists>m. market_Get (sv_markets s) (o_Market x) = Some m \<and> m_Enabled m \<and>
      o_BaseAsset x = m_BaseAsset m \<and> o_QuoteAsset x = m_QuoteAsset m) \<and>
    o_ID x = i \<and> o_UserID x \<noteq> [] \<and> o_ClientOrderID x \<noteq> [] \<and>
    o_Side x \<in> {SideBuy, SideSell} \<and> o_Type x \<in> {TypeLimit, TypeMarket, TypeStopLimit} \<and>
    canonical_amount (o_Price x) \<and> canonical_amount (o_Quantity x) \<and>
    o_RemainingQuantity x = o_Quantity x \<and> o_FilledQuantity x = ''0'' \<and>
    0 < Parse (Mul (o_Price x) (o_Quantity x)) \<and>
    o_Status x = (if o_Type x = TypeStopLimit then StatusPendingStop else StatusOpen) \<and>
    (if o_Type x = TypeStopLimit then canonical_amount (o_StopPrice x) else o_StopPrice x = ''0'') \<and>
    TimeInForce_Validate (o_TimeInForce x) = Inr () \<and>
    (o_Type x = TypeMarket \<longrightarrow> o_TimeInForce x = TimeInForceIOC) \<and>
    (o_TimeInForce x = TimeInForceIOC \<longrightarrow> o_Type x \<noteq> TypeStopLimit)"
  using buildOrder_facts [OF assms] unfolding build_facts_def
  by (cases "o_Side x"; cases "o_Type x") simp_all

theorem buildOrder_type_witness:
  "\<exists>x. buildOrder sample_service sample_env ''o7'' (sample_request ''c1'' ''alice'' ''buy'' ''2'' ''3'') = Inr x \<and>
    o_ID x = ''o7'' \<and> canonical_amount (o_Price x) \<and> o_RemainingQuantity x = o_Quantity x"
proof -
  have "isl (buildOrder sample_service sample_env ''o7'' (sample_request ''c1'' ''alice'' ''buy'' ''2'' ''3'')) = False"
    by code_simp
  then obtain x where "buildOrder sample_service sample_env ''o7'' (sample_request ''c1'' ''alice'' ''buy'' ''2'' ''3'') = Inr x"
    by (auto simp: isl_def split: sum.splits) (metis sum.exhaust)
  with buildOrder_type [OF this] show ?thesis by blast
qed

section \<open>The invariant of the store\<close>

text \<open>One operation of the service that changes orders. A match result that is persisted comes from
  the resident book of a matcher; its texts have to be well formed.\<close>

inductive trading_step :: "service \<Rightarrow> db \<Rightarrow> db \<Rightarrow> bool" for s :: service where
  step_place: "Place s env req d = (res, d', ms) \<Longrightarrow> trading_step s d d'"
| step_cancel: "Cancel_order s env i u d = (ores, d', ms) \<Longrightarrow> trading_step s d d'"
| step_match: "MatchOrder s env i d = (res, d', ms) \<Longrightarrow> trading_step s d d'"
| step_match_book: "MatchOrderWithBookAtSequence s env i n b d = (res, d', ms) \<Longrightarrow> trading_step s d d'"
| step_persist: "result_good r \<Longrightarrow> PersistBookMatchResult s env r n b d = (pres, d', ms) \<Longrightarrow> trading_step s d d'"
| step_stops: "TriggerStops s env m p d = (sres, d', ms) \<Longrightarrow> trading_step s d d'"

lemma buildOrder_good:
  assumes "buildOrder s env i req = Inr x"
  shows "order_good x"
proof -
  have f: "canonical_amount (o_Quantity x)" "o_RemainingQuantity x = o_Quantity x" "o_FilledQuantity x = ''0''"
    using buildOrder_facts [OF assms] by (auto simp: build_facts_def)
  then have "amount (o_Quantity x)" using amount_String [of "Parse (o_Quantity x)"] by (simp add: canonical_amount_def)
  then show ?thesis
    using f canonical_ne by (auto simp: order_good_def order_ok_def canonical_amount_def Parse_0)
qed

lemma service_tx_kept:
  assumes "service_tx f m d = (r, d', ms)" and "tx_keeps Q m" and "trading_ok d"
  shows "kept d d'"
  using assms tx_keepsD [OF assms(2,3)]
  by (auto simp: service_tx_def run_tx_def kept_refl split: sum.splits prod.splits)

lemma kept_ids: "kept (d\<lparr>db_ids := n\<rparr>) d' = kept d d'"
  by (simp add: kept_def net_inflow_def)

lemma trading_ok_ids: "trading_ok (d\<lparr>db_ids := n\<rparr>) = trading_ok d"
  using view_kept [of "d\<lparr>db_ids := n\<rparr>" d] view_kept [of d "d\<lparr>db_ids := n\<rparr>"]
  by (auto simp: kept_def trade_view_def)

lemma trading_step_kept: "trading_step s d d' \<Longrightarrow> trading_ok d \<Longrightarrow> kept d d'"
proof (induction rule: trading_step.induct)
  case (step_place env req d res d' ms)
  show ?case
  proof (cases "buildOrder s env (''ord_'' @ e_newid env (db_ids d)) req")
    case (Inl e)
    then show ?thesis using step_place by (auto simp: Place_def kept_refl)
  next
    case (Inr x)
    note k = keeps_place_tx [OF buildOrder_good [OF Inr]]
    show ?thesis
      using step_place Inr service_tx_kept [OF _ k, where d = "d\<lparr>db_ids := Suc (db_ids d)\<rparr>"]
      by (auto simp: Place_def kept_refl trading_ok_ids kept_ids split: sum.splits prod.splits)
  qed
next
  case (step_cancel env i u d ores d' ms)
  then show ?case
    using service_tx_kept [OF _ keeps_cancel_tx] by (fastforce simp: Cancel_order_def split: sum.splits prod.splits)
next
  case (step_match env i d res d' ms)
  then show ?case
    using service_tx_kept [OF _ keeps_match_order_tx]
    by (fastforce simp: MatchOrder_def placed_result_def split: sum.splits prod.splits)
next
  case (step_match_book env i n b d res d' ms)
  then show ?case
    using service_tx_kept [OF _ keeps_match_with_book_tx]
    by (fastforce simp: MatchOrderWithBookAtSequence_def placed_result_def split: sum.splits prod.splits)
next
  case (step_persist r env n b d pres d' ms)
  then show ?case
    using service_tx_kept [OF _ keeps_persist_tx [OF step_persist(1)]]
    by (fastforce simp: PersistBookMatchResult_def split: sum.splits prod.splits)
next
  case (step_stops env m p d sres d' ms)
  then show ?case
    using service_tx_kept [OF _ keeps_trigger_tx]
    by (fastforce simp: TriggerStops_def Let_def kept_refl split: sum.splits prod.splits option.splits)
qed

lemma trading_run_kept:
  assumes "(trading_step s)\<^sup>*\<^sup>* d d'" and "trading_ok d"
  shows "kept d d'"
  using assms
proof (induction rule: rtranclp_induct)
  case base
  then show ?case by (rule kept_refl)
next
  case (step y z)
  then show ?case using trading_step_kept [of s y z] kept_trans by (auto simp: kept_def)
qed

text \<open>C18: trading moves money between accounts only: whatever operations on orders a service runs, in
  any order and with whatever outcome, no balance becomes negative, every reservation's amount stays
  the sum of what it consumed, released and has left, the amounts of every stored order stay
  non-negative with at most 18 decimals, and the money held per asset does not change.\<close>

theorem trading_conserves:
  assumes "(trading_step s)\<^sup>*\<^sup>* d d'" and "trading_ok d"
  shows "(\<forall>k b. get_balance d' k = Some b \<longrightarrow>
      0 \<le> Parse (b_Available b) \<and> 0 \<le> Parse (b_Locked b) \<and> 0 \<le> Parse (b_Pending b)) \<and>
    (\<forall>i r. get_reservation d' i = Some r \<longrightarrow>
      Parse (rv_Amount r) = Parse (rv_ConsumedAmount r) + Parse (rv_ReleasedAmount r) + Parse (rv_RemainingAmount r) \<and>
      0 \<le> Parse (rv_RemainingAmount r)) \<and>
    (\<forall>x \<in> set (db_orders d') \<union> set (db_active d'). amount (o_RemainingQuantity x) \<and> amount (o_FilledQuantity x) \<and>
      0 \<le> Parse (o_RemainingQuantity x) \<and> 0 \<le> Parse (o_FilledQuantity x)) \<and>
    (\<forall>a. asset_total a d' = asset_total a d)"
proof -
  have k: "kept d d'" by (rule trading_run_kept [OF assms])
  then have ok: "ledger_ok d'" "orders_good d'" "ledger_ok d" and n: "\<And>a. net_inflow a d' = net_inflow a d"
    using assms(2) by (auto simp: kept_def trading_ok_def)
  have b: "balances_ok d'" "reservations_ok d'" "books_balance d'" "books_balance d"
    using ok by (auto simp: ledger_ok_def)
  have t: "asset_total a d' = asset_total a d" for a
    using b(3,4) n by (simp add: books_balance_def)
  show ?thesis
    using balances_okD [OF b(1)] reservations_okD [OF b(2)] ok(2) t
    by (auto simp: bal_ok_def res_ok_def good_amount_def orders_good_def order_good_def order_ok_def)
qed

lemma sample_trading_ok: "trading_ok (sample_deposited 4)"
  using reachable_ledger_ok [OF reachable_sample_deposited]
  by (simp add: trading_ok_def orders_good_def sample_deposited_def sample_db_def empty_db_def)

lemma surj3: "p = (fst p, fst (snd p), snd (snd p))"
  by simp

lemma after_step:
  "trading_step s d (after (Place s env req d))" "trading_step s d (after (Cancel_order s env i u d))"
  unfolding after_def by (rule step_place [OF surj3]) (rule step_cancel [OF surj3])

lemma sample_steps:
  "(trading_step sample_service)\<^sup>*\<^sup>* (sample_deposited 4) sample_traded"
  using after_step(1) unfolding sample_traded_def sample_resting_def
  by (meson rtranclp.rtrancl_into_rtrancl rtranclp.rtrancl_refl)

theorem trading_conserves_witness:
  "map o_Status (db_orders sample_traded) = [StatusPartiallyFilled, StatusFilled] \<and>
   asset_total ''USD'' sample_traded = 100 \<and> asset_total ''BTC'' sample_traded = 5"
proof -
  have "asset_total ''USD'' (sample_deposited 4) = 100" "asset_total ''BTC'' (sample_deposited 4) = 5" by code_simp+
  moreover have "map o_Status (db_orders sample_traded) = [StatusPartiallyFilled, StatusFilled]" by code_simp
  ultimately show ?thesis using trading_conserves [OF sample_steps sample_trading_ok] by simp
qed

section \<open>Canceling\<close>

text \<open>Transactions that leave the orders and their active rows alone.\<close>

lemma frame_keeps_orders: "tx_frame m \<Longrightarrow> m d = Inr (r, d') \<Longrightarrow> db_orders d' = db_orders d \<and> db_active d' = db_active d"
  by (auto simp: tx_frame_def trade_view_def)

lemma release_keeps_orders:
  assumes "ReleaseOrderFunds env x e d = Inr (u, d')" and "trading_ok d" and "order_good x"
  shows "db_orders d' = db_orders d \<and> db_active d' = db_active d"
proof -
  have a: "amount (o_RemainingQuantity x)" using assms(3) by (simp add: order_good_def order_ok_def)
  obtain s n where sn: "orderReserveAssetAmount x = (s, n)" by fastforce
  have b: "balances_ok d" "reservations_ok d" using assms(2) by (auto simp: trading_ok_def ledger_ok_def)
  show ?thesis
    using ReleaseOrderFunds_effect [OF assms(1) b sn reserve_amount [OF a sn]] same_but_funds_fields
    unfolding funds_step_def by blast
qed

text \<open>What a successful cancellation of a cancelable order does to the orders.\<close>

lemma cancel_tx_effect:
  assumes c: "cancel_tx s env i u d = Inr ((x, delta), d')" and ok: "trading_ok d"
  shows "\<exists>x0. getOrder d i = Some x0 \<and> (trim_space u = [] \<or> o_UserID x0 = u) \<and>
    (if cancelable (o_Status x0)
     then x = x0\<lparr>o_Status := StatusCanceled, o_RemainingQuantity := ''0'', o_UpdatedAt := e_now env\<rparr> \<and>
       db_orders d' = row_save o_ID (orderToModel x) (db_orders d) \<and>
       db_active d' = row_delete (\<lambda>r. o_ID r = i) (db_active d)
     else cancelAlreadyTerminal (o_Status x0) \<and> x = x0 \<and> delta = None \<and> d' = d)"
proof -
  obtain x0 where x0: "getOrder d i = Some x0"
    using c by (auto simp: cancel_tx_def tx_bind_Inr_iff not_found_as_def find_order_def split: option.splits)
  have own: "trim_space u = [] \<or> o_UserID x0 = u"
    using c x0 by (auto simp: cancel_tx_def tx_bind_Inr_iff not_found_as_def find_order_def Let_def tx_fail_def split: if_splits)
  have i: "o_ID x0 = i" and g: "order_good x0"
    using row_find_key [of o_ID i "db_orders d" x0] x0 ok by (auto simp: getOrder_def trading_ok_def orders_good_def)
  let ?x = "x0\<lparr>o_Status := StatusCanceled, o_RemainingQuantity := ''0'', o_UpdatedAt := e_now env\<rparr>"
  have gx: "order_good ?x" using g by (simp add: order_good_def order_ok_def Parse_0)
  show ?thesis
  proof (cases "cancelable (o_Status x0)")
    case False
    then show ?thesis
      using c x0 own
      by (auto simp: cancel_tx_def tx_bind_Inr_iff not_found_as_def find_order_def tx_fail_def tx_return_def split: if_splits)
  next
    case True
    obtain u1 d1 bev d2 u2 d3 e d4 u3 d5 ds where
      s1: "SaveOrder ?x d = Inr (u1, d1)" and s2: "new_id env ''bev'' d1 = Inr (bev, d2)"
      and s3: "ReleaseOrderFunds env x0 bev d2 = Inr (u2, d3)" and s4: "newOrderEvent env ?x EventOrderCanceled [] d3 = Inr (e, d4)"
      and s5: "CreateOrderEvents [e] d4 = Inr (u3, d5)"
      and s6: "refreshBookProjection env (o_Market ?x) (touch newLevelTracker ?x) d5 = Inr (ds, d')" and x: "x = ?x"
      using c x0 own True
      by (auto simp: cancel_tx_def tx_bind_Inr_iff not_found_as_def find_order_def Let_def tx_fail_def tx_return_def split: if_splits)
    have b: "\<not> isBookableOrder ?x" by (simp add: isBookableOrder_def isOpenStatus_def openStatuses_def)
    have d1: "db_orders d1 = row_save o_ID (orderToModel ?x) (db_orders d)" "db_active d1 = row_delete (\<lambda>r. o_ID r = i) (db_active d)"
      using s1 b i by (auto simp: SaveOrder_def SyncActiveOrder_def save_order_row_def tx_bind_Inr_iff tx_modify_def split: if_splits)
    have ok1: "trading_ok d1" using tx_keepsD [OF keeps_SaveOrder [OF gx] ok s1] by (simp add: kept_def)
    have ok2: "trading_ok d2" using tx_keepsD [OF tx_keeps_frame [OF tx_frame_id] ok1 s2] by (simp add: kept_def)
    show ?thesis
      using x0 own True x d1 frame_keeps_orders [OF tx_frame_id s2] release_keeps_orders [OF s3 ok2 g]
        frame_keeps_orders [OF frame_events(1) s4] frame_keeps_orders [OF frame_records(2) s5]
        frame_keeps_orders [OF frame_refresh s6]
      by simp
  qed
qed

text \<open>C20: canceling happens once: a cancellation that succeeds names an order of the caller and ends in
  a final status; an open order gets the status canceled with nothing remaining and leaves the active
  orders, a final one is returned as it is with no effect, other orders are untouched, and every later
  cancellation returns the stored order without any effect or message.\<close>

theorem Cancel_order_once:
  assumes "Cancel_order s env i u d = (Inr x, d', ms)" and "trading_ok d"
  shows "\<exists>x0 y. getOrder d i = Some x0 \<and> getOrder d' i = Some y \<and> (trim_space u = [] \<or> o_UserID x0 = u) \<and>
    (if cancelable (o_Status x0)
     then x = x0\<lparr>o_Status := StatusCanceled, o_RemainingQuantity := ''0'', o_UpdatedAt := e_now env\<rparr> \<and>
       y = orderToModel x \<and> (\<forall>r \<in> set (db_active d'). o_ID r \<noteq> i)
     else x = x0 \<and> d' = d \<and> ms = []) \<and>
    cancelAlreadyTerminal (o_Status x) \<and>
    (\<forall>j. j \<noteq> i \<longrightarrow> getOrder d' j = getOrder d j) \<and>
    Cancel_order s env2 i u d' = (Inr y, d', [])"
proof -
  obtain delta where c: "cancel_tx s env i u d = Inr ((x, delta), d')" and ms: "ms = cancel_messages s env (x, delta)"
    using assms(1) by (auto simp: Cancel_order_def service_tx_def run_tx_def split: sum.splits prod.splits)
  obtain x0 where x0: "getOrder d i = Some x0" "trim_space u = [] \<or> o_UserID x0 = u"
    and e: "if cancelable (o_Status x0)
     then x = x0\<lparr>o_Status := StatusCanceled, o_RemainingQuantity := ''0'', o_UpdatedAt := e_now env\<rparr> \<and>
       db_orders d' = row_save o_ID (orderToModel x) (db_orders d) \<and>
       db_active d' = row_delete (\<lambda>r. o_ID r = i) (db_active d)
     else cancelAlreadyTerminal (o_Status x0) \<and> x = x0 \<and> delta = None \<and> d' = d"
    using cancel_tx_effect [OF c assms(2)] by blast
  have i: "o_ID x0 = i" using row_find_key x0(1) by (fastforce simp: getOrder_def)
  show ?thesis
  proof (cases "cancelable (o_Status x0)")
    case True
    let ?y = "orderToModel x"
    have st: "o_Status ?y = StatusCanceled" "o_UserID ?y = o_UserID x0" "o_ID ?y = i" "o_Status x = StatusCanceled"
      using e True i by (auto simp: orderToModel_def)
    have g: "getOrder d' j = (if j = i then Some ?y else getOrder d j)" for j
      using e True st(3) by (simp add: getOrder_def row_find_save)
    have "Cancel_order s env2 i u d' = (Inr ?y, d', [])"
      using g [of i] st x0(2)
      by (auto simp: Cancel_order_def service_tx_def run_tx_def cancel_tx_def tx_bind_def not_found_as_def find_order_def
          cancelable_def cancelAlreadyTerminal_def tx_return_def cancel_messages_def)
    moreover have "\<forall>r \<in> set (db_active d'). o_ID r \<noteq> i" using e True by (simp add: row_delete_def)
    ultimately show ?thesis using x0 e True g st(4) by (simp add: cancelAlreadyTerminal_def)
  next
    case False
    then have f: "cancelAlreadyTerminal (o_Status x0)" "x = x0" "d' = d" "ms = []"
      using e ms by (auto simp: cancel_messages_def)
    then have "Cancel_order s env2 i u d' = (Inr x0, d', [])"
      using False x0
      by (auto simp: Cancel_order_def service_tx_def run_tx_def cancel_tx_def tx_bind_def not_found_as_def find_order_def
          tx_return_def cancel_messages_def)
    then show ?thesis using f False x0 by simp
  qed
qed

theorem Cancel_order_once_witness:
  "\<exists>x y. Cancel_order sample_service sample_env (o_ID (hd (db_orders sample_traded))) ''alice'' sample_traded =
      (Inr x, sample_canceled, snd (snd (Cancel_order sample_service sample_env (o_ID (hd (db_orders sample_traded))) ''alice'' sample_traded))) \<and>
    cancelAlreadyTerminal (o_Status x) \<and>
    Cancel_order sample_service sample_env (o_ID (hd (db_orders sample_traded))) ''alice'' sample_canceled = (Inr y, sample_canceled, [])"
proof -
  let ?c = "Cancel_order sample_service sample_env (o_ID (hd (db_orders sample_traded))) ''alice'' sample_traded"
  have "isl (fst ?c) = False" by code_simp
  then obtain x where x: "?c = (Inr x, sample_canceled, snd (snd ?c))"
    by (cases ?c; cases "fst ?c") (auto simp: sample_canceled_def after_def)
  have "trading_ok sample_traded"
    using trading_run_kept [OF sample_steps sample_trading_ok] by (simp add: kept_def)
  from Cancel_order_once [OF x this, of sample_env] x show ?thesis by blast
qed

end
