(* ===== verification/Gateway.thy ===== *)
theory Gateway
  imports OrderService
begin

text \<open>
  Accounts and the payment gateway in \<^verbatim>\<open>orders.Service\<close>: balances, deposits and withdrawals by a
  user, deposit addresses, and the callbacks by which the gateway reports deposits and withdrawals.
  The gateway itself is the parameter \<^const>\<open>sv_gateway\<close> of the service.
\<close>

section \<open>Requests and results\<close>

record balance_amount_request =
  br_Asset :: string
  br_Amount :: string

record withdrawal_request =
  wr_Asset :: string
  wr_Amount :: string
  wr_ChainKey :: string
  wr_Address :: string

record wallet_request =
  lr_ChainKey :: string
  lr_Address :: string

record deposit_address_request =
  dr_Asset :: string
  dr_ChainKey :: string
  dr_Label :: string

record deposit_address =
  da_UserID :: string
  da_Asset :: string
  da_ChainKey :: string
  da_ChainID :: int
  da_Address :: string
  da_WalletID :: string
  da_Label :: string

record gateway_deposit_callback =
  gd_EventID :: string
  gd_PaymentID :: string
  gd_TrackID :: string
  gd_OrderID :: string
  gd_UserID :: string
  gd_Asset :: string
  gd_Symbol :: string
  gd_SelectedAsset :: string
  gd_Amount :: string
  gd_AmountRaw :: string
  gd_Decimals :: int
  gd_Status :: string
  gd_ChainKey :: string
  gd_Chain :: string
  gd_SelectedChain :: string
  gd_TxHash :: string

record gateway_withdrawal_callback =
  gl_EventID :: string
  gl_WithdrawalID :: string
  gl_PayoutID :: string
  gl_ID :: string
  gl_Status :: string
  gl_TxHash :: string

record gateway_callback_result =
  gr_Status :: string
  gr_Action :: string
  gr_Balance :: "balance option"
  gr_Withdrawal :: "withdrawal option"

section \<open>Messages\<close>

definition publishBalanceUpdate :: "service \<Rightarrow> env \<Rightarrow> string \<Rightarrow> balance \<Rightarrow> socket_event list" where
  "publishBalanceUpdate s env eventType item =
     (if \<not> sv_publish s then []
      else [(plain_message env eventType [] (b_UserID item))\<lparr>se_Balance := Some item\<rparr>])"

definition publishWithdrawalUpdate :: "service \<Rightarrow> env \<Rightarrow> string \<Rightarrow> withdrawal \<Rightarrow> socket_event list" where
  "publishWithdrawalUpdate s env eventType item =
     (if \<not> sv_publish s then []
      else [(plain_message env eventType [] (wd_UserID item))\<lparr>se_Withdrawal := Some item\<rparr>])"

definition publishWalletUpdate :: "service \<Rightarrow> env \<Rightarrow> string \<Rightarrow> wallet \<Rightarrow> socket_event list" where
  "publishWalletUpdate s env eventType item =
     (if \<not> sv_publish s then []
      else [(plain_message env eventType [] (w_UserID item))\<lparr>se_Wallet := Some item\<rparr>])"

section \<open>Known assets and chains\<close>

definition knownAsset :: "service \<Rightarrow> string \<Rightarrow> bool" where
  "knownAsset s asset =
     (let markets = market_All (sv_markets s) in
      markets = [] \<or> (\<exists>item \<in> set markets. equal_fold (m_BaseAsset item) asset \<or> equal_fold (m_QuoteAsset item) asset))"

definition knownChain :: "service \<Rightarrow> string \<Rightarrow> bool" where
  "knownChain s chainKey =
     (let markets = market_All (sv_markets s); keys = concat (map m_ChainKeys markets) in
      markets = [] \<or> keys = [] \<or> (\<exists>key \<in> set keys. equal_fold key chainKey))"

definition gatewayChainID :: "string \<Rightarrow> int option" where
  "gatewayChainID chainKey =
     (let key = to_lower (trim_space chainKey) in
      if key = ''bitcoin'' then Some 0
      else if key = ''ethereum'' then Some 1
      else if key \<in> {''binance_smart_chain'', ''bnbchain'', ''bsc''} then Some 56
      else if key = ''unichain'' then Some 130
      else if key = ''arbitrum'' then Some 42161
      else if key = ''base'' then Some 8453
      else if key \<in> {''avalanche'', ''avax''} then Some 43114
      else if key = ''chiliz'' then Some 88888
      else if key = ''solana'' then Some 99999999
      else if key = ''tron'' then Some 99999998
      else None)"

definition validateGatewayAddress :: "string \<Rightarrow> string \<Rightarrow> ledger_error + unit" where
  "validateGatewayAddress chainKey0 address0 =
     (let chainKey = to_lower (trim_space chainKey0); address = trim_space address0 in
      if chainKey \<in> {''ethereum'', ''base'', ''chiliz'', ''avalanche'', ''avax'', ''unichain'', ''arbitrum'',
                     ''binance_smart_chain'', ''bnbchain'', ''bsc''}
      then (if \<not> has_prefix address ''0x'' \<or> length address \<noteq> 42 then Inl ErrInvalidOrder else Inr ())
      else if chainKey = ''solana''
      then (if has_prefix address ''0x'' \<or> length address < 32 \<or> length address > 64
            then Inl ErrInvalidOrder else Inr ())
      else if length address < 8 then Inl ErrInvalidOrder else Inr ())"

definition canonicalDepositChainKey :: "string \<Rightarrow> chain_key" where
  "canonicalDepositChainKey value0 =
     (let key = to_lower (trim_space value0) in
      if key = ''bitcoin'' then ''bitcoin''
      else if key = ''ethereum'' then ChainKeyEthereum
      else if key \<in> {''binance_smart_chain'', ''bnbchain'', ''bsc''} then ChainKeyBinanceSmartChain
      else if key = ''unichain'' then ChainKeyUnichain
      else if key = ''arbitrum'' then ChainKeyArbitrum
      else if key = ''base'' then ChainKeyBase
      else if key \<in> {''avalanche'', ''avax''} then ChainKeyAvalanche
      else if key = ''chiliz'' then ChainKeyChiliz
      else if key = ''solana'' then ChainKeySolana
      else if key = ''tron'' then ''tron''
      else key)"

definition canonicalGatewayAssetSymbol :: "service \<Rightarrow> string \<Rightarrow> string" where
  "canonicalGatewayAssetSymbol s symbol0 =
     (let symbol = to_upper (trim_space symbol0) in
      if symbol = [] then symbol
      else (case sv_assets s of
              None \<Rightarrow> symbol
            | Some assets \<Rightarrow>
                if asset_Get assets symbol \<noteq> None then symbol
                else (case find (\<lambda>item. \<exists>d \<in> set (a_Deployments item). equal_fold (dp_Symbol d) symbol) (asset_All assets) of
                        Some item \<Rightarrow> to_upper (trim_space (a_Symbol item))
                      | None \<Rightarrow> symbol)))"

definition gatewayDepositSymbol :: "service \<Rightarrow> string \<Rightarrow> string \<Rightarrow> string" where
  "gatewayDepositSymbol s symbol0 chainKey =
     (let symbol = to_upper (trim_space symbol0); target = canonicalDepositChainKey chainKey in
      if symbol = [] then symbol
      else (case sv_assets s of
              None \<Rightarrow> symbol
            | Some assets \<Rightarrow>
                (case asset_Get assets symbol of
                   None \<Rightarrow> symbol
                 | Some item \<Rightarrow>
                     (case find (\<lambda>d. dp_Enabled d \<and> (target = [] \<or> dp_ChainKey d = target)) (a_Deployments item) of
                        None \<Rightarrow> symbol
                      | Some d \<Rightarrow> if to_upper (trim_space (dp_Symbol d)) \<noteq> [] then to_upper (trim_space (dp_Symbol d)) else symbol))))"

section \<open>Balances and withdrawals of a user\<close>

definition Service_ListBalances :: "db \<Rightarrow> string \<Rightarrow> ledger_error + balance list" where
  "Service_ListBalances d userID0 =
     (let userID = trim_space userID0 in if userID = [] then Inl ErrInvalidOrder else Inr (ListBalances d userID))"

definition Service_ListWithdrawals :: "db \<Rightarrow> string \<Rightarrow> int \<Rightarrow> ledger_error + withdrawal list" where
  "Service_ListWithdrawals d userID0 limit =
     (let userID = trim_space userID0 in if userID = [] then Inl ErrInvalidOrder else Inr (ListWithdrawals d userID limit))"

definition Service_ListWallets :: "db \<Rightarrow> string \<Rightarrow> ledger_error + wallet list" where
  "Service_ListWallets d userID0 =
     (let userID = trim_space userID0 in if userID = [] then Inl ErrInvalidOrder else Inr (ListWallets d userID))"

definition applyBalanceAmountWithEvent ::
  "service \<Rightarrow> string \<Rightarrow> balance_amount_request \<Rightarrow> string \<Rightarrow> (string \<Rightarrow> string \<Rightarrow> string \<Rightarrow> string \<Rightarrow> balance ltx) \<Rightarrow>
     db \<Rightarrow> (ledger_error + balance) \<times> db" where
  "applyBalanceAmountWithEvent s userID0 req eventID fn d =
     (let userID = trim_space userID0; asset = to_upper (trim_space (br_Asset req)) in
      if userID = [] then (Inl ErrInvalidOrder, d)
      else if asset = [] then (Inl ErrInvalidOrder, d)
      else if \<not> knownAsset s asset then (Inl ErrInvalidOrder, d)
      else (case parsePositiveDecimal (br_Amount req) of
              Inl e \<Rightarrow> (Inl e, d)
            | Inr amt \<Rightarrow> run_tx (fn userID asset (String amt) eventID) d))"

text \<open>The event identifier of a deposit is drawn inside the transaction.\<close>

definition with_event_id :: "env \<Rightarrow> string \<Rightarrow> (string \<Rightarrow> 'a ltx) \<Rightarrow> 'a ltx" where
  "with_event_id env eventID f = (if eventID = [] then tx_bind (new_id env ''bev'') f else f eventID)"

definition Service_MarkDepositPending ::
  "service \<Rightarrow> env \<Rightarrow> string \<Rightarrow> balance_amount_request \<Rightarrow> db \<Rightarrow> (ledger_error + balance) \<times> db \<times> socket_event list" where
  "Service_MarkDepositPending s env userID req d =
     (case applyBalanceAmountWithEvent s userID req []
             (\<lambda>user asset amt eventID. with_event_id env eventID (MarkDepositPending env user asset amt)) d of
        (Inl e, d') \<Rightarrow> (Inl e, d', [])
      | (Inr out, d') \<Rightarrow> (Inr out, d', publishBalanceUpdate s env ''exchange.deposit_pending'' out))"

definition Service_SettleDeposit ::
  "service \<Rightarrow> env \<Rightarrow> string \<Rightarrow> balance_amount_request \<Rightarrow> db \<Rightarrow> (ledger_error + balance) \<times> db \<times> socket_event list" where
  "Service_SettleDeposit s env userID req d =
     (case applyBalanceAmountWithEvent s userID req []
             (\<lambda>user asset amt eventID. with_event_id env eventID (SettleDeposit env user asset amt)) d of
        (Inl e, d') \<Rightarrow> (Inl e, d', [])
      | (Inr out, d') \<Rightarrow> (Inr out, d', publishBalanceUpdate s env ''exchange.deposit_settled'' out))"

text \<open>The identifier of a withdrawal is drawn before the transaction.\<close>

definition new_withdrawal :: "string \<Rightarrow> string \<Rightarrow> string \<Rightarrow> string \<Rightarrow> string \<Rightarrow> string \<Rightarrow> withdrawal" where
  "new_withdrawal wdID userID asset amt chainKey address =
     \<lparr>wd_ID = wdID, wd_UserID = userID, wd_Asset = asset, wd_Amount = amt, wd_ChainKey = chainKey,
      wd_Address = address, wd_Status = WithdrawalRequested, wd_CreatedAt = 0, wd_UpdatedAt = 0\<rparr>"

definition Service_RequestWithdrawal ::
  "service \<Rightarrow> env \<Rightarrow> string \<Rightarrow> withdrawal_request \<Rightarrow> db \<Rightarrow> (ledger_error + withdrawal) \<times> db \<times> socket_event list" where
  "Service_RequestWithdrawal s env userID0 req d =
     (let userID = trim_space userID0; asset = to_upper (trim_space (wr_Asset req));
          chainKey = to_lower (trim_space (wr_ChainKey req)); address = trim_space (wr_Address req) in
      if userID = [] then (Inl ErrInvalidOrder, d, [])
      else if asset = [] then (Inl ErrInvalidOrder, d, [])
      else if \<not> knownAsset s asset then (Inl ErrInvalidOrder, d, [])
      else if chainKey = [] then (Inl ErrInvalidOrder, d, [])
      else if \<not> knownChain s chainKey then (Inl ErrInvalidOrder, d, [])
      else if address = [] then (Inl ErrInvalidOrder, d, [])
      else (case validateGatewayAddress chainKey address of
              Inl e \<Rightarrow> (Inl e, d, [])
            | Inr _ \<Rightarrow>
           (case parsePositiveDecimal (wr_Amount req) of
              Inl e \<Rightarrow> (Inl e, d, [])
            | Inr amt \<Rightarrow>
                service_tx (publishWithdrawalUpdate s env ''exchange.withdrawal_requested'')
                  (tx_bind (new_id env ''bev'') (\<lambda>bev.
                   RequestWithdrawal env
                     (new_withdrawal (''wd_'' @ e_newid env (db_ids d)) userID asset (String amt) chainKey address) bev))
                  (d\<lparr>db_ids := Suc (db_ids d)\<rparr>))))"

definition Service_finalizeWithdrawal :: "string \<Rightarrow> withdrawal ltx \<Rightarrow> db \<Rightarrow> (ledger_error + withdrawal) \<times> db" where
  "Service_finalizeWithdrawal ID fn d = (if trim_space ID = [] then (Inl ErrInvalidOrder, d) else run_tx fn d)"

definition Service_CompleteWithdrawal ::
  "service \<Rightarrow> env \<Rightarrow> string \<Rightarrow> db \<Rightarrow> (ledger_error + withdrawal) \<times> db \<times> socket_event list" where
  "Service_CompleteWithdrawal s env ID d =
     (case Service_finalizeWithdrawal ID (tx_bind (new_id env ''bev'') (CompleteWithdrawal env ID)) d of
        (Inl e, d') \<Rightarrow> (Inl e, d', [])
      | (Inr out, d') \<Rightarrow> (Inr out, d', publishWithdrawalUpdate s env ''exchange.withdrawal_completed'' out))"

definition Service_CancelWithdrawal ::
  "service \<Rightarrow> env \<Rightarrow> string \<Rightarrow> db \<Rightarrow> (ledger_error + withdrawal) \<times> db \<times> socket_event list" where
  "Service_CancelWithdrawal s env ID d =
     (case Service_finalizeWithdrawal ID (tx_bind (new_id env ''bev'') (CancelWithdrawal env ID)) d of
        (Inl e, d') \<Rightarrow> (Inl e, d', [])
      | (Inr out, d') \<Rightarrow> (Inr out, d', publishWithdrawalUpdate s env ''exchange.withdrawal_canceled'' out))"

section \<open>Wallets\<close>

definition plain_wallet :: "string \<Rightarrow> string \<Rightarrow> string \<Rightarrow> wallet" where
  "plain_wallet userID chainKey address =
     \<lparr>w_UserID = userID, w_ChainKey = chainKey, w_Address = address, w_CreatedAt = 0, w_UpdatedAt = 0\<rparr>"

definition DepositAddress ::
  "service \<Rightarrow> env \<Rightarrow> string \<Rightarrow> deposit_address_request \<Rightarrow> db \<Rightarrow>
     (ledger_error + deposit_address) \<times> db \<times> socket_event list" where
  "DepositAddress s env userID0 req d =
     (let userID = trim_space userID0; asset = to_upper (trim_space (dr_Asset req));
          chainKey = to_lower (trim_space (dr_ChainKey req)); label = trim_space (dr_Label req) in
      if userID = [] then (Inl ErrInvalidOrder, d, [])
      else if asset = [] then (Inl ErrInvalidOrder, d, [])
      else if chainKey = [] then (Inl ErrInvalidOrder, d, [])
      else (case gatewayChainID chainKey of
              None \<Rightarrow> (Inl ErrInvalidOrder, d, [])
            | Some chainID \<Rightarrow>
           (case sv_gateway s of
              None \<Rightarrow> (Inl ErrGateway, d, [])
            | Some gw \<Rightarrow>
           (case gw_CreateStaticAddress gw userID (gatewayDepositSymbol s asset chainKey) chainID label of
              None \<Rightarrow> (Inl ErrGateway, d, [])
            | Some item \<Rightarrow>
               let address = trim_space (ga_Address item) in
               if address = [] then (Inl ErrGateway, d, [])
               else (case validateGatewayAddress chainKey address of
                       Inl e \<Rightarrow> (Inl e, d, [])
                     | Inr _ \<Rightarrow>
                    (case run_tx (UpsertWallet env (plain_wallet userID chainKey address)) d of
                       (Inl e, d') \<Rightarrow> (Inl e, d', [])
                     | (Inr _, d') \<Rightarrow>
                         (Inr \<lparr>da_UserID = userID, da_Asset = asset, da_ChainKey = chainKey, da_ChainID = chainID,
                               da_Address = address, da_WalletID = trim_space (ga_WalletID item),
                               da_Label = firstNonEmptyString [label, trim_space (ga_Label item)]\<rparr>,
                          d', publishWalletUpdate s env ''exchange.wallet_registered''
                                (plain_wallet userID chainKey address))))))))"

definition GatewayQRCode :: "service \<Rightarrow> string \<Rightarrow> int \<Rightarrow> ledger_error + string" where
  "GatewayQRCode s address0 size0 =
     (let address = trim_space address0; sz = (if size0 \<le> 0 then 300 else size0) in
      if address = [] then Inl ErrInvalidOrder
      else if sz < 128 \<or> sz > 1024 then Inl ErrInvalidOrder
      else (case sv_gateway s of
              None \<Rightarrow> Inl ErrGateway
            | Some gw \<Rightarrow> (case gw_QRCode gw address sz of None \<Rightarrow> Inl ErrGateway | Some png \<Rightarrow> Inr png)))"

definition RegisterGatewayWallet ::
  "service \<Rightarrow> env \<Rightarrow> string \<Rightarrow> wallet_request \<Rightarrow> db \<Rightarrow> (ledger_error + wallet) \<times> db \<times> socket_event list" where
  "RegisterGatewayWallet s env userID0 req d =
     (let userID = trim_space userID0; chainKey = to_lower (trim_space (lr_ChainKey req));
          address = trim_space (lr_Address req) in
      if userID = [] then (Inl ErrInvalidOrder, d, [])
      else if chainKey = [] then (Inl ErrInvalidOrder, d, [])
      else if \<not> knownChain s chainKey then (Inl ErrInvalidOrder, d, [])
      else if address = [] then (Inl ErrInvalidOrder, d, [])
      else (case validateGatewayAddress chainKey address of
              Inl e \<Rightarrow> (Inl e, d, [])
            | Inr _ \<Rightarrow> service_tx (publishWalletUpdate s env ''exchange.wallet_registered'')
                         (UpsertWallet env (plain_wallet userID chainKey address)) d))"

section \<open>Reading a callback\<close>

definition gatewayDepositRawAsset :: "gateway_deposit_callback \<Rightarrow> string" where
  "gatewayDepositRawAsset req =
     to_upper (firstNonEmptyString [gd_Asset req, gd_Symbol req, gd_SelectedAsset req])"

definition gatewayDepositAsset :: "service \<Rightarrow> gateway_deposit_callback \<Rightarrow> string" where
  "gatewayDepositAsset s req = canonicalGatewayAssetSymbol s (gatewayDepositRawAsset req)"

definition symbol_char :: "char \<Rightarrow> bool" where
  "symbol_char c \<longleftrightarrow> (65 \<le> (of_char c :: int) \<and> (of_char c :: int) \<le> 90) \<or> is_digit c \<or> c \<in> {CHR ''.'', CHR ''-'', CHR ''_''}"

definition validGatewayAssetSymbol :: "string \<Rightarrow> bool" where
  "validGatewayAssetSymbol asset0 \<longleftrightarrow>
     (let asset = trim_space asset0 in asset \<noteq> [] \<and> length asset \<le> 32 \<and> list_all symbol_char asset)"

text \<open>A text of digits with \<open>decimals\<close> of them after the point, without trailing zeros.\<close>

definition shifted_text :: "string \<Rightarrow> int \<Rightarrow> string" where
  "shifted_text raw decimals =
     (if decimals > 0 then
        (let n = nat decimals;
             padded = (if length raw \<le> n then replicate (n - length raw + 1) (CHR ''0'') @ raw else raw);
             idx = length padded - n
         in trim_right (CHR ''.'') (trim_right (CHR ''0'') (take idx padded @ ''.'' @ drop idx padded)))
      else raw)"

definition rawAmountToDecimal :: "string \<Rightarrow> int \<Rightarrow> ledger_error + string" where
  "rawAmountToDecimal raw0 decimals =
     (let raw = trim_space raw0 in
      if raw = [] then Inl ErrInvalidOrder
      else if \<not> list_all is_digit raw then Inl ErrInvalidOrder
      else
        let digits = trim_left (CHR ''0'') raw in
        if digits = [] then Inl ErrInvalidOrder
        else (case parsePositiveDecimal (shifted_text digits decimals) of
                Inl e \<Rightarrow> Inl e | Inr amt \<Rightarrow> Inr (String amt)))"

definition positive_text :: "string \<Rightarrow> ledger_error + string" where
  "positive_text value = (case parsePositiveDecimal value of Inl e \<Rightarrow> Inl e | Inr amt \<Rightarrow> Inr (String amt))"

definition gatewayDepositAmount :: "gateway_deposit_callback \<Rightarrow> ledger_error + string" where
  "gatewayDepositAmount req =
     (if trim_space (gd_Amount req) \<noteq> [] then positive_text (gd_Amount req)
      else if trim_space (gd_AmountRaw req) = [] then Inl ErrInvalidOrder
      else if gd_Decimals req < 0 then Inl ErrInvalidOrder
      else if gd_Decimals req = 0 then positive_text (gd_AmountRaw req)
      else rawAmountToDecimal (gd_AmountRaw req) (gd_Decimals req))"

definition gatewayDepositReference :: "gateway_deposit_callback \<Rightarrow> string" where
  "gatewayDepositReference req =
     firstNonEmptyString [gd_EventID req, gd_PaymentID req, gd_TrackID req, gd_OrderID req, gd_TxHash req]"

definition gatewayBalanceEventID :: "service \<Rightarrow> string \<Rightarrow> string \<Rightarrow> string" where
  "gatewayBalanceEventID s prefix ref = prefix @ ''_'' @ take 32 (sv_sha256 s (trim_space ref))"

definition normalizeGatewayStatus :: "string \<Rightarrow> string" where
  "normalizeGatewayStatus raw =
     (let st = to_lower (trim_space raw) in
      if st \<in> {'''', ''pending'', ''awaiting_payment'', ''processing'', ''requested''} then ''pending''
      else if st \<in> {''paid'', ''confirmed'', ''complete'', ''completed'', ''settled'', ''success'', ''succeeded''} then ''settled''
      else if st \<in> {''cancelled'', ''canceled'', ''failed'', ''rejected'', ''expired''} then ''canceled''
      else st)"

section \<open>Callbacks\<close>

definition currentBalance :: "db \<Rightarrow> string \<Rightarrow> string \<Rightarrow> balance option" where
  "currentBalance d userID asset = find (\<lambda>item. equal_fold (b_Asset item) asset) (ListBalances d userID)"

definition mark_pending_tx :: "env \<Rightarrow> string \<Rightarrow> string \<Rightarrow> string \<Rightarrow> string \<Rightarrow> balance option ltx" where
  "mark_pending_tx env userID asset amt eventID =
     tx_bind (tx_get (\<lambda>d. BalanceEventExists d eventID)) (\<lambda>exists.
     if exists then tx_return None
     else tx_bind (MarkDepositPending env userID asset amt eventID) (\<lambda>b. tx_return (Some b)))"

text \<open>The balance, whether the callback was processed, the store and the messages.\<close>

definition markDepositPendingOnce ::
  "service \<Rightarrow> env \<Rightarrow> string \<Rightarrow> string \<Rightarrow> string \<Rightarrow> string \<Rightarrow> db \<Rightarrow>
     (ledger_error + balance option \<times> bool) \<times> db \<times> socket_event list" where
  "markDepositPendingOnce s env userID asset amt eventID d =
     (case run_tx (mark_pending_tx env userID asset amt eventID) d of
        (Inl e, d') \<Rightarrow> (Inl e, d', [])
      | (Inr (Some out), d') \<Rightarrow> (Inr (Some out, True), d', publishBalanceUpdate s env ''exchange.deposit_pending'' out)
      | (Inr None, d') \<Rightarrow> (Inr (currentBalance d' userID asset, False), d', []))"

definition settle_once_tx ::
  "env \<Rightarrow> string \<Rightarrow> string \<Rightarrow> string \<Rightarrow> string \<Rightarrow> string \<Rightarrow> (balance option \<times> balance) option ltx" where
  "settle_once_tx env userID asset amt pendingEventID settleEventID =
     tx_bind (tx_get (\<lambda>d. BalanceEventExists d settleEventID)) (\<lambda>settled.
     if settled then tx_return None
     else
       tx_bind (mark_pending_tx env userID asset amt pendingEventID) (\<lambda>pendingOut.
       tx_bind (SettleDeposit env userID asset amt settleEventID) (\<lambda>out.
       tx_return (Some (pendingOut, out)))))"

definition settleGatewayDepositOnce ::
  "service \<Rightarrow> env \<Rightarrow> string \<Rightarrow> string \<Rightarrow> string \<Rightarrow> string \<Rightarrow> string \<Rightarrow> db \<Rightarrow>
     (ledger_error + balance option \<times> bool) \<times> db \<times> socket_event list" where
  "settleGatewayDepositOnce s env userID asset amt pendingEventID settleEventID d =
     (case run_tx (settle_once_tx env userID asset amt pendingEventID settleEventID) d of
        (Inl e, d') \<Rightarrow> (Inl e, d', [])
      | (Inr (Some (pendingOut, out)), d') \<Rightarrow>
          (Inr (Some out, True), d',
           (case pendingOut of None \<Rightarrow> [] | Some p \<Rightarrow> publishBalanceUpdate s env ''exchange.deposit_pending'' p) @
           publishBalanceUpdate s env ''exchange.deposit_settled'' out)
      | (Inr None, d') \<Rightarrow> (Inr (currentBalance d' userID asset, False), d', []))"

definition callback_ok :: "string \<Rightarrow> balance option \<Rightarrow> withdrawal option \<Rightarrow> gateway_callback_result" where
  "callback_ok action b w = \<lparr>gr_Status = ''ok'', gr_Action = action, gr_Balance = b, gr_Withdrawal = w\<rparr>"

definition callback_result ::
  "string \<Rightarrow> (ledger_error + balance option \<times> bool) \<times> db \<times> socket_event list \<Rightarrow>
     (ledger_error + gateway_callback_result) \<times> db \<times> socket_event list" where
  "callback_result action r =
     (case r of
        (Inl e, d', ms) \<Rightarrow> (Inl e, d', ms)
      | (Inr (out, processed), d', ms) \<Rightarrow>
          (Inr (callback_ok (if processed then action else ''duplicate_ignored'') out None), d', ms))"

definition ApplyGatewayDepositCallback ::
  "service \<Rightarrow> env \<Rightarrow> gateway_deposit_callback \<Rightarrow> db \<Rightarrow>
     (ledger_error + gateway_callback_result) \<times> db \<times> socket_event list" where
  "ApplyGatewayDepositCallback s env req d =
     (let status = normalizeGatewayStatus (gd_Status req); userID = trim_space (gd_UserID req);
          asset = gatewayDepositAsset s req; ref = gatewayDepositReference req;
          pendingEventID = gatewayBalanceEventID s ''gwdep_p'' ref;
          settleEventID = gatewayBalanceEventID s ''gwdep_s'' ref in
      if status \<noteq> ''pending'' \<and> status \<noteq> ''settled'' then (Inr (callback_ok ''status_ignored'' None None), d, [])
      else (case gatewayDepositAmount req of
              Inl e \<Rightarrow> (Inl e, d, [])
            | Inr amt \<Rightarrow>
                if userID = [] then (Inl ErrInvalidOrder, d, [])
                else if asset = [] then (Inl ErrInvalidOrder, d, [])
                else if \<not> validGatewayAssetSymbol asset then (Inl ErrInvalidOrder, d, [])
                else if ref = [] then (Inl ErrInvalidOrder, d, [])
                else if status = ''pending''
                  then callback_result ''deposit_pending'' (markDepositPendingOnce s env userID asset amt pendingEventID d)
                else callback_result ''deposit_settled''
                       (settleGatewayDepositOnce s env userID asset amt pendingEventID settleEventID d)))"

definition withdrawal_status_text :: "withdrawal_status \<Rightarrow> string" where
  "withdrawal_status_text st =
     (case st of WithdrawalRequested \<Rightarrow> ''requested'' | WithdrawalCompleted \<Rightarrow> ''completed'' | WithdrawalCanceled \<Rightarrow> ''canceled'')"

definition withdrawal_result ::
  "(ledger_error + withdrawal) \<times> db \<times> socket_event list \<Rightarrow>
     (ledger_error + gateway_callback_result) \<times> db \<times> socket_event list" where
  "withdrawal_result r =
     (case r of
        (Inl e, d', ms) \<Rightarrow> (Inl e, d', ms)
      | (Inr out, d', ms) \<Rightarrow>
          (Inr (callback_ok (''withdrawal_'' @ withdrawal_status_text (wd_Status out)) None (Some out)), d', ms))"

definition ApplyGatewayWithdrawalCallback ::
  "service \<Rightarrow> env \<Rightarrow> gateway_withdrawal_callback \<Rightarrow> db \<Rightarrow>
     (ledger_error + gateway_callback_result) \<times> db \<times> socket_event list" where
  "ApplyGatewayWithdrawalCallback s env req d =
     (let ID = firstNonEmptyString [gl_WithdrawalID req, gl_PayoutID req, gl_ID req];
          status = normalizeGatewayStatus (gl_Status req) in
      if ID = [] then (Inl ErrInvalidOrder, d, [])
      else if status = ''settled'' then withdrawal_result (Service_CompleteWithdrawal s env ID d)
      else if status = ''canceled'' then withdrawal_result (Service_CancelWithdrawal s env ID d)
      else (Inr (callback_ok ''status_ignored'' None None), d, []))"

end
