(* ===== verification/GatewayAmounts.thy ===== *)
theory GatewayAmounts
  imports Gateway
begin

text \<open>
  The amount of a gateway callback given in the smallest unit of a token: \<^verbatim>\<open>rawAmountToDecimal\<close>
  shifts the digits as text, and the result is the exact quotient or a rejection.
\<close>

lemma digits_value_trim_left: "digits_value 0 (trim_left CHR ''0'' ds) = digits_value 0 ds"
  by (induction ds) (auto simp: trim_left_def digits_value_def)

lemma digits_value_nonneg: "list_all is_digit ds \<Longrightarrow> 0 \<le> digits_value 0 ds"
proof (induction ds rule: rev_induct)
  case (snoc c ds)
  then show ?case using is_digit_value [of c] by (simp add: digits_value_def)
qed (simp add: digits_value_def)

lemma digit_value_pos:
  assumes "is_digit c" and "c \<noteq> CHR ''0''"
  shows "0 < digit_value c"
proof (rule ccontr)
  assume "\<not> 0 < digit_value c"
  then have "(of_char c :: int) = 48" using assms(1) by (auto simp: is_digit_def digit_value_def)
  then have "c = char_of (48 :: int)" by (metis char_of_char)
  then show False using assms(2) by (simp add: char_of_def)
qed

lemma digits_value_pos:
  assumes "list_all is_digit (c # ds)" and "c \<noteq> CHR ''0''"
  shows "0 < digits_value 0 (c # ds)"
proof -
  have c: "is_digit c" and ds: "list_all is_digit ds" using assms(1) by auto
  have "digits_value 0 (c # ds) = digit_value c * 10 ^ length ds + digits_value 0 ds"
    using digits_value_acc [of "digit_value c" ds] by (simp add: digits_value_def)
  moreover have "0 < digit_value c * 10 ^ length ds" using digit_value_pos [OF c assms(2)] by simp
  ultimately show ?thesis using digits_value_nonneg [OF ds] by simp
qed

text \<open>A text whose last digit is not zero has no shorter decimal form.\<close>

lemma digits_value_last:
  assumes "list_all is_digit ds" and "ds \<noteq> []" and "last ds \<noteq> CHR ''0''"
  shows "\<not> 10 dvd digits_value 0 ds"
proof -
  obtain es c where ds: "ds = es @ [c]" using assms(2) by (cases ds rule: rev_cases) auto
  have c: "is_digit c" "c \<noteq> CHR ''0''" using assms(1,3) ds by auto
  have "digits_value 0 ds = digits_value 0 es * 10 + digit_value c" by (simp add: ds digits_value_def)
  moreover have "0 < digit_value c" "digit_value c < 10" using digit_value_pos [OF c] is_digit_value [OF c(1)] by auto
  ultimately show ?thesis by presburger
qed

lemma not_dec18:
  assumes "\<not> 10 dvd N" and "18 < n"
  shows "\<not> is_dec18 (of_int N / 10 ^ n)"
proof
  assume "is_dec18 (of_int N / 10 ^ n)"
  then obtain m where m: "(of_int N :: rat) / 10 ^ n = of_int m / 10 ^ 18" by (auto simp: is_dec18_iff)
  obtain k where n: "n = 18 + Suc k" using assms(2) less_imp_Suc_add by (metis add_Suc_right)
  have "(of_int N :: rat) = of_int m * 10 ^ Suc k"
    using m by (simp add: n field_simps power_add)
  then have "(of_int N :: rat) = of_int (m * 10 ^ Suc k)" by simp
  then have "N = m * 10 ^ Suc k" by (simp only: of_int_eq_iff)
  then show False using assms(1) by simp
qed

lemma dec18_upto: "n \<le> 18 \<Longrightarrow> is_dec18 (of_int N / 10 ^ n)"
proof -
  assume "n \<le> 18"
  then obtain k where k: "18 = n + k" using le_Suc_ex by blast
  have "(of_int N :: rat) / 10 ^ n = of_int (N * 10 ^ k) / 10 ^ 18"
    unfolding k by (simp add: power_add)
  then show ?thesis unfolding is_dec18_iff by blast
qed

section \<open>The shifted text\<close>

lemma shifted_text_dec:
  assumes ds: "list_all is_digit ds" "ds \<noteq> []" "hd ds \<noteq> CHR ''0''" and n: "0 < decimals"
  shows "\<exists>ip fp. shifted_text ds decimals = dec_text False ip (trim_right CHR ''0'' fp) \<and>
    list_all is_digit ip \<and> ip \<noteq> [] \<and> (hd ip = CHR ''0'' \<longrightarrow> tl ip = []) \<and>
    list_all is_digit fp \<and> length fp = nat decimals \<and> digits_value 0 (ip @ fp) = digits_value 0 ds"
proof -
  let ?n = "nat decimals"
  let ?p = "if length ds \<le> ?n then replicate (?n - length ds + 1) CHR ''0'' @ ds else ds"
  let ?i = "length ?p - ?n"
  let ?ip = "take ?i ?p" and ?fp = "drop ?i ?p"
  have z: "is_digit CHR ''0''" by (simp add: is_digit_def)
  have n0: "0 < ?n" using n by simp
  have len: "?n < length ?p" by auto
  have dig: "list_all is_digit ?p" using ds(1) z by (auto simp: list_all_iff)
  have fp: "?fp \<noteq> []" "list_all is_digit ?fp" "length ?fp = ?n"
    using len n0 dig by (auto simp: list_all_iff dest: in_set_dropD)
  have ip: "list_all is_digit ?ip" "?ip \<noteq> []"
    using len dig by (auto simp: list_all_iff dest: in_set_takeD)
  have hd: "hd ?ip = CHR ''0'' \<longrightarrow> tl ?ip = []"
  proof (cases "length ds \<le> ?n")
    case True
    then have "?i = 1" by simp
    then show ?thesis by (cases ?p) auto
  next
    case False
    then have "hd ?ip = hd ds" using ip(2) by (simp add: hd_conv_nth)
    then show ?thesis using ds(3) by simp
  qed
  have "digits_value 0 (replicate k CHR ''0'' @ ds) = digits_value 0 ds" for k
    by (simp add: digits_value_append)
  then have val: "digits_value 0 (?ip @ ?fp) = digits_value 0 ds"
    by (simp del: replicate_Suc)
  have "shifted_text ds decimals = trim_right CHR ''.'' (trim_right CHR ''0'' (dec_text False ?ip ?fp))"
    using n fp(1) by (simp add: shifted_text_def Let_def dec_text_def)
  also have "\<dots> = dec_text False ?ip (trim_right CHR ''0'' ?fp)"
    by (rule trim_right_dec_text [OF fp(1) ip fp(2)])
  finally show ?thesis using ip hd fp val by blast
qed

lemma list_all_trim_right: "list_all P xs \<Longrightarrow> list_all P (trim_right c xs)"
  by (auto simp: trim_right_def list_all_iff dest: set_dropWhileD)

lemma trim_right_idem: "trim_right c (trim_right c xs) = trim_right c xs"
  by (simp add: trim_right_def)

lemma dec_text_plain:
  assumes "list_all is_digit ip" "list_all is_digit fp" "ip \<noteq> []"
  shows "trim_space (dec_text False ip fp) = dec_text False ip fp"
    and "FractionalDigits (dec_text False ip fp) = (if fp = [] then 0 else length (trim_right CHR ''0'' fp))"
    and "dec_text False ip fp \<noteq> []"
proof -
  have "\<not> is_space c" if "c \<in> set (dec_text False ip fp)" for c
    using that assms is_digit_not_space by (auto simp: dec_text_def list_all_iff is_space_def split: if_splits)
  then show t: "trim_space (dec_text False ip fp) = dec_text False ip fp" by (intro trim_space_id) auto
  have d: "CHR ''.'' \<notin> set ip" using assms(1) by (auto simp: list_all_iff)
  have w: "dropWhile (\<lambda>c. c \<noteq> CHR ''.'') (ip @ CHR ''.'' # fp) = CHR ''.'' # fp"
    using d by (induction ip) auto
  show "FractionalDigits (dec_text False ip fp) = (if fp = [] then 0 else length (trim_right CHR ''0'' fp))"
    using d w by (auto simp: FractionalDigits_def t Let_def) (auto simp: dec_text_def)
  show "dec_text False ip fp \<noteq> []" using assms(3) by (simp add: dec_text_def)
qed

lemma digits_value_zeros: "digits_value 0 (xs @ replicate k CHR ''0'') = digits_value 0 xs * 10 ^ k"
  using digits_value_acc [of "digits_value 0 xs" "replicate k CHR ''0''"] by (simp add: digits_value_append)

text \<open>The shifted text of digits with a positive value parses as the exact quotient or is refused.\<close>

lemma shifted_parse:
  assumes ds: "list_all is_digit ds" "ds \<noteq> []" "hd ds \<noteq> CHR ''0''" and n: "0 < decimals"
  defines "v \<equiv> of_int (digits_value 0 ds) / 10 ^ nat decimals"
  shows "parsePositiveDecimal (shifted_text ds decimals) = (if is_dec18 v then Inr v else Inl ErrInvalidOrder)"
proof -
  obtain ip fp where t: "shifted_text ds decimals = dec_text False ip (trim_right CHR ''0'' fp)"
    and ip: "list_all is_digit ip" "ip \<noteq> []" "hd ip = CHR ''0'' \<longrightarrow> tl ip = []"
    and fp: "list_all is_digit fp" "length fp = nat decimals" and val: "digits_value 0 (ip @ fp) = digits_value 0 ds"
    using shifted_text_dec [OF ds n] by blast
  let ?fp = "trim_right CHR ''0'' fp"
  obtain k where k: "fp = ?fp @ replicate k CHR ''0''" using trim_right_decomp by blast
  have dig: "list_all is_digit ?fp" by (rule list_all_trim_right [OF fp(1)])
  note plain = dec_text_plain [OF ip(1) dig ip(2)]
  have len: "nat decimals = length ?fp + k" using k fp(2) by (metis length_append length_replicate)
  have "digits_value 0 ds = digits_value 0 (ip @ ?fp) * 10 ^ k"
    using val k digits_value_zeros [of "ip @ ?fp" k] by (metis append_assoc)
  then have v: "v = of_int (digits_value 0 (ip @ ?fp)) / 10 ^ length ?fp"
    by (simp add: v_def len power_add)
  have fr: "FractionalDigits (dec_text False ip ?fp) = length ?fp"
    using plain(2) by (simp add: trim_right_idem)
  have pos: "0 < v"
    using digits_value_pos [of "hd ds" "tl ds"] ds by (simp add: v_def)
  show ?thesis
  proof (cases "length ?fp \<le> 18")
    case True
    have p: "Parse (dec_text False ip ?fp) = v"
      using rat_set_string_dec [OF ip dig True, of False] by (simp add: Parse_def plain(1) v)
    have d: "is_dec18 v" unfolding v by (rule dec18_upto [OF True])
    have "String v \<noteq> ''0''"
    proof
      assume "String v = ''0''"
      then have "Parse (String v) = 0" by (simp add: Parse_0)
      then show False using pos round18_exact [OF d] by (simp add: Parse_String)
    qed
    then show ?thesis
      using True p pos d fr plain by (simp add: parsePositiveDecimal_def Let_def t Scale_def)
  next
    case False
    then have ne: "?fp \<noteq> []" by auto
    have "\<not> 10 dvd digits_value 0 (ip @ ?fp)"
      using digits_value_last [of "ip @ ?fp"] ip dig ne trim_right_last_neq [OF ne] by simp
    then have "\<not> is_dec18 v" unfolding v using not_dec18 False by simp
    then show ?thesis
      using False fr plain by (simp add: parsePositiveDecimal_def Let_def t Scale_def)
  qed
qed

section \<open>The property\<close>

text \<open>An amount in the smallest unit is converted exactly or refused: for a positive number of
  decimals the result is the canonical text of the digits divided by that power of ten, given that
  the text has only digits, the value is positive and it has at most 18 decimals.\<close>

theorem rawAmountToDecimal_exact:
  assumes "0 < decimals"
  shows "rawAmountToDecimal raw decimals =
    (let ds = trim_space raw; v = of_int (digits_value 0 ds) / 10 ^ nat decimals
     in if list_all is_digit ds \<and> 0 < v \<and> is_dec18 v then Inr (String v) else Inl ErrInvalidOrder)"
proof -
  let ?ds = "trim_space raw"
  let ?t = "trim_left CHR ''0'' ?ds"
  consider "?ds = []" | "?ds \<noteq> []" "\<not> list_all is_digit ?ds" | "?ds \<noteq> []" "list_all is_digit ?ds" "?t = []"
    | "list_all is_digit ?ds" "?t \<noteq> []" "?ds \<noteq> []" by blast
  then show ?thesis
  proof cases
    case 3
    then have "digits_value 0 ?ds = 0" using digits_value_trim_left [of ?ds] by (simp add: digits_value_def)
    then show ?thesis using 3 by (simp add: rawAmountToDecimal_def)
  next
    case 4
    have t: "list_all is_digit ?t" "hd ?t \<noteq> CHR ''0''"
      using 4 hd_dropWhile [of "\<lambda>x. x = CHR ''0''" ?ds]
      by (auto simp: trim_left_def list_all_iff dest: set_dropWhileD)
    have "0 < digits_value 0 ?t" using digits_value_pos [of "hd ?t" "tl ?t"] t 4(2) by simp
    then show ?thesis
      using shifted_parse [OF t(1) 4(2) t(2) assms] 4 digits_value_trim_left [of ?ds]
      by (simp add: rawAmountToDecimal_def Let_def)
  qed (simp_all add: rawAmountToDecimal_def digits_value_def)
qed

theorem rawAmountToDecimal_exact_witness:
  "rawAmountToDecimal ''00120500'' 3 = Inr ''120.5'' \<and> String (of_int (digits_value 0 ''00120500'') / 10 ^ 3) = ''120.5''"
proof -
  have "rawAmountToDecimal ''00120500'' 3 =
    (let ds = trim_space ''00120500''; v = of_int (digits_value 0 ds) / 10 ^ nat 3
     in if list_all is_digit ds \<and> 0 < v \<and> is_dec18 v then Inr (String v) else Inl ErrInvalidOrder)"
    by (rule rawAmountToDecimal_exact) simp
  also have "\<dots> = Inr ''120.5''" by code_simp
  finally show ?thesis by code_simp
qed

end
