(* ===== verification/GatewayProps.thy ===== *)
theory GatewayProps
  imports GatewayAmounts TradingProps
begin

text \<open>
  Deposits reported by the payment gateway are credited once: the two event identifiers made from
  the reference of a callback record that it was seen.
\<close>

definition event_ids :: "db \<Rightarrow> string set" where
  "event_ids d = be_ID ` set (db_balance_events d)"

lemma BalanceEventExists_iff: "trim_space i \<noteq> [] \<Longrightarrow> BalanceEventExists d i \<longleftrightarrow> i \<in> event_ids d"
  by (auto simp: BalanceEventExists_def row_exists_def row_find_None event_ids_def)

lemma event_id_text:
  "trim_space (gatewayBalanceEventID s ''gwdep_p'' ref) \<noteq> []" "trim_space (gatewayBalanceEventID s ''gwdep_s'' ref) \<noteq> []"
  "gatewayBalanceEventID s ''gwdep_p'' ref \<noteq> []" "gatewayBalanceEventID s ''gwdep_s'' ref \<noteq> []"
  by (auto simp: gatewayBalanceEventID_def trim_space_def is_space_def dropWhile_append)

lemma createBalanceEvent_ids:
  "createBalanceEvent e d = Inr (u, d') \<Longrightarrow> event_ids d' = insert (be_ID e) (event_ids d)"
  by (auto simp: createBalanceEvent_def event_ids_def split: if_splits)

lemma balanceForUpdate_ids: "balanceForUpdate env u a c d = Inr (b, d') \<Longrightarrow> event_ids d' = event_ids d"
  by (auto simp: balanceForUpdate_def event_ids_def Let_def split: option.splits if_splits)

lemma deposit_ids:
  "MarkDepositPending env u a amt i d = Inr (b, d') \<Longrightarrow> i \<noteq> [] \<Longrightarrow> event_ids d' = insert i (event_ids d)"
  "SettleDeposit env u a amt i d = Inr (b, d') \<Longrightarrow> i \<noteq> [] \<Longrightarrow> event_ids d' = insert i (event_ids d)"
  by (auto simp: MarkDepositPending_def SettleDeposit_def tx_bind_Inr_iff default_event_id_def saveBalance_def
      fail_if_Inr_iff plain_event_def event_ids_def Let_def
      dest!: createBalanceEvent_ids [unfolded event_ids_def] balanceForUpdate_ids [unfolded event_ids_def])
     blast+

lemma gatewayDepositAmount_good:
  assumes "gatewayDepositAmount req = Inr amt"
  shows "good_amount amt \<and> 0 < Parse amt"
proof -
  obtain v q where "parsePositiveDecimal v = Inr q" "amt = String q"
    using assms by (auto simp: gatewayDepositAmount_def positive_text_def rawAmountToDecimal_def Let_def
        split: if_splits sum.splits)
  then show ?thesis using parsePositiveDecimal_canonical [of v q] amount_String [of q]
    by (auto simp: canonical_amount_def good_amount_def)
qed

text \<open>A settlement that was processed: what it posted, and the two events it left behind.\<close>

lemma settle_once_effect:
  assumes t: "settle_once_tx env u a amt p q d = Inr (Some (pout, out), d')" and ok: "balances_ok d"
    and g: "good_amount amt" and ids: "trim_space p \<noteq> []" "trim_space q \<noteq> []"
  shows "posted d [post (account_key u a) (Parse amt) 0 (if p \<in> event_ids d then - Parse amt else 0)] d' \<and>
    p \<in> event_ids d' \<and> q \<in> event_ids d' \<and> q \<notin> event_ids d"
proof -
  have ne: "p \<noteq> []" "q \<noteq> []" using ids by auto
  obtain d1 where q: "q \<notin> event_ids d" and m: "mark_pending_tx env u a amt p d = Inr (pout, d1)"
    and s: "SettleDeposit env u a amt q d1 = Inr (out, d')"
    using t BalanceEventExists_iff [OF ids(2)] by (auto simp: settle_once_tx_def tx_bind_Inr_iff split: if_splits)
  have m': "posted d [post (account_key u a) 0 0 (if p \<in> event_ids d then 0 else Parse amt)] d1 \<and> p \<in> event_ids d1"
  proof (cases "p \<in> event_ids d")
    case True
    then have "d1 = d" using m BalanceEventExists_iff [OF ids(1)] by (auto simp: mark_pending_tx_def tx_bind_Inr_iff)
    then show ?thesis using True ok by (simp add: posted_def)
  next
    case False
    then obtain b where "MarkDepositPending env u a amt p d = Inr (b, d1)"
      using m BalanceEventExists_iff [OF ids(1)] by (auto simp: mark_pending_tx_def tx_bind_Inr_iff)
    then show ?thesis using MarkDepositPending_effect [OF _ ok g] deposit_ids(1) ne(1) False by auto
  qed
  then have ok1: "balances_ok d1" by (auto simp: posted_def)
  have s': "posted d1 [post (account_key u a) (Parse amt) 0 (- Parse amt)] d'"
    using SettleDeposit_effect [OF s ok1 g] by blast
  have "posted d [post (account_key u a) (Parse amt) 0 (if p \<in> event_ids d then - Parse amt else 0)] d'"
    using posted_trans [OF conjunct1 [OF m'] s'] by (auto simp: posted_def)
  then show ?thesis using m' deposit_ids(2) [OF s ne(2)] q by auto
qed

text \<open>A callback whose two events are recorded changes nothing.\<close>

lemma seen_callback:
  assumes "gatewayBalanceEventID s ''gwdep_p'' (gatewayDepositReference req) \<in> event_ids d"
    and "gatewayBalanceEventID s ''gwdep_s'' (gatewayDepositReference req) \<in> event_ids d"
  shows "snd (ApplyGatewayDepositCallback s env req d) = (d, [])"
  using assms BalanceEventExists_iff [OF event_id_text(1)] BalanceEventExists_iff [OF event_id_text(2)]
  by (simp add: ApplyGatewayDepositCallback_def callback_result_def markDepositPendingOnce_def
      settleGatewayDepositOnce_def run_tx_def mark_pending_tx_def settle_once_tx_def tx_bind_def tx_get_def tx_return_def
      Let_def split: sum.split)

text \<open>C21: a deposit is credited once: a settlement callback that is processed credits exactly its amount
  to the available balance of its account, taking it out of the pending balance where a pending
  callback had put it there, and touches no other account; it had not been processed before; and in
  every later store that still has the balance events, any callback with the same reference, pending or settled,
  with whatever amount, changes nothing and publishes nothing.\<close>

theorem deposit_credited_once:
  assumes "ApplyGatewayDepositCallback s env req d = (Inr r, d', ms)" and "gr_Action r = ''deposit_settled''"
    and "balances_ok d" and "event_ids d' \<subseteq> event_ids d2"
    and "gatewayDepositReference req2 = gatewayDepositReference req"
  shows "\<exists>amt. gatewayDepositAmount req = Inr amt \<and> 0 < Parse amt \<and>
    (let k = account_key (gd_UserID req) (gatewayDepositAsset s req);
         p = gatewayBalanceEventID s ''gwdep_p'' (gatewayDepositReference req);
         q = gatewayBalanceEventID s ''gwdep_s'' (gatewayDepositReference req)
     in posted d [post k (Parse amt) 0 (if p \<in> event_ids d then - Parse amt else 0)] d' \<and> q \<notin> event_ids d) \<and>
    snd (ApplyGatewayDepositCallback s env2 req2 d2) = (d2, [])"
proof -
  let ?ref = "gatewayDepositReference req"
  let ?p = "gatewayBalanceEventID s ''gwdep_p'' ?ref" and ?q = "gatewayBalanceEventID s ''gwdep_s'' ?ref"
  let ?u = "trim_space (gd_UserID req)" and ?a = "gatewayDepositAsset s req"
  obtain amt where amt: "gatewayDepositAmount req = Inr amt"
    using assms(1,2) by (auto simp: ApplyGatewayDepositCallback_def Let_def callback_ok_def split: if_splits sum.splits)
  obtain pout out where t: "settle_once_tx env ?u ?a amt ?p ?q d = Inr (Some (pout, out), d')"
    using assms(1,2) amt
    by (auto simp: ApplyGatewayDepositCallback_def Let_def callback_ok_def callback_result_def settleGatewayDepositOnce_def
        markDepositPendingOnce_def run_tx_def split: if_splits sum.splits option.splits prod.splits)
  have g: "good_amount amt" "0 < Parse amt" using gatewayDepositAmount_good [OF amt] by auto
  note e = settle_once_effect [OF t assms(3) g(1) event_id_text(1,2)]
  have k: "account_key ?u ?a = account_key (gd_UserID req) ?a" by (simp add: account_key_def trim_space_idem)
  have "snd (ApplyGatewayDepositCallback s env2 req2 d2) = (d2, [])"
    by (rule seen_callback) (use e assms(4,5) in auto)
  then show ?thesis using amt g(2) e k by (auto simp: Let_def)
qed

definition sample_callback :: "string \<Rightarrow> gateway_deposit_callback" where
  "sample_callback status =
     \<lparr>gd_EventID = [], gd_PaymentID = ''pay7'', gd_TrackID = [], gd_OrderID = [], gd_UserID = '' carol '', gd_Asset = ''btc'',
      gd_Symbol = [], gd_SelectedAsset = [], gd_Amount = [], gd_AmountRaw = ''200'', gd_Decimals = 2, gd_Status = status,
      gd_ChainKey = [], gd_Chain = [], gd_SelectedChain = [], gd_TxHash = ''0x1''\<rparr>"

definition sample_credited :: db where
  "sample_credited = after (ApplyGatewayDepositCallback sample_service sample_env (sample_callback ''paid'') empty_db)"

theorem deposit_credited_once_witness:
  "avail sample_credited (account_key ''carol'' ''BTC'') = 2 \<and>
   snd (ApplyGatewayDepositCallback sample_service sample_env (sample_callback ''completed'') sample_credited) = (sample_credited, []) \<and>
   snd (ApplyGatewayDepositCallback sample_service sample_env (sample_callback ''pending'') sample_credited) = (sample_credited, [])"
proof -
  let ?c = "ApplyGatewayDepositCallback sample_service sample_env (sample_callback ''paid'') empty_db"
  have "(case fst ?c of Inl _ \<Rightarrow> False | Inr r \<Rightarrow> gr_Action r = ''deposit_settled'')" by code_simp
  then obtain r where r: "?c = (Inr r, sample_credited, snd (snd ?c))" "gr_Action r = ''deposit_settled''"
    by (cases ?c; cases "fst ?c") (auto simp: sample_credited_def after_def)
  have ref: "gatewayDepositReference (sample_callback st) = ''pay7''" for st by (simp add: sample_callback_def) code_simp
  have a: "avail sample_credited (account_key ''carol'' ''BTC'') = 2" by code_simp
  have "snd (ApplyGatewayDepositCallback sample_service sample_env (sample_callback st) sample_credited) = (sample_credited, [])" for st
    using deposit_credited_once [OF r balances_ok_empty subset_refl, of "sample_callback st" sample_env] ref by auto
  then show ?thesis using a by blast
qed

end
