(* ===== verification/MarketStats.thy ===== *)
theory MarketStats
  imports Gateway
begin

text \<open>
  Statistics and summaries of markets: \<^verbatim>\<open>market_repository.go\<close> and the market part of
  \<^verbatim>\<open>orders.Service\<close>, and the chart of a service without a database.
\<close>

section \<open>Stored statistics\<close>

record exchange_market_stats =
  xs_LastPrice :: string
  xs_Change24h :: string
  xs_High24h :: string
  xs_Low24h :: string
  xs_Volume24h :: string

definition zeroExchangeMarketStats :: exchange_market_stats where
  "zeroExchangeMarketStats =
     \<lparr>xs_LastPrice = ''0'', xs_Change24h = ''0'', xs_High24h = ''0'', xs_Low24h = ''0'', xs_Volume24h = ''0''\<rparr>"

definition statsValue :: "string \<Rightarrow> string" where
  "statsValue value = (if trim_space value = [] then ''0'' else String (Parse (trim_space value)))"

definition statsPercentChange :: "string \<Rightarrow> string \<Rightarrow> string" where
  "statsPercentChange openPrice close =
     (let openRat = Parse openPrice in
      if openRat \<le> 0 then ''0'' else String ((Parse close - openRat) * 100 / openRat))"

text \<open>The largest high, the smallest low and the volume of some candles, as both loops compute them.\<close>

definition candle_extremes :: "candle \<Rightarrow> candle list \<Rightarrow> string \<times> string \<times> string" where
  "candle_extremes fstCandle candles =
     fold (\<lambda>item (high, low, volume).
        (if Cmp (cd_High item) high > 0 then cd_High item else high,
         if Cmp (cd_Low item) low < 0 then cd_Low item else low,
         Add volume (cd_VolumeBase item)))
       candles (cd_High fstCandle, cd_Low fstCandle, ''0'')"

definition exchangeMarketStats :: "db \<Rightarrow> string \<Rightarrow> exchange_market_stats" where
  "exchangeMarketStats d market =
     (case ListCandles d market ''1m'' 1440 of
        [] \<Rightarrow>
          (case LastTrade d market of
             None \<Rightarrow> zeroExchangeMarketStats
           | Some t \<Rightarrow> \<lparr>xs_LastPrice = statsValue (t_Price t), xs_Change24h = ''0'', xs_High24h = statsValue (t_Price t),
                        xs_Low24h = statsValue (t_Price t), xs_Volume24h = ''0''\<rparr>)
      | c # cs \<Rightarrow>
          (let (high, low, volume) = candle_extremes c (c # cs); l = last (c # cs) in
           \<lparr>xs_LastPrice = statsValue (cd_Close l), xs_Change24h = statsPercentChange (cd_Open c) (cd_Close l),
            xs_High24h = statsValue high, xs_Low24h = statsValue low, xs_Volume24h = statsValue volume\<rparr>))"

definition UpdateExchangeMarketStats :: "env \<Rightarrow> string \<Rightarrow> exchange_market_stats \<Rightarrow> unit ltx" where
  "UpdateExchangeMarketStats env market0 stats =
     (let market = to_upper (trim_space market0) in
      if market = [] then tx_return ()
      else tx_modify (\<lambda>d. d\<lparr>db_markets := row_update (\<lambda>r. mk_Symbol r = market)
        (\<lambda>r. r\<lparr>mk_LastPrice := statsValue (xs_LastPrice stats), mk_Change24h := statsValue (xs_Change24h stats),
              mk_High24h := statsValue (xs_High24h stats), mk_Low24h := statsValue (xs_Low24h stats),
              mk_Volume24h := statsValue (xs_Volume24h stats), mk_UpdatedAt := e_now env\<rparr>) (db_markets d)\<rparr>))"

definition RefreshExchangeMarketStats :: "env \<Rightarrow> string \<Rightarrow> unit ltx" where
  "RefreshExchangeMarketStats env market0 =
     (let market = to_upper (trim_space market0) in
      if market = [] then tx_return ()
      else tx_bind (tx_get (\<lambda>d. exchangeMarketStats d market)) (UpdateExchangeMarketStats env market))"

definition ListExchangeMarkets :: "db \<Rightarrow> market_row list" where
  "ListExchangeMarkets d = sort_key mk_Symbol (db_markets d)"

section \<open>Summaries\<close>

record market_summary =
  ms_Symbol :: string
  ms_BaseAsset :: string
  ms_QuoteAsset :: string
  ms_Enabled :: bool
  ms_LastPrice :: string
  ms_Change24h :: string
  ms_High24h :: string
  ms_Low24h :: string
  ms_Volume24h :: string
  ms_Liquidity :: string

definition defaultMarketPrice :: "string \<Rightarrow> string" where
  "defaultMarketPrice baseAsset =
     (let b = to_upper (trim_space baseAsset) in
      if b = ''PEPPER'' then ''0.000000001''
      else if b = ''CHZ'' then ''0.08''
      else if b = ''SOL'' then ''184.25''
      else if b = ''ETH'' then ''3412.8''
      else if b = ''AVAX'' then ''32.4''
      else if b = ''USDC'' then ''1''
      else ''1'')"

definition marketSummaryStat :: "string \<Rightarrow> string \<Rightarrow> string" where
  "marketSummaryStat value fallback =
     (if trim_space value = [] then fallback else String (Parse (trim_space value)))"

definition marketLiquidity :: "db \<Rightarrow> string \<Rightarrow> string" where
  "marketLiquidity d marketSymbol =
     fold (\<lambda>level total. Add total (Mul (pl_Price level) (pl_Quantity level)))
       (ListPriceLevels d marketSymbol SideBuy 100 @ ListPriceLevels d marketSymbol SideSell 100) ''0''"

definition new_summary :: "market \<Rightarrow> market_summary" where
  "new_summary item =
     \<lparr>ms_Symbol = m_Symbol item, ms_BaseAsset = m_BaseAsset item, ms_QuoteAsset = m_QuoteAsset item,
      ms_Enabled = m_Enabled item, ms_LastPrice = defaultMarketPrice (m_BaseAsset item), ms_Change24h = ''0'',
      ms_High24h = defaultMarketPrice (m_BaseAsset item), ms_Low24h = defaultMarketPrice (m_BaseAsset item),
      ms_Volume24h = ''0'', ms_Liquidity = ''0''\<rparr>"

definition marketSummary :: "db \<Rightarrow> market \<Rightarrow> market_row option \<Rightarrow> market_summary" where
  "marketSummary d item row =
     (let summary = new_summary item;
          summary = (case row of
             None \<Rightarrow> summary
           | Some r \<Rightarrow> summary
               \<lparr>ms_Symbol := firstNonEmptyString [mk_Symbol r, ms_Symbol summary],
                ms_BaseAsset := firstNonEmptyString [mk_BaseAsset r, ms_BaseAsset summary],
                ms_QuoteAsset := firstNonEmptyString [mk_QuoteAsset r, ms_QuoteAsset summary],
                ms_Enabled := mk_Enabled r, ms_LastPrice := marketSummaryStat (mk_LastPrice r) ''0'',
                ms_Change24h := marketSummaryStat (mk_Change24h r) ''0'', ms_High24h := marketSummaryStat (mk_High24h r) ''0'',
                ms_Low24h := marketSummaryStat (mk_Low24h r) ''0'', ms_Volume24h := marketSummaryStat (mk_Volume24h r) ''0''\<rparr>)
      in summary\<lparr>ms_Liquidity := marketLiquidity d (m_Symbol item)\<rparr>)"

definition Markets :: "service \<Rightarrow> market list" where
  "Markets s = market_All (sv_markets s)"

text \<open>The rows are looked up in a Go map built from the list, where the last row of a symbol wins.\<close>

definition MarketSummaries :: "service \<Rightarrow> db \<Rightarrow> market_summary list" where
  "MarketSummaries s d =
     map (\<lambda>item. marketSummary d item (row_find mk_Symbol (m_Symbol item) (rev (ListExchangeMarkets d))))
       (market_All (sv_markets s))"

definition percentChange :: "string \<Rightarrow> string \<Rightarrow> string" where
  "percentChange openPrice close =
     (let openRat = Parse openPrice in
      if openRat \<le> 0 then ''0'' else String ((Parse close - openRat) * 100 / openRat))"

text \<open>\<open>None\<close> where the code would index an empty slice.\<close>

definition applyCandleStats :: "market_summary \<Rightarrow> candle list \<Rightarrow> market_summary option" where
  "applyCandleStats summary candles =
     (case candles of
        [] \<Rightarrow> None
      | c # cs \<Rightarrow>
          (let (high, low, volume) = candle_extremes c candles; l = last candles in
           Some (summary\<lparr>ms_LastPrice := cd_Close l, ms_High24h := high, ms_Low24h := low, ms_Volume24h := volume,
                         ms_Change24h := percentChange (cd_Open c) (cd_Close l)\<rparr>)))"

section \<open>A chart without a database\<close>

definition ratByBps :: "rat \<Rightarrow> int \<Rightarrow> rat" where
  "ratByBps value bps = value * (of_int (10000 + bps) / 10000)"

definition maxRat :: "rat \<Rightarrow> rat \<Rightarrow> rat" where
  "maxRat left right = (if right \<le> left then left else right)"

definition minRat :: "rat \<Rightarrow> rat \<Rightarrow> rat" where
  "minRat left right = (if left \<le> right then left else right)"

fun fallback_loop :: "string \<Rightarrow> interval \<Rightarrow> time \<Rightarrow> nat \<Rightarrow> rat \<Rightarrow> nat list \<Rightarrow> rat \<Rightarrow> candle list" where
  "fallback_loop marketSymbol interval now limit base [] prevClose = []"
| "fallback_loop marketSymbol interval now limit base (i # is) prevClose =
     (let openTime = now - int (limit - 1 - i) * iv_Duration interval;
          close = (if i = limit - 1 then base else ratByBps base (int (i mod 11) - 5));
          high = ratByBps (maxRat prevClose close) 2;
          low = ratByBps (minRat prevClose close) (- 2)
      in \<lparr>cd_Market = marketSymbol, cd_Interval = iv_Key interval, cd_OpenTime = openTime,
          cd_CloseTime = openTime + iv_Duration interval, cd_Open = String prevClose, cd_High = String high,
          cd_Low = String low, cd_Close = String close, cd_VolumeBase = ''1'', cd_VolumeQuote = String close,
          cd_TradeCount = 0, cd_LastTradeAt = openTime\<rparr> #
         fallback_loop marketSymbol interval now limit base is close)"

definition fallbackCandles :: "env \<Rightarrow> string \<Rightarrow> interval \<Rightarrow> int \<Rightarrow> string \<Rightarrow> candle list" where
  "fallbackCandles env marketSymbol interval limit0 price =
     (let limit1 = limit_or limit0 1000 120; limit = (if limit1 < 2 then 2 else limit1);
          base = (if Parse price \<le> 0 then 1 else Parse price)
      in fallback_loop marketSymbol interval (time_truncate (e_now env) (iv_Duration interval)) limit base
           [0..<limit] (ratByBps base (- 5)))"

section \<open>What the statistics say\<close>

lemma candle_extremes_fold:
  assumes "\<forall>c \<in> set cs. amount (cd_VolumeBase c)" and "amount v"
  shows "\<exists>high low volume. fold (\<lambda>item (high, low, volume).
        (if Cmp (cd_High item) high > 0 then cd_High item else high,
         if Cmp (cd_Low item) low < 0 then cd_Low item else low,
         Add volume (cd_VolumeBase item))) cs (h, l, v) = (high, low, volume) \<and>
    (\<forall>c \<in> set cs. Parse (cd_High c) \<le> Parse high \<and> Parse low \<le> Parse (cd_Low c)) \<and>
    Parse h \<le> Parse high \<and> Parse low \<le> Parse l \<and>
    high \<in> insert h (cd_High ` set cs) \<and> low \<in> insert l (cd_Low ` set cs) \<and>
    amount volume \<and> Parse volume = Parse v + sum_list (map (\<lambda>c. Parse (cd_VolumeBase c)) cs)"
  using assms
proof (induction cs arbitrary: h l v)
  case (Cons c cs)
  have v: "amount (Add v (cd_VolumeBase c))" by simp
  obtain high low volume where ih: "fold (\<lambda>item (high, low, volume).
        (if Cmp (cd_High item) high > 0 then cd_High item else high,
         if Cmp (cd_Low item) low < 0 then cd_Low item else low,
         Add volume (cd_VolumeBase item))) cs
       (if Cmp (cd_High c) h > 0 then cd_High c else h, if Cmp (cd_Low c) l < 0 then cd_Low c else l,
        Add v (cd_VolumeBase c)) = (high, low, volume)"
    and f: "\<forall>c \<in> set cs. Parse (cd_High c) \<le> Parse high \<and> Parse low \<le> Parse (cd_Low c)"
      "Parse (if Cmp (cd_High c) h > 0 then cd_High c else h) \<le> Parse high"
      "Parse low \<le> Parse (if Cmp (cd_Low c) l < 0 then cd_Low c else l)"
      "high \<in> insert (if Cmp (cd_High c) h > 0 then cd_High c else h) (cd_High ` set cs)"
      "low \<in> insert (if Cmp (cd_Low c) l < 0 then cd_Low c else l) (cd_Low ` set cs)"
      "amount volume" "Parse volume = Parse (Add v (cd_VolumeBase c)) + sum_list (map (\<lambda>c. Parse (cd_VolumeBase c)) cs)"
    using Cons.IH [OF _ v] Cons.prems(1) by (metis (no_types, lifting) list.set_intros(2))
  have hl: "Parse h \<le> Parse high" "Parse (cd_High c) \<le> Parse high" "Parse low \<le> Parse l" "Parse low \<le> Parse (cd_Low c)"
    using f(2,3) by (auto simp: dec_simps split: if_splits)
  show ?case
    using ih f(1,4-7) hl Cons.prems by (auto simp: Parse_Add split: if_splits)
qed simp


lemma statsValue_exact: "amount v \<Longrightarrow> Parse (statsValue v) = Parse v"
proof (cases "trim_space v = []")
  case True
  then have "Parse v = 0" by (simp add: Parse_def rat_set_string_def)
  then show ?thesis using True by (simp add: statsValue_def Parse_0)
next
  case False
  have "Parse (trim_space v) = Parse v" by (simp add: Parse_def)
  moreover assume "amount v"
  ultimately show ?thesis using False by (simp add: statsValue_def Parse_String amount_def round18_exact)
qed

lemma amount_statsValue: "amount (statsValue v)"
  by (simp add: statsValue_def)

definition candle_amounts :: "candle \<Rightarrow> bool" where
  "candle_amounts c \<longleftrightarrow> amount (cd_High c) \<and> amount (cd_Low c) \<and> amount (cd_Close c) \<and> amount (cd_VolumeBase c)"

text \<open>The specification: the minute candles of a market, and its latest \<open>n\<close> of them in the order of
  their opening times, said without the query that selects them.\<close>

definition minute_candles :: "db \<Rightarrow> string \<Rightarrow> candle list" where
  "minute_candles d m = filter (\<lambda>c. cd_Market c = m \<and> cd_Interval c = ''1m'') (db_candles d)"

definition latest_candles :: "nat \<Rightarrow> candle list \<Rightarrow> candle list \<Rightarrow> bool" where
  "latest_candles n cs ls \<longleftrightarrow> sorted (map cd_OpenTime ls) \<and> length ls = min n (length cs) \<and>
     (\<exists>older. (\<forall>c. count_list cs c = count_list older c + count_list ls c) \<and>
        (\<forall>c \<in> set older. \<forall>l \<in> set ls. cd_OpenTime c \<le> cd_OpenTime l))"

text \<open>A row of the markets table that summarises the candles \<open>cs\<close>.\<close>

definition summarises :: "candle list \<Rightarrow> market_row \<Rightarrow> bool" where
  "summarises cs r \<longleftrightarrow>
     Parse (mk_High24h r) = Max (set (map (\<lambda>c. Parse (cd_High c)) cs)) \<and>
     Parse (mk_Low24h r) = Lattices_Big.Min (set (map (\<lambda>c. Parse (cd_Low c)) cs)) \<and>
     Parse (mk_Volume24h r) = sum_list (map (\<lambda>c. Parse (cd_VolumeBase c)) cs) \<and>
     Parse (mk_LastPrice r) = Parse (cd_Close (last cs)) \<and>
     Parse (mk_Change24h r) = (let p = Parse (cd_Open (hd cs)); q = Parse (cd_Close (last cs)) in
       if p \<le> 0 then 0 else round18 ((q - p) * 100 / p))"

lemma ListCandles_latest:
  assumes "m \<noteq> []"
  shows "latest_candles 500 (minute_candles d m) (ListCandles d m ''1m'' 1440)"
proof -
  define s where "s = sort_key (\<lambda>c. - cd_OpenTime c) (minute_candles d m)"
  have l: "ListCandles d m ''1m'' 1440 = rev (take 500 s)"
    using assms by (simp add: ListCandles_def limit_or_def col_eq_def modelToCandle_def [abs_def] s_def minute_candles_def)
  have sorted: "sorted (map (\<lambda>c. - cd_OpenTime c) s)" by (simp add: s_def)
  then have "sorted_wrt (\<lambda>x y. cd_OpenTime y \<le> cd_OpenTime x) (take 500 s @ drop 500 s)"
    by (simp add: sorted_map)
  then have w: "sorted_wrt (\<lambda>x y. cd_OpenTime y \<le> cd_OpenTime x) (take 500 s)"
    "\<forall>c \<in> set (drop 500 s). \<forall>x \<in> set (take 500 s). cd_OpenTime c \<le> cd_OpenTime x"
    unfolding sorted_wrt_append by blast+
  have "sorted (map cd_OpenTime (rev (take 500 s)))"
    using w(1) by (simp add: sorted_map sorted_wrt_rev)
  moreover have "count_list (minute_candles d m) c = count_list (drop 500 s) c + count_list (rev (take 500 s)) c" for c
  proof -
    have "count_list (minute_candles d m) c = count_list s c"
      unfolding s_def count_list_eq_length_filter filter_sort by simp
    also have "\<dots> = count_list (take 500 s @ drop 500 s) c" by simp
    finally show ?thesis by (simp only: count_list_append count_list_rev add.commute)
  qed
  moreover have "length s = length (minute_candles d m)" by (simp add: s_def)
  ultimately show ?thesis
    using w(2) unfolding latest_candles_def l
    by (intro conjI exI [of _ "drop 500 s"]) (simp_all add: min.commute)
qed

lemma exchangeMarketStats_summary:
  assumes "ListCandles d m ''1m'' 1440 = cs" and "cs \<noteq> []" and "list_all candle_amounts cs"
    and "st = exchangeMarketStats d m"
  shows "summarises cs (r\<lparr>mk_LastPrice := statsValue (xs_LastPrice st), mk_Change24h := statsValue (xs_Change24h st),
    mk_High24h := statsValue (xs_High24h st), mk_Low24h := statsValue (xs_Low24h st),
    mk_Volume24h := statsValue (xs_Volume24h st), mk_UpdatedAt := now\<rparr>)"
proof -
  obtain c ds where cs: "cs = c # ds" using assms(2) by (cases cs) auto
  have am: "\<forall>c \<in> set cs. amount (cd_VolumeBase c)" using assms(3) by (auto simp: list_all_iff candle_amounts_def)
  obtain high low volume where e: "candle_extremes c cs = (high, low, volume)"
    and b: "\<forall>c \<in> set cs. Parse (cd_High c) \<le> Parse high \<and> Parse low \<le> Parse (cd_Low c)"
    and m: "high \<in> insert (cd_High c) (cd_High ` set cs)" "low \<in> insert (cd_Low c) (cd_Low ` set cs)"
    and v: "amount volume" "Parse volume = Parse ''0'' + sum_list (map (\<lambda>c. Parse (cd_VolumeBase c)) cs)"
    using candle_extremes_fold [OF am amount_0, of "cd_High c" "cd_Low c"] unfolding candle_extremes_def by blast
  have m': "high \<in> cd_High ` set cs" "low \<in> cd_Low ` set cs" using m cs by auto
  have amounts: "amount high" "amount low" "amount (cd_Close (last cs))"
    using m' assms(2,3) by (auto simp: list_all_iff candle_amounts_def)
  have hi: "Parse high = Max (set (map (\<lambda>c. Parse (cd_High c)) cs))"
    using m'(1) b by (intro Max_eqI [symmetric]) auto
  have lo: "Parse low = Lattices_Big.Min (set (map (\<lambda>c. Parse (cd_Low c)) cs))"
    using m'(2) b by (intro Lattices_Big.Min_eqI [symmetric]) auto
  have st: "st = \<lparr>xs_LastPrice = statsValue (cd_Close (last cs)), xs_Change24h = statsPercentChange (cd_Open c) (cd_Close (last cs)),
       xs_High24h = statsValue high, xs_Low24h = statsValue low, xs_Volume24h = statsValue volume\<rparr>"
    using assms(1,4) e by (simp add: exchangeMarketStats_def cs Let_def)
  have twice: "Parse (statsValue (statsValue x)) = Parse x" if "amount x" for x
    using that by (simp add: statsValue_exact amount_statsValue)
  have change: "Parse (statsValue (statsPercentChange x y)) =
      (if Parse x \<le> 0 then 0 else round18 ((Parse y - Parse x) * 100 / Parse x))" for x y
    by (simp add: statsValue_exact statsPercentChange_def Let_def Parse_String Parse_0)
  show ?thesis
    unfolding summarises_def using hi lo v(2) amounts v(1)
    by (simp add: st twice change cs Parse_0 Let_def)
qed

text \<open>C22: the stored statistics of a market with minute candles of decimal figures. A refresh writes to the market's row,
  and to nothing else, a summary of its latest minute candles: the largest high, the smallest low, the
  volume and the last close exactly, and the change in percent from the first open to the last close.
  The latest are 500 candles, or all of them when there are fewer; the 1440 of a day that the code asks
  for are never covered.\<close>

theorem exchangeMarketStats_exact:
  assumes "m = to_upper (trim_space market)" and "m \<noteq> []" and "minute_candles d m \<noteq> []"
    and "list_all candle_amounts (minute_candles d m)"
  shows "\<exists>d' cs. RefreshExchangeMarketStats env market d = Inr ((), d') \<and>
    d' = d\<lparr>db_markets := db_markets d'\<rparr> \<and> latest_candles 500 (minute_candles d m) cs \<and>
    list_all2 (\<lambda>r r'. if mk_Symbol r = m then mk_Symbol r' = m \<and> summarises cs r' \<and> mk_UpdatedAt r' = e_now env
      else r' = r) (db_markets d) (db_markets d')"
proof -
  define cs where "cs = ListCandles d m ''1m'' 1440"
  define st where "st = exchangeMarketStats d m"
  define f where "f r = r\<lparr>mk_LastPrice := statsValue (xs_LastPrice st), mk_Change24h := statsValue (xs_Change24h st),
    mk_High24h := statsValue (xs_High24h st), mk_Low24h := statsValue (xs_Low24h st),
    mk_Volume24h := statsValue (xs_Volume24h st), mk_UpdatedAt := e_now env\<rparr>" for r :: market_row
  have latest: "latest_candles 500 (minute_candles d m) cs"
    unfolding cs_def by (rule ListCandles_latest [OF assms(2)])
  then obtain older where older: "\<And>c. count_list (minute_candles d m) c = count_list older c + count_list cs c"
    and len: "length cs = min 500 (length (minute_candles d m))"
    by (auto simp: latest_candles_def)
  have ne: "cs \<noteq> []" using len assms(3) by (auto simp: min_def split: if_splits)
  have "set cs \<subseteq> set (minute_candles d m)"
    using older by (metis add_is_0 count_list_0_iff subsetI)
  then have am: "list_all candle_amounts cs" using assms(4) by (auto simp: list_all_iff)
  have sums: "summarises cs (f r)" for r
    unfolding f_def by (rule exchangeMarketStats_summary [OF cs_def [symmetric] ne am st_def])
  have m: "to_upper (trim_space m) = m" by (simp add: assms(1) trim_space_upper to_upper_idem)
  have upd: "UpdateExchangeMarketStats env m st d =
      Inr ((), d\<lparr>db_markets := row_update (\<lambda>r. mk_Symbol r = m) f (db_markets d)\<rparr>)"
    using assms(2) m by (simp add: UpdateExchangeMarketStats_def Let_def tx_modify_def f_def [abs_def])
  then have run: "RefreshExchangeMarketStats env market d =
      Inr ((), d\<lparr>db_markets := row_update (\<lambda>r. mk_Symbol r = m) f (db_markets d)\<rparr>)"
    using assms(2) unfolding RefreshExchangeMarketStats_def Let_def assms(1) [symmetric]
    by (simp add: tx_bind_def tx_get_def st_def)
  have rows: "list_all2 (\<lambda>r r'. if mk_Symbol r = m then mk_Symbol r' = m \<and> summarises cs r' \<and> mk_UpdatedAt r' = e_now env
      else r' = r) (db_markets d) (row_update (\<lambda>r. mk_Symbol r = m) f (db_markets d))"
    unfolding row_update_def list.rel_map using sums by (intro list.rel_refl) (simp add: f_def)
  show ?thesis
    by (intro exI [of _ "d\<lparr>db_markets := row_update (\<lambda>r. mk_Symbol r = m) f (db_markets d)\<rparr>"] exI [of _ cs])
      (simp add: run latest rows)
qed

definition stats_candle :: "time \<Rightarrow> string \<Rightarrow> string \<Rightarrow> candle" where
  "stats_candle t opn cls =
     \<lparr>cd_Market = ''M'', cd_Interval = ''1m'', cd_OpenTime = t, cd_CloseTime = t + minute, cd_Open = opn,
      cd_High = ''4'', cd_Low = ''1'', cd_Close = cls, cd_VolumeBase = ''5'', cd_VolumeQuote = ''10'',
      cd_TradeCount = 2, cd_LastTradeAt = t\<rparr>"

definition stats_row :: market_row where
  "stats_row = \<lparr>mk_Symbol = ''M'', mk_BaseAsset = ''B'', mk_QuoteAsset = ''Q'', mk_ChainKeys = [], mk_Enabled = True,
     mk_LastPrice = ''0'', mk_Change24h = ''0'', mk_High24h = ''0'', mk_Low24h = ''0'', mk_Volume24h = ''0'',
     mk_CreatedAt = 0, mk_UpdatedAt = 0\<rparr>"

definition stats_db :: db where
  "stats_db = empty_db\<lparr>db_candles := [stats_candle minute ''3'' ''2.5'', stats_candle 0 ''2'' ''3''],
     db_markets := [stats_row]\<rparr>"

theorem exchangeMarketStats_exact_witness:
  "\<exists>d' r. RefreshExchangeMarketStats \<lparr>e_now = 9, e_newid = (\<lambda>_. [])\<rparr> '' m'' stats_db = Inr ((), d') \<and> db_markets d' = [r] \<and>
     Parse (mk_LastPrice r) = 5/2 \<and> Parse (mk_Change24h r) = 25 \<and> Parse (mk_Volume24h r) = 10"
proof -
  let ?a = "stats_candle 0 ''2'' ''3''" let ?b = "stats_candle minute ''3'' ''2.5''"
  let ?env = "\<lparr>e_now = 9, e_newid = (\<lambda>_. [])\<rparr>"
  have p: "''M'' = to_upper (trim_space '' m'')" "''M'' \<noteq> ([] :: string)" by code_simp+
  have cs: "minute_candles stats_db ''M'' = [?b, ?a]"
    by (simp add: minute_candles_def stats_db_def stats_candle_def)
  have am: "list_all candle_amounts [?b, ?a]" by code_simp
  have v: "Parse ''2.5'' = 5/2" "Parse ''2'' = 2" "Parse ''5'' = 5" "Parse ''3'' = 3" by code_simp+
  have r25: "round18 25 = 25" by code_simp
  obtain d' cs where run: "RefreshExchangeMarketStats ?env '' m'' stats_db = Inr ((), d')"
    and latest: "latest_candles 500 [?b, ?a] cs"
    and rows: "list_all2 (\<lambda>r r'. if mk_Symbol r = ''M'' then mk_Symbol r' = ''M'' \<and> summarises cs r' \<and> mk_UpdatedAt r' = e_now ?env
      else r' = r) (db_markets stats_db) (db_markets d')"
    using exchangeMarketStats_exact [OF p, of stats_db ?env] am unfolding cs by blast
  obtain r where r: "db_markets d' = [r]" "summarises cs r"
    using rows by (auto simp: stats_db_def stats_row_def list_all2_Cons1)
  have cs2: "length cs = 2" "sorted (map cd_OpenTime cs)" using latest by (simp_all add: latest_candles_def)
  have cnt: "count_list cs c \<le> count_list [?b, ?a] c" for c
    using latest unfolding latest_candles_def by (metis le_add2)
  obtain x y where xy: "cs = [x, y]" using cs2(1) by (auto simp: length_Suc_conv numeral_2_eq_2)
  have "?a \<noteq> ?b" by (simp add: stats_candle_def minute_def)
  then have "cs = [?a, ?b] \<or> cs = [?b, ?a]" using cnt [of x] cnt [of y] by (auto simp: xy split: if_splits)
  then have "cs = [?a, ?b]" using cs2(2) by (auto simp: stats_candle_def minute_def)
  then show ?thesis
    using run r by (simp add: summarises_def stats_candle_def v r25 Let_def)
qed

end
