(* ===== verification/MarketData.thy ===== *)
theory MarketData
  imports MarketStats EventLog
begin

text \<open>
  The candle worker \<^verbatim>\<open>internal/app/marketdata\<close>: per market it reads the trades after its projection
  offset, extends the candles with them, refreshes the market's statistics and advances the offset,
  in one transaction. Its endless loop, the ticker and the environment variables are left out.
\<close>

definition candleProjectionName :: string where
  "candleProjectionName = ''candles''"

definition candle_offset :: "db \<Rightarrow> string \<Rightarrow> projection_offset" where
  "candle_offset d marketSymbol =
     (case GetProjectionOffset d candleProjectionName marketSymbol of
        Some r \<Rightarrow> r
      | None \<Rightarrow> \<lparr>po_Projection = candleProjectionName, po_Market = marketSymbol, po_Stream = ''exchange_trades'',
                 po_LastSequence = 0, po_LastEventID = [], po_LastEventHash = [], po_LastEventAt = 0,
                 po_UpdatedAt = 0, po_LastAdvancedAt = 0\<rparr>)"

definition candle_tx :: "env \<Rightarrow> string \<Rightarrow> projection_offset \<Rightarrow> trade list \<Rightarrow> unit ltx" where
  "candle_tx env marketSymbol offset trades =
     tx_bind (UpdateCandles trades) (\<lambda>_.
     tx_bind (RefreshExchangeMarketStats env marketSymbol) (\<lambda>_.
     tx_bind (AdvanceProjectionOffset env
       \<lparr>po_Projection = candleProjectionName, po_Market = marketSymbol, po_Stream = ''exchange_trades'',
        po_LastSequence = po_LastSequence offset + of_nat (length trades), po_LastEventID = t_ID (last trades),
        po_LastEventHash = [], po_LastEventAt = t_CreatedAt (last trades), po_UpdatedAt = 0, po_LastAdvancedAt = 0\<rparr>) (\<lambda>_.
     tx_return ())))"

definition processMarketCandles :: "env \<Rightarrow> string \<Rightarrow> int \<Rightarrow> db \<Rightarrow> (ledger_error + nat) \<times> db" where
  "processMarketCandles env marketSymbol batchSize d =
     (let offset = candle_offset d marketSymbol;
          trades = ListTradesAfter d marketSymbol (po_LastEventAt offset) (po_LastEventID offset) batchSize in
      if trades = [] then (Inr 0, d)
      else (case run_tx (candle_tx env marketSymbol offset trades) d of
              (Inl e, d') \<Rightarrow> (Inl e, d')
            | (Inr _, d') \<Rightarrow> (Inr (length trades), d')))"

fun process_markets :: "env \<Rightarrow> int \<Rightarrow> market list \<Rightarrow> nat \<Rightarrow> db \<Rightarrow> (ledger_error \<times> nat + nat) \<times> db" where
  "process_markets env batchSize [] processed d = (Inr processed, d)"
| "process_markets env batchSize (item # items) processed d =
     (if m_Symbol item = [] \<or> \<not> m_Enabled item then process_markets env batchSize items processed d
      else (case processMarketCandles env (m_Symbol item) batchSize d of
              (Inl e, d') \<Rightarrow> (Inl (e, processed), d')
            | (Inr n, d') \<Rightarrow> process_markets env batchSize items (processed + n) d'))"

text \<open>The error comes with the number of trades processed so far.\<close>

definition RunOnce :: "env \<Rightarrow> market_registry \<Rightarrow> int \<Rightarrow> db \<Rightarrow> (ledger_error \<times> nat + nat) \<times> db" where
  "RunOnce env markets batchSize0 d =
     process_markets env (if batchSize0 \<le> 0 \<or> 10000 < batchSize0 then 1000 else batchSize0) (market_All markets) 0 d"

section \<open>Positions in a sorted list\<close>

lemma filter_upto_take:
  fixes k :: "'k::linorder"
  assumes "sorted_wrt (<) (map f xs)" and "take n (filter (\<lambda>x. k < f x) xs) \<noteq> []"
  defines "k' \<equiv> f (last (take n (filter (\<lambda>x. k < f x) xs)))"
  shows "filter (\<lambda>x. f x \<le> k') xs = filter (\<lambda>x. f x \<le> k) xs @ take n (filter (\<lambda>x. k < f x) xs)"
    and "filter (\<lambda>x. k' < f x) xs = drop n (filter (\<lambda>x. k < f x) xs)" and "k < k'"
proof -
  define B where "B = filter (\<lambda>x. k < f x) xs"
  have split: "xs = filter (\<lambda>x. f x \<le> k) xs @ B"
    using assms(1) unfolding B_def
  proof (induction xs)
    case (Cons a xs)
    show ?case
    proof (cases "f a \<le> k")
      case False
      then have "\<forall>x \<in> set xs. k < f x" using Cons.prems by auto
      then have "filter (\<lambda>x. f x \<le> k) xs = []" "filter (\<lambda>x. k < f x) xs = xs"
        by (auto simp: filter_empty_conv filter_id_conv not_le)
      then show ?thesis using False by (simp add: not_le)
    qed (use Cons in auto)
  qed simp
  have ne: "take n B \<noteq> []" using assms(2) by (simp add: B_def)
  have k': "k' = f (last (take n B))" by (simp add: k'_def B_def)
  have "sorted_wrt (<) (map f B)" using assms(1) by (subst (asm) split) (simp add: sorted_wrt_append)
  then have "sorted_wrt (<) (map f (take n B) @ map f (drop n B))"
    by (simp only: map_append [symmetric] append_take_drop_id)
  then have st: "sorted_wrt (<) (map f (take n B))" and cross: "\<forall>x \<in> set (take n B). \<forall>y \<in> set (drop n B). f x < f y"
    unfolding sorted_wrt_append by (blast, simp)
  have up: "\<forall>x \<in> set (take n B). f x \<le> k'"
  proof -
    have "take n B = butlast (take n B) @ [last (take n B)]" using ne by simp
    then have "sorted_wrt (<) (map f (butlast (take n B) @ [last (take n B)]))" using st by simp
    then have "\<forall>x \<in> set (butlast (take n B)). f x < k'" unfolding k' map_append sorted_wrt_append by auto
    then have l: "\<forall>x \<in> set (butlast (take n B) @ [last (take n B)]). f x \<le> k'" using k' by (auto intro: less_imp_le)
    have e: "butlast (take n B) @ [last (take n B)] = take n B" using ne by (rule append_butlast_last_id)
    show ?thesis using l unfolding e .
  qed
  have dn: "\<forall>y \<in> set (drop n B). k' < f y" using cross ne k' last_in_set by blast
  have "last (take n B) \<in> set B" using last_in_set [OF ne] set_take_subset [of n B] by (rule set_mp [rotated])
  then have kk: "k < k'" unfolding k' by (simp add: B_def)
  define A where "A = filter (\<lambda>x. f x \<le> k) xs"
  have low: "\<forall>x \<in> set A. f x \<le> k'" using kk by (auto simp: A_def)
  have xs: "xs = A @ take n B @ drop n B" using split by (simp add: A_def)
  have le: "filter (\<lambda>x. f x \<le> k') A = A" "filter (\<lambda>x. f x \<le> k') (take n B) = take n B"
      "filter (\<lambda>x. f x \<le> k') (drop n B) = []"
    and gt: "filter (\<lambda>x. k' < f x) A = []" "filter (\<lambda>x. k' < f x) (take n B) = []"
      "filter (\<lambda>x. k' < f x) (drop n B) = drop n B"
    using low up dn by (auto simp: filter_id_conv filter_empty_conv not_le not_less)
  have "filter (\<lambda>x. f x \<le> k') xs = A @ take n B"
    by (subst xs) (simp only: filter_append le append_Nil2)
  then show "filter (\<lambda>x. f x \<le> k') xs = filter (\<lambda>x. f x \<le> k) xs @ take n (filter (\<lambda>x. k < f x) xs)"
    by (simp add: A_def B_def)
  have "filter (\<lambda>x. k' < f x) xs = drop n B"
    by (subst xs) (simp only: filter_append gt append_Nil)
  then show "filter (\<lambda>x. k' < f x) xs = drop n (filter (\<lambda>x. k < f x) xs)" by (simp add: B_def)
  show "k < k'" by (rule kk)
qed


section \<open>What the worker has done\<close>

text \<open>The order in which the worker sees the trades of a market, and what lies before its offset.\<close>

definition trade_position :: "trade \<Rightarrow> time \<times> string" where
  "trade_position t = (t_CreatedAt t, t_ID t)"

definition market_trades :: "string \<Rightarrow> db \<Rightarrow> trade list" where
  "market_trades m d = sort_key trade_position (filter (\<lambda>t. t_Market t = m) (db_trades d))"

definition offset_position :: "projection_offset \<Rightarrow> time \<times> string" where
  "offset_position r = (po_LastEventAt r, po_LastEventID r)"

definition offset_of :: "string \<Rightarrow> db \<Rightarrow> projection_offset option" where
  "offset_of m d = row_find offset_key (candleProjectionName, m) (db_offsets d)"

definition done_trades :: "string \<Rightarrow> db \<Rightarrow> trade list" where
  "done_trades m d =
     (case offset_of m d of
        None \<Rightarrow> []
      | Some r \<Rightarrow> filter (\<lambda>t. trade_position t \<le> offset_position r) (market_trades m d))"

definition waiting_trades :: "string \<Rightarrow> db \<Rightarrow> trade list" where
  "waiting_trades m d =
     (case offset_of m d of
        None \<Rightarrow> market_trades m d
      | Some r \<Rightarrow> filter (\<lambda>t. offset_position r < trade_position t) (market_trades m d))"

text \<open>Trades as the service records them: identifiers are distinct and carry no spaces, times are set,
  amounts are well formed, and there are fewer than the sequence number can count.\<close>

definition trades_recorded :: "db \<Rightarrow> bool" where
  "trades_recorded d \<longleftrightarrow> distinct (map t_ID (db_trades d)) \<and> length (db_trades d) < 2 ^ 64 \<and>
     (\<forall>t \<in> set (db_trades d). trade_amounts t \<and> t_CreatedAt t \<noteq> 0 \<and> trim_space (t_ID t) = t_ID t)"

definition candles_projected :: "db \<Rightarrow> bool" where
  "candles_projected d \<longleftrightarrow> (\<exists>ts. candles_of (\<lambda>_. ts) d \<and> (\<forall>m. filter (\<lambda>t. t_Market t = m) ts = done_trades m d)) \<and>
     (\<forall>m r. offset_of m d = Some r \<longrightarrow> po_LastEventAt r \<noteq> 0 \<and> trim_space (po_LastEventID r) = po_LastEventID r \<and>
        unat (po_LastSequence r) = length (done_trades m d))"

lemma market_trades_sorted:
  assumes "trades_recorded d"
  shows "sorted_wrt (<) (map trade_position (market_trades m d))"
proof -
  have "inj_on trade_position (set (db_trades d))"
    using assms by (auto simp: trades_recorded_def trade_position_def distinct_map inj_on_def)
  moreover have "distinct (db_trades d)" using assms by (auto simp: trades_recorded_def distinct_map)
  ultimately have "distinct (map trade_position (market_trades m d))"
    by (auto simp: market_trades_def distinct_map intro: inj_on_subset)
  then show ?thesis
    by (simp add: market_trades_def strict_sorted_iff)
qed

lemma trade_position_fun: "(\<lambda>r. (t_CreatedAt r, t_ID r)) = trade_position"
  by (simp add: fun_eq_iff trade_position_def)

lemma modelsToTrades_id: "modelsToTrades xs = xs"
  by (simp add: modelsToTrades_def modelToTrade_def map_idI)

lemma ListTradesAfter_waiting:
  assumes "to_upper (trim_space m) = m" and "m \<noteq> []" and "candles_projected d"
  shows "ListTradesAfter d m (po_LastEventAt (candle_offset d m)) (po_LastEventID (candle_offset d m)) n =
    take (limit_or n 10000 1000) (waiting_trades m d)"
proof -
  have c: "normalizeProjectionName candleProjectionName = candleProjectionName" "candleProjectionName \<noteq> []"
    by code_simp+
  then have g: "GetProjectionOffset d candleProjectionName m = offset_of m d"
    using assms(1,2) by (cases "offset_of m d") (auto simp: GetProjectionOffset_def offset_of_def modelToProjectionOffset_def)
  show ?thesis
  proof (cases "offset_of m d")
    case None
    then show ?thesis
      using assms(1,2) g
      by (simp add: ListTradesAfter_def candle_offset_def waiting_trades_def market_trades_def modelsToTrades_id trade_position_fun)
  next
    case (Some r)
    then have z: "po_LastEventAt r \<noteq> 0" "trim_space (po_LastEventID r) = po_LastEventID r"
      using assms(3) by (auto simp: candles_projected_def)
    have pos: "(offset_position r < trade_position t) =
        (po_LastEventAt r < t_CreatedAt t \<or> t_CreatedAt t = po_LastEventAt r \<and> po_LastEventID r < t_ID t)" for t
      by (auto simp: offset_position_def trade_position_def)
    have "filter (\<lambda>t. offset_position r < trade_position t) (market_trades m d) =
        sort_key trade_position (filter (\<lambda>t. t_Market t = m \<and> offset_position r < trade_position t) (db_trades d))"
      unfolding market_trades_def filter_sort by (simp add: conj_commute)
    then show ?thesis
      using assms(1,2) g Some z
      by (simp add: ListTradesAfter_def candle_offset_def waiting_trades_def modelsToTrades_id trade_position_fun pos)
  qed
qed


section \<open>One step of the worker\<close>

lemma done_waiting_bound: "length (done_trades m d) + length (waiting_trades m d) \<le> length (db_trades d)"
proof (cases "offset_of m d")
  case None
  then show ?thesis by (simp add: done_trades_def waiting_trades_def market_trades_def)
next
  case (Some r)
  have "length (filter (\<lambda>t. trade_position t \<le> offset_position r) xs) +
      length (filter (\<lambda>t. offset_position r < trade_position t) xs) = length xs" for xs
    by (induction xs) (auto simp: not_le)
  then show ?thesis using Some by (simp add: done_trades_def waiting_trades_def market_trades_def)
qed

lemma waiting_market: "t \<in> set (waiting_trades m d) \<Longrightarrow> t_Market t = m \<and> t \<in> set (db_trades d)"
  by (auto simp: waiting_trades_def market_trades_def split: option.splits)

lemma stats_frame:
  assumes "RefreshExchangeMarketStats env m d = Inr (u, d')"
  shows "db_candles d' = db_candles d \<and> db_offsets d' = db_offsets d \<and> db_trades d' = db_trades d"
  using assms by (auto simp: RefreshExchangeMarketStats_def UpdateExchangeMarketStats_def Let_def tx_bind_Inr_iff
      tx_get_def tx_modify_def tx_return_def split: if_splits)

lemma stats_total: "\<exists>d'. RefreshExchangeMarketStats env m d = Inr ((), d')"
  by (auto simp: RefreshExchangeMarketStats_def UpdateExchangeMarketStats_def Let_def tx_bind_def tx_get_def tx_modify_def tx_return_def)

lemma UpdateCandles_frame:
  assumes "UpdateCandles ts d = Inr (u, d')"
  shows "db_offsets d' = db_offsets d \<and> db_trades d' = db_trades d"
proof -
  have s: "updateCandle t iv x = Inr (v, y) \<Longrightarrow> db_offsets y = db_offsets x \<and> db_trades y = db_trades x" for t iv x v y
    by (auto simp: updateCandle_def Let_def split: option.splits)
  have i: "tx_each (updateCandle t) ivs x = Inr (v, y) \<Longrightarrow> db_offsets y = db_offsets x \<and> db_trades y = db_trades x" for t ivs x v y
    by (induction ivs arbitrary: x) (auto simp: tx_bind_Inr_iff dest!: s)
  show ?thesis using assms unfolding UpdateCandles_def
    by (induction ts arbitrary: d) (auto simp: tx_bind_Inr_iff dest!: i)
qed

lemma UpdateCandles_total: "\<exists>d'. UpdateCandles ts d = Inr ((), d')"
proof -
  have "\<exists>d'. tx_each (updateCandle item) SupportedIntervals x = Inr ((), d')" for item x
    by (rule tx_each_total) (rule updateCandle_total)
  then show ?thesis unfolding UpdateCandles_def by (rule tx_each_total)
qed

lemma advance_new_offset:
  fixes item :: projection_offset and env :: env
  assumes "normal_offset item = item" and "po_Projection item \<noteq> []" and "po_Market item \<noteq> []"
    and "\<And>r. row_find offset_key (offset_key item) (db_offsets d) = Some r \<Longrightarrow> po_LastSequence r < po_LastSequence item"
  defines "row \<equiv> item\<lparr>po_UpdatedAt := e_now env, po_LastAdvancedAt := e_now env\<rparr>"
  shows "\<exists>r d'. AdvanceProjectionOffset env item d = Inr (r, d') \<and> d' = d\<lparr>db_offsets := db_offsets d'\<rparr> \<and>
    (\<forall>k. row_find offset_key k (db_offsets d') = (if k = offset_key item then Some row else row_find offset_key k (db_offsets d)))"
proof (cases "row_find offset_key (offset_key item) (db_offsets d)")
  case None
  have k: "offset_key row = offset_key item" by (simp add: row_def offset_key_def)
  show ?thesis
    using assms(1-3) None k
    by (auto simp: AdvanceProjectionOffset_def Let_def row_def [symmetric] row_find_append split: option.splits)
next
  case (Some r)
  have k: "offset_key row = offset_key item" by (simp add: row_def offset_key_def)
  have lt: "\<not> po_LastSequence item < po_LastSequence r" "po_LastSequence item \<noteq> po_LastSequence r"
    using assms(4) [OF Some] by auto
  show ?thesis
    using assms(1-3) Some k lt
    by (auto simp: AdvanceProjectionOffset_def Let_def row_def [symmetric] row_find_save)
qed

lemma offset_split:
  assumes "trades_recorded d"
  obtains k where "done_trades m d = filter (\<lambda>t. trade_position t \<le> k) (market_trades m d)"
    and "waiting_trades m d = filter (\<lambda>t. k < trade_position t) (market_trades m d)"
proof (cases "offset_of m d")
  case None
  obtain k where k: "\<forall>t \<in> set (market_trades m d). k < trade_position t"
  proof (cases "market_trades m d")
    case (Cons t ts)
    have "\<forall>x \<in> set (t # ts). trade_position t \<le> trade_position x"
      using market_trades_sorted [OF assms, of m] unfolding Cons by auto
    moreover have "(t_CreatedAt t - 1, []) < trade_position t" by (simp add: trade_position_def)
    ultimately have "\<forall>x \<in> set (market_trades m d). (t_CreatedAt t - 1, []) < trade_position x"
      unfolding Cons by (blast intro: less_le_trans)
    then show ?thesis by (rule that)
  qed simp
  then have "filter (\<lambda>t. trade_position t \<le> k) (market_trades m d) = []"
    "filter (\<lambda>t. k < trade_position t) (market_trades m d) = market_trades m d"
    by (auto simp: filter_empty_conv filter_id_conv not_le)
  then show ?thesis using None that [of k] by (simp add: done_trades_def waiting_trades_def)
next
  case (Some r)
  then show ?thesis using that [of "offset_position r"] by (simp add: done_trades_def waiting_trades_def)
qed

lemma offset_moves:
  assumes "trades_recorded d" and "take n (waiting_trades m d) \<noteq> []" and "offset_of m d' = Some row"
    and "offset_position row = trade_position (last (take n (waiting_trades m d)))" and "db_trades d' = db_trades d"
  shows "done_trades m d' = done_trades m d @ take n (waiting_trades m d)"
    and "waiting_trades m d' = drop n (waiting_trades m d)"
proof -
  obtain k where k: "done_trades m d = filter (\<lambda>t. trade_position t \<le> k) (market_trades m d)"
    "waiting_trades m d = filter (\<lambda>t. k < trade_position t) (market_trades m d)"
    using offset_split [OF assms(1)] by blast
  have mt: "market_trades m d' = market_trades m d" using assms(5) by (simp add: market_trades_def)
  note s = filter_upto_take [OF market_trades_sorted [OF assms(1)] assms(2) [unfolded k(2)]]
  show "done_trades m d' = done_trades m d @ take n (waiting_trades m d)"
    using assms(3,4) s(1) k by (simp add: done_trades_def mt)
  show "waiting_trades m d' = drop n (waiting_trades m d)"
    using assms(3,4) s(2) k by (simp add: waiting_trades_def mt)
qed

lemma offset_other:
  assumes "offset_of m d' = offset_of m d" and "db_trades d' = db_trades d"
  shows "done_trades m d' = done_trades m d"
  using assms by (auto simp: done_trades_def market_trades_def split: option.splits)

lemma candle_offset_sequence:
  assumes "to_upper (trim_space m) = m" and "m \<noteq> []" and "candles_projected d"
  shows "unat (po_LastSequence (candle_offset d m)) = length (done_trades m d)"
    and "offset_of m d = Some r \<Longrightarrow> candle_offset d m = r"
proof -
  have c: "normalizeProjectionName candleProjectionName = candleProjectionName" "candleProjectionName \<noteq> []"
    by code_simp+
  have g: "GetProjectionOffset d candleProjectionName m = offset_of m d"
    using assms(1,2) c by (cases "offset_of m d") (auto simp: GetProjectionOffset_def offset_of_def modelToProjectionOffset_def)
  show "unat (po_LastSequence (candle_offset d m)) = length (done_trades m d)"
    using g assms(3) by (auto simp: candle_offset_def candles_projected_def done_trades_def split: option.splits)
  show "offset_of m d = Some r \<Longrightarrow> candle_offset d m = r" using g by (simp add: candle_offset_def)
qed

lemma candle_tx_step:
  assumes m: "to_upper (trim_space m) = m" "m \<noteq> []" and rec: "trades_recorded d" and proj: "candles_projected d"
    and new: "new = take n (waiting_trades m d)" "new \<noteq> []"
  obtains d' where "run_tx (candle_tx env m (candle_offset d m) new) d = (Inr (), d')"
    and "candles_projected d'" and "waiting_trades m d' = drop n (waiting_trades m d)" and "db_trades d' = db_trades d"
proof -
  define item where "item = \<lparr>po_Projection = candleProjectionName, po_Market = m, po_Stream = ''exchange_trades'',
        po_LastSequence = po_LastSequence (candle_offset d m) + of_nat (length new), po_LastEventID = t_ID (last new),
        po_LastEventHash = [], po_LastEventAt = t_CreatedAt (last new), po_UpdatedAt = 0, po_LastAdvancedAt = 0\<rparr>"
  have subset: "set new \<subseteq> set (waiting_trades m d)" unfolding new(1) by (rule set_take_subset)
  have mem: "t_Market t = m" "t \<in> set (db_trades d)" if "t \<in> set new" for t
    using waiting_market that subset by blast+
  have l: "trim_space (t_ID (last new)) = t_ID (last new)" "t_CreatedAt (last new) \<noteq> 0" "list_all trade_amounts new"
    using mem(2) last_in_set [OF new(2)] rec by (auto simp: trades_recorded_def list_all_iff)
  obtain ts where ts: "candles_of (\<lambda>_. ts) d" "\<And>x. filter (\<lambda>t. t_Market t = x) ts = done_trades x d"
    using proj unfolding candles_projected_def by blast
  obtain d1 where d1: "UpdateCandles new d = Inr ((), d1)" using UpdateCandles_total by blast
  obtain d2 where d2: "RefreshExchangeMarketStats env m d1 = Inr ((), d2)" using stats_total by blast
  note f1 = UpdateCandles_frame [OF d1] and f2 = stats_frame [OF d2]
  have len: "length (done_trades m d) + length new < 2 ^ 64"
    using done_waiting_bound [of m d] rec unfolding trades_recorded_def new(1) length_take by linarith
  have sq: "unat (po_LastSequence item) = length (done_trades m d) + length new"
    using len candle_offset_sequence(1) [OF m proj]
    by (simp add: item_def unat_word_ariths unat_of_nat mod_less take_bit_eq_mod)
  have norm: "normal_offset item = item"
  proof -
    have "normalizeProjectionName candleProjectionName = candleProjectionName" "trim_space ''exchange_trades'' = ''exchange_trades''"
      "trim_space ([]::string) = []" by code_simp+
    then show ?thesis using m l(1) by (simp add: normal_offset_def item_def Let_def)
  qed
  have key: "offset_key item = (candleProjectionName, m)" by (simp add: item_def offset_key_def)
  have ne: "po_Projection item \<noteq> []" "po_Market item \<noteq> []" using m(2) by (simp_all add: item_def candleProjectionName_def)
  have lt: "po_LastSequence r < po_LastSequence item"
    if "row_find offset_key (offset_key item) (db_offsets d2) = Some r" for r
  proof -
    have "offset_of m d = Some r" using that f1 f2 by (simp add: key offset_of_def)
    then have "unat (po_LastSequence r) = length (done_trades m d)" using proj by (auto simp: candles_projected_def)
    moreover have "0 < length new" using new(2) by (cases new) simp_all
    ultimately show ?thesis using sq by (simp add: word_less_nat_alt)
  qed
  define row where "row = item\<lparr>po_UpdatedAt := e_now env, po_LastAdvancedAt := e_now env\<rparr>"
  obtain r d3 where adv: "AdvanceProjectionOffset env item d2 = Inr (r, d3)" and d3: "d3 = d2\<lparr>db_offsets := db_offsets d3\<rparr>"
    and off: "\<And>k. row_find offset_key k (db_offsets d3) = (if k = offset_key item then Some row else row_find offset_key k (db_offsets d2))"
    using advance_new_offset [OF norm ne lt, where env = env] unfolding row_def by blast
  have fields: "db_trades d3 = db_trades d" "db_candles d3 = db_candles d1"
    using f1 f2 by (subst d3, simp)+
  have o: "offset_of x d3 = (if x = m then Some row else offset_of x d)" for x
    using off [of "(candleProjectionName, x)"] f1 f2 by (simp add: offset_of_def key)
  have pos: "offset_position row = trade_position (last (take n (waiting_trades m d)))"
    by (simp add: row_def item_def offset_position_def trade_position_def new(1))
  have om: "offset_of m d3 = Some row" by (simp add: o)
  note moved = offset_moves [OF rec new(2) [unfolded new(1)] om pos fields(1)]
  have dn: "done_trades x d3 = done_trades x d @ filter (\<lambda>t. t_Market t = x) new" for x
  proof (cases "x = m")
    case True
    then show ?thesis using moved(1) mem(1) by (simp add: new(1) [symmetric] filter_id_conv)
  next
    case False
    then have "filter (\<lambda>t. t_Market t = x) new = []" using mem(1) by (auto simp: filter_empty_conv)
    then show ?thesis using offset_other [OF _ fields(1), of x] o [of x] False by simp
  qed
  have "candles_of (\<lambda>_. ts @ new) d1" by (rule UpdateCandles_candles_of [OF d1 ts(1) l(3)])
  then have "candles_of (\<lambda>_. ts @ new) d3" by (simp add: candles_of_def fields(2))
  moreover have "filter (\<lambda>t. t_Market t = x) (ts @ new) = done_trades x d3" for x by (simp add: ts(2) dn)
  moreover have "po_LastEventAt r' \<noteq> 0 \<and> trim_space (po_LastEventID r') = po_LastEventID r' \<and>
      unat (po_LastSequence r') = length (done_trades x d3)" if "offset_of x d3 = Some r'" for x r'
  proof (cases "x = m")
    case True
    then have "r' = row" using that om by simp
    then show ?thesis using l sq True moved(1) by (simp add: row_def item_def new(1))
  next
    case False
    then have "offset_of x d = Some r'" "done_trades x d3 = done_trades x d"
      using that o [of x] offset_other [OF _ fields(1), of x] by simp_all
    then show ?thesis using proj by (simp add: candles_projected_def)
  qed
  ultimately have p3: "candles_projected d3" unfolding candles_projected_def by blast
  have "run_tx (candle_tx env m (candle_offset d m) new) d = (Inr (), d3)"
    using d1 d2 adv by (simp add: candle_tx_def item_def [symmetric] run_tx_def tx_bind_def tx_return_def)
  from that [OF this p3 moved(2) fields(1)] show ?thesis .
qed

text \<open>C23: the candle worker refines its specification: as long as the recorded trades can be ordered, a
  step of a market takes the next trades after its offset, in the order of time and identifier, and the
  candles of all markets stay those of exactly the trades that the offsets cover; nothing fails, no
  trade is taken twice, and a step that takes nothing had nothing to take.\<close>

theorem processMarketCandles_refines:
  assumes "to_upper (trim_space m) = m" and "m \<noteq> []" and "trades_recorded d" and "candles_projected d"
  shows "\<exists>n d'. processMarketCandles env m batchSize d = (Inr n, d') \<and> candles_projected d' \<and> trades_recorded d' \<and>
    waiting_trades m d' = drop n (waiting_trades m d) \<and> db_trades d' = db_trades d \<and>
    (n = 0 \<longleftrightarrow> waiting_trades m d = [])"
proof -
  define b where "b = limit_or batchSize 10000 1000"
  have b: "0 < b" by (simp add: b_def limit_or_def)
  define new where "new = take b (waiting_trades m d)"
  have l: "ListTradesAfter d m (po_LastEventAt (candle_offset d m)) (po_LastEventID (candle_offset d m)) batchSize = new"
    unfolding new_def b_def by (rule ListTradesAfter_waiting [OF assms(1,2,4)])
  show ?thesis
  proof (cases "waiting_trades m d = []")
    case True
    then show ?thesis using l assms(3,4) by (simp add: processMarketCandles_def new_def)
  next
    case False
    then have ne: "new \<noteq> []" using b by (simp add: new_def)
    obtain d' where t: "run_tx (candle_tx env m (candle_offset d m) new) d = (Inr (), d')"
      and p: "candles_projected d'" "waiting_trades m d' = drop b (waiting_trades m d)" "db_trades d' = db_trades d"
      by (rule candle_tx_step [OF assms new_def ne])
    have "processMarketCandles env m batchSize d = (Inr (length new), d')"
      using l t ne by (simp add: processMarketCandles_def Let_def)
    moreover have "waiting_trades m d' = drop (length new) (waiting_trades m d)"
      using p(2) by (cases "length (waiting_trades m d) \<le> b") (simp_all add: new_def min_def)
    ultimately show ?thesis using p False ne assms(3) by (simp add: trades_recorded_def)
  qed
qed

text \<open>Two trades of the market M, one of another market, and an empty projection.\<close>

definition session_trade :: "string \<Rightarrow> string \<Rightarrow> time \<Rightarrow> trade" where
  "session_trade tid m tm =
     \<lparr>t_ID = tid, t_Market = m, t_BaseAsset = ''B'', t_QuoteAsset = ''Q'', t_MakerOrderID = ''a'',
      t_TakerOrderID = ''b'', t_MakerUserID = ''u'', t_TakerUserID = ''v'', t_TakerSide = SideBuy,
      t_Price = ''2'', t_Quantity = ''1'', t_QuoteQuantity = ''2'', t_CreatedAt = tm\<rparr>"

definition candle_session :: db where
  "candle_session = empty_db\<lparr>db_trades :=
     [session_trade ''t2'' ''M'' 7, session_trade ''t1'' ''M'' 5, session_trade ''t3'' ''N'' 6]\<rparr>"

theorem processMarketCandles_refines_witness:
  "map t_ID (waiting_trades ''M'' candle_session) = [''t1'', ''t2''] \<and>
   (\<exists>n d'. processMarketCandles \<lparr>e_now = 9, e_newid = \<lambda>n. []\<rparr> ''M'' 1 candle_session = (Inr n, d') \<and> n \<noteq> 0 \<and> candles_projected d')"
proof -
  have m: "to_upper (trim_space ''M'') = ''M''" by code_simp
  have ns: "t_ID (session_trade t m a) = t" "t_CreatedAt (session_trade t m a) = a" "t_Market (session_trade t m a) = m" for t m a
    by (simp_all add: session_trade_def)
  have am: "trade_amounts (session_trade t m a)" for t m a
  proof -
    have "amount ''1''" "amount ''2''" by code_simp+
    then show ?thesis by (simp add: trade_amounts_def session_trade_def)
  qed
  have tr: "trim_space ''t1'' = ''t1''" "trim_space ''t2'' = ''t2''" "trim_space ''t3'' = ''t3''" by code_simp+
  have r: "trades_recorded candle_session"
    using am tr by (simp add: trades_recorded_def candle_session_def ns)
  have off: "offset_of x candle_session = None" for x
    by (simp add: offset_of_def candle_session_def empty_db_def)
  have "candles_of (\<lambda>_. []) candle_session"
    by (simp add: candles_of_def candle_matches_def window_def candle_session_def empty_db_def)
  then have p: "candles_projected candle_session"
    unfolding candles_projected_def by (intro conjI exI [of _ "[]"]) (simp_all add: off done_trades_def)
  have w: "waiting_trades ''M'' candle_session = [session_trade ''t1'' ''M'' 5, session_trade ''t2'' ''M'' 7]"
  proof -
    have "market_trades ''M'' candle_session = [session_trade ''t1'' ''M'' 5, session_trade ''t2'' ''M'' 7]"
      by (simp add: market_trades_def candle_session_def ns trade_position_def)
    then show ?thesis by (simp add: waiting_trades_def off)
  qed
  have w2: "waiting_trades ''M'' candle_session \<noteq> []" "map t_ID (waiting_trades ''M'' candle_session) = [''t1'', ''t2'']"
    by (simp_all add: w ns)
  show ?thesis
    using processMarketCandles_refines [OF m _ r p] w2 by blast
qed

end
