(* ===== verification/Matcher.thy ===== *)
theory Matcher
  imports OrderService
begin

text \<open>
  The matcher process \<^verbatim>\<open>internal/app/matcher\<close>. It takes match jobs (\<^verbatim>\<open>runOnce\<close>), or the commands of the
  command log in the order of their sequence (\<^verbatim>\<open>runCommandLogOnce\<close>), and in the latter case it may
  keep the order book of each market in memory (\<^verbatim>\<open>resident_runtime.go\<close>): the runtime is loaded from
  the latest snapshot and the logged match results, or from the active orders.

  A step works on the runtime and the store. An error leaves the effects the step had so far, as in
  the code; only the transactions of the store are undone. A use of the runtime where there is none
  is the error \<open>NilPointer\<close>. The two unbounded loops have fuel; \<open>Diverges\<close> is its end. The endless
  loops of the process, their tickers and the environment variables are left out: their values are in
  a record, with the text of the errors, the JSON encoder of messages and the JSON decoder of events.
  The model has no panics, so the functions that recover from one only pass the error on.
\<close>

section \<open>State and errors\<close>

record market_runtime =
  rt_Market :: market
  rt_Book :: "market_book option"
  rt_LastSequence :: uint64

datatype matcher_error =
    StoreError ledger_error
  | BookError match_error
  | SnapshotError snapshot_error
  | EncodingError
  | NoAcceptedOrder
  | NoMatchResult
  | NilPointer
  | Diverges

record matcher_config =
  mc_WorkerID :: string
  mc_BatchSize :: int
  mc_MaxAttempts :: int
  mc_RetryDelay :: duration
  mc_LockTTL :: duration
  mc_MatchingEngine :: string
  mc_MatchingRuntime :: string
  mc_SnapshotEvery :: int
  mc_EventRetention :: duration
  mc_MaxSnapshotAge :: duration
  mc_error_text :: "matcher_error \<Rightarrow> string"
  mc_message_json :: "socket_event \<Rightarrow> string option"
  mc_event_unjson :: "string \<Rightarrow> match_event_payload option"

record matcher_state =
  mr_runtime :: "market_runtime option"
  mr_db :: db

type_synonym 'a mx = "matcher_state \<Rightarrow> (matcher_error + 'a) \<times> matcher_state"

definition mx_return :: "'a \<Rightarrow> 'a mx" where
  "mx_return x st = (Inr x, st)"

definition mx_fail :: "matcher_error \<Rightarrow> 'a mx" where
  "mx_fail e st = (Inl e, st)"

definition mx_bind :: "'a mx \<Rightarrow> ('a \<Rightarrow> 'b mx) \<Rightarrow> 'b mx" where
  "mx_bind m f st = (case m st of (Inl e, st') \<Rightarrow> (Inl e, st') | (Inr x, st') \<Rightarrow> f x st')"

text \<open>The outcome of a step as a value.\<close>

definition mx_try :: "'a mx \<Rightarrow> (matcher_error + 'a) mx" where
  "mx_try m st = (case m st of (r, st') \<Rightarrow> (Inr r, st'))"

definition mx_get :: "(db \<Rightarrow> 'a) \<Rightarrow> 'a mx" where
  "mx_get f st = (Inr (f (mr_db st)), st)"

definition mx_tx :: "'a ltx \<Rightarrow> 'a mx" where
  "mx_tx m st =
     (case run_tx m (mr_db st) of
        (Inl e, d) \<Rightarrow> (Inl (StoreError e), st\<lparr>mr_db := d\<rparr>)
      | (Inr x, d) \<Rightarrow> (Inr x, st\<lparr>mr_db := d\<rparr>))"

definition mx_runtime :: "market_runtime mx" where
  "mx_runtime st = (case mr_runtime st of None \<Rightarrow> (Inl NilPointer, st) | Some r \<Rightarrow> (Inr r, st))"

definition mx_book :: "market_book mx" where
  "mx_book = mx_bind mx_runtime (\<lambda>r. case rt_Book r of None \<Rightarrow> mx_fail NilPointer | Some b \<Rightarrow> mx_return b)"

definition mx_update :: "(market_runtime \<Rightarrow> market_runtime) \<Rightarrow> unit mx" where
  "mx_update f st =
     (case mr_runtime st of None \<Rightarrow> (Inl NilPointer, st) | Some r \<Rightarrow> (Inr (), st\<lparr>mr_runtime := Some (f r)\<rparr>))"

section \<open>Publishing\<close>

definition UpdatesChannel :: string where
  "UpdatesChannel = ''exchange_updates''"

text \<open>The publisher of the process puts messages into the outbox; its errors are only logged.\<close>

definition publish_update :: "matcher_config \<Rightarrow> env \<Rightarrow> socket_event \<Rightarrow> db \<Rightarrow> db" where
  "publish_update cfg env event d =
     (case mc_message_json cfg event of
        None \<Rightarrow> d | Some raw \<Rightarrow> snd (run_tx (Outbox_Create env UpdatesChannel [] raw) d))"

definition mx_service ::
  "matcher_config \<Rightarrow> env \<Rightarrow> (db \<Rightarrow> (ledger_error + 'a) \<times> db \<times> socket_event list) \<Rightarrow> 'a mx" where
  "mx_service cfg env f st =
     (case f (mr_db st) of
        (Inl e, d, ms) \<Rightarrow> (Inl (StoreError e), st\<lparr>mr_db := fold (publish_update cfg env) ms d\<rparr>)
      | (Inr x, d, ms) \<Rightarrow> (Inr x, st\<lparr>mr_db := fold (publish_update cfg env) ms d\<rparr>))"

section \<open>Configuration\<close>

definition bookMatchingEnabled :: "matcher_config \<Rightarrow> bool" where
  "bookMatchingEnabled cfg = equal_fold (trim_space (mc_MatchingEngine cfg)) ''book''"

definition residentRuntimeEnabled :: "matcher_config \<Rightarrow> bool" where
  "residentRuntimeEnabled cfg = equal_fold (trim_space (mc_MatchingRuntime cfg)) ''resident''"

definition snapshotEnabled :: "matcher_config \<Rightarrow> uint64 \<Rightarrow> bool" where
  "snapshotEnabled cfg sequence =
     (let every = mc_SnapshotEvery cfg in
      0 < every \<and> 0 < sequence \<and> sequence mod word_of_int every = 0)"

definition enabledMarketSymbols :: "market_registry \<Rightarrow> string list" where
  "enabledMarketSymbols markets =
     map m_Symbol (filter (\<lambda>item. m_Symbol item \<noteq> [] \<and> m_Enabled item) (market_All markets))"

section \<open>Loading a runtime\<close>

definition newMarketRuntime :: "market \<Rightarrow> market_runtime" where
  "newMarketRuntime item = \<lparr>rt_Market = item, rt_Book = None, rt_LastSequence = 0\<rparr>"

definition runtimeMatchable :: "status \<Rightarrow> bool" where
  "runtimeMatchable st \<longleftrightarrow> st = StatusPendingMatch \<or> st = StatusOpen \<or> st = StatusPartiallyFilled"

definition isSnapshotRetentionUnsafe :: "matcher_error \<Rightarrow> bool" where
  "isSnapshotRetentionUnsafe e \<longleftrightarrow>
     e \<in> SnapshotError ` {EventLogAhead, SnapshotTooOld, RetentionBelowThreeTimes, SnapshotNearRetention}"

definition set_book :: "market_book \<Rightarrow> uint64 \<Rightarrow> market_runtime \<Rightarrow> market_runtime" where
  "set_book book lastSequence r = r\<lparr>rt_Book := Some book, rt_LastSequence := lastSequence\<rparr>"

definition runtime_restore :: "service \<Rightarrow> book_state_snapshot \<Rightarrow> unit mx" where
  "runtime_restore s snapshot =
     (case RestoreMarketBook (sv_snapshot_digest s) snapshot of
        Inl e \<Rightarrow> mx_fail (SnapshotError e)
      | Inr book \<Rightarrow> mx_update (set_book book (sn_LastAppliedSequence snapshot)))"

definition loadActiveProjection :: "uint64 \<Rightarrow> unit mx" where
  "loadActiveProjection lastSequence =
     mx_bind mx_runtime (\<lambda>r.
     let m = rt_Market r in
     mx_bind (mx_get (\<lambda>d. ListActiveOrdersForUpdate d (m_Symbol m) [] 0)) (\<lambda>active.
     case Load (NewMarketBook (m_Symbol m) (m_BaseAsset m) (m_QuoteAsset m)) active of
       (Inl e, _) \<Rightarrow> mx_fail (BookError e)
     | (Inr _, book) \<Rightarrow>
         mx_bind (if lastSequence = 0 then mx_get (\<lambda>d. LatestAppliedOrderCommandSequence d (m_Symbol m))
                  else mx_return lastSequence) (\<lambda>n.
         mx_update (set_book book n))))"

definition validateRecoveryWindow :: "matcher_config \<Rightarrow> service \<Rightarrow> env \<Rightarrow> unit mx" where
  "validateRecoveryWindow cfg s env =
     mx_bind mx_runtime (\<lambda>r.
     mx_bind (mx_try (mx_tx (LatestMatcherSnapshot s env (m_Symbol (rt_Market r))))) (\<lambda>found.
     case found of
       Inl e \<Rightarrow> if e = StoreError ErrRecordNotFound then mx_return () else mx_fail e
     | Inr snapshot \<Rightarrow>
         mx_bind (mx_get (\<lambda>d. fst (OrderCommandSequenceBounds d (m_Symbol (rt_Market r))))) (\<lambda>oldest.
         if oldest = 0 then mx_return ()
         else (case CheckSnapshotRetention (e_now env)
                      \<lparr>g_LatestSnapshotSequence = sn_LastAppliedSequence snapshot, g_OldestRetainedSequence = oldest,
                       g_SnapshotCreatedAt = sn_CreatedAt snapshot, g_Now = e_now env,
                       g_EventRetention = mc_EventRetention cfg, g_MaxSnapshotAge = mc_MaxSnapshotAge cfg\<rparr> of
                 Inl e \<Rightarrow> mx_fail (SnapshotError e) | Inr _ \<Rightarrow> mx_return ()))))"

fun replay_events :: "matcher_config \<Rightarrow> match_event_log list \<Rightarrow> unit mx" where
  "replay_events cfg [] = mx_return ()"
| "replay_events cfg (event # events) =
     (case mc_event_unjson cfg (me_Payload event) of
        None \<Rightarrow> mx_fail EncodingError
      | Some p \<Rightarrow>
          mx_bind mx_book (\<lambda>book.
          case ApplyResult book \<lparr>r_Taker = mp_Taker p, r_Makers = mp_Makers p, r_Trades = mp_Trades p\<rparr> of
            (Inl e, book') \<Rightarrow> mx_bind (mx_update (\<lambda>r. r\<lparr>rt_Book := Some book'\<rparr>)) (\<lambda>_. mx_fail (BookError e))
          | (Inr _, book') \<Rightarrow>
              mx_bind (mx_update (set_book book' (me_SequenceID event))) (\<lambda>_. replay_events cfg events)))"

fun replay_loop :: "nat \<Rightarrow> matcher_config \<Rightarrow> unit mx" where
  "replay_loop 0 cfg = mx_fail Diverges"
| "replay_loop (Suc n) cfg =
     mx_bind mx_runtime (\<lambda>r.
     mx_bind (mx_get (\<lambda>d. ListMatchEventLogsAfter d (m_Symbol (rt_Market r)) (rt_LastSequence r) 1000)) (\<lambda>events.
     if events = [] then mx_return ()
     else
       mx_bind (replay_events cfg events) (\<lambda>_.
       if length events < 1000 then mx_return () else replay_loop n cfg)))"

definition replayMatchEventsFromSnapshot :: "matcher_config \<Rightarrow> service \<Rightarrow> book_state_snapshot \<Rightarrow> unit mx" where
  "replayMatchEventsFromSnapshot cfg s snapshot =
     mx_bind (runtime_restore s snapshot) (\<lambda>_.
     mx_bind (mx_get (\<lambda>d. Suc (length (db_event_log d)))) (\<lambda>fuel. replay_loop fuel cfg))"

definition runtime_reload :: "matcher_config \<Rightarrow> service \<Rightarrow> env \<Rightarrow> unit mx" where
  "runtime_reload cfg s env =
     mx_bind mx_runtime (\<lambda>r.
     let symbol = m_Symbol (rt_Market r) in
     mx_bind (mx_try (mx_tx (LatestMatcherSnapshot s env symbol))) (\<lambda>found.
     case found of
       Inl e \<Rightarrow> if e = StoreError ErrRecordNotFound then loadActiveProjection 0 else mx_fail e
     | Inr snapshot \<Rightarrow>
         mx_bind (validateRecoveryWindow cfg s env) (\<lambda>_.
         mx_bind (mx_get (\<lambda>d. LatestAppliedOrderCommandSequence d symbol)) (\<lambda>latestApplied.
         mx_bind (mx_get (\<lambda>d. LatestMatchEventSequence d symbol)) (\<lambda>latestMatchEvent.
         let saved = sn_LastAppliedSequence snapshot in
         if saved < latestApplied \<and> latestApplied \<le> latestMatchEvent
           then replayMatchEventsFromSnapshot cfg s snapshot
         else if saved < latestApplied then loadActiveProjection latestApplied
         else if saved < latestMatchEvent then replayMatchEventsFromSnapshot cfg s snapshot
         else runtime_restore s snapshot)))))"

definition ensureLoaded :: "matcher_config \<Rightarrow> service \<Rightarrow> env \<Rightarrow> unit mx" where
  "ensureLoaded cfg s env =
     mx_bind mx_runtime (\<lambda>r. if rt_Book r \<noteq> None then mx_return () else runtime_reload cfg s env)"

definition ReplayFromSnapshot :: "matcher_config \<Rightarrow> service \<Rightarrow> env \<Rightarrow> int \<Rightarrow> command_log list mx" where
  "ReplayFromSnapshot cfg s env limit =
     mx_bind mx_runtime (\<lambda>r.
     let symbol = m_Symbol (rt_Market r) in
     mx_bind (mx_tx (LatestMatcherSnapshot s env symbol)) (\<lambda>snapshot.
     mx_bind (validateRecoveryWindow cfg s env) (\<lambda>_.
     mx_bind (runtime_restore s snapshot) (\<lambda>_.
     mx_get (\<lambda>d. ListOrderCommandLogsAfter d symbol (sn_LastAppliedSequence snapshot) limit)))))"

section \<open>Processing a command\<close>

text \<open>Applying the taker to the resident book and persisting the result; an error of either restores the
  book that was captured before, and an error of that is ignored.\<close>

definition match_resident ::
  "matcher_config \<Rightarrow> service \<Rightarrow> env \<Rightarrow> order \<Rightarrow> uint64 \<Rightarrow> bool \<Rightarrow> match_outcome mx" where
  "match_resident cfg s env taker sequence saveSnapshot =
     mx_bind mx_runtime (\<lambda>r.
     mx_bind mx_book (\<lambda>book.
     let before = CaptureState (sv_snapshot_digest s) book (rt_LastSequence r) (e_now env) in
     mx_bind (mx_get (trade_id_source env)) (\<lambda>ids.
     case Apply book taker ids (e_now env) of
       (Inl e, book') \<Rightarrow>
         mx_bind (mx_update (\<lambda>r. r\<lparr>rt_Book := Some book'\<rparr>)) (\<lambda>_.
         mx_bind (mx_try (runtime_restore s before)) (\<lambda>_. mx_fail (BookError e)))
     | (Inr res, book') \<Rightarrow>
         mx_bind (mx_update (\<lambda>r. r\<lparr>rt_Book := Some book'\<rparr>)) (\<lambda>_.
         mx_bind (mx_tx (tx_modify (\<lambda>d. d\<lparr>db_ids := db_ids d + length (r_Trades res)\<rparr>))) (\<lambda>_.
         mx_bind (mx_try (mx_service cfg env (PersistBookMatchResult s env
           (res\<lparr>r_Taker := (r_Taker res)\<lparr>o_Price := o_Price taker\<rparr>\<rparr>) sequence saveSnapshot))) (\<lambda>out.
         case out of
           Inl e \<Rightarrow> mx_bind (mx_try (runtime_restore s before)) (\<lambda>_. mx_fail e)
         | Inr persisted \<Rightarrow>
             mx_bind (if bp_ReloadBook persisted then runtime_reload cfg s env else mx_return ()) (\<lambda>_.
             mx_return (bp_Result persisted))))))))"

definition ProcessCommand ::
  "matcher_config \<Rightarrow> service \<Rightarrow> env \<Rightarrow> order_command \<Rightarrow> command_log \<Rightarrow> bool \<Rightarrow> match_outcome mx" where
  "ProcessCommand cfg s env accepted command saveSnapshot =
     mx_bind (ensureLoaded cfg s env) (\<lambda>_.
     if oc_OrderID accepted = [] then mx_fail NoAcceptedOrder
     else
       mx_bind (mx_tx (find_order (oc_OrderID accepted))) (\<lambda>current.
       if \<not> runtimeMatchable (o_Status current) then mx_return \<lparr>mo_Order = current, mo_Trades = []\<rparr>
       else
         mx_bind mx_book (\<lambda>book.
         if ActiveOrder book (o_ID current) \<noteq> None then mx_return \<lparr>mo_Order = current, mo_Trades = []\<rparr>
         else
           match_resident cfg s env
             (if o_Status current = StatusPendingMatch
              then current\<lparr>o_Status := StatusOpen, o_UpdatedAt := e_now env\<rparr> else current)
             (cl_SequenceID command) saveSnapshot)))"

definition completeCommandFromExistingMatchEvent :: "env \<Rightarrow> command_log \<Rightarrow> order_command \<Rightarrow> bool mx" where
  "completeCommandFromExistingMatchEvent env command accepted =
     (if cl_SequenceID command = 0 then mx_return False
      else
        mx_bind (mx_get (\<lambda>d. GetMatchEventLog d (cl_Market command) (cl_SequenceID command))) (\<lambda>found.
        if found = None then mx_return False
        else if trim_space (oc_OrderID accepted) = [] then mx_fail NoAcceptedOrder
        else
          mx_bind (mx_tx (find_order (oc_OrderID accepted))) (\<lambda>current.
          mx_bind (mx_tx (CompleteOrderCommand env (cl_CommandID command) (o_ID current) (status_text (o_Status current)))) (\<lambda>_.
          mx_bind (mx_tx (ApplyOrderCommandLog env (cl_CommandID command) (o_ID current))) (\<lambda>_.
          mx_return True)))))"

text \<open>The sequence the runtime has reached; without a runtime nothing is noted.\<close>

definition note_sequence :: "uint64 \<Rightarrow> unit mx" where
  "note_sequence sequence st =
     (case mr_runtime st of
        None \<Rightarrow> (Inr (), st)
      | Some r \<Rightarrow> (Inr (), if rt_LastSequence r < sequence
                          then st\<lparr>mr_runtime := Some (r\<lparr>rt_LastSequence := sequence\<rparr>)\<rparr> else st))"

definition has_runtime :: "bool mx" where
  "has_runtime st = (Inr (mr_runtime st \<noteq> None), st)"

definition run_command :: "matcher_config \<Rightarrow> service \<Rightarrow> env \<Rightarrow> command_log \<Rightarrow> order_command \<Rightarrow> match_outcome mx" where
  "run_command cfg s env command accepted =
     (let save = snapshotEnabled cfg (cl_SequenceID command) in
      mx_bind has_runtime (\<lambda>resident.
      if resident then ProcessCommand cfg s env accepted command save
      else if bookMatchingEnabled cfg
        then mx_service cfg env (MatchOrderWithBookAtSequence s env (oc_OrderID accepted) (cl_SequenceID command) save)
      else mx_service cfg env (MatchOrder s env (oc_OrderID accepted))))"

definition matchCommandLogWithRuntime :: "matcher_config \<Rightarrow> service \<Rightarrow> env \<Rightarrow> command_log \<Rightarrow> unit mx" where
  "matchCommandLogWithRuntime cfg s env command =
     (if cl_Type command \<noteq> [] \<and> cl_Type command \<noteq> OrderCommandTypeNewOrder
      then mx_tx (RejectOrderCommandLog env (cl_CommandID command) ''unsupported command type'')
      else
        mx_bind (mx_get (\<lambda>d. GetOrderCommand d (cl_CommandID command))) (\<lambda>found.
        case found of
          None \<Rightarrow> mx_fail (StoreError ErrRecordNotFound)
        | Some accepted \<Rightarrow>
            if trim_space (oc_OrderID accepted) = [] then mx_fail NoAcceptedOrder
            else
              mx_bind (completeCommandFromExistingMatchEvent env command accepted) (\<lambda>completed.
              if completed then note_sequence (cl_SequenceID command)
              else
                mx_bind (run_command cfg s env command accepted) (\<lambda>result.
                if o_ID (mo_Order result) = [] then mx_fail NoMatchResult
                else
                  mx_bind (mx_tx (CompleteOrderCommand env (cl_CommandID command) (o_ID (mo_Order result))
                    (status_text (o_Status (mo_Order result))))) (\<lambda>_.
                  mx_bind (mx_tx (ApplyOrderCommandLog env (cl_CommandID command) (o_ID (mo_Order result)))) (\<lambda>_.
                  note_sequence (cl_SequenceID command)))))))"

definition matchCommandLogSafelyWithRuntime :: "matcher_config \<Rightarrow> service \<Rightarrow> env \<Rightarrow> command_log \<Rightarrow> unit mx" where
  "matchCommandLogSafelyWithRuntime cfg s env command = matchCommandLogWithRuntime cfg s env command"

section \<open>Commands that were matched before a crash\<close>

fun recover_commands :: "env \<Rightarrow> command_log list \<Rightarrow> nat \<Rightarrow> nat mx" where
  "recover_commands env [] recovered = mx_return recovered"
| "recover_commands env (command # commands) recovered =
     mx_bind (mx_get (\<lambda>d. GetOrderCommand d (cl_CommandID command))) (\<lambda>found.
     case found of
       None \<Rightarrow> recover_commands env commands recovered
     | Some accepted \<Rightarrow>
         mx_bind (completeCommandFromExistingMatchEvent env command accepted) (\<lambda>completed.
         recover_commands env commands (if completed then Suc recovered else recovered)))"

fun recover_loop :: "nat \<Rightarrow> env \<Rightarrow> string \<Rightarrow> uint64 \<Rightarrow> nat \<Rightarrow> nat mx" where
  "recover_loop 0 env symbol throughSequence recovered = mx_fail Diverges"
| "recover_loop (Suc n) env symbol throughSequence recovered =
     mx_bind (mx_get (\<lambda>d. ListUnappliedOrderCommandLogsThrough d symbol throughSequence 1000)) (\<lambda>commands.
     if commands = [] then mx_return recovered
     else
       mx_bind (recover_commands env commands recovered) (\<lambda>recovered'.
       if length commands < 1000 then mx_return recovered'
       else recover_loop n env symbol throughSequence recovered'))"

definition completeRecoveredCommandLogs :: "env \<Rightarrow> string \<Rightarrow> uint64 \<Rightarrow> nat mx" where
  "completeRecoveredCommandLogs env symbol throughSequence =
     mx_bind has_runtime (\<lambda>resident.
     if \<not> resident \<or> throughSequence = 0 then mx_return 0
     else mx_bind (mx_get (\<lambda>d. Suc (length (db_command_log d)))) (\<lambda>fuel.
       recover_loop fuel env symbol throughSequence 0))"

section \<open>The passes\<close>

fun process_commands :: "matcher_config \<Rightarrow> service \<Rightarrow> env \<Rightarrow> command_log list \<Rightarrow> unit mx" where
  "process_commands cfg s env [] = mx_return ()"
| "process_commands cfg s env (command # commands) =
     mx_bind (mx_try (matchCommandLogSafelyWithRuntime cfg s env command)) (\<lambda>out.
     case out of
       Inl e \<Rightarrow>
         mx_bind (mx_tx (FailOrderCommandLog env (cl_CommandID command) (mc_error_text cfg e)
           (mc_MaxAttempts cfg) (mc_RetryDelay cfg))) (\<lambda>_. process_commands cfg s env commands)
     | Inr _ \<Rightarrow> process_commands cfg s env commands)"

text \<open>The number of recovered commands, and the sequence after which commands are claimed.\<close>

definition prepare_runtime :: "matcher_config \<Rightarrow> service \<Rightarrow> env \<Rightarrow> string \<Rightarrow> (nat \<times> uint64) mx" where
  "prepare_runtime cfg s env symbol =
     mx_bind has_runtime (\<lambda>resident.
     if \<not> resident then mx_return (0, 0)
     else
       mx_bind (ensureLoaded cfg s env) (\<lambda>_.
       mx_bind mx_runtime (\<lambda>r.
       mx_bind (completeRecoveredCommandLogs env symbol (rt_LastSequence r)) (\<lambda>count.
       mx_bind mx_runtime (\<lambda>r'.
       mx_return (count, if 0 < count then rt_LastSequence r' else rt_LastSequence r))))))"

text \<open>The number of commands handled comes with the error of a pass.\<close>

definition runCommandLogOnceWithRuntime ::
  "matcher_config \<Rightarrow> service \<Rightarrow> env \<Rightarrow> string \<Rightarrow> matcher_state \<Rightarrow> (matcher_error \<times> nat + nat) \<times> matcher_state" where
  "runCommandLogOnceWithRuntime cfg s env symbol st =
     (case mx_bind (prepare_runtime cfg s env symbol) (\<lambda>(recovered, afterSequence).
             mx_bind (mx_tx (ClaimOrderCommandLogsAfter env symbol (mc_WorkerID cfg) (mc_BatchSize cfg) (mc_LockTTL cfg) afterSequence))
               (\<lambda>commands. mx_return (recovered, commands))) st of
        (Inl e, st') \<Rightarrow> (Inl (e, 0), st')
      | (Inr (recovered, commands), st') \<Rightarrow>
          (case process_commands cfg s env commands st' of
             (Inl e, st'') \<Rightarrow> (Inl (e, length commands), st'')
           | (Inr _, st'') \<Rightarrow> (Inr (recovered + length commands), st'')))"

definition runCommandLogOnce ::
  "matcher_config \<Rightarrow> service \<Rightarrow> env \<Rightarrow> string \<Rightarrow> db \<Rightarrow> (matcher_error \<times> nat + nat) \<times> db" where
  "runCommandLogOnce cfg s env symbol d =
     (case runCommandLogOnceWithRuntime cfg s env symbol \<lparr>mr_runtime = None, mr_db = d\<rparr> of (r, st) \<Rightarrow> (r, mr_db st))"

definition matchOrderSafely :: "matcher_config \<Rightarrow> service \<Rightarrow> env \<Rightarrow> string \<Rightarrow> match_outcome mx" where
  "matchOrderSafely cfg s env orderID = mx_service cfg env (MatchOrder s env orderID)"

fun process_jobs :: "matcher_config \<Rightarrow> service \<Rightarrow> env \<Rightarrow> match_job_item list \<Rightarrow> unit mx" where
  "process_jobs cfg s env [] = mx_return ()"
| "process_jobs cfg s env (job # jobs) =
     mx_bind (mx_try (matchOrderSafely cfg s env (ji_OrderID job))) (\<lambda>out.
     mx_bind (case out of
         Inl e \<Rightarrow> mx_tx (FailMatchJob env (ji_ID job) (mc_error_text cfg e) (mc_MaxAttempts cfg) (mc_RetryDelay cfg))
       | Inr _ \<Rightarrow> mx_tx (CompleteMatchJob env (ji_ID job))) (\<lambda>_.
     process_jobs cfg s env jobs))"

definition runOnce :: "matcher_config \<Rightarrow> service \<Rightarrow> env \<Rightarrow> matcher_state \<Rightarrow> (matcher_error \<times> nat + nat) \<times> matcher_state" where
  "runOnce cfg s env st =
     (case mx_tx (ClaimMatchJobs env (mc_WorkerID cfg) (mc_BatchSize cfg) (mc_LockTTL cfg)) st of
        (Inl e, st') \<Rightarrow> (Inl (e, 0), st')
      | (Inr jobs, st') \<Rightarrow>
          (case process_jobs cfg s env jobs st' of
             (Inl e, st'') \<Rightarrow> (Inl (e, length jobs), st'') | (Inr _, st'') \<Rightarrow> (Inr (length jobs), st'')))"

text \<open>One round over the markets: a failed pass is logged and the round goes on.\<close>

definition market_runtimes :: "matcher_config \<Rightarrow> market_registry \<Rightarrow> string \<Rightarrow> market_runtime option" where
  "market_runtimes cfg markets =
     (if residentRuntimeEnabled cfg \<and> bookMatchingEnabled cfg then
        fold (\<lambda>item rs. rs(m_Symbol item \<mapsto> newMarketRuntime item))
          (filter (\<lambda>item. m_Symbol item \<noteq> [] \<and> m_Enabled item) (market_All markets)) Map.empty
      else Map.empty)"

fun command_log_round ::
  "matcher_config \<Rightarrow> service \<Rightarrow> env \<Rightarrow> string list \<Rightarrow> nat \<Rightarrow> (string \<Rightarrow> market_runtime option) \<Rightarrow> db \<Rightarrow>
     nat \<times> (string \<Rightarrow> market_runtime option) \<times> db" where
  "command_log_round cfg s env [] processed runtimes d = (processed, runtimes, d)"
| "command_log_round cfg s env (symbol # symbols) processed runtimes d =
     (case runCommandLogOnceWithRuntime cfg s env symbol \<lparr>mr_runtime = runtimes symbol, mr_db = d\<rparr> of
        (r, st) \<Rightarrow>
          command_log_round cfg s env symbols (processed + (case r of Inl (_, n) \<Rightarrow> n | Inr n \<Rightarrow> n))
            (runtimes(symbol := mr_runtime st)) (mr_db st))"

end
