(* ===== verification/MatcherLog.thy ===== *)
theory MatcherLog
  imports Matcher
begin

text \<open>
  What the service leaves alone: an operation on orders changes neither the command log nor the
  snapshots, and the log of match results only by an entry with the sequence number it was given.
\<close>

section \<open>A logic of frames\<close>

definition log_view :: "db \<Rightarrow> command_log list \<times> matcher_snapshot list \<times> match_event_log list" where
  "log_view d = (db_command_log d, db_snapshots d, db_event_log d)"

definition log_frame :: "'a ltx \<Rightarrow> bool" where
  "log_frame m \<longleftrightarrow> (\<forall>d r d'. m d = Inr (r, d') \<longrightarrow> log_view d' = log_view d)"

named_theorems log_intros

lemma log_frame_bind [log_intros]: "log_frame m \<Longrightarrow> (\<And>x. log_frame (f x)) \<Longrightarrow> log_frame (tx_bind m f)"
  unfolding log_frame_def tx_bind_Inr_iff by metis

lemma log_frame_simple [log_intros]:
  "log_frame (tx_return x)" "log_frame (tx_fail e)" "log_frame (tx_get f)" "log_frame (fail_if b e)" "log_frame (lift_result y)"
  by (auto simp: log_frame_def fail_if_def lift_result_def tx_return_def tx_fail_def tx_get_def split: sum.splits)

lemma log_frame_if [log_intros]: "log_frame m \<Longrightarrow> log_frame n \<Longrightarrow> log_frame (if b then m else n)"
  by simp

lemma log_frame_cases [log_intros]:
  "log_frame m \<Longrightarrow> (\<And>y. log_frame (n y)) \<Longrightarrow> log_frame (case x of None \<Rightarrow> m | Some y \<Rightarrow> n y)"
  "(\<And>a. log_frame (f a)) \<Longrightarrow> (\<And>b. log_frame (g b)) \<Longrightarrow> log_frame (case z of Inl a \<Rightarrow> f a | Inr b \<Rightarrow> g b)"
  "(\<And>a b. log_frame (h a b)) \<Longrightarrow> log_frame (case p of (a, b) \<Rightarrow> h a b)"
  by (auto split: option.split sum.split prod.split)

lemma log_frame_each [log_intros]: "(\<And>x. log_frame (f x)) \<Longrightarrow> log_frame (tx_each f xs)"
  by (induction xs) (auto intro: log_intros)

lemma log_frame_not_found [log_intros]: "log_frame m \<Longrightarrow> log_frame (not_found_as e m)"
  unfolding not_found_as_def log_frame_def by (auto split: sum.splits ledger_error.splits)

section \<open>The operations\<close>

lemma log_put [simp]:
  "log_view (put_balance b d) = log_view d" "log_view (put_reservation r d) = log_view d"
  by (simp_all add: log_view_def put_balance_def put_reservation_def)

lemma log_ledger [log_intros]:
  "log_frame (new_id env p)" "log_frame (default_event_id env i)" "log_frame (balanceForUpdate env u a c)"
  "log_frame (saveBalance b)" "log_frame (createBalanceEvent e)" "log_frame (createReservation env r)"
  "log_frame (consumeReservation env i a)" "log_frame (releaseReservation env i a)"
  "log_frame (clampedReleaseAmount env u a i q)" "log_frame (find_order i)"
proof -
  show n: "log_frame (new_id env p)" for p by (auto simp: log_frame_def new_id_def log_view_def)
  show "log_frame (default_event_id env i)"
    by (auto simp: default_event_id_def intro: log_intros n)
  show b: "log_frame (balanceForUpdate env u a c)" for u a c
    by (auto simp: log_frame_def balanceForUpdate_def Let_def split: option.splits if_splits)
  show "log_frame (saveBalance b)" by (auto simp: log_frame_def saveBalance_def tx_modify_def)
  show "log_frame (createBalanceEvent e)"
    by (auto simp: log_frame_def createBalanceEvent_def log_view_def split: if_splits)
  show "log_frame (createReservation env r)"
    by (auto simp: log_frame_def createReservation_def Let_def split: if_splits)
  have "log_frame (applyReservationDelta env i a c)" for c
    by (auto simp: log_frame_def applyReservationDelta_def Let_def split: if_splits option.splits)
  then show "log_frame (consumeReservation env i a)" "log_frame (releaseReservation env i a)"
    by (simp_all add: consumeReservation_def releaseReservation_def)
  show "log_frame (clampedReleaseAmount env u a i q)"
    using b [of u a False]
    by (auto simp: log_frame_def clampedReleaseAmount_def Let_def split: sum.splits ledger_error.splits)
  show "log_frame (find_order i)" by (auto simp: log_frame_def find_order_def split: option.splits)
qed

lemma log_funds [log_intros]:
  "log_frame (debitLocked env u a q e)" "log_frame (addAvailableBalanceWithReservation env u a q ty o' r' t' c)"
  "log_frame (ReleaseOrderFunds env x i)" "log_frame (SettleTrades env ts)"
proof -
  show d: "log_frame (debitLocked env u a q e)" for u a q e
    unfolding debitLocked_def by (intro log_intros)
  show a: "log_frame (addAvailableBalanceWithReservation env u a q ty o' r' t' c)" for u a q ty o' r' t' c
    unfolding addAvailableBalanceWithReservation_def Let_def by (intro log_intros)
  show "log_frame (ReleaseOrderFunds env x i)"
    unfolding ReleaseOrderFunds_def moveLockedToAvailable_def Let_def by (intro log_intros d a)
  show "log_frame (SettleTrades env ts)"
    unfolding SettleTrades_def settleTrade_def refund_buyer_def addAvailableBalance_def Let_def
    by (intro log_intros d a)
qed

lemma log_modify:
  "(\<And>d. log_view (f d) = log_view d) \<Longrightarrow> log_frame (tx_modify f)"
  by (auto simp: log_frame_def tx_modify_def)

lemma log_store [log_intros]:
  "log_frame (SaveOrder x)" "log_frame (CreateTrades ts)" "log_frame (CreateOrderEvents es)"
  "log_frame (updateOrderCommand env i f)" "log_frame (tx_modify (\<lambda>d. d\<lparr>db_ids := g d\<rparr>))"
proof -
  have "log_frame (save_order_row r)" for r
    by (auto simp: log_frame_def save_order_row_def log_view_def split: if_splits)
  then show "log_frame (SaveOrder x)"
    unfolding SaveOrder_def SyncActiveOrder_def by (intro log_intros log_modify) (simp_all add: log_view_def)
  show "log_frame (CreateTrades ts)" "log_frame (CreateOrderEvents es)" "log_frame (updateOrderCommand env i f)"
    by (auto simp: log_frame_def CreateTrades_def CreateOrderEvents_def updateOrderCommand_def Let_def log_view_def
        split: if_splits option.splits)
  show "log_frame (tx_modify (\<lambda>d. d\<lparr>db_ids := g d\<rparr>))" by (rule log_modify) (simp add: log_view_def)
qed

lemma log_levels [log_intros]: "log_frame (refreshBookProjection env m levels)"
proof -
  have "log_frame (refresh_level env key)" for key
    by (auto simp: log_frame_def refresh_level_def delete_level_def log_view_def Let_def split: if_splits)
  then show ?thesis
    unfolding refreshBookProjection_def RefreshPriceLevels_def PruneStalePriceLevels_def Let_def
    by (intro log_intros log_modify) (simp_all add: log_view_def)
qed

lemma log_events [log_intros]:
  "log_frame (matchEvents env x ms ts)"
proof -
  have e: "log_frame (newOrderEvent env x ty r)" for x ty r
    unfolding newOrderEvent_def by (intro log_intros)
  have t: "log_frame (eventsForTrades env ts)" for ts by (induction ts) (auto intro!: log_intros)
  have f: "log_frame (filled_events env ms)" for ms by (induction ms) (auto intro!: log_intros e)
  have o: "log_frame (terminalOrderEvents env x)" for x
    unfolding terminalOrderEvents_def by (intro log_intros e)
  show ?thesis unfolding matchEvents_def by (intro log_intros e t f o)
qed

lemma log_matching [log_intros]:
  "log_frame (match_order env x levels)" "log_frame (matchWithBook env x levels)" "log_frame (record_match env st)"
proof -
  have m: "log_frame (save_makers levels ms)" for levels ms
    by (induction levels ms rule: save_makers.induct) (auto intro: log_intros)
  have r: "log_frame (match_round env sd st)" for sd st
    unfolding match_round_def Let_def by (intro log_intros m)
  have "log_frame (match_loop n env sd st)" for n sd st
    by (induction n arbitrary: st) (auto intro!: log_intros r)
  then show "log_frame (match_order env x levels)"
    unfolding match_order_def Let_def by (intro log_intros)
  show "log_frame (matchWithBook env x levels)"
    unfolding matchWithBook_def Let_def by (intro log_intros)
  show "log_frame (record_match env st)"
    unfolding record_match_def release_unfilled_def by (intro log_intros)
qed

lemma log_stops [log_intros]: "log_frame (activateTriggeredStops s env m p levels)"
proof -
  have a: "log_frame (activate_stop env x levels)" for env x levels
    unfolding activate_stop_def by (intro log_intros)
  have "log_frame (activate_stops s env p xs levels)" for xs levels
    by (induction s env p xs levels rule: activate_stops.induct) (auto intro!: log_intros a)
  then show ?thesis unfolding activateTriggeredStops_def by (intro log_intros)
qed

end
