(* ===== verification/MatcherParked.thy ===== *)
theory MatcherParked
  imports MatcherLog
begin

text \<open>
  A resident matcher claims only commands with a sequence number above the last one it has handled.
  A command that failed, and waits for its retry, is below that number as soon as a later command of
  the market is applied. This theory shows that no later pass, before or after a restart, ever
  attempts it again: it is neither applied nor rejected nor quarantined.
\<close>

section \<open>The event log of an operation\<close>

definition log_step :: "uint64 \<Rightarrow> 'a ltx \<Rightarrow> bool" where
  "log_step n m \<longleftrightarrow> (\<forall>d r d'. m d = Inr (r, d') \<longrightarrow> db_command_log d' = db_command_log d \<and> db_snapshots d' = db_snapshots d \<and>
     (\<forall>e \<in> set (db_event_log d'). e \<in> set (db_event_log d) \<or> me_SequenceID e = n))"

named_theorems step_intros

lemma log_step_frame: "log_frame m \<Longrightarrow> log_step n m"
  by (auto simp: log_frame_def log_step_def log_view_def)

lemma log_step_bind [step_intros]: "log_step n m \<Longrightarrow> (\<And>x. log_step n (f x)) \<Longrightarrow> log_step n (tx_bind m f)"
  unfolding log_step_def tx_bind_Inr_iff by (metis (no_types, lifting))

lemma log_step_simple [step_intros]: "log_step n (tx_return x)" "log_step n (tx_fail e)"
  by (rule log_step_frame, rule log_intros)+

lemma log_step_cases [step_intros]:
  "log_step n m \<Longrightarrow> log_step n m' \<Longrightarrow> log_step n (if b then m else m')"
  "log_step n m \<Longrightarrow> (\<And>y. log_step n (g y)) \<Longrightarrow> log_step n (case x of None \<Rightarrow> m | Some y \<Rightarrow> g y)"
  "(\<And>a b. log_step n (h a b)) \<Longrightarrow> log_step n (case p of (a, b) \<Rightarrow> h a b)"
  by (auto split: option.split prod.split)

lemmas step_frames = log_ledger log_funds log_store log_levels log_events log_matching log_stops

lemmas [step_intros] = step_frames [THEN log_step_frame]

lemma step_append_event [step_intros]: "log_step n (appendMatchEventLog s env n taker makers trades levels)"
proof -
  have "log_step (me_SequenceID item) (AppendMatchEventLog env item)" for item
    by (auto simp: log_step_def AppendMatchEventLog_def tx_bind_Inr_iff new_id_def fail_if_def normal_event_def tx_return_def
        tx_fail_def Let_def split: if_splits option.splits)
  from this [of "\<lparr>me_ID = [], me_Market = o_Market taker, me_SequenceID = n, me_Type = MatchEventTypeResult,
      me_PayloadHash = h, me_Payload = raw, me_CreatedAt = 0\<rparr>" for h raw]
  have "log_step n (AppendMatchEventLog env \<lparr>me_ID = [], me_Market = o_Market taker, me_SequenceID = n, me_Type = MatchEventTypeResult,
      me_PayloadHash = h, me_Payload = raw, me_CreatedAt = 0\<rparr>)" for h raw
    by simp
  then show ?thesis unfolding appendMatchEventLog_def by (auto intro!: step_intros)
qed

lemma step_no_snapshot [step_intros]: "log_step n (save_snapshot_if False s env taker k)"
  by (simp add: save_snapshot_if_def step_intros)

lemma step_persist: "log_step n (persist_tx s env r n False)"
proof -
  have m: "log_step n (save_result_makers levels ms)" for levels ms
    by (rule log_step_frame, induction levels ms rule: save_result_makers.induct) (auto intro: log_intros)
  show ?thesis
    unfolding persist_tx_def Let_def
    by (intro step_intros m log_step_frame [OF log_frame_not_found] log_intros)
qed

lemma PersistBookMatchResult_step:
  assumes "PersistBookMatchResult s env r n False d = (out, d', ms)"
  shows "db_command_log d' = db_command_log d \<and> db_snapshots d' = db_snapshots d \<and>
     (\<forall>e \<in> set (db_event_log d'). e \<in> set (db_event_log d) \<or> me_SequenceID e = n)"
  using assms step_persist [of n s env r]
  by (auto simp: PersistBookMatchResult_def service_tx_def run_tx_def log_step_def split: sum.splits prod.splits)

section \<open>A logic of steps\<close>

text \<open>A step keeps the property \<open>P\<close> of the state, and its value has the property \<open>F\<close>.\<close>

definition mx_keeps :: "(matcher_state \<Rightarrow> bool) \<Rightarrow> ('a \<Rightarrow> bool) \<Rightarrow> 'a mx \<Rightarrow> bool" where
  "mx_keeps P F m \<longleftrightarrow> (\<forall>st r st'. P st \<longrightarrow> m st = (r, st') \<longrightarrow> P st' \<and> (\<forall>x. r = Inr x \<longrightarrow> F x))"

named_theorems mx_intros

lemma mx_keepsD: "mx_keeps P F m \<Longrightarrow> P st \<Longrightarrow> m st = (r, st') \<Longrightarrow> P st' \<and> (\<forall>x. r = Inr x \<longrightarrow> F x)"
  by (auto simp: mx_keeps_def)

lemma mx_keepsI: "(\<And>st r st'. P st \<Longrightarrow> m st = (r, st') \<Longrightarrow> P st' \<and> (\<forall>x. r = Inr x \<longrightarrow> F x)) \<Longrightarrow> mx_keeps P F m"
  by (auto simp: mx_keeps_def)

lemma mx_keeps_bind: "mx_keeps P F m \<Longrightarrow> (\<And>x. F x \<Longrightarrow> mx_keeps P G (f x)) \<Longrightarrow> mx_keeps P G (mx_bind m f)"
proof (rule mx_keepsI)
  fix st r st'
  assume m: "mx_keeps P F m" and f: "\<And>x. F x \<Longrightarrow> mx_keeps P G (f x)" and P: "P st" and r: "mx_bind m f st = (r, st')"
  obtain y st1 where y: "m st = (y, st1)" by (cases "m st")
  note k = mx_keepsD [OF m P y]
  show "P st' \<and> (\<forall>x. r = Inr x \<longrightarrow> G x)"
  proof (cases y)
    case (Inl e)
    then show ?thesis using r y k by (auto simp: mx_bind_def)
  next
    case (Inr x)
    then have F: "F x" "P st1" "f x st1 = (r, st')" using r y k by (auto simp: mx_bind_def)
    show ?thesis by (rule mx_keepsD [OF f [OF F(1)] F(2,3)])
  qed
qed

lemma mx_keeps_return [mx_intros]: "F x \<Longrightarrow> mx_keeps P F (mx_return x)"
  by (auto simp: mx_keeps_def mx_return_def)

lemma mx_keeps_fail [mx_intros]: "mx_keeps P F (mx_fail e)"
  by (auto simp: mx_keeps_def mx_fail_def)

lemma mx_keeps_try: "mx_keeps P F m \<Longrightarrow> mx_keeps P (\<lambda>r. \<forall>x. r = Inr x \<longrightarrow> F x) (mx_try m)"
  unfolding mx_keeps_def mx_try_def by (fastforce split: prod.splits)

lemma mx_keeps_get: "(\<And>st. P st \<Longrightarrow> F (f (mr_db st))) \<Longrightarrow> mx_keeps P F (mx_get f)"
  by (auto simp: mx_keeps_def mx_get_def)

lemma mx_keeps_cases [mx_intros]:
  "(b \<Longrightarrow> mx_keeps P F m) \<Longrightarrow> (\<not> b \<Longrightarrow> mx_keeps P F m') \<Longrightarrow> mx_keeps P F (if b then m else m')"
  "(x = None \<Longrightarrow> mx_keeps P F m) \<Longrightarrow> (\<And>y. x = Some y \<Longrightarrow> mx_keeps P F (g y)) \<Longrightarrow> mx_keeps P F (case x of None \<Rightarrow> m | Some y \<Rightarrow> g y)"
  "(\<And>a. z = Inl a \<Longrightarrow> mx_keeps P F (h a)) \<Longrightarrow> (\<And>b. z = Inr b \<Longrightarrow> mx_keeps P F (k b)) \<Longrightarrow>
     mx_keeps P F (case z of Inl a \<Rightarrow> h a | Inr b \<Rightarrow> k b)"
  "(\<And>a b. p = (a, b) \<Longrightarrow> mx_keeps P F (l a b)) \<Longrightarrow> mx_keeps P F (case p of (a, b) \<Rightarrow> l a b)"
  by (auto split: option.split sum.split prod.split)

lemma mx_keeps_weaken: "mx_keeps P F m \<Longrightarrow> (\<And>x. F x \<Longrightarrow> G x) \<Longrightarrow> mx_keeps P G m"
  by (auto simp: mx_keeps_def)

section \<open>A parked command\<close>

text \<open>The command \<open>c\<close> of the market waits, a later command \<open>a\<close> is applied, and there is no snapshot.\<close>

definition parked_db :: "string \<Rightarrow> command_log \<Rightarrow> command_log \<Rightarrow> db \<Rightarrow> bool" where
  "parked_db mk c a d \<longleftrightarrow>
     (\<forall>x \<in> set (db_snapshots d). ms_Market x \<noteq> mk) \<and>
     distinct (map cl_ID (db_command_log d)) \<and> distinct (map cl_CommandID (db_command_log d)) \<and>
     (\<forall>r \<in> set (db_command_log d). trim_space (cl_CommandID r) = cl_CommandID r \<and> cl_CommandID r \<noteq> []) \<and>
     c \<in> set (db_command_log d) \<and> a \<in> set (db_command_log d) \<and>
     (\<forall>r \<in> set (db_command_log d). cl_Market r = mk \<longrightarrow> cl_SequenceID r = cl_SequenceID c \<longrightarrow> cl_CommandID r = cl_CommandID c) \<and>
     (\<forall>e \<in> set (db_event_log d). \<not> (me_Market e = mk \<and> me_SequenceID e = cl_SequenceID c))"

definition parked_pair :: "string \<Rightarrow> command_log \<Rightarrow> command_log \<Rightarrow> bool" where
  "parked_pair mk c a \<longleftrightarrow> to_upper (trim_space mk) = mk \<and> mk \<noteq> [] \<and> cl_Market c = mk \<and> cl_Market a = mk \<and>
     0 < cl_SequenceID c \<and> cl_SequenceID c < cl_SequenceID a \<and> cl_Status a = LogApplied \<and>
     cl_Status c \<in> {LogPending, LogProcessing}"

definition parked :: "string \<Rightarrow> command_log \<Rightarrow> command_log \<Rightarrow> matcher_state \<Rightarrow> bool" where
  "parked mk c a st \<longleftrightarrow> parked_db mk c a (mr_db st) \<and>
     (\<exists>r. mr_runtime st = Some r \<and> m_Symbol (rt_Market r) = mk \<and>
        (rt_Book r \<noteq> None \<longrightarrow> cl_SequenceID c \<le> rt_LastSequence r))"

definition parked_loaded :: "string \<Rightarrow> command_log \<Rightarrow> command_log \<Rightarrow> matcher_state \<Rightarrow> bool" where
  "parked_loaded mk c a st \<longleftrightarrow> parked_db mk c a (mr_db st) \<and>
     (\<exists>r. mr_runtime st = Some r \<and> m_Symbol (rt_Market r) = mk \<and> rt_Book r \<noteq> None \<and>
        cl_SequenceID c \<le> rt_LastSequence r)"

lemma parked_loaded_parked: "parked_loaded mk c a st \<Longrightarrow> parked mk c a st"
  by (auto simp: parked_loaded_def parked_def)

text \<open>Rewriting rows of the log other than the two, without touching their keys, keeps them parked.\<close>

lemma parked_db_rewrite:
  assumes p: "parked_db mk c a d" and log: "db_command_log d' = map g (db_command_log d)"
    and g: "\<And>r. cl_ID (g r) = cl_ID r \<and> cl_CommandID (g r) = cl_CommandID r \<and> cl_SequenceID (g r) = cl_SequenceID r \<and>
        cl_Market (g r) = cl_Market r" "g c = c" "g a = a"
    and rest: "db_snapshots d' = db_snapshots d" "db_event_log d' = db_event_log d"
  shows "parked_db mk c a d'"
proof -
  have keys: "map cl_ID (db_command_log d') = map cl_ID (db_command_log d)"
    "map cl_CommandID (db_command_log d') = map cl_CommandID (db_command_log d)"
    using g(1) by (simp_all add: log)
  have rows: "\<exists>x \<in> set (db_command_log d). cl_CommandID r = cl_CommandID x \<and> cl_SequenceID r = cl_SequenceID x \<and>
      cl_Market r = cl_Market x" if "r \<in> set (db_command_log d')" for r
    using that g(1) by (auto simp: log)
  have ca: "c \<in> set (db_command_log d)" "a \<in> set (db_command_log d)" using p by (auto simp: parked_db_def)
  have ca': "c \<in> set (db_command_log d')" "a \<in> set (db_command_log d')"
    using image_eqI [where f = g, OF g(2) [symmetric] ca(1)] image_eqI [where f = g, OF g(3) [symmetric] ca(2)]
    by (simp_all add: log)
  have trimmed: "\<forall>r \<in> set (db_command_log d'). trim_space (cl_CommandID r) = cl_CommandID r \<and> cl_CommandID r \<noteq> []"
    using rows p unfolding parked_db_def by metis
  have unique: "\<forall>r \<in> set (db_command_log d'). cl_Market r = mk \<longrightarrow> cl_SequenceID r = cl_SequenceID c \<longrightarrow>
      cl_CommandID r = cl_CommandID c"
    using rows p unfolding parked_db_def by metis
  show ?thesis
    using p rest keys ca' trimmed unique unfolding parked_db_def by metis
qed

text \<open>Another command: not one of the two.\<close>

definition other_command :: "command_log \<Rightarrow> command_log \<Rightarrow> command_log \<Rightarrow> bool" where
  "other_command c a r \<longleftrightarrow> trim_space (cl_CommandID r) = cl_CommandID r \<and> cl_CommandID r \<noteq> cl_CommandID c \<and>
     cl_CommandID r \<noteq> cl_CommandID a"

lemma parked_unique:
  "parked_db mk c a d \<Longrightarrow> r \<in> set (db_command_log d) \<Longrightarrow> x \<in> set (db_command_log d) \<Longrightarrow>
    cl_CommandID r = cl_CommandID x \<or> cl_ID r = cl_ID x \<Longrightarrow> r = x"
  by (auto simp: parked_db_def distinct_map inj_on_def)

lemma parked_update_log:
  assumes p: "parked_db mk c a d" and o: "other_command c a r" and u: "update_log (cl_CommandID r) f d = Inr (u, d')"
    and f: "\<And>x. cl_ID (f x) = cl_ID x \<and> cl_CommandID (f x) = cl_CommandID x \<and> cl_SequenceID (f x) = cl_SequenceID x \<and>
        cl_Market (f x) = cl_Market x"
  shows "parked_db mk c a d'"
proof (cases "cl_CommandID r = []")
  case True
  then have "d' = d" using u o by (simp add: update_log_def other_command_def)
  then show ?thesis using p by simp
next
  case False
  then have d': "d' = d\<lparr>db_command_log := row_update (\<lambda>x. cl_CommandID x = cl_CommandID r) f (db_command_log d)\<rparr>"
    using u o by (simp add: update_log_def other_command_def)
  show ?thesis
    by (rule parked_db_rewrite [OF p, where g = "\<lambda>x. if cl_CommandID x = cl_CommandID r then f x else x"])
      (use o f in \<open>auto simp: d' row_update_def other_command_def\<close>)
qed

lemma parked_fail_log:
  assumes p: "parked_db mk c a d" and o: "other_command c a r"
    and u: "FailOrderCommandLog env (cl_CommandID r) msg n w d = Inr (u, d')"
  shows "parked_db mk c a d'"
proof (cases "cl_CommandID r = []")
  case True
  then have "d' = d" using u o by (simp add: FailOrderCommandLog_def other_command_def)
  then show ?thesis using p by simp
next
  case False
  then obtain x where x: "row_find cl_CommandID (cl_CommandID r) (db_command_log d) = Some x"
    and d': "d' = d\<lparr>db_command_log := row_save cl_ID (fail_log (e_now env) msg (if n \<le> 0 then 5 else n)
      (if w \<le> 0 then second else w) x) (db_command_log d)\<rparr>"
    using u o by (auto simp: FailOrderCommandLog_def other_command_def Let_def split: option.splits)
  define y where "y = fail_log (e_now env) msg (if n \<le> 0 then 5 else n) (if w \<le> 0 then second else w) x"
  have k: "cl_ID y = cl_ID x" "cl_CommandID y = cl_CommandID x" "cl_SequenceID y = cl_SequenceID x" "cl_Market y = cl_Market x"
    by (simp_all add: y_def fail_log_def Let_def)
  have xm: "x \<in> set (db_command_log d)" "cl_CommandID x = cl_CommandID r" using row_find_key [OF x] by auto
  have ca: "c \<in> set (db_command_log d)" "a \<in> set (db_command_log d)" using p by (auto simp: parked_db_def)
  have ne: "cl_ID c \<noteq> cl_ID x" "cl_ID a \<noteq> cl_ID x"
    using parked_unique [OF p ca(1) xm(1)] parked_unique [OF p ca(2) xm(1)] xm(2) o by (auto simp: other_command_def)
  have "distinct (map cl_ID (db_command_log d))" using p by (simp add: parked_db_def)
  moreover have "cl_ID y \<in> cl_ID ` set (db_command_log d)" using xm(1) k(1) by simp
  ultimately have "db_command_log d' = map (\<lambda>z. if cl_ID z = cl_ID y then y else z) (db_command_log d)"
    by (simp add: d' y_def [symmetric] row_save_map)
  also have "\<dots> = map (\<lambda>z. if z = x then y else z) (db_command_log d)"
    using parked_unique [OF p _ xm(1)] k(1) by (intro map_cong) auto
  finally show ?thesis
    by (rule parked_db_rewrite [OF p]) (use k ne in \<open>auto simp: d'\<close>)
qed

section \<open>The runtime\<close>

lemma parked_same_logs:
  assumes "parked_db mk c a d" and "db_command_log d' = db_command_log d" and "db_snapshots d' = db_snapshots d"
    and "\<And>e. e \<in> set (db_event_log d') \<Longrightarrow> e \<in> set (db_event_log d) \<or> me_SequenceID e \<noteq> cl_SequenceID c"
  shows "parked_db mk c a d'"
  using assms unfolding parked_db_def by metis

lemma fold_max_bound: "x \<in> insert y (set xs) \<Longrightarrow> x \<le> fold max xs (y::'a::linorder)"
proof -
  have "fold max xs y = Max (set (y # xs))" by (metis Max.set_eq_fold)
  then show "x \<in> insert y (set xs) \<Longrightarrow> x \<le> fold max xs y" by simp
qed

lemma latest_applied_above:
  assumes "parked_pair mk c a" and "parked_db mk c a d"
  shows "cl_SequenceID c \<le> LatestAppliedOrderCommandSequence d mk"
proof -
  have m: "a \<in> set (filter (\<lambda>r. cl_Status r = LogApplied) (log_rows d mk))"
    using assms by (auto simp: log_rows_def col_eq_def parked_pair_def parked_db_def)
  then obtain r rs where rs: "filter (\<lambda>r. cl_Status r = LogApplied) (log_rows d mk) = r # rs"
    by (cases "filter (\<lambda>r. cl_Status r = LogApplied) (log_rows d mk)") auto
  have "cl_SequenceID a \<in> insert (cl_SequenceID r) (set (map cl_SequenceID rs))" using m unfolding rs by auto
  then have "cl_SequenceID a \<le> LatestAppliedOrderCommandSequence d mk"
    using assms(1) fold_max_bound [where x = "cl_SequenceID a" and y = "cl_SequenceID r"] rs
    by (simp add: LatestAppliedOrderCommandSequence_def parked_pair_def Let_def)
  then show ?thesis using assms(1) unfolding parked_pair_def by (meson less_imp_le order_trans)
qed

lemma no_snapshot:
  assumes "parked_pair mk c a" and "parked_db mk c a d"
  shows "run_tx (LatestMatcherSnapshot s env mk) d = (Inl ErrRecordNotFound, d)"
proof -
  have "filter (\<lambda>r. ms_Market r = mk) (db_snapshots d) = []" using assms(2) by (auto simp: parked_db_def filter_empty_conv)
  then show ?thesis
    using assms(1) by (simp add: LatestMatcherSnapshot_def parked_pair_def latest_snapshot_row_def run_tx_def tx_bind_def
        tx_get_def fail_if_def tx_return_def tx_fail_def Let_def)
qed

lemma loadActiveProjection_parked:
  assumes "parked_pair mk c a" and "parked mk c a st" and "loadActiveProjection 0 st = (r, st')"
  shows "parked mk c a st' \<and> (\<forall>x. r = Inr x \<longrightarrow> parked_loaded mk c a st') \<and> (parked_loaded mk c a st \<longrightarrow> parked_loaded mk c a st')"
proof -
  obtain rt where rt: "mr_runtime st = Some rt" "m_Symbol (rt_Market rt) = mk" and db: "parked_db mk c a (mr_db st)"
    using assms(2) by (auto simp: parked_def)
  have seq: "cl_SequenceID c \<le> LatestAppliedOrderCommandSequence (mr_db st) mk"
    by (rule latest_applied_above [OF assms(1) db])
  obtain o' book where l: "Load (NewMarketBook mk (m_BaseAsset (rt_Market rt)) (m_QuoteAsset (rt_Market rt)))
      (ListActiveOrdersForUpdate (mr_db st) mk [] 0) = (o', book)"
    by (cases "Load (NewMarketBook mk (m_BaseAsset (rt_Market rt)) (m_QuoteAsset (rt_Market rt)))
      (ListActiveOrdersForUpdate (mr_db st) mk [] 0)")
  show ?thesis
  proof (cases o')
    case (Inl e)
    then show ?thesis
      using assms(2,3) l rt by (auto simp: loadActiveProjection_def mx_bind_def mx_runtime_def mx_get_def mx_fail_def Let_def)
  next
    case (Inr x)
    then have "r = Inr ()" "st' = st\<lparr>mr_runtime := Some (set_book book (LatestAppliedOrderCommandSequence (mr_db st) mk) rt)\<rparr>"
      using assms(3) l rt
      by (auto simp: loadActiveProjection_def mx_bind_def mx_runtime_def mx_get_def mx_update_def Let_def)
    moreover have "parked_loaded mk c a st'"
      using db rt seq calculation(2) by (simp add: parked_loaded_def set_book_def)
    ultimately show ?thesis using parked_loaded_parked by blast
  qed
qed

lemma reload_is_projection:
  assumes "parked_pair mk c a" and "parked mk c a st"
  shows "runtime_reload cfg s env st = loadActiveProjection 0 st"
proof -
  obtain rt where rt: "mr_runtime st = Some rt" "m_Symbol (rt_Market rt) = mk" and db: "parked_db mk c a (mr_db st)"
    using assms(2) by (auto simp: parked_def)
  show ?thesis
    using rt no_snapshot [OF assms(1) db]
    by (simp add: runtime_reload_def mx_bind_def mx_runtime_def mx_try_def mx_tx_def Let_def)
qed

lemma ensureLoaded_parked:
  assumes "parked_pair mk c a" and "parked mk c a st" and "ensureLoaded cfg s env st = (r, st')"
  shows "parked mk c a st' \<and> (\<forall>x. r = Inr x \<longrightarrow> parked_loaded mk c a st')"
proof (cases "\<exists>rt. mr_runtime st = Some rt \<and> rt_Book rt \<noteq> None")
  case True
  then have "r = Inr ()" "st' = st"
    using assms(3) by (auto simp: ensureLoaded_def mx_bind_def mx_runtime_def mx_return_def)
  then show ?thesis using True assms(2) by (auto simp: parked_def parked_loaded_def)
next
  case False
  then have "runtime_reload cfg s env st = (r, st')"
    using assms(2,3) by (auto simp: ensureLoaded_def mx_bind_def mx_runtime_def parked_def split: if_splits)
  then show ?thesis
    using loadActiveProjection_parked [OF assms(1,2)] reload_is_projection [OF assms(1,2)] by simp
qed

lemma keeps_runtime:
  "mx_keeps (parked_loaded mk c a) (\<lambda>r. m_Symbol (rt_Market r) = mk \<and> cl_SequenceID c \<le> rt_LastSequence r) mx_runtime"
  by (rule mx_keepsI) (auto simp: mx_runtime_def parked_loaded_def)

lemma keeps_book: "mx_keeps (parked_loaded mk c a) (\<lambda>_. True) mx_book"
  unfolding mx_book_def by (rule mx_keeps_bind [OF keeps_runtime]) (intro mx_intros, simp)

lemma keeps_set_book: "mx_keeps (parked_loaded mk c a) (\<lambda>_. True) (mx_update (\<lambda>r. r\<lparr>rt_Book := Some b\<rparr>))"
  by (rule mx_keepsI) (auto simp: mx_update_def parked_loaded_def)

lemma keeps_restore:
  "cl_SequenceID c \<le> sn_LastAppliedSequence x \<Longrightarrow> mx_keeps (parked_loaded mk c a) (\<lambda>_. True) (runtime_restore s x)"
  by (rule mx_keepsI)
     (auto simp: runtime_restore_def mx_update_def mx_fail_def parked_loaded_def set_book_def split: sum.splits)

lemma keeps_reload:
  assumes "parked_pair mk c a"
  shows "mx_keeps (parked_loaded mk c a) (\<lambda>_. True) (runtime_reload cfg s env)"
  using loadActiveProjection_parked [OF assms] reload_is_projection [OF assms] parked_loaded_parked
  by (intro mx_keepsI) metis

lemma keeps_ensureLoaded: "mx_keeps (parked_loaded mk c a) (\<lambda>_. True) (ensureLoaded cfg s env)"
  by (rule mx_keepsI) (auto simp: ensureLoaded_def mx_bind_def mx_runtime_def mx_return_def parked_loaded_def)

lemma keeps_resident: "mx_keeps (parked_loaded mk c a) (\<lambda>b. b) has_runtime"
  by (rule mx_keepsI) (auto simp: has_runtime_def parked_loaded_def)

lemma keeps_note: "mx_keeps (parked_loaded mk c a) (\<lambda>_. True) (note_sequence n)"
  by (rule mx_keepsI) (auto simp: note_sequence_def parked_loaded_def)

lemma keeps_tx:
  "(\<And>d x d'. parked_db mk c a d \<Longrightarrow> m d = Inr (x, d') \<Longrightarrow> parked_db mk c a d' \<and> F x) \<Longrightarrow>
    mx_keeps (parked_loaded mk c a) F (mx_tx m)"
  by (rule mx_keepsI) (auto simp: mx_tx_def run_tx_def parked_loaded_def split: sum.splits prod.splits)

lemma keeps_tx_frame: "log_frame m \<Longrightarrow> mx_keeps (parked_loaded mk c a) (\<lambda>_. True) (mx_tx m)"
  by (rule keeps_tx) (auto simp: log_frame_def log_view_def parked_db_def)

lemma publish_log: "log_view (publish_update cfg env ev d) = log_view d"
proof -
  have "log_frame (Outbox_Create env t k p)" for t k p
    unfolding Outbox_Create_def
    by (intro log_intros) (auto simp: log_frame_def log_view_def split: if_splits)
  then show ?thesis
    by (auto simp: publish_update_def run_tx_def log_frame_def split: option.splits sum.splits prod.splits)
qed

lemma publish_all_log: "log_view (fold (publish_update cfg env) ms d) = log_view d"
  by (induction ms arbitrary: d) (simp_all add: publish_log)

lemma keeps_persist:
  assumes "n \<noteq> cl_SequenceID c"
  shows "mx_keeps (parked_loaded mk c a) (\<lambda>_. True) (mx_service cfg env (PersistBookMatchResult s env res n False))"
proof (rule mx_keepsI)
  fix st r st'
  assume l: "parked_loaded mk c a st" and r: "mx_service cfg env (PersistBookMatchResult s env res n False) st = (r, st')"
  obtain out d ms where p: "PersistBookMatchResult s env res n False (mr_db st) = (out, d, ms)"
    by (cases "PersistBookMatchResult s env res n False (mr_db st)")
  have st': "st' = st\<lparr>mr_db := fold (publish_update cfg env) ms d\<rparr>"
    using r p by (auto simp: mx_service_def split: sum.splits)
  have "parked_db mk c a d"
    using parked_same_logs [of mk c a "mr_db st" d] PersistBookMatchResult_step [OF p] l assms
    by (auto simp: parked_loaded_def)
  then have "parked_db mk c a (fold (publish_update cfg env) ms d)"
    using publish_all_log [of cfg env ms d] by (simp add: log_view_def parked_db_def)
  then show "parked_loaded mk c a st' \<and> (\<forall>x. r = Inr x \<longrightarrow> True)"
    using l st' by (auto simp: parked_loaded_def)
qed

section \<open>Handling other commands\<close>

lemma keeps_match_resident:
  assumes "parked_pair mk c a" and "n \<noteq> cl_SequenceID c"
  shows "mx_keeps (parked_loaded mk c a) (\<lambda>_. True) (match_resident cfg s env taker n False)"
proof -
  have cap: "sn_LastAppliedSequence (CaptureState dg b k now) = k" for dg b k now
    by (auto simp: CaptureState_def Seal_def Let_def split: sum.splits)
  have ids: "mx_keeps (parked_loaded mk c a) (\<lambda>_. True) (mx_get f)" for f :: "db \<Rightarrow> 'x"
    by (rule mx_keeps_get) simp
  show ?thesis
    unfolding match_resident_def Let_def
    by (rule mx_keeps_bind [OF keeps_runtime], rule mx_keeps_bind [OF keeps_book], rule mx_keeps_bind [OF ids])
       (intro mx_intros mx_keeps_bind [OF keeps_set_book] mx_keeps_bind [OF mx_keeps_try [OF keeps_restore]]
          mx_keeps_bind [OF keeps_tx_frame] mx_keeps_bind [OF mx_keeps_try [OF keeps_persist [OF assms(2)]]]
          mx_keeps_bind [where F = "\<lambda>_. True"] keeps_reload [OF assms(1)] log_intros; simp add: cap)
qed

lemma keeps_ProcessCommand:
  assumes "parked_pair mk c a" and "cl_SequenceID command \<noteq> cl_SequenceID c"
  shows "mx_keeps (parked_loaded mk c a) (\<lambda>_. True) (ProcessCommand cfg s env accepted command False)"
  unfolding ProcessCommand_def
  by (intro mx_keeps_bind [OF keeps_ensureLoaded] mx_intros mx_keeps_bind [OF keeps_tx_frame] log_intros
      mx_keeps_bind [OF keeps_book] keeps_match_resident [OF assms]) simp_all

lemma ledger_constants:
  "log_frame (CompleteOrderCommand env i j t)"
  unfolding CompleteOrderCommand_def by (intro log_intros)

lemma keeps_apply_log:
  "other_command c a r \<Longrightarrow> mx_keeps (parked_loaded mk c a) (\<lambda>_. True) (mx_tx (ApplyOrderCommandLog env (cl_CommandID r) j))"
  by (rule keeps_tx) (auto simp: ApplyOrderCommandLog_def intro: parked_update_log)

lemma keeps_reject_log:
  "other_command c a r \<Longrightarrow> mx_keeps (parked_loaded mk c a) (\<lambda>_. True) (mx_tx (RejectOrderCommandLog env (cl_CommandID r) msg))"
  by (rule keeps_tx) (auto simp: RejectOrderCommandLog_def updateOrderCommandLogTerminal_def Let_def intro: parked_update_log)

lemma keeps_fail_log:
  "other_command c a r \<Longrightarrow>
    mx_keeps (parked_loaded mk c a) (\<lambda>_. True) (mx_tx (FailOrderCommandLog env (cl_CommandID r) msg n w))"
  by (rule keeps_tx) (blast dest: parked_fail_log)

text \<open>A command of the market other than the two, or one without a logged result.\<close>

lemma keeps_complete:
  assumes "parked_pair mk c a" and "other_command c a r \<or> r = c"
  shows "mx_keeps (parked_loaded mk c a) (\<lambda>_. True) (completeCommandFromExistingMatchEvent env r accepted)"
proof (cases "other_command c a r")
  case True
  have g: "mx_keeps (parked_loaded mk c a) (\<lambda>_. True) (mx_get f)" for f :: "db \<Rightarrow> 'x"
    by (rule mx_keeps_get) simp
  show ?thesis
    unfolding completeCommandFromExistingMatchEvent_def
    by (intro mx_intros mx_keeps_bind [OF g] mx_keeps_bind [OF keeps_tx_frame] log_intros ledger_constants
        mx_keeps_bind [OF keeps_apply_log [OF True]]) simp_all
next
  case False
  then have r: "r = c" using assms(2) by simp
  have "completeCommandFromExistingMatchEvent env r accepted st = (Inr False, st)" if "parked_loaded mk c a st" for st
  proof -
    have "row_find event_key (mk, cl_SequenceID c, MatchEventTypeResult) (db_event_log (mr_db st)) = None"
    proof (cases "row_find event_key (mk, cl_SequenceID c, MatchEventTypeResult) (db_event_log (mr_db st))")
      case (Some e)
      have "\<forall>e \<in> set (db_event_log (mr_db st)). \<not> (me_Market e = mk \<and> me_SequenceID e = cl_SequenceID c)"
        using that by (simp add: parked_loaded_def parked_db_def)
      then show ?thesis using row_find_key [OF Some] by (auto simp: event_key_def)
    qed
    then show ?thesis
      using assms(1) r by (simp add: completeCommandFromExistingMatchEvent_def mx_bind_def mx_get_def mx_return_def
          GetMatchEventLog_def parked_pair_def Let_def)
  qed
  then show ?thesis by (intro mx_keepsI) auto
qed

lemma keeps_match_command:
  assumes "parked_pair mk c a" and o: "other_command c a r" and "cl_SequenceID r \<noteq> cl_SequenceID c" and "mc_SnapshotEvery cfg \<le> 0"
  shows "mx_keeps (parked_loaded mk c a) (\<lambda>_. True) (matchCommandLogSafelyWithRuntime cfg s env r)"
proof -
  have g: "mx_keeps (parked_loaded mk c a) (\<lambda>_. True) (mx_get f)" for f :: "db \<Rightarrow> 'x"
    by (rule mx_keeps_get) simp
  have save: "snapshotEnabled cfg n = False" for n using assms(4) by (simp add: snapshotEnabled_def)
  have run: "mx_keeps (parked_loaded mk c a) (\<lambda>_. True) (run_command cfg s env r accepted)" for accepted
    unfolding run_command_def save Let_def
    by (rule mx_keeps_bind [OF keeps_resident]) (simp add: keeps_ProcessCommand [OF assms(1,3)])
  have o2: "other_command c a r \<or> r = c" using o by simp
  show ?thesis
    unfolding matchCommandLogSafelyWithRuntime_def matchCommandLogWithRuntime_def Let_def
    by (intro mx_intros keeps_reject_log [OF o] mx_keeps_bind [OF g] mx_keeps_bind [OF keeps_complete [OF assms(1) o2]]
        keeps_note mx_keeps_bind [OF run] mx_keeps_bind [OF keeps_tx_frame] ledger_constants
        mx_keeps_bind [OF keeps_apply_log [OF o]])
qed

lemma keeps_process_commands:
  assumes "parked_pair mk c a" and "mc_SnapshotEvery cfg \<le> 0"
    and "\<forall>r \<in> set commands. other_command c a r \<and> cl_SequenceID r \<noteq> cl_SequenceID c"
  shows "mx_keeps (parked_loaded mk c a) (\<lambda>_. True) (process_commands cfg s env commands)"
  using assms(3)
proof (induction commands)
  case (Cons r commands)
  have r: "other_command c a r" "cl_SequenceID r \<noteq> cl_SequenceID c" using Cons.prems by auto
  show ?case
    unfolding process_commands.simps
    by (rule mx_keeps_bind [OF mx_keeps_try [OF keeps_match_command [OF assms(1) r assms(2)]]])
       (intro mx_intros mx_keeps_bind [OF keeps_fail_log [OF r(1)]] Cons.IH; use Cons.prems in simp)
qed (simp add: mx_intros)

lemma keeps_recover:
  assumes "parked_pair mk c a"
  shows "mx_keeps (parked_loaded mk c a) (\<lambda>_. True) (completeRecoveredCommandLogs env mk n)"
proof -
  have g: "mx_keeps (parked_loaded mk c a) (\<lambda>_. True) (mx_get f)" for f :: "db \<Rightarrow> 'x"
    by (rule mx_keeps_get) simp
  have cmds: "mx_keeps (parked_loaded mk c a) (\<lambda>_. True) (recover_commands env commands k)"
    if "\<forall>r \<in> set commands. other_command c a r \<or> r = c" for commands k
    using that
  proof (induction env commands k rule: recover_commands.induct)
    case (2 env r commands k)
    have "other_command c a r \<or> r = c" using "2.prems" by simp
    then show ?case
      unfolding recover_commands.simps
      by (intro mx_keeps_bind [OF g] mx_intros "2.IH" mx_keeps_bind [OF keeps_complete [OF assms]]) (use "2.prems" in simp_all)
  qed (simp add: mx_intros)
  have listed: "mx_keeps (parked_loaded mk c a) (\<lambda>commands. \<forall>r \<in> set commands. other_command c a r \<or> r = c)
      (mx_get (\<lambda>d. ListUnappliedOrderCommandLogsThrough d mk n 1000))" for n
  proof (rule mx_keeps_get, rule ballI)
    fix st r
    assume l: "parked_loaded mk c a st" and r: "r \<in> set (ListUnappliedOrderCommandLogsThrough (mr_db st) mk n 1000)"
    have db: "parked_db mk c a (mr_db st)" using l by (simp add: parked_loaded_def)
    have m: "r \<in> set (db_command_log (mr_db st))" "cl_Status r \<in> {LogPending, LogProcessing}"
      using r by (auto simp: ListUnappliedOrderCommandLogsThrough_def modelToOrderCommandLog_def log_rows_def Let_def
          dest!: in_set_takeD split: if_splits)
    have ca: "c \<in> set (db_command_log (mr_db st))" "a \<in> set (db_command_log (mr_db st))" using db by (auto simp: parked_db_def)
    have "r \<noteq> a" using m(2) assms by (auto simp: parked_pair_def)
    then show "other_command c a r \<or> r = c"
      using parked_unique [OF db m(1) ca(1)] parked_unique [OF db m(1) ca(2)] db m(1)
      by (auto simp: other_command_def parked_db_def)
  qed
  have loop: "mx_keeps (parked_loaded mk c a) (\<lambda>_. True) (recover_loop fuel env mk n k)" for fuel k
  proof (induction fuel arbitrary: k)
    case (Suc fuel)
    show ?case
      unfolding recover_loop.simps
      by (rule mx_keeps_bind [OF listed]) (intro mx_intros mx_keeps_bind [OF cmds] Suc.IH; simp)
  qed (simp add: mx_intros)
  show ?thesis
    unfolding completeRecoveredCommandLogs_def
    by (intro mx_keeps_bind [OF keeps_resident] mx_intros mx_keeps_bind [OF g] loop) simp
qed

section \<open>The passes\<close>

lemma claim_parked:
  assumes pair: "parked_pair mk c a" and db: "parked_db mk c a d" and after: "cl_SequenceID c \<le> after"
    and claim: "ClaimOrderCommandLogsAfter env mk w n ttl after d = Inr (commands, d')"
  shows "parked_db mk c a d' \<and> (\<forall>r \<in> set commands. other_command c a r \<and> cl_SequenceID r \<noteq> cl_SequenceID c)"
proof -
  define lk where "lk = lock_log (if trim_space w = [] then ''matcher'' else trim_space w) (e_now env)"
  define P where "P = (\<lambda>r. cl_Market r = mk \<and> log_due (e_now env) (if ttl \<le> 0 then 5 * minute else ttl) r \<and>
      (0 < after \<longrightarrow> after < cl_SequenceID r))"
  define picked where "picked = take (limit_or n 1000 100) (sort_key cl_SequenceID (filter P (db_command_log d)))"
  have m: "to_upper (trim_space mk) = mk" "mk \<noteq> []" and pos: "0 < after"
    using pair after by (auto simp: parked_pair_def)
  have dist: "distinct (map cl_ID (db_command_log d))" using db by (simp add: parked_db_def)
  have sub: "r \<in> set (db_command_log d) \<and> P r" if "r \<in> set picked" for r
    using that by (auto simp: picked_def dest!: in_set_takeD)
  have keys: "cl_ID (lk r) = cl_ID r \<and> cl_CommandID (lk r) = cl_CommandID r \<and> cl_SequenceID (lk r) = cl_SequenceID r \<and>
      cl_Market (lk r) = cl_Market r" for r
    by (simp add: lk_def lock_log_def)
  have "distinct picked" using dist by (simp add: picked_def distinct_map)
  then have saved: "fold (row_save cl_ID) (map lk picked) (db_command_log d) =
      map (\<lambda>r. if r \<in> set picked then lk r else r) (db_command_log d)"
    using sub keys by (intro save_all_map [OF dist]) auto
  have r: "commands = map lk picked" "d' = d\<lparr>db_command_log := map (\<lambda>r. if r \<in> set picked then lk r else r) (db_command_log d)\<rparr>"
    using claim m saved
    by (auto simp: ClaimOrderCommandLogsAfter_def claim_rows_def Let_def modelToOrderCommandLog_def map_idI
        lk_def [symmetric] P_def [symmetric] picked_def [symmetric])
  have ca: "c \<in> set (db_command_log d)" "a \<in> set (db_command_log d)" using db by (auto simp: parked_db_def)
  have notin: "c \<notin> set picked" "a \<notin> set picked"
    using sub [of c] sub [of a] pos after pair by (force simp: P_def parked_pair_def log_due_def)+
  have "parked_db mk c a d'"
    by (rule parked_db_rewrite [OF db, where g = "\<lambda>r. if r \<in> set picked then lk r else r"])
      (use notin keys in \<open>auto simp: r(2)\<close>)
  moreover have "other_command c a (lk r) \<and> cl_SequenceID (lk r) \<noteq> cl_SequenceID c" if x: "r \<in> set picked" for r
  proof -
    have m: "r \<in> set (db_command_log d)" and "after < cl_SequenceID r" using sub [OF x] pos by (auto simp: P_def)
    then have "cl_SequenceID r \<noteq> cl_SequenceID c" using after by auto
    moreover have "cl_CommandID r \<noteq> cl_CommandID c" "cl_CommandID r \<noteq> cl_CommandID a"
      using parked_unique [OF db m ca(1)] parked_unique [OF db m ca(2)] x notin by auto
    ultimately show ?thesis using db m keys by (simp add: other_command_def parked_db_def)
  qed
  ultimately show ?thesis by (auto simp: r(1))
qed

lemma keeps_prepare:
  assumes "parked_pair mk c a" and "parked mk c a st" and "prepare_runtime cfg s env mk st = (r, st')"
  shows "parked mk c a st' \<and> (\<forall>x. r = Inr x \<longrightarrow> parked_loaded mk c a st' \<and> cl_SequenceID c \<le> snd x)"
proof -
  define rest where "rest = mx_bind mx_runtime (\<lambda>r.
       mx_bind (completeRecoveredCommandLogs env mk (rt_LastSequence r)) (\<lambda>count.
       mx_bind mx_runtime (\<lambda>r'.
       mx_return (count, if 0 < count then rt_LastSequence r' else rt_LastSequence r))))"
  have k: "mx_keeps (parked_loaded mk c a) (\<lambda>x. cl_SequenceID c \<le> snd x) rest"
    unfolding rest_def
    by (rule mx_keeps_bind [OF keeps_runtime], rule mx_keeps_bind [OF keeps_recover [OF assms(1)]],
        rule mx_keeps_bind [OF keeps_runtime], rule mx_keeps_return) simp
  obtain o' st1 where e: "ensureLoaded cfg s env st = (o', st1)" by (cases "ensureLoaded cfg s env st")
  have e2: "parked mk c a st1" "\<And>x. o' = Inr x \<Longrightarrow> parked_loaded mk c a st1"
    using ensureLoaded_parked [OF assms(1,2) e] by auto
  have "has_runtime st = (Inr True, st)" using assms(2) by (auto simp: has_runtime_def parked_def)
  then have p: "mx_bind (ensureLoaded cfg s env) (\<lambda>_. rest) st = (r, st')"
    using assms(3) by (simp add: prepare_runtime_def mx_bind_def rest_def)
  show ?thesis
  proof (cases o')
    case (Inl err)
    then show ?thesis using p e e2(1) by (auto simp: mx_bind_def)
  next
    case (Inr u)
    then have "rest st1 = (r, st')" using p e by (simp add: mx_bind_def)
    from mx_keepsD [OF k e2(2) [OF Inr] this] show ?thesis using parked_loaded_parked by blast
  qed
qed

lemma pass_parked:
  assumes "parked_pair mk c a" and "mc_SnapshotEvery cfg \<le> 0" and "parked mk c a st"
  shows "parked mk c a (snd (runCommandLogOnceWithRuntime cfg s env mk st))"
proof -
  obtain p st1 where p: "prepare_runtime cfg s env mk st = (p, st1)" by (cases "prepare_runtime cfg s env mk st")
  note k = keeps_prepare [OF assms(1,3) p]
  show ?thesis
  proof (cases p)
    case (Inl e)
    then show ?thesis using p k by (simp add: runCommandLogOnceWithRuntime_def mx_bind_def)
  next
    case (Inr x)
    obtain recovered after where x: "x = (recovered, after)" by (cases x)
    have L: "parked_loaded mk c a st1" "cl_SequenceID c \<le> after" using k Inr x by auto
    let ?claim = "mx_tx (ClaimOrderCommandLogsAfter env mk (mc_WorkerID cfg) (mc_BatchSize cfg) (mc_LockTTL cfg) after)"
    have kc: "mx_keeps (parked_loaded mk c a) (\<lambda>cmds. \<forall>r \<in> set cmds. other_command c a r \<and> cl_SequenceID r \<noteq> cl_SequenceID c) ?claim"
      by (rule keeps_tx) (rule claim_parked [OF assms(1) _ L(2)])
    obtain q st2 where q: "?claim st1 = (q, st2)" by (cases "?claim st1")
    note k2 = mx_keepsD [OF kc L(1) q]
    show ?thesis
    proof (cases q)
      case (Inl e)
      then show ?thesis
        using p Inr x q k2 parked_loaded_parked by (simp add: runCommandLogOnceWithRuntime_def mx_bind_def)
    next
      case (Inr commands)
      obtain u st3 where u: "process_commands cfg s env commands st2 = (u, st3)" by (cases "process_commands cfg s env commands st2")
      have "parked_loaded mk c a st3"
        using mx_keepsD [OF keeps_process_commands [OF assms(1,2)] _ u] k2 Inr by blast
      moreover have "snd (runCommandLogOnceWithRuntime cfg s env mk st) = st3"
        using p \<open>p = Inr x\<close> x q Inr u by (auto simp: runCommandLogOnceWithRuntime_def mx_bind_def mx_return_def split: sum.split)
      ultimately show ?thesis using parked_loaded_parked by simp
    qed
  qed
qed

text \<open>Passes at any times, each with the runtime as it is or, after a restart of the process, a new one.\<close>

fun resident_passes :: "matcher_config \<Rightarrow> service \<Rightarrow> market \<Rightarrow> (env \<times> bool) list \<Rightarrow> matcher_state \<Rightarrow> matcher_state" where
  "resident_passes cfg s item [] st = st"
| "resident_passes cfg s item ((env, restart) # passes) st =
     resident_passes cfg s item passes (snd (runCommandLogOnceWithRuntime cfg s env (m_Symbol item)
       (if restart then st\<lparr>mr_runtime := Some (newMarketRuntime item)\<rparr> else st)))"

text \<open>C24: a command that waits for its retry is lost as soon as a later command of its market has been
  applied: without snapshots, no number of passes of the resident matcher, at whatever times, with or
  without restarts, changes its row of the log. It is never attempted again, neither applied nor
  rejected nor quarantined, although the attempts it is allowed are not used up.\<close>

theorem parked_command_never_runs:
  assumes "parked_pair mk c a" and "parked mk c a st" and "mc_SnapshotEvery cfg \<le> 0" and "m_Symbol item = mk"
  shows "c \<in> set (db_command_log (mr_db (resident_passes cfg s item passes st)))"
proof -
  have "parked mk c a (resident_passes cfg s item passes st)"
    using assms(2)
  proof (induction passes arbitrary: st)
    case (Cons p passes)
    obtain env restart where p: "p = (env, restart)" by (cases p)
    have "parked mk c a (if restart then st\<lparr>mr_runtime := Some (newMarketRuntime item)\<rparr> else st)"
      using Cons.prems assms(4) by (auto simp: parked_def newMarketRuntime_def)
    from pass_parked [OF assms(1,3) this] show ?case using Cons.IH assms(4) by (simp add: p)
  qed simp
  then show ?thesis by (auto simp: parked_def parked_db_def)
qed

section \<open>An example\<close>

text \<open>The first command has failed once and waits; the second has been applied.\<close>

definition session_command :: "nat \<Rightarrow> log_status \<Rightarrow> command_log" where
  "session_command n st =
     \<lparr>cl_ID = ''ocl'' @ itoa (int n), cl_CommandID = ''cmd'' @ itoa (int n), cl_SequenceID = of_nat n, cl_Market = ''BTC-USD'',
      cl_Type = OrderCommandTypeNewOrder, cl_Key = [], cl_PayloadHash = ''h'', cl_Payload = ''p'', cl_Status = st,
      cl_Attempts = 1, cl_AvailableAt = 5, cl_LockedBy = [], cl_LockedAt = 0, cl_LastError = [], cl_AppliedOrderID = [],
      cl_AppliedAt = 0, cl_QuarantinedAt = 0, cl_CreatedAt = 1, cl_UpdatedAt = 1\<rparr>"

definition session_market :: market where
  "session_market = \<lparr>m_Symbol = ''BTC-USD'', m_BaseAsset = ''BTC'', m_QuoteAsset = ''USD'', m_ChainKeys = [], m_Enabled = True\<rparr>"

definition session_config :: matcher_config where
  "session_config = \<lparr>mc_WorkerID = ''w'', mc_BatchSize = 50, mc_MaxAttempts = 5, mc_RetryDelay = second, mc_LockTTL = 5 * minute,
     mc_MatchingEngine = ''book'', mc_MatchingRuntime = ''resident'', mc_SnapshotEvery = 0, mc_EventRetention = 0,
     mc_MaxSnapshotAge = 0, mc_error_text = (\<lambda>e. ''failed''), mc_message_json = (\<lambda>m. None), mc_event_unjson = (\<lambda>t. None)\<rparr>"

definition session_state :: matcher_state where
  "session_state = \<lparr>mr_runtime = Some (newMarketRuntime session_market),
     mr_db = empty_db\<lparr>db_command_log := [session_command 1 LogPending, session_command 2 LogApplied]\<rparr>\<rparr>"

theorem parked_command_never_runs_witness:
  "\<forall>s. session_command 1 LogPending \<in> set (db_command_log (mr_db (resident_passes session_config s session_market
     [(\<lparr>e_now = 10 * minute, e_newid = \<lambda>n. itoa (int n)\<rparr>, False), (\<lparr>e_now = 20 * minute, e_newid = \<lambda>n. itoa (int n)\<rparr>, True)]
     session_state)))"
proof
  fix s
  let ?c = "session_command 1 LogPending" and ?a = "session_command 2 LogApplied"
  have keys: "distinct [cl_ID ?c, cl_ID ?a]" "distinct [cl_CommandID ?c, cl_CommandID ?a]"
    "trim_space (cl_CommandID ?c) = cl_CommandID ?c" "trim_space (cl_CommandID ?a) = cl_CommandID ?a"
    "cl_CommandID ?c \<noteq> []" "cl_CommandID ?a \<noteq> []" "to_upper (trim_space ''BTC-USD'') = ''BTC-USD''"
    "cl_SequenceID ?c < cl_SequenceID ?a" "0 < cl_SequenceID ?c"
    by code_simp+
  have pair: "parked_pair ''BTC-USD'' ?c ?a"
    using keys by (simp add: parked_pair_def session_command_def)
  have "parked_db ''BTC-USD'' ?c ?a (mr_db session_state)"
    using keys by (auto simp: parked_db_def session_state_def empty_db_def)
  then have st: "parked ''BTC-USD'' ?c ?a session_state"
    by (simp add: parked_def session_state_def newMarketRuntime_def session_market_def)
  show "?c \<in> set (db_command_log (mr_db (resident_passes session_config s session_market
     [(\<lparr>e_now = 10 * minute, e_newid = \<lambda>n. itoa (int n)\<rparr>, False), (\<lparr>e_now = 20 * minute, e_newid = \<lambda>n. itoa (int n)\<rparr>, True)]
     session_state)))"
    by (rule parked_command_never_runs [OF pair st]) (simp_all add: session_config_def session_market_def)
qed

end
