(* ===== verification/MatcherProps.thy ===== *)
theory MatcherProps
  imports MatcherParked TradingProps
begin

text \<open>
  Recovery of the matchers: a command whose result is in the log of match results is not executed a
  second time, the replay of that log ends, and the completion of recovered commands does not end when
  a thousand of them cannot be completed.
\<close>

section \<open>Results that are logged already\<close>

text \<open>C25: matching is executed at most once per command: when the result of a command is in the log of
  match results (the process stopped, or the lock expired, before the command was marked), handling the
  command again changes no order, trade, balance, reservation or withdrawal and publishes nothing; it
  only marks the command and its log row with the outcome of the order.\<close>

theorem logged_command_not_executed_again:
  fixes st :: matcher_state and command :: command_log
  defines "d \<equiv> mr_db st"
  assumes "cl_Type command \<in> {[], OrderCommandTypeNewOrder}" and "cl_SequenceID command \<noteq> 0"
    and "GetMatchEventLog d (cl_Market command) (cl_SequenceID command) \<noteq> None"
    and "GetOrderCommand d (cl_CommandID command) = Some accepted" and "trim_space (oc_OrderID accepted) \<noteq> []"
    and "getOrder d (oc_OrderID accepted) = Some item"
  shows "\<exists>st'. matchCommandLogWithRuntime cfg s env command st = (Inr (), st') \<and>
    trade_view (mr_db st') = trade_view d \<and> db_trades (mr_db st') = db_trades d \<and> db_outbox (mr_db st') = db_outbox d \<and>
    db_event_log (mr_db st') = db_event_log d \<and>
    (\<forall>r \<in> set (db_command_log (mr_db st')). cl_CommandID r = trim_space (cl_CommandID command) \<longrightarrow>
       cl_Status r = LogApplied \<and> cl_AppliedOrderID r = trim_space (o_ID item))"
proof -
  let ?id = "cl_CommandID command"
  have id: "trim_space ?id \<noteq> []"
    using assms(5) by (auto simp: GetOrderCommand_def Let_def split: if_splits)
  define d1 where "d1 = d\<lparr>db_commands := row_update (\<lambda>r. oc_ID r = trim_space ?id)
      (\<lambda>r. r\<lparr>oc_Status := CommandCompleted, oc_Outcome := trim_space (status_text (o_Status item)),
         oc_OrderID := trim_space (o_ID item), oc_LastError := [], oc_UpdatedAt := e_now env\<rparr>) (db_commands d)\<rparr>"
  have d1: "CompleteOrderCommand env ?id (o_ID item) (status_text (o_Status item)) d = Inr ((), d1)"
    using id by (simp add: CompleteOrderCommand_def updateOrderCommand_def d1_def)
  define d2 where "d2 = d1\<lparr>db_command_log := row_update (\<lambda>r. cl_CommandID r = trim_space ?id)
      (\<lambda>r. r\<lparr>cl_Status := LogApplied, cl_AppliedOrderID := trim_space (o_ID item), cl_AppliedAt := e_now env,
         cl_LockedBy := [], cl_LockedAt := 0, cl_LastError := [], cl_UpdatedAt := e_now env\<rparr>) (db_command_log d1)\<rparr>"
  have d2: "ApplyOrderCommandLog env ?id (o_ID item) d1 = Inr ((), d2)"
    using id by (simp add: ApplyOrderCommandLog_def update_log_def d2_def)
  have f: "trade_view d2 = trade_view d" "db_trades d2 = db_trades d" "db_outbox d2 = db_outbox d"
      "db_event_log d2 = db_event_log d"
    by (simp_all add: d2_def d1_def trade_view_def)
  have applied: "\<forall>r \<in> set (db_command_log d2). cl_CommandID r = trim_space ?id \<longrightarrow>
      cl_Status r = LogApplied \<and> cl_AppliedOrderID r = trim_space (o_ID item)"
    unfolding d2_def by (auto simp: row_update_def)
  have find: "find_order (oc_OrderID accepted) d = Inr (item, d)" using assms(7) by (simp add: find_order_def)
  have complete: "completeCommandFromExistingMatchEvent env command accepted st = (Inr True, st\<lparr>mr_db := d2\<rparr>)"
    using assms(3,4,6) find d1 d2
    by (simp add: completeCommandFromExistingMatchEvent_def mx_bind_def mx_get_def mx_tx_def run_tx_def mx_return_def
        d_def [symmetric])
  obtain st' where n: "note_sequence (cl_SequenceID command) (st\<lparr>mr_db := d2\<rparr>) = (Inr (), st')" and db: "mr_db st' = d2"
    by (cases "mr_runtime st") (auto simp: note_sequence_def)
  have "matchCommandLogWithRuntime cfg s env command st = (Inr (), st')"
    using assms(2,5,6) complete n
    by (auto simp: matchCommandLogWithRuntime_def mx_bind_def mx_get_def d_def [symmetric])
  then show ?thesis using f applied db by blast
qed

section \<open>Replaying the log of results\<close>

definition events_above :: "string \<Rightarrow> uint64 \<Rightarrow> db \<Rightarrow> match_event_log list" where
  "events_above m n d = filter (\<lambda>r. n < me_SequenceID r) (result_rows d m)"

lemma replay_events_step:
  assumes "replay_events cfg events st = (r, st')" and "mr_runtime st = Some rt"
  shows "mr_db st' = mr_db st \<and> r \<noteq> Inl Diverges \<and> (\<exists>rt'. mr_runtime st' = Some rt' \<and> rt_Market rt' = rt_Market rt \<and>
    (r = Inr () \<longrightarrow> rt_LastSequence rt' = (if events = [] then rt_LastSequence rt else me_SequenceID (last events))))"
  using assms
proof (induction cfg events arbitrary: st rt rule: replay_events.induct)
  case (1 cfg)
  then show ?case by (auto simp: mx_return_def)
next
  case (2 cfg event events)
  show ?case
  proof (cases "mc_event_unjson cfg (me_Payload event)")
    case None
    then show ?thesis using "2.prems" by (auto simp: mx_fail_def)
  next
    case (Some p)
    show ?thesis
    proof (cases "rt_Book rt")
      case None
      then show ?thesis
        using "2.prems" Some by (auto simp: mx_book_def mx_bind_def mx_runtime_def mx_fail_def)
    next
      case book: (Some b)
      obtain o' b' where a: "ApplyResult b \<lparr>r_Taker = mp_Taker p, r_Makers = mp_Makers p, r_Trades = mp_Trades p\<rparr> = (o', b')"
        by fastforce
      show ?thesis
      proof (cases o')
        case (Inl e)
        then show ?thesis
          using "2.prems" Some book a
          by (auto simp: mx_book_def mx_bind_def mx_runtime_def mx_fail_def mx_return_def mx_update_def)
      next
        case (Inr u)
        define st1 where "st1 = st\<lparr>mr_runtime := Some (set_book b' (me_SequenceID event) rt)\<rparr>"
        have "replay_events cfg events st1 = (r, st')"
          using "2.prems" Some book a Inr
          by (simp add: mx_book_def mx_bind_def mx_runtime_def mx_return_def mx_update_def st1_def)
        moreover have "mr_runtime st1 = Some (set_book b' (me_SequenceID event) rt)" by (simp add: st1_def)
        moreover have "((), b') = (u, b')" by simp
        ultimately have "mr_db st' = mr_db st1 \<and> r \<noteq> Inl Diverges \<and>
            (\<exists>rt'. mr_runtime st' = Some rt' \<and> rt_Market rt' = rt_Market (set_book b' (me_SequenceID event) rt) \<and>
            (r = Inr () \<longrightarrow> rt_LastSequence rt' =
              (if events = [] then rt_LastSequence (set_book b' (me_SequenceID event) rt) else me_SequenceID (last events))))"
          using "2.IH" [OF Some] a Inr by (metis (no_types, lifting))
        then show ?thesis by (auto simp: st1_def set_book_def)
      qed
    qed
  qed
qed

lemma filter_shrinks:
  assumes "x \<in> set xs" and "P x" and "\<not> Q x" and "\<And>y. Q y \<Longrightarrow> P y"
  shows "length (filter Q xs) < length (filter P xs)"
proof -
  have "filter Q xs = filter Q (filter P xs)" using assms(4) by (auto intro: filter_cong)
  also have "length \<dots> < length (filter P xs)"
    by (rule length_filter_less [of x]) (use assms in auto)
  finally show ?thesis .
qed

lemma listed_events:
  fixes sb :: string and k :: uint64
  assumes "ListMatchEventLogsAfter d sb k 1000 = events" and "events \<noteq> []"
  defines "m \<equiv> to_upper (trim_space sb)"
  shows "length (events_above m (me_SequenceID (last events)) d) < length (events_above m k d)"
    and "length events < 1000 \<Longrightarrow> ListMatchEventLogsAfter d sb (me_SequenceID (last events)) 1000 = []"
proof -
  let ?A = "events_above m k d"
  have e: "events = take 1000 (sort_key me_SequenceID ?A)" and m: "m \<noteq> []"
    using assms(1,2) unfolding m_def
    by (auto simp: ListMatchEventLogsAfter_def events_above_def limit_or_def modelToMatchEventLog_def map_idI Let_def
        split: if_splits)
  have "last events \<in> set events" using assms(2) by simp
  then have l: "last events \<in> set (result_rows d m)" "k < me_SequenceID (last events)"
    using e by (auto simp: events_above_def dest!: in_set_takeD)
  show "length (events_above m (me_SequenceID (last events)) d) < length ?A"
    unfolding events_above_def by (rule filter_shrinks [OF l(1)]) (use l(2) in auto)
  assume "length events < 1000"
  then have all: "events = sort_key me_SequenceID ?A" using e by (auto simp: min_def split: if_splits)
  have "r \<in> set (result_rows d m) \<Longrightarrow> \<not> me_SequenceID (last events) < me_SequenceID r" for r
  proof
    assume r: "r \<in> set (result_rows d m)" "me_SequenceID (last events) < me_SequenceID r"
    then have "r \<in> set events" using l(2) by (auto simp: all events_above_def)
    then obtain i where i: "i < length events" "events ! i = r" by (auto simp: in_set_conv_nth)
    have "sorted (map me_SequenceID events)" by (simp add: all)
    then have "me_SequenceID (events ! i) \<le> me_SequenceID (events ! (length events - 1))"
      using i by (auto dest: sorted_nth_mono [where i = i and j = "length events - 1"])
    then show False using r(2) i assms(2) by (simp add: last_conv_nth)
  qed
  then have "filter (\<lambda>r. me_SequenceID (last events) < me_SequenceID r) (result_rows d m) = []"
    by (simp add: filter_empty_conv)
  then show "ListMatchEventLogsAfter d sb (me_SequenceID (last events)) 1000 = []"
    by (simp add: ListMatchEventLogsAfter_def m_def Let_def)
qed

lemma replay_loop_ends:
  assumes "mr_runtime st = Some rt"
    and "length (events_above (to_upper (trim_space (m_Symbol (rt_Market rt)))) (rt_LastSequence rt) (mr_db st)) < n"
  shows "case replay_loop n cfg st of
      (Inl e, st') \<Rightarrow> e \<noteq> Diverges
    | (Inr _, st') \<Rightarrow> (case mr_runtime st' of None \<Rightarrow> False
        | Some rt' \<Rightarrow> ListMatchEventLogsAfter (mr_db st') (m_Symbol (rt_Market rt')) (rt_LastSequence rt') 1000 = [])"
  using assms
proof (induction n arbitrary: st rt)
  case (Suc n)
  define events where "events = ListMatchEventLogsAfter (mr_db st) (m_Symbol (rt_Market rt)) (rt_LastSequence rt) 1000"
  have step: "replay_loop (Suc n) cfg st =
      (if events = [] then (Inr (), st)
       else mx_bind (replay_events cfg events) (\<lambda>_. if length events < 1000 then mx_return () else replay_loop n cfg) st)"
    using Suc.prems(1) by (simp add: mx_bind_def mx_runtime_def mx_get_def mx_return_def events_def [symmetric])
  show ?case
  proof (cases "events = []")
    case True
    then show ?thesis using step Suc.prems(1) by (simp add: events_def)
  next
    case ne: False
    obtain r st1 where r: "replay_events cfg events st = (r, st1)" by (cases "replay_events cfg events st")
    obtain rt1 where rt1: "mr_runtime st1 = Some rt1" "rt_Market rt1 = rt_Market rt" "mr_db st1 = mr_db st" "r \<noteq> Inl Diverges"
      "r = Inr () \<Longrightarrow> rt_LastSequence rt1 = me_SequenceID (last events)"
      using replay_events_step [OF r Suc.prems(1)] ne by auto
    show ?thesis
    proof (cases r)
      case (Inl e)
      then show ?thesis using step ne r rt1(4) by (simp add: mx_bind_def)
    next
      case (Inr u)
      then have l: "rt_LastSequence rt1 = me_SequenceID (last events)" using rt1(5) by simp
      note le = listed_events [OF events_def [symmetric] ne]
      show ?thesis
      proof (cases "length events < 1000")
        case True
        then show ?thesis
          using step ne r Inr rt1(1-3) l le(2) by (simp add: mx_bind_def mx_return_def)
      next
        case False
        then have "replay_loop (Suc n) cfg st = replay_loop n cfg st1" using step ne r Inr by (simp add: mx_bind_def)
        moreover have "length (events_above (to_upper (trim_space (m_Symbol (rt_Market rt1)))) (rt_LastSequence rt1) (mr_db st1)) < n"
          using le(1) Suc.prems(2) by (simp add: l rt1(2,3))
        ultimately show ?thesis using Suc.IH [OF rt1(1)] by simp
      qed
    qed
  qed
qed simp

text \<open>Replaying the log of results ends: the pages of a thousand entries always reach the end of the log,
  and a replay that succeeds leaves the runtime at a sequence number after which nothing is logged.\<close>

theorem replay_reaches_end:
  "case replayMatchEventsFromSnapshot cfg s snapshot st of
      (Inl e, st') \<Rightarrow> e \<noteq> Diverges
    | (Inr _, st') \<Rightarrow> (case mr_runtime st' of None \<Rightarrow> False
        | Some rt \<Rightarrow> ListMatchEventLogsAfter (mr_db st') (m_Symbol (rt_Market rt)) (rt_LastSequence rt) 1000 = [])"
proof -
  obtain r st1 where r: "runtime_restore s snapshot st = (r, st1)" by (cases "runtime_restore s snapshot st")
  show ?thesis
  proof (cases r)
    case (Inl e)
    then have "e \<noteq> Diverges"
      using r by (auto simp: runtime_restore_def mx_fail_def mx_update_def split: sum.splits option.splits)
    then show ?thesis using r Inl by (simp add: replayMatchEventsFromSnapshot_def mx_bind_def)
  next
    case (Inr u)
    then obtain rt where rt: "mr_runtime st1 = Some rt"
      using r by (auto simp: runtime_restore_def mx_fail_def mx_update_def split: sum.splits option.splits)
    have "length (events_above m k d) \<le> length (db_event_log d)" for m k d
      unfolding events_above_def result_rows_def by (metis length_filter_le filter_filter)
    then show ?thesis
      using replay_loop_ends [OF rt, of "Suc (length (db_event_log (mr_db st1)))" cfg] r Inr
      by (simp add: replayMatchEventsFromSnapshot_def mx_bind_def mx_get_def less_Suc_eq_le)
  qed
qed

section \<open>Completing recovered commands\<close>

lemma recover_nothing:
  assumes "\<forall>r \<in> set commands. GetMatchEventLog (mr_db st) (cl_Market r) (cl_SequenceID r) = None"
  shows "recover_commands env commands k st = (Inr k, st)"
  using assms
  by (induction env commands k rule: recover_commands.induct)
     (auto simp: mx_return_def mx_bind_def mx_get_def completeCommandFromExistingMatchEvent_def split: option.splits)

text \<open>C26: completing recovered commands can run forever: with a thousand commands at or below the sequence of the
  runtime that have no logged result, every page is the same and none of it is completed, so no number of
  rounds is enough and the pass of the market never claims a command.\<close>

theorem recovery_may_not_end:
  assumes "mr_runtime st \<noteq> None" and "throughSequence \<noteq> 0"
    and "length (ListUnappliedOrderCommandLogsThrough (mr_db st) mk throughSequence 1000) = 1000"
    and "list_all (\<lambda>r. GetMatchEventLog (mr_db st) (cl_Market r) (cl_SequenceID r) = None)
      (ListUnappliedOrderCommandLogsThrough (mr_db st) mk throughSequence 1000)"
  shows "(\<forall>rounds. recover_loop rounds env mk throughSequence k st = (Inl Diverges, st)) \<and>
    completeRecoveredCommandLogs env mk throughSequence st = (Inl Diverges, st)"
proof -
  have l: "recover_loop n env mk throughSequence k st = (Inl Diverges, st)" for n k
  proof (induction n arbitrary: k)
    case (Suc n)
    have "ListUnappliedOrderCommandLogsThrough (mr_db st) mk throughSequence 1000 \<noteq> []" using assms(3) by auto
    then show ?case
      using recover_nothing [of _ st env k] assms(3,4) Suc
      by (simp add: mx_bind_def mx_get_def list_all_iff)
  qed (simp add: mx_fail_def)
  then show ?thesis
    using assms(1,2) by (simp add: completeRecoveredCommandLogs_def mx_bind_def has_runtime_def mx_get_def del: recover_loop.simps)
qed

section \<open>Examples\<close>

lemma session_command_waiting:
  "cl_Market (session_command n st) = ''BTC-USD''" "cl_Status (session_command n st) = st"
  "cl_SequenceID (session_command n st) = of_nat n"
  by (simp_all add: session_command_def)

definition crowded_state :: matcher_state where
  "crowded_state = \<lparr>mr_runtime = Some (newMarketRuntime session_market),
     mr_db = empty_db\<lparr>db_command_log := map (\<lambda>n. session_command n LogPending) [0..<1000]\<rparr>\<rparr>"

theorem recovery_may_not_end_witness:
  "completeRecoveredCommandLogs \<lparr>e_now = 1, e_newid = \<lambda>n. []\<rparr> ''BTC-USD'' (- 1) crowded_state = (Inl Diverges, crowded_state)"
proof -
  have m: "to_upper (trim_space ''BTC-USD'') = ''BTC-USD''" by code_simp
  let ?L = "ListUnappliedOrderCommandLogsThrough (mr_db crowded_state) ''BTC-USD'' (- 1) 1000"
  have "filter (\<lambda>r. cl_Status r \<in> {LogPending, LogProcessing}) (log_rows (mr_db crowded_state) ''BTC-USD'') =
      map (\<lambda>n. session_command n LogPending) [0..<1000]"
    by (simp add: log_rows_def col_eq_def crowded_state_def session_command_waiting filter_map o_def)
  then have "?L = map modelToOrderCommandLog (take 1000 (sort_key cl_SequenceID (map (\<lambda>n. session_command n LogPending) [0..<1000])))"
    by (simp add: ListUnappliedOrderCommandLogsThrough_def m limit_or_def word_n1_ge)
  then have l: "length ?L = 1000" by simp
  have "GetMatchEventLog (mr_db crowded_state) mk n = None" for mk n
    by (simp add: GetMatchEventLog_def crowded_state_def empty_db_def Let_def)
  then have n: "list_all (\<lambda>r. GetMatchEventLog (mr_db crowded_state) (cl_Market r) (cl_SequenceID r) = None) ?L"
    by (simp add: list_all_iff)
  have r: "mr_runtime crowded_state \<noteq> None" "(- 1 :: uint64) \<noteq> 0" by (simp_all add: crowded_state_def)
  show ?thesis using recovery_may_not_end [OF r l n] by blast
qed

text \<open>The result of the first command was logged before the process stopped.\<close>

definition crashed_order :: order where
  "crashed_order = BookProps.sample_order ''ord1'' SideBuy ''2'' ''1'' 1"

definition crashed_state :: matcher_state where
  "crashed_state = \<lparr>mr_runtime = None,
     mr_db = empty_db\<lparr>db_orders := [crashed_order], db_command_log := [session_command 1 LogProcessing],
       db_commands := [\<lparr>oc_ID = ''cmd1'', oc_ClientOrderID = ''c1'', oc_UserID = ''u'', oc_Market = ''BTC-USD'',
         oc_Type = OrderCommandTypeNewOrder, oc_PayloadHash = ''h'', oc_Payload = ''p'', oc_Status = CommandPending, oc_Outcome = [],
         oc_OrderID = ''ord1'', oc_Attempts = 0, oc_LastError = [], oc_QuarantinedAt = 0, oc_CreatedAt = 1, oc_UpdatedAt = 1\<rparr>],
       db_event_log := [\<lparr>me_ID = ''mel1'', me_Market = ''BTC-USD'', me_SequenceID = 1, me_Type = MatchEventTypeResult,
         me_PayloadHash = ''h'', me_Payload = ''e'', me_CreatedAt = 1\<rparr>]\<rparr>\<rparr>"

theorem logged_command_not_executed_again_witness:
  "\<exists>st'. matchCommandLogWithRuntime session_config sample_service \<lparr>e_now = 7, e_newid = \<lambda>n. []\<rparr>
      (session_command 1 LogProcessing) crashed_state = (Inr (), st') \<and> db_orders (mr_db st') = [crashed_order]"
proof -
  let ?c = "session_command 1 LogProcessing"
  have t: "cl_Type ?c \<in> {[], OrderCommandTypeNewOrder}" "cl_SequenceID ?c \<noteq> 0" by (simp_all add: session_command_def)
  have e: "GetMatchEventLog (mr_db crashed_state) (cl_Market ?c) (cl_SequenceID ?c) \<noteq> None" by code_simp
  have a: "(case GetOrderCommand (mr_db crashed_state) (cl_CommandID ?c) of None \<Rightarrow> [] | Some acc \<Rightarrow> oc_OrderID acc) = ''ord1''"
    by code_simp
  obtain acc where acc: "GetOrderCommand (mr_db crashed_state) (cl_CommandID ?c) = Some acc" "oc_OrderID acc = ''ord1''"
    using a by (cases "GetOrderCommand (mr_db crashed_state) (cl_CommandID ?c)") auto
  have ne: "trim_space (oc_OrderID acc) \<noteq> []" unfolding acc(2) by code_simp
  have o: "getOrder (mr_db crashed_state) (oc_OrderID acc) = Some crashed_order"
    unfolding acc(2) by (simp add: getOrder_def crashed_state_def crashed_order_def BookProps.sample_order_def)
  have db: "db_orders (mr_db crashed_state) = [crashed_order]" by (simp add: crashed_state_def)
  show ?thesis
    using logged_command_not_executed_again [OF t e acc(1) ne o, of session_config sample_service "\<lparr>e_now = 7, e_newid = \<lambda>n. []\<rparr>"] db
    by (auto simp: trade_view_def)
qed

end
