(* ===== verification/Venues.thy ===== *)
theory Venues
  imports Registries DecimalText "HOL-Library.List_Lexorder" "HOL-Library.Char_ord"
begin

text \<open>
  Venues and liquidity pools: \<^verbatim>\<open>internal/core/venue\<close> (venues, their configurations, the registry,
  pools) and the table of pools, \<^verbatim>\<open>pool_repository.go\<close>. A \<^verbatim>\<open>*big.Int\<close> is an \<open>int option\<close>, \<open>None\<close> for
  nil. The table is the list of its rows; the store refuses an upsert that touches one row twice.
  The column \<^verbatim>\<open>enabled\<close> has the default true: GORM writes the default in place of a zero value when it
  creates a row, so a pool that is saved as disabled is stored as enabled.
\<close>

section \<open>Venues\<close>

datatype venue_kind =
    VenueKindUniswapV1 | VenueKindUniswapV2 | VenueKindUniswapV3 | VenueKindUniswapV4 | VenueKindCurve
  | VenueKindBalancer | VenueKindRaydium | VenueKindOrca | VenueKindMeteora | VenueKindAerodrome
  | VenueKindTraderJoe | VenueKindOther string

type_synonym venue_key = string

definition VenueKeyAerodromeSlipstream :: venue_key where
  "VenueKeyAerodromeSlipstream = ''aerodrome_slipstream_base''"

record uniswap_v1_config =
  v1_FactoryAddress :: string
  v1_WETHAddress :: string
  v1_DeploymentBlock :: uint64

record uniswap_v2_config =
  v2_FactoryAddress :: string
  v2_RouterAddress :: string
  v2_InitCodeHash :: string
  v2_DeploymentBlock :: uint64

record uniswap_v3_config =
  v3_FactoryAddress :: string
  v3_RouterAddress :: string
  v3_QuoterAddress :: string
  v3_PositionManagerAddress :: string
  v3_DeploymentBlock :: uint64

record uniswap_v4_config =
  v4_PoolManagerAddress :: string
  v4_UniversalRouter :: string
  v4_QuoterAddress :: string
  v4_DeploymentBlock :: uint64

record raydium_config =
  ray_AMMProgramID :: string
  ray_CLMMProgramID :: string
  ray_CPMMProgramID :: string
  ray_OpenBookProgramID :: string

record orca_config =
  orca_WhirlpoolProgramID :: string
  orca_ConfigAccounts :: "string list"

record meteora_config =
  met_DLMMProgramID :: string

record aerodrome_config =
  aero_PoolFactoryAddress :: string
  aero_RouterAddress :: string
  aero_VoterAddress :: string
  aero_DeploymentBlock :: uint64

datatype venue_config =
    UniswapV1Config uniswap_v1_config
  | UniswapV2Config uniswap_v2_config
  | UniswapV3Config uniswap_v3_config
  | UniswapV4Config uniswap_v4_config
  | RaydiumConfig raydium_config
  | OrcaConfig orca_config
  | MeteoraConfig meteora_config
  | AerodromeClassicConfig aerodrome_config

fun VenueConfigKind :: "venue_config \<Rightarrow> venue_kind" where
  "VenueConfigKind (UniswapV1Config c) = VenueKindUniswapV1"
| "VenueConfigKind (UniswapV2Config c) = VenueKindUniswapV2"
| "VenueConfigKind (UniswapV3Config c) = VenueKindUniswapV3"
| "VenueConfigKind (UniswapV4Config c) = VenueKindUniswapV4"
| "VenueConfigKind (RaydiumConfig c) = VenueKindRaydium"
| "VenueConfigKind (OrcaConfig c) = VenueKindOrca"
| "VenueConfigKind (MeteoraConfig c) = VenueKindMeteora"
| "VenueConfigKind (AerodromeClassicConfig c) = VenueKindAerodrome"

record venue =
  vn_Key :: venue_key
  vn_Name :: string
  vn_ChainKey :: chain_key
  vn_Kind :: venue_kind
  vn_Enabled :: bool
  vn_Config :: "venue_config option"

datatype venue_error = KeyEmpty | NameEmpty | ChainKeyEmpty | KindEmpty | ConfigNil | KindMismatch

definition Venue_Validate :: "venue \<Rightarrow> venue_error + unit" where
  "Venue_Validate v =
     (if vn_Key v = [] then Inl KeyEmpty
      else if vn_Name v = [] then Inl NameEmpty
      else if vn_ChainKey v = [] then Inl ChainKeyEmpty
      else if vn_Kind v = VenueKindOther [] then Inl KindEmpty
      else (case vn_Config v of
              None \<Rightarrow> Inl ConfigNil
            | Some c \<Rightarrow> if VenueConfigKind c \<noteq> vn_Kind v then Inl KindMismatch else Inr ()))"

type_synonym venue_registry = "venue list"

definition venue_NewRegistry :: "venue list \<Rightarrow> venue_registry" where
  "venue_NewRegistry venues = fold (row_save vn_Key) venues []"

definition venue_Get :: "venue_registry \<Rightarrow> venue_key \<Rightarrow> venue option" where
  "venue_Get r key = row_find vn_Key key r"

definition venue_All :: "venue_registry \<Rightarrow> venue list" where
  "venue_All r = sort_key vn_Key r"

lemma venue_Get_NewRegistry: "venue_Get (venue_NewRegistry venues) key = row_find vn_Key key (rev venues)"
  by (simp add: venue_Get_def venue_NewRegistry_def row_find_saves split: option.splits)

section \<open>Pools\<close>

datatype pool_kind = PoolKindV2 | PoolKindV3 | PoolKindV4 | PoolKindCLMM | PoolKindStable | PoolKindOther string

record pool =
  vp_ID :: string
  vp_Address :: string
  vp_ChainKey :: chain_key
  vp_VenueKey :: venue_key
  vp_Kind :: pool_kind
  vp_Token0 :: string
  vp_Token1 :: string
  vp_Reserve0 :: "int option"
  vp_Reserve1 :: "int option"
  vp_SqrtPriceX96 :: "int option"
  vp_Liquidity :: "int option"
  vp_Tick :: int
  vp_Fee :: uint32
  vp_TickSpacing :: int
  vp_ProgramID :: string
  vp_Vault0 :: string
  vp_Vault1 :: string
  vp_Enabled :: bool

section \<open>The table of pools\<close>

record pool_row =
  pr_ID :: string
  pr_PoolAddress :: string
  pr_ChainKey :: string
  pr_VenueKey :: string
  pr_Kind :: pool_kind
  pr_Token0 :: string
  pr_Token1 :: string
  pr_Reserve0 :: string
  pr_Reserve1 :: string
  pr_SqrtPriceX96 :: string
  pr_Liquidity :: string
  pr_Tick :: int
  pr_Fee :: uint32
  pr_TickSpacing :: int
  pr_ProgramID :: string
  pr_Vault0 :: string
  pr_Vault1 :: string
  pr_Enabled :: bool
  pr_CreatedAt :: time
  pr_UpdatedAt :: time

datatype pool_error = PoolNotFound | PoolNotAnInteger | PoolUpsertConflict

definition bigIntString :: "int option \<Rightarrow> string" where
  "bigIntString v = (case v of None \<Rightarrow> ''0'' | Some x \<Rightarrow> itoa x)"

text \<open>\<^verbatim>\<open>big.Int.SetString(value, 10)\<close>: an optional sign and at least one decimal digit.\<close>

definition int_of_decimal :: "string \<Rightarrow> int option" where
  "int_of_decimal s =
     (let neg = (s \<noteq> [] \<and> hd s = CHR ''-'');
          ds = (if s \<noteq> [] \<and> (hd s = CHR ''-'' \<or> hd s = CHR ''+'') then tl s else s);
          n = foldl (\<lambda>acc c. acc * 10 + digit_value c) 0 ds
      in if ds = [] \<or> \<not> list_all is_digit ds then None else Some (if neg then - n else n))"

definition parseBigInt :: "string \<Rightarrow> pool_error + int" where
  "parseBigInt value =
     (if value = [] then Inr 0
      else (case int_of_decimal value of None \<Rightarrow> Inl PoolNotAnInteger | Some n \<Rightarrow> Inr n))"

definition create_default_true :: "bool \<Rightarrow> bool" where
  "create_default_true b = (if b then b else True)"

definition pool_to_row :: "env \<Rightarrow> pool \<Rightarrow> pool_row" where
  "pool_to_row env p =
     \<lparr>pr_ID = vp_ID p, pr_PoolAddress = (if vp_Address p = [] then vp_ID p else vp_Address p),
      pr_ChainKey = vp_ChainKey p, pr_VenueKey = vp_VenueKey p, pr_Kind = vp_Kind p,
      pr_Token0 = vp_Token0 p, pr_Token1 = vp_Token1 p,
      pr_Reserve0 = bigIntString (vp_Reserve0 p), pr_Reserve1 = bigIntString (vp_Reserve1 p),
      pr_SqrtPriceX96 = bigIntString (vp_SqrtPriceX96 p), pr_Liquidity = bigIntString (vp_Liquidity p),
      pr_Tick = vp_Tick p, pr_Fee = vp_Fee p, pr_TickSpacing = vp_TickSpacing p, pr_ProgramID = vp_ProgramID p,
      pr_Vault0 = vp_Vault0 p, pr_Vault1 = vp_Vault1 p, pr_Enabled = create_default_true (vp_Enabled p),
      pr_CreatedAt = e_now env, pr_UpdatedAt = e_now env\<rparr>"

text \<open>The conflict clause replaces every column but the time of creation.\<close>

definition upsert_pool :: "pool_row \<Rightarrow> pool_row list \<Rightarrow> pool_row list" where
  "upsert_pool r rows =
     (case row_find pr_ID (pr_ID r) rows of
        None \<Rightarrow> rows @ [r] | Some old \<Rightarrow> row_save pr_ID (r\<lparr>pr_CreatedAt := pr_CreatedAt old\<rparr>) rows)"

definition SavePools :: "env \<Rightarrow> pool list \<Rightarrow> pool_row list \<Rightarrow> pool_error + pool_row list" where
  "SavePools env pools rows =
     (if pools = [] then Inr rows
      else if \<not> distinct (map vp_ID pools) then Inl PoolUpsertConflict
      else Inr (fold (\<lambda>p rows. upsert_pool (pool_to_row env p) rows) pools rows))"

definition toVenuePool :: "pool_row \<Rightarrow> pool_error + pool" where
  "toVenuePool p =
     (case (parseBigInt (pr_Reserve0 p), parseBigInt (pr_Reserve1 p), parseBigInt (pr_SqrtPriceX96 p), parseBigInt (pr_Liquidity p)) of
        (Inr r0, Inr r1, Inr sq, Inr liq) \<Rightarrow>
          Inr \<lparr>vp_ID = pr_ID p, vp_Address = (if pr_PoolAddress p = [] then pr_ID p else pr_PoolAddress p),
               vp_ChainKey = pr_ChainKey p, vp_VenueKey = pr_VenueKey p, vp_Kind = pr_Kind p,
               vp_Token0 = pr_Token0 p, vp_Token1 = pr_Token1 p, vp_Reserve0 = Some r0, vp_Reserve1 = Some r1,
               vp_SqrtPriceX96 = Some sq, vp_Liquidity = Some liq, vp_Tick = pr_Tick p, vp_Fee = pr_Fee p,
               vp_TickSpacing = pr_TickSpacing p, vp_ProgramID = pr_ProgramID p, vp_Vault0 = pr_Vault0 p,
               vp_Vault1 = pr_Vault1 p, vp_Enabled = pr_Enabled p\<rparr>
      | _ \<Rightarrow> Inl PoolNotAnInteger)"

definition GetPool :: "pool_row list \<Rightarrow> string \<Rightarrow> pool_error + pool" where
  "GetPool rows poolID =
     (case row_find pr_ID poolID rows of None \<Rightarrow> Inl PoolNotFound | Some r \<Rightarrow> toVenuePool r)"

fun add_new :: "'a list \<Rightarrow> 'a list \<Rightarrow> 'a list" where
  "add_new acc [] = acc"
| "add_new acc (x # xs) = add_new (if x \<in> set acc then acc else acc @ [x]) xs"

definition poolAssetQueryIDs :: "string list \<Rightarrow> string list \<times> string list" where
  "poolAssetQueryIDs ids =
     (let values = filter (\<lambda>v. v \<noteq> []) (map trim_space ids) in (add_new [] values, add_new [] (map to_lower values)))"

fun decode_pools :: "pool_row list \<Rightarrow> pool_error + pool list" where
  "decode_pools [] = Inr []"
| "decode_pools (r # rs) =
     (case toVenuePool r of
        Inl e \<Rightarrow> Inl e
      | Inr p \<Rightarrow> (case decode_pools rs of Inl e \<Rightarrow> Inl e | Inr ps \<Rightarrow> Inr (p # ps)))"

definition ListPoolsByAssetIDs :: "pool_row list \<Rightarrow> string list \<Rightarrow> pool_error + pool list" where
  "ListPoolsByAssetIDs rows ids =
     (let (exactIDs, lowerIDs) = poolAssetQueryIDs ids in
      if exactIDs = [] then Inr []
      else decode_pools (filter (\<lambda>r. pr_Enabled r \<and>
             (pr_Token0 r \<in> set exactIDs \<or> pr_Token1 r \<in> set exactIDs \<or>
              to_lower (pr_Token0 r) \<in> set lowerIDs \<or> to_lower (pr_Token1 r) \<in> set lowerIDs)) rows))"

section \<open>Reading what was saved\<close>

lemma set_add_new: "set (add_new acc xs) = set acc \<union> set xs"
  by (induction acc xs rule: add_new.induct) auto

lemma poolAssetQueryIDs_sets:
  assumes "poolAssetQueryIDs ids = (exact, lowered)"
  shows "set exact = trim_space ` set ids - {[]}" and "set lowered = to_lower ` (trim_space ` set ids - {[]})"
proof -
  have v: "set (filter (\<lambda>v. v \<noteq> []) (map trim_space ids)) = trim_space ` set ids - {[]}" by auto
  show "set exact = trim_space ` set ids - {[]}"
    using assms unfolding poolAssetQueryIDs_def Let_def by (simp only: prod.inject v set_add_new set_simps) (auto simp: set_add_new)
  have "set lowered = to_lower ` set (filter (\<lambda>v. v \<noteq> []) (map trim_space ids))"
    using assms by (auto simp: poolAssetQueryIDs_def Let_def set_add_new)
  then show "set lowered = to_lower ` (trim_space ` set ids - {[]})" unfolding v .
qed

lemma foldl_digits: "foldl (\<lambda>acc c. acc * 10 + digit_value c) 0 ds = digits_value 0 ds"
  by (simp add: digits_value_def)

lemma int_of_decimal_itoa: "int_of_decimal (itoa n) = Some n"
proof -
  have d: "utoa m = hd (utoa m) # tl (utoa m)" "is_digit (hd (utoa m))" if "0 \<le> m" for m
    using utoa_props [OF that] utoa_ne [of m] by (cases "utoa m"; simp)+
  show ?thesis
  proof (cases "n < 0")
    case True
    then show ?thesis
      using utoa_props [of "- n"] by (simp add: int_of_decimal_def itoa_def foldl_digits Let_def)
  next
    case False
    then have h: "hd (utoa n) \<noteq> CHR ''-''" "hd (utoa n) \<noteq> CHR ''+''"
      using d(2) [of n] by (auto simp: is_digit_def)
    show ?thesis
      using False utoa_props [of n] h by (simp add: int_of_decimal_def itoa_def foldl_digits Let_def)
  qed
qed

lemma itoa_ne [simp]: "itoa n \<noteq> []"
  by (simp add: itoa_def)

lemma parse_bigIntString: "parseBigInt (bigIntString v) = Inr (case v of None \<Rightarrow> 0 | Some n \<Rightarrow> n)"
proof (cases v)
  case None
  have "int_of_decimal ''0'' = Some 0" using int_of_decimal_itoa [of 0] by (simp add: itoa_def)
  then show ?thesis using None by (simp add: parseBigInt_def bigIntString_def)
next
  case (Some n)
  then show ?thesis by (simp add: parseBigInt_def bigIntString_def int_of_decimal_itoa)
qed

text \<open>A saved pool with its defaults: nil amounts become zero and the address defaults to the identifier.\<close>

definition stored_pool :: "pool \<Rightarrow> pool" where
  "stored_pool p =
     p\<lparr>vp_Address := (if vp_Address p = [] then vp_ID p else vp_Address p),
       vp_Reserve0 := Some (case vp_Reserve0 p of None \<Rightarrow> 0 | Some n \<Rightarrow> n),
       vp_Reserve1 := Some (case vp_Reserve1 p of None \<Rightarrow> 0 | Some n \<Rightarrow> n),
       vp_SqrtPriceX96 := Some (case vp_SqrtPriceX96 p of None \<Rightarrow> 0 | Some n \<Rightarrow> n),
       vp_Liquidity := Some (case vp_Liquidity p of None \<Rightarrow> 0 | Some n \<Rightarrow> n),
       vp_Enabled := True\<rparr>"

lemma toVenuePool_row: "toVenuePool ((pool_to_row env p)\<lparr>pr_CreatedAt := t\<rparr>) = Inr (stored_pool p)"
  by (simp add: toVenuePool_def pool_to_row_def stored_pool_def parse_bigIntString create_default_true_def)

lemma pool_row_same: "(pool_to_row env p)\<lparr>pr_CreatedAt := pr_CreatedAt (pool_to_row env p)\<rparr> = pool_to_row env p"
  by simp

lemma row_find_upsert:
  "row_find pr_ID k (upsert_pool r rows) =
     (if k = pr_ID r then Some (case row_find pr_ID k rows of None \<Rightarrow> r | Some old \<Rightarrow> r\<lparr>pr_CreatedAt := pr_CreatedAt old\<rparr>)
      else row_find pr_ID k rows)"
  by (auto simp: upsert_pool_def row_find_append row_find_save split: option.splits)

lemma GetPool_upsert:
  "GetPool (upsert_pool (pool_to_row env p) rows) k = (if k = vp_ID p then Inr (stored_pool p) else GetPool rows k)"
proof (cases "k = vp_ID p")
  case True
  have k: "pr_ID (pool_to_row env p) = vp_ID p" by (simp add: pool_to_row_def)
  show ?thesis
    using True toVenuePool_row [where env = env and p = p] toVenuePool_row [where env = env and p = p and t = "pr_CreatedAt (pool_to_row env p)"]
    by (simp add: GetPool_def row_find_upsert k split: option.splits)
next
  case False
  then show ?thesis by (simp add: GetPool_def row_find_upsert pool_to_row_def)
qed

lemma GetPool_saves:
  assumes "distinct (map vp_ID pools)"
  shows "GetPool (fold (\<lambda>p rows. upsert_pool (pool_to_row env p) rows) pools rows) k =
     (case row_find vp_ID k pools of Some p \<Rightarrow> Inr (stored_pool p) | None \<Rightarrow> GetPool rows k)"
  using assms
proof (induction pools arbitrary: rows)
  case Nil
  then show ?case by simp
next
  case (Cons p ps)
  have "row_find vp_ID (vp_ID p) ps = None" using Cons.prems by (auto simp: row_find_None)
  then show ?case using Cons by (auto simp: GetPool_upsert split: option.splits)
qed

text \<open>A pool that was saved is read back field for field, with nil amounts as zero, an empty
  address as the identifier and always enabled; pools that were not among the saved ones read as
  before; the whole batch is refused if it names a pool twice.\<close>

theorem SavePools_GetPool:
  "(case SavePools env pools rows of
      Inr rows' \<Rightarrow> distinct (map vp_ID pools) \<and>
        (\<lambda>k. GetPool rows' k) = (\<lambda>k. case row_find vp_ID k pools of Some p \<Rightarrow> Inr (stored_pool p) | None \<Rightarrow> GetPool rows k)
    | Inl e \<Rightarrow> e = PoolUpsertConflict \<and> \<not> distinct (map vp_ID pools))"
  by (auto simp: SavePools_def GetPool_saves fun_eq_iff)

section \<open>Pools of an asset\<close>

lemma decode_pools_Inr:
  "decode_pools rs = Inr ps \<Longrightarrow> map (\<lambda>r. Inr r) ps = map toVenuePool rs"
  by (induction rs arbitrary: ps) (auto split: sum.splits)

lemma toVenuePool_fields:
  "toVenuePool r = Inr p \<Longrightarrow>
     vp_ID p = pr_ID r \<and> vp_Token0 p = pr_Token0 r \<and> vp_Token1 p = pr_Token1 r \<and> vp_ChainKey p = pr_ChainKey r \<and>
     vp_VenueKey p = pr_VenueKey r \<and> vp_Enabled p = pr_Enabled r"
  by (auto simp: toVenuePool_def split: sum.splits)

end
