(* ===== verification/Migration.thy ===== *)
theory Migration
  imports MarketStats Venues
begin

text \<open>
  The start of the store, \<^verbatim>\<open>db.go\<close>: the migration with its two backfills, and the table of markets that is
  synchronised with the configuration. Opening the connection, the advisory lock and the index statements
  are left out; the schema migration is a parameter, the error of each attempt.

  Two conventions of GORM matter here and are written out. A condition given as a struct ignores fields
  with a zero value, so the condition with \<^verbatim>\<open>SequenceID: 0\<close> selects the orders of the market whatever their sequence.
  \<^verbatim>\<open>Save\<close> updates the row with every column and sets the time of the update; if there is no row it creates
  one, and creating a row puts the default of a column in place of a zero value.
\<close>

section \<open>The schema\<close>

definition isConcurrentMigrationConflict :: "string option \<Rightarrow> bool" where
  "isConcurrentMigrationConflict err =
     (case err of
        None \<Rightarrow> False
      | Some message \<Rightarrow> str_contains message ''pg_type_typname_nsp_index'' \<or>
                        str_contains message ''duplicate key value violates unique constraint'')"

text \<open>At most three attempts; an error that is not a conflict ends the loop at once.\<close>

fun migrate_attempts :: "(nat \<Rightarrow> string option) \<Rightarrow> nat \<Rightarrow> nat \<Rightarrow> string option \<Rightarrow> string option" where
  "migrate_attempts run attempt 0 err = err"
| "migrate_attempts run attempt (Suc left) err =
     (case run attempt of
        None \<Rightarrow> None
      | Some message \<Rightarrow>
          if \<not> isConcurrentMigrationConflict (Some message) then Some message
          else migrate_attempts run (Suc attempt) left (Some message))"

definition autoMigrateWithRetry :: "(nat \<Rightarrow> string option) \<Rightarrow> string option" where
  "autoMigrateWithRetry run = migrate_attempts run 0 3 None"

definition autoMigrateEnabled :: "string \<Rightarrow> bool" where
  "autoMigrateEnabled env_value =
     (let raw = to_lower (trim_space env_value) in
      if raw \<in> set ['''', ''1'', ''true'', ''yes'', ''on''] then True
      else if raw \<in> set [''0'', ''false'', ''no'', ''off''] then False
      else True)"

section \<open>Pool addresses\<close>

definition backfillPoolAddresses :: "env \<Rightarrow> pool_row list \<Rightarrow> pool_row list" where
  "backfillPoolAddresses env rows =
     map (\<lambda>r. if pr_PoolAddress r = [] then r\<lparr>pr_PoolAddress := pr_ID r, pr_UpdatedAt := e_now env\<rparr> else r) rows"

section \<open>Order sequences\<close>

text \<open>The row of the market's next sequence, created or raised above the largest sequence of an order.\<close>

definition find_sequence :: "string \<Rightarrow> db \<Rightarrow> sequence_row option" where
  "find_sequence market d =
     (case sort_key sq_Market (filter (\<lambda>r. col_eq (sq_Market r) market) (db_sequences d)) of
        [] \<Rightarrow> None | r # rs \<Rightarrow> Some r)"

definition save_sequence :: "sequence_row \<Rightarrow> unit ltx" where
  "save_sequence r = tx_modify (\<lambda>d. d\<lparr>db_sequences := row_save sq_Market r (db_sequences d)\<rparr>)"

definition backfill_sequence_row :: "env \<Rightarrow> string \<Rightarrow> sequence_row ltx" where
  "backfill_sequence_row env market d =
     (let maxSeq = maxOrderSequence market d in
      (case find_sequence market d of
         None \<Rightarrow>
           (let nxt = (if maxSeq + 1 = 0 then 1 else maxSeq + 1);
                seq = \<lparr>sq_Market = market, sq_NextSequence = nxt, sq_UpdatedAt = e_now env\<rparr>
            in if row_exists sq_Market market (db_sequences d) then Inl ErrDuplicateKey
               else Inr (seq, d\<lparr>db_sequences := db_sequences d @ [seq]\<rparr>))
       | Some seq \<Rightarrow>
           if sq_NextSequence seq \<le> maxSeq
           then tx_bind (save_sequence (seq\<lparr>sq_NextSequence := maxSeq + 1, sq_UpdatedAt := e_now env\<rparr>))
                  (\<lambda>_. tx_return (seq\<lparr>sq_NextSequence := maxSeq + 1, sq_UpdatedAt := e_now env\<rparr>)) d
           else Inr (seq, d)))"

text \<open>The condition \<^verbatim>\<open>ExchangeOrder{Market: market, SequenceID: 0}\<close>, whose second field is dropped.\<close>

definition zeroSeqOrders :: "string \<Rightarrow> db \<Rightarrow> order list" where
  "zeroSeqOrders market d =
     sort_key (\<lambda>r. (o_CreatedAt r, o_ID r)) (filter (\<lambda>r. col_eq (o_Market r) market) (db_orders d))"

fun assign_sequences :: "env \<Rightarrow> uint64 \<Rightarrow> order list \<Rightarrow> uint64 ltx" where
  "assign_sequences env nxt [] = tx_return nxt"
| "assign_sequences env nxt (item # items) =
     tx_bind (save_order_row (item\<lparr>o_SequenceID := nxt, o_UpdatedAt := e_now env\<rparr>))
       (\<lambda>_. assign_sequences env (nxt + 1) items)"

definition backfill_market :: "env \<Rightarrow> string \<Rightarrow> unit ltx" where
  "backfill_market env market =
     tx_bind (backfill_sequence_row env market) (\<lambda>seq.
     tx_bind (tx_get (zeroSeqOrders market)) (\<lambda>items.
     tx_bind (assign_sequences env (if sq_NextSequence seq = 0 then 1 else sq_NextSequence seq) items) (\<lambda>nxt.
     tx_bind (if nxt \<noteq> sq_NextSequence seq
              then save_sequence (seq\<lparr>sq_NextSequence := nxt, sq_UpdatedAt := e_now env\<rparr>) else tx_return ()) (\<lambda>_.
     tx_bind (RebuildActiveOrders market) (\<lambda>_. RebuildPriceLevels env market)))))"

definition backfillOrderSequences :: "env \<Rightarrow> unit ltx" where
  "backfillOrderSequences env d = tx_each (backfill_market env) (remdups (map o_Market (db_orders d))) d"

datatype migrate_error = SchemaFailed string | BackfillFailed ledger_error

definition Migrate :: "env \<Rightarrow> (nat \<Rightarrow> string option) \<Rightarrow> pool_row list \<times> db \<Rightarrow> migrate_error + pool_row list \<times> db" where
  "Migrate env run = (\<lambda>(rows, d).
     (case autoMigrateWithRetry run of
        Some message \<Rightarrow> Inl (SchemaFailed message)
      | None \<Rightarrow>
          (case backfillOrderSequences env d of
             Inl err \<Rightarrow> Inl (BackfillFailed err)
           | Inr (u, d') \<Rightarrow> Inr (backfillPoolAddresses env rows, d'))))"

section \<open>The table of markets\<close>

definition sync_market_row :: "env \<Rightarrow> market \<Rightarrow> market_row option \<Rightarrow> market_row" where
  "sync_market_row env item existing =
     \<lparr>mk_Symbol = m_Symbol item, mk_BaseAsset = m_BaseAsset item, mk_QuoteAsset = m_QuoteAsset item, mk_ChainKeys = [],
      mk_Enabled = m_Enabled item,
      mk_LastPrice = (case existing of None \<Rightarrow> ''0'' | Some r \<Rightarrow> statsValue (mk_LastPrice r)),
      mk_Change24h = (case existing of None \<Rightarrow> ''0'' | Some r \<Rightarrow> statsValue (mk_Change24h r)),
      mk_High24h = (case existing of None \<Rightarrow> ''0'' | Some r \<Rightarrow> statsValue (mk_High24h r)),
      mk_Low24h = (case existing of None \<Rightarrow> ''0'' | Some r \<Rightarrow> statsValue (mk_Low24h r)),
      mk_Volume24h = (case existing of None \<Rightarrow> ''0'' | Some r \<Rightarrow> statsValue (mk_Volume24h r)),
      mk_CreatedAt = (case existing of None \<Rightarrow> e_now env | Some r \<Rightarrow> mk_CreatedAt r), mk_UpdatedAt = e_now env\<rparr>"

definition save_market_row :: "market_row \<Rightarrow> market_row list \<Rightarrow> market_row list" where
  "save_market_row model rows =
     (if row_exists mk_Symbol (mk_Symbol model) rows then row_save mk_Symbol model rows
      else rows @ [model\<lparr>mk_Enabled := create_default_true (mk_Enabled model)\<rparr>])"

definition SyncExchangeMarkets :: "env \<Rightarrow> market list \<Rightarrow> market_row list \<Rightarrow> market_row list" where
  "SyncExchangeMarkets env markets rows =
     fold (\<lambda>item rows. save_market_row (sync_market_row env item (row_find mk_Symbol (m_Symbol item) rows)) rows) markets rows"

section \<open>What the backfill does to the sequences\<close>

lemma filter_row_save_other: "key r \<noteq> k \<Longrightarrow> filter (\<lambda>x. key x = k) (row_save key r rows) = filter (\<lambda>x. key x = k) rows"
  by (induction rows) auto

abbreviation client_key :: "order \<Rightarrow> string \<times> string" where
  "client_key r \<equiv> (o_UserID r, o_ClientOrderID r)"

fun renumber :: "env \<Rightarrow> uint64 \<Rightarrow> order list \<Rightarrow> order \<Rightarrow> order" where
  "renumber env nxt [] r = r"
| "renumber env nxt (item # items) r =
     (if o_ID r = o_ID item then item\<lparr>o_SequenceID := nxt, o_UpdatedAt := e_now env\<rparr> else renumber env (nxt + 1) items r)"

definition well_keyed :: "order list \<Rightarrow> bool" where
  "well_keyed rows \<longleftrightarrow> distinct (map o_ID rows) \<and> distinct (map client_key rows) \<and> [] \<notin> o_Market ` set rows"

lemma same_id: "distinct (map o_ID rows) \<Longrightarrow> r \<in> set rows \<Longrightarrow> x \<in> set rows \<Longrightarrow> o_ID r = o_ID x \<Longrightarrow> r = x"
  by (metis distinct_map inj_onD)

lemma distinct_head: "distinct (map f (y # ys)) \<Longrightarrow> x \<in> set ys \<Longrightarrow> f x \<noteq> f y"
  by (metis distinct.simps(2) image_eqI list.simps(9) set_map)

lemma renumber_same:
  assumes "distinct (map o_ID rows)" "set items \<subseteq> set rows" "r \<in> set rows"
  shows "\<exists>q u. renumber env nxt items r = r\<lparr>o_SequenceID := q, o_UpdatedAt := u\<rparr>"
  using assms
proof (induction items arbitrary: nxt)
  case Nil
  have "r = r\<lparr>o_SequenceID := o_SequenceID r, o_UpdatedAt := o_UpdatedAt r\<rparr>" by simp
  then show ?case by (metis renumber.simps(1))
next
  case (Cons item items)
  show ?case
  proof (cases "o_ID r = o_ID item")
    case True
    then have "r = item" using same_id Cons.prems by (metis list.set_intros(1) subsetD)
    then show ?thesis by auto
  next
    case False
    then show ?thesis using Cons by simp
  qed
qed

lemma renumber_other: "o_ID r \<notin> o_ID ` set items \<Longrightarrow> renumber env nxt items r = r"
  by (induction items arbitrary: nxt) auto

lemma save_order_row_known:
  assumes "distinct (map o_ID (db_orders d))" "distinct (map client_key (db_orders d))" "item \<in> set (db_orders d)"
  shows "save_order_row (item\<lparr>o_SequenceID := q, o_UpdatedAt := u\<rparr>) d =
    Inr ((), d\<lparr>db_orders := map (\<lambda>x. if o_ID x = o_ID item then item\<lparr>o_SequenceID := q, o_UpdatedAt := u\<rparr> else x) (db_orders d)\<rparr>)"
proof -
  have "\<not> (\<exists>r \<in> set (db_orders d). o_ID r \<noteq> o_ID item \<and> o_UserID r = o_UserID item \<and> o_ClientOrderID r = o_ClientOrderID item)"
    using assms(2,3) by (auto simp: distinct_map inj_on_def)
  moreover have "row_save o_ID (item\<lparr>o_SequenceID := q, o_UpdatedAt := u\<rparr>) (db_orders d) =
      map (\<lambda>x. if o_ID x = o_ID item then item\<lparr>o_SequenceID := q, o_UpdatedAt := u\<rparr> else x) (db_orders d)"
    using row_save_map [OF assms(1), of "item\<lparr>o_SequenceID := q, o_UpdatedAt := u\<rparr>"] assms(3) by simp
  ultimately show ?thesis by (simp add: save_order_row_def)
qed

lemma map_update_keeps:
  assumes "distinct (map o_ID rows)" "item \<in> set rows" "g (item\<lparr>o_SequenceID := q, o_UpdatedAt := u\<rparr>) = g item"
  shows "map g (map (\<lambda>x. if o_ID x = o_ID item then item\<lparr>o_SequenceID := q, o_UpdatedAt := u\<rparr> else x) rows) = map g rows"
  using same_id [OF assms(1) _ assms(2)] assms(3) by auto

lemma assign_sequences_eq:
  assumes "distinct (map o_ID (db_orders d))" "distinct (map client_key (db_orders d))"
    and "set items \<subseteq> set (db_orders d)" "distinct (map o_ID items)"
  shows "assign_sequences env nxt items d =
    Inr (nxt + of_nat (length items), d\<lparr>db_orders := map (renumber env nxt items) (db_orders d)\<rparr>)"
  using assms
proof (induction items arbitrary: nxt d)
  case Nil
  then show ?case by (simp add: tx_return_def)
next
  case (Cons item items)
  let ?new = "item\<lparr>o_SequenceID := nxt, o_UpdatedAt := e_now env\<rparr>"
  let ?rows = "map (\<lambda>x. if o_ID x = o_ID item then ?new else x) (db_orders d)"
  have item: "item \<in> set (db_orders d)" using Cons.prems(3) by simp
  have keep: "map o_ID ?rows = map o_ID (db_orders d)" "map client_key ?rows = map client_key (db_orders d)"
    by (rule map_update_keeps [OF Cons.prems(1) item], simp)+
  have sub: "set items \<subseteq> set ?rows"
  proof
    fix x assume x: "x \<in> set items"
    then have "o_ID x \<noteq> o_ID item" using distinct_head [OF Cons.prems(4)] by simp
    then show "x \<in> set ?rows" using x Cons.prems(3) by force
  qed
  define d1 where "d1 = d\<lparr>db_orders := ?rows\<rparr>"
  have rows: "db_orders d1 = ?rows" by (simp add: d1_def)
  have "assign_sequences env nxt (item # items) d = assign_sequences env (nxt + 1) items d1"
    by (simp add: tx_bind_def save_order_row_known [OF Cons.prems(1,2) item] d1_def)
  also have "\<dots> = Inr (nxt + 1 + of_nat (length items), d1\<lparr>db_orders := map (renumber env (nxt + 1) items) (db_orders d1)\<rparr>)"
  proof (rule Cons.IH)
    show "distinct (map o_ID (db_orders d1))" unfolding rows keep by (rule Cons.prems(1))
    show "distinct (map client_key (db_orders d1))" unfolding rows keep by (rule Cons.prems(2))
    show "set items \<subseteq> set (db_orders d1)" unfolding rows by (rule sub)
    show "distinct (map o_ID items)" using Cons.prems(4) by simp
  qed
  also have "map (renumber env (nxt + 1) items) (db_orders d1) = map (renumber env nxt (item # items)) (db_orders d)"
    unfolding rows using Cons.prems(4) by (auto simp: renumber_other)
  finally show ?case by (simp add: add.assoc d1_def)
qed

lemma renumber_sequences:
  "distinct (map o_ID items) \<Longrightarrow>
     map (\<lambda>r. o_SequenceID (renumber env nxt items r)) items = map (\<lambda>i. nxt + of_nat i) [0..<length items]"
proof (induction items arbitrary: nxt)
  case Nil
  then show ?case by simp
next
  case (Cons item items)
  have "map (\<lambda>r. o_SequenceID (renumber env nxt (item # items) r)) items =
      map (\<lambda>r. o_SequenceID (renumber env (nxt + 1) items r)) items"
    by (rule map_cong [OF refl]) (simp add: distinct_head [OF Cons.prems])
  also have "\<dots> = map (\<lambda>i. nxt + 1 + of_nat i) [0..<length items]" using Cons by simp
  finally show ?case
    by (simp add: upt_conv_Cons map_Suc_upt [symmetric] add.assoc del: upt_Suc renumber.simps(2)) simp
qed

text \<open>The first number the backfill of a market gives out.\<close>

definition backfill_base :: "string \<Rightarrow> db \<Rightarrow> uint64" where
  "backfill_base market d =
     (let maxSeq = maxOrderSequence market d;
          n = (case find_sequence market d of
                 None \<Rightarrow> maxSeq + 1
               | Some seq \<Rightarrow> if sq_NextSequence seq \<le> maxSeq then maxSeq + 1 else sq_NextSequence seq)
      in if n = 0 then 1 else n)"

lemma find_sequence_key:
  assumes "find_sequence market d = Some seq" "market \<noteq> []"
  shows "sq_Market seq = market"
proof -
  obtain rs where rs: "sort_key sq_Market (filter (\<lambda>r. col_eq (sq_Market r) market) (db_sequences d)) = seq # rs"
    using assms(1) by (auto simp: find_sequence_def split: list.splits)
  have "seq \<in> set (sort_key sq_Market (filter (\<lambda>r. col_eq (sq_Market r) market) (db_sequences d)))"
    unfolding rs by simp
  then show ?thesis using assms(2) by (simp add: col_eq_def)
qed

lemma find_sequence_cong:
  "market \<noteq> [] \<Longrightarrow> filter (\<lambda>r. sq_Market r = market) (db_sequences d') = filter (\<lambda>r. sq_Market r = market) (db_sequences d) \<Longrightarrow>
     find_sequence market d' = find_sequence market d"
  by (simp add: find_sequence_def col_eq_def)

definition row_ready :: "env \<Rightarrow> string \<Rightarrow> db \<Rightarrow> sequence_row \<Rightarrow> db \<Rightarrow> bool" where
  "row_ready env market d seq d' \<longleftrightarrow>
     backfill_sequence_row env market d = Inr (seq, d') \<and> db_orders d' = db_orders d \<and>
     (if sq_NextSequence seq = 0 then 1 else sq_NextSequence seq) = backfill_base market d \<and> sq_Market seq = market \<and>
     (\<forall>k. k \<noteq> market \<longrightarrow> filter (\<lambda>r. sq_Market r = k) (db_sequences d') = filter (\<lambda>r. sq_Market r = k) (db_sequences d))"

lemma backfill_sequence_row_ok:
  assumes "market \<noteq> []"
  shows "\<exists>seq d'. row_ready env market d seq d'"
proof (cases "find_sequence market d")
  case None
  have no: "\<not> row_exists sq_Market market (db_sequences d)"
  proof
    assume "row_exists sq_Market market (db_sequences d)"
    then have "filter (\<lambda>r. sq_Market r = market) (db_sequences d) \<noteq> []"
      by (auto simp: row_exists_def filter_empty_conv dest: row_find_key)
    moreover have "sort_key sq_Market (filter (\<lambda>r. sq_Market r = market) (db_sequences d)) = []"
      using None assms by (auto simp: find_sequence_def col_eq_def split: list.splits)
    ultimately show False by (metis length_0_conv length_sort)
  qed
  show ?thesis
    by (rule exI [of _ "\<lparr>sq_Market = market, sq_NextSequence = (if maxOrderSequence market d + 1 = 0 then 1 else maxOrderSequence market d + 1),
        sq_UpdatedAt = e_now env\<rparr>"], rule exI [of _ "d\<lparr>db_sequences := db_sequences d @ [\<lparr>sq_Market = market, sq_NextSequence =
          (if maxOrderSequence market d + 1 = 0 then 1 else maxOrderSequence market d + 1), sq_UpdatedAt = e_now env\<rparr>]\<rparr>"])
      (auto simp: row_ready_def backfill_sequence_row_def None no backfill_base_def Let_def)
next
  case (Some seq)
  note m = find_sequence_key [OF Some assms]
  show ?thesis
  proof (cases "sq_NextSequence seq \<le> maxOrderSequence market d")
    case True
    show ?thesis
      by (rule exI [of _ "seq\<lparr>sq_NextSequence := maxOrderSequence market d + 1, sq_UpdatedAt := e_now env\<rparr>"],
          rule exI [of _ "d\<lparr>db_sequences := row_save sq_Market (seq\<lparr>sq_NextSequence := maxOrderSequence market d + 1, sq_UpdatedAt := e_now env\<rparr>) (db_sequences d)\<rparr>"])
        (auto simp: row_ready_def backfill_sequence_row_def Some True backfill_base_def Let_def save_sequence_def tx_bind_def tx_modify_def
          tx_return_def m filter_row_save_other)
  next
    case False
    show ?thesis
      by (rule exI [of _ seq], rule exI [of _ d]) (auto simp: row_ready_def backfill_sequence_row_def Some False backfill_base_def Let_def m)
  qed
qed

lemma RebuildActiveOrders_ok:
  "\<exists>d'. RebuildActiveOrders market d = Inr ((), d') \<and> db_orders d' = db_orders d \<and> db_sequences d' = db_sequences d"
  by (simp add: RebuildActiveOrders_def tx_return_def tx_modify_def Let_def)

lemma RebuildPriceLevels_ok:
  "\<exists>d'. RebuildPriceLevels env market d = Inr ((), d') \<and> db_orders d' = db_orders d \<and> db_sequences d' = db_sequences d"
  by (simp add: RebuildPriceLevels_def tx_return_def tx_modify_def Let_def)

lemma zeroSeqOrders_rows:
  "set (zeroSeqOrders market d) \<subseteq> set (db_orders d)"
  "distinct (map o_ID (db_orders d)) \<Longrightarrow> distinct (map o_ID (zeroSeqOrders market d))"
  by (auto simp: zeroSeqOrders_def distinct_map inj_on_def)

lemma backfill_market_ok:
  assumes "well_keyed (db_orders d)" "market \<noteq> []"
  shows "\<exists>d'. backfill_market env market d = Inr ((), d') \<and>
    db_orders d' = map (renumber env (backfill_base market d) (zeroSeqOrders market d)) (db_orders d) \<and>
    (\<forall>k. k \<noteq> market \<longrightarrow> filter (\<lambda>r. sq_Market r = k) (db_sequences d') = filter (\<lambda>r. sq_Market r = k) (db_sequences d))"
proof -
  obtain seq d1 where 1: "backfill_sequence_row env market d = Inr (seq, d1)" "db_orders d1 = db_orders d"
    "(if sq_NextSequence seq = 0 then 1 else sq_NextSequence seq) = backfill_base market d" "sq_Market seq = market"
    "\<And>k. k \<noteq> market \<Longrightarrow> filter (\<lambda>r. sq_Market r = k) (db_sequences d1) = filter (\<lambda>r. sq_Market r = k) (db_sequences d)"
    using backfill_sequence_row_ok [OF assms(2), of env d] unfolding row_ready_def by auto
  let ?items = "zeroSeqOrders market d" and ?base = "backfill_base market d"
  have z: "zeroSeqOrders market d1 = ?items" by (simp add: zeroSeqOrders_def 1(2))
  have 2: "assign_sequences env ?base ?items d1 =
      Inr (?base + of_nat (length ?items), d1\<lparr>db_orders := map (renumber env ?base ?items) (db_orders d)\<rparr>)"
    using assign_sequences_eq [of d1 ?items env ?base] assms(1) zeroSeqOrders_rows [where d = d and market = market] 1(2)
    by (simp add: well_keyed_def)
  let ?d2 = "d1\<lparr>db_orders := map (renumber env ?base ?items) (db_orders d)\<rparr>"
  let ?seq = "seq\<lparr>sq_NextSequence := ?base + of_nat (length ?items), sq_UpdatedAt := e_now env\<rparr>"
  define d3 where "d3 = (if ?base + of_nat (length ?items) \<noteq> sq_NextSequence seq
     then ?d2\<lparr>db_sequences := row_save sq_Market ?seq (db_sequences ?d2)\<rparr> else ?d2)"
  obtain d4 where 4: "RebuildActiveOrders market d3 = Inr ((), d4)" "db_orders d4 = db_orders d3" "db_sequences d4 = db_sequences d3"
    using RebuildActiveOrders_ok by blast
  obtain d5 where 5: "RebuildPriceLevels env market d4 = Inr ((), d5)" "db_orders d5 = db_orders d4" "db_sequences d5 = db_sequences d4"
    using RebuildPriceLevels_ok by blast
  have "backfill_market env market d = Inr ((), d5)"
    unfolding backfill_market_def tx_bind_def [of "backfill_sequence_row env market"] 1(1)
    by (simp add: tx_bind_def tx_get_def z 1(3) 2 save_sequence_def tx_modify_def tx_return_def)
      (use 4 5 in \<open>auto simp: d3_def\<close>)
  then show ?thesis
    by (intro exI [of _ d5]) (auto simp: 4 5 d3_def 1(4,5) filter_row_save_other)
qed

text \<open>What the backfill of a list of markets leaves, market by market.\<close>

definition market_orders :: "string \<Rightarrow> db \<Rightarrow> order list" where
  "market_orders m d = filter (\<lambda>r. o_Market r = m) (db_orders d)"

definition backfilled :: "env \<Rightarrow> string \<Rightarrow> db \<Rightarrow> order list" where
  "backfilled env m d = map (renumber env (backfill_base m d) (zeroSeqOrders m d)) (market_orders m d)"

lemma market_orders_cong:
  assumes "market_orders m d' = market_orders m d" "m \<noteq> []"
  shows "zeroSeqOrders m d' = zeroSeqOrders m d" "maxOrderSequence m d' = maxOrderSequence m d"
  using assms by (simp_all add: zeroSeqOrders_def maxOrderSequence_def market_orders_def col_eq_def)

lemma backfilled_cong:
  assumes "market_orders m d' = market_orders m d" "m \<noteq> []"
    and "filter (\<lambda>r. sq_Market r = m) (db_sequences d') = filter (\<lambda>r. sq_Market r = m) (db_sequences d)"
  shows "backfilled env m d' = backfilled env m d"
  by (simp add: backfilled_def backfill_base_def market_orders_cong [OF assms(1,2)] find_sequence_cong [OF assms(2,3)] assms(1))

lemma renumber_keeps_keys:
  assumes "well_keyed rows" "set items \<subseteq> set rows"
  shows "map o_ID (map (renumber env n items) rows) = map o_ID rows"
    and "map client_key (map (renumber env n items) rows) = map client_key rows"
    and "map o_Market (map (renumber env n items) rows) = map o_Market rows"
proof -
  have "\<exists>q u. renumber env n items r = r\<lparr>o_SequenceID := q, o_UpdatedAt := u\<rparr>" if "r \<in> set rows" for r
    using renumber_same [OF _ assms(2) that] assms(1) by (simp add: well_keyed_def)
  then have "o_ID (renumber env n items r) = o_ID r \<and> client_key (renumber env n items r) = client_key r \<and>
      o_Market (renumber env n items r) = o_Market r" if "r \<in> set rows" for r
    using that by fastforce
  then show "map o_ID (map (renumber env n items) rows) = map o_ID rows"
    "map client_key (map (renumber env n items) rows) = map client_key rows"
    "map o_Market (map (renumber env n items) rows) = map o_Market rows"
    by simp_all
qed

lemma filter_map_same: "map f (map g xs) = map f xs \<Longrightarrow> filter (\<lambda>x. f x = k) (map g xs) = map g (filter (\<lambda>x. f x = k) xs)"
  by (induction xs) auto

lemma well_keyed_cong:
  assumes "map o_ID rows' = map o_ID rows" "map client_key rows' = map client_key rows" "map o_Market rows' = map o_Market rows"
  shows "well_keyed rows' = well_keyed rows"
proof -
  have "o_Market ` set rows' = o_Market ` set rows" using arg_cong [OF assms(3), of set] by (simp only: set_map)
  then show ?thesis by (simp only: well_keyed_def assms)
qed

lemma backfill_step:
  assumes "well_keyed (db_orders d)" "m \<noteq> []"
  shows "\<exists>d'. backfill_market env m d = Inr ((), d') \<and> well_keyed (db_orders d') \<and> map o_ID (db_orders d') = map o_ID (db_orders d) \<and>
    market_orders m d' = backfilled env m d \<and>
    (\<forall>k. k \<noteq> m \<longrightarrow> market_orders k d' = market_orders k d \<and>
       filter (\<lambda>r. sq_Market r = k) (db_sequences d') = filter (\<lambda>r. sq_Market r = k) (db_sequences d))"
proof -
  let ?ren = "renumber env (backfill_base m d) (zeroSeqOrders m d)"
  obtain d' where d': "backfill_market env m d = Inr ((), d')" "db_orders d' = map ?ren (db_orders d)"
    and q: "\<And>k. k \<noteq> m \<Longrightarrow> filter (\<lambda>r. sq_Market r = k) (db_sequences d') = filter (\<lambda>r. sq_Market r = k) (db_sequences d)"
    using backfill_market_ok [OF assms, of env] by auto
  note keys = renumber_keeps_keys [OF assms(1) zeroSeqOrders_rows(1), of env "backfill_base m d" m]
  have mk: "market_orders k d' = map ?ren (market_orders k d)" for k
    unfolding market_orders_def d'(2) by (rule filter_map_same [OF keys(3)])
  have "?ren r = r" if "r \<in> set (market_orders k d)" "k \<noteq> m" for k r
  proof (rule renumber_other)
    show "o_ID r \<notin> o_ID ` set (zeroSeqOrders m d)"
    proof
      assume "o_ID r \<in> o_ID ` set (zeroSeqOrders m d)"
      then obtain x where x: "x \<in> set (db_orders d)" "o_Market x = m" "o_ID x = o_ID r"
        using assms(2) by (auto simp: zeroSeqOrders_def col_eq_def)
      have "x = r" using that x assms(1) by (intro same_id [of "db_orders d"]) (auto simp: well_keyed_def market_orders_def)
      then show False using that x by (auto simp: market_orders_def)
    qed
  qed
  then have "market_orders k d' = market_orders k d" if "k \<noteq> m" for k
    unfolding mk using that by (intro map_idI) blast
  then show ?thesis
    using d' q mk keys assms(1) well_keyed_cong [OF keys] by (intro exI [of _ d']) (simp add: backfilled_def)
qed

lemma backfill_markets:
  assumes "well_keyed (db_orders d)" "distinct ms" "[] \<notin> set ms"
  shows "\<exists>d'. tx_each (backfill_market env) ms d = Inr ((), d') \<and> well_keyed (db_orders d') \<and>
    map o_ID (db_orders d') = map o_ID (db_orders d) \<and>
    (\<forall>m. market_orders m d' = (if m \<in> set ms then backfilled env m d else market_orders m d))"
  using assms
proof (induction ms arbitrary: d)
  case Nil
  then show ?case by (simp add: tx_return_def)
next
  case (Cons m ms)
  obtain d1 where 1: "backfill_market env m d = Inr ((), d1)" "well_keyed (db_orders d1)" "map o_ID (db_orders d1) = map o_ID (db_orders d)"
    "market_orders m d1 = backfilled env m d"
    and o1: "\<And>k. k \<noteq> m \<Longrightarrow> market_orders k d1 = market_orders k d \<and>
       filter (\<lambda>r. sq_Market r = k) (db_sequences d1) = filter (\<lambda>r. sq_Market r = k) (db_sequences d)"
    using backfill_step [OF Cons.prems(1), of m env] Cons.prems(3) by auto
  obtain d2 where 2: "tx_each (backfill_market env) ms d1 = Inr ((), d2)" "well_keyed (db_orders d2)"
    "map o_ID (db_orders d2) = map o_ID (db_orders d1)"
    "\<And>k. market_orders k d2 = (if k \<in> set ms then backfilled env k d1 else market_orders k d1)"
    using Cons.IH [OF 1(2)] Cons.prems by auto
  have "market_orders k d2 = (if k \<in> set (m # ms) then backfilled env k d else market_orders k d)" for k
  proof (cases "k = m")
    case True
    then show ?thesis using 2(4) [of k] 1(4) Cons.prems(2) by simp
  next
    case False
    have "backfilled env k d1 = backfilled env k d" if "k \<in> set ms"
      using o1 [OF False] that Cons.prems(3) by (intro backfilled_cong) auto
    then show ?thesis using 2(4) [of k] o1 [OF False] False by simp
  qed
  then show ?case using 1 2 by (simp add: tx_bind_def)
qed

text \<open>C30: The backfill of the start renumbers every order of a market, in order of creation, from the market's
  next free sequence on, whether or not the order had a sequence before.\<close>

theorem backfill_renumbers_every_order:
  assumes "well_keyed (db_orders d)" and "m \<in> o_Market ` set (db_orders d)"
  shows "\<exists>d'. backfillOrderSequences env d = Inr ((), d') \<and> map o_ID (db_orders d') = map o_ID (db_orders d) \<and>
    map (\<lambda>r. map_option o_SequenceID (row_find o_ID (o_ID r) (db_orders d')))
        (sort_key (\<lambda>r. (o_CreatedAt r, o_ID r)) (market_orders m d)) =
      map (\<lambda>i. Some (backfill_base m d + of_nat i)) [0..<length (market_orders m d)]"
proof -
  have ne: "m \<noteq> []" using assms by (metis well_keyed_def)
  obtain d' where d': "backfillOrderSequences env d = Inr ((), d')" "well_keyed (db_orders d')" "map o_ID (db_orders d') = map o_ID (db_orders d)"
    "market_orders m d' = backfilled env m d"
    using backfill_markets [OF assms(1), of "remdups (map o_Market (db_orders d))" env] assms
    by (auto simp: backfillOrderSequences_def well_keyed_def)
  have z: "zeroSeqOrders m d = sort_key (\<lambda>r. (o_CreatedAt r, o_ID r)) (market_orders m d)"
    using ne by (simp add: zeroSeqOrders_def market_orders_def col_eq_def)
  let ?ren = "renumber env (backfill_base m d) (zeroSeqOrders m d)"
  have find: "row_find o_ID (o_ID r) (db_orders d') = Some (?ren r)" if "r \<in> set (zeroSeqOrders m d)" for r
  proof -
    have "?ren r \<in> set (market_orders m d')" using that unfolding d'(4) by (simp add: backfilled_def z)
    then have "?ren r \<in> set (db_orders d')" by (simp add: market_orders_def)
    moreover have "o_ID (?ren r) = o_ID r"
    proof -
      have "distinct (map o_ID (db_orders d))" "r \<in> set (db_orders d)"
        using assms(1) zeroSeqOrders_rows(1) that by (simp add: well_keyed_def, blast)
      then obtain q u where "?ren r = r\<lparr>o_SequenceID := q, o_UpdatedAt := u\<rparr>"
        using renumber_same [OF _ zeroSeqOrders_rows(1)] by blast
      then show ?thesis by simp
    qed
    ultimately show ?thesis
      using row_find_distinct [of o_ID "db_orders d'" "?ren r"] d'(2) by (simp add: well_keyed_def)
  qed
  have "map (\<lambda>r. map_option o_SequenceID (row_find o_ID (o_ID r) (db_orders d'))) (zeroSeqOrders m d) =
      map Some (map (\<lambda>r. o_SequenceID (?ren r)) (zeroSeqOrders m d))"
    using find by simp
  also have "\<dots> = map Some (map (\<lambda>i. backfill_base m d + of_nat i) [0..<length (zeroSeqOrders m d)])"
    using assms(1) zeroSeqOrders_rows(2) by (subst renumber_sequences) (auto simp: well_keyed_def)
  finally have "map (\<lambda>r. map_option o_SequenceID (row_find o_ID (o_ID r) (db_orders d'))) (zeroSeqOrders m d) =
      map (\<lambda>i. Some (backfill_base m d + of_nat i)) [0..<length (market_orders m d)]"
    by (simp add: z o_def)
  then show ?thesis using d' by (simp add: z)
qed

section \<open>The other steps of the start\<close>

text \<open>The schema migration runs at most three times and an error it reports is the last one.\<close>

lemma autoMigrateWithRetry_cases:
  "autoMigrateWithRetry run =
     (case run 0 of None \<Rightarrow> None
      | Some e \<Rightarrow> if isConcurrentMigrationConflict (Some e)
          then (case run 1 of None \<Rightarrow> None
                | Some e' \<Rightarrow> if isConcurrentMigrationConflict (Some e') then run 2 else Some e')
          else Some e)"
  by (simp add: autoMigrateWithRetry_def eval_nat_numeral split: option.splits)

lemma backfillPoolAddresses_idem:
  "\<forall>r \<in> set rows. pr_ID r \<noteq> [] \<Longrightarrow> backfillPoolAddresses env' (backfillPoolAddresses env rows) = backfillPoolAddresses env rows"
  by (auto simp: backfillPoolAddresses_def)

lemma save_market_row_find:
  "row_find mk_Symbol k (save_market_row model rows) =
     (if k = mk_Symbol model
      then Some (if row_exists mk_Symbol k rows then model else model\<lparr>mk_Enabled := True\<rparr>) else row_find mk_Symbol k rows)"
  by (auto simp: save_market_row_def row_find_save row_find_append row_exists_def create_default_true_def split: option.splits)

lemma sync_market_row_symbol [simp]: "mk_Symbol (sync_market_row env item e) = m_Symbol item"
  by (simp add: sync_market_row_def)

lemma SyncExchangeMarkets_other:
  "k \<notin> m_Symbol ` set markets \<Longrightarrow> row_find mk_Symbol k (SyncExchangeMarkets env markets rows) = row_find mk_Symbol k rows"
  unfolding SyncExchangeMarkets_def by (induction markets arbitrary: rows) (auto simp: save_market_row_find)

text \<open>A market that is new to the table is enabled, whatever its configuration says; a known one takes the
  configuration and keeps its statistics.\<close>

theorem SyncExchangeMarkets_row:
  assumes "distinct (map m_Symbol markets)" and "item \<in> set markets"
  shows "row_find mk_Symbol (m_Symbol item) (SyncExchangeMarkets env markets rows) =
    Some (case row_find mk_Symbol (m_Symbol item) rows of
            Some old \<Rightarrow> sync_market_row env item (Some old)
          | None \<Rightarrow> (sync_market_row env item None)\<lparr>mk_Enabled := True\<rparr>)"
  using assms
proof (induction markets arbitrary: rows)
  case Nil
  then show ?case by simp
next
  case (Cons x xs)
  let ?row = "sync_market_row env x (row_find mk_Symbol (m_Symbol x) rows)"
  have step: "SyncExchangeMarkets env (x # xs) rows = SyncExchangeMarkets env xs (save_market_row ?row rows)"
    by (simp add: SyncExchangeMarkets_def)
  show ?case
  proof (cases "item = x")
    case True
    then show ?thesis
      using Cons.prems(1) unfolding step
      by (subst SyncExchangeMarkets_other) (auto simp: save_market_row_find row_exists_def split: option.splits)
  next
    case False
    then have "item \<in> set xs" "m_Symbol item \<noteq> m_Symbol x" using Cons.prems by (auto simp: distinct_head)
    then show ?thesis using Cons unfolding step by (simp add: save_market_row_find)
  qed
qed

section \<open>Two orders that have their sequences\<close>

definition kept_order :: "string \<Rightarrow> uint64 \<Rightarrow> time \<Rightarrow> order" where
  "kept_order i q t =
     \<lparr>o_ID = i, o_ClientOrderID = i, o_ReservationID = [], o_UserID = ''u'', o_Market = ''AAA/USDC'', o_BaseAsset = ''AAA'',
      o_QuoteAsset = ''USDC'', o_Side = SideBuy, o_Type = TypeLimit, o_Status = StatusOpen, o_TimeInForce = TimeInForceGTC, o_Price = ''1'',
      o_StopPrice = ''0'', o_Quantity = ''1'', o_FilledQuantity = ''0'', o_RemainingQuantity = ''1'', o_SequenceID = q,
      o_CreatedAt = t, o_UpdatedAt = t\<rparr>"

definition kept_orders :: db where
  "kept_orders = empty_db\<lparr>db_orders := [kept_order ''a'' 1 20, kept_order ''b'' 2 10],
     db_sequences := [\<lparr>sq_Market = ''AAA/USDC'', sq_NextSequence = 3, sq_UpdatedAt = 0\<rparr>]\<rparr>"

lemma kept_orders_facts:
  "well_keyed (db_orders kept_orders)" "''AAA/USDC'' \<in> o_Market ` set (db_orders kept_orders)"
  "backfill_base ''AAA/USDC'' kept_orders = 3"
  "market_orders ''AAA/USDC'' kept_orders = [kept_order ''a'' 1 20, kept_order ''b'' 2 10]"
  "sort_key (\<lambda>r. (o_CreatedAt r, o_ID r)) [kept_order ''a'' 1 20, kept_order ''b'' 2 10] = [kept_order ''b'' 2 10, kept_order ''a'' 1 20]"
  by (simp_all add: well_keyed_def kept_orders_def kept_order_def market_orders_def) code_simp+

text \<open>The order with sequence 2 gets 3 and the one with sequence 1 gets 4: they swap their priority.\<close>

theorem backfill_renumbers_every_order_witness:
  "\<exists>d'. backfillOrderSequences \<lparr>e_now = 50, e_newid = (\<lambda>i. [])\<rparr> kept_orders = Inr ((), d') \<and>
     map_option o_SequenceID (row_find o_ID ''b'' (db_orders d')) = Some 3 \<and>
     map_option o_SequenceID (row_find o_ID ''a'' (db_orders d')) = Some 4"
  using backfill_renumbers_every_order [OF kept_orders_facts(1,2), of "\<lparr>e_now = 50, e_newid = (\<lambda>i. [])\<rparr>"]
  unfolding kept_orders_facts(3-5) by (auto simp: kept_order_def upt_rec)

end
