(* ===== verification/Swap.thy ===== *)
theory Swap
  imports Venues
begin

text \<open>
  Swap quotes and transactions: \<^verbatim>\<open>internal/core/swap\<close> and the executors of
  \<^verbatim>\<open>internal/adapters/venues/evm/swap\<close> and \<^verbatim>\<open>internal/adapters/venues/solana/swap\<close>. The Ethereum library (hexadecimal
  addresses, packing and unpacking of contract calls) and the contract calls themselves are parameters
  (\<open>evm_lib\<close>, \<open>evm_rpc\<close>); what is packed is a list of \<open>abi_value\<close>. A \<^verbatim>\<open>*big.Int\<close> is an \<open>int option\<close>.
\<close>

section \<open>Requests, quotes and transactions\<close>

record swap_request =
  rq_ChainKey :: chain_key
  rq_VenueKey :: venue_key
  rq_VenueKind :: venue_kind
  rq_PoolID :: string
  rq_PoolAddress :: string
  rq_TokenIn :: string
  rq_TokenOut :: string
  rq_AmountIn :: "int option"
  rq_Sender :: string
  rq_Recipient :: string
  rq_SlippageBps :: uint32
  rq_DeadlineUnix :: uint64

record quote =
  qt_ChainKey :: chain_key
  qt_VenueKey :: venue_key
  qt_VenueKind :: venue_kind
  qt_PoolID :: string
  qt_TokenIn :: string
  qt_TokenOut :: string
  qt_AmountIn :: "int option"
  qt_AmountOut :: "int option"
  qt_MinOut :: "int option"
  qt_FeeBps :: uint32

type_synonym bytes = "8 word list"

record evm_transaction =
  et_To :: string
  et_Data :: bytes
  et_Value :: "int option"

record solana_instruction =
  si_ProgramID :: string
  si_Accounts :: "string list"
  si_Data :: bytes

record transaction_intent =
  ti_ChainKey :: chain_key
  ti_VenueKey :: venue_key
  ti_VenueKind :: venue_kind
  ti_EVM :: "evm_transaction option"
  ti_Solana :: "solana_instruction list"

definition MinOut :: "int option \<Rightarrow> uint32 \<Rightarrow> int" where
  "MinOut amountOut slippageBps =
     (case amountOut of
        None \<Rightarrow> 0
      | Some a \<Rightarrow>
          (let slippage = (if 10000 < slippageBps then 10000 else slippageBps) in (a * uint (10000 - slippage)) div 10000))"

datatype swap_error =
    NoPoolProvider | AmountInNotPositive | PoolIDRequired | SwapPoolNotFound | WrongPoolKind | WrongDirection
  | RouterRequired | RecipientRequired | QuoteMinOutRequired | NoQuoter | TickSpacingRequired | NoBuilder
  | InvalidToken | InvalidSpender | ApproveNotPositive | PackFailed | UnpackFailed | EmptyResponse | InvalidAmountType
  | NoRPC | NoQuoterAddress | CallFailed | VenueKindRequired | ExecutorNotRegistered
  | ChainKeyRequired | VenueKeyRequired | ErrUnknownVenue | ErrUnsupportedSwap | WrongChain
  | SymbolRequired | AssetNotRegistered | AssetNotDeployed | AmountRequired | AmountInvalid | NoPoolFound
  | InvalidVenueConfig | PoolStoreFailed pool_error | BuilderFailed

section \<open>The Ethereum library\<close>

type_synonym address = "160 word"

datatype router_abi = ERC20ABI | UniswapV2RouterABI | UniswapV3RouterABI | SlipstreamRouterABI
  | QuoterV2ABI | QuoterV1ABI | SlipstreamQuoterABI | MulticallABI
  | V1FactoryABI | V1ExchangeABI | TokenABI | V2FactoryABI | V2PairABI | V3FactoryABI | V3PoolABI
  | SlipstreamFactoryABI | SlipstreamPoolABI | AeroFactoryABI | AeroPairABI

datatype abi_value = AbiInt int | AbiAddress address | AbiAddresses "address list" | AbiTuple "abi_value list"
  | AbiBool bool | AbiBytes bytes | AbiList "abi_value list"

record evm_lib =
  ev_IsHexAddress :: "string \<Rightarrow> bool"
  ev_HexToAddress :: "string \<Rightarrow> address"
  ev_Hex :: "address \<Rightarrow> string"
  ev_Pack :: "router_abi \<Rightarrow> string \<Rightarrow> abi_value list \<Rightarrow> bytes option"
  ev_Unpack :: "router_abi \<Rightarrow> string \<Rightarrow> bytes \<Rightarrow> abi_value list option"

type_synonym evm_rpc = "address \<Rightarrow> bytes \<Rightarrow> bytes option"

definition BuildApproveTransaction :: "evm_lib \<Rightarrow> string \<Rightarrow> string \<Rightarrow> int option \<Rightarrow> swap_error + evm_transaction" where
  "BuildApproveTransaction lib tokenAddress spender amt =
     (if \<not> ev_IsHexAddress lib tokenAddress then Inl InvalidToken
      else if \<not> ev_IsHexAddress lib spender then Inl InvalidSpender
      else (case amt of
              None \<Rightarrow> Inl ApproveNotPositive
            | Some a \<Rightarrow>
                if a \<le> 0 then Inl ApproveNotPositive
                else (case ev_Pack lib ERC20ABI ''approve'' [AbiAddress (ev_HexToAddress lib spender), AbiInt a] of
                        None \<Rightarrow> Inl PackFailed
                      | Some data \<Rightarrow> Inr \<lparr>et_To = ev_Hex lib (ev_HexToAddress lib tokenAddress), et_Data = data, et_Value = Some 0\<rparr>)))"

section \<open>The constant product executor\<close>

type_synonym pool_provider = "string \<Rightarrow> swap_error + pool option"

record v2_executor =
  x2_RouterAddress :: string
  x2_RouterByVenue :: "(venue_key \<times> string) list"
  x2_FeeBps :: uint32
  x2_FeeBpsByVenue :: "(venue_key \<times> uint32) list"
  x2_Pools :: "pool_provider option"

definition NewUniswapV2Executor :: "string \<Rightarrow> uint32 \<Rightarrow> pool_provider option \<Rightarrow> v2_executor" where
  "NewUniswapV2Executor routerAddress feeBps pools =
     \<lparr>x2_RouterAddress = routerAddress, x2_RouterByVenue = [], x2_FeeBps = (if feeBps = 0 then 30 else feeBps),
      x2_FeeBpsByVenue = [], x2_Pools = pools\<rparr>"

text \<open>The router of a venue: its own entry if there is a non-empty one, else the executor's address.\<close>

definition router_lookup :: "(venue_key \<times> string) list \<Rightarrow> string \<Rightarrow> venue_key \<Rightarrow> swap_error + string" where
  "router_lookup byVenue fallback key =
     (case map_of byVenue key of
        Some a \<Rightarrow> if a \<noteq> [] then Inr a else if fallback \<noteq> [] then Inr fallback else Inl RouterRequired
      | None \<Rightarrow> if fallback \<noteq> [] then Inr fallback else Inl RouterRequired)"

definition V2_routerAddress :: "v2_executor \<Rightarrow> swap_request \<Rightarrow> swap_error + string" where
  "V2_routerAddress e req = router_lookup (x2_RouterByVenue e) (x2_RouterAddress e) (rq_VenueKey req)"

definition V2_feeBps :: "v2_executor \<Rightarrow> swap_request \<Rightarrow> uint32" where
  "V2_feeBps e req =
     (case map_of (x2_FeeBpsByVenue e) (rq_VenueKey req) of
        Some f \<Rightarrow> if 0 < f then f else if 0 < x2_FeeBps e then x2_FeeBps e else 30
      | None \<Rightarrow> if 0 < x2_FeeBps e then x2_FeeBps e else 30)"

definition requestPoolID :: "swap_request \<Rightarrow> string" where
  "requestPoolID req = (if rq_PoolID req \<noteq> [] then rq_PoolID req else rq_PoolAddress req)"

definition nonNil :: "int option \<Rightarrow> int" where
  "nonNil v = (case v of None \<Rightarrow> 0 | Some n \<Rightarrow> n)"

definition reservesForDirection :: "pool \<Rightarrow> string \<Rightarrow> string \<Rightarrow> swap_error + int \<times> int" where
  "reservesForDirection p tokenIn tokenOut =
     (let token0 = to_lower (vp_Token0 p); token1 = to_lower (vp_Token1 p); i = to_lower tokenIn; out = to_lower tokenOut in
      if i = token0 \<and> out = token1 then Inr (nonNil (vp_Reserve0 p), nonNil (vp_Reserve1 p))
      else if i = token1 \<and> out = token0 then Inr (nonNil (vp_Reserve1 p), nonNil (vp_Reserve0 p))
      else Inl WrongDirection)"

definition constantProductOut :: "int \<Rightarrow> int \<Rightarrow> int \<Rightarrow> uint32 \<Rightarrow> int" where
  "constantProductOut amountIn reserveIn reserveOut feeBps =
     (if amountIn \<le> 0 \<or> reserveIn \<le> 0 \<or> reserveOut \<le> 0 then 0
      else if 10000 \<le> feeBps then 0
      else (let amountInWithFee = amountIn * uint (10000 - feeBps) in
            (amountInWithFee * reserveOut) div (reserveIn * 10000 + amountInWithFee)))"

definition V2_Quote :: "v2_executor \<Rightarrow> swap_request \<Rightarrow> swap_error + quote" where
  "V2_Quote e req =
     (case x2_Pools e of
        None \<Rightarrow> Inl NoPoolProvider
      | Some getPool \<Rightarrow>
          (case rq_AmountIn req of
             None \<Rightarrow> Inl AmountInNotPositive
           | Some amountIn \<Rightarrow>
               if amountIn \<le> 0 then Inl AmountInNotPositive
               else if requestPoolID req = [] then Inl PoolIDRequired
               else (case getPool (requestPoolID req) of
                       Inl err \<Rightarrow> Inl err
                     | Inr None \<Rightarrow> Inl SwapPoolNotFound
                     | Inr (Some p) \<Rightarrow>
                         if vp_Kind p \<noteq> PoolKindOther [] \<and> vp_Kind p \<noteq> PoolKindV2 then Inl WrongPoolKind
                         else (case reservesForDirection p (rq_TokenIn req) (rq_TokenOut req) of
                                 Inl err \<Rightarrow> Inl err
                               | Inr (reserveIn, reserveOut) \<Rightarrow>
                                   (let feeBps = V2_feeBps e req; amountOut = constantProductOut amountIn reserveIn reserveOut feeBps in
                                    Inr \<lparr>qt_ChainKey = rq_ChainKey req, qt_VenueKey = rq_VenueKey req, qt_VenueKind = rq_VenueKind req,
                                         qt_PoolID = rq_PoolID req, qt_TokenIn = rq_TokenIn req, qt_TokenOut = rq_TokenOut req,
                                         qt_AmountIn = Some amountIn, qt_AmountOut = Some amountOut,
                                         qt_MinOut = Some (MinOut (Some amountOut) (rq_SlippageBps req)), qt_FeeBps = feeBps\<rparr>)))))"

text \<open>The guards shared by the two builders, with the amounts the router is called with.\<close>

definition build_guards :: "swap_error + string \<Rightarrow> swap_request \<Rightarrow> quote \<Rightarrow> swap_error + string \<times> int \<times> int" where
  "build_guards router req q =
     (case router of
        Inl err \<Rightarrow> Inl err
      | Inr routerAddress \<Rightarrow>
          if rq_Recipient req = [] then Inl RecipientRequired
          else (case rq_AmountIn req of
                  None \<Rightarrow> Inl AmountInNotPositive
                | Some amountIn \<Rightarrow>
                    if amountIn \<le> 0 then Inl AmountInNotPositive
                    else (case qt_MinOut q of None \<Rightarrow> Inl QuoteMinOutRequired | Some minOut \<Rightarrow> Inr (routerAddress, amountIn, minOut))))"

definition evm_intent :: "evm_lib \<Rightarrow> swap_request \<Rightarrow> string \<Rightarrow> bytes option \<Rightarrow> swap_error + transaction_intent" where
  "evm_intent lib req routerAddress packed =
     (case packed of
        None \<Rightarrow> Inl PackFailed
      | Some data \<Rightarrow>
          Inr \<lparr>ti_ChainKey = rq_ChainKey req, ti_VenueKey = rq_VenueKey req, ti_VenueKind = rq_VenueKind req,
               ti_EVM = Some \<lparr>et_To = ev_Hex lib (ev_HexToAddress lib routerAddress), et_Data = data, et_Value = Some 0\<rparr>,
               ti_Solana = []\<rparr>)"

definition V2_args :: "evm_lib \<Rightarrow> swap_request \<Rightarrow> int \<Rightarrow> int \<Rightarrow> abi_value list" where
  "V2_args lib req amountIn minOut =
     [AbiInt amountIn, AbiInt minOut,
      AbiAddresses [ev_HexToAddress lib (rq_TokenIn req), ev_HexToAddress lib (rq_TokenOut req)],
      AbiAddress (ev_HexToAddress lib (rq_Recipient req)), AbiInt (uint (rq_DeadlineUnix req))]"

definition V2_BuildTransaction :: "evm_lib \<Rightarrow> v2_executor \<Rightarrow> swap_request \<Rightarrow> quote \<Rightarrow> swap_error + transaction_intent" where
  "V2_BuildTransaction lib e req q =
     (case build_guards (V2_routerAddress e req) req q of
        Inl err \<Rightarrow> Inl err
      | Inr (routerAddress, amountIn, minOut) \<Rightarrow>
          evm_intent lib req routerAddress
            (ev_Pack lib UniswapV2RouterABI ''swapExactTokensForTokens'' (V2_args lib req amountIn minOut)))"

section \<open>The concentrated liquidity executor\<close>

type_synonym v3_quoter = "swap_request \<Rightarrow> uint32 \<Rightarrow> int \<Rightarrow> swap_error + int"

record v3_executor =
  x3_RouterAddress :: string
  x3_RouterByVenue :: "(venue_key \<times> string) list"
  x3_SlipstreamByVenue :: "(venue_key \<times> bool) list"
  x3_Fee :: uint32
  x3_FeeByVenue :: "(venue_key \<times> uint32) list"
  x3_Quoter :: "v3_quoter option"
  x3_Pools :: "pool_provider option"

definition NewUniswapV3Executor :: "string \<Rightarrow> uint32 \<Rightarrow> v3_quoter option \<Rightarrow> v3_executor" where
  "NewUniswapV3Executor routerAddress fee quoter =
     \<lparr>x3_RouterAddress = routerAddress, x3_RouterByVenue = [], x3_SlipstreamByVenue = [],
      x3_Fee = (if fee = 0 then 3000 else fee), x3_FeeByVenue = [], x3_Quoter = quoter, x3_Pools = None\<rparr>"

definition V3_routerAddress :: "v3_executor \<Rightarrow> swap_request \<Rightarrow> swap_error + string" where
  "V3_routerAddress e req = router_lookup (x3_RouterByVenue e) (x3_RouterAddress e) (rq_VenueKey req)"

definition V3_isSlipstream :: "v3_executor \<Rightarrow> venue_key \<Rightarrow> bool" where
  "V3_isSlipstream e key = (map_of (x3_SlipstreamByVenue e) key = Some True)"

definition V3_defaultFee :: "v3_executor \<Rightarrow> swap_request \<Rightarrow> uint32" where
  "V3_defaultFee e req =
     (case map_of (x3_FeeByVenue e) (rq_VenueKey req) of
        Some f \<Rightarrow> if 0 < f then f else if 0 < x3_Fee e then x3_Fee e else 3000
      | None \<Rightarrow> if 0 < x3_Fee e then x3_Fee e else 3000)"

definition V3_routeParams :: "v3_executor \<Rightarrow> swap_request \<Rightarrow> swap_error + uint32 \<times> int" where
  "V3_routeParams e req =
     (case (x3_Pools e, requestPoolID req) of
        (Some getPool, c # cs) \<Rightarrow>
          (case getPool (c # cs) of
             Inl err \<Rightarrow> Inl err
           | Inr None \<Rightarrow> Inl SwapPoolNotFound
           | Inr (Some p) \<Rightarrow>
               if V3_isSlipstream e (rq_VenueKey req) \<and> vp_TickSpacing p = 0 then Inl TickSpacingRequired
               else if 0 < vp_Fee p then Inr (vp_Fee p, vp_TickSpacing p)
               else Inr (0, vp_TickSpacing p))
      | _ \<Rightarrow> Inr (V3_defaultFee e req, 0))"

definition V3_Quote :: "v3_executor \<Rightarrow> swap_request \<Rightarrow> swap_error + quote" where
  "V3_Quote e req =
     (case x3_Quoter e of
        None \<Rightarrow> Inl NoQuoter
      | Some quoter \<Rightarrow>
          (case rq_AmountIn req of
             None \<Rightarrow> Inl AmountInNotPositive
           | Some amountIn \<Rightarrow>
               if amountIn \<le> 0 then Inl AmountInNotPositive
               else (case V3_routeParams e req of
                       Inl err \<Rightarrow> Inl err
                     | Inr (fee, tickSpacing) \<Rightarrow>
                         (case quoter req fee tickSpacing of
                            Inl err \<Rightarrow> Inl err
                          | Inr amountOut \<Rightarrow>
                              Inr \<lparr>qt_ChainKey = rq_ChainKey req, qt_VenueKey = rq_VenueKey req, qt_VenueKind = rq_VenueKind req,
                                   qt_PoolID = rq_PoolID req, qt_TokenIn = rq_TokenIn req, qt_TokenOut = rq_TokenOut req,
                                   qt_AmountIn = Some amountIn, qt_AmountOut = Some amountOut,
                                   qt_MinOut = Some (MinOut (Some amountOut) (rq_SlippageBps req)), qt_FeeBps = fee div 100\<rparr>))))"

definition V3_args :: "evm_lib \<Rightarrow> swap_request \<Rightarrow> int \<Rightarrow> int \<Rightarrow> int \<Rightarrow> abi_value list" where
  "V3_args lib req route amountIn minOut =
     [AbiTuple [AbiAddress (ev_HexToAddress lib (rq_TokenIn req)), AbiAddress (ev_HexToAddress lib (rq_TokenOut req)),
                AbiInt route, AbiAddress (ev_HexToAddress lib (rq_Recipient req)), AbiInt (uint (rq_DeadlineUnix req)),
                AbiInt amountIn, AbiInt minOut, AbiInt 0]]"

definition V3_BuildTransaction :: "evm_lib \<Rightarrow> v3_executor \<Rightarrow> swap_request \<Rightarrow> quote \<Rightarrow> swap_error + transaction_intent" where
  "V3_BuildTransaction lib e req q =
     (case build_guards (V3_routerAddress e req) req q of
        Inl err \<Rightarrow> Inl err
      | Inr (routerAddress, amountIn, minOut) \<Rightarrow>
          (case V3_routeParams e req of
             Inl err \<Rightarrow> Inl err
           | Inr (fee, tickSpacing) \<Rightarrow>
               if V3_isSlipstream e (rq_VenueKey req)
               then evm_intent lib req routerAddress
                      (ev_Pack lib SlipstreamRouterABI ''exactInputSingle'' (V3_args lib req tickSpacing amountIn minOut))
               else evm_intent lib req routerAddress
                      (ev_Pack lib UniswapV3RouterABI ''exactInputSingle'' (V3_args lib req (uint fee) amountIn minOut))))"

section \<open>The on-chain quoter\<close>

record uniswap_v3_quoter =
  vq_RPCByChain :: "(chain_key \<times> evm_rpc option) list"
  vq_QuoterByVenue :: "(venue_key \<times> address) list"
  vq_SlipstreamByVenue :: "(venue_key \<times> bool) list"

definition first_amount :: "abi_value list option \<Rightarrow> swap_error + int" where
  "first_amount values =
     (case values of
        None \<Rightarrow> Inl UnpackFailed
      | Some [] \<Rightarrow> Inl EmptyResponse
      | Some (AbiInt n # vs) \<Rightarrow> Inr n
      | Some (v # vs) \<Rightarrow> Inl InvalidAmountType)"

definition quoter_call :: "evm_lib \<Rightarrow> evm_rpc \<Rightarrow> address \<Rightarrow> router_abi \<Rightarrow> abi_value list \<Rightarrow> swap_error + int" where
  "quoter_call lib rpc quoter abi args =
     (case ev_Pack lib abi ''quoteExactInputSingle'' args of
        None \<Rightarrow> Inl PackFailed
      | Some data \<Rightarrow>
          (case rpc quoter data of
             None \<Rightarrow> Inl CallFailed
           | Some out \<Rightarrow> first_amount (ev_Unpack lib abi ''quoteExactInputSingle'' out)))"

definition quoter_tuple :: "evm_lib \<Rightarrow> swap_request \<Rightarrow> int \<Rightarrow> abi_value list" where
  "quoter_tuple lib req route =
     [AbiTuple [AbiAddress (ev_HexToAddress lib (rq_TokenIn req)), AbiAddress (ev_HexToAddress lib (rq_TokenOut req)),
                AbiInt (nonNil (rq_AmountIn req)), AbiInt route, AbiInt 0]]"

definition quoteSlipstream :: "evm_lib \<Rightarrow> evm_rpc \<Rightarrow> address \<Rightarrow> swap_request \<Rightarrow> int \<Rightarrow> swap_error + int" where
  "quoteSlipstream lib rpc quoter req tickSpacing =
     (if tickSpacing = 0 then Inl TickSpacingRequired
      else quoter_call lib rpc quoter SlipstreamQuoterABI (quoter_tuple lib req tickSpacing))"

definition quoteV2 :: "evm_lib \<Rightarrow> evm_rpc \<Rightarrow> address \<Rightarrow> swap_request \<Rightarrow> uint32 \<Rightarrow> swap_error + int" where
  "quoteV2 lib rpc quoter req fee = quoter_call lib rpc quoter QuoterV2ABI (quoter_tuple lib req (uint fee))"

definition quoteV1 :: "evm_lib \<Rightarrow> evm_rpc \<Rightarrow> address \<Rightarrow> swap_request \<Rightarrow> uint32 \<Rightarrow> swap_error + int" where
  "quoteV1 lib rpc quoter req fee =
     quoter_call lib rpc quoter QuoterV1ABI
       [AbiAddress (ev_HexToAddress lib (rq_TokenIn req)), AbiAddress (ev_HexToAddress lib (rq_TokenOut req)),
        AbiInt (uint fee), AbiInt (nonNil (rq_AmountIn req)), AbiInt 0]"

definition QuoteExactInputSingle :: "evm_lib \<Rightarrow> uniswap_v3_quoter \<Rightarrow> v3_quoter" where
  "QuoteExactInputSingle lib vq req fee tickSpacing =
     (case map_of (vq_RPCByChain vq) (rq_ChainKey req) of
        Some (Some rpc) \<Rightarrow>
          (case map_of (vq_QuoterByVenue vq) (rq_VenueKey req) of
             None \<Rightarrow> Inl NoQuoterAddress
           | Some quoter \<Rightarrow>
               if quoter = 0 then Inl NoQuoterAddress
               else if map_of (vq_SlipstreamByVenue vq) (rq_VenueKey req) = Some True
               then quoteSlipstream lib rpc quoter req tickSpacing
               else (case quoteV2 lib rpc quoter req fee of
                       Inr amountOut \<Rightarrow> Inr amountOut
                     | Inl err \<Rightarrow> quoteV1 lib rpc quoter req fee))
      | _ \<Rightarrow> Inl NoRPC)"

section \<open>The Solana executor\<close>

record solana_builder =
  sb_Quote :: "swap_request \<Rightarrow> swap_error + quote"
  sb_BuildInstructions :: "swap_request \<Rightarrow> quote \<Rightarrow> swap_error + solana_instruction list"

definition Solana_Quote :: "solana_builder option \<Rightarrow> swap_request \<Rightarrow> swap_error + quote" where
  "Solana_Quote b req = (case b of None \<Rightarrow> Inl NoBuilder | Some b \<Rightarrow> sb_Quote b req)"

definition Solana_BuildTransaction :: "solana_builder option \<Rightarrow> swap_request \<Rightarrow> quote \<Rightarrow> swap_error + transaction_intent" where
  "Solana_BuildTransaction b req q =
     (case b of
        None \<Rightarrow> Inl NoBuilder
      | Some b \<Rightarrow>
          (case sb_BuildInstructions b req q of
             Inl err \<Rightarrow> Inl err
           | Inr instructions \<Rightarrow>
               Inr \<lparr>ti_ChainKey = rq_ChainKey req, ti_VenueKey = rq_VenueKey req, ti_VenueKind = rq_VenueKind req,
                    ti_EVM = None, ti_Solana = instructions\<rparr>))"

end
