(* ===== verification/SwapService.thy ===== *)
theory SwapService
  imports Swap
begin

text \<open>
  The swap engine and the swap service: \<^verbatim>\<open>internal/app/swap\<close> and the wiring of
  \<^verbatim>\<open>internal/bootstrap/swap.go\<close>. The engine is the list of the registered executors, the latest
  first. The pools come from the table of pools, as the service is started with the pool repository.
\<close>

section \<open>The engine\<close>

datatype swap_executor = ExecV2 v2_executor | ExecV3 v3_executor | ExecSolana "solana_builder option"

type_synonym engine = "(venue_kind \<times> swap_executor) list"

definition Register :: "engine \<Rightarrow> venue_kind \<Rightarrow> swap_executor \<Rightarrow> engine" where
  "Register e kind executor = (kind, executor) # e"

definition engine_executor :: "engine \<Rightarrow> venue_kind \<Rightarrow> swap_error + swap_executor" where
  "engine_executor e kind =
     (if kind = VenueKindOther [] then Inl VenueKindRequired
      else (case map_of e kind of None \<Rightarrow> Inl ExecutorNotRegistered | Some executor \<Rightarrow> Inr executor))"

fun executor_Quote :: "swap_executor \<Rightarrow> swap_request \<Rightarrow> swap_error + quote" where
  "executor_Quote (ExecV2 e) req = V2_Quote e req"
| "executor_Quote (ExecV3 e) req = V3_Quote e req"
| "executor_Quote (ExecSolana b) req = Solana_Quote b req"

fun executor_BuildTransaction :: "evm_lib \<Rightarrow> swap_executor \<Rightarrow> swap_request \<Rightarrow> quote \<Rightarrow> swap_error + transaction_intent" where
  "executor_BuildTransaction lib (ExecV2 e) req q = V2_BuildTransaction lib e req q"
| "executor_BuildTransaction lib (ExecV3 e) req q = V3_BuildTransaction lib e req q"
| "executor_BuildTransaction lib (ExecSolana b) req q = Solana_BuildTransaction b req q"

definition Engine_Quote :: "engine \<Rightarrow> swap_request \<Rightarrow> swap_error + quote" where
  "Engine_Quote e req =
     (case engine_executor e (rq_VenueKind req) of Inl err \<Rightarrow> Inl err | Inr executor \<Rightarrow> executor_Quote executor req)"

definition Engine_BuildTransaction :: "evm_lib \<Rightarrow> engine \<Rightarrow> swap_request \<Rightarrow> quote \<Rightarrow> swap_error + transaction_intent" where
  "Engine_BuildTransaction lib e req q =
     (case engine_executor e (rq_VenueKind req) of Inl err \<Rightarrow> Inl err | Inr executor \<Rightarrow> executor_BuildTransaction lib executor req q)"

section \<open>Wiring the engine\<close>

record router_tables =
  rt_UniswapV2 :: "(venue_key \<times> string) list"
  rt_Aerodrome :: "(venue_key \<times> string) list"
  rt_UniswapV3 :: "(venue_key \<times> string) list"
  rt_Slipstream :: "(venue_key \<times> bool) list"

definition add_router :: "venue_key \<Rightarrow> string \<Rightarrow> (venue_key \<times> string) list \<Rightarrow> (venue_key \<times> string) list" where
  "add_router key addr tbl = (if addr \<noteq> [] then (key, addr) # tbl else tbl)"

fun collect_routers :: "venue list \<Rightarrow> router_tables \<Rightarrow> swap_error + router_tables" where
  "collect_routers [] t = Inr t"
| "collect_routers (v # vs) t =
     (if \<not> vn_Enabled v then collect_routers vs t
      else (case vn_Kind v of
              VenueKindUniswapV2 \<Rightarrow>
                (case vn_Config v of
                   Some (UniswapV2Config c) \<Rightarrow>
                     collect_routers vs (t\<lparr>rt_UniswapV2 := add_router (vn_Key v) (v2_RouterAddress c) (rt_UniswapV2 t)\<rparr>)
                 | _ \<Rightarrow> Inl InvalidVenueConfig)
            | VenueKindAerodrome \<Rightarrow>
                (case vn_Config v of
                   Some (AerodromeClassicConfig c) \<Rightarrow>
                     collect_routers vs (t\<lparr>rt_Aerodrome := add_router (vn_Key v) (aero_RouterAddress c) (rt_Aerodrome t)\<rparr>)
                 | _ \<Rightarrow> Inl InvalidVenueConfig)
            | VenueKindUniswapV3 \<Rightarrow>
                (case vn_Config v of
                   Some (UniswapV3Config c) \<Rightarrow>
                     collect_routers vs
                       (t\<lparr>rt_UniswapV3 := add_router (vn_Key v) (v3_RouterAddress c) (rt_UniswapV3 t),
                          rt_Slipstream := (if vn_Key v = VenueKeyAerodromeSlipstream then (vn_Key v, True) # rt_Slipstream t
                                            else rt_Slipstream t)\<rparr>)
                 | _ \<Rightarrow> Inl InvalidVenueConfig)
            | _ \<Rightarrow> collect_routers vs t))"

record swap_engine_options =
  so_PoolProvider :: "pool_provider option"
  so_V3Quoter :: "v3_quoter option"
  so_SolanaBuilders :: "(venue_kind \<times> solana_builder option) list"

definition NewSwapEngine :: "venue_registry \<Rightarrow> swap_engine_options \<Rightarrow> swap_error + engine" where
  "NewSwapEngine venues opts =
     (case collect_routers (venue_All venues) \<lparr>rt_UniswapV2 = [], rt_Aerodrome = [], rt_UniswapV3 = [], rt_Slipstream = []\<rparr> of
        Inl err \<Rightarrow> Inl err
      | Inr t \<Rightarrow>
          (let e = [];
               e = (if rt_UniswapV2 t \<noteq> []
                    then Register e VenueKindUniswapV2
                           (ExecV2 ((NewUniswapV2Executor [] 30 (so_PoolProvider opts))\<lparr>x2_RouterByVenue := rt_UniswapV2 t\<rparr>))
                    else e);
               e = (if rt_Aerodrome t \<noteq> []
                    then Register e VenueKindAerodrome
                           (ExecV2 ((NewUniswapV2Executor [] 30 (so_PoolProvider opts))\<lparr>x2_RouterByVenue := rt_Aerodrome t\<rparr>))
                    else e);
               e = (if rt_UniswapV3 t \<noteq> []
                    then Register e VenueKindUniswapV3
                           (ExecV3 ((NewUniswapV3Executor [] 3000 (so_V3Quoter opts))
                              \<lparr>x3_RouterByVenue := rt_UniswapV3 t, x3_SlipstreamByVenue := rt_Slipstream t,
                               x3_Pools := so_PoolProvider opts\<rparr>))
                    else e)
           in Inr (fold (\<lambda>(kind, builder) e. case builder of None \<Rightarrow> e | Some b \<Rightarrow> Register e kind (ExecSolana (Some b)))
                     (so_SolanaBuilders opts) e)))"

section \<open>The service\<close>

record swap_service =
  ss_assets :: asset_registry
  ss_venues :: venue_registry
  ss_pools :: "pool_row list"
  ss_engine :: engine

definition PoolRepository_provider :: "pool_row list \<Rightarrow> pool_provider" where
  "PoolRepository_provider rows poolID =
     (case GetPool rows poolID of Inl err \<Rightarrow> Inl (PoolStoreFailed err) | Inr p \<Rightarrow> Inr (Some p))"

record service_request =
  sr_ChainKey :: chain_key
  sr_VenueKey :: venue_key
  sr_TokenInSymbol :: string
  sr_TokenOutSymbol :: string
  sr_AmountIn :: string
  sr_Recipient :: string
  sr_Sender :: string
  sr_SlippageBps :: uint32
  sr_DeadlineUnix :: uint64
  sr_PoolID :: string

definition service_venue :: "swap_service \<Rightarrow> chain_key \<Rightarrow> venue_key \<Rightarrow> swap_error + venue" where
  "service_venue s chainKey venueKey =
     (if chainKey = [] then Inl ChainKeyRequired
      else if venueKey = [] then Inl VenueKeyRequired
      else (case venue_Get (ss_venues s) venueKey of
              None \<Rightarrow> Inl ErrUnknownVenue
            | Some v \<Rightarrow>
                if \<not> vn_Enabled v then Inl ErrUnsupportedSwap
                else if vn_ChainKey v \<noteq> chainKey then Inl WrongChain
                else Inr v))"

definition service_assetID :: "swap_service \<Rightarrow> string \<Rightarrow> chain_key \<Rightarrow> swap_error + string" where
  "service_assetID s symbol0 chainKey =
     (let symbol = to_upper (trim_space symbol0) in
      if symbol = [] then Inl SymbolRequired
      else (case asset_Get (ss_assets s) symbol of
              None \<Rightarrow> Inl AssetNotRegistered
            | Some item \<Rightarrow>
                (case filter (\<lambda>d. dp_ChainKey d = chainKey \<and> deployment_AssetID d \<noteq> []) (a_Deployments item) of
                   [] \<Rightarrow> Inl AssetNotDeployed
                 | d # ds \<Rightarrow> Inr (deployment_AssetID d))))"

definition normalizeAssetID :: "chain_key \<Rightarrow> string \<Rightarrow> string" where
  "normalizeAssetID chainKey i = (if chainKey \<noteq> ChainKeySolana then to_lower (trim_space i) else trim_space i)"

definition poolMatches :: "pool \<Rightarrow> string \<Rightarrow> string \<Rightarrow> bool" where
  "poolMatches p tokenIn tokenOut =
     (let token0 = normalizeAssetID (vp_ChainKey p) (vp_Token0 p);
          token1 = normalizeAssetID (vp_ChainKey p) (vp_Token1 p);
          i = normalizeAssetID (vp_ChainKey p) tokenIn;
          out = normalizeAssetID (vp_ChainKey p) tokenOut
      in (token0 = i \<and> token1 = out) \<or> (token0 = out \<and> token1 = i))"

definition findPool :: "swap_service \<Rightarrow> chain_key \<Rightarrow> venue_key \<Rightarrow> string \<Rightarrow> string \<Rightarrow> swap_error + string" where
  "findPool s chainKey venueKey tokenIn tokenOut =
     (case ListPoolsByAssetIDs (ss_pools s) [tokenIn, tokenOut] of
        Inl err \<Rightarrow> Inl (PoolStoreFailed err)
      | Inr pools \<Rightarrow>
          (case filter (\<lambda>p. vp_ChainKey p = chainKey \<and> vp_VenueKey p = venueKey \<and> vp_Enabled p \<and> poolMatches p tokenIn tokenOut) pools of
             [] \<Rightarrow> Inl NoPoolFound
           | p # ps \<Rightarrow> Inr (vp_ID p)))"

definition parseAmount :: "string \<Rightarrow> swap_error + int" where
  "parseAmount value0 =
     (let value = trim_space value0 in
      if value = [] then Inl AmountRequired
      else (case int_of_decimal value of
              None \<Rightarrow> Inl AmountInvalid
            | Some n \<Rightarrow> if n \<le> 0 then Inl AmountInvalid else Inr n))"

text \<open>Seconds since 1970 of a time, which counts nanoseconds since the year 1.\<close>

definition unix_seconds :: "time \<Rightarrow> int" where
  "unix_seconds t = t div 1000000000 - 62135596800"

definition buildRequest :: "env \<Rightarrow> swap_service \<Rightarrow> service_request \<Rightarrow> swap_error + swap_request" where
  "buildRequest env s req =
     (case service_venue s (sr_ChainKey req) (sr_VenueKey req) of
        Inl err \<Rightarrow> Inl err
      | Inr v \<Rightarrow>
     (case service_assetID s (sr_TokenInSymbol req) (sr_ChainKey req) of
        Inl err \<Rightarrow> Inl err
      | Inr tokenIn \<Rightarrow>
     (case service_assetID s (sr_TokenOutSymbol req) (sr_ChainKey req) of
        Inl err \<Rightarrow> Inl err
      | Inr tokenOut \<Rightarrow>
     (case parseAmount (sr_AmountIn req) of
        Inl err \<Rightarrow> Inl err
      | Inr amountIn \<Rightarrow>
     (case (if sr_PoolID req = [] then findPool s (sr_ChainKey req) (vn_Key v) tokenIn tokenOut else Inr (sr_PoolID req)) of
        Inl err \<Rightarrow> Inl err
      | Inr poolID \<Rightarrow>
          Inr \<lparr>rq_ChainKey = sr_ChainKey req, rq_VenueKey = vn_Key v, rq_VenueKind = vn_Kind v, rq_PoolID = poolID,
               rq_PoolAddress = [], rq_TokenIn = tokenIn, rq_TokenOut = tokenOut, rq_AmountIn = Some amountIn,
               rq_Sender = sr_Sender req, rq_Recipient = sr_Recipient req,
               rq_SlippageBps = (if sr_SlippageBps req = 0 then 50 else sr_SlippageBps req),
               rq_DeadlineUnix =
                 (if sr_DeadlineUnix req = 0 then word_of_int (unix_seconds (e_now env + 1200 * 1000000000))
                  else sr_DeadlineUnix req)\<rparr>)))))"

record quote_response =
  qr_ChainKey :: chain_key
  qr_VenueKey :: venue_key
  qr_VenueKind :: venue_kind
  qr_PoolID :: string
  qr_TokenIn :: string
  qr_TokenOut :: string
  qr_AmountIn :: string
  qr_AmountOut :: string
  qr_MinOut :: string
  qr_FeeBps :: uint32

definition quoteResponse :: "quote \<Rightarrow> quote_response" where
  "quoteResponse q =
     \<lparr>qr_ChainKey = qt_ChainKey q, qr_VenueKey = qt_VenueKey q, qr_VenueKind = qt_VenueKind q, qr_PoolID = qt_PoolID q,
      qr_TokenIn = qt_TokenIn q, qr_TokenOut = qt_TokenOut q, qr_AmountIn = bigIntString (qt_AmountIn q),
      qr_AmountOut = bigIntString (qt_AmountOut q), qr_MinOut = bigIntString (qt_MinOut q), qr_FeeBps = qt_FeeBps q\<rparr>"

definition hex_digit :: "nat \<Rightarrow> char" where
  "hex_digit n = char_of (if n < 10 then 48 + n else 87 + n)"

definition hex_encode :: "bytes \<Rightarrow> string" where
  "hex_encode data = concat (map (\<lambda>b. [hex_digit (unat b div 16), hex_digit (unat b mod 16)]) data)"

record evm_transaction_response =
  er_ChainKey :: chain_key
  er_VenueKey :: venue_key
  er_VenueKind :: venue_kind
  er_To :: string
  er_Data :: string
  er_Value :: string

definition evmTransactionResponse :: "transaction_intent \<Rightarrow> evm_transaction_response option" where
  "evmTransactionResponse intent =
     (case ti_EVM intent of
        None \<Rightarrow> None
      | Some tx \<Rightarrow>
          Some \<lparr>er_ChainKey = ti_ChainKey intent, er_VenueKey = ti_VenueKey intent, er_VenueKind = ti_VenueKind intent,
                er_To = et_To tx, er_Data = ''0x'' @ hex_encode (et_Data tx), er_Value = bigIntString (et_Value tx)\<rparr>)"

record transaction_response =
  tr_Quote :: quote_response
  tr_EVM :: "evm_transaction_response option"

definition Service_Quote :: "env \<Rightarrow> swap_service \<Rightarrow> service_request \<Rightarrow> swap_error + quote_response" where
  "Service_Quote env s req =
     (case buildRequest env s req of
        Inl err \<Rightarrow> Inl err
      | Inr swapReq \<Rightarrow>
          (case Engine_Quote (ss_engine s) swapReq of Inl err \<Rightarrow> Inl err | Inr q \<Rightarrow> Inr (quoteResponse q)))"

definition Service_Transaction :: "evm_lib \<Rightarrow> env \<Rightarrow> swap_service \<Rightarrow> service_request \<Rightarrow> swap_error + transaction_response" where
  "Service_Transaction lib env s req =
     (case buildRequest env s req of
        Inl err \<Rightarrow> Inl err
      | Inr swapReq \<Rightarrow>
          (case Engine_Quote (ss_engine s) swapReq of
             Inl err \<Rightarrow> Inl err
           | Inr q \<Rightarrow>
               (case Engine_BuildTransaction lib (ss_engine s) swapReq q of
                  Inl err \<Rightarrow> Inl err
                | Inr intent \<Rightarrow> Inr \<lparr>tr_Quote = quoteResponse q, tr_EVM = evmTransactionResponse intent\<rparr>)))"

definition routerAddress :: "venue \<Rightarrow> swap_error + string" where
  "routerAddress v =
     (case vn_Config v of
        Some (UniswapV2Config c) \<Rightarrow> if v2_RouterAddress c \<noteq> [] then Inr (v2_RouterAddress c) else Inl RouterRequired
      | Some (AerodromeClassicConfig c) \<Rightarrow> if aero_RouterAddress c \<noteq> [] then Inr (aero_RouterAddress c) else Inl RouterRequired
      | Some (UniswapV3Config c) \<Rightarrow> if v3_RouterAddress c \<noteq> [] then Inr (v3_RouterAddress c) else Inl RouterRequired
      | _ \<Rightarrow> Inl RouterRequired)"

definition Service_Approve :: "evm_lib \<Rightarrow> swap_service \<Rightarrow> service_request \<Rightarrow> swap_error + evm_transaction_response" where
  "Service_Approve lib s req =
     (case service_venue s (sr_ChainKey req) (sr_VenueKey req) of
        Inl err \<Rightarrow> Inl err
      | Inr v \<Rightarrow>
          if vn_Kind v \<noteq> VenueKindUniswapV2 \<and> vn_Kind v \<noteq> VenueKindAerodrome \<and> vn_Kind v \<noteq> VenueKindUniswapV3
          then Inl ErrUnsupportedSwap
          else
     (case service_assetID s (sr_TokenInSymbol req) (sr_ChainKey req) of
        Inl err \<Rightarrow> Inl err
      | Inr tokenIn \<Rightarrow>
     (case parseAmount (sr_AmountIn req) of
        Inl err \<Rightarrow> Inl err
      | Inr amountIn \<Rightarrow>
     (case routerAddress v of
        Inl err \<Rightarrow> Inl err
      | Inr router \<Rightarrow>
     (case BuildApproveTransaction lib tokenIn router (Some amountIn) of
        Inl err \<Rightarrow> Inl err
      | Inr tx \<Rightarrow>
          Inr \<lparr>er_ChainKey = sr_ChainKey req, er_VenueKey = vn_Key v, er_VenueKind = vn_Kind v, er_To = et_To tx,
               er_Data = ''0x'' @ hex_encode (et_Data tx), er_Value = bigIntString (et_Value tx)\<rparr>)))))"

end
