(* ===== verification/Pricing.thy ===== *)
theory Pricing
  imports SwapService "HOL-Library.Product_Lexorder"
begin

text \<open>
  Spot prices of the registered assets: \<^verbatim>\<open>internal/app/pricing\<close>. A \<^verbatim>\<open>big.Rat\<close> is a \<^typ>\<open>rat\<close>, printed by
  \<^const>\<open>FloatString\<close> with 18 places and read by \<^const>\<open>rat_set_string\<close>. The maps from deployment keys to deployments are
  lists of deployments with distinct keys in insertion order (Go leaves the order of a map open). The order of \<^verbatim>\<open>sort.Slice\<close>
  is total up to pools of one chain, quote, venue and identifier; the list is sorted stably.
\<close>

section \<open>Descriptions\<close>

record deployment_info =
  di_ChainKey :: chain_key
  di_AssetID :: string
  di_Address :: string
  di_Mint :: string
  di_Symbol :: string
  di_Name :: string
  di_Decimals :: int
  di_Enabled :: bool
  di_Native :: bool
  di_IconURL :: string
  di_ChainLogoURL :: string

record asset_info =
  ai_Symbol :: string
  ai_Name :: string
  ai_Type :: string
  ai_Decimals :: int
  ai_IconURL :: string
  ai_Deployments :: "deployment_info list"

record usdc_route =
  ur_ChainKey :: chain_key
  ur_VenueKey :: venue_key
  ur_PoolID :: string
  ur_FromSymbol :: string
  ur_FromAssetID :: string
  ur_ToSymbol :: string
  ur_ToAssetID :: string
  ur_Price :: string

record pool_price =
  pp_ChainKey :: chain_key
  pp_VenueKey :: venue_key
  pp_PoolID :: string
  pp_BaseSymbol :: string
  pp_BaseAssetID :: string
  pp_QuoteSymbol :: string
  pp_QuoteAssetID :: string
  pp_Price :: string
  pp_InversePrice :: string
  pp_BaseUSDC :: string
  pp_PriceUSDC :: string
  pp_QuoteUSDC :: string
  pp_USDCRoute :: "usdc_route option"
  pp_BaseAsset :: deployment_info
  pp_QuoteAsset :: deployment_info
  pp_ReserveBase :: string
  pp_ReserveQuote :: string
  pp_PoolKind :: pool_kind

record asset_prices =
  ap_Symbol :: string
  ap_Asset :: asset_info
  ap_Prices :: "pool_price list"

record deployment_ref =
  dr_Symbol :: string
  dr_DeploymentSymbol :: string
  dr_Name :: string
  dr_Type :: string
  dr_ChainKey :: chain_key
  dr_AssetID :: string
  dr_Address :: string
  dr_Mint :: string
  dr_Decimals :: int
  dr_Enabled :: bool
  dr_Native :: bool
  dr_IconURL :: string
  dr_ChainLogoURL :: string

definition effectiveIconURL :: "string \<Rightarrow> string \<Rightarrow> string" where
  "effectiveIconURL assetIconURL deploymentIconURL = (if deploymentIconURL \<noteq> [] then deploymentIconURL else assetIconURL)"

definition effectiveSymbol :: "string \<Rightarrow> string \<Rightarrow> string" where
  "effectiveSymbol assetSymbol deploymentSymbol = (if trim_space deploymentSymbol \<noteq> [] then deploymentSymbol else assetSymbol)"

definition effectiveName :: "string \<Rightarrow> string \<Rightarrow> string" where
  "effectiveName assetName deploymentName = (if trim_space deploymentName \<noteq> [] then deploymentName else assetName)"

definition deployment_decimals :: "asset \<Rightarrow> deployment \<Rightarrow> int" where
  "deployment_decimals item d = (if dp_Decimals d = 0 then a_Decimals item else dp_Decimals d)"

definition deploymentRefs :: "asset \<Rightarrow> deployment_ref list" where
  "deploymentRefs item =
     map (\<lambda>d. \<lparr>dr_Symbol = a_Symbol item, dr_DeploymentSymbol = effectiveSymbol (a_Symbol item) (dp_Symbol d),
               dr_Name = effectiveName (a_Name item) (dp_Name d), dr_Type = a_Type item, dr_ChainKey = dp_ChainKey d,
               dr_AssetID = trim_space (deployment_AssetID d), dr_Address = dp_Address d, dr_Mint = dp_Mint d,
               dr_Decimals = deployment_decimals item d, dr_Enabled = True, dr_Native = dp_Native d,
               dr_IconURL = effectiveIconURL (a_IconURL item) (dp_IconURL d), dr_ChainLogoURL = dp_ChainLogoURL d\<rparr>)
       (filter (\<lambda>d. trim_space (deployment_AssetID d) \<noteq> []) (a_Deployments item))"

definition deploymentInfos :: "asset \<Rightarrow> deployment_info list" where
  "deploymentInfos item =
     map (\<lambda>d. \<lparr>di_ChainKey = dp_ChainKey d, di_AssetID = trim_space (deployment_AssetID d), di_Address = dp_Address d,
               di_Mint = dp_Mint d, di_Symbol = effectiveSymbol (a_Symbol item) (dp_Symbol d),
               di_Name = effectiveName (a_Name item) (dp_Name d), di_Decimals = deployment_decimals item d, di_Enabled = True,
               di_Native = dp_Native d, di_IconURL = effectiveIconURL (a_IconURL item) (dp_IconURL d),
               di_ChainLogoURL = dp_ChainLogoURL d\<rparr>)
       (a_Deployments item)"

definition assetInfo :: "asset \<Rightarrow> asset_info" where
  "assetInfo item =
     \<lparr>ai_Symbol = a_Symbol item, ai_Name = a_Name item, ai_Type = a_Type item, ai_Decimals = a_Decimals item,
      ai_IconURL = a_IconURL item, ai_Deployments = deploymentInfos item\<rparr>"

definition deploymentInfo :: "deployment_ref \<Rightarrow> deployment_info" where
  "deploymentInfo r =
     \<lparr>di_ChainKey = dr_ChainKey r, di_AssetID = dr_AssetID r, di_Address = dr_Address r, di_Mint = dr_Mint r,
      di_Symbol = dr_DeploymentSymbol r, di_Name = dr_Name r, di_Decimals = dr_Decimals r, di_Enabled = dr_Enabled r,
      di_Native = dr_Native r, di_IconURL = dr_IconURL r, di_ChainLogoURL = dr_ChainLogoURL r\<rparr>"

section \<open>Keys and indices\<close>

definition deploymentKey :: "chain_key \<Rightarrow> string \<Rightarrow> string" where
  "deploymentKey chainKey assetID =
     chainKey @ '':'' @ (if chainKey \<noteq> ChainKeySolana then to_lower (trim_space assetID) else trim_space assetID)"

definition ref_key :: "deployment_ref \<Rightarrow> string" where
  "ref_key r = deploymentKey (dr_ChainKey r) (dr_AssetID r)"

type_synonym deployment_map = "deployment_ref list"

definition ref_map :: "deployment_ref list \<Rightarrow> deployment_map" where
  "ref_map refs = fold (row_save ref_key) refs []"

definition deploymentIndex :: "asset_registry \<Rightarrow> deployment_map" where
  "deploymentIndex assets = ref_map (concat (map deploymentRefs (asset_All assets)))"

definition refsBySymbol :: "deployment_map \<Rightarrow> string \<Rightarrow> deployment_ref list" where
  "refsBySymbol deployments symbol = filter (\<lambda>r. equal_fold (dr_Symbol r) symbol) deployments"

section \<open>Prices of one pool\<close>

definition positive :: "int option \<Rightarrow> bool" where
  "positive v = (case v of None \<Rightarrow> False | Some n \<Rightarrow> 0 < n)"

definition compareBig :: "int option \<Rightarrow> int option \<Rightarrow> int" where
  "compareBig left right = (let l = nonNil left; r = nonNil right in if l < r then -1 else if l = r then 0 else 1)"

definition pow10 :: "int \<Rightarrow> int" where
  "pow10 decimals = 10 ^ nat decimals"

definition trimDecimal :: "string \<Rightarrow> string" where
  "trimDecimal value0 =
     (let value = trim_right CHR ''.'' (trim_right CHR ''0'' value0) in if value = [] then ''0'' else value)"

definition reservePrice :: "int \<Rightarrow> int \<Rightarrow> int \<Rightarrow> int \<Rightarrow> string" where
  "reservePrice baseReserve quoteReserve baseDecimals quoteDecimals =
     trimDecimal (FloatString (of_int (quoteReserve * pow10 baseDecimals) / of_int (baseReserve * pow10 quoteDecimals)) 18)"

definition sqrtPrice :: "int \<Rightarrow> int \<Rightarrow> int \<Rightarrow> bool \<Rightarrow> string" where
  "sqrtPrice sqrtPriceX96 baseDecimals quoteDecimals baseIsToken0 =
     (let ratio = sqrtPriceX96 * sqrtPriceX96; q192 = 2 ^ 192 :: int in
      trimDecimal (FloatString
        (if baseIsToken0 then of_int (ratio * pow10 baseDecimals) / of_int (q192 * pow10 quoteDecimals)
         else of_int (q192 * pow10 baseDecimals) / of_int (ratio * pow10 quoteDecimals)) 18))"

definition multiplyDecimalStrings :: "string \<Rightarrow> string \<Rightarrow> string option" where
  "multiplyDecimalStrings left right =
     (case (rat_set_string left, rat_set_string right) of
        (Some l, Some r) \<Rightarrow> Some (trimDecimal (FloatString (l * r) 18)) | _ \<Rightarrow> None)"

definition divideDecimalStrings :: "string \<Rightarrow> string \<Rightarrow> string option" where
  "divideDecimalStrings left right =
     (case (rat_set_string left, rat_set_string right) of
        (Some l, Some r) \<Rightarrow> if r = 0 then None else Some (trimDecimal (FloatString (l / r) 18)) | _ \<Rightarrow> None)"

definition inverseDecimalString :: "string \<Rightarrow> string" where
  "inverseDecimalString value =
     (case rat_set_string value of None \<Rightarrow> [] | Some r \<Rightarrow> if r = 0 then [] else trimDecimal (FloatString (inverse r) 18))"

definition pool_spot :: "int option \<Rightarrow> int option \<Rightarrow> int option \<Rightarrow> int \<Rightarrow> int \<Rightarrow> bool \<Rightarrow> string" where
  "pool_spot baseReserve quoteReserve sqrtPriceX96 baseDecimals quoteDecimals baseIsToken0 =
     (if positive baseReserve \<and> positive quoteReserve
      then reservePrice (nonNil baseReserve) (nonNil quoteReserve) baseDecimals quoteDecimals
      else sqrtPrice (nonNil sqrtPriceX96) baseDecimals quoteDecimals baseIsToken0)"

text \<open>The base of a pool with its identifier and reserve, the quote with its identifier and reserve, and whether the base
  is token 0.\<close>

definition pool_sides :: "pool \<Rightarrow> deployment_map \<Rightarrow> deployment_map \<Rightarrow>
    ((deployment_ref \<times> string \<times> int option) \<times> (deployment_ref \<times> string \<times> int option) \<times> bool) option" where
  "pool_sides p targetByKey allDeployments =
     (let token0Key = deploymentKey (vp_ChainKey p) (vp_Token0 p); token1Key = deploymentKey (vp_ChainKey p) (vp_Token1 p) in
      (case row_find ref_key token0Key targetByKey of
         Some base \<Rightarrow>
           (case row_find ref_key token1Key allDeployments of
              None \<Rightarrow> None
            | Some q \<Rightarrow> Some ((base, vp_Token0 p, vp_Reserve0 p), (q, vp_Token1 p, vp_Reserve1 p), True))
       | None \<Rightarrow>
           (case row_find ref_key token1Key targetByKey of
              None \<Rightarrow> None
            | Some base \<Rightarrow>
                (case row_find ref_key token0Key allDeployments of
                   None \<Rightarrow> None
                 | Some q \<Rightarrow> Some ((base, vp_Token1 p, vp_Reserve1 p), (q, vp_Token0 p, vp_Reserve0 p), False)))))"

definition poolPrice :: "string \<Rightarrow> pool \<Rightarrow> deployment_map \<Rightarrow> deployment_map \<Rightarrow> pool_price option" where
  "poolPrice symbol p targetByKey allDeployments =
     (if vp_Kind p = PoolKindCLMM \<and> \<not> positive (vp_SqrtPriceX96 p) then None
      else (case pool_sides p targetByKey allDeployments of
              None \<Rightarrow> None
            | Some ((base, baseID, baseReserve), (q, quoteID, quoteReserve), baseIsToken0) \<Rightarrow>
                if (dr_Symbol q = symbol \<or> \<not> positive baseReserve \<or> \<not> positive quoteReserve) \<and>
                   (dr_Symbol q = symbol \<or> \<not> positive (vp_SqrtPriceX96 p)) then None
                else
                  (let price = pool_spot baseReserve quoteReserve (vp_SqrtPriceX96 p) (dr_Decimals base) (dr_Decimals q) baseIsToken0 in
                   Some \<lparr>pp_ChainKey = vp_ChainKey p, pp_VenueKey = vp_VenueKey p, pp_PoolID = vp_ID p,
                         pp_BaseSymbol = dr_Symbol base, pp_BaseAssetID = baseID, pp_QuoteSymbol = dr_Symbol q,
                         pp_QuoteAssetID = quoteID, pp_Price = price, pp_InversePrice = inverseDecimalString price,
                         pp_BaseUSDC = [], pp_PriceUSDC = [], pp_QuoteUSDC = [], pp_USDCRoute = None,
                         pp_BaseAsset = deploymentInfo base, pp_QuoteAsset = deploymentInfo q,
                         pp_ReserveBase = bigIntString baseReserve, pp_ReserveQuote = bigIntString quoteReserve,
                         pp_PoolKind = vp_Kind p\<rparr>)))"

definition poolPriceForBase :: "pool \<Rightarrow> deployment_ref \<Rightarrow> deployment_ref \<Rightarrow> string option" where
  "poolPriceForBase p base q =
     (if vp_Kind p = PoolKindCLMM \<and> \<not> positive (vp_SqrtPriceX96 p) then None
      else
        (let baseKey = deploymentKey (vp_ChainKey p) (dr_AssetID base); quoteKey = deploymentKey (vp_ChainKey p) (dr_AssetID q);
             token0Key = deploymentKey (vp_ChainKey p) (vp_Token0 p); token1Key = deploymentKey (vp_ChainKey p) (vp_Token1 p);
             spot = (\<lambda>b qr first. if (positive b \<and> positive qr) \<or> positive (vp_SqrtPriceX96 p)
               then Some (pool_spot b qr (vp_SqrtPriceX96 p) (dr_Decimals base) (dr_Decimals q) first) else None)
         in if token0Key = baseKey \<and> token1Key = quoteKey then spot (vp_Reserve0 p) (vp_Reserve1 p) True
            else if token1Key = baseKey \<and> token0Key = quoteKey then spot (vp_Reserve1 p) (vp_Reserve0 p) False
            else None))"

section \<open>Conversion to USDC\<close>

record usdc_conversion =
  uc_price :: string
  uc_route :: usdc_route
  uc_usdcReserve :: "int option"
  uc_poolLiquidity :: "int option"

definition usdcRoute :: "pool \<Rightarrow> deployment_ref \<Rightarrow> deployment_ref \<Rightarrow> string \<Rightarrow> usdc_route" where
  "usdcRoute p base usdc price =
     \<lparr>ur_ChainKey = vp_ChainKey p, ur_VenueKey = vp_VenueKey p, ur_PoolID = vp_ID p, ur_FromSymbol = dr_Symbol base,
      ur_FromAssetID = dr_AssetID base, ur_ToSymbol = dr_Symbol usdc, ur_ToAssetID = dr_AssetID usdc, ur_Price = price\<rparr>"

definition betterUSDCConversion :: "usdc_conversion \<Rightarrow> usdc_conversion \<Rightarrow> bool" where
  "betterUSDCConversion candidate existing =
     (if positive (uc_usdcReserve candidate) \<or> positive (uc_usdcReserve existing)
      then compareBig (uc_usdcReserve candidate) (uc_usdcReserve existing) > 0
      else compareBig (uc_poolLiquidity candidate) (uc_poolLiquidity existing) > 0)"

definition reserveForAsset :: "pool \<Rightarrow> string \<Rightarrow> int option" where
  "reserveForAsset p assetID =
     (let target = deploymentKey (vp_ChainKey p) assetID in
      if target = deploymentKey (vp_ChainKey p) (vp_Token0 p) then vp_Reserve0 p
      else if target = deploymentKey (vp_ChainKey p) (vp_Token1 p) then vp_Reserve1 p
      else None)"

text \<open>The deployments to look up, each once, without those of USDC.\<close>

fun usdc_assetIDs :: "pool_price list \<Rightarrow> string list \<Rightarrow> string list" where
  "usdc_assetIDs [] seen = []"
| "usdc_assetIDs (p # ps) seen =
     (let kb = deploymentKey (pp_ChainKey p) (pp_BaseAssetID p); kq = deploymentKey (pp_ChainKey p) (pp_QuoteAssetID p);
          useB = (\<not> equal_fold (pp_BaseSymbol p) ''USDC'' \<and> kb \<notin> set seen);
          seen1 = (if useB then kb # seen else seen);
          useQ = (\<not> equal_fold (pp_QuoteSymbol p) ''USDC'' \<and> kq \<notin> set seen1);
          seen2 = (if useQ then kq # seen1 else seen1)
      in (if useB then [pp_BaseAssetID p] else []) @ (if useQ then [pp_QuoteAssetID p] else []) @ usdc_assetIDs ps seen2)"

definition usdc_only :: "pool_price \<Rightarrow> pool_price" where
  "usdc_only p =
     (let p = (if equal_fold (pp_BaseSymbol p) ''USDC'' then p\<lparr>pp_BaseUSDC := ''1'', pp_PriceUSDC := ''1''\<rparr> else p) in
      if equal_fold (pp_QuoteSymbol p) ''USDC''
      then (let p = p\<lparr>pp_QuoteUSDC := ''1''\<rparr> in
            if pp_BaseUSDC p = [] then p\<lparr>pp_BaseUSDC := pp_Price p, pp_PriceUSDC := pp_Price p\<rparr> else p)
      else p)"

definition pool_conversion :: "deployment_map \<Rightarrow> deployment_ref list \<Rightarrow> pool \<Rightarrow> (string \<times> usdc_conversion) option" where
  "pool_conversion allDeployments usdcByChain p =
     (case row_find dr_ChainKey (vp_ChainKey p) usdcByChain of
        None \<Rightarrow> None
      | Some usdc \<Rightarrow>
          (let token0Key = deploymentKey (vp_ChainKey p) (vp_Token0 p); token1Key = deploymentKey (vp_ChainKey p) (vp_Token1 p);
               usdcKey = deploymentKey (vp_ChainKey p) (dr_AssetID usdc)
           in if token0Key \<noteq> usdcKey \<and> token1Key \<noteq> usdcKey then None
              else (case row_find ref_key (if token0Key = usdcKey then token1Key else token0Key) allDeployments of
                      None \<Rightarrow> None
                    | Some base \<Rightarrow>
                        if equal_fold (dr_Symbol base) ''USDC'' then None
                        else (case poolPriceForBase p base usdc of
                                None \<Rightarrow> None
                              | Some price \<Rightarrow>
                                  Some (deploymentKey (dr_ChainKey base) (dr_AssetID base),
                                    \<lparr>uc_price = price, uc_route = usdcRoute p base usdc price,
                                     uc_usdcReserve = reserveForAsset p (dr_AssetID usdc), uc_poolLiquidity = vp_Liquidity p\<rparr>)))))"

fun collect_conversions :: "deployment_map \<Rightarrow> deployment_ref list \<Rightarrow> pool list \<Rightarrow> (string \<times> usdc_conversion) list \<Rightarrow> (string \<times> usdc_conversion) list" where
  "collect_conversions allDeployments usdcByChain [] acc = acc"
| "collect_conversions allDeployments usdcByChain (p # ps) acc =
     (case pool_conversion allDeployments usdcByChain p of
        None \<Rightarrow> collect_conversions allDeployments usdcByChain ps acc
      | Some (key, c) \<Rightarrow>
          (case map_of acc key of
             None \<Rightarrow> collect_conversions allDeployments usdcByChain ps ((key, c) # acc)
           | Some existing \<Rightarrow>
               if betterUSDCConversion c existing then collect_conversions allDeployments usdcByChain ps ((key, c) # acc)
               else collect_conversions allDeployments usdcByChain ps acc))"

definition convert_price :: "(string \<times> usdc_conversion) list \<Rightarrow> pool_price \<Rightarrow> pool_price" where
  "convert_price conversions p0 =
     (let p1 = (if equal_fold (pp_BaseSymbol p0) ''USDC'' then p0\<lparr>pp_BaseUSDC := ''1''\<rparr>
                else (case map_of conversions (deploymentKey (pp_ChainKey p0) (pp_BaseAssetID p0)) of
                        None \<Rightarrow> p0
                      | Some c \<Rightarrow> p0\<lparr>pp_BaseUSDC := uc_price c, pp_USDCRoute := Some (uc_route c)\<rparr>));
          p2 = (if equal_fold (pp_QuoteSymbol p1) ''USDC'' then p1\<lparr>pp_QuoteUSDC := ''1''\<rparr>
                else (case map_of conversions (deploymentKey (pp_ChainKey p1) (pp_QuoteAssetID p1)) of
                        None \<Rightarrow> p1
                      | Some c \<Rightarrow>
                          (let p = p1\<lparr>pp_QuoteUSDC := uc_price c\<rparr> in
                           if pp_USDCRoute p = None then p\<lparr>pp_USDCRoute := Some (uc_route c)\<rparr> else p)));
          p3 = (if pp_BaseUSDC p2 = [] \<and> pp_QuoteUSDC p2 \<noteq> []
                then (case multiplyDecimalStrings (pp_Price p2) (pp_QuoteUSDC p2) of
                        None \<Rightarrow> p2 | Some v \<Rightarrow> p2\<lparr>pp_BaseUSDC := v\<rparr>) else p2);
          p4 = (if pp_QuoteUSDC p3 = [] \<and> pp_BaseUSDC p3 \<noteq> []
                then (case divideDecimalStrings (pp_BaseUSDC p3) (pp_Price p3) of
                        None \<Rightarrow> p3 | Some v \<Rightarrow> p3\<lparr>pp_QuoteUSDC := v\<rparr>) else p3)
      in p4\<lparr>pp_PriceUSDC := pp_BaseUSDC p4\<rparr>)"

datatype pricing_error = ErrSymbolRequired | ErrUnknownAsset | ErrNoAssetDeployment | PricingStoreFailed pool_error

record pricing_service =
  ps_assets :: asset_registry
  ps_pools :: "pool_row list"

definition list_pools :: "pricing_service \<Rightarrow> string list \<Rightarrow> pricing_error + pool list" where
  "list_pools s ids =
     (case ListPoolsByAssetIDs (ps_pools s) ids of Inl err \<Rightarrow> Inl (PricingStoreFailed err) | Inr pools \<Rightarrow> Inr pools)"

definition enrichUSDCPrices :: "pricing_service \<Rightarrow> pool_price list \<Rightarrow> deployment_map \<Rightarrow> pricing_error + pool_price list" where
  "enrichUSDCPrices s prices allDeployments =
     (if prices = [] then Inr prices
      else
        (let usdcRefs = refsBySymbol allDeployments ''USDC'' in
         if usdcRefs = [] then Inr prices
         else
           (let assetIDs = usdc_assetIDs prices [] in
            if assetIDs = [] then Inr (map usdc_only prices)
            else (case list_pools s (assetIDs @ map dr_AssetID usdcRefs) of
                    Inl err \<Rightarrow> Inl err
                  | Inr pools \<Rightarrow>
                      (let usdcByChain = fold (row_save dr_ChainKey) usdcRefs []
                       in Inr (map (convert_price (collect_conversions allDeployments usdcByChain pools [])) prices))))))"

section \<open>The service\<close>

definition Prices :: "pricing_service \<Rightarrow> string \<Rightarrow> pricing_error + asset_prices" where
  "Prices s symbol0 =
     (let symbol = to_upper (trim_space symbol0) in
      if symbol = [] then Inl ErrSymbolRequired
      else (case asset_Get (ps_assets s) symbol of
              None \<Rightarrow> Inl ErrUnknownAsset
            | Some target \<Rightarrow>
                (let targetRefs = deploymentRefs target in
                 if targetRefs = [] then Inl ErrNoAssetDeployment
                 else (case list_pools s (map dr_AssetID targetRefs) of
                         Inl err \<Rightarrow> Inl err
                       | Inr pools \<Rightarrow>
                           (let allDeployments = deploymentIndex (ps_assets s);
                                prices = List.map_filter (\<lambda>p. poolPrice symbol p (ref_map targetRefs) allDeployments) pools;
                                sorted = sort_key (\<lambda>p. (pp_ChainKey p, pp_QuoteSymbol p, pp_VenueKey p, pp_PoolID p)) prices
                            in (case enrichUSDCPrices s sorted allDeployments of
                                  Inl err \<Rightarrow> Inl err
                                | Inr ps \<Rightarrow> Inr \<lparr>ap_Symbol = symbol, ap_Asset = assetInfo target, ap_Prices = ps\<rparr>))))))"

definition Assets :: "pricing_service \<Rightarrow> asset_info list" where
  "Assets s = sort_key ai_Symbol (map assetInfo (asset_All (ps_assets s)))"

definition SymbolsForPools :: "pricing_service \<Rightarrow> pool list \<Rightarrow> string list" where
  "SymbolsForPools s pools =
     (let deployments = deploymentIndex (ps_assets s);
          found = List.map_filter (\<lambda>(p, token). map_option dr_Symbol (row_find ref_key (deploymentKey (vp_ChainKey p) token) deployments))
            (concat (map (\<lambda>p. [(p, vp_Token0 p), (p, vp_Token1 p)]) pools))
      in sort (remdups found))"

section \<open>Update events\<close>

record update_event =
  ue_Type :: string
  ue_Data :: asset_prices

record symbol_update_event =
  se_Type :: string
  se_Symbol :: string

definition NewUpdateEvent :: "asset_prices \<Rightarrow> update_event" where
  "NewUpdateEvent prices = \<lparr>ue_Type = ''prices.updated'', ue_Data = prices\<rparr>"

definition NewSymbolUpdateEvent :: "string \<Rightarrow> symbol_update_event" where
  "NewSymbolUpdateEvent symbol = \<lparr>se_Type = ''prices.updated'', se_Symbol = symbol\<rparr>"

end
