(* ===== verification/SwapProps.thy ===== *)
theory SwapProps
  imports SwapService
begin

text \<open>
  What a swap promises: the constant product quote, the minimum a transaction enforces, the router that
  is approved and called, and the pool that is found.
\<close>

section \<open>The constant product\<close>

lemma fee_factor:
  assumes "(fee :: uint32) < 10000"
  shows "0 < uint (10000 - fee)" and "uint (10000 - fee) \<le> 10000"
proof -
  have f: "uint fee < 10000" using assms by (simp add: word_less_def)
  have "uint (10000 - fee) = 10000 - uint fee"
    using f uint_sub_lem [of fee 10000] by simp
  then show "0 < uint (10000 - fee)" "uint (10000 - fee) \<le> 10000" using f by simp_all
qed

lemma constantProductOut_le_iff:
  assumes "0 < a" "0 < rin" "0 < rout" "fee < 10000"
  shows "y \<le> constantProductOut a rin rout fee \<longleftrightarrow>
    rin * 10000 * rout \<le> (rin * 10000 + a * uint (10000 - fee)) * (rout - y)"
proof -
  let ?w = "a * uint (10000 - fee)"
  have w: "0 < ?w" using assms fee_factor by simp
  then have d: "0 < rin * 10000 + ?w" using assms by simp
  have "y \<le> constantProductOut a rin rout fee \<longleftrightarrow> y \<le> (?w * rout) div (rin * 10000 + ?w)"
    using assms by (simp add: constantProductOut_def Let_def)
  also have "\<dots> \<longleftrightarrow> y * (rin * 10000 + ?w) \<le> ?w * rout"
  proof
    assume "y \<le> (?w * rout) div (rin * 10000 + ?w)"
    then have "y * (rin * 10000 + ?w) \<le> ((?w * rout) div (rin * 10000 + ?w)) * (rin * 10000 + ?w)"
      using d by (intro mult_right_mono) auto
    also have "\<dots> = ?w * rout - (?w * rout) mod (rin * 10000 + ?w)" by (simp add: minus_mod_eq_div_mult)
    also have "\<dots> \<le> ?w * rout" using d pos_mod_sign [of "rin * 10000 + ?w" "?w * rout"] by linarith
    finally show "y * (rin * 10000 + ?w) \<le> ?w * rout" .
  next
    assume "y * (rin * 10000 + ?w) \<le> ?w * rout"
    then show "y \<le> (?w * rout) div (rin * 10000 + ?w)"
      using d zdiv_mono1 [of "y * (rin * 10000 + ?w)" "?w * rout" "rin * 10000 + ?w"] by simp
  qed
  also have "\<dots> \<longleftrightarrow> rin * 10000 * rout \<le> (rin * 10000 + ?w) * (rout - y)"
    by (simp add: algebra_simps)
  finally show ?thesis .
qed

text \<open>C27: The quoted output is the largest amount that keeps the pool's product with the fee taken off
  the input; it is below the reserve and the product of the reserves never falls.\<close>

theorem constantProductOut_exact:
  assumes "0 < a" "0 < rin" "0 < rout" "fee < 10000"
  shows "(\<lambda>y. rin * 10000 * rout \<le> (rin * 10000 + a * uint (10000 - fee)) * (rout - y)) =
      (\<lambda>y. y \<le> constantProductOut a rin rout fee) \<and>
    0 \<le> constantProductOut a rin rout fee \<and> constantProductOut a rin rout fee < rout \<and>
    rin * rout \<le> (rin + a) * (rout - constantProductOut a rin rout fee)"
proof -
  let ?o = "constantProductOut a rin rout fee" and ?w = "a * uint (10000 - fee)"
  note le = constantProductOut_le_iff [OF assms]
  have w: "0 < ?w" "?w \<le> a * 10000" using assms fee_factor [of fee] by simp_all
  have "\<not> rout \<le> ?o" unfolding le using assms by (simp add: not_le)
  then have lt: "?o < rout" by simp
  have "rin * 10000 * rout \<le> (rin * 10000 + ?w) * (rout - ?o)" using le [of ?o] by simp
  also have "\<dots> \<le> (rin * 10000 + a * 10000) * (rout - ?o)" using lt w by (intro mult_right_mono) auto
  finally have k: "rin * rout \<le> (rin + a) * (rout - ?o)" by (simp add: algebra_simps)
  have "0 \<le> ?o" unfolding le using assms w by simp
  then show ?thesis using lt k le by auto
qed

theorem constantProductOut_exact_witness:
  "constantProductOut 1000 10000 20000 30 = 1813 \<and> constantProductOut 1000 10000 20000 30 < 20000"
  using constantProductOut_exact [of 1000 10000 20000 30] by (simp add: constantProductOut_def)

section \<open>The contract of an executor\<close>

text \<open>
  An executor of an Ethereum venue quotes a positive amount with the minimum computed from the
  slippage, and builds the call that spends the requested amount for at least the quoted minimum.
  \<open>data r a m\<close> is the call data for spending \<open>a\<close> against at least \<open>m\<close>, \<open>router\<close> the contract called.
\<close>

locale evm_executor =
  fixes quote :: "swap_request \<Rightarrow> swap_error + quote"
    and build :: "swap_request \<Rightarrow> quote \<Rightarrow> swap_error + transaction_intent"
    and data :: "swap_request \<Rightarrow> int \<Rightarrow> int \<Rightarrow> bytes option"
    and router :: "swap_request \<Rightarrow> swap_error + string"
    and lib :: evm_lib
  assumes quote_ok: "quote r = Inr q \<Longrightarrow>
      \<exists>a out. rq_AmountIn r = Some a \<and> 0 < a \<and> qt_AmountIn q = Some a \<and> qt_AmountOut q = Some out \<and> qt_TokenIn q = rq_TokenIn r \<and>
        qt_MinOut q = Some (MinOut (Some out) (rq_SlippageBps r))"
    and build_ok: "build r q = Inr t \<Longrightarrow>
      \<exists>addr a m code. router r = Inr addr \<and> rq_AmountIn r = Some a \<and> qt_MinOut q = Some m \<and> data r a m = Some code \<and>
        ti_EVM t = Some \<lparr>et_To = ev_Hex lib (ev_HexToAddress lib addr), et_Data = code, et_Value = Some 0\<rparr>"
begin

lemma protected:
  assumes "quote r = Inr q" and "build r q = Inr t"
  shows "\<exists>addr a out code. router r = Inr addr \<and> rq_AmountIn r = Some a \<and> 0 < a \<and> qt_AmountIn q = Some a \<and>
    qt_AmountOut q = Some out \<and> qt_TokenIn q = rq_TokenIn r \<and> qt_MinOut q = Some (MinOut (Some out) (rq_SlippageBps r)) \<and>
    data r a (MinOut (Some out) (rq_SlippageBps r)) = Some code \<and>
    ti_EVM t = Some \<lparr>et_To = ev_Hex lib (ev_HexToAddress lib addr), et_Data = code, et_Value = Some 0\<rparr>"
  using quote_ok [OF assms(1)] build_ok [OF assms(2)] by force

lemma calls_router:
  assumes "build r q = Inr t"
  shows "\<exists>addr tx. router r = Inr addr \<and> ti_EVM t = Some tx \<and> et_To tx = ev_Hex lib (ev_HexToAddress lib addr)"
  using build_ok [OF assms] by force

end

definition V2_data :: "evm_lib \<Rightarrow> swap_request \<Rightarrow> int \<Rightarrow> int \<Rightarrow> bytes option" where
  "V2_data lib r a m = ev_Pack lib UniswapV2RouterABI ''swapExactTokensForTokens'' (V2_args lib r a m)"

definition V3_data :: "evm_lib \<Rightarrow> v3_executor \<Rightarrow> swap_request \<Rightarrow> int \<Rightarrow> int \<Rightarrow> bytes option" where
  "V3_data lib e r a m =
     (case V3_routeParams e r of
        Inl err \<Rightarrow> None
      | Inr (fee, tickSpacing) \<Rightarrow>
          if V3_isSlipstream e (rq_VenueKey r)
          then ev_Pack lib SlipstreamRouterABI ''exactInputSingle'' (V3_args lib r tickSpacing a m)
          else ev_Pack lib UniswapV3RouterABI ''exactInputSingle'' (V3_args lib r (uint fee) a m))"

lemma build_guards_Inr:
  "build_guards router r q = Inr (addr, a, m) \<Longrightarrow> router = Inr addr \<and> rq_AmountIn r = Some a \<and> qt_MinOut q = Some m"
  by (auto simp: build_guards_def split: sum.splits option.splits if_splits)

lemma evm_intent_Inr:
  "evm_intent lib r addr packed = Inr t \<Longrightarrow> \<exists>code. packed = Some code \<and>
     ti_EVM t = Some \<lparr>et_To = ev_Hex lib (ev_HexToAddress lib addr), et_Data = code, et_Value = Some 0\<rparr>"
  by (auto simp: evm_intent_def split: option.splits)

lemma V2_Quote_Inr:
  assumes "V2_Quote e r = Inr q"
  shows "\<exists>a out. rq_AmountIn r = Some a \<and> 0 < a \<and> qt_AmountIn q = Some a \<and> qt_AmountOut q = Some out \<and> qt_TokenIn q = rq_TokenIn r \<and>
        qt_MinOut q = Some (MinOut (Some out) (rq_SlippageBps r))"
  using assms by (auto simp: V2_Quote_def Let_def split: option.splits if_splits sum.splits prod.splits)

lemma V3_Quote_Inr:
  assumes "V3_Quote e r = Inr q"
  shows "\<exists>a out. rq_AmountIn r = Some a \<and> 0 < a \<and> qt_AmountIn q = Some a \<and> qt_AmountOut q = Some out \<and> qt_TokenIn q = rq_TokenIn r \<and>
        qt_MinOut q = Some (MinOut (Some out) (rq_SlippageBps r))"
  using assms by (auto simp: V3_Quote_def split: option.splits if_splits sum.splits prod.splits)

lemma V2_Build_Inr:
  assumes "V2_BuildTransaction lib e r q = Inr t"
  shows "\<exists>addr a m code. V2_routerAddress e r = Inr addr \<and> rq_AmountIn r = Some a \<and> qt_MinOut q = Some m \<and>
     V2_data lib r a m = Some code \<and>
     ti_EVM t = Some \<lparr>et_To = ev_Hex lib (ev_HexToAddress lib addr), et_Data = code, et_Value = Some 0\<rparr>"
proof -
  obtain addr a m where g: "build_guards (V2_routerAddress e r) r q = Inr (addr, a, m)"
    and t: "evm_intent lib r addr (V2_data lib r a m) = Inr t"
    using assms by (auto simp: V2_BuildTransaction_def V2_data_def split: sum.splits prod.splits)
  then show ?thesis using build_guards_Inr [OF g] evm_intent_Inr [OF t] by blast
qed

lemma V3_Build_Inr:
  assumes "V3_BuildTransaction lib e r q = Inr t"
  shows "\<exists>addr a m code. V3_routerAddress e r = Inr addr \<and> rq_AmountIn r = Some a \<and> qt_MinOut q = Some m \<and>
     V3_data lib e r a m = Some code \<and>
     ti_EVM t = Some \<lparr>et_To = ev_Hex lib (ev_HexToAddress lib addr), et_Data = code, et_Value = Some 0\<rparr>"
proof -
  obtain addr a m where g: "build_guards (V3_routerAddress e r) r q = Inr (addr, a, m)"
    and t: "evm_intent lib r addr (V3_data lib e r a m) = Inr t"
    using assms by (auto simp: V3_BuildTransaction_def V3_data_def split: sum.splits prod.splits if_splits)
  then show ?thesis using build_guards_Inr [OF g] evm_intent_Inr [OF t] by blast
qed

interpretation v2: evm_executor "V2_Quote e" "V2_BuildTransaction lib e" "V2_data lib" "V2_routerAddress e" lib for lib e
  by unfold_locales (erule V2_Quote_Inr, erule V2_Build_Inr)

interpretation v3: evm_executor "V3_Quote e" "V3_BuildTransaction lib e" "V3_data lib e" "V3_routerAddress e" lib for lib e
  by unfold_locales (erule V3_Quote_Inr, erule V3_Build_Inr)

lemma MinOut_bounds:
  assumes "0 \<le> out"
  shows "0 \<le> MinOut (Some out) slip" and "MinOut (Some out) slip \<le> out"
proof -
  let ?u = "uint (10000 - (if 10000 < slip then 10000 else slip))"
  have "?u \<le> 10000"
  proof (cases "slip < 10000")
    case True
    then show ?thesis using fee_factor(2) [of slip] by (simp add: not_less less_imp_le)
  next
    case False
    then have "(if 10000 < slip then 10000 else slip) = 10000" by auto
    then show ?thesis by simp
  qed
  moreover have "0 \<le> ?u" by simp
  ultimately have "out * ?u \<le> out * 10000" "0 \<le> out * ?u" using assms by (simp_all add: mult_left_mono)
  then show "0 \<le> MinOut (Some out) slip" "MinOut (Some out) slip \<le> out"
    by (simp_all add: MinOut_def Let_def)
qed

section \<open>The engine as it is wired\<close>

definition no_routers :: router_tables where
  "no_routers = \<lparr>rt_UniswapV2 = [], rt_Aerodrome = [], rt_UniswapV3 = [], rt_Slipstream = []\<rparr>"

text \<open>The router that a venue contributes to the table of its kind.\<close>

definition kind_routers :: "venue_kind \<Rightarrow> router_tables \<Rightarrow> (venue_key \<times> string) list" where
  "kind_routers k t =
     (case k of VenueKindUniswapV2 \<Rightarrow> rt_UniswapV2 t | VenueKindAerodrome \<Rightarrow> rt_Aerodrome t
              | VenueKindUniswapV3 \<Rightarrow> rt_UniswapV3 t | _ \<Rightarrow> [])"

lemma map_of_add_router:
  "map_of (add_router key addr tbl) k = (if k = key \<and> addr \<noteq> [] then Some addr else map_of tbl k)"
  by (simp add: add_router_def)

text \<open>One step of the loop, for an enabled venue.\<close>

lemma collect_routers_step:
  assumes "collect_routers (v # vs) t = Inr t'"
  shows "\<exists>t1. collect_routers vs t1 = Inr t' \<and>
    (\<forall>k key. map_of (kind_routers k t1) key =
      (case routerAddress v of
         Inr addr \<Rightarrow> if vn_Enabled v \<and> k = vn_Kind v \<and> key = vn_Key v \<and>
             k \<in> {VenueKindUniswapV2, VenueKindAerodrome, VenueKindUniswapV3} then Some addr else map_of (kind_routers k t) key
       | Inl e \<Rightarrow> map_of (kind_routers k t) key))"
proof (cases "vn_Enabled v")
  case False
  then show ?thesis using assms by (intro exI [of _ t]) (auto split: sum.splits)
next
  case True
  note a = assms [simplified True collect_routers.simps simp_thms if_False]
  consider (v2) "vn_Kind v = VenueKindUniswapV2" | (ae) "vn_Kind v = VenueKindAerodrome" | (v3) "vn_Kind v = VenueKindUniswapV3"
    | (other) "vn_Kind v \<notin> {VenueKindUniswapV2, VenueKindAerodrome, VenueKindUniswapV3}" by auto
  then show ?thesis
  proof cases
    case v2
    then obtain c where c: "vn_Config v = Some (UniswapV2Config c)"
      and r: "collect_routers vs (t\<lparr>rt_UniswapV2 := add_router (vn_Key v) (v2_RouterAddress c) (rt_UniswapV2 t)\<rparr>) = Inr t'"
      using a by (auto split: option.splits venue_config.splits)
    show ?thesis using True v2 c
      by (intro exI [of _ "t\<lparr>rt_UniswapV2 := add_router (vn_Key v) (v2_RouterAddress c) (rt_UniswapV2 t)\<rparr>"])
        (auto simp: r routerAddress_def kind_routers_def map_of_add_router split: venue_kind.splits)
  next
    case ae
    then obtain c where c: "vn_Config v = Some (AerodromeClassicConfig c)"
      and r: "collect_routers vs (t\<lparr>rt_Aerodrome := add_router (vn_Key v) (aero_RouterAddress c) (rt_Aerodrome t)\<rparr>) = Inr t'"
      using a by (auto split: option.splits venue_config.splits)
    show ?thesis using True ae c
      by (intro exI [of _ "t\<lparr>rt_Aerodrome := add_router (vn_Key v) (aero_RouterAddress c) (rt_Aerodrome t)\<rparr>"])
        (auto simp: r routerAddress_def kind_routers_def map_of_add_router split: venue_kind.splits)
  next
    case v3
    let ?sl = "if vn_Key v = VenueKeyAerodromeSlipstream then (vn_Key v, True) # rt_Slipstream t else rt_Slipstream t"
    obtain c where c: "vn_Config v = Some (UniswapV3Config c)"
      and r: "collect_routers vs (t\<lparr>rt_UniswapV3 := add_router (vn_Key v) (v3_RouterAddress c) (rt_UniswapV3 t), rt_Slipstream := ?sl\<rparr>) = Inr t'"
      using a v3 by (auto split: option.splits venue_config.splits)
    show ?thesis using True v3 c
      by (intro exI [of _ "t\<lparr>rt_UniswapV3 := add_router (vn_Key v) (v3_RouterAddress c) (rt_UniswapV3 t), rt_Slipstream := ?sl\<rparr>"])
        (auto simp: r routerAddress_def kind_routers_def map_of_add_router split: venue_kind.splits)
  next
    case other
    then have "collect_routers vs t = Inr t'" using a by (auto split: venue_kind.splits)
    then show ?thesis using other by (intro exI [of _ t]) (auto split: sum.splits)
  qed
qed

lemma collect_routers_other:
  "collect_routers vs t = Inr t' \<Longrightarrow> key \<notin> vn_Key ` set vs \<Longrightarrow> map_of (kind_routers k t') key = map_of (kind_routers k t) key"
proof (induction vs arbitrary: t)
  case Nil
  then show ?case by simp
next
  case (Cons v vs)
  obtain t1 where t1: "collect_routers vs t1 = Inr t'"
    and s: "map_of (kind_routers k t1) key =
      (case routerAddress v of
         Inr addr \<Rightarrow> if vn_Enabled v \<and> k = vn_Kind v \<and> key = vn_Key v \<and>
             k \<in> {VenueKindUniswapV2, VenueKindAerodrome, VenueKindUniswapV3} then Some addr else map_of (kind_routers k t) key
       | Inl e \<Rightarrow> map_of (kind_routers k t) key)"
    using collect_routers_step [OF Cons.prems(1)] by blast
  have "map_of (kind_routers k t1) key = map_of (kind_routers k t) key"
    using Cons.prems(2) unfolding s by (auto split: sum.splits)
  then show ?case using Cons.IH [OF t1] Cons.prems(2) by simp
qed

text \<open>The table of a kind holds the router of each of its venues.\<close>

lemma collect_routers_lookup:
  assumes "collect_routers vs t = Inr t'" "distinct (map vn_Key vs)" "v \<in> set vs" "map_of (kind_routers (vn_Kind v) t) (vn_Key v) = None"
    and "map_of (kind_routers (vn_Kind v) t') (vn_Key v) = Some addr"
  shows "routerAddress v = Inr addr"
  using assms
proof (induction vs arbitrary: t)
  case Nil
  then show ?case by simp
next
  case (Cons w vs)
  obtain t1 where t1: "collect_routers vs t1 = Inr t'"
    and s: "map_of (kind_routers (vn_Kind v) t1) (vn_Key v) =
      (case routerAddress w of
         Inr addr \<Rightarrow> if vn_Enabled w \<and> vn_Kind v = vn_Kind w \<and> vn_Key v = vn_Key w \<and>
             vn_Kind v \<in> {VenueKindUniswapV2, VenueKindAerodrome, VenueKindUniswapV3} then Some addr
             else map_of (kind_routers (vn_Kind v) t) (vn_Key v)
       | Inl e \<Rightarrow> map_of (kind_routers (vn_Kind v) t) (vn_Key v))"
    using collect_routers_step [OF Cons.prems(1)] by blast
  show ?case
  proof (cases "v = w")
    case True
    then have "map_of (kind_routers (vn_Kind v) t') (vn_Key v) = map_of (kind_routers (vn_Kind v) t1) (vn_Key v)"
      using Cons.prems(2) by (intro collect_routers_other [OF t1]) auto
    then show ?thesis using s Cons.prems True by (auto split: sum.splits if_splits)
  next
    case False
    then have "v \<in> set vs" using Cons.prems(3) by simp
    moreover from this have "vn_Key v \<in> vn_Key ` set vs" by (rule imageI)
    ultimately have "v \<in> set vs" "vn_Key v \<noteq> vn_Key w" using Cons.prems(2) by (simp, metis distinct.simps(2) list.simps(9) set_map)
    then have "map_of (kind_routers (vn_Kind v) t1) (vn_Key v) = None" using s Cons.prems(4) by (auto split: sum.splits)
    then show ?thesis using Cons.IH [OF t1] Cons.prems \<open>v \<in> set vs\<close> by simp
  qed
qed

lemma kind_routers_none [simp]: "kind_routers k no_routers = []"
  by (simp add: kind_routers_def no_routers_def split: venue_kind.splits)

text \<open>Every executor of the wired engine calls the router that its table names for the venue.\<close>

definition wired_executor :: "swap_engine_options \<Rightarrow> router_tables \<Rightarrow> venue_kind \<Rightarrow> swap_executor" where
  "wired_executor opts t kind =
     (if kind = VenueKindUniswapV3
      then ExecV3 ((NewUniswapV3Executor [] 3000 (so_V3Quoter opts))
             \<lparr>x3_RouterByVenue := rt_UniswapV3 t, x3_SlipstreamByVenue := rt_Slipstream t, x3_Pools := so_PoolProvider opts\<rparr>)
      else ExecV2 ((NewUniswapV2Executor [] 30 (so_PoolProvider opts))\<lparr>x2_RouterByVenue := kind_routers kind t\<rparr>))"

lemma NewSwapEngine_executor:
  assumes "NewSwapEngine venues opts = Inr e" "so_SolanaBuilders opts = []" "engine_executor e kind = Inr x"
  obtains t where "collect_routers (venue_All venues) no_routers = Inr t" "x = wired_executor opts t kind"
    and "kind \<in> {VenueKindUniswapV2, VenueKindAerodrome, VenueKindUniswapV3}"
proof -
  obtain t where t: "collect_routers (venue_All venues) no_routers = Inr t"
    using assms(1) by (auto simp: NewSwapEngine_def no_routers_def split: sum.splits)
  have "x = wired_executor opts t kind \<and> kind \<in> {VenueKindUniswapV2, VenueKindAerodrome, VenueKindUniswapV3}"
    using assms t
    by (auto simp: NewSwapEngine_def no_routers_def [symmetric] engine_executor_def Register_def wired_executor_def kind_routers_def Let_def
        split: if_splits option.splits)
  then show ?thesis using that t by blast
qed

definition executor_router :: "swap_executor \<Rightarrow> swap_request \<Rightarrow> swap_error + string" where
  "executor_router x r =
     (case x of ExecV2 e \<Rightarrow> V2_routerAddress e r | ExecV3 e \<Rightarrow> V3_routerAddress e r | ExecSolana b \<Rightarrow> Inl NoBuilder)"

definition executor_data :: "evm_lib \<Rightarrow> swap_executor \<Rightarrow> swap_request \<Rightarrow> int \<Rightarrow> int \<Rightarrow> bytes option" where
  "executor_data lib x r a m =
     (case x of ExecV2 e \<Rightarrow> V2_data lib r a m | ExecV3 e \<Rightarrow> V3_data lib e r a m | ExecSolana b \<Rightarrow> None)"

lemma wired_protected:
  assumes "executor_Quote (wired_executor opts t kind) r = Inr q"
    and "executor_BuildTransaction lib (wired_executor opts t kind) r q = Inr i"
  shows "\<exists>addr a out code. executor_router (wired_executor opts t kind) r = Inr addr \<and> rq_AmountIn r = Some a \<and> 0 < a \<and>
    qt_AmountIn q = Some a \<and> qt_AmountOut q = Some out \<and> qt_TokenIn q = rq_TokenIn r \<and> qt_MinOut q = Some (MinOut (Some out) (rq_SlippageBps r)) \<and>
    executor_data lib (wired_executor opts t kind) r a (MinOut (Some out) (rq_SlippageBps r)) = Some code \<and>
    ti_EVM i = Some \<lparr>et_To = ev_Hex lib (ev_HexToAddress lib addr), et_Data = code, et_Value = Some 0\<rparr>"
proof (cases "kind = VenueKindUniswapV3")
  case True
  then show ?thesis
    using assms v3.protected by (simp add: wired_executor_def executor_router_def executor_data_def)
next
  case False
  then show ?thesis
    using assms v2.protected by (simp add: wired_executor_def executor_router_def executor_data_def)
qed

lemma wired_router:
  assumes "collect_routers (venue_All venues) no_routers = Inr t" "distinct (map vn_Key venues)" "v \<in> set venues"
    and "executor_router (wired_executor opts t (vn_Kind v)) r = Inr addr" "rq_VenueKey r = vn_Key v"
    and "vn_Kind v \<in> {VenueKindUniswapV2, VenueKindAerodrome, VenueKindUniswapV3}"
  shows "routerAddress v = Inr addr"
proof (rule collect_routers_lookup [OF assms(1)])
  show "distinct (map vn_Key (venue_All venues))"
    using assms(2) by (simp add: venue_All_def distinct_map)
  show "v \<in> set (venue_All venues)" using assms(3) by (simp add: venue_All_def)
  show "map_of (kind_routers (vn_Kind v) no_routers) (vn_Key v) = None" by simp
  show "map_of (kind_routers (vn_Kind v) t) (vn_Key v) = Some addr"
    using assms(4-6)
    by (auto simp: wired_executor_def executor_router_def V2_routerAddress_def V3_routerAddress_def router_lookup_def
        NewUniswapV2Executor_def NewUniswapV3Executor_def kind_routers_def split: option.splits if_splits)
qed

lemma buildRequest_Inr:
  assumes "buildRequest env s req = Inr r"
  obtains v a where "service_venue s (sr_ChainKey req) (sr_VenueKey req) = Inr v" "rq_VenueKey r = vn_Key v" "rq_VenueKind r = vn_Kind v"
    and "parseAmount (sr_AmountIn req) = Inr a" "rq_AmountIn r = Some a"
    and "service_assetID s (sr_TokenInSymbol req) (sr_ChainKey req) = Inr (rq_TokenIn r)"
  using assms by (auto simp: buildRequest_def split: sum.splits if_splits)

lemma service_venue_Inr:
  "service_venue s c k = Inr v \<Longrightarrow> v \<in> set (ss_venues s) \<and> vn_Enabled v \<and> vn_Key v = k \<and> vn_ChainKey v = c"
  by (auto simp: service_venue_def venue_Get_def dest: row_find_key split: if_splits option.splits)

section \<open>Transactions and approvals\<close>

text \<open>The call that an executor's data encodes, with its arguments written out.\<close>

lemma call_arguments:
  assumes "executor_data lib (wired_executor opts t kind) r a m = Some code"
  shows "let tokenIn = ev_HexToAddress lib (rq_TokenIn r); tokenOut = ev_HexToAddress lib (rq_TokenOut r);
         recipient = ev_HexToAddress lib (rq_Recipient r); deadline = uint (rq_DeadlineUnix r) in
     if kind = VenueKindUniswapV3
     then \<exists>abi \<in> {UniswapV3RouterABI, SlipstreamRouterABI}. \<exists>route. ev_Pack lib abi ''exactInputSingle''
       [AbiTuple [AbiAddress tokenIn, AbiAddress tokenOut, AbiInt route, AbiAddress recipient, AbiInt deadline,
                  AbiInt a, AbiInt m, AbiInt 0]] = Some code
     else ev_Pack lib UniswapV2RouterABI ''swapExactTokensForTokens''
       [AbiInt a, AbiInt m, AbiAddresses [tokenIn, tokenOut], AbiAddress recipient, AbiInt deadline] = Some code"
  using assms
  by (auto simp: executor_data_def wired_executor_def V2_data_def V3_data_def V2_args_def V3_args_def Let_def
      split: sum.splits prod.splits if_splits)

lemma MinOut_value:
  shows "MinOut (Some out) slip = out * (10000 - min 10000 (uint slip)) div 10000"
proof -
  have "uint (10000 - (if 10000 < slip then 10000 else slip)) = 10000 - min 10000 (uint slip)"
  proof (cases "slip < 10000")
    case True
    then have "uint slip < 10000" by (simp add: word_less_alt)
    then show ?thesis using uint_sub_lem [of slip 10000] True by (simp add: not_less less_imp_le)
  next
    case False
    then have ge: "10000 \<le> slip" by (simp add: not_less)
    then have "(if 10000 < slip then 10000 else slip) = 10000" by auto
    moreover have "10000 \<le> uint slip" using ge by (simp add: word_le_def)
    ultimately show ?thesis by simp
  qed
  then show ?thesis by (simp add: MinOut_def Let_def)
qed

text \<open>C28: A swap transaction of the wired service sends no native coin, and its call data are those of
  a swap that spends the requested amount and carries as its minimum output the one shown in the quote,
  which is the quoted output less the slippage, rounded down. The arguments are written out: the first two of
  \<^verbatim>\<open>swapExactTokensForTokens\<close> are the amount in and the minimum out, and so are the sixth and the
  seventh field of the parameters of \<^verbatim>\<open>exactInputSingle\<close>.\<close>

theorem Transaction_enforces_quote:
  assumes "NewSwapEngine (ss_venues s) opts = Inr (ss_engine s)" and "so_SolanaBuilders opts = []"
    and "Service_Transaction lib env s req = Inr resp"
  shows "\<exists>r a out m code er. buildRequest env s req = Inr r \<and> parseAmount (sr_AmountIn req) = Inr a \<and>
    (let tokenIn = ev_HexToAddress lib (rq_TokenIn r); tokenOut = ev_HexToAddress lib (rq_TokenOut r);
         recipient = ev_HexToAddress lib (rq_Recipient r); deadline = uint (rq_DeadlineUnix r) in
     if rq_VenueKind r = VenueKindUniswapV3
     then \<exists>abi \<in> {UniswapV3RouterABI, SlipstreamRouterABI}. \<exists>route. ev_Pack lib abi ''exactInputSingle''
       [AbiTuple [AbiAddress tokenIn, AbiAddress tokenOut, AbiInt route, AbiAddress recipient, AbiInt deadline,
                  AbiInt a, AbiInt m, AbiInt 0]] = Some code
     else ev_Pack lib UniswapV2RouterABI ''swapExactTokensForTokens''
       [AbiInt a, AbiInt m, AbiAddresses [tokenIn, tokenOut], AbiAddress recipient, AbiInt deadline] = Some code) \<and>
    tr_EVM resp = Some er \<and> er_Data er = ''0x'' @ hex_encode code \<and> er_Value er = ''0'' \<and>
    qr_AmountIn (tr_Quote resp) = itoa a \<and> qr_AmountOut (tr_Quote resp) = itoa out \<and>
    qr_MinOut (tr_Quote resp) = itoa m \<and>
    m = out * (10000 - min 10000 (uint (rq_SlippageBps r))) div 10000 \<and> (out < 0 \<or> m \<le> out)"
proof -
  obtain r q i where r: "buildRequest env s req = Inr r" and q: "Engine_Quote (ss_engine s) r = Inr q"
    and i: "Engine_BuildTransaction lib (ss_engine s) r q = Inr i"
    and resp: "resp = \<lparr>tr_Quote = quoteResponse q, tr_EVM = evmTransactionResponse i\<rparr>"
    using assms(3) by (auto simp: Service_Transaction_def split: sum.splits)
  obtain x where x: "engine_executor (ss_engine s) (rq_VenueKind r) = Inr x" "executor_Quote x r = Inr q"
    "executor_BuildTransaction lib x r q = Inr i"
    using q i by (auto simp: Engine_Quote_def Engine_BuildTransaction_def split: sum.splits)
  obtain t where t: "x = wired_executor opts t (rq_VenueKind r)"
    using NewSwapEngine_executor [OF assms(1,2) x(1)] by metis
  obtain a where a: "parseAmount (sr_AmountIn req) = Inr a" "rq_AmountIn r = Some a" using buildRequest_Inr [OF r] by metis
  obtain addr out code where p: "qt_AmountIn q = Some a" "qt_AmountOut q = Some out"
    "qt_MinOut q = Some (MinOut (Some out) (rq_SlippageBps r))"
    "executor_data lib x r a (MinOut (Some out) (rq_SlippageBps r)) = Some code"
    "ti_EVM i = Some \<lparr>et_To = ev_Hex lib (ev_HexToAddress lib addr), et_Data = code, et_Value = Some 0\<rparr>"
    using wired_protected [OF x(2,3) [unfolded t]] a(2) unfolding t [symmetric] by auto
  let ?m = "MinOut (Some out) (rq_SlippageBps r)"
  have m: "?m = out * (10000 - min 10000 (uint (rq_SlippageBps r))) div 10000" "out < 0 \<or> ?m \<le> out"
    using MinOut_bounds(2) by (simp add: MinOut_value, meson not_less)
  have z: "itoa 0 = ''0''" by (simp add: itoa_def)
  obtain er where er: "evmTransactionResponse i = Some er" "er_Data er = ''0x'' @ hex_encode code" "er_Value er = ''0''"
    using p(5) z by (simp add: evmTransactionResponse_def bigIntString_def)
  show ?thesis
  proof (intro exI conjI)
    show "buildRequest env s req = Inr r" "parseAmount (sr_AmountIn req) = Inr a" by (fact r, fact a(1))
    show "tr_EVM resp = Some er" "er_Data er = ''0x'' @ hex_encode code" "er_Value er = ''0''"
      by (simp add: resp er(1), fact er(2), fact er(3))
    show "qr_AmountIn (tr_Quote resp) = itoa a" "qr_AmountOut (tr_Quote resp) = itoa out" "qr_MinOut (tr_Quote resp) = itoa ?m"
      using p(1-3) by (simp_all add: resp quoteResponse_def bigIntString_def)
    show "?m = out * (10000 - min 10000 (uint (rq_SlippageBps r))) div 10000" "out < 0 \<or> ?m \<le> out"
      by (fact m(1), fact m(2))
  qed (rule call_arguments [OF p(4) [unfolded t]])
qed

text \<open>The spender that \<^verbatim>\<open>Approve\<close> authorises for an amount is the contract that the swap transaction of the same
  request calls, with the amount it spends.\<close>

theorem Approve_matches_swap_router:
  assumes "NewSwapEngine (ss_venues s) opts = Inr (ss_engine s)" and "so_SolanaBuilders opts = []"
    and "distinct (map vn_Key (ss_venues s))"
    and "Service_Transaction lib env s req = Inr resp" and "Service_Approve lib s req = Inr ap"
  shows "\<exists>addr a tok er code. tr_EVM resp = Some er \<and> er_To er = ev_Hex lib (ev_HexToAddress lib addr) \<and>
    er_Data ap = ''0x'' @ hex_encode code \<and> ev_Pack lib ERC20ABI ''approve'' [AbiAddress (ev_HexToAddress lib addr), AbiInt a] = Some code \<and>
    parseAmount (sr_AmountIn req) = Inr a \<and> er_To ap = ev_Hex lib (ev_HexToAddress lib tok) \<and> qr_TokenIn (tr_Quote resp) = tok"
proof -
  obtain r q i where r: "buildRequest env s req = Inr r" and q: "Engine_Quote (ss_engine s) r = Inr q"
    and i: "Engine_BuildTransaction lib (ss_engine s) r q = Inr i"
    and resp: "resp = \<lparr>tr_Quote = quoteResponse q, tr_EVM = evmTransactionResponse i\<rparr>"
    using assms(4) by (auto simp: Service_Transaction_def split: sum.splits)
  obtain x where x: "engine_executor (ss_engine s) (rq_VenueKind r) = Inr x" "executor_Quote x r = Inr q"
    "executor_BuildTransaction lib x r q = Inr i"
    using q i by (auto simp: Engine_Quote_def Engine_BuildTransaction_def split: sum.splits)
  obtain v a where v: "service_venue s (sr_ChainKey req) (sr_VenueKey req) = Inr v" "rq_VenueKey r = vn_Key v" "rq_VenueKind r = vn_Kind v"
    and a: "parseAmount (sr_AmountIn req) = Inr a"
    and tok: "service_assetID s (sr_TokenInSymbol req) (sr_ChainKey req) = Inr (rq_TokenIn r)"
    using buildRequest_Inr [OF r] by metis
  obtain t where t: "collect_routers (venue_All (ss_venues s)) no_routers = Inr t" "x = wired_executor opts t (vn_Kind v)"
    "vn_Kind v \<in> {VenueKindUniswapV2, VenueKindAerodrome, VenueKindUniswapV3}"
    using NewSwapEngine_executor [OF assms(1,2) x(1)] v(3) by metis
  obtain addr code where p: "executor_router x r = Inr addr" "qt_TokenIn q = rq_TokenIn r"
    "ti_EVM i = Some \<lparr>et_To = ev_Hex lib (ev_HexToAddress lib addr), et_Data = code, et_Value = Some 0\<rparr>"
    using wired_protected [OF x(2,3) [unfolded t(2)]] unfolding t(2) [symmetric] by blast
  have addr: "routerAddress v = Inr addr"
    using wired_router [OF t(1) assms(3) _ p(1) [unfolded t(2)] v(2) t(3)] service_venue_Inr [OF v(1)] by blast
  obtain tx where tx: "BuildApproveTransaction lib (rq_TokenIn r) addr (Some a) = Inr tx"
    "er_To ap = et_To tx" "er_Data ap = ''0x'' @ hex_encode (et_Data tx)"
    using assms(5) by (auto simp: Service_Approve_def v(1) tok a addr split: if_splits sum.splits)
  show ?thesis
    using tx a p by (auto simp: BuildApproveTransaction_def resp quoteResponse_def evmTransactionResponse_def
        split: if_splits option.splits)
qed

section \<open>Finding a pool\<close>

lemma decode_pools_set:
  "decode_pools rs = Inr ps \<Longrightarrow> p \<in> set ps \<longleftrightarrow> (\<exists>r \<in> set rs. toVenuePool r = Inr p)"
  by (induction rs arbitrary: ps) (auto split: sum.splits)

lemma decode_pools_all: "decode_pools rs = Inr ps \<Longrightarrow> r \<in> set rs \<Longrightarrow> \<exists>p. toVenuePool r = Inr p"
  by (induction rs arbitrary: ps) (auto split: sum.splits)

definition row_matches :: "chain_key \<Rightarrow> string \<Rightarrow> string \<Rightarrow> pool_row \<Rightarrow> bool" where
  "row_matches c tokenIn tokenOut r \<longleftrightarrow>
     {normalizeAssetID c (pr_Token0 r), normalizeAssetID c (pr_Token1 r)} = {normalizeAssetID c tokenIn, normalizeAssetID c tokenOut}"

definition usable_row :: "chain_key \<Rightarrow> venue_key \<Rightarrow> string \<Rightarrow> string \<Rightarrow> pool_row \<Rightarrow> bool" where
  "usable_row c v tokenIn tokenOut r \<longleftrightarrow>
     pr_Enabled r \<and> pr_ChainKey r = c \<and> pr_VenueKey r = v \<and> row_matches c tokenIn tokenOut r"

lemma poolMatches_row:
  "toVenuePool r = Inr p \<Longrightarrow> poolMatches p tokenIn tokenOut = row_matches (pr_ChainKey r) tokenIn tokenOut r"
  by (auto simp: poolMatches_def row_matches_def doubleton_eq_iff Let_def dest: toVenuePool_fields)

text \<open>The query of the store returns every enabled pool that matches the pair.\<close>

lemma matching_row_queried:
  assumes "row_matches c tokenIn tokenOut r" and "trim_space tokenIn \<noteq> []" "trim_space tokenOut \<noteq> []"
    and "trim_space (pr_Token0 r) = pr_Token0 r"
    and "poolAssetQueryIDs [tokenIn, tokenOut] = (exact, lowered)"
  shows "pr_Token0 r \<in> set exact \<or> to_lower (pr_Token0 r) \<in> set lowered"
  using assms(1-4) poolAssetQueryIDs_sets [OF assms(5)]
  by (auto simp: row_matches_def normalizeAssetID_def doubleton_eq_iff split: if_splits)

text \<open>A pool is found exactly if the store holds an enabled pool of the chain and the venue whose two
  tokens are the two given ones up to letter case (exactly on Solana), and the pool found is such a one.\<close>

theorem findPool_exact:
  assumes "ListPoolsByAssetIDs (ss_pools s) [tokenIn, tokenOut] = Inr pools"
    and "list_all (\<lambda>r. trim_space (pr_Token0 r) = pr_Token0 r) (ss_pools s)"
    and "trim_space tokenIn \<noteq> []" and "trim_space tokenOut \<noteq> []"
  shows "(\<exists>i. findPool s c v tokenIn tokenOut = Inr i) = list_ex (usable_row c v tokenIn tokenOut) (ss_pools s) \<and>
    {i. findPool s c v tokenIn tokenOut = Inr i} \<subseteq> pr_ID ` set (filter (usable_row c v tokenIn tokenOut) (ss_pools s))"
proof -
  let ?good = "usable_row c v tokenIn tokenOut"
  obtain exact lowered where q: "poolAssetQueryIDs [tokenIn, tokenOut] = (exact, lowered)" by (metis prod.exhaust)
  have "trim_space tokenIn \<in> set exact" using poolAssetQueryIDs_sets(1) [OF q] assms(3) by simp
  then have ne: "exact \<noteq> []" by force
  define rows where "rows = filter (\<lambda>r. pr_Enabled r \<and>
             (pr_Token0 r \<in> set exact \<or> pr_Token1 r \<in> set exact \<or>
              to_lower (pr_Token0 r) \<in> set lowered \<or> to_lower (pr_Token1 r) \<in> set lowered)) (ss_pools s)"
  have d: "decode_pools rows = Inr pools"
    using assms(1) ne by (simp add: ListPoolsByAssetIDs_def q rows_def)
  define ok where "ok = (\<lambda>p. vp_ChainKey p = c \<and> vp_VenueKey p = v \<and> vp_Enabled p \<and> poolMatches p tokenIn tokenOut)"
  have good_ok: "?good r = ok p" if "toVenuePool r = Inr p" for r p
    using toVenuePool_fields [OF that] poolMatches_row [OF that] by (auto simp: usable_row_def ok_def)
  have sound: "\<exists>r \<in> set (ss_pools s). ?good r \<and> pr_ID r = vp_ID p" if "p \<in> set pools" "ok p" for p
    using that decode_pools_set [OF d] good_ok toVenuePool_fields unfolding rows_def by fastforce
  have complete: "\<exists>p \<in> set pools. ok p" if "r \<in> set (ss_pools s)" "?good r" for r
  proof -
    have "trim_space (pr_Token0 r) = pr_Token0 r" using assms(2) that by (simp add: list_all_iff)
    then have "r \<in> set rows"
      using that matching_row_queried [OF _ assms(3,4) _ q, of c r] by (auto simp: rows_def usable_row_def)
    then show ?thesis using decode_pools_all [OF d] decode_pools_set [OF d] good_ok that by metis
  qed
  have f: "findPool s c v tokenIn tokenOut = (case filter ok pools of [] \<Rightarrow> Inl NoPoolFound | p # ps \<Rightarrow> Inr (vp_ID p))"
    by (simp add: findPool_def assms(1) ok_def)
  show ?thesis
  proof (cases "filter ok pools")
    case Nil
    then show ?thesis using complete by (auto simp: f list_ex_iff filter_empty_conv)
  next
    case (Cons p ps)
    then have "p \<in> set (filter ok pools)" by simp
    then have "p \<in> set pools" "ok p" by simp_all
    then obtain r where r: "r \<in> set (ss_pools s)" "?good r" "pr_ID r = vp_ID p" using sound by blast
    have i: "findPool s c v tokenIn tokenOut = Inr (pr_ID r)" by (simp add: f Cons r(3))
    have "list_ex ?good (ss_pools s)" using r by (auto simp: list_ex_iff)
    then show ?thesis using r(1,2) by (simp add: i)
  qed
qed

section \<open>One swap\<close>

text \<open>Two tokens on one chain, a constant product venue and one pool of 10000 against 20000.\<close>

definition example_lib :: evm_lib where
  "example_lib =
     \<lparr>ev_IsHexAddress = (\<lambda>a. has_prefix a ''0x''), ev_HexToAddress = (\<lambda>a. of_nat (length a)),
      ev_Hex = (\<lambda>a. ''0x'' @ itoa (uint a)), ev_Pack = (\<lambda>abi name args. Some [of_nat (length args)]), ev_Unpack = (\<lambda>abi name code. None)\<rparr>"

definition example_deployment :: "string \<Rightarrow> deployment" where
  "example_deployment addr =
     \<lparr>dp_ChainKey = ''base'', dp_Address = addr, dp_Name = [], dp_Symbol = [], dp_Mint = [], dp_Decimals = 18,
      dp_Enabled = True, dp_Native = False, dp_IconURL = [], dp_ChainLogoURL = []\<rparr>"

definition example_asset :: "string \<Rightarrow> string \<Rightarrow> asset" where
  "example_asset tick addr =
     \<lparr>a_Symbol = tick, a_Name = tick, a_Type = ''token'', a_Decimals = 18, a_IconURL = [], a_Deployments = [example_deployment addr]\<rparr>"

definition example_venue :: venue where
  "example_venue =
     \<lparr>vn_Key = ''dex'', vn_Name = ''Dex'', vn_ChainKey = ''base'', vn_Kind = VenueKindUniswapV2, vn_Enabled = True,
      vn_Config = Some (UniswapV2Config \<lparr>v2_FactoryAddress = [], v2_RouterAddress = ''0xrouter'', v2_InitCodeHash = [], v2_DeploymentBlock = 0\<rparr>)\<rparr>"

definition example_pool :: pool where
  "example_pool =
     \<lparr>vp_ID = ''p1'', vp_Address = [], vp_ChainKey = ''base'', vp_VenueKey = ''dex'', vp_Kind = PoolKindV2, vp_Token0 = ''0xAA'',
      vp_Token1 = ''0xb'', vp_Reserve0 = Some 10000, vp_Reserve1 = Some 20000, vp_SqrtPriceX96 = None, vp_Liquidity = None,
      vp_Tick = 0, vp_Fee = 0, vp_TickSpacing = 0, vp_ProgramID = [], vp_Vault0 = [], vp_Vault1 = [], vp_Enabled = True\<rparr>"

definition example_env :: env where
  "example_env = \<lparr>e_now = 62135596800 * 1000000000, e_newid = (\<lambda>n. itoa (int n))\<rparr>"

definition example_rows :: "pool_row list" where
  "example_rows = [pool_to_row example_env example_pool]"

definition example_options :: swap_engine_options where
  "example_options = \<lparr>so_PoolProvider = Some (PoolRepository_provider example_rows), so_V3Quoter = None, so_SolanaBuilders = []\<rparr>"

definition example_service :: swap_service where
  "example_service =
     \<lparr>ss_assets = [example_asset ''AAA'' ''0xaa'', example_asset ''BBB'' ''0xb''], ss_venues = [example_venue],
      ss_pools = example_rows, ss_engine = projr (NewSwapEngine [example_venue] example_options)\<rparr>"

definition example_request :: service_request where
  "example_request =
     \<lparr>sr_ChainKey = ''base'', sr_VenueKey = ''dex'', sr_TokenInSymbol = ''aaa'', sr_TokenOutSymbol = ''bbb'', sr_AmountIn = ''1000'',
      sr_Recipient = ''0xme'', sr_Sender = [], sr_SlippageBps = 0, sr_DeadlineUnix = 0, sr_PoolID = []\<rparr>"

lemma Inr_projr: "\<not> isl x \<Longrightarrow> x = Inr (projr x)"
  by (simp add: sum.collapse(2))

lemma example_engine: "NewSwapEngine (ss_venues example_service) example_options = Inr (ss_engine example_service)"
proof -
  have "\<not> isl (NewSwapEngine [example_venue] example_options)" by code_simp
  then show ?thesis by (simp add: example_service_def sum.collapse(2))
qed

lemma example_transaction:
  "Service_Transaction example_lib example_env example_service example_request =
     Inr (projr (Service_Transaction example_lib example_env example_service example_request))"
  by (rule Inr_projr) code_simp

lemma example_approve:
  "Service_Approve example_lib example_service example_request = Inr (projr (Service_Approve example_lib example_service example_request))"
  by (rule Inr_projr) code_simp

lemma example_facts:
  "so_SolanaBuilders example_options = []" "parseAmount (sr_AmountIn example_request) = Inr 1000"
  "distinct (map vn_Key (ss_venues example_service))"
  by (simp add: example_options_def, code_simp, simp add: example_service_def)

theorem Transaction_enforces_quote_witness:
  "\<exists>out. qr_AmountOut (tr_Quote (projr (Service_Transaction example_lib example_env example_service example_request))) = itoa out \<and>
    qr_AmountIn (tr_Quote (projr (Service_Transaction example_lib example_env example_service example_request))) = itoa 1000"
  using Transaction_enforces_quote [OF example_engine example_facts(1) example_transaction] unfolding example_facts(2) by force

theorem Approve_matches_swap_router_witness:
  "\<exists>er. tr_EVM (projr (Service_Transaction example_lib example_env example_service example_request)) = Some er"
  using Approve_matches_swap_router [OF example_engine example_facts(1,3) example_transaction example_approve] by metis

lemma example_ListPools: "ListPoolsByAssetIDs (ss_pools example_service) [''0xaa'', ''0xb''] = Inr [stored_pool example_pool]"
  by code_simp

theorem findPool_exact_witness: "\<exists>i. findPool example_service ''base'' ''dex'' ''0xaa'' ''0xb'' = Inr i"
proof -
  have "list_ex (usable_row ''base'' ''dex'' ''0xaa'' ''0xb'') (ss_pools example_service)" by code_simp
  moreover have "list_all (\<lambda>r. trim_space (pr_Token0 r) = pr_Token0 r) (ss_pools example_service)" by code_simp
  ultimately show ?thesis
    using findPool_exact [where c = "''base''" and v = "''dex''", OF example_ListPools] by (simp add: trim_space_def is_space_def)
qed

end
