(* ===== verification/PricingProps.thy ===== *)
theory PricingProps
  imports Pricing SwapProps
begin

text \<open>
  What the price service promises: a pool's price is the exact quotient of its amounts rounded to 18 places, and the
  conversion to USDC uses the pool with the largest USDC reserve.
\<close>

section \<open>The printed price\<close>

lemma trimDecimal_String:
  assumes "0 \<le> x"
  shows "trimDecimal (FloatString x 18) = String x"
proof -
  let ?v = "trim_right CHR ''.'' (trim_right CHR ''0'' (FloatString x 18))"
  have "?v \<noteq> ''-0''"
  proof
    assume v: "?v = ''-0''"
    obtain k where k: "trim_right CHR ''0'' (FloatString x 18) = ''-0'' @ replicate k CHR ''.''"
      using trim_right_decomp [of "trim_right CHR ''0'' (FloatString x 18)" "CHR ''.''"] unfolding v by blast
    obtain j where j: "FloatString x 18 = (''-0'' @ replicate k CHR ''.'') @ replicate j CHR ''0''"
      using trim_right_decomp [of "FloatString x 18" "CHR ''0''"] unfolding k by blast
    have "FloatString x 18 = dec_text False (utoa (units x div 10 ^ 18)) (pad18 (units x mod 10 ^ 18))"
      using FloatString_units [of x] assms by (simp add: Scale_def)
    then have h: "hd (utoa (units x div 10 ^ 18)) = CHR ''-''"
      using j utoa_ne [of "units x div 10 ^ 18"] by (cases "utoa (units x div 10 ^ 18)") (auto simp: dec_text_def)
    have "0 \<le> units x div 10 ^ 18" by (simp add: pos_imp_zdiv_nonneg_iff)
    then show False
      using utoa_props [of "units x div 10 ^ 18"] h utoa_ne [of "units x div 10 ^ 18"]
      by (cases "utoa (units x div 10 ^ 18)") auto
  qed
  then show ?thesis by (simp add: trimDecimal_def String_def Trim_def Scale_def Let_def)
qed

lemma Parse_trimDecimal: "0 \<le> x \<Longrightarrow> Parse (trimDecimal (FloatString x 18)) = round18 x"
  by (simp add: trimDecimal_String Parse_String)

lemma pow10_pos [simp]: "0 < pow10 d"
  by (simp add: pow10_def)

text \<open>The value of a price: quote amount per base amount, each in whole coins.\<close>

definition reserve_ratio :: "int \<Rightarrow> int \<Rightarrow> int \<Rightarrow> int \<Rightarrow> rat" where
  "reserve_ratio baseReserve quoteReserve bd qd = (of_int quoteReserve / 10 ^ nat qd) / (of_int baseReserve / 10 ^ nat bd)"

definition sqrt_ratio :: "int \<Rightarrow> int \<Rightarrow> int \<Rightarrow> bool \<Rightarrow> rat" where
  "sqrt_ratio q bd qd baseIsToken0 =
     (let r = (of_int q / 2 ^ 96) ^ 2 in (if baseIsToken0 then r else 1 / r) * 10 ^ nat bd / 10 ^ nat qd)"

lemma reservePrice_value:
  assumes "0 < b" "0 < q"
  shows "Parse (reservePrice b q bd qd) = round18 (reserve_ratio b q bd qd)"
proof -
  have "(of_int (q * pow10 bd) / of_int (b * pow10 qd) :: rat) = reserve_ratio b q bd qd"
    using assms by (simp add: reserve_ratio_def pow10_def field_simps)
  moreover have "(0 :: rat) \<le> reserve_ratio b q bd qd" using assms by (simp add: reserve_ratio_def)
  ultimately show ?thesis by (simp add: reservePrice_def Parse_trimDecimal)
qed

lemma sqrtPrice_value:
  assumes "0 < q"
  shows "Parse (sqrtPrice q bd qd first) = round18 (sqrt_ratio q bd qd first)"
proof -
  have e: "(2 :: rat) ^ 192 = (2 ^ 96) ^ 2" by simp
  have "(if first then of_int (q * q * pow10 bd) / of_int (2 ^ 192 * pow10 qd)
         else of_int (2 ^ 192 * pow10 bd) / of_int (q * q * pow10 qd) :: rat) = sqrt_ratio q bd qd first"
    using assms by (simp add: sqrt_ratio_def pow10_def Let_def power2_eq_square field_simps)
  moreover have "(0 :: rat) \<le> sqrt_ratio q bd qd first" using assms by (simp add: sqrt_ratio_def Let_def)
  ultimately show ?thesis by (simp add: sqrtPrice_def Let_def Parse_trimDecimal split: if_splits)
qed

lemma ref_map_find: "row_find ref_key k (ref_map refs) = row_find ref_key k (rev refs)"
  by (simp add: ref_map_def row_find_saves split: option.splits)

text \<open>The sides of a pool are registered deployments with the keys of its tokens.\<close>

lemma pool_sides_Some:
  assumes "pool_sides p (ref_map targets) (deploymentIndex assets) = Some ((base, bi, br), (q, qi, qr), first)"
  shows "base \<in> set targets \<and> q \<in> set (concat (map deploymentRefs (asset_All assets))) \<and>
    ref_key base = deploymentKey (vp_ChainKey p) bi \<and> ref_key q = deploymentKey (vp_ChainKey p) qi \<and>
    first = list_ex (\<lambda>r. ref_key r = deploymentKey (vp_ChainKey p) (vp_Token0 p)) targets \<and>
    (bi, br, qi, qr) = (if first then (vp_Token0 p, vp_Reserve0 p, vp_Token1 p, vp_Reserve1 p)
      else (vp_Token1 p, vp_Reserve1 p, vp_Token0 p, vp_Reserve0 p))"
proof -
  have "first = (row_find ref_key (deploymentKey (vp_ChainKey p) (vp_Token0 p)) (rev targets) \<noteq> None)"
    using assms by (auto simp: pool_sides_def ref_map_find Let_def split: option.splits)
  then have "first = list_ex (\<lambda>r. ref_key r = deploymentKey (vp_ChainKey p) (vp_Token0 p)) targets"
    unfolding row_find_None list_ex_iff by (metis (no_types, lifting) image_eqI imageE set_rev)
  then show ?thesis
    using assms
    by (auto simp: pool_sides_def deploymentIndex_def ref_map_find Let_def dest!: row_find_key split: option.splits)
qed

text \<open>C29: A price is given only for a pool of two registered deployments, one of the asset asked for. The base
  of the price is that asset's deployment of the pool's first token if it has one, and of the second otherwise;
  the quote is the deployment of the other token. The price is the quotient of the quote's reserve by the
  base's in whole coins where both are positive, and otherwise the square of the spot price, taken in the
  direction of the base, rounded to 18 places.\<close>

theorem poolPrice_value:
  assumes "poolPrice symbol p (ref_map (deploymentRefs target)) (deploymentIndex assets) = Some pp"
  shows "let key = deploymentKey (vp_ChainKey p);
       first = list_ex (\<lambda>r. ref_key r = key (vp_Token0 p)) (deploymentRefs target);
       (bt, br) = (if first then (vp_Token0 p, vp_Reserve0 p) else (vp_Token1 p, vp_Reserve1 p));
       (qt, qr) = (if first then (vp_Token1 p, vp_Reserve1 p) else (vp_Token0 p, vp_Reserve0 p)) in
    \<exists>base q. base \<in> set (deploymentRefs target) \<and> ref_key base = key bt \<and>
      q \<in> set (concat (map deploymentRefs (asset_All assets))) \<and> ref_key q = key qt \<and>
      dr_Symbol q \<noteq> symbol \<and> pp_BaseSymbol pp = dr_Symbol base \<and> pp_QuoteSymbol pp = dr_Symbol q \<and>
      pp_BaseAssetID pp = bt \<and> pp_QuoteAssetID pp = qt \<and>
      Parse (pp_Price pp) = round18
       (if positive br \<and> positive qr then reserve_ratio (nonNil br) (nonNil qr) (dr_Decimals base) (dr_Decimals q)
        else sqrt_ratio (nonNil (vp_SqrtPriceX96 p)) (dr_Decimals base) (dr_Decimals q) first) \<and>
      (positive br \<and> positive qr \<or> positive (vp_SqrtPriceX96 p))"
proof -
  obtain base bi br q qi qr first
    where s: "pool_sides p (ref_map (deploymentRefs target)) (deploymentIndex assets) = Some ((base, bi, br), (q, qi, qr), first)"
    and g: "dr_Symbol q \<noteq> symbol" "positive br \<and> positive qr \<or> positive (vp_SqrtPriceX96 p)"
    and pp: "pp_BaseSymbol pp = dr_Symbol base" "pp_QuoteSymbol pp = dr_Symbol q"
      "pp_Price pp = pool_spot br qr (vp_SqrtPriceX96 p) (dr_Decimals base) (dr_Decimals q) first"
      "pp_BaseAssetID pp = bi" "pp_QuoteAssetID pp = qi"
    using assms by (auto simp: poolPrice_def Let_def split: if_splits option.splits prod.splits)
  have v: "Parse (pp_Price pp) = round18
      (if positive br \<and> positive qr then reserve_ratio (nonNil br) (nonNil qr) (dr_Decimals base) (dr_Decimals q)
       else sqrt_ratio (nonNil (vp_SqrtPriceX96 p)) (dr_Decimals base) (dr_Decimals q) first)"
    using g(2) by (auto simp: pp(3) pool_spot_def positive_def nonNil_def reservePrice_value sqrtPrice_value split: option.splits)
  note sides = pool_sides_Some [OF s]
  have tokens: "(bi, br) = (if first then (vp_Token0 p, vp_Reserve0 p) else (vp_Token1 p, vp_Reserve1 p))"
    "(qi, qr) = (if first then (vp_Token1 p, vp_Reserve1 p) else (vp_Token0 p, vp_Reserve0 p))"
    and first: "list_ex (\<lambda>r. ref_key r = deploymentKey (vp_ChainKey p) (vp_Token0 p)) (deploymentRefs target) = first"
    using sides by (auto split: if_splits)
  show ?thesis
    unfolding Let_def first tokens [symmetric] case_prod_conv using sides g pp v by blast
qed

text \<open>A pool of 10000 AAA against 20000 BBB prices BBB, its second token, at half an AAA.\<close>

theorem poolPrice_value_witness:
  "\<exists>pp. poolPrice ''BBB'' example_pool (ref_map (deploymentRefs (example_asset ''BBB'' ''0xb'')))
      (deploymentIndex [example_asset ''AAA'' ''0xaa'', example_asset ''BBB'' ''0xb'']) = Some pp \<and>
    pp_BaseAssetID pp = ''0xb'' \<and> pp_QuoteAssetID pp = ''0xAA'' \<and> pp_QuoteSymbol pp \<noteq> ''BBB'' \<and>
    Parse (pp_Price pp) = 1/2"
proof -
  let ?refs = "deploymentRefs (example_asset ''BBB'' ''0xb'')"
  let ?m = "poolPrice ''BBB'' example_pool (ref_map ?refs)
      (deploymentIndex [example_asset ''AAA'' ''0xaa'', example_asset ''BBB'' ''0xb''])"
  have "?m \<noteq> None" by code_simp
  then obtain pp where pp: "?m = Some pp" by blast
  have first: "list_ex (\<lambda>r. ref_key r = deploymentKey (vp_ChainKey example_pool) (vp_Token0 example_pool)) ?refs = False"
    by code_simp
  have dec: "list_all (\<lambda>r. dr_Decimals r = 18) ?refs"
    "list_all (\<lambda>r. dr_Decimals r = 18)
       (concat (map deploymentRefs (asset_All [example_asset ''AAA'' ''0xaa'', example_asset ''BBB'' ''0xb''])))"
    by code_simp+
  have ratio: "round18 (reserve_ratio 20000 10000 18 18) = 1/2" by code_simp
  note price = poolPrice_value [OF pp, unfolded Let_def first if_False case_prod_conv]
  have pool: "vp_Token0 example_pool = ''0xAA''" "vp_Token1 example_pool = ''0xb''"
    "vp_Reserve0 example_pool = Some 10000" "vp_Reserve1 example_pool = Some 20000"
    by (simp_all add: example_pool_def)
  obtain base q where b: "base \<in> set ?refs" and q: "q \<in> set (concat (map deploymentRefs
        (asset_All [example_asset ''AAA'' ''0xaa'', example_asset ''BBB'' ''0xb''])))"
    and c: "dr_Symbol q \<noteq> ''BBB''" "pp_QuoteSymbol pp = dr_Symbol q" "pp_BaseAssetID pp = ''0xb''" "pp_QuoteAssetID pp = ''0xAA''"
    and v: "Parse (pp_Price pp) = round18 (reserve_ratio 20000 10000 (dr_Decimals base) (dr_Decimals q))"
    using price unfolding pool by (auto simp: positive_def nonNil_def)
  have "dr_Decimals base = 18" "dr_Decimals q = 18" using dec b q unfolding list_all_iff by blast+
  then show ?thesis using pp c v ratio by simp
qed

section \<open>The conversion with the largest reserve\<close>

text \<open>Conversions are ranked by their reserve of USDC where it is positive, the others by the liquidity.\<close>

definition conversion_rank :: "usdc_conversion \<Rightarrow> int \<times> int" where
  "conversion_rank c =
     (if positive (uc_usdcReserve c) then (nonNil (uc_usdcReserve c), 0) else (0, nonNil (uc_poolLiquidity c)))"

lemma compareBig_pos: "0 < compareBig a b \<longleftrightarrow> nonNil b < nonNil a"
  by (simp add: compareBig_def Let_def)

lemma positive_nonNil: "positive v \<longleftrightarrow> 0 < nonNil v"
  by (simp add: positive_def nonNil_def split: option.splits)

lemma better_rank: "betterUSDCConversion c e \<longleftrightarrow> conversion_rank e < conversion_rank c"
  by (auto simp: betterUSDCConversion_def conversion_rank_def compareBig_pos positive_nonNil less_prod_def)

lemma map_filter_Cons:
  "List.map_filter f (x # xs) = (case f x of None \<Rightarrow> List.map_filter f xs | Some y \<Rightarrow> y # List.map_filter f xs)"
  by (cases "f x") (simp_all add: List.map_filter_def)

lemma map_filter_Nil: "List.map_filter f [] = []"
  by (simp add: List.map_filter_def)

lemma collect_conversions_inv:
  "(case map_of (collect_conversions D U ps acc) key of
      None \<Rightarrow> map_of acc key = None \<and> key \<notin> fst ` set (List.map_filter (pool_conversion D U) ps)
    | Some c \<Rightarrow> (map_of acc key = Some c \<or> (key, c) \<in> set (List.map_filter (pool_conversion D U) ps)) \<and>
        (\<forall>e. map_of acc key = Some e \<longrightarrow> conversion_rank e \<le> conversion_rank c) \<and>
        (\<forall>e. (key, e) \<in> set (List.map_filter (pool_conversion D U) ps) \<longrightarrow> conversion_rank e \<le> conversion_rank c))"
proof (induction ps arbitrary: acc)
  case Nil
  then show ?case by (simp add: map_filter_Nil split: option.splits)
next
  case (Cons p ps)
  show ?case
  proof (cases "pool_conversion D U p")
    case None
    then have "List.map_filter (pool_conversion D U) (p # ps) = List.map_filter (pool_conversion D U) ps"
      and "collect_conversions D U (p # ps) acc = collect_conversions D U ps acc" by (simp_all add: map_filter_Cons)
    then show ?thesis using Cons.IH [of acc] by (simp only:)
  next
    case (Some kc)
    obtain k c where kc: "pool_conversion D U p = Some (k, c)" using Some by (cases kc) simp
    define acc' where "acc' = (case map_of acc k of None \<Rightarrow> (k, c) # acc
      | Some e \<Rightarrow> if betterUSDCConversion c e then (k, c) # acc else acc)"
    have step: "collect_conversions D U (p # ps) acc = collect_conversions D U ps acc'"
      by (simp add: kc acc'_def split: option.splits)
    have mf: "List.map_filter (pool_conversion D U) (p # ps) = (k, c) # List.map_filter (pool_conversion D U) ps"
      by (simp add: map_filter_Cons kc)
    have acc: "map_of acc' key = (if key = k then (case map_of acc k of None \<Rightarrow> Some c
        | Some e \<Rightarrow> Some (if conversion_rank e < conversion_rank c then c else e)) else map_of acc key)"
      by (auto simp: acc'_def better_rank split: option.splits)
    show ?thesis
      using Cons.IH [of acc'] unfolding step mf acc
      by (cases "key = k"; cases "map_of acc k"; cases "map_of (collect_conversions D U ps acc') key") (auto split: if_splits)
  qed
qed

text \<open>The conversion chosen for a deployment comes from one of the pools and no other pool's conversion of that deployment
  has a larger USDC reserve (or more liquidity where neither has a reserve); there is none only if no pool gives one.\<close>

theorem conversion_is_best:
  "(case map_of (collect_conversions D U ps []) key of
      None \<Rightarrow> key \<notin> fst ` set (List.map_filter (pool_conversion D U) ps)
    | Some c \<Rightarrow> (key, c) \<in> set (List.map_filter (pool_conversion D U) ps) \<and>
        filter (\<lambda>(k, e). k = key \<and> betterUSDCConversion e c) (List.map_filter (pool_conversion D U) ps) = [])"
  using collect_conversions_inv [where D = D and U = U and ps = ps and acc = "[]" and key = key]
  by (auto simp: filter_empty_conv better_rank not_less split: option.splits)

end
