(* ===== verification/SolanaAccounts.thy ===== *)
theory SolanaAccounts
  imports Swap
begin

text \<open>
  Solana accounts, \<^verbatim>\<open>internal/adapters/venues/solana/onchain/scanner.go\<close>: the text form of keys (base 58) and the pools that
  the account data of the supported programs describe. Account data is a list of bytes. SHA-256 and the floating
  point part of the Meteora price are parameters (\<open>solana_lib\<close>).
\<close>

record solana_lib =
  sl_sha256 :: "string \<Rightarrow> bytes"
  sl_meteora_price :: "int \<Rightarrow> int \<Rightarrow> int option"

section \<open>Base 58\<close>

definition base58Alphabet :: string where
  "base58Alphabet = ''123456789ABCDEFGHJKLMNPQRSTUVWXYZabcdefghijkmnopqrstuvwxyz''"

definition be_value :: "bytes \<Rightarrow> nat" where
  "be_value bs = foldl (\<lambda>x b. x * 256 + unat b) 0 bs"

fun b58_digits :: "nat \<Rightarrow> string" where
  "b58_digits x = (if x = 0 then [] else base58Alphabet ! (x mod 58) # b58_digits (x div 58))"

declare b58_digits.simps [simp del]

definition base58Encode :: "bytes \<Rightarrow> string" where
  "base58Encode input =
     rev (b58_digits (be_value input) @ replicate (length (takeWhile (\<lambda>b. b = 0) input)) (base58Alphabet ! 0))"

section \<open>Reading account data\<close>

definition anchorDiscriminator :: "solana_lib \<Rightarrow> string \<Rightarrow> bytes" where
  "anchorDiscriminator lib name = take 8 (sl_sha256 lib (''account:'' @ name))"

definition hasDiscriminator :: "solana_lib \<Rightarrow> bytes \<Rightarrow> string \<Rightarrow> bool" where
  "hasDiscriminator lib data name \<longleftrightarrow> 8 \<le> length data \<and> take 8 data = anchorDiscriminator lib name"

definition pubkey :: "bytes \<Rightarrow> nat \<Rightarrow> string" where
  "pubkey data offset = (if length data < offset + 32 then [] else base58Encode (take 32 (drop offset data)))"

text \<open>\<^verbatim>\<open>binary.LittleEndian\<close> on \<open>n\<close> bytes.\<close>

definition le_uint :: "nat \<Rightarrow> nat \<Rightarrow> bytes \<Rightarrow> int" where
  "le_uint n offset data = int (be_value (rev (take n (drop offset data))))"

definition as_int32 :: "int \<Rightarrow> int" where
  "as_int32 v = (if v < 2 ^ 31 then v else v - 2 ^ 32)"

definition readU64 :: "bytes \<Rightarrow> nat \<Rightarrow> int" where
  "readU64 data offset = (if length data < offset + 8 then 0 else le_uint 8 offset data)"

definition readU128 :: "bytes \<Rightarrow> nat \<Rightarrow> int" where
  "readU128 data offset = (if length data < offset + 16 then 0 else int (be_value (rev (take 16 (drop offset data)))))"

definition meteoraSqrtPriceX96 :: "solana_lib \<Rightarrow> int \<Rightarrow> int \<Rightarrow> int" where
  "meteoraSqrtPriceX96 lib activeID binStep =
     (if binStep = 0 then 0 else (case sl_meteora_price lib activeID binStep of None \<Rightarrow> 0 | Some v \<Rightarrow> v))"

section \<open>The pools of the programs\<close>

text \<open>The fields that every parser sets; reserves start at zero.\<close>

definition account_pool :: "string \<Rightarrow> chain_key \<Rightarrow> venue_key \<Rightarrow> pool_kind \<Rightarrow> string \<Rightarrow> bytes \<Rightarrow> nat \<Rightarrow> nat \<Rightarrow> nat \<Rightarrow> nat \<Rightarrow> pool" where
  "account_pool i chainKey venueKey kind programID data token0 token1 vault0 vault1 =
     \<lparr>vp_ID = i, vp_Address = i, vp_ChainKey = chainKey, vp_VenueKey = venueKey, vp_Kind = kind,
      vp_Token0 = pubkey data token0, vp_Token1 = pubkey data token1, vp_Reserve0 = Some 0, vp_Reserve1 = Some 0,
      vp_SqrtPriceX96 = None, vp_Liquidity = None, vp_Tick = 0, vp_Fee = 0, vp_TickSpacing = 0, vp_ProgramID = programID,
      vp_Vault0 = pubkey data vault0, vp_Vault1 = pubkey data vault1, vp_Enabled = True\<rparr>"

type_synonym account_parser = "string \<Rightarrow> bytes \<Rightarrow> chain_key \<Rightarrow> venue_key \<Rightarrow> string \<Rightarrow> pool option"

definition parseOrcaWhirlpool :: "solana_lib \<Rightarrow> account_parser" where
  "parseOrcaWhirlpool lib i data chainKey venueKey programID =
     (if length data < 653 \<or> \<not> hasDiscriminator lib data ''Whirlpool'' then None
      else Some ((account_pool i chainKey venueKey PoolKindCLMM programID data 101 181 133 213)
             \<lparr>vp_SqrtPriceX96 := Some (readU128 data 65), vp_Liquidity := Some (readU128 data 49),
              vp_Tick := as_int32 (le_uint 4 81 data), vp_Fee := word_of_int (le_uint 2 45 data),
              vp_TickSpacing := le_uint 2 41 data\<rparr>))"

definition parseRaydiumCLMM :: "solana_lib \<Rightarrow> account_parser" where
  "parseRaydiumCLMM lib i data chainKey venueKey programID =
     (if length data < 273 \<or> \<not> hasDiscriminator lib data ''PoolState'' then None
      else Some ((account_pool i chainKey venueKey PoolKindCLMM programID data 73 105 137 169)
             \<lparr>vp_SqrtPriceX96 := Some (readU128 data 253), vp_Liquidity := Some (readU128 data 237),
              vp_Tick := as_int32 (le_uint 4 269 data), vp_TickSpacing := le_uint 2 235 data\<rparr>))"

definition parseRaydiumCPMM :: "solana_lib \<Rightarrow> account_parser" where
  "parseRaydiumCPMM lib i data chainKey venueKey programID =
     (if length data < 232 \<or> \<not> hasDiscriminator lib data ''PoolState'' then None
      else Some (account_pool i chainKey venueKey PoolKindV2 programID data 168 200 72 104))"

definition parseRaydiumAMM :: "account_parser" where
  "parseRaydiumAMM i data chainKey venueKey programID =
     (if length data < 752 then None
      else Some (account_pool i chainKey venueKey PoolKindV2 programID data 400 432 336 368))"

definition parseMeteoraLbPair :: "solana_lib \<Rightarrow> account_parser" where
  "parseMeteoraLbPair lib i data chainKey venueKey programID =
     (if length data < 216 \<or> \<not> hasDiscriminator lib data ''LbPair'' then None
      else
        (let activeID = as_int32 (le_uint 4 76 data); binStep = le_uint 2 80 data in
         Some ((account_pool i chainKey venueKey PoolKindCLMM programID data 88 120 152 184)
           \<lparr>vp_SqrtPriceX96 := Some (meteoraSqrtPriceX96 lib activeID binStep), vp_Tick := activeID, vp_TickSpacing := binStep\<rparr>)))"

section \<open>Keys are told apart by their text\<close>

lemma alphabet_distinct: "distinct base58Alphabet" "length base58Alphabet = 58"
  by (simp_all add: base58Alphabet_def)

lemma byte_bound: "unat (b :: 8 word) < 256"
  using unsigned_less [of b] by simp

lemma be_value_append: "be_value (xs @ ys) = be_value xs * 256 ^ length ys + be_value ys"
proof (induction ys rule: rev_induct)
  case Nil
  then show ?case by (simp add: be_value_def)
next
  case (snoc y ys)
  have s: "be_value (zs @ [y]) = be_value zs * 256 + unat y" for zs by (simp add: be_value_def)
  show ?case using s [of "xs @ ys"] s [of ys] snoc by (simp add: algebra_simps)
qed

lemma be_value_bound: "be_value bs < 256 ^ length bs"
proof (induction bs rule: rev_induct)
  case Nil
  then show ?case by (simp add: be_value_def)
next
  case (snoc b bs)
  have "be_value (bs @ [b]) = be_value bs * 256 + unat b" by (simp add: be_value_def)
  moreover have "unat b < 256" by (rule byte_bound)
  ultimately show ?case using snoc by simp
qed

lemma be_value_zeros: "be_value (replicate n 0 @ bs) = be_value bs"
proof -
  have "be_value (replicate n 0) = 0" by (induction n) (simp_all add: be_value_def)
  then show ?thesis by (simp add: be_value_append)
qed

lemma be_value_inj_length: "length xs = length ys \<Longrightarrow> be_value xs = be_value ys \<Longrightarrow> xs = ys"
proof (induction xs arbitrary: ys rule: rev_induct)
  case Nil
  then show ?case by simp
next
  case (snoc x xs)
  obtain zs z where ys: "ys = zs @ [z]" using snoc.prems(1) by (cases ys rule: rev_cases) auto
  have e: "be_value xs * 256 + unat x = be_value zs * 256 + unat z"
    using snoc.prems(2) unfolding ys by (simp add: be_value_def)
  have b: "unat x < 256" "unat z < 256" by (rule byte_bound)+
  have "unat x = unat z" using arg_cong [OF e, of "\<lambda>n. n mod 256"] b by simp
  moreover from this have "be_value xs = be_value zs" using e by simp
  ultimately show ?case using snoc.IH [of zs] snoc.prems(1) by (simp add: ys unsigned_word_eqI)
qed

text \<open>Two byte strings without leading zeros that have the same value have the same length.\<close>

lemma be_value_lower: "b \<noteq> 0 \<Longrightarrow> 256 ^ length bs \<le> be_value (b # bs)"
proof -
  assume "b \<noteq> 0"
  then have "1 \<le> unat b" by (simp add: unat_gt_0 Suc_le_eq)
  moreover have "be_value (b # bs) = unat b * 256 ^ length bs + be_value bs"
    using be_value_append [of "[b]" bs] by (simp add: be_value_def)
  ultimately show ?thesis by (simp add: trans_le_add1)
qed

lemma be_value_inj:
  assumes "be_value xs = be_value ys" "xs = [] \<or> hd xs \<noteq> 0" "ys = [] \<or> hd ys \<noteq> 0"
  shows "xs = ys"
proof -
  have len: "length us \<le> length vs" if e: "be_value us = be_value vs" and u: "us = [] \<or> hd us \<noteq> 0" for us vs
  proof (cases us)
    case Nil
    then show ?thesis by simp
  next
    case (Cons b bs)
    then have "256 ^ length bs \<le> be_value us" using u be_value_lower by auto
    also have "\<dots> < 256 ^ length vs" unfolding e by (rule be_value_bound)
    finally have "length bs < length vs" by (rule power_less_imp_less_exp [rotated]) simp
    then show ?thesis using Cons by simp
  qed
  show ?thesis using len [OF assms(1,2)] len [OF assms(1) [symmetric] assms(3)] assms(1) by (intro be_value_inj_length) auto
qed

lemma b58_digits_inj: "b58_digits x = b58_digits y \<Longrightarrow> x = y"
proof (induction x arbitrary: y rule: b58_digits.induct)
  case (1 x)
  show ?case
  proof (cases "x = 0 \<or> y = 0")
    case True
    then show ?thesis using "1.prems" by (subst (asm) (1 2) b58_digits.simps) (auto split: if_splits)
  next
    case False
    then have d: "base58Alphabet ! (x mod 58) = base58Alphabet ! (y mod 58)" "b58_digits (x div 58) = b58_digits (y div 58)"
      using "1.prems" by (simp_all add: b58_digits.simps [of x] b58_digits.simps [of y])
    have "x mod 58 = y mod 58"
      using d(1) alphabet_distinct by (simp add: nth_eq_iff_index_eq)
    moreover have "x div 58 = y div 58" using "1.IH" [OF _ d(2)] False by simp
    ultimately show ?thesis by (metis div_mult_mod_eq)
  qed
qed

text \<open>The leading digit of a number is not the digit of zero.\<close>

lemma b58_digits_last: "x \<noteq> 0 \<Longrightarrow> b58_digits x \<noteq> [] \<and> last (b58_digits x) \<noteq> base58Alphabet ! 0"
proof (induction x rule: b58_digits.induct)
  case (1 x)
  show ?case
  proof (cases "x div 58 = 0")
    case True
    then have x: "x < 58" "b58_digits x = [base58Alphabet ! x]"
      using "1.prems" by (simp_all add: b58_digits.simps [of x] b58_digits.simps [of 0] div_eq_0_iff)
    have "base58Alphabet ! x \<noteq> base58Alphabet ! 0"
      using x(1) "1.prems" alphabet_distinct by (simp add: nth_eq_iff_index_eq)
    then show ?thesis using x by simp
  next
    case False
    then show ?thesis using "1.IH" "1.prems" by (simp add: b58_digits.simps [of x])
  qed
qed

lemma append_replicate_inj:
  assumes "xs @ replicate m a = ys @ replicate n (a :: char)" "xs = [] \<or> last xs \<noteq> a" "ys = [] \<or> last ys \<noteq> a"
  shows "xs = ys \<and> m = n"
proof -
  have "trim_right a (xs @ replicate m a) = trim_right a (ys @ replicate n a)" using assms(1) by simp
  moreover have "trim_right a zs = zs" if "zs = [] \<or> last zs \<noteq> a" for zs
    using that by (cases zs rule: rev_cases) (auto simp: trim_right_snoc)
  ultimately have "xs = ys" using assms(2,3) by simp
  then show ?thesis using assms(1) by (metis append_same_eq length_append length_replicate same_append_eq)
qed

lemma leading_zeros: "bs = replicate (length (takeWhile (\<lambda>b. b = 0) bs)) 0 @ dropWhile (\<lambda>b. b = (0 :: 'a :: zero)) bs"
  by (induction bs) auto

lemma base58Encode_eqD:
  assumes e: "base58Encode xs = base58Encode ys"
  shows "xs = ys"
proof -
  let ?z = "\<lambda>bs :: bytes. length (takeWhile (\<lambda>b. b = 0) bs)" and ?d = "\<lambda>bs :: bytes. dropWhile (\<lambda>b. b = 0) bs"
  have "b58_digits (be_value xs) @ replicate (?z xs) (base58Alphabet ! 0) = b58_digits (be_value ys) @ replicate (?z ys) (base58Alphabet ! 0)"
    using e unfolding base58Encode_def by (simp only: rev_is_rev_conv)
  moreover have "b58_digits v = [] \<or> last (b58_digits v) \<noteq> base58Alphabet ! 0" for v
    using b58_digits_last [of v] by (cases "v = 0") (simp_all add: b58_digits.simps [of 0])
  ultimately have b: "b58_digits (be_value xs) = b58_digits (be_value ys)" "?z xs = ?z ys"
    using append_replicate_inj by metis+
  have "be_value (?d bs) = be_value bs" for bs using leading_zeros [of bs] be_value_zeros by metis
  then have "be_value (?d xs) = be_value (?d ys)" using b58_digits_inj [OF b(1)] by simp
  moreover have "?d bs = [] \<or> hd (?d bs) \<noteq> 0" for bs using hd_dropWhile [of "\<lambda>b. b = 0" bs] by auto
  ultimately have "?d xs = ?d ys" by (intro be_value_inj)
  then show ?thesis using leading_zeros [of xs] leading_zeros [of ys] b(2) by simp
qed

text \<open>Two keys with the same base 58 text are the same bytes, leading zeros included.\<close>

theorem base58Encode_inj: "inj base58Encode"
  by (rule injI) (rule base58Encode_eqD)

end
