(* ===== verification/SolanaScan.thy ===== *)
theory SolanaScan
  imports SolanaAccounts
begin

text \<open>
  The Solana scanner and its RPC client, \<^verbatim>\<open>internal/adapters/venues/solana/onchain/scanner.go\<close>. An error is its message, since
  the code decides on the text of messages. The network is a parameter: the outcome of sending one request to an
  endpoint (\<open>rpc_outcome\<close>), or the answers of \<^verbatim>\<open>getProgramAccounts\<close> and \<^verbatim>\<open>getMultipleAccounts\<close> (\<open>solana_rpc\<close>, with base 64 decoded).
  Waits, cancellation by the caller and logging are left out. The workers of the sharded scan take jobs from one queue; the
  model runs one worker, so jobs are done in queue order and nothing is in flight when an error cancels the scan.
\<close>

section \<open>Errors\<close>

definition mentions :: "string \<Rightarrow> string list \<Rightarrow> bool" where
  "mentions message texts = list_ex (str_contains (to_lower message)) texts"

definition minute_ns :: duration where "minute_ns = 60 * 1000000000"

definition endpointCooldown :: "string \<Rightarrow> duration" where
  "endpointCooldown msg =
     (if mentions msg [''400 bad request'', ''403'', ''forbidden'', ''temporary redirect'', ''307'',
           ''excluded from account secondary indexes'', ''method unavailable for key''] then 10 * minute_ns
      else if mentions msg [''429'', ''too many requests'', ''rate limit''] then 30 * 1000000000
      else if mentions msg [''timeout'', ''deadline exceeded'', ''broken pipe'', ''eof'', ''connection reset'', ''connection refused'',
           ''temporarily unavailable'', ''500 internal server error'', ''502 bad gateway'', ''503 service unavailable'',
           ''504 gateway timeout''] then 2 * minute_ns
      else 0)"

definition isRetryableRPCError :: "string \<Rightarrow> bool" where
  "isRetryableRPCError msg =
     mentions msg [''429'', ''too many requests'', ''400 bad request'', ''307'', ''temporary redirect'', ''403'', ''forbidden'',
       ''administrative rules'', ''rate limit'', ''timeout'', ''deadline exceeded'', ''broken pipe'', ''eof'', ''connection reset'',
       ''connection refused'', ''temporarily unavailable'', ''excluded from account secondary indexes'',
       ''method unavailable for key'', ''500 internal server error'', ''502 bad gateway'', ''503 service unavailable'',
       ''504 gateway timeout'']"

definition isProgramScanLimitError :: "string \<Rightarrow> bool" where
  "isProgramScanLimitError msg =
     mentions msg [''-32012'', ''scan aborted'', ''accumulated scan results exceeded the limit'', ''exceeded the limit'']"

section \<open>The client\<close>

record rpc_client =
  rc_urls :: "string list"
  rc_next :: uint64
  rc_disabledUntil :: "(string \<times> time) list"

definition NewRPC :: "string list \<Rightarrow> rpc_client option" where
  "NewRPC urls =
     (let clean = filter (\<lambda>u. u \<noteq> []) (map trim_space urls) in
      if clean = [] then None else Some \<lparr>rc_urls = clean, rc_next = 0, rc_disabledUntil = []\<rparr>)"

definition isEndpointDisabled :: "rpc_client \<Rightarrow> string \<Rightarrow> time \<Rightarrow> bool" where
  "isEndpointDisabled r url now = (case map_of (rc_disabledUntil r) url of None \<Rightarrow> False | Some until \<Rightarrow> now < until)"

definition next_url :: "rpc_client \<Rightarrow> string \<times> rpc_client" where
  "next_url r = (rc_urls r ! (unat (rc_next r) mod length (rc_urls r)), r\<lparr>rc_next := rc_next r + 1\<rparr>)"

fun endpoint_loop :: "time \<Rightarrow> nat \<Rightarrow> rpc_client \<Rightarrow> string \<times> rpc_client" where
  "endpoint_loop now 0 r = next_url r"
| "endpoint_loop now (Suc k) r =
     (let (url, r') = next_url r in if \<not> isEndpointDisabled r url now then (url, r') else endpoint_loop now k r')"

definition endpoint :: "time \<Rightarrow> rpc_client \<Rightarrow> string \<times> rpc_client" where
  "endpoint now r = endpoint_loop now (length (rc_urls r)) r"

definition disableEndpoint :: "time \<Rightarrow> string \<Rightarrow> duration \<Rightarrow> rpc_client \<Rightarrow> rpc_client" where
  "disableEndpoint now url d r =
     (if url = [] \<or> d \<le> 0 then r
      else (case map_of (rc_disabledUntil r) url of
              None \<Rightarrow> r\<lparr>rc_disabledUntil := (url, now + d) # rc_disabledUntil r\<rparr>
            | Some current \<Rightarrow> if current < now + d then r\<lparr>rc_disabledUntil := (url, now + d) # rc_disabledUntil r\<rparr> else r))"

text \<open>What one request comes to: no answer, an answer that is not a success, a body that does not decode, an error of the
  service, a result of the wrong form, a result.\<close>

datatype 'a rpc_outcome = TransportError string | HttpStatus string | DecodeError string | ServiceError string | BadResult string | RpcResult 'a

fun call_loop :: "(nat \<Rightarrow> time) \<Rightarrow> (nat \<Rightarrow> string \<Rightarrow> 'a rpc_outcome) \<Rightarrow> nat \<Rightarrow> nat \<Rightarrow> string \<Rightarrow> rpc_client \<Rightarrow> (string + 'a) \<times> rpc_client" where
  "call_loop now send i 0 lastErr r = (Inl lastErr, r)"
| "call_loop now send i (Suc left) lastErr r =
     (let (url, r) = endpoint (now i) r in
      (case send i url of
         TransportError e \<Rightarrow> call_loop now send (Suc i) left e (disableEndpoint (now i) url (endpointCooldown e) r)
       | HttpStatus e \<Rightarrow>
           (let r = disableEndpoint (now i) url (endpointCooldown e) r in
            if \<not> isRetryableRPCError e then (Inl e, r) else call_loop now send (Suc i) left e r)
       | DecodeError e \<Rightarrow> call_loop now send (Suc i) left e r
       | ServiceError e \<Rightarrow>
           (let r = disableEndpoint (now i) url (endpointCooldown e) r in
            if \<not> isRetryableRPCError e then (Inl e, r) else call_loop now send (Suc i) left e r)
       | BadResult e \<Rightarrow> (Inl e, r)
       | RpcResult x \<Rightarrow> (Inr x, r)))"

definition rpc_call :: "(nat \<Rightarrow> time) \<Rightarrow> (nat \<Rightarrow> string \<Rightarrow> 'a rpc_outcome) \<Rightarrow> rpc_client \<Rightarrow> (string + 'a) \<times> rpc_client" where
  "rpc_call now send r = call_loop now send 0 (max 3 (length (rc_urls r) * 3)) [] r"

section \<open>Accounts\<close>

datatype program_filter = Memcmp nat string | DataSize nat

definition memcmpFilter :: "nat \<Rightarrow> bytes \<Rightarrow> program_filter" where
  "memcmpFilter offset bs = Memcmp offset (base58Encode bs)"

type_synonym program_account = "string \<times> bytes"

record solana_rpc =
  sp_program_accounts :: "string \<Rightarrow> program_filter list \<Rightarrow> string + string list"
  sp_multiple_accounts :: "string list \<Rightarrow> string + bytes option list"

definition GetProgramAccountPubkeys :: "solana_rpc \<Rightarrow> string \<Rightarrow> program_filter list \<Rightarrow> string + string list" where
  "GetProgramAccountPubkeys rpc programID filters =
     (case sp_program_accounts rpc programID filters of Inl e \<Rightarrow> Inl e | Inr keys \<Rightarrow> Inr (filter (\<lambda>k. k \<noteq> []) keys))"

text \<open>A list in batches of at most \<open>n\<close>.\<close>

function batches :: "nat \<Rightarrow> 'a list \<Rightarrow> 'a list list" where
  "batches n xs = (if xs = [] \<or> n = 0 then [] else take n xs # batches n (drop n xs))"
  by pat_completeness auto
termination
  by (relation "measure (\<lambda>(n, xs). length xs)") auto

declare batches.simps [simp del]

fun get_batches :: "solana_rpc \<Rightarrow> string list list \<Rightarrow> string + program_account list" where
  "get_batches rpc [] = Inr []"
| "get_batches rpc (b # bs) =
     (case sp_multiple_accounts rpc b of
        Inl e \<Rightarrow> Inl e
      | Inr items \<Rightarrow>
          (case get_batches rpc bs of
             Inl e \<Rightarrow> Inl e
           | Inr rest \<Rightarrow> Inr (List.map_filter (\<lambda>(k, data). map_option (\<lambda>d. (k, d)) data) (zip b items) @ rest)))"

definition GetAccounts :: "solana_rpc \<Rightarrow> string list \<Rightarrow> string + program_account list" where
  "GetAccounts rpc accounts = get_batches rpc (batches 100 accounts)"

definition GetTokenAccountAmounts :: "solana_rpc \<Rightarrow> string list \<Rightarrow> string + (string \<rightharpoonup> int)" where
  "GetTokenAccountAmounts rpc accounts =
     (case GetAccounts rpc accounts of
        Inl e \<Rightarrow> Inl e
      | Inr items \<Rightarrow> Inr (map_of (rev (map (\<lambda>(k, d). (k, readU64 d 64)) (filter (\<lambda>(k, d). 72 \<le> length d) items)))))"

section \<open>The sharded scan\<close>

type_synonym 's key_handler = "string list \<Rightarrow> 's \<Rightarrow> (string + nat) \<times> 's"

definition appendShardFilter :: "program_filter list \<Rightarrow> nat \<Rightarrow> bytes \<Rightarrow> program_filter list" where
  "appendShardFilter filters offset prefix = filters @ [memcmpFilter offset prefix]"

definition maxShardDepth :: nat where "maxShardDepth = 3"

definition shard_children :: "bytes \<Rightarrow> bytes list" where
  "shard_children prefix = map (\<lambda>i. prefix @ [word_of_nat i]) [0..<256]"

definition job_weight :: "bytes \<Rightarrow> nat" where
  "job_weight prefix = 257 ^ (4 - length prefix)"

lemma children_weight: "length prefix < maxShardDepth \<Longrightarrow> sum_list (map job_weight (shard_children prefix)) < job_weight prefix"
proof -
  assume p: "length prefix < maxShardDepth"
  obtain k where k: "4 - length prefix = Suc k" "4 - Suc (length prefix) = k"
    using p by (cases "4 - length prefix") (auto simp: maxShardDepth_def)
  have "sum_list (map job_weight (shard_children prefix)) = 256 * 257 ^ k"
    using k by (simp add: shard_children_def job_weight_def o_def sum_list_triv)
  also have "\<dots> < job_weight prefix" by (simp add: job_weight_def k)
  finally show ?thesis .
qed

text \<open>The loop over the jobs: the first error, the number of keys found and the state of the handler.\<close>

function shard_loop :: "(bytes \<Rightarrow> string + string list) \<Rightarrow> 's key_handler \<Rightarrow> bytes list \<Rightarrow> nat \<Rightarrow> 's \<Rightarrow> string option \<times> nat \<times> 's" where
  "shard_loop query handle [] found s = (None, found, s)"
| "shard_loop query handle (prefix # jobs) found s =
     (case query prefix of
        Inl e \<Rightarrow>
          if isProgramScanLimitError e \<and> length prefix < maxShardDepth
          then shard_loop query handle (jobs @ shard_children prefix) found s
          else if isProgramScanLimitError e then (Some ''getProgramAccounts result limit'', found, s)
          else if isRetryableRPCError e then shard_loop query handle jobs found s
          else (Some e, found, s)
      | Inr keys \<Rightarrow>
          if keys = [] then shard_loop query handle jobs found s
          else (case handle keys s of
                  (Inl e, s') \<Rightarrow> (Some e, found + length keys, s')
                | (Inr n, s') \<Rightarrow> shard_loop query handle jobs (found + length keys) s'))"
  by pat_completeness auto
termination
proof (relation "measures [\<lambda>(query, handle, jobs, found, s). sum_list (map job_weight jobs)]")
qed (use children_weight in \<open>auto simp: job_weight_def\<close>)

definition StreamProgramAccountPubkeysSharded ::
    "solana_rpc \<Rightarrow> string \<Rightarrow> program_filter list \<Rightarrow> nat \<Rightarrow> 's key_handler \<Rightarrow> 's \<Rightarrow> string option \<times> nat \<times> 's" where
  "StreamProgramAccountPubkeysSharded rpc programID filters shardOffset handle s =
     shard_loop (\<lambda>prefix. GetProgramAccountPubkeys rpc programID (appendShardFilter filters shardOffset prefix)) handle
       (shard_children []) 0 s"

section \<open>The scanner\<close>

record solana_scanner =
  sc_rpc :: solana_rpc
  sc_lib :: solana_lib
  sc_chainKey :: chain_key
  sc_venueKey :: venue_key
  sc_raydiumAMMProgram :: string
  sc_raydiumCLMMProgram :: string
  sc_raydiumCPMMProgram :: string
  sc_orcaProgram :: string
  sc_orcaConfigAccounts :: "string list"
  sc_meteoraDLMMProgram :: string

definition or_default :: "string \<Rightarrow> string \<Rightarrow> string" where
  "or_default v dflt = (if v \<noteq> [] then v else dflt)"

definition NewScanner :: "solana_rpc \<Rightarrow> solana_lib \<Rightarrow> chain_key \<Rightarrow> venue_key \<Rightarrow> venue_config option \<Rightarrow> solana_scanner" where
  "NewScanner rpc lib chainKey venueKey cfg =
     (let s = \<lparr>sc_rpc = rpc, sc_lib = lib, sc_chainKey = chainKey, sc_venueKey = venueKey,
               sc_raydiumAMMProgram = ''675kPX9MHTjS2zt1qfr1NYHuzeLXfQM9H24wFSUt1Mp8'',
               sc_raydiumCLMMProgram = ''CAMMCzo5YL8w4VFF8KVHrK22GGUsp5VTaW7grrKgrWqK'',
               sc_raydiumCPMMProgram = ''CPMMoo8L3F4NbTegBCKVNunggL7H1ZpdTHKxQB5qKP1C'',
               sc_orcaProgram = ''whirLbMiicVdio4qvUfM5KAg6Ct8VwpYzGff3uctyCc'', sc_orcaConfigAccounts = [],
               sc_meteoraDLMMProgram = ''LBUZKhRxPF3XUpBCjp4YzTKgLccjZhTSDM9YuVaPwxo''\<rparr>
      in (case cfg of
            Some (RaydiumConfig c) \<Rightarrow>
              s\<lparr>sc_raydiumAMMProgram := or_default (ray_AMMProgramID c) (sc_raydiumAMMProgram s),
                sc_raydiumCLMMProgram := or_default (ray_CLMMProgramID c) (sc_raydiumCLMMProgram s),
                sc_raydiumCPMMProgram := or_default (ray_CPMMProgramID c) (sc_raydiumCPMMProgram s)\<rparr>
          | Some (OrcaConfig c) \<Rightarrow>
              s\<lparr>sc_orcaProgram := or_default (orca_WhirlpoolProgramID c) (sc_orcaProgram s), sc_orcaConfigAccounts := orca_ConfigAccounts c\<rparr>
          | Some (MeteoraConfig c) \<Rightarrow> s\<lparr>sc_meteoraDLMMProgram := or_default (met_DLMMProgramID c) (sc_meteoraDLMMProgram s)\<rparr>
          | _ \<Rightarrow> s))"

text \<open>The consumer of batches of pools; a stream returns the number of pools, an error if there was one, and the consumer's state.\<close>

type_synonym 's pool_handler = "pool list \<Rightarrow> 's \<Rightarrow> string option \<times> 's"
type_synonym 's stream = "'s \<Rightarrow> nat \<times> string option \<times> 's"

fun vault_list :: "pool list \<Rightarrow> string list \<Rightarrow> string list" where
  "vault_list [] seen = seen"
| "vault_list (p # ps) seen =
     (let seen1 = (if vp_Vault0 p \<noteq> [] \<and> vp_Vault0 p \<notin> set seen then seen @ [vp_Vault0 p] else seen);
          seen2 = (if vp_Vault1 p \<noteq> [] \<and> vp_Vault1 p \<notin> set seen1 then seen1 @ [vp_Vault1 p] else seen1)
      in vault_list ps seen2)"

definition fillVaultBalances :: "solana_rpc \<Rightarrow> pool list \<Rightarrow> string + pool list" where
  "fillVaultBalances rpc pools =
     (let vaults = vault_list pools [] in
      if vaults = [] then Inr pools
      else (case GetTokenAccountAmounts rpc vaults of
              Inl e \<Rightarrow> Inl e
            | Inr balances \<Rightarrow>
                Inr (map (\<lambda>p. p\<lparr>vp_Reserve0 := (case balances (vp_Vault0 p) of Some a \<Rightarrow> Some a | None \<Rightarrow> vp_Reserve0 p),
                               vp_Reserve1 := (case balances (vp_Vault1 p) of Some a \<Rightarrow> Some a | None \<Rightarrow> vp_Reserve1 p)\<rparr>) pools)))"

type_synonym pool_parser = "program_account \<Rightarrow> pool option"

fun stream_account_batches :: "solana_rpc \<Rightarrow> 's pool_handler \<Rightarrow> pool_parser \<Rightarrow> program_account list list \<Rightarrow> nat \<Rightarrow> 's stream" where
  "stream_account_batches rpc handle parse [] n s = (n, None, s)"
| "stream_account_batches rpc handle parse (b # bs) n s =
     (let pools = List.map_filter parse b in
      if pools = [] then stream_account_batches rpc handle parse bs n s
      else (case fillVaultBalances rpc pools of
              Inl e \<Rightarrow> (n, Some e, s)
            | Inr filled \<Rightarrow>
                (case handle filled s of
                   (Some e, s') \<Rightarrow> (n, Some e, s')
                 | (None, s') \<Rightarrow> stream_account_batches rpc handle parse bs (n + length filled) s')))"

definition streamProgramAccounts :: "solana_rpc \<Rightarrow> program_account list \<Rightarrow> 's pool_handler \<Rightarrow> pool_parser \<Rightarrow> 's stream" where
  "streamProgramAccounts rpc accounts handle parse = stream_account_batches rpc handle parse (batches 250 accounts) 0"

fun stream_key_batches :: "solana_rpc \<Rightarrow> 's pool_handler \<Rightarrow> pool_parser \<Rightarrow> string list list \<Rightarrow> nat \<Rightarrow> 's stream" where
  "stream_key_batches rpc handle parse [] n s = (n, None, s)"
| "stream_key_batches rpc handle parse (b # bs) n s =
     (case GetAccounts rpc b of
        Inl e \<Rightarrow> (n, Some e, s)
      | Inr accounts \<Rightarrow>
          (case streamProgramAccounts rpc accounts handle parse s of
             (count, Some e, s') \<Rightarrow> (n, Some e, s')
           | (count, None, s') \<Rightarrow> stream_key_batches rpc handle parse bs (n + count) s'))"

definition streamProgramAccountPubkeys :: "solana_rpc \<Rightarrow> string list \<Rightarrow> 's pool_handler \<Rightarrow> pool_parser \<Rightarrow> 's stream" where
  "streamProgramAccountPubkeys rpc pubkeys handle parse = stream_key_batches rpc handle parse (batches 250 pubkeys) 0"

text \<open>The sharded query; the state of its handler is the number of pools with the consumer's state.\<close>

definition streamProgramAccountQuery ::
    "solana_rpc \<Rightarrow> string \<Rightarrow> program_filter list \<Rightarrow> nat \<Rightarrow> 's pool_handler \<Rightarrow> pool_parser \<Rightarrow> 's stream" where
  "streamProgramAccountQuery rpc programID filters shardOffset handle parse s =
     (let keys_handler = (\<lambda>keys (n, s).
            (case streamProgramAccountPubkeys rpc keys handle parse s of
               (count, Some e, s') \<Rightarrow> (Inl e, (n, s'))
             | (count, None, s') \<Rightarrow> (Inr count, (n + count, s'))))
      in (case StreamProgramAccountPubkeysSharded rpc programID filters shardOffset keys_handler (0, s) of
            (err, keys, (n, s')) \<Rightarrow> (n, err, s')))"

fun scan_mint_offsets ::
    "solana_rpc \<Rightarrow> string \<Rightarrow> program_filter list \<Rightarrow> 's pool_handler \<Rightarrow> pool_parser \<Rightarrow> (string \<times> nat) list \<Rightarrow> string list \<Rightarrow> nat \<Rightarrow> 's stream" where
  "scan_mint_offsets rpc programID baseFilters handle parse [] seen n s = (n, None, s)"
| "scan_mint_offsets rpc programID baseFilters handle parse ((mint, offset) # rest) seen n s =
     (case GetProgramAccountPubkeys rpc programID (baseFilters @ [Memcmp offset mint]) of
        Inl e \<Rightarrow> if isRetryableRPCError e then scan_mint_offsets rpc programID baseFilters handle parse rest seen n s else (n, Some e, s)
      | Inr pubkeys \<Rightarrow>
          (let unique = filter (\<lambda>k. k \<notin> set seen) (add_new [] pubkeys) in
           if unique = [] then scan_mint_offsets rpc programID baseFilters handle parse rest seen n s
           else (case streamProgramAccountPubkeys rpc unique handle parse s of
                   (count, Some e, s') \<Rightarrow> (n + count, Some e, s')
                 | (count, None, s') \<Rightarrow> scan_mint_offsets rpc programID baseFilters handle parse rest (seen @ unique) (n + count) s')))"

definition scanProgramForMints ::
    "solana_rpc \<Rightarrow> string \<Rightarrow> program_filter list \<Rightarrow> nat list \<Rightarrow> string list \<Rightarrow> 's pool_handler \<Rightarrow> pool_parser \<Rightarrow> 's stream" where
  "scanProgramForMints rpc programID baseFilters tokenOffsets mints handle parse =
     scan_mint_offsets rpc programID baseFilters handle parse (concat (map (\<lambda>m. map (\<lambda>off. (m, off)) tokenOffsets) mints)) [] 0"

text \<open>Streams one after the other, adding their counts; an error of one is logged and the next is run.\<close>

fun stream_all :: "'s stream list \<Rightarrow> nat \<Rightarrow> 's \<Rightarrow> nat \<times> 's" where
  "stream_all [] n s = (n, s)"
| "stream_all (f # fs) n s = (case f s of (count, err, s') \<Rightarrow> stream_all fs (n + count) s')"

definition scanner_parse :: "solana_scanner \<Rightarrow> account_parser \<Rightarrow> string \<Rightarrow> pool_parser" where
  "scanner_parse sc parse programID = (\<lambda>(key, data). parse key data (sc_chainKey sc) (sc_venueKey sc) programID)"

definition orca_filters :: "solana_scanner \<Rightarrow> program_filter list" where
  "orca_filters sc = [DataSize 653, memcmpFilter 0 (anchorDiscriminator (sc_lib sc) ''Whirlpool'')]"

definition poolstate_filters :: "solana_scanner \<Rightarrow> nat \<Rightarrow> program_filter list" where
  "poolstate_filters sc sz = [DataSize sz, memcmpFilter 0 (anchorDiscriminator (sc_lib sc) ''PoolState'')]"

definition meteora_filters :: "solana_scanner \<Rightarrow> program_filter list" where
  "meteora_filters sc = [DataSize 904, memcmpFilter 0 (anchorDiscriminator (sc_lib sc) ''LbPair'')]"

definition scanOrcaStream :: "solana_scanner \<Rightarrow> 's pool_handler \<Rightarrow> 's stream" where
  "scanOrcaStream sc handle s =
     (let parse = scanner_parse sc (parseOrcaWhirlpool (sc_lib sc)) (sc_orcaProgram sc);
          query = (\<lambda>filters. streamProgramAccountQuery (sc_rpc sc) (sc_orcaProgram sc) filters 101 handle parse)
      in if sc_orcaConfigAccounts sc = []
         then (case query (orca_filters sc) s of
                 (count, Some e, s') \<Rightarrow> (0, Some e, s')
               | (count, None, s') \<Rightarrow> if count = 0 then (0, Some ''orca on-chain scan returned no pools'', s') else (count, None, s'))
         else (case stream_all (map (\<lambda>cfg. query (orca_filters sc @ [Memcmp 8 cfg])) (sc_orcaConfigAccounts sc)) 0 s of
                 (n, s') \<Rightarrow> if n = 0 then (0, Some ''orca on-chain scan returned no pools'', s') else (n, None, s')))"

definition scanRaydiumStream :: "solana_scanner \<Rightarrow> 's pool_handler \<Rightarrow> 's stream" where
  "scanRaydiumStream sc handle s =
     (case stream_all
        [streamProgramAccountQuery (sc_rpc sc) (sc_raydiumCLMMProgram sc) (poolstate_filters sc 1544) 73 handle
           (scanner_parse sc (parseRaydiumCLMM (sc_lib sc)) (sc_raydiumCLMMProgram sc)),
         streamProgramAccountQuery (sc_rpc sc) (sc_raydiumCPMMProgram sc) (poolstate_filters sc 741) 168 handle
           (scanner_parse sc (parseRaydiumCPMM (sc_lib sc)) (sc_raydiumCPMMProgram sc)),
         streamProgramAccountQuery (sc_rpc sc) (sc_raydiumAMMProgram sc) [DataSize 752] 400 handle
           (scanner_parse sc parseRaydiumAMM (sc_raydiumAMMProgram sc))] 0 s of
        (n, s') \<Rightarrow> if n = 0 then (0, Some ''raydium on-chain scans returned no pools'', s') else (n, None, s'))"

definition scanMeteoraStream :: "solana_scanner \<Rightarrow> 's pool_handler \<Rightarrow> 's stream" where
  "scanMeteoraStream sc handle =
     streamProgramAccountQuery (sc_rpc sc) (sc_meteoraDLMMProgram sc) (meteora_filters sc) 88 handle
       (scanner_parse sc (parseMeteoraLbPair (sc_lib sc)) (sc_meteoraDLMMProgram sc))"

definition ScanPoolsStream :: "solana_scanner \<Rightarrow> 's pool_handler \<Rightarrow> 's stream" where
  "ScanPoolsStream sc handle s =
     (if sc_venueKey sc = ''orca'' then scanOrcaStream sc handle s
      else if sc_venueKey sc = ''raydium'' then scanRaydiumStream sc handle s
      else if sc_venueKey sc = ''meteora'' then scanMeteoraStream sc handle s
      else (0, Some ''unsupported solana venue'', s))"

definition scanOrcaForMints :: "solana_scanner \<Rightarrow> string list \<Rightarrow> 's pool_handler \<Rightarrow> 's stream" where
  "scanOrcaForMints sc mints handle s =
     (let parse = scanner_parse sc (parseOrcaWhirlpool (sc_lib sc)) (sc_orcaProgram sc);
          query = (\<lambda>filters. scanProgramForMints (sc_rpc sc) (sc_orcaProgram sc) filters [101, 181] mints handle parse)
      in if sc_orcaConfigAccounts sc = [] then query (orca_filters sc) s
         else (case stream_all (map (\<lambda>cfg. query (orca_filters sc @ [Memcmp 8 cfg])) (sc_orcaConfigAccounts sc)) 0 s of
                 (n, s') \<Rightarrow> (n, None, s')))"

definition scanRaydiumForMints :: "solana_scanner \<Rightarrow> string list \<Rightarrow> 's pool_handler \<Rightarrow> 's stream" where
  "scanRaydiumForMints sc mints handle s =
     (case stream_all
        [scanProgramForMints (sc_rpc sc) (sc_raydiumCLMMProgram sc) (poolstate_filters sc 1544) [73, 105] mints handle
           (scanner_parse sc (parseRaydiumCLMM (sc_lib sc)) (sc_raydiumCLMMProgram sc)),
         scanProgramForMints (sc_rpc sc) (sc_raydiumCPMMProgram sc) (poolstate_filters sc 741) [168, 200] mints handle
           (scanner_parse sc (parseRaydiumCPMM (sc_lib sc)) (sc_raydiumCPMMProgram sc)),
         scanProgramForMints (sc_rpc sc) (sc_raydiumAMMProgram sc) [DataSize 752] [400, 432] mints handle
           (scanner_parse sc parseRaydiumAMM (sc_raydiumAMMProgram sc))] 0 s of
        (n, s') \<Rightarrow> (n, None, s'))"

definition scanMeteoraForMints :: "solana_scanner \<Rightarrow> string list \<Rightarrow> 's pool_handler \<Rightarrow> 's stream" where
  "scanMeteoraForMints sc mints handle =
     scanProgramForMints (sc_rpc sc) (sc_meteoraDLMMProgram sc) (meteora_filters sc) [88, 120] mints handle
       (scanner_parse sc (parseMeteoraLbPair (sc_lib sc)) (sc_meteoraDLMMProgram sc))"

definition solanaAssetMints :: "string list \<Rightarrow> string list" where
  "solanaAssetMints assetIDs = add_new [] (filter (\<lambda>m. m \<noteq> []) (map trim_space assetIDs))"

definition ScanPoolsForAssets :: "solana_scanner \<Rightarrow> string list \<Rightarrow> 's pool_handler \<Rightarrow> 's stream" where
  "ScanPoolsForAssets sc assetIDs handle s =
     (let mints = solanaAssetMints assetIDs in
      if mints = [] then (0, None, s)
      else if sc_venueKey sc = ''orca'' then scanOrcaForMints sc mints handle s
      else if sc_venueKey sc = ''raydium'' then scanRaydiumForMints sc mints handle s
      else if sc_venueKey sc = ''meteora'' then scanMeteoraForMints sc mints handle s
      else (0, Some ''unsupported solana venue'', s))"

definition ScanPools :: "solana_scanner \<Rightarrow> string + pool list" where
  "ScanPools sc =
     (case ScanPoolsStream sc (\<lambda>batch pools. (None, pools @ batch)) [] of
        (n, Some e, pools) \<Rightarrow> Inl e
      | (n, None, pools) \<Rightarrow> Inr pools)"

definition LoadPool :: "solana_scanner \<Rightarrow> string \<Rightarrow> string + pool" where
  "LoadPool sc i =
     (case ScanPools sc of
        Inl e \<Rightarrow> Inl e
      | Inr pools \<Rightarrow> (case row_find vp_ID i pools of None \<Rightarrow> Inl ''pool not found'' | Some p \<Rightarrow> Inr p))"

end
