(* ===== verification/SolanaProps.thy ===== *)
theory SolanaProps
  imports SolanaScan "HOL-Library.Multiset"
begin

text \<open>
  What the Solana scanner promises: splitting a query that exceeds the service's limit into shards loses no account and
  reports none twice; batches cover the list; the client avoids endpoints that are disabled.
\<close>

section \<open>Batches\<close>

lemma concat_batches: "0 < n \<Longrightarrow> concat (batches n xs) = xs"
proof (induction n xs rule: batches.induct)
  case (1 n xs)
  then show ?case by (subst batches.simps) auto
qed

lemma batches_bound: "b \<in> set (batches n xs) \<Longrightarrow> length b \<le> n \<and> b \<noteq> []"
proof (induction n xs rule: batches.induct)
  case (1 n xs)
  have "xs \<noteq> [] \<and> n \<noteq> 0 \<and> (b = take n xs \<or> b \<in> set (batches n (drop n xs)))"
    using "1.prems" by (subst (asm) batches.simps) (auto split: if_splits)
  then show ?case using "1.IH" by auto
qed

section \<open>Shards\<close>

text \<open>The keys of the accounts whose data has the prefix at the offset.\<close>

definition shard :: "program_account list \<Rightarrow> nat \<Rightarrow> bytes \<Rightarrow> string list" where
  "shard accs off prefix = map fst (filter (\<lambda>(k, d). take (length prefix) (drop off d) = prefix) accs)"

lemma word_index: "i < 256 \<Longrightarrow> word_of_nat i = (b :: 8 word) \<longleftrightarrow> i = unat b"
proof
  assume i: "i < 256" "word_of_nat i = b"
  have "unat (word_of_nat i :: 8 word) = i" using i(1) by (simp add: unsigned_of_nat take_bit_eq_mod)
  then show "i = unat b" unfolding i(2) by (rule sym)
next
  assume "i = unat b"
  then show "word_of_nat i = b" by simp
qed

lemma sum_children:
  "(\<Sum>i\<leftarrow>[0..<256]. if C \<and> word_of_nat i = (b :: 8 word) then (x :: 'a multiset) else {#}) = (if C then x else {#})"
proof -
  have "(\<Sum>i\<leftarrow>[0..<256]. if C \<and> word_of_nat i = b then x else {#}) = (\<Sum>i\<in>{0..<256}. if C \<and> word_of_nat i = b then x else {#})"
    by (simp add: interv_sum_list_conv_sum_set_nat)
  also have "\<dots> = (\<Sum>i\<in>{0..<256}. if i = unat b then (if C then x else {#}) else {#})"
    by (intro sum.cong) (auto simp: word_index)
  also have "\<dots> = (if C then x else {#})" using byte_bound [of b] by simp
  finally show ?thesis .
qed

text \<open>The children of a shard share out its accounts.\<close>

lemma shard_partition:
  assumes "list_all (\<lambda>(k, d). off + length prefix < length d) accs"
  shows "(\<Sum>p\<leftarrow>shard_children prefix. mset (shard accs off p)) = mset (shard accs off prefix)"
  using assms
proof (induction accs)
  case Nil
  then show ?case by (simp add: shard_def sum_list_0)
next
  case (Cons a accs)
  obtain k d where a: "a = (k, d)" by (cases a)
  let ?C = "take (length prefix) (drop off d) = prefix" and ?b = "drop off d ! length prefix"
  have t: "take (length (prefix @ [c])) (drop off d) = prefix @ [c] \<longleftrightarrow> ?C \<and> c = ?b" for c
    using Cons.prems by (auto simp: a take_Suc_conv_app_nth)
  have one: "mset (shard (a # accs) off (prefix @ [c])) = (if ?C \<and> c = ?b then {#k#} else {#}) + mset (shard accs off (prefix @ [c]))" for c
    unfolding shard_def a using t [of c] by simp
  have "(\<Sum>p\<leftarrow>shard_children prefix. mset (shard (a # accs) off p)) =
      (\<Sum>i\<leftarrow>[0..<256]. if ?C \<and> word_of_nat i = ?b then {#k#} else {#}) + (\<Sum>p\<leftarrow>shard_children prefix. mset (shard accs off p))"
    by (simp add: shard_children_def o_def one sum_list_addf)
  also have "\<dots> = (if ?C then {#k#} else {#}) + mset (shard accs off prefix)"
    using Cons by (simp add: sum_children)
  also have "\<dots> = mset (shard (a # accs) off prefix)" by (simp add: shard_def a)
  finally show ?case .
qed

definition collect_keys :: "string list key_handler" where
  "collect_keys keys acc = (Inr (length keys), acc @ keys)"

text \<open>What the service answers to a query for a shard: its accounts, or an error that says the limit was exceeded.\<close>

definition answers_shards :: "(bytes \<Rightarrow> string + string list) \<Rightarrow> program_account list \<Rightarrow> nat \<Rightarrow> bool" where
  "answers_shards query accs off \<longleftrightarrow>
     (\<forall>p. length p \<le> maxShardDepth \<longrightarrow> (case query p of Inr keys \<Rightarrow> keys = shard accs off p | Inl e \<Rightarrow> isProgramScanLimitError e))"

lemma answers_shardsD:
  "answers_shards query accs off \<Longrightarrow> length p \<le> maxShardDepth \<Longrightarrow>
     (case query p of Inr keys \<Rightarrow> keys = shard accs off p | Inl e \<Rightarrow> isProgramScanLimitError e)"
  by (simp add: answers_shards_def)

lemma shard_loop_collects:
  assumes "shard_loop query collect_keys jobs n acc = (None, n', acc')"
    and "answers_shards query accs off" and "list_all (\<lambda>(k, d). off + maxShardDepth \<le> length d) accs"
    and "\<forall>p \<in> set jobs. length p \<le> maxShardDepth"
  shows "mset acc' = mset acc + (\<Sum>p\<leftarrow>jobs. mset (shard accs off p)) \<and> n' + length acc = n + length acc'"
  using assms(1,2,4)
proof (induction query "collect_keys" jobs n acc rule: shard_loop.induct)
  case (1 query n acc)
  then show ?case by simp
next
  case (2 query p jobs n acc)
  have len: "length p \<le> maxShardDepth" using "2.prems"(3) by simp
  show ?case
  proof (cases "query p")
    case (Inl e)
    have lim: "isProgramScanLimitError e" using answers_shardsD [OF "2.prems"(2) len] unfolding Inl by simp
    show ?thesis
    proof (cases "length p < maxShardDepth")
      case True
      have "shard_loop query collect_keys (jobs @ shard_children p) n acc = (None, n', acc')"
        using "2.prems"(1) Inl lim True by simp
      moreover have "\<forall>x \<in> set (jobs @ shard_children p). length x \<le> maxShardDepth"
        using "2.prems"(3) True by (auto simp: shard_children_def)
      ultimately have "mset acc' = mset acc + (\<Sum>x\<leftarrow>jobs @ shard_children p. mset (shard accs off x)) \<and> n' + length acc = n + length acc'"
        using "2.hyps"(1) [OF Inl] lim True "2.prems"(2) by blast
      moreover have "list_all (\<lambda>(k, d). off + length p < length d) accs"
        using assms(3) True by (auto simp: list_all_iff)
      ultimately show ?thesis by (simp add: shard_partition add.commute)
    next
      case False
      then show ?thesis using "2.prems"(1) Inl lim by simp
    qed
  next
    case (Inr keys)
    have keys: "keys = shard accs off p" using answers_shardsD [OF "2.prems"(2) len] unfolding Inr by simp
    show ?thesis
    proof (cases "keys = []")
      case True
      have "shard_loop query collect_keys jobs n acc = (None, n', acc')" using "2.prems"(1) Inr True by simp
      then show ?thesis using "2.hyps"(3) [OF Inr True] "2.prems"(2,3) True by (simp add: keys [symmetric])
    next
      case False
      have "shard_loop query collect_keys jobs (n + length keys) (acc @ keys) = (None, n', acc')"
        using "2.prems"(1) Inr False by (simp add: collect_keys_def)
      then have "mset acc' = mset (acc @ keys) + (\<Sum>x\<leftarrow>jobs. mset (shard accs off x)) \<and> n' + length (acc @ keys) = n + length keys + length acc'"
        using "2.hyps"(4) [OF Inr False, of "Inr (length keys)" "acc @ keys" "length keys"] "2.prems"(2,3) by (simp add: collect_keys_def)
      then show ?thesis by (simp add: keys [symmetric])
    qed
  qed
qed

lemma all_shards:
  "list_all (\<lambda>(k, d). off < length d) accs \<Longrightarrow> (\<Sum>p\<leftarrow>shard_children []. mset (shard accs off p)) = mset (map fst accs)"
  using shard_partition [of off "[]" accs] by (simp add: shard_def case_prod_unfold)

text \<open>C31: If the service answers the query of a shard with its accounts or with an error that says its limit was exceeded,
  a sharded scan that ends without an error has handed over every account of the program exactly once.\<close>

theorem sharded_scan_complete:
  assumes "answers_shards (\<lambda>p. GetProgramAccountPubkeys rpc programID (appendShardFilter filters off p)) accs off"
    and "list_all (\<lambda>(k, d). off + maxShardDepth \<le> length d) accs"
    and "StreamProgramAccountPubkeysSharded rpc programID filters off collect_keys [] = (None, n, keys)"
  shows "mset keys = mset (map fst accs) \<and> n = length accs"
proof -
  have "mset keys = (\<Sum>p\<leftarrow>shard_children []. mset (shard accs off p)) \<and> n = length keys"
    using shard_loop_collects [OF assms(3) [unfolded StreamProgramAccountPubkeysSharded_def] assms(1,2)]
    by (auto simp: shard_children_def maxShardDepth_def)
  moreover have "list_all (\<lambda>(k, d). off < length d) accs"
    using assms(2) by (auto simp: list_all_iff maxShardDepth_def)
  ultimately have "mset keys = mset (map fst accs) \<and> n = length keys" by (simp add: all_shards)
  then show ?thesis by (metis length_map size_mset)
qed

text \<open>One account of three bytes, and a service that compares the text of the bytes at offset 0.\<close>

definition one_account :: "program_account list" where
  "one_account = [(''key'', [1, 2, 3])]"

definition one_account_rpc :: solana_rpc where
  "one_account_rpc =
     \<lparr>sp_program_accounts = (\<lambda>program filters.
        (case filters of
           [Memcmp off s] \<Rightarrow> Inr (if s \<in> set (map base58Encode [[], [1], [1, 2], [1, 2, 3]]) then [''key''] else [])
         | _ \<Rightarrow> Inr [])),
      sp_multiple_accounts = (\<lambda>ks. Inr (map (\<lambda>_. None) ks))\<rparr>"

lemma length_le_3:
  "length p \<le> 3 \<Longrightarrow> p = [] \<or> (\<exists>a. p = [a]) \<or> (\<exists>a b. p = [a, b]) \<or> (\<exists>a b c. p = [a, b, c])"
  by (cases p; cases "tl p"; cases "tl (tl p)"; cases "tl (tl (tl p))") auto

lemma one_account_answers:
  "answers_shards (\<lambda>p. GetProgramAccountPubkeys one_account_rpc ''prog'' (appendShardFilter [] 0 p)) one_account 0"
proof -
  have e: "base58Encode p = base58Encode q \<longleftrightarrow> p = q" for p q using base58Encode_eqD by blast
  have q: "GetProgramAccountPubkeys one_account_rpc ''prog'' (appendShardFilter [] 0 p) =
      Inr (if p \<in> {[], [1], [1, 2], [1, 2, 3]} then [''key''] else [])" for p
    by (auto simp: GetProgramAccountPubkeys_def one_account_rpc_def appendShardFilter_def memcmpFilter_def e)
  have s: "shard one_account 0 p = (if p \<in> {[], [1], [1, 2], [1, 2, 3]} then [''key''] else [])" if len: "length p \<le> 3" for p
  proof -
    consider "p = []" | a where "p = [a]" | a b where "p = [a, b]" | a b c where "p = [a, b, c]"
      using length_le_3 [OF len] by blast
    then show ?thesis by cases (auto simp: shard_def one_account_def)
  qed
  show ?thesis by (simp add: answers_shards_def q s maxShardDepth_def)
qed

lemma shard_loop_empty:
  "\<forall>p \<in> set jobs. query p = Inr [] \<Longrightarrow> shard_loop query handle jobs n s = (None, n, s)"
  by (induction jobs) auto

lemma one_account_query:
  assumes "length p \<le> 3"
  shows "GetProgramAccountPubkeys one_account_rpc ''prog'' (appendShardFilter [] 0 p) = Inr (shard one_account 0 p)"
proof (cases "GetProgramAccountPubkeys one_account_rpc ''prog'' (appendShardFilter [] 0 p)")
  case (Inl e)
  then show ?thesis
    by (simp add: GetProgramAccountPubkeys_def one_account_rpc_def appendShardFilter_def memcmpFilter_def)
next
  case (Inr keys)
  then show ?thesis
    using answers_shardsD [OF one_account_answers, of p] assms by (simp add: maxShardDepth_def)
qed

lemma one_account_scan:
  "StreamProgramAccountPubkeysSharded one_account_rpc ''prog'' [] 0 collect_keys [] = (None, 1, [''key''])"
proof -
  let ?query = "\<lambda>p. GetProgramAccountPubkeys one_account_rpc ''prog'' (appendShardFilter [] 0 p)"
  let ?rest = "map (\<lambda>i. [word_of_nat i]) [2..<256] :: bytes list"
  have jobs: "shard_children [] = [0] # [1] # ?rest"
    by (simp add: shard_children_def upt_conv_Cons)
  have "\<forall>p \<in> set ?rest. ?query p = Inr []"
    by (auto simp: one_account_query shard_def one_account_def word_index)
  then show ?thesis
    by (simp add: StreamProgramAccountPubkeysSharded_def jobs one_account_query shard_def one_account_def collect_keys_def shard_loop_empty)
qed

theorem sharded_scan_complete_witness: "mset [''key''] = mset (map fst one_account)"
  using sharded_scan_complete [OF one_account_answers _ one_account_scan] by (simp add: one_account_def maxShardDepth_def)

section \<open>The choice of an endpoint\<close>

text \<open>Within one round of the addresses the client finds one that is not disabled, if there is one.\<close>

lemma next_url_simps: "fst (next_url r) = rc_urls r ! (unat (rc_next r) mod length (rc_urls r))"
  "rc_urls (snd (next_url r)) = rc_urls r" "rc_next (snd (next_url r)) = rc_next r + 1"
  "isEndpointDisabled (snd (next_url r)) u now = isEndpointDisabled r u now"
  by (simp_all add: next_url_def isEndpointDisabled_def)

lemma unat_next: "unat w + 1 < 2 ^ 64 \<Longrightarrow> unat ((w :: uint64) + 1) = Suc (unat w)"
  by (simp add: unat_word_ariths)

lemma endpoint_loop_enabled:
  assumes "unat (rc_next r) + k < 2 ^ 64" "j < k"
    and "\<not> isEndpointDisabled r (rc_urls r ! ((unat (rc_next r) + j) mod length (rc_urls r))) now"
  shows "\<not> isEndpointDisabled r (fst (endpoint_loop now k r)) now"
  using assms
proof (induction k arbitrary: r j)
  case 0
  then show ?case by simp
next
  case (Suc k)
  obtain url r' where n: "next_url r = (url, r')" by (cases "next_url r")
  note f = next_url_simps [of r, unfolded n fst_conv snd_conv]
  show ?case
  proof (cases "isEndpointDisabled r url now")
    case False
    then show ?thesis by (simp add: n f(4))
  next
    case True
    then have "j \<noteq> 0" using Suc.prems(3) f(1) by (metis add.right_neutral)
    then obtain i where i: "j = Suc i" by (cases j) auto
    have u: "unat (rc_next r') = Suc (unat (rc_next r))"
      using Suc.prems(1) unat_next [of "rc_next r"] by (simp add: f(3))
    have "\<not> isEndpointDisabled r' (fst (endpoint_loop now k r')) now"
      using Suc.IH [of r' i] Suc.prems i by (simp add: u f(1,2,4))
    then show ?thesis using True by (simp add: n f(4))
  qed
qed

end
