(* ===== verification/EvmRpc.thy ===== *)
theory EvmRpc
  imports Swap
begin

text \<open>
  The pool of Ethereum clients of \<^verbatim>\<open>internal/adapters/venues/evm/rpc\<close>, the batched calls of
  \<^verbatim>\<open>multicall/multicall.go\<close> and the token addresses of \<^verbatim>\<open>assets/assets.go\<close>. What a client answers to the
  attempt with a given number is a parameter; errors are their messages. The waits between two attempts, the cancellation
  of a context and a counter past \<open>2 ^ 63\<close> (which Go would read as a negative index) are not modelled.
\<close>

section \<open>The pool of clients\<close>

record evm_client =
  ec_call :: "nat \<Rightarrow> address \<Rightarrow> bytes \<Rightarrow> string + bytes"
  ec_balance :: "nat \<Rightarrow> address \<Rightarrow> string + int"

record evm_pool =
  ep_clients :: "evm_client list"
  ep_next :: uint64

definition blank :: "string \<Rightarrow> bool" where
  "blank s = (trim_space s = [])"

definition evm_New :: "(string \<Rightarrow> evm_client option) \<Rightarrow> string list \<Rightarrow> string + evm_pool" where
  "evm_New dial urls =
     (if urls = [] then Inl ''rpc pool requires at least one url''
      else (let clients = List.map_filter dial (filter (\<lambda>u. \<not> blank u) urls) in
            if clients = [] then Inl ''failed to connect to all rpc urls''
            else Inr \<lparr>ep_clients = clients, ep_next = 0\<rparr>))"

definition evm_Client :: "evm_pool \<Rightarrow> evm_client \<times> evm_pool" where
  "evm_Client p = (ep_clients p ! (unat (ep_next p) mod length (ep_clients p)), p\<lparr>ep_next := ep_next p + 1\<rparr>)"

definition evm_isRetryable :: "string \<Rightarrow> bool" where
  "evm_isRetryable e =
     (let msg = to_lower e in
      list_ex (str_contains msg)
        [''429'', ''too many requests'', ''403'', ''forbidden'', ''administrative rules'', ''rate limit'', ''over rate limit'',
         ''timeout'', ''deadline exceeded'', ''broken pipe'', ''eof'', ''connection reset'', ''connection refused'',
         ''no such host'', ''temporarily unavailable'', ''500 internal server error'', ''502 bad gateway'',
         ''503 service unavailable'', ''504 gateway timeout''])"

text \<open>The loop that \<^verbatim>\<open>CallContract\<close> and \<^verbatim>\<open>BalanceAt\<close> share: attempt \<open>i\<close> with \<open>left\<close> attempts left.\<close>

fun evm_attempts :: "(evm_client \<Rightarrow> nat \<Rightarrow> string + 'a) \<Rightarrow> nat \<Rightarrow> nat \<Rightarrow> string \<Rightarrow> evm_pool \<Rightarrow> (string + 'a) \<times> evm_pool" where
  "evm_attempts ask i 0 lastErr p = (Inl lastErr, p)"
| "evm_attempts ask i (Suc left) lastErr p =
     (let (client, p') = evm_Client p in
      (case ask client i of
         Inr out \<Rightarrow> (Inr out, p')
       | Inl e \<Rightarrow> if \<not> evm_isRetryable e then (Inl e, p') else evm_attempts ask (Suc i) left e p'))"

definition evm_call_pool :: "(evm_client \<Rightarrow> nat \<Rightarrow> string + 'a) \<Rightarrow> evm_pool \<Rightarrow> (string + 'a) \<times> evm_pool" where
  "evm_call_pool ask p = evm_attempts ask 0 (max 3 (length (ep_clients p) * 3)) [] p"

definition CallContract :: "address \<Rightarrow> bytes \<Rightarrow> evm_pool \<Rightarrow> (string + bytes) \<times> evm_pool" where
  "CallContract target data = evm_call_pool (\<lambda>c i. ec_call c i target data)"

definition BalanceAt :: "address \<Rightarrow> evm_pool \<Rightarrow> (string + int) \<times> evm_pool" where
  "BalanceAt account = evm_call_pool (\<lambda>c i. ec_balance c i account)"

definition IsRateLimitError :: "string \<Rightarrow> bool" where
  "IsRateLimitError e =
     (let msg = to_lower e in
      list_ex (str_contains msg) [''429'', ''too many requests'', ''rate limit'', ''over rate limit''])"

text \<open>The retries of \<^verbatim>\<open>throttle.go\<close>: \<open>f i\<close> is the error of attempt \<open>i\<close>.\<close>

fun retry_loop :: "(nat \<Rightarrow> string option) \<Rightarrow> nat \<Rightarrow> nat \<Rightarrow> string option \<Rightarrow> string option" where
  "retry_loop f i 0 lastErr = lastErr"
| "retry_loop f i (Suc left) lastErr =
     (case f i of
        None \<Rightarrow> None
      | Some e \<Rightarrow> if \<not> IsRateLimitError e then Some e else retry_loop f (Suc i) left (Some e))"

definition Retry :: "int \<Rightarrow> (nat \<Rightarrow> string option) \<Rightarrow> string option" where
  "Retry attempts f = retry_loop f 0 (nat (if attempts \<le> 0 then 1 else attempts)) None"

section \<open>A chain during a scan\<close>

text \<open>The scanners see a chain through the pool; during one scan its answer to a call is a function of the call.\<close>

record evm_node =
  nd_call :: "address \<Rightarrow> bytes \<Rightarrow> string + bytes"
  nd_balance :: "address \<Rightarrow> string + int"
  nd_lib :: evm_lib

definition abi_pack :: "evm_node \<Rightarrow> router_abi \<Rightarrow> string \<Rightarrow> abi_value list \<Rightarrow> string + bytes" where
  "abi_pack nd abi m args = (case ev_Pack (nd_lib nd) abi m args of None \<Rightarrow> Inl ''abi: pack'' | Some code \<Rightarrow> Inr code)"

text \<open>The unpacked values have the types of the interface; a value of another type counts as a failure to unpack.\<close>

definition abi_address :: "evm_node \<Rightarrow> router_abi \<Rightarrow> string \<Rightarrow> bytes \<Rightarrow> string + address" where
  "abi_address nd abi m out =
     (case ev_Unpack (nd_lib nd) abi m out of Some (AbiAddress a # vs) \<Rightarrow> Inr a | _ \<Rightarrow> Inl ''abi: unpack'')"

definition abi_integer :: "evm_node \<Rightarrow> router_abi \<Rightarrow> string \<Rightarrow> bytes \<Rightarrow> string + int" where
  "abi_integer nd abi m out =
     (case ev_Unpack (nd_lib nd) abi m out of Some (AbiInt n # vs) \<Rightarrow> Inr n | _ \<Rightarrow> Inl ''abi: unpack'')"

definition abi_bool :: "evm_node \<Rightarrow> router_abi \<Rightarrow> string \<Rightarrow> bytes \<Rightarrow> string + bool" where
  "abi_bool nd abi m out =
     (case ev_Unpack (nd_lib nd) abi m out of Some (AbiBool b # vs) \<Rightarrow> Inr b | _ \<Rightarrow> Inl ''abi: unpack'')"

definition abi_reserves :: "evm_node \<Rightarrow> router_abi \<Rightarrow> bytes \<Rightarrow> string + int \<times> int" where
  "abi_reserves nd abi out =
     (case ev_Unpack (nd_lib nd) abi ''getReserves'' out of Some (AbiInt r0 # AbiInt r1 # vs) \<Rightarrow> Inr (r0, r1) | _ \<Rightarrow> Inl ''abi: unpack'')"

text \<open>A call that reads one value: packed, sent and unpacked by \<open>read\<close>.\<close>

definition evm_read :: "evm_node \<Rightarrow> (bytes \<Rightarrow> string + 'a) \<Rightarrow> address \<Rightarrow> router_abi \<Rightarrow> string \<Rightarrow> abi_value list \<Rightarrow> string + 'a" where
  "evm_read nd read target abi m args =
     (case abi_pack nd abi m args of
        Inl e \<Rightarrow> Inl e
      | Inr code \<Rightarrow> (case nd_call nd target code of Inl e \<Rightarrow> Inl e | Inr out \<Rightarrow> read out))"

section \<open>Batched calls\<close>

record call3 =
  c3_Target :: address
  c3_AllowFailure :: bool
  c3_CallData :: bytes

record call_result =
  cr_Success :: bool
  cr_ReturnData :: bytes

definition call3_value :: "call3 \<Rightarrow> abi_value" where
  "call3_value c = AbiTuple [AbiAddress (c3_Target c), AbiBool (c3_AllowFailure c), AbiBytes (c3_CallData c)]"

definition call_result_of :: "abi_value \<Rightarrow> call_result option" where
  "call_result_of v =
     (case v of AbiTuple [AbiBool ok, AbiBytes out] \<Rightarrow> Some \<lparr>cr_Success = ok, cr_ReturnData = out\<rparr> | _ \<Rightarrow> None)"

definition Aggregate3 :: "evm_node \<Rightarrow> address \<Rightarrow> call3 list \<Rightarrow> string + call_result list" where
  "Aggregate3 nd multicall calls =
     (if calls = [] then Inr []
      else (case abi_pack nd MulticallABI ''aggregate3'' [AbiList (map call3_value calls)] of
              Inl e \<Rightarrow> Inl e
            | Inr code \<Rightarrow>
                (case nd_call nd multicall code of
                   Inl e \<Rightarrow> Inl e
                 | Inr out \<Rightarrow>
                     (case ev_Unpack (nd_lib nd) MulticallABI ''aggregate3'' out of
                        None \<Rightarrow> Inl ''abi: unpack''
                      | Some (AbiList vs # rest) \<Rightarrow>
                          (case those (map call_result_of vs) of None \<Rightarrow> Inl ''invalid aggregate3 result type'' | Some rs \<Rightarrow> Inr rs)
                      | Some vs \<Rightarrow> Inl ''invalid aggregate3 result type''))))"

text \<open>The calls of one method with several argument lists, and the distinct addresses that were found.\<close>

fun pack_calls :: "evm_node \<Rightarrow> router_abi \<Rightarrow> string \<Rightarrow> address \<Rightarrow> bool \<Rightarrow> abi_value list list \<Rightarrow> string + call3 list" where
  "pack_calls nd abi m target lenient [] = Inr []"
| "pack_calls nd abi m target lenient (args # rest) =
     (case abi_pack nd abi m args of
        Inl e \<Rightarrow> Inl e
      | Inr code \<Rightarrow>
          (case pack_calls nd abi m target lenient rest of
             Inl e \<Rightarrow> Inl e
           | Inr calls \<Rightarrow> Inr (\<lparr>c3_Target = target, c3_AllowFailure = lenient, c3_CallData = code\<rparr> # calls)))"

definition found_address :: "evm_node \<Rightarrow> router_abi \<Rightarrow> string \<Rightarrow> call_result \<Rightarrow> address option" where
  "found_address nd abi m r =
     (if \<not> cr_Success r then None
      else (case abi_address nd abi m (cr_ReturnData r) of Inl e \<Rightarrow> None | Inr a \<Rightarrow> if a = 0 then None else Some a))"

definition found_addresses :: "evm_node \<Rightarrow> router_abi \<Rightarrow> string \<Rightarrow> call_result list \<Rightarrow> address list" where
  "found_addresses nd abi m results = add_new [] (List.map_filter (found_address nd abi m) results)"

text \<open>The addresses of a batch of calls that must all succeed.\<close>

fun all_addresses :: "evm_node \<Rightarrow> router_abi \<Rightarrow> string \<Rightarrow> nat \<Rightarrow> call_result list \<Rightarrow> string + address list" where
  "all_addresses nd abi m i [] = Inr []"
| "all_addresses nd abi m i (r # rs) =
     (if \<not> cr_Success r then Inl (m @ ''('' @ utoa (int i) @ '') failed'')
      else (case abi_address nd abi m (cr_ReturnData r) of
              Inl e \<Rightarrow> Inl e
            | Inr a \<Rightarrow> (case all_addresses nd abi m (Suc i) rs of Inl e \<Rightarrow> Inl e | Inr as \<Rightarrow> Inr (a # as))))"

text \<open>The pools of a batch: the results of the \<open>k\<close> calls of each address are read by \<open>parse\<close>; addresses that do not
  parse are left out. Fewer results than calls end the program with an index out of range.\<close>

definition parse_groups :: "nat \<Rightarrow> (address \<Rightarrow> call_result list \<Rightarrow> pool option) \<Rightarrow> address list \<Rightarrow> call_result list \<Rightarrow> string + pool list" where
  "parse_groups k parse addresses results =
     (if length results < k * length addresses then Inl ''runtime error: index out of range''
      else Inr (List.map_filter (\<lambda>(i, a). parse a (take k (drop (i * k) results))) (zip [0..<length addresses] addresses)))"

section \<open>Token addresses\<close>

definition Addresses :: "evm_node \<Rightarrow> string list \<Rightarrow> address list" where
  "Addresses nd ids =
     add_new [] (filter (\<lambda>a. a \<noteq> 0) (map (ev_HexToAddress (nd_lib nd)) (filter (ev_IsHexAddress (nd_lib nd)) ids)))"

fun token_pairs :: "'a list \<Rightarrow> ('a \<times> 'a) list" where
  "token_pairs [] = []"
| "token_pairs (x # xs) = map (\<lambda>y. (x, y)) xs @ token_pairs xs"

end
