(* ===== verification/EvmScan.thy ===== *)
theory EvmScan
  imports EvmRpc SolanaScan
begin

text \<open>
  The pool scanners of the constant product venues (\<^verbatim>\<open>uniswapv2/scanner.go\<close>) and of the concentrated liquidity venues
  (\<^verbatim>\<open>uniswapv3/scanner.go\<close>, with Aerodrome Slipstream). A scanner reads the chain through \<open>evm_node\<close>; its errors are
  messages, some of them shortened.
\<close>

section \<open>The constant product venues\<close>

record v2_scanner =
  v2_node :: evm_node
  v2_multicall :: address
  v2_factory :: address
  v2_chainKey :: chain_key
  v2_venueKey :: venue_key
  v2_batchSize :: nat

definition V2_NewScanner :: "evm_node \<Rightarrow> address \<Rightarrow> address \<Rightarrow> chain_key \<Rightarrow> venue_key \<Rightarrow> v2_scanner" where
  "V2_NewScanner nd multicall factory chainKey venueKey =
     \<lparr>v2_node = nd, v2_multicall = multicall, v2_factory = factory, v2_chainKey = chainKey, v2_venueKey = venueKey, v2_batchSize = 300\<rparr>"

text \<open>A pool of an Ethereum venue; its identifier is its address.\<close>

definition evm_pool_of :: "evm_node \<Rightarrow> chain_key \<Rightarrow> venue_key \<Rightarrow> address \<Rightarrow> pool_kind \<Rightarrow> address \<Rightarrow> address \<Rightarrow> pool" where
  "evm_pool_of nd chainKey venueKey a kind token0 token1 =
     \<lparr>vp_ID = ev_Hex (nd_lib nd) a, vp_Address = ev_Hex (nd_lib nd) a, vp_ChainKey = chainKey, vp_VenueKey = venueKey, vp_Kind = kind,
      vp_Token0 = ev_Hex (nd_lib nd) token0, vp_Token1 = ev_Hex (nd_lib nd) token1, vp_Reserve0 = None, vp_Reserve1 = None,
      vp_SqrtPriceX96 = None, vp_Liquidity = None, vp_Tick = 0, vp_Fee = 0, vp_TickSpacing = 0, vp_ProgramID = [],
      vp_Vault0 = [], vp_Vault1 = [], vp_Enabled = True\<rparr>"

definition AllPairsLength :: "v2_scanner \<Rightarrow> string + int" where
  "AllPairsLength sc =
     evm_read (v2_node sc) (abi_integer (v2_node sc) V2FactoryABI ''allPairsLength'') (v2_factory sc) V2FactoryABI ''allPairsLength'' []"

definition parse_pair :: "v2_scanner \<Rightarrow> address \<Rightarrow> call_result list \<Rightarrow> pool option" where
  "parse_pair sc a rs =
     (if \<not> list_all cr_Success rs then None
      else (case (abi_address (v2_node sc) V2PairABI ''token0'' (cr_ReturnData (rs ! 0)),
                  abi_address (v2_node sc) V2PairABI ''token1'' (cr_ReturnData (rs ! 1)),
                  abi_reserves (v2_node sc) V2PairABI (cr_ReturnData (rs ! 2))) of
              (Inr t0, Inr t1, Inr (r0, r1)) \<Rightarrow>
                Some ((evm_pool_of (v2_node sc) (v2_chainKey sc) (v2_venueKey sc) a PoolKindV2 t0 t1)
                  \<lparr>vp_Reserve0 := Some r0, vp_Reserve1 := Some r1\<rparr>)
            | _ \<Rightarrow> None))"

text \<open>The calls for the details of each address.\<close>

fun detail_calls :: "evm_node \<Rightarrow> router_abi \<Rightarrow> string list \<Rightarrow> address list \<Rightarrow> string + call3 list" where
  "detail_calls nd abi methods [] = Inr []"
| "detail_calls nd abi methods (a # as) =
     (case those (map (\<lambda>m. ev_Pack (nd_lib nd) abi m []) methods) of
        None \<Rightarrow> Inl ''abi: pack''
      | Some codes \<Rightarrow>
          (case detail_calls nd abi methods as of
             Inl e \<Rightarrow> Inl e
           | Inr calls \<Rightarrow> Inr (map (\<lambda>code. \<lparr>c3_Target = a, c3_AllowFailure = True, c3_CallData = code\<rparr>) codes @ calls)))"

definition load_details ::
    "evm_node \<Rightarrow> address \<Rightarrow> router_abi \<Rightarrow> string list \<Rightarrow> string \<Rightarrow> (address \<Rightarrow> call_result list \<Rightarrow> pool option) \<Rightarrow> address list \<Rightarrow> string + pool list" where
  "load_details nd multicall abi methods what parse addresses =
     (case detail_calls nd abi methods addresses of
        Inl e \<Rightarrow> Inl e
      | Inr calls \<Rightarrow>
          (case Aggregate3 nd multicall calls of
             Inl e \<Rightarrow> Inl (what @ e)
           | Inr results \<Rightarrow> parse_groups (length methods) parse addresses results))"

definition loadPairBatch :: "v2_scanner \<Rightarrow> address list \<Rightarrow> string + pool list" where
  "loadPairBatch sc =
     load_details (v2_node sc) (v2_multicall sc) V2PairABI [''token0'', ''token1'', ''getReserves''] ''multicall pair details: '' (parse_pair sc)"

text \<open>The pools of several batches.\<close>

fun load_batches :: "(address list \<Rightarrow> string + pool list) \<Rightarrow> address list list \<Rightarrow> string + pool list" where
  "load_batches load [] = Inr []"
| "load_batches load (b # bs) =
     (case load b of
        Inl e \<Rightarrow> Inl e
      | Inr ps \<Rightarrow> (case load_batches load bs of Inl e \<Rightarrow> Inl e | Inr rest \<Rightarrow> Inr (ps @ rest)))"

definition loadPairs :: "v2_scanner \<Rightarrow> address list \<Rightarrow> string + pool list" where
  "loadPairs sc addresses = load_batches (loadPairBatch sc) (batches (v2_batchSize sc) addresses)"

text \<open>The addresses with the indices of a batch, and the pools found for the pairs of tokens.\<close>

definition address_batch :: "evm_node \<Rightarrow> address \<Rightarrow> address \<Rightarrow> router_abi \<Rightarrow> string \<Rightarrow> nat list \<Rightarrow> string + address list" where
  "address_batch nd multicall factory abi m indices =
     (case pack_calls nd abi m factory False (map (\<lambda>i. [AbiInt (int i)]) indices) of
        Inl e \<Rightarrow> Inl e
      | Inr calls \<Rightarrow>
          (case Aggregate3 nd multicall calls of
             Inl e \<Rightarrow> Inl (''multicall '' @ m @ '': '' @ e)
           | Inr results \<Rightarrow> all_addresses nd abi m (hd indices) results))"

definition loadPairAddressBatch :: "v2_scanner \<Rightarrow> nat list \<Rightarrow> string + address list" where
  "loadPairAddressBatch sc = address_batch (v2_node sc) (v2_multicall sc) (v2_factory sc) V2FactoryABI ''allPairs''"

definition find_addresses ::
    "evm_node \<Rightarrow> address \<Rightarrow> address \<Rightarrow> router_abi \<Rightarrow> string \<Rightarrow> (address \<times> address \<Rightarrow> abi_value list list) \<Rightarrow> address list \<Rightarrow> string + address list" where
  "find_addresses nd multicall factory abi m args tokens =
     (if length tokens < 2 then Inr []
      else (case pack_calls nd abi m factory True (concat (map args (token_pairs tokens))) of
              Inl e \<Rightarrow> Inl e
            | Inr calls \<Rightarrow>
                (case Aggregate3 nd multicall calls of
                   Inl e \<Rightarrow> Inl (''multicall '' @ m @ '': '' @ e)
                 | Inr results \<Rightarrow> Inr (found_addresses nd abi m results))))"

definition findPairAddresses :: "v2_scanner \<Rightarrow> string list \<Rightarrow> string + address list" where
  "findPairAddresses sc assetIDs =
     find_addresses (v2_node sc) (v2_multicall sc) (v2_factory sc) V2FactoryABI ''getPair''
       (\<lambda>(a, b). [[AbiAddress a, AbiAddress b]]) (Addresses (v2_node sc) assetIDs)"

definition V2_ScanPoolsForAssets :: "v2_scanner \<Rightarrow> string list \<Rightarrow> string + pool list" where
  "V2_ScanPoolsForAssets sc assetIDs =
     (case findPairAddresses sc assetIDs of
        Inl e \<Rightarrow> Inl e
      | Inr addresses \<Rightarrow> if addresses = [] then Inr [] else loadPairs sc addresses)"

text \<open>The scan of all pools: batches of indices, each handed over when its pools are read.\<close>

fun stream_indices :: "(nat list \<Rightarrow> string + address list) \<Rightarrow> (address list \<Rightarrow> string + pool list) \<Rightarrow> 's pool_handler \<Rightarrow> nat list list \<Rightarrow> nat \<Rightarrow> 's stream" where
  "stream_indices addrs load handle [] n s = (n, None, s)"
| "stream_indices addrs load handle (b # bs) n s =
     (case addrs b of
        Inl e \<Rightarrow> (n, Some e, s)
      | Inr as \<Rightarrow>
          (case load as of
             Inl e \<Rightarrow> (n, Some e, s)
           | Inr ps \<Rightarrow>
               (case handle ps s of
                  (Some e, s') \<Rightarrow> (n, Some e, s')
                | (None, s') \<Rightarrow> stream_indices addrs load handle bs (n + length ps) s')))"

definition as_int64 :: "int \<Rightarrow> int" where
  "as_int64 n = sint (word_of_int n :: 64 word)"

definition V2_ScanPoolsStream :: "v2_scanner \<Rightarrow> 's pool_handler \<Rightarrow> 's stream" where
  "V2_ScanPoolsStream sc handle s =
     (case AllPairsLength sc of
        Inl e \<Rightarrow> (0, Some (''allPairsLength: '' @ e), s)
      | Inr n \<Rightarrow> stream_indices (loadPairAddressBatch sc) (loadPairBatch sc) handle (batches (v2_batchSize sc) [0..<nat (as_int64 n)]) 0 s)"

text \<open>All pools of a stream, and one pool of a list.\<close>

definition collect_stream :: "pool list stream \<Rightarrow> string + pool list" where
  "collect_stream st = (case st [] of (n, Some e, pools) \<Rightarrow> Inl e | (n, None, pools) \<Rightarrow> Inr pools)"

definition append_batch :: "pool list pool_handler" where
  "append_batch batch pools = (None, pools @ batch)"

definition first_pool :: "string + pool list \<Rightarrow> string + pool" where
  "first_pool r = (case r of Inl e \<Rightarrow> Inl e | Inr [] \<Rightarrow> Inl ''pool not found'' | Inr (p # ps) \<Rightarrow> Inr p)"

definition V2_ScanPools :: "v2_scanner \<Rightarrow> string + pool list" where
  "V2_ScanPools sc = collect_stream (V2_ScanPoolsStream sc append_batch)"

definition V2_LoadPool :: "v2_scanner \<Rightarrow> string \<Rightarrow> string + pool" where
  "V2_LoadPool sc i = first_pool (loadPairs sc [ev_HexToAddress (nd_lib (v2_node sc)) i])"

section \<open>The concentrated liquidity venues\<close>

record pool_key =
  pk_fee :: uint32
  pk_tickSpacing :: int

definition defaultPoolKeys :: "pool_key list" where
  "defaultPoolKeys = map (\<lambda>f. \<lparr>pk_fee = f, pk_tickSpacing = 0\<rparr>) [100, 500, 3000, 10000]"

definition slipstreamPoolKeys :: "int list \<Rightarrow> pool_key list" where
  "slipstreamPoolKeys spacings = map (\<lambda>t. \<lparr>pk_fee = 0, pk_tickSpacing = t\<rparr>) (add_new [] (filter (\<lambda>t. t \<noteq> 0) spacings))"

record v3_scanner =
  v3_node :: evm_node
  v3_multicall :: address
  v3_factory :: address
  v3_chainKey :: chain_key
  v3_venueKey :: venue_key
  v3_factoryABI :: router_abi
  v3_poolABI :: router_abi
  v3_poolKeys :: "pool_key list"
  v3_usesTickSpacing :: bool

definition V3_NewScanner :: "evm_node \<Rightarrow> address \<Rightarrow> address \<Rightarrow> chain_key \<Rightarrow> venue_key \<Rightarrow> v3_scanner" where
  "V3_NewScanner nd multicall factory chainKey venueKey =
     \<lparr>v3_node = nd, v3_multicall = multicall, v3_factory = factory, v3_chainKey = chainKey, v3_venueKey = venueKey,
      v3_factoryABI = V3FactoryABI, v3_poolABI = V3PoolABI, v3_poolKeys = defaultPoolKeys, v3_usesTickSpacing = False\<rparr>"

definition NewSlipstreamScanner :: "evm_node \<Rightarrow> address \<Rightarrow> address \<Rightarrow> chain_key \<Rightarrow> venue_key \<Rightarrow> v3_scanner" where
  "NewSlipstreamScanner nd multicall factory chainKey venueKey =
     \<lparr>v3_node = nd, v3_multicall = multicall, v3_factory = factory, v3_chainKey = chainKey, v3_venueKey = venueKey,
      v3_factoryABI = SlipstreamFactoryABI, v3_poolABI = SlipstreamPoolABI,
      v3_poolKeys = slipstreamPoolKeys [1, 50, 100, 200, 2000], v3_usesTickSpacing = True\<rparr>"

definition abiInt32 :: "abi_value \<Rightarrow> int option" where
  "abiInt32 v = (case v of AbiInt n \<Rightarrow> Some (sint (word_of_int n :: 32 word)) | _ \<Rightarrow> None)"

definition abiInt64 :: "abi_value \<Rightarrow> int option" where
  "abiInt64 v = (case v of AbiInt n \<Rightarrow> Some (as_int64 n) | _ \<Rightarrow> None)"

definition abiUint32 :: "abi_value \<Rightarrow> uint32 option" where
  "abiUint32 v = (case v of AbiInt n \<Rightarrow> Some (word_of_int n) | _ \<Rightarrow> None)"

definition abiBigInt :: "abi_value \<Rightarrow> int option" where
  "abiBigInt v = (case v of AbiInt n \<Rightarrow> Some n | _ \<Rightarrow> None)"

definition abiInt32Slice :: "abi_value \<Rightarrow> int list" where
  "abiInt32Slice v = (case v of AbiList vs \<Rightarrow> List.map_filter abiInt32 vs | _ \<Rightarrow> [])"

definition scanPoolKeys :: "v3_scanner \<Rightarrow> pool_key list" where
  "scanPoolKeys sc =
     (if \<not> v3_usesTickSpacing sc then v3_poolKeys sc
      else (case abi_pack (v3_node sc) (v3_factoryABI sc) ''tickSpacings'' [] of
              Inl e \<Rightarrow> v3_poolKeys sc
            | Inr code \<Rightarrow>
                (case Aggregate3 (v3_node sc) (v3_multicall sc)
                        [\<lparr>c3_Target = v3_factory sc, c3_AllowFailure = True, c3_CallData = code\<rparr>] of
                   Inr (r # rs) \<Rightarrow>
                     if \<not> cr_Success r then v3_poolKeys sc
                     else (case ev_Unpack (nd_lib (v3_node sc)) (v3_factoryABI sc) ''tickSpacings'' (cr_ReturnData r) of
                             Some (v # vs) \<Rightarrow>
                               if abiInt32Slice v = [] then v3_poolKeys sc else slipstreamPoolKeys (abiInt32Slice v)
                           | _ \<Rightarrow> v3_poolKeys sc)
                 | _ \<Rightarrow> v3_poolKeys sc)))"

definition getPool_args :: "v3_scanner \<Rightarrow> pool_key list \<Rightarrow> address \<times> address \<Rightarrow> abi_value list list" where
  "getPool_args sc keys = (\<lambda>(a, b).
     map (\<lambda>k. [AbiAddress a, AbiAddress b, AbiInt (if v3_usesTickSpacing sc then pk_tickSpacing k else uint (pk_fee k))]) keys)"

definition V3_findPoolAddresses :: "v3_scanner \<Rightarrow> string list \<Rightarrow> string + address list" where
  "V3_findPoolAddresses sc assetIDs =
     find_addresses (v3_node sc) (v3_multicall sc) (v3_factory sc) (v3_factoryABI sc) ''getPool''
       (getPool_args sc (scanPoolKeys sc)) (Addresses (v3_node sc) assetIDs)"

definition v3_methods :: "v3_scanner \<Rightarrow> string list" where
  "v3_methods sc =
     (if v3_usesTickSpacing sc then [''token0'', ''token1'', ''fee'', ''tickSpacing'', ''liquidity'', ''slot0'']
      else [''token0'', ''token1'', ''fee'', ''liquidity'', ''slot0''])"

definition unpack_first :: "v3_scanner \<Rightarrow> string \<Rightarrow> call_result \<Rightarrow> abi_value option" where
  "unpack_first sc m r =
     (case ev_Unpack (nd_lib (v3_node sc)) (v3_poolABI sc) m (cr_ReturnData r) of Some (v # vs) \<Rightarrow> Some v | _ \<Rightarrow> None)"

definition parse_v3 :: "v3_scanner \<Rightarrow> address \<Rightarrow> call_result list \<Rightarrow> pool option" where
  "parse_v3 sc a rs =
     (if \<not> list_all cr_Success rs then None
      else (let k = (if v3_usesTickSpacing sc then 4 else 3);
                spacing = (if v3_usesTickSpacing sc then Option.bind (unpack_first sc ''tickSpacing'' (rs ! 3)) abiInt32 else Some 0);
                liquidity = Option.bind (unpack_first sc ''liquidity'' (rs ! k)) abiBigInt;
                fee = Option.bind (unpack_first sc ''fee'' (rs ! 2)) abiUint32
            in (case (abi_address (v3_node sc) (v3_poolABI sc) ''token0'' (cr_ReturnData (rs ! 0)),
                      abi_address (v3_node sc) (v3_poolABI sc) ''token1'' (cr_ReturnData (rs ! 1)), spacing, liquidity, fee,
                      ev_Unpack (nd_lib (v3_node sc)) (v3_poolABI sc) ''slot0'' (cr_ReturnData (rs ! (k + 1)))) of
                  (Inr t0, Inr t1, Some ts, Some l, Some f, Some (AbiInt price # AbiInt tick # vs)) \<Rightarrow>
                    if price \<le> 0 then None
                    else Some ((evm_pool_of (v3_node sc) (v3_chainKey sc) (v3_venueKey sc) a PoolKindV3 t0 t1)
                      \<lparr>vp_SqrtPriceX96 := Some price, vp_Liquidity := Some l, vp_Tick := as_int64 tick, vp_Fee := f, vp_TickSpacing := ts\<rparr>)
                | _ \<Rightarrow> None)))"

definition loadPools :: "v3_scanner \<Rightarrow> address list \<Rightarrow> string + pool list" where
  "loadPools sc addresses =
     (if addresses = [] then Inr []
      else load_details (v3_node sc) (v3_multicall sc) (v3_poolABI sc) (v3_methods sc) ''multicall pool details: '' (parse_v3 sc) addresses)"

definition V3_ScanPoolsForAssets :: "v3_scanner \<Rightarrow> string list \<Rightarrow> string + pool list" where
  "V3_ScanPoolsForAssets sc assetIDs =
     (case V3_findPoolAddresses sc assetIDs of Inl e \<Rightarrow> Inl e | Inr addresses \<Rightarrow> loadPools sc addresses)"

definition V3_ScanPools :: "v3_scanner \<Rightarrow> string + pool list" where
  "V3_ScanPools sc = Inl ''uniswap v3 scanner requires tracked asset ids''"

definition V3_LoadPool :: "v3_scanner \<Rightarrow> string \<Rightarrow> string + pool" where
  "V3_LoadPool sc i = first_pool (loadPools sc [ev_HexToAddress (nd_lib (v3_node sc)) i])"

end
