(* ===== verification/EvmVenues.thy ===== *)
theory EvmVenues
  imports EvmScan
begin

text \<open>
  The scanners of Uniswap V1 (\<^verbatim>\<open>uniswapv1/scanner.go\<close>), which reads one exchange at a time, and of Aerodrome
  (\<^verbatim>\<open>aerodrome/aerodrome.go\<close>, \<^verbatim>\<open>aerodrome/evm_call.go\<close>), with batched calls or, without them, one pool at a time through
  a client whose calls are retried.
\<close>

section \<open>Uniswap V1\<close>

record v1_scanner =
  v1_node :: evm_node
  v1_factory :: address
  v1_weth :: address
  v1_chainKey :: chain_key
  v1_venueKey :: venue_key

definition V1_NewScanner :: "evm_node \<Rightarrow> address \<Rightarrow> address \<Rightarrow> chain_key \<Rightarrow> venue_key \<Rightarrow> v1_scanner" where
  "V1_NewScanner nd factory weth chainKey venueKey =
     \<lparr>v1_node = nd, v1_factory = factory, v1_weth = weth, v1_chainKey = chainKey, v1_venueKey = venueKey\<rparr>"

definition exchangeToken :: "v1_scanner \<Rightarrow> address \<Rightarrow> string + address" where
  "exchangeToken sc exchange =
     evm_read (v1_node sc) (abi_address (v1_node sc) V1ExchangeABI ''tokenAddress'') exchange V1ExchangeABI ''tokenAddress'' []"

definition tokenBalance :: "v1_scanner \<Rightarrow> address \<Rightarrow> address \<Rightarrow> string + int" where
  "tokenBalance sc token account =
     evm_read (v1_node sc) (abi_integer (v1_node sc) TokenABI ''balanceOf'') token TokenABI ''balanceOf'' [AbiAddress account]"

definition loadExchange :: "v1_scanner \<Rightarrow> address \<Rightarrow> string + pool" where
  "loadExchange sc exchange =
     (case exchangeToken sc exchange of
        Inl e \<Rightarrow> Inl e
      | Inr token \<Rightarrow>
          (case tokenBalance sc token exchange of
             Inl e \<Rightarrow> Inl e
           | Inr tokenReserve \<Rightarrow>
               (case nd_balance (v1_node sc) exchange of
                  Inl e \<Rightarrow> Inl e
                | Inr ethReserve \<Rightarrow>
                    Inr ((evm_pool_of (v1_node sc) (v1_chainKey sc) (v1_venueKey sc) exchange PoolKindV2 token (v1_weth sc))
                      \<lparr>vp_Reserve0 := Some tokenReserve, vp_Reserve1 := Some ethReserve\<rparr>))))"

fun exchanges_of :: "v1_scanner \<Rightarrow> address list \<Rightarrow> address list \<Rightarrow> string + address list" where
  "exchanges_of sc [] acc = Inr acc"
| "exchanges_of sc (token # rest) acc =
     (if token = v1_weth sc then exchanges_of sc rest acc
      else (case abi_pack (v1_node sc) V1FactoryABI ''getExchange'' [AbiAddress token] of
              Inl e \<Rightarrow> Inl e
            | Inr code \<Rightarrow>
                (case nd_call (v1_node sc) (v1_factory sc) code of
                   Inl e \<Rightarrow> exchanges_of sc rest acc
                 | Inr out \<Rightarrow>
                     (case abi_address (v1_node sc) V1FactoryABI ''getExchange'' out of
                        Inl e \<Rightarrow> exchanges_of sc rest acc
                      | Inr exchange \<Rightarrow>
                          if exchange = 0 \<or> exchange \<in> set acc then exchanges_of sc rest acc
                          else exchanges_of sc rest (acc @ [exchange])))))"

definition findExchanges :: "v1_scanner \<Rightarrow> string list \<Rightarrow> string + address list" where
  "findExchanges sc assetIDs = exchanges_of sc (Addresses (v1_node sc) assetIDs) []"

definition loaded_exchange :: "v1_scanner \<Rightarrow> address \<Rightarrow> pool option" where
  "loaded_exchange sc exchange = (case loadExchange sc exchange of Inl e \<Rightarrow> None | Inr p \<Rightarrow> Some p)"

definition V1_ScanPoolsForAssets :: "v1_scanner \<Rightarrow> string list \<Rightarrow> string + pool list" where
  "V1_ScanPoolsForAssets sc assetIDs =
     (case findExchanges sc assetIDs of Inl e \<Rightarrow> Inl e | Inr exchanges \<Rightarrow> Inr (List.map_filter (loaded_exchange sc) exchanges))"

definition V1_ScanPools :: "v1_scanner \<Rightarrow> string + pool list" where
  "V1_ScanPools sc = Inl ''uniswap v1 scanner requires tracked asset ids''"

definition V1_LoadPool :: "v1_scanner \<Rightarrow> string \<Rightarrow> string + pool" where
  "V1_LoadPool sc i = loadExchange sc (ev_HexToAddress (nd_lib (v1_node sc)) i)"

section \<open>Aerodrome\<close>

text \<open>The calls through one client: attempt \<open>i\<close> of a call is \<open>client i\<close>, and there are five.\<close>

type_synonym retry_client = "nat \<Rightarrow> address \<Rightarrow> bytes \<Rightarrow> string + bytes"

fun retry_calls :: "retry_client \<Rightarrow> nat \<Rightarrow> nat \<Rightarrow> string \<Rightarrow> address \<Rightarrow> bytes \<Rightarrow> string + bytes" where
  "retry_calls client i 0 lastErr target data = Inl lastErr"
| "retry_calls client i (Suc left) lastErr target data =
     (case client i target data of Inr out \<Rightarrow> Inr out | Inl e \<Rightarrow> retry_calls client (Suc i) left e target data)"

definition callContractWithRetry :: "retry_client \<Rightarrow> address \<Rightarrow> bytes \<Rightarrow> string + bytes" where
  "callContractWithRetry client target data = retry_calls client 0 5 [] target data"

definition retry_node :: "evm_lib \<Rightarrow> retry_client \<Rightarrow> evm_node" where
  "retry_node lib client = \<lparr>nd_call = callContractWithRetry client, nd_balance = (\<lambda>a. Inl []), nd_lib = lib\<rparr>"

record aero_scanner =
  ae_client :: "retry_client option"
  ae_rpc :: "evm_node option"
  ae_multicall :: "address option"
  ae_lib :: evm_lib
  ae_factory :: address
  ae_chainKey :: chain_key
  ae_venueKey :: venue_key
  ae_batchSize :: nat

definition Aero_NewScanner :: "evm_lib \<Rightarrow> retry_client \<Rightarrow> address \<Rightarrow> chain_key \<Rightarrow> venue_key \<Rightarrow> aero_scanner" where
  "Aero_NewScanner lib client factory chainKey venueKey =
     \<lparr>ae_client = Some client, ae_rpc = None, ae_multicall = None, ae_lib = lib, ae_factory = factory, ae_chainKey = chainKey,
      ae_venueKey = venueKey, ae_batchSize = 300\<rparr>"

definition NewScannerWithRPCPool :: "evm_node \<Rightarrow> address \<Rightarrow> address \<Rightarrow> chain_key \<Rightarrow> venue_key \<Rightarrow> aero_scanner" where
  "NewScannerWithRPCPool nd multicall factory chainKey venueKey =
     \<lparr>ae_client = None, ae_rpc = Some nd, ae_multicall = Some multicall, ae_lib = nd_lib nd, ae_factory = factory, ae_chainKey = chainKey,
      ae_venueKey = venueKey, ae_batchSize = 300\<rparr>"

text \<open>The node the single calls go to; a scanner without pool and client ends the program.\<close>

definition client_node :: "aero_scanner \<Rightarrow> evm_node" where
  "client_node sc =
     (case ae_client sc of
        Some client \<Rightarrow> retry_node (ae_lib sc) client
      | None \<Rightarrow> \<lparr>nd_call = (\<lambda>a d. Inl ''nil pointer dereference''), nd_balance = (\<lambda>a. Inl []), nd_lib = ae_lib sc\<rparr>)"

definition callPoolsLength :: "evm_node \<Rightarrow> address \<Rightarrow> string + int" where
  "callPoolsLength nd contract =
     evm_read nd (abi_integer nd AeroFactoryABI ''allPoolsLength'') contract AeroFactoryABI ''allPoolsLength'' []"

definition callPoolAt :: "evm_node \<Rightarrow> address \<Rightarrow> int \<Rightarrow> string + address" where
  "callPoolAt nd contract index =
     evm_read nd (abi_address nd AeroFactoryABI ''allPools'') contract AeroFactoryABI ''allPools'' [AbiInt index]"

definition callAddress :: "evm_node \<Rightarrow> address \<Rightarrow> string \<Rightarrow> string + address" where
  "callAddress nd contract m = evm_read nd (abi_address nd AeroPairABI m) contract AeroPairABI m []"

definition callBool :: "evm_node \<Rightarrow> address \<Rightarrow> string \<Rightarrow> string + bool" where
  "callBool nd contract m = evm_read nd (abi_bool nd AeroPairABI m) contract AeroPairABI m []"

definition callReserves :: "evm_node \<Rightarrow> address \<Rightarrow> string + int \<times> int" where
  "callReserves nd pair = evm_read nd (abi_reserves nd AeroPairABI) pair AeroPairABI ''getReserves'' []"

definition AllPoolsLength :: "aero_scanner \<Rightarrow> string + int" where
  "AllPoolsLength sc = callPoolsLength (case ae_rpc sc of Some nd \<Rightarrow> nd | None \<Rightarrow> client_node sc) (ae_factory sc)"

definition PoolAt :: "aero_scanner \<Rightarrow> int \<Rightarrow> string + address" where
  "PoolAt sc index = callPoolAt (client_node sc) (ae_factory sc) index"

definition aero_kind :: "bool \<Rightarrow> pool_kind" where
  "aero_kind is_stable = (if is_stable then PoolKindStable else PoolKindV2)"

definition aero_loadPool :: "aero_scanner \<Rightarrow> address \<Rightarrow> string + pool" where
  "aero_loadPool sc a =
     (let nd = client_node sc in
      (case callAddress nd a ''token0'' of
         Inl e \<Rightarrow> Inl (''token0: '' @ e)
       | Inr t0 \<Rightarrow>
           (case callAddress nd a ''token1'' of
              Inl e \<Rightarrow> Inl (''token1: '' @ e)
            | Inr t1 \<Rightarrow>
                (case callReserves nd a of
                   Inl e \<Rightarrow> Inl (''getReserves: '' @ e)
                 | Inr (r0, r1) \<Rightarrow>
                     (case callBool nd a ''stable'' of
                        Inl e \<Rightarrow> Inl (''stable: '' @ e)
                      | Inr is_stable \<Rightarrow>
                          Inr ((evm_pool_of nd (ae_chainKey sc) (ae_venueKey sc) a (aero_kind is_stable) t0 t1)
                            \<lparr>vp_Reserve0 := Some r0, vp_Reserve1 := Some r1\<rparr>))))))"

definition parse_aero :: "aero_scanner \<Rightarrow> evm_node \<Rightarrow> address \<Rightarrow> call_result list \<Rightarrow> pool option" where
  "parse_aero sc nd a rs =
     (if \<not> list_all cr_Success rs then None
      else (case (abi_address nd AeroPairABI ''token0'' (cr_ReturnData (rs ! 0)), abi_address nd AeroPairABI ''token1'' (cr_ReturnData (rs ! 1)),
                  abi_bool nd AeroPairABI ''stable'' (cr_ReturnData (rs ! 2)), abi_reserves nd AeroPairABI (cr_ReturnData (rs ! 3))) of
              (Inr t0, Inr t1, Inr is_stable, Inr (r0, r1)) \<Rightarrow>
                Some ((evm_pool_of nd (ae_chainKey sc) (ae_venueKey sc) a (aero_kind is_stable) t0 t1)
                  \<lparr>vp_Reserve0 := Some r0, vp_Reserve1 := Some r1\<rparr>)
            | _ \<Rightarrow> None))"

definition loadPoolBatchMulticall :: "aero_scanner \<Rightarrow> evm_node \<Rightarrow> address \<Rightarrow> address list \<Rightarrow> string + pool list" where
  "loadPoolBatchMulticall sc nd multicall =
     load_details nd multicall AeroPairABI [''token0'', ''token1'', ''stable'', ''getReserves''] ''multicall pool details: '' (parse_aero sc nd)"

definition loadPoolsMulticall :: "aero_scanner \<Rightarrow> evm_node \<Rightarrow> address \<Rightarrow> address list \<Rightarrow> string + pool list" where
  "loadPoolsMulticall sc nd multicall addresses =
     load_batches (loadPoolBatchMulticall sc nd multicall) (batches (ae_batchSize sc) addresses)"

definition loadPoolAddressBatchMulticall :: "aero_scanner \<Rightarrow> evm_node \<Rightarrow> address \<Rightarrow> nat list \<Rightarrow> string + address list" where
  "loadPoolAddressBatchMulticall sc nd multicall = address_batch nd multicall (ae_factory sc) AeroFactoryABI ''allPools''"

definition aero_findPoolAddresses :: "aero_scanner \<Rightarrow> evm_node \<Rightarrow> address \<Rightarrow> string list \<Rightarrow> string + address list" where
  "aero_findPoolAddresses sc nd multicall assetIDs =
     find_addresses nd multicall (ae_factory sc) AeroFactoryABI ''getPool''
       (\<lambda>(a, b). map (\<lambda>is_stable. [AbiAddress a, AbiAddress b, AbiBool is_stable]) [False, True]) (Addresses nd assetIDs)"

text \<open>The pools one at a time, as a scanner without batched calls reads them.\<close>

fun read_all :: "('b \<Rightarrow> string + 'a) \<Rightarrow> 'b list \<Rightarrow> string + 'a list" where
  "read_all f [] = Inr []"
| "read_all f (x # xs) =
     (case f x of
        Inl e \<Rightarrow> Inl e
      | Inr y \<Rightarrow> (case read_all f xs of Inl e \<Rightarrow> Inl e | Inr ys \<Rightarrow> Inr (y # ys)))"

definition ScanPools_single :: "aero_scanner \<Rightarrow> string + pool list" where
  "ScanPools_single sc =
     (case AllPoolsLength sc of
        Inl e \<Rightarrow> Inl (''allPoolsLength: '' @ e)
      | Inr n \<Rightarrow>
          (case read_all (PoolAt sc) (map int [0..<nat (as_int64 n)]) of
             Inl e \<Rightarrow> Inl e
           | Inr addresses \<Rightarrow> read_all (aero_loadPool sc) addresses))"

definition aero_ScanPoolsStream :: "aero_scanner \<Rightarrow> 's pool_handler \<Rightarrow> 's stream" where
  "aero_ScanPoolsStream sc handle s =
     (case AllPoolsLength sc of
        Inl e \<Rightarrow> (0, Some (''allPoolsLength: '' @ e), s)
      | Inr n \<Rightarrow>
          if as_int64 n = 0 then (0, None, s)
          else (case (ae_multicall sc, ae_rpc sc) of
                  (Some multicall, Some nd) \<Rightarrow>
                    stream_indices (loadPoolAddressBatchMulticall sc nd multicall) (loadPoolBatchMulticall sc nd multicall) handle
                      (batches (ae_batchSize sc) [0..<nat (as_int64 n)]) 0 s
                | _ \<Rightarrow>
                    (case ScanPools_single sc of
                       Inl e \<Rightarrow> (0, Some e, s)
                     | Inr pools \<Rightarrow> (case handle pools s of (Some e, s') \<Rightarrow> (0, Some e, s') | (None, s') \<Rightarrow> (length pools, None, s')))))"

definition aero_ScanPools :: "aero_scanner \<Rightarrow> string + pool list" where
  "aero_ScanPools sc =
     (case ae_multicall sc of Some multicall \<Rightarrow> collect_stream (aero_ScanPoolsStream sc append_batch) | None \<Rightarrow> ScanPools_single sc)"

definition aero_ScanPoolsForAssets :: "aero_scanner \<Rightarrow> string list \<Rightarrow> string + pool list" where
  "aero_ScanPoolsForAssets sc assetIDs =
     (case (ae_multicall sc, ae_rpc sc) of
        (Some multicall, Some nd) \<Rightarrow>
          (case aero_findPoolAddresses sc nd multicall assetIDs of
             Inl e \<Rightarrow> Inl e
           | Inr addresses \<Rightarrow> if addresses = [] then Inr [] else loadPoolsMulticall sc nd multicall addresses)
      | _ \<Rightarrow> Inl ''tracked aerodrome scan requires multicall'')"

definition aero_LoadPool :: "aero_scanner \<Rightarrow> string \<Rightarrow> string + pool" where
  "aero_LoadPool sc i =
     (let a = ev_HexToAddress (ae_lib sc) i in
      (case (ae_multicall sc, ae_rpc sc) of
         (Some multicall, Some nd) \<Rightarrow> first_pool (loadPoolsMulticall sc nd multicall [a])
       | _ \<Rightarrow> aero_loadPool sc a))"

end
