(* ===== verification/Scanning.thy ===== *)
theory Scanning
  imports EvmVenues Pricing PriceLevels EventLog JobQueue
begin

text \<open>
  The pool scanner of \<^verbatim>\<open>internal/app/poolscanner/service.go\<close> with the event bus of
  \<^verbatim>\<open>internal/adapters/eventbus\<close>, the outbox worker of \<^verbatim>\<open>internal/app/worker\<close> and the check of
  \<^verbatim>\<open>internal/app/reconciliation\<close>. The state of a scan is the pool table with the tables of the exchange. Of the
  endless loops one cycle is modelled; environment variables are strings of \<open>scan_config\<close>, and the clients of a chain,
  the JSON encoder, the parser of durations and the message backend are parameters.
\<close>

section \<open>The event bus\<close>

datatype bus_payload = PoolBatchScannedPayload venue_key "pool list" | OtherPayload

record bus_event =
  ev_Type :: string
  ev_Payload :: bus_payload

definition PoolBatchScanned :: string where
  "PoolBatchScanned = ''venue.pool_batch_scanned''"

type_synonym 's bus_handler = "bus_event \<Rightarrow> 's \<Rightarrow> string option \<times> 's"
type_synonym 's event_bus = "(string \<times> 's bus_handler) list"

definition Subscribe :: "string \<Rightarrow> 's bus_handler \<Rightarrow> 's event_bus \<Rightarrow> 's event_bus" where
  "Subscribe eventType handler bus = bus @ [(eventType, handler)]"

fun run_handlers :: "'s bus_handler list \<Rightarrow> 's bus_handler" where
  "run_handlers [] evt s = (None, s)"
| "run_handlers (h # hs) evt s = (case h evt s of (Some e, s') \<Rightarrow> (Some e, s') | (None, s') \<Rightarrow> run_handlers hs evt s')"

definition bus_Publish :: "'s event_bus \<Rightarrow> 's bus_handler" where
  "bus_Publish bus evt s = run_handlers (map snd (filter (\<lambda>(t, h). t = ev_Type evt) bus)) evt s"

section \<open>Saving a batch of pools\<close>

record scan_state =
  sn_pools :: "pool_row list"
  sn_db :: db

definition price_updates :: string where
  "price_updates = ''price_updates''"

text \<open>Each event of the outbox is a transaction of its own.\<close>

fun publish_symbols :: "env \<Rightarrow> (symbol_update_event \<Rightarrow> string option) \<Rightarrow> string list \<Rightarrow> scan_state \<Rightarrow> string option \<times> scan_state" where
  "publish_symbols env encode [] st = (None, st)"
| "publish_symbols env encode (symbol # rest) st =
     (case encode (NewSymbolUpdateEvent symbol) of
        None \<Rightarrow> (Some ''json'', st)
      | Some payload \<Rightarrow>
          (case run_tx (Outbox_Create env price_updates symbol payload) (sn_db st) of
             (Inl e, d) \<Rightarrow> (Some ''outbox'', st\<lparr>sn_db := d\<rparr>)
           | (Inr u, d) \<Rightarrow> publish_symbols env encode rest (st\<lparr>sn_db := d\<rparr>)))"

definition publishPriceUpdates ::
    "env \<Rightarrow> (symbol_update_event \<Rightarrow> string option) \<Rightarrow> pricing_service \<Rightarrow> pool list \<Rightarrow> scan_state \<Rightarrow> string option \<times> scan_state" where
  "publishPriceUpdates env encode prices pools = publish_symbols env encode (SymbolsForPools prices pools)"

definition save_batch :: "env \<Rightarrow> (symbol_update_event \<Rightarrow> string option) \<Rightarrow> pricing_service \<Rightarrow> scan_state bus_handler" where
  "save_batch env encode prices evt st =
     (case ev_Payload evt of
        OtherPayload \<Rightarrow> (Some ''invalid payload'', st)
      | PoolBatchScannedPayload venueKey pools \<Rightarrow>
          (case SavePools env pools (sn_pools st) of
             Inl e \<Rightarrow> (Some ''failed to upsert pools'', st)
           | Inr rows \<Rightarrow> publishPriceUpdates env encode prices pools (st\<lparr>sn_pools := rows\<rparr>)))"

definition scanner_bus :: "env \<Rightarrow> (symbol_update_event \<Rightarrow> string option) \<Rightarrow> pricing_service \<Rightarrow> scan_state event_bus" where
  "scanner_bus env encode prices = Subscribe PoolBatchScanned (save_batch env encode prices) []"

definition batch_event :: "venue_key \<Rightarrow> pool list \<Rightarrow> bus_event" where
  "batch_event venueKey pools = \<lparr>ev_Type = PoolBatchScanned, ev_Payload = PoolBatchScannedPayload venueKey pools\<rparr>"

definition publishPools :: "'s event_bus \<Rightarrow> venue_key \<Rightarrow> 's pool_handler" where
  "publishPools bus venueKey pools s = (if pools = [] then (None, s) else bus_Publish bus (batch_event venueKey pools) s)"

section \<open>The scan of a venue\<close>

datatype pool_scanner =
    SolanaScanner solana_scanner | V1Scanner v1_scanner | V2Scanner v2_scanner | V3Scanner v3_scanner | AeroScanner aero_scanner

text \<open>The scanners with a stream of batches, and the plain scan of the others.\<close>

fun scanner_stream :: "pool_scanner \<Rightarrow> ('s pool_handler \<Rightarrow> 's stream) option" where
  "scanner_stream (SolanaScanner sc) = Some (ScanPoolsStream sc)"
| "scanner_stream (V2Scanner sc) = Some (V2_ScanPoolsStream sc)"
| "scanner_stream (AeroScanner sc) = Some (aero_ScanPoolsStream sc)"
| "scanner_stream (V1Scanner sc) = None"
| "scanner_stream (V3Scanner sc) = None"

fun scanner_ScanPools :: "pool_scanner \<Rightarrow> string + pool list" where
  "scanner_ScanPools (SolanaScanner sc) = ScanPools sc"
| "scanner_ScanPools (V1Scanner sc) = V1_ScanPools sc"
| "scanner_ScanPools (V2Scanner sc) = V2_ScanPools sc"
| "scanner_ScanPools (V3Scanner sc) = V3_ScanPools sc"
| "scanner_ScanPools (AeroScanner sc) = aero_ScanPools sc"

text \<open>An error of a scan is logged; what was saved before it stays.\<close>

definition scanAndSave :: "'s event_bus \<Rightarrow> pool_scanner \<Rightarrow> venue_key \<Rightarrow> 's \<Rightarrow> 's" where
  "scanAndSave bus scanner venueKey s =
     (case scanner_stream scanner of
        Some stream \<Rightarrow> snd (snd (stream (publishPools bus venueKey) s))
      | None \<Rightarrow>
          (case scanner_ScanPools scanner of
             Inl e \<Rightarrow> s
           | Inr pools \<Rightarrow> snd (bus_Publish bus (batch_event venueKey pools) s)))"

fun evm_tracked :: "pool_scanner \<Rightarrow> string list \<Rightarrow> string + pool list" where
  "evm_tracked (V1Scanner sc) = V1_ScanPoolsForAssets sc"
| "evm_tracked (V2Scanner sc) = V2_ScanPoolsForAssets sc"
| "evm_tracked (V3Scanner sc) = V3_ScanPoolsForAssets sc"
| "evm_tracked (AeroScanner sc) = aero_ScanPoolsForAssets sc"
| "evm_tracked (SolanaScanner sc) = (\<lambda>ids. Inl ''scanner does not support tracked scans'')"

text \<open>The scanner is absent for a venue whose kind does not belong to its chain.\<close>

definition scanTrackedAndSave :: "'s event_bus \<Rightarrow> pool_scanner option \<Rightarrow> venue_key \<Rightarrow> string list \<Rightarrow> 's \<Rightarrow> 's" where
  "scanTrackedAndSave bus scanner venueKey assetIDs s =
     (if assetIDs = [] then s
      else (case scanner of
              None \<Rightarrow> s
            | Some (SolanaScanner sc) \<Rightarrow> snd (snd (ScanPoolsForAssets sc assetIDs (publishPools bus venueKey) s))
            | Some sc \<Rightarrow> (case evm_tracked sc assetIDs of Inl e \<Rightarrow> s | Inr pools \<Rightarrow> snd (publishPools bus venueKey pools s))))"

definition trackedAssetIDs :: "asset_registry \<Rightarrow> chain_key \<Rightarrow> string list" where
  "trackedAssetIDs assets chainKey =
     add_new [] (filter (\<lambda>i. i \<noteq> []) (map deployment_AssetID
       (filter (\<lambda>dp. dp_ChainKey dp = chainKey) (concat (map a_Deployments (asset_All assets))))))"

section \<open>Leases\<close>

record scan_config =
  sf_MODE :: string
  sf_INTERVAL :: string
  sf_LEASES :: string
  sf_LEASE_TTL :: string
  sf_host :: string
  sf_pid :: int
  sf_parse_duration :: "string \<Rightarrow> duration option"

definition trackedScanEnabled :: "scan_config \<Rightarrow> bool" where
  "trackedScanEnabled cfg = (sf_MODE cfg \<noteq> ''full'')"

definition scannerInterval :: "scan_config \<Rightarrow> duration" where
  "scannerInterval cfg =
     (if sf_INTERVAL cfg = [] then 0 else (case sf_parse_duration cfg (sf_INTERVAL cfg) of None \<Rightarrow> 0 | Some v \<Rightarrow> v))"

definition scannerLeaseName :: "venue \<Rightarrow> string" where
  "scannerLeaseName v = ''scanner:'' @ vn_ChainKey v @ '':'' @ vn_Key v"

definition scannerLeaseOwner :: "scan_config \<Rightarrow> string" where
  "scannerLeaseOwner cfg = (if trim_space (sf_host cfg) = [] then ''unknown-host'' else sf_host cfg) @ '':'' @ itoa (sf_pid cfg)"

definition scannerLeasesEnabled :: "scan_config \<Rightarrow> bool" where
  "scannerLeasesEnabled cfg = (\<not> equal_fold (trim_space (sf_LEASES cfg)) ''false'')"

definition scannerLeaseTTL :: "scan_config \<Rightarrow> duration" where
  "scannerLeaseTTL cfg =
     (let raw = trim_space (sf_LEASE_TTL cfg); default = 5 * minute in
      if raw = [] then default
      else (case sf_parse_duration cfg raw of None \<Rightarrow> default | Some ttl \<Rightarrow> if ttl \<le> 0 then default else ttl))"

text \<open>The renewals at the given moments, until one finds the lease lost.\<close>

fun lease_renewals :: "env list \<Rightarrow> string \<Rightarrow> string \<Rightarrow> duration \<Rightarrow> db \<Rightarrow> db" where
  "lease_renewals [] name owner ttl d = d"
| "lease_renewals (tick # ticks) name owner ttl d =
     (case TryAcquire tick name owner ttl d of (True, d') \<Rightarrow> lease_renewals ticks name owner ttl d' | (False, d') \<Rightarrow> d')"

text \<open>
  The renewals run beside the scan. They touch only the leases and a scan touches none, so they are put after it; \<open>ticks\<close>
  are their moments.
\<close>

definition runVenueScan :: "env \<Rightarrow> env list \<Rightarrow> scan_config \<Rightarrow> venue \<Rightarrow> string \<Rightarrow> (scan_state \<Rightarrow> scan_state) \<Rightarrow> scan_state \<Rightarrow> scan_state" where
  "runVenueScan env ticks cfg v owner scan st =
     (if \<not> scannerLeasesEnabled cfg then scan st
      else (let name = scannerLeaseName v; ttl = scannerLeaseTTL cfg in
            (case TryAcquire env name owner ttl (sn_db st) of
               (False, d) \<Rightarrow> st\<lparr>sn_db := d\<rparr>
             | (True, d) \<Rightarrow>
                 (let st' = scan (st\<lparr>sn_db := d\<rparr>) in
                  st'\<lparr>sn_db := Release name owner (lease_renewals ticks name owner ttl (sn_db st'))\<rparr>))))"

section \<open>A cycle over the venues\<close>

record scan_regs =
  sr_Assets :: asset_registry
  sr_Chains :: chain_registry
  sr_Venues :: venue_registry

text \<open>The clients: of a Solana chain, with the library of its accounts, and of an Ethereum chain.\<close>

record scan_clients =
  sc_solana :: "string list \<Rightarrow> solana_rpc option"
  sc_solana_lib :: solana_lib
  sc_evm :: "chain \<Rightarrow> evm_node option"

definition supported_kind :: "venue_kind \<Rightarrow> bool" where
  "supported_kind k \<longleftrightarrow> k \<in> {VenueKindUniswapV1, VenueKindUniswapV2, VenueKindUniswapV3, VenueKindAerodrome,
     VenueKindRaydium, VenueKindOrca, VenueKindMeteora}"

definition build_scanner :: "evm_node \<Rightarrow> chain \<Rightarrow> venue \<Rightarrow> string + pool_scanner option" where
  "build_scanner nd ch v =
     (let adr = ev_HexToAddress (nd_lib nd); multicall = adr (ch_Multicall3Address ch); ck = vn_ChainKey v; vk = vn_Key v in
      (case vn_Kind v of
         VenueKindUniswapV1 \<Rightarrow>
           (case vn_Config v of
              Some (UniswapV1Config c) \<Rightarrow> Inr (Some (V1Scanner (V1_NewScanner nd (adr (v1_FactoryAddress c)) (adr (v1_WETHAddress c)) ck vk)))
            | _ \<Rightarrow> Inl ''invalid config type'')
       | VenueKindUniswapV2 \<Rightarrow>
           (case vn_Config v of
              Some (UniswapV2Config c) \<Rightarrow> Inr (Some (V2Scanner (V2_NewScanner nd multicall (adr (v2_FactoryAddress c)) ck vk)))
            | _ \<Rightarrow> Inl ''invalid config type'')
       | VenueKindUniswapV3 \<Rightarrow>
           (case vn_Config v of
              Some (UniswapV3Config c) \<Rightarrow>
                Inr (Some (V3Scanner ((if vk = VenueKeyAerodromeSlipstream then NewSlipstreamScanner else V3_NewScanner)
                  nd multicall (adr (v3_FactoryAddress c)) ck vk)))
            | _ \<Rightarrow> Inl ''invalid config type'')
       | VenueKindAerodrome \<Rightarrow>
           (case vn_Config v of
              Some (AerodromeClassicConfig c) \<Rightarrow> Inr (Some (AeroScanner (NewScannerWithRPCPool nd multicall (adr (aero_PoolFactoryAddress c)) ck vk)))
            | _ \<Rightarrow> Inl ''invalid config type'')
       | _ \<Rightarrow> Inr None))"

text \<open>A full scan asks for the number of pools first, which only two of the scanners can tell.\<close>

fun scanner_total :: "pool_scanner \<Rightarrow> string + int" where
  "scanner_total (V2Scanner sc) = AllPairsLength sc"
| "scanner_total (AeroScanner sc) = AllPoolsLength sc"
| "scanner_total _ = Inl ''scanner only supports tracked registry scans''"

definition scan_evm :: "env \<Rightarrow> env list \<Rightarrow> scan_config \<Rightarrow> scan_regs \<Rightarrow> scan_state event_bus \<Rightarrow> evm_node \<Rightarrow> chain \<Rightarrow> venue \<Rightarrow> scan_state \<Rightarrow> scan_state" where
  "scan_evm env ticks cfg regs bus nd ch v st =
     (case build_scanner nd ch v of
        Inl e \<Rightarrow> st
      | Inr scanner \<Rightarrow>
          if trackedScanEnabled cfg
          then runVenueScan env ticks cfg v (scannerLeaseOwner cfg)
                 (scanTrackedAndSave bus scanner (vn_Key v) (trackedAssetIDs (sr_Assets regs) (vn_ChainKey v))) st
          else (case scanner of
                  None \<Rightarrow> st
                | Some sc \<Rightarrow>
                    (case scanner_total sc of
                       Inl e \<Rightarrow> st
                     | Inr n \<Rightarrow> runVenueScan env ticks cfg v (scannerLeaseOwner cfg) (scanAndSave bus sc (vn_Key v)) st)))"

definition scan_solana :: "env \<Rightarrow> env list \<Rightarrow> scan_config \<Rightarrow> scan_regs \<Rightarrow> scan_state event_bus \<Rightarrow> solana_rpc \<Rightarrow> solana_lib \<Rightarrow> venue \<Rightarrow> scan_state \<Rightarrow> scan_state" where
  "scan_solana env ticks cfg regs bus rpc lib v =
     (let sc = NewScanner rpc lib (vn_ChainKey v) (vn_Key v) (vn_Config v) in
      runVenueScan env ticks cfg v (scannerLeaseOwner cfg)
        (if trackedScanEnabled cfg
         then scanTrackedAndSave bus (Some (SolanaScanner sc)) (vn_Key v) (trackedAssetIDs (sr_Assets regs) (vn_ChainKey v))
         else scanAndSave bus (SolanaScanner sc) (vn_Key v)))"

definition scan_venue :: "env \<Rightarrow> env list \<Rightarrow> scan_config \<Rightarrow> scan_regs \<Rightarrow> scan_clients \<Rightarrow> scan_state event_bus \<Rightarrow> venue \<Rightarrow> scan_state \<Rightarrow> scan_state" where
  "scan_venue env ticks cfg regs cl bus v st =
     (if \<not> vn_Enabled v \<or> \<not> supported_kind (vn_Kind v) then st
      else (case chain_Get (sr_Chains regs) (vn_ChainKey v) of
              None \<Rightarrow> st
            | Some ch \<Rightarrow>
                if ch_RPCURLs ch = [] then st
                else (case ch_Kind ch of
                        KindSolana \<Rightarrow>
                          (case sc_solana cl (ch_RPCURLs ch) of
                             None \<Rightarrow> st
                           | Some rpc \<Rightarrow> scan_solana env ticks cfg regs bus rpc (sc_solana_lib cl) v st)
                      | KindEVM \<Rightarrow>
                          if ch_Multicall3Address ch = [] then st
                          else (case sc_evm cl ch of None \<Rightarrow> st | Some nd \<Rightarrow> scan_evm env ticks cfg regs bus nd ch v st)
                      | _ \<Rightarrow> st)))"

definition scan_cycle :: "env \<Rightarrow> env list \<Rightarrow> scan_config \<Rightarrow> scan_regs \<Rightarrow> scan_clients \<Rightarrow> scan_state event_bus \<Rightarrow> scan_state \<Rightarrow> scan_state" where
  "scan_cycle env ticks cfg regs cl bus = fold (scan_venue env ticks cfg regs cl bus) (venue_All (sr_Venues regs))"

section \<open>The outbox worker\<close>

text \<open>
  \<open>publish\<close> is the error with which the message backend refuses an event, if it does; the state carries the events the
  backend has taken.
\<close>

fun publish_events ::
    "env \<Rightarrow> (outbox_item \<Rightarrow> string option) \<Rightarrow> int \<Rightarrow> duration \<Rightarrow> outbox_item list \<Rightarrow> db \<times> outbox_item list \<Rightarrow> string option \<times> db \<times> outbox_item list" where
  "publish_events env publish maxAttempts retryDelay [] (d, sent) = (None, d, sent)"
| "publish_events env publish maxAttempts retryDelay (ev # evs) (d, sent) =
     (case publish ev of
        Some msg \<Rightarrow>
          (case run_tx (MarkFailed env (oi_ID ev) msg maxAttempts retryDelay) d of
             (Inl e, d') \<Rightarrow> (Some ''outbox event failed and could not be marked failed'', d', sent)
           | (Inr u, d') \<Rightarrow> publish_events env publish maxAttempts retryDelay evs (d', sent))
      | None \<Rightarrow>
          (case run_tx (MarkPublished env (oi_ID ev)) d of
             (Inl e, d') \<Rightarrow> (Some ''outbox event could not be marked published'', d', sent @ [ev])
           | (Inr u, d') \<Rightarrow> publish_events env publish maxAttempts retryDelay evs (d', sent @ [ev])))"

record worker_config =
  wk_ID :: string
  wk_BatchSize :: int
  wk_MaxAttempts :: int
  wk_RetryDelay :: duration
  wk_LockTTL :: duration

definition worker_runOnce ::
    "env \<Rightarrow> (outbox_item \<Rightarrow> string option) \<Rightarrow> worker_config \<Rightarrow> db \<times> outbox_item list \<Rightarrow> (int \<times> string option) \<times> db \<times> outbox_item list" where
  "worker_runOnce env publish cfg st =
     (case run_tx (Outbox_Claim env (wk_ID cfg) (wk_BatchSize cfg) (wk_LockTTL cfg)) (fst st) of
        (Inl e, d) \<Rightarrow> ((0, Some ''claim''), d, snd st)
      | (Inr events, d) \<Rightarrow>
          (case publish_events env publish (wk_MaxAttempts cfg) (wk_RetryDelay cfg) events (d, snd st) of
             (err, d', sent) \<Rightarrow> ((int (length events), err), d', sent)))"

definition workerID :: "string \<Rightarrow> string \<Rightarrow> int \<Rightarrow> string" where
  "workerID value host pid =
     (if trim_space value \<noteq> [] then trim_space value
      else (if trim_space host = [] then ''unknown-host'' else host) @ '':'' @ itoa pid)"

definition durationEnv :: "(string \<Rightarrow> duration option) \<Rightarrow> string \<Rightarrow> duration \<Rightarrow> duration" where
  "durationEnv parse value fallback =
     (if trim_space value = [] then fallback
      else (case parse (trim_space value) of None \<Rightarrow> fallback | Some v \<Rightarrow> if v \<le> 0 then fallback else v))"

definition intEnv :: "(string \<Rightarrow> int option) \<Rightarrow> string \<Rightarrow> int \<Rightarrow> int" where
  "intEnv atoi value fallback =
     (if trim_space value = [] then fallback
      else (case atoi (trim_space value) of None \<Rightarrow> fallback | Some v \<Rightarrow> if v \<le> 0 then fallback else v))"

section \<open>Reconciliation\<close>

record reconciliation_report =
  rp_GeneratedAt :: time
  rp_OrderBookDriftCount :: int
  rp_OrderBookDrift :: "projection_drift list"

definition Check :: "env \<Rightarrow> db \<Rightarrow> market_registry \<Rightarrow> reconciliation_report" where
  "Check env d markets =
     (let drift = concat (map (\<lambda>m. ReconcileOrderBookProjection d (m_Symbol m))
        (filter (\<lambda>m. m_Symbol m \<noteq> [] \<and> m_Enabled m) (market_All markets)))
      in \<lparr>rp_GeneratedAt = e_now env, rp_OrderBookDriftCount = int (length drift), rp_OrderBookDrift = drift\<rparr>)"

definition failOnDrift :: "string \<Rightarrow> bool" where
  "failOnDrift value = (to_lower (trim_space value) \<in> {''1'', ''true'', ''yes'', ''on''})"

text \<open>Whether the run ends with an error, once its report is written.\<close>

definition reconciliation_fails :: "string \<Rightarrow> reconciliation_report \<Rightarrow> bool" where
  "reconciliation_fails value report = (failOnDrift value \<and> 0 < rp_OrderBookDriftCount report)"

end
