(* ===== verification/ScanProps.thy ===== *)
theory ScanProps
  imports Scanning SolanaProps JobQueueProps "HOL-Library.Sublist"
begin

text \<open>
  What the scans leave behind: the pools of an Ethereum scan have distinct identifiers, so a tracked scan saves each of
  them; a call reaches a working client past failing ones; a leased venue is not scanned by another instance; the outbox
  worker marks nothing as published that it has not handed to the message backend.
\<close>

section \<open>The identifiers of scanned pools\<close>

lemma add_new_distinct: "distinct acc \<Longrightarrow> distinct (add_new acc xs)"
  by (induction xs arbitrary: acc) auto

lemma parse_groups_ids:
  assumes ps: "parse_groups k parse addresses results = Inr pools"
    and parse: "\<And>a rs p. parse a rs = Some p \<Longrightarrow> vp_ID p = f a"
  shows "subseq (map vp_ID pools) (map f addresses)"
proof -
  have "subseq (map vp_ID (List.map_filter (\<lambda>(i, a). parse a (take k (drop (i * k) results))) (zip is as)))
          (map f as)" if "length is = length as" for "is" as
    using that
    by (induction "is" as rule: list_induct2) (auto simp: List.map_filter_def parse)
  then show ?thesis using ps by (auto simp: parse_groups_def split: if_splits)
qed

lemma load_details_ids:
  assumes "load_details nd multicall abi methods what parse addresses = Inr pools"
    and "\<And>a rs p. parse a rs = Some p \<Longrightarrow> vp_ID p = f a"
  shows "subseq (map vp_ID pools) (map f addresses)"
  using assms by (auto simp: load_details_def split: sum.splits intro: parse_groups_ids)

lemma load_batches_ids:
  assumes "load_batches load bs = Inr pools" and "\<And>b ps. load b = Inr ps \<Longrightarrow> subseq (map vp_ID ps) (map f b)"
  shows "subseq (map vp_ID pools) (map f (concat bs))"
  using assms(1)
proof (induction bs arbitrary: pools)
  case Nil
  then show ?case by simp
next
  case (Cons b bs)
  then show ?case by (auto split: sum.splits intro!: list_emb_append_mono assms(2))
qed

lemma parse_pair_id: "parse_pair sc a rs = Some p \<Longrightarrow> vp_ID p = ev_Hex (nd_lib (v2_node sc)) a"
  by (auto simp: parse_pair_def evm_pool_of_def split: if_splits sum.splits prod.splits)

lemma parse_aero_id: "parse_aero sc nd a rs = Some p \<Longrightarrow> vp_ID p = ev_Hex (nd_lib nd) a"
  by (auto simp: parse_aero_def evm_pool_of_def split: if_splits sum.splits prod.splits)

lemma parse_v3_id: "parse_v3 sc a rs = Some p \<Longrightarrow> vp_ID p = ev_Hex (nd_lib (v3_node sc)) a"
  by (auto simp: parse_v3_def evm_pool_of_def Let_def split: if_splits sum.splits prod.splits option.splits list.splits abi_value.splits)

lemma loaded_exchange_id: "loaded_exchange sc a = Some p \<Longrightarrow> vp_ID p = ev_Hex (nd_lib (v1_node sc)) a"
  by (auto simp: loaded_exchange_def loadExchange_def evm_pool_of_def split: sum.splits)

lemma map_filter_ids:
  assumes "\<And>a p. g a = Some p \<Longrightarrow> vp_ID p = f a"
  shows "subseq (map vp_ID (List.map_filter g as)) (map f as)"
  by (induction as) (auto simp: List.map_filter_def assms)

lemma batches_subseq: "subseq (concat (batches n xs)) xs"
  by (cases "n = 0") (simp_all add: concat_batches batches.simps [of 0])

lemma batches_ids: "subseq ids (map f (concat (batches n xs))) \<Longrightarrow> subseq ids (map f xs)"
  by (meson batches_subseq subseq_map subseq_order.trans)

lemma loadPairs_ids: "loadPairs sc addresses = Inr pools \<Longrightarrow> subseq (map vp_ID pools) (map (ev_Hex (nd_lib (v2_node sc))) addresses)"
  unfolding loadPairs_def
  by (rule batches_ids, erule load_batches_ids) (auto simp: loadPairBatch_def intro: load_details_ids parse_pair_id)

lemma loadPoolsMulticall_ids:
  "loadPoolsMulticall sc nd multicall addresses = Inr pools \<Longrightarrow> subseq (map vp_ID pools) (map (ev_Hex (nd_lib nd)) addresses)"
  unfolding loadPoolsMulticall_def
  by (rule batches_ids, erule load_batches_ids) (auto simp: loadPoolBatchMulticall_def intro: load_details_ids parse_aero_id)

lemma loadPools_ids: "loadPools sc addresses = Inr pools \<Longrightarrow> subseq (map vp_ID pools) (map (ev_Hex (nd_lib (v3_node sc))) addresses)"
  by (auto simp: loadPools_def split: if_splits intro: load_details_ids parse_v3_id)

lemma find_addresses_distinct: "find_addresses nd multicall factory abi m args tokens = Inr as \<Longrightarrow> distinct as"
  by (auto simp: find_addresses_def found_addresses_def add_new_distinct split: if_splits sum.splits)

lemma exchanges_of_distinct: "distinct acc \<Longrightarrow> exchanges_of sc tokens acc = Inr as \<Longrightarrow> distinct as"
  by (induction sc tokens acc rule: exchanges_of.induct) (auto split: if_splits sum.splits)

lemma subseq_distinct: "subseq xs ys \<Longrightarrow> distinct ys \<Longrightarrow> distinct xs"
  by (auto simp: subseq_conv_nths)

fun scanner_hex :: "pool_scanner \<Rightarrow> address \<Rightarrow> string" where
  "scanner_hex (V1Scanner sc) = ev_Hex (nd_lib (v1_node sc))"
| "scanner_hex (V2Scanner sc) = ev_Hex (nd_lib (v2_node sc))"
| "scanner_hex (V3Scanner sc) = ev_Hex (nd_lib (v3_node sc))"
| "scanner_hex (AeroScanner sc) = (case ae_rpc sc of Some nd \<Rightarrow> ev_Hex (nd_lib nd) | None \<Rightarrow> ev_Hex (ae_lib sc))"
| "scanner_hex (SolanaScanner sc) = (\<lambda>a. [])"

lemma evm_tracked_ids:
  assumes "evm_tracked sc ids = Inr pools"
  shows "\<exists>as. distinct as \<and> subseq (map vp_ID pools) (map (scanner_hex sc) as)"
proof (cases sc)
  case (SolanaScanner x1)
  then show ?thesis using assms by simp
next
  case (V1Scanner x)
  then show ?thesis using assms exchanges_of_distinct [of "[]"] map_filter_ids [OF loaded_exchange_id]
    by (fastforce simp: V1_ScanPoolsForAssets_def findExchanges_def split: sum.splits)
next
  case (V2Scanner x)
  then show ?thesis using assms
    by (auto simp: V2_ScanPoolsForAssets_def findPairAddresses_def split: sum.splits if_splits
        dest!: find_addresses_distinct loadPairs_ids)
next
  case (V3Scanner x)
  then show ?thesis using assms
    by (auto simp: V3_ScanPoolsForAssets_def V3_findPoolAddresses_def split: sum.splits if_splits
        dest!: find_addresses_distinct loadPools_ids)
next
  case (AeroScanner x)
  then show ?thesis using assms
    by (auto simp: aero_ScanPoolsForAssets_def aero_findPoolAddresses_def split: sum.splits if_splits option.splits
        dest!: find_addresses_distinct loadPoolsMulticall_ids)
qed

lemma evm_tracked_distinct:
  assumes "evm_tracked sc ids = Inr pools" "inj (scanner_hex sc)"
  shows "distinct (map vp_ID pools)"
proof -
  obtain as where "distinct as" "subseq (map vp_ID pools) (map (scanner_hex sc) as)" using evm_tracked_ids [OF assms(1)] by auto
  moreover have "distinct (map (scanner_hex sc) as)" using \<open>distinct as\<close> assms(2) by (simp add: distinct_map inj_def inj_on_def)
  ultimately show ?thesis by (rule_tac subseq_distinct)
qed

section \<open>A tracked scan saves its pools\<close>

lemma publish_symbols_pools: "sn_pools (snd (publish_symbols env encode symbols st)) = sn_pools st"
  by (induction symbols arbitrary: st) (auto split: option.splits prod.splits sum.splits)

lemma publish_batch:
  "bus_Publish (scanner_bus env encode prices) (batch_event vk pools) st = save_batch env encode prices (batch_event vk pools) st"
  by (simp add: bus_Publish_def scanner_bus_def Subscribe_def batch_event_def split: option.splits prod.splits)

lemma publishPools_saves:
  assumes "distinct (map vp_ID pools)"
  shows "GetPool (sn_pools (snd (publishPools (scanner_bus env encode prices) vk pools st))) k =
    (case row_find vp_ID k pools of Some p \<Rightarrow> Inr (stored_pool p) | None \<Rightarrow> GetPool (sn_pools st) k)"
  using assms
  by (simp add: publishPools_def publish_batch, simp add: save_batch_def batch_event_def SavePools_def publishPriceUpdates_def
      publish_symbols_pools GetPool_saves)

lemma scanTracked_evm:
  assumes "inj (scanner_hex sc)" "ids \<noteq> []"
  shows "scanTrackedAndSave bus (Some sc) vk ids s =
     (case evm_tracked sc ids of Inl e \<Rightarrow> s | Inr pools \<Rightarrow> snd (publishPools bus vk pools s))"
proof (cases sc)
  case (SolanaScanner x)
  have "(0::address) = 1" using assms(1) by (rule injD) (simp add: SolanaScanner)
  then show ?thesis by simp
qed (use assms(2) in \<open>simp_all add: scanTrackedAndSave_def\<close>)

text \<open>C32: A tracked scan of an Ethereum venue leaves the pool table with exactly the scanned pools read back as they were
  scanned (amounts that were not read as 0) and every other pool as it was; if the scan fails, nothing is changed. The
  addresses of the chain are taken to have different texts.\<close>

theorem tracked_scan_saves_pools:
  assumes "inj (scanner_hex sc)" "ids \<noteq> []"
  shows "let st' = scanTrackedAndSave (scanner_bus env encode prices) (Some sc) vk ids st in
    case evm_tracked sc ids of
      Inl e \<Rightarrow> st' = st
    | Inr pools \<Rightarrow>
        distinct (map vp_ID pools) \<and>
        (\<lambda>k. GetPool (sn_pools st') k) =
        (\<lambda>k. case row_find vp_ID k pools of Some p \<Rightarrow> Inr (stored_pool p) | None \<Rightarrow> GetPool (sn_pools st) k)"
proof (cases "evm_tracked sc ids")
  case (Inl e)
  then show ?thesis by (simp add: scanTracked_evm [OF assms])
next
  case (Inr pools)
  then show ?thesis using evm_tracked_distinct [OF Inr assms(1)] by (simp add: scanTracked_evm [OF assms] publishPools_saves fun_eq_iff)
qed

text \<open>An example: a chain with one pair.\<close>

definition demo_lib :: evm_lib where
  "demo_lib = \<lparr>ev_IsHexAddress = (\<lambda>s. True), ev_HexToAddress = (\<lambda>s. if s = ''1'' then 1 else 2), ev_Hex = (\<lambda>a. itoa (uint a)),
     ev_Pack = (\<lambda>abi m args. case args of [AbiList calls] \<Rightarrow> Some [of_nat (length calls)] | _ \<Rightarrow> Some []),
     ev_Unpack = (\<lambda>abi m out.
       if m = ''aggregate3'' then Some [AbiList (replicate (unat (hd out)) (AbiTuple [AbiBool True, AbiBytes []]))]
       else if m = ''getPair'' then Some [AbiAddress 7]
       else if m = ''getReserves'' then Some [AbiInt 10, AbiInt 20]
       else Some [AbiAddress (if m = ''token0'' then 1 else 2)])\<rparr>"

definition demo_node :: evm_node where
  "demo_node = \<lparr>nd_call = (\<lambda>a code. Inr code), nd_balance = (\<lambda>a. Inl []), nd_lib = demo_lib\<rparr>"

definition demo_scanner :: pool_scanner where
  "demo_scanner = V2Scanner (V2_NewScanner demo_node 9 8 ''ethereum'' ''uniswap'')"

definition demo_pool :: pool where
  "demo_pool = (evm_pool_of demo_node ''ethereum'' ''uniswap'' 7 PoolKindV2 1 2)\<lparr>vp_Reserve0 := Some 10, vp_Reserve1 := Some 20\<rparr>"

lemma demo_inj: "inj (scanner_hex demo_scanner)"
proof (rule injI)
  fix a b assume "scanner_hex demo_scanner a = scanner_hex demo_scanner b"
  then have "int_of_decimal (itoa (uint a)) = int_of_decimal (itoa (uint b))"
    by (simp add: demo_scanner_def V2_NewScanner_def demo_node_def demo_lib_def)
  then show "a = b" by (simp add: int_of_decimal_itoa word_uint_eq_iff)
qed

lemma demo_lib_simps:
  "ev_Pack demo_lib abi m args = (case args of [AbiList calls] \<Rightarrow> Some [of_nat (length calls)] | _ \<Rightarrow> Some [])"
  "ev_Unpack demo_lib abi ''aggregate3'' out = Some [AbiList (replicate (unat (hd out)) (AbiTuple [AbiBool True, AbiBytes []]))]"
  "ev_Unpack demo_lib abi ''getPair'' out = Some [AbiAddress 7]"
  "ev_Unpack demo_lib abi ''getReserves'' out = Some [AbiInt 10, AbiInt 20]"
  "ev_Unpack demo_lib abi ''token0'' out = Some [AbiAddress 1]"
  "ev_Unpack demo_lib abi ''token1'' out = Some [AbiAddress 2]"
  by (simp_all add: demo_lib_def)

lemma demo_call:
  "calls \<noteq> [] \<Longrightarrow> length calls < 256 \<Longrightarrow>
   Aggregate3 demo_node mc calls = Inr (replicate (length calls) \<lparr>cr_Success = True, cr_ReturnData = []\<rparr>)"
proof -
  assume a: "calls \<noteq> []" "length calls < 256"
  have "those (replicate n (Some x)) = Some (replicate n x)" for n and x :: call_result
    by (induction n) auto
  then show ?thesis using a
    by (simp add: Aggregate3_def abi_pack_def demo_node_def demo_lib_simps call_result_of_def unat_of_nat)
qed

lemma demo_reads:
  "nd_lib demo_node = demo_lib"
  "abi_address demo_node abi ''token0'' out = Inr 1" "abi_address demo_node abi ''token1'' out = Inr 2"
  "abi_address demo_node abi ''getPair'' out = Inr 7" "abi_reserves demo_node abi out = Inr (10, 20)"
  by (simp_all add: abi_address_def abi_reserves_def demo_node_def demo_lib_simps)

lemma demo_scan: "evm_tracked demo_scanner [''1'', ''2''] = Inr [demo_pool]"
proof -
  have t: "Addresses demo_node [''1'', ''2''] = [1, 2]" by (simp add: Addresses_def demo_reads demo_lib_def)
  have f: "find_addresses demo_node 9 8 V2FactoryABI ''getPair'' (\<lambda>(a, b). [[AbiAddress a, AbiAddress b]]) [1, 2] = Inr [7]"
    by (simp add: find_addresses_def abi_pack_def demo_reads demo_lib_simps demo_call found_addresses_def found_address_def
        List.map_filter_def)
  have "load_details demo_node 9 V2PairABI [''token0'', ''token1'', ''getReserves''] w parse [7] =
    parse_groups 3 parse [7] (replicate 3 \<lparr>cr_Success = True, cr_ReturnData = []\<rparr>)" for w parse
    by (simp add: load_details_def demo_reads demo_lib_simps demo_call numeral_3_eq_3)
  then show ?thesis
    by (simp add: demo_scanner_def V2_NewScanner_def V2_ScanPoolsForAssets_def findPairAddresses_def t f loadPairs_def
       batches.simps [of 300] loadPairBatch_def parse_groups_def List.map_filter_def parse_pair_def demo_reads demo_pool_def
       numeral_3_eq_3)
qed

lemma itoa_7: "itoa 7 = ''7''"
  by code_simp

theorem tracked_scan_saves_pools_witness:
  "inj (scanner_hex demo_scanner) \<and> evm_tracked demo_scanner [''1'', ''2''] = Inr [demo_pool] \<and>
   GetPool (sn_pools (scanTrackedAndSave (scanner_bus queue_env (\<lambda>u. None) \<lparr>ps_assets = [], ps_pools = []\<rparr>) (Some demo_scanner) ''uniswap'' [''1'', ''2'']
     \<lparr>sn_pools = [], sn_db = empty_db\<rparr>)) ''7'' = Inr (stored_pool demo_pool)"
  using tracked_scan_saves_pools [OF demo_inj, of "[''1'', ''2'']" queue_env "\<lambda>u. None" "\<lparr>ps_assets = [], ps_pools = []\<rparr>" "''uniswap''" "\<lparr>sn_pools = [], sn_db = empty_db\<rparr>"]
    demo_inj demo_scan
  by (simp add: Let_def fun_eq_iff demo_pool_def evm_pool_of_def demo_reads demo_lib_def itoa_7)

section \<open>Failing over\<close>

lemma evm_Client_step:
  assumes "Suc (unat (ep_next p)) < 2 ^ 64"
  shows "evm_Client p = (ep_clients p ! (unat (ep_next p) mod length (ep_clients p)), p\<lparr>ep_next := ep_next p + 1\<rparr>) \<and>
    unat (ep_next p + 1) = Suc (unat (ep_next p))"
  using assms by (simp add: evm_Client_def unat_word_ariths)

lemma evm_attempts_reach:
  assumes "\<And>c i. c \<in> set (ep_clients p) \<Longrightarrow> case ask c i of Inr out \<Rightarrow> out = ans | Inl e \<Rightarrow> evm_isRetryable e"
    and "good < length (ep_clients p)" and "\<And>i. ask (ep_clients p ! good) i = Inr ans"
    and "(unat (ep_next p) + n) mod length (ep_clients p) = good" and "n < left"
    and "unat (ep_next p) + left < 2 ^ 64"
  shows "fst (evm_attempts ask i left lastErr p) = Inr ans"
  using assms
proof (induction n arbitrary: i left lastErr p)
  case (0 i left lastErr p)
  then obtain m where "left = Suc m" by (cases left) auto
  then show ?case using 0 evm_Client_step [of p] by simp
next
  case (Suc n i left lastErr p)
  then obtain m where m: "left = Suc m" by (cases left) auto
  let ?p = "p\<lparr>ep_next := ep_next p + 1\<rparr>" and ?c = "ep_clients p ! (unat (ep_next p) mod length (ep_clients p))"
  have step: "evm_Client p = (?c, ?p)" "unat (ep_next p + 1) = Suc (unat (ep_next p))"
    using evm_Client_step [of p] Suc.prems(6) m by auto
  have c: "?c \<in> set (ep_clients p)" using Suc.prems(2) by (auto intro!: nth_mem mod_less_divisor)
  have "fst (evm_attempts ask (Suc i) m e ?p) = Inr ans" for e
    using Suc.prems step(2) m by (intro Suc.IH [of ?p]) auto
  then show ?case using Suc.prems(1) [OF c, of i] step(1) m by (auto split: sum.splits)
qed

text \<open>C33: A call to a chain reaches a client that answers: if one client of the pool always answers and every other client,
  at every attempt, gives that answer or an error that may pass, the call returns the answer, wherever the rotation of
  the clients stands.\<close>

theorem CallContract_fails_over:
  assumes "\<forall>c \<in> set (ep_clients p). \<forall>i. case ec_call c i target data of Inr out \<Rightarrow> out = ans | Inl e \<Rightarrow> evm_isRetryable e"
    and "good \<in> set (ep_clients p)" "\<forall>i. ec_call good i target data = Inr ans"
    and "unat (ep_next p) + max 3 (3 * length (ep_clients p)) < 2 ^ 63"
  shows "fst (CallContract target data p) = Inr ans"
proof -
  let ?n = "length (ep_clients p)"
  obtain g where g: "g < ?n" "ep_clients p ! g = good" using assms(2) by (auto simp: in_set_conv_nth)
  then have n: "0 < ?n" by auto
  define k where "k = (g + ?n - unat (ep_next p) mod ?n) mod ?n"
  have "(unat (ep_next p) + k) mod ?n = (unat (ep_next p) mod ?n + (g + ?n - unat (ep_next p) mod ?n)) mod ?n"
    unfolding k_def by (metis mod_add_left_eq mod_add_right_eq)
  also have "\<dots> = g" using g mod_less_divisor [OF n, of "unat (ep_next p)"] by simp
  finally have k: "(unat (ep_next p) + k) mod ?n = g" .
  have "k < ?n" using n by (simp add: k_def)
  then show ?thesis unfolding CallContract_def evm_call_pool_def
    using assms g k by (intro evm_attempts_reach [where good = g and n = k]) auto
qed

definition busy_client :: evm_client where
  "busy_client = \<lparr>ec_call = (\<lambda>i a d. Inl ''429 Too Many Requests''), ec_balance = (\<lambda>i a. Inl ''timeout'')\<rparr>"

definition steady_client :: evm_client where
  "steady_client = \<lparr>ec_call = (\<lambda>i a d. Inr [1]), ec_balance = (\<lambda>i a. Inr 5)\<rparr>"

lemma busy_retryable: "evm_isRetryable ''429 Too Many Requests''"
  by code_simp

theorem CallContract_fails_over_witness:
  "fst (CallContract 7 [] \<lparr>ep_clients = [busy_client, busy_client, steady_client], ep_next = 4\<rparr>) = Inr [1]"
  by (rule CallContract_fails_over [where good = steady_client])
     (simp_all add: busy_client_def steady_client_def busy_retryable)

section \<open>The outbox worker\<close>

definition outbox_ids :: "(outbox_event \<Rightarrow> bool) \<Rightarrow> db \<Rightarrow> string set" where
  "outbox_ids P d = ox_ID ` {r \<in> set (db_outbox d). P r}"

definition failed_early :: "int \<Rightarrow> outbox_event \<Rightarrow> bool" where
  "failed_early maxAttempts r \<longleftrightarrow> ox_Status r = OutboxFailed \<and> ox_Attempts r < (if maxAttempts \<le> 0 then 10 else maxAttempts)"

lemma fold_row_save_subset: "set (fold (row_save key) picked rows) \<subseteq> set picked \<union> set rows"
proof (induction picked arbitrary: rows)
  case Nil
  then show ?case by simp
next
  case (Cons r picked)
  then show ?case using Cons [of "row_save key r rows"] by (auto dest: set_row_save)
qed

lemma row_save_known: "key r \<in> key ` set rows \<Longrightarrow> map key (row_save key r rows) = map key rows"
  by (auto simp: row_save_keys)

lemma fold_row_save_known:
  "\<forall>r \<in> set picked. key r \<in> key ` set rows \<Longrightarrow> map key (fold (row_save key) picked rows) = map key rows"
proof (induction picked arbitrary: rows)
  case Nil
  then show ?case by simp
next
  case (Cons r picked)
  have m: "map key (row_save key r rows) = map key rows" using Cons.prems by (simp add: row_save_known)
  then have "key ` set (row_save key r rows) = key ` set rows" by (metis list.set_map)
  then show ?case using Cons m by simp
qed

text \<open>What a step keeps: no event is lost, none is published without being in \<open>new\<close>, none is given up too early.\<close>

definition outbox_kept :: "int \<Rightarrow> string set \<Rightarrow> db \<Rightarrow> db \<Rightarrow> bool" where
  "outbox_kept m new d d' \<longleftrightarrow>
     outbox_ids (\<lambda>r. True) d' = outbox_ids (\<lambda>r. True) d \<and>
     outbox_ids (\<lambda>r. ox_Status r = OutboxPublished) d' \<subseteq> outbox_ids (\<lambda>r. ox_Status r = OutboxPublished) d \<union> new \<and>
     outbox_ids (failed_early m) d' \<subseteq> outbox_ids (failed_early m) d"

lemma outbox_kept_refl: "outbox_kept m {} d d"
  by (simp add: outbox_kept_def)

lemma outbox_kept_trans: "outbox_kept m A d d' \<Longrightarrow> outbox_kept m B d' d'' \<Longrightarrow> outbox_kept m (A \<union> B) d d''"
  by (auto simp: outbox_kept_def)

lemma outbox_kept_claim:
  assumes "Outbox_Claim env w n ttl d = Inr (events, d')"
  shows "outbox_kept m {} d d'"
proof -
  define now where "now = e_now env"
  obtain chosen where p: "db_outbox d' = fold (row_save ox_ID) (map (lock_outbox (worker_name ''outbox'' w) now) chosen) (db_outbox d)"
      and c: "set chosen \<subseteq> set (db_outbox d)"
    using assms
    by (auto simp: Outbox_Claim_def claim_rows_def Let_def now_def dest!: in_set_takeD intro!: that
        [of "take (limit_or n 1000 100) (sort_key ox_CreatedAt (filter (outbox_due (e_now env) (lock_ttl ttl)) (db_outbox d)))"])
  have "map ox_ID (db_outbox d') = map ox_ID (db_outbox d)"
    unfolding p using c by (intro fold_row_save_known) (auto simp: lock_outbox_def)
  then have "ox_ID ` set (db_outbox d') = ox_ID ` set (db_outbox d)" by (metis list.set_map)
  then show ?thesis using fold_row_save_subset [of ox_ID "map (lock_outbox (worker_name ''outbox'' w) now) chosen" "db_outbox d"]
    unfolding p [symmetric] by (fastforce simp: outbox_kept_def outbox_ids_def failed_early_def lock_outbox_def)
qed

lemma outbox_kept_published:
  assumes "MarkPublished env i d = Inr (u, d')"
  shows "outbox_kept m {trim_space i} d d'"
proof -
  have "map ox_ID (db_outbox d') = map ox_ID (db_outbox d)"
    using assms by (auto simp: MarkPublished_def Let_def row_update_def split: if_splits)
  then have "ox_ID ` set (db_outbox d') = ox_ID ` set (db_outbox d)" by (metis list.set_map)
  then show ?thesis using assms
    by (auto simp: MarkPublished_def outbox_kept_def outbox_ids_def failed_early_def Let_def row_update_def split: if_splits)
qed

lemma outbox_kept_failed:
  assumes "MarkFailed env i msg m ra d = Inr (u, d')"
  shows "outbox_kept m {} d d'"
proof (cases "trim_space i = []")
  case True
  then show ?thesis using assms by (simp add: MarkFailed_def outbox_kept_refl)
next
  case False
  then obtain model where r: "row_find ox_ID (trim_space i) (db_outbox d) = Some model"
    using assms by (auto simp: MarkFailed_def Let_def split: option.splits)
  let ?r = "fail_outbox (e_now env) msg (if m \<le> 0 then 10 else m) (if ra \<le> 0 then second else ra) model"
  have d': "db_outbox d' = row_save ox_ID ?r (db_outbox d)" using assms False r by (auto simp: MarkFailed_def Let_def)
  have k: "ox_ID ?r \<in> ox_ID ` set (db_outbox d)" using row_find_key [OF r] by (auto simp: fail_outbox_def intro: rev_image_eqI)
  then have "ox_ID ` set (db_outbox d') = ox_ID ` set (db_outbox d)" using row_save_known [OF k] d' by (metis list.set_map)
  then show ?thesis using d'
    by (auto simp: outbox_kept_def outbox_ids_def failed_early_def dest!: set_row_save) (auto simp: fail_outbox_def split: if_splits)
qed

lemma publish_events_kept:
  "publish_events env publish m ra events (d, sent) = (err, d', sent') \<Longrightarrow>
   \<exists>evs. sent' = sent @ evs \<and> list_all (\<lambda>ev. publish ev = None) evs \<and> outbox_kept m ((\<lambda>ev. trim_space (oi_ID ev)) ` set evs) d d'"
proof (induction events arbitrary: d sent)
  case Nil
  then show ?case by (auto intro: exI [of _ "[]"] outbox_kept_refl)
next
  case (Cons ev events)
  show ?case
  proof (cases "publish ev")
    case None
    have "\<exists>u d1. MarkPublished env (oi_ID ev) d = Inr (u, d1)" by (simp add: MarkPublished_def Let_def)
    then obtain u d1 where m: "MarkPublished env (oi_ID ev) d = Inr (u, d1)" by blast
    have "publish_events env publish m ra events (d1, sent @ [ev]) = (err, d', sent')"
      using m Cons.prems None by (simp add: run_tx_def)
    from Cons.IH [OF this] obtain evs where "sent' = (sent @ [ev]) @ evs" "list_all (\<lambda>ev. publish ev = None) evs"
      "outbox_kept m ((\<lambda>ev. trim_space (oi_ID ev)) ` set evs) d1 d'" by blast
    then show ?thesis using None outbox_kept_trans [OF outbox_kept_published [OF m]] by (intro exI [of _ "ev # evs"]) auto
  next
    case (Some msg)
    show ?thesis
    proof (cases "MarkFailed env (oi_ID ev) msg m ra d")
      case (Inl e)
      then show ?thesis using Cons.prems Some by (auto simp: run_tx_def intro: exI [of _ "[]"] outbox_kept_refl)
    next
      case (Inr r)
      then obtain u d1 where m: "MarkFailed env (oi_ID ev) msg m ra d = Inr (u, d1)" by (cases r) auto
      then have "publish_events env publish m ra events (d1, sent) = (err, d', sent')" using Cons.prems Some by (simp add: run_tx_def)
      from Cons.IH [OF this] show ?thesis using outbox_kept_trans [OF outbox_kept_failed [OF m]] by fastforce
    qed
  qed
qed

text \<open>C34: A pass of the outbox worker delivers at least once: the message backend takes some events, and only events it
  took are newly marked as published; no event leaves the table, and none fails for good before the maximum of attempts.
  This holds whichever event the backend refuses.\<close>

theorem outbox_at_least_once:
  "case worker_runOnce env publish cfg (d, sent) of
     (res, d', sent') \<Rightarrow>
       \<exists>evs. sent' = sent @ evs \<and> list_all (\<lambda>ev. publish ev = None) evs \<and>
         outbox_ids (\<lambda>r. True) d' = outbox_ids (\<lambda>r. True) d \<and>
         outbox_ids (\<lambda>r. ox_Status r = OutboxPublished) d' \<subseteq>
           outbox_ids (\<lambda>r. ox_Status r = OutboxPublished) d \<union> (\<lambda>ev. trim_space (oi_ID ev)) ` set evs \<and>
         outbox_ids (failed_early (wk_MaxAttempts cfg)) d' \<subseteq> outbox_ids (failed_early (wk_MaxAttempts cfg)) d"
proof -
  have "\<exists>events d1. Outbox_Claim env (wk_ID cfg) (wk_BatchSize cfg) (wk_LockTTL cfg) d = Inr (events, d1)"
    by (simp add: Outbox_Claim_def split: prod.splits)
  then obtain events d1 where c: "Outbox_Claim env (wk_ID cfg) (wk_BatchSize cfg) (wk_LockTTL cfg) d = Inr (events, d1)" by blast
  obtain err d' sent' where p: "publish_events env publish (wk_MaxAttempts cfg) (wk_RetryDelay cfg) events (d1, sent) = (err, d', sent')"
    by (metis surj_pair)
  have w: "worker_runOnce env publish cfg (d, sent) = ((int (length events), err), d', sent')"
    by (simp add: worker_runOnce_def run_tx_def c p)
  from publish_events_kept [OF p] obtain evs where e: "sent' = sent @ evs" "list_all (\<lambda>ev. publish ev = None) evs"
    "outbox_kept (wk_MaxAttempts cfg) ((\<lambda>ev. trim_space (oi_ID ev)) ` set evs) d1 d'" by blast
  have "outbox_kept (wk_MaxAttempts cfg) ((\<lambda>ev. trim_space (oi_ID ev)) ` set evs) d d'"
    using outbox_kept_trans [OF outbox_kept_claim [OF c] e(3)] by simp
  then show ?thesis unfolding w using e(1,2) by (auto simp: outbox_kept_def)
qed

section \<open>Leases\<close>

text \<open>While another instance holds the lease of a venue, a scan of the venue does nothing.\<close>

lemma venue_scan_exclusive:
  assumes "scannerLeasesEnabled cfg" "distinct (map sl_Name (db_leases (sn_db st)))"
    and "r \<in> set (db_leases (sn_db st))" "sl_Name r = trim_space (scannerLeaseName v)" "sl_Owner r \<noteq> trim_space owner"
    and "e_now env < sl_ExpiresAt r"
  shows "runVenueScan env ticks cfg v owner scan st = st"
proof -
  let ?n = "trim_space (scannerLeaseName v)"
  have same: "r' = r" if "r' \<in> set (db_leases (sn_db st))" "sl_Name r' = ?n" for r'
    using assms(2-4) that by (metis distinct_map inj_onD)
  have free: "\<not> list_ex (\<lambda>r. sl_Name r = ?n \<and> (sl_ExpiresAt r \<le> e_now env \<or> sl_Owner r = trim_space owner)) (db_leases (sn_db st))"
    using same assms(5,6) by (force simp: list_ex_iff)
  have known: "row_exists sl_Name ?n (db_leases (sn_db st))" using assms(3,4) by (auto simp: row_exists_def row_find_None intro: rev_image_eqI)
  have "TryAcquire env (scannerLeaseName v) owner (scannerLeaseTTL cfg) (sn_db st) = (False, sn_db st)"
    using free known by (simp add: TryAcquire_def Let_def)
  then show ?thesis using assms(1) by (simp add: runVenueScan_def Let_def)
qed

end
