(* ===== verification/ScannerContract.thy ===== *)
theory ScannerContract
  imports ScanProps
begin

text \<open>
  The interface \<^verbatim>\<open>PoolScanner\<close> of \<^verbatim>\<open>internal/core/venue/scanner.go\<close> as a locale: whatever a scanner reports, by a full scan, by a
  tracked one or by loading one pool, is a pool of its own venue and chain. The four Ethereum scanners are interpretations, and
  what follows for the table of pools is shown once.
\<close>

section \<open>The contract\<close>

definition pool_of :: "chain_key \<Rightarrow> venue_key \<Rightarrow> pool \<Rightarrow> bool" where
  "pool_of chainKey venueKey p \<longleftrightarrow> vp_ChainKey p = chainKey \<and> vp_VenueKey p = venueKey"

locale venue_scanner =
  fixes chainKey :: chain_key and venueKey :: venue_key
    and ScanPools :: "string + pool list" and ScanPoolsForAssets :: "string list \<Rightarrow> string + pool list"
    and LoadPool :: "string \<Rightarrow> string + pool"
  assumes scans_own: "ScanPools = Inr ps \<Longrightarrow> list_all (pool_of chainKey venueKey) ps"
    and tracks_own: "ScanPoolsForAssets ids = Inr ps \<Longrightarrow> list_all (pool_of chainKey venueKey) ps"
    and loads_own: "LoadPool i = Inr p \<Longrightarrow> pool_of chainKey venueKey p"
begin

text \<open>Saved and read back, a pool is still one of the venue; every other entry of the table is as it was.\<close>

lemma stored_own:
  assumes "ScanPoolsForAssets ids = Inr pools" and "distinct (map vp_ID pools)"
    and "GetPool (sn_pools (snd (publishPools (scanner_bus env encode prices) vk pools st))) k \<noteq> GetPool (sn_pools st) k"
  shows "\<exists>p. GetPool (sn_pools (snd (publishPools (scanner_bus env encode prices) vk pools st))) k = Inr p \<and> pool_of chainKey venueKey p"
proof -
  obtain p where p: "row_find vp_ID k pools = Some p"
    using assms(3) by (auto simp: publishPools_saves [OF assms(2)] split: option.splits)
  then have "pool_of chainKey venueKey p" using tracks_own [OF assms(1)] row_find_key [OF p] by (simp add: list_all_iff)
  then have "pool_of chainKey venueKey (stored_pool p)" by (simp add: pool_of_def stored_pool_def)
  then show ?thesis using p by (simp add: publishPools_saves [OF assms(2)])
qed

end

section \<open>What the readers of pools report\<close>

lemma parse_groups_all:
  assumes "parse_groups k parse addresses results = Inr pools" and "\<And>a rs p. parse a rs = Some p \<Longrightarrow> Q p"
  shows "list_all Q pools"
  using assms by (auto simp: parse_groups_def List.map_filter_def list_all_iff split: if_splits)

lemma load_details_all:
  assumes "load_details nd multicall abi methods what parse addresses = Inr pools" and "\<And>a rs p. parse a rs = Some p \<Longrightarrow> Q p"
  shows "list_all Q pools"
  using assms by (auto simp: load_details_def split: sum.splits intro: parse_groups_all)

lemma load_batches_all:
  assumes "load_batches load bs = Inr pools" and "\<And>b ps. load b = Inr ps \<Longrightarrow> list_all Q ps"
  shows "list_all Q pools"
  using assms(1)
proof (induction bs arbitrary: pools)
  case Nil
  then show ?case by simp
next
  case (Cons b bs)
  then show ?case by (auto split: sum.splits dest: assms(2))
qed

lemma stream_indices_all:
  assumes "stream_indices addrs load append_batch bs n acc = (m, None, pools)" and "list_all Q acc"
    and "\<And>as ps. load as = Inr ps \<Longrightarrow> list_all Q ps"
  shows "list_all Q pools"
  using assms(1,2)
proof (induction bs arbitrary: n acc)
  case Nil
  then show ?case by simp
next
  case (Cons b bs)
  then show ?case using assms(3) by (auto simp: append_batch_def split: sum.splits prod.splits option.splits)
qed

lemma read_all_all:
  assumes "read_all f xs = Inr ys" and "\<And>x y. f x = Inr y \<Longrightarrow> Q y"
  shows "list_all Q ys"
  using assms(1)
proof (induction xs arbitrary: ys)
  case Nil
  then show ?case by simp
next
  case (Cons x xs)
  then show ?case by (auto split: sum.splits dest: assms(2))
qed

lemma first_pool_own: "first_pool r = Inr p \<Longrightarrow> (\<And>ps. r = Inr ps \<Longrightarrow> list_all Q ps) \<Longrightarrow> Q p"
  by (auto simp: first_pool_def split: sum.splits list.splits)

lemma evm_pool_of_own [simp]:
  "vp_ChainKey (evm_pool_of nd ck vk a kind t0 t1) = ck" "vp_VenueKey (evm_pool_of nd ck vk a kind t0 t1) = vk"
  by (simp_all add: evm_pool_of_def)

lemma loadPairBatch_own: "loadPairBatch sc as = Inr ps \<Longrightarrow> list_all (pool_of (v2_chainKey sc) (v2_venueKey sc)) ps"
  unfolding loadPairBatch_def
  by (erule load_details_all) (auto simp: parse_pair_def pool_of_def split: if_splits sum.splits prod.splits)

lemma loadPairs_own: "loadPairs sc as = Inr ps \<Longrightarrow> list_all (pool_of (v2_chainKey sc) (v2_venueKey sc)) ps"
  unfolding loadPairs_def by (erule load_batches_all) (rule loadPairBatch_own)

lemma loadPools_own: "loadPools sc as = Inr ps \<Longrightarrow> list_all (pool_of (v3_chainKey sc) (v3_venueKey sc)) ps"
  unfolding loadPools_def
  by (cases "as = []", simp, simp, erule load_details_all)
    (auto simp: parse_v3_def pool_of_def Let_def split: if_splits sum.splits prod.splits option.splits list.splits abi_value.splits)

lemma loadExchange_own: "loadExchange sc a = Inr p \<Longrightarrow> pool_of (v1_chainKey sc) (v1_venueKey sc) p"
  by (auto simp: loadExchange_def pool_of_def split: sum.splits)

lemma list_all_map_filter: "(\<And>x y. f x = Some y \<Longrightarrow> Q y) \<Longrightarrow> list_all Q (List.map_filter f xs)"
  by (auto simp: List.map_filter_def list_all_iff)

lemma loaded_exchange_own: "loaded_exchange sc a = Some p \<Longrightarrow> pool_of (v1_chainKey sc) (v1_venueKey sc) p"
  by (auto simp: loaded_exchange_def split: sum.splits intro: loadExchange_own)

lemma aero_batch_own: "loadPoolBatchMulticall sc nd m as = Inr ps \<Longrightarrow> list_all (pool_of (ae_chainKey sc) (ae_venueKey sc)) ps"
  unfolding loadPoolBatchMulticall_def
  by (erule load_details_all) (auto simp: parse_aero_def pool_of_def split: if_splits sum.splits prod.splits)

lemma aero_batches_own: "loadPoolsMulticall sc nd m as = Inr ps \<Longrightarrow> list_all (pool_of (ae_chainKey sc) (ae_venueKey sc)) ps"
  unfolding loadPoolsMulticall_def by (erule load_batches_all) (rule aero_batch_own)

lemma aero_loadPool_own: "aero_loadPool sc a = Inr p \<Longrightarrow> pool_of (ae_chainKey sc) (ae_venueKey sc) p"
  by (auto simp: aero_loadPool_def pool_of_def Let_def split: sum.splits prod.splits)

lemma ScanPools_single_own: "ScanPools_single sc = Inr ps \<Longrightarrow> list_all (pool_of (ae_chainKey sc) (ae_venueKey sc)) ps"
  by (auto simp: ScanPools_single_def split: sum.splits intro: read_all_all aero_loadPool_own)

section \<open>The scanners\<close>

interpretation v1_scan: venue_scanner "v1_chainKey sc" "v1_venueKey sc" "V1_ScanPools sc" "V1_ScanPoolsForAssets sc" "V1_LoadPool sc" for sc
proof
  show "V1_ScanPoolsForAssets sc ids = Inr ps \<Longrightarrow> list_all (pool_of (v1_chainKey sc) (v1_venueKey sc)) ps" for ids ps
    by (auto simp: V1_ScanPoolsForAssets_def split: sum.splits intro!: list_all_map_filter loaded_exchange_own)
qed (auto simp: V1_ScanPools_def V1_LoadPool_def intro: loadExchange_own)

interpretation v2_scan: venue_scanner "v2_chainKey sc" "v2_venueKey sc" "V2_ScanPools sc" "V2_ScanPoolsForAssets sc" "V2_LoadPool sc" for sc
proof
  show "V2_ScanPools sc = Inr ps \<Longrightarrow> list_all (pool_of (v2_chainKey sc) (v2_venueKey sc)) ps" for ps
    by (auto simp: V2_ScanPools_def collect_stream_def V2_ScanPoolsStream_def split: sum.splits prod.splits option.splits
        elim!: stream_indices_all intro: loadPairBatch_own)
  show "V2_ScanPoolsForAssets sc ids = Inr ps \<Longrightarrow> list_all (pool_of (v2_chainKey sc) (v2_venueKey sc)) ps" for ids ps
    by (auto simp: V2_ScanPoolsForAssets_def split: sum.splits if_splits intro: loadPairs_own)
  show "V2_LoadPool sc i = Inr p \<Longrightarrow> pool_of (v2_chainKey sc) (v2_venueKey sc) p" for i p
    unfolding V2_LoadPool_def by (erule first_pool_own) (rule loadPairs_own)
qed

interpretation v3_scan: venue_scanner "v3_chainKey sc" "v3_venueKey sc" "V3_ScanPools sc" "V3_ScanPoolsForAssets sc" "V3_LoadPool sc" for sc
proof
  show "V3_ScanPoolsForAssets sc ids = Inr ps \<Longrightarrow> list_all (pool_of (v3_chainKey sc) (v3_venueKey sc)) ps" for ids ps
    by (auto simp: V3_ScanPoolsForAssets_def split: sum.splits intro: loadPools_own)
  show "V3_LoadPool sc i = Inr p \<Longrightarrow> pool_of (v3_chainKey sc) (v3_venueKey sc) p" for i p
    unfolding V3_LoadPool_def by (erule first_pool_own) (rule loadPools_own)
qed (simp add: V3_ScanPools_def)

interpretation aero_scan: venue_scanner "ae_chainKey sc" "ae_venueKey sc" "aero_ScanPools sc" "aero_ScanPoolsForAssets sc" "aero_LoadPool sc" for sc
proof
  show "aero_ScanPools sc = Inr ps \<Longrightarrow> list_all (pool_of (ae_chainKey sc) (ae_venueKey sc)) ps" for ps
  proof (cases "ScanPools_single sc")
    case (Inl e)
    then show "aero_ScanPools sc = Inr ps \<Longrightarrow> ?thesis"
      by (auto simp: aero_ScanPools_def collect_stream_def aero_ScanPoolsStream_def split: sum.splits prod.splits option.splits if_splits
          elim!: stream_indices_all intro: aero_batch_own)
  next
    case (Inr pools)
    then have "list_all (pool_of (ae_chainKey sc) (ae_venueKey sc)) pools" by (rule ScanPools_single_own)
    then show "aero_ScanPools sc = Inr ps \<Longrightarrow> ?thesis" using Inr
      by (auto simp: aero_ScanPools_def collect_stream_def aero_ScanPoolsStream_def append_batch_def [of pools] split: sum.splits prod.splits
          option.splits if_splits elim!: stream_indices_all intro: aero_batch_own)
  qed
  show "aero_ScanPoolsForAssets sc ids = Inr ps \<Longrightarrow> list_all (pool_of (ae_chainKey sc) (ae_venueKey sc)) ps" for ids ps
    by (auto simp: aero_ScanPoolsForAssets_def split: sum.splits if_splits option.splits intro: aero_batches_own)
  show "aero_LoadPool sc i = Inr p \<Longrightarrow> pool_of (ae_chainKey sc) (ae_venueKey sc) p" for i p
    by (auto simp: aero_LoadPool_def Let_def split: option.splits intro: aero_loadPool_own elim!: first_pool_own dest: aero_batches_own)
qed

section \<open>The table of pools\<close>

fun scanner_own :: "pool_scanner \<Rightarrow> pool \<Rightarrow> bool" where
  "scanner_own (V1Scanner sc) = pool_of (v1_chainKey sc) (v1_venueKey sc)"
| "scanner_own (V2Scanner sc) = pool_of (v2_chainKey sc) (v2_venueKey sc)"
| "scanner_own (V3Scanner sc) = pool_of (v3_chainKey sc) (v3_venueKey sc)"
| "scanner_own (AeroScanner sc) = pool_of (ae_chainKey sc) (ae_venueKey sc)"
| "scanner_own (SolanaScanner sc) = (\<lambda>p. False)"

text \<open>
  A tracked scan of an Ethereum venue leaves behind pools of that venue and chain only; every entry it does not write is as
  it was.
\<close>

lemma tracked_scan_writes_own:
  assumes "inj (scanner_hex sc)" "ids \<noteq> []"
    and "st' = scanTrackedAndSave (scanner_bus env encode prices) (Some sc) vk ids st"
    and "GetPool (sn_pools st') k \<noteq> GetPool (sn_pools st) k"
  shows "\<exists>p. GetPool (sn_pools st') k = Inr p \<and> scanner_own sc p"
proof (cases "evm_tracked sc ids")
  case (Inl e)
  then show ?thesis using assms by (simp add: scanTracked_evm)
next
  case (Inr pools)
  note st' = assms(3) [unfolded scanTracked_evm [OF assms(1,2)] Inr sum.case]
  note ids = evm_tracked_distinct [OF Inr assms(1)]
  note changed = assms(4) [unfolded st']
  show ?thesis unfolding st'
  proof (cases sc)
    case (V1Scanner x)
    then show "\<exists>p. GetPool (sn_pools (snd (publishPools (scanner_bus env encode prices) vk pools st))) k = Inr p \<and> scanner_own sc p"
      using v1_scan.stored_own [OF _ ids changed] Inr by simp
  next
    case (V2Scanner x)
    then show "\<exists>p. GetPool (sn_pools (snd (publishPools (scanner_bus env encode prices) vk pools st))) k = Inr p \<and> scanner_own sc p"
      using v2_scan.stored_own [OF _ ids changed] Inr by simp
  next
    case (V3Scanner x)
    then show "\<exists>p. GetPool (sn_pools (snd (publishPools (scanner_bus env encode prices) vk pools st))) k = Inr p \<and> scanner_own sc p"
      using v3_scan.stored_own [OF _ ids changed] Inr by simp
  next
    case (AeroScanner x)
    then show "\<exists>p. GetPool (sn_pools (snd (publishPools (scanner_bus env encode prices) vk pools st))) k = Inr p \<and> scanner_own sc p"
      using aero_scan.stored_own [OF _ ids changed] Inr by simp
  next
    case (SolanaScanner x)
    then show "\<exists>p. GetPool (sn_pools (snd (publishPools (scanner_bus env encode prices) vk pools st))) k = Inr p \<and> scanner_own sc p"
      using Inr by simp
  qed
qed

end
