(* ===== verification/OidcAuth.thy ===== *)
theory OidcAuth
  imports Swap
begin

text \<open>
  Sessions of \<^verbatim>\<open>internal/app/auth/oidc.go\<close>: the configuration, the exchange of an authorization code, the signed
  session token and its check. HMAC-SHA256, JSON, the parser of addresses and the identity provider are parameters
  (\<open>auth_lib\<close>, \<open>oidc_provider\<close>); the base 64 of the tokens is computed.
\<close>

section \<open>Unpadded base 64 for addresses\<close>

definition b64_alphabet :: string where
  "b64_alphabet = ''ABCDEFGHIJKLMNOPQRSTUVWXYZabcdefghijklmnopqrstuvwxyz0123456789-_''"

definition b64_char :: "nat \<Rightarrow> char" where
  "b64_char n = b64_alphabet ! n"

fun index_of :: "'a \<Rightarrow> 'a list \<Rightarrow> nat option" where
  "index_of x [] = None"
| "index_of x (y # ys) = (if x = y then Some 0 else map_option Suc (index_of x ys))"

definition b64_value :: "char \<Rightarrow> nat option" where
  "b64_value c = index_of c b64_alphabet"

fun b64_digits :: "nat list \<Rightarrow> nat list" where
  "b64_digits [] = []"
| "b64_digits [a] = [a div 4, (a mod 4) * 16]"
| "b64_digits [a, b] = [a div 4, (a mod 4) * 16 + b div 16, (b mod 16) * 4]"
| "b64_digits (a # b # c # rest) =
     [a div 4, (a mod 4) * 16 + b div 16, (b mod 16) * 4 + c div 64, c mod 64] @ b64_digits rest"

fun b64_undigits :: "nat list \<Rightarrow> nat list option" where
  "b64_undigits [] = Some []"
| "b64_undigits [x] = None"
| "b64_undigits [x, y] = Some [x * 4 + y div 16]"
| "b64_undigits [x, y, z] = Some [x * 4 + y div 16, (y mod 16) * 16 + z div 4]"
| "b64_undigits (x # y # z # w # rest) =
     (case b64_undigits rest of
        None \<Rightarrow> None
      | Some bs \<Rightarrow> Some ([x * 4 + y div 16, (y mod 16) * 16 + z div 4, (z mod 4) * 64 + w] @ bs))"

definition b64_encode :: "bytes \<Rightarrow> string" where
  "b64_encode bs = map b64_char (b64_digits (map unat bs))"

text \<open>The decoder skips line ends.\<close>

definition b64_decode :: "string \<Rightarrow> bytes option" where
  "b64_decode s =
     (case those (map b64_value (filter (\<lambda>c. c \<noteq> CHR 0x0A \<and> c \<noteq> CHR 0x0D) s)) of
        None \<Rightarrow> None
      | Some ds \<Rightarrow> map_option (map of_nat) (b64_undigits ds))"

section \<open>Configuration\<close>

record oidc_config =
  oi_ProviderName :: string
  oi_IssuerURL :: string
  oi_AuthURL :: string
  oi_TokenURL :: string
  oi_UserInfoURL :: string
  oi_EndSessionURL :: string
  oi_ClientID :: string
  oi_ClientSecret :: string
  oi_RedirectURI :: string
  oi_Scopes :: "string list"
  oi_SessionSecret :: string
  oi_SessionTTL :: duration
  oi_CookieSecure :: bool

record claims =
  cm_Subject :: string
  cm_Email :: string
  cm_Name :: string
  cm_Roles :: "string list"
  cm_Issuer :: string
  cm_Audience :: "string list"
  cm_ExpiresAt :: time

datatype auth_error = AuthDisabled | InvalidSession | ProviderFailed

definition DefaultProviderName :: string where
  "DefaultProviderName = ''RESEARCHCAVE''"

definition DefaultClientID :: string where
  "DefaultClientID = ''kewlswap-exchange''"

definition DefaultRedirectURI :: string where
  "DefaultRedirectURI = ''http://localhost:8080/auth/oidc/callback''"

definition default_scopes :: "string list" where
  "default_scopes = [''openid'', ''profile'', ''email'', ''roles'']"

text \<open>The environment is a function from names to values, empty where nothing is set.\<close>

type_synonym getenv = "string \<Rightarrow> string"

definition envOrDefault :: "getenv \<Rightarrow> string \<Rightarrow> string \<Rightarrow> string" where
  "envOrDefault ge key fallback = (if trim_space (ge key) = [] then fallback else trim_space (ge key))"

fun split_on :: "char \<Rightarrow> string \<Rightarrow> string list" where
  "split_on c [] = [[]]"
| "split_on c (x # xs) =
     (if x = c then [] # split_on c xs
      else (case split_on c xs of [] \<Rightarrow> [[x]] | p # ps \<Rightarrow> (x # p) # ps))"

definition compactStrings :: "string list \<Rightarrow> string list" where
  "compactStrings values = add_new [] (filter (\<lambda>v. v \<noteq> []) (map trim_space values))"

definition scopesFromEnv :: "getenv \<Rightarrow> string \<Rightarrow> string list \<Rightarrow> string list" where
  "scopesFromEnv ge key fallback =
     (if trim_space (ge key) = [] then fallback else compactStrings (split_on (CHR '','') (trim_space (ge key))))"

definition durationFromEnv :: "(string \<Rightarrow> duration option) \<Rightarrow> getenv \<Rightarrow> string \<Rightarrow> duration \<Rightarrow> duration" where
  "durationFromEnv parse ge key fallback =
     (if trim_space (ge key) = [] then fallback
      else (case parse (trim_space (ge key)) of None \<Rightarrow> fallback | Some v \<Rightarrow> if v \<le> 0 then fallback else v))"

definition boolFromEnv :: "getenv \<Rightarrow> string \<Rightarrow> bool \<Rightarrow> bool" where
  "boolFromEnv ge key fallback =
     (let raw = to_lower (trim_space (ge key)) in
      if raw \<in> {''1'', ''true'', ''yes'', ''y'', ''on''} then True
      else if raw \<in> {''0'', ''false'', ''no'', ''n'', ''off''} then False
      else fallback)"

definition half_day :: duration where
  "half_day = 12 * (60 * minute)"

definition OIDC_ConfigFromEnv :: "(string \<Rightarrow> duration option) \<Rightarrow> getenv \<Rightarrow> oidc_config" where
  "OIDC_ConfigFromEnv parse ge =
     \<lparr>oi_ProviderName = envOrDefault ge ''OIDC_PROVIDER_NAME'' DefaultProviderName,
      oi_IssuerURL = trim_space (ge ''OIDC_ISSUER_URL''), oi_AuthURL = trim_space (ge ''OIDC_AUTH_URL''),
      oi_TokenURL = trim_space (ge ''OIDC_TOKEN_URL''), oi_UserInfoURL = trim_space (ge ''OIDC_USERINFO_URL''),
      oi_EndSessionURL = envOrDefault ge ''OIDC_LOGOUT_URL'' (trim_space (ge ''OIDC_END_SESSION_URL'')),
      oi_ClientID = envOrDefault ge ''OIDC_CLIENT_ID'' DefaultClientID,
      oi_ClientSecret = trim_space (ge ''OIDC_CLIENT_SECRET''),
      oi_RedirectURI = envOrDefault ge ''OIDC_REDIRECT_URI'' DefaultRedirectURI,
      oi_Scopes = scopesFromEnv ge ''OIDC_SCOPES'' default_scopes,
      oi_SessionSecret = envOrDefault ge ''OIDC_SESSION_SECRET'' (trim_space (ge ''OIDC_CLIENT_SECRET'')),
      oi_SessionTTL = durationFromEnv parse ge ''OIDC_SESSION_TTL'' half_day,
      oi_CookieSecure = boolFromEnv ge ''OIDC_COOKIE_SECURE'' False\<rparr>"

section \<open>The service\<close>

record oidc_endpoint =
  oe_AuthURL :: string
  oe_TokenURL :: string

record id_token =
  it_Subject :: string
  it_Email :: string
  it_Name :: string
  it_Roles :: string
  it_Issuer :: string
  it_Audience :: "string list"

text \<open>
  The provider: what its discovery gives (the endpoint and the address to end a session), the address of its login page, the
  identity token it gives for a code, and the check of that token.
\<close>

record oidc_provider =
  op_discover :: "string \<Rightarrow> (oidc_endpoint \<times> string) option"
  op_auth_code_url :: "oidc_endpoint \<Rightarrow> string \<Rightarrow> string"
  op_exchange :: "oidc_endpoint \<Rightarrow> string \<Rightarrow> (string option) option"
  op_verify :: "string \<Rightarrow> id_token option"

record auth_lib =
  al_hmac :: "string \<Rightarrow> string \<Rightarrow> bytes"
  al_json :: "claims \<Rightarrow> bytes"
  al_unjson :: "bytes \<Rightarrow> claims option"
  al_unjson_list :: "string \<Rightarrow> string list option"
  al_unjson_text :: "string \<Rightarrow> string option"
  al_with_query :: "string \<Rightarrow> (string \<times> string) list \<Rightarrow> string option"

record auth_service =
  as_cfg :: oidc_config
  as_endpoint :: oidc_endpoint
  as_enabled :: bool

definition normal_config :: "oidc_config \<Rightarrow> oidc_config" where
  "normal_config cfg =
     cfg\<lparr>oi_ProviderName := (let v = trim_space (oi_ProviderName cfg) in if v = [] then DefaultProviderName else v),
         oi_IssuerURL := trim_space (oi_IssuerURL cfg), oi_AuthURL := trim_space (oi_AuthURL cfg),
         oi_TokenURL := trim_space (oi_TokenURL cfg), oi_UserInfoURL := trim_space (oi_UserInfoURL cfg),
         oi_EndSessionURL := trim_space (oi_EndSessionURL cfg),
         oi_ClientID := (let v = trim_space (oi_ClientID cfg) in if v = [] then DefaultClientID else v),
         oi_ClientSecret := trim_space (oi_ClientSecret cfg),
         oi_RedirectURI := (let v = trim_space (oi_RedirectURI cfg) in if v = [] then DefaultRedirectURI else v),
         oi_Scopes := (if oi_Scopes cfg = [] then default_scopes else oi_Scopes cfg),
         oi_SessionSecret := trim_space (oi_SessionSecret cfg),
         oi_SessionTTL := (if oi_SessionTTL cfg \<le> 0 then half_day else oi_SessionTTL cfg)\<rparr>"

definition NewOIDCService :: "oidc_provider \<Rightarrow> oidc_config \<Rightarrow> auth_error + auth_service" where
  "NewOIDCService provider cfg0 =
     (let cfg = normal_config cfg0 in
      if oi_IssuerURL cfg = [] \<or> oi_ClientSecret cfg = [] \<or> oi_SessionSecret cfg = []
      then Inr \<lparr>as_cfg = cfg, as_endpoint = \<lparr>oe_AuthURL = [], oe_TokenURL = []\<rparr>, as_enabled = False\<rparr>
      else (case op_discover provider (oi_IssuerURL cfg) of
              None \<Rightarrow> Inl ProviderFailed
            | Some (endpoint, endSession) \<Rightarrow>
                Inr \<lparr>as_cfg = cfg\<lparr>oi_EndSessionURL := (if oi_EndSessionURL cfg = [] then trim_space endSession else oi_EndSessionURL cfg)\<rparr>,
                     as_endpoint = \<lparr>oe_AuthURL = (if oi_AuthURL cfg = [] then oe_AuthURL endpoint else oi_AuthURL cfg),
                                    oe_TokenURL = (if oi_TokenURL cfg = [] then oe_TokenURL endpoint else oi_TokenURL cfg)\<rparr>,
                     as_enabled = True\<rparr>))"

definition ProviderName :: "auth_service \<Rightarrow> string" where
  "ProviderName s = (if oi_ProviderName (as_cfg s) = [] then DefaultProviderName else oi_ProviderName (as_cfg s))"

definition SessionTTL :: "auth_service \<Rightarrow> duration" where
  "SessionTTL s = (if oi_SessionTTL (as_cfg s) \<le> 0 then half_day else oi_SessionTTL (as_cfg s))"

definition AuthCodeURL :: "oidc_provider \<Rightarrow> auth_service \<Rightarrow> string \<Rightarrow> auth_error + string" where
  "AuthCodeURL provider s state =
     (if \<not> as_enabled s then Inl AuthDisabled else Inr (op_auth_code_url provider (as_endpoint s) state))"

definition EndSessionURL :: "auth_lib \<Rightarrow> auth_service \<Rightarrow> string \<Rightarrow> string" where
  "EndSessionURL lib s redirect =
     (if \<not> as_enabled s \<or> oi_EndSessionURL (as_cfg s) = [] then []
      else (case al_with_query lib (oi_EndSessionURL (as_cfg s))
                   ((if oi_ClientID (as_cfg s) = [] then [] else [(''client_id'', oi_ClientID (as_cfg s))]) @
                    (if trim_space redirect = [] then [] else [(''post_logout_redirect_uri'', trim_space redirect)])) of
              None \<Rightarrow> [] | Some u \<Rightarrow> u))"

definition parseRoles :: "auth_lib \<Rightarrow> string \<Rightarrow> string list" where
  "parseRoles lib raw =
     (if raw = [] \<or> raw = ''null'' then []
      else (case al_unjson_list lib raw of
              Some roles \<Rightarrow> compactStrings roles
            | None \<Rightarrow> (case al_unjson_text lib raw of Some role \<Rightarrow> compactStrings (split_on (CHR '','') role) | None \<Rightarrow> [])))"

definition Exchange :: "env \<Rightarrow> auth_lib \<Rightarrow> oidc_provider \<Rightarrow> auth_service \<Rightarrow> string \<Rightarrow> auth_error + claims" where
  "Exchange env lib provider s code =
     (if \<not> as_enabled s then Inl AuthDisabled
      else if trim_space code = [] then Inl InvalidSession
      else (case op_exchange provider (as_endpoint s) (trim_space code) of
              None \<Rightarrow> Inl ProviderFailed
            | Some None \<Rightarrow> Inl InvalidSession
            | Some (Some raw) \<Rightarrow>
                if raw = [] then Inl InvalidSession
                else (case op_verify provider raw of
                        None \<Rightarrow> Inl ProviderFailed
                      | Some t \<Rightarrow>
                          if it_Subject t = [] then Inl InvalidSession
                          else Inr \<lparr>cm_Subject = it_Subject t, cm_Email = it_Email t, cm_Name = it_Name t,
                                    cm_Roles = parseRoles lib (it_Roles t), cm_Issuer = it_Issuer t, cm_Audience = it_Audience t,
                                    cm_ExpiresAt = e_now env + oi_SessionTTL (as_cfg s)\<rparr>)))"

text \<open>The zero time of Go, the first of January of the year 1, in nanoseconds from 1970.\<close>

definition zero_time :: time where
  "zero_time = - 62135596800 * 1000000000"

definition session_claims :: "env \<Rightarrow> auth_service \<Rightarrow> claims \<Rightarrow> claims" where
  "session_claims env s c =
     (if cm_ExpiresAt c = zero_time then c\<lparr>cm_ExpiresAt := e_now env + oi_SessionTTL (as_cfg s)\<rparr> else c)"

definition SignSession :: "env \<Rightarrow> auth_lib \<Rightarrow> auth_service \<Rightarrow> claims \<Rightarrow> auth_error + string" where
  "SignSession env lib s c =
     (if \<not> as_enabled s then Inl AuthDisabled
      else if cm_Subject c = [] then Inl InvalidSession
      else (let payload = b64_encode (al_json lib (session_claims env s c)) in
            Inr (payload @ ''.'' @ b64_encode (al_hmac lib (oi_SessionSecret (as_cfg s)) payload))))"

fun cut_at :: "char \<Rightarrow> string \<Rightarrow> (string \<times> string) option" where
  "cut_at c [] = None"
| "cut_at c (x # xs) = (if x = c then Some ([], xs) else map_option (\<lambda>(p, q). (x # p, q)) (cut_at c xs))"

definition ParseSession :: "env \<Rightarrow> auth_lib \<Rightarrow> auth_service \<Rightarrow> string \<Rightarrow> auth_error + claims" where
  "ParseSession env lib s value =
     (if \<not> as_enabled s then Inl AuthDisabled
      else (case cut_at (CHR ''.'') (trim_space value) of
              None \<Rightarrow> Inl InvalidSession
            | Some (payload, sig) \<Rightarrow>
                if payload = [] \<or> sig = [] then Inl InvalidSession
                else if b64_decode sig \<noteq> Some (al_hmac lib (oi_SessionSecret (as_cfg s)) payload) then Inl InvalidSession
                else (case b64_decode payload of
                        None \<Rightarrow> Inl InvalidSession
                      | Some raw \<Rightarrow>
                          (case al_unjson lib raw of
                             None \<Rightarrow> Inl InvalidSession
                           | Some c \<Rightarrow>
                               if cm_Subject c = [] \<or> cm_ExpiresAt c < e_now env then Inl InvalidSession else Inr c))))"

definition NewState :: "(nat \<Rightarrow> bytes option) \<Rightarrow> string option" where
  "NewState random = map_option b64_encode (random 32)"

section \<open>Base 64 is undone by the decoder\<close>

lemma b64_undigits_digits:
  "list_all (\<lambda>a. a < 256) bs \<Longrightarrow> b64_undigits (b64_digits bs) = Some bs"
proof (induction bs rule: b64_digits.induct)
  case (4 a b c rest)
  have "(a mod 4 * 16 + b div 16) div 16 = a mod 4" "(a mod 4 * 16 + b div 16) mod 16 = b div 16"
    "(b mod 16 * 4 + c div 64) div 4 = b mod 16" "(b mod 16 * 4 + c div 64) mod 4 = c div 64"
    using 4 by (auto simp: div_add1_eq div_less)
  then show ?case using 4 by simp
qed (auto simp: div_add1_eq mod_add_eq)

lemma b64_digits_bound: "list_all (\<lambda>a. a < 256) bs \<Longrightarrow> d \<in> set (b64_digits bs) \<Longrightarrow> d < 64"
  by (induction bs rule: b64_digits.induct) auto

lemma index_of_nth: "distinct xs \<Longrightarrow> i < length xs \<Longrightarrow> index_of (xs ! i) xs = Some i"
proof (induction xs arbitrary: i)
  case (Cons x xs)
  then show ?case by (cases i) auto
qed simp

lemma b64_alphabet_facts: "distinct b64_alphabet" "length b64_alphabet = 64"
  by (simp_all add: b64_alphabet_def)

lemma b64_value_char: "n < 64 \<Longrightarrow> b64_value (b64_char n) = Some n"
  using index_of_nth [OF b64_alphabet_facts(1)] by (simp add: b64_value_def b64_char_def b64_alphabet_facts(2))

lemma b64_char_plain: "n < 64 \<Longrightarrow> b64_char n \<notin> {CHR 0x0A, CHR 0x0D, CHR ''.'', CHR '' ''}"
proof -
  assume n: "n < 64"
  have "{CHR 0x0A, CHR 0x0D, CHR ''.'', CHR '' ''} \<inter> set b64_alphabet = {}" by (simp add: b64_alphabet_def)
  moreover have "b64_char n \<in> set b64_alphabet" using n by (simp add: b64_char_def b64_alphabet_facts(2))
  ultimately show ?thesis by blast
qed

lemma those_map_Some: "those (map Some xs) = Some xs"
  by (induction xs) auto

lemma b64_decode_encode: "b64_decode (b64_encode bs) = Some bs"
proof -
  let ?ns = "map (unat :: 8 word \<Rightarrow> nat) bs" and ?ds = "b64_digits (map (unat :: 8 word \<Rightarrow> nat) bs)"
  have "unat (b :: 8 word) < 256" for b using unsigned_less [of b, where 'a = nat] by simp
  then have ns: "list_all (\<lambda>a. a < 256) ?ns" by (simp add: list_all_iff)
  note small = b64_digits_bound [OF ns]
  have "filter (\<lambda>c. c \<noteq> CHR 0x0A \<and> c \<noteq> CHR 0x0D) (b64_encode bs) = b64_encode bs"
    using small b64_char_plain by (auto simp: b64_encode_def filter_id_conv)
  moreover have "map b64_value (b64_encode bs) = map Some ?ds"
    using small b64_value_char by (simp add: b64_encode_def)
  ultimately show ?thesis
    by (simp add: b64_decode_def those_map_Some b64_undigits_digits [OF ns] comp_def)
qed

section \<open>Sessions\<close>

lemma b64_encode_chars: "c \<in> set (b64_encode bs) \<Longrightarrow> c \<noteq> CHR ''.'' \<and> \<not> is_space c"
proof -
  assume "c \<in> set (b64_encode bs)"
  moreover have "unat (b :: 8 word) < 256" for b using unsigned_less [of b, where 'a = nat] by simp
  then have "list_all (\<lambda>a. a < 256) (map (unat :: 8 word \<Rightarrow> nat) bs)" by (simp add: list_all_iff)
  ultimately obtain n where n: "n < 64" "c = b64_char n" using b64_digits_bound by (auto simp: b64_encode_def)
  have "list_all (\<lambda>c. c \<noteq> CHR ''.'' \<and> \<not> is_space c) b64_alphabet" by code_simp
  then show ?thesis using n by (auto simp: b64_char_def b64_alphabet_facts(2) list_all_length)
qed

lemma b64_encode_ne: "bs \<noteq> [] \<Longrightarrow> b64_encode bs \<noteq> []"
  by (cases "map (unat :: 8 word \<Rightarrow> nat) bs" rule: b64_digits.cases) (auto simp: b64_encode_def)

lemma cut_at_first: "c \<notin> set p \<Longrightarrow> cut_at c (p @ c # q) = Some (p, q)"
  by (induction p) auto

lemma ParseSession_token:
  assumes "as_enabled s" "payload \<noteq> []" "tag \<noteq> []"
  shows "ParseSession env lib s (b64_encode payload @ ''.'' @ b64_encode tag) =
    (if tag \<noteq> al_hmac lib (oi_SessionSecret (as_cfg s)) (b64_encode payload) then Inl InvalidSession
     else (case al_unjson lib payload of
             None \<Rightarrow> Inl InvalidSession
           | Some c \<Rightarrow> if cm_Subject c = [] \<or> cm_ExpiresAt c < e_now env then Inl InvalidSession else Inr c))"
proof -
  let ?p = "b64_encode payload" and ?t = "b64_encode tag"
  have ne: "?p \<noteq> []" "?t \<noteq> []" using assms b64_encode_ne by auto
  have "\<not> is_space (CHR ''.'')" by code_simp
  then have "trim_space (?p @ ''.'' @ ?t) = ?p @ ''.'' @ ?t"
    using b64_encode_chars by (intro trim_space_id) auto
  moreover have "cut_at (CHR ''.'') (?p @ ''.'' @ ?t) = Some (?p, ?t)"
    using cut_at_first [of "CHR ''.''" ?p ?t] b64_encode_chars by auto
  ultimately show ?thesis using assms(1) ne by (auto simp: ParseSession_def b64_decode_encode)
qed

text \<open>C35: A signed session is read back as the claims it was signed for (with the default expiry where none was given)
  until it expires, and never afterwards; a service whose secret gives its payload another signature refuses it. The JSON
  decoder is taken to undo the encoder on these claims.\<close>

theorem session_roundtrip:
  assumes "as_enabled s" "as_enabled other" "cm_Subject c \<noteq> []"
    and "al_unjson lib (al_json lib (session_claims env s c)) = Some (session_claims env s c)"
    and "al_json lib (session_claims env s c) \<noteq> []"
    and "al_hmac lib (oi_SessionSecret (as_cfg s)) (b64_encode (al_json lib (session_claims env s c))) \<noteq> []"
  shows "case SignSession env lib s c of
      Inl e \<Rightarrow> False
    | Inr token \<Rightarrow>
        ParseSession later lib s token =
          (if cm_ExpiresAt (session_claims env s c) < e_now later then Inl InvalidSession else Inr (session_claims env s c)) \<and>
        (al_hmac lib (oi_SessionSecret (as_cfg other)) (b64_encode (al_json lib (session_claims env s c))) =
           al_hmac lib (oi_SessionSecret (as_cfg s)) (b64_encode (al_json lib (session_claims env s c))) \<or>
         ParseSession later lib other token = Inl InvalidSession)"
proof -
  have "cm_Subject (session_claims env s c) \<noteq> []" using assms(3) by (simp add: session_claims_def)
  then show ?thesis using assms by (simp add: SignSession_def Let_def ParseSession_token [simplified])
qed

text \<open>An example: a subject of one letter, and a decoder that knows its claims.\<close>

definition demo_claims :: claims where
  "demo_claims = \<lparr>cm_Subject = ''u'', cm_Email = [], cm_Name = [], cm_Roles = [], cm_Issuer = [], cm_Audience = [], cm_ExpiresAt = 100\<rparr>"

definition demo_auth_lib :: auth_lib where
  "demo_auth_lib = \<lparr>al_hmac = (\<lambda>secret p. [of_nat (length secret)]), al_json = (\<lambda>c. [1]), al_unjson = (\<lambda>bs. Some demo_claims),
     al_unjson_list = (\<lambda>r. None), al_unjson_text = (\<lambda>r. None), al_with_query = (\<lambda>u q. None)\<rparr>"

definition demo_auth :: "string \<Rightarrow> auth_service" where
  "demo_auth secret =
     \<lparr>as_cfg = (OIDC_ConfigFromEnv (\<lambda>r. None) (\<lambda>k. []))\<lparr>oi_SessionSecret := secret\<rparr>,
      as_endpoint = \<lparr>oe_AuthURL = [], oe_TokenURL = []\<rparr>, as_enabled = True\<rparr>"

definition at_time :: "time \<Rightarrow> env" where
  "at_time t = \<lparr>e_now = t, e_newid = (\<lambda>n. [])\<rparr>"

theorem session_roundtrip_witness:
  "case SignSession (at_time 0) demo_auth_lib (demo_auth ''k'') demo_claims of
      Inl e \<Rightarrow> False
    | Inr token \<Rightarrow>
        ParseSession (at_time 100) demo_auth_lib (demo_auth ''k'') token = Inr demo_claims \<and>
        ParseSession (at_time 100) demo_auth_lib (demo_auth ''other'') token = Inl InvalidSession"
  using session_roundtrip [of "demo_auth ''k''" "demo_auth ''other''" demo_claims demo_auth_lib "at_time 0" "at_time 100"]
  by (simp add: demo_auth_def demo_claims_def demo_auth_lib_def session_claims_def zero_time_def at_time_def split: sum.splits)

end
