(* ===== verification/RestAuth.thy ===== *)
theory RestAuth
  imports OidcAuth Gateway OrderService MarketStats SwapService Pricing
begin

text \<open>
  The HTTP interface of \<^verbatim>\<open>internal/interfaces/rest\<close>, first part: the context of a request, the answers, the
  errors of the services as answers, the session of the user (\<^verbatim>\<open>auth.go\<close>) and the parameters of a request. The
  framework is a parameter: a handler reads the request from \<open>fiber_ctx\<close> and leaves its answer there; \<open>fc_encode\<close> is the error
  of its JSON encoder. As in fiber, writing an answer returns this error and otherwise nothing, so a handler that has
  written one goes on unless it returns itself.
\<close>

section \<open>A request and its answer\<close>

datatype rest_error =
    OrderError ledger_error | PricingError pricing_error | SwapError swap_error | AuthError auth_error | TextError string

datatype external_value = ExText string | ExNumber int | ExFlag bool | ExRows "(string \<times> string) list"

type_synonym external_item = "(string \<times> external_value) list"

datatype rest_body =
    ErrorBody rest_error
  | FlagBody "(string \<times> bool) list"
  | TextBody "(string \<times> string) list"
  | UserBody claims
  | LogoutBody string
  | CallbackBody gateway_callback_result
  | IgnoredBody string
  | OutcomeBody match_outcome
  | OutcomesBody "match_outcome list"
  | OrderBody order
  | OrdersBody "order list"
  | TradesBody "trade list"
  | CandlesBody "candle list"
  | BookBody book_snapshot
  | MarketsBody "market_summary list"
  | BalanceBody balance
  | BalancesBody "balance list"
  | WithdrawalBody withdrawal
  | WithdrawalsBody "withdrawal list"
  | WalletBody wallet
  | WalletsBody "wallet list"
  | DepositAddressBody deposit_address "(string \<times> string) list"
  | ImageBody string
  | PricesBody asset_prices
  | AssetsBody "asset_info list"
  | QuoteBody quote_response
  | TransactionBody transaction_response
  | ApproveBody evm_transaction_response
  | ExternalBody "(string \<times> external_item) list"
  | ExternalBook string time "string list list" "string list list"

record fiber_cookie =
  ck_Name :: string
  ck_Value :: string
  ck_MaxAge :: int
  ck_Expires :: time
  ck_Secure :: bool

record fiber_ctx =
  fc_Body :: string
  fc_Get :: "string \<Rightarrow> string"
  fc_Query :: "string \<Rightarrow> string"
  fc_Params :: "string \<Rightarrow> string"
  fc_Cookies :: "string \<Rightarrow> string"
  fc_encode :: "rest_body \<Rightarrow> string option"
  fc_claims :: "claims option"
  fc_status :: int
  fc_answer :: "rest_body option"
  fc_redirect :: "string option"
  fc_set_cookies :: "fiber_cookie list"
  fc_headers :: "(string \<times> string) list"

record rest_state =
  rs_ctx :: fiber_ctx
  rs_db :: db
  rs_events :: "socket_event list"

text \<open>Handlers: the left value is the error a Go function returns.\<close>

type_synonym 'a handler = "rest_state \<Rightarrow> (string + 'a) \<times> rest_state"

definition h_return :: "'a \<Rightarrow> 'a handler" where
  "h_return x s = (Inr x, s)"

definition h_bind :: "'a handler \<Rightarrow> ('a \<Rightarrow> 'b handler) \<Rightarrow> 'b handler" where
  "h_bind m f s = (case m s of (Inl e, s') \<Rightarrow> (Inl e, s') | (Inr x, s') \<Rightarrow> f x s')"

definition h_ctx :: "fiber_ctx handler" where
  "h_ctx s = (Inr (rs_ctx s), s)"

definition h_update :: "(fiber_ctx \<Rightarrow> fiber_ctx) \<Rightarrow> unit handler" where
  "h_update f s = (Inr (), s\<lparr>rs_ctx := f (rs_ctx s)\<rparr>)"

definition answer :: "int \<Rightarrow> rest_body \<Rightarrow> unit handler" where
  "answer st v s =
     (let c = (rs_ctx s)\<lparr>fc_status := st\<rparr> in
      (case fc_encode c v of
         Some e \<Rightarrow> (Inl e, s\<lparr>rs_ctx := c\<rparr>)
       | None \<Rightarrow> (Inr (), s\<lparr>rs_ctx := c\<lparr>fc_answer := Some v\<rparr>\<rparr>)))"

definition okJSON :: "rest_body \<Rightarrow> unit handler" where
  "okJSON = answer 200"

definition fail_with :: "int \<Rightarrow> rest_error \<Rightarrow> unit handler" where
  "fail_with st e = answer st (ErrorBody e)"

text \<open>An answer where the function also has to return a value.\<close>

definition answer_and :: "'a \<Rightarrow> unit handler \<Rightarrow> 'a handler" where
  "answer_and x m = h_bind m (\<lambda>_. h_return x)"

section \<open>Errors of the services\<close>

definition order_status :: "ledger_error \<Rightarrow> int" where
  "order_status e =
     (case e of
        ErrUnknownMarket \<Rightarrow> 404 | ErrOrderNotFound \<Rightarrow> 404 | ErrOrderNotCancelable \<Rightarrow> 422 | ErrPriceBandExceeded \<Rightarrow> 422
      | ErrInvalidOrder \<Rightarrow> 400 | ErrInsufficientBalance \<Rightarrow> 422 | _ \<Rightarrow> 500)"

definition orderError :: "ledger_error \<Rightarrow> unit handler" where
  "orderError e = fail_with (order_status e) (OrderError e)"

definition pricing_status :: "pricing_error \<Rightarrow> int" where
  "pricing_status e = (case e of ErrSymbolRequired \<Rightarrow> 400 | ErrUnknownAsset \<Rightarrow> 404 | ErrNoAssetDeployment \<Rightarrow> 422 | _ \<Rightarrow> 500)"

definition pricingError :: "pricing_error \<Rightarrow> unit handler" where
  "pricingError e = fail_with (pricing_status e) (PricingError e)"

definition swapError :: "swap_error \<Rightarrow> unit handler" where
  "swapError e = fail_with (case e of ErrUnknownVenue \<Rightarrow> 404 | ErrUnsupportedSwap \<Rightarrow> 422 | _ \<Rightarrow> 400) (SwapError e)"

definition authError :: "auth_error \<Rightarrow> unit handler" where
  "authError e = fail_with (case e of AuthDisabled \<Rightarrow> 503 | InvalidSession \<Rightarrow> 401 | ProviderFailed \<Rightarrow> 502) (AuthError e)"

section \<open>The server\<close>

record parsed_url =
  ur_Scheme :: string
  ur_Host :: string
  ur_Hostname :: string

text \<open>What the handlers take from libraries: parsers of addresses, JSON decoders of the bodies and the HMAC of a callback.\<close>

record rest_lib =
  rl_parse_url :: "string \<Rightarrow> parsed_url option"
  rl_path_unescape :: "string \<Rightarrow> string option"
  rl_bind_order :: "string \<Rightarrow> place_request option"
  rl_bind_swap :: "string \<Rightarrow> service_request option"
  rl_bind_trigger :: "string \<Rightarrow> (string \<times> string) option"
  rl_bind_amount :: "string \<Rightarrow> balance_amount_request option"
  rl_bind_deposit :: "string \<Rightarrow> deposit_address_request option"
  rl_bind_withdrawal :: "string \<Rightarrow> withdrawal_request option"
  rl_bind_wallet :: "string \<Rightarrow> wallet_request option"
  rl_deposit_callback :: "string \<Rightarrow> gateway_deposit_callback option"
  rl_withdrawal_callback :: "string \<Rightarrow> gateway_withdrawal_callback option"
  rl_hmac :: "string \<Rightarrow> string \<Rightarrow> bytes"
  rl_random :: "nat \<Rightarrow> bytes option"

record server =
  hs_orders :: service
  hs_prices :: pricing_service
  hs_swaps :: swap_service
  hs_auth :: "auth_service option"
  hs_env :: env
  hs_getenv :: getenv
  hs_evm :: evm_lib
  hs_auth_lib :: auth_lib
  hs_provider :: oidc_provider
  hs_lib :: rest_lib

definition auth_enabled :: "server \<Rightarrow> bool" where
  "auth_enabled sv = (case hs_auth sv of None \<Rightarrow> False | Some a \<Rightarrow> as_enabled a)"

section \<open>Cookies and addresses to return to\<close>

definition oidcStateCookie :: string where
  "oidcStateCookie = ''exchange_oidc_state''"

definition oidcSessionCookie :: string where
  "oidcSessionCookie = ''exchange_session''"

definition oidcRedirectCookie :: string where
  "oidcRedirectCookie = ''exchange_oidc_redirect''"

definition cookie_secure :: "server \<Rightarrow> bool" where
  "cookie_secure sv = (case hs_auth sv of None \<Rightarrow> False | Some a \<Rightarrow> oi_CookieSecure (as_cfg a))"

definition setCookie :: "server \<Rightarrow> string \<Rightarrow> string \<Rightarrow> duration \<Rightarrow> unit handler" where
  "setCookie sv name v ttl =
     h_update (\<lambda>c. c\<lparr>fc_set_cookies := fc_set_cookies c @
       [\<lparr>ck_Name = name, ck_Value = v, ck_MaxAge = ttl div second, ck_Expires = e_now (hs_env sv) + ttl, ck_Secure = cookie_secure sv\<rparr>]\<rparr>)"

definition clearCookie :: "server \<Rightarrow> string \<Rightarrow> unit handler" where
  "clearCookie sv name =
     h_update (\<lambda>c. c\<lparr>fc_set_cookies := fc_set_cookies c @
       [\<lparr>ck_Name = name, ck_Value = [], ck_MaxAge = - 1, ck_Expires = 0, ck_Secure = cookie_secure sv\<rparr>]\<rparr>)"

definition redirect_to :: "string \<Rightarrow> unit handler" where
  "redirect_to url = h_update (\<lambda>c. c\<lparr>fc_redirect := Some url\<rparr>)"

text \<open>The first text that is not blank.\<close>

fun first_text :: "string list \<Rightarrow> string" where
  "first_text [] = []"
| "first_text (x # xs) = (if trim_space x \<noteq> [] then trim_space x else first_text xs)"

definition allowed_origin :: "server \<Rightarrow> parsed_url \<Rightarrow> bool" where
  "allowed_origin sv u =
     list_ex (\<lambda>allowed. case rl_parse_url (hs_lib sv) (trim_space allowed) of
         None \<Rightarrow> False
       | Some a \<Rightarrow> equal_fold (ur_Scheme a) (ur_Scheme u) \<and> equal_fold (ur_Host a) (ur_Host u))
       (split_on (CHR '','') (hs_getenv sv ''OIDC_ALLOWED_REDIRECT_ORIGINS''))"

definition sanitizeOIDCRedirect :: "server \<Rightarrow> string \<Rightarrow> string" where
  "sanitizeOIDCRedirect sv raw0 =
     (let raw = first_text [raw0, hs_getenv sv ''OIDC_POST_LOGIN_REDIRECT_URL'', hs_getenv sv ''APP_URL''] in
      if raw = [] then []
      else if has_prefix raw ''/'' \<and> \<not> has_prefix raw ''//'' then raw
      else (case rl_parse_url (hs_lib sv) raw of
              None \<Rightarrow> []
            | Some u \<Rightarrow>
                if ur_Scheme u = [] \<or> ur_Host u = [] then []
                else if ur_Scheme u \<noteq> ''http'' \<and> ur_Scheme u \<noteq> ''https'' then []
                else if to_lower (ur_Hostname u) \<in> {''localhost'', ''127.0.0.1'', ''::1''} then raw
                else if allowed_origin sv u then raw
                else []))"

definition sanitizeOIDCPostLogoutRedirect :: "server \<Rightarrow> string \<Rightarrow> string" where
  "sanitizeOIDCPostLogoutRedirect sv raw =
     sanitizeOIDCRedirect sv (first_text [raw, hs_getenv sv ''OIDC_POST_LOGOUT_REDIRECT_URL'', hs_getenv sv ''OIDC_POST_LOGIN_REDIRECT_URL''])"

section \<open>The user of a request\<close>

definition requireUser :: "server \<Rightarrow> claims option handler" where
  "requireUser sv =
     (case hs_auth sv of
        None \<Rightarrow> h_return None
      | Some a \<Rightarrow>
          if \<not> as_enabled a then h_return None
          else h_bind h_ctx (\<lambda>c.
            (case fc_claims c of
               Some cached \<Rightarrow> h_return (Some cached)
             | None \<Rightarrow>
                 (case ParseSession (hs_env sv) (hs_auth_lib sv) a (fc_Cookies c oidcSessionCookie) of
                    Inl e \<Rightarrow> answer_and None (fail_with 401 (TextError ''authentication required''))
                  | Inr cl \<Rightarrow> h_bind (h_update (\<lambda>c. c\<lparr>fc_claims := Some cl\<rparr>)) (\<lambda>_. h_return (Some cl))))))"

definition requirePathUser :: "server \<Rightarrow> string handler" where
  "requirePathUser sv =
     h_bind h_ctx (\<lambda>c. let userID = trim_space (fc_Params c ''user_id'') in
     h_bind (requireUser sv) (\<lambda>user.
       (case user of
          None \<Rightarrow> h_return userID
        | Some cl \<Rightarrow>
            if userID \<noteq> [] \<and> userID \<noteq> cm_Subject cl
            then answer_and [] (fail_with 403 (TextError ''user_id does not match authenticated subject''))
            else h_return (cm_Subject cl))))"

definition requireOrderOwner :: "server \<Rightarrow> string \<Rightarrow> unit handler" where
  "requireOrderOwner sv userID =
     h_bind (requireUser sv) (\<lambda>user.
       (case user of
          None \<Rightarrow> h_return ()
        | Some cl \<Rightarrow>
            if userID \<noteq> cm_Subject cl then fail_with 403 (TextError ''order does not belong to authenticated subject'')
            else h_return ()))"

definition authProviderName :: "server \<Rightarrow> string" where
  "authProviderName sv = (case hs_auth sv of None \<Rightarrow> DefaultProviderName | Some a \<Rightarrow> ProviderName a)"

section \<open>The handlers of the login\<close>

definition oidcStatus :: "server \<Rightarrow> unit handler" where
  "oidcStatus sv = okJSON (TextBody [(''enabled'', if auth_enabled sv then ''true'' else ''false''), (''provider'', authProviderName sv)])"

definition auth_off :: "unit handler" where
  "auth_off = fail_with 503 (AuthError AuthDisabled)"

definition ten_minutes :: duration where
  "ten_minutes = 10 * minute"

definition oidcLogin :: "server \<Rightarrow> unit handler" where
  "oidcLogin sv =
     (case hs_auth sv of
        None \<Rightarrow> auth_off
      | Some a \<Rightarrow>
          if \<not> as_enabled a then auth_off
          else (case NewState (rl_random (hs_lib sv)) of
                  None \<Rightarrow> fail_with 500 (TextError ''random'')
                | Some state \<Rightarrow>
                    (case AuthCodeURL (hs_provider sv) a state of
                       Inl e \<Rightarrow> authError e
                     | Inr url \<Rightarrow>
                         h_bind (setCookie sv oidcStateCookie state ten_minutes) (\<lambda>_.
                         h_bind h_ctx (\<lambda>c. let back = sanitizeOIDCRedirect sv (fc_Query c ''redirect'') in
                         h_bind (if back \<noteq> [] then setCookie sv oidcRedirectCookie back ten_minutes else h_return ()) (\<lambda>_.
                         redirect_to url))))))"

definition oidcCallback :: "server \<Rightarrow> unit handler" where
  "oidcCallback sv =
     (case hs_auth sv of
        None \<Rightarrow> auth_off
      | Some a \<Rightarrow>
          if \<not> as_enabled a then auth_off
          else h_bind h_ctx (\<lambda>c.
            let expected = fc_Cookies c oidcStateCookie; actual = trim_space (fc_Query c ''state'') in
            if expected = [] \<or> actual = [] \<or> expected \<noteq> actual
            then h_bind (clearCookie sv oidcStateCookie) (\<lambda>_. fail_with 401 (TextError ''invalid oidc state''))
            else (case Exchange (hs_env sv) (hs_auth_lib sv) (hs_provider sv) a (fc_Query c ''code'') of
                    Inl e \<Rightarrow> h_bind (clearCookie sv oidcStateCookie) (\<lambda>_. authError e)
                  | Inr cl \<Rightarrow>
                      (case SignSession (hs_env sv) (hs_auth_lib sv) a cl of
                         Inl e \<Rightarrow> h_bind (clearCookie sv oidcStateCookie) (\<lambda>_. authError e)
                       | Inr session \<Rightarrow>
                           h_bind (clearCookie sv oidcStateCookie) (\<lambda>_.
                           h_bind (setCookie sv oidcSessionCookie session (SessionTTL a)) (\<lambda>_.
                           let back = sanitizeOIDCRedirect sv (fc_Cookies c oidcRedirectCookie) in
                           h_bind (clearCookie sv oidcRedirectCookie) (\<lambda>_.
                           if back \<noteq> [] then redirect_to back else okJSON (UserBody cl))))))))"

definition authMe :: "server \<Rightarrow> unit handler" where
  "authMe sv =
     h_bind (requireUser sv) (\<lambda>user.
       (case user of None \<Rightarrow> okJSON (FlagBody [(''authenticated'', False), (''enabled'', False)]) | Some cl \<Rightarrow> okJSON (UserBody cl)))"

definition authLogout :: "server \<Rightarrow> unit handler" where
  "authLogout sv =
     h_bind h_ctx (\<lambda>c. let back = sanitizeOIDCPostLogoutRedirect sv (fc_Query c ''redirect'') in
     h_bind (clearCookie sv oidcSessionCookie) (\<lambda>_.
     h_bind (clearCookie sv oidcStateCookie) (\<lambda>_.
     h_bind (clearCookie sv oidcRedirectCookie) (\<lambda>_.
       okJSON (LogoutBody
         (case hs_auth sv of
            None \<Rightarrow> []
          | Some a \<Rightarrow> if as_enabled a then EndSessionURL (hs_auth_lib sv) a back else []))))))"

section \<open>Parameters of a request\<close>

text \<open>\<^verbatim>\<open>strconv.Atoi\<close>: an optional sign and digits in the range of an int64.\<close>

definition Atoi :: "string \<Rightarrow> int option" where
  "Atoi s = (case int_of_decimal s of None \<Rightarrow> None | Some n \<Rightarrow> if - (2 ^ 63) \<le> n \<and> n < 2 ^ 63 then Some n else None)"

definition queryInt :: "string \<Rightarrow> int \<Rightarrow> int handler" where
  "queryInt key fallback =
     h_bind h_ctx (\<lambda>c.
       let raw = fc_Query c key; bad = answer_and 0 (fail_with 400 (TextError (key @ '' must be a positive integer''))) in
       if raw = [] then h_return fallback
       else (case Atoi raw of None \<Rightarrow> bad | Some n \<Rightarrow> if n \<le> 0 then bad else h_return n))"

definition decodeMarketSymbol :: "rest_lib \<Rightarrow> string \<Rightarrow> string" where
  "decodeMarketSymbol lib raw0 =
     (let raw = trim_space raw0 in
      if raw = [] then [] else (case rl_path_unescape lib raw of None \<Rightarrow> raw | Some decoded \<Rightarrow> decoded))"

definition marketParam :: "server \<Rightarrow> fiber_ctx \<Rightarrow> string" where
  "marketParam sv c =
     (if trim_space (fc_Query c ''market'') \<noteq> [] then trim_space (fc_Query c ''market'')
      else decodeMarketSymbol (hs_lib sv) (fc_Params c ''market''))"

definition requireGatewaySecret :: "server \<Rightarrow> unit handler" where
  "requireGatewaySecret sv =
     (if hs_getenv sv ''PAYMENT_GATEWAY_SECRET'' = [] then h_return ()
      else h_bind h_ctx (\<lambda>c.
        if fc_Get c ''X-Gateway-Secret'' \<noteq> hs_getenv sv ''PAYMENT_GATEWAY_SECRET''
        then fail_with 401 (TextError ''invalid gateway secret'')
        else h_return ()))"

end
