(* ===== verification/RestServer.thy ===== *)
theory RestServer
  imports RestAuth
begin

text \<open>
  The handlers of \<^verbatim>\<open>internal/interfaces/rest/server.go\<close> and the public market data of \<^verbatim>\<open>market_integrations.go\<close>. A handler
  works on the tables of the exchange and on the messages for the sockets; what \<^verbatim>\<open>c.Bind().Body\<close> reads from the body is a
  parameter. The routes only name the handlers.
\<close>

section \<open>Calling the services\<close>

definition bind_body :: "(string \<Rightarrow> 'a option) \<Rightarrow> ('a \<Rightarrow> unit handler) \<Rightarrow> unit handler" where
  "bind_body decode f =
     h_bind h_ctx (\<lambda>c. case decode (fc_Body c) of None \<Rightarrow> fail_with 400 (TextError ''invalid body'') | Some req \<Rightarrow> f req)"

text \<open>A call that changes the tables and one that only reads them; an error becomes the answer of \<^const>\<open>orderError\<close>.\<close>

definition order_call :: "(db \<Rightarrow> (ledger_error + 'a) \<times> db \<times> socket_event list) \<Rightarrow> ('a \<Rightarrow> unit handler) \<Rightarrow> unit handler" where
  "order_call f k s =
     (case f (rs_db s) of
        (Inl e, d, ms) \<Rightarrow> orderError e (s\<lparr>rs_db := d, rs_events := rs_events s @ ms\<rparr>)
      | (Inr x, d, ms) \<Rightarrow> k x (s\<lparr>rs_db := d, rs_events := rs_events s @ ms\<rparr>))"

definition order_query :: "(db \<Rightarrow> ledger_error + 'a) \<Rightarrow> ('a \<Rightarrow> unit handler) \<Rightarrow> unit handler" where
  "order_query f = order_call (\<lambda>d. (f d, d, []))"

section \<open>Prices and swaps\<close>

definition health :: "unit handler" where
  "health = okJSON (TextBody [(''status'', ''ok'')])"

definition assetPrices :: "server \<Rightarrow> unit handler" where
  "assetPrices sv =
     h_bind h_ctx (\<lambda>c. case Prices (hs_prices sv) (fc_Params c ''symbol'') of
       Inl e \<Rightarrow> pricingError e | Inr result \<Rightarrow> okJSON (PricesBody result))"

definition listAssets :: "server \<Rightarrow> unit handler" where
  "listAssets sv = okJSON (AssetsBody (Assets (hs_prices sv)))"

definition swap_handler :: "server \<Rightarrow> (service_request \<Rightarrow> swap_error + 'a) \<Rightarrow> ('a \<Rightarrow> rest_body) \<Rightarrow> unit handler" where
  "swap_handler sv run show_result =
     bind_body (rl_bind_swap (hs_lib sv)) (\<lambda>req. case run req of Inl e \<Rightarrow> swapError e | Inr result \<Rightarrow> okJSON (show_result result))"

definition swapQuote :: "server \<Rightarrow> unit handler" where
  "swapQuote sv = swap_handler sv (Service_Quote (hs_env sv) (hs_swaps sv)) QuoteBody"

definition swapTransaction :: "server \<Rightarrow> unit handler" where
  "swapTransaction sv = swap_handler sv (Service_Transaction (hs_evm sv) (hs_env sv) (hs_swaps sv)) TransactionBody"

definition swapApprove :: "server \<Rightarrow> unit handler" where
  "swapApprove sv = swap_handler sv (Service_Approve (hs_evm sv) (hs_swaps sv)) ApproveBody"

section \<open>Orders\<close>

definition placeOrder :: "server \<Rightarrow> unit handler" where
  "placeOrder sv =
     h_bind (requireUser sv) (\<lambda>user.
     bind_body (rl_bind_order (hs_lib sv)) (\<lambda>req0.
       let req = (case user of None \<Rightarrow> req0 | Some cl \<Rightarrow> req0\<lparr>pr_UserID := cm_Subject cl\<rparr>) in
       order_call (Place (hs_orders sv) (hs_env sv) req) (\<lambda>result. answer 201 (OutcomeBody result))))"

definition getOrder_handler :: "server \<Rightarrow> unit handler" where
  "getOrder_handler sv =
     h_bind h_ctx (\<lambda>c.
     order_query (\<lambda>d. Get_order d (fc_Params c ''id'')) (\<lambda>result.
     h_bind (requireOrderOwner sv (o_UserID result)) (\<lambda>_. okJSON (OrderBody result))))"

definition cancelOrder :: "server \<Rightarrow> unit handler" where
  "cancelOrder sv =
     h_bind (requireUser sv) (\<lambda>user.
     h_bind h_ctx (\<lambda>c.
       let userID = (case user of None \<Rightarrow> fc_Query c ''user_id'' | Some cl \<Rightarrow> cm_Subject cl) in
       order_call (Cancel_order (hs_orders sv) (hs_env sv) (fc_Params c ''id'') userID) (\<lambda>result. okJSON (OrderBody result))))"

definition triggerStops :: "server \<Rightarrow> unit handler" where
  "triggerStops sv =
     bind_body (rl_bind_trigger (hs_lib sv)) (\<lambda>(market, lastPrice).
       order_call (TriggerStops (hs_orders sv) (hs_env sv) market lastPrice) (\<lambda>result. okJSON (OutcomesBody result)))"

definition listMarkets :: "server \<Rightarrow> unit handler" where
  "listMarkets sv = order_query (\<lambda>d. Inr (MarketSummaries (hs_orders sv) d)) (\<lambda>result. okJSON (MarketsBody result))"

definition orderBook :: "server \<Rightarrow> unit handler" where
  "orderBook sv =
     h_bind h_ctx (\<lambda>c.
       let raw = fc_Query c ''depth'';
           show_book = (\<lambda>depth. order_query (\<lambda>d. Book (hs_orders sv) d (marketParam sv c) depth) (\<lambda>result. okJSON (BookBody result)))
       in if raw = [] then show_book 100
          else (case Atoi raw of None \<Rightarrow> fail_with 400 (TextError ''depth must be an integer'') | Some depth \<Rightarrow> show_book depth))"

definition marketTrades :: "server \<Rightarrow> unit handler" where
  "marketTrades sv =
     h_bind (queryInt ''limit'' 100) (\<lambda>limit.
     h_bind h_ctx (\<lambda>c.
       order_query (\<lambda>d. MarketTrades (hs_orders sv) d (marketParam sv c) limit) (\<lambda>result. okJSON (TradesBody result))))"

definition marketCandles :: "server \<Rightarrow> unit handler" where
  "marketCandles sv =
     h_bind (queryInt ''limit'' 500) (\<lambda>limit.
     h_bind h_ctx (\<lambda>c.
       let interval = (if fc_Query c ''interval'' = [] then ''1m'' else fc_Query c ''interval'') in
       order_query (\<lambda>d. Candles_query (hs_orders sv) d (marketParam sv c) interval limit) (\<lambda>result. okJSON (CandlesBody result))))"

definition orderHistory :: "server \<Rightarrow> unit handler" where
  "orderHistory sv =
     h_bind (requirePathUser sv) (\<lambda>userID.
     h_bind (queryInt ''limit'' 100) (\<lambda>limit.
     h_bind h_ctx (\<lambda>c.
       order_query (\<lambda>d. OrderHistory (hs_orders sv) d userID (fc_Query c ''market'') (fc_Query c ''status'') limit)
         (\<lambda>result. okJSON (OrdersBody result)))))"

definition userTrades :: "server \<Rightarrow> unit handler" where
  "userTrades sv =
     h_bind (requirePathUser sv) (\<lambda>userID.
     h_bind (queryInt ''limit'' 100) (\<lambda>limit.
     h_bind h_ctx (\<lambda>c.
       order_query (\<lambda>d. UserTrades (hs_orders sv) d userID (fc_Query c ''market'') limit) (\<lambda>result. okJSON (TradesBody result)))))"

section \<open>Balances, deposits, withdrawals and wallets\<close>

definition listBalances :: "server \<Rightarrow> unit handler" where
  "listBalances sv =
     h_bind (requirePathUser sv) (\<lambda>userID. order_query (\<lambda>d. Service_ListBalances d userID) (\<lambda>result. okJSON (BalancesBody result)))"

definition balanceMutation ::
    "server \<Rightarrow> (string \<Rightarrow> balance_amount_request \<Rightarrow> db \<Rightarrow> (ledger_error + balance) \<times> db \<times> socket_event list) \<Rightarrow> unit handler" where
  "balanceMutation sv f =
     bind_body (rl_bind_amount (hs_lib sv)) (\<lambda>req.
     h_bind h_ctx (\<lambda>c. order_call (f (fc_Params c ''user_id'') req) (\<lambda>result. okJSON (BalanceBody result))))"

definition markDepositPending :: "server \<Rightarrow> unit handler" where
  "markDepositPending sv =
     h_bind (requireGatewaySecret sv) (\<lambda>_. balanceMutation sv (Service_MarkDepositPending (hs_orders sv) (hs_env sv)))"

definition settleDeposit_handler :: "server \<Rightarrow> unit handler" where
  "settleDeposit_handler sv =
     h_bind (requireGatewaySecret sv) (\<lambda>_. balanceMutation sv (Service_SettleDeposit (hs_orders sv) (hs_env sv)))"

text \<open>The two handlers that call the gateway answer its errors with 502.\<close>

definition gateway_failed :: "ledger_error \<Rightarrow> unit handler" where
  "gateway_failed e = (if e = ErrInvalidOrder then orderError e else fail_with 502 (OrderError e))"

definition createDepositAddress :: "server \<Rightarrow> unit handler" where
  "createDepositAddress sv =
     h_bind (requirePathUser sv) (\<lambda>userID.
     bind_body (rl_bind_deposit (hs_lib sv)) (\<lambda>req s.
       (case DepositAddress (hs_orders sv) (hs_env sv) userID req (rs_db s) of
          (Inl e, d, ms) \<Rightarrow> gateway_failed e (s\<lparr>rs_db := d, rs_events := rs_events s @ ms\<rparr>)
        | (Inr result, d, ms) \<Rightarrow>
            okJSON (DepositAddressBody result [(''address'', da_Address result), (''size'', ''300'')])
              (s\<lparr>rs_db := d, rs_events := rs_events s @ ms\<rparr>))))"

definition gatewayQRCode_handler :: "server \<Rightarrow> unit handler" where
  "gatewayQRCode_handler sv =
     h_bind (queryInt ''size'' 300) (\<lambda>sz.
     h_bind h_ctx (\<lambda>c.
       (case GatewayQRCode (hs_orders sv) (fc_Query c ''address'') sz of
          Inl e \<Rightarrow> gateway_failed e
        | Inr raw \<Rightarrow> h_update (\<lambda>c. c\<lparr>fc_headers := fc_headers c @ [(''Content-Type'', ''image/png''), (''Cache-Control'', ''no-store'')],
                                  fc_answer := Some (ImageBody raw)\<rparr>))))"

definition listWithdrawals :: "server \<Rightarrow> unit handler" where
  "listWithdrawals sv =
     h_bind (requirePathUser sv) (\<lambda>userID.
     h_bind (queryInt ''limit'' 100) (\<lambda>limit.
       order_query (\<lambda>d. Service_ListWithdrawals d userID limit) (\<lambda>result. okJSON (WithdrawalsBody result))))"

definition requestWithdrawal :: "server \<Rightarrow> unit handler" where
  "requestWithdrawal sv =
     h_bind (requirePathUser sv) (\<lambda>userID.
     bind_body (rl_bind_withdrawal (hs_lib sv)) (\<lambda>req.
       order_call (Service_RequestWithdrawal (hs_orders sv) (hs_env sv) userID req) (\<lambda>result. answer 201 (WithdrawalBody result))))"

definition withdrawal_end ::
    "server \<Rightarrow> (service \<Rightarrow> env \<Rightarrow> string \<Rightarrow> db \<Rightarrow> (ledger_error + withdrawal) \<times> db \<times> socket_event list) \<Rightarrow> unit handler" where
  "withdrawal_end sv f =
     h_bind (requireGatewaySecret sv) (\<lambda>_.
     h_bind h_ctx (\<lambda>c. order_call (f (hs_orders sv) (hs_env sv) (fc_Params c ''id'')) (\<lambda>result. okJSON (WithdrawalBody result))))"

definition completeWithdrawal :: "server \<Rightarrow> unit handler" where
  "completeWithdrawal sv = withdrawal_end sv Service_CompleteWithdrawal"

definition cancelWithdrawal :: "server \<Rightarrow> unit handler" where
  "cancelWithdrawal sv = withdrawal_end sv Service_CancelWithdrawal"

definition listWallets :: "server \<Rightarrow> unit handler" where
  "listWallets sv =
     h_bind (requirePathUser sv) (\<lambda>userID. order_query (\<lambda>d. Service_ListWallets d userID) (\<lambda>result. okJSON (WalletsBody result)))"

definition syncGatewayWallets :: "server \<Rightarrow> unit handler" where
  "syncGatewayWallets sv =
     h_bind (requirePathUser sv) (\<lambda>userID. order_query (\<lambda>d. Service_ListWallets d userID) (\<lambda>result. okJSON (WalletsBody result)))"

definition registerGatewayWallet :: "server \<Rightarrow> unit handler" where
  "registerGatewayWallet sv =
     h_bind (requireGatewaySecret sv) (\<lambda>_.
     bind_body (rl_bind_wallet (hs_lib sv)) (\<lambda>req.
     h_bind h_ctx (\<lambda>c.
       order_call (RegisterGatewayWallet (hs_orders sv) (hs_env sv) (fc_Params c ''user_id'') req) (\<lambda>result. okJSON (WalletBody result)))))"

section \<open>Public market data\<close>

definition externalPairID :: "string \<Rightarrow> string" where
  "externalPairID market = map (\<lambda>c. if c = CHR ''/'' then CHR ''_'' else c) (to_upper (trim_space market))"

definition compactMarketID :: "string \<Rightarrow> string" where
  "compactMarketID v = filter (\<lambda>c. c \<notin> {CHR ''/'', CHR ''_'', CHR ''-''}) (to_upper (trim_space v))"

definition externalMarketMatches :: "string \<Rightarrow> string \<Rightarrow> bool" where
  "externalMarketMatches raw market \<longleftrightarrow>
     compactMarketID raw = compactMarketID market \<or> compactMarketID raw = compactMarketID (externalPairID market)"

definition priceLevelsToArrays :: "price_level list \<Rightarrow> string list list" where
  "priceLevelsToArrays levels = map (\<lambda>l. [pl_Price l, pl_Quantity l]) levels"

definition firstLevelPrice :: "price_level list \<Rightarrow> string" where
  "firstLevelPrice levels = (case levels of [] \<Rightarrow> ''0'' | l # rest \<Rightarrow> pl_Price l)"

definition quoteVolume :: "string \<Rightarrow> string \<Rightarrow> string" where
  "quoteVolume baseVolume lastPrice = Mul baseVolume lastPrice"

record public_ticker =
  pt_market :: market_summary
  pt_book :: book_snapshot
  pt_highestBid :: string
  pt_lowestAsk :: string

fun ticker_loop :: "service \<Rightarrow> db \<Rightarrow> string \<Rightarrow> market_summary list \<Rightarrow> ledger_error + public_ticker list" where
  "ticker_loop sv d wanted [] = Inr []"
| "ticker_loop sv d wanted (item # rest) =
     (if wanted \<noteq> [] \<and> \<not> externalMarketMatches wanted (ms_Symbol item) then ticker_loop sv d wanted rest
      else (case Book sv d (ms_Symbol item) 1 of
              Inl e \<Rightarrow> Inl e
            | Inr book \<Rightarrow>
                (case ticker_loop sv d wanted rest of
                   Inl e \<Rightarrow> Inl e
                 | Inr ts \<Rightarrow> Inr (\<lparr>pt_market = item, pt_book = book, pt_highestBid = firstLevelPrice (bs_Bids book),
                                   pt_lowestAsk = firstLevelPrice (bs_Asks book)\<rparr> # ts))))"

text \<open>Like every function that answers and returns, it returns no tickers and no error once the error is answered.\<close>

definition publicTickers :: "server \<Rightarrow> public_ticker list handler" where
  "publicTickers sv s =
     (let c = rs_ctx s; wanted = first_text [fc_Query c ''symbol'', fc_Query c ''market_pair'', fc_Query c ''ticker_id''] in
      (case ticker_loop (hs_orders sv) (rs_db s) wanted (MarketSummaries (hs_orders sv) (rs_db s)) of
         Inl e \<Rightarrow> answer_and [] (orderError e) s
       | Inr ts \<Rightarrow> (Inr ts, s)))"

definition summary_item :: "public_ticker \<Rightarrow> external_item" where
  "summary_item t =
     (let m = pt_market t in
      [(''trading_pairs'', ExText (externalPairID (ms_Symbol m))), (''base_currency'', ExText (ms_BaseAsset m)),
       (''quote_currency'', ExText (ms_QuoteAsset m)), (''last_price'', ExText (ms_LastPrice m)), (''lowest_ask'', ExText (pt_lowestAsk t)),
       (''highest_bid'', ExText (pt_highestBid t)), (''base_volume'', ExText (ms_Volume24h m)),
       (''quote_volume'', ExText (quoteVolume (ms_Volume24h m) (ms_LastPrice m))), (''price_change_percent_24h'', ExText (ms_Change24h m)),
       (''highest_price_24h'', ExText (ms_High24h m)), (''lowest_price_24h'', ExText (ms_Low24h m)), (''type'', ExText ''spot'')])"

text \<open>A Go map that is written in the order of a list: a later entry of a key replaces the earlier one in its place.\<close>

fun put_entry :: "string \<Rightarrow> 'a \<Rightarrow> (string \<times> 'a) list \<Rightarrow> (string \<times> 'a) list" where
  "put_entry k v [] = [(k, v)]"
| "put_entry k v ((k', v') # rest) = (if k = k' then (k, v) # rest else (k', v') # put_entry k v rest)"

definition coinMarketCapSummary :: "server \<Rightarrow> unit handler" where
  "coinMarketCapSummary sv =
     h_bind (publicTickers sv) (\<lambda>items.
       okJSON (ExternalBody (fold (\<lambda>t. put_entry (externalPairID (ms_Symbol (pt_market t))) (summary_item t)) items [])))"

definition asset_item :: "asset_info \<Rightarrow> external_item" where
  "asset_item a =
     [(''name'', ExText (first_text [ai_Name a, ai_Symbol a])), (''unified_cryptoasset_id'', ExNumber 0), (''can_withdraw'', ExFlag True),
      (''can_deposit'', ExFlag True), (''min_withdraw'', ExText ''0''), (''max_withdraw'', ExText ''0'')]"

definition coinMarketCapAssets :: "server \<Rightarrow> unit handler" where
  "coinMarketCapAssets sv = okJSON (ExternalBody (fold (\<lambda>a. put_entry (ai_Symbol a) (asset_item a)) (Assets (hs_prices sv)) []))"

definition pair_item :: "market_summary \<Rightarrow> external_item" where
  "pair_item m =
     [(''ticker_id'', ExText (externalPairID (ms_Symbol m))), (''base'', ExText (ms_BaseAsset m)), (''target'', ExText (ms_QuoteAsset m)),
      (''base_currency'', ExText (ms_BaseAsset m)), (''target_currency'', ExText (ms_QuoteAsset m))]"

definition coinGeckoPairs :: "server \<Rightarrow> unit handler" where
  "coinGeckoPairs sv =
     order_query (\<lambda>d. Inr (MarketSummaries (hs_orders sv) d)) (\<lambda>markets. okJSON (ExternalBody (map (\<lambda>m. ([], pair_item m)) markets)))"

definition ticker_item :: "public_ticker \<Rightarrow> external_item" where
  "ticker_item t =
     (let m = pt_market t in
      [(''ticker_id'', ExText (externalPairID (ms_Symbol m))), (''base_currency'', ExText (ms_BaseAsset m)),
       (''target_currency'', ExText (ms_QuoteAsset m)), (''last_price'', ExText (ms_LastPrice m)), (''base_volume'', ExText (ms_Volume24h m)),
       (''target_volume'', ExText (quoteVolume (ms_Volume24h m) (ms_LastPrice m))), (''bid'', ExText (pt_highestBid t)),
       (''ask'', ExText (pt_lowestAsk t)), (''high'', ExText (ms_High24h m)), (''low'', ExText (ms_Low24h m)), (''type'', ExText ''spot'')])"

definition coinGeckoTickers :: "server \<Rightarrow> unit handler" where
  "coinGeckoTickers sv = h_bind (publicTickers sv) (\<lambda>items. okJSON (ExternalBody (map (\<lambda>t. ([], ticker_item t)) items)))"

definition resolveMarketSymbol :: "server \<Rightarrow> string \<Rightarrow> string handler" where
  "resolveMarketSymbol sv raw0 s =
     (let raw = trim_space raw0 in
      if raw = [] then answer_and [] (fail_with 400 (TextError ''symbol or market_pair is required'')) s
      else (case find (\<lambda>m. externalMarketMatches raw (ms_Symbol m)) (MarketSummaries (hs_orders sv) (rs_db s)) of
              Some m \<Rightarrow> (Inr (ms_Symbol m), s)
            | None \<Rightarrow> answer_and [] (fail_with 404 (TextError (''market '' @ raw @ '' is not registered''))) s))"

definition requested_market :: "server \<Rightarrow> fiber_ctx \<Rightarrow> string" where
  "requested_market sv c = first_text [fc_Query c ''market_pair'', fc_Query c ''ticker_id'', fc_Query c ''symbol'', marketParam sv c]"

definition millisecond :: duration where
  "millisecond = 1000000"

definition publicOrderBook :: "server \<Rightarrow> unit handler" where
  "publicOrderBook sv =
     h_bind h_ctx (\<lambda>c.
     h_bind (resolveMarketSymbol sv (requested_market sv c)) (\<lambda>market.
     h_bind (queryInt ''depth'' 100) (\<lambda>depth.
       order_query (\<lambda>d. Book (hs_orders sv) d market depth) (\<lambda>book.
         okJSON (ExternalBook (externalPairID (bs_Market book)) (e_now (hs_env sv) div millisecond)
           (priceLevelsToArrays (bs_Bids book)) (priceLevelsToArrays (bs_Asks book)))))))"

definition trade_item :: "trade \<Rightarrow> external_item" where
  "trade_item t =
     [(''trade_id'', ExText (t_ID t)), (''price'', ExText (t_Price t)), (''base_volume'', ExText (t_Quantity t)),
      (''quote_volume'', ExText (t_QuoteQuantity t)), (''timestamp'', ExNumber (t_CreatedAt t div millisecond)),
      (''type'', ExText (if t_TakerSide t = SideSell then ''sell'' else ''buy''))]"

definition publicTrades :: "server \<Rightarrow> unit handler" where
  "publicTrades sv =
     h_bind h_ctx (\<lambda>c.
     h_bind (resolveMarketSymbol sv (requested_market sv c)) (\<lambda>market.
     h_bind (queryInt ''limit'' 100) (\<lambda>limit.
       order_query (\<lambda>d. MarketTrades (hs_orders sv) d market limit) (\<lambda>items. okJSON (ExternalBody (map (\<lambda>t. ([], trade_item t)) items))))))"

end
