(* ===== verification/RestCallbacks.thy ===== *)
theory RestCallbacks
  imports RestServer
begin

text \<open>
  The callbacks of the payment gateway (\<^verbatim>\<open>internal/interfaces/rest/gateway_callbacks.go\<close>): the check of the signature,
  the reading of a payload of unknown form, and the three handlers. \<open>decode\<close> is the JSON decoder of the payload; a number
  comes with its decimal text and its integral part, and the keys of an object in the order in which the Go map is walked.
\<close>

section \<open>The signature\<close>

definition gatewayCallbackSecret :: "server \<Rightarrow> string" where
  "gatewayCallbackSecret sv = trim_space (hs_getenv sv ''PAYMENT_GATEWAY_WEBHOOK_SECRET'')"

definition gatewayTimestampValid :: "time \<Rightarrow> string \<Rightarrow> duration \<Rightarrow> bool" where
  "gatewayTimestampValid now raw maxSkew =
     (case Atoi raw of
        None \<Rightarrow> False
      | Some seconds \<Rightarrow> now - maxSkew < seconds * second \<and> seconds * second < now + maxSkew)"

definition hex_digit :: "nat \<Rightarrow> char" where
  "hex_digit n = ''0123456789abcdef'' ! n"

definition hex_encode :: "bytes \<Rightarrow> string" where
  "hex_encode bs = concat (map (\<lambda>b. [hex_digit (unat b div 16), hex_digit (unat b mod 16)]) bs)"

definition hex_value :: "char \<Rightarrow> nat option" where
  "hex_value c = index_of (lower_char c) ''0123456789abcdef''"

fun hex_decode :: "string \<Rightarrow> bytes option" where
  "hex_decode [] = Some []"
| "hex_decode [c] = None"
| "hex_decode (c # d # rest) =
     (case (hex_value c, hex_value d, hex_decode rest) of
        (Some hi, Some lo, Some bs) \<Rightarrow> Some (of_nat (hi * 16 + lo) # bs)
      | _ \<Rightarrow> None)"

definition gatewaySignature :: "rest_lib \<Rightarrow> string \<Rightarrow> string \<Rightarrow> string \<Rightarrow> string" where
  "gatewaySignature lib secret timestamp body = hex_encode (rl_hmac lib secret (timestamp @ body))"

definition subtleCompareHex :: "string \<Rightarrow> string \<Rightarrow> bool" where
  "subtleCompareHex actual expected =
     (case (hex_decode (trim_space actual), hex_decode expected) of
        (Some a, Some b) \<Rightarrow> a = b
      | _ \<Rightarrow> False)"

definition trim_prefix :: "string \<Rightarrow> string \<Rightarrow> string" where
  "trim_prefix p s = (if has_prefix s p then drop (length p) s else s)"

definition five_minutes :: duration where
  "five_minutes = 5 * minute"

definition signature_ok :: "server \<Rightarrow> fiber_ctx \<Rightarrow> bool" where
  "signature_ok sv c =
     (let signature = trim_space (fc_Get c ''X-Gateway-Signature''); timestamp = trim_space (fc_Get c ''X-Gateway-Timestamp'') in
      gatewayCallbackSecret sv \<noteq> [] \<and> signature \<noteq> [] \<and> timestamp \<noteq> [] \<and>
      gatewayTimestampValid (e_now (hs_env sv)) timestamp five_minutes \<and>
      subtleCompareHex (trim_prefix ''sha256='' (to_lower signature))
        (gatewaySignature (hs_lib sv) (gatewayCallbackSecret sv) timestamp (fc_Body c)))"

definition requireGatewayCallbackSignature :: "server \<Rightarrow> unit handler" where
  "requireGatewayCallbackSignature sv =
     h_bind h_ctx (\<lambda>c.
       let secret = gatewayCallbackSecret sv; signature = trim_space (fc_Get c ''X-Gateway-Signature'');
           timestamp = trim_space (fc_Get c ''X-Gateway-Timestamp'')
       in if secret = [] then fail_with 503 (TextError ''payment gateway webhook secret is not configured'')
          else if signature = [] \<or> timestamp = [] then fail_with 401 (TextError ''gateway webhook signature is required'')
          else if \<not> gatewayTimestampValid (e_now (hs_env sv)) timestamp five_minutes
            then fail_with 401 (TextError ''invalid gateway timestamp'')
          else if subtleCompareHex (trim_prefix ''sha256='' (to_lower signature)) (gatewaySignature (hs_lib sv) secret timestamp (fc_Body c))
            then h_return ()
          else fail_with 401 (TextError ''invalid gateway signature''))"

section \<open>The payload\<close>

datatype json_value = JsonText string | JsonNumber string int | JsonObject "(string \<times> json_value) list" | JsonOther

type_synonym payload = "(string \<times> json_value) list"

definition caseInsensitiveValue :: "payload \<Rightarrow> string \<Rightarrow> json_value option" where
  "caseInsensitiveValue obj key = map_option snd (find (\<lambda>(k, v). equal_fold k key) obj)"

fun payload_walk :: "json_value \<Rightarrow> string list \<Rightarrow> json_value option" where
  "payload_walk current [] = Some current"
| "payload_walk current (part # rest) =
     (case current of
        JsonObject obj \<Rightarrow>
          (case map_of obj part of
             Some v \<Rightarrow> payload_walk v rest
           | None \<Rightarrow> (case caseInsensitiveValue obj part of None \<Rightarrow> None | Some v \<Rightarrow> payload_walk v rest))
      | _ \<Rightarrow> None)"

definition payloadValue :: "payload \<Rightarrow> string \<Rightarrow> json_value option" where
  "payloadValue p path = payload_walk (JsonObject p) (split_on (CHR ''.'') path)"

fun firstPayloadString :: "payload \<Rightarrow> string list \<Rightarrow> string" where
  "firstPayloadString p [] = []"
| "firstPayloadString p (path # rest) =
     (case payloadValue p path of
        Some (JsonText t) \<Rightarrow> if trim_space t \<noteq> [] then trim_space t else firstPayloadString p rest
      | Some (JsonNumber t n) \<Rightarrow> t
      | _ \<Rightarrow> firstPayloadString p rest)"

fun firstPayloadInt :: "payload \<Rightarrow> string list \<Rightarrow> int option" where
  "firstPayloadInt p [] = None"
| "firstPayloadInt p (path # rest) =
     (case payloadValue p path of
        Some (JsonNumber t n) \<Rightarrow> Some n
      | Some (JsonText t) \<Rightarrow> Atoi (trim_space t)
      | _ \<Rightarrow> firstPayloadInt p rest)"

type_synonym json_decoder = "string \<Rightarrow> payload option"

definition statusForGatewayEvent :: "string \<Rightarrow> string \<Rightarrow> string" where
  "statusForGatewayEvent eventType fallback =
     (let e = to_lower (trim_space eventType) in
      if e \<in> {''payment_succeeded'', ''deposit_confirmed'', ''manual_test_deposit'', ''payout_completed'', ''payout_succeeded'', ''withdrawal_completed''}
      then ''completed''
      else if e \<in> {''payment_failed'', ''payment_expired'', ''payout_failed'', ''payout_canceled'', ''withdrawal_failed'', ''withdrawal_canceled''}
      then ''failed''
      else if e \<in> {''native_transfer'', ''token_transfer'', ''erc20_transfer'', ''spl_transfer'', ''deposit_detected''} \<and> trim_space fallback = []
      then ''pending''
      else fallback)"

fun join_with :: "string \<Rightarrow> string list \<Rightarrow> string" where
  "join_with sep [] = []"
| "join_with sep [x] = x"
| "join_with sep (x # y # rest) = x @ sep @ join_with sep (y # rest)"

definition eventReference :: "string list \<Rightarrow> string" where
  "eventReference parts = join_with '':'' (filter (\<lambda>p. p \<noteq> []) (map trim_space parts))"

definition gatewayDepositCallbackFromBody :: "json_decoder \<Rightarrow> string \<Rightarrow> string \<Rightarrow> gateway_deposit_callback option" where
  "gatewayDepositCallbackFromBody decode eventType body =
     map_option (\<lambda>p.
       let paymentID0 = firstPayloadString p [''payment_id'', ''paymentID'', ''payment.id'', ''session.payment_id'', ''data.payment_id''];
           trackID = firstPayloadString p [''track_id'', ''trackID'', ''session.track_id'', ''data.track_id''];
           orderID = firstPayloadString p [''order_id'', ''orderID'', ''session.order_id'', ''data.order_id''];
           txHash = firstPayloadString p [''tx_hash'', ''txHash'', ''transaction_hash'', ''hash'', ''transaction.tx_hash'', ''data.tx_hash''];
           eventID0 = firstPayloadString p [''event_id'', ''eventID'', ''id''];
           eventID = (if eventID0 = [] then eventReference [eventType, paymentID0, trackID, orderID, txHash] else eventID0);
           selected = firstPayloadString p [''selected_asset'', ''payment.selected_asset'', ''session.selected_asset'', ''data.selected_asset''];
           asset = firstPayloadString p [''asset'', ''symbol'', ''currency_symbol'', ''token_symbol'', ''selected_asset'', ''payment.selected_asset'',
                     ''session.selected_asset'', ''data.asset'', ''data.symbol'', ''data.selected_asset'']
       in \<lparr>gd_EventID = eventID,
           gd_PaymentID = (if paymentID0 = [] \<and> has_prefix eventType ''payment_'' then eventID else paymentID0),
           gd_TrackID = trackID, gd_OrderID = orderID,
           gd_UserID = firstPayloadString p [''user_id'', ''userID'', ''customer_id'', ''customerID'', ''session.user_id'', ''payment.user_id'', ''data.user_id''],
           gd_Asset = (if asset = [] then selected else asset),
           gd_Symbol = firstPayloadString p [''symbol''], gd_SelectedAsset = selected,
           gd_Amount = firstPayloadString p [''crypto_amount'', ''paid_amount'', ''received_amount'', ''asset_amount'', ''token_amount'',
             ''payment.crypto_amount'', ''session.crypto_amount'', ''data.crypto_amount'', ''data.paid_amount'', ''data.received_amount''],
           gd_AmountRaw = firstPayloadString p [''expected_amount_raw'', ''amount_raw'', ''raw_amount'', ''value'', ''payment.expected_amount_raw'',
             ''payment.amount_raw'', ''transaction.amount_raw'', ''data.expected_amount_raw'', ''data.amount_raw''],
           gd_Decimals = (case firstPayloadInt p [''decimals'', ''token_decimals'', ''asset_decimals'', ''data.decimals''] of None \<Rightarrow> 0 | Some n \<Rightarrow> n),
           gd_Status = statusForGatewayEvent eventType (firstPayloadString p [''status'', ''payment.status'', ''session.status'', ''data.status'']),
           gd_ChainKey = firstPayloadString p [''chain_key'', ''chain'', ''network'', ''selected_chain'', ''payment.selected_chain'',
             ''session.selected_chain'', ''data.chain_key'', ''data.chain'', ''data.network'', ''data.selected_chain''],
           gd_Chain = firstPayloadString p [''chain'', ''network'', ''data.chain'', ''data.network''],
           gd_SelectedChain = firstPayloadString p [''selected_chain'', ''payment.selected_chain'', ''session.selected_chain'', ''data.selected_chain''],
           gd_TxHash = txHash\<rparr>) (decode body)"

definition gatewayEventTypeFromBody :: "json_decoder \<Rightarrow> string \<Rightarrow> string" where
  "gatewayEventTypeFromBody decode body =
     (case decode body of None \<Rightarrow> [] | Some p \<Rightarrow> to_lower (firstPayloadString p [''event_type'', ''eventType'', ''type'']))"

definition gatewayWithdrawalCallbackFromBody :: "json_decoder \<Rightarrow> string \<Rightarrow> string \<Rightarrow> gateway_withdrawal_callback option" where
  "gatewayWithdrawalCallbackFromBody decode eventType body =
     map_option (\<lambda>p.
       \<lparr>gl_EventID = firstPayloadString p [''event_id'', ''eventID'', ''id''],
        gl_WithdrawalID = firstPayloadString p [''withdrawal_id'', ''withdrawalID'', ''exchange_withdrawal_id'', ''metadata.withdrawal_id''],
        gl_PayoutID = firstPayloadString p [''payout_id'', ''payoutID'', ''id'', ''data.payout_id''],
        gl_ID = firstPayloadString p [''id''],
        gl_Status = statusForGatewayEvent eventType (firstPayloadString p [''status'', ''data.status'']),
        gl_TxHash = firstPayloadString p [''tx_hash'', ''txHash'', ''transaction_hash'', ''hash'', ''data.tx_hash'']\<rparr>) (decode body)"

section \<open>The handlers\<close>

definition apply_deposit :: "server \<Rightarrow> gateway_deposit_callback \<Rightarrow> unit handler" where
  "apply_deposit sv req =
     order_call (ApplyGatewayDepositCallback (hs_orders sv) (hs_env sv) req) (\<lambda>result. answer 200 (CallbackBody result))"

definition apply_withdrawal :: "server \<Rightarrow> gateway_withdrawal_callback \<Rightarrow> unit handler" where
  "apply_withdrawal sv req =
     order_call (ApplyGatewayWithdrawalCallback (hs_orders sv) (hs_env sv) req) (\<lambda>result. answer 200 (CallbackBody result))"

definition gatewayDepositCallback :: "server \<Rightarrow> unit handler" where
  "gatewayDepositCallback sv =
     h_bind (requireGatewayCallbackSignature sv) (\<lambda>_. bind_body (rl_deposit_callback (hs_lib sv)) (apply_deposit sv))"

definition gatewayWithdrawalCallback :: "server \<Rightarrow> unit handler" where
  "gatewayWithdrawalCallback sv =
     h_bind (requireGatewayCallbackSignature sv) (\<lambda>_. bind_body (rl_withdrawal_callback (hs_lib sv)) (apply_withdrawal sv))"

definition deposit_events :: "string set" where
  "deposit_events =
     {''payment_succeeded'', ''payment_failed'', ''payment_expired'',
      ''native_transfer'', ''token_transfer'', ''erc20_transfer'', ''spl_transfer'', ''deposit_detected'', ''deposit_confirmed'', ''manual_test_deposit''}"

definition payout_events :: "string set" where
  "payout_events =
     {''payout_completed'', ''payout_succeeded'', ''payout_failed'', ''payout_canceled'', ''withdrawal_completed'', ''withdrawal_failed'', ''withdrawal_canceled''}"

definition gatewayUnifiedCallback :: "json_decoder \<Rightarrow> server \<Rightarrow> unit handler" where
  "gatewayUnifiedCallback decode sv =
     h_bind (requireGatewayCallbackSignature sv) (\<lambda>_.
     h_bind h_ctx (\<lambda>c.
       let given = to_lower (trim_space (fc_Get c ''X-Gateway-Event''));
           eventType = (if given = [] then gatewayEventTypeFromBody decode (fc_Body c) else given);
           eventID = trim_space (fc_Get c ''X-Gateway-Event-Id'')
       in if eventType \<in> deposit_events then
            (case gatewayDepositCallbackFromBody decode eventType (fc_Body c) of
               None \<Rightarrow> fail_with 400 (TextError ''invalid payload'')
             | Some req \<Rightarrow> apply_deposit sv (if gd_EventID req = [] then req\<lparr>gd_EventID := eventID\<rparr> else req))
          else if eventType \<in> payout_events then
            (case gatewayWithdrawalCallbackFromBody decode eventType (fc_Body c) of
               None \<Rightarrow> fail_with 400 (TextError ''invalid payload'')
             | Some req \<Rightarrow> apply_withdrawal sv (if gl_EventID req = [] then req\<lparr>gl_EventID := eventID\<rparr> else req))
          else answer 200 (IgnoredBody eventType)))"

end
