(* ===== verification/RestProps.thy ===== *)
theory RestProps
  imports RestCallbacks GatewayProps SwapProps
begin

text \<open>
  What the checks of the HTTP interface are worth. Since an answer of the framework returns no error, a check that answers
  does not stop its handler: a callback without a valid signature is applied all the same, and a request without a valid
  session is served as if nobody had to log in. A valid session, on the other hand, does confine its user.
\<close>

text \<open>The encoder of the framework encodes error answers: they are a record of one text.\<close>

definition encodes_errors :: "fiber_ctx \<Rightarrow> bool" where
  "encodes_errors c \<longleftrightarrow> (\<lambda>e. fc_encode c (ErrorBody e)) = (\<lambda>e. None)"

lemma encodes_errorsD: "encodes_errors c \<Longrightarrow> fc_encode c (ErrorBody e) = None"
  unfolding encodes_errors_def by (metis (full_types))

text \<open>A step that only changes the answer, and leaves the request as it is.\<close>

definition same_request :: "fiber_ctx \<Rightarrow> fiber_ctx \<Rightarrow> bool" where
  "same_request c c' \<longleftrightarrow>
     fc_Body c' = fc_Body c \<and> fc_Get c' = fc_Get c \<and> fc_Query c' = fc_Query c \<and> fc_Params c' = fc_Params c \<and>
     fc_Cookies c' = fc_Cookies c \<and> fc_encode c' = fc_encode c"

definition only_answers :: "rest_state \<Rightarrow> rest_state \<Rightarrow> bool" where
  "only_answers s s' \<longleftrightarrow> same_request (rs_ctx s) (rs_ctx s') \<and> rs_db s' = rs_db s \<and> rs_events s' = rs_events s"

lemma only_answers_refl: "only_answers s s"
  by (simp add: only_answers_def same_request_def)

lemma fail_with_goes_on:
  assumes "encodes_errors (rs_ctx s)"
  shows "\<exists>s'. fail_with st e s = (Inr (), s') \<and> only_answers s s'"
  using encodes_errorsD [OF assms] by (auto simp: fail_with_def answer_def only_answers_def same_request_def)

lemma requireSignature_goes_on:
  assumes "encodes_errors (rs_ctx s)"
  shows "\<exists>s'. requireGatewayCallbackSignature sv s = (Inr (), s') \<and> only_answers s s'"
  using fail_with_goes_on [OF assms] only_answers_refl [of s]
  by (auto simp: requireGatewayCallbackSignature_def h_bind_def h_ctx_def h_return_def Let_def)

lemma requireSecret_goes_on:
  assumes "encodes_errors (rs_ctx s)"
  shows "\<exists>s'. requireGatewaySecret sv s = (Inr (), s') \<and> only_answers s s'"
  using fail_with_goes_on [OF assms] only_answers_refl [of s]
  by (auto simp: requireGatewaySecret_def h_bind_def h_ctx_def h_return_def)

lemma answer_db: "rs_db (snd (answer st v s)) = rs_db s"
  by (simp add: answer_def Let_def split: option.splits)

lemma order_call_db:
  assumes "\<And>x s. rs_db (snd (k x s)) = rs_db s"
  shows "rs_db (snd (order_call f k s)) = fst (snd (f (rs_db s)))"
  using assms by (auto simp: order_call_def orderError_def fail_with_def answer_db split: prod.splits sum.splits)

section \<open>Callbacks without a signature\<close>

text \<open>C36: A forged callback is applied: whatever the headers of the request and whatever secret is configured, a callback
  for a deposit whose body can be read changes the tables of the exchange exactly as the callback of the gateway
  would, and the same holds for the settlement of a deposit by the endpoint that asks for the shared secret.\<close>

theorem forged_callback_is_applied:
  assumes "encodes_errors (rs_ctx s)"
    and "rl_deposit_callback (hs_lib sv) (fc_Body (rs_ctx s)) = Some callback"
    and "rl_bind_amount (hs_lib sv) (fc_Body (rs_ctx s)) = Some areq"
  shows "rs_db (snd (gatewayDepositCallback sv s)) =
      fst (snd (ApplyGatewayDepositCallback (hs_orders sv) (hs_env sv) callback (rs_db s))) \<and>
    rs_db (snd (settleDeposit_handler sv s)) =
      fst (snd (Service_SettleDeposit (hs_orders sv) (hs_env sv) (fc_Params (rs_ctx s) ''user_id'') areq (rs_db s)))"
proof
  obtain s1 where "requireGatewayCallbackSignature sv s = (Inr (), s1)" "only_answers s s1"
    using requireSignature_goes_on [OF assms(1)] by blast
  then show "rs_db (snd (gatewayDepositCallback sv s)) =
      fst (snd (ApplyGatewayDepositCallback (hs_orders sv) (hs_env sv) callback (rs_db s)))"
    using assms(2)
    by (simp add: gatewayDepositCallback_def h_bind_def bind_body_def h_ctx_def only_answers_def same_request_def apply_deposit_def
        order_call_db answer_db)
  obtain s2 where "requireGatewaySecret sv s = (Inr (), s2)" "only_answers s s2"
    using requireSecret_goes_on [OF assms(1)] by blast
  then show "rs_db (snd (settleDeposit_handler sv s)) =
      fst (snd (Service_SettleDeposit (hs_orders sv) (hs_env sv) (fc_Params (rs_ctx s) ''user_id'') areq (rs_db s)))"
    using assms(3)
    by (simp add: settleDeposit_handler_def balanceMutation_def h_bind_def bind_body_def h_ctx_def only_answers_def same_request_def
        order_call_db answer_db okJSON_def)
qed

section \<open>Sessions\<close>

lemma requireUser_invalid:
  assumes "encodes_errors (rs_ctx s)" "hs_auth sv = Some a" "as_enabled a" "fc_claims (rs_ctx s) = None"
    and "ParseSession (hs_env sv) (hs_auth_lib sv) a (fc_Cookies (rs_ctx s) oidcSessionCookie) = Inl e"
  shows "\<exists>s'. requireUser sv s = (Inr None, s') \<and> only_answers s s'"
  using fail_with_goes_on [OF assms(1), of 401 "TextError ''authentication required''"] assms(2-5)
  by (auto simp: requireUser_def h_bind_def h_ctx_def answer_and_def h_return_def)

lemma requireUser_valid:
  assumes "hs_auth sv = Some a" "as_enabled a" "fc_claims (rs_ctx s) = None"
    and "ParseSession (hs_env sv) (hs_auth_lib sv) a (fc_Cookies (rs_ctx s) oidcSessionCookie) = Inr cl"
  shows "\<exists>s'. requireUser sv s = (Inr (Some cl), s') \<and> only_answers s s'"
  using assms
  by (auto simp: requireUser_def h_bind_def h_ctx_def h_update_def h_return_def only_answers_def same_request_def)

lemma requestWithdrawal_user:
  assumes "requirePathUser sv s = (Inr userID, s')" "only_answers s s'"
    and "rl_bind_withdrawal (hs_lib sv) (fc_Body (rs_ctx s)) = Some req"
  shows "rs_db (snd (requestWithdrawal sv s)) =
    fst (snd (Service_RequestWithdrawal (hs_orders sv) (hs_env sv) userID req (rs_db s)))"
  using assms
  by (simp add: requestWithdrawal_def h_bind_def bind_body_def h_ctx_def only_answers_def same_request_def order_call_db answer_db)

text \<open>C37: A request without a valid session is let through: with the login switched on, a withdrawal is requested in the
  name of the user of the address although the session is missing, expired or forged.\<close>

theorem invalid_session_is_let_through:
  assumes "encodes_errors (rs_ctx s)" "hs_auth sv = Some a" "as_enabled a" "fc_claims (rs_ctx s) = None"
    and "ParseSession (hs_env sv) (hs_auth_lib sv) a (fc_Cookies (rs_ctx s) oidcSessionCookie) = Inl e"
    and "rl_bind_withdrawal (hs_lib sv) (fc_Body (rs_ctx s)) = Some req"
  shows "rs_db (snd (requestWithdrawal sv s)) =
    fst (snd (Service_RequestWithdrawal (hs_orders sv) (hs_env sv) (trim_space (fc_Params (rs_ctx s) ''user_id'')) req (rs_db s)))"
proof -
  obtain s' where "requireUser sv s = (Inr None, s')" "only_answers s s'" using requireUser_invalid [OF assms(1-5)] by blast
  then show ?thesis
    by (intro requestWithdrawal_user [OF _ _ assms(6)]) (simp_all add: requirePathUser_def h_bind_def h_ctx_def h_return_def Let_def)
qed

lemma encodes_errors_same: "same_request c c' \<Longrightarrow> encodes_errors c \<Longrightarrow> encodes_errors c'"
  by (simp add: encodes_errors_def same_request_def)

lemma only_answers_trans: "only_answers s s' \<Longrightarrow> only_answers s' s'' \<Longrightarrow> only_answers s s''"
  by (simp add: only_answers_def same_request_def)

text \<open>C38: A valid session confines its user: a withdrawal changes the tables only as a withdrawal of the subject of the
  session, and not at all when the address names another user, although the handler goes on after its 403.\<close>

theorem valid_session_confines:
  assumes "encodes_errors (rs_ctx s)" "hs_auth sv = Some a" "as_enabled a" "fc_claims (rs_ctx s) = None"
    and "ParseSession (hs_env sv) (hs_auth_lib sv) a (fc_Cookies (rs_ctx s) oidcSessionCookie) = Inr cl"
    and "rl_bind_withdrawal (hs_lib sv) (fc_Body (rs_ctx s)) = Some req"
  shows "rs_db (snd (requestWithdrawal sv s)) =
    (if trim_space (fc_Params (rs_ctx s) ''user_id'') \<in> {[], cm_Subject cl}
     then fst (snd (Service_RequestWithdrawal (hs_orders sv) (hs_env sv) (cm_Subject cl) req (rs_db s)))
     else rs_db s)"
proof -
  obtain s1 where s1: "requireUser sv s = (Inr (Some cl), s1)" "only_answers s s1" using requireUser_valid [OF assms(2-5)] by blast
  show ?thesis
  proof (cases "trim_space (fc_Params (rs_ctx s) ''user_id'') \<in> {[], cm_Subject cl}")
    case True
    then have "requirePathUser sv s = (Inr (cm_Subject cl), s1)"
      using s1 by (auto simp: requirePathUser_def h_bind_def h_ctx_def h_return_def Let_def)
    from requestWithdrawal_user [OF this s1(2) assms(6)] True show ?thesis by simp
  next
    case False
    have "encodes_errors (rs_ctx s1)" using s1(2) assms(1) encodes_errors_same by (auto simp: only_answers_def)
    from fail_with_goes_on [OF this] obtain s2 where
      s2: "fail_with 403 (TextError ''user_id does not match authenticated subject'') s1 = (Inr (), s2)" "only_answers s1 s2" by blast
    then have "requirePathUser sv s = (Inr [], s2)"
      using s1 False by (simp add: requirePathUser_def h_bind_def h_ctx_def h_return_def Let_def answer_and_def)
    from requestWithdrawal_user [OF this only_answers_trans [OF s1(2) s2(2)] assms(6)] False show ?thesis
      by (simp add: Service_RequestWithdrawal_def Let_def)
  qed
qed

section \<open>Examples\<close>

text \<open>A server with the login and both secrets set, and a request without headers and cookies.\<close>

definition open_server :: server where
  "open_server =
     \<lparr>hs_orders = sample_service, hs_prices = \<lparr>ps_assets = [], ps_pools = []\<rparr>, hs_swaps = example_service,
      hs_auth = Some (demo_auth ''k''), hs_env = sample_env, hs_getenv = (\<lambda>name. ''secret''), hs_evm = example_lib,
      hs_auth_lib = demo_auth_lib,
      hs_provider = \<lparr>op_discover = (\<lambda>u. None), op_auth_code_url = (\<lambda>e st. st), op_exchange = (\<lambda>e c. None), op_verify = (\<lambda>r. None)\<rparr>,
      hs_lib = \<lparr>rl_parse_url = (\<lambda>u. None), rl_path_unescape = Some, rl_bind_order = (\<lambda>b. None), rl_bind_swap = (\<lambda>b. None),
        rl_bind_trigger = (\<lambda>b. None), rl_bind_amount = (\<lambda>b. Some \<lparr>br_Asset = ''BTC'', br_Amount = ''3''\<rparr>), rl_bind_deposit = (\<lambda>b. None),
        rl_bind_withdrawal = (\<lambda>b. Some \<lparr>wr_Asset = ''BTC'', wr_Amount = ''1'', wr_ChainKey = ''base'',
          wr_Address = ''0x0000000000000000000000000000000000000001''\<rparr>),
        rl_bind_wallet = (\<lambda>b. None), rl_deposit_callback = (\<lambda>b. Some (sample_callback ''paid'')), rl_withdrawal_callback = (\<lambda>b. None),
        rl_hmac = (\<lambda>k m. [1]), rl_random = (\<lambda>n. None)\<rparr>\<rparr>"

definition bare_request :: "string \<Rightarrow> string \<Rightarrow> db \<Rightarrow> rest_state" where
  "bare_request userID session d =
     \<lparr>rs_ctx = \<lparr>fc_Body = [], fc_Get = (\<lambda>h. []), fc_Query = (\<lambda>k. []), fc_Params = (\<lambda>k. userID),
        fc_Cookies = (\<lambda>k. if k = oidcSessionCookie then session else []), fc_encode = (\<lambda>v. None),
        fc_claims = None, fc_status = 200, fc_answer = None, fc_redirect = None, fc_set_cookies = [], fc_headers = []\<rparr>,
      rs_db = d, rs_events = []\<rparr>"

lemma bare_encodes: "encodes_errors (rs_ctx (bare_request userID session d))"
  by (simp add: encodes_errors_def bare_request_def)

theorem forged_callback_is_applied_witness:
  "\<not> signature_ok open_server (rs_ctx (bare_request ''carol'' [] empty_db)) \<and>
   avail (rs_db (snd (gatewayDepositCallback open_server (bare_request ''carol'' [] empty_db)))) (account_key ''carol'' ''BTC'') = 2"
proof -
  have a: "avail (fst (snd (ApplyGatewayDepositCallback sample_service sample_env (sample_callback ''paid'') empty_db)))
      (account_key ''carol'' ''BTC'') = 2" by code_simp
  have "\<not> signature_ok open_server (rs_ctx (bare_request ''carol'' [] empty_db))"
    by (simp add: signature_ok_def bare_request_def Let_def)
  moreover have "rs_db (snd (gatewayDepositCallback open_server (bare_request ''carol'' [] empty_db))) =
      fst (snd (ApplyGatewayDepositCallback sample_service sample_env (sample_callback ''paid'') empty_db))"
    using forged_callback_is_applied [OF bare_encodes, of open_server "''carol''" "[]" empty_db "sample_callback ''paid''"
        "\<lparr>br_Asset = ''BTC'', br_Amount = ''3''\<rparr>"]
    by (simp add: open_server_def bare_request_def)
  ultimately show ?thesis using a by simp
qed

lemma no_session: "ParseSession (hs_env open_server) (hs_auth_lib open_server) (demo_auth ''k'') [] = Inl InvalidSession"
  by (simp add: ParseSession_def demo_auth_def)

theorem invalid_session_is_let_through_witness:
  "auth_enabled open_server \<and>
   avail (rs_db (snd (requestWithdrawal open_server (bare_request ''carol'' [] sample_credited)))) (account_key ''carol'' ''BTC'') = 1"
proof -
  have a: "avail (fst (snd (Service_RequestWithdrawal sample_service sample_env ''carol''
      \<lparr>wr_Asset = ''BTC'', wr_Amount = ''1'', wr_ChainKey = ''base'', wr_Address = ''0x0000000000000000000000000000000000000001''\<rparr>
      sample_credited))) (account_key ''carol'' ''BTC'') = 1" by code_simp
  have t: "trim_space ''carol'' = ''carol''" by code_simp
  have "rs_db (snd (requestWithdrawal open_server (bare_request ''carol'' [] sample_credited))) =
     fst (snd (Service_RequestWithdrawal sample_service sample_env ''carol''
      \<lparr>wr_Asset = ''BTC'', wr_Amount = ''1'', wr_ChainKey = ''base'', wr_Address = ''0x0000000000000000000000000000000000000001''\<rparr>
      sample_credited))"
    using invalid_session_is_let_through [OF bare_encodes, of open_server "demo_auth ''k''" "''carol''" "[]" sample_credited InvalidSession] no_session t
    by (simp add: open_server_def bare_request_def demo_auth_def oidcSessionCookie_def)
  then show ?thesis using a by (simp add: auth_enabled_def open_server_def demo_auth_def)
qed

text \<open>With the session of another user, the withdrawal of the last example is not made.\<close>

lemma demo_session:
  "ParseSession (at_time 50) demo_auth_lib (demo_auth ''k'') ''AQ.AQ'' = Inr demo_claims"
  by code_simp

theorem valid_session_confines_witness:
  "rs_db (snd (requestWithdrawal (open_server\<lparr>hs_env := at_time 50\<rparr>) (bare_request ''carol'' ''AQ.AQ'' sample_credited))) = sample_credited"
proof -
  have t: "trim_space ''carol'' = ''carol''" by code_simp
  show ?thesis
    using valid_session_confines [OF bare_encodes, of "open_server\<lparr>hs_env := at_time 50\<rparr>" "demo_auth ''k''" "''carol''" "''AQ.AQ''"
        sample_credited demo_claims] demo_session t
    by (simp add: open_server_def bare_request_def demo_auth_def demo_claims_def)
qed

end
