(* ===== verification/Defaults.thy ===== *)
theory Defaults
  imports Scanning OidcAuth
begin

text \<open>
  The registries the exchange starts with (\<^verbatim>\<open>internal/config/defaults.go\<close>): its chains, assets, venues and markets, field by
  field, with the environment variables that override them. The last section shows that they fit together and with
  the scanners.
\<close>

section \<open>Values from the environment\<close>

definition rpcURLsFromEnv :: "getenv \<Rightarrow> string \<Rightarrow> string list \<Rightarrow> string list" where
  "rpcURLsFromEnv ge key fallback =
     (if trim_space (ge key) = [] then fallback
      else (let urls = filter (\<lambda>u. u \<noteq> []) (map trim_space (split_on (CHR '','') (ge key))) in if urls = [] then fallback else urls))"

definition coinMarketCapIconURL :: "string \<Rightarrow> string" where
  "coinMarketCapIconURL i =
     (if trim_space i = [] then [] else ''https://s2.coinmarketcap.com/static/img/coins/64x64/'' @ trim_space i @ ''.png'')"

definition envBoolOrDefault :: "getenv \<Rightarrow> string \<Rightarrow> bool \<Rightarrow> bool" where
  "envBoolOrDefault ge key fallback =
     (let v = to_lower (trim_space (ge key)) in
      if v \<in> {''1'', ''true'', ''yes'', ''y'', ''on'', ''enabled''} then True
      else if v \<in> {''0'', ''false'', ''no'', ''n'', ''off'', ''disabled''} then False
      else fallback)"

definition usdMarketsForAssets :: "asset list \<Rightarrow> market list" where
  "usdMarketsForAssets assets =
     map (\<lambda>a. \<lparr>m_Symbol = a_Symbol a @ ''/USD'', m_BaseAsset = a_Symbol a, m_QuoteAsset = ''USD'', m_ChainKeys = [], m_Enabled = True\<rparr>)
       (filter (\<lambda>a. a_Symbol a \<noteq> [] \<and> \<not> equal_fold (a_Symbol a) ''USD'') assets)"

section \<open>Chains, assets and venues\<close>

definition VenueKeyKewlSwap :: venue_key where "VenueKeyKewlSwap = ''kewlswap''"
definition VenueKeyDiviSwap :: venue_key where "VenueKeyDiviSwap = ''diviswap''"
definition VenueKeyKayenSwap :: venue_key where "VenueKeyKayenSwap = ''kayenswap''"
definition VenueKeyAerodromeClassic :: venue_key where "VenueKeyAerodromeClassic = ''aerodrome_classic_base''"
definition VenueKeyUniswapV1Ethereum :: venue_key where "VenueKeyUniswapV1Ethereum = ''uniswap_v1_ethereum''"
definition VenueKeyUniswapV2Ethereum :: venue_key where "VenueKeyUniswapV2Ethereum = ''uniswap_v2_ethereum''"
definition VenueKeyUniswapV3Ethereum :: venue_key where "VenueKeyUniswapV3Ethereum = ''uniswap_v3_ethereum''"
definition VenueKeyPangolinAvalanche :: venue_key where "VenueKeyPangolinAvalanche = ''pangolin_avalanche''"
definition VenueKeyTraderJoeAvalanche :: venue_key where "VenueKeyTraderJoeAvalanche = ''traderjoe_avalanche''"
definition VenueKeyRaydium :: venue_key where "VenueKeyRaydium = ''raydium''"
definition VenueKeyOrca :: venue_key where "VenueKeyOrca = ''orca''"
definition VenueKeyMeteora :: venue_key where "VenueKeyMeteora = ''meteora''"

definition chain_chiliz :: "getenv \<Rightarrow> chain" where
  "chain_chiliz ge =
     \<lparr>ch_Key = ChainKeyChiliz, ch_Name = ''Chiliz Chain'', ch_Kind = KindEVM, ch_ChainID = (Some 88888),
      ch_Network = ''mainnet'', ch_NativeAsset = ''CHZ'',
      ch_RPCURLs = (rpcURLsFromEnv ge ''CHILIZ_RPC_URLS'' [''https://rpc.chiliz.com'', ''https://chiliz.publicnode.com'',
      ''https://rpc.ankr.com/chiliz'']), ch_ExplorerURL = ''https://chiliscan.com'', ch_Confirmations = 3, ch_Enabled = True,
      ch_Multicall3Address = ''0xcA11bde05977b3631167028862bE2a173976CA11''\<rparr>"

definition chain_solana :: "getenv \<Rightarrow> chain" where
  "chain_solana ge =
     \<lparr>ch_Key = ChainKeySolana, ch_Name = ''Solana Mainnet'', ch_Kind = KindSolana, ch_ChainID = None,
      ch_Network = ''mainnet-beta'', ch_NativeAsset = ''SOL'',
      ch_RPCURLs = (rpcURLsFromEnv ge ''SOLANA_RPC_URLS'' [''https://api.mainnet-beta.solana.com'',
      ''https://solana-rpc.publicnode.com'']), ch_ExplorerURL = ''https://solscan.io'', ch_Confirmations = 32,
      ch_Enabled = (envBoolOrDefault ge ''SOLANA_ENABLED'' True), ch_Multicall3Address = []\<rparr>"

definition chain_base :: "getenv \<Rightarrow> chain" where
  "chain_base ge =
     \<lparr>ch_Key = ChainKeyBase, ch_Name = ''Base'', ch_Kind = KindEVM, ch_ChainID = (Some 8453), ch_Network = ''mainnet'',
      ch_NativeAsset = ''ETH'', ch_RPCURLs = (rpcURLsFromEnv ge ''BASE_RPC_URLS'' [''https://base-rpc.publicnode.com'',
      ''https://mainnet.base.org'', ''https://1rpc.io/base'', ''https://base.drpc.org'']),
      ch_ExplorerURL = ''https://basescan.org'', ch_Confirmations = 3, ch_Enabled = True,
      ch_Multicall3Address = ''0xcA11bde05977b3631167028862bE2a173976CA11''\<rparr>"

definition chain_ethereum :: "getenv \<Rightarrow> chain" where
  "chain_ethereum ge =
     \<lparr>ch_Key = ChainKeyEthereum, ch_Name = ''Ethereum'', ch_Kind = KindEVM, ch_ChainID = (Some 1), ch_Network = ''mainnet'',
      ch_NativeAsset = ''ETH'',
      ch_RPCURLs = (rpcURLsFromEnv ge ''ETHEREUM_RPC_URLS'' [''https://ethereum-rpc.publicnode.com'',
      ''https://eth.llamarpc.com'', ''https://rpc.ankr.com/eth'']), ch_ExplorerURL = ''https://etherscan.io'',
      ch_Confirmations = 6, ch_Enabled = True, ch_Multicall3Address = ''0xcA11bde05977b3631167028862bE2a173976CA11''\<rparr>"

definition chain_avalanche :: "getenv \<Rightarrow> chain" where
  "chain_avalanche ge =
     \<lparr>ch_Key = ChainKeyAvalanche, ch_Name = ''Avalanche C-Chain'', ch_Kind = KindEVM, ch_ChainID = (Some 43114),
      ch_Network = ''mainnet'', ch_NativeAsset = ''AVAX'',
      ch_RPCURLs = (rpcURLsFromEnv ge ''AVALANCHE_RPC_URLS'' [''https://api.avax.network/ext/bc/C/rpc'',
      ''https://avalanche-c-chain-rpc.publicnode.com'', ''https://rpc.ankr.com/avalanche'']),
      ch_ExplorerURL = ''https://snowtrace.io'', ch_Confirmations = 3, ch_Enabled = True,
      ch_Multicall3Address = ''0xcA11bde05977b3631167028862bE2a173976CA11''\<rparr>"

definition default_chains :: "getenv \<Rightarrow> chain list" where
  "default_chains ge = [chain_chiliz ge, chain_solana ge, chain_base ge, chain_ethereum ge, chain_avalanche ge]"

definition asset_BTC :: asset where
  "asset_BTC =
     \<lparr>a_Symbol = ''BTC'', a_Name = ''Bitcoin'', a_Type = ''native'', a_Decimals = 8, a_IconURL = (coinMarketCapIconURL ''1''),
      a_Deployments =
       [\<lparr>dp_ChainKey = ''bitcoin'', dp_Address = [], dp_Name = [], dp_Symbol = [], dp_Mint = [], dp_Decimals = 8,
           dp_Enabled = True, dp_Native = True, dp_IconURL = [], dp_ChainLogoURL = []\<rparr>,
        \<lparr>dp_ChainKey = ChainKeyEthereum, dp_Address = ''0x2260FAC5E5542a773Aa44fBCfeDf7C193bc2C599'',
           dp_Name = ''Wrapped BTC'', dp_Symbol = ''WBTC'', dp_Mint = [], dp_Decimals = 8, dp_Enabled = True,
           dp_Native = False, dp_IconURL = [], dp_ChainLogoURL = []\<rparr>,
        \<lparr>dp_ChainKey = ChainKeyAvalanche, dp_Address = ''0x0555E30da8f98308EdB960aa94C0Db47230d2B9c'',
           dp_Name = ''Wrapped BTC'', dp_Symbol = ''WBTC'', dp_Mint = [], dp_Decimals = 8, dp_Enabled = True,
           dp_Native = False, dp_IconURL = [], dp_ChainLogoURL = []\<rparr>,
        \<lparr>dp_ChainKey = ChainKeyBinanceSmartChain, dp_Address = ''0x0555E30da8f98308EdB960aa94C0Db47230d2B9c'',
           dp_Name = ''Wrapped BTC'', dp_Symbol = ''WBTC'', dp_Mint = [], dp_Decimals = 8, dp_Enabled = True,
           dp_Native = False, dp_IconURL = [], dp_ChainLogoURL = []\<rparr>,
        \<lparr>dp_ChainKey = ''tron'', dp_Address = ''TYhWwKpw43ENFWBTGpzLHn3882f2au7SMi'', dp_Name = ''Wrapped BTC'',
           dp_Symbol = ''WBTC'', dp_Mint = [], dp_Decimals = 8, dp_Enabled = True, dp_Native = False, dp_IconURL = [],
           dp_ChainLogoURL = []\<rparr>]\<rparr>"

definition asset_CHZ :: asset where
  "asset_CHZ =
     \<lparr>a_Symbol = ''CHZ'', a_Name = ''Chiliz'', a_Type = ''native'', a_Decimals = 18, a_IconURL = (coinMarketCapIconURL ''4066''),
      a_Deployments =
       [\<lparr>dp_ChainKey = ChainKeySolana, dp_Address = ''6eftxVbSAunVEoxUWdGhPdxg5UdsJ8Wkwy5w5YFuxouw'', dp_Name = [],
           dp_Symbol = [], dp_Mint = [], dp_Decimals = 8, dp_Enabled = True, dp_Native = False, dp_IconURL = [],
           dp_ChainLogoURL = []\<rparr>,
        \<lparr>dp_ChainKey = ChainKeyBase, dp_Address = ''0x70c8392DE9b39a1E48d12A70Af6FF4Be25D6D0A2'', dp_Name = [], dp_Symbol = [],
           dp_Mint = [], dp_Decimals = 18, dp_Enabled = True, dp_Native = False, dp_IconURL = [], dp_ChainLogoURL = []\<rparr>,
        \<lparr>dp_ChainKey = ChainKeyChiliz, dp_Address = ''0x677f7e16c7dd57be1d4c8ad1244883214953dc47'',
           dp_Name = ''Wrapped Chiliz'', dp_Symbol = ''wCHZ'', dp_Mint = [], dp_Decimals = 18, dp_Enabled = True,
           dp_Native = False, dp_IconURL = [], dp_ChainLogoURL = []\<rparr>]\<rparr>"

definition asset_CHZINU :: asset where
  "asset_CHZINU =
     \<lparr>a_Symbol = ''CHZINU'', a_Name = ''ChilizINU'', a_Type = ''token'', a_Decimals = 18, a_IconURL = [],
      a_Deployments =
       [\<lparr>dp_ChainKey = ChainKeyChiliz, dp_Address = ''0xF3928e7871eb136DD6648Ad08aEEF6B6ea893001'', dp_Name = [],
           dp_Symbol = [], dp_Mint = [], dp_Decimals = 4, dp_Enabled = True, dp_Native = False, dp_IconURL = [],
           dp_ChainLogoURL = []\<rparr>]\<rparr>"

definition asset_BNB :: asset where
  "asset_BNB =
     \<lparr>a_Symbol = ''BNB'', a_Name = ''BNB'', a_Type = ''native'', a_Decimals = 18, a_IconURL = (coinMarketCapIconURL ''1839''),
      a_Deployments =
       [\<lparr>dp_ChainKey = ChainKeyBinanceSmartChain, dp_Address = [], dp_Name = [], dp_Symbol = [], dp_Mint = [],
           dp_Decimals = 18, dp_Enabled = True, dp_Native = True, dp_IconURL = [], dp_ChainLogoURL = []\<rparr>,
        \<lparr>dp_ChainKey = ChainKeyBinanceSmartChain, dp_Address = ''0xbb4CdB9CBd36B01bD1cBaEBF2De08d9173bc095c'',
           dp_Name = ''Wrapped BNB'', dp_Symbol = ''WBNB'', dp_Mint = [], dp_Decimals = 18, dp_Enabled = True,
           dp_Native = False, dp_IconURL = [], dp_ChainLogoURL = []\<rparr>]\<rparr>"

definition asset_PEPPER :: asset where
  "asset_PEPPER =
     \<lparr>a_Symbol = ''PEPPER'', a_Name = ''PEPPER'', a_Type = ''token'', a_Decimals = 18, a_IconURL = (coinMarketCapIconURL ''33603''),
      a_Deployments =
       [\<lparr>dp_ChainKey = ChainKeySolana, dp_Address = [], dp_Name = [], dp_Symbol = [],
           dp_Mint = ''GozPNCAseytzxCR3d2k8hTsTYkr4SDpuXy2RQAZFVx2g'', dp_Decimals = 3, dp_Enabled = True, dp_Native = False,
           dp_IconURL = [], dp_ChainLogoURL = []\<rparr>,
        \<lparr>dp_ChainKey = ChainKeyBase, dp_Address = ''0x5e985E4BCa4664E985f3FaF8140EbA25b10E28C2'', dp_Name = [], dp_Symbol = [],
           dp_Mint = [], dp_Decimals = 18, dp_Enabled = True, dp_Native = False, dp_IconURL = [], dp_ChainLogoURL = []\<rparr>,
        \<lparr>dp_ChainKey = ChainKeyChiliz, dp_Address = ''0x60f397acbcfb8f4e3234c659a3e10867e6fa6b67'', dp_Name = [],
           dp_Symbol = [], dp_Mint = [], dp_Decimals = 18, dp_Enabled = True, dp_Native = False, dp_IconURL = [],
           dp_ChainLogoURL = []\<rparr>]\<rparr>"

definition asset_LGBT :: asset where
  "asset_LGBT =
     \<lparr>a_Symbol = ''LGBT'', a_Name = ''COOLVIBES'', a_Type = ''token'', a_Decimals = 6, a_IconURL = [],
      a_Deployments =
       [\<lparr>dp_ChainKey = ChainKeySolana, dp_Address = [], dp_Name = [], dp_Symbol = [],
           dp_Mint = ''9qpnNkj8wqecEhnrKwzhNAtzSknizFqDEzxPd1Ajpump'', dp_Decimals = 6, dp_Enabled = True, dp_Native = False,
           dp_IconURL = [], dp_ChainLogoURL = []\<rparr>]\<rparr>"

definition asset_SOL :: asset where
  "asset_SOL =
     \<lparr>a_Symbol = ''SOL'', a_Name = ''Solana'', a_Type = ''native'', a_Decimals = 9, a_IconURL = (coinMarketCapIconURL ''5426''),
      a_Deployments =
       [\<lparr>dp_ChainKey = ChainKeySolana, dp_Address = [], dp_Name = ''Wrapped Solana'', dp_Symbol = ''WSOL'',
           dp_Mint = ''So11111111111111111111111111111111111111112'', dp_Decimals = 9, dp_Enabled = True, dp_Native = False,
           dp_IconURL = [], dp_ChainLogoURL = []\<rparr>]\<rparr>"

definition asset_TBT :: asset where
  "asset_TBT =
     \<lparr>a_Symbol = ''TBT'', a_Name = ''TBT Token'', a_Type = ''token'', a_Decimals = 18, a_IconURL = [],
      a_Deployments =
       [\<lparr>dp_ChainKey = ChainKeyChiliz, dp_Address = ''0xfed7A6423cdeBb4c05552DC888de5acC657444F4'', dp_Name = [],
           dp_Symbol = [], dp_Mint = [], dp_Decimals = 18, dp_Enabled = True, dp_Native = False, dp_IconURL = [],
           dp_ChainLogoURL = []\<rparr>]\<rparr>"

definition asset_TRX :: asset where
  "asset_TRX =
     \<lparr>a_Symbol = ''TRX'', a_Name = ''Tron'', a_Type = ''native'', a_Decimals = 6, a_IconURL = (coinMarketCapIconURL ''1958''),
      a_Deployments =
       [\<lparr>dp_ChainKey = ''tron'', dp_Address = [], dp_Name = [], dp_Symbol = [], dp_Mint = [], dp_Decimals = 6,
           dp_Enabled = True, dp_Native = True, dp_IconURL = [], dp_ChainLogoURL = []\<rparr>]\<rparr>"

definition asset_ETH :: asset where
  "asset_ETH =
     \<lparr>a_Symbol = ''ETH'', a_Name = ''Ether'', a_Type = ''native'', a_Decimals = 18, a_IconURL = (coinMarketCapIconURL ''1027''),
      a_Deployments =
       [\<lparr>dp_ChainKey = ChainKeyEthereum, dp_Address = ''0xC02aaA39b223FE8D0A0e5C4F27eAD9083C756Cc2'',
           dp_Name = ''Wrapped Ether'', dp_Symbol = ''WETH'', dp_Mint = [], dp_Decimals = 18, dp_Enabled = True,
           dp_Native = False, dp_IconURL = [], dp_ChainLogoURL = []\<rparr>,
        \<lparr>dp_ChainKey = ChainKeyBase, dp_Address = ''0x4200000000000000000000000000000000000006'', dp_Name = ''Wrapped Ether'',
           dp_Symbol = ''WETH'', dp_Mint = [], dp_Decimals = 18, dp_Enabled = True, dp_Native = False, dp_IconURL = [],
           dp_ChainLogoURL = []\<rparr>]\<rparr>"

definition asset_AVAX :: asset where
  "asset_AVAX =
     \<lparr>a_Symbol = ''AVAX'', a_Name = ''Avalanche'', a_Type = ''native'', a_Decimals = 18, a_IconURL = (coinMarketCapIconURL ''5805''),
      a_Deployments =
       [\<lparr>dp_ChainKey = ChainKeyAvalanche, dp_Address = ''0xB31f66AA3C1e785363F0875A1B74E27b85FD66c7'',
           dp_Name = ''Wrapped AVAX'', dp_Symbol = ''WAVAX'', dp_Mint = [], dp_Decimals = 18, dp_Enabled = True,
           dp_Native = False, dp_IconURL = [], dp_ChainLogoURL = []\<rparr>]\<rparr>"

definition asset_USDC :: asset where
  "asset_USDC =
     \<lparr>a_Symbol = ''USDC'', a_Name = ''USD Coin'', a_Type = ''token'', a_Decimals = 6, a_IconURL = (coinMarketCapIconURL ''3408''),
      a_Deployments =
       [\<lparr>dp_ChainKey = ChainKeyChiliz, dp_Address = ''0xa37936F56249965d407E39347528a1A91eB1cbef'', dp_Name = [],
           dp_Symbol = [], dp_Mint = [], dp_Decimals = 6, dp_Enabled = True, dp_Native = False, dp_IconURL = [],
           dp_ChainLogoURL = []\<rparr>,
        \<lparr>dp_ChainKey = ChainKeyEthereum, dp_Address = ''0xA0b86991c6218b36c1d19D4a2e9Eb0cE3606eB48'', dp_Name = [],
           dp_Symbol = [], dp_Mint = [], dp_Decimals = 6, dp_Enabled = True, dp_Native = False, dp_IconURL = [],
           dp_ChainLogoURL = []\<rparr>,
        \<lparr>dp_ChainKey = ChainKeyBase, dp_Address = ''0x833589fCD6eDb6E08f4c7C32D4f71b54bdA02913'', dp_Name = [], dp_Symbol = [],
           dp_Mint = [], dp_Decimals = 6, dp_Enabled = True, dp_Native = False, dp_IconURL = [], dp_ChainLogoURL = []\<rparr>,
        \<lparr>dp_ChainKey = ChainKeyAvalanche, dp_Address = ''0xB97EF9Ef8734C71904D8002F8b6Bc66Dd9c48a6E'', dp_Name = [],
           dp_Symbol = [], dp_Mint = [], dp_Decimals = 6, dp_Enabled = True, dp_Native = False, dp_IconURL = [],
           dp_ChainLogoURL = []\<rparr>,
        \<lparr>dp_ChainKey = ChainKeySolana, dp_Address = [], dp_Name = [], dp_Symbol = [],
           dp_Mint = ''EPjFWdd5AufqSSqeM2qN1xzybapC8G4wEGGkZwyTDt1v'', dp_Decimals = 6, dp_Enabled = True, dp_Native = False,
           dp_IconURL = [], dp_ChainLogoURL = []\<rparr>]\<rparr>"

definition asset_USDT :: asset where
  "asset_USDT =
     \<lparr>a_Symbol = ''USDT'', a_Name = ''Tether USD'', a_Type = ''token'', a_Decimals = 6, a_IconURL = (coinMarketCapIconURL ''825''),
      a_Deployments =
       [\<lparr>dp_ChainKey = ChainKeyEthereum, dp_Address = ''0xdAC17F958D2ee523a2206206994597C13D831ec7'', dp_Name = [],
           dp_Symbol = [], dp_Mint = [], dp_Decimals = 6, dp_Enabled = True, dp_Native = False, dp_IconURL = [],
           dp_ChainLogoURL = []\<rparr>,
        \<lparr>dp_ChainKey = ChainKeySolana, dp_Address = [], dp_Name = [], dp_Symbol = [],
           dp_Mint = ''Es9vMFrzaCERmJfrF4H2FYD4KCoNkY11McCe8BenwNYB'', dp_Decimals = 6, dp_Enabled = True, dp_Native = False,
           dp_IconURL = [], dp_ChainLogoURL = []\<rparr>,
        \<lparr>dp_ChainKey = ''tron'', dp_Address = ''TR7NHqjeKQxGTCi8q8ZY4pL8otSzgjLj6t'', dp_Name = [], dp_Symbol = [],
           dp_Mint = [], dp_Decimals = 6, dp_Enabled = True, dp_Native = False, dp_IconURL = [], dp_ChainLogoURL = []\<rparr>]\<rparr>"

definition default_assets :: "asset list" where
  "default_assets =
     [asset_BTC, asset_CHZ, asset_CHZINU, asset_BNB, asset_PEPPER, asset_LGBT, asset_SOL, asset_TBT, asset_TRX, asset_ETH, asset_AVAX, asset_USDC, asset_USDT]"

definition venue_KewlSwap :: "getenv \<Rightarrow> venue" where
  "venue_KewlSwap ge =
     \<lparr>vn_Key = VenueKeyKewlSwap, vn_Name = ''KewlSwap'', vn_ChainKey = ChainKeyChiliz, vn_Kind = VenueKindUniswapV2,
      vn_Enabled = True,
      vn_Config = (Some (UniswapV2Config \<lparr>v2_FactoryAddress = ''0xA0BB8f9865f732C277d0C162249A4F6c157ae9D0'',
      v2_RouterAddress = (envOrDefault ge ''KEWLSWAP_ROUTER_ADDRESS'' []), v2_InitCodeHash = [],
      v2_DeploymentBlock = 0\<rparr>))\<rparr>"

definition venue_DiviSwap :: "getenv \<Rightarrow> venue" where
  "venue_DiviSwap ge =
     \<lparr>vn_Key = VenueKeyDiviSwap, vn_Name = ''DiviSwap'', vn_ChainKey = ChainKeyChiliz, vn_Kind = VenueKindUniswapV2,
      vn_Enabled = True,
      vn_Config = (Some (UniswapV2Config \<lparr>v2_FactoryAddress = ''0xbdd9c322ecf401e09c9d2dca3be46a7e45d48bb1'',
      v2_RouterAddress = (envOrDefault ge ''DIVISWAP_ROUTER_ADDRESS'' []), v2_InitCodeHash = [],
      v2_DeploymentBlock = 0\<rparr>))\<rparr>"

definition venue_KayenSwap :: "getenv \<Rightarrow> venue" where
  "venue_KayenSwap ge =
     \<lparr>vn_Key = VenueKeyKayenSwap, vn_Name = ''KayenSwap'', vn_ChainKey = ChainKeyChiliz, vn_Kind = VenueKindUniswapV2,
      vn_Enabled = True,
      vn_Config = (Some (UniswapV2Config \<lparr>v2_FactoryAddress = ''0xE2918AA38088878546c1A18F2F9b1BC83297fdD3'',
      v2_RouterAddress = (envOrDefault ge ''KAYENSWAP_ROUTER_ADDRESS'' ''0x1918EbB39492C8b98865c5E53219c3f1AE79e76F''),
      v2_InitCodeHash = [], v2_DeploymentBlock = 0\<rparr>))\<rparr>"

definition venue_Raydium :: "getenv \<Rightarrow> venue" where
  "venue_Raydium ge =
     \<lparr>vn_Key = VenueKeyRaydium, vn_Name = ''Raydium'', vn_ChainKey = ChainKeySolana, vn_Kind = VenueKindRaydium,
      vn_Enabled = True,
      vn_Config = (Some (RaydiumConfig \<lparr>ray_AMMProgramID = ''675kPX9MHTjS2zt1qfr1NYHuzeLXfQM9H24wFSUt1Mp8'',
      ray_CLMMProgramID = ''CAMMCzo5YL8w4VFF8KVHrK22GGUsp5VTaW7grrKgrWqK'',
      ray_CPMMProgramID = ''CPMMoo8L3F4NbTegBCKVNunggL7H1ZpdTHKxQB5qKP1C'', ray_OpenBookProgramID = []\<rparr>))\<rparr>"

definition venue_Orca :: "getenv \<Rightarrow> venue" where
  "venue_Orca ge =
     \<lparr>vn_Key = VenueKeyOrca, vn_Name = ''Orca'', vn_ChainKey = ChainKeySolana, vn_Kind = VenueKindOrca, vn_Enabled = True,
      vn_Config = (Some (OrcaConfig \<lparr>orca_WhirlpoolProgramID = ''whirLbMiicVdio4qvUfM5KAg6Ct8VwpYzGff3uctyCc'',
      orca_ConfigAccounts = [''2LecshUwdy9xi7meFgHtFJQNSKk4KdTrcpvaB56dP2NQ'']\<rparr>))\<rparr>"

definition venue_Meteora :: "getenv \<Rightarrow> venue" where
  "venue_Meteora ge =
     \<lparr>vn_Key = VenueKeyMeteora, vn_Name = ''Meteora DLMM'', vn_ChainKey = ChainKeySolana, vn_Kind = VenueKindMeteora,
      vn_Enabled = True,
      vn_Config = (Some (MeteoraConfig \<lparr>met_DLMMProgramID = ''LBUZKhRxPF3XUpBCjp4YzTKgLccjZhTSDM9YuVaPwxo''\<rparr>))\<rparr>"

definition venue_AerodromeClassic :: "getenv \<Rightarrow> venue" where
  "venue_AerodromeClassic ge =
     \<lparr>vn_Key = VenueKeyAerodromeClassic, vn_Name = ''Aerodrome Classic'', vn_ChainKey = ChainKeyBase,
      vn_Kind = VenueKindAerodrome, vn_Enabled = True,
      vn_Config = (Some (AerodromeClassicConfig \<lparr>aero_PoolFactoryAddress = ''0x420DD381b31aEf6683db6B902084cB0FFECe40Da'',
      aero_RouterAddress = ''0xcF77a3Ba9A5CA399B7c97c74d54e5b1Beb874E43'',
      aero_VoterAddress = ''0x16613524e02ad97eDfeF371bC883F2F5d6C480A5'', aero_DeploymentBlock = 0\<rparr>))\<rparr>"

definition venue_AerodromeSlipstream :: "getenv \<Rightarrow> venue" where
  "venue_AerodromeSlipstream ge =
     \<lparr>vn_Key = VenueKeyAerodromeSlipstream, vn_Name = ''Aerodrome Slipstream'', vn_ChainKey = ChainKeyBase,
      vn_Kind = VenueKindUniswapV3, vn_Enabled = True,
      vn_Config = (Some (UniswapV3Config \<lparr>v3_FactoryAddress = (envOrDefault ge ''AERODROME_SLIPSTREAM_FACTORY_ADDRESS'' ''0x5e7BB104d84c7CB9B682AaC2F3d509f5F406809A''),
      v3_RouterAddress = (envOrDefault ge ''AERODROME_SLIPSTREAM_ROUTER_ADDRESS'' ''0xBE6D8f0d05cC4be24d5167a3eF062215bE6D18a5''),
      v3_QuoterAddress = (envOrDefault ge ''AERODROME_SLIPSTREAM_QUOTER_ADDRESS'' ''0x254cF9E1E6e233aa1AC962CB9B05b2cfeAaE15b0''),
      v3_PositionManagerAddress = (envOrDefault ge ''AERODROME_SLIPSTREAM_POSITION_MANAGER_ADDRESS'' ''0x827922686190790b37229fd06084350E74485b72''),
      v3_DeploymentBlock = 0\<rparr>))\<rparr>"

definition venue_UniswapV1Ethereum :: "getenv \<Rightarrow> venue" where
  "venue_UniswapV1Ethereum ge =
     \<lparr>vn_Key = VenueKeyUniswapV1Ethereum, vn_Name = ''Uniswap V1'', vn_ChainKey = ChainKeyEthereum,
      vn_Kind = VenueKindUniswapV1, vn_Enabled = True,
      vn_Config = (Some (UniswapV1Config \<lparr>v1_FactoryAddress = (envOrDefault ge ''UNISWAP_V1_FACTORY_ADDRESS'' ''0xc0a47dFe034B400B47bDaD5FecDa2621de6c4d95''),
      v1_WETHAddress = (envOrDefault ge ''ETHEREUM_WETH_ADDRESS'' ''0xC02aaA39b223FE8D0A0e5C4F27eAD9083C756Cc2''),
      v1_DeploymentBlock = 0\<rparr>))\<rparr>"

definition venue_UniswapV2Ethereum :: "getenv \<Rightarrow> venue" where
  "venue_UniswapV2Ethereum ge =
     \<lparr>vn_Key = VenueKeyUniswapV2Ethereum, vn_Name = ''Uniswap V2'', vn_ChainKey = ChainKeyEthereum,
      vn_Kind = VenueKindUniswapV2, vn_Enabled = True,
      vn_Config = (Some (UniswapV2Config \<lparr>v2_FactoryAddress = (envOrDefault ge ''UNISWAP_V2_FACTORY_ADDRESS'' ''0x5C69bEe701ef814a2B6a3EDD4B1652CB9cc5aA6f''),
      v2_RouterAddress = (envOrDefault ge ''UNISWAP_V2_ROUTER_ADDRESS'' ''0x7a250d5630B4cF539739dF2C5dAcb4c659F2488D''),
      v2_InitCodeHash = [], v2_DeploymentBlock = 0\<rparr>))\<rparr>"

definition venue_UniswapV3Ethereum :: "getenv \<Rightarrow> venue" where
  "venue_UniswapV3Ethereum ge =
     \<lparr>vn_Key = VenueKeyUniswapV3Ethereum, vn_Name = ''Uniswap V3'', vn_ChainKey = ChainKeyEthereum,
      vn_Kind = VenueKindUniswapV3, vn_Enabled = True,
      vn_Config = (Some (UniswapV3Config \<lparr>v3_FactoryAddress = (envOrDefault ge ''UNISWAP_V3_FACTORY_ADDRESS'' ''0x1F98431c8aD98523631AE4a59f267346ea31F984''),
      v3_RouterAddress = (envOrDefault ge ''UNISWAP_V3_ROUTER_ADDRESS'' ''0xE592427A0AEce92De3Edee1F18E0157C05861564''),
      v3_QuoterAddress = (envOrDefault ge ''UNISWAP_V3_QUOTER_ADDRESS'' ''0x61fFE014bA17989E743c5F6cB21bF9697530B21e''),
      v3_PositionManagerAddress = (envOrDefault ge ''UNISWAP_V3_POSITION_MANAGER_ADDRESS'' ''0xC36442b4a4522E871399CD717aBDD847Ab11FE88''),
      v3_DeploymentBlock = 0\<rparr>))\<rparr>"

definition venue_PangolinAvalanche :: "getenv \<Rightarrow> venue" where
  "venue_PangolinAvalanche ge =
     \<lparr>vn_Key = VenueKeyPangolinAvalanche, vn_Name = ''Pangolin'', vn_ChainKey = ChainKeyAvalanche,
      vn_Kind = VenueKindUniswapV2, vn_Enabled = True,
      vn_Config = (Some (UniswapV2Config \<lparr>v2_FactoryAddress = (envOrDefault ge ''PANGOLIN_FACTORY_ADDRESS'' ''0xefa94de7a5529449c8a6857d5b3b61e4c03ee475''),
      v2_RouterAddress = (envOrDefault ge ''PANGOLIN_ROUTER_ADDRESS'' ''0xe54ca86531e17ef3616d22ca28b0d458b6c89106''),
      v2_InitCodeHash = [], v2_DeploymentBlock = 0\<rparr>))\<rparr>"

definition venue_TraderJoeAvalanche :: "getenv \<Rightarrow> venue" where
  "venue_TraderJoeAvalanche ge =
     \<lparr>vn_Key = VenueKeyTraderJoeAvalanche, vn_Name = ''Trader Joe'', vn_ChainKey = ChainKeyAvalanche,
      vn_Kind = VenueKindUniswapV2, vn_Enabled = True,
      vn_Config = (Some (UniswapV2Config \<lparr>v2_FactoryAddress = (envOrDefault ge ''TRADERJOE_FACTORY_ADDRESS'' ''0x9Ad6C38BE94206cA50bb0d90783181662f0Cfa10''),
      v2_RouterAddress = (envOrDefault ge ''TRADERJOE_ROUTER_ADDRESS'' ''0x60aE616a2155Ee3d9A68541Ba4544862310933d4''),
      v2_InitCodeHash = [], v2_DeploymentBlock = 0\<rparr>))\<rparr>"

definition default_venues :: "getenv \<Rightarrow> venue list" where
  "default_venues ge =
     [venue_KewlSwap ge, venue_DiviSwap ge, venue_KayenSwap ge, venue_Raydium ge, venue_Orca ge, venue_Meteora ge, venue_AerodromeClassic ge, venue_AerodromeSlipstream ge, venue_UniswapV1Ethereum ge, venue_UniswapV2Ethereum ge, venue_UniswapV3Ethereum ge, venue_PangolinAvalanche ge, venue_TraderJoeAvalanche ge]"

section \<open>The registries\<close>

record registries =
  rg_Chains :: chain_registry
  rg_Assets :: asset_registry
  rg_Venues :: venue_registry
  rg_Markets :: market_registry

definition LoadDefaultRegistries :: "getenv \<Rightarrow> registries" where
  "LoadDefaultRegistries ge =
     \<lparr>rg_Chains = chain_NewRegistry (default_chains ge), rg_Assets = asset_NewRegistry default_assets,
      rg_Venues = venue_NewRegistry (default_venues ge), rg_Markets = market_NewRegistry (usdMarketsForAssets default_assets)\<rparr>"

section \<open>They fit together\<close>

lemma rpcURLsFromEnv_ne: "fallback \<noteq> [] \<Longrightarrow> rpcURLsFromEnv ge key fallback \<noteq> []"
  by (simp add: rpcURLsFromEnv_def Let_def)

lemma row_saves_distinct: "distinct (map key (acc @ xs)) \<Longrightarrow> fold (row_save key) xs acc = acc @ xs"
proof (induction xs arbitrary: acc)
  case Nil
  then show ?case by simp
next
  case (Cons x xs)
  have "row_save key x acc = acc @ [x]" if "key x \<notin> key ` set acc" for acc using that by (induction acc) auto
  then show ?case using Cons.prems Cons.IH [of "acc @ [x]"] by auto
qed

lemmas chain_key_defs = ChainKeyBinanceSmartChain_def ChainKeyEthereum_def ChainKeyChiliz_def ChainKeySolana_def ChainKeyBase_def
  ChainKeyAvalanche_def

lemmas venue_key_defs = VenueKeyKewlSwap_def VenueKeyDiviSwap_def VenueKeyKayenSwap_def VenueKeyAerodromeClassic_def
  VenueKeyUniswapV1Ethereum_def VenueKeyUniswapV2Ethereum_def VenueKeyUniswapV3Ethereum_def VenueKeyPangolinAvalanche_def
  VenueKeyTraderJoeAvalanche_def VenueKeyRaydium_def VenueKeyOrca_def VenueKeyMeteora_def VenueKeyAerodromeSlipstream_def

lemmas default_chain_defs = chain_chiliz_def chain_solana_def chain_base_def chain_ethereum_def chain_avalanche_def

lemmas default_venue_defs = venue_KewlSwap_def venue_DiviSwap_def venue_KayenSwap_def venue_Raydium_def venue_Orca_def venue_Meteora_def
  venue_AerodromeClassic_def venue_AerodromeSlipstream_def venue_UniswapV1Ethereum_def venue_UniswapV2Ethereum_def
  venue_UniswapV3Ethereum_def venue_PangolinAvalanche_def venue_TraderJoeAvalanche_def

lemma chains_registered: "rg_Chains (LoadDefaultRegistries ge) = default_chains ge"
proof -
  have "distinct (map ch_Key (default_chains ge))" by (simp add: default_chains_def default_chain_defs chain_key_defs)
  then show ?thesis using row_saves_distinct [of ch_Key "[]"] by (simp add: LoadDefaultRegistries_def chain_NewRegistry_def)
qed

lemma venues_registered: "rg_Venues (LoadDefaultRegistries ge) = default_venues ge"
proof -
  have "distinct (map vn_Key (default_venues ge))" by (simp add: default_venues_def default_venue_defs venue_key_defs)
  then show ?thesis using row_saves_distinct [of vn_Key "[]"] by (simp add: LoadDefaultRegistries_def venue_NewRegistry_def)
qed

lemma assets_registered: "rg_Assets (LoadDefaultRegistries ge) = default_assets"
proof -
  have "distinct (map a_Symbol default_assets)" by code_simp
  then show ?thesis using row_saves_distinct [of a_Symbol "[]"] by (simp add: LoadDefaultRegistries_def asset_NewRegistry_def)
qed

text \<open>What the pool scanner asks of a venue: a valid configuration, a chain with addresses of its nodes, and
  on an Ethereum chain a scanner.\<close>

definition scannable :: "registries \<Rightarrow> evm_node \<Rightarrow> venue \<Rightarrow> bool" where
  "scannable regs nd v \<longleftrightarrow>
     Venue_Validate v = Inr () \<and> vn_Enabled v \<and> supported_kind (vn_Kind v) \<and>
     (case chain_Get (rg_Chains regs) (vn_ChainKey v) of
        None \<Rightarrow> False
      | Some ch \<Rightarrow> ch_RPCURLs ch \<noteq> [] \<and>
          (ch_Kind ch = KindSolana \<or>
           ch_Kind ch = KindEVM \<and> ch_Multicall3Address ch \<noteq> [] \<and>
             (case build_scanner nd ch v of Inr (Some sc) \<Rightarrow> True | _ \<Rightarrow> False)))"

definition invalid_deployments :: "asset_registry \<Rightarrow> (string \<times> string) list" where
  "invalid_deployments assets =
     concat (map (\<lambda>a. map (\<lambda>d. (a_Symbol a, dp_ChainKey d))
       (filter (\<lambda>d. Deployment_Validate d \<noteq> Inr ()) (a_Deployments a))) (asset_All assets))"

text \<open>C39: The default registries fit together in every environment: every default venue passes its validation and lies on a
  registered chain with nodes, on which, where the chain is an Ethereum one, it gets a scanner; every asset has its market against USD; and of all deployments only
  the one of CHZ on Solana, given by an address instead of a mint, fails the validation of deployments.\<close>

theorem default_registries_fit:
  "list_all (scannable (LoadDefaultRegistries ge) nd) (rg_Venues (LoadDefaultRegistries ge)) \<and>
   map m_Symbol (rg_Markets (LoadDefaultRegistries ge)) = map (\<lambda>a. a_Symbol a @ ''/USD'') (rg_Assets (LoadDefaultRegistries ge)) \<and>
   invalid_deployments (rg_Assets (LoadDefaultRegistries ge)) = [(''CHZ'', ''solana'')]"
proof (intro conjI)
  show "list_all (scannable (LoadDefaultRegistries ge) nd) (rg_Venues (LoadDefaultRegistries ge))"
    unfolding venues_registered
    by (simp add: default_venues_def default_venue_defs scannable_def chains_registered chain_Get_def default_chains_def
        default_chain_defs Venue_Validate_def supported_kind_def build_scanner_def chain_key_defs venue_key_defs rpcURLsFromEnv_ne
        Let_def)
  show "map m_Symbol (rg_Markets (LoadDefaultRegistries ge)) = map (\<lambda>a. a_Symbol a @ ''/USD'') (rg_Assets (LoadDefaultRegistries ge))"
    unfolding assets_registered by (simp add: LoadDefaultRegistries_def) code_simp
  show "invalid_deployments (rg_Assets (LoadDefaultRegistries ge)) = [(''CHZ'', ''solana'')]"
    unfolding assets_registered by code_simp
qed

end
