(* ===== verification/GatewayClient.thy ===== *)
theory GatewayClient
  imports Defaults RestCallbacks
begin

text \<open>
  The client of the payment gateway (\<^verbatim>\<open>internal/adapters/paymentgateway/client.go\<close>), the registry of assets it feeds
  (\<^verbatim>\<open>internal/config/gateway_assets.go\<close>) and its use as the wallet provider of the order service, with the socket payload of
  a price update (\<^verbatim>\<open>internal/app/apiruntime/service.go\<close>). The network is a parameter: \<open>gl_http\<close> gives the status and the body of an
  answer, or nothing where the connection fails; addresses, JSON, UUIDs and HMAC are parameters as well. Errors are messages.
\<close>

section \<open>Configuration\<close>

record gateway_config =
  gc_BaseURL :: string
  gc_APIKey :: string
  gc_APISecret :: string
  gc_MerchantID :: string
  gc_DomainID :: string
  gc_ProductID :: string
  gc_Timeout :: duration

definition defaultBaseURL :: string where
  "defaultBaseURL = ''http://localhost:3001''"

definition ten_seconds :: duration where
  "ten_seconds = 10 * second"

definition envFirst :: "getenv \<Rightarrow> string list \<Rightarrow> string" where
  "envFirst ge keys = first_text (map ge keys)"

definition gateway_ConfigFromEnv :: "(string \<Rightarrow> duration option) \<Rightarrow> getenv \<Rightarrow> gateway_config" where
  "gateway_ConfigFromEnv parse ge =
     \<lparr>gc_BaseURL = envOrDefault ge ''PAYMENT_GATEWAY_BASE_URL'' defaultBaseURL,
      gc_APIKey = trim_space (ge ''PAYMENT_GATEWAY_API_KEY''),
      gc_APISecret = envFirst ge [''PAYMENT_GATEWAY_API_SECRET'', ''PAYMENT_GATEWAY_SECRET_KEY'', ''PAYMENT_GATEWAY_API_SECRET_KEY''],
      gc_MerchantID = trim_space (ge ''PAYMENT_GATEWAY_MERCHANT_ID''), gc_DomainID = trim_space (ge ''PAYMENT_GATEWAY_DOMAIN_ID''),
      gc_ProductID = trim_space (ge ''PAYMENT_GATEWAY_PRODUCT_ID''),
      gc_Timeout = durationFromEnv parse ge ''PAYMENT_GATEWAY_TIMEOUT'' ten_seconds\<rparr>"

definition trim_slashes :: "string \<Rightarrow> string" where
  "trim_slashes s = rev (dropWhile (\<lambda>c. c = CHR ''/'') (rev s))"

definition gateway_NewClient :: "gateway_config \<Rightarrow> gateway_config" where
  "gateway_NewClient cfg =
     (let base = trim_slashes (trim_space (gc_BaseURL cfg)) in
      cfg\<lparr>gc_BaseURL := (if base = [] then defaultBaseURL else base),
          gc_Timeout := (if gc_Timeout cfg \<le> 0 then ten_seconds else gc_Timeout cfg)\<rparr>)"

definition gateway_Enabled :: "gateway_config \<Rightarrow> bool" where
  "gateway_Enabled c \<longleftrightarrow> gc_BaseURL c \<noteq> [] \<and> gc_MerchantID c \<noteq> [] \<and> gc_DomainID c \<noteq> []"

definition StaticAddressEnabled :: "gateway_config \<Rightarrow> bool" where
  "StaticAddressEnabled c \<longleftrightarrow> gc_BaseURL c \<noteq> [] \<and> gc_APIKey c \<noteq> [] \<and> gc_APISecret c \<noteq> []"

definition QRCodeEnabled :: "gateway_config \<Rightarrow> bool" where
  "QRCodeEnabled c \<longleftrightarrow> gc_BaseURL c \<noteq> []"

section \<open>Messages\<close>

record gateway_deployment =
  gy_Symbol :: string
  gy_Name :: string
  gy_Type :: string
  gy_Chain :: string
  gy_Network :: string
  gy_ChainID :: int
  gy_Decimals :: int
  gy_Native :: bool
  gy_Enabled :: bool
  gy_Identifier :: string
  gy_TokenAddress :: string
  gy_MintAddress :: string
  gy_LogoURL :: string
  gy_ChainLogoURL :: string

record gateway_asset =
  gs_Symbol :: string
  gs_Name :: string
  gs_Type :: string
  gs_Decimals :: int
  gs_LogoURL :: string
  gs_Deployments :: "gateway_deployment list"

record 'a gateway_reply =
  ry_Result :: string
  ry_Message :: string
  ry_Data :: 'a

record static_address_request =
  sq_UserID :: string
  sq_Symbol :: string
  sq_ChainID :: int
  sq_Label :: string

record wallet_create_request =
  wq_MerchantID :: string
  wq_DomainID :: string
  wq_ProductID :: string
  wq_UserID :: string

record http_request =
  hq_Method :: string
  hq_URL :: string
  hq_Headers :: "(string \<times> string) list"
  hq_Body :: string

text \<open>A wallet answer gives the addresses by chain.\<close>

record gateway_lib =
  gl_http :: "http_request \<Rightarrow> (int \<times> string) option"
  gl_resolve :: "string \<Rightarrow> string \<Rightarrow> string option"
  gl_with_query :: "string \<Rightarrow> (string \<times> string) list \<Rightarrow> string option"
  gl_absolute :: "string \<Rightarrow> string option"
  gl_base_ok :: "string \<Rightarrow> bool"
  gl_is_uuid :: "string \<Rightarrow> bool"
  gl_hmac :: "string \<Rightarrow> string \<Rightarrow> bytes"
  gl_wallet_json :: "wallet_create_request \<Rightarrow> string option"
  gl_static_json :: "static_address_request \<Rightarrow> string option"
  gl_unjson_assets :: "string \<Rightarrow> gateway_asset list gateway_reply option"
  gl_unjson_static :: "string \<Rightarrow> gateway_address gateway_reply option"
  gl_unjson_wallets :: "string \<Rightarrow> (string \<Rightarrow> string) option"

section \<open>Requests\<close>

definition sign_headers :: "env \<Rightarrow> gateway_lib \<Rightarrow> gateway_config \<Rightarrow> string \<Rightarrow> (string \<times> string) list" where
  "sign_headers env lib c body =
     (if gc_APIKey c = [] then [] else [(''X-API-Key'', gc_APIKey c)]) @
     (if gc_APISecret c = [] then []
      else (let timestamp = itoa (e_now env div second) in
            [(''X-API-Secret'', gc_APISecret c), (''X-Gateway-Timestamp'', timestamp),
             (''X-Gateway-Signature'', ''sha256='' @ hex_encode (gl_hmac lib (gc_APISecret c) (timestamp @ body)))]))"

definition gateway_url :: "gateway_lib \<Rightarrow> gateway_config \<Rightarrow> string \<Rightarrow> string option" where
  "gateway_url lib c path = gl_resolve lib (gc_BaseURL c) (dropWhile (\<lambda>x. x = CHR ''/'') path)"

text \<open>The body of an answer is decoded unless it is empty; then the zero value stays.\<close>

definition decodeJSONResponse :: "string \<Rightarrow> (string \<Rightarrow> 'a option) \<Rightarrow> 'a \<Rightarrow> int \<times> string \<Rightarrow> string + 'a" where
  "decodeJSONResponse path unjson zero reply =
     (case reply of (st, raw) \<Rightarrow>
        if st < 200 \<or> 300 \<le> st then Inl (''payment gateway '' @ path @ '' returned '' @ itoa st @ '': '' @ trim_space raw)
        else if raw = [] then Inr zero
        else (case unjson raw of None \<Rightarrow> Inl ''json'' | Some x \<Rightarrow> Inr x))"

definition send_request :: "gateway_lib \<Rightarrow> string \<Rightarrow> http_request \<Rightarrow> (string \<Rightarrow> 'a option) \<Rightarrow> 'a \<Rightarrow> string + 'a" where
  "send_request lib path req unjson zero =
     (case gl_http lib req of None \<Rightarrow> Inl ''connection'' | Some reply \<Rightarrow> decodeJSONResponse path unjson zero reply)"

definition getJSON :: "env \<Rightarrow> gateway_lib \<Rightarrow> gateway_config \<Rightarrow> string \<Rightarrow> (string \<Rightarrow> 'a option) \<Rightarrow> 'a \<Rightarrow> string + 'a" where
  "getJSON env lib c path unjson zero =
     (case gateway_url lib c path of
        None \<Rightarrow> Inl ''url''
      | Some target_url \<Rightarrow>
          send_request lib path \<lparr>hq_Method = ''GET'', hq_URL = target_url,
            hq_Headers = (''Accept'', ''application/json'') # sign_headers env lib c [], hq_Body = []\<rparr> unjson zero)"

definition postJSON :: "env \<Rightarrow> gateway_lib \<Rightarrow> gateway_config \<Rightarrow> string \<Rightarrow> string option \<Rightarrow> (string \<Rightarrow> 'a option) \<Rightarrow> 'a \<Rightarrow> string + 'a" where
  "postJSON env lib c path payload unjson zero =
     (case payload of
        None \<Rightarrow> Inl ''json''
      | Some body \<Rightarrow>
          (case gateway_url lib c path of
             None \<Rightarrow> Inl ''url''
           | Some target_url \<Rightarrow>
               send_request lib path \<lparr>hq_Method = ''POST'', hq_URL = target_url,
                 hq_Headers = [(''Content-Type'', ''application/json''), (''Accept'', ''application/json'')] @ sign_headers env lib c body,
                 hq_Body = body\<rparr> unjson zero))"

definition reply_ok :: "string \<Rightarrow> 'a gateway_reply \<Rightarrow> string + 'a" where
  "reply_ok what r =
     (if ry_Result r \<noteq> [] \<and> \<not> equal_fold (ry_Result r) ''ok''
      then Inl (''payment gateway '' @ what @ '' returned '' @ ry_Result r @ (if ry_Message r = [] then [] else '': '' @ ry_Message r))
      else Inr (ry_Data r))"

definition gateway_Assets :: "env \<Rightarrow> gateway_lib \<Rightarrow> gateway_config \<Rightarrow> string + gateway_asset list" where
  "gateway_Assets env lib c =
     (case getJSON env lib c ''/api/v1/common/assets'' (gl_unjson_assets lib) \<lparr>ry_Result = [], ry_Message = [], ry_Data = []\<rparr> of
        Inl e \<Rightarrow> Inl e
      | Inr r \<Rightarrow> reply_ok ''assets'' r)"

definition walletCreatePayload :: "gateway_lib \<Rightarrow> gateway_config \<Rightarrow> string \<Rightarrow> string + wallet_create_request" where
  "walletCreatePayload lib c userID =
     (let merchantID = trim_space (gc_MerchantID c); domainID = trim_space (gc_DomainID c) in
      if gc_BaseURL c = [] then Inl ''payment gateway wallet client is not configured''
      else if merchantID = [] then Inl ''gateway wallet merchant_id is required''
      else if domainID = [] then Inl ''gateway wallet domain_id is required''
      else if \<not> gl_is_uuid lib merchantID then Inl ''gateway wallet merchant_id must be a UUID''
      else if \<not> gl_is_uuid lib domainID then Inl ''gateway wallet domain_id must be a UUID''
      else Inr \<lparr>wq_MerchantID = merchantID, wq_DomainID = domainID, wq_ProductID = domainID, wq_UserID = userID\<rparr>)"

definition wallet_chains :: "(string \<times> chain_key) list" where
  "wallet_chains =
     [(''ethereum'', ''ethereum''), (''base'', ''base''), (''chiliz'', ''chiliz''), (''solana'', ''solana''), (''avalanche'', ''avalanche''),
      (''unichain'', ''unichain''), (''arbitrum'', ''arbitrum''), (''bnbchain'', ''binance_smart_chain'')]"

definition created_wallets :: "(string \<Rightarrow> string) \<Rightarrow> (chain_key \<times> string) list" where
  "created_wallets r = filter (\<lambda>(k, a). a \<noteq> []) (map (\<lambda>(name, k). (k, trim_space (r name))) wallet_chains)"

definition CreateUserWallet :: "env \<Rightarrow> gateway_lib \<Rightarrow> gateway_config \<Rightarrow> string \<Rightarrow> string + (chain_key \<times> string) list" where
  "CreateUserWallet env lib c userID0 =
     (let userID = trim_space userID0 in
      if userID = [] then Inl ''gateway wallet user_id is required''
      else (case walletCreatePayload lib c userID of
              Inl e \<Rightarrow> Inl e
            | Inr payload \<Rightarrow>
                if \<not> gateway_Enabled c then Inl ''payment gateway wallet client is not configured''
                else (case postJSON env lib c ''/merchant.wallet.create'' (gl_wallet_json lib payload) (gl_unjson_wallets lib) (\<lambda>k. []) of
                        Inl e \<Rightarrow> Inl e
                      | Inr r \<Rightarrow> Inr (created_wallets r))))"

definition no_address :: gateway_address where
  "no_address = \<lparr>ga_WalletID = [], ga_UserID = [], ga_Symbol = [], ga_Chain = [], ga_Address = [], ga_Label = []\<rparr>"

definition CreateStaticAddress :: "env \<Rightarrow> gateway_lib \<Rightarrow> gateway_config \<Rightarrow> static_address_request \<Rightarrow> string + gateway_address" where
  "CreateStaticAddress env lib c req0 =
     (let req = req0\<lparr>sq_UserID := trim_space (sq_UserID req0), sq_Symbol := to_upper (trim_space (sq_Symbol req0)),
                     sq_Label := trim_space (sq_Label req0)\<rparr> in
      if sq_UserID req = [] then Inl ''gateway static address user_id is required''
      else if sq_Symbol req = [] then Inl ''gateway static address symbol is required''
      else if sq_ChainID req < 0 then Inl ''gateway static address chain_id is required''
      else if \<not> StaticAddressEnabled c then Inl ''payment gateway static address client is not configured''
      else (case postJSON env lib c ''/api/v1/payment/static-address'' (gl_static_json lib req) (gl_unjson_static lib)
                   \<lparr>ry_Result = [], ry_Message = [], ry_Data = no_address\<rparr> of
              Inl e \<Rightarrow> Inl e
            | Inr r \<Rightarrow>
                (case reply_ok ''static address'' r of
                   Inl e \<Rightarrow> Inl e
                 | Inr item \<Rightarrow>
                     if trim_space (ga_Address item) = [] then Inl ''payment gateway static address response did not include an address''
                     else Inr (item\<lparr>ga_Address := trim_space (ga_Address item), ga_Symbol := to_upper (trim_space (ga_Symbol item)),
                                   ga_Chain := to_lower (trim_space (ga_Chain item)), ga_Label := trim_space (ga_Label item)\<rparr>))))"

definition gateway_QRCode :: "gateway_lib \<Rightarrow> gateway_config \<Rightarrow> string \<Rightarrow> int \<Rightarrow> string + string" where
  "gateway_QRCode lib c address0 size0 =
     (let address = trim_space address0; sz = (if size0 \<le> 0 then 300 else size0) in
      if address = [] then Inl ''gateway qrcode address is required''
      else if gc_BaseURL c = [] then Inl ''payment gateway qrcode client is not configured''
      else (case Option.bind (gateway_url lib c ''/api/v1/common/qrcode'')
                   (\<lambda>u. gl_with_query lib u [(''address'', address), (''size'', itoa sz)]) of
              None \<Rightarrow> Inl ''url''
            | Some u \<Rightarrow>
                (case gl_http lib \<lparr>hq_Method = ''GET'', hq_URL = u, hq_Headers = [(''Accept'', ''image/png'')], hq_Body = []\<rparr> of
                   None \<Rightarrow> Inl ''connection''
                 | Some (st, raw) \<Rightarrow> if st < 200 \<or> 300 \<le> st then Inl (''payment gateway qrcode returned '' @ itoa st @ '': '' @ trim_space raw) else Inr raw)))"

section \<open>Assets of the gateway\<close>

definition normalizeGatewaySymbol :: "string \<Rightarrow> string" where
  "normalizeGatewaySymbol v = to_upper (trim_space v)"

definition normalizeGatewayNetwork :: "string \<Rightarrow> string" where
  "normalizeGatewayNetwork v = map (\<lambda>c. if c = CHR ''_'' then CHR ''-'' else c) (to_lower (trim_space v))"

definition gatewayChainKey :: "string \<Rightarrow> int \<Rightarrow> chain_key option" where
  "gatewayChainKey network chainID =
     (let n = normalizeGatewayNetwork network in
      case map_of
        [(''ethereum'', Some ChainKeyEthereum), (''base'', Some ChainKeyBase), (''chiliz'', Some ChainKeyChiliz), (''solana'', Some ChainKeySolana),
         (''avalanche'', Some ChainKeyAvalanche), (''arbitrum'', Some ChainKeyArbitrum), (''unichain'', Some ChainKeyUnichain),
         (''bnbchain'', Some ChainKeyBinanceSmartChain), (''bnb-chain'', Some ChainKeyBinanceSmartChain), (''bsc'', Some ChainKeyBinanceSmartChain),
         (''binance-smart-chain'', Some ChainKeyBinanceSmartChain), (''binance-smart-chain-mainnet'', Some ChainKeyBinanceSmartChain),
         (''tron'', Some ''tron''), (''bitcoin'', Some ''bitcoin''), (''chiliz-spicy'', None)] n of
        Some r \<Rightarrow> r
      | None \<Rightarrow>
          map_of [(1, ChainKeyEthereum), (8453, ChainKeyBase), (88888, ChainKeyChiliz), (99999999, ChainKeySolana), (43114, ChainKeyAvalanche),
            (42161, ChainKeyArbitrum), (130, ChainKeyUnichain), (56, ChainKeyBinanceSmartChain), (99999998, ''tron''), (0, ''bitcoin'')] chainID)"

definition gatewayAssetDecimals :: "gateway_asset \<Rightarrow> int" where
  "gatewayAssetDecimals item =
     (if gs_Decimals item \<noteq> 0 then gs_Decimals item
      else (case find (\<lambda>d. gy_Decimals d \<noteq> 0) (gs_Deployments item) of None \<Rightarrow> 0 | Some d \<Rightarrow> gy_Decimals d))"

definition gatewayAssetURL :: "gateway_lib \<Rightarrow> string \<Rightarrow> string \<Rightarrow> string" where
  "gatewayAssetURL lib baseURL value0 =
     (let v = trim_space value0 in
      if v = [] then []
      else (case gl_absolute lib v of
              Some u \<Rightarrow> u
            | None \<Rightarrow>
                (let base = trim_slashes (trim_space baseURL) @ ''/'' in
                 if \<not> gl_base_ok lib base then v
                 else (case gl_resolve lib base v of None \<Rightarrow> v | Some u \<Rightarrow> u))))"

definition gatewayDeploymentToRegistryDeployment :: "gateway_lib \<Rightarrow> string \<Rightarrow> gateway_asset \<Rightarrow> gateway_deployment \<Rightarrow> deployment option" where
  "gatewayDeploymentToRegistryDeployment lib baseURL item d =
     (if \<not> gy_Enabled d then None
      else (case gatewayChainKey (gy_Network d) (gy_ChainID d) of
              None \<Rightarrow> None
            | Some chainKey \<Rightarrow>
                (let address = trim_space (gy_TokenAddress d); mint = trim_space (gy_MintAddress d);
                     native = (gy_Native d \<or> equal_fold (gy_Type d) ''native''); solana = (chainKey = ChainKeySolana) in
                 if solana \<and> \<not> native \<and> mint = [] \<or> \<not> solana \<and> \<not> native \<and> address = [] then None
                 else Some \<lparr>dp_ChainKey = chainKey, dp_Address = (if solana \<or> native then [] else address), dp_Name = gy_Name d,
                   dp_Symbol = normalizeGatewaySymbol (gy_Symbol d), dp_Mint = (if solana \<and> native then [] else mint),
                   dp_Decimals = (if gy_Decimals d = 0 then gs_Decimals item else gy_Decimals d), dp_Enabled = gy_Enabled d, dp_Native = native,
                   dp_IconURL = gatewayAssetURL lib baseURL (first_text [gy_LogoURL d, gs_LogoURL item]),
                   dp_ChainLogoURL = gatewayAssetURL lib baseURL (gy_ChainLogoURL d)\<rparr>)))"

definition deployment_seen_key :: "deployment \<Rightarrow> string" where
  "deployment_seen_key d = dp_ChainKey d @ '':'' @ to_lower (deployment_AssetID d)"

text \<open>An asset that is listed twice is merged: a deployment of it is added unless one with its key is there.\<close>

fun add_deployments :: "deployment list \<Rightarrow> deployment list \<Rightarrow> deployment list" where
  "add_deployments acc [] = acc"
| "add_deployments acc (d # ds) =
     add_deployments (if deployment_seen_key d \<in> deployment_seen_key ` set acc then acc else acc @ [d]) ds"

definition new_asset :: "gateway_lib \<Rightarrow> string \<Rightarrow> string \<Rightarrow> gateway_asset \<Rightarrow> asset" where
  "new_asset lib baseURL symbol item =
     \<lparr>a_Symbol = symbol, a_Name = first_text [gs_Name item, symbol], a_Type = first_text [gs_Type item, ''token''],
      a_Decimals = gatewayAssetDecimals item, a_IconURL = gatewayAssetURL lib baseURL (gs_LogoURL item), a_Deployments = []\<rparr>"

fun gatewayAssetsToRegistryAssets :: "gateway_lib \<Rightarrow> string \<Rightarrow> gateway_asset list \<Rightarrow> asset list \<Rightarrow> asset list" where
  "gatewayAssetsToRegistryAssets lib baseURL [] out = out"
| "gatewayAssetsToRegistryAssets lib baseURL (item # items) out =
     (let symbol = normalizeGatewaySymbol (gs_Symbol item) in
      if symbol = [] then gatewayAssetsToRegistryAssets lib baseURL items out
      else (let known = (case row_find a_Symbol symbol out of Some a \<Rightarrow> a | None \<Rightarrow> new_asset lib baseURL symbol item);
                mapped = List.map_filter (gatewayDeploymentToRegistryDeployment lib baseURL item) (gs_Deployments item)
            in gatewayAssetsToRegistryAssets lib baseURL items
                 (row_save a_Symbol (known\<lparr>a_Deployments := add_deployments (a_Deployments known) mapped\<rparr>) out)))"

definition LoadRegistries :: "env \<Rightarrow> gateway_lib \<Rightarrow> (string \<Rightarrow> duration option) \<Rightarrow> getenv \<Rightarrow> registries" where
  "LoadRegistries env lib parse ge =
     (let regs = LoadDefaultRegistries ge; client = gateway_NewClient (gateway_ConfigFromEnv parse ge) in
      (case gateway_Assets env lib client of
         Inl e \<Rightarrow> regs
       | Inr items \<Rightarrow>
           (let assets = gatewayAssetsToRegistryAssets lib (gc_BaseURL client) items [] in
            if assets = [] then regs
            else regs\<lparr>rg_Assets := asset_NewRegistry assets, rg_Markets := market_NewRegistry (usdMarketsForAssets assets)\<rparr>)))"

section \<open>The client as the wallet provider\<close>

definition wallet_provider :: "env \<Rightarrow> gateway_lib \<Rightarrow> gateway_config \<Rightarrow> gateway" where
  "wallet_provider env lib c =
     \<lparr>gw_CreateStaticAddress = (\<lambda>userID symbol chainID label.
        (case CreateStaticAddress env lib c \<lparr>sq_UserID = userID, sq_Symbol = symbol, sq_ChainID = chainID, sq_Label = label\<rparr> of
           Inl e \<Rightarrow> None | Inr item \<Rightarrow> Some item)),
      gw_QRCode = (\<lambda>address sz. case gateway_QRCode lib c address sz of Inl e \<Rightarrow> None | Inr raw \<Rightarrow> Some raw)\<rparr>"

definition with_provider :: "env \<Rightarrow> gateway_lib \<Rightarrow> gateway_config \<Rightarrow> service \<Rightarrow> service" where
  "with_provider env lib c s =
     (if gateway_Enabled c \<or> StaticAddressEnabled c \<or> QRCodeEnabled c then s\<lparr>sv_gateway := Some (wallet_provider env lib c)\<rparr> else s)"

text \<open>A price update is sent as it is unless it only names a symbol; \<open>read\<close> gives its type, its symbol and whether it has prices.\<close>

definition priceUpdateSocketPayload ::
    "(string \<Rightarrow> (string \<times> string \<times> bool) option) \<Rightarrow> (update_event \<Rightarrow> string option) \<Rightarrow> pricing_service \<Rightarrow> string \<Rightarrow> string" where
  "priceUpdateSocketPayload read encode prices payload =
     (case read payload of
        None \<Rightarrow> payload
      | Some (ty, symbol, has_prices) \<Rightarrow>
          if ty \<noteq> ''prices.updated'' \<or> symbol = [] \<or> has_prices then payload
          else (case Prices prices symbol of
                  Inl e \<Rightarrow> payload
                | Inr p \<Rightarrow> (case encode (NewUpdateEvent p) of None \<Rightarrow> payload | Some out \<Rightarrow> out)))"

definition Addr :: "getenv \<Rightarrow> string" where
  "Addr ge =
     (if ge ''API_ADDR'' \<noteq> [] then ge ''API_ADDR''
      else if ge ''PORT'' \<noteq> [] then '':'' @ ge ''PORT'' else '':8080'')"

section \<open>What the registry of the gateway holds\<close>

text \<open>The keys of the usable deployments that the gateway lists for a symbol, in all of its entries.\<close>

definition gateway_keys :: "gateway_lib \<Rightarrow> string \<Rightarrow> gateway_asset list \<Rightarrow> string \<Rightarrow> string set" where
  "gateway_keys lib baseURL items symbol =
     set (concat (map (\<lambda>i. map deployment_seen_key (List.map_filter (gatewayDeploymentToRegistryDeployment lib baseURL i) (gs_Deployments i)))
       (filter (\<lambda>i. normalizeGatewaySymbol (gs_Symbol i) = symbol) items)))"

definition merged_asset :: "gateway_lib \<Rightarrow> string \<Rightarrow> gateway_asset list \<Rightarrow> asset \<Rightarrow> bool" where
  "merged_asset lib baseURL items a \<longleftrightarrow>
     a_Symbol a \<noteq> [] \<and> distinct (map deployment_seen_key (a_Deployments a)) \<and>
     set (map deployment_seen_key (a_Deployments a)) = gateway_keys lib baseURL items (a_Symbol a) \<and>
     list_all (\<lambda>d. Deployment_Validate d = Inr () \<and> dp_Enabled d) (a_Deployments a)"

definition merged_registry :: "gateway_lib \<Rightarrow> string \<Rightarrow> gateway_asset list \<Rightarrow> asset list \<Rightarrow> bool" where
  "merged_registry lib baseURL items out \<longleftrightarrow>
     distinct (map a_Symbol out) \<and>
     set (map a_Symbol out) = set (map (\<lambda>i. normalizeGatewaySymbol (gs_Symbol i)) items) - {[]} \<and>
     list_all (merged_asset lib baseURL items) out"

lemma mapped_deployment_valid:
  "gatewayDeploymentToRegistryDeployment lib baseURL item d = Some m \<Longrightarrow> Deployment_Validate m = Inr () \<and> dp_Enabled m"
proof -
  assume m: "gatewayDeploymentToRegistryDeployment lib baseURL item d = Some m"
  define native where "native = (gy_Native d \<or> equal_fold (gy_Type d) ''native'')"
  show ?thesis
    using m unfolding gatewayDeploymentToRegistryDeployment_def Let_def native_def [symmetric]
    by (cases native; cases "gatewayChainKey (gy_Network d) (gy_ChainID d)"; cases "gy_Enabled d"; cases "trim_space (gy_MintAddress d) = []";
        cases "trim_space (gy_TokenAddress d) = []")
      (auto simp only: Deployment_Validate_def deployment.simps option.simps if_True if_False simp_thms split: if_split_asm if_split)
qed

lemma set_map_filter: "set (List.map_filter f xs) = {y. \<exists>x \<in> set xs. f x = Some y}"
  by (force simp: List.map_filter_def image_iff)

lemma add_deployments_distinct:
  "distinct (map deployment_seen_key acc) \<Longrightarrow> distinct (map deployment_seen_key (add_deployments acc ds))"
  by (induction ds arbitrary: acc) auto

lemma add_deployments_keys:
  "deployment_seen_key ` set (add_deployments acc ds) = deployment_seen_key ` set acc \<union> deployment_seen_key ` set ds"
  by (induction ds arbitrary: acc) auto

lemma add_deployments_all: "list_all P acc \<Longrightarrow> list_all P ds \<Longrightarrow> list_all P (add_deployments acc ds)"
  by (induction ds arbitrary: acc) auto

lemma gateway_keys_snoc:
  "gateway_keys lib baseURL (items @ [i]) s =
     gateway_keys lib baseURL items s \<union>
     (if normalizeGatewaySymbol (gs_Symbol i) = s
      then deployment_seen_key ` set (List.map_filter (gatewayDeploymentToRegistryDeployment lib baseURL i) (gs_Deployments i)) else {})"
  by (auto simp: gateway_keys_def)

lemma gateway_keys_unknown:
  "s \<notin> set (map (\<lambda>i. normalizeGatewaySymbol (gs_Symbol i)) items) \<Longrightarrow> gateway_keys lib baseURL items s = {}"
  by (auto simp: gateway_keys_def)

lemma merge_step:
  assumes reg: "merged_registry lib baseURL items out" and s: "s = normalizeGatewaySymbol (gs_Symbol i)" "s \<noteq> []"
    and known: "known = (case row_find a_Symbol s out of Some a \<Rightarrow> a | None \<Rightarrow> new_asset lib baseURL s i)"
    and mapped: "mapped = List.map_filter (gatewayDeploymentToRegistryDeployment lib baseURL i) (gs_Deployments i)"
  shows "merged_registry lib baseURL (items @ [i])
    (row_save a_Symbol (known\<lparr>a_Deployments := add_deployments (a_Deployments known) mapped\<rparr>) out)"
proof -
  let ?r = "known\<lparr>a_Deployments := add_deployments (a_Deployments known) mapped\<rparr>"
  have symbols: "a_Symbol ` set out = set (map (\<lambda>i. normalizeGatewaySymbol (gs_Symbol i)) items) - {[]}"
    using reg by (simp add: merged_registry_def)
  have sym: "a_Symbol ?r = s"
    using known by (auto simp: new_asset_def dest: row_find_key split: option.splits)
  have known_ok: "distinct (map deployment_seen_key (a_Deployments known)) \<and>
      deployment_seen_key ` set (a_Deployments known) = gateway_keys lib baseURL items s \<and>
      list_all (\<lambda>d. Deployment_Validate d = Inr () \<and> dp_Enabled d) (a_Deployments known)"
  proof (cases "row_find a_Symbol s out")
    case None
    then have "s \<notin> set (map (\<lambda>i. normalizeGatewaySymbol (gs_Symbol i)) items)" using symbols s(2) by (auto simp: row_find_None)
    then show ?thesis using None known by (simp add: new_asset_def gateway_keys_unknown)
  next
    case (Some a)
    then have "known = a" "merged_asset lib baseURL items a" "a_Symbol a = s"
      using reg known row_find_key [OF Some] by (simp_all add: merged_registry_def list_all_iff)
    then show ?thesis by (simp add: merged_asset_def)
  qed
  have "list_all (\<lambda>d. Deployment_Validate d = Inr () \<and> dp_Enabled d) mapped"
    unfolding mapped list_all_iff set_map_filter using mapped_deployment_valid by blast
  then have new: "merged_asset lib baseURL (items @ [i]) ?r"
    using known_ok s mapped sym
    by (simp add: merged_asset_def gateway_keys_snoc add_deployments_distinct add_deployments_keys add_deployments_all)
  have old: "merged_asset lib baseURL (items @ [i]) a" if "a \<in> set out" "a_Symbol a \<noteq> s" for a
    using that reg s by (simp add: merged_registry_def list_all_iff merged_asset_def gateway_keys_snoc)
  have distinct: "distinct (map a_Symbol out)" using reg by (simp add: merged_registry_def)
  have "a = ?r \<or> a \<in> set out \<and> a_Symbol a \<noteq> s" if "a \<in> set (row_save a_Symbol ?r out)" for a
  proof (cases "a_Symbol a = s")
    case True
    have "row_find a_Symbol (a_Symbol a) (row_save a_Symbol ?r out) = Some a"
      using that by (rule row_find_distinct [OF row_save_distinct [OF distinct]])
    then show ?thesis using True sym by (simp add: row_find_save)
  next
    case False
    then show ?thesis using set_row_save [OF that] sym by auto
  qed
  then have "list_all (merged_asset lib baseURL (items @ [i])) (row_save a_Symbol ?r out)"
    unfolding list_all_iff using new old by blast
  moreover have "set (map a_Symbol (row_save a_Symbol ?r out)) = set (map (\<lambda>i. normalizeGatewaySymbol (gs_Symbol i)) (items @ [i])) - {[]}"
    unfolding row_save_keys using symbols sym s by auto
  ultimately show ?thesis by (simp add: merged_registry_def row_save_distinct [OF distinct] del: set_map)
qed

lemma merge_skips:
  "merged_registry lib baseURL items out \<Longrightarrow> normalizeGatewaySymbol (gs_Symbol i) = [] \<Longrightarrow> merged_registry lib baseURL (items @ [i]) out"
  by (auto simp: merged_registry_def list_all_iff merged_asset_def gateway_keys_snoc)

lemma merge_all:
  "merged_registry lib baseURL seen out \<Longrightarrow>
   merged_registry lib baseURL (seen @ items) (gatewayAssetsToRegistryAssets lib baseURL items out)"
proof (induction items arbitrary: seen out)
  case Nil
  then show ?case by simp
next
  case (Cons i items)
  show ?case
  proof (cases "normalizeGatewaySymbol (gs_Symbol i) = []")
    case True
    then show ?thesis using Cons.IH [OF merge_skips [OF Cons.prems True]] by simp
  next
    case False
    show ?thesis using Cons.IH [OF merge_step [OF Cons.prems refl False refl refl]] False by (simp add: Let_def)
  qed
qed

text \<open>C40: The registry built from the assets of the payment gateway has one asset for every non-empty symbol the gateway
  lists, and no other; each has exactly the usable deployments of all entries of its symbol, one per chain and
  identifier; and every deployment is enabled and passes the validation of deployments.\<close>

theorem gateway_registry_merges:
  "merged_registry lib baseURL items (gatewayAssetsToRegistryAssets lib baseURL items [])"
proof -
  have "merged_registry lib baseURL [] []" by (simp add: merged_registry_def)
  then show ?thesis using merge_all [of lib baseURL "[]" "[]" items] by simp
qed

end
