(* ===== verification/Delivery.thy ===== *)
theory Delivery
  imports GatewayClient Matcher
begin

text \<open>
  How updates reach the browsers: the message backends behind the outbox worker (\<^verbatim>\<open>internal/adapters/eventstream\<close> and
  \<^verbatim>\<open>internal/adapters/storage/postgres/listener.go\<close>), the subscription of the API process
  (\<^verbatim>\<open>internal/app/apiruntime/service.go\<close>) and the hub of web sockets (\<^verbatim>\<open>internal/interfaces/rest/hub.go\<close>). The clients of
  the backends are parameters: sending may fail, and a subscription yields a sequence of messages and errors, which is an
  interleaving where a backend has one reader per topic. A subscription that is at the end of its sequence was canceled.
\<close>

section \<open>Messages and backends\<close>

record message =
  ms_Topic :: string
  ms_Key :: string
  ms_Payload :: string

datatype backend = PostgresBackend | RedisBackend | NATSBackend | KafkaBackend

definition normalizeTopic :: "string \<Rightarrow> string" where
  "normalizeTopic topic = trim_space topic"

definition backend_name :: "getenv \<Rightarrow> string" where
  "backend_name ge =
     (let b = to_lower (trim_space (ge ''EVENT_BACKEND'')); fallback = to_lower (trim_space (ge ''OUTBOX_DELIVERY_BACKEND'')) in
      if b \<noteq> [] then b else if fallback \<noteq> [] then fallback else ''postgres'')"

definition NewFromEnv :: "(backend \<Rightarrow> string + 'b) \<Rightarrow> getenv \<Rightarrow> string + 'b" where
  "NewFromEnv connect ge =
     (let b = backend_name ge in
      if b \<in> {''postgres'', ''pg'', ''notify'', ''postgres_notify''} then connect PostgresBackend
      else if b = ''redis'' then connect RedisBackend
      else if b = ''nats'' then connect NATSBackend
      else if b = ''kafka'' then connect KafkaBackend
      else Inl (''unsupported EVENT_BACKEND '' @ b))"

definition splitCSV :: "string \<Rightarrow> string list" where
  "splitCSV raw = filter (\<lambda>v. v \<noteq> []) (map trim_space (split_on (CHR '','') raw))"

definition nonEmptyTopics :: "string list \<Rightarrow> string list" where
  "nonEmptyTopics topics = filter (\<lambda>t. t \<noteq> []) (map normalizeTopic topics)"

definition defaultConsumerGroup :: "string option \<Rightarrow> int \<Rightarrow> string \<Rightarrow> string" where
  "defaultConsumerGroup hostname pid prefix =
     (let host = (case hostname of None \<Rightarrow> ''unknown-host'' | Some h \<Rightarrow> if trim_space h = [] then ''unknown-host'' else h) in
      prefix @ ''-'' @ host @ ''-'' @ itoa pid)"

record kafka_bus =
  kb_brokers :: "string list"
  kb_groupID :: string

definition NewKafkaBusFromEnv :: "string option \<Rightarrow> int \<Rightarrow> getenv \<Rightarrow> kafka_bus" where
  "NewKafkaBusFromEnv hostname pid ge =
     (let brokers = splitCSV (ge ''KAFKA_BROKERS''); groupID = trim_space (ge ''KAFKA_CONSUMER_GROUP'') in
      \<lparr>kb_brokers = (if brokers = [] then [''localhost:9092''] else brokers),
       kb_groupID = (if groupID = [] then defaultConsumerGroup hostname pid ''exchange-api'' else groupID)\<rparr>)"

record redis_options =
  ro_Addr :: string
  ro_Username :: string
  ro_Password :: string
  ro_DB :: int

definition NewRedisBusFromEnv :: "(string \<Rightarrow> redis_options option) \<Rightarrow> (string \<Rightarrow> int option) \<Rightarrow> getenv \<Rightarrow> string + redis_options" where
  "NewRedisBusFromEnv parse_url atoi ge =
     (let url = trim_space (ge ''REDIS_URL''); raw = trim_space (ge ''REDIS_DB'');
          opts = \<lparr>ro_Addr = envOrDefault ge ''REDIS_ADDR'' ''localhost:6379'', ro_Username = trim_space (ge ''REDIS_USERNAME''),
                  ro_Password = ge ''REDIS_PASSWORD'', ro_DB = 0\<rparr> in
      if url \<noteq> [] then (case parse_url url of None \<Rightarrow> Inl ''redis url'' | Some parsed \<Rightarrow> Inr parsed)
      else if raw = [] then Inr opts
      else (case atoi raw of None \<Rightarrow> Inl (''invalid REDIS_DB '' @ raw) | Some n \<Rightarrow> Inr (opts\<lparr>ro_DB := n\<rparr>)))"

section \<open>Publishing\<close>

text \<open>Every backend drops a message without a topic or a payload; \<open>None\<close> is the absence of an error.\<close>

definition PostgresBus_Publish :: "(string \<Rightarrow> string \<Rightarrow> string option) \<Rightarrow> message \<Rightarrow> string option" where
  "PostgresBus_Publish pg_notify msg =
     (let topic = normalizeTopic (ms_Topic msg) in
      if topic = [] \<or> ms_Payload msg = [] then None else pg_notify topic (ms_Payload msg))"

definition RedisBus_Publish :: "(string \<Rightarrow> string \<Rightarrow> string option) \<Rightarrow> message \<Rightarrow> string option" where
  "RedisBus_Publish publish msg =
     (let topic = normalizeTopic (ms_Topic msg) in
      if topic = [] \<or> ms_Payload msg = [] then None else publish topic (ms_Payload msg))"

definition NATSBus_Publish :: "(string \<Rightarrow> string \<Rightarrow> string option) \<Rightarrow> string option \<Rightarrow> message \<Rightarrow> string option" where
  "NATSBus_Publish publish flush msg =
     (let topic = normalizeTopic (ms_Topic msg) in
      if topic = [] \<or> ms_Payload msg = [] then None
      else (case publish topic (ms_Payload msg) of Some e \<Rightarrow> Some e | None \<Rightarrow> flush))"

definition KafkaBus_Publish :: "(time \<Rightarrow> string \<Rightarrow> string \<Rightarrow> string \<Rightarrow> string option) \<Rightarrow> env \<Rightarrow> message \<Rightarrow> string option" where
  "KafkaBus_Publish write env msg =
     (let topic = normalizeTopic (ms_Topic msg) in
      if topic = [] \<or> ms_Payload msg = [] then None else write (e_now env) topic (ms_Key msg) (ms_Payload msg))"

text \<open>The message the outbox worker makes of an event.\<close>

definition worker_message :: "outbox_item \<Rightarrow> message" where
  "worker_message ev = \<lparr>ms_Topic = oi_Topic ev, ms_Key = oi_EventKey ev, ms_Payload = oi_Payload ev\<rparr>"

section \<open>Subscriptions\<close>

datatype stream_end = NothingToDo | Canceled | StreamError string

text \<open>A handler gives its error, if any, and the state it leaves.\<close>

type_synonym 's message_handler = "message \<Rightarrow> 's \<Rightarrow> string option \<times> 's"

fun receive_loop :: "'s message_handler \<Rightarrow> (string + message) list \<Rightarrow> 's \<Rightarrow> stream_end \<times> 's" where
  "receive_loop handler [] s = (Canceled, s)"
| "receive_loop handler (Inl e # ms) s = (StreamError e, s)"
| "receive_loop handler (Inr m # ms) s =
     (case handler m s of (Some e, s') \<Rightarrow> (StreamError e, s') | (None, s') \<Rightarrow> receive_loop handler ms s')"

text \<open>The callback of NATS has nowhere to return the error of the handler.\<close>

fun callback_loop :: "'s message_handler \<Rightarrow> message list \<Rightarrow> 's \<Rightarrow> 's" where
  "callback_loop handler [] s = s"
| "callback_loop handler (m # ms) s = callback_loop handler ms (snd (handler m s))"

definition RedisBus_Subscribe ::
    "(string list \<Rightarrow> string + (string + message) list) \<Rightarrow> string list \<Rightarrow> 's message_handler \<Rightarrow> 's \<Rightarrow> stream_end \<times> 's" where
  "RedisBus_Subscribe subscribe topics handler s =
     (let channels = nonEmptyTopics topics in
      if channels = [] then (NothingToDo, s)
      else (case subscribe channels of
              Inl e \<Rightarrow> (StreamError e, s)
            | Inr ms \<Rightarrow> receive_loop (\<lambda>m. handler (m\<lparr>ms_Key := []\<rparr>)) ms s))"

definition KafkaBus_Subscribe ::
    "(string list \<Rightarrow> (string \<times> string) list \<Rightarrow> (string + message) list) \<Rightarrow> kafka_bus \<Rightarrow> string list \<Rightarrow> 's message_handler \<Rightarrow> 's \<Rightarrow> stream_end \<times> 's" where
  "KafkaBus_Subscribe readers b topics handler s =
     (let topics' = nonEmptyTopics topics in
      if topics' = [] then (NothingToDo, s)
      else receive_loop handler (readers (kb_brokers b) (map (\<lambda>t. (t, kb_groupID b @ ''-'' @ t)) topics')) s)"

definition NATSBus_Subscribe ::
    "(string \<Rightarrow> string option) \<Rightarrow> string option \<Rightarrow> message list \<Rightarrow> string list \<Rightarrow> 's message_handler \<Rightarrow> 's \<Rightarrow> stream_end \<times> 's" where
  "NATSBus_Subscribe subscribe flush received topics handler s =
     (case find (\<lambda>t. subscribe t \<noteq> None) (nonEmptyTopics topics) of
        Some t \<Rightarrow> (StreamError (the (subscribe t)), s)
      | None \<Rightarrow>
          (case flush of
             Some e \<Rightarrow> (StreamError e, s)
           | None \<Rightarrow> (Canceled, callback_loop (\<lambda>m. handler (m\<lparr>ms_Key := []\<rparr>)) received s)))"

text \<open>A notification is absent after the listener has reconnected; such a notification is passed over.\<close>

definition Listen ::
    "(string \<Rightarrow> string \<Rightarrow> string + string option list) \<Rightarrow> string \<Rightarrow> string \<Rightarrow> (string + message) list" where
  "Listen listen conninfo channel =
     (if conninfo = [] then [Inl ''postgres listener requires connection string'']
      else if channel = [] then [Inl ''postgres listener requires channel'']
      else (case listen conninfo channel of
              Inl e \<Rightarrow> [Inl (''listen '' @ channel @ '': '' @ e)]
            | Inr ns \<Rightarrow> map (\<lambda>p. Inr \<lparr>ms_Topic = channel, ms_Key = [], ms_Payload = p\<rparr>) (List.map_filter (\<lambda>n. n) ns)))"

definition PostgresBus_Subscribe ::
    "((string + message) list list \<Rightarrow> (string + message) list) \<Rightarrow> (string \<Rightarrow> string \<Rightarrow> string + string option list) \<Rightarrow>
     getenv \<Rightarrow> string list \<Rightarrow> 's message_handler \<Rightarrow> 's \<Rightarrow> stream_end \<times> 's" where
  "PostgresBus_Subscribe interleave listen ge topics handler s =
     (let conninfo = ge ''DATABASE_URL''; topics' = nonEmptyTopics topics in
      if conninfo = [] then (StreamError ''DATABASE_URL is required for postgres event subscriptions'', s)
      else if topics' = [] then (NothingToDo, s)
      else receive_loop handler (interleave (map (Listen listen conninfo) topics')) s)"

section \<open>The hub of web sockets\<close>

text \<open>
  A connection is a number. \<open>hb_open\<close> are the connections whose reading loop runs, \<open>hb_clients\<close> those the hub publishes to, and
  \<open>hb_written\<close> what has been written, in order. Whether a write succeeds is a parameter of the step.
\<close>

record hub =
  hb_clients :: "nat list"
  hb_open :: "nat list"
  hb_written :: "(nat \<times> string) list"

definition NewHub :: hub where
  "NewHub = \<lparr>hb_clients = [], hb_open = [], hb_written = []\<rparr>"

definition hub_add :: "nat \<Rightarrow> hub \<Rightarrow> hub" where
  "hub_add conn h = h\<lparr>hb_clients := (if conn \<in> set (hb_clients h) then hb_clients h else hb_clients h @ [conn])\<rparr>"

definition hub_remove :: "nat \<Rightarrow> hub \<Rightarrow> hub" where
  "hub_remove conn h = h\<lparr>hb_clients := removeAll conn (hb_clients h)\<rparr>"

definition writeMessage :: "bool \<Rightarrow> nat \<Rightarrow> string \<Rightarrow> hub \<Rightarrow> bool \<times> hub" where
  "writeMessage ok conn payload h = (if ok then (True, h\<lparr>hb_written := hb_written h @ [(conn, payload)]\<rparr>) else (False, h))"

fun publish_to :: "(nat \<Rightarrow> bool) \<Rightarrow> string \<Rightarrow> nat list \<Rightarrow> hub \<Rightarrow> hub" where
  "publish_to ok payload [] h = h"
| "publish_to ok payload (conn # conns) h =
     publish_to ok payload conns
       (case writeMessage (ok conn) conn payload h of (True, h') \<Rightarrow> h' | (False, h') \<Rightarrow> hub_remove conn h')"

definition hub_Publish :: "(nat \<Rightarrow> bool) \<Rightarrow> string \<Rightarrow> hub \<Rightarrow> hub" where
  "hub_Publish ok payload h = (if payload = [] then h else publish_to ok payload (hb_clients h) h)"

record 't socket_codec =
  sk_read :: "string \<Rightarrow> (string \<times> 't) option"
  sk_pong :: "'t \<Rightarrow> string"

text \<open>A connection ends when reading fails or when the answer to a ping cannot be written.\<close>

definition hub_close :: "nat \<Rightarrow> hub \<Rightarrow> hub" where
  "hub_close conn h = (hub_remove conn h)\<lparr>hb_open := removeAll conn (hb_open h)\<rparr>"

definition handle_open :: "nat \<Rightarrow> hub \<Rightarrow> hub" where
  "handle_open conn h = (hub_add conn h)\<lparr>hb_open := hb_open h @ [conn]\<rparr>"

definition handle_frame :: "'t socket_codec \<Rightarrow> bool \<Rightarrow> nat \<Rightarrow> string \<Rightarrow> hub \<Rightarrow> hub" where
  "handle_frame codec ok conn payload h =
     (case sk_read codec payload of
        None \<Rightarrow> h
      | Some (ty, sentAt) \<Rightarrow>
          if ty \<noteq> ''exchange.ping'' then h
          else (case writeMessage ok conn (sk_pong codec sentAt) h of (True, h') \<Rightarrow> h' | (False, h') \<Rightarrow> hub_close conn h'))"

datatype hub_event =
    Connected nat
  | Frame bool nat string
  | ReadFailed nat
  | Published "nat \<Rightarrow> bool" string

text \<open>The steps of the handlers; a connection that is not open has none, and a new one has a fresh number.\<close>

inductive hub_step :: "'t socket_codec \<Rightarrow> hub \<Rightarrow> hub_event \<Rightarrow> hub \<Rightarrow> bool" for codec where
  connect: "conn \<notin> set (hb_open h) \<Longrightarrow> hub_step codec h (Connected conn) (handle_open conn h)"
| frame: "conn \<in> set (hb_open h) \<Longrightarrow> hub_step codec h (Frame ok conn payload) (handle_frame codec ok conn payload h)"
| leave: "conn \<in> set (hb_open h) \<Longrightarrow> hub_step codec h (ReadFailed conn) (hub_close conn h)"
| publish: "hub_step codec h (Published ok payload) (hub_Publish ok payload h)"

inductive_cases hub_stepE: "hub_step codec h e h'"

inductive hub_reachable :: "'t socket_codec \<Rightarrow> hub \<Rightarrow> bool" for codec where
  start: "hub_reachable codec NewHub"
| step: "hub_reachable codec h \<Longrightarrow> hub_step codec h e h' \<Longrightarrow> hub_reachable codec h'"

section \<open>From the backend to the browser\<close>

definition pricing_UpdatesChannel :: string where
  "pricing_UpdatesChannel = ''price_updates''"

definition stream_topics :: "string list" where
  "stream_topics = [pricing_UpdatesChannel, UpdatesChannel]"

definition stream_handler :: "(string \<Rightarrow> string) \<Rightarrow> (nat \<Rightarrow> bool) \<Rightarrow> hub message_handler" where
  "stream_handler expand ok msg h =
     (None, hub_Publish ok (if ms_Topic msg = pricing_UpdatesChannel then expand (ms_Payload msg) else ms_Payload msg) h)"

section \<open>What is delivered\<close>

lemma hub_remove_fields [simp]:
  "hb_clients (hub_remove c h) = removeAll c (hb_clients h)" "hb_open (hub_remove c h) = hb_open h" "hb_written (hub_remove c h) = hb_written h"
  by (simp_all add: hub_remove_def)

lemma publish_to_open [simp]: "hb_open (publish_to ok payload conns h) = hb_open h"
  by (induction conns arbitrary: h) (auto simp: writeMessage_def)

lemma publish_to_written:
  "hb_written (publish_to ok payload conns h) = hb_written h @ map (\<lambda>c. (c, payload)) (filter ok conns)"
  by (induction conns arbitrary: h) (auto simp: writeMessage_def)

lemma publish_to_clients:
  "hb_clients (publish_to ok payload conns h) = filter (\<lambda>c. c \<in> set conns \<longrightarrow> ok c) (hb_clients h)"
  by (induction conns arbitrary: h) (auto simp: writeMessage_def removeAll_filter_not_eq intro!: filter_cong)

text \<open>A message is written once to every client whose connection takes it, in order; the others are forgotten.\<close>

lemma hub_Publish_exact:
  "payload \<noteq> [] \<Longrightarrow> hb_written (hub_Publish ok payload h) = hb_written h @ map (\<lambda>c. (c, payload)) (filter ok (hb_clients h))"
  "payload \<noteq> [] \<Longrightarrow> hb_clients (hub_Publish ok payload h) = filter ok (hb_clients h)"
  by (auto simp: hub_Publish_def publish_to_written publish_to_clients intro!: filter_cong)

definition hub_wf :: "hub \<Rightarrow> bool" where
  "hub_wf h \<longleftrightarrow> distinct (hb_clients h) \<and> set (hb_clients h) \<subseteq> set (hb_open h)"

lemma hub_wf_steps:
  assumes "hub_wf h"
  shows "conn \<notin> set (hb_open h) \<Longrightarrow> hub_wf (handle_open conn h)"
    and "hub_wf (hub_close conn h)"
    and "hub_wf (handle_frame codec ok conn payload h)"
    and "hub_wf (hub_Publish okf payload h)"
proof -
  have close: "hub_wf (hub_close conn h)" if "hub_wf h" for h conn
    using that by (auto simp: hub_wf_def hub_close_def distinct_removeAll)
  show "hub_wf (hub_close conn h)" using close [OF assms] .
  show "conn \<notin> set (hb_open h) \<Longrightarrow> hub_wf (handle_open conn h)"
    using assms by (auto simp: hub_wf_def handle_open_def hub_add_def)
  show "hub_wf (handle_frame codec ok conn payload h)"
    using assms close [OF assms, of conn] by (auto simp: handle_frame_def writeMessage_def hub_wf_def split: option.splits)
  show "hub_wf (hub_Publish okf payload h)"
    using assms by (auto simp: hub_wf_def hub_Publish_def publish_to_clients)
qed

text \<open>A client is one open connection and counted once, whatever the interleaving of the handlers.\<close>

lemma hub_always_wf: "hub_reachable codec h \<Longrightarrow> hub_wf h"
proof (induction rule: hub_reachable.induct)
  case start
  then show ?case by (simp add: hub_wf_def NewHub_def)
next
  case (step h e h')
  from step.hyps(2) show ?case by (rule hub_stepE) (use step.IH hub_wf_steps in auto)
qed

definition socket_payload :: "(string \<Rightarrow> string) \<Rightarrow> message \<Rightarrow> string" where
  "socket_payload expand m = (if ms_Topic m = pricing_UpdatesChannel then expand (ms_Payload m) else ms_Payload m)"

lemma receive_loop_stream:
  "receive_loop (stream_handler expand (\<lambda>c. True)) (map Inr ms) h =
     (Canceled, h\<lparr>hb_written := hb_written h @
        concat (map (\<lambda>p. map (\<lambda>c. (c, p)) (hb_clients h)) (filter (\<lambda>p. p \<noteq> []) (map (socket_payload expand) ms)))\<rparr>)"
proof (induction ms arbitrary: h)
  case Nil
  then show ?case by simp
next
  case (Cons m ms)
  have hub: "hub_Publish (\<lambda>c. True) p h = h\<lparr>hb_written := hb_written h @ map (\<lambda>c. (c, p)) (hb_clients h)\<rparr>" if "p \<noteq> []" for p
  proof (rule hub.equality)
    show "hub.more (hub_Publish (\<lambda>c. True) p h) = hub.more (h\<lparr>hb_written := hb_written h @ map (\<lambda>c. (c, p)) (hb_clients h)\<rparr>)" by simp
    show "hb_open (hub_Publish (\<lambda>c. True) p h) = hb_open (h\<lparr>hb_written := hb_written h @ map (\<lambda>c. (c, p)) (hb_clients h)\<rparr>)"
      using that by (simp add: hub_Publish_def)
  qed (use that in \<open>simp_all add: hub_Publish_exact\<close>)
  have none: "hub_Publish (\<lambda>c. True) [] h = h" by (simp add: hub_Publish_def)
  show ?case
    by (cases "socket_payload expand m = []")
      (use hub none Cons.IH in \<open>auto simp: stream_handler_def socket_payload_def split: if_splits\<close>)
qed

section \<open>The contract of a message backend\<close>

text \<open>
  The worker knows a backend by what it does with a message: \<open>send\<close> is asked to deliver the topic without surrounding white space,
  the key and the payload, and a message without a topic or a payload is dropped without an error.
\<close>

locale message_bus =
  fixes send :: "string \<Rightarrow> string \<Rightarrow> string \<Rightarrow> string option" and publish :: "message \<Rightarrow> string option"
  assumes drops: "normalizeTopic (ms_Topic m) = [] \<or> ms_Payload m = [] \<Longrightarrow> publish m = None"
    and sends: "normalizeTopic (ms_Topic m) \<noteq> [] \<Longrightarrow> ms_Payload m \<noteq> [] \<Longrightarrow>
      publish m = send (normalizeTopic (ms_Topic m)) (ms_Key m) (ms_Payload m)"
begin

lemma error_is_of_send:
  "publish m = Some e \<Longrightarrow> send (normalizeTopic (ms_Topic m)) (ms_Key m) (ms_Payload m) = Some e"
  using drops sends by (cases "normalizeTopic (ms_Topic m) = [] \<or> ms_Payload m = []") auto

lemma published_was_sent:
  assumes "publish (worker_message ev) = None" "normalizeTopic (oi_Topic ev) = t" "t \<noteq> []" "oi_Payload ev \<noteq> []"
  shows "send t (oi_EventKey ev) (oi_Payload ev) = None"
  using assms sends [of "worker_message ev"] by (simp add: worker_message_def)

end

interpretation postgres_bus: message_bus "\<lambda>t k p. pg_notify t p" "PostgresBus_Publish pg_notify" for pg_notify
  by unfold_locales (auto simp: PostgresBus_Publish_def Let_def)

interpretation redis_bus: message_bus "\<lambda>t k p. redis_send t p" "RedisBus_Publish redis_send" for redis_send
  by unfold_locales (auto simp: RedisBus_Publish_def Let_def)

interpretation nats_bus: message_bus "\<lambda>t k p. case nats_send t p of Some e \<Rightarrow> Some e | None \<Rightarrow> flush" "NATSBus_Publish nats_send flush"
  for nats_send flush
  by unfold_locales (auto simp: NATSBus_Publish_def Let_def)

interpretation kafka_bus: message_bus "enqueue (e_now env)" "KafkaBus_Publish enqueue env" for enqueue env
  by unfold_locales (auto simp: KafkaBus_Publish_def Let_def)

text \<open>
  An update of the orders that the worker publishes while the API process listens is written to every client as it was
  queued, in the order of the queue.
\<close>

lemma order_updates_reach_clients:
  assumes "PostgresBus_Publish pg_notify (worker_message ev) = None" and "oi_Topic ev = UpdatesChannel" and "oi_Payload ev \<noteq> []"
  shows "pg_notify UpdatesChannel (oi_Payload ev) = None \<and>
    snd (receive_loop (stream_handler expand (\<lambda>c. True)) [Inr \<lparr>ms_Topic = UpdatesChannel, ms_Key = [], ms_Payload = oi_Payload ev\<rparr>] h) =
      h\<lparr>hb_written := hb_written h @ map (\<lambda>c. (c, oi_Payload ev)) (hb_clients h)\<rparr>"
proof -
  have topic: "normalizeTopic UpdatesChannel = UpdatesChannel" "UpdatesChannel \<noteq> []" "UpdatesChannel \<noteq> pricing_UpdatesChannel" by code_simp+
  have "pg_notify UpdatesChannel (oi_Payload ev) = None"
    using postgres_bus.published_was_sent [OF assms(1) _ topic(2) assms(3)] topic(1) assms(2) by simp
  then show ?thesis
    using receive_loop_stream [of expand "[\<lparr>ms_Topic = UpdatesChannel, ms_Key = [], ms_Payload = oi_Payload ev\<rparr>]" h] topic assms(3)
    by (simp add: socket_payload_def)
qed

end
