(* ===== verification/Processes.thy ===== *)
theory Processes
  imports GatewayClient "HOL-Library.AList"
begin

text \<open>
  How the processes are put together: the services of the combined process and their supervisor
  (\<^verbatim>\<open>internal/runtime/supervisor.go\<close>), the command of the web frontend (\<^verbatim>\<open>internal/runtime/frontend.go\<close>) and the wiring of the
  on-chain quoter (\<^verbatim>\<open>internal/bootstrap/v3_quoter.go\<close>). The services themselves, the file system and the connections to
  the nodes are parameters.
\<close>

section \<open>Services\<close>

text \<open>A service runs by itself or once per tick of its interval.\<close>

datatype service_run = RunLoop | RunEvery duration

definition frontendEnabled :: "string \<Rightarrow> bool" where
  "frontendEnabled mode0 \<longleftrightarrow> to_lower (trim_space mode0) \<notin> {[], ''off'', ''false'', ''0''}"

record runtime_options =
  op_FrontendMode :: string
  op_FrontendDir :: string
  op_FrontendHost :: string
  op_FrontendPort :: string
  op_FrontendPackageManager :: string

definition DefaultOptions :: "getenv \<Rightarrow> string \<Rightarrow> runtime_options" where
  "DefaultOptions ge processName =
     \<lparr>op_FrontendMode = (if equal_fold processName ''executor'' \<and> ge ''FRONTEND_MODE'' = [] then ''dev'' else envOrDefault ge ''FRONTEND_MODE'' ''off''),
      op_FrontendDir = envOrDefault ge ''FRONTEND_DIR'' ''frontend'', op_FrontendHost = envOrDefault ge ''FRONTEND_HOST'' ''0.0.0.0'',
      op_FrontendPort = envOrDefault ge ''FRONTEND_PORT'' ''3002'', op_FrontendPackageManager = envOrDefault ge ''FRONTEND_PACKAGE_MANAGER'' ''npm''\<rparr>"

definition all_services :: "runtime_options \<Rightarrow> (string \<times> service_run) list" where
  "all_services opts =
     [(''api'', RunLoop), (''indexer'', RunEvery (10 * second)), (''matcher'', RunLoop), (''marketdata'', RunLoop), (''executor'', RunEvery (3 * second)),
      (''settler'', RunEvery (5 * second)), (''scheduler'', RunEvery (15 * second)), (''worker'', RunLoop), (''scanner'', RunLoop)] @
     (if frontendEnabled (op_FrontendMode opts) then [(''frontend'', RunLoop)] else [])"

text \<open>The scanner scans every second unless the environment says otherwise.\<close>

definition scanner_env :: "getenv \<Rightarrow> getenv" where
  "scanner_env ge = (if ge ''SCANNER_INTERVAL'' = [] then ge(''SCANNER_INTERVAL'' := ''1s'') else ge)"

datatype run_error = ContextCanceled | RunFailed string

text \<open>\<open>n\<close> ticks pass before the context is canceled; the first pass comes before any tick.\<close>

fun ticks_loop :: "('s \<Rightarrow> run_error option \<times> 's) \<Rightarrow> nat \<Rightarrow> 's \<Rightarrow> run_error option \<times> 's" where
  "ticks_loop run_once 0 s = (Some ContextCanceled, s)"
| "ticks_loop run_once (Suc n) s =
     (case run_once s of (Some e, s') \<Rightarrow> (Some e, s') | (None, s') \<Rightarrow> ticks_loop run_once n s')"

definition runService ::
    "('s \<Rightarrow> run_error option \<times> 's) \<Rightarrow> ('s \<Rightarrow> run_error option \<times> 's) \<Rightarrow> nat \<Rightarrow> service_run \<Rightarrow> 's \<Rightarrow> run_error option \<times> 's" where
  "runService run run_once n how s =
     (case how of
        RunLoop \<Rightarrow> run s
      | RunEvery interval \<Rightarrow>
          (case run_once s of (Some e, s') \<Rightarrow> (Some e, s') | (None, s') \<Rightarrow> ticks_loop run_once n s'))"

text \<open>
  What the supervisor waits for: a service that ends, with its error, or the end of the context. A service that ends
  without an error, or because it was canceled, stops nothing.
\<close>

datatype supervisor_event = ServiceEnded string "run_error option" | Interrupted

fun supervise :: "supervisor_event list \<Rightarrow> string option" where
  "supervise [] = None"
| "supervise (Interrupted # evs) = None"
| "supervise (ServiceEnded name (Some (RunFailed e)) # evs) = Some (name @ '': '' @ e)"
| "supervise (ServiceEnded name None # evs) = supervise evs"
| "supervise (ServiceEnded name (Some ContextCanceled) # evs) = supervise evs"

section \<open>The frontend\<close>

text \<open>A path is the list of its segments from the innermost out; the file system tells directories and files.\<close>

type_synonym path = "string list"

record file_system =
  fs_is_dir :: "path \<Rightarrow> bool"
  fs_exists :: "path \<Rightarrow> bool"

fun find_frontend :: "file_system \<Rightarrow> path \<Rightarrow> path \<Rightarrow> path option" where
  "find_frontend fs sub dir =
     (if fs_is_dir fs (sub @ dir) then Some (sub @ dir)
      else if fs_exists fs (''go.mod'' # dir) then Some (sub @ dir)
      else (case dir of [] \<Rightarrow> None | x # up \<Rightarrow> find_frontend fs sub up))"

definition resolveFrontendDir :: "file_system \<Rightarrow> path option \<Rightarrow> bool \<Rightarrow> path \<Rightarrow> string + path" where
  "resolveFrontendDir fs cwd absolute sub =
     (if absolute then Inr sub
      else (case cwd of
              None \<Rightarrow> Inl ''getwd''
            | Some dir \<Rightarrow> (case find_frontend fs sub dir of Some p \<Rightarrow> Inr p | None \<Rightarrow> Inr (sub @ dir))))"

record frontend_command =
  fc_Dir :: path
  fc_Bin :: string
  fc_Args :: "string list"

definition setDefaultEnv :: "string list \<Rightarrow> string \<Rightarrow> string \<Rightarrow> string list" where
  "setDefaultEnv vars key v =
     (if list_ex (\<lambda>item. take (length (key @ ''='')) item = key @ ''='') vars then vars else vars @ [key @ ''='' @ v])"

definition frontendEnv :: "getenv \<Rightarrow> string list \<Rightarrow> runtime_options \<Rightarrow> string list" where
  "frontendEnv ge vars opts =
     (let v1 = setDefaultEnv vars ''BROWSER'' ''none'';
          v2 = setDefaultEnv v1 ''VITE_EXCHANGE_API_URL'' ''/api'';
          v3 = setDefaultEnv v2 ''VITE_EXCHANGE_PROXY_TARGET'' (envOrDefault ge ''FRONTEND_API_TARGET'' ''http://127.0.0.1:8080'');
          port = trim_space (op_FrontendPort opts) in
      if port \<noteq> [] then setDefaultEnv v3 ''FRONTEND_PORT'' port else v3)"

definition or_default :: "string \<Rightarrow> string \<Rightarrow> string" where
  "or_default v d = (if trim_space v = [] then d else trim_space v)"

text \<open>The command to run: none when the frontend is off. \<open>read_path\<close> splits a path and tells whether it is absolute.\<close>

definition runFrontend ::
    "file_system \<Rightarrow> path option \<Rightarrow> (string \<Rightarrow> bool \<times> path) \<Rightarrow> runtime_options \<Rightarrow> string + frontend_command option" where
  "runFrontend fs cwd read_path opts =
     (let mode = to_lower (trim_space (op_FrontendMode opts)) in
      if mode \<in> {[], ''off'', ''false'', ''0''} then Inr None
      else if mode \<noteq> ''dev'' \<and> mode \<noteq> ''build''
        then Inl (''unsupported frontend mode '' @ op_FrontendMode opts @ '', expected dev, build or off'')
      else (case read_path (or_default (op_FrontendDir opts) ''frontend'') of (absolute, sub) \<Rightarrow>
        (case resolveFrontendDir fs cwd absolute sub of
           Inl e \<Rightarrow> Inl e
         | Inr dir \<Rightarrow>
             if \<not> fs_is_dir fs dir
               then Inl (if fs_exists fs dir then ''frontend path is not a directory'' else ''frontend directory is not available'')
             else Inr (Some
               \<lparr>fc_Dir = dir, fc_Bin = or_default (op_FrontendPackageManager opts) ''npm'',
                fc_Args = (if mode = ''build'' then [''run'', ''build'']
                           else [''run'', ''dev'', ''--'', ''--host'', or_default (op_FrontendHost opts) ''0.0.0.0'',
                                 ''--port'', or_default (op_FrontendPort opts) ''3002''])\<rparr>))))"

section \<open>The on-chain quoter\<close>

definition quoter_chain :: "chain_registry \<Rightarrow> venue \<Rightarrow> chain option" where
  "quoter_chain chain_reg v =
     (case chain_Get chain_reg (vn_ChainKey v) of
        None \<Rightarrow> None
      | Some ch \<Rightarrow> if \<not> ch_Enabled ch \<or> ch_Kind ch \<noteq> KindEVM \<or> ch_RPCURLs ch = [] then None else Some ch)"

definition add_quoter ::
    "(string \<Rightarrow> address) \<Rightarrow> (string list \<Rightarrow> string + evm_rpc) \<Rightarrow> chain_registry \<Rightarrow> venue \<Rightarrow> uniswap_v3_quoter \<Rightarrow> string + uniswap_v3_quoter" where
  "add_quoter hex_address new_rpc chain_reg v q =
     (if \<not> vn_Enabled v \<or> vn_Kind v \<noteq> VenueKindUniswapV3 then Inr q
      else (case vn_Config v of
              Some (UniswapV3Config cfg) \<Rightarrow>
                if v3_QuoterAddress cfg = [] then Inr q
                else (case quoter_chain chain_reg v of
                        None \<Rightarrow> Inr q
                      | Some ch \<Rightarrow>
                          let key = vn_ChainKey v;
                              known = (map_of (vq_RPCByChain q) key \<noteq> None);
                              rpc = (if known then Inr (vq_RPCByChain q)
                                     else (case new_rpc (ch_RPCURLs ch) of
                                             Inl e \<Rightarrow> Inl (''failed to initialize uniswap v3 quoter rpc for '' @ key @ '': '' @ e)
                                           | Inr c \<Rightarrow> Inr (vq_RPCByChain q @ [(key, Some c)])))
                          in case rpc of
                               Inl e \<Rightarrow> Inl e
                             | Inr rpcs \<Rightarrow> Inr
                                 \<lparr>vq_RPCByChain = rpcs,
                                  vq_QuoterByVenue = AList.update (vn_Key v) (hex_address (v3_QuoterAddress cfg)) (vq_QuoterByVenue q),
                                  vq_SlipstreamByVenue =
                                    (if vn_Key v = VenueKeyAerodromeSlipstream then AList.update (vn_Key v) True (vq_SlipstreamByVenue q)
                                     else vq_SlipstreamByVenue q)\<rparr>)
            | _ \<Rightarrow> Inl (''invalid uniswap v3 config for venue '' @ vn_Key v)))"

fun add_quoters ::
    "(string \<Rightarrow> address) \<Rightarrow> (string list \<Rightarrow> string + evm_rpc) \<Rightarrow> chain_registry \<Rightarrow> venue list \<Rightarrow> uniswap_v3_quoter \<Rightarrow> string + uniswap_v3_quoter" where
  "add_quoters hex_address new_rpc chain_reg [] q = Inr q"
| "add_quoters hex_address new_rpc chain_reg (v # vs) q =
     (case add_quoter hex_address new_rpc chain_reg v q of
        Inl e \<Rightarrow> Inl e
      | Inr q' \<Rightarrow> add_quoters hex_address new_rpc chain_reg vs q')"

definition bootstrap_NewUniswapV3Quoter ::
    "(string \<Rightarrow> address) \<Rightarrow> (string list \<Rightarrow> string + evm_rpc) \<Rightarrow> chain_registry \<Rightarrow> venue_registry \<Rightarrow> string + uniswap_v3_quoter option" where
  "bootstrap_NewUniswapV3Quoter hex_address new_rpc chain_reg venues =
     (case add_quoters hex_address new_rpc chain_reg (venue_All venues) \<lparr>vq_RPCByChain = [], vq_QuoterByVenue = [], vq_SlipstreamByVenue = []\<rparr> of
        Inl e \<Rightarrow> Inl e
      | Inr q \<Rightarrow> Inr (if vq_QuoterByVenue q = [] then None else Some q))"

section \<open>What is wired\<close>

text \<open>The supervisor ends with an error only when a service failed, and it names that service.\<close>

lemma supervise_names_failure:
  "supervise evs = Some msg \<Longrightarrow> \<exists>name e. ServiceEnded name (Some (RunFailed e)) \<in> set evs \<and> msg = name @ '': '' @ e"
  by (induction evs rule: supervise.induct) auto

lemma ticks_loop_ends: "fst (ticks_loop run_once n s) \<noteq> None"
  by (induction n arbitrary: s) (auto split: prod.splits option.splits)

text \<open>Every venue that is given a quoter is a Uniswap V3 venue whose chain has a client.\<close>

definition quoters_wired :: "venue list \<Rightarrow> uniswap_v3_quoter \<Rightarrow> bool" where
  "quoters_wired vs q \<longleftrightarrow>
     (\<forall>k \<in> fst ` set (vq_QuoterByVenue q). \<exists>v \<in> set vs.
        vn_Key v = k \<and> vn_Enabled v \<and> vn_Kind v = VenueKindUniswapV3 \<and>
        (\<exists>c. map_of (vq_RPCByChain q) (vn_ChainKey v) = Some (Some c)))"

definition clients_only :: "uniswap_v3_quoter \<Rightarrow> bool" where
  "clients_only q \<longleftrightarrow> (\<forall>r \<in> snd ` set (vq_RPCByChain q). r \<noteq> None)"

lemma map_of_client: "clients_only q \<Longrightarrow> map_of (vq_RPCByChain q) k = Some r \<Longrightarrow> \<exists>c. r = Some c"
  by (force simp: clients_only_def dest: map_of_SomeD)

lemma add_quoter_wired:
  assumes add: "add_quoter hex_address new_rpc chain_reg v q = Inr q'" and inv: "clients_only q" "quoters_wired vs q"
  shows "clients_only q' \<and> quoters_wired (vs @ [v]) q'"
proof (cases "q' = q")
  case True
  then show ?thesis using inv by (fastforce simp: quoters_wired_def)
next
  case False
  obtain cfg ch where v: "vn_Enabled v" "vn_Kind v = VenueKindUniswapV3" "vn_Config v = Some (UniswapV3Config cfg)" "v3_QuoterAddress cfg \<noteq> []"
    "quoter_chain chain_reg v = Some ch"
    using add False by (auto simp: add_quoter_def split: if_splits option.splits venue_config.splits)
  obtain rpcs where rpcs: "vq_RPCByChain q' = rpcs" "fst ` set (vq_QuoterByVenue q') = insert (vn_Key v) (fst ` set (vq_QuoterByVenue q))"
      "map_of (vq_RPCByChain q) (vn_ChainKey v) \<noteq> None \<and> rpcs = vq_RPCByChain q \<or>
       map_of (vq_RPCByChain q) (vn_ChainKey v) = None \<and> (\<exists>c. rpcs = vq_RPCByChain q @ [(vn_ChainKey v, Some c)])"
    using add v by (auto simp: add_quoter_def Let_def dom_update split: if_splits sum.splits)
  have clients: "clients_only q'" using inv(1) rpcs by (auto simp: clients_only_def)
  have here: "\<exists>c. map_of (vq_RPCByChain q') (vn_ChainKey v) = Some (Some c)"
    using map_of_client [OF inv(1)] rpcs by (auto simp: map_add_def split: option.splits)
  have there: "\<exists>c. map_of (vq_RPCByChain q') k = Some (Some c)" if "map_of (vq_RPCByChain q) k = Some (Some c)" for k c
    using that rpcs by (auto simp: map_add_def split: option.splits)
  have "\<exists>w \<in> set (vs @ [v]). vn_Key w = k \<and> vn_Enabled w \<and> vn_Kind w = VenueKindUniswapV3 \<and>
      (\<exists>c. map_of (vq_RPCByChain q') (vn_ChainKey w) = Some (Some c))" if "k \<in> fst ` set (vq_QuoterByVenue q')" for k
  proof (cases "k = vn_Key v")
    case True
    then show ?thesis using v here by auto
  next
    case False
    then have "k \<in> fst ` set (vq_QuoterByVenue q)" using that rpcs(2) by auto
    then show ?thesis using inv(2) there unfolding quoters_wired_def by (metis UnCI set_append)
  qed
  then show ?thesis using clients by (simp add: quoters_wired_def)
qed

lemma add_quoters_wired:
  "add_quoters hex_address new_rpc chain_reg vs q = Inr q' \<Longrightarrow> clients_only q \<Longrightarrow> quoters_wired us q \<Longrightarrow> quoters_wired (us @ vs) q'"
proof (induction vs arbitrary: q us)
  case Nil
  then show ?case by simp
next
  case (Cons v vs)
  then obtain q1 where q1: "add_quoter hex_address new_rpc chain_reg v q = Inr q1" "add_quoters hex_address new_rpc chain_reg vs q1 = Inr q'"
    by (auto split: sum.splits)
  then show ?case using Cons.IH [of q1 "us @ [v]"] add_quoter_wired [OF q1(1) Cons.prems(2,3)] by simp
qed

lemma bootstrap_quoter_wired:
  "bootstrap_NewUniswapV3Quoter hex_address new_rpc chain_reg venues = Inr (Some q) \<Longrightarrow> quoters_wired (venue_All venues) q"
  unfolding bootstrap_NewUniswapV3Quoter_def
  by (rule add_quoters_wired [where us = "[]", simplified])
    (auto simp: clients_only_def quoters_wired_def split: sum.splits if_splits)

end
