(* ===== verification/Spec2Isabelle.thy ===== *)
theory Spec2Isabelle
  imports BookProps LedgerFaults OrderStoreProps PriceLevels Candles JobQueueProps EventLog TradingProps GatewayProps MarketData MatcherProps
    Migration PricingProps SolanaProps ScannerContract RestProps Delivery Processes
begin

text \<open>
  The verification library of the exchange (a Go program; all paths below are under \<^verbatim>\<open>src/internal/\<close>).

  \<^bold>\<open>The program.\<close> An API process (\<^verbatim>\<open>interfaces/rest\<close>) takes orders, withdrawals, swap requests and the callbacks of a
  payment gateway. The order service (\<^verbatim>\<open>app/orders\<close>) checks an order, reserves its funds in the ledger, and either matches
  it at once or queues a match job, or logs a command. The matchers (\<^verbatim>\<open>app/matcher\<close>) take jobs or logged commands, match
  against the stored orders or against a resident order book (\<^verbatim>\<open>core/matching\<close>), and have the service settle the trades.
  The candle worker (\<^verbatim>\<open>app/marketdata\<close>) projects trades to candles and statistics. The pool scanner
  (\<^verbatim>\<open>app/poolscanner\<close>) reads the liquidity pools of Ethereum and Solana venues into a table, from which prices
  (\<^verbatim>\<open>app/pricing\<close>) and swaps (\<^verbatim>\<open>app/swap\<close>) are computed. The outbox worker (\<^verbatim>\<open>app/worker\<close>) hands queued updates to a message
  backend, and the API process passes them on to the web sockets. Everything meets in one PostgreSQL store
  (\<^verbatim>\<open>adapters/storage/postgres\<close>).

  \<^bold>\<open>How the code is modelled.\<close> A struct is a record whose fields carry a short prefix, a string type with constants is a datatype
  with one constructor for every constant and one for any other text. A string is a list of bytes; letter case and white space are
  those of ASCII. Integers that can wrap are words (64 and 32 bits, bytes, 160-bit addresses); times and durations are
  integers in nanoseconds; a \<^verbatim>\<open>*big.Int\<close> is an optional integer and a \<^verbatim>\<open>big.Rat\<close> a rational. A table is the list of its rows in
  insertion order, the store is the record \<^typ>\<open>db\<close>, and an operation on it is a transaction \<^typ>\<open>'a ltx\<close>: an error rolls it back.
  Transactions are serial, as the row locks of the code make them; \<open>SKIP LOCKED\<close> then has no effect. What the code relies on in
  GORM is written out: a struct condition drops its empty fields, \<open>Save\<close> updates or inserts with the defaults of the columns,
  ORDER BY is a stable sort. A Go map is the list of its entries in insertion order; receivers are not nil. Time, new
  identifiers and the environment variables are arguments (\<^typ>\<open>env\<close>, a function or a configuration record).

  \<^bold>\<open>Parameters.\<close> Code outside the repository is an argument: SHA-256, HMAC and JSON, the parsers of addresses and durations, the packing
  of Ethereum calls (\<^typ>\<open>evm_lib\<close>), the answers of Ethereum and Solana nodes, the identity provider, the payment gateway and its
  network, the web framework, the message backends, the floating point part of one Solana price. Where a theorem needs a law of such a parameter (a
  checksum read back, a decoder that inverts its encoder, a packer that keeps the arguments it is given), the law is a hypothesis of that theorem and its
  witness gives a concrete function that satisfies it.

  \<^bold>\<open>The theories, by layer.\<close>

  \<^item> Ground: \<open>Prelude\<close> (fact collections, strings, sorting, transactions); \<open>Tables\<close> (tables with a key, the locale
    \<open>keyed_table\<close>); \<open>Database\<close> (the rows of \<^verbatim>\<open>model.go\<close> and the store, with the interpretations for balances, reservations and
    withdrawals).
  \<^item> Decimals (\<^verbatim>\<open>core/decimal\<close>): \<open>Decimal\<close>, \<open>DecimalText\<close> (printing and reading are inverse up to rounding), \<open>DecimalArith\<close>
    (exactness of the operations; the locale \<open>fill_arith\<close> through which matching and ledger use them).
  \<^item> Matching (\<^verbatim>\<open>core/order\<close>, \<^verbatim>\<open>core/trade\<close>, \<^verbatim>\<open>core/matching\<close>): \<open>OrderModel\<close>; \<open>MatchEngine\<close> (\<^verbatim>\<open>engine.go\<close>); \<open>MatchFill\<close> (the
    invariant of a run); \<open>MarketBook\<close> (\<^verbatim>\<open>book.go\<close>); \<open>BookInvariant\<close> (locale \<open>priority_list\<close>); \<open>BookApply\<close> and \<open>BookPriority\<close> (the book
    refines the list engine, price before time); \<open>BookSnapshot\<close> (\<^verbatim>\<open>snapshot.go\<close>); \<open>BookProps\<close>.
  \<^item> Ledger (\<^verbatim>\<open>exchange_repository.go\<close>, \<^verbatim>\<open>reservation_repository.go\<close>): \<open>Ledger\<close>; \<open>LedgerPostings\<close>, \<open>LedgerEffects\<close>, \<open>LedgerFunds\<close> (the
    abstract ledger of postings, which every operation implements), \<open>LedgerColumns\<close> (what the pending and the locked column stand for);
    \<open>LedgerProps\<close>, \<open>LedgerFlow\<close>, \<open>LedgerFaults\<close>.
  \<^item> Orders, trades, price levels, candles (\<^verbatim>\<open>exchange_repository.go\<close>): \<open>OrderStore\<close>, \<open>OrderStoreProps\<close>, \<open>PriceLevels\<close>, \<open>Candles\<close>.
  \<^item> Queues and logs: \<open>WorkQueue\<close> (locale \<open>work_queue\<close>), \<open>CommandLog\<close>, \<open>JobQueue\<close> (its three interpretations), \<open>JobQueueProps\<close>,
    \<open>EventLog\<close> (match events, offsets, snapshots, leases).
  \<^item> Order service (\<^verbatim>\<open>app/orders\<close>): \<open>Registries\<close> (\<^verbatim>\<open>core/market\<close>, \<^verbatim>\<open>core/asset\<close>, \<^verbatim>\<open>core/chain\<close>), \<open>OrderRules\<close>, \<open>Trading\<close>, \<open>OrderService\<close>, \<open>Gateway\<close>
    (deposits, withdrawals and callbacks), with \<open>TradingLoop\<close>, \<open>TradingFunds\<close>, \<open>TradingProps\<close>, \<open>GatewayAmounts\<close>, \<open>GatewayProps\<close>; \<open>MarketStats\<close>
    (\<^verbatim>\<open>market_repository.go\<close> and summaries); \<open>MarketData\<close> (\<^verbatim>\<open>app/marketdata\<close>).
  \<^item> Matchers (\<^verbatim>\<open>app/matcher\<close>): \<open>Matcher\<close>, \<open>MatcherLog\<close>, \<open>MatcherParked\<close>, \<open>MatcherProps\<close>.
  \<^item> Start of the store (\<^verbatim>\<open>db.go\<close>): \<open>Migration\<close>.
  \<^item> Pools, swaps and prices: \<open>Venues\<close> (\<^verbatim>\<open>core/venue\<close>, \<^verbatim>\<open>pool_repository.go\<close>); \<open>Swap\<close> (the executors of \<^verbatim>\<open>adapters/venues/*/swap\<close>; their shared
    contract is the locale \<open>evm_executor\<close> of \<open>SwapProps\<close>); \<open>SwapService\<close> (\<^verbatim>\<open>app/swap\<close>, \<^verbatim>\<open>bootstrap/swap.go\<close>); \<open>Pricing\<close>, \<open>PricingProps\<close>.
  \<^item> Scanners: \<open>SolanaAccounts\<close>, \<open>SolanaScan\<close>, \<open>SolanaProps\<close> (\<^verbatim>\<open>adapters/venues/solana/onchain\<close>); \<open>EvmRpc\<close> (\<^verbatim>\<open>evm/rpc\<close>, \<^verbatim>\<open>evm/multicall\<close>);
    \<open>EvmScan\<close>, \<open>EvmVenues\<close> (\<^verbatim>\<open>evm/uniswapv1\<close> to \<^verbatim>\<open>v3\<close>, \<^verbatim>\<open>evm/aerodrome\<close>); \<open>Scanning\<close> (\<^verbatim>\<open>app/poolscanner\<close>, \<^verbatim>\<open>app/worker\<close>,
    \<^verbatim>\<open>app/reconciliation\<close>, \<^verbatim>\<open>adapters/eventbus\<close>), \<open>ScanProps\<close>; \<open>ScannerContract\<close> (the interface of \<^verbatim>\<open>core/venue/scanner.go\<close> as the
    locale \<open>venue_scanner\<close>, with the Ethereum scanners as interpretations).
  \<^item> HTTP interface: \<open>OidcAuth\<close> (\<^verbatim>\<open>app/auth\<close>); \<open>RestAuth\<close>, \<open>RestServer\<close>, \<open>RestCallbacks\<close>, \<open>RestProps\<close> (\<^verbatim>\<open>interfaces/rest\<close>).
  \<^item> Putting it together: \<open>Defaults\<close> (\<^verbatim>\<open>config/defaults.go\<close>); \<open>GatewayClient\<close> (\<^verbatim>\<open>adapters/paymentgateway\<close>, \<^verbatim>\<open>config/gateway_assets.go\<close>,
    \<^verbatim>\<open>app/apiruntime\<close>); \<open>Delivery\<close> (\<^verbatim>\<open>adapters/eventstream\<close> with the locale \<open>message_bus\<close>,
    \<^verbatim>\<open>interfaces/rest/hub.go\<close>); \<open>Processes\<close> (\<^verbatim>\<open>runtime\<close>, \<^verbatim>\<open>bootstrap/v3_quoter.go\<close>).

  \<^bold>\<open>What is shown.\<close> The properties are numbered C1 to C40 in their theories.

  \<^item> The order book (C1 to C7): what a matching run does to taker, makers and trades; the book implements the list engine, run for the
    taker at its effective price, and keeps price-time priority, both also for a market sell that names no price; the book is never crossed and always well formed; a snapshot restores the book; a refused taker changes nothing.
  \<^item> The ledger (C8 to C11): in every reachable ledger the books balance (per asset, per reservation, and per account the
    pending column against deposits and open withdrawals and the locked column against the reservations); what settling a trade moves between
    the buyer and the seller; and two corners where the code does
    less than its callers expect.
  \<^item> Projections (C12 to C14, C22, C23): candles, price levels, active orders and statistics are those of the trades and orders they project,
    and the candle worker takes every trade after its offset once. The stored statistics are those of the latest 500 minute candles (C22).
  \<^item> Queues (C15, C16, C34): claims hand out every due row, a lock excludes other workers, the outbox loses nothing.
  \<^item> The order service (C17 to C21): matching ends; no operation on orders makes or loses money; the type of the orders built; a cancellation
    counts once; a deposit is credited once.
  \<^item> The matchers (C24 to C26): a logged command is not executed again; two ways in which a resident matcher fails to make progress.
  \<^item> Swaps and prices (C27 to C29): the output of a swap, the arguments of the router call of a swap transaction, the price of a pool in the
    direction of its tokens; migration (C30), scanners (C31 to C33).
  \<^item> The HTTP interface (C35 to C38): sessions are read back until they expire, a valid one confines its user; but a refused session or signature
    does not stop the handler, since the framework's answer is no error.
  \<^item> Configuration (C39, C40): the default registries fit together, the registry of the gateway is merged and valid.

  \<^bold>\<open>Bounds and fuels.\<close> Loops that are not structural carry a fuel that is shown, or chosen, to be enough. The matching loop of the
  service gets \<^const>\<open>match_fuel\<close>, one more than the number of active orders: every round that goes on makes the active orders fewer, so the
  loop ends with it and more changes nothing (C17). The replay of the match log gets one more than the length of the log and the recovery of commands one more than
  the length of the command log; the recovery may not end in the code, which C26 states as the fuel running out for every amount. Retries have
  the bounds of the code: three attempts of a migration, three for each client of a chain, five of Aerodrome. The counter of
  the client pool is a word; beyond \<open>2 ^ 63\<close> Go would read it as negative, which is left out. Endless loops (the workers, the
  listeners) are modelled by one pass, or by the sequence of what they receive.

  \<^bold>\<open>Not modelled.\<close> Opening connections, the schema statements and advisory lock of the migration, PostgreSQL's notifications except as
  a source of messages, tickers and waits, cancellation of contexts (apart from what ends a subscription or a service), log messages, the table
  of routes and the OpenAPI document, the processes of the web frontend, the main functions, and packages that hold only a comment.
  Transactions that overlap are not: two of them are run one after the other. Error values of the store are told apart as the code tells them
  apart, their texts are left out where no code reads them.
\<close>

end
